(* ===== verification/Prelude.thy ===== *)
theory Prelude
  imports Main "HOL-Library.List_Lexorder" "HOL-Library.Product_Lexorder"
begin

text \<open>
  Shared vocabulary of the development: Python strings as lists of code points, the
  outcomes of awaited calls (a value, an ordinary exception, or a cancellation),
  timestamps, checked construction with an error message, sorted duplicate-free tuples,
  and the instrumentation (\<open>traced\<close>, \<open>untraced\<close>) with which theorems count and order the
  calls a component makes to its dependencies.
\<close>

named_theorems code_defs \<open>definitions of the modelled code, unfolded in case analyses\<close>

section \<open>Strings and literals\<close>

text \<open>
  A Python \<open>str\<close> is a sequence of Unicode code points: \<open>len\<close> counts code points and
  \<open><\<close> compares them lexicographically, which is the order of HOL-Library.List_Lexorder.
\<close>

type_synonym pystr = "nat list"

definition lit :: "string \<Rightarrow> pystr" where
  "lit s = map of_char s"

lemma lit_inject [simp]: "lit s = lit t \<longleftrightarrow> s = t"
  by (simp add: lit_def inj_map_eq_map inj_def)

lemma lit_Nil [simp]: "lit [] = []"
  by (simp add: lit_def)

lemma lit_eq_Nil [simp]: "lit s = [] \<longleftrightarrow> s = []" "[] = lit s \<longleftrightarrow> s = []"
  by (simp_all add: lit_def)

lemma length_lit [simp]: "length (lit s) = length s"
  by (simp add: lit_def)

section \<open>Outcomes of awaited calls\<close>

text \<open>
  An awaited call returns a value or raises. \<open>except Exception\<close> catches \<open>Failed\<close>;
  \<open>asyncio.CancelledError\<close> is a \<open>BaseException\<close> and is not caught by it, so
  \<open>Cancelled\<close> leaves every handler of the source that does not name it.
\<close>

datatype exn = Cancelled | Failed

type_synonym 'a outcome = "exn + 'a"

text \<open>A validator raises \<open>ValueError\<close> with a message, or returns the validated value.\<close>

type_synonym 'a checked = "string + 'a"

abbreviation raise_if :: "bool \<Rightarrow> 'e \<Rightarrow> 'e + 'a \<Rightarrow> 'e + 'a" where
  "raise_if b e k \<equiv> (if b then Inl e else k)"

fun bindE :: "'e + 'a \<Rightarrow> ('a \<Rightarrow> 'e + 'b) \<Rightarrow> 'e + 'b" where
  "bindE (Inl e) f = Inl e"
| "bindE (Inr x) f = f x"

lemma bindE_Inr_iff: "bindE m f = Inr y \<longleftrightarrow> (\<exists>x. m = Inr x \<and> f x = Inr y)"
  by (cases m) auto

lemma bindE_Inl_iff: "bindE m f = Inl e \<longleftrightarrow> m = Inl e \<or> (\<exists>x. m = Inr x \<and> f x = Inl e)"
  by (cases m) auto

lemma bindE_InrE:
  "bindE m f = Inr y \<Longrightarrow> (\<And>x. m = Inr x \<Longrightarrow> f x = Inr y \<Longrightarrow> P) \<Longrightarrow> P"
  by (cases m) auto

lemma raise_if_InrE: "raise_if b e k = Inr y \<Longrightarrow> (\<not> b \<Longrightarrow> k = Inr y \<Longrightarrow> P) \<Longrightarrow> P"
  by (simp split: if_splits)

lemma raise_if_Inr_iff: "raise_if b e m = Inr y \<longleftrightarrow> \<not> b \<and> m = Inr y"
  by auto

lemma bindE_cong [fundef_cong]:
  "m = n \<Longrightarrow> (\<And>x. n = Inr x \<Longrightarrow> f x = g x) \<Longrightarrow> bindE m f = bindE n g"
  by (cases n) auto

fun map_checked :: "('a \<Rightarrow> 'e + 'b) \<Rightarrow> 'a list \<Rightarrow> 'e + 'b list" where
  "map_checked f [] = Inr []"
| "map_checked f (x # xs) = bindE (f x) (\<lambda>y. bindE (map_checked f xs) (\<lambda>ys. Inr (y # ys)))"

lemma map_checked_Inr_map:
  "(\<And>x. x \<in> set xs \<Longrightarrow> f x = Inr (g x)) \<Longrightarrow> map_checked f xs = Inr (map g xs)"
  by (induction xs) auto

lemma map_checked_InrD:
  "map_checked f xs = Inr ys \<Longrightarrow> list_all2 (\<lambda>x y. f x = Inr y) xs ys"
  by (induction xs arbitrary: ys) (auto simp: bindE_Inr_iff)

lemma map_checked_fixed:
  "map_checked f xs = Inr ys \<Longrightarrow> (\<forall>x \<in> set xs. \<forall>y. f x = Inr y \<longrightarrow> y = x \<and> p y)
     \<Longrightarrow> ys = xs \<and> list_all p ys"
proof (induction xs arbitrary: ys)
  case (Cons x xs)
  obtain y zs where s: "f x = Inr y" "map_checked f xs = Inr zs" "ys = y # zs"
    using Cons.prems(1) by (auto elim!: bindE_InrE)
  have "zs = xs \<and> list_all p zs" by (rule Cons.IH[OF s(2)]) (use Cons.prems(2) in simp)
  moreover have "y = x \<and> p y" using Cons.prems(2) s(1) by (meson list.set_intros(1))
  ultimately show ?case using s(3) by auto
qed simp

lemma map_checked_append:
  "map_checked f (xs @ ys) = bindE (map_checked f xs) (\<lambda>us. bindE (map_checked f ys) (\<lambda>vs. Inr (us @ vs)))"
proof (induction xs)
  case Nil
  show ?case by (cases "map_checked f ys") simp_all
next
  case (Cons x xs)
  show ?case by (cases "f x"; cases "map_checked f xs"; cases "map_checked f ys") (simp_all add: Cons.IH)
qed

lemma map_checked_map: "map_checked f (map g xs) = map_checked (f \<circ> g) xs"
  by (induction xs) simp_all

lemma map_checked_id: "(\<And>x. x \<in> set xs \<Longrightarrow> f x = Inr x) \<Longrightarrow> map_checked f xs = Inr xs"
  by (induction xs) auto

section \<open>Time\<close>

text \<open>
  A \<open>datetime\<close> is aware (it denotes an instant, in microseconds) or naive. Validated
  timestamp fields are instants; only the validators and the trusted clock see naive values.
\<close>

type_synonym instant = int

datatype py_datetime = Aware instant | Naive int

fun require_aware :: "string \<Rightarrow> py_datetime \<Rightarrow> instant checked" where
  "require_aware msg (Aware t) = Inr t"
| "require_aware msg (Naive _) = Inl msg"

section \<open>Sorted tuples without duplicates\<close>

definition unique_sorted :: "string \<Rightarrow> ('a::linorder) list \<Rightarrow> 'a list checked" where
  "unique_sorted msg xs = raise_if (\<not> distinct xs) msg (Inr (sort xs))"

lemma unique_sorted_Inr:
  "unique_sorted msg xs = Inr ys \<longleftrightarrow> distinct xs \<and> ys = sort xs"
  by (auto simp: unique_sorted_def)

lemma unique_sorted_idem: "sorted ys \<Longrightarrow> distinct ys \<Longrightarrow> unique_sorted msg ys = Inr ys"
  by (simp add: unique_sorted_def sorted_sort_id)

section \<open>Dictionaries built from a list, duplicates rejected\<close>

text \<open>
  The loop \<open>for x in xs: if key(x) in d: raise ValueError(...); d[key(x)] = x\<close>, with which
  the registry, the gateway and the routing tables build their read-only dictionaries.
\<close>

fun index_by :: "('a \<Rightarrow> 'k) \<Rightarrow> string \<Rightarrow> 'a list \<Rightarrow> ('k \<rightharpoonup> 'a) \<Rightarrow> ('k \<rightharpoonup> 'a) checked" where
  "index_by key msg [] m = Inr m"
| "index_by key msg (x # xs) m =
     raise_if (m (key x) \<noteq> None) msg (index_by key msg xs (m(key x \<mapsto> x)))"

lemma index_by_Inr:
  "index_by key msg xs m = Inr m' \<Longrightarrow>
     distinct (map key xs) \<and> (\<forall>x \<in> set xs. m (key x) = None)
       \<and> (\<forall>k x. m' k = Some x \<longleftrightarrow> m k = Some x \<or> x \<in> set xs \<and> key x = k)"
proof (induction xs arbitrary: m)
  case (Cons x xs)
  from Cons.prems have new: "m (key x) = None"
    and r: "index_by key msg xs (m(key x \<mapsto> x)) = Inr m'"
    by (auto elim: raise_if_InrE)
  note IH = Cons.IH[OF r]
  have fresh: "key y \<noteq> key x \<and> m (key y) = None" if "y \<in> set xs" for y
    using IH that by (metis fun_upd_apply option.distinct(1))
  have "m' k = Some y \<longleftrightarrow> m k = Some y \<or> y \<in> set (x # xs) \<and> key y = k" for k y
  proof -
    have "m' k = Some y \<longleftrightarrow> (m(key x \<mapsto> x)) k = Some y \<or> y \<in> set xs \<and> key y = k" using IH by blast
    then show ?thesis using new fresh by (auto simp: fun_upd_apply)
  qed
  moreover have "key x \<notin> key ` set xs" using fresh by (metis imageE)
  then have "distinct (map key (x # xs))" using IH by simp
  ultimately show ?case using new fresh by simp
qed simp

lemma index_by_exists:
  "distinct (map key xs) \<Longrightarrow> (\<forall>x \<in> set xs. m (key x) = None) \<Longrightarrow> \<exists>m'. index_by key msg xs m = Inr m'"
proof (induction xs arbitrary: m)
  case (Cons x xs)
  have "key y \<noteq> key x" if "y \<in> set xs" for y
    using Cons.prems(1) that by (metis distinct.simps(2) imageI list.map(2) list.set_map)
  then have "\<forall>y \<in> set xs. (m(key x \<mapsto> x)) (key y) = None" using Cons.prems(2) by simp
  then have "\<exists>m'. index_by key msg xs (m(key x \<mapsto> x)) = Inr m'"
    using Cons.prems(1) by (intro Cons.IH) auto
  then show ?case using Cons.prems(2) by (simp del: fun_upd_apply)
qed simp

lemma index_by_append:
  "index_by key msg (xs @ ys) m = bindE (index_by key msg xs m) (index_by key msg ys)"
  by (induction xs arbitrary: m) auto

lemma index_by_lookup:
  assumes "index_by key msg xs Map.empty = Inr m"
  shows "distinct (map key xs)" and "m k = Some x \<longleftrightarrow> x \<in> set xs \<and> key x = k"
  using index_by_Inr[OF assms] by auto

lemma distinct_key_unique:
  "distinct (map key xs) \<Longrightarrow> x \<in> set xs \<Longrightarrow> y \<in> set xs \<Longrightarrow> key x = key y \<Longrightarrow> x = y"
  by (auto simp: distinct_map inj_on_def)

section \<open>Observing the calls of a component\<close>

text \<open>
  A dependency is an operation on the outside world: \<open>'x \<Rightarrow> 'w \<Rightarrow> 'r \<times> 'w\<close>. To state how
  often and in which order a component calls it, the world is paired with a trace:
  \<open>traced\<close> appends the argument of every call, \<open>untraced\<close> leaves the trace alone.
\<close>

type_synonym ('x, 'w, 'r) op = "'x \<Rightarrow> 'w \<Rightarrow> 'r \<times> 'w"

definition traced :: "('x \<Rightarrow> 't) \<Rightarrow> ('x, 'w, 'r) op \<Rightarrow> ('x, 'w \<times> 't list, 'r) op" where
  "traced f oper x s = (let (r, w) = oper x (fst s) in (r, (w, snd s @ [f x])))"

definition untraced :: "('x, 'w, 'r) op \<Rightarrow> ('x, 'w \<times> 't list, 'r) op" where
  "untraced oper x s = (let (r, w) = oper x (fst s) in (r, (w, snd s)))"

lemma snd_traced [simp]: "snd (snd (traced f oper x s)) = snd s @ [f x]"
  by (simp add: traced_def split: prod.splits)

lemma snd_untraced [simp]: "snd (snd (untraced oper x s)) = snd s"
  by (simp add: untraced_def split: prod.splits)

lemma traced_eqD: "traced f oper x s = (r, s') \<Longrightarrow> snd s' = snd s @ [f x]"
  using snd_traced[of f oper x s] by simp

lemma untraced_eqD: "untraced oper x s = (r, s') \<Longrightarrow> snd s' = snd s"
  using snd_untraced[of oper x s] by simp

text \<open>The general form: a call leaves the entries \<open>f\<close> computes from its argument.\<close>

definition logged :: "('x \<Rightarrow> 't list) \<Rightarrow> ('x, 'w, 'r) op \<Rightarrow> ('x, 'w \<times> 't list, 'r) op" where
  "logged f oper x s = (let (r, w) = oper x (fst s) in (r, (w, snd s @ f x)))"

lemma snd_logged [simp]: "snd (snd (logged f oper x s)) = snd s @ f x"
  by (simp add: logged_def split: prod.splits)

lemma logged_eqD: "logged f oper x s = (r, s') \<Longrightarrow> snd s' = snd s @ f x"
  using snd_logged[of f oper x s] by simp

end
