(* ===== verification/PyText.thy ===== *)
theory PyText
  imports Prelude
begin

text \<open>
  Python text operations and the string patterns the contracts use: whitespace, \<open>strip\<close>
  and \<open>split\<close> on code points, the UTF-8 size of a string, and one executable predicate per
  regular expression of \<open>types.py\<close>, \<open>context/models.py\<close>, \<open>capabilities/models.py\<close>,
  \<open>knowledge/models.py\<close> and \<open>knowledge/ingestion/models.py\<close>.
\<close>

section \<open>Whitespace, strip and split\<close>

text \<open>The code points Python's \<open>str.isspace\<close>, \<open>str.strip\<close> and \<open>str.split\<close> call whitespace.\<close>

definition py_isspace :: "nat \<Rightarrow> bool" where
  "py_isspace c \<longleftrightarrow> 9 \<le> c \<and> c \<le> 13 \<or> 28 \<le> c \<and> c \<le> 32 \<or> c = 133 \<or> c = 160 \<or> c = 5760
     \<or> 8192 \<le> c \<and> c \<le> 8202 \<or> c = 8232 \<or> c = 8233 \<or> c = 8239 \<or> c = 8287 \<or> c = 12288"

definition py_rstrip :: "pystr \<Rightarrow> pystr" where
  "py_rstrip s = rev (dropWhile py_isspace (rev s))"

definition py_strip :: "pystr \<Rightarrow> pystr" where
  "py_strip s = py_rstrip (dropWhile py_isspace s)"

lemma py_rstrip_decomp: "\<exists>t. s = py_rstrip s @ t \<and> list_all py_isspace t"
proof -
  have "rev s = takeWhile py_isspace (rev s) @ dropWhile py_isspace (rev s)" by simp
  then have "s = rev (dropWhile py_isspace (rev s)) @ rev (takeWhile py_isspace (rev s))"
    by (metis rev_append rev_rev_ident)
  moreover have "list_all py_isspace (rev (takeWhile py_isspace (rev s)))"
    by (auto simp: list_all_iff dest: set_takeWhileD)
  ultimately show ?thesis unfolding py_rstrip_def by blast
qed

lemma py_strip_decomp:
  "\<exists>t u. s = t @ py_strip s @ u \<and> list_all py_isspace t \<and> list_all py_isspace u"
proof -
  obtain u where u: "dropWhile py_isspace s = py_strip s @ u" "list_all py_isspace u"
    using py_rstrip_decomp[of "dropWhile py_isspace s"] unfolding py_strip_def by blast
  have "s = takeWhile py_isspace s @ dropWhile py_isspace s" by simp
  with u have "s = takeWhile py_isspace s @ py_strip s @ u" by simp
  moreover have "list_all py_isspace (takeWhile py_isspace s)"
    by (auto simp: list_all_iff dest: set_takeWhileD)
  ultimately show ?thesis using u(2) by blast
qed

lemma py_rstrip_ends:
  "py_rstrip s = [] \<or> \<not> py_isspace (last (py_rstrip s))"
  unfolding py_rstrip_def
  by (cases "dropWhile py_isspace (rev s) = []") (auto simp: last_rev hd_dropWhile)

lemma py_strip_ends:
  "py_strip s = [] \<or> \<not> py_isspace (hd (py_strip s)) \<and> \<not> py_isspace (last (py_strip s))"
proof (cases "py_strip s = []")
  case False
  obtain u where u: "dropWhile py_isspace s = py_strip s @ u"
    using py_rstrip_decomp[of "dropWhile py_isspace s"] unfolding py_strip_def by blast
  with False have "hd (py_strip s) = hd (dropWhile py_isspace s)" by (metis hd_append2)
  moreover have "dropWhile py_isspace s \<noteq> []" using u False by auto
  ultimately have "\<not> py_isspace (hd (py_strip s))" by (simp add: hd_dropWhile)
  then show ?thesis using False py_rstrip_ends unfolding py_strip_def by blast
qed simp

lemma py_strip_id:
  assumes "s = [] \<or> \<not> py_isspace (hd s) \<and> \<not> py_isspace (last s)"
  shows "py_strip s = s"
proof (cases "s = []")
  case False
  with assms have "dropWhile py_isspace s = s" by (cases s) auto
  moreover have "dropWhile py_isspace (rev s) = rev s"
    using assms False by (cases "rev s") (auto simp: last_rev hd_rev[symmetric])
  ultimately show ?thesis by (simp add: py_strip_def py_rstrip_def)
qed (simp add: py_strip_def py_rstrip_def)

lemma py_strip_idem [simp]: "py_strip (py_strip s) = py_strip s"
  using py_strip_ends[of s] by (intro py_strip_id) auto

lemma py_strip_Nil_iff: "py_strip s = [] \<longleftrightarrow> list_all py_isspace s"
proof
  assume "py_strip s = []"
  then show "list_all py_isspace s" using py_strip_decomp[of s] by (auto simp: list_all_iff)
next
  assume all: "list_all py_isspace s"
  show "py_strip s = []"
  proof (rule ccontr)
    assume "py_strip s \<noteq> []"
    then have "\<not> py_isspace (hd (py_strip s))" "hd (py_strip s) \<in> set (py_strip s)"
      using py_strip_ends[of s] by auto
    moreover have "set (py_strip s) \<subseteq> set s"
      using py_strip_decomp[of s] by (metis Un_upper1 Un_upper2 set_append subset_trans)
    ultimately show False using all by (auto simp: list_all_iff)
  qed
qed

lemma set_py_strip: "set (py_strip s) \<subseteq> set s"
  using py_strip_decomp[of s] by (metis Un_upper1 Un_upper2 set_append subset_trans)

lemma length_py_strip: "length (py_strip s) \<le> length s"
  using py_strip_decomp[of s] by (metis le_add1 le_add2 length_append order_trans)

lemma py_strip_no_space: "list_all (\<lambda>c. \<not> py_isspace c) s \<Longrightarrow> py_strip s = s"
  by (rule py_strip_id) (auto simp: list_all_iff)

text \<open>\<open>str.split()\<close>: the maximal runs of code points that are not whitespace.\<close>

function py_split :: "pystr \<Rightarrow> pystr list" where
  "py_split s = (case dropWhile py_isspace s of
       [] \<Rightarrow> []
     | c # cs \<Rightarrow> takeWhile (\<lambda>d. \<not> py_isspace d) (c # cs)
                 # py_split (dropWhile (\<lambda>d. \<not> py_isspace d) (c # cs)))"
  by pat_completeness auto
termination
proof (relation "measure length", goal_cases)
  case (2 s c cs)
  then have "\<not> py_isspace c" by (metis hd_dropWhile list.distinct(1) list.sel(1))
  then have "length (dropWhile (\<lambda>d. \<not> py_isspace d) (c # cs)) \<le> length cs"
    by (simp add: length_dropWhile_le)
  moreover have "length (c # cs) \<le> length s" by (metis 2 length_dropWhile_le)
  ultimately show ?case by (simp add: less_le_trans)
qed simp

declare py_split.simps [simp del]

lemma py_split_words: "w \<in> set (py_split s) \<Longrightarrow> w \<noteq> [] \<and> list_all (\<lambda>c. \<not> py_isspace c) w"
proof (induction s rule: py_split.induct)
  case (1 s)
  show ?case
  proof (cases "dropWhile py_isspace s")
    case Nil
    then have "py_split s = []" by (subst py_split.simps) (simp only: Nil list.case)
    then show ?thesis using "1.prems" by simp
  next
    case (Cons c cs)
    let ?t = "takeWhile (\<lambda>d. \<not> py_isspace d) (c # cs)"
    have c: "\<not> py_isspace c" using Cons by (metis hd_dropWhile list.distinct(1) list.sel(1))
    have "py_split s = ?t # py_split (dropWhile (\<lambda>d. \<not> py_isspace d) (c # cs))"
      by (subst py_split.simps) (simp only: Cons list.case)
    with "1.prems" consider "w = ?t" | "w \<in> set (py_split (dropWhile (\<lambda>d. \<not> py_isspace d) (c # cs)))"
      by auto
    then show ?thesis
    proof cases
      case 1
      then show ?thesis using c by (auto simp: list_all_iff dest: set_takeWhileD)
    next
      case 2
      then show ?thesis by (rule "1.IH"[OF Cons])
    qed
  qed
qed

lemma py_split_Nil_iff: "py_split s = [] \<longleftrightarrow> list_all py_isspace s"
proof (cases "dropWhile py_isspace s")
  case Nil
  then have "py_split s = []" by (subst py_split.simps) (simp only: Nil list.case)
  then show ?thesis using Nil by (simp add: list_all_iff dropWhile_eq_Nil_conv)
next
  case (Cons c cs)
  then have "py_split s \<noteq> []" by (subst py_split.simps) simp
  moreover have "\<not> list_all py_isspace s"
    using Cons by (metis dropWhile_eq_Nil_conv list.distinct(1) list_all_iff)
  ultimately show ?thesis by simp
qed

section \<open>Splitting at a separator\<close>

fun split_on :: "nat \<Rightarrow> pystr \<Rightarrow> pystr list" where
  "split_on sep [] = [[]]"
| "split_on sep (c # cs) =
     (if c = sep then [] # split_on sep cs
      else (case split_on sep cs of [] \<Rightarrow> [[c]] | p # ps \<Rightarrow> (c # p) # ps))"

fun join_with :: "pystr \<Rightarrow> pystr list \<Rightarrow> pystr" where
  "join_with sep [] = []"
| "join_with sep [p] = p"
| "join_with sep (p # q # ps) = p @ sep @ join_with sep (q # ps)"

lemma split_on_nonempty [simp]: "split_on sep s \<noteq> []"
  by (induction s) (auto split: list.splits)

lemma join_Cons: "ps \<noteq> [] \<Longrightarrow> join_with sep (p # ps) = p @ sep @ join_with sep ps"
  by (cases ps) auto

lemma join_split: "join_with [sep] (split_on sep s) = s"
proof (induction s)
  case (Cons c cs)
  show ?case
  proof (cases "split_on sep cs")
    case Nil
    then show ?thesis by (simp add: split_on_nonempty[of sep cs, THEN notE])
  next
    case (Cons p ps)
    with Cons.IH show ?thesis by (cases ps) auto
  qed
qed simp

lemma split_on_no_sep: "sep \<notin> set p \<Longrightarrow> split_on sep p = [p]"
  by (induction p) auto

lemma split_on_append: "sep \<notin> set p \<Longrightarrow> split_on sep (p @ sep # s) = p # split_on sep s"
  by (induction p) auto

lemma split_join:
  "ps \<noteq> [] \<Longrightarrow> \<forall>p \<in> set ps. sep \<notin> set p \<Longrightarrow> split_on sep (join_with [sep] ps) = ps"
  by (induction ps rule: induct_list012) (auto simp: split_on_no_sep split_on_append)


section \<open>Sizes, prefixes and slices\<close>

text \<open>The number of bytes of \<open>s.encode("utf-8")\<close>, code point by code point.\<close>

definition utf8_width :: "nat \<Rightarrow> nat" where
  "utf8_width c = (if c < 128 then 1 else if c < 2048 then 2 else if c < 65536 then 3 else 4)"

definition utf8_size :: "pystr \<Rightarrow> nat" where
  "utf8_size s = sum_list (map utf8_width s)"

lemma utf8_size_Nil [simp]: "utf8_size [] = 0"
  and utf8_size_Cons [simp]: "utf8_size (c # s) = utf8_width c + utf8_size s"
  and utf8_size_append [simp]: "utf8_size (s @ t) = utf8_size s + utf8_size t"
  by (simp_all add: utf8_size_def)

lemma length_le_utf8_size: "length s \<le> utf8_size s"
  by (induction s) (auto simp: utf8_width_def)

lemma utf8_size_le: "utf8_size s \<le> 4 * length s"
  by (induction s) (auto simp: utf8_width_def)

text \<open>\<open>encode("utf-8")\<close> raises on a lone surrogate.\<close>

definition utf8_encodable :: "pystr \<Rightarrow> bool" where
  "utf8_encodable s \<longleftrightarrow> list_all (\<lambda>c. \<not> (55296 \<le> c \<and> c \<le> 57343)) s"

text \<open>\<open>s.startswith(p)\<close>, \<open>s[-n:]\<close> for a positive \<open>n\<close>, and \<open>s.find(c)\<close> for one code point.\<close>

fun starts_with :: "pystr \<Rightarrow> pystr \<Rightarrow> bool" where
  "starts_with s [] = True"
| "starts_with [] (p # ps) = False"
| "starts_with (c # s) (p # ps) = (c = p \<and> starts_with s ps)"

definition last_n :: "nat \<Rightarrow> 'a list \<Rightarrow> 'a list" where
  "last_n n xs = drop (length xs - n) xs"

fun find_char :: "nat \<Rightarrow> pystr \<Rightarrow> nat option" where
  "find_char c [] = None"
| "find_char c (d # s) = (if d = c then Some 0 else map_option Suc (find_char c s))"

lemma length_last_n: "length (last_n n xs) = min n (length xs)"
  by (auto simp: last_n_def)

section \<open>Patterns\<close>

definition is_lower :: "nat \<Rightarrow> bool" where "is_lower c \<longleftrightarrow> 97 \<le> c \<and> c \<le> 122"
definition is_alpha :: "nat \<Rightarrow> bool" where
  "is_alpha c \<longleftrightarrow> 65 \<le> c \<and> c \<le> 90 \<or> 97 \<le> c \<and> c \<le> 122"
definition is_digit :: "nat \<Rightarrow> bool" where "is_digit c \<longleftrightarrow> 48 \<le> c \<and> c \<le> 57"
definition is_code_char :: "nat \<Rightarrow> bool" where
  "is_code_char c \<longleftrightarrow> is_lower c \<or> is_digit c \<or> c = 95"
definition is_hex :: "nat \<Rightarrow> bool" where "is_hex c \<longleftrightarrow> is_digit c \<or> 97 \<le> c \<and> c \<le> 102"

text \<open>
  A pattern given to pydantic as a compiled \<open>re.Pattern\<close> is matched with Python's own engine,
  where \<open>$\<close> also accepts the position before one final newline. A pattern given as a string is
  matched by the Rust engine, and a \<open>fullmatch\<close> by Python: both accept the whole text only.
\<close>

definition re_dollar :: "(pystr \<Rightarrow> bool) \<Rightarrow> pystr \<Rightarrow> bool" where
  "re_dollar p s \<longleftrightarrow> p s \<or> s \<noteq> [] \<and> last s = 10 \<and> p (butlast s)"

text \<open>\<open>^[a-z][a-z0-9_]{0,63}$\<close>\<close>

definition is_code :: "pystr \<Rightarrow> bool" where
  "is_code s \<longleftrightarrow> s \<noteq> [] \<and> is_lower (hd s) \<and> length s \<le> 64 \<and> list_all is_code_char (tl s)"

text \<open>\<open>^[a-z][a-z0-9_]*(?:\.[a-z][a-z0-9_]*)*$\<close>: dot-separated segments.\<close>

definition is_segment :: "pystr \<Rightarrow> bool" where
  "is_segment s \<longleftrightarrow> s \<noteq> [] \<and> is_lower (hd s) \<and> list_all is_code_char (tl s)"

definition is_policy_code :: "pystr \<Rightarrow> bool" where
  "is_policy_code s \<longleftrightarrow> list_all is_segment (split_on 46 s)"

text \<open>\<open>^[^\s\x00-\x1f\x7f]+$\<close>, between 1 and 128 code points.\<close>

definition is_identifier :: "pystr \<Rightarrow> bool" where
  "is_identifier s \<longleftrightarrow> s \<noteq> [] \<and> length s \<le> 128
     \<and> list_all (\<lambda>c. \<not> py_isspace c \<and> 31 < c \<and> c \<noteq> 127) s"

text \<open>\<open>^(0|[1-9][0-9]*)\.(0|[1-9][0-9]*)\.(0|[1-9][0-9]*)$\<close>\<close>

definition is_canonical_number :: "pystr \<Rightarrow> bool" where
  "is_canonical_number s \<longleftrightarrow> s \<noteq> [] \<and> list_all is_digit s \<and> (hd s = 48 \<longrightarrow> tl s = [])"

definition is_semver :: "pystr \<Rightarrow> bool" where
  "is_semver s \<longleftrightarrow> length (split_on 46 s) = 3 \<and> list_all is_canonical_number (split_on 46 s)"

text \<open>\<open>^[A-Za-z]{2,3}(?:-[A-Za-z0-9]{2,8})*$\<close>\<close>

definition is_language_tag :: "pystr \<Rightarrow> bool" where
  "is_language_tag s \<longleftrightarrow>
     (case split_on 45 s of
        [] \<Rightarrow> False
      | p # ps \<Rightarrow> length p \<in> {2, 3} \<and> list_all is_alpha p
          \<and> list_all (\<lambda>q. 2 \<le> length q \<and> length q \<le> 8 \<and> list_all (\<lambda>c. is_alpha c \<or> is_digit c) q) ps)"

text \<open>\<open>LanguageCode\<close>: the tag pattern with a length between 2 and 35.\<close>

definition is_language_code :: "pystr \<Rightarrow> bool" where
  "is_language_code s \<longleftrightarrow> 2 \<le> length s \<and> length s \<le> 35 \<and> is_language_tag s"

text \<open>\<open>^[0-9a-f]{64}$\<close>\<close>

definition is_digest :: "pystr \<Rightarrow> bool" where
  "is_digest s \<longleftrightarrow> length s = 64 \<and> list_all is_hex s"

lemma code_char_not_space: "is_code_char c \<Longrightarrow> \<not> py_isspace c"
  by (auto simp: is_code_char_def is_lower_def is_digit_def py_isspace_def)

lemma is_code_no_space: "is_code s \<Longrightarrow> list_all (\<lambda>c. \<not> py_isspace c) s"
  by (cases s) (auto simp: is_code_def list_all_iff code_char_not_space is_code_char_def
      intro: code_char_not_space)

lemma is_code_strip [simp]: "is_code s \<Longrightarrow> py_strip s = s"
  by (simp add: is_code_no_space py_strip_no_space)

lemma is_identifier_strip [simp]: "is_identifier s \<Longrightarrow> py_strip s = s"
  by (rule py_strip_no_space) (auto simp: is_identifier_def list_all_iff)

section \<open>Bounded text\<close>

text \<open>A validator that calls \<open>str.strip\<close> before \<open>StringConstraints(min_length=lo, max_length=hi)\<close>, and the
  constraints alone.\<close>

definition stripped_text :: "nat \<Rightarrow> nat \<Rightarrow> pystr \<Rightarrow> pystr checked" where
  "stripped_text lo hi s = (let t = py_strip s in
     if lo \<le> length t \<and> length t \<le> hi then Inr t else Inl ''string_length'')"

definition plain_text :: "nat \<Rightarrow> nat \<Rightarrow> pystr \<Rightarrow> pystr checked" where
  "plain_text lo hi s = (if lo \<le> length s \<and> length s \<le> hi then Inr s else Inl ''string_length'')"

lemma stripped_text_Inr:
  "stripped_text lo hi s = Inr t \<longleftrightarrow> t = py_strip s \<and> lo \<le> length t \<and> length t \<le> hi"
  by (auto simp: stripped_text_def Let_def)

lemma stripped_text_idem: "stripped_text lo hi s = Inr t \<Longrightarrow> stripped_text lo hi t = Inr t"
  unfolding stripped_text_Inr by (metis py_strip_idem)

text \<open>\<open>StringConstraints(strip_whitespace=True, ...)\<close> trims the code points with the Unicode property
  \<open>White_Space\<close>: those of \<open>str.strip\<close> but for the separators U+001C to U+001F.\<close>

definition is_white_space :: "nat \<Rightarrow> bool" where
  "is_white_space c \<longleftrightarrow> py_isspace c \<and> \<not> (28 \<le> c \<and> c \<le> 31)"

definition unicode_trim :: "pystr \<Rightarrow> pystr" where
  "unicode_trim s = rev (dropWhile is_white_space (rev (dropWhile is_white_space s)))"

definition trimmed_text :: "nat \<Rightarrow> nat \<Rightarrow> pystr \<Rightarrow> pystr checked" where
  "trimmed_text lo hi s = (let t = unicode_trim s in
     if lo \<le> length t \<and> length t \<le> hi then Inr t else Inl ''string_length'')"

lemma unicode_trim_idem [simp]: "unicode_trim (unicode_trim s) = unicode_trim s"
proof -
  let ?W = is_white_space
  define a where "a = dropWhile ?W s"
  define t where "t = rev (dropWhile ?W (rev a))"
  have "a = rev (takeWhile ?W (rev a) @ dropWhile ?W (rev a))" by simp
  then have a: "a = t @ rev (takeWhile ?W (rev a))" unfolding t_def by (simp only: rev_append)
  have "dropWhile ?W t = t"
  proof (cases t)
    case (Cons c cs)
    then have "hd a = c" "a \<noteq> []" using a by (metis append_Cons list.sel(1), metis append_Cons list.distinct(1))
    then have "\<not> ?W c" using hd_dropWhile[of ?W s] unfolding a_def by metis
    then show ?thesis using Cons by simp
  qed simp
  moreover have "dropWhile ?W (rev t) = rev t"
    unfolding t_def rev_rev_ident by (rule dropWhile_idem)
  ultimately show ?thesis unfolding unicode_trim_def a_def[symmetric] t_def[symmetric] by simp
qed

lemma trimmed_text_Inr:
  "trimmed_text lo hi s = Inr t \<longleftrightarrow> t = unicode_trim s \<and> lo \<le> length t \<and> length t \<le> hi"
  by (auto simp: trimmed_text_def Let_def)

lemma trimmed_text_idem: "trimmed_text lo hi s = Inr t \<Longrightarrow> trimmed_text lo hi t = Inr t"
  unfolding trimmed_text_Inr by (metis unicode_trim_idem)

section \<open>Semantic versions\<close>

text \<open>\<open>int(s)\<close> on decimal digits, and the three components \<open>_semver\<close> compares.\<close>

definition digits_value :: "pystr \<Rightarrow> nat" where
  "digits_value s = foldl (\<lambda>n c. 10 * n + (c - 48)) 0 s"


definition py_int :: "pystr \<Rightarrow> nat checked" where
  "py_int s = (let t = py_strip s in
     if t \<noteq> [] \<and> list_all is_digit t then Inr (digits_value t) else Inl ''invalid literal for int()'')"

definition semver_components :: "pystr \<Rightarrow> (nat \<times> nat \<times> nat) checked" where
  "semver_components s =
     (case split_on 46 s of
        [a, b, c] \<Rightarrow> bindE (py_int a) (\<lambda>x. bindE (py_int b) (\<lambda>y. bindE (py_int c) (\<lambda>z. Inr (x, y, z))))
      | _ \<Rightarrow> Inl ''wrong number of values to unpack'')"

fun nat_digits :: "nat \<Rightarrow> pystr" where
  "nat_digits n = (if n < 10 then [48 + n] else nat_digits (n div 10) @ [48 + n mod 10])"

declare nat_digits.simps [simp del]

definition print_semver :: "nat \<times> nat \<times> nat \<Rightarrow> pystr" where
  "print_semver v = (case v of (a, b, c) \<Rightarrow>
     nat_digits a @ [46] @ nat_digits b @ [46] @ nat_digits c)"

lemma digits_value_snoc: "digits_value (s @ [c]) = 10 * digits_value s + (c - 48)"
  by (simp add: digits_value_def)

lemma digits_value_nat_digits [simp]: "digits_value (nat_digits n) = n"
proof (induction n rule: nat_digits.induct)
  case (1 n)
  show ?case
  proof (cases "n < 10")
    case True
    then show ?thesis by (simp add: nat_digits.simps[of n] digits_value_def)
  next
    case False
    then show ?thesis
      using "1.IH" by (simp add: nat_digits.simps[of n] digits_value_snoc)
  qed
qed

lemma nat_digits_shape: "nat_digits n \<noteq> [] \<and> list_all is_digit (nat_digits n)
    \<and> (0 < n \<longrightarrow> hd (nat_digits n) \<noteq> 48) \<and> (n = 0 \<longrightarrow> nat_digits n = [48])"
proof (induction n rule: nat_digits.induct)
  case (1 n)
  show ?case
  proof (cases "n < 10")
    case True
    then show ?thesis by (auto simp: nat_digits.simps[of n] nat_digits.simps[of 0] is_digit_def)
  next
    case False
    then have "0 < n div 10" by simp
    moreover have "n mod 10 < 10" by simp
    ultimately show ?thesis using "1.IH"[OF False] False
      by (auto simp: nat_digits.simps[of n] is_digit_def)
  qed
qed

lemma digit_not_space: "is_digit c \<Longrightarrow> \<not> py_isspace c"
  by (auto simp: is_digit_def py_isspace_def)

lemma py_int_nat_digits [simp]: "py_int (nat_digits n) = Inr n"
proof -
  have "list_all (\<lambda>c. \<not> py_isspace c) (nat_digits n)"
    using nat_digits_shape[of n] digit_not_space by (metis (mono_tags) list_all_iff)
  then have "py_strip (nat_digits n) = nat_digits n" by (rule py_strip_no_space)
  then show ?thesis using nat_digits_shape[of n] by (simp add: py_int_def)
qed

lemma nat_digits_no_dot: "46 \<notin> set (nat_digits n)"
  using nat_digits_shape[of n] by (auto simp: list_all_iff is_digit_def)

lemma split_print_semver:
  "split_on 46 (print_semver (a, b, c)) = [nat_digits a, nat_digits b, nat_digits c]"
  by (simp add: print_semver_def split_on_append split_on_no_sep nat_digits_no_dot)

lemma semver_components_print: "semver_components (print_semver v) = Inr v"
  by (cases v) (simp only: semver_components_def split_print_semver list.case
      py_int_nat_digits bindE.simps)

lemma is_canonical_nat_digits: "is_canonical_number (nat_digits n)"
  using nat_digits_shape[of n] by (cases "n = 0") (auto simp: is_canonical_number_def)

lemma is_semver_print: "is_semver (print_semver v)"
  by (cases v) (simp add: is_semver_def split_print_semver is_canonical_nat_digits)

lemma nat_digits_value: "is_canonical_number t \<Longrightarrow> nat_digits (digits_value t) = t"
proof (induction t rule: rev_induct)
  case (snoc c s)
  then have c: "48 \<le> c" "c \<le> 57" by (auto simp: is_canonical_number_def is_digit_def)
  show ?case
  proof (cases "s = []")
    case True
    then show ?thesis using c by (simp add: digits_value_def nat_digits.simps)
  next
    case False
    then have s: "is_canonical_number s" "hd s \<noteq> 48" using snoc.prems by (auto simp: is_canonical_number_def)
    then have eq: "nat_digits (digits_value s) = s" using snoc.IH by simp
    have "digits_value s \<noteq> 0"
    proof
      assume "digits_value s = 0"
      then have "s = [48]" using eq by (simp add: nat_digits.simps)
      then show False using s(2) by simp
    qed
    moreover obtain k where k: "c = 48 + k" "k < 10" using c by (intro that[of "c - 48"]) auto
    ultimately have "\<not> 10 * digits_value s + k < 10" "(10 * digits_value s + k) div 10 = digits_value s"
      "(10 * digits_value s + k) mod 10 = k" by auto
    then show ?thesis using k(1) eq unfolding digits_value_snoc by (subst nat_digits.simps) simp
  qed
qed (simp add: is_canonical_number_def)

lemma is_semver_printed: "is_semver s \<Longrightarrow> \<exists>v. s = print_semver v"
proof -
  assume s: "is_semver s"
  then obtain a b c where sp: "split_on 46 s = [a, b, c]" unfolding is_semver_def by (auto simp: length_Suc_conv numeral_3_eq_3)
  then have "is_canonical_number a" "is_canonical_number b" "is_canonical_number c" using s by (auto simp: is_semver_def)
  moreover have "s = a @ [46] @ b @ [46] @ c" using join_split[of 46 s] sp by simp
  ultimately have "s = print_semver (digits_value a, digits_value b, digits_value c)"
    by (simp add: print_semver_def nat_digits_value)
  then show ?thesis by blast
qed

text \<open>The version a text denotes: a final line break does not matter.\<close>

definition denotes_version :: "pystr \<Rightarrow> nat \<times> nat \<times> nat \<Rightarrow> bool" where
  "denotes_version s v \<longleftrightarrow> s = print_semver v \<or> s = print_semver v @ [10]"

lemma version_denoted: "re_dollar is_semver s \<Longrightarrow> \<exists>v. denotes_version s v"
  unfolding re_dollar_def denotes_version_def by (metis append_butlast_last_id is_semver_printed)

lemma denoted_components: "denotes_version s v \<Longrightarrow> semver_components s = Inr v"
proof -
  assume d: "denotes_version s v"
  obtain a b c where v: "v = (a, b, c)" by (cases v)
  have strip: "py_strip (nat_digits c @ [10]) = nat_digits c"
  proof -
    have n: "nat_digits c \<noteq> []" "list_all (\<lambda>c. \<not> py_isspace c) (nat_digits c)"
      using nat_digits_shape[of c] digit_not_space by (auto simp: list_all_iff)
    then have "dropWhile py_isspace (nat_digits c @ [10]) = nat_digits c @ [10]"
      by (cases "nat_digits c") auto
    moreover have "dropWhile py_isspace (rev (nat_digits c)) = rev (nat_digits c)"
      using n by (intro dropWhile_eq_self_iff[THEN iffD2]) (auto simp: list_all_iff hd_rev)
    ultimately show ?thesis by (simp add: py_strip_def py_rstrip_def py_isspace_def[of 10])
  qed
  then have "py_int (nat_digits c @ [10]) = Inr c" using nat_digits_shape[of c] by (simp add: py_int_def)
  moreover have "split_on 46 (print_semver v @ [10]) = [nat_digits a, nat_digits b, nat_digits c @ [10]]"
    unfolding v by (simp add: print_semver_def split_on_append split_on_no_sep nat_digits_no_dot)
  ultimately show ?thesis
    using d semver_components_print[of v] unfolding denotes_version_def by (auto simp: semver_components_def v)
qed

section \<open>UUIDs\<close>

text \<open>
  A UUID is its 128-bit integer, held as a natural number below \<open>2 ^ 128\<close>; \<open>hex\<close> is 32
  lower-case digits and \<open>str\<close> inserts hyphens after 8, 12, 16 and 20 of them.
\<close>

type_synonym uuid = nat

definition hex_digit :: "nat \<Rightarrow> nat" where
  "hex_digit d = (if d < 10 then 48 + d else 87 + d)"

fun hex_digits :: "nat \<Rightarrow> nat \<Rightarrow> pystr" where
  "hex_digits 0 n = []"
| "hex_digits (Suc k) n = hex_digits k (n div 16) @ [hex_digit (n mod 16)]"

definition uuid_hex :: "uuid \<Rightarrow> pystr" where
  "uuid_hex u = hex_digits 32 u"

definition uuid_str :: "uuid \<Rightarrow> pystr" where
  "uuid_str u = (let h = uuid_hex u in
     take 8 h @ [45] @ take 4 (drop 8 h) @ [45] @ take 4 (drop 12 h) @ [45]
       @ take 4 (drop 16 h) @ [45] @ drop 20 h)"

lemma length_hex_digits [simp]: "length (hex_digits k n) = k"
  by (induction k arbitrary: n) auto

lemma hex_digit_inject: "d < 16 \<Longrightarrow> e < 16 \<Longrightarrow> hex_digit d = hex_digit e \<longleftrightarrow> d = e"
  by (auto simp: hex_digit_def split: if_splits)

lemma hex_digits_inject:
  "m < 16 ^ k \<Longrightarrow> n < 16 ^ k \<Longrightarrow> hex_digits k m = hex_digits k n \<longleftrightarrow> m = n"
proof (induction k arbitrary: m n)
  case (Suc k)
  have "m div 16 < 16 ^ k" "n div 16 < 16 ^ k"
    using Suc.prems by (auto simp: less_mult_imp_div_less mult.commute)
  then have "hex_digits k (m div 16) = hex_digits k (n div 16) \<longleftrightarrow> m div 16 = n div 16"
    by (rule Suc.IH)
  then show ?case by (auto simp: hex_digit_inject) (metis div_mult_mod_eq)
qed simp

lemma uuid_hex_inject: "u < 2 ^ 128 \<Longrightarrow> v < 2 ^ 128 \<Longrightarrow> uuid_hex u = uuid_hex v \<longleftrightarrow> u = v"
  unfolding uuid_hex_def by (rule hex_digits_inject) auto

lemma hex_digits_no_hyphen: "c \<in> set (hex_digits k n) \<Longrightarrow> c \<noteq> 45"
  by (induction k arbitrary: n) (auto simp: hex_digit_def split: if_splits)

lemma filter_uuid_str: "filter (\<lambda>c. c \<noteq> 45) (uuid_str u) = uuid_hex u"
proof -
  let ?h = "uuid_hex u"
  have keep: "filter (\<lambda>c. c \<noteq> 45) s = s" if "set s \<subseteq> set ?h" for s
    using that hex_digits_no_hyphen by (auto simp: filter_id_conv uuid_hex_def)
  have "take 20 ?h = take 8 ?h @ take 4 (drop 8 ?h) @ take 4 (drop 12 ?h) @ take 4 (drop 16 ?h)"
    using take_add[of 16 4 ?h] take_add[of 12 4 ?h] take_add[of 8 4 ?h] by simp
  then have split: "take 8 ?h @ take 4 (drop 8 ?h) @ take 4 (drop 12 ?h) @ take 4 (drop 16 ?h)
      @ drop 20 ?h = ?h"
    using append_take_drop_id[of 20 ?h] by (simp only: append_assoc)
  have "filter (\<lambda>c. c \<noteq> 45) (uuid_str u)
      = take 8 ?h @ take 4 (drop 8 ?h) @ take 4 (drop 12 ?h) @ take 4 (drop 16 ?h) @ drop 20 ?h"
    by (simp add: uuid_str_def Let_def keep order_trans[OF set_take_subset set_drop_subset]
        set_take_subset set_drop_subset)
  then show ?thesis using split by simp
qed

lemma uuid_str_inject:
  "u < 2 ^ 128 \<Longrightarrow> v < 2 ^ 128 \<Longrightarrow> uuid_str u = uuid_str v \<longleftrightarrow> u = v"
  by (metis filter_uuid_str uuid_hex_inject)

text \<open>Hexadecimal texts of one width are ordered like the numbers they write.\<close>

lemma hex_digit_less: "d < 16 \<Longrightarrow> e < 16 \<Longrightarrow> hex_digit d < hex_digit e \<longleftrightarrow> d < e"
  by (simp add: hex_digit_def)

lemma list_less_append:
  fixes xs ys :: "nat list"
  assumes "length xs = length ys"
  shows "xs @ [a] < ys @ [b] \<longleftrightarrow> xs < ys \<or> xs = ys \<and> a < b"
  using assms by (induction xs ys rule: list_induct2) auto

lemma hex_digits_less:
  "m < 16 ^ k \<Longrightarrow> n < 16 ^ k \<Longrightarrow> hex_digits k m < hex_digits k n \<longleftrightarrow> m < n"
proof (induction k arbitrary: m n)
  case (Suc k)
  have b: "m div 16 < 16 ^ k" "n div 16 < 16 ^ k"
    using Suc.prems by (auto simp: less_mult_imp_div_less mult.commute)
  have "hex_digits (Suc k) m < hex_digits (Suc k) n
      \<longleftrightarrow> m div 16 < n div 16 \<or> m div 16 = n div 16 \<and> m mod 16 < n mod 16"
    by (simp add: list_less_append Suc.IH[OF b] hex_digits_inject[OF b] hex_digit_less)
  also have "\<dots> \<longleftrightarrow> m < n"
    using div_mult_mod_eq[of m 16] div_mult_mod_eq[of n 16] mod_less_divisor[of 16 m]
      mod_less_divisor[of 16 n] by linarith
  finally show ?case .
qed simp

lemma uuid_hex_less: "u < 2 ^ 128 \<Longrightarrow> v < 2 ^ 128 \<Longrightarrow> uuid_hex u < uuid_hex v \<longleftrightarrow> u < v"
  unfolding uuid_hex_def by (rule hex_digits_less) auto

end
