(* ===== verification/Context.thy ===== *)
theory Context
  imports PyText
begin

text \<open>
  The trusted request context (\<open>src/erp_ai/context/\<close>): the validators of
  \<open>TrustedRequestContext\<close>, the invariant every validated context satisfies, and the redacted
  audit projection. Python's \<open>str.lower\<close> and \<open>str.upper\<close> on non-ASCII text are the Unicode
  tables, and the IANA time-zone names are an installed database: all three are parameters.
\<close>

section \<open>Case mapping\<close>

definition lower_char :: "nat \<Rightarrow> nat" where
  "lower_char c = (if 65 \<le> c \<and> c \<le> 90 then c + 32 else c)"

definition upper_char :: "nat \<Rightarrow> nat" where
  "upper_char c = (if 97 \<le> c \<and> c \<le> 122 then c - 32 else c)"

definition ascii_lower :: "pystr \<Rightarrow> pystr" where
  "ascii_lower s = map lower_char s"

definition ascii_upper :: "pystr \<Rightarrow> pystr" where
  "ascii_upper s = map upper_char s"

text \<open>
  What the contracts rely on: ASCII text is mapped letter by letter, both mappings are
  idempotent, lower-casing stripped text yields stripped text, and neither produces a hyphen.
\<close>

definition case_mapping :: "(pystr \<Rightarrow> pystr) \<Rightarrow> (pystr \<Rightarrow> pystr) \<Rightarrow> bool" where
  "case_mapping lower upper \<longleftrightarrow>
     (\<forall>s. list_all (\<lambda>c. c < 128) s \<longrightarrow> lower s = ascii_lower s \<and> upper s = ascii_upper s)
   \<and> (\<forall>s. lower (lower s) = lower s) \<and> (\<forall>s. upper (upper s) = upper s)
   \<and> (\<forall>s. py_strip (lower (py_strip s)) = lower (py_strip s))
   \<and> (\<forall>s. 45 \<in> set (lower s) \<longrightarrow> 45 \<in> set s) \<and> (\<forall>s. 45 \<in> set (upper s) \<longrightarrow> 45 \<in> set s)"

section \<open>Field validators\<close>

definition validate_identifier :: "pystr \<Rightarrow> pystr checked" where
  "validate_identifier s = (let t = py_strip s in
     if is_identifier t then Inr t else Inl ''string_pattern_mismatch'')"

definition validate_code :: "(pystr \<Rightarrow> pystr) \<Rightarrow> pystr \<Rightarrow> pystr checked" where
  "validate_code lower s = (let t = lower (py_strip s) in
     if re_dollar is_code t then Inr t else Inl ''string_pattern_mismatch'')"

definition validate_policy_code :: "pystr \<Rightarrow> pystr checked" where
  "validate_policy_code s =
     (if re_dollar is_policy_code s then Inr s else Inl ''string_pattern_mismatch'')"

text \<open>
  The \<open>mode="before"\<close> validators of the collections: normalise the items, reject duplicates,
  sort; the items are then validated one by one.
\<close>

definition normalize_codes :: "(pystr \<Rightarrow> pystr) \<Rightarrow> pystr list \<Rightarrow> pystr list checked" where
  "normalize_codes lower xs =
     bindE (unique_sorted ''duplicate values are not allowed'' (map (\<lambda>s. lower (py_strip s)) xs))
       (map_checked (validate_code lower))"

definition normalize_permission_codes :: "pystr list \<Rightarrow> pystr list checked" where
  "normalize_permission_codes xs =
     bindE (unique_sorted ''duplicate values are not allowed'' xs) (map_checked validate_policy_code)"

definition normalize_identifiers :: "pystr list \<Rightarrow> pystr list checked" where
  "normalize_identifiers xs =
     bindE (unique_sorted ''duplicate values are not allowed'' (map py_strip xs))
       (map_checked validate_identifier)"

definition normalize_locale :: "(pystr \<Rightarrow> pystr) \<Rightarrow> (pystr \<Rightarrow> pystr) \<Rightarrow> pystr \<Rightarrow> pystr checked" where
  "normalize_locale lower upper s =
     (case split_on 45 (py_strip s) of
        [] \<Rightarrow> Inl ''unreachable: split never returns an empty list''
      | p # ps \<Rightarrow>
          (let t = join_with [45] (lower p # map upper ps)
           in if is_language_tag t then Inr t else Inl ''locale must be a valid language tag''))"

definition validate_timezone :: "(pystr \<Rightarrow> bool) \<Rightarrow> pystr \<Rightarrow> pystr checked" where
  "validate_timezone known s =
     (if known s then Inr s else Inl ''timezone must be a valid IANA timezone name'')"

definition min_length_1 :: "'a list \<Rightarrow> 'a list checked" where
  "min_length_1 xs = raise_if (xs = []) ''too_short'' (Inr xs)"

section \<open>The context\<close>

record trusted_context =
  context_version :: nat
  request_id :: pystr
  customer_environment_id :: pystr
  user_id :: pystr
  employee_id :: "pystr option"
  roles :: "pystr list"
  permission_codes :: "pystr list"
  legal_entity_ids :: "pystr list"
  enabled_modules :: "pystr list"
  ctx_locale :: pystr
  timezone :: pystr
  purpose :: pystr
  issued_at :: instant
  authorization_snapshot_id :: pystr

text \<open>The mapping a \<open>TrustedContextProvider\<close> loads, before validation.\<close>

record context_claims =
  cl_context_version :: nat
  cl_request_id :: pystr
  cl_customer_environment_id :: pystr
  cl_user_id :: pystr
  cl_employee_id :: "pystr option"
  cl_roles :: "pystr list"
  cl_permission_codes :: "pystr list"
  cl_legal_entity_ids :: "pystr list"
  cl_enabled_modules :: "pystr list"
  cl_locale :: pystr
  cl_timezone :: pystr
  cl_purpose :: pystr
  cl_issued_at :: py_datetime
  cl_authorization_snapshot_id :: pystr

fun optional_checked :: "('a \<Rightarrow> 'b checked) \<Rightarrow> 'a option \<Rightarrow> 'b option checked" where
  "optional_checked f None = Inr None"
| "optional_checked f (Some x) = bindE (f x) (\<lambda>y. Inr (Some y))"

text \<open>Validation in field order, and \<open>resolve_trusted_context\<close>.\<close>

definition validate_context ::
  "(pystr \<Rightarrow> pystr) \<Rightarrow> (pystr \<Rightarrow> pystr) \<Rightarrow> (pystr \<Rightarrow> bool) \<Rightarrow> context_claims \<Rightarrow> trusted_context checked"
where
  "validate_context lower upper known c =
     raise_if (cl_context_version c \<noteq> 1) ''literal_error''
       (bindE (validate_identifier (cl_request_id c)) (\<lambda>rid.
        bindE (validate_identifier (cl_customer_environment_id c)) (\<lambda>cust.
        bindE (validate_identifier (cl_user_id c)) (\<lambda>user.
        bindE (optional_checked validate_identifier (cl_employee_id c)) (\<lambda>emp.
        bindE (bindE (normalize_codes lower (cl_roles c)) min_length_1) (\<lambda>rs.
        bindE (normalize_permission_codes (cl_permission_codes c)) (\<lambda>perms.
        bindE (bindE (normalize_identifiers (cl_legal_entity_ids c)) min_length_1) (\<lambda>les.
        bindE (normalize_codes lower (cl_enabled_modules c)) (\<lambda>mods.
        bindE (normalize_locale lower upper (cl_locale c)) (\<lambda>loc.
        bindE (validate_timezone known (cl_timezone c)) (\<lambda>tz.
        bindE (validate_code lower (cl_purpose c)) (\<lambda>purp.
        bindE (require_aware ''issued_at must be timezone-aware'' (cl_issued_at c)) (\<lambda>iat.
        bindE (validate_identifier (cl_authorization_snapshot_id c)) (\<lambda>snap.
          Inr \<lparr>context_version = 1, request_id = rid, customer_environment_id = cust,
               user_id = user, employee_id = emp, roles = rs, permission_codes = perms,
               legal_entity_ids = les, enabled_modules = mods, ctx_locale = loc, timezone = tz,
               purpose = purp, issued_at = iat, authorization_snapshot_id = snap\<rparr>))))))))))))))"

definition resolve_trusted_context ::
  "(pystr \<Rightarrow> pystr) \<Rightarrow> (pystr \<Rightarrow> pystr) \<Rightarrow> (pystr \<Rightarrow> bool) \<Rightarrow> ('w \<Rightarrow> context_claims outcome \<times> 'w)
     \<Rightarrow> 'w \<Rightarrow> (exn + trusted_context checked) \<times> 'w"
where
  "resolve_trusted_context lower upper known load_context w =
     (case load_context w of
        (Inl e, w') \<Rightarrow> (Inl e, w')
      | (Inr c, w') \<Rightarrow> (Inr (validate_context lower upper known c), w'))"

text \<open>\<open>context.model_dump(mode="python")\<close>: the claims a validated context gives back.\<close>

definition dump_context :: "trusted_context \<Rightarrow> context_claims" where
  "dump_context c = \<lparr>cl_context_version = context_version c, cl_request_id = request_id c,
     cl_customer_environment_id = customer_environment_id c, cl_user_id = user_id c,
     cl_employee_id = employee_id c, cl_roles = roles c, cl_permission_codes = permission_codes c,
     cl_legal_entity_ids = legal_entity_ids c, cl_enabled_modules = enabled_modules c,
     cl_locale = ctx_locale c, cl_timezone = timezone c, cl_purpose = purpose c,
     cl_issued_at = Aware (issued_at c),
     cl_authorization_snapshot_id = authorization_snapshot_id c\<rparr>"

section \<open>The invariant of validated contexts\<close>

definition canonical_tuple :: "(pystr \<Rightarrow> bool) \<Rightarrow> pystr list \<Rightarrow> bool" where
  "canonical_tuple p xs \<longleftrightarrow> sorted xs \<and> distinct xs \<and> list_all p xs"

definition canonical_locale :: "pystr \<Rightarrow> bool" where
  "canonical_locale s \<longleftrightarrow> is_language_tag s \<and>
     (case split_on 45 s of [] \<Rightarrow> False
      | p # ps \<Rightarrow> ascii_lower p = p \<and> list_all (\<lambda>q. ascii_upper q = q) ps)"

definition wf_context :: "(pystr \<Rightarrow> bool) \<Rightarrow> trusted_context \<Rightarrow> bool" where
  "wf_context known c \<longleftrightarrow>
     context_version c = 1 \<and> is_identifier (request_id c)
   \<and> is_identifier (customer_environment_id c) \<and> is_identifier (user_id c)
   \<and> (case employee_id c of None \<Rightarrow> True | Some e \<Rightarrow> is_identifier e)
   \<and> roles c \<noteq> [] \<and> canonical_tuple is_code (roles c)
   \<and> canonical_tuple (re_dollar is_policy_code) (permission_codes c)
   \<and> legal_entity_ids c \<noteq> [] \<and> canonical_tuple is_identifier (legal_entity_ids c)
   \<and> canonical_tuple is_code (enabled_modules c)
   \<and> canonical_locale (ctx_locale c) \<and> known (timezone c)
   \<and> is_code (purpose c) \<and> is_identifier (authorization_snapshot_id c)"

lemma code_char_bounds:
  assumes "is_code_char c"
  shows "c < 128" and "\<not> (65 \<le> c \<and> c \<le> 90)"
  using assms unfolding is_code_char_def is_lower_def is_digit_def by linarith+

lemma lower_code_char: "is_lower c \<Longrightarrow> is_code_char c"
  by (simp add: is_code_char_def)

lemma code_chars:
  assumes "is_code s" and "c \<in> set s"
  shows "is_code_char c"
proof (cases s)
  case (Cons d ds)
  then show ?thesis using assms lower_code_char by (auto simp: is_code_def list_all_iff)
qed (use assms in simp)

lemma code_ascii: "is_code s \<Longrightarrow> list_all (\<lambda>c. c < 128) s"
  unfolding list_all_iff by (blast dest: code_chars code_char_bounds(1))

lemma ascii_lower_code: "is_code s \<Longrightarrow> ascii_lower s = s"
  unfolding ascii_lower_def by (rule map_idI) (simp add: lower_char_def code_chars code_char_bounds(2))

text \<open>The hypotheses one by one, so that proofs instantiate only what they use.\<close>

lemma case_mapping_laws:
  assumes cm: "case_mapping lower upper"
  shows lower_ascii: "list_all (\<lambda>c. c < 128) s \<Longrightarrow> lower s = ascii_lower s"
    and upper_ascii: "list_all (\<lambda>c. c < 128) s \<Longrightarrow> upper s = ascii_upper s"
    and lower_idem: "lower (lower s) = lower s"
    and upper_idem: "upper (upper s) = upper s"
    and strip_lower: "py_strip (lower (py_strip s)) = lower (py_strip s)"
    and lower_no_hyphen: "45 \<notin> set s \<Longrightarrow> 45 \<notin> set (lower s)"
    and upper_no_hyphen: "45 \<notin> set s \<Longrightarrow> 45 \<notin> set (upper s)"
  using cm unfolding case_mapping_def by blast+

lemma lower_code: "case_mapping lower upper \<Longrightarrow> is_code s \<Longrightarrow> lower s = s"
  by (simp add: lower_ascii code_ascii ascii_lower_code)

lemma strip_no_final_newline: "py_strip s = s \<Longrightarrow> s \<noteq> [] \<Longrightarrow> last s \<noteq> 10"
proof -
  have "py_isspace 10" by (simp add: py_isspace_def)
  then show "py_strip s = s \<Longrightarrow> s \<noteq> [] \<Longrightarrow> last s \<noteq> 10" using py_strip_ends[of s] by metis
qed

lemma validate_code_Inr:
  assumes "case_mapping lower upper" and "validate_code lower s = Inr t"
  shows "is_code t \<and> t = lower (py_strip s)"
proof -
  from assms(2) have t: "t = lower (py_strip s)" and m: "re_dollar is_code t"
    by (auto simp: validate_code_def Let_def split: if_splits)
  have "py_strip t = t" unfolding t by (rule strip_lower[OF assms(1)])
  then have "is_code t" using m strip_no_final_newline[of t] by (auto simp: re_dollar_def)
  with t show ?thesis by simp
qed

lemma validate_code_id: "case_mapping lower upper \<Longrightarrow> is_code s \<Longrightarrow> validate_code lower s = Inr s"
  by (simp add: validate_code_def lower_code re_dollar_def)

lemma validate_identifier_Inr: "validate_identifier s = Inr t \<Longrightarrow> is_identifier t"
  by (auto simp: validate_identifier_def Let_def split: if_splits)

lemma validate_identifier_id: "is_identifier s \<Longrightarrow> validate_identifier s = Inr s"
  by (simp add: validate_identifier_def)

lemma normalize_codes_Inr:
  assumes cm: "case_mapping lower upper" and ok: "normalize_codes lower xs = Inr ys"
  shows "canonical_tuple is_code ys \<and> ys = sort (map (\<lambda>s. lower (py_strip s)) xs)"
proof -
  from ok obtain zs where zs: "unique_sorted ''duplicate values are not allowed''
      (map (\<lambda>s. lower (py_strip s)) xs) = Inr zs" and ys: "map_checked (validate_code lower) zs = Inr
          ys"
    by (auto simp: normalize_codes_def bindE_Inr_iff)
  have z: "zs = sort (map (\<lambda>s. lower (py_strip s)) xs)" "distinct zs"
    using zs by (auto simp: unique_sorted_Inr)
  have fixed: "lower (py_strip z) = z" if "z \<in> set zs" for z
    using that z(1) by (auto simp: strip_lower[OF cm] lower_idem[OF cm])
  have "ys = zs \<and> list_all is_code ys"
    using ys by (rule map_checked_fixed) (use fixed validate_code_Inr[OF cm] in metis)
  with z show ?thesis unfolding canonical_tuple_def by (metis distinct_sort sorted_sort)
qed

lemma normalize_codes_id:
  assumes cm: "case_mapping lower upper" and can: "canonical_tuple is_code xs"
  shows "normalize_codes lower xs = Inr xs"
proof -
  have "map (\<lambda>s. lower (py_strip s)) xs = xs"
    by (rule map_idI) (use can lower_code[OF cm] in \<open>auto simp: canonical_tuple_def list_all_iff\<close>)
  moreover have "map_checked (validate_code lower) xs = Inr xs"
    by (rule map_checked_id) (use can validate_code_id[OF cm] in \<open>auto simp: canonical_tuple_def
        list_all_iff\<close>)
  ultimately show ?thesis using can
    by (simp add: normalize_codes_def unique_sorted_idem canonical_tuple_def)
qed

lemma normalize_permission_codes_Inr:
  assumes "normalize_permission_codes xs = Inr ys"
  shows "canonical_tuple (re_dollar is_policy_code) ys \<and> ys = sort xs"
proof -
  from assms have d: "distinct xs" and ys: "map_checked validate_policy_code (sort xs) = Inr ys"
    by (auto simp: normalize_permission_codes_def bindE_Inr_iff unique_sorted_Inr)
  have "ys = sort xs \<and> list_all (re_dollar is_policy_code) ys"
    using ys by (rule map_checked_fixed) (auto simp: validate_policy_code_def split: if_splits)
  with d show ?thesis unfolding canonical_tuple_def by (metis distinct_sort sorted_sort)
qed

lemma normalize_permission_codes_id:
  assumes "canonical_tuple (re_dollar is_policy_code) xs"
  shows "normalize_permission_codes xs = Inr xs"
proof -
  have "map_checked validate_policy_code xs = Inr xs"
    by (rule map_checked_id) (use assms in \<open>auto simp: canonical_tuple_def list_all_iff
        validate_policy_code_def\<close>)
  then show ?thesis using assms
    by (simp add: normalize_permission_codes_def unique_sorted_idem canonical_tuple_def)
qed

lemma normalize_identifiers_Inr:
  assumes "normalize_identifiers xs = Inr ys"
  shows "canonical_tuple is_identifier ys \<and> ys = sort (map py_strip xs)"
proof -
  from assms have d: "distinct (map py_strip xs)"
    and ys: "map_checked validate_identifier (sort (map py_strip xs)) = Inr ys"
    by (auto simp: normalize_identifiers_def bindE_Inr_iff unique_sorted_Inr)
  have "ys = sort (map py_strip xs) \<and> list_all is_identifier ys"
    using ys by (rule map_checked_fixed) (auto simp: validate_identifier_def Let_def split: if_splits)
  with d show ?thesis unfolding canonical_tuple_def by (metis distinct_sort sorted_sort)
qed

lemma normalize_identifiers_id:
  assumes "canonical_tuple is_identifier xs"
  shows "normalize_identifiers xs = Inr xs"
proof -
  have "map py_strip xs = xs"
    by (rule map_idI) (use assms in \<open>auto simp: canonical_tuple_def list_all_iff\<close>)
  moreover have "map_checked validate_identifier xs = Inr xs"
    by (rule map_checked_id) (use assms validate_identifier_id in \<open>auto simp: canonical_tuple_def
        list_all_iff\<close>)
  ultimately show ?thesis using assms
    by (simp add: normalize_identifiers_def unique_sorted_idem canonical_tuple_def)
qed

lemma set_split_on: "p \<in> set (split_on sep s) \<Longrightarrow> c \<in> set p \<Longrightarrow> c \<in> set s \<and> c \<noteq> sep"
proof (induction s arbitrary: p)
  case (Cons d ds)
  show ?case
  proof (cases "d = sep")
    case True
    then have "p \<in> set (split_on sep ds)" using Cons.prems by auto
    then show ?thesis using Cons.IH Cons.prems(2) by simp
  next
    case False
    obtain q qs where sp: "split_on sep ds = q # qs" by (cases "split_on sep ds") auto
    with False Cons.prems consider "p = d # q" | "p \<in> set qs" by auto
    then show ?thesis using Cons.IH[of q] Cons.IH[of p] Cons.prems(2) sp False by cases auto
  qed
qed auto

text \<open>A language tag is made of ASCII letters and digits with no whitespace.\<close>

lemma language_tag_parts:
  assumes "is_language_tag s" and "p \<in> set (split_on 45 s)" and "c \<in> set p"
  shows "is_alpha c \<or> is_digit c"
proof (cases "split_on 45 s")
  case (Cons q qs)
  then show ?thesis using assms by (auto simp: is_language_tag_def list_all_iff)
qed simp

lemma alnum_bounds: "is_alpha c \<or> is_digit c \<Longrightarrow> c < 128 \<and> \<not> py_isspace c"
  unfolding is_alpha_def is_digit_def py_isspace_def by linarith

lemma set_join: "c \<in> set (join_with sep ps) \<Longrightarrow> c \<in> set sep \<or> (\<exists>p \<in> set ps. c \<in> set p)"
  by (induction sep ps rule: join_with.induct) auto

lemma language_tag_strip: "is_language_tag s \<Longrightarrow> py_strip s = s"
proof (rule py_strip_no_space)
  assume tag: "is_language_tag s"
  have "\<not> py_isspace c" if "c \<in> set s" for c
  proof -
    have "c = 45 \<or> (\<exists>p \<in> set (split_on 45 s). c \<in> set p)"
      using set_join[of c "[45]" "split_on 45 s"] that by (auto simp: join_split)
    then show ?thesis using language_tag_parts[OF tag] alnum_bounds by (auto simp: py_isspace_def)
  qed
  then show "list_all (\<lambda>c. \<not> py_isspace c) s" by (simp add: list_all_iff)
qed

lemma language_tag_ascii:
  "is_language_tag s \<Longrightarrow> p \<in> set (split_on 45 s) \<Longrightarrow> list_all (\<lambda>c. c < 128) p"
  using language_tag_parts alnum_bounds by (auto simp: list_all_iff)

lemma normalize_locale_Inr:
  assumes cm: "case_mapping lower upper" and ok: "normalize_locale lower upper s = Inr t"
  shows "canonical_locale t"
proof -
  obtain p ps where sp: "split_on 45 (py_strip s) = p # ps"
    by (cases "split_on 45 (py_strip s)") auto
  let ?parts = "lower p # map upper ps"
  from ok sp have t: "t = join_with [45] ?parts" and tag: "is_language_tag t"
    by (auto simp: normalize_locale_def Let_def split: if_splits)
  have nosep: "45 \<notin> set q" if "q \<in> set (p # ps)" for q
    using set_split_on[of q 45 "py_strip s"] that sp by auto
  have "\<forall>q \<in> set ?parts. 45 \<notin> set q"
    using nosep lower_no_hyphen[OF cm] upper_no_hyphen[OF cm] by auto
  then have st: "split_on 45 t = ?parts" unfolding t by (intro split_join) auto
  have asc: "list_all (\<lambda>c. c < 128) q" if "q \<in> set ?parts" for q
    using language_tag_ascii[OF tag] that st by auto
  have "ascii_lower (lower p) = lower p"
    using lower_ascii[OF cm asc[of "lower p"]] lower_idem[OF cm, of p] by simp
  moreover have "ascii_upper (upper q) = upper q" if "q \<in> set ps" for q
    using upper_ascii[OF cm asc[of "upper q"]] upper_idem[OF cm, of q] that by simp
  ultimately show ?thesis using tag st by (simp add: canonical_locale_def list_all_iff)
qed

lemma normalize_locale_id:
  assumes cm: "case_mapping lower upper" and can: "canonical_locale s"
  shows "normalize_locale lower upper s = Inr s"
proof -
  have tag: "is_language_tag s" using can by (simp add: canonical_locale_def)
  obtain p ps where sp: "split_on 45 s = p # ps" by (cases "split_on 45 s") auto
  have asc: "list_all (\<lambda>c. c < 128) q" if "q \<in> set (p # ps)" for q
    using language_tag_ascii[OF tag] that sp by auto
  have fixed: "ascii_lower p = p" "\<forall>q \<in> set ps. ascii_upper q = q"
    using can sp by (simp_all add: canonical_locale_def list_all_iff)
  have "lower p = p" using lower_ascii[OF cm asc[of p]] fixed by simp
  moreover have "map upper ps = ps"
    by (rule map_idI) (use upper_ascii[OF cm asc] fixed in simp)
  ultimately show ?thesis using tag sp join_split[of 45 s]
    by (simp add: normalize_locale_def language_tag_strip)
qed

text \<open>Validation establishes the invariant, and accepts what it has produced unchanged.\<close>

lemma validate_context_fields:
  assumes "validate_context lower upper known d = Inr c"
  shows "context_version c = 1 \<and> validate_identifier (cl_request_id d) = Inr (request_id c)
    \<and> validate_identifier (cl_customer_environment_id d) = Inr (customer_environment_id c)
    \<and> validate_identifier (cl_user_id d) = Inr (user_id c)
    \<and> optional_checked validate_identifier (cl_employee_id d) = Inr (employee_id c)
    \<and> normalize_codes lower (cl_roles d) = Inr (roles c) \<and> roles c \<noteq> []
    \<and> normalize_permission_codes (cl_permission_codes d) = Inr (permission_codes c)
    \<and> normalize_identifiers (cl_legal_entity_ids d) = Inr (legal_entity_ids c)
    \<and> legal_entity_ids c \<noteq> [] \<and> normalize_codes lower (cl_enabled_modules d) = Inr (enabled_modules c)
    \<and> normalize_locale lower upper (cl_locale d) = Inr (ctx_locale c)
    \<and> validate_timezone known (cl_timezone d) = Inr (timezone c)
    \<and> validate_code lower (cl_purpose d) = Inr (purpose c)
    \<and> cl_issued_at d = Aware (issued_at c)
    \<and> validate_identifier (cl_authorization_snapshot_id d) = Inr (authorization_snapshot_id c)"
proof -
  have aware: "require_aware m t = Inr i \<longleftrightarrow> t = Aware i" for m t i by (cases t) auto
  have nonempty: "min_length_1 xs = Inr ys \<longleftrightarrow> xs \<noteq> [] \<and> ys = xs" for xs ys :: "pystr list"
    by (auto simp: min_length_1_def)
  show ?thesis using assms unfolding validate_context_def
    by (elim raise_if_InrE bindE_InrE) (simp only: aware nonempty sum.inject, elim conjE,
        hypsubst, simp)
qed

lemma validate_context_wf:
  assumes cm: "case_mapping lower upper" and ok: "validate_context lower upper known d = Inr c"
  shows "wf_context known c"
proof -
  note v = validate_context_fields[OF ok]
  have "case employee_id c of None \<Rightarrow> True | Some e \<Rightarrow> is_identifier e"
    using v by (cases "cl_employee_id d"; cases "employee_id c")
      (auto elim!: bindE_InrE dest: validate_identifier_Inr)
  moreover have "known (timezone c)"
    using v by (simp add: validate_timezone_def split: if_splits)
  ultimately show ?thesis unfolding wf_context_def
    using v validate_code_Inr[OF cm] normalize_codes_Inr[OF cm] normalize_locale_Inr[OF cm]
      validate_identifier_Inr normalize_permission_codes_Inr normalize_identifiers_Inr by metis
qed

lemma revalidate_context:
  assumes cm: "case_mapping lower upper" and wf: "wf_context known c"
  shows "validate_context lower upper known (dump_context c) = Inr c"
proof -
  have "optional_checked validate_identifier (employee_id c) = Inr (employee_id c)"
    using wf by (cases "employee_id c") (simp_all add: wf_context_def validate_identifier_id)
  then show ?thesis using wf
    by (simp add: wf_context_def validate_context_def dump_context_def validate_identifier_id
        normalize_codes_id[OF cm] normalize_permission_codes_id normalize_identifiers_id
        normalize_locale_id[OF cm] validate_code_id[OF cm] validate_timezone_def min_length_1_def)
qed

section \<open>The audit projection\<close>

text \<open>\<open>ContextAuditRecord\<close> keeps identity and counts, and drops every code and employee link.\<close>

record context_audit_record =
  car_context_version :: nat
  car_request_id :: pystr
  car_customer_environment_id :: pystr
  car_user_id :: pystr
  car_purpose :: pystr
  car_locale :: pystr
  car_timezone :: pystr
  car_issued_at :: instant
  car_authorization_snapshot_id :: pystr
  car_employee_linked :: bool
  car_role_count :: nat
  car_permission_count :: nat
  car_legal_entity_count :: nat
  car_enabled_module_count :: nat

definition to_audit_record :: "trusted_context \<Rightarrow> context_audit_record" where
  "to_audit_record c = \<lparr>car_context_version = context_version c, car_request_id = request_id c,
     car_customer_environment_id = customer_environment_id c, car_user_id = user_id c,
     car_purpose = purpose c, car_locale = ctx_locale c, car_timezone = timezone c,
     car_issued_at = issued_at c, car_authorization_snapshot_id = authorization_snapshot_id c,
     car_employee_linked = (employee_id c \<noteq> None), car_role_count = length (roles c),
     car_permission_count = length (permission_codes c),
     car_legal_entity_count = length (legal_entity_ids c),
     car_enabled_module_count = length (enabled_modules c)\<rparr>"

text \<open>Two contexts that differ only in their codes have the same record when the counts agree.\<close>

lemma to_audit_record_redacts:
  "to_audit_record (c\<lparr>roles := rs, permission_codes := ps, legal_entity_ids := les,
       enabled_modules := ms, employee_id := e\<rparr>)
   = (to_audit_record c)\<lparr>car_employee_linked := (e \<noteq> None), car_role_count := length rs,
       car_permission_count := length ps, car_legal_entity_count := length les,
       car_enabled_module_count := length ms\<rparr>"
  by (simp add: to_audit_record_def)


section \<open>A concrete context\<close>

text \<open>An employee asking for self service, with which the properties are exercised.\<close>

definition sample_context :: trusted_context where
  "sample_context = \<lparr>context_version = 1, request_id = lit ''req-1'',
     customer_environment_id = lit ''env-1'', user_id = lit ''user-1'',
     employee_id = Some (lit ''emp-1''), roles = [lit ''employee''],
     permission_codes = [lit ''hr.self.read''], legal_entity_ids = [lit ''le-1''],
     enabled_modules = [lit ''hr''], ctx_locale = lit ''en'', timezone = lit ''UTC'',
     purpose = lit ''self_service'', issued_at = 1000, authorization_snapshot_id = lit ''snap-1''\<rparr>"

lemma char_idem: "lower_char (lower_char c) = lower_char c" "upper_char (upper_char c) = upper_char c"
  unfolding lower_char_def upper_char_def by presburger+

lemma char_hyphen: "lower_char c = 45 \<Longrightarrow> c = 45" "upper_char c = 45 \<Longrightarrow> c = 45"
  unfolding lower_char_def upper_char_def by presburger+

lemma lower_space: "\<not> py_isspace c \<Longrightarrow> \<not> py_isspace (lower_char c)"
  by (cases "65 \<le> c \<and> c \<le> 90") (simp_all add: lower_char_def py_isspace_def)

lemma strip_ascii_lower: "py_strip (ascii_lower (py_strip s)) = ascii_lower (py_strip s)"
proof (rule py_strip_id)
  show "ascii_lower (py_strip s) = [] \<or> \<not> py_isspace (hd (ascii_lower (py_strip s)))
      \<and> \<not> py_isspace (last (ascii_lower (py_strip s)))"
  proof (cases "py_strip s = []")
    case False
    then have "\<not> py_isspace (lower_char (hd (py_strip s)))" "\<not> py_isspace (lower_char (last (py_strip
        s)))"
      using py_strip_ends[of s] lower_space by metis+
    then show ?thesis using False by (simp add: ascii_lower_def hd_map last_map)
  qed (simp add: ascii_lower_def)
qed

text \<open>The ASCII mapping satisfies the hypotheses on \<open>str.lower\<close> and \<open>str.upper\<close>.\<close>

lemma case_mapping_ascii: "case_mapping ascii_lower ascii_upper"
proof -
  have "45 \<in> set (ascii_lower s) \<longrightarrow> 45 \<in> set s" "45 \<in> set (ascii_upper s) \<longrightarrow> 45 \<in> set s" for s
    unfolding ascii_lower_def ascii_upper_def set_map using char_hyphen by (metis imageE)+
  moreover have "ascii_lower (ascii_lower s) = ascii_lower s" "ascii_upper (ascii_upper s) =
      ascii_upper s" for s
    by (simp_all add: ascii_lower_def ascii_upper_def char_idem)
  ultimately show ?thesis
    unfolding case_mapping_def using strip_ascii_lower by blast
qed

text \<open>The strings of the sample as code points, so that the validators can be evaluated on them.\<close>

lemmas sample_text = lit_def is_identifier_def is_code_def is_code_char_def is_lower_def is_digit_def
  py_isspace_def validate_identifier_id validate_code_def normalize_codes_def unique_sorted_def
  normalize_permission_codes_def validate_policy_code_def re_dollar_def is_policy_code_def
  is_segment_def normalize_identifiers_def normalize_locale_def is_language_tag_def is_alpha_def
  validate_timezone_def min_length_1_def ascii_lower_def lower_char_def py_strip_no_space

section \<open>Properties\<close>

text \<open>C36: Every validated request context satisfies the invariant (bounded printable identifiers,
  sorted duplicate-free code collections, non-empty roles and legal entities, a canonical locale, a
  known time zone), and validating the dump of a validated context returns it unchanged.\<close>

theorem context_validation_canonical:
  assumes "case_mapping lower upper" and "validate_context lower upper known d = Inr c"
  shows "wf_context known c \<and> validate_context lower upper known (dump_context c) = Inr c"
  using validate_context_wf[OF assms] revalidate_context[OF assms(1)] by blast

theorem context_validation_canonical_witness:
  "wf_context (\<lambda>z. z = lit ''UTC'') sample_context
    \<and> validate_context ascii_lower ascii_upper (\<lambda>z. z = lit ''UTC'') (dump_context sample_context)
       = Inr sample_context"
proof (rule context_validation_canonical[OF case_mapping_ascii])
  show "validate_context ascii_lower ascii_upper (\<lambda>z. z = lit ''UTC'') (dump_context sample_context)
       = Inr sample_context"
    by (simp add: validate_context_def dump_context_def sample_context_def sample_text)
qed

end
