(* ===== verification/Capabilities.thy ===== *)
theory Capabilities
  imports Context "HOL-Library.Multiset"
begin

text \<open>
  Capability declarations and authorization (\<open>src/erp_ai/capabilities/\<close>): tool descriptors and
  manifests with the validators of \<open>models.py\<close>, the immutable registry of \<open>registry.py\<close>, and
  \<open>evaluate_capability_access\<close> of \<open>access.py\<close>. Two locales state what the components above
  rely on: what a descriptor lookup returns, and that a filter splits the registered tools into
  the exposed and the denied ones.
\<close>

section \<open>Descriptors and manifests\<close>

datatype data_classification = PUBLIC | INTERNAL | RESTRICTED | HIGHLY_RESTRICTED

datatype tool_operation = ReadOp | CommandOp

record tool_descriptor =
  tool_name :: pystr
  tool_version :: pystr
  operation :: tool_operation
  required_permissions_all :: "pystr list"
  required_roles_any :: "pystr list"
  allowed_purposes :: "pystr list"
  data_classification :: data_classification
  audit_action :: pystr
  requires_employee_context :: bool

record capability_manifest =
  capability_code :: pystr
  capability_version :: pystr
  required_modules :: "pystr list"
  tools :: "tool_descriptor list"

text \<open>Raw descriptor and manifest data, before validation.\<close>

record descriptor_data =
  dd_tool_name :: pystr
  dd_version :: pystr
  dd_operation :: tool_operation
  dd_required_permissions_all :: "pystr list"
  dd_required_roles_any :: "pystr list"
  dd_allowed_purposes :: "pystr list"
  dd_data_classification :: pystr
  dd_audit_action :: pystr
  dd_requires_employee_context :: bool

definition validate_version :: "pystr \<Rightarrow> pystr checked" where
  "validate_version s = (let t = py_strip s in
     if re_dollar is_semver t then Inr t else Inl ''string_pattern_mismatch'')"

definition normalize_data_classification ::
  "(pystr \<Rightarrow> pystr) \<Rightarrow> pystr \<Rightarrow> data_classification checked" where
  "normalize_data_classification lower s = (let t = lower (py_strip s) in
     if t = lit ''public'' then Inr PUBLIC
     else if t = lit ''internal'' then Inr INTERNAL
     else if t = lit ''restricted'' then Inr RESTRICTED
     else if t = lit ''highly_restricted'' then Inr HIGHLY_RESTRICTED
     else Inl ''invalid data classification'')"

definition validate_descriptor ::
  "(pystr \<Rightarrow> pystr) \<Rightarrow> descriptor_data \<Rightarrow> tool_descriptor checked" where
  "validate_descriptor lower d =
     bindE (validate_code lower (dd_tool_name d)) (\<lambda>name.
     bindE (validate_version (dd_version d)) (\<lambda>ver.
     bindE (normalize_permission_codes (dd_required_permissions_all d)) (\<lambda>perms.
     bindE (normalize_codes lower (dd_required_roles_any d)) (\<lambda>rs.
     bindE (bindE (normalize_codes lower (dd_allowed_purposes d)) min_length_1) (\<lambda>ps.
     bindE (normalize_data_classification lower (dd_data_classification d)) (\<lambda>cls.
     bindE (validate_policy_code (dd_audit_action d)) (\<lambda>act.
       Inr \<lparr>tool_name = name, tool_version = ver, operation = dd_operation d,
            required_permissions_all = perms, required_roles_any = rs, allowed_purposes = ps,
            data_classification = cls, audit_action = act,
            requires_employee_context = dd_requires_employee_context d\<rparr>)))))))"

definition validate_and_order_tools :: "tool_descriptor list \<Rightarrow> tool_descriptor list checked" where
  "validate_and_order_tools ts =
     raise_if (\<not> distinct (map tool_name ts)) ''duplicate tool names are not allowed''
       (Inr (sort_key tool_name ts))"

definition validate_manifest ::
  "(pystr \<Rightarrow> pystr) \<Rightarrow> pystr \<Rightarrow> pystr \<Rightarrow> pystr list \<Rightarrow> tool_descriptor list
     \<Rightarrow> capability_manifest checked" where
  "validate_manifest lower code ver modules ts =
     bindE (validate_code lower code) (\<lambda>c.
     bindE (validate_version ver) (\<lambda>v.
     bindE (bindE (normalize_codes lower modules) min_length_1) (\<lambda>ms.
     bindE (validate_and_order_tools ts) (\<lambda>us.
       Inr \<lparr>capability_code = c, capability_version = v, required_modules = ms, tools = us\<rparr>))))"

definition wf_descriptor :: "tool_descriptor \<Rightarrow> bool" where
  "wf_descriptor d \<longleftrightarrow> is_code (tool_name d) \<and> is_semver (tool_version d)
   \<and> canonical_tuple (re_dollar is_policy_code) (required_permissions_all d)
   \<and> canonical_tuple is_code (required_roles_any d)
   \<and> allowed_purposes d \<noteq> [] \<and> canonical_tuple is_code (allowed_purposes d)
   \<and> re_dollar is_policy_code (audit_action d)"

definition wf_manifest :: "capability_manifest \<Rightarrow> bool" where
  "wf_manifest m \<longleftrightarrow> is_code (capability_code m) \<and> is_semver (capability_version m)
   \<and> required_modules m \<noteq> [] \<and> canonical_tuple is_code (required_modules m)
   \<and> distinct (map tool_name (tools m)) \<and> sorted (map tool_name (tools m))
   \<and> list_all wf_descriptor (tools m)"

section \<open>The registry\<close>

record registry =
  manifests :: "capability_manifest list"
  by_code :: "pystr \<rightharpoonup> capability_manifest"
  tools_by_name :: "pystr \<rightharpoonup> tool_descriptor"

fun register_manifests ::
  "capability_manifest list \<Rightarrow> (pystr \<rightharpoonup> capability_manifest) \<Rightarrow> (pystr \<rightharpoonup> tool_descriptor)
     \<Rightarrow> ((pystr \<rightharpoonup> capability_manifest) \<times> (pystr \<rightharpoonup> tool_descriptor)) checked" where
  "register_manifests [] codes names = Inr (codes, names)"
| "register_manifests (m # ms) codes names =
     raise_if (codes (capability_code m) \<noteq> None) ''duplicate capability code''
       (bindE (index_by tool_name ''duplicate tool name'' (tools m) names) (\<lambda>names'.
          register_manifests ms (codes(capability_code m \<mapsto> m)) names'))"

definition make_registry :: "capability_manifest list \<Rightarrow> registry checked" where
  "make_registry entries =
     (let ordered = sort_key capability_code entries in
      bindE (register_manifests ordered Map.empty Map.empty) (\<lambda>(codes, names).
        Inr \<lparr>manifests = ordered, by_code = codes, tools_by_name = names\<rparr>))"

definition registry_get :: "registry \<Rightarrow> pystr \<Rightarrow> capability_manifest option" where
  "registry_get r code = by_code r code"

definition registry_tools :: "registry \<Rightarrow> tool_descriptor list" where
  "registry_tools r = concat (map tools (manifests r))"

section \<open>Access decisions\<close>

datatype denial_reason =
    required_module_disabled
  | required_permission_missing
  | required_role_missing
  | purpose_not_allowed
  | employee_context_required
  | command_disabled_read_only

record model_tool =
  mt_tool_name :: pystr
  mt_version :: pystr
  mt_operation :: tool_operation

record model_capability =
  mc_capability_code :: pystr
  mc_version :: pystr
  mc_tools :: "model_tool list"

record access_denial =
  ad_capability_code :: pystr
  ad_tool_name :: "pystr option"
  ad_reason :: denial_reason

record access_decision =
  model_capabilities :: "model_capability list"
  denials :: "access_denial list"

definition model_tool_of :: "tool_descriptor \<Rightarrow> model_tool" where
  "model_tool_of t = \<lparr>mt_tool_name = tool_name t, mt_version = tool_version t,
     mt_operation = operation t\<rparr>"

text \<open>The checks on one tool, in the order of the source: the first that fails is the reason.\<close>

definition tool_denial ::
  "bool \<Rightarrow> trusted_context \<Rightarrow> tool_descriptor \<Rightarrow> denial_reason option" where
  "tool_denial read_only_mode c t =
     (if read_only_mode \<and> operation t = CommandOp then Some command_disabled_read_only
      else if requires_employee_context t \<and> employee_id c = None then Some employee_context_required
      else if \<not> set (required_permissions_all t) \<subseteq> set (permission_codes c)
        then Some required_permission_missing
      else if required_roles_any t \<noteq> [] \<and> set (roles c) \<inter> set (required_roles_any t) = {}
        then Some required_role_missing
      else if purpose c \<notin> set (allowed_purposes t) then Some purpose_not_allowed
      else None)"

fun filter_tools ::
  "bool \<Rightarrow> trusted_context \<Rightarrow> pystr \<Rightarrow> tool_descriptor list \<Rightarrow> model_tool list \<times> access_denial list"
where
  "filter_tools read_only_mode c code [] = ([], [])"
| "filter_tools read_only_mode c code (t # ts) =
     (let (mts, ds) = filter_tools read_only_mode c code ts in
      case tool_denial read_only_mode c t of
        None \<Rightarrow> (model_tool_of t # mts, ds)
      | Some reason \<Rightarrow>
          (mts, \<lparr>ad_capability_code = code, ad_tool_name = Some (tool_name t), ad_reason =
              reason\<rparr> # ds))"

definition modules_enabled :: "trusted_context \<Rightarrow> capability_manifest \<Rightarrow> bool" where
  "modules_enabled c m \<longleftrightarrow> set (required_modules m) \<subseteq> set (enabled_modules c)"

fun filter_manifests ::
  "bool \<Rightarrow> trusted_context \<Rightarrow> capability_manifest list \<Rightarrow> access_decision" where
  "filter_manifests read_only_mode c [] = \<lparr>model_capabilities = [], denials = []\<rparr>"
| "filter_manifests read_only_mode c (m # ms) =
     (let rest = filter_manifests read_only_mode c ms in
      if \<not> modules_enabled c m then
        rest\<lparr>denials := \<lparr>ad_capability_code = capability_code m, ad_tool_name = None,
                         ad_reason = required_module_disabled\<rparr> # denials rest\<rparr>
      else
        (let (mts, ds) = filter_tools read_only_mode c (capability_code m) (tools m) in
         \<lparr>model_capabilities = \<lparr>mc_capability_code = capability_code m,
              mc_version = capability_version m, mc_tools = mts\<rparr> # model_capabilities rest,
          denials = ds @ denials rest\<rparr>))"

definition evaluate_capability_access ::
  "registry \<Rightarrow> trusted_context \<Rightarrow> bool \<Rightarrow> access_decision" where
  "evaluate_capability_access r c read_only_mode =
     filter_manifests read_only_mode c (manifests r)"

definition decision_tools :: "access_decision \<Rightarrow> model_tool list" where
  "decision_tools d = concat (map mc_tools (model_capabilities d))"


section \<open>Validated declarations\<close>

lemma re_dollar_strip: "py_strip t = t \<Longrightarrow> p [] = False \<Longrightarrow> re_dollar p t \<Longrightarrow> p t"
  using strip_no_final_newline[of t] by (auto simp: re_dollar_def)

lemma validate_version_Inr: "validate_version s = Inr v \<Longrightarrow> is_semver v"
  using re_dollar_strip[of "py_strip s" is_semver]
  by (auto simp: validate_version_def Let_def split: if_splits) (simp_all add: is_semver_def)

lemma validate_descriptor_wf:
  assumes cm: "case_mapping lower upper" and ok: "validate_descriptor lower d = Inr t"
  shows "wf_descriptor t"
  using ok unfolding validate_descriptor_def
  by (elim bindE_InrE raise_if_InrE)
    (auto simp: wf_descriptor_def min_length_1_def validate_policy_code_def split: if_splits
      dest: validate_code_Inr[OF cm] normalize_codes_Inr[OF cm] normalize_permission_codes_Inr
        validate_version_Inr)

lemma validate_manifest_wf:
  assumes cm: "case_mapping lower upper" and ok: "validate_manifest lower code ver ms ts = Inr m"
    and ts: "list_all wf_descriptor ts"
  shows "wf_manifest m"
  using ok unfolding validate_manifest_def
  by (elim bindE_InrE raise_if_InrE)
    (use ts in \<open>auto simp: wf_manifest_def min_length_1_def validate_and_order_tools_def distinct_map
      list_all_iff split: if_splits dest: validate_code_Inr[OF cm] normalize_codes_Inr[OF cm]
        validate_version_Inr\<close>)

section \<open>Building the registry\<close>

lemma register_manifests_Inr:
  "register_manifests ms codes names = Inr (codes', names') \<longleftrightarrow>
     index_by capability_code ''duplicate capability code'' ms codes = Inr codes'
   \<and> index_by tool_name ''duplicate tool name'' (concat (map tools ms)) names = Inr names'"
  by (induction ms arbitrary: codes names) (auto simp: index_by_append bindE_Inr_iff split: if_splits)

lemma make_registry_Inr:
  "make_registry entries = Inr r \<longleftrightarrow>
     (\<exists>codes names. r = \<lparr>manifests = sort_key capability_code entries, by_code = codes, tools_by_name =
         names\<rparr>
       \<and> index_by capability_code ''duplicate capability code'' (sort_key capability_code entries)
           Map.empty = Inr codes
       \<and> index_by tool_name ''duplicate tool name''
           (concat (map tools (sort_key capability_code entries))) Map.empty = Inr names)"
  by (auto simp: make_registry_def Let_def bindE_Inr_iff register_manifests_Inr)

definition wf_registry :: "registry \<Rightarrow> bool" where
  "wf_registry r \<longleftrightarrow> sorted (map capability_code (manifests r))
   \<and> distinct (map capability_code (manifests r)) \<and> distinct (map tool_name (registry_tools r))
   \<and> (\<forall>k m. by_code r k = Some m \<longleftrightarrow> m \<in> set (manifests r) \<and> capability_code m = k)
   \<and> (\<forall>k t. tools_by_name r k = Some t \<longleftrightarrow> t \<in> set (registry_tools r) \<and> tool_name t = k)"

lemma make_registry_wf: "make_registry entries = Inr r \<Longrightarrow> wf_registry r"
  unfolding make_registry_Inr wf_registry_def registry_tools_def
  by (elim exE conjE) (simp add: index_by_lookup)

lemma make_registry_manifests: "make_registry entries = Inr r \<Longrightarrow> mset (manifests r) = mset entries"
  by (auto simp: make_registry_Inr)

text \<open>Construction succeeds exactly when no code and no tool name is declared twice.\<close>

lemma make_registry_succeeds_iff:
  "(\<exists>r. make_registry entries = Inr r) \<longleftrightarrow>
     distinct (map capability_code entries) \<and> distinct (map tool_name (concat (map tools entries)))"
proof -
  let ?s = "sort_key capability_code entries"
  have perm: "mset ?s = mset entries" by simp
  have "mset (map capability_code ?s) = mset (map capability_code entries)" by simp
  then have codes: "distinct (map capability_code ?s) \<longleftrightarrow> distinct (map capability_code entries)"
    by (metis mset_eq_imp_distinct_iff)
  have "sum_list (map (mset \<circ> tools) ?s) = sum_list (map (mset \<circ> tools) entries)"
    using perm by (metis mset_map sum_mset_sum_list)
  then have "mset (concat (map tools ?s)) = mset (concat (map tools entries))"
    by (simp add: mset_concat)
  then have names: "distinct (map tool_name (concat (map tools ?s)))
      \<longleftrightarrow> distinct (map tool_name (concat (map tools entries)))"
    by (metis mset_eq_imp_distinct_iff mset_map)
  have "(\<exists>r. make_registry entries = Inr r) \<longleftrightarrow>
     (\<exists>codes. index_by capability_code ''duplicate capability code'' ?s Map.empty = Inr codes)
   \<and> (\<exists>names. index_by tool_name ''duplicate tool name'' (concat (map tools ?s)) Map.empty = Inr names)"
    unfolding make_registry_Inr by blast
  also have "\<dots> \<longleftrightarrow> distinct (map capability_code ?s) \<and> distinct (map tool_name (concat (map tools ?s)))"
    using index_by_lookup(1) index_by_exists[where m = Map.empty] by (metis (no_types))
  finally show ?thesis using codes names by simp
qed

section \<open>The lookup contract\<close>

text \<open>
  What the gateway relies on when it looks a descriptor up by name. The registry's own
  dictionary satisfies it here; the gateway's comprehension does in its theory.
\<close>

locale descriptor_lookup =
  fixes valid :: "'r \<Rightarrow> bool"
    and lookup :: "'r \<Rightarrow> pystr \<Rightarrow> tool_descriptor option"
    and catalog :: "'r \<Rightarrow> tool_descriptor list"
  assumes names_distinct: "valid r \<Longrightarrow> distinct (map tool_name (catalog r))"
    and lookup_iff: "valid r \<Longrightarrow> lookup r k = Some t \<longleftrightarrow> t \<in> set (catalog r) \<and> tool_name t = k"
begin

lemma lookup_name: "valid r \<Longrightarrow> lookup r k = Some t \<Longrightarrow> tool_name t = k"
  by (simp add: lookup_iff)

lemma lookup_registered: "valid r \<Longrightarrow> t \<in> set (catalog r) \<Longrightarrow> lookup r (tool_name t) = Some t"
  by (simp add: lookup_iff)

lemma lookup_None_iff: "valid r \<Longrightarrow> lookup r k = None \<longleftrightarrow> k \<notin> tool_name ` set (catalog r)"
  using lookup_iff[of r k] by (cases "lookup r k") (auto, metis imageI)

lemma same_name: "valid r \<Longrightarrow> t \<in> set (catalog r) \<Longrightarrow> u \<in> set (catalog r) \<Longrightarrow> tool_name t = tool_name u
    \<Longrightarrow> t = u"
  using lookup_iff[of r "tool_name t"] by (metis option.inject)

end

interpretation registry_lookup: descriptor_lookup wf_registry tools_by_name registry_tools
  by unfold_locales (auto simp: wf_registry_def)

section \<open>What a decision exposes\<close>

definition tool_authorized :: "bool \<Rightarrow> trusted_context \<Rightarrow> tool_descriptor \<Rightarrow> bool" where
  "tool_authorized read_only_mode c t \<longleftrightarrow>
     (read_only_mode \<longrightarrow> operation t = ReadOp)
   \<and> (requires_employee_context t \<longrightarrow> employee_id c \<noteq> None)
   \<and> set (required_permissions_all t) \<subseteq> set (permission_codes c)
   \<and> (required_roles_any t = [] \<or> set (roles c) \<inter> set (required_roles_any t) \<noteq> {})
   \<and> purpose c \<in> set (allowed_purposes t)"

lemma tool_denial_None_iff: "tool_denial ro c t = None \<longleftrightarrow> tool_authorized ro c t"
  by (cases "operation t") (auto simp: tool_denial_def tool_authorized_def split: if_splits)

lemma filter_tools_fst:
  "fst (filter_tools ro c code ts) = map model_tool_of (filter (tool_authorized ro c) ts)"
  by (induction ts) (auto simp: Let_def split: prod.splits option.splits
      simp flip: tool_denial_None_iff)

lemma filter_tools_snd:
  "map ad_tool_name (snd (filter_tools ro c code ts))
     = map (Some \<circ> tool_name) (filter (\<lambda>t. \<not> tool_authorized ro c t) ts)"
  by (induction ts) (auto simp: Let_def split: prod.splits option.splits
      simp flip: tool_denial_None_iff)

text \<open>The decision is the specification: filter the manifests, then their tools, in order.\<close>

lemma evaluate_capability_access_tools:
  "decision_tools (evaluate_capability_access r c ro)
     = map model_tool_of (filter (tool_authorized ro c)
         (concat (map tools (filter (modules_enabled c) (manifests r)))))"
proof -
  have "decision_tools (filter_manifests ro c ms)
      = map model_tool_of (filter (tool_authorized ro c)
          (concat (map tools (filter (modules_enabled c) ms))))" for ms
  proof (induction ms)
    case (Cons m ms)
    then show ?case using filter_tools_fst[of ro c "capability_code m" "tools m"]
      by (auto simp: decision_tools_def Let_def split: prod.splits)
  qed (simp add: decision_tools_def)
  then show ?thesis by (simp add: evaluate_capability_access_def)
qed

lemma exposed_iff:
  "n \<in> mt_tool_name ` set (decision_tools (evaluate_capability_access r c ro)) \<longleftrightarrow>
     (\<exists>m \<in> set (manifests r). modules_enabled c m
        \<and> (\<exists>t \<in> set (tools m). tool_authorized ro c t \<and> tool_name t = n))"
  unfolding evaluate_capability_access_tools by (force simp: model_tool_of_def)

lemma filter_manifests_denials:
  "map ad_tool_name (denials (filter_manifests ro c ms))
     = concat (map (\<lambda>m. if modules_enabled c m
         then map (Some \<circ> tool_name) (filter (\<lambda>t. \<not> tool_authorized ro c t) (tools m))
         else [None]) ms)"
proof (induction ms)
  case (Cons m ms)
  then show ?case using filter_tools_snd[of ro c "capability_code m" "tools m"]
    by (auto simp: Let_def split: prod.splits)
qed simp

lemma authorized_mono:
  assumes "tool_authorized ro c t" and "purpose c' = purpose c"
    and "set (permission_codes c) \<subseteq> set (permission_codes c')" and "set (roles c) \<subseteq> set (roles c')"
    and "employee_id c \<noteq> None \<longrightarrow> employee_id c' \<noteq> None"
  shows "tool_authorized ro c' t"
  using assms unfolding tool_authorized_def by (elim conjE, intro conjI) (simp; blast)+

section \<open>A concrete capability\<close>

definition sample_tool :: tool_descriptor where
  "sample_tool = \<lparr>tool_name = lit ''count_roles'', tool_version = lit ''1.0.0'', operation = ReadOp,
     required_permissions_all = [lit ''hr.self.read''], required_roles_any = [lit ''employee''],
     allowed_purposes = [lit ''self_service''], data_classification = INTERNAL,
     audit_action = lit ''hr.roles.read'', requires_employee_context = True\<rparr>"

definition sample_manifest :: capability_manifest where
  "sample_manifest = \<lparr>capability_code = lit ''hr_core'', capability_version = lit ''1.0.0'',
     required_modules = [lit ''hr''], tools = [sample_tool]\<rparr>"

section \<open>Properties\<close>

text \<open>The registry accepts exactly the collections in which no capability code and no tool name
  is declared twice.\<close>

theorem registry_construction:
  "(\<exists>r. make_registry entries = Inr r) \<longleftrightarrow>
     distinct (map capability_code entries) \<and> distinct (map tool_name (concat (map tools entries)))"
  by (rule make_registry_succeeds_iff)

text \<open>A constructed registry holds the given manifests in the order of their codes, whatever the
  order they were given in, and both of its dictionaries are exact: a code or a tool name is found
  if and only if it was declared, with the manifest or descriptor that declares it.\<close>

theorem registry_lookup_exact:
  assumes "make_registry entries = Inr r"
  shows "mset (manifests r) = mset entries \<and> sorted (map capability_code (manifests r))
    \<and> (registry_get r k = Some m \<longleftrightarrow> m \<in> set entries \<and> capability_code m = k)
    \<and> (tools_by_name r n = Some t
         \<longleftrightarrow> (\<exists>m \<in> set entries. t \<in> set (tools m)) \<and> tool_name t = n)"
proof -
  note wf = make_registry_wf[OF assms] and ms = make_registry_manifests[OF assms]
  then have st: "set (manifests r) = set entries" by (metis set_mset_mset)
  show ?thesis using wf ms registry_lookup.lookup_iff[OF wf, of n t] unfolding wf_registry_def
    by (simp add: st registry_get_def registry_tools_def)
qed

theorem registry_lookup_exact_witness:
  "let r = projr (make_registry [sample_manifest]) in
     mset (manifests r) = mset [sample_manifest] \<and> sorted (map capability_code (manifests r))
    \<and> (registry_get r (lit ''hr_core'') = Some sample_manifest
        \<longleftrightarrow> sample_manifest \<in> set [sample_manifest] \<and> capability_code sample_manifest = lit ''hr_core'')
    \<and> (tools_by_name r (lit ''count_roles'') = Some sample_tool
         \<longleftrightarrow> (\<exists>m \<in> set [sample_manifest]. sample_tool \<in> set (tools m))
           \<and> tool_name sample_tool = lit ''count_roles'')"
proof -
  have "make_registry [sample_manifest] = Inr (projr (make_registry [sample_manifest]))"
    by (simp add: make_registry_def sample_manifest_def)
  from registry_lookup_exact[OF this] show ?thesis unfolding Let_def by blast
qed

text \<open>C30: The access decision is exact and complete: the exposed tools are, in registry order, the
  authorized tools of the capabilities with all modules enabled, and every other tool of such a
  capability, and every other capability, is denied exactly once.\<close>

theorem access_decision_exact:
  "decision_tools (evaluate_capability_access r c ro)
     = map model_tool_of (filter (tool_authorized ro c)
         (concat (map tools (filter (modules_enabled c) (manifests r)))))
   \<and> map ad_tool_name (denials (evaluate_capability_access r c ro))
     = concat (map (\<lambda>m. if modules_enabled c m
         then map (Some \<circ> tool_name) (filter (\<lambda>t. \<not> tool_authorized ro c t) (tools m))
         else [None]) (manifests r))"
  using evaluate_capability_access_tools filter_manifests_denials
  by (simp add: evaluate_capability_access_def)

text \<open>Authorization is monotone: a context with the same purpose and at least the modules,
  permissions, roles and employee link of another is offered every tool the other is offered.\<close>

theorem access_monotone:
  assumes "set (enabled_modules c) \<subseteq> set (enabled_modules c')" and "purpose c' = purpose c"
    and "set (permission_codes c) \<subseteq> set (permission_codes c')" and "set (roles c) \<subseteq> set (roles c')"
    and "employee_id c \<noteq> None \<longrightarrow> employee_id c' \<noteq> None"
  shows "set (decision_tools (evaluate_capability_access r c ro))
    \<subseteq> set (decision_tools (evaluate_capability_access r c' ro))"
proof -
  have "modules_enabled c' m" if "modules_enabled c m" for m
    using that assms(1) by (auto simp: modules_enabled_def)
  then show ?thesis using authorized_mono[OF _ assms(2-5)]
    unfolding evaluate_capability_access_tools by auto
qed

theorem access_monotone_witness:
  "set (decision_tools (evaluate_capability_access (projr (make_registry [sample_manifest]))
        sample_context True))
    \<subseteq> set (decision_tools (evaluate_capability_access (projr (make_registry [sample_manifest]))
        (sample_context\<lparr>roles := lit ''auditor'' # roles sample_context\<rparr>) True))"
  by (rule access_monotone) auto

end
