(* ===== verification/Json.thy ===== *)
theory Json
  imports PyText "HOL-Library.Word"
begin

unbundle bit_operations_syntax

text \<open>
  JSON values as the orchestration layer sees them (\<open>src/erp_ai/orchestration/models.py\<close>): the
  hooks \<open>json.loads\<close> is called with, the structural limits on tool arguments, the comparison of
  two values by their canonical serialisation, and the search for reserved context names of
  \<open>src/erp_ai/tools/gateway.py\<close>. The tokenizer of \<open>json.loads\<close> is a parameter: it yields a
  parse tree, to which the hooks are applied here.
\<close>

section \<open>Values\<close>

text \<open>A Python float is its IEEE double, so that \<open>math.isfinite\<close> reads the exponent bits.\<close>

type_synonym float64 = "64 word"

definition float_finite :: "float64 \<Rightarrow> bool" where
  "float_finite f \<longleftrightarrow> drop_bit 52 f AND 2047 \<noteq> 2047"

datatype json =
    JNull
  | JBool bool
  | JInt int
  | JFloat float64
  | JStr pystr
  | JArr "json list"
  | JObj "(pystr \<times> json) list"

text \<open>
  What the tokenizer hands to the hooks: \<open>TConstant\<close> is one of \<open>NaN\<close>, \<open>Infinity\<close> and
  \<open>-Infinity\<close>, and \<open>TObj\<close> keeps the pairs as written, with repetitions.
\<close>

datatype jtree =
    TNull
  | TBool bool
  | TInt int
  | TFloat float64
  | TConstant
  | TStr pystr
  | TArr "jtree list"
  | TObj "(pystr \<times> jtree) list"

section \<open>The hooks\<close>

fun object_without_duplicate_keys :: "(pystr \<times> json) list \<Rightarrow> (pystr \<times> json) list \<Rightarrow> json checked" where
  "object_without_duplicate_keys result [] = Inr (JObj result)"
| "object_without_duplicate_keys result ((k, v) # pairs) =
     raise_if (k \<in> set (map fst result)) ''duplicate JSON object keys are not allowed''
       (object_without_duplicate_keys (result @ [(k, v)]) pairs)"

fun sequence_checked :: "('e + 'a) list \<Rightarrow> 'e + 'a list" where
  "sequence_checked [] = Inr []"
| "sequence_checked (m # ms) = bindE m (\<lambda>x. bindE (sequence_checked ms) (\<lambda>xs. Inr (x # xs)))"

fun pull_pair :: "'k \<times> ('e + 'a) \<Rightarrow> 'e + ('k \<times> 'a)" where
  "pull_pair (k, m) = bindE m (\<lambda>x. Inr (k, x))"

primrec load_tree :: "jtree \<Rightarrow> json checked" where
  "load_tree TNull = Inr JNull"
| "load_tree (TBool b) = Inr (JBool b)"
| "load_tree (TInt i) = Inr (JInt i)"
| "load_tree (TFloat f) = Inr (JFloat f)"
| "load_tree TConstant = Inl ''unsupported JSON constant''"
| "load_tree (TStr s) = Inr (JStr s)"
| "load_tree (TArr ts) = bindE (sequence_checked (map load_tree ts)) (\<lambda>vs. Inr (JArr vs))"
| "load_tree (TObj ps) =
     bindE (sequence_checked (map pull_pair (map (map_prod id load_tree) ps)))
       (object_without_duplicate_keys [])"

section \<open>Limits\<close>

definition MAXIMUM_TOOL_ARGUMENT_BYTES :: nat where "MAXIMUM_TOOL_ARGUMENT_BYTES = 16384"
definition MAXIMUM_ARGUMENT_DEPTH :: nat where "MAXIMUM_ARGUMENT_DEPTH = 10"
definition MAXIMUM_ARGUMENT_NODES :: nat where "MAXIMUM_ARGUMENT_NODES = 512"
definition MAXIMUM_SAFE_JSON_INTEGER :: int where "MAXIMUM_SAFE_JSON_INTEGER = 2 ^ 53 - 1"

text \<open>
  \<open>_json_depth_and_nodes(value, depth)\<close>; the recursion runs at \<open>depth + 1\<close> on the children, so
  the structural recursion returns the function of the depth.
\<close>

definition combine_children :: "nat \<Rightarrow> (nat \<times> nat) list \<Rightarrow> nat \<times> nat" where
  "combine_children depth cs =
     ((if cs = [] then depth else Max (set (map fst cs))), 1 + sum_list (map snd cs))"

primrec json_depth_and_nodes :: "json \<Rightarrow> nat \<Rightarrow> nat \<times> nat" where
  "json_depth_and_nodes JNull = (\<lambda>depth. (depth, 1))"
| "json_depth_and_nodes (JBool b) = (\<lambda>depth. (depth, 1))"
| "json_depth_and_nodes (JInt i) = (\<lambda>depth. (depth, 1))"
| "json_depth_and_nodes (JFloat f) = (\<lambda>depth. (depth, 1))"
| "json_depth_and_nodes (JStr s) = (\<lambda>depth. (depth, 1))"
| "json_depth_and_nodes (JArr vs) =
     (\<lambda>depth. combine_children depth (map (\<lambda>f. f (depth + 1)) (map json_depth_and_nodes vs)))"
| "json_depth_and_nodes (JObj ps) =
     (\<lambda>depth. combine_children depth
        (map (\<lambda>p. snd p (depth + 1)) (map (map_prod id json_depth_and_nodes) ps)))"

primrec validate_safe_numbers :: "json \<Rightarrow> unit checked" where
  "validate_safe_numbers JNull = Inr ()"
| "validate_safe_numbers (JBool b) = Inr ()"
| "validate_safe_numbers (JInt i) =
     raise_if (\<bar>i\<bar> > MAXIMUM_SAFE_JSON_INTEGER)
       ''JSON integer exceeds the interoperable safe range'' (Inr ())"
| "validate_safe_numbers (JFloat f) =
     raise_if (\<not> float_finite f) ''JSON numbers must be finite'' (Inr ())"
| "validate_safe_numbers (JStr s) = Inr ()"
| "validate_safe_numbers (JArr vs) =
     bindE (sequence_checked (map validate_safe_numbers vs)) (\<lambda>_. Inr ())"
| "validate_safe_numbers (JObj ps) =
     bindE (sequence_checked (map snd (map (map_prod id validate_safe_numbers) ps))) (\<lambda>_. Inr ())"

text \<open>
  \<open>_parse_arguments_json\<close>. The tokenizer returns no tree on a \<open>JSONDecodeError\<close> or a
  \<open>RecursionError\<close>.
\<close>

definition parse_arguments_json ::
  "(pystr \<Rightarrow> jtree option) \<Rightarrow> pystr \<Rightarrow> (pystr \<times> json) list checked" where
  "parse_arguments_json tokenize s =
     raise_if (\<not> utf8_encodable s) ''surrogates not allowed''
     (raise_if (utf8_size s > MAXIMUM_TOOL_ARGUMENT_BYTES)
       ''serialized tool arguments exceed the byte limit''
       (case tokenize s of
          None \<Rightarrow> Inl ''tool arguments must be one valid JSON object''
        | Some t \<Rightarrow> bindE (load_tree t) (\<lambda>v. case v of
              JObj ps \<Rightarrow> bindE (validate_safe_numbers v) (\<lambda>_.
                (let (depth, nodes) = json_depth_and_nodes v 1 in
                 raise_if (depth > MAXIMUM_ARGUMENT_DEPTH \<or> nodes > MAXIMUM_ARGUMENT_NODES)
                   ''tool arguments exceed structural limits'' (Inr ps)))
            | _ \<Rightarrow> Inl ''tool arguments must contain exactly one JSON object'')))"

section \<open>Comparison by canonical serialisation\<close>

text \<open>
  \<open>json.dumps(..., sort_keys=True)\<close> writes an object in key order; on values with distinct keys
  and finite numbers equal texts come from equal canonical values, so the comparison of the
  texts is the comparison of the values with every object sorted by key. \<open>allow_nan=False\<close>
  raises on a number that is not finite.
\<close>

primrec canonical_json :: "json \<Rightarrow> json" where
  "canonical_json JNull = JNull"
| "canonical_json (JBool b) = JBool b"
| "canonical_json (JInt i) = JInt i"
| "canonical_json (JFloat f) = JFloat f"
| "canonical_json (JStr s) = JStr s"
| "canonical_json (JArr vs) = JArr (map canonical_json vs)"
| "canonical_json (JObj ps) = JObj (sort_key fst (map (map_prod id canonical_json) ps))"

primrec json_finite :: "json \<Rightarrow> bool" where
  "json_finite JNull = True"
| "json_finite (JBool b) = True"
| "json_finite (JInt i) = True"
| "json_finite (JFloat f) = float_finite f"
| "json_finite (JStr s) = True"
| "json_finite (JArr vs) = list_all id (map json_finite vs)"
| "json_finite (JObj ps) = list_all snd (map (map_prod id json_finite) ps)"

definition json_values_equivalent :: "json \<Rightarrow> json \<Rightarrow> bool checked" where
  "json_values_equivalent l r =
     raise_if (\<not> json_finite l \<or> \<not> json_finite r)
       ''Out of range float values are not JSON compliant''
       (Inr (canonical_json l = canonical_json r))"

section \<open>The size of a serialised value\<close>

text \<open>
  The number of bytes of \<open>json.dumps(v, ensure_ascii=False, separators=(",", ":")).encode("utf-8")\<close>.
  Quotes and backslashes are escaped with one backslash, the five named controls likewise, and
  the other controls as \<open>\uXXXX\<close>; the text of a float (\<open>float.__repr__\<close>) is a parameter.
\<close>

definition json_char_size :: "nat \<Rightarrow> nat" where
  "json_char_size c = (if c \<in> {34, 92, 8, 9, 10, 12, 13} then 2 else if c < 32 then 6 else utf8_width
      c)"

definition json_string_size :: "pystr \<Rightarrow> nat" where
  "json_string_size s = 2 + sum_list (map json_char_size s)"

definition json_int_size :: "int \<Rightarrow> nat" where
  "json_int_size i = (if i < 0 then 1 else 0) + length (nat_digits (nat \<bar>i\<bar>))"

definition with_commas :: "nat list \<Rightarrow> nat" where
  "with_commas ns = 2 + sum_list ns + (length ns - 1)"

primrec json_size :: "(float64 \<Rightarrow> nat) \<Rightarrow> json \<Rightarrow> nat" where
  "json_size fs JNull = 4"
| "json_size fs (JBool b) = (if b then 4 else 5)"
| "json_size fs (JInt i) = json_int_size i"
| "json_size fs (JFloat f) = fs f"
| "json_size fs (JStr s) = json_string_size s"
| "json_size fs (JArr vs) = with_commas (map (json_size fs) vs)"
| "json_size fs (JObj ps) = with_commas
     (map (\<lambda>p. json_string_size (fst p) + 1 + snd p) (map (map_prod id (json_size fs)) ps))"

primrec json_encodable :: "json \<Rightarrow> bool" where
  "json_encodable JNull = True"
| "json_encodable (JBool b) = True"
| "json_encodable (JInt i) = True"
| "json_encodable (JFloat f) = True"
| "json_encodable (JStr s) = utf8_encodable s"
| "json_encodable (JArr vs) = list_all id (map json_encodable vs)"
| "json_encodable (JObj ps) =
     list_all (\<lambda>p. utf8_encodable (fst p) \<and> snd p) (map (map_prod id json_encodable) ps)"

text \<open>\<open>len(_canonical_json_bytes(value))\<close>\<close>

definition canonical_json_bytes :: "(float64 \<Rightarrow> nat) \<Rightarrow> json \<Rightarrow> nat checked" where
  "canonical_json_bytes fs v =
     (if json_encodable v then Inr (json_size fs v) else Inl ''surrogates not allowed'')"

section \<open>Reserved context arguments\<close>

definition RESERVED_ARGUMENT_NAMES :: "pystr list" where
  "RESERVED_ARGUMENT_NAMES = map lit
     [''context_version'', ''customer_environment_id'', ''user_id'', ''employee_id'', ''roles'',
      ''permission_codes'', ''legal_entity_ids'', ''enabled_modules'', ''locale'', ''timezone'',
      ''purpose'', ''issued_at'', ''authorization_snapshot_id'', ''read_only_mode'']"

primrec contains_reserved_argument :: "json \<Rightarrow> bool" where
  "contains_reserved_argument JNull = False"
| "contains_reserved_argument (JBool b) = False"
| "contains_reserved_argument (JInt i) = False"
| "contains_reserved_argument (JFloat f) = False"
| "contains_reserved_argument (JStr s) = False"
| "contains_reserved_argument (JArr vs) = list_ex id (map contains_reserved_argument vs)"
| "contains_reserved_argument (JObj ps) =
     list_ex (\<lambda>(k, b). k \<in> set RESERVED_ARGUMENT_NAMES \<or> b)
       (map (map_prod id contains_reserved_argument) ps)"

section \<open>Specifications\<close>

text \<open>The subvalues of a value, with the number of containers around each, and the keys in it.\<close>

inductive subvalue :: "json \<Rightarrow> nat \<Rightarrow> json \<Rightarrow> bool" where
  here: "subvalue v 0 v"
| item: "u \<in> set vs \<Longrightarrow> subvalue u n w \<Longrightarrow> subvalue (JArr vs) (Suc n) w"
| field: "(k, u) \<in> set ps \<Longrightarrow> subvalue u n w \<Longrightarrow> subvalue (JObj ps) (Suc n) w"

inductive_cases subvalue_arrE: "subvalue (JArr vs) n w"
inductive_cases subvalue_objE: "subvalue (JObj ps) n w"
inductive_cases subvalue_scalarE:
  "subvalue JNull n w" "subvalue (JBool b) n w" "subvalue (JInt i) n w"
  "subvalue (JFloat f) n w" "subvalue (JStr s) n w"

definition mentions_key :: "pystr \<Rightarrow> json \<Rightarrow> bool" where
  "mentions_key k v \<longleftrightarrow> (\<exists>n ps. subvalue v n (JObj ps) \<and> k \<in> fst ` set ps)"

text \<open>Every object of the value has distinct keys, and every number of it is interoperable.\<close>

definition depth_below :: "nat \<Rightarrow> json \<Rightarrow> bool" where
  "depth_below d v \<longleftrightarrow> (\<forall>n w. subvalue v n w \<longrightarrow> n < d)"

definition safe_value :: "json \<Rightarrow> bool" where
  "safe_value v \<longleftrightarrow> (\<forall>n w. subvalue v n w \<longrightarrow>
     (case w of JInt i \<Rightarrow> \<bar>i\<bar> \<le> MAXIMUM_SAFE_JSON_INTEGER | JFloat f \<Rightarrow> float_finite f | _ \<Rightarrow> True))"

definition unambiguous :: "json \<Rightarrow> bool" where
  "unambiguous v \<longleftrightarrow> (\<forall>n ps. subvalue v n (JObj ps) \<longrightarrow> distinct (map fst ps))"

primrec json_nodes :: "json \<Rightarrow> nat" where
  "json_nodes JNull = 1"
| "json_nodes (JBool b) = 1"
| "json_nodes (JInt i) = 1"
| "json_nodes (JFloat f) = 1"
| "json_nodes (JStr s) = 1"
| "json_nodes (JArr vs) = 1 + sum_list (map json_nodes vs)"
| "json_nodes (JObj ps) = 1 + sum_list (map snd (map (map_prod id json_nodes) ps))"


section \<open>Facts\<close>

inductive_simps subvalue_scalar [simp]:
  "subvalue JNull n w" "subvalue (JBool b) n w" "subvalue (JInt i) n w"
  "subvalue (JFloat f) n w" "subvalue (JStr s) n w"

lemma all_subvalues_arr:
  "(\<forall>n w. subvalue (JArr vs) n w \<longrightarrow> P n w)
     \<longleftrightarrow> P 0 (JArr vs) \<and> (\<forall>v \<in> set vs. \<forall>n w. subvalue v n w \<longrightarrow> P (Suc n) w)"
  by (blast intro: here item elim: subvalue_arrE)

lemma all_subvalues_obj:
  "(\<forall>n w. subvalue (JObj ps) n w \<longrightarrow> P n w)
     \<longleftrightarrow> P 0 (JObj ps) \<and> (\<forall>p \<in> set ps. \<forall>n w. subvalue (snd p) n w \<longrightarrow> P (Suc n) w)"
proof (intro iffI conjI allI impI ballI)
  fix p n w
  assume "\<forall>n w. subvalue (JObj ps) n w \<longrightarrow> P n w" "p \<in> set ps" "subvalue (snd p) n w"
  then show "P (Suc n) w" using subvalue.field[of "fst p" "snd p" ps n w] by simp
next
  fix n w
  assume a: "P 0 (JObj ps) \<and> (\<forall>p \<in> set ps. \<forall>n w. subvalue (snd p) n w \<longrightarrow> P (Suc n) w)"
    and "subvalue (JObj ps) n w"
  from this(2) show "P n w" using a by (cases rule: subvalue_objE) force+
qed (blast intro: here)

lemma sequence_checked_InrD:
  "sequence_checked ms = Inr xs \<Longrightarrow> ms = map Inr xs"
  by (induction ms arbitrary: xs) (auto elim!: bindE_InrE)

lemma sequence_checked_map_Inr [simp]: "sequence_checked (map Inr xs) = Inr xs"
  by (induction xs) auto

lemma object_without_duplicate_keys_Inr:
  "object_without_duplicate_keys acc ps = Inr v \<Longrightarrow> distinct (map fst acc)
     \<Longrightarrow> v = JObj (acc @ ps) \<and> distinct (map fst (acc @ ps))"
proof (induction acc ps rule: object_without_duplicate_keys.induct)
  case (2 result k x pairs)
  from "2.prems"(1) have k: "k \<notin> set (map fst result)"
    and r: "object_without_duplicate_keys (result @ [(k, x)]) pairs = Inr v"
    by (auto elim!: raise_if_InrE)
  show ?case using "2.IH"[OF k r] "2.prems"(2) k by simp
qed simp

lemma unambiguous_iff:
  "unambiguous v \<longleftrightarrow> (\<forall>n w. subvalue v n w \<longrightarrow>
     (case w of JObj ps \<Rightarrow> distinct (map fst ps) | _ \<Rightarrow> True))"
  unfolding unambiguous_def by (auto split: json.splits)

lemma unambiguous_arr: "unambiguous (JArr vs) \<longleftrightarrow> (\<forall>v \<in> set vs. unambiguous v)"
  unfolding unambiguous_iff by (subst all_subvalues_arr) simp

lemma unambiguous_obj:
  "unambiguous (JObj ps) \<longleftrightarrow> distinct (map fst ps) \<and> (\<forall>p \<in> set ps. unambiguous (snd p))"
  unfolding unambiguous_iff by (subst all_subvalues_obj) simp

lemma unambiguous_scalar [simp]:
  "unambiguous JNull" "unambiguous (JBool b)" "unambiguous (JInt i)" "unambiguous (JFloat f)"
  "unambiguous (JStr s)"
  by (simp_all add: unambiguous_def)

text \<open>Whatever the tokenizer yields, a loaded value has no object with a repeated key.\<close>

lemma load_tree_unambiguous: "load_tree t = Inr v \<Longrightarrow> unambiguous v"
proof (induction t arbitrary: v)
  case (TArr ts)
  then obtain vs where vs: "map load_tree ts = map Inr vs" "v = JArr vs"
    by (auto elim!: bindE_InrE dest: sequence_checked_InrD)
  have "unambiguous u" if "u \<in> set vs" for u
  proof -
    have "Inr u \<in> set (map load_tree ts)" using that vs(1) by simp
    then obtain t where "t \<in> set ts" "load_tree t = Inr u" by auto
    then show ?thesis by (rule TArr.IH)
  qed
  then show ?case by (simp add: vs(2) unambiguous_arr)
next
  case (TObj ps)
  then obtain qs where qs: "map pull_pair (map (map_prod id load_tree) ps) = map Inr qs"
      and o: "object_without_duplicate_keys [] qs = Inr v"
    by (auto elim!: bindE_InrE dest: sequence_checked_InrD)
  have v: "v = JObj qs" "distinct (map fst qs)"
    using object_without_duplicate_keys_Inr[OF o] by auto
  have "unambiguous (snd q)" if "q \<in> set qs" for q
  proof -
    have "Inr q \<in> set (map pull_pair (map (map_prod id load_tree) ps))" using that qs by simp
    then obtain p where p: "p \<in> set ps" "Inr q = pull_pair (map_prod id load_tree p)" by auto
    have "load_tree (snd p) = Inr (snd q)"
      using p(2) by (cases p; cases "load_tree (snd p)") auto
    then show ?thesis using p(1) by (intro TObj.IH[of p "snd p"]) (auto intro: snds.intros)
  qed
  then show ?case using v by (simp add: unambiguous_obj)
qed (auto)

lemma nodes_json: "snd (json_depth_and_nodes v d) = json_nodes v"
proof (induction v arbitrary: d)
  case (JArr vs)
  have "map snd (map (\<lambda>f. f (d + 1)) (map json_depth_and_nodes vs)) = map json_nodes vs"
    using JArr by simp
  then show ?case by (simp add: combine_children_def del: map_map)
next
  case (JObj ps)
  have "map snd (map (\<lambda>p. snd p (d + 1)) (map (map_prod id json_depth_and_nodes) ps))
      = map snd (map (map_prod id json_nodes) ps)"
    using JObj[OF _ snds.intros] by simp
  then show ?case by (simp only: json_depth_and_nodes.simps json_nodes.simps combine_children_def
      snd_conv)
qed simp_all

lemma combine_children_depth:
  "fst (combine_children d cs) \<le> m \<longleftrightarrow> (if cs = [] then d \<le> m else (\<forall>c \<in> set cs. fst c \<le> m))"
  by (auto simp: combine_children_def)

text \<open>The computed depth is the deepest nesting: it bounds \<open>depth + n\<close> for every subvalue.\<close>

lemma depth_le_iff: "fst (json_depth_and_nodes v d) \<le> m \<longleftrightarrow> (\<forall>n w. subvalue v n w \<longrightarrow> d + n \<le> m)"
proof (induction v arbitrary: d)
  case (JArr vs)
  have self: "d \<le> m" if "v \<in> set vs" "\<forall>n w. subvalue v n w \<longrightarrow> d + Suc n \<le> m" for v
    using that(2) here[of v] by fastforce
  have "fst (json_depth_and_nodes (JArr vs) d) \<le> m
      \<longleftrightarrow> (if vs = [] then d \<le> m else \<forall>v \<in> set vs. fst (json_depth_and_nodes v (d + 1)) \<le> m)"
    by (simp add: combine_children_depth)
  also have "\<dots> \<longleftrightarrow> (if vs = [] then d \<le> m else \<forall>v \<in> set vs. \<forall>n w. subvalue v n w \<longrightarrow> d + Suc n \<le> m)"
    using JArr by simp
  also have "\<dots> \<longleftrightarrow> d + 0 \<le> m \<and> (\<forall>v \<in> set vs. \<forall>n w. subvalue v n w \<longrightarrow> d + Suc n \<le> m)"
    using self by (cases vs) auto
  finally show ?case by (subst all_subvalues_arr)
next
  case (JObj ps)
  have self: "d \<le> m" if "p \<in> set ps" "\<forall>n w. subvalue (snd p) n w \<longrightarrow> d + Suc n \<le> m" for p
    using that(2) here[of "snd p"] by fastforce
  have "fst (json_depth_and_nodes (JObj ps) d) \<le> m
      \<longleftrightarrow> (if ps = [] then d \<le> m else \<forall>p \<in> set ps. fst (json_depth_and_nodes (snd p) (d + 1)) \<le> m)"
    by (simp add: combine_children_depth)
  also have "\<dots> \<longleftrightarrow> (if ps = [] then d \<le> m
      else \<forall>p \<in> set ps. \<forall>n w. subvalue (snd p) n w \<longrightarrow> d + Suc n \<le> m)"
    using JObj[OF _ snds.intros] by simp
  also have "\<dots> \<longleftrightarrow> d + 0 \<le> m \<and> (\<forall>p \<in> set ps. \<forall>n w. subvalue (snd p) n w \<longrightarrow> d + Suc n \<le> m)"
    using self by (cases ps) auto
  finally show ?case by (subst all_subvalues_obj)
qed auto

lemma safe_value_arr: "safe_value (JArr vs) \<longleftrightarrow> (\<forall>v \<in> set vs. safe_value v)"
  unfolding safe_value_def by (subst all_subvalues_arr) simp

lemma safe_value_obj: "safe_value (JObj ps) \<longleftrightarrow> (\<forall>p \<in> set ps. safe_value (snd p))"
  unfolding safe_value_def by (subst all_subvalues_obj) simp

lemma safe_value_scalar [simp]:
  "safe_value JNull" "safe_value (JBool b)" "safe_value (JStr s)"
  "safe_value (JInt i) \<longleftrightarrow> \<bar>i\<bar> \<le> MAXIMUM_SAFE_JSON_INTEGER"
  "safe_value (JFloat f) \<longleftrightarrow> float_finite f"
  by (simp_all add: safe_value_def)

lemma sequence_units: "sequence_checked ms = Inr (us :: unit list) \<Longrightarrow> m \<in> set ms \<Longrightarrow> m = Inr ()"
  by (auto dest!: sequence_checked_InrD)

lemma validate_safe_numbers_Inr: "validate_safe_numbers v = Inr () \<Longrightarrow> safe_value v"
proof (induction v)
  case (JArr vs)
  then obtain us where "sequence_checked (map validate_safe_numbers vs) = Inr us"
    by (auto elim!: bindE_InrE)
  then have "\<forall>v \<in> set vs. validate_safe_numbers v = Inr ()" using sequence_units by fastforce
  then show ?case using JArr.IH by (simp add: safe_value_arr)
next
  case (JObj ps)
  then obtain us where "sequence_checked (map snd (map (map_prod id validate_safe_numbers) ps)) = Inr
      us"
    by (auto elim!: bindE_InrE)
  then have "\<forall>p \<in> set ps. validate_safe_numbers (snd p) = Inr ()" using sequence_units by fastforce
  then show ?case using JObj.IH[OF _ snds.intros] by (simp add: safe_value_obj)
qed (auto split: if_splits)

lemma parse_arguments_json_Inr:
  assumes "parse_arguments_json tokenize s = Inr ps"
  shows "unambiguous (JObj ps)" and "safe_value (JObj ps)" and "json_nodes (JObj ps) \<le> 512"
    and "subvalue (JObj ps) n w \<Longrightarrow> n < 10" and "utf8_size s \<le> 16384"
proof -
  obtain t where sz: "utf8_size s \<le> MAXIMUM_TOOL_ARGUMENT_BYTES" and t: "load_tree t = Inr (JObj ps)"
    and sf: "validate_safe_numbers (JObj ps) = Inr ()"
    and lim: "fst (json_depth_and_nodes (JObj ps) 1) \<le> MAXIMUM_ARGUMENT_DEPTH"
      "snd (json_depth_and_nodes (JObj ps) 1) \<le> MAXIMUM_ARGUMENT_NODES"
    using assms unfolding parse_arguments_json_def
    by (auto elim!: bindE_InrE split: if_splits option.splits json.splits prod.splits)
  show "unambiguous (JObj ps)" by (rule load_tree_unambiguous[OF t])
  show "safe_value (JObj ps)" by (rule validate_safe_numbers_Inr[OF sf])
  show "json_nodes (JObj ps) \<le> 512" using lim(2) by (simp only: nodes_json MAXIMUM_ARGUMENT_NODES_def)
  show "subvalue (JObj ps) n w \<Longrightarrow> n < 10"
    using lim(1) unfolding depth_le_iff MAXIMUM_ARGUMENT_DEPTH_def by fastforce
  show "utf8_size s \<le> 16384" using sz by (simp add: MAXIMUM_TOOL_ARGUMENT_BYTES_def)
qed

lemma not_mentions_key_iff:
  "\<not> mentions_key k v \<longleftrightarrow> (\<forall>n w. subvalue v n w \<longrightarrow>
     (case w of JObj ps \<Rightarrow> k \<notin> fst ` set ps | _ \<Rightarrow> True))"
  unfolding mentions_key_def by (auto split: json.splits)

lemma mentions_key_arr: "mentions_key k (JArr vs) \<longleftrightarrow> (\<exists>v \<in> set vs. mentions_key k v)"
proof -
  have "\<not> mentions_key k (JArr vs) \<longleftrightarrow> (\<forall>v \<in> set vs. \<not> mentions_key k v)"
    unfolding not_mentions_key_iff by (subst all_subvalues_arr) simp
  then show ?thesis by blast
qed

lemma mentions_key_obj:
  "mentions_key k (JObj ps) \<longleftrightarrow> (\<exists>p \<in> set ps. fst p = k \<or> mentions_key k (snd p))"
proof -
  have "\<not> mentions_key k (JObj ps)
      \<longleftrightarrow> k \<notin> fst ` set ps \<and> (\<forall>p \<in> set ps. \<not> mentions_key k (snd p))"
    unfolding not_mentions_key_iff by (subst all_subvalues_obj) simp
  then show ?thesis by blast
qed

lemma mentions_key_scalar [simp]:
  "\<not> mentions_key k JNull" "\<not> mentions_key k (JBool b)" "\<not> mentions_key k (JInt i)"
  "\<not> mentions_key k (JFloat f)" "\<not> mentions_key k (JStr s)"
  by (simp_all add: mentions_key_def)

lemma contains_reserved_argument_obj:
  "contains_reserved_argument (JObj ps) \<longleftrightarrow>
     (\<exists>p \<in> set ps. fst p \<in> set RESERVED_ARGUMENT_NAMES \<or> contains_reserved_argument (snd p))"
  by (simp add: list_ex_iff case_prod_unfold)

lemma contains_reserved_argument_iff:
  "contains_reserved_argument v \<longleftrightarrow> (\<exists>k \<in> set RESERVED_ARGUMENT_NAMES. mentions_key k v)"
proof (induction v)
  case (JArr vs)
  then show ?case by (auto simp: mentions_key_arr list_ex_iff)
next
  case (JObj ps)
  then show ?case using JObj[OF _ snds.intros]
    unfolding contains_reserved_argument_obj mentions_key_obj by blast
qed simp_all

text \<open>Equivalence does not depend on the order in which an object lists its fields.\<close>

lemma json_values_equivalent_field_order:
  assumes "distinct (map fst ps)" and "set qs = set ps" and "distinct (map fst qs)"
    and "json_finite (JObj ps)"
  shows "json_values_equivalent (JObj ps) (JObj qs) = Inr True"
proof -
  let ?c = "map (map_prod id canonical_json)"
  have keys: "map fst (?c xs) = map fst xs" for xs by simp
  have d: "distinct (map fst (sort_key fst (?c xs)))" if "distinct (map fst xs)" for xs
  proof -
    have "distinct (map fst (?c xs))" using that by (simp only: keys)
    then show ?thesis by (metis distinct_map distinct_sort set_sort)
  qed
  have "sort_key fst (?c ps) = sort_key fst (?c qs)"
  proof (rule map_sorted_distinct_set_unique[where f = fst])
    show "inj_on fst (set (sort_key fst (?c ps)) \<union> set (sort_key fst (?c qs)))"
      using d[OF assms(1)] assms(2) by (simp add: distinct_map)
  qed (use d assms(1-3) in simp_all)
  moreover have "json_finite (JObj qs)" using assms(2,4) by (simp add: list_all_iff)
  ultimately show ?thesis using assms(4)
    by (simp only: json_values_equivalent_def canonical_json.simps HOL.simp_thms if_False)
qed

section \<open>Properties\<close>

text \<open>Tool arguments that parse are bounded and unambiguous whatever the tokenizer returned: the
  text has at most 16384 UTF-8 bytes, the value at most 512 nodes and fewer than 10 containers
  around any of them, no object repeats a key, every integer is within the interoperable range and
  every float is finite.\<close>

theorem parsed_arguments_bounded:
  assumes "parse_arguments_json tokenize s = Inr ps"
  shows "utf8_size s \<le> 16384 \<and> json_nodes (JObj ps) \<le> 512
    \<and> depth_below 10 (JObj ps) \<and> unambiguous (JObj ps) \<and> safe_value (JObj ps)"
  using parse_arguments_json_Inr[OF assms] unfolding depth_below_def by blast

theorem parsed_arguments_bounded_witness:
  "utf8_size (lit ''{}'') \<le> 16384 \<and> json_nodes (JObj [(lit ''a'', JInt 3)]) \<le> 512
    \<and> depth_below 10 (JObj [(lit ''a'', JInt 3)])
    \<and> unambiguous (JObj [(lit ''a'', JInt 3)]) \<and> safe_value (JObj [(lit ''a'', JInt 3)])"
  by (rule parsed_arguments_bounded[where tokenize = "\<lambda>_. Some (TObj [(lit ''a'', TInt 3)])"])
    (simp add: parse_arguments_json_def utf8_encodable_def lit_def utf8_width_def
      MAXIMUM_TOOL_ARGUMENT_BYTES_def MAXIMUM_SAFE_JSON_INTEGER_def MAXIMUM_ARGUMENT_DEPTH_def
      MAXIMUM_ARGUMENT_NODES_def combine_children_def)

text \<open>The search for reserved arguments is exact: it finds one if and only if some object, at any
  depth of the value, has a field named like a trusted context field.\<close>

theorem reserved_argument_search_exact:
  "contains_reserved_argument v \<longleftrightarrow>
     (\<exists>k \<in> set RESERVED_ARGUMENT_NAMES. \<exists>n ps. subvalue v n (JObj ps) \<and> k \<in> fst ` set ps)"
  using contains_reserved_argument_iff unfolding mentions_key_def by blast

end
