(* ===== verification/Boundary.thy ===== *)
theory Boundary
  imports Prelude
begin

text \<open>
  The audit boundary that the tool gateway, the agent orchestrator and the application service
  share: a result is handed out only after its audit event was recorded, and is replaced by a
  fixed failure when the sink raises. The locale states the contract of such an operation, and
  derives what a sequence of requests leaves in the audit log.
\<close>

section \<open>Record before return\<close>

definition record_before_return ::
  "('e, 'w, unit outcome) op \<Rightarrow> 'r \<Rightarrow> 'e \<Rightarrow> 'r \<Rightarrow> 'w \<Rightarrow> 'r outcome \<times> 'w" where
  "record_before_return sink unavailable event result w =
     (case sink event w of
        (Inr _, w') \<Rightarrow> (Inr result, w')
      | (Inl Failed, w') \<Rightarrow> (Inr unavailable, w')
      | (Inl Cancelled, w') \<Rightarrow> (Inl Cancelled, w'))"

lemma record_before_return_cases:
  assumes "record_before_return sink u e r w = (res, w')"
  obtains "sink e w = (Inr (), w')" "res = Inr r"
  | "sink e w = (Inl Failed, w')" "res = Inr u"
  | "sink e w = (Inl Cancelled, w')" "res = Inl Cancelled"
  using assms by (auto simp: record_before_return_def split: prod.splits sum.splits exn.splits)

lemma record_before_return_traced:
  assumes "record_before_return (traced f sink) u e r w = (res, w')"
  shows "snd w' = snd w @ [f e]"
  using assms by (cases rule: record_before_return_cases) (auto dest: traced_eqD)

section \<open>The contract of an audited operation\<close>

text \<open>
  \<open>run\<close> serves one request over a log. A returned result has exactly one event in the log,
  and the event describes it; a request that raises leaves no event, or one when its
  recording was cancelled.
\<close>

locale audited_operation =
  fixes run :: "('q, 'w \<times> 'e list, 'r outcome) op"
    and describes :: "'q \<Rightarrow> 'r \<Rightarrow> 'e \<Rightarrow> bool"
  assumes returned: "run q (w, log) = (Inr r, (w', log')) \<Longrightarrow> \<exists>e. log' = log @ [e] \<and> describes q r e"
    and raised: "run q (w, log) = (Inl x, (w', log')) \<Longrightarrow>
        log' = log \<or> x = Cancelled \<and> (\<exists>e. log' = log @ [e])"
begin

fun serve :: "'q list \<Rightarrow> 'w \<times> 'e list \<Rightarrow> 'r outcome list \<times> ('w \<times> 'e list)" where
  "serve [] s = ([], s)"
| "serve (q # qs) s = (let (r, s1) = run q s; (rs, s2) = serve qs s1 in (r # rs, s2))"

lemma serve_log_grows:
  "serve qs (w, log) = (rs, (w', log')) \<Longrightarrow>
     \<exists>es. log' = log @ es \<and> length es \<le> length qs"
proof (induction qs arbitrary: w log rs)
  case (Cons q qs)
  obtain r w1 log1 where run: "run q (w, log) = (r, (w1, log1))" by (metis prod.exhaust)
  obtain rs2 where rest: "serve qs (w1, log1) = (rs2, (w', log'))"
    using Cons.prems run by (auto simp: Let_def split: prod.splits)
  have "\<exists>es. log1 = log @ es \<and> length es \<le> 1"
    using returned[of q w log] raised[of q w log] run by (cases r) fastforce+
  then show ?case using Cons.IH[OF rest] by fastforce
qed simp

text \<open>When every request returns, the new events correspond one to one, in order, to the results.\<close>

lemma serve_events:
  "serve qs (w, log) = (map Inr rs, (w', log')) \<Longrightarrow>
     \<exists>es. log' = log @ es \<and> length rs = length qs \<and> length es = length qs
       \<and> (\<forall>i < length qs. describes (qs ! i) (rs ! i) (es ! i))"
proof (induction qs arbitrary: w log rs)
  case (Cons q qs)
  obtain r w1 log1 where run: "run q (w, log) = (r, (w1, log1))" by (metis prod.exhaust)
  then obtain r0 rs0 where rs: "rs = r0 # rs0" "r = Inr r0"
    and rest: "serve qs (w1, log1) = (map Inr rs0, (w', log'))"
    using Cons.prems by (auto simp: Let_def split: prod.splits)
  obtain e where e: "log1 = log @ [e]" "describes q r0 e"
    using returned[of q w log r0 w1 log1] run rs(2) by auto
  obtain es where es: "log' = log1 @ es" "length rs0 = length qs" "length es = length qs"
    "\<forall>i < length qs. describes (qs ! i) (rs0 ! i) (es ! i)"
    using Cons.IH[OF rest] by auto
  have "\<forall>i < length (q # qs). describes ((q # qs) ! i) (rs ! i) ((e # es) ! i)"
    using e(2) es(4) rs(1) by (auto simp: nth_Cons split: nat.splits)
  then show ?case using e(1) es rs(1) by (intro exI[of _ "e # es"]) simp
qed simp

end

end
