(* ===== verification/ToolGateway.thy ===== *)
theory ToolGateway
  imports Capabilities Json Boundary
begin

text \<open>
  The read-only tool gateway (\<open>src/erp_ai/tools/\<close>): construction with its checks on the
  installed handlers, the list of available tools, and \<open>execute\<close>, which re-authorizes,
  validates, runs, verifies and audits one invocation. A handler's input and output models are
  its validators; what it does to the ERP is an operation on the world \<open>'w\<close>.
\<close>

section \<open>Envelopes and audit events\<close>

datatype tool_error_code =
    TOOL_UNAVAILABLE
  | INVALID_TOOL_ARGUMENTS
  | READ_ONLY_VIOLATION
  | TOOL_EXECUTION_FAILED
  | INVALID_TOOL_OUTPUT
  | AUDIT_UNAVAILABLE

fun safe_error_message :: "tool_error_code \<Rightarrow> pystr" where
  "safe_error_message TOOL_UNAVAILABLE = lit ''The requested tool is unavailable.''"
| "safe_error_message INVALID_TOOL_ARGUMENTS = lit ''The tool arguments are invalid.''"
| "safe_error_message READ_ONLY_VIOLATION = lit ''Command tools are unavailable in read-only mode.''"
| "safe_error_message TOOL_EXECUTION_FAILED = lit ''The tool could not complete successfully.''"
| "safe_error_message INVALID_TOOL_OUTPUT = lit ''The tool returned an invalid result.''"
| "safe_error_message AUDIT_UNAVAILABLE = lit ''The tool result could not be safely recorded.''"

record tool_invocation =
  inv_tool_name :: pystr
  inv_version :: pystr
  inv_arguments :: "(pystr \<times> json) list"

datatype 'o tool_result =
    PublicToolSuccess (res_tool_name: pystr) (res_version: pystr) (res_result: 'o)
  | PublicToolFailure (res_tool_name: pystr) (res_version: pystr)
      (safe_error_code: tool_error_code) (safe_message: pystr)

datatype audit_outcome = AuditSuccess | AuditFailure

record tool_audit_event =
  tae_request_id :: pystr
  tae_customer_environment_id :: pystr
  tae_user_id :: pystr
  tae_tool_name :: pystr
  tae_tool_version :: pystr
  tae_audit_action :: pystr
  tae_data_classification :: data_classification
  tae_outcome :: audit_outcome
  tae_internal_reason :: string
  tae_purpose :: pystr

definition create_tool_audit_event ::
  "trusted_context \<Rightarrow> pystr \<Rightarrow> pystr \<Rightarrow> audit_outcome \<Rightarrow> string \<Rightarrow> tool_descriptor option
     \<Rightarrow> tool_audit_event" where
  "create_tool_audit_event c name ver outcome reason d =
     \<lparr>tae_request_id = request_id c, tae_customer_environment_id = customer_environment_id c,
      tae_user_id = user_id c, tae_tool_name = name, tae_tool_version = ver,
      tae_audit_action = (case d of Some t \<Rightarrow> audit_action t | None \<Rightarrow> lit ''tool.invocation_denied''),
      tae_data_classification = (case d of Some t \<Rightarrow> data_classification t | None \<Rightarrow> INTERNAL),
      tae_outcome = outcome, tae_internal_reason = reason, tae_purpose = purpose c\<rparr>"

section \<open>Handlers and construction\<close>

record model_config =
  strict :: bool
  frozen :: bool
  extra_forbid :: bool

record ('i, 'raw, 'o, 'w) read_handler =
  h_tool_name :: pystr
  h_version :: pystr
  input_config :: model_config
  output_config :: model_config
  validate_input :: "(pystr \<times> json) list \<Rightarrow> 'i option"
  validate_output :: "'raw \<Rightarrow> 'o option"
  h_execute :: "(trusted_context \<times> 'i, 'w, 'raw outcome) op"

record ('i, 'raw, 'o, 'w) gateway =
  gw_registry :: registry
  gw_handlers :: "('i, 'raw, 'o, 'w) read_handler list"
  gw_sink :: "(tool_audit_event, 'w, unit outcome) op"
  handlers_by_name :: "pystr \<rightharpoonup> ('i, 'raw, 'o, 'w) read_handler"
  descriptors_by_name :: "pystr \<rightharpoonup> tool_descriptor"

definition strict_frozen_model :: "model_config \<Rightarrow> bool" where
  "strict_frozen_model m \<longleftrightarrow> strict m \<and> frozen m"

text \<open>The dictionary comprehension over the registered tools: a later tool wins.\<close>

definition descriptor_dict :: "registry \<Rightarrow> pystr \<rightharpoonup> tool_descriptor" where
  "descriptor_dict r = map_of (rev (map (\<lambda>t. (tool_name t, t)) (registry_tools r)))"

fun install_handlers ::
  "(pystr \<rightharpoonup> tool_descriptor) \<Rightarrow> ('i, 'raw, 'o, 'w) read_handler list
     \<Rightarrow> (pystr \<rightharpoonup> ('i, 'raw, 'o, 'w) read_handler)
     \<Rightarrow> (pystr \<rightharpoonup> ('i, 'raw, 'o, 'w) read_handler) checked" where
  "install_handlers descriptors [] m = Inr m"
| "install_handlers descriptors (h # hs) m =
     raise_if (m (h_tool_name h) \<noteq> None) ''duplicate handler''
       (case descriptors (h_tool_name h) of
          None \<Rightarrow> Inl ''handler has no registered descriptor''
        | Some d \<Rightarrow>
            raise_if (tool_version d \<noteq> h_version h) ''handler version mismatch''
            (raise_if (operation d \<noteq> ReadOp) ''command handlers are forbidden''
            (raise_if (\<not> strict_frozen_model (input_config h))
               ''handler input model must be strict and frozen''
            (raise_if (\<not> extra_forbid (input_config h))
               ''handler input model must forbid extra fields''
            (raise_if (\<not> strict_frozen_model (output_config h))
               ''handler output model must be strict and frozen''
            (install_handlers descriptors hs (m(h_tool_name h \<mapsto> h))))))))"

text \<open>
  The loop inserts every handler of the list, so sorting the dictionary's names and looking each
  one up lists the given handlers by name.
\<close>

definition make_gateway ::
  "registry \<Rightarrow> ('i, 'raw, 'o, 'w) read_handler list \<Rightarrow> (tool_audit_event, 'w, unit outcome) op
     \<Rightarrow> ('i, 'raw, 'o, 'w) gateway checked" where
  "make_gateway r hs sink =
     bindE (install_handlers (descriptor_dict r) hs Map.empty) (\<lambda>by_name.
       Inr \<lparr>gw_registry = r,
            gw_handlers = map (the \<circ> by_name) (sort (map h_tool_name hs)),
            gw_sink = sink, handlers_by_name = by_name, descriptors_by_name = descriptor_dict r\<rparr>)"

definition available_tools ::
  "('i, 'raw, 'o, 'w) gateway \<Rightarrow> trusted_context \<Rightarrow> model_tool list" where
  "available_tools g c =
     filter (\<lambda>t. handlers_by_name g (mt_tool_name t) \<noteq> None)
       (decision_tools (evaluate_capability_access (gw_registry g) c True))"

section \<open>Execution\<close>

definition public_failure :: "tool_invocation \<Rightarrow> tool_error_code \<Rightarrow> 'o tool_result" where
  "public_failure call code =
     PublicToolFailure (inv_tool_name call) (inv_version call) code (safe_error_message code)"

definition gateway_record ::
  "('i, 'raw, 'o, 'w) gateway \<Rightarrow> tool_invocation \<Rightarrow> tool_audit_event \<Rightarrow> 'o tool_result \<Rightarrow> 'w
     \<Rightarrow> 'o tool_result outcome \<times> 'w" where
  "gateway_record g call event result w =
     record_before_return (gw_sink g) (public_failure call AUDIT_UNAVAILABLE) event result w"

definition gateway_failure ::
  "('i, 'raw, 'o, 'w) gateway \<Rightarrow> trusted_context \<Rightarrow> tool_invocation \<Rightarrow> tool_error_code \<Rightarrow> string
     \<Rightarrow> tool_descriptor option \<Rightarrow> 'w \<Rightarrow> 'o tool_result outcome \<times> 'w" where
  "gateway_failure g c call code reason d w =
     gateway_record g call
       (create_tool_audit_event c (inv_tool_name call) (inv_version call) AuditFailure reason d)
       (public_failure call code) w"

definition gateway_execute ::
  "('i, 'raw, 'o, 'w) gateway \<Rightarrow> (trusted_context \<times> tool_invocation, 'w, 'o tool_result outcome) op"
where
  "gateway_execute g q w =
   (let (c, call) = q;
        descriptor = descriptors_by_name g (inv_tool_name call) in
    if (case descriptor of Some d \<Rightarrow> operation d = CommandOp | None \<Rightarrow> False) then
      gateway_failure g c call READ_ONLY_VIOLATION ''command_descriptor_rejected'' descriptor w
    else
     (let decision = evaluate_capability_access (gw_registry g) c True;
          authorized_names = mt_tool_name ` set (decision_tools decision) in
      case (descriptor, handlers_by_name g (inv_tool_name call)) of
        (Some d, Some h) \<Rightarrow>
         (if inv_version call \<noteq> tool_version d \<or> inv_tool_name call \<notin> authorized_names then
            gateway_failure g c call TOOL_UNAVAILABLE ''tool_not_authorized_or_installed'' descriptor w
          else if contains_reserved_argument (JObj (inv_arguments call)) then
            gateway_failure g c call INVALID_TOOL_ARGUMENTS
              ''reserved_context_argument_rejected'' descriptor w
          else
           (case validate_input h (inv_arguments call) of
              None \<Rightarrow> gateway_failure g c call INVALID_TOOL_ARGUMENTS ''input_validation_failed''
                  descriptor w
            | Some args \<Rightarrow>
               (case h_execute h (c, args) w of
                  (Inl Cancelled, w1) \<Rightarrow> (Inl Cancelled, w1)
                | (Inl Failed, w1) \<Rightarrow>
                    gateway_failure g c call TOOL_EXECUTION_FAILED ''handler_execution_failed''
                        descriptor w1
                | (Inr raw, w1) \<Rightarrow>
                   (case validate_output h raw of
                      None \<Rightarrow>
                        gateway_failure g c call INVALID_TOOL_OUTPUT ''output_validation_failed''
                            descriptor w1
                    | Some out \<Rightarrow>
                        gateway_record g call
                          (create_tool_audit_event c (inv_tool_name call) (inv_version call)
                             AuditSuccess ''execution_succeeded'' descriptor)
                          (PublicToolSuccess (inv_tool_name call) (inv_version call) out) w1))))
      | _ \<Rightarrow>
          gateway_failure g c call TOOL_UNAVAILABLE ''tool_not_authorized_or_installed'' descriptor w))"

section \<open>The descriptor dictionary\<close>

lemma descriptor_dict_iff:
  assumes "wf_registry r"
  shows "descriptor_dict r k = Some t \<longleftrightarrow> t \<in> set (registry_tools r) \<and> tool_name t = k"
proof -
  have "distinct (map fst (map (\<lambda>t. (tool_name t, t)) (registry_tools r)))"
    using assms by (simp add: wf_registry_def comp_def)
  then have "map_of (rev (map (\<lambda>t. (tool_name t, t)) (registry_tools r)))
      = map_of (map (\<lambda>t. (tool_name t, t)) (registry_tools r))"
    by (metis distinct_rev map_of_inject_set rev_map set_rev)
  then show ?thesis using \<open>distinct _\<close>
    by (auto simp: descriptor_dict_def map_of_eq_Some_iff)
qed

interpretation gateway_lookup: descriptor_lookup wf_registry descriptor_dict registry_tools
  by unfold_locales (auto simp: wf_registry_def[of r for r] descriptor_dict_iff)

text \<open>The comprehension and the registry's own dictionary are the same map.\<close>

lemma descriptor_dict_registry: "wf_registry r \<Longrightarrow> descriptor_dict r = tools_by_name r"
proof
  fix k
  assume wf: "wf_registry r"
  show "descriptor_dict r k = tools_by_name r k"
    using registry_lookup.lookup_iff[OF wf, of k] gateway_lookup.lookup_iff[OF wf, of k]
    by (cases "descriptor_dict r k"; cases "tools_by_name r k") auto
qed


section \<open>Well-formed gateways\<close>

definition handler_conforms :: "registry \<Rightarrow> ('i, 'raw, 'o, 'w) read_handler \<Rightarrow> bool" where
  "handler_conforms r h \<longleftrightarrow>
     (\<exists>d. descriptor_dict r (h_tool_name h) = Some d \<and> tool_version d = h_version h
        \<and> operation d = ReadOp)
   \<and> strict_frozen_model (input_config h) \<and> extra_forbid (input_config h)
   \<and> strict_frozen_model (output_config h)"

definition wf_gateway :: "('i, 'raw, 'o, 'w) gateway \<Rightarrow> bool" where
  "wf_gateway g \<longleftrightarrow> wf_registry (gw_registry g)
   \<and> descriptors_by_name g = descriptor_dict (gw_registry g)
   \<and> (\<forall>h \<in> set (gw_handlers g). handler_conforms (gw_registry g) h)
   \<and> distinct (map h_tool_name (gw_handlers g)) \<and> sorted (map h_tool_name (gw_handlers g))
   \<and> (\<forall>k h. handlers_by_name g k = Some h \<longleftrightarrow> h \<in> set (gw_handlers g) \<and> h_tool_name h = k)"

text \<open>Installation is the duplicate-rejecting dictionary loop plus a check of every handler.\<close>

lemma install_handlers_Inr:
  "install_handlers (descriptor_dict r) hs m = Inr m' \<longleftrightarrow>
     index_by h_tool_name ''duplicate handler'' hs m = Inr m'
   \<and> (\<forall>h \<in> set hs. handler_conforms r h)"
proof (induction hs arbitrary: m)
  case (Cons h hs)
  then show ?case
    by (cases "descriptor_dict r (h_tool_name h)") (auto simp: handler_conforms_def simp del:
        fun_upd_apply split: if_splits)
qed simp

lemma make_gateway_wf:
  assumes ok: "make_gateway r hs sink = Inr g" and wf: "wf_registry r"
  shows "wf_gateway g" and "mset (gw_handlers g) = mset hs" and "gw_registry g = r"
    and "gw_sink g = sink"
proof -
  obtain m where i: "index_by h_tool_name ''duplicate handler'' hs Map.empty = Inr m"
    and conf: "\<forall>h \<in> set hs. handler_conforms r h"
    and g: "g = \<lparr>gw_registry = r, gw_handlers = map (the \<circ> m) (sort (map h_tool_name hs)),
      gw_sink = sink, handlers_by_name = m, descriptors_by_name = descriptor_dict r\<rparr>"
    using ok by (auto simp: make_gateway_def bindE_Inr_iff install_handlers_Inr)
  note look = index_by_lookup[OF i]
  have own: "the (m (h_tool_name h)) = h" if "h \<in> set hs" for h
    using that look(2) by (metis option.sel)
  have "image_mset (the \<circ> m) (mset (sort (map h_tool_name hs)))
      = image_mset (\<lambda>h. the (m (h_tool_name h))) (mset hs)"
    by (simp add: multiset.map_comp comp_def)
  also have "\<dots> = image_mset (\<lambda>h. h) (mset hs)"
    by (rule image_mset_cong) (simp add: own)
  finally have ms: "mset (map (the \<circ> m) (sort (map h_tool_name hs))) = mset hs" by simp
  have names: "map h_tool_name (map (the \<circ> m) (sort (map h_tool_name hs)))
      = sort (map h_tool_name hs)"
    by (auto simp: comp_def intro!: map_idI) (metis own)
  have st: "set (map (the \<circ> m) (sort (map h_tool_name hs))) = set hs"
    using ms by (metis set_mset_mset)
  show "wf_gateway g" unfolding wf_gateway_def
    using wf conf look names st unfolding g by (simp del: map_map)
  show "mset (gw_handlers g) = mset hs" using ms by (simp add: g)
qed (use ok in \<open>auto simp: make_gateway_def bindE_Inr_iff\<close>)

section \<open>Admission\<close>

text \<open>
  The decisions \<open>execute\<close> takes before it calls a handler: the error code and reason of a
  refusal, or the descriptor, the handler and the validated arguments.
\<close>

definition admission ::
  "('i, 'raw, 'o, 'w) gateway \<Rightarrow> trusted_context \<Rightarrow> tool_invocation
     \<Rightarrow> (tool_error_code \<times> string) + (tool_descriptor \<times> ('i, 'raw, 'o, 'w) read_handler \<times> 'i)"
where
  "admission g c call =
    (case descriptors_by_name g (inv_tool_name call) of
       None \<Rightarrow> Inl (TOOL_UNAVAILABLE, ''tool_not_authorized_or_installed'')
     | Some d \<Rightarrow>
        if operation d = CommandOp then Inl (READ_ONLY_VIOLATION, ''command_descriptor_rejected'')
        else
         (case handlers_by_name g (inv_tool_name call) of
            None \<Rightarrow> Inl (TOOL_UNAVAILABLE, ''tool_not_authorized_or_installed'')
          | Some h \<Rightarrow>
             if inv_version call \<noteq> tool_version d
                \<or> inv_tool_name call \<notin> mt_tool_name `
                    set (decision_tools (evaluate_capability_access (gw_registry g) c True))
             then Inl (TOOL_UNAVAILABLE, ''tool_not_authorized_or_installed'')
             else if contains_reserved_argument (JObj (inv_arguments call))
             then Inl (INVALID_TOOL_ARGUMENTS, ''reserved_context_argument_rejected'')
             else
              (case validate_input h (inv_arguments call) of
                 None \<Rightarrow> Inl (INVALID_TOOL_ARGUMENTS, ''input_validation_failed'')
               | Some args \<Rightarrow> Inr (d, h, args))))"

definition run_admitted ::
  "('i, 'raw, 'o, 'w) gateway \<Rightarrow> trusted_context \<Rightarrow> tool_invocation \<Rightarrow> tool_descriptor
     \<Rightarrow> ('i, 'raw, 'o, 'w) read_handler \<Rightarrow> 'i \<Rightarrow> 'w \<Rightarrow> 'o tool_result outcome \<times> 'w" where
  "run_admitted g c call d h args w =
    (case h_execute h (c, args) w of
       (Inl Cancelled, w1) \<Rightarrow> (Inl Cancelled, w1)
     | (Inl Failed, w1) \<Rightarrow>
         gateway_failure g c call TOOL_EXECUTION_FAILED ''handler_execution_failed'' (Some d) w1
     | (Inr raw, w1) \<Rightarrow>
        (case validate_output h raw of
           None \<Rightarrow> gateway_failure g c call INVALID_TOOL_OUTPUT ''output_validation_failed'' (Some d) w1
         | Some out \<Rightarrow>
             gateway_record g call
               (create_tool_audit_event c (inv_tool_name call) (inv_version call)
                  AuditSuccess ''execution_succeeded'' (Some d))
               (PublicToolSuccess (inv_tool_name call) (inv_version call) out) w1))"

lemma gateway_execute_staged:
  "gateway_execute g (c, call) w =
     (case admission g c call of
        Inl (code, reason) \<Rightarrow>
          gateway_failure g c call code reason (descriptors_by_name g (inv_tool_name call)) w
      | Inr (d, h, args) \<Rightarrow> run_admitted g c call d h args w)"
proof (cases "descriptors_by_name g (inv_tool_name call)")
  case None
  then show ?thesis by (simp add: gateway_execute_def admission_def)
next
  case d: (Some d)
  show ?thesis
  proof (cases "handlers_by_name g (inv_tool_name call)")
    case None
    show ?thesis unfolding gateway_execute_def admission_def Let_def prod.case d None option.case
      by simp
  next
    case h: (Some h)
    show ?thesis
      unfolding gateway_execute_def admission_def run_admitted_def Let_def prod.case d h option.case
      by (simp split: option.split)
  qed
qed

lemma admission_Inr:
  "admission g c call = Inr (d, h, args) \<longleftrightarrow>
     descriptors_by_name g (inv_tool_name call) = Some d \<and> operation d = ReadOp
   \<and> handlers_by_name g (inv_tool_name call) = Some h \<and> inv_version call = tool_version d
   \<and> inv_tool_name call \<in> mt_tool_name `
        set (decision_tools (evaluate_capability_access (gw_registry g) c True))
   \<and> \<not> contains_reserved_argument (JObj (inv_arguments call))
   \<and> validate_input h (inv_arguments call) = Some args"
  unfolding admission_def
  by (cases "descriptors_by_name g (inv_tool_name call)";
      cases "handlers_by_name g (inv_tool_name call)"; cases "operation d")
    (auto split: if_splits option.splits tool_operation.splits intro: tool_operation.exhaust)

lemma admission_Inl_codes:
  "admission g c call = Inl (code, reason) \<Longrightarrow>
     code \<in> {TOOL_UNAVAILABLE, READ_ONLY_VIOLATION, INVALID_TOOL_ARGUMENTS}"
  unfolding admission_def by (auto split: if_splits option.splits)

text \<open>Being authorized by name means a manifest of enabled modules declares the very descriptor.\<close>

lemma authorized_descriptor:
  assumes wf: "wf_gateway g" and d: "descriptors_by_name g k = Some d"
  shows "k \<in> mt_tool_name ` set (decision_tools (evaluate_capability_access (gw_registry g) c ro))
     \<longleftrightarrow> (\<exists>m \<in> set (manifests (gw_registry g)). d \<in> set (tools m) \<and> modules_enabled c m)
        \<and> tool_authorized ro c d"
proof -
  have r: "wf_registry (gw_registry g)" and dict: "descriptor_dict (gw_registry g) k = Some d"
    using wf d by (auto simp: wf_gateway_def)
  have mem: "t \<in> set (registry_tools (gw_registry g))"
    if "m \<in> set (manifests (gw_registry g))" "t \<in> set (tools m)" for m t
    using that by (auto simp: registry_tools_def)
  have dk: "d \<in> set (registry_tools (gw_registry g))" "tool_name d = k"
    using gateway_lookup.lookup_iff[OF r] dict by auto
  have same: "t = d" if "m \<in> set (manifests (gw_registry g))" "t \<in> set (tools m)" "tool_name t = k"
    for m t using gateway_lookup.same_name[OF r mem[OF that(1,2)] dk(1)] that(3) dk(2) by simp
  show ?thesis unfolding exposed_iff using same dk(2) by metis
qed


section \<open>Results\<close>

lemma gateway_record_result:
  "gateway_record g call e r w = (Inr x, w') \<Longrightarrow> x = r \<or> x = public_failure call AUDIT_UNAVAILABLE"
  unfolding gateway_record_def by (elim record_before_return_cases) auto

lemma gateway_failure_result:
  "gateway_failure g c call code reason d w = (Inr x, w')
     \<Longrightarrow> x = public_failure call code \<or> x = public_failure call AUDIT_UNAVAILABLE"
  unfolding gateway_failure_def by (rule gateway_record_result)

lemma public_failure_not_success [simp]:
  "public_failure call code \<noteq> PublicToolSuccess n v r" "PublicToolSuccess n v r \<noteq> public_failure call
      code"
  by (simp_all add: public_failure_def)

lemma public_failure_inject [simp]:
  "(public_failure call code :: 'o tool_result) = public_failure call code' \<longleftrightarrow> code = code'"
  by (auto simp: public_failure_def)

lemma gateway_success_cases:
  assumes "gateway_execute g (c, call) w = (Inr (PublicToolSuccess n v out), w')"
  obtains d h args raw w1 where
    "admission g c call = Inr (d, h, args)" "h_execute h (c, args) w = (Inr raw, w1)"
    "validate_output h raw = Some out" "n = inv_tool_name call" "v = inv_version call"
    "gw_sink g (create_tool_audit_event c n v AuditSuccess ''execution_succeeded'' (Some d)) w1
       = (Inr (), w')"
proof (cases "admission g c call")
  case (Inl e)
  then show ?thesis using assms gateway_failure_result
    by (cases e) (fastforce simp: gateway_execute_staged)
next
  case (Inr x)
  obtain d h args where x: "x = (d, h, args)" by (metis prod.exhaust)
  then have run: "run_admitted g c call d h args w = (Inr (PublicToolSuccess n v out), w')"
    using assms Inr by (simp add: gateway_execute_staged)
  obtain hr w1 where hx: "h_execute h (c, args) w = (hr, w1)" by (metis prod.exhaust)
  show ?thesis
  proof (cases hr)
    case (Inl e)
    then show ?thesis using run hx gateway_failure_result
      by (cases e) (fastforce simp: run_admitted_def)+
  next
    case hr: (Inr raw)
    show ?thesis
    proof (cases "validate_output h raw")
      case None
      then show ?thesis using run hx hr gateway_failure_result by (fastforce simp: run_admitted_def)
    next
      case (Some o')
      then have rec: "gateway_record g call
          (create_tool_audit_event c (inv_tool_name call) (inv_version call) AuditSuccess
             ''execution_succeeded'' (Some d))
          (PublicToolSuccess (inv_tool_name call) (inv_version call) o') w1
          = (Inr (PublicToolSuccess n v out), w')"
        using run hx hr by (simp add: run_admitted_def)
      then show ?thesis using that[of d h args raw w1] Inr x hx hr Some unfolding gateway_record_def
        by (elim record_before_return_cases) auto
    qed
  qed
qed

section \<open>The audit log of a gateway\<close>

definition trace_handler ::
  "('i, 'raw, 'o, 'w) read_handler \<Rightarrow> ('i, 'raw, 'o, 'w \<times> 'e list) read_handler" where
  "trace_handler h = \<lparr>h_tool_name = h_tool_name h, h_version = h_version h,
     input_config = input_config h, output_config = output_config h,
     validate_input = validate_input h, validate_output = validate_output h,
     h_execute = untraced (h_execute h)\<rparr>"

definition trace_gateway ::
  "('i, 'raw, 'o, 'w) gateway \<Rightarrow> ('i, 'raw, 'o, 'w \<times> tool_audit_event list) gateway" where
  "trace_gateway g = \<lparr>gw_registry = gw_registry g, gw_handlers = map trace_handler (gw_handlers g),
     gw_sink = traced id (gw_sink g),
     handlers_by_name = map_option trace_handler \<circ> handlers_by_name g,
     descriptors_by_name = descriptors_by_name g\<rparr>"

text \<open>The event identifies the request, the caller, and the outcome that was decided.\<close>

definition event_describes ::
  "trusted_context \<times> tool_invocation \<Rightarrow> 'o tool_result \<Rightarrow> tool_audit_event \<Rightarrow> bool" where
  "event_describes q r e \<longleftrightarrow> (let (c, call) = q in
     tae_request_id e = request_id c \<and> tae_customer_environment_id e = customer_environment_id c
   \<and> tae_user_id e = user_id c \<and> tae_purpose e = purpose c
   \<and> tae_tool_name e = inv_tool_name call \<and> tae_tool_version e = inv_version call
   \<and> (case r of
        PublicToolSuccess _ _ _ \<Rightarrow> tae_outcome e = AuditSuccess
      | PublicToolFailure _ _ code _ \<Rightarrow> code \<noteq> AUDIT_UNAVAILABLE \<longrightarrow> tae_outcome e = AuditFailure))"

lemma trace_handler_simps [simp]:
  "h_execute (trace_handler h) = untraced (h_execute h)"
  "validate_output (trace_handler h) = validate_output h"
  by (simp_all add: trace_handler_def)

lemma gw_sink_trace [simp]: "gw_sink (trace_gateway g) = traced id (gw_sink g)"
  by (simp add: trace_gateway_def)

lemma gateway_record_log:
  assumes "gateway_record (trace_gateway g) call e r (w, log) = (x, (w', log'))"
  shows "log' = log @ [e]"
    and "x = Inr r \<or> x = Inr (public_failure call AUDIT_UNAVAILABLE) \<or> x = Inl Cancelled"
proof -
  show "log' = log @ [e]"
    using record_before_return_traced[OF assms[unfolded gateway_record_def gw_sink_trace]] by simp
  show "x = Inr r \<or> x = Inr (public_failure call AUDIT_UNAVAILABLE) \<or> x = Inl Cancelled"
    using assms unfolding gateway_record_def by (elim record_before_return_cases) auto
qed

lemma gateway_failure_log:
  assumes "gateway_failure (trace_gateway g) c call code reason d (w, log) = (x, (w', log'))"
  shows "log' = log @ [create_tool_audit_event c (inv_tool_name call) (inv_version call) AuditFailure
      reason d]"
    and "x = Inr (public_failure call code) \<or> x = Inr (public_failure call AUDIT_UNAVAILABLE)
      \<or> x = Inl Cancelled"
  using gateway_record_log[OF assms[unfolded gateway_failure_def]] by simp_all

lemma admission_trace:
  "admission (trace_gateway g) c call
     = map_sum id (\<lambda>(d, h, args). (d, trace_handler h, args)) (admission g c call)"
  by (auto simp: admission_def trace_gateway_def trace_handler_def split: option.split)

lemma trace_admitted_handler:
  assumes "admission (trace_gateway g) c call = Inr (d, h, args)"
  shows "\<exists>h0. h = trace_handler h0"
  using assms unfolding admission_trace by (cases "admission g c call") auto

lemma gateway_execute_log:
  assumes run: "gateway_execute (trace_gateway g) (c, call) (w, log) = (x, (w', log'))"
  shows "(x = Inl Cancelled \<and> log' = log) \<or> (\<exists>e. log' = log @ [e]
      \<and> (x = Inl Cancelled \<or> (\<exists>r. x = Inr r \<and> event_describes (c, call) r e)))"
proof -
  let ?g = "trace_gateway g"
  have failed: ?thesis
    if "gateway_failure ?g c call code reason d (w1, log) = (x, (w', log'))" for code reason d w1
    using gateway_failure_log[OF that]
    by (auto simp: event_describes_def create_tool_audit_event_def public_failure_def)
  show ?thesis
  proof (cases "admission ?g c call")
    case (Inl e)
    then show ?thesis using run failed by (cases e) (auto simp: gateway_execute_staged)
  next
    case (Inr y)
    obtain d h args where y: "y = (d, h, args)" by (metis prod.exhaust)
    with Inr have adm: "admission ?g c call = Inr (d, h, args)" by simp
    obtain h0 where h0: "h = trace_handler h0" using trace_admitted_handler[OF adm] by (elim exE)
    obtain hr w1 log1 where hx: "h_execute h (c, args) (w, log) = (hr, (w1, log1))"
      by (metis prod.exhaust)
    then have log1: "log1 = log" using h0 by (auto dest: untraced_eqD)
    have run': "run_admitted ?g c call d h args (w, log) = (x, (w', log'))"
      using run adm by (simp add: gateway_execute_staged)
    consider (c) "hr = Inl Cancelled" | (f) "hr = Inl Failed" | (v) raw where "hr = Inr raw"
      by (metis exn.exhaust sum.exhaust)
    then show ?thesis
    proof cases
      case c
      then show ?thesis using run' hx log1 by (simp add: run_admitted_def)
    next
      case f
      then show ?thesis using run' hx log1 failed by (simp add: run_admitted_def)
    next
      case (v raw)
      show ?thesis
      proof (cases "validate_output h raw")
        case None
        then show ?thesis using run' hx log1 failed v by (simp add: run_admitted_def)
      next
        case (Some out)
        then have "gateway_record ?g call
          (create_tool_audit_event c (inv_tool_name call) (inv_version call) AuditSuccess
             ''execution_succeeded'' (Some d))
          (PublicToolSuccess (inv_tool_name call) (inv_version call) out) (w1, log)
          = (x, (w', log'))"
          using run' hx log1 v by (simp add: run_admitted_def)
        from gateway_record_log[OF this] show ?thesis
          by (auto simp: event_describes_def create_tool_audit_event_def public_failure_def)
      qed
    qed
  qed
qed

text \<open>The request of the contract carries the gateway, so that it holds of every gateway.\<close>

definition served_by ::
  "('i, 'raw, 'o, 'w) gateway \<times> trusted_context \<times> tool_invocation \<Rightarrow> 'w \<times> tool_audit_event list
     \<Rightarrow> 'o tool_result outcome \<times> ('w \<times> tool_audit_event list)" where
  "served_by q s = (case q of (g, c, call) \<Rightarrow> gateway_execute (trace_gateway g) (c, call) s)"

interpretation gateway_audit: audited_operation served_by
    "\<lambda>q r e. event_describes (snd q) r e"
  by unfold_locales (auto simp: served_by_def dest!: gateway_execute_log)


section \<open>A concrete gateway\<close>

text \<open>One capability with one read tool, whose handler counts the caller's roles.\<close>

definition sample_registry :: registry where
  "sample_registry = projr (make_registry [sample_manifest])"

definition sample_handler :: "(unit, nat, nat, nat) read_handler" where
  "sample_handler = \<lparr>h_tool_name = lit ''count_roles'', h_version = lit ''1.0.0'',
     input_config = \<lparr>strict = True, frozen = True, extra_forbid = True\<rparr>,
     output_config = \<lparr>strict = True, frozen = True, extra_forbid = True\<rparr>,
     validate_input = (\<lambda>args. if args = [] then Some () else None), validate_output = Some,
     h_execute = (\<lambda>(c, _) w. (Inr (length (roles c)), w + 1))\<rparr>"

definition sample_sink :: "(tool_audit_event, nat, unit outcome) op" where
  "sample_sink e w = (Inr (), w + 10)"

definition sample_gateway :: "(unit, nat, nat, nat) gateway" where
  "sample_gateway = projr (make_gateway sample_registry [sample_handler] sample_sink)"

definition sample_call :: tool_invocation where
  "sample_call = \<lparr>inv_tool_name = lit ''count_roles'', inv_version = lit ''1.0.0'',
     inv_arguments = []\<rparr>"

lemma sample_fields [simp]:
  "h_tool_name sample_handler = lit ''count_roles''" "h_version sample_handler = lit ''1.0.0''"
  "strict_frozen_model (input_config sample_handler)" "extra_forbid (input_config sample_handler)"
  "strict_frozen_model (output_config sample_handler)"
  "validate_input sample_handler args = (if args = [] then Some () else None)"
  "validate_output sample_handler n = Some n"
  "h_execute sample_handler (c, u) w = (Inr (length (roles c)), w + 1)"
  "tool_name sample_tool = lit ''count_roles''" "tool_version sample_tool = lit ''1.0.0''"
  "operation sample_tool = ReadOp" "tools sample_manifest = [sample_tool]"
  "inv_tool_name sample_call = lit ''count_roles''" "inv_version sample_call = lit ''1.0.0''"
  "inv_arguments sample_call = []" "sample_sink e w = (Inr (), w + 10)"
  "length (roles sample_context) = 1"
  by (simp_all add: sample_handler_def sample_tool_def sample_manifest_def sample_call_def
      sample_sink_def sample_context_def strict_frozen_model_def)

lemma sample_authorized:
  "tool_authorized True (sample_context\<lparr>purpose := p\<rparr>) sample_tool \<longleftrightarrow> p = lit ''self_service''"
  "tool_authorized True sample_context sample_tool" "modules_enabled sample_context sample_manifest"
  by (auto simp: sample_context_def tool_authorized_def sample_tool_def modules_enabled_def
      sample_manifest_def)

lemma sample_registry: "make_registry [sample_manifest] = Inr sample_registry"
  by (simp add: sample_registry_def make_registry_def)

lemma sample_manifests: "manifests sample_registry = [sample_manifest]"
  by (simp add: sample_registry_def make_registry_def)

lemma sample_dict: "descriptor_dict sample_registry = [lit ''count_roles'' \<mapsto> sample_tool]"
  by (simp add: descriptor_dict_def registry_tools_def sample_manifests)

lemma sample_gateway: "make_gateway sample_registry [sample_handler] sample_sink = Inr sample_gateway"
  by (simp add: sample_gateway_def make_gateway_def sample_dict)

lemma sample_lookup [simp]:
  "handlers_by_name sample_gateway = [lit ''count_roles'' \<mapsto> sample_handler]"
  "descriptors_by_name sample_gateway = [lit ''count_roles'' \<mapsto> sample_tool]"
  "gw_registry sample_gateway = sample_registry" "gw_sink sample_gateway = sample_sink"
  by (simp_all add: sample_gateway_def make_gateway_def sample_dict)

lemma sample_decision: "decision_tools (evaluate_capability_access sample_registry sample_context True)
    = [model_tool_of sample_tool]"
  unfolding evaluate_capability_access_tools by (simp add: sample_manifests sample_authorized)

lemma sample_admission:
  "admission sample_gateway sample_context sample_call = Inr (sample_tool, sample_handler, ())"
  by (simp add: admission_Inr sample_decision model_tool_of_def)

lemma sample_execute:
  "gateway_execute sample_gateway (sample_context, sample_call) w
     = (Inr (PublicToolSuccess (lit ''count_roles'') (lit ''1.0.0'') 1), w + 11)"
  by (simp add: gateway_execute_staged sample_admission run_admitted_def
      gateway_record_def record_before_return_def)

section \<open>Properties\<close>

lemma admitted_tool:
  assumes wf: "wf_gateway g" and adm: "admission g c call = Inr (d, h, args)"
  shows "\<exists>m \<in> set (manifests (gw_registry g)). d \<in> set (tools m) \<and> modules_enabled c m"
    and "tool_authorized True c d" and "tool_name d = inv_tool_name call"
    and "tool_version d = inv_version call" and "h \<in> set (gw_handlers g)"
    and "h_tool_name h = inv_tool_name call"
proof -
  have d: "descriptors_by_name g (inv_tool_name call) = Some d"
    and names: "inv_tool_name call \<in> mt_tool_name `
        set (decision_tools (evaluate_capability_access (gw_registry g) c True))"
    and h: "handlers_by_name g (inv_tool_name call) = Some h"
    using adm unfolding admission_Inr by blast+
  show "\<exists>m \<in> set (manifests (gw_registry g)). d \<in> set (tools m) \<and> modules_enabled c m"
    and "tool_authorized True c d"
    using names authorized_descriptor[OF wf d] by blast+
  have "wf_registry (gw_registry g)" "descriptor_dict (gw_registry g) (inv_tool_name call) = Some d"
    using wf d by (simp_all add: wf_gateway_def)
  then show "tool_name d = inv_tool_name call" by (rule gateway_lookup.lookup_name)
  show "tool_version d = inv_version call" using adm unfolding admission_Inr by simp
  show "h \<in> set (gw_handlers g)" "h_tool_name h = inv_tool_name call"
    using h wf by (simp_all add: wf_gateway_def)
qed

text \<open>C2: Whenever the gateway returns a success, the tool is registered as a read tool under the
  requested name and version in a capability all of whose modules are enabled; the caller holds
  the permissions, a required role, the purpose and the employee link it asks for; no argument
  at any depth has the name of a trusted context field; the result is what the installed handler
  returned for the validated arguments, validated; and the success event was recorded.\<close>

theorem gateway_success_authorized:
  assumes "make_registry ms = Inr r" and "make_gateway r hs sink = Inr g"
    and "gateway_execute g (c, call) w = (Inr (PublicToolSuccess n v out), w')"
  shows "\<exists>m d h args raw w1. m \<in> set ms \<and> d \<in> set (tools m) \<and> h \<in> set hs
    \<and> tool_name d = n \<and> tool_version d = v \<and> n = inv_tool_name call \<and> v = inv_version call
    \<and> operation d = ReadOp \<and> modules_enabled c m \<and> tool_authorized True c d
    \<and> h_tool_name h = n
    \<and> (\<forall>k \<in> set RESERVED_ARGUMENT_NAMES. \<not> mentions_key k (JObj (inv_arguments call)))
    \<and> validate_input h (inv_arguments call) = Some args
    \<and> h_execute h (c, args) w = (Inr raw, w1) \<and> validate_output h raw = Some out
    \<and> sink (create_tool_audit_event c n v AuditSuccess ''execution_succeeded'' (Some d)) w1
        = (Inr (), w')"
proof -
  note g = make_gateway_wf[OF assms(2) make_registry_wf[OF assms(1)]]
  have ms: "set (manifests r) = set ms"
    using make_registry_manifests[OF assms(1)] by (metis set_mset_mset)
  have hs: "set (gw_handlers g) = set hs" using g(2) by (metis set_mset_mset)
  obtain d h args raw w1 where adm: "admission g c call = Inr (d, h, args)"
    and run: "h_execute h (c, args) w = (Inr raw, w1)" "validate_output h raw = Some out"
    and nv: "n = inv_tool_name call" "v = inv_version call"
    and sink: "gw_sink g (create_tool_audit_event c n v AuditSuccess ''execution_succeeded'' (Some d))
        w1
       = (Inr (), w')"
    using gateway_success_cases[OF assms(3)] by metis
  note a = adm[unfolded admission_Inr] and t = admitted_tool[OF g(1) adm]
  from t(1) obtain m where "m \<in> set ms" "d \<in> set (tools m)" "modules_enabled c m"
    using ms g(3) by auto
  then show ?thesis
    using a t(2-6) run nv sink g(4) hs contains_reserved_argument_iff[of "JObj (inv_arguments call)"]
    by metis
qed

theorem gateway_success_authorized_witness:
  "\<exists>m d h args raw w1. m \<in> set [sample_manifest] \<and> d \<in> set (tools m) \<and> h \<in> set [sample_handler]
    \<and> tool_name d = lit ''count_roles'' \<and> tool_version d = lit ''1.0.0''
    \<and> lit ''count_roles'' = inv_tool_name sample_call \<and> lit ''1.0.0'' = inv_version sample_call
    \<and> operation d = ReadOp \<and> modules_enabled sample_context m
    \<and> tool_authorized True sample_context d \<and> h_tool_name h = lit ''count_roles''
    \<and> (\<forall>k \<in> set RESERVED_ARGUMENT_NAMES. \<not> mentions_key k (JObj (inv_arguments sample_call)))
    \<and> validate_input h (inv_arguments sample_call) = Some args
    \<and> h_execute h (sample_context, args) 5 = (Inr raw, w1) \<and> validate_output h raw = Some (1::nat)
    \<and> sample_sink (create_tool_audit_event sample_context (lit ''count_roles'') (lit ''1.0.0'')
          AuditSuccess ''execution_succeeded'' (Some d)) w1 = (Inr (), 16)"
  by (rule gateway_success_authorized[OF sample_registry sample_gateway, where w = 5])
    (simp add: sample_execute)

text \<open>An invocation that no enabled, authorized read tool of that name and version answers is
  refused before any handler runs: the gateway does nothing but record the refusal and report
  \<open>TOOL_UNAVAILABLE\<close>, or \<open>READ_ONLY_VIOLATION\<close> for a command.\<close>

theorem gateway_refuses_unauthorized:
  assumes "make_registry ms = Inr r" and "make_gateway r hs sink = Inr g"
    and "\<not> (\<exists>m \<in> set ms. \<exists>d \<in> set (tools m). tool_name d = inv_tool_name call
           \<and> tool_version d = inv_version call \<and> modules_enabled c m \<and> tool_authorized True c d)"
  shows "\<exists>code reason d. code \<in> {TOOL_UNAVAILABLE, READ_ONLY_VIOLATION}
    \<and> gateway_execute g (c, call) w
        = record_before_return sink (public_failure call AUDIT_UNAVAILABLE)
            (create_tool_audit_event c (inv_tool_name call) (inv_version call) AuditFailure reason d)
            (public_failure call code) w"
proof -
  note g = make_gateway_wf[OF assms(2) make_registry_wf[OF assms(1)]]
  have ms: "set (manifests (gw_registry g)) = set ms"
    using make_registry_manifests[OF assms(1)] g(3) by (metis set_mset_mset)
  obtain code reason where adm: "admission g c call = Inl (code, reason)"
  proof (cases "admission g c call")
    case (Inr x)
    then obtain d h args where "admission g c call = Inr (d, h, args)" by (metis prod.exhaust)
    from admitted_tool[OF g(1) this] ms assms(3) show ?thesis by metis
  qed (metis prod.exhaust that)
  have "code \<in> {TOOL_UNAVAILABLE, READ_ONLY_VIOLATION}"
  proof (rule ccontr)
    assume "\<not> ?thesis"
    then obtain d where d: "descriptors_by_name g (inv_tool_name call) = Some d"
      and v: "inv_version call = tool_version d"
      and n: "inv_tool_name call \<in> mt_tool_name `
        set (decision_tools (evaluate_capability_access (gw_registry g) c True))"
      using adm unfolding admission_def by (auto split: option.splits if_splits)
    have "tool_name d = inv_tool_name call"
      using gateway_lookup.lookup_name g(1) d by (auto simp: wf_gateway_def)
    then show False using authorized_descriptor[OF g(1) d, THEN iffD1, OF n] v ms assms(3) by metis
  qed
  then show ?thesis using adm g(4)
    by (simp add: gateway_execute_staged gateway_failure_def gateway_record_def) metis
qed

theorem gateway_refuses_unauthorized_witness:
  "\<exists>code reason d. code \<in> {TOOL_UNAVAILABLE, READ_ONLY_VIOLATION}
    \<and> gateway_execute sample_gateway (sample_context\<lparr>purpose := lit ''payroll''\<rparr>, sample_call) 5 =
        record_before_return sample_sink (public_failure sample_call AUDIT_UNAVAILABLE)
            (create_tool_audit_event (sample_context\<lparr>purpose := lit ''payroll''\<rparr>)
               (inv_tool_name sample_call) (inv_version sample_call) AuditFailure reason d)
            (public_failure sample_call code) 5"
  by (rule gateway_refuses_unauthorized[OF sample_registry sample_gateway])
    (simp add: sample_authorized)

text \<open>A listed tool works: if \<open>available_tools\<close> offers a tool and the invocation names it with
  its version, uses no reserved name, and its arguments validate, then the handler of that name is
  run on them, and when it returns a valid result and the event is recorded, that result is the
  answer.\<close>

theorem gateway_available_tool_runs:
  assumes "make_registry ms = Inr r" and "make_gateway r hs sink = Inr g"
    and "t \<in> set (available_tools g c)"
    and "inv_tool_name call = mt_tool_name t" and "inv_version call = mt_version t"
    and "\<not> contains_reserved_argument (JObj (inv_arguments call))"
    and "h \<in> set hs" and "h_tool_name h = mt_tool_name t"
    and "validate_input h (inv_arguments call) = Some args"
    and "h_execute h (c, args) w = (Inr raw, wh)" and "validate_output h raw = Some out"
    and "\<And>e. sink e wh = (Inr (), w')"
  shows "gateway_execute g (c, call) w
    = (Inr (PublicToolSuccess (mt_tool_name t) (mt_version t) out), w')"
proof -
  note g = make_gateway_wf[OF assms(2) make_registry_wf[OF assms(1)]]
  note wf = g(1)[unfolded wf_gateway_def]
  have hs: "set (gw_handlers g) = set hs" using g(2) by (metis set_mset_mset)
  have h: "handlers_by_name g (inv_tool_name call) = Some h" using wf hs assms(4,7,8) by simp
  have tt: "t \<in> set (decision_tools (evaluate_capability_access (gw_registry g) c True))"
    using assms(3) by (simp add: available_tools_def)
  then obtain m u where u: "m \<in> set (manifests (gw_registry g))" "u \<in> set (tools m)" "tool_authorized
      True c u" "t = model_tool_of u"
    unfolding evaluate_capability_access_tools by auto
  then have "u \<in> set (registry_tools (gw_registry g))" by (auto simp: registry_tools_def)
  then have d: "descriptors_by_name g (inv_tool_name call) = Some u"
    using wf gateway_lookup.lookup_registered[of "gw_registry g" u] assms(4) u(4)
    by (simp add: model_tool_of_def)
  have "operation u = ReadOp" using u(3) by (simp add: tool_authorized_def)
  moreover have "inv_version call = tool_version u" using assms(5) u(4) by (simp add: model_tool_of_def)
  moreover have "inv_tool_name call \<in> mt_tool_name `
      set (decision_tools (evaluate_capability_access (gw_registry g) c True))"
    unfolding assms(4) using tt by (rule imageI)
  ultimately have "admission g c call = Inr (u, h, args)" unfolding admission_Inr
    using d h assms(6,9) by blast
  then show ?thesis using assms(4,5,10-12) g(4)
    by (simp add: gateway_execute_staged run_admitted_def gateway_record_def record_before_return_def)
qed

theorem gateway_available_tool_runs_witness:
  "gateway_execute sample_gateway (sample_context, sample_call) 5
    = (Inr (PublicToolSuccess (mt_tool_name (model_tool_of sample_tool))
         (mt_version (model_tool_of sample_tool)) (1::nat)), 16)"
  by (rule gateway_available_tool_runs[OF sample_registry sample_gateway, where h = sample_handler
        and args = "()" and raw = 1 and wh = 6])
    (simp_all add: available_tools_def sample_decision model_tool_of_def)

text \<open>Over any sequence of invocations that return, the audit log grows by exactly one event per
  invocation, in order, and the i-th event names the caller, purpose, tool and version of the i-th
  invocation and the outcome its result reports.\<close>

theorem gateway_one_event_per_result:
  assumes "gateway_audit.serve (map (Pair g) qs) (w, log) = (map Inr rs, (w', log'))"
  shows "\<exists>es. log' = log @ es \<and> length rs = length qs \<and> length es = length qs
    \<and> (\<forall>i < length qs. event_describes (qs ! i) (rs ! i) (es ! i))"
  using gateway_audit.serve_events[OF assms] by simp

theorem gateway_one_event_per_result_witness:
  "\<exists>es. snd (snd (gateway_audit.serve (map (Pair sample_gateway) [(sample_context, sample_call)]) (5,
      []))) = [] @ es \<and> length [PublicToolSuccess (lit ''count_roles'') (lit ''1.0.0'') (1::nat)]
        = length [(sample_context, sample_call)]
    \<and> length es = length [(sample_context, sample_call)]
    \<and> (\<forall>i < length [(sample_context, sample_call)]. event_describes ([(sample_context, sample_call)] !
        i) ([PublicToolSuccess (lit ''count_roles'') (lit ''1.0.0'') (1::nat)] ! i) (es ! i))"
proof -
  let ?e = "create_tool_audit_event sample_context (lit ''count_roles'') (lit ''1.0.0'') AuditSuccess
      ''execution_succeeded'' (Some sample_tool)"
  have run: "gateway_audit.serve (map (Pair sample_gateway) [(sample_context, sample_call)]) (5, []) =
      (map Inr [PublicToolSuccess (lit ''count_roles'') (lit ''1.0.0'') 1], (16, [?e]))"
    by (simp add: served_by_def gateway_execute_staged admission_trace sample_admission
        run_admitted_def gateway_record_def record_before_return_def traced_def untraced_def)
  show ?thesis using gateway_one_event_per_result[OF run] run by simp
qed

end
