(* ===== verification/HrCore.thy ===== *)
theory HrCore
  imports ToolGateway
begin

text \<open>
  The HR Core capability (\<open>src/erp_ai/capabilities/hr_core/\<close>): the provider record and its
  validators, the manifest, and the self-profile handler. The locale \<open>scoped_reader\<close> states the
  contract every self-service handler of the HR capabilities has: it answers only from records
  of the linked employee in the authorized legal entities.
\<close>

section \<open>The self-service contract\<close>

locale scoped_reader =
  fixes exec :: "(trusted_context \<times> 'i, 'w, 'o outcome) op"
    and served :: "trusted_context \<times> 'i \<Rightarrow> 'w \<Rightarrow> 'r list"
    and owner :: "'r \<Rightarrow> pystr" and entity :: "'r \<Rightarrow> pystr"
  assumes scoped: "exec (c, i) w = (Inr out, w') \<Longrightarrow>
      \<exists>e. employee_id c = Some e
        \<and> (\<forall>r \<in> set (served (c, i) w). owner r = e \<and> entity r \<in> set (legal_entity_ids c))"
begin

definition foreign :: "trusted_context \<Rightarrow> 'r \<Rightarrow> bool" where
  "foreign c r \<longleftrightarrow> Some (owner r) \<noteq> employee_id c \<or> entity r \<notin> set (legal_entity_ids c)"

lemma foreign_record_withheld:
  assumes "r \<in> set (served (c, i) w)" and "foreign c r"
  shows "\<exists>x. fst (exec (c, i) w) = Inl x"
proof (rule ccontr)
  assume "\<not> ?thesis"
  then obtain out where "fst (exec (c, i) w) = Inr out" by (metis sum.exhaust)
  then have "exec (c, i) w = (Inr out, snd (exec (c, i) w))" by (metis prod.collapse)
  from scoped[OF this] assms show False by (auto simp: foreign_def)
qed

lemma unlinked_caller_refused:
  assumes "employee_id c = None"
  shows "\<exists>x. fst (exec (c, i) w) = Inl x"
proof (rule ccontr)
  assume "\<not> ?thesis"
  then obtain out where "fst (exec (c, i) w) = Inr out" by (metis sum.exhaust)
  then have "exec (c, i) w = (Inr out, snd (exec (c, i) w))" by (metis prod.collapse)
  from scoped[OF this] assms show False by simp
qed

text \<open>A served record has one reader: nobody linked to another employee gets an answer from it.\<close>

lemma single_reader:
  assumes "exec (c, i) w = (Inr out, w')" and "exec (c', i') w1 = (Inr out', w1')"
    and "r \<in> set (served (c, i) w)" and "r \<in> set (served (c', i') w1)"
  shows "employee_id c = employee_id c'"
  using scoped[OF assms(1)] scoped[OF assms(2)] assms(3,4) by auto

end

section \<open>Provider calls\<close>

text \<open>
  A provider either takes the trusted context or, in its older form, the authorization fields one
  by one; the handlers choose by the provider's \<open>uses_trusted_context\<close> attribute.
\<close>

datatype 'a provider_call =
    ContextCall trusted_context 'a
  | LegacyCall pystr pystr "pystr list" "pystr option" 'a

record ('a, 'r, 'w) read_provider =
  uses_trusted_context :: bool
  provider_read :: "('a provider_call, 'w, 'r outcome) op"

definition call_provider ::
  "('a, 'r, 'w) read_provider \<Rightarrow> bool \<Rightarrow> trusted_context \<Rightarrow> pystr \<Rightarrow> 'a \<Rightarrow> 'w \<Rightarrow> 'r outcome \<times> 'w" where
  "call_provider p with_snapshot c emp a w = provider_read p
     (if uses_trusted_context p then ContextCall c a
      else LegacyCall (customer_environment_id c) emp (legal_entity_ids c)
        (if with_snapshot then Some (authorization_snapshot_id c) else None) a) w"

section \<open>Profile records\<close>

datatype employment_status =
  ACTIVE | PROBATION | ON_LEAVE | SUSPENDED | TERMINATED | RESIGNED | RETIRED | INACTIVE

record employee_profile =
  ep_employee_number :: pystr
  ep_display_name :: pystr
  ep_work_email :: pystr
  ep_job_title :: "pystr option"
  ep_department_name :: "pystr option"
  ep_branch_name :: "pystr option"
  ep_legal_entity_name :: "pystr option"
  ep_employment_status :: employment_status
  ep_hire_date :: int
  ep_manager_display_name :: "pystr option"
  ep_freshness_at :: py_datetime

record employee_profile_record = employee_profile +
  ep_employee_id :: pystr
  ep_legal_entity_id :: pystr

fun validate_employment_status :: "pystr \<Rightarrow> employment_status checked" where
  "validate_employment_status s =
     (if s = lit ''active'' then Inr ACTIVE else if s = lit ''probation'' then Inr PROBATION
      else if s = lit ''on_leave'' then Inr ON_LEAVE else if s = lit ''suspended'' then Inr SUSPENDED
      else if s = lit ''terminated'' then Inr TERMINATED else if s = lit ''resigned'' then Inr RESIGNED
      else if s = lit ''retired'' then Inr RETIRED else if s = lit ''inactive'' then Inr INACTIVE
      else Inl ''not a valid EmploymentStatus'')"

definition display_text :: "pystr \<Rightarrow> pystr checked" where
  "display_text = stripped_text 1 320"

text \<open>The validation both \<open>EmployeeProfileRecord\<close> and \<open>GetMyEmployeeProfileOutput\<close> apply.\<close>

definition validate_profile_fields ::
  "('a employee_profile_scheme) \<Rightarrow> ('a employee_profile_scheme) checked" where
  "validate_profile_fields p =
     bindE (stripped_text 1 20 (ep_employee_number p)) (\<lambda>num.
     bindE (stripped_text 1 200 (ep_display_name p)) (\<lambda>name.
     bindE (stripped_text 1 200 (ep_work_email p)) (\<lambda>mail.
     bindE (optional_checked display_text (ep_job_title p)) (\<lambda>job.
     bindE (optional_checked display_text (ep_department_name p)) (\<lambda>dep.
     bindE (optional_checked display_text (ep_branch_name p)) (\<lambda>bra.
     bindE (optional_checked display_text (ep_legal_entity_name p)) (\<lambda>ent.
     bindE (optional_checked display_text (ep_manager_display_name p)) (\<lambda>man.
     bindE (require_aware ''freshness_at must be timezone-aware'' (ep_freshness_at p)) (\<lambda>_.
       Inr (p\<lparr>ep_employee_number := num, ep_display_name := name, ep_work_email := mail,
              ep_job_title := job, ep_department_name := dep, ep_branch_name := bra,
              ep_legal_entity_name := ent, ep_manager_display_name := man\<rparr>))))))))))"

definition validate_profile_record :: "employee_profile_record \<Rightarrow> employee_profile_record checked" where
  "validate_profile_record p =
     bindE (validate_identifier (ep_employee_id p)) (\<lambda>emp.
     bindE (validate_identifier (ep_legal_entity_id p)) (\<lambda>le.
       validate_profile_fields (p\<lparr>ep_employee_id := emp, ep_legal_entity_id := le\<rparr>)))"

section \<open>The handler\<close>

definition profile_projection :: "employee_profile_record \<Rightarrow> employee_profile" where
  "profile_projection r = \<lparr>ep_employee_number = ep_employee_number r,
     ep_display_name = ep_display_name r, ep_work_email = ep_work_email r,
     ep_job_title = ep_job_title r, ep_department_name = ep_department_name r,
     ep_branch_name = ep_branch_name r, ep_legal_entity_name = ep_legal_entity_name r,
     ep_employment_status = ep_employment_status r, ep_hire_date = ep_hire_date r,
     ep_manager_display_name = ep_manager_display_name r, ep_freshness_at = ep_freshness_at r\<rparr>"

text \<open>\<open>_ProfileUnavailableError\<close> and a \<open>ValidationError\<close> of the output are ordinary exceptions.\<close>

definition profile_execute ::
  "(trusted_context \<times> (unit, employee_profile_record option, 'w) read_provider, 'w,
    employee_profile outcome) op" where
  "profile_execute q w = (let (c, p) = q in
     case employee_id c of
       None \<Rightarrow> (Inl Failed, w)
     | Some emp \<Rightarrow>
        (case call_provider p False c emp () w of
           (Inl e, w') \<Rightarrow> (Inl e, w')
         | (Inr None, w') \<Rightarrow> (Inl Failed, w')
         | (Inr (Some record), w') \<Rightarrow>
             if ep_employee_id record \<noteq> emp then (Inl Failed, w')
             else if ep_legal_entity_id record \<notin> set (legal_entity_ids c) then (Inl Failed, w')
             else (case validate_profile_fields (profile_projection record) of
                     Inl _ \<Rightarrow> (Inl Failed, w')
                   | Inr out \<Rightarrow> (Inr out, w'))))"

definition HR_CORE_MANIFEST :: capability_manifest where
  "HR_CORE_MANIFEST = \<lparr>capability_code = lit ''hr_core'', capability_version = lit ''1.0.0'',
     required_modules = [lit ''hr_core''],
     tools = [\<lparr>tool_name = lit ''get_my_employee_profile'', tool_version = lit ''1.0.0'',
       operation = ReadOp, required_permissions_all = [lit ''hr.profile.read_self''],
       required_roles_any = [], allowed_purposes = [lit ''employee_self_service''],
       data_classification = RESTRICTED, audit_action = lit ''hr.profile.read_self'',
       requires_employee_context = True\<rparr>]\<rparr>"

text \<open>The handler as the gateway installs it: the input model accepts no arguments.\<close>

definition strict_config :: model_config where
  "strict_config = \<lparr>strict = True, frozen = True, extra_forbid = True\<rparr>"

definition no_arguments :: "(pystr \<times> json) list \<Rightarrow> unit option" where
  "no_arguments args = (if args = [] then Some () else None)"

definition profile_handler ::
  "(unit, employee_profile_record option, 'w) read_provider
     \<Rightarrow> (unit, employee_profile, employee_profile, 'w) read_handler" where
  "profile_handler p = \<lparr>h_tool_name = lit ''get_my_employee_profile'', h_version = lit ''1.0.0'',
     input_config = strict_config, output_config = strict_config,
     validate_input = no_arguments, validate_output = Some,
     h_execute = (\<lambda>(c, _). profile_execute (c, p))\<rparr>"

section \<open>Facts\<close>

definition profile_served ::
  "trusted_context \<times> (unit, employee_profile_record option, 'w) read_provider \<Rightarrow> 'w
     \<Rightarrow> employee_profile_record list" where
  "profile_served q w = (let (c, p) = q in
     case fst (call_provider p False c (the (employee_id c)) () w) of
       Inr (Some r) \<Rightarrow> [r] | _ \<Rightarrow> [])"

lemma profile_execute_Inr:
  assumes "profile_execute (c, p) w = (Inr out, w')"
  obtains emp r where "employee_id c = Some emp" "call_provider p False c emp () w = (Inr (Some r), w')"
    "ep_employee_id r = emp" "ep_legal_entity_id r \<in> set (legal_entity_ids c)"
    "validate_profile_fields (profile_projection r) = Inr out"
  using assms unfolding profile_execute_def Let_def prod.case
  by (auto split: option.splits prod.splits sum.splits if_splits)

interpretation profile_reader: scoped_reader profile_execute profile_served ep_employee_id
    ep_legal_entity_id
proof
  fix c :: trusted_context and p :: "(unit, employee_profile_record option, 'a) read_provider"
    and w w' out
  assume "profile_execute (c, p) w = (Inr out, w')"
  then show "\<exists>e. employee_id c = Some e \<and> (\<forall>r \<in> set (profile_served (c, p) w). ep_employee_id r = e
      \<and> ep_legal_entity_id r \<in> set (legal_entity_ids c))"
    by (rule profile_execute_Inr) (auto simp: profile_served_def)
qed

lemma optional_checked_idem:
  assumes "\<And>x y. f x = Inr y \<Longrightarrow> f y = Inr y" and "optional_checked f m = Inr n"
  shows "optional_checked f n = Inr n"
  using assms by (cases m) (auto elim!: bindE_InrE)

lemma display_text_idem: "display_text s = Inr t \<Longrightarrow> display_text t = Inr t"
  unfolding display_text_def by (rule stripped_text_idem)

lemma profile_fields_fixed:
  assumes "validate_profile_fields p = Inr q"
  shows "stripped_text 1 20 (ep_employee_number q) = Inr (ep_employee_number q)"
    and "stripped_text 1 200 (ep_display_name q) = Inr (ep_display_name q)"
    and "stripped_text 1 200 (ep_work_email q) = Inr (ep_work_email q)"
    and "optional_checked display_text (ep_job_title q) = Inr (ep_job_title q)"
    and "optional_checked display_text (ep_department_name q) = Inr (ep_department_name q)"
    and "optional_checked display_text (ep_branch_name q) = Inr (ep_branch_name q)"
    and "optional_checked display_text (ep_legal_entity_name q) = Inr (ep_legal_entity_name q)"
    and "optional_checked display_text (ep_manager_display_name q) = Inr (ep_manager_display_name q)"
    and "\<exists>t. ep_freshness_at q = Aware t"
proof -
  obtain num name mail job dep bra ent man t where
    f: "stripped_text 1 20 (ep_employee_number p) = Inr num"
      "stripped_text 1 200 (ep_display_name p) = Inr name"
      "stripped_text 1 200 (ep_work_email p) = Inr mail"
      "optional_checked display_text (ep_job_title p) = Inr job"
      "optional_checked display_text (ep_department_name p) = Inr dep"
      "optional_checked display_text (ep_branch_name p) = Inr bra"
      "optional_checked display_text (ep_legal_entity_name p) = Inr ent"
      "optional_checked display_text (ep_manager_display_name p) = Inr man"
      "require_aware ''freshness_at must be timezone-aware'' (ep_freshness_at p) = Inr t"
    and q: "q = p\<lparr>ep_employee_number := num, ep_display_name := name, ep_work_email := mail,
              ep_job_title := job, ep_department_name := dep, ep_branch_name := bra,
              ep_legal_entity_name := ent, ep_manager_display_name := man\<rparr>"
    using assms unfolding validate_profile_fields_def by (elim bindE_InrE) simp
  have opt: "optional_checked display_text m = Inr n \<Longrightarrow> optional_checked display_text n = Inr n" for m n
    using optional_checked_idem[of display_text m n] display_text_idem by blast
  have "\<exists>t. ep_freshness_at p = Aware t" using f(9) by (cases "ep_freshness_at p") auto
  then show "stripped_text 1 20 (ep_employee_number q) = Inr (ep_employee_number q)"
    "stripped_text 1 200 (ep_display_name q) = Inr (ep_display_name q)"
    "stripped_text 1 200 (ep_work_email q) = Inr (ep_work_email q)"
    "optional_checked display_text (ep_job_title q) = Inr (ep_job_title q)"
    "optional_checked display_text (ep_department_name q) = Inr (ep_department_name q)"
    "optional_checked display_text (ep_branch_name q) = Inr (ep_branch_name q)"
    "optional_checked display_text (ep_legal_entity_name q) = Inr (ep_legal_entity_name q)"
    "optional_checked display_text (ep_manager_display_name q) = Inr (ep_manager_display_name q)"
    "\<exists>t. ep_freshness_at q = Aware t"
    using f(1-3)[THEN stripped_text_idem] f(4-8)[THEN opt] by (simp_all add: q)
qed

lemma validate_profile_fields_projection:
  assumes "validate_profile_fields p = Inr r"
  shows "validate_profile_fields (profile_projection r) = Inr (profile_projection r)"
  using profile_fields_fixed[OF assms]
  by (auto simp: validate_profile_fields_def profile_projection_def)

section \<open>Properties\<close>

definition sample_profile :: employee_profile_record where
  "sample_profile = \<lparr>ep_employee_number = lit ''E1'', ep_display_name = lit ''Ada'',
     ep_work_email = lit ''a@b'', ep_job_title = None, ep_department_name = None,
     ep_branch_name = None, ep_legal_entity_name = None, ep_employment_status = ACTIVE,
     ep_hire_date = 0, ep_manager_display_name = None, ep_freshness_at = Aware 5,
     ep_employee_id = lit ''emp-1'', ep_legal_entity_id = lit ''le-1''\<rparr>"

text \<open>For a caller linked to an employee, the profile tool answers with exactly the allowlisted
  fields of the record the provider returned when that record belongs to the caller's employee
  and to an authorized legal entity, and fails otherwise: a validated record never fails for
  another reason.\<close>

theorem profile_answer_exact:
  assumes "validate_profile_record raw = Inr r" and "employee_id c = Some emp"
    and "call_provider p False c emp () w = (Inr (Some r), w')"
  shows "profile_execute (c, p) w =
    (if ep_employee_id r = emp \<and> ep_legal_entity_id r \<in> set (legal_entity_ids c)
     then Inr (profile_projection r) else Inl Failed, w')"
proof -
  obtain raw' where "validate_profile_fields raw' = Inr r"
    using assms(1) unfolding validate_profile_record_def by (elim bindE_InrE) blast
  then have "validate_profile_fields (profile_projection r) = Inr (profile_projection r)"
    by (rule validate_profile_fields_projection)
  then show ?thesis using assms(2,3) by (simp add: profile_execute_def)
qed

theorem profile_answer_exact_witness:
  "profile_execute (sample_context, \<lparr>uses_trusted_context = True,
      provider_read = (\<lambda>_ w. (Inr (Some sample_profile), Suc w))\<rparr>) 0
   = (if ep_employee_id sample_profile = lit ''emp-1''
        \<and> ep_legal_entity_id sample_profile \<in> set (legal_entity_ids sample_context)
      then Inr (profile_projection sample_profile) else Inl Failed, 1)"
proof (rule profile_answer_exact)
  show "validate_profile_record sample_profile = Inr sample_profile"
    by (simp add: validate_profile_record_def validate_profile_fields_def sample_profile_def
        sample_text stripped_text_def)
qed (simp_all add: call_provider_def sample_context_def)

end
