(* ===== verification/HrKnowledge.thy ===== *)
theory HrKnowledge
  imports HrCore Complex_Main
begin

text \<open>
  Authorized knowledge search (\<open>src/erp_ai/knowledge/models.py\<close> and
  \<open>src/erp_ai/capabilities/hr_knowledge/\<close>): the retrieval request and match contracts with their
  validators, and the handler that re-checks every match the provider returned. A relevance
  score is a finite double, held as the rational it denotes.
\<close>

section \<open>Contracts\<close>

datatype knowledge_source_type = PRODUCT_DOCUMENTATION | CUSTOMER_POLICY

fun classification_rank :: "data_classification \<Rightarrow> nat" where
  "classification_rank PUBLIC = 0"
| "classification_rank INTERNAL = 1"
| "classification_rank RESTRICTED = 2"
| "classification_rank HIGHLY_RESTRICTED = 3"

instantiation data_classification :: linorder
begin

definition less_eq_data_classification :: "data_classification \<Rightarrow> data_classification \<Rightarrow> bool" where
  "less_eq_data_classification a b \<longleftrightarrow> classification_rank a \<le> classification_rank b"

definition less_data_classification :: "data_classification \<Rightarrow> data_classification \<Rightarrow> bool" where
  "less_data_classification a b \<longleftrightarrow> classification_rank a < classification_rank b"

instance
proof
  fix a b c :: data_classification
  show "a < b \<longleftrightarrow> a \<le> b \<and> \<not> b \<le> a"
    unfolding less_eq_data_classification_def less_data_classification_def by (rule less_le_not_le)
  show "a \<le> a" by (simp add: less_eq_data_classification_def)
  show "a \<le> b \<Longrightarrow> b \<le> c \<Longrightarrow> a \<le> c" by (simp add: less_eq_data_classification_def)
  show "a \<le> b \<Longrightarrow> b \<le> a \<Longrightarrow> a = b"
    by (cases a; cases b) (simp_all add: less_eq_data_classification_def)
  show "a \<le> b \<or> b \<le> a" by (auto simp: less_eq_data_classification_def)
qed

end

definition knowledge_text :: "pystr \<Rightarrow> pystr checked" where
  "knowledge_text s = raise_if (py_strip s = []) ''knowledge content must not be blank'' (plain_text 1
      4000 s)"

definition display_text_300 :: "pystr \<Rightarrow> pystr checked" where
  "display_text_300 = stripped_text 1 300"

definition language_code :: "pystr \<Rightarrow> pystr checked" where
  "language_code s = (if is_language_code s then Inr s else Inl ''string_pattern_mismatch'')"

definition canonical_semver :: "pystr \<Rightarrow> pystr checked" where
  "canonical_semver s = (if re_dollar is_semver s then Inr s else Inl ''string_pattern_mismatch'')"

definition unique_tuple :: "'a list \<Rightarrow> 'a list checked" where
  "unique_tuple xs = raise_if (\<not> distinct xs) ''duplicate scope values are not allowed'' (Inr xs)"

definition unique_items :: "('a \<Rightarrow> 'a checked) \<Rightarrow> 'a list \<Rightarrow> 'a list checked" where
  "unique_items f xs = bindE (unique_tuple xs) (map_checked f)"

record retrieval_request =
  rq_namespace :: pystr
  rq_query :: pystr
  rq_maximum_results :: nat
  rq_customer_environment_id :: pystr
  rq_enabled_modules :: "pystr list"
  rq_permission_codes :: "pystr list"
  rq_roles :: "pystr list"
  rq_authorized_legal_entity_ids :: "pystr list"
  rq_purpose :: pystr
  rq_locale :: pystr
  rq_effective_at :: instant

definition validate_request :: "(pystr \<Rightarrow> pystr) \<Rightarrow> retrieval_request \<Rightarrow> retrieval_request checked" where
  "validate_request lower r =
     bindE (validate_code lower (rq_namespace r)) (\<lambda>ns.
     bindE (knowledge_text (rq_query r)) (\<lambda>query.
     raise_if (rq_maximum_results r < 1 \<or> rq_maximum_results r > 5) ''maximum_results_range''
     (bindE (validate_identifier (rq_customer_environment_id r)) (\<lambda>cust.
      bindE (unique_items (validate_code lower) (rq_enabled_modules r)) (\<lambda>mods.
      bindE (unique_items validate_policy_code (rq_permission_codes r)) (\<lambda>perms.
      bindE (unique_items (validate_code lower) (rq_roles r)) (\<lambda>rs.
      bindE (unique_items validate_identifier (rq_authorized_legal_entity_ids r)) (\<lambda>les.
      bindE (validate_code lower (rq_purpose r)) (\<lambda>purp.
      bindE (language_code (rq_locale r)) (\<lambda>loc.
        Inr (r\<lparr>rq_namespace := ns, rq_query := query, rq_customer_environment_id := cust,
               rq_enabled_modules := mods, rq_permission_codes := perms, rq_roles := rs,
               rq_authorized_legal_entity_ids := les, rq_purpose := purp, rq_locale := loc\<rparr>)))))))))))"

record knowledge_match =
  km_chunk_id :: pystr
  km_document_id :: pystr
  km_citation_id :: pystr
  km_namespace :: pystr
  km_source_type :: knowledge_source_type
  km_customer_environment_id :: "pystr option"
  km_required_modules_all :: "pystr list"
  km_required_permissions_all :: "pystr list"
  km_allowed_purposes :: "pystr list"
  km_legal_entity_ids :: "pystr list"
  km_data_classification :: data_classification
  km_language :: pystr
  km_title :: pystr
  km_section :: pystr
  km_document_version :: pystr
  km_effective_from :: instant
  km_effective_to :: "instant option"
  km_content :: pystr
  km_relevance_score :: rat

definition validate_match :: "(pystr \<Rightarrow> pystr) \<Rightarrow> knowledge_match \<Rightarrow> knowledge_match checked" where
  "validate_match lower m =
     bindE (validate_identifier (km_chunk_id m)) (\<lambda>chunk.
     bindE (validate_identifier (km_document_id m)) (\<lambda>doc.
     bindE (validate_identifier (km_citation_id m)) (\<lambda>cit.
     bindE (validate_code lower (km_namespace m)) (\<lambda>ns.
     bindE (optional_checked validate_identifier (km_customer_environment_id m)) (\<lambda>cust.
     bindE (unique_items (validate_code lower) (km_required_modules_all m)) (\<lambda>mods.
     bindE (unique_items validate_policy_code (km_required_permissions_all m)) (\<lambda>perms.
     bindE (bindE (unique_items (validate_code lower) (km_allowed_purposes m)) min_length_1) (\<lambda>ps.
     bindE (unique_items validate_identifier (km_legal_entity_ids m)) (\<lambda>les.
     bindE (language_code (km_language m)) (\<lambda>lang.
     bindE (display_text_300 (km_title m)) (\<lambda>title.
     bindE (display_text_300 (km_section m)) (\<lambda>sec.
     bindE (canonical_semver (km_document_version m)) (\<lambda>ver.
     bindE (knowledge_text (km_content m)) (\<lambda>content.
     raise_if (km_relevance_score m < 0 \<or> km_relevance_score m > 1) ''score_range''
     (raise_if (case km_effective_to m of None \<Rightarrow> False | Some t \<Rightarrow> t < km_effective_from m)
        ''effective_to must not precede effective_from''
        (Inr (m\<lparr>km_chunk_id := chunk, km_document_id := doc, km_citation_id := cit,
               km_namespace := ns, km_customer_environment_id := cust,
               km_required_modules_all := mods, km_required_permissions_all := perms,
               km_allowed_purposes := ps, km_legal_entity_ids := les, km_language := lang,
               km_title := title, km_section := sec, km_document_version := ver,
               km_content := content\<rparr>)))))))))))))))))"

section \<open>Public contracts\<close>

text \<open>The general category \<open>Cc\<close>: the C0 and C1 controls and DEL.\<close>

definition is_control :: "nat \<Rightarrow> bool" where
  "is_control c \<longleftrightarrow> c \<le> 31 \<or> 127 \<le> c \<and> c \<le> 159"

definition validate_query :: "pystr \<Rightarrow> pystr checked" where
  "validate_query s = (let t = py_strip s in
     raise_if (t = []) ''query must not be blank''
     (raise_if (list_ex is_control t) ''query contains unsafe control characters''
        (plain_text 1 1000 t)))"

record knowledge_excerpt =
  ke_citation_id :: pystr
  ke_title :: pystr
  ke_section :: pystr
  ke_language :: pystr
  ke_source_type :: knowledge_source_type
  ke_document_version :: pystr
  ke_content :: pystr

definition excerpt_of :: "knowledge_match \<Rightarrow> knowledge_excerpt" where
  "excerpt_of m = \<lparr>ke_citation_id = km_citation_id m, ke_title = km_title m,
     ke_section = km_section m, ke_language = km_language m, ke_source_type = km_source_type m,
     ke_document_version = km_document_version m, ke_content = km_content m\<rparr>"

section \<open>The handler\<close>

definition HR_NAMESPACE :: pystr where "HR_NAMESPACE = lit ''hr''"
definition MAX_RESULTS :: nat where "MAX_RESULTS = 5"
definition MAX_COMBINED_CONTENT :: nat where "MAX_COMBINED_CONTENT = 12000"

definition match_key :: "knowledge_match \<Rightarrow> rat \<times> pystr" where
  "match_key m = (- km_relevance_score m, km_chunk_id m)"

text \<open>The checks on one match, in order; \<open>previous\<close> is the match before it.\<close>

definition check_match :: "trusted_context \<Rightarrow> knowledge_match option \<Rightarrow> knowledge_match \<Rightarrow> unit checked"
    where
  "check_match c previous m =
     raise_if (case previous of None \<Rightarrow> False | Some p \<Rightarrow> match_key p > match_key m)
         ''provider order invalid''
     (raise_if (km_namespace m \<noteq> HR_NAMESPACE) ''namespace mismatch''
     (raise_if (\<not> set (km_required_modules_all m) \<subseteq> set (enabled_modules c)) ''module scope mismatch''
     (raise_if (\<not> set (km_required_permissions_all m) \<subseteq> set (permission_codes c))
        ''permission scope mismatch''
     (raise_if (purpose c \<notin> set (km_allowed_purposes m)) ''purpose scope mismatch''
     (raise_if (km_source_type m = PRODUCT_DOCUMENTATION \<and> km_customer_environment_id m \<noteq> None)
        ''global document has customer scope''
     (raise_if (km_source_type m \<noteq> PRODUCT_DOCUMENTATION
          \<and> km_customer_environment_id m \<noteq> Some (customer_environment_id c)) ''customer scope mismatch''
     (raise_if (\<not> set (km_legal_entity_ids m) \<subseteq> set (legal_entity_ids c))
         ''legal entity scope mismatch''
     (raise_if (issued_at c < km_effective_from m
          \<or> (case km_effective_to m of None \<Rightarrow> False | Some t \<Rightarrow> issued_at c > t))
              ''document not effective''
     (raise_if (classification_rank (km_data_classification m) > classification_rank RESTRICTED)
        ''classification unsupported'' (Inr ()))))))))))"

fun check_matches :: "trusted_context \<Rightarrow> knowledge_match option \<Rightarrow> knowledge_match list \<Rightarrow> unit checked"
    where
  "check_matches c previous [] = Inr ()"
| "check_matches c previous (m # ms) =
     bindE (check_match c previous m) (\<lambda>_. check_matches c (Some m) ms)"

definition validate_matches :: "trusted_context \<Rightarrow> knowledge_match list \<Rightarrow> unit checked" where
  "validate_matches c ms =
     raise_if (length ms > MAX_RESULTS) ''provider result count exceeded''
     (raise_if (card (set (map km_chunk_id ms)) \<noteq> length ms) ''duplicate chunks''
     (raise_if (card (set (map km_citation_id ms)) \<noteq> length ms) ''duplicate citations''
     (raise_if (sum_list (map (length \<circ> km_content) ms) > MAX_COMBINED_CONTENT)
         ''combined content exceeded''
        (check_matches c None ms))))"

definition knowledge_request :: "trusted_context \<Rightarrow> pystr \<Rightarrow> retrieval_request" where
  "knowledge_request c query = \<lparr>rq_namespace = HR_NAMESPACE, rq_query = query,
     rq_maximum_results = MAX_RESULTS, rq_customer_environment_id = customer_environment_id c,
     rq_enabled_modules = enabled_modules c, rq_permission_codes = permission_codes c,
     rq_roles = roles c, rq_authorized_legal_entity_ids = legal_entity_ids c,
     rq_purpose = purpose c, rq_locale = ctx_locale c, rq_effective_at = issued_at c\<rparr>"

definition knowledge_execute ::
  "(pystr \<Rightarrow> pystr) \<Rightarrow> (retrieval_request, 'w, knowledge_match list outcome) op
     \<Rightarrow> (trusted_context \<times> pystr, 'w, knowledge_excerpt list outcome) op" where
  "knowledge_execute lower retrieve q w = (let (c, query) = q in
     case validate_request lower (knowledge_request c query) of
       Inl _ \<Rightarrow> (Inl Failed, w)
     | Inr request \<Rightarrow>
        (case retrieve request w of
           (Inl e, w') \<Rightarrow> (Inl e, w')
         | (Inr ms, w') \<Rightarrow>
            (case validate_matches c ms of
               Inl _ \<Rightarrow> (Inl Failed, w')
             | Inr _ \<Rightarrow> (Inr (map excerpt_of ms), w'))))"

definition HR_KNOWLEDGE_MANIFEST :: capability_manifest where
  "HR_KNOWLEDGE_MANIFEST = \<lparr>capability_code = lit ''hr_knowledge'', capability_version = lit ''1.0.0'',
     required_modules = [lit ''hr_core''],
     tools = [\<lparr>tool_name = lit ''search_hr_knowledge'', tool_version = lit ''1.0.0'',
       operation = ReadOp, required_permissions_all = [lit ''hr.knowledge.read''],
       required_roles_any = [], allowed_purposes = [lit ''employee_self_service''],
       data_classification = RESTRICTED, audit_action = lit ''hr.knowledge.search'',
       requires_employee_context = False\<rparr>]\<rparr>"

section \<open>The scope of a match\<close>

text \<open>What it means for a match to be visible to a caller.\<close>

definition match_visible :: "trusted_context \<Rightarrow> knowledge_match \<Rightarrow> bool" where
  "match_visible c m \<longleftrightarrow> km_namespace m = HR_NAMESPACE
   \<and> set (km_required_modules_all m) \<subseteq> set (enabled_modules c)
   \<and> set (km_required_permissions_all m) \<subseteq> set (permission_codes c)
   \<and> purpose c \<in> set (km_allowed_purposes m)
   \<and> (case km_source_type m of PRODUCT_DOCUMENTATION \<Rightarrow> km_customer_environment_id m = None
      | CUSTOMER_POLICY \<Rightarrow> km_customer_environment_id m = Some (customer_environment_id c))
   \<and> set (km_legal_entity_ids m) \<subseteq> set (legal_entity_ids c)
   \<and> km_effective_from m \<le> issued_at c
   \<and> (case km_effective_to m of None \<Rightarrow> True | Some t \<Rightarrow> issued_at c \<le> t)
   \<and> km_data_classification m \<le> RESTRICTED"

lemma check_match_Inr:
  "check_match c previous m = Inr () \<longleftrightarrow>
     match_visible c m \<and> (case previous of None \<Rightarrow> True | Some p \<Rightarrow> match_key p \<le> match_key m)"
  by (cases "km_source_type m"; cases previous; cases "km_effective_to m")
    (auto simp: check_match_def match_visible_def less_eq_data_classification_def not_less)

lemma check_matches_Inr:
  "check_matches c previous ms = Inr () \<longleftrightarrow> list_all (match_visible c) ms
     \<and> successively (\<lambda>a b. match_key a \<le> match_key b) (case previous of None \<Rightarrow> ms | Some p \<Rightarrow> p # ms)"
proof (induction ms arbitrary: previous)
  case (Cons m ms)
  have "check_matches c previous (m # ms) = Inr () \<longleftrightarrow>
      check_match c previous m = Inr () \<and> check_matches c (Some m) ms = Inr ()"
    by (auto simp: bindE_Inr_iff)
  also have "\<dots> \<longleftrightarrow> match_visible c m \<and> (case previous of None \<Rightarrow> True | Some p \<Rightarrow> match_key p \<le> match_key
      m) \<and> list_all (match_visible c) ms \<and> successively (\<lambda>a b. match_key a \<le> match_key b) (m # ms)"
    unfolding check_match_Inr Cons.IH by simp
  finally show ?case by (cases previous) auto
qed (simp split: option.splits)

lemma validate_matches_Inr:
  "validate_matches c ms = Inr () \<longleftrightarrow> length ms \<le> 5 \<and> distinct (map km_chunk_id ms)
     \<and> distinct (map km_citation_id ms) \<and> sum_list (map (length \<circ> km_content) ms) \<le> 12000
     \<and> list_all (match_visible c) ms \<and> sorted (map match_key ms)"
proof -
  have "transp (\<lambda>a b. match_key a \<le> match_key b)" by (rule transpI) (rule order_trans)
  then have srt: "successively (\<lambda>a b. match_key a \<le> match_key b) ms \<longleftrightarrow> sorted (map match_key ms)"
    by (simp add: successively_conv_sorted_wrt sorted_map)
  have dis: "card (set (map f ms)) = length ms \<longleftrightarrow> distinct (map f ms)" for f :: "knowledge_match \<Rightarrow> pystr"
    by (metis card_distinct distinct_card length_map)
  show ?thesis unfolding validate_matches_def MAX_RESULTS_def MAX_COMBINED_CONTENT_def dis
    by (auto simp: check_matches_Inr srt not_less)
qed

section \<open>Requests of validated contexts\<close>

lemma language_tag_length: "is_language_tag s \<Longrightarrow> 2 \<le> length s"
proof -
  assume tag: "is_language_tag s"
  obtain p ps where sp: "split_on 45 s = p # ps" by (cases "split_on 45 s") auto
  have "length p \<le> length s" using join_split[of 45 s] sp by (cases ps) auto
  then show ?thesis using tag sp by (auto simp: is_language_tag_def)
qed

lemma unique_items_id:
  assumes "distinct xs" and "\<And>x. x \<in> set xs \<Longrightarrow> f x = Inr x"
  shows "unique_items f xs = Inr xs"
  using assms map_checked_id[of xs f] by (simp add: unique_items_def unique_tuple_def)

lemma validate_query_Inr:
  "validate_query s = Inr q \<Longrightarrow> q = py_strip s \<and> q \<noteq> [] \<and> length q \<le> 1000 \<and> list_all (\<lambda>c. \<not> is_control c)
      q"
  by (auto simp: validate_query_def plain_text_def Let_def list_ex_iff list_all_iff split: if_splits)

text \<open>Every field of the request is valid for a validated context, except that \<open>locale\<close> has no
  maximal length there while a \<open>LanguageCode\<close> has at most 35 characters.\<close>

lemma knowledge_request_valid:
  assumes cm: "case_mapping lower upper" and wf: "wf_context known c" and q: "validate_query s = Inr
      query"
  shows "validate_request lower (knowledge_request c query) =
    (if length (ctx_locale c) \<le> 35 then Inr (knowledge_request c query)
     else Inl ''string_pattern_mismatch'')"
proof -
  have tuples: "unique_items (validate_code lower) (enabled_modules c) = Inr (enabled_modules c)"
    "unique_items (validate_code lower) (roles c) = Inr (roles c)"
    "unique_items validate_policy_code (permission_codes c) = Inr (permission_codes c)"
    "unique_items validate_identifier (legal_entity_ids c) = Inr (legal_entity_ids c)"
    using wf validate_code_id[OF cm] validate_identifier_id
    by (auto intro!: unique_items_id simp: wf_context_def canonical_tuple_def list_all_iff
        validate_policy_code_def)
  have ns: "validate_code lower HR_NAMESPACE = Inr HR_NAMESPACE"
    by (rule validate_code_id[OF cm])
      (simp add: HR_NAMESPACE_def lit_def is_code_def is_lower_def is_code_char_def)
  have purp: "validate_code lower (purpose c) = Inr (purpose c)"
    using wf validate_code_id[OF cm] by (simp add: wf_context_def)
  have cust: "validate_identifier (customer_environment_id c) = Inr (customer_environment_id c)"
    using wf validate_identifier_id by (simp add: wf_context_def)
  have "query = py_strip query \<and> query \<noteq> [] \<and> length query \<le> 1000"
    using validate_query_Inr[OF q] by auto
  then have content: "knowledge_text query = Inr query"
    by (auto simp: knowledge_text_def plain_text_def) (metis Suc_leI length_greater_0_conv)
  have "is_language_tag (ctx_locale c)" using wf by (simp add: wf_context_def canonical_locale_def)
  then have lang: "is_language_code (ctx_locale c) \<longleftrightarrow> length (ctx_locale c) \<le> 35"
    using language_tag_length by (auto simp: is_language_code_def)
  show ?thesis unfolding validate_request_def
    by (simp add: knowledge_request_def ns content cust tuples purp language_code_def lang
        MAX_RESULTS_def)
qed

section \<open>Properties\<close>

text \<open>C38: For a validated context and query, the search answers exactly when the provider's matches
  are at most five, repeat no chunk and no citation, have at most 12000 characters together, are
  ordered by falling score and then by chunk id, and are each visible to the caller (namespace,
  modules, permissions, purpose, customer, legal entities, effective dates, classification); the
  answer holds their excerpts in that order. A locale of more than 35 characters, which a validated
  context may have, makes the tool fail before the provider is asked.\<close>

theorem knowledge_search_exact:
  assumes "case_mapping lower upper" and "wf_context known c" and "validate_query s = Inr query"
    and "retrieve (knowledge_request c query) w = (Inr ms, w')"
  shows "knowledge_execute lower retrieve (c, query) w =
    (if length (ctx_locale c) > 35 then (Inl Failed, w)
     else (if length ms \<le> 5 \<and> distinct (map km_chunk_id ms) \<and> distinct (map km_citation_id ms)
             \<and> sum_list (map (length \<circ> km_content) ms) \<le> 12000
             \<and> list_all (match_visible c) ms
             \<and> sorted (map (\<lambda>m. (- km_relevance_score m, km_chunk_id m)) ms)
           then Inr (map excerpt_of ms) else Inl Failed, w'))"
proof -
  have key: "(\<lambda>m. (- km_relevance_score m, km_chunk_id m)) = match_key"
    by (simp add: fun_eq_iff match_key_def)
  show ?thesis unfolding key validate_matches_Inr[symmetric] using assms(4)
    by (auto simp: knowledge_execute_def knowledge_request_valid[OF assms(1-3)] split: sum.splits)
qed

definition sample_match :: "string \<Rightarrow> rat \<Rightarrow> knowledge_match" where
  "sample_match name score = \<lparr>km_chunk_id = lit name, km_document_id = lit ''doc'',
     km_citation_id = lit name, km_namespace = lit ''hr'', km_source_type = PRODUCT_DOCUMENTATION,
     km_customer_environment_id = None, km_required_modules_all = [lit ''hr''],
     km_required_permissions_all = [], km_allowed_purposes = [lit ''self_service''],
     km_legal_entity_ids = [], km_data_classification = INTERNAL, km_language = lit ''en'',
     km_title = lit ''T'', km_section = lit ''S'', km_document_version = lit ''1.0.0'',
     km_effective_from = 0, km_effective_to = None, km_content = lit ''text'',
     km_relevance_score = score\<rparr>"

lemma sample_context_wf: "wf_context (\<lambda>z. z = lit ''UTC'') sample_context"
proof (rule validate_context_wf[OF case_mapping_ascii])
  show "validate_context ascii_lower ascii_upper (\<lambda>z. z = lit ''UTC'') (dump_context sample_context)
       = Inr sample_context"
    by (simp add: validate_context_def dump_context_def sample_context_def sample_text)
qed

theorem knowledge_search_exact_witness:
  "knowledge_execute ascii_lower (\<lambda>_ w. (Inr [sample_match ''b'' 1, sample_match ''a'' (1/2)], Suc w))
      (sample_context, lit ''leave'') 0
    = (Inr (map excerpt_of [sample_match ''b'' 1, sample_match ''a'' (1/2)]), 1)"
  using knowledge_search_exact[OF case_mapping_ascii sample_context_wf, of "lit ''leave''" "lit
      ''leave''" "\<lambda>_ w. (Inr [sample_match ''b'' 1, sample_match ''a'' (1/2)], Suc w)" 0
      "[sample_match ''b'' 1, sample_match ''a'' (1/2)]" 1]
  by (simp add: validate_query_def sample_text is_control_def plain_text_def sample_match_def
      match_visible_def sample_context_def HR_NAMESPACE_def less_eq_data_classification_def)

end
