(* ===== verification/Orchestrator.thy ===== *)
theory Orchestrator
  imports AgentModels
begin

text \<open>
  The bounded agent (\<open>src/erp_ai/orchestration/service.py\<close>): catalog and route checks, at most two
  model turns around at most one gateway invocation, grounding of the final answer in the evidence
  of the run, and one audit event per terminal outcome. The tool gateway is seen through the methods
  the orchestrator calls; the model provider and the audit sink are operations on the world.
\<close>

section \<open>State\<close>

record ('o, 'w) tool_gateway =
  tg_registry :: registry
  tg_available :: "trusted_context \<Rightarrow> model_tool list"
  tg_execute :: "(trusted_context \<times> tool_invocation, 'w, 'o tool_output tool_result outcome) op"

record ('o, 'w) orchestrator =
  or_registry :: registry
  or_gateway :: "('o, 'w) tool_gateway"
  or_complete_turn :: "('o turn_request, 'w, 'o model_response outcome) op"
  or_sink :: "(agent_audit_event, 'w, unit outcome) op"
  or_limits :: agent_limits

definition make_orchestrator ::
  "registry \<Rightarrow> ('o, 'w) tool_gateway \<Rightarrow> ('o turn_request, 'w, 'o model_response outcome) op
     \<Rightarrow> (agent_audit_event, 'w, unit outcome) op \<Rightarrow> agent_limits option \<Rightarrow> ('o, 'w) orchestrator checked"
where
  "make_orchestrator r g turns sink limits =
     raise_if (tg_registry g \<noteq> r) ''orchestrator and gateway must share the capability registry''
       (Inr \<lparr>or_registry = r, or_gateway = g, or_complete_turn = turns, or_sink = sink,
             or_limits = (case limits of None \<Rightarrow> default_limits | Some l \<Rightarrow> l)\<rparr>)"

record evidence_call =
  ev_call_id :: pystr
  ev_tool_name :: pystr
  ev_version :: pystr
  ev_is_knowledge :: bool
  ev_citation_ids :: "pystr list"

text \<open>The loop state; the dictionary of successful calls is listed in insertion order.\<close>

record 'o run_state =
  rs_interactions :: "'o interaction list"
  rs_citations :: "pystr \<rightharpoonup> public_citation"
  rs_successful_calls :: "evidence_call list"

definition initial_run :: "'o run_state" where
  "initial_run = \<lparr>rs_interactions = [], rs_citations = Map.empty, rs_successful_calls = []\<rparr>"

definition find_call :: "evidence_call list \<Rightarrow> pystr \<Rightarrow> evidence_call option" where
  "find_call calls cid = find (\<lambda>e. ev_call_id e = cid) calls"

definition put_call :: "evidence_call \<Rightarrow> evidence_call list \<Rightarrow> evidence_call list" where
  "put_call e calls =
     (if find_call calls (ev_call_id e) = None then calls @ [e]
      else map (\<lambda>d. if ev_call_id d = ev_call_id e then e else d) calls)"

section \<open>Finishing\<close>

definition agent_failure :: "agent_error_code \<Rightarrow> chat_result" where
  "agent_failure code = PublicChatFailure code (agent_safe_message code)"

definition agent_finish ::
  "('o, 'w) orchestrator \<Rightarrow> trusted_context \<Rightarrow> chat_result \<Rightarrow> audit_outcome \<Rightarrow> string \<Rightarrow> 'w
     \<Rightarrow> chat_result outcome \<times> 'w" where
  "agent_finish orch c result outcome reason w =
     record_before_return (or_sink orch) (agent_failure AGENT_AUDIT_UNAVAILABLE)
       (create_agent_audit_event c outcome reason) result w"

definition finish_failure ::
  "('o, 'w) orchestrator \<Rightarrow> trusted_context \<Rightarrow> agent_error_code \<times> string \<Rightarrow> 'w
     \<Rightarrow> chat_result outcome \<times> 'w" where
  "finish_failure orch c e w = agent_finish orch c (agent_failure (fst e)) AuditFailure (snd e) w"

section \<open>Catalog and transcript\<close>

definition authorized_catalog ::
  "'o agent_env \<Rightarrow> ('o, 'w) orchestrator \<Rightarrow> trusted_context \<Rightarrow> tool_definition list" where
  "authorized_catalog env orch c =
     (let installed = mt_tool_name ` set (tg_available (or_gateway orch) c) in
      sort_key td_tool_name
        (map (\<lambda>t. \<lparr>td_tool_name = mt_tool_name t, td_version = mt_version t,
                   td_input_schema = ae_schema env (mt_tool_name t)\<rparr>)
          (filter (\<lambda>t. mt_tool_name t \<in> installed)
            (decision_tools (evaluate_capability_access (or_registry orch) c True)))))"

definition arguments_within_limits :: "agent_limits \<Rightarrow> tool_call \<Rightarrow> bool" where
  "arguments_within_limits l call =
     (let (depth, nodes) = json_depth_and_nodes (JObj (tc_arguments call)) 1 in
      utf8_size (tc_arguments_json call) \<le> maximum_tool_argument_bytes l
      \<and> depth \<le> maximum_argument_depth l \<and> nodes \<le> maximum_argument_nodes l)"

text \<open>
  \<open>_transcript_failure\<close>: any exception while revalidating an interaction or measuring a result is
  reported as an invalid transcript, and the first failing interaction decides.
\<close>

fun transcript_scan ::
  "'o agent_env \<Rightarrow> agent_limits \<Rightarrow> pystr list \<Rightarrow> nat \<Rightarrow> 'o interaction list
     \<Rightarrow> (agent_error_code \<times> string) + nat" where
  "transcript_scan env l seen bytes [] = Inr bytes"
| "transcript_scan env l seen bytes (i # is) =
     (case pair_call_and_result env i of
        Inl _ \<Rightarrow> Inl (INVALID_MODEL_RESPONSE, ''invalid_interaction_transcript'')
      | Inr v \<Rightarrow>
          if tc_call_id (ia_call v) \<in> set seen then Inl (INVALID_MODEL_RESPONSE, ''duplicate_call_id'')
          else if \<not> arguments_within_limits l (ia_call v)
          then Inl (AGENT_LIMIT_REACHED, ''tool_argument_limit_reached'')
          else (case canonical_json_bytes (ae_float_size env) (dump_message env (ia_message v)) of
                  Inl _ \<Rightarrow> Inl (INVALID_MODEL_RESPONSE, ''invalid_interaction_transcript'')
                | Inr n \<Rightarrow> transcript_scan env l (tc_call_id (ia_call v) # seen) (bytes + n) is))"

definition transcript_failure ::
  "'o agent_env \<Rightarrow> agent_limits \<Rightarrow> 'o interaction list \<Rightarrow> (agent_error_code \<times> string) option" where
  "transcript_failure env l is =
     (if length is > maximum_tool_calls l then Some (AGENT_LIMIT_REACHED, ''tool_call_limit_reached'')
      else (case transcript_scan env l [] 0 is of
              Inl e \<Rightarrow> Some e
            | Inr bytes \<Rightarrow>
                if bytes > maximum_tool_result_bytes l
                then Some (AGENT_LIMIT_REACHED, ''tool_result_size_limit_reached'') else None))"

section \<open>Grounding\<close>

definition KNOWLEDGE_TOOL :: pystr where "KNOWLEDGE_TOOL = lit ''search_hr_knowledge''"

fun observe_excerpts ::
  "knowledge_excerpt list \<Rightarrow> (pystr \<rightharpoonup> public_citation)
     \<Rightarrow> (pystr list \<times> (pystr \<rightharpoonup> public_citation)) option" where
  "observe_excerpts [] seen = Some ([], seen)"
| "observe_excerpts (e # es) seen =
     (let cit = citation_of e in
      case seen (ci_citation_id cit) of
        Some old \<Rightarrow>
          if old \<noteq> cit then None
          else map_option (\<lambda>(ids, s). (ci_citation_id cit # ids, s))
                 (observe_excerpts es (seen(ci_citation_id cit \<mapsto> cit)))
      | None \<Rightarrow> map_option (\<lambda>(ids, s). (ci_citation_id cit # ids, s))
                 (observe_excerpts es (seen(ci_citation_id cit \<mapsto> cit))))"

definition observe_citations ::
  "pystr \<Rightarrow> 'o tool_output \<Rightarrow> (pystr \<rightharpoonup> public_citation)
     \<Rightarrow> (pystr list \<times> (pystr \<rightharpoonup> public_citation)) option" where
  "observe_citations name out seen =
     (case out of
        KnowledgeOutput es \<Rightarrow>
          if name \<noteq> KNOWLEDGE_TOOL then Some ([], seen) else observe_excerpts es seen
      | OtherOutput _ \<Rightarrow> Some ([], seen))"

definition validate_grounding ::
  "final_answer \<Rightarrow> evidence_call list \<Rightarrow> (pystr \<rightharpoonup> public_citation) \<Rightarrow> public_citation list option" where
  "validate_grounding f calls observed =
     (if length (fa_evidence_call_ids f) > 4 \<or> \<not> distinct (fa_evidence_call_ids f)
         \<or> length (fa_citation_ids f) > 20 \<or> \<not> distinct (fa_citation_ids f) then None
      else if \<exists>cid \<in> set (fa_evidence_call_ids f). find_call calls cid = None then None
      else
       (let selected = map (the \<circ> find_call calls) (fa_evidence_call_ids f);
            knowledge = filter ev_is_knowledge selected;
            erp = filter (\<lambda>e. \<not> ev_is_knowledge e) selected;
            cited = concat (map ev_citation_ids knowledge) in
        if (case fa_basis f of
              GENERAL \<Rightarrow> fa_evidence_call_ids f \<noteq> [] \<or> fa_citation_ids f \<noteq> [] \<or> calls \<noteq> []
            | KNOWLEDGE \<Rightarrow> knowledge = [] \<or> erp \<noteq> [] \<or> fa_citation_ids f = []
            | ERP_DATA \<Rightarrow> erp = [] \<or> knowledge \<noteq> [] \<or> fa_citation_ids f \<noteq> []
            | MIXED \<Rightarrow> True) then None
        else if \<not> set (fa_citation_ids f) \<subseteq> set cited then None
        else Some (map (the \<circ> observed) (fa_citation_ids f))))"

definition matches_exact_route_grounding :: "final_answer \<Rightarrow> evidence_call list \<Rightarrow> bool" where
  "matches_exact_route_grounding f calls =
     (case calls of
        [selected] \<Rightarrow> fa_evidence_call_ids f = [ev_call_id selected]
          \<and> fa_basis f = (if ev_is_knowledge selected then KNOWLEDGE else ERP_DATA)
      | _ \<Rightarrow> False)"

section \<open>One turn\<close>

text \<open>What handling a response leads to: a failure, an exception, or a value.\<close>

datatype 'a verdict = Fail "agent_error_code \<times> string" | Raise | Proceed 'a

definition handle_final ::
  "agent_limits \<Rightarrow> route_mode \<Rightarrow> nat \<Rightarrow> pystr \<Rightarrow> final_answer \<Rightarrow> 'o run_state \<Rightarrow> chat_success verdict" where
  "handle_final l mode turn lang f st =
     (if mode = EXACT_READ_THEN_FINAL \<and> turn = 1
      then Fail (INVALID_MODEL_RESPONSE, ''required_tool_call_missing'')
      else if length (fa_answer f) > maximum_final_answer_characters l
      then Fail (AGENT_LIMIT_REACHED, ''final_answer_limit_reached'')
      else
       (let cites = validate_grounding f (rs_successful_calls st) (rs_citations st);
            cites = (if mode = GENERAL_ONLY
                \<and> (fa_basis f \<noteq> GENERAL \<or> fa_evidence_call_ids f \<noteq> [] \<or> fa_citation_ids f \<noteq> [])
              then None else cites);
            cites = (if mode = EXACT_READ_THEN_FINAL
                \<and> \<not> matches_exact_route_grounding f (rs_successful_calls st)
              then None else cites) in
        case cites of
          None \<Rightarrow> Fail (INVALID_MODEL_RESPONSE, ''citation_validation_failed'')
        | Some cs \<Rightarrow>
            (case make_chat_success (fa_answer f) lang cs of
               Inl _ \<Rightarrow> Raise
             | Inr s \<Rightarrow> Proceed s)))"

text \<open>The checks on a requested call, up to the invocation that is sent to the gateway.\<close>

definition handle_call ::
  "'o agent_env \<Rightarrow> agent_limits \<Rightarrow> routing_policy \<Rightarrow> nat \<Rightarrow> tool_call \<Rightarrow> tool_call verdict" where
  "handle_call env l routing turn call =
     (if rp_mode routing = GENERAL_ONLY \<or> turn \<noteq> 1
      then Fail (INVALID_MODEL_RESPONSE, ''tool_call_not_allowed'')
      else
       (case bindE (from_arguments_json env (tc_call_id call) (tc_tool_name call) (tc_version call)
                (tc_arguments_json call)) (\<lambda>v.
             bindE (json_values_equivalent (JObj (tc_arguments v)) (JObj (tc_arguments call))) (\<lambda>same.
               raise_if (\<not> same) ''raw and parsed arguments diverge'' (Inr v))) of
          Inl _ \<Rightarrow> Fail (INVALID_MODEL_RESPONSE, ''invalid_model_tool_call'')
        | Inr v \<Rightarrow>
            if Some (tc_tool_name v) \<noteq> rp_tool_name routing \<or> Some (tc_version v) \<noteq> rp_version routing
            then Fail (INVALID_MODEL_RESPONSE, ''routed_tool_mismatch'')
            else if \<not> arguments_within_limits l v
            then Fail (AGENT_LIMIT_REACHED, ''tool_argument_limit_reached'')
            else Proceed v))"

definition handle_result ::
  "'o agent_env \<Rightarrow> agent_limits \<Rightarrow> tool_call \<Rightarrow> 'o tool_output tool_result \<Rightarrow> 'o run_state
     \<Rightarrow> 'o run_state verdict" where
  "handle_result env l call result st =
     (case result of
        PublicToolFailure _ _ code _ \<Rightarrow>
          if code = AUDIT_UNAVAILABLE then Fail (AGENT_AUDIT_UNAVAILABLE, ''tool_audit_unavailable'')
          else Fail (AGENT_UNAVAILABLE, ''routed_tool_failed'')
      | PublicToolSuccess name ver out \<Rightarrow>
         (let message = \<lparr>tm_call_id = tc_call_id call, tm_tool_name = tc_tool_name call,
                tm_result = result\<rparr> in
          case pair_call_and_result env \<lparr>ia_call = call, ia_message = message\<rparr> of
            Inl _ \<Rightarrow> Raise
          | Inr interaction \<Rightarrow>
             (case transcript_failure env l (rs_interactions st @ [interaction]) of
                Some e \<Rightarrow> Fail e
              | None \<Rightarrow>
                 (case observe_citations name out (rs_citations st) of
                    None \<Rightarrow> Fail (INVALID_MODEL_RESPONSE, ''citation_metadata_conflict'')
                  | Some (ids, seen) \<Rightarrow>
                      Proceed \<lparr>rs_interactions = rs_interactions st @ [interaction],
                        rs_citations = seen,
                        rs_successful_calls = put_call
                          \<lparr>ev_call_id = tc_call_id call, ev_tool_name = tc_tool_name call,
                           ev_version = tc_version call,
                           ev_is_knowledge = (tc_tool_name call = KNOWLEDGE_TOOL),
                           ev_citation_ids = ids\<rparr> (rs_successful_calls st)\<rparr>))))"

text \<open>What the loop keeps fixed.\<close>

record run_setup =
  su_context :: trusted_context
  su_message :: pystr
  su_language :: pystr
  su_routing :: routing_policy
  su_tools :: "tool_definition list"
  su_classification :: data_classification

definition turn_of :: "run_setup \<Rightarrow> nat \<Rightarrow> 'o run_state \<Rightarrow> 'o turn_request" where
  "turn_of su turn st =
     (let general = (rp_mode (su_routing su) = GENERAL_ONLY) in
      \<lparr>tr_policy_instructions = AGENT_POLICY_INSTRUCTIONS, tr_user_message = su_message su,
       tr_response_language = su_language su,
       tr_tools = (if general then [] else if turn = 1 then su_tools su else []),
       tr_tool_selection =
         (if general then \<lparr>ts_mode = NO_TOOLS, ts_tool_name = None, ts_version = None\<rparr>
          else if turn = 1 then \<lparr>ts_mode = REQUIRED_EXACT_TOOL,
              ts_tool_name = rp_tool_name (su_routing su), ts_version = rp_version (su_routing su)\<rparr>
          else \<lparr>ts_mode = FINAL_ONLY, ts_tool_name = None, ts_version = None\<rparr>),
       tr_interactions = rs_interactions st, tr_turn_number = turn,
       tr_customer_environment_id = customer_environment_id (su_context su),
       tr_maximum_classification = su_classification su, tr_purpose = purpose (su_context su)\<rparr>)"

text \<open>The loop over \<open>range(1, maximum_turns + 1)\<close>, by the number of turns that remain.\<close>

fun run_turns ::
  "'o agent_env \<Rightarrow> ('o, 'w) orchestrator \<Rightarrow> run_setup \<Rightarrow> nat \<Rightarrow> nat \<Rightarrow> 'o run_state \<Rightarrow> 'w
     \<Rightarrow> chat_result outcome \<times> 'w" where
  "run_turns env orch su 0 turn st w =
     finish_failure orch (su_context su) (INVALID_MODEL_RESPONSE, ''route_not_completed'') w"
| "run_turns env orch su (Suc k) turn st w =
    (let c = su_context su; l = or_limits orch; mode = rp_mode (su_routing su) in
     case transcript_failure env l (rs_interactions st) of
       Some e \<Rightarrow> finish_failure orch c e w
     | None \<Rightarrow>
      (case validate_turn env (turn_of su turn st) of
         Inl _ \<Rightarrow> (Inl Failed, w)
       | Inr request \<Rightarrow>
        (case or_complete_turn orch request w of
           (Inl Cancelled, w1) \<Rightarrow> (Inl Cancelled, w1)
         | (Inl Failed, w1) \<Rightarrow> finish_failure orch c (AGENT_UNAVAILABLE, ''model_provider_failed'') w1
         | (Inr (ModelFinalAnswer f), w1) \<Rightarrow>
            (case handle_final l mode turn (su_language su) f st of
               Fail e \<Rightarrow> finish_failure orch c e w1
             | Raise \<Rightarrow> (Inl Failed, w1)
             | Proceed s \<Rightarrow> agent_finish orch c (PublicChatSuccess s) AuditSuccess ''completed'' w1)
         | (Inr UnknownResponse, w1) \<Rightarrow>
            finish_failure orch c (INVALID_MODEL_RESPONSE, ''invalid_model_response'') w1
         | (Inr (ModelToolCall call), w1) \<Rightarrow>
            (case handle_call env l (su_routing su) turn call of
               Fail e \<Rightarrow> finish_failure orch c e w1
             | Raise \<Rightarrow> (Inl Failed, w1)
             | Proceed v \<Rightarrow>
                (case tg_execute (or_gateway orch) (c, \<lparr>inv_tool_name = tc_tool_name v,
                     inv_version = tc_version v, inv_arguments = tc_arguments v\<rparr>) w1 of
                   (Inl e, w2) \<Rightarrow> (Inl e, w2)
                 | (Inr result, w2) \<Rightarrow>
                    (case handle_result env l v result st of
                       Fail e \<Rightarrow> finish_failure orch c e w2
                     | Raise \<Rightarrow> (Inl Failed, w2)
                     | Proceed st' \<Rightarrow> run_turns env orch su k (Suc turn) st' w2))))))"

section \<open>A run\<close>

definition response_language :: "trusted_context \<Rightarrow> public_chat_request \<Rightarrow> pystr" where
  "response_language c r =
     (case pc_preferred_language r of Some l \<Rightarrow> if l \<noteq> [] then l else ctx_locale c | None \<Rightarrow> ctx_locale
         c)"

definition route_tools ::
  "registry \<Rightarrow> routing_policy \<Rightarrow> tool_descriptor list" where
  "route_tools r routing = filter (\<lambda>t. Some (tool_name t) = rp_tool_name routing
     \<and> Some (tool_version t) = rp_version routing) (registry_tools r)"

text \<open>The decisions before the first turn: a failure, or the tools and the classification bound.\<close>

definition plan_route ::
  "'o agent_env \<Rightarrow> ('o, 'w) orchestrator \<Rightarrow> routing_policy \<Rightarrow> tool_definition list
     \<Rightarrow> (agent_error_code \<times> string) + (tool_definition list \<times> data_classification)" where
  "plan_route env orch routing catalog =
     (if rp_mode routing = GENERAL_ONLY then Inr ([], RESTRICTED)
      else
       (let ts = filter (\<lambda>t. Some (td_tool_name t) = rp_tool_name routing
              \<and> Some (td_version t) = rp_version routing) catalog;
            descriptors = route_tools (or_registry orch) routing in
        if length ts \<noteq> 1 then Inl (INVALID_MODEL_RESPONSE, ''route_not_authorized'')
        else if length descriptors \<noteq> 1 then Inl (INVALID_MODEL_RESPONSE, ''route_not_authorized'')
        else if maximum_tool_calls (or_limits orch) < 1 \<or> maximum_model_turns (or_limits orch) < 2
        then Inl (AGENT_LIMIT_REACHED, ''route_resource_limit_reached'')
        else Inr (ts, max RESTRICTED (data_classification (hd descriptors)))))"

definition agent_execute ::
  "'o agent_env \<Rightarrow> ('o, 'w) orchestrator
     \<Rightarrow> (trusted_context \<times> public_chat_request \<times> routing_policy, 'w, chat_result outcome) op" where
  "agent_execute env orch q w = (let (c, request, routing0) = q in
     case validate_route (ae_lower env) routing0 of
       Inl _ \<Rightarrow> finish_failure orch c (INVALID_MODEL_RESPONSE, ''invalid_route'') w
     | Inr routing \<Rightarrow>
        if length (pc_message request) > maximum_user_message_characters (or_limits orch)
        then finish_failure orch c (AGENT_LIMIT_REACHED, ''user_message_limit_reached'') w
        else
         (let catalog = authorized_catalog env orch c in
          if length catalog > maximum_model_tools (or_limits orch)
          then finish_failure orch c (AGENT_CATALOG_LIMIT, ''tool_catalog_limit_reached'') w
          else
          (case canonical_json_bytes (ae_float_size env) (JArr (map dump_definition catalog)) of
            Inl _ \<Rightarrow> (Inl Failed, w)
          | Inr bytes \<Rightarrow>
              if bytes > maximum_tool_catalog_bytes (or_limits orch)
              then finish_failure orch c (AGENT_CATALOG_LIMIT, ''tool_catalog_limit_reached'') w
              else
               (case plan_route env orch routing catalog of
                  Inl e \<Rightarrow> finish_failure orch c e w
                | Inr (ts, cls) \<Rightarrow>
                    run_turns env orch
                      \<lparr>su_context = c, su_message = pc_message request,
                       su_language = response_language c request, su_routing = routing,
                       su_tools = ts, su_classification = cls\<rparr>
                      (if rp_mode routing = GENERAL_ONLY then 1 else 2) 1 initial_run w))))"


section \<open>The cases of one turn\<close>

definition invocation_of :: "tool_call \<Rightarrow> tool_invocation" where
  "invocation_of v = \<lparr>inv_tool_name = tc_tool_name v, inv_version = tc_version v,
     inv_arguments = tc_arguments v\<rparr>"

lemma run_turns_cases:
  assumes "run_turns env orch su (Suc k) turn st w = (res, w')"
  obtains
    (transcript) e where "finish_failure orch (su_context su) e w = (res, w')"
  | (rejected) e where "validate_turn env (turn_of su turn st) = Inl e" "res = Inl Failed" "w' = w"
  | (provider) req r where "or_complete_turn orch req w = (r, w')"
      "validate_turn env (turn_of su turn st) = Inr req" "r = Inl Cancelled" "res = Inl Cancelled"
  | (failed) req r w1 e where "validate_turn env (turn_of su turn st) = Inr req"
      "or_complete_turn orch req w = (r, w1)" "finish_failure orch (su_context su) e w1 = (res, w')"
  | (raised) req f where "validate_turn env (turn_of su turn st) = Inr req"
      "or_complete_turn orch req w = (Inr (ModelFinalAnswer f), w')"
      "handle_final (or_limits orch) (rp_mode (su_routing su)) turn (su_language su) f st = Raise"
      "res = Inl Failed"
  | (answered) req f w1 s where "validate_turn env (turn_of su turn st) = Inr req"
      "or_complete_turn orch req w = (Inr (ModelFinalAnswer f), w1)"
      "handle_final (or_limits orch) (rp_mode (su_routing su)) turn (su_language su) f st = Proceed s"
      "agent_finish orch (su_context su) (PublicChatSuccess s) AuditSuccess ''completed'' w1 = (res,
          w')"
  | (tool_raised) req call v w1 e where "validate_turn env (turn_of su turn st) = Inr req"
      "or_complete_turn orch req w = (Inr (ModelToolCall call), w1)"
      "handle_call env (or_limits orch) (su_routing su) turn call = Proceed v"
      "tg_execute (or_gateway orch) (su_context su, invocation_of v) w1 = (Inl e, w')" "res = Inl e"
  | (tool_failed) req call v w1 result w2 e where "validate_turn env (turn_of su turn st) = Inr req"
      "or_complete_turn orch req w = (Inr (ModelToolCall call), w1)"
      "handle_call env (or_limits orch) (su_routing su) turn call = Proceed v"
      "tg_execute (or_gateway orch) (su_context su, invocation_of v) w1 = (Inr result, w2)"
      "handle_result env (or_limits orch) v result st = Fail e"
      "finish_failure orch (su_context su) e w2 = (res, w')"
  | (tool_invalid) req call v w1 result where "validate_turn env (turn_of su turn st) = Inr req"
      "or_complete_turn orch req w = (Inr (ModelToolCall call), w1)"
      "handle_call env (or_limits orch) (su_routing su) turn call = Proceed v"
      "tg_execute (or_gateway orch) (su_context su, invocation_of v) w1 = (Inr result, w')"
      "handle_result env (or_limits orch) v result st = Raise" "res = Inl Failed"
  | (next_turn) req call v w1 result w2 st' where "validate_turn env (turn_of su turn st) = Inr req"
      "or_complete_turn orch req w = (Inr (ModelToolCall call), w1)"
      "handle_call env (or_limits orch) (su_routing su) turn call = Proceed v"
      "tg_execute (or_gateway orch) (su_context su, invocation_of v) w1 = (Inr result, w2)"
      "handle_result env (or_limits orch) v result st = Proceed st'"
      "run_turns env orch su k (Suc turn) st' w2 = (res, w')"
proof -
  note run = assms[unfolded run_turns.simps Let_def]
  show thesis
  proof (cases "transcript_failure env (or_limits orch) (rs_interactions st)")
    case (Some e)
    then show thesis using run transcript by simp
  next
    case none: None
    show thesis
    proof (cases "validate_turn env (turn_of su turn st)")
      case (Inl e)
      then show thesis using run none rejected by simp
    next
      case req: (Inr req)
      obtain r w1 where r: "or_complete_turn orch req w = (r, w1)" by (metis prod.exhaust)
      note run1 = run[unfolded none req r option.case sum.case prod.case]
      consider (c) "r = Inl Cancelled" | (f) "r = Inl Failed" | (a) f where "r = Inr (ModelFinalAnswer
          f)"
        | (u) "r = Inr UnknownResponse" | (t) call where "r = Inr (ModelToolCall call)"
      proof (cases r)
        case (Inl x)
        then show ?thesis using that(1,2) by (cases x) simp_all
      next
        case (Inr m)
        then show ?thesis using that(3-5) by (cases m) simp_all
      qed
      then show thesis
      proof cases
        case c
        then show thesis using run1 r req provider by simp
      next
        case f
        then show thesis using run1 failed[OF req r] by simp
      next
        case u
        then show thesis using run1 failed[OF req r] by simp
      next
        case (a f)
        note run2 = run1[unfolded a sum.case model_response.case]
        show thesis
        proof (cases "handle_final (or_limits orch) (rp_mode (su_routing su)) turn (su_language su) f
            st")
          case (Fail e)
          then show thesis using run2 failed[OF req r] by simp
        next
          case Raise
          then show thesis using run2 raised[OF req _ Raise] r[unfolded a] by simp
        next
          case (Proceed s)
          then show thesis using run2 answered[OF req r[unfolded a] Proceed] by simp
        qed
      next
        case (t call)
        note run2 = run1[unfolded t sum.case model_response.case]
        show thesis
        proof (cases "handle_call env (or_limits orch) (su_routing su) turn call")
          case (Fail e)
          then show thesis using run2 failed[OF req r] by simp
        next
          case Raise
          then show thesis by (auto simp: handle_call_def split: if_splits sum.splits)
        next
          case v: (Proceed v)
          obtain g w2 where g: "tg_execute (or_gateway orch) (su_context su, invocation_of v) w1 = (g,
              w2)"
            by (metis prod.exhaust)
          note run3 = run2[unfolded v verdict.case invocation_of_def[symmetric] g prod.case]
          show thesis
          proof (cases g)
            case (Inl e)
            then show thesis using run3 tool_raised[OF req r[unfolded t] v] g by simp
          next
            case (Inr result)
            note run4 = run3[unfolded Inr sum.case] and g' = g[unfolded Inr]
            show thesis
            proof (cases "handle_result env (or_limits orch) v result st")
              case (Fail e)
              then show thesis using run4 tool_failed[OF req r[unfolded t] v g' Fail] by simp
            next
              case Raise
              then show thesis using run4 tool_invalid[OF req r[unfolded t] v _ Raise] g' by simp
            next
              case (Proceed st')
              then show thesis using run4 next_turn[OF req r[unfolded t] v g' Proceed] by simp
            qed
          qed
        qed
      qed
    qed
  qed
qed

section \<open>What a run leaves behind\<close>

datatype agent_step =
    ModelTurn nat
  | ToolRun trusted_context tool_invocation
  | AuditRecord agent_audit_event

text \<open>The orchestrator with its model turns, tool runs and audit records written to a log.\<close>

definition log_orchestrator ::
  "(agent_step \<Rightarrow> 'e list) \<Rightarrow> ('o, 'w) orchestrator \<Rightarrow> ('o, 'w \<times> 'e list) orchestrator" where
  "log_orchestrator g orch = \<lparr>or_registry = or_registry orch,
     or_gateway = \<lparr>tg_registry = tg_registry (or_gateway orch),
       tg_available = tg_available (or_gateway orch),
       tg_execute = logged (\<lambda>(c, call). g (ToolRun c call)) (tg_execute (or_gateway orch))\<rparr>,
     or_complete_turn = logged (\<lambda>t. g (ModelTurn (tr_turn_number t))) (or_complete_turn orch),
     or_sink = logged (\<lambda>e. g (AuditRecord e)) (or_sink orch), or_limits = or_limits orch\<rparr>"

lemma log_orchestrator_simps [simp]:
  "or_limits (log_orchestrator g orch) = or_limits orch"
  "or_registry (log_orchestrator g orch) = or_registry orch"
  "tg_available (or_gateway (log_orchestrator g orch)) = tg_available (or_gateway orch)"
  "tg_execute (or_gateway (log_orchestrator g orch))
     = logged (\<lambda>(c, call). g (ToolRun c call)) (tg_execute (or_gateway orch))"
  "or_complete_turn (log_orchestrator g orch)
     = logged (\<lambda>t. g (ModelTurn (tr_turn_number t))) (or_complete_turn orch)"
  "or_sink (log_orchestrator g orch) = logged (\<lambda>e. g (AuditRecord e)) (or_sink orch)"
  by (simp_all add: log_orchestrator_def)

definition model_turns :: "agent_step list \<Rightarrow> nat" where
  "model_turns steps = length (filter (\<lambda>s. case s of ModelTurn _ \<Rightarrow> True | _ \<Rightarrow> False) steps)"

definition tool_runs :: "agent_step list \<Rightarrow> nat" where
  "tool_runs steps = length (filter (\<lambda>s. case s of ToolRun _ _ \<Rightarrow> True | _ \<Rightarrow> False) steps)"

definition audit_records :: "agent_step list \<Rightarrow> agent_audit_event list" where
  "audit_records steps = concat (map (\<lambda>s. case s of AuditRecord e \<Rightarrow> [e] | _ \<Rightarrow> []) steps)"

lemma step_counts [simp]:
  "model_turns [] = 0" "tool_runs [] = 0" "audit_records [] = []"
  "model_turns (ModelTurn n # ss) = Suc (model_turns ss)" "model_turns (ToolRun c i # ss) = model_turns
      ss"
  "model_turns (AuditRecord e # ss) = model_turns ss"
  "tool_runs (ModelTurn n # ss) = tool_runs ss" "tool_runs (ToolRun c i # ss) = Suc (tool_runs ss)"
  "tool_runs (AuditRecord e # ss) = tool_runs ss"
  "audit_records (ModelTurn n # ss) = audit_records ss" "audit_records (ToolRun c i # ss) =
      audit_records ss"
  "audit_records (AuditRecord e # ss) = e # audit_records ss"
  by (simp_all add: model_turns_def tool_runs_def audit_records_def)

text \<open>The event names the caller and reports the outcome that was decided.\<close>

definition agent_event_describes :: "trusted_context \<Rightarrow> chat_result \<Rightarrow> agent_audit_event \<Rightarrow> bool" where
  "agent_event_describes c r e \<longleftrightarrow> aae_request_id e = request_id c
   \<and> aae_customer_environment_id e = customer_environment_id c \<and> aae_user_id e = user_id c
   \<and> aae_purpose e = purpose c
   \<and> (case r of PublicChatSuccess _ \<Rightarrow> aae_outcome e = AuditSuccess
      | PublicChatFailure code _ \<Rightarrow> code \<noteq> AGENT_AUDIT_UNAVAILABLE \<longrightarrow> aae_outcome e = AuditFailure)"

text \<open>At most one audit record; a returned result has its own, and it is the last step.\<close>

definition audited_run :: "trusted_context \<Rightarrow> chat_result outcome \<Rightarrow> agent_step list \<Rightarrow> bool" where
  "audited_run c res steps \<longleftrightarrow>
     (case res of
        Inr r \<Rightarrow> \<exists>e. audit_records steps = [e] \<and> steps \<noteq> [] \<and> last steps = AuditRecord e
          \<and> agent_event_describes c r e
      | Inl x \<Rightarrow> audit_records steps = [] \<or> x = Cancelled \<and> (\<exists>e. audit_records steps = [e]))"

lemma agent_finish_log:
  assumes "agent_finish (log_orchestrator g orch) c result outcome reason (w, lg) = (res, (w', lg'))"
  shows "lg' = lg @ g (AuditRecord (create_agent_audit_event c outcome reason))"
    and "res = Inr result \<or> res = Inr (agent_failure AGENT_AUDIT_UNAVAILABLE) \<or> res = Inl Cancelled"
  using assms unfolding agent_finish_def
  by (auto elim!: record_before_return_cases dest: logged_eqD)

lemma agent_finish_steps:
  assumes "agent_finish (log_orchestrator g orch) c result outcome reason (w, lg) = (res, (w', lg'))"
    and "agent_event_describes c result (create_agent_audit_event c outcome reason)"
  shows "\<exists>steps. lg' = lg @ concat (map g steps) \<and> model_turns steps = 0 \<and> tool_runs steps = 0
    \<and> audited_run c res steps"
proof -
  let ?e = "create_agent_audit_event c outcome reason"
  have "agent_event_describes c (agent_failure AGENT_AUDIT_UNAVAILABLE) ?e"
    using assms(2) by (simp add: agent_event_describes_def agent_failure_def)
  then have "audited_run c res [AuditRecord ?e]"
    using agent_finish_log(2)[OF assms(1)] assms(2) by (auto simp: audited_run_def)
  then show ?thesis using agent_finish_log(1)[OF assms(1)] by (intro exI[of _ "[AuditRecord ?e]"]) simp
qed

lemma finish_failure_steps:
  assumes "finish_failure (log_orchestrator g orch) c e (w, lg) = (res, (w', lg'))"
  shows "\<exists>steps. lg' = lg @ concat (map g steps) \<and> model_turns steps = 0 \<and> tool_runs steps = 0
    \<and> audited_run c res steps"
  using agent_finish_steps[OF assms[unfolded finish_failure_def]]
  by (simp add: agent_event_describes_def create_agent_audit_event_def agent_failure_def)

lemma audited_run_Cons:
  "audited_run c res (s # steps) \<longleftrightarrow> audited_run c res steps" if "\<And>e. s \<noteq> AuditRecord e"
  using that by (cases s) (auto simp: audited_run_def split: sum.splits)

lemma handle_call_turn: "handle_call env l routing turn call = Proceed v \<Longrightarrow>
    turn = 1 \<and> rp_mode routing = EXACT_READ_THEN_FINAL"
  by (cases "rp_mode routing") (auto simp: handle_call_def split: if_splits)

lemma validate_turn_number: "validate_turn env t = Inr req \<Longrightarrow> tr_turn_number req = tr_turn_number t"
  unfolding validate_turn_def validate_interactions_def
  by (elim bindE_InrE raise_if_InrE) (auto split: selection_mode.splits if_splits)

lemma logged_sndD: "logged f oper x (w, lg) = (r, (w', lg')) \<Longrightarrow> lg' = lg @ f x"
  by (drule logged_eqD) simp

lemma run_turns_steps:
  assumes "run_turns env (log_orchestrator g orch) su k turn st (w, lg) = (res, (w', lg'))"
    and "1 \<le> turn"
    and tool: "\<And>q v x v'. tg_execute (or_gateway orch) q v = (Inl x, v') \<Longrightarrow> x = Cancelled"
  shows "\<exists>steps. lg' = lg @ concat (map g steps) \<and> model_turns steps \<le> k
    \<and> tool_runs steps \<le> (if rp_mode (su_routing su) = EXACT_READ_THEN_FINAL \<and> turn = 1 then 1 else 0)
    \<and> audited_run (su_context su) res steps"
  using assms(1,2)
proof (induction k arbitrary: turn st w lg)
  case 0
  then show ?case using finish_failure_steps by fastforce
next
  case (Suc k)
  let ?c = "su_context su" and ?orch = "log_orchestrator g orch"
  let ?one = "if rp_mode (su_routing su) = EXACT_READ_THEN_FINAL \<and> turn = 1 then 1 else 0 :: nat"
  have turn_no: "tr_turn_number req = turn"
    if "validate_turn env (turn_of su turn st) = Inr req" for req
    using validate_turn_number[OF that] by (simp add: turn_of_def Let_def)
  have after_model: "lg1 = lg @ g (ModelTurn turn)"
    if "validate_turn env (turn_of su turn st) = Inr req"
      "or_complete_turn ?orch req (w, lg) = (r, (w1, lg1))" for req r w1 lg1
    using logged_sndD[of _ _ _ w lg] that(2) turn_no[OF that(1)] by fastforce
  have after_tool: "lg2 = lg1 @ g (ToolRun ?c call)"
    if "tg_execute (or_gateway ?orch) (?c, call) (w1, lg1) = (r, (w2, lg2))" for call w1 lg1 r w2 lg2
    using logged_sndD[of _ _ _ w1 lg1] that by fastforce
  have prefix: ?case
    if "\<exists>steps. lg' = lg @ concat (map g (pre @ steps)) \<and> model_turns (pre @ steps) \<le> Suc k \<and> tool_runs
        (pre @ steps) \<le> ?one \<and> audited_run ?c res (pre @ steps)" for pre
    using that by blast
  from Suc.prems(1) show ?case
  proof (cases rule: run_turns_cases)
    case (transcript e)
    then show ?thesis using finish_failure_steps[OF transcript] by fastforce
  next
    case (rejected e)
    then show ?thesis by (intro exI[of _ "[]"]) (simp add: audited_run_def)
  next
    case (provider req r)
    then have "lg' = lg @ g (ModelTurn turn)" using after_model by blast
    then show ?thesis using provider by (intro exI[of _ "[ModelTurn turn]"]) (simp add: audited_run_def)
  next
    case (failed req r w1 e)
    obtain v1 lg1 where w1: "w1 = (v1, lg1)" by (cases w1)
    obtain steps where s: "lg' = lg1 @ concat (map g steps)" "model_turns steps = 0" "tool_runs steps =
        0" "audited_run ?c res steps"
      using finish_failure_steps[OF failed(3)[unfolded w1]] by blast
    have "lg1 = lg @ g (ModelTurn turn)" using after_model failed(1,2) w1 by blast
    then show ?thesis using s
      by (intro exI[of _ "ModelTurn turn # steps"]) (simp add: audited_run_Cons)
  next
    case (raised req f)
    then have "lg' = lg @ g (ModelTurn turn)" using after_model by blast
    then show ?thesis using raised(4) by (intro exI[of _ "[ModelTurn turn]"]) (simp add:
        audited_run_def)
  next
    case (answered req f w1 s)
    obtain v1 lg1 where w1: "w1 = (v1, lg1)" by (cases w1)
    have desc: "agent_event_describes ?c (PublicChatSuccess s) (create_agent_audit_event ?c
        AuditSuccess ''completed'')"
      by (simp add: agent_event_describes_def create_agent_audit_event_def)
    obtain steps where s: "lg' = lg1 @ concat (map g steps)" "model_turns steps = 0" "tool_runs steps =
        0" "audited_run ?c res steps"
      using agent_finish_steps[OF answered(4)[unfolded w1] desc] by blast
    have "lg1 = lg @ g (ModelTurn turn)" using after_model answered(1,2) w1 by blast
    then show ?thesis using s
      by (intro exI[of _ "ModelTurn turn # steps"]) (simp add: audited_run_Cons)
  next
    case (tool_raised req call v w1 e)
    obtain v1 lg1 where w1: "w1 = (v1, lg1)" by (cases w1)
    have e: "e = Cancelled" using tool_raised(4) w1 tool
      by (auto simp: logged_def split: prod.splits)
    have one: "?one = 1" using handle_call_turn[OF tool_raised(3)] by simp
    have "lg1 = lg @ g (ModelTurn turn)" using after_model tool_raised(1,2) w1 by blast
    moreover have "lg' = lg1 @ g (ToolRun ?c (invocation_of v))" using after_tool tool_raised(4) w1 by
        blast
    ultimately show ?thesis using one tool_raised(5) e
      by (intro exI[of _ "[ModelTurn turn, ToolRun ?c (invocation_of v)]"]) (simp add: audited_run_def)
  next
    case (tool_failed req call v w1 result w2 e)
    obtain v1 lg1 where w1: "w1 = (v1, lg1)" by (cases w1)
    obtain v2 lg2 where w2: "w2 = (v2, lg2)" by (cases w2)
    have one: "?one = 1" using handle_call_turn[OF tool_failed(3)] by simp
    have "lg1 = lg @ g (ModelTurn turn)" using after_model tool_failed(1,2) w1 by blast
    moreover have "lg2 = lg1 @ g (ToolRun ?c (invocation_of v))" using after_tool tool_failed(4) w1 w2
        by blast
    moreover obtain steps where s: "lg' = lg2 @ concat (map g steps)" "model_turns steps = 0"
        "tool_runs steps = 0" "audited_run ?c res steps"
      using finish_failure_steps[OF tool_failed(6)[unfolded w2]] by blast
    ultimately show ?thesis using one
      by (intro exI[of _ "ModelTurn turn # ToolRun ?c (invocation_of v) # steps"]) (simp add:
          audited_run_Cons)
  next
    case (tool_invalid req call v w1 result)
    obtain v1 lg1 where w1: "w1 = (v1, lg1)" by (cases w1)
    have one: "?one = 1" using handle_call_turn[OF tool_invalid(3)] by simp
    have "lg1 = lg @ g (ModelTurn turn)" using after_model tool_invalid(1,2) w1 by blast
    moreover have "lg' = lg1 @ g (ToolRun ?c (invocation_of v))" using after_tool tool_invalid(4) w1 by
        blast
    ultimately show ?thesis using one tool_invalid(6)
      by (intro exI[of _ "[ModelTurn turn, ToolRun ?c (invocation_of v)]"]) (simp add: audited_run_def)
  next
    case (next_turn req call v w1 result w2 st')
    obtain v1 lg1 where w1: "w1 = (v1, lg1)" by (cases w1)
    obtain v2 lg2 where w2: "w2 = (v2, lg2)" by (cases w2)
    have one: "?one = 1" "turn = 1" using handle_call_turn[OF next_turn(3)] by simp_all
    have "lg1 = lg @ g (ModelTurn turn)" using after_model next_turn(1,2) w1 by blast
    moreover have "lg2 = lg1 @ g (ToolRun ?c (invocation_of v))" using after_tool next_turn(4) w1 w2 by
        blast
    moreover obtain steps where s: "lg' = lg2 @ concat (map g steps)" "model_turns steps \<le> k"
        "tool_runs steps = 0" "audited_run ?c res steps"
      using Suc.IH[OF next_turn(6)[unfolded w2]] one(2) by auto
    ultimately show ?thesis using one
      by (intro exI[of _ "ModelTurn turn # ToolRun ?c (invocation_of v) # steps"]) (simp add:
          audited_run_Cons)
  qed
qed

lemma agent_execute_cases:
  assumes "agent_execute env orch (c, request, routing0) w = (res, w')"
  obtains
    (early) e where "finish_failure orch c e w = (res, w')"
  | (escaped) "res = Inl Failed" "w' = w"
  | (turns) routing ts cls where "validate_route (ae_lower env) routing0 = Inr routing"
      "length (pc_message request) \<le> maximum_user_message_characters (or_limits orch)"
      "plan_route env orch routing (authorized_catalog env orch c) = Inr (ts, cls)"
      "run_turns env orch \<lparr>su_context = c, su_message = pc_message request,
           su_language = response_language c request, su_routing = routing,
           su_tools = ts, su_classification = cls\<rparr>
         (if rp_mode routing = GENERAL_ONLY then 1 else 2) 1 initial_run w = (res, w')"
proof -
  note run = assms[unfolded agent_execute_def Let_def prod.case]
  show thesis
  proof (cases "validate_route (ae_lower env) routing0")
    case (Inl e)
    then show thesis using run early by simp
  next
    case route: (Inr routing)
    show thesis
    proof (cases "length (pc_message request) > maximum_user_message_characters (or_limits orch) \<or>
        length (authorized_catalog env orch c) > maximum_model_tools (or_limits orch)")
      case True
      then show thesis using run early by (auto simp: route split: if_splits)
    next
      case False
      show thesis
      proof (cases "canonical_json_bytes (ae_float_size env)
          (JArr (map dump_definition (authorized_catalog env orch c)))")
        case (Inl e)
        then show thesis using run False escaped by (simp add: route)
      next
        case bytes: (Inr n)
        show thesis
        proof (cases "n > maximum_tool_catalog_bytes (or_limits orch)")
          case True
          then show thesis using run False early bytes by (simp add: route)
        next
          case small: False
          show thesis
          proof (cases "plan_route env orch routing (authorized_catalog env orch c)")
            case (Inl e)
            then show thesis using run False early bytes small by (simp add: route)
          next
            case (Inr p)
            obtain ts cls where p: "p = (ts, cls)" by (cases p)
            have "run_turns env orch \<lparr>su_context = c, su_message = pc_message request, su_language =
                response_language c request, su_routing = routing,
                su_tools = ts, su_classification = cls\<rparr>
              (if rp_mode routing = GENERAL_ONLY then 1 else 2) 1 initial_run w = (res, w')"
              using run False bytes small Inr p by (simp add: route del: run_turns.simps)
            then show thesis using turns[OF route _ Inr[unfolded p]] False by linarith
          qed
        qed
      qed
    qed
  qed
qed

section \<open>The gateway as a boundary\<close>

text \<open>What the orchestrator relies on when it invokes a tool.\<close>

locale tool_boundary =
  fixes exec :: "(trusted_context \<times> tool_invocation, 'w, 'o tool_output tool_result outcome) op"
  assumes echo: "exec (c, call) w = (Inr (PublicToolSuccess n v out), w') \<Longrightarrow>
      n = inv_tool_name call \<and> v = inv_version call"
    and cancelled_only: "exec q w = (Inl x, w') \<Longrightarrow> x = Cancelled"
begin

lemma execute_steps:
  assumes "tg_execute (or_gateway orch) = exec"
    and run: "agent_execute env (log_orchestrator g orch) (c, request, routing) (w, lg) = (res, (w',
        lg'))"
  shows "\<exists>steps. lg' = lg @ concat (map g steps)
    \<and> model_turns steps \<le> (if rp_mode routing = GENERAL_ONLY then 1 else 2)
    \<and> tool_runs steps \<le> (if rp_mode routing = GENERAL_ONLY then 0 else 1)
    \<and> audited_run c res steps"
proof -
  let ?orch = "log_orchestrator g orch"
  have failed: ?thesis if "finish_failure ?orch c e (w, lg) = (res, (w', lg'))" for e
    using finish_failure_steps[OF that] by fastforce
  have raised: ?thesis if "res = Inl Failed" "lg' = lg"
    using that by (intro exI[of _ "[]"]) (simp add: audited_run_def)
  have raise: "x = Cancelled" if "tg_execute (or_gateway orch) q v = (Inl x, v')" for q v x v'
    using cancelled_only that assms(1) by simp
  from run show ?thesis
  proof (cases rule: agent_execute_cases)
    case (early e)
    then show ?thesis by (rule failed)
  next
    case escaped
    then show ?thesis using raised by simp
  next
    case (turns routing' ts cls)
    have "rp_mode routing' = rp_mode routing"
      using turns(1) unfolding validate_route_def by (elim bindE_InrE raise_if_InrE) auto
    then show ?thesis using run_turns_steps[OF turns(4) le_refl raise] by (cases "rp_mode routing") auto
  qed
qed

end

definition gateway_methods ::
  "('i, 'raw, 'o tool_output, 'w) gateway \<Rightarrow> ('o, 'w) tool_gateway" where
  "gateway_methods g = \<lparr>tg_registry = gw_registry g, tg_available = available_tools g,
     tg_execute = gateway_execute g\<rparr>"

lemma gateway_failure_raises: "gateway_failure g c call code reason d w = (Inl x, w') \<Longrightarrow> x = Cancelled"
  unfolding gateway_failure_def gateway_record_def by (elim record_before_return_cases) auto

lemma gateway_execute_raises:
  assumes "gateway_execute g (c, call) w = (Inl x, w')"
  shows "x = Cancelled"
proof (cases "admission g c call")
  case (Inl e)
  then show ?thesis using assms gateway_failure_raises by (cases e) (auto simp: gateway_execute_staged)
next
  case (Inr y)
  obtain d h args where y: "y = (d, h, args)" by (metis prod.exhaust)
  have run: "run_admitted g c call d h args w = (Inl x, w')"
    using assms Inr y by (simp add: gateway_execute_staged)
  obtain r w1 where r: "h_execute h (c, args) w = (r, w1)" by (metis prod.exhaust)
  show ?thesis
  proof (cases r)
    case (Inl e)
    then show ?thesis using run r gateway_failure_raises by (cases e) (auto simp: run_admitted_def)
  next
    case (Inr raw)
    show ?thesis
    proof (cases "validate_output h raw")
      case None
      then show ?thesis using run r Inr gateway_failure_raises by (auto simp: run_admitted_def)
    next
      case (Some out)
      then show ?thesis using run r Inr
        by (auto simp: run_admitted_def gateway_record_def elim!: record_before_return_cases)
    qed
  qed
qed

interpretation gateway_boundary: tool_boundary "gateway_execute g" for g
proof
  fix c call w n v out w'
  assume "gateway_execute g (c, call) w = (Inr (PublicToolSuccess n v out), w')"
  then show "n = inv_tool_name call \<and> v = inv_version call"
    by (rule gateway_success_cases) simp
next
  fix q w x w'
  assume "gateway_execute g q w = (Inl x, w')"
  then show "x = Cancelled" using gateway_execute_raises[of g "fst q" "snd q" w x w'] by simp
qed

section \<open>Grounded answers\<close>

lemma observe_excerpts_Some:
  "observe_excerpts es seen = Some (ids, seen') \<Longrightarrow>
     ids = map ke_citation_id es
   \<and> (\<forall>i x. seen' i = Some x \<longrightarrow> seen i = Some x \<or> x \<in> citation_of ` set es)
   \<and> dom seen' = dom seen \<union> set ids"
proof (induction es arbitrary: seen ids)
  case (Cons e es)
  let ?c = "citation_of e"
  have id: "ci_citation_id ?c = ke_citation_id e" by (simp add: citation_of_def)
  obtain ids1 where rest: "observe_excerpts es (seen(ke_citation_id e \<mapsto> ?c)) = Some (ids1, seen')"
    and ids: "ids = ke_citation_id e # ids1"
    using Cons.prems id by (auto simp: Let_def split: option.splits if_splits)
  note IH = Cons.IH[OF rest]
  have "seen i = Some x \<or> x \<in> citation_of ` set (e # es)" if "seen' i = Some x" for i x
  proof -
    have "(seen(ke_citation_id e \<mapsto> ?c)) i = Some x \<or> x \<in> citation_of ` set es" using IH that by blast
    then show ?thesis by (auto split: if_splits)
  qed
  then show ?case using IH ids by auto
qed simp

lemma handle_final_Proceed:
  assumes "handle_final l mode turn lang f st = Proceed s"
  shows "mode = GENERAL_ONLY \<or> turn \<noteq> 1" and "length (fa_answer f) \<le> maximum_final_answer_characters l"
    and "\<exists>cs. validate_grounding f (rs_successful_calls st) (rs_citations st) = Some cs
      \<and> make_chat_success (fa_answer f) lang cs = Inr s"
    and "mode = GENERAL_ONLY \<Longrightarrow> fa_basis f = GENERAL \<and> fa_evidence_call_ids f = [] \<and> fa_citation_ids f =
        []"
    and "mode = EXACT_READ_THEN_FINAL \<Longrightarrow> matches_exact_route_grounding f (rs_successful_calls st)"
  using assms by (cases mode; auto simp: handle_final_def Let_def split: if_splits option.splits
      sum.splits)+

lemma make_chat_success_Inr:
  "make_chat_success answer lang cs = Inr s \<Longrightarrow> cs_citations s = cs \<and> cs_response_language s = lang
     \<and> cs_answer s = unicode_trim answer \<and> is_language_code lang"
  unfolding make_chat_success_def language_code_def
  by (elim bindE_InrE raise_if_InrE) (auto simp: trimmed_text_Inr split: if_splits)

lemma validate_grounding_Some:
  assumes "validate_grounding f calls observed = Some cs"
  shows "cs = map (the \<circ> observed) (fa_citation_ids f)" and "fa_basis f \<noteq> MIXED"
    and "fa_basis f = ERP_DATA \<Longrightarrow> fa_citation_ids f = []"
    and "fa_basis f = GENERAL \<Longrightarrow> calls = [] \<and> fa_citation_ids f = []"
    and "fa_basis f = KNOWLEDGE \<Longrightarrow> fa_citation_ids f \<noteq> []"
    and "set (fa_citation_ids f)
      \<subseteq> set (concat (map ev_citation_ids (map (the \<circ> find_call calls) (fa_evidence_call_ids f))))"
  using assms
  by (cases "fa_basis f"; auto simp: validate_grounding_def Let_def split: if_splits)+

section \<open>The agent as an audited operation\<close>

text \<open>An orchestrator assembled from a read-tool gateway.\<close>

definition agent_of ::
  "('i, 'raw, 'o tool_output, 'w) gateway \<Rightarrow> ('o turn_request, 'w, 'o model_response outcome) op
     \<Rightarrow> (agent_audit_event, 'w, unit outcome) op \<Rightarrow> agent_limits \<Rightarrow> ('o, 'w) orchestrator" where
  "agent_of g turns sink l = \<lparr>or_registry = gw_registry g, or_gateway = gateway_methods g,
     or_complete_turn = turns, or_sink = sink, or_limits = l\<rparr>"

lemma make_orchestrator_agent:
  "make_orchestrator (gw_registry g) (gateway_methods g) turns sink (Some l) = Inr (agent_of g turns
      sink l)"
  by (simp add: make_orchestrator_def gateway_methods_def agent_of_def)

fun audit_only :: "agent_step \<Rightarrow> agent_audit_event list" where
  "audit_only (AuditRecord e) = [e]"
| "audit_only _ = []"

lemma concat_audit_only: "concat (map audit_only steps) = audit_records steps"
  unfolding audit_records_def by (rule arg_cong[of _ _ concat], rule map_cong)
    (auto split: agent_step.splits)

definition agent_served ::
  "('o agent_env \<times> ('i, 'raw, 'o tool_output, 'w) gateway
      \<times> ('o turn_request, 'w, 'o model_response outcome) op
      \<times> (agent_audit_event, 'w, unit outcome) op \<times> agent_limits)
     \<times> trusted_context \<times> public_chat_request \<times> routing_policy
     \<Rightarrow> 'w \<times> agent_audit_event list \<Rightarrow> chat_result outcome \<times> ('w \<times> agent_audit_event list)" where
  "agent_served q s = (case q of ((env, g, turns, sink, l), request) \<Rightarrow>
     agent_execute env (log_orchestrator audit_only (agent_of g turns sink l)) request s)"

lemma agent_gateway [simp]: "tg_execute (or_gateway (agent_of g turns sink l)) = gateway_execute g"
  by (simp add: agent_of_def gateway_methods_def)

lemma agent_served_steps:
  assumes "agent_served (setting, c, request, routing) (w, lg) = (res, (w', lg'))"
  shows "\<exists>steps. lg' = lg @ audit_records steps \<and> audited_run c res steps"
proof -
  obtain env g turns sink l where s: "setting = (env, g, turns, sink, l)" by (metis prod.exhaust)
  have "agent_execute env (log_orchestrator audit_only (agent_of g turns sink l)) (c, request, routing)
      (w, lg) = (res, (w', lg'))"
    using assms by (simp add: agent_served_def s)
  from gateway_boundary.execute_steps[OF agent_gateway this] show ?thesis
    unfolding concat_audit_only by blast
qed

interpretation agent_audit: audited_operation agent_served
    "\<lambda>q r e. agent_event_describes (fst (snd q)) r e"
proof
  fix q w lg r w' lg'
  assume run: "agent_served q (w, lg) = (Inr r, (w', lg'))"
  obtain setting c request routing where q: "q = (setting, c, request, routing)" by (metis prod.exhaust)
  obtain steps where "lg' = lg @ audit_records steps" "audited_run c (Inr r) steps"
    using agent_served_steps[OF run[unfolded q]] by blast
  then show "\<exists>e. lg' = lg @ [e] \<and> agent_event_describes (fst (snd q)) r e"
    by (auto simp: audited_run_def q)
next
  fix q w lg x w' lg'
  assume run: "agent_served q (w, lg) = (Inl x, (w', lg'))"
  obtain setting c request routing where q: "q = (setting, c, request, routing)" by (metis prod.exhaust)
  obtain steps where "lg' = lg @ audit_records steps" "audited_run c (Inl x) steps"
    using agent_served_steps[OF run[unfolded q]] by blast
  then show "lg' = lg \<or> x = Cancelled \<and> (\<exists>e. lg' = lg @ [e])"
    by (auto simp: audited_run_def)
qed

section \<open>Evidence\<close>

text \<open>Citations of a knowledge result: all of them come from its excerpts.\<close>

definition grounded_in :: "pystr \<Rightarrow> 'o tool_output \<Rightarrow> public_citation list \<Rightarrow> bool" where
  "grounded_in name out cites \<longleftrightarrow>
     (if name = KNOWLEDGE_TOOL
      then cites \<noteq> [] \<and> (\<exists>es. out = KnowledgeOutput es \<and> set cites \<subseteq> citation_of ` set es)
      else cites = [])"

lemma initial_run_simps [simp]:
  "rs_interactions initial_run = []" "rs_citations initial_run = Map.empty"
  "rs_successful_calls initial_run = []"
  by (simp_all add: initial_run_def)

lemma handle_result_Proceed:
  assumes "handle_result env l v result initial_run = Proceed st'"
  shows "\<exists>out ids seen. result = PublicToolSuccess (tc_tool_name v) (tc_version v) out
    \<and> observe_citations (tc_tool_name v) out Map.empty = Some (ids, seen)
    \<and> rs_citations st' = seen
    \<and> rs_successful_calls st' = [\<lparr>ev_call_id = tc_call_id v, ev_tool_name = tc_tool_name v, ev_version
        = tc_version v, ev_is_knowledge = (tc_tool_name v = KNOWLEDGE_TOOL), ev_citation_ids = ids\<rparr>]"
proof (cases result)
  case (PublicToolFailure n ver code msg)
  then show ?thesis using assms by (simp add: handle_result_def split: if_splits)
next
  case (PublicToolSuccess n ver out)
  let ?i = "\<lparr>ia_call = v, ia_message = \<lparr>tm_call_id = tc_call_id v, tm_tool_name = tc_tool_name v,
      tm_result = PublicToolSuccess n ver out\<rparr>\<rparr>"
  note run = assms[unfolded handle_result_def PublicToolSuccess tool_result.case Let_def
      initial_run_simps append_Nil]
  obtain i where p: "pair_call_and_result env ?i = Inr i"
    using run by (cases "pair_call_and_result env ?i") auto
  have names: "tc_tool_name v = n" "tc_version v = ver"
    using p unfolding pair_call_and_result_def Let_def
    by (auto elim!: bindE_InrE split: if_splits)
  note run1 = run[unfolded p sum.case]
  have tf: "transcript_failure env l [i] = None"
    using run1 by (cases "transcript_failure env l [i]") simp_all
  note run2 = run1[unfolded tf option.case]
  obtain ids seen where o: "observe_citations n out Map.empty = Some (ids, seen)"
    using run2 by (cases "observe_citations n out Map.empty") auto
  then have "st' = \<lparr>rs_interactions = [i], rs_citations = seen,
      rs_successful_calls = put_call \<lparr>ev_call_id = tc_call_id v, ev_tool_name = tc_tool_name v,
        ev_version = tc_version v, ev_is_knowledge = (tc_tool_name v = KNOWLEDGE_TOOL),
        ev_citation_ids = ids\<rparr> []\<rparr>"
    using run2 o by simp
  then show ?thesis using names o PublicToolSuccess
    by (simp add: initial_run_def put_call_def find_call_def)
qed

lemma final_grounding:
  assumes "handle_final l EXACT_READ_THEN_FINAL turn lang f st = Proceed s"
    and calls: "rs_successful_calls st = [\<lparr>ev_call_id = cid, ev_tool_name = name, ev_version = ver,
        ev_is_knowledge = (name = KNOWLEDGE_TOOL), ev_citation_ids = ids\<rparr>]"
    and obs: "observe_citations name out Map.empty = Some (ids, rs_citations st)"
  shows "grounded_in name out (cs_citations s)"
    and "fa_basis f = (if name = KNOWLEDGE_TOOL then KNOWLEDGE else ERP_DATA)"
proof -
  note h = handle_final_Proceed[OF assms(1)]
  obtain cs where g: "validate_grounding f (rs_successful_calls st) (rs_citations st) = Some cs"
    and s: "make_chat_success (fa_answer f) lang cs = Inr s"
    using h(3) by blast
  have cs: "cs_citations s = cs" using make_chat_success_Inr[OF s] by simp
  have m: "fa_evidence_call_ids f = [cid]" "fa_basis f = (if name = KNOWLEDGE_TOOL then KNOWLEDGE else
      ERP_DATA)"
    using h(5) by (simp_all add: matches_exact_route_grounding_def calls)
  note v = validate_grounding_Some[OF g]
  have cited: "set (fa_citation_ids f) \<subseteq> set ids" using v(6) by (simp add: m calls find_call_def)
  show "fa_basis f = (if name = KNOWLEDGE_TOOL then KNOWLEDGE else ERP_DATA)" by (rule m(2))
  show "grounded_in name out (cs_citations s)"
  proof (cases "name = KNOWLEDGE_TOOL")
    case False
    then show ?thesis using v(1,3) m(2) cs by (simp add: grounded_in_def)
  next
    case True
    then have ne: "fa_citation_ids f \<noteq> []" using v(5) m(2) by simp
    then have "ids \<noteq> []" using cited by auto
    then obtain es where es: "out = KnowledgeOutput es"
      using obs by (cases out) (auto simp: observe_citations_def)
    then have ex: "observe_excerpts es Map.empty = Some (ids, rs_citations st)"
      using obs True by (simp add: observe_citations_def)
    note o = observe_excerpts_Some[OF ex]
    have "x \<in> citation_of ` set es" if x: "x \<in> set cs" for x
    proof -
      obtain i where i: "i \<in> set (fa_citation_ids f)" "x = the (rs_citations st i)"
        using x v(1) by auto
      then have "i \<in> dom (rs_citations st)" using o cited by auto
      then have "rs_citations st i = Some x" using i(2) by auto
      then show ?thesis using o by auto
    qed
    then show ?thesis using True es ne v(1) cs by (auto simp: grounded_in_def)
  qed
qed

section \<open>Successful runs\<close>

lemma finish_failure_not_success: "finish_failure orch c e v \<noteq> (Inr (PublicChatSuccess s), v')"
proof
  assume "finish_failure orch c e v = (Inr (PublicChatSuccess s), v')"
  then show False unfolding finish_failure_def agent_finish_def
    by (elim record_before_return_cases) (auto simp: agent_failure_def)
qed

lemma run_turns_success:
  assumes run: "run_turns env orch su k turn st w = (Inr (PublicChatSuccess s), w')"
    and late: "turn \<noteq> 1 \<or> rp_mode (su_routing su) = GENERAL_ONLY"
  shows "\<exists>f req w1 w2. or_complete_turn orch req w1 = (Inr (ModelFinalAnswer f), w2)
    \<and> handle_final (or_limits orch) (rp_mode (su_routing su)) turn (su_language su) f st = Proceed s"
proof -
  show ?thesis
  proof (cases k)
    case 0
    then show ?thesis using run finish_failure_not_success by (metis run_turns.simps(1))
  next
    case (Suc n)
    from run[unfolded Suc] show ?thesis
    proof (cases rule: run_turns_cases)
      case (answered req f w1 s')
      have "s' = s" using answered(4) unfolding agent_finish_def
        by (elim record_before_return_cases) (auto simp: agent_failure_def)
      then show ?thesis using answered by blast
    next
      case (next_turn req call v)
      then show ?thesis using handle_call_turn[OF next_turn(3)] late by auto
    qed (simp_all add: finish_failure_not_success)
  qed
qed

lemma run_exact_success:
  assumes run: "run_turns env orch su 2 1 initial_run w = (Inr (PublicChatSuccess s), w')"
    and mode: "rp_mode (su_routing su) = EXACT_READ_THEN_FINAL"
  shows "\<exists>f req w1 w2 v out w3 w4. or_complete_turn orch req w1 = (Inr (ModelFinalAnswer f), w2)
    \<and> tg_execute (or_gateway orch) (su_context su, invocation_of v) w3
        = (Inr (PublicToolSuccess (tc_tool_name v) (tc_version v) out), w4)
    \<and> rp_tool_name (su_routing su) = Some (tc_tool_name v) \<and> rp_version (su_routing su) = Some
        (tc_version v)
    \<and> grounded_in (tc_tool_name v) out (cs_citations s)
    \<and> fa_basis f = (if tc_tool_name v = KNOWLEDGE_TOOL then KNOWLEDGE else ERP_DATA)
    \<and> cs_answer s = unicode_trim (fa_answer f) \<and> cs_response_language s = su_language su"
proof -
  from run have "run_turns env orch su (Suc 1) 1 initial_run w = (Inr (PublicChatSuccess s), w')"
    by (simp only: Suc_1)
  then show ?thesis
  proof (cases rule: run_turns_cases)
    case (answered req f w1 s')
    then show ?thesis using handle_final_Proceed(1)[OF answered(3)] mode by simp
  next
    case (next_turn req call v w1 result w2 st')
    obtain out ids seen where st': "result = PublicToolSuccess (tc_tool_name v) (tc_version v) out"
        "observe_citations (tc_tool_name v) out Map.empty = Some (ids, seen)" "rs_citations st' = seen"
        "rs_successful_calls st' = [\<lparr>ev_call_id = tc_call_id v, ev_tool_name = tc_tool_name v,
          ev_version = tc_version v, ev_is_knowledge = (tc_tool_name v = KNOWLEDGE_TOOL),
          ev_citation_ids = ids\<rparr>]"
      using handle_result_Proceed[OF next_turn(5)] by blast
    have routed: "rp_tool_name (su_routing su) = Some (tc_tool_name v)"
        "rp_version (su_routing su) = Some (tc_version v)"
      using next_turn(3) by (auto simp: handle_call_def split: if_splits sum.splits)
    obtain f req' w5 w6 where f: "or_complete_turn orch req' w5 = (Inr (ModelFinalAnswer f), w6)"
      "handle_final (or_limits orch) EXACT_READ_THEN_FINAL (Suc 1) (su_language su) f st' = Proceed s"
      using run_turns_success[OF next_turn(6)] mode by auto
    have "observe_citations (tc_tool_name v) out Map.empty = Some (ids, rs_citations st')"
      using st' by simp
    note gr = final_grounding[OF f(2) st'(4) this]
    obtain cs where "make_chat_success (fa_answer f) (su_language su) cs = Inr s"
      using handle_final_Proceed(3)[OF f(2)] by blast
    from make_chat_success_Inr[OF this] show ?thesis
      using f(1) next_turn(4)[unfolded st'(1)] routed gr by blast
  qed (simp_all add: finish_failure_not_success)
qed

lemma empty_transcript [simp]: "transcript_failure env l [] = None"
  by (simp add: transcript_failure_def)

end
