(* ===== verification/AgentProperties.thy ===== *)
theory AgentProperties
  imports Orchestrator
begin

text \<open>
  The properties of the bounded agent of \<open>src/erp_ai/orchestration/service.py\<close>, with a concrete agent
  that is evaluated on a general route and on an exact route.
\<close>

section \<open>A concrete agent\<close>

text \<open>The tool always answers; the model calls it on the first turn and answers on the second.\<close>

definition sample_env :: "unit agent_env" where
  "sample_env = \<lparr>ae_lower = ascii_lower, ae_tokenize = (\<lambda>_. Some (TObj [])), ae_float_size = (\<lambda>_. 3),
     ae_dump = (\<lambda>_. JNull), ae_schema = (\<lambda>_. [])\<rparr>"

definition sample_tools :: "(unit, nat) tool_gateway" where
  "sample_tools = \<lparr>tg_registry = sample_registry, tg_available = (\<lambda>_. [model_tool_of sample_tool]),
     tg_execute = (\<lambda>(c, call) w. (Inr (PublicToolSuccess (inv_tool_name call) (inv_version call)
        (OtherOutput ())), w + 1))\<rparr>"

definition sample_model :: "(unit turn_request, nat, unit model_response outcome) op" where
  "sample_model t w = (Inr (
     if ts_mode (tr_tool_selection t) = REQUIRED_EXACT_TOOL
     then ModelToolCall \<lparr>tc_call_id = lit ''c1'', tc_tool_name = lit ''count_roles'',
       tc_version = lit ''1.0.0'', tc_arguments_json = lit ''{}'', tc_arguments = []\<rparr>
     else ModelFinalAnswer \<lparr>fa_answer = lit ''done'',
       fa_basis = (if ts_mode (tr_tool_selection t) = NO_TOOLS then GENERAL else ERP_DATA),
       fa_evidence_call_ids = (if ts_mode (tr_tool_selection t) = NO_TOOLS then [] else [lit ''c1'']),
       fa_citation_ids = []\<rparr>), w + 100)"

definition sample_agent :: "(unit, nat) orchestrator" where
  "sample_agent = \<lparr>or_registry = sample_registry, or_gateway = sample_tools,
     or_complete_turn = sample_model, or_sink = (\<lambda>_ w. (Inr (), w + 1000)), or_limits = default_limits\<rparr>"

definition sample_chat :: public_chat_request where
  "sample_chat = \<lparr>pc_message = lit ''hello'', pc_stream = False, pc_preferred_language = None\<rparr>"

definition exact_route :: routing_policy where
  "exact_route = \<lparr>rp_mode = EXACT_READ_THEN_FINAL, rp_tool_name = Some (lit ''count_roles''),
     rp_version = Some (lit ''1.0.0'')\<rparr>"

definition general_route :: routing_policy where
  "general_route = \<lparr>rp_mode = GENERAL_ONLY, rp_tool_name = None, rp_version = None\<rparr>"

lemma sample_catalog:
  "authorized_catalog sample_env sample_agent sample_context
     = [\<lparr>td_tool_name = lit ''count_roles'', td_version = lit ''1.0.0'', td_input_schema = []\<rparr>]"
  by (simp add: authorized_catalog_def sample_agent_def sample_tools_def sample_decision
      model_tool_of_def sample_env_def)

lemma sample_routes:
  "validate_route (ae_lower sample_env) exact_route = Inr exact_route"
  "validate_route (ae_lower sample_env) general_route = Inr general_route"
  by (simp_all add: validate_route_def exact_route_def general_route_def consistent_selection_def
      sample_env_def validate_version_def is_semver_def is_canonical_number_def sample_text)

lemma sample_agent_simps [simp]:
  "or_limits sample_agent = default_limits" "or_registry sample_agent = sample_registry"
  "or_gateway sample_agent = sample_tools" "or_complete_turn sample_agent = sample_model"
  "or_sink sample_agent = (\<lambda>_ w. (Inr (), w + 1000))"
  "rp_mode general_route = GENERAL_ONLY" "rp_mode exact_route = EXACT_READ_THEN_FINAL"
  by (simp_all add: sample_agent_def general_route_def exact_route_def)

lemma sample_catalog_bytes:
  "canonical_json_bytes (ae_float_size sample_env) (JArr (map dump_definition (authorized_catalog
      sample_env sample_agent sample_context))) = Inr 65"
  by (simp add: sample_catalog canonical_json_bytes_def dump_definition_def lit_def with_commas_def
      json_string_size_def
     json_char_size_def utf8_encodable_def utf8_width_def)

definition sample_setup :: "routing_policy \<Rightarrow> run_setup" where
  "sample_setup r = \<lparr>su_context = sample_context, su_message = lit ''hello'', su_language = lit ''en'',
      su_routing = r,
   su_tools = (if rp_mode r = GENERAL_ONLY then [] else [\<lparr>td_tool_name = lit ''count_roles'',
       td_version = lit ''1.0.0'', td_input_schema = []\<rparr>]),
   su_classification = RESTRICTED\<rparr>"

lemma sample_general_turn:
  "validate_turn sample_env (turn_of (sample_setup general_route) 1 initial_run) = Inr (turn_of
      (sample_setup general_route) 1 initial_run)"
  by (simp add: validate_turn_def turn_of_def sample_setup_def validate_interactions_def
      language_code_def is_language_code_def
   validate_selection_def consistent_selection_def sample_context_def sample_env_def sample_text)

lemma sample_exact_turn:
  "validate_turn sample_env (turn_of (sample_setup exact_route) 1 initial_run) = Inr (turn_of
      (sample_setup exact_route) 1 initial_run)"
  by (simp add: validate_turn_def turn_of_def sample_setup_def validate_interactions_def
      language_code_def is_language_code_def exact_route_def
   validate_selection_def consistent_selection_def sample_context_def sample_env_def sample_text
       validate_version_def is_semver_def is_canonical_number_def)

definition sample_success :: chat_success where
  "sample_success = \<lparr>cs_answer = lit ''done'', cs_response_language = lit ''en'', cs_citations = []\<rparr>"

lemma sample_final:
  "handle_final default_limits GENERAL_ONLY 1 (lit ''en'') \<lparr>fa_answer = lit ''done'', fa_basis =
      GENERAL, fa_evidence_call_ids = [], fa_citation_ids = []\<rparr> initial_run = Proceed sample_success"
  by (simp add: sample_success_def handle_final_def Let_def default_limits_def validate_grounding_def
      make_chat_success_def language_code_def is_language_code_def trimmed_text_def unicode_trim_def is_white_space_def py_isspace_def sample_text)

lemma sample_setup_general: "su_context (sample_setup r) = sample_context" "su_routing (sample_setup r)
    = r" "su_language (sample_setup r) = lit ''en''"
  by (simp_all add: sample_setup_def)

lemma sample_response_language: "response_language sample_context sample_chat = lit ''en''"
  by (simp add: response_language_def sample_chat_def sample_context_def)

lemma sample_route_tools: "registry_tools sample_registry = [sample_tool]"
  by (simp add: registry_tools_def sample_manifests sample_manifest_def)

lemma sample_plan:
  "plan_route sample_env sample_agent r (authorized_catalog sample_env sample_agent sample_context)
     = Inr (if rp_mode r = GENERAL_ONLY then [] else [\<lparr>td_tool_name = lit ''count_roles'', td_version =
         lit ''1.0.0'', td_input_schema = []\<rparr>], RESTRICTED)"
  if "r \<in> {general_route, exact_route}"
  using that
  by (auto simp: plan_route_def sample_catalog route_tools_def exact_route_def general_route_def
      sample_route_tools Let_def default_limits_def max_def
    sample_tool_def less_eq_data_classification_def)

lemma sample_start:
  assumes "r \<in> {general_route, exact_route}"
  shows "agent_execute sample_env sample_agent (sample_context, sample_chat, r) w
   = run_turns sample_env sample_agent (sample_setup r) (if rp_mode r = GENERAL_ONLY then 1 else 2) 1
       initial_run w"
proof -
  have 1: "validate_route (ae_lower sample_env) r = Inr r" using assms sample_routes by auto
  have 2: "length (authorized_catalog sample_env sample_agent sample_context) = 1" by (simp add:
      sample_catalog)
  have 3: "length (pc_message sample_chat) = 5" by (simp add: sample_chat_def sample_text)
  have 4: "\<lparr>su_context = sample_context, su_message = pc_message sample_chat, su_language =
      response_language sample_context sample_chat,
    su_routing = r, su_tools = if rp_mode r = GENERAL_ONLY then [] else [\<lparr>td_tool_name = lit
        ''count_roles'', td_version = lit ''1.0.0'', td_input_schema = []\<rparr>],
    su_classification = RESTRICTED\<rparr> = sample_setup r"
    by (simp add: sample_setup_def sample_response_language) (simp add: sample_chat_def)
  show ?thesis
    unfolding agent_execute_def prod.case 1 sum.case Let_def 2 3 sample_catalog_bytes sample_plan[OF
        assms] 4
    by (simp add: default_limits_def del: run_turns.simps)
qed

lemma sample_general_run:
  "agent_execute sample_env sample_agent (sample_context, sample_chat, general_route) w
     = (Inr (PublicChatSuccess sample_success), w + 1100)"
proof -
  have "ts_mode (tr_tool_selection (turn_of (sample_setup general_route) 1 initial_run)) = NO_TOOLS"
    by (simp add: turn_of_def sample_setup_general)
  then have m: "sample_model (turn_of (sample_setup general_route) 1 initial_run) w
    = (Inr (ModelFinalAnswer \<lparr>fa_answer = lit ''done'', fa_basis = GENERAL, fa_evidence_call_ids = [],
        fa_citation_ids = []\<rparr>), w + 100)"
    by (simp add: sample_model_def)
  have s: "run_turns sample_env sample_agent (sample_setup general_route) (Suc 0) 1 initial_run w
    = (Inr (PublicChatSuccess sample_success), w + 1100)"
    unfolding run_turns.simps(2) Let_def initial_run_simps empty_transcript sample_general_turn
        option.case sum.case sample_agent_simps sample_setup_general
      m prod.case model_response.case sample_final verdict.case
    by (simp add: agent_finish_def record_before_return_def)
  show ?thesis using s by (simp add: sample_start del: run_turns.simps)
qed

definition model_call :: tool_call where
  "model_call = \<lparr>tc_call_id = lit ''c1'', tc_tool_name = lit ''count_roles'',
       tc_version = lit ''1.0.0'', tc_arguments_json = lit ''{}'', tc_arguments = []\<rparr>"

lemma model_call_fields:
  "tc_call_id model_call = lit ''c1''" "tc_tool_name model_call = lit ''count_roles''"
  "tc_version model_call = lit ''1.0.0''" "tc_arguments_json model_call = lit ''{}''" "tc_arguments
      model_call = []"
  by (simp_all add: model_call_def)

lemma model_call_parses:
  "from_arguments_json sample_env (lit ''c1'') (lit ''count_roles'') (lit ''1.0.0'') (lit ''{}'') = Inr
      model_call"
  by (simp add: from_arguments_json_def parse_arguments_json_def sample_env_def
      raw_and_parsed_arguments_match_def
    model_call_def call_id_text_def utf8_encodable_def MAXIMUM_TOOL_ARGUMENT_BYTES_def
        MAXIMUM_ARGUMENT_DEPTH_def MAXIMUM_ARGUMENT_NODES_def
    utf8_size_def utf8_width_def validate_version_def is_semver_def is_canonical_number_def
        combine_children_def json_values_equivalent_def sample_text)

lemma model_call_small: "arguments_within_limits default_limits model_call"
  by (simp add: arguments_within_limits_def model_call_def default_limits_def utf8_size_def
      utf8_width_def lit_def combine_children_def)

lemma sample_handle_call: "handle_call sample_env default_limits exact_route 1 model_call = Proceed
    model_call"
  by (simp add: handle_call_def model_call_fields model_call_parses model_call_small
      json_values_equivalent_def)
    (simp add: exact_route_def)

definition model_interaction :: "unit interaction" where
  "model_interaction = \<lparr>ia_call = model_call, ia_message = \<lparr>tm_call_id = lit ''c1'',
     tm_tool_name = lit ''count_roles'',
     tm_result = PublicToolSuccess (lit ''count_roles'') (lit ''1.0.0'') (OtherOutput ())\<rparr>\<rparr>"

definition sample_after :: "unit run_state" where
  "sample_after = \<lparr>rs_interactions = [model_interaction], rs_citations = Map.empty,
     rs_successful_calls = [\<lparr>ev_call_id = lit ''c1'', ev_tool_name = lit ''count_roles'',
       ev_version = lit ''1.0.0'', ev_is_knowledge = False, ev_citation_ids = []\<rparr>]\<rparr>"

lemma model_interaction_pairs: "pair_call_and_result sample_env model_interaction = Inr
    model_interaction"
  by (simp add: pair_call_and_result_def model_interaction_def model_call_fields model_call_parses)

lemma model_interaction_bytes:
  "\<exists>n \<le> 65536. canonical_json_bytes (ae_float_size sample_env)
     (dump_message sample_env (ia_message model_interaction)) = Inr n"
  by (simp add: canonical_json_bytes_def model_interaction_def dump_message_def lit_def with_commas_def
     json_string_size_def json_char_size_def utf8_encodable_def utf8_width_def sample_env_def)

lemma one_interaction_within_limits:
  assumes "pair_call_and_result env i = Inr i" and "arguments_within_limits l (ia_call i)"
    and "canonical_json_bytes (ae_float_size env) (dump_message env (ia_message i)) = Inr n"
    and "n \<le> maximum_tool_result_bytes l" and "1 \<le> maximum_tool_calls l"
  shows "transcript_failure env l [i] = None"
  using assms by (simp add: transcript_failure_def)

lemma sample_transcript: "transcript_failure sample_env default_limits [model_interaction] = None"
proof -
  obtain n where n: "canonical_json_bytes (ae_float_size sample_env)
      (dump_message sample_env (ia_message model_interaction)) = Inr n" "n \<le> 65536"
    using model_interaction_bytes by blast
  have "ia_call model_interaction = model_call" by (simp add: model_interaction_def)
  then show ?thesis
    using one_interaction_within_limits[OF model_interaction_pairs _ n(1), of default_limits] n(2)
        model_call_small
    by (simp add: default_limits_def)
qed

lemma sample_handle_result:
  "handle_result sample_env default_limits model_call
     (PublicToolSuccess (lit ''count_roles'') (lit ''1.0.0'') (OtherOutput ())) initial_run = Proceed
         sample_after"
proof -
  have "\<lparr>ia_call = model_call, ia_message = \<lparr>tm_call_id = lit ''c1'', tm_tool_name = lit
      ''count_roles'',
     tm_result = PublicToolSuccess (lit ''count_roles'') (lit ''1.0.0'') (OtherOutput ())\<rparr>\<rparr> =
         model_interaction"
    by (simp add: model_interaction_def)
  then show ?thesis
    by (simp add: handle_result_def Let_def model_call_fields model_interaction_pairs sample_transcript)
      (simp add: observe_citations_def sample_after_def KNOWLEDGE_TOOL_def put_call_def find_call_def
          model_call_def lit_def)
qed

lemma model_interaction_succeeds: "is_tool_success (tm_result (ia_message model_interaction))"
  by (simp add: model_interaction_def is_tool_success_def)

lemma sample_final_turn:
  "validate_turn sample_env (turn_of (sample_setup exact_route) 2 sample_after)
     = Inr (turn_of (sample_setup exact_route) 2 sample_after)"
  by (simp add: validate_turn_def turn_of_def sample_setup_def sample_after_def
      validate_interactions_def
      language_code_def is_language_code_def validate_selection_def
      consistent_selection_def sample_context_def sample_env_def sample_text
      model_interaction_succeeds model_interaction_pairs[unfolded sample_env_def])

lemma sample_exact_final:
  "handle_final default_limits EXACT_READ_THEN_FINAL 2 (lit ''en'')
     \<lparr>fa_answer = lit ''done'', fa_basis = ERP_DATA, fa_evidence_call_ids = [lit ''c1''],
         fa_citation_ids = []\<rparr>
     sample_after = Proceed sample_success"
  by (simp add: sample_success_def handle_final_def Let_def default_limits_def validate_grounding_def
      sample_after_def find_call_def
     matches_exact_route_grounding_def make_chat_success_def language_code_def is_language_code_def
     trimmed_text_def unicode_trim_def is_white_space_def py_isspace_def sample_text)

lemma sample_first_reply:
  "sample_model (turn_of (sample_setup exact_route) 1 initial_run) w = (Inr (ModelToolCall model_call),
      w + 100)"
  by (simp add: sample_model_def turn_of_def sample_setup_general model_call_def)

lemma sample_second_reply:
  "sample_model (turn_of (sample_setup exact_route) 2 sample_after) w = (Inr (ModelFinalAnswer
     \<lparr>fa_answer = lit ''done'', fa_basis = ERP_DATA, fa_evidence_call_ids = [lit ''c1''],
         fa_citation_ids = []\<rparr>), w + 100)"
  by (simp add: sample_model_def turn_of_def sample_setup_general)

lemma sample_tool_reply:
  "tg_execute sample_tools (sample_context, \<lparr>inv_tool_name = tc_tool_name model_call, inv_version =
      tc_version model_call, inv_arguments = tc_arguments model_call\<rparr>) w
     = (Inr (PublicToolSuccess (lit ''count_roles'') (lit ''1.0.0'') (OtherOutput ())), w + 1)"
  by (simp add: sample_tools_def model_call_fields)

lemma sample_exact_run:
  "agent_execute sample_env sample_agent (sample_context, sample_chat, exact_route) w
     = (Inr (PublicChatSuccess sample_success), w + 1201)"
proof -
  have after: "rs_interactions sample_after = [model_interaction]" by (simp add: sample_after_def)
  have two: "Suc 1 = 2" by simp
  have "run_turns sample_env sample_agent (sample_setup exact_route) (Suc (Suc 0)) 1 initial_run w
    = (Inr (PublicChatSuccess sample_success), w + 1201)"
    unfolding run_turns.simps(2) Let_def initial_run_simps empty_transcript sample_exact_turn
        option.case
      sum.case sample_agent_simps sample_setup_general sample_first_reply prod.case model_response.case
      sample_handle_call verdict.case sample_tool_reply sample_handle_result after sample_transcript
      two sample_final_turn sample_second_reply sample_exact_final
    by (simp add: agent_finish_def record_before_return_def)
  then show ?thesis by (simp add: sample_start numeral_2_eq_2 del: run_turns.simps)
qed

definition idle_setting ::
  "unit agent_env \<times> (unit, unit, unit tool_output, nat) gateway
     \<times> (unit turn_request, nat, unit model_response outcome) op
     \<times> (agent_audit_event, nat, unit outcome) op \<times> agent_limits" where
  "idle_setting = (sample_env, projr (make_gateway (projr (make_registry [])) [] (\<lambda>_ w. (Inr (), w))),
     sample_model, (\<lambda>_ w. (Inr (), w + 1000)), default_limits)"

lemma idle_gateway:
  "\<exists>g :: (unit, unit, unit tool_output, nat) gateway. idle_setting = (sample_env, g, sample_model,
      (\<lambda>_ w. (Inr (), w + 1000)), default_limits) \<and> available_tools g c = []
    \<and> decision_tools (evaluate_capability_access (gw_registry g) c True) = []"
proof -
  have r: "make_registry [] = Inr (projr (make_registry []))"
    by (simp add: make_registry_def)
  then have m: "manifests (projr (make_registry [])) = []" using make_registry_manifests[OF r] by simp
  have g: "make_gateway (projr (make_registry [])) [] (\<lambda>_ w. (Inr (), w))
    = Inr (projr (make_gateway (projr (make_registry [])) [] (\<lambda>_ w. (Inr (), w)) :: _ + (unit, unit,
        unit tool_output, nat) gateway))"
    by (simp add: make_gateway_def)
  show ?thesis using make_gateway_wf(3)[OF g make_registry_wf[OF r]] m
    by (auto simp: idle_setting_def available_tools_def evaluate_capability_access_def
        decision_tools_def)
qed

definition verbose_chat :: public_chat_request where
  "verbose_chat = sample_chat\<lparr>pc_preferred_language
     := Some (lit ''en-abcdefgh-abcdefgh-abcdefgh-abcdefgh'')\<rparr>"

section \<open>Properties\<close>

text \<open>C3: A chat success is grounded. Its text is the stripped text of a final answer the model
    returned,
  in the response language of the request; under a general route it claims general knowledge and cites
  nothing; under an exact route the tool and version of the route were run for this caller and
  succeeded, the answer's basis is the kind of that tool, and every citation comes from an excerpt of
  that tool's result (none for an ERP read, at least one for a knowledge search).\<close>

theorem agent_success_grounded:
  fixes env :: "'o agent_env"
  assumes "agent_execute env orch (c, request, routing) w = (Inr (PublicChatSuccess s), w')"
  shows "\<exists>route f req w1 w2. validate_route (ae_lower env) routing = Inr route
    \<and> or_complete_turn orch req w1 = (Inr (ModelFinalAnswer f), w2)
    \<and> cs_answer s = unicode_trim (fa_answer f) \<and> cs_response_language s = response_language c request
    \<and> (case rp_mode route of
         GENERAL_ONLY \<Rightarrow> fa_basis f = GENERAL \<and> cs_citations s = []
       | EXACT_READ_THEN_FINAL \<Rightarrow> \<exists>call out w3 w4.
           tg_execute (or_gateway orch) (c, call) w3
             = (Inr (PublicToolSuccess (inv_tool_name call) (inv_version call) out), w4)
           \<and> rp_tool_name route = Some (inv_tool_name call) \<and> rp_version route = Some (inv_version call)
           \<and> fa_basis f = (if inv_tool_name call = KNOWLEDGE_TOOL then KNOWLEDGE else ERP_DATA)
           \<and> grounded_in (inv_tool_name call) out (cs_citations s))"
  using assms
proof (cases rule: agent_execute_cases)
  case (turns route ts cls)
  let ?su = "\<lparr>su_context = c, su_message = pc_message request,
      su_language = response_language c request, su_routing = route, su_tools = ts, su_classification =
          cls\<rparr>"
  show ?thesis
  proof (cases "rp_mode route")
    case GENERAL_ONLY
    then obtain f req w1 w2 where f: "or_complete_turn orch req w1 = (Inr (ModelFinalAnswer f), w2)"
        "handle_final (or_limits orch) GENERAL_ONLY 1 (response_language c request) f (initial_run ::
            'o run_state) = Proceed s"
      using run_turns_success[OF turns(4)] by (auto simp del: One_nat_def)
    obtain cs where cs: "validate_grounding f (rs_successful_calls (initial_run :: 'o run_state))
        (rs_citations (initial_run :: 'o run_state)) = Some cs"
        "make_chat_success (fa_answer f) (response_language c request) cs = Inr s"
      using handle_final_Proceed(3)[OF f(2)] by blast
    have "fa_basis f = GENERAL" "fa_citation_ids f = []" using handle_final_Proceed(4)[OF f(2)] by auto
    then have "cs = []" using validate_grounding_Some(1)[OF cs(1)] by simp
    then show ?thesis using f(1) turns(1) make_chat_success_Inr[OF cs(2)] GENERAL_ONLY \<open>fa_basis f =
        GENERAL\<close>
      by fastforce
  next
    case EXACT_READ_THEN_FINAL
    have run: "run_turns env orch ?su 2 1 initial_run w = (Inr (PublicChatSuccess s), w')"
      using turns(4) EXACT_READ_THEN_FINAL by (simp del: run_turns.simps)
    obtain f req w1 w2 v out w3 w4 where r: "or_complete_turn orch req w1 = (Inr (ModelFinalAnswer f),
        w2)"
      "tg_execute (or_gateway orch) (c, invocation_of v) w3
        = (Inr (PublicToolSuccess (tc_tool_name v) (tc_version v) out), w4)"
      "rp_tool_name route = Some (tc_tool_name v)" "rp_version route = Some (tc_version v)"
      "grounded_in (tc_tool_name v) out (cs_citations s)"
      "fa_basis f = (if tc_tool_name v = KNOWLEDGE_TOOL then KNOWLEDGE else ERP_DATA)"
      "cs_answer s = unicode_trim (fa_answer f)" "cs_response_language s = response_language c request"
      using run_exact_success[OF run] EXACT_READ_THEN_FINAL by auto
    have i: "inv_tool_name (invocation_of v) = tc_tool_name v" "inv_version (invocation_of v) =
        tc_version v"
      by (simp_all add: invocation_of_def)
    have "\<exists>call out w3 w4. tg_execute (or_gateway orch) (c, call) w3
             = (Inr (PublicToolSuccess (inv_tool_name call) (inv_version call) out), w4)
           \<and> rp_tool_name route = Some (inv_tool_name call) \<and> rp_version route = Some (inv_version call)
           \<and> fa_basis f = (if inv_tool_name call = KNOWLEDGE_TOOL then KNOWLEDGE else ERP_DATA)
           \<and> grounded_in (inv_tool_name call) out (cs_citations s)"
      by (rule exI[of _ "invocation_of v"]) (use r i in auto)
    then show ?thesis using turns(1) r(1,7,8) EXACT_READ_THEN_FINAL
      by (intro exI[of _ route] exI[of _ f] exI[of _ req] exI[of _ w1] exI[of _ w2]) (simp only:
          route_mode.case simp_thms)
  qed
qed (simp_all add: finish_failure_not_success)

theorem agent_success_grounded_witness:
  "\<exists>route f req w1 w2. validate_route (ae_lower sample_env) exact_route = Inr route
    \<and> or_complete_turn sample_agent req w1 = (Inr (ModelFinalAnswer f), w2)
    \<and> cs_answer sample_success = unicode_trim (fa_answer f)
    \<and> cs_response_language sample_success = response_language sample_context sample_chat
    \<and> (case rp_mode route of
         GENERAL_ONLY \<Rightarrow> fa_basis f = GENERAL \<and> cs_citations sample_success = []
       | EXACT_READ_THEN_FINAL \<Rightarrow> \<exists>call out w3 w4.
           tg_execute (or_gateway sample_agent) (sample_context, call) w3
             = (Inr (PublicToolSuccess (inv_tool_name call) (inv_version call) out), w4)
           \<and> rp_tool_name route = Some (inv_tool_name call) \<and> rp_version route = Some (inv_version call)
           \<and> fa_basis f = (if inv_tool_name call = KNOWLEDGE_TOOL then KNOWLEDGE else ERP_DATA)
           \<and> grounded_in (inv_tool_name call) out (cs_citations sample_success))"
  by (rule agent_success_grounded[OF sample_exact_run[of 0]])

text \<open>C14: Every run is bounded and audited, whatever the model, the tools and the sink do: at most one
  model turn and no tool run under a general route, at most two turns and one tool run otherwise; a
  returned result has exactly one audit record, which is the last step and describes it.\<close>

theorem agent_bounded_run:
  "(case agent_execute env (log_orchestrator (\<lambda>s. [s]) (agent_of g turns sink l)) (c, request, routing)
      (w, [])
    of (res, (w', steps)) \<Rightarrow>
      model_turns steps \<le> (if rp_mode routing = GENERAL_ONLY then 1 else 2)
    \<and> tool_runs steps \<le> (if rp_mode routing = GENERAL_ONLY then 0 else 1)
    \<and> audited_run c res steps)"
proof -
  obtain res w' steps where run: "agent_execute env (log_orchestrator (\<lambda>s. [s]) (agent_of g turns sink
      l))
      (c, request, routing) (w, []) = (res, (w', steps))" by (metis prod.exhaust)
  have "concat (map (\<lambda>s. [s]) ss) = ss" for ss :: "agent_step list" by simp
  then show ?thesis using gateway_boundary.execute_steps[OF agent_gateway run] run by auto
qed

text \<open>Over any sequence of chat requests that return, the audit log of the agent grows by exactly
    one
  event per request, in order, naming the caller of that request and the outcome of its result.\<close>

theorem agent_one_event_per_result:
  assumes "agent_audit.serve (map (Pair setting) qs) (w, lg) = (map Inr rs, (w', lg'))"
  shows "\<exists>es. lg' = lg @ es \<and> length rs = length qs \<and> length es = length qs
    \<and> (\<forall>i < length qs. agent_event_describes (fst (qs ! i)) (rs ! i) (es ! i))"
  using agent_audit.serve_events[OF assms] by simp

theorem agent_one_event_per_result_witness:
  "\<exists>lg' es. snd (snd (agent_audit.serve (map (Pair idle_setting) [(sample_context, sample_chat,
      general_route)]) (0, []))) = lg'
    \<and> lg' = [] @ es \<and> length es = 1 \<and> agent_event_describes sample_context
      (PublicChatSuccess sample_success) (es ! 0)"
proof -
  obtain g :: "(unit, unit, unit tool_output, nat) gateway" where g: "idle_setting = (sample_env, g,
      sample_model,
      (\<lambda>_ w. (Inr (), w + 1000)), default_limits)" "available_tools g sample_context = []"
    "decision_tools (evaluate_capability_access (gw_registry g) sample_context True) = []"
    using idle_gateway by blast
  let ?o = "log_orchestrator audit_only (agent_of g sample_model (\<lambda>_ w. (Inr (), w + 1000))
      default_limits)"
  have c: "authorized_catalog sample_env ?o sample_context = []"
    using g(3) by (simp add: authorized_catalog_def agent_of_def Let_def)
  let ?m = "logged (\<lambda>t. audit_only (ModelTurn (tr_turn_number t))) sample_model"
  let ?t = "turn_of (sample_setup general_route) 1 initial_run"
  have "ts_mode (tr_tool_selection ?t) = NO_TOOLS" by (simp add: turn_of_def sample_setup_general)
  then have m: "or_complete_turn ?o ?t (0, []) = (Inr (ModelFinalAnswer \<lparr>fa_answer = lit ''done'',
      fa_basis = GENERAL,
      fa_evidence_call_ids = [], fa_citation_ids = []\<rparr>), (100, []))"
    by (simp add: agent_of_def logged_def sample_model_def)
  let ?e = "create_agent_audit_event sample_context AuditSuccess ''completed''"
  have o: "or_limits ?o = default_limits" "rp_mode general_route = GENERAL_ONLY" by (simp_all add:
      agent_of_def)
  have turns: "run_turns sample_env ?o (sample_setup general_route) (Suc 0) 1 initial_run (0, [])
      = (Inr (PublicChatSuccess sample_success), (1100, [?e]))"
    unfolding run_turns.simps(2) Let_def initial_run_simps empty_transcript sample_general_turn
        option.case
      sum.case o sample_setup_general m prod.case model_response.case sample_final verdict.case
    by (simp add: agent_finish_def record_before_return_def agent_of_def logged_def)
  have start: "\<lparr>su_context = sample_context, su_message = pc_message sample_chat,
      su_language = response_language sample_context sample_chat, su_routing = general_route, su_tools
          = [],
      su_classification = RESTRICTED\<rparr> = sample_setup general_route"
    by (simp add: sample_setup_def sample_response_language) (simp add: sample_chat_def)
  have len: "length (pc_message sample_chat) = 5" by (simp add: sample_chat_def sample_text)
  have "agent_execute sample_env ?o (sample_context, sample_chat, general_route) (0, [])
      = run_turns sample_env ?o (sample_setup general_route) 1 1 initial_run (0, [])"
    unfolding agent_execute_def prod.case sample_routes sum.case Let_def c plan_route_def o
    by (simp add: len start canonical_json_bytes_def with_commas_def default_limits_def del:
        run_turns.simps)
  then have run: "agent_served (idle_setting, sample_context, sample_chat, general_route) (0, [])
      = (Inr (PublicChatSuccess sample_success), (1100, [?e]))"
    using turns by (simp add: agent_served_def g(1) del: run_turns.simps)
  have served: "agent_audit.serve (map (Pair idle_setting) [(sample_context, sample_chat,
      general_route)]) (0, [])
      = (map Inr [PublicChatSuccess sample_success], (1100, [?e]))"
    by (simp add: run)
  show ?thesis using agent_one_event_per_result[OF served] served by auto
qed

text \<open>When every check before the first turn passes and the response language is not a language
    code
  (the request and the trusted context bound no length, the model turn allows 35 characters), the
  run raises before the model is asked and leaves the world untouched: no audit event is recorded.\<close>

theorem long_language_unaudited:
  assumes "validate_route (ae_lower env) routing = Inr route"
    and "length (pc_message request) \<le> maximum_user_message_characters (or_limits orch)"
    and "length (authorized_catalog env orch c) \<le> maximum_model_tools (or_limits orch)"
    and "canonical_json_bytes (ae_float_size env) (JArr (map dump_definition (authorized_catalog env
        orch c))) = Inr n"
    and "n \<le> maximum_tool_catalog_bytes (or_limits orch)"
    and "plan_route env orch route (authorized_catalog env orch c) = Inr p"
    and "\<not> is_language_code (response_language c request)"
  shows "agent_execute env orch (c, request, routing) w = (Inl Failed, w)"
proof -
  obtain ts cls where p: "p = (ts, cls)" by (cases p)
  let ?su = "\<lparr>su_context = c, su_message = pc_message request,
      su_language = response_language c request, su_routing = route, su_tools = ts, su_classification =
          cls\<rparr>"
  have "tr_response_language (turn_of ?su 1 st) = response_language c request" for st :: "'a run_state"
    by (simp add: turn_of_def Let_def)
  then obtain e where e: "validate_turn env (turn_of ?su 1 initial_run) = Inl e"
    using assms(7) by (simp add: validate_turn_def language_code_def)
  have "run_turns env orch ?su (Suc k) 1 initial_run w = (Inl Failed, w)" for k
    by (simp only: run_turns.simps(2) Let_def initial_run_simps empty_transcript e option.case sum.case)
  then have "run_turns env orch ?su (if rp_mode route = GENERAL_ONLY then 1 else 2) 1 initial_run w =
      (Inl Failed, w)"
    by (simp add: numeral_2_eq_2 del: run_turns.simps)
  then show ?thesis using assms(1-6) p
    by (simp add: agent_execute_def Let_def del: run_turns.simps)
qed

theorem long_language_unaudited_witness:
  "agent_execute sample_env sample_agent (sample_context, verbose_chat, general_route) 7 = (Inl Failed,
      7)"
proof (rule long_language_unaudited[OF sample_routes(2)])
  show "length (pc_message verbose_chat) \<le> maximum_user_message_characters (or_limits sample_agent)"
    by (simp add: verbose_chat_def sample_chat_def sample_text default_limits_def)
  show "length (authorized_catalog sample_env sample_agent sample_context) \<le> maximum_model_tools
      (or_limits sample_agent)"
    by (simp add: sample_catalog default_limits_def)
  show "65 \<le> maximum_tool_catalog_bytes (or_limits sample_agent)" by (simp add: default_limits_def)
  show "\<not> is_language_code (response_language sample_context verbose_chat)"
    by (simp add: is_language_code_def response_language_def verbose_chat_def lit_def)
qed (rule sample_catalog_bytes, rule sample_plan, simp)

end
