(* ===== verification/Base64.thy ===== *)
theory Base64
  imports PyText
begin

text \<open>
  \<open>base64.urlsafe_b64encode\<close> and \<open>base64.urlsafe_b64decode\<close> of Python's standard library on byte
  lists, as the resolver reference (\<open>src/erp_ai/application/models.py\<close>) and the signed cursor
  (\<open>src/erp_ai/infrastructure/postgres_erp/cursor.py\<close>) use them. The decoder is not strict: it skips
  characters outside the alphabet and stops at sufficient padding.
\<close>

section \<open>Encoding\<close>

definition b64_char :: "nat \<Rightarrow> nat" where
  "b64_char v = (if v < 26 then v + 65 else if v < 52 then v + 71 else if v < 62 then v - 4
     else if v = 62 then 45 else 95)"

text \<open>The encoding without its padding.\<close>

fun b64_encode :: "nat list \<Rightarrow> pystr" where
  "b64_encode [] = []"
| "b64_encode [a] = [b64_char (a div 4), b64_char (a mod 4 * 16)]"
| "b64_encode [a, b] = [b64_char (a div 4), b64_char (a mod 4 * 16 + b div 16), b64_char (b mod 16 *
    4)]"
| "b64_encode (a # b # c # bs) =
     b64_char (a div 4) # b64_char (a mod 4 * 16 + b div 16) # b64_char (b mod 16 * 4 + c div 64)
     # b64_char (c mod 64) # b64_encode bs"

definition b64_pad :: "nat \<Rightarrow> pystr" where
  "b64_pad n = replicate ((3 - n mod 3) mod 3) 61"

definition urlsafe_b64encode :: "nat list \<Rightarrow> pystr" where
  "urlsafe_b64encode bs = b64_encode bs @ b64_pad (length bs)"

section \<open>Decoding\<close>

text \<open>The characters of both alphabets: the url-safe ones are translated before decoding.\<close>

definition b64_value :: "nat \<Rightarrow> nat option" where
  "b64_value c = (if 65 \<le> c \<and> c \<le> 90 then Some (c - 65) else if 97 \<le> c \<and> c \<le> 122 then Some (c - 71)
     else if 48 \<le> c \<and> c \<le> 57 then Some (c + 4) else if c = 45 \<or> c = 43 then Some 62
     else if c = 95 \<or> c = 47 then Some 63 else None)"

text \<open>The state is the position in the group of four, the bits left over and the padding seen.\<close>

fun a2b_loop :: "nat \<Rightarrow> nat \<Rightarrow> nat \<Rightarrow> pystr \<Rightarrow> nat list option" where
  "a2b_loop quad left pads [] = (if quad = 0 then Some [] else None)"
| "a2b_loop quad left pads (c # cs) =
     (if c = 61 then
        (if quad \<ge> 2 \<and> quad + pads + 1 \<ge> 4 then Some []
         else a2b_loop quad left (if quad \<ge> 2 then pads + 1 else pads) cs)
      else case b64_value c of
        None \<Rightarrow> a2b_loop quad left pads cs
      | Some v \<Rightarrow>
          if quad = 0 then a2b_loop 1 v 0 cs
          else if quad = 1 then map_option ((#) (left * 4 + v div 16)) (a2b_loop 2 (v mod 16) 0 cs)
          else if quad = 2 then map_option ((#) (left * 16 + v div 4)) (a2b_loop 3 (v mod 4) 0 cs)
          else map_option ((#) (left * 64 + v)) (a2b_loop 0 0 0 cs))"

definition urlsafe_b64decode :: "pystr \<Rightarrow> nat list option" where
  "urlsafe_b64decode s = (if list_all (\<lambda>c. c < 128) s then a2b_loop 0 0 0 s else None)"

section \<open>Round trip\<close>

lemma b64_char_value: "v < 64 \<Longrightarrow> b64_value (b64_char v) = Some v"
  by (auto simp: b64_value_def b64_char_def)

lemma b64_char_bounds: "v < 64 \<Longrightarrow> b64_char v < 128 \<and> b64_char v \<noteq> 61"
  by (auto simp: b64_char_def)

lemma b64_step:
  assumes "v < 64"
  shows "a2b_loop 0 left pads (b64_char v # cs) = a2b_loop 1 v 0 cs"
    and "a2b_loop 1 left pads (b64_char v # cs) = map_option ((#) (left * 4 + v div 16)) (a2b_loop 2 (v
        mod 16) 0 cs)"
    and "a2b_loop 2 left pads (b64_char v # cs) = map_option ((#) (left * 16 + v div 4)) (a2b_loop 3 (v
        mod 4) 0 cs)"
    and "a2b_loop 3 left pads (b64_char v # cs) = map_option ((#) (left * 64 + v)) (a2b_loop 0 0 0 cs)"
  using b64_char_bounds[OF assms] b64_char_value[OF assms] by simp_all

declare a2b_loop.simps(2) [simp del]

lemma b64_pad_step:
  "a2b_loop 2 left 0 [61, 61] = Some []" "a2b_loop 2 left 0 (replicate 2 61) = Some []"
  "a2b_loop 3 left 0 [61] = Some []"
  by (simp_all add: a2b_loop.simps numeral_2_eq_2)

lemma b64_bits:
  fixes a b c :: nat
  assumes "a < 256" "b < 256" "c < 256"
  shows "a div 4 < 64" "a mod 4 * 16 + b div 16 < 64" "b mod 16 * 4 + c div 64 < 64" "c mod 64 < 64"
    "a mod 4 * 16 < 64" "b mod 16 * 4 < 64"
    "a div 4 * 4 + (a mod 4 * 16 + b div 16) div 16 = a"
    "(a mod 4 * 16 + b div 16) mod 16 = b div 16"
    "b div 16 * 16 + (b mod 16 * 4 + c div 64) div 4 = b"
    "(b mod 16 * 4 + c div 64) mod 4 = c div 64"
    "c div 64 * 64 + c mod 64 = c"
    "a div 4 * 4 + (a mod 4 * 16) div 16 = a" "b div 16 * 16 + (b mod 16 * 4) div 4 = b"
proof -
  have q: "a div 4 < 64" "b div 16 < 16" "c div 64 < 4" using assms by simp_all
  have r: "a mod 4 < 4" "b mod 16 < 16" "c mod 64 < 64" by simp_all
  show "a div 4 < 64" "c mod 64 < 64" "c div 64 * 64 + c mod 64 = c" using q r by simp_all
  show "a mod 4 * 16 + b div 16 < 64" "b mod 16 * 4 + c div 64 < 64" "a mod 4 * 16 < 64"
    "b mod 16 * 4 < 64" using q r by linarith+
  show "a div 4 * 4 + (a mod 4 * 16 + b div 16) div 16 = a" using q(2) by simp
  show "(a mod 4 * 16 + b div 16) mod 16 = b div 16" using q(2) by simp
  show "b div 16 * 16 + (b mod 16 * 4 + c div 64) div 4 = b" using q(3) by simp
  show "(b mod 16 * 4 + c div 64) mod 4 = c div 64" using q(3) by simp
  show "a div 4 * 4 + (a mod 4 * 16) div 16 = a" "b div 16 * 16 + (b mod 16 * 4) div 4 = b" by simp_all
qed

lemma a2b_encode:
  "list_all (\<lambda>b. b < 256) bs \<Longrightarrow> a2b_loop 0 0 0 (b64_encode bs @ b64_pad (length bs)) = Some bs"
proof (induction bs rule: b64_encode.induct)
  case (2 a)
  then show ?case using b64_bits(1,5,12)[of a 0 0]
    by (simp add: b64_step b64_step[unfolded One_nat_def] b64_pad_step b64_pad_def)
next
  case (3 a b)
  then show ?case using b64_bits(1,2,6-8,13)[of a b 0] by (simp add: b64_step b64_step[unfolded
      One_nat_def] b64_pad_step b64_pad_def)
next
  case (4 a b c bs)
  have "b div 16 < 16" using "4.prems" by (simp add: less_mult_imp_div_less)
  with 4 show ?case using b64_bits(1-4,7-11)[of a b c] by (simp add: b64_step b64_step[unfolded
      One_nat_def] b64_pad_def)
qed (simp add: b64_pad_def)

lemma b64_encode_chars:
  "list_all (\<lambda>b. b < 256) bs \<Longrightarrow> set (b64_encode bs) \<subseteq> b64_char ` {..<64}"
proof (induction bs rule: b64_encode.induct)
  case (2 a)
  then show ?case using b64_bits(1,5)[of a 0 0] by simp
next
  case (3 a b)
  then show ?case using b64_bits(1,2,6)[of a b 0] by simp
next
  case (4 a b c bs)
  then show ?case using b64_bits(1-4)[of a b c] by simp
qed simp

lemma length_b64_encode: "length (b64_encode bs) = (length bs * 4 + 2) div 3"
  by (induction bs rule: b64_encode.induct) simp_all

lemma b64_encoded:
  assumes "list_all (\<lambda>b. b < 256) bs"
  shows "list_all (\<lambda>c. c < 128) (urlsafe_b64encode bs)" and "61 \<notin> set (b64_encode bs)"
  using b64_encode_chars[OF assms] b64_char_bounds
  by (fastforce simp: list_all_iff urlsafe_b64encode_def b64_pad_def)+

lemma b64_decode_encode:
  "list_all (\<lambda>b. b < 256) bs \<Longrightarrow> urlsafe_b64decode (urlsafe_b64encode bs) = Some bs"
  using a2b_encode b64_encoded(1) by (simp add: urlsafe_b64decode_def urlsafe_b64encode_def)

lemma b64_value_less: "b64_value c = Some v \<Longrightarrow> v < 64"
  by (auto simp: b64_value_def split: if_splits)

text \<open>Whatever the text, decoded values are bytes.\<close>

definition left_bits :: "nat \<Rightarrow> nat \<Rightarrow> bool" where
  "left_bits quad left \<longleftrightarrow> quad \<le> 3 \<and> left * 4 ^ quad < 256 \<and> (quad = 0 \<longrightarrow> left = 0)"

lemma a2b_bytes:
  "a2b_loop quad left pads cs = Some bs \<Longrightarrow> left_bits quad left \<Longrightarrow> list_all (\<lambda>b. b < 256) bs"
proof (induction cs arbitrary: quad left pads bs)
  case Nil
  then show ?case by (simp split: if_splits)
next
  case (Cons c cs)
  show ?case
  proof (cases "c = 61 \<or> b64_value c = None")
    case True
    then show ?thesis using Cons by (auto simp: a2b_loop.simps(2) split: if_splits)
  next
    case False
    then obtain v where v: "b64_value c = Some v" "c \<noteq> 61" by auto
    note run = Cons.prems(1)[unfolded a2b_loop.simps(2) if_not_P[OF v(2)] v(1) option.case]
    have b: "v < 64" "v div 16 < 4" "v mod 16 < 16" "v div 4 < 16" "v mod 4 < 4"
      using b64_value_less[OF v(1)] by simp_all
    have next_byte: ?thesis if "map_option ((#) x) (a2b_loop q l 0 cs) = Some bs" "x < 256" "left_bits
        q l"
      for x q l
      using that Cons.IH by auto
    consider "quad = 0" | "quad = 1" | "quad = 2" | "quad = 3"
      using Cons.prems(2) by (force simp: left_bits_def)
    then show ?thesis
    proof cases
      case 1
      then show ?thesis using run Cons.IH b by (simp add: left_bits_def)
    next
      case 2
      have "left * 4 + v div 16 < 256" using Cons.prems(2) b by (simp add: left_bits_def 2)
      then show ?thesis using next_byte run b(3) by (simp add: left_bits_def 2)
    next
      case 3
      have "left * 16 + v div 4 < 256" using Cons.prems(2) b by (simp add: left_bits_def 3)
      then show ?thesis using next_byte run b(5) by (simp add: left_bits_def 3)
    next
      case 4
      have "left * 64 + v < 256" using Cons.prems(2) b by (simp add: left_bits_def 4)
      then show ?thesis using next_byte run by (simp add: left_bits_def 4)
    qed
  qed
qed

lemma urlsafe_b64decode_bytes: "urlsafe_b64decode s = Some bs \<Longrightarrow> list_all (\<lambda>b. b < 256) bs"
  using a2b_bytes by (auto simp: urlsafe_b64decode_def left_bits_def split: if_splits)

end
