(* ===== verification/Effects.thy ===== *)
theory Effects
  imports Prelude
begin

text \<open>
  Procedures with early returns. A procedure takes the world, and either stops with a reason (an
  early return or a raised exception, \<open>'e\<close>) or goes on with a value; the world it leaves behind is
  returned in both cases.
\<close>

type_synonym ('e, 'w, 'a) proc = "'w \<Rightarrow> ('e + 'a) \<times> 'w"

definition stop :: "'e \<Rightarrow> ('e, 'w, 'a) proc" where
  "stop e = (\<lambda>w. (Inl e, w))"

definition give :: "'a \<Rightarrow> ('e, 'w, 'a) proc" where
  "give x = (\<lambda>w. (Inr x, w))"

definition andthen :: "('e, 'w, 'a) proc \<Rightarrow> ('a \<Rightarrow> ('e, 'w, 'b) proc) \<Rightarrow> ('e, 'w, 'b) proc" where
  "andthen m f = (\<lambda>w. case m w of (Inl e, w1) \<Rightarrow> (Inl e, w1) | (Inr x, w1) \<Rightarrow> f x w1)"

text \<open>A call whose exceptions are caught, except cancellation; a pure check; a guard.\<close>

definition attempt :: "(exn \<Rightarrow> 'e) \<Rightarrow> ('w \<Rightarrow> 'a outcome \<times> 'w) \<Rightarrow> ('e, 'w, 'a) proc" where
  "attempt handler m = (\<lambda>w. case m w of (Inl x, w1) \<Rightarrow> (Inl (handler x), w1) | (Inr v, w1) \<Rightarrow> (Inr v,
      w1))"

definition checked_or :: "'e \<Rightarrow> 'a checked \<Rightarrow> ('e, 'w, 'a) proc" where
  "checked_or e m = (case m of Inl _ \<Rightarrow> stop e | Inr x \<Rightarrow> give x)"

definition unless :: "bool \<Rightarrow> 'e \<Rightarrow> ('e, 'w, unit) proc" where
  "unless b e = (if b then stop e else give ())"

lemma proc_simps [simp]:
  "stop e w = (Inl e, w)" "give x w = (Inr x, w)"
  "andthen (stop e) f = stop e" "andthen (give x) f = f x"
  "checked_or e (Inl m) = stop e" "checked_or e (Inr x) = give x"
  "unless True e = stop e" "unless False e = give ()"
  by (simp_all add: stop_def give_def andthen_def checked_or_def unless_def)

lemma andthen_Inr:
  "andthen m f w = (Inr y, w') \<longleftrightarrow> (\<exists>x w1. m w = (Inr x, w1) \<and> f x w1 = (Inr y, w'))"
  by (auto simp: andthen_def split: prod.splits sum.splits)

lemma andthen_InrE:
  assumes "andthen m f w = (Inr y, w')"
  obtains x w1 where "m w = (Inr x, w1)" "f x w1 = (Inr y, w')"
  using assms by (auto simp: andthen_Inr)

lemma attempt_Inr [simp]: "attempt h m w = (Inr v, w') \<longleftrightarrow> m w = (Inr v, w')"
  by (auto simp: attempt_def split: prod.splits sum.splits)

lemma checked_or_Inr [simp]: "checked_or e m w = (Inr x, w') \<longleftrightarrow> m = Inr x \<and> w' = w"
  by (cases m) auto

lemma unless_Inr [simp]: "unless b e w = (Inr u, w') \<longleftrightarrow> \<not> b \<and> w' = w"
  by (cases b) auto

lemma andthen_assoc: "andthen (andthen m f) g = andthen m (\<lambda>x. andthen (f x) g)"
  by (auto simp: andthen_def fun_eq_iff split: prod.splits sum.splits)

text \<open>What a procedure leaves unchanged: every step of it does.\<close>

definition keeps :: "('w \<Rightarrow> 's) \<Rightarrow> ('e, 'w, 'a) proc \<Rightarrow> bool" where
  "keeps v m \<longleftrightarrow> (\<forall>w. v (snd (m w)) = v w)"

lemma keeps_pure [intro]: "keeps v (stop e)" "keeps v (give x)" "keeps v (checked_or e c)" "keeps v
    (unless b e)"
  by (auto simp: keeps_def checked_or_def unless_def split: sum.splits)

lemma keeps_andthen [intro]: "keeps v m \<Longrightarrow> (\<And>x. keeps v (f x)) \<Longrightarrow> keeps v (andthen m f)"
  unfolding keeps_def andthen_def by (auto split: prod.splits sum.splits) (metis snd_conv)+

lemma keeps_attempt [intro]: "(\<And>w. v (snd (m w)) = v w) \<Longrightarrow> keeps v (attempt h m)"
  unfolding keeps_def attempt_def by (auto split: prod.splits sum.splits) (metis snd_conv)+

end
