(* ===== verification/Application.thy ===== *)
theory Application
  imports AgentProperties Base64 Effects
begin

text \<open>
  The trusted chat application (\<open>src/erp_ai/application/\<close>): the opaque resolver reference, the
  resolution of a request into a trusted context and a signed intent, the authorization snapshot,
  the route catalog, and the service that runs these checks before the agent and records one
  application event per result. The resolver, the verifier, the agent, the clock and the sink are
  operations on the world.
\<close>

section \<open>Contracts\<close>

record request_reference =
  rr_request_id :: pystr
  rr_resolver_reference :: pystr

text \<open>\<open>rstrip(b"=")\<close>\<close>

definition rstrip_pad :: "pystr \<Rightarrow> pystr" where
  "rstrip_pad s = rev (dropWhile ((=) 61) (rev s))"

definition canonical_reference :: "pystr \<Rightarrow> pystr checked" where
  "canonical_reference s =
     raise_if (length s \<noteq> 43) ''string_length''
     (raise_if (61 \<in> set s) ''resolver reference must be canonical unpadded base64url''
     (case urlsafe_b64decode (s @ [61]) of
        None \<Rightarrow> Inl ''resolver reference must be canonical unpadded base64url''
      | Some bs \<Rightarrow>
          raise_if (length bs \<noteq> 32 \<or> rstrip_pad (urlsafe_b64encode bs) \<noteq> s)
            ''resolver reference must be canonical unpadded base64url'' (Inr s)))"

definition validate_reference :: "request_reference \<Rightarrow> request_reference checked" where
  "validate_reference r =
     bindE (validate_identifier (rr_request_id r)) (\<lambda>i.
     bindE (canonical_reference (rr_resolver_reference r)) (\<lambda>s.
       Inr \<lparr>rr_request_id = i, rr_resolver_reference = s\<rparr>))"

text \<open>Untrusted field values of an intent, and the validated intent.\<close>

record intent_data =
  id_contract_version :: nat
  id_intent_code :: pystr
  id_issued_at :: py_datetime
  id_expires_at :: py_datetime
  id_request_id :: pystr
  id_customer_environment_id :: pystr
  id_user_id :: pystr
  id_authorization_snapshot_id :: pystr

record route_intent =
  ri_intent_code :: pystr
  ri_issued_at :: instant
  ri_expires_at :: instant
  ri_request_id :: pystr
  ri_customer_environment_id :: pystr
  ri_user_id :: pystr
  ri_authorization_snapshot_id :: pystr

definition validate_intent :: "(pystr \<Rightarrow> pystr) \<Rightarrow> intent_data \<Rightarrow> route_intent checked" where
  "validate_intent lower d =
     raise_if (id_contract_version d \<noteq> 1) ''literal_error''
     (bindE (validate_code lower (id_intent_code d)) (\<lambda>code.
      bindE (require_aware ''intent timestamps must be timezone-aware'' (id_issued_at d)) (\<lambda>iat.
      bindE (require_aware ''intent timestamps must be timezone-aware'' (id_expires_at d)) (\<lambda>eat.
      bindE (validate_identifier (id_request_id d)) (\<lambda>rid.
      bindE (validate_identifier (id_customer_environment_id d)) (\<lambda>env.
      bindE (validate_identifier (id_user_id d)) (\<lambda>user.
      bindE (validate_identifier (id_authorization_snapshot_id d)) (\<lambda>snap.
        Inr \<lparr>ri_intent_code = code, ri_issued_at = iat, ri_expires_at = eat, ri_request_id = rid,
             ri_customer_environment_id = env, ri_user_id = user,
             ri_authorization_snapshot_id = snap\<rparr>))))))))"

record resolution_data =
  rd_context :: context_claims
  rd_intent :: intent_data

datatype snapshot_status = SnapshotCurrent | SnapshotStale | SnapshotRevoked | SnapshotMismatched

record snapshot_decision =
  sd_status :: snapshot_status
  sd_request_id :: "pystr option"
  sd_customer_environment_id :: "pystr option"
  sd_user_id :: "pystr option"
  sd_authorization_snapshot_id :: "pystr option"

definition validate_decision :: "snapshot_decision \<Rightarrow> snapshot_decision checked" where
  "validate_decision d =
     bindE (optional_checked validate_identifier (sd_request_id d)) (\<lambda>rid.
     bindE (optional_checked validate_identifier (sd_customer_environment_id d)) (\<lambda>env.
     bindE (optional_checked validate_identifier (sd_user_id d)) (\<lambda>user.
     bindE (optional_checked validate_identifier (sd_authorization_snapshot_id d)) (\<lambda>snap.
       let bindings = [rid, env, user, snap] in
       raise_if (list_ex (\<lambda>b. b \<noteq> None) bindings \<and> list_ex (\<lambda>b. b = None) bindings)
         ''authorization decision bindings must be complete''
         (Inr \<lparr>sd_status = sd_status d, sd_request_id = rid, sd_customer_environment_id = env,
               sd_user_id = user, sd_authorization_snapshot_id = snap\<rparr>)))))"

section \<open>Routes\<close>

record route_entry =
  re_intent_code :: pystr
  re_route :: routing_policy

record route_catalog =
  rc_entries :: "route_entry list"
  rc_by_intent :: "pystr \<rightharpoonup> routing_policy"

definition validate_entry :: "(pystr \<Rightarrow> pystr) \<Rightarrow> route_entry \<Rightarrow> route_entry checked" where
  "validate_entry lower e =
     bindE (validate_code lower (re_intent_code e)) (\<lambda>code.
     bindE (validate_route lower (re_route e)) (\<lambda>route.
       Inr \<lparr>re_intent_code = code, re_route = route\<rparr>))"

definition make_catalog :: "(pystr \<Rightarrow> pystr) \<Rightarrow> route_entry list \<Rightarrow> route_catalog checked" where
  "make_catalog lower entries =
     bindE (map_checked (validate_entry lower) entries) (\<lambda>validated.
     raise_if (\<not> distinct (map re_intent_code validated)) ''duplicate trusted intent code''
       (let ordered = sort_key re_intent_code validated in
        Inr \<lparr>rc_entries = ordered,
             rc_by_intent = map_of (map (\<lambda>e. (re_intent_code e, re_route e)) ordered)\<rparr>))"

definition resolve_route :: "route_catalog \<Rightarrow> pystr \<Rightarrow> routing_policy checked" where
  "resolve_route cat code =
     (case rc_by_intent cat code of
        None \<Rightarrow> Inl ''trusted intent has no configured route'' | Some r \<Rightarrow> Inr r)"

text \<open>\<open>route.tool_name or ""\<close>\<close>

definition tool_name_or_empty :: "pystr option \<Rightarrow> pystr" where
  "tool_name_or_empty n = (case n of None \<Rightarrow> [] | Some s \<Rightarrow> s)"

definition installed_versions :: "('i, 'raw, 'o, 'w) read_handler list \<Rightarrow> pystr \<rightharpoonup> pystr" where
  "installed_versions hs = map_of (rev (map (\<lambda>h. (h_tool_name h, h_version h)) hs))"

definition validate_startup ::
  "route_catalog \<Rightarrow> registry \<Rightarrow> ('i, 'raw, 'o, 'w) gateway \<Rightarrow> unit checked" where
  "validate_startup cat r g =
     raise_if (list_ex (\<lambda>e.
         let route = re_route e; name = tool_name_or_empty (rp_tool_name route) in
         rp_mode route \<noteq> GENERAL_ONLY
         \<and> (case descriptor_dict r name of
              None \<Rightarrow> True
            | Some d \<Rightarrow> operation d \<noteq> ReadOp \<or> Some (tool_version d) \<noteq> rp_version route \<or>
                installed_versions (gw_handlers g) name \<noteq> rp_version route)) (rc_entries cat))
       ''trusted route references an unavailable read tool'' (Inr ())"

section \<open>The service\<close>

datatype app_stage = StageValidation | StageResolution | StageAuthorization | StageRouting |
    StageOrchestration

record app_audit_event =
  ape_request_id :: pystr
  ape_stage :: app_stage
  ape_outcome :: audit_outcome
  ape_internal_reason :: string

text \<open>The Unicode case mappings and the time zone database.\<close>

record app_env =
  ap_lower :: "pystr \<Rightarrow> pystr"
  ap_upper :: "pystr \<Rightarrow> pystr"
  ap_known_zone :: "pystr \<Rightarrow> bool"

record 'w chat_application =
  ca_resolve :: "(request_reference, 'w, resolution_data outcome) op"
  ca_verify :: "(trusted_context, 'w, snapshot_decision outcome) op"
  ca_catalog :: route_catalog
  ca_orchestrator :: "(trusted_context \<times> public_chat_request \<times> routing_policy, 'w, chat_result outcome)
      op"
  ca_sink :: "(app_audit_event, 'w, unit outcome) op"
  ca_clock :: "'w \<Rightarrow> py_datetime outcome \<times> 'w"
  ca_maximum_intent_lifetime :: int

definition make_application ::
  "(request_reference, 'w, resolution_data outcome) op \<Rightarrow> (trusted_context, 'w, snapshot_decision
      outcome) op
     \<Rightarrow> route_catalog \<Rightarrow> (trusted_context \<times> public_chat_request \<times> routing_policy, 'w, chat_result
         outcome) op
     \<Rightarrow> (app_audit_event, 'w, unit outcome) op \<Rightarrow> ('w \<Rightarrow> py_datetime outcome \<times> 'w) \<Rightarrow> int
     \<Rightarrow> 'w chat_application checked" where
  "make_application resolve verify cat orchestrate sink clock lifetime =
     raise_if (lifetime \<le> 0) ''maximum intent lifetime must be positive''
       (Inr \<lparr>ca_resolve = resolve, ca_verify = verify, ca_catalog = cat, ca_orchestrator = orchestrate,
             ca_sink = sink, ca_clock = clock, ca_maximum_intent_lifetime = lifetime\<rparr>)"

text \<open>\<open>compose_application\<close>, with the agent and the gateway the agent invokes.\<close>

definition compose_application ::
  "'o agent_env \<Rightarrow> registry \<Rightarrow> ('o, 'w) orchestrator \<Rightarrow> ('i, 'raw, 'o tool_output, 'w) gateway
     \<Rightarrow> (request_reference, 'w, resolution_data outcome) op
     \<Rightarrow> (trusted_context, 'w, snapshot_decision outcome) op \<Rightarrow> route_catalog
     \<Rightarrow> (app_audit_event, 'w, unit outcome) op \<Rightarrow> ('w \<Rightarrow> py_datetime outcome \<times> 'w) \<Rightarrow> int
     \<Rightarrow> 'w chat_application checked" where
  "compose_application env r orch g resolve verify cat sink clock lifetime =
     raise_if (or_registry orch \<noteq> r) ''composition registry must match the orchestrator''
     (bindE (validate_startup cat r g) (\<lambda>_.
        make_application resolve verify cat (agent_execute env orch) sink clock lifetime))"

definition APP_UNAVAILABLE :: chat_result where
  "APP_UNAVAILABLE = PublicChatFailure AGENT_UNAVAILABLE (lit
      ''The assistant is temporarily unavailable.'')"

definition APP_AUDIT_UNAVAILABLE :: chat_result where
  "APP_AUDIT_UNAVAILABLE = PublicChatFailure AGENT_AUDIT_UNAVAILABLE
     (lit ''The assistant response could not be safely recorded.'')"

definition app_finish ::
  "'w chat_application \<Rightarrow> pystr \<Rightarrow> app_stage \<Rightarrow> chat_result \<Rightarrow> string \<Rightarrow> 'w \<Rightarrow> chat_result outcome \<times> 'w"
where
  "app_finish app rid stage result reason w =
     record_before_return (ca_sink app) APP_AUDIT_UNAVAILABLE
       \<lparr>ape_request_id = rid, ape_stage = stage,
        ape_outcome = (case result of PublicChatFailure _ _ \<Rightarrow> AuditFailure | PublicChatSuccess _
            \<Rightarrow> AuditSuccess),
        ape_internal_reason = reason\<rparr> result w"

definition app_failure ::
  "'w chat_application \<Rightarrow> pystr \<Rightarrow> app_stage \<Rightarrow> string \<Rightarrow> 'w \<Rightarrow> chat_result outcome \<times> 'w" where
  "app_failure app rid stage reason w = app_finish app rid stage APP_UNAVAILABLE reason w"

definition resolution_reason ::
  "int \<Rightarrow> request_reference \<Rightarrow> route_intent \<Rightarrow> trusted_context \<Rightarrow> py_datetime \<Rightarrow> string option" where
  "resolution_reason lifetime ref i c now =
     (case now of
        Naive _ \<Rightarrow> Some ''trusted_clock_invalid''
      | Aware t \<Rightarrow>
          if ri_expires_at i \<le> ri_issued_at i then Some ''intent_lifetime_invalid''
          else if ri_issued_at i > t then Some ''intent_future_issued''
          else if ri_expires_at i \<le> t then Some ''intent_expired''
          else if ri_expires_at i - ri_issued_at i > lifetime then Some ''intent_lifetime_invalid''
          else if list_ex (\<lambda>(l, r). l \<noteq> r)
              [(ri_request_id i, rr_request_id ref), (ri_request_id i, request_id c),
               (ri_customer_environment_id i, customer_environment_id c), (ri_user_id i, user_id c),
               (ri_authorization_snapshot_id i, authorization_snapshot_id c)]
          then Some ''intent_context_binding_mismatch''
          else None)"

text \<open>A procedure of the service stops by raising, or by refusing at a stage for a reason.\<close>

datatype app_stop = AppRaised exn | AppRefused app_stage string

fun refuse_unless_cancelled :: "app_stage \<Rightarrow> string \<Rightarrow> exn \<Rightarrow> app_stop" where
  "refuse_unless_cancelled stage reason Cancelled = AppRaised Cancelled"
| "refuse_unless_cancelled stage reason Failed = AppRefused stage reason"

definition validate_resolution ::
  "app_env \<Rightarrow> resolution_data \<Rightarrow> (trusted_context \<times> route_intent) checked" where
  "validate_resolution env d =
     bindE (validate_context (ap_lower env) (ap_upper env) (ap_known_zone env) (rd_context d)) (\<lambda>c0.
     bindE (validate_intent (ap_lower env) (rd_intent d)) (\<lambda>i.
     bindE (validate_context (ap_lower env) (ap_upper env) (ap_known_zone env) (dump_context c0)) (\<lambda>c.
       Inr (c, i))))"

definition resolve_request ::
  "app_env \<Rightarrow> 'w chat_application \<Rightarrow> request_reference
     \<Rightarrow> (app_stop, 'w, trusted_context \<times> route_intent) proc" where
  "resolve_request env app ref =
     andthen (attempt (refuse_unless_cancelled StageResolution ''trusted_resolution_failed'')
                (ca_resolve app ref)) (\<lambda>d.
     andthen (checked_or (AppRefused StageResolution ''trusted_resolution_failed'')
                (validate_resolution env d)) (\<lambda>(c, i).
     andthen (attempt AppRaised (ca_clock app)) (\<lambda>now.
       case resolution_reason (ca_maximum_intent_lifetime app) ref i c now of
         Some reason \<Rightarrow> stop (AppRefused StageResolution reason)
       | None \<Rightarrow> give (c, i))))"

definition verify_snapshot ::
  "'w chat_application \<Rightarrow> trusted_context \<Rightarrow> (app_stop, 'w, unit) proc" where
  "verify_snapshot app c =
     andthen (attempt (refuse_unless_cancelled StageAuthorization
         ''authorization_snapshot_unavailable'')
                (ca_verify app c)) (\<lambda>d0.
     andthen (checked_or (AppRefused StageAuthorization ''authorization_snapshot_unavailable'')
                (validate_decision d0)) (\<lambda>d.
     andthen (unless (sd_status d \<noteq> SnapshotCurrent)
                (AppRefused StageAuthorization ''authorization_snapshot_rejected'')) (\<lambda>_.
       unless (sd_request_id d \<noteq> None
           \<and> (sd_request_id d \<noteq> Some (request_id c)
              \<or> sd_customer_environment_id d \<noteq> Some (customer_environment_id c)
              \<or> sd_user_id d \<noteq> Some (user_id c)
              \<or> sd_authorization_snapshot_id d \<noteq> Some (authorization_snapshot_id c)))
         (AppRefused StageAuthorization ''authorization_snapshot_binding_mismatch''))))"

definition validate_citation :: "public_citation \<Rightarrow> public_citation checked" where
  "validate_citation c =
     bindE (validate_identifier (ci_citation_id c)) (\<lambda>i.
     bindE (display_text_300 (ci_title c)) (\<lambda>title.
     bindE (display_text_300 (ci_section c)) (\<lambda>sec.
     bindE (language_code (ci_language c)) (\<lambda>lang.
     bindE (canonical_semver (ci_document_version c)) (\<lambda>ver.
       Inr \<lparr>ci_citation_id = i, ci_title = title, ci_section = sec, ci_language = lang,
            ci_source_type = ci_source_type c, ci_document_version = ver\<rparr>)))))"

fun revalidate_result :: "chat_result \<Rightarrow> chat_result checked" where
  "revalidate_result (PublicChatSuccess s) =
     bindE (map_checked validate_citation (cs_citations s)) (\<lambda>cites.
     bindE (make_chat_success (cs_answer s) (cs_response_language s) cites) (\<lambda>s'.
       Inr (PublicChatSuccess s')))"
| "revalidate_result (PublicChatFailure code msg) =
     bindE (plain_text 1 300 msg) (\<lambda>m. Inr (PublicChatFailure code m))"

definition run_orchestrator ::
  "'w chat_application \<Rightarrow> trusted_context \<Rightarrow> public_chat_request \<Rightarrow> routing_policy
     \<Rightarrow> (app_stop, 'w, chat_result) proc" where
  "run_orchestrator app c request route =
     andthen (attempt (refuse_unless_cancelled StageOrchestration ''orchestrator_failed'')
                (ca_orchestrator app (c, request, route))) (\<lambda>result.
       checked_or (AppRefused StageOrchestration ''orchestrator_failed'') (revalidate_result result))"

text \<open>The checks before the agent, and what happens between the inputs and the final record.\<close>

definition app_admit ::
  "app_env \<Rightarrow> 'w chat_application \<Rightarrow> request_reference
     \<Rightarrow> (app_stop, 'w, trusted_context \<times> routing_policy) proc" where
  "app_admit env app ref =
     andthen (resolve_request env app ref) (\<lambda>(c, i).
     andthen (verify_snapshot app c) (\<lambda>_.
     andthen (checked_or (AppRefused StageRouting ''trusted_route_unavailable'')
                (bindE (resolve_route (ca_catalog app) (ri_intent_code i)) (validate_route (ap_lower
                    env))))
       (\<lambda>route. give (c, route))))"

definition app_run ::
  "app_env \<Rightarrow> 'w chat_application \<Rightarrow> public_chat_request \<Rightarrow> request_reference
     \<Rightarrow> (app_stop, 'w, chat_result) proc" where
  "app_run env app request ref =
     andthen (app_admit env app ref) (\<lambda>(c, route). run_orchestrator app c request route)"

definition app_execute ::
  "app_env \<Rightarrow> 'w chat_application
     \<Rightarrow> (public_chat_request \<times> request_reference, 'w, chat_result outcome) op" where
  "app_execute env app q w =
     (case bindE (validate_chat_request (ap_lower env) (ap_upper env) (fst q)) (\<lambda>request.
           bindE (validate_reference (snd q)) (\<lambda>ref. Inr (request, ref))) of
        Inl _ \<Rightarrow> app_failure app (lit ''unavailable'') StageValidation ''invalid_application_input'' w
      | Inr (request, ref) \<Rightarrow>
         (case app_run env app request ref w of
            (Inl (AppRaised x), w1) \<Rightarrow> (Inl x, w1)
          | (Inl (AppRefused stage reason), w1) \<Rightarrow> app_failure app (rr_request_id ref) stage reason w1
          | (Inr result, w1) \<Rightarrow>
              app_finish app (rr_request_id ref) StageOrchestration result ''completed'' w1))"

end
