(* ===== verification/ApplicationProperties.thy ===== *)
theory ApplicationProperties
  imports Application
begin

text \<open>
  The properties of the trusted chat application of \<open>src/erp_ai/application/\<close>: what its checks
  establish before the agent runs, the steps a request leaves behind, its audit contract, the route
  catalog after the startup check, and a concrete application around the concrete agent.
\<close>

section \<open>What the checks establish\<close>

text \<open>The intent is alive at the instant \<open>t\<close> and bound to the request and its context.\<close>

definition intent_binds :: "int \<Rightarrow> request_reference \<Rightarrow> route_intent \<Rightarrow> trusted_context \<Rightarrow> instant
    \<Rightarrow> bool" where
  "intent_binds lifetime ref i c t \<longleftrightarrow> ri_issued_at i \<le> t \<and> t < ri_expires_at i
     \<and> ri_expires_at i - ri_issued_at i \<le> lifetime
     \<and> request_id c = rr_request_id ref \<and> ri_request_id i = rr_request_id ref
     \<and> ri_customer_environment_id i = customer_environment_id c \<and> ri_user_id i = user_id c
     \<and> ri_authorization_snapshot_id i = authorization_snapshot_id c"

lemma resolution_reason_None:
  "resolution_reason lifetime ref i c now = None
     \<longleftrightarrow> (\<exists>t. now = Aware t \<and> intent_binds lifetime ref i c t)"
  by (cases now) (auto simp: resolution_reason_def intent_binds_def)

text \<open>A snapshot decision that lets the request through.\<close>

definition decision_accepts :: "snapshot_decision \<Rightarrow> trusted_context \<Rightarrow> bool" where
  "decision_accepts d c \<longleftrightarrow> sd_status d = SnapshotCurrent
     \<and> (sd_request_id d = None \<or> sd_request_id d = Some (request_id c)
        \<and> sd_customer_environment_id d = Some (customer_environment_id c)
        \<and> sd_user_id d = Some (user_id c)
        \<and> sd_authorization_snapshot_id d = Some (authorization_snapshot_id c))"

text \<open>Everything that was established when the agent runs for \<open>c\<close> along \<open>route\<close>.\<close>

definition trusted_run ::
  "app_env \<Rightarrow> 'w chat_application \<Rightarrow> request_reference \<Rightarrow> trusted_context \<Rightarrow> routing_policy \<Rightarrow> bool" where
  "trusted_run env app ref c route \<longleftrightarrow>
     (\<exists>d i t d0 dec r0.
        (\<exists>w w'. ca_resolve app ref w = (Inr d, w')) \<and> validate_resolution env d = Inr (c, i)
      \<and> (\<exists>w w'. ca_clock app w = (Inr (Aware t), w'))
      \<and> intent_binds (ca_maximum_intent_lifetime app) ref i c t
      \<and> (\<exists>w w'. ca_verify app c w = (Inr d0, w')) \<and> validate_decision d0 = Inr dec \<and> decision_accepts
          dec c
      \<and> rc_by_intent (ca_catalog app) (ri_intent_code i) = Some r0 \<and> validate_route (ap_lower env) r0 =
          Inr route)"

lemma resolve_request_Inr:
  assumes "resolve_request env app ref w = (Inr (c, i), w')"
  obtains d w1 w2 t where "ca_resolve app ref w = (Inr d, w1)" "validate_resolution env d = Inr (c, i)"
    "ca_clock app w2 = (Inr (Aware t), w')" "intent_binds (ca_maximum_intent_lifetime app) ref i c t"
  using assms unfolding resolve_request_def
  by (elim andthen_InrE)
    (auto simp: resolution_reason_None stop_def give_def split: option.splits prod.splits elim!:
        andthen_InrE)

lemma verify_snapshot_Inr:
  assumes "verify_snapshot app c w = (Inr (), w')"
  obtains d0 d where "ca_verify app c w = (Inr d0, w')" "validate_decision d0 = Inr d"
      "decision_accepts d c"
  using assms unfolding verify_snapshot_def
  by (elim andthen_InrE) (auto simp: decision_accepts_def)

lemma app_admit_Inr:
  assumes "app_admit env app ref w = (Inr (c, route), w')"
  shows "trusted_run env app ref c route"
proof -
  obtain c1 i w1 where r: "resolve_request env app ref w = (Inr (c1, i), w1)"
    and rest: "andthen (verify_snapshot app c1) (\<lambda>_.
       andthen (checked_or (AppRefused StageRouting ''trusted_route_unavailable'')
                (bindE (resolve_route (ca_catalog app) (ri_intent_code i)) (validate_route (ap_lower
                    env))))
       (\<lambda>route. give (c1, route))) w1 = (Inr (c, route), w')"
    using assms unfolding app_admit_def by (elim andthen_InrE) (auto split: prod.splits)
  obtain w2 where v: "verify_snapshot app c1 w1 = (Inr (), w2)"
    and rest2: "andthen (checked_or (AppRefused StageRouting ''trusted_route_unavailable'')
                (bindE (resolve_route (ca_catalog app) (ri_intent_code i)) (validate_route (ap_lower
                    env))))
       (\<lambda>route. give (c1, route)) w2 = (Inr (c, route), w')"
    using rest by (elim andthen_InrE) auto
  have c: "c1 = c" and "bindE (resolve_route (ca_catalog app) (ri_intent_code i)) (validate_route
      (ap_lower env)) = Inr route"
    using rest2 by (auto elim!: andthen_InrE)
  then obtain r0 where "rc_by_intent (ca_catalog app) (ri_intent_code i) = Some r0" "validate_route
      (ap_lower env) r0 = Inr route"
    by (auto simp: resolve_route_def elim!: bindE_InrE split: option.splits)
  moreover obtain d w4 w5 t where "ca_resolve app ref w = (Inr d, w4)" "validate_resolution env d = Inr
      (c, i)"
    "ca_clock app w5 = (Inr (Aware t), w1)" "intent_binds (ca_maximum_intent_lifetime app) ref i c t"
    using resolve_request_Inr[OF r] unfolding c .
  moreover obtain d0 dec where "ca_verify app c w1 = (Inr d0, w2)" "validate_decision d0 = Inr dec"
      "decision_accepts dec c"
    using verify_snapshot_Inr[OF v] unfolding c .
  ultimately show ?thesis unfolding trusted_run_def by blast
qed

lemma app_run_Inr:
  assumes "app_run env app request ref w = (Inr result, w')"
  obtains c route w1 r0 where "trusted_run env app ref c route"
    "ca_orchestrator app (c, request, route) w1 = (Inr r0, w')" "revalidate_result r0 = Inr result"
  using assms app_admit_Inr unfolding app_run_def run_orchestrator_def
  by (elim andthen_InrE) (fastforce split: prod.splits elim!: andthen_InrE)

section \<open>What a request leaves behind\<close>

datatype app_step = AgentRun trusted_context public_chat_request routing_policy | AppRecord
    app_audit_event

definition log_app :: "(app_step \<Rightarrow> 'e list) \<Rightarrow> 'w chat_application \<Rightarrow> ('w \<times> 'e list) chat_application"
    where
  "log_app g app = \<lparr>ca_resolve = logged (\<lambda>_. []) (ca_resolve app), ca_verify = logged (\<lambda>_. [])
      (ca_verify app),
     ca_catalog = ca_catalog app,
     ca_orchestrator = logged (\<lambda>(c, r, route). g (AgentRun c r route)) (ca_orchestrator app),
     ca_sink = logged (\<lambda>e. g (AppRecord e)) (ca_sink app),
     ca_clock = logged (\<lambda>_. []) (\<lambda>_. ca_clock app) (),
     ca_maximum_intent_lifetime = ca_maximum_intent_lifetime app\<rparr>"

lemma log_app_simps [simp]:
  "ca_resolve (log_app g app) = logged (\<lambda>_. []) (ca_resolve app)"
  "ca_verify (log_app g app) = logged (\<lambda>_. []) (ca_verify app)" "ca_catalog (log_app g app) =
      ca_catalog app"
  "ca_orchestrator (log_app g app) = logged (\<lambda>(c, r, route). g (AgentRun c r route)) (ca_orchestrator
      app)"
  "ca_sink (log_app g app) = logged (\<lambda>e. g (AppRecord e)) (ca_sink app)"
  "ca_clock (log_app g app) = logged (\<lambda>_. []) (\<lambda>_. ca_clock app) ()"
  "ca_maximum_intent_lifetime (log_app g app) = ca_maximum_intent_lifetime app"
  by (simp_all add: log_app_def)

lemma logged_base: "logged f oper x s = (r, s') \<Longrightarrow> oper x (fst s) = (r, fst s')"
  by (auto simp: logged_def split: prod.splits)

lemma trusted_run_log: "trusted_run env (log_app g app) ref c route \<Longrightarrow> trusted_run env app ref c route"
  unfolding trusted_run_def log_app_simps by (blast dest: logged_base)

lemma app_admit_keeps: "keeps snd (app_admit env (log_app g app) ref)"
  unfolding app_admit_def resolve_request_def verify_snapshot_def log_app_simps
  by (auto intro!: keeps_andthen keeps_attempt keeps_pure split: option.split prod.split)

lemma app_run_steps:
  assumes "app_run env (log_app g app) request ref (w, lg) = (r, (w', lg'))"
  shows "lg' = lg \<or> (\<exists>c route. lg' = lg @ g (AgentRun c request route) \<and> trusted_run env app ref c
      route)"
proof -
  let ?app = "log_app g app"
  obtain a w1 lg1 where a: "app_admit env ?app ref (w, lg) = (a, (w1, lg1))" by (metis prod.exhaust)
  have lg1: "lg1 = lg" using app_admit_keeps[of env g app ref] a unfolding keeps_def by (metis snd_conv)
  show ?thesis
  proof (cases a)
    case (Inl e)
    then show ?thesis using assms a lg1 by (simp add: app_run_def andthen_def)
  next
    case (Inr y)
    obtain c route where y: "y = (c, route)" by (cases y)
    have t: "trusted_run env app ref c route"
      using app_admit_Inr[OF a[unfolded Inr y]] by (rule trusted_run_log)
    have "run_orchestrator ?app c request route (w1, lg1) = (r, (w', lg'))"
      using assms a Inr y by (simp add: app_run_def andthen_def)
    moreover obtain r0 w2 lg2 where o: "ca_orchestrator ?app (c, request, route) (w1, lg1) = (r0, (w2,
        lg2))"
      by (metis prod.exhaust)
    ultimately have "lg' = lg2"
      by (cases r0) (auto simp: run_orchestrator_def andthen_def attempt_def checked_or_def stop_def
          give_def
          simp del: log_app_simps split: sum.splits)
    moreover have "lg2 = lg1 @ g (AgentRun c request route)" using logged_eqD o by fastforce
    ultimately show ?thesis using t lg1 by blast
  qed
qed

text \<open>The validated inputs of a request, and the event that describes its result.\<close>

definition app_inputs ::
  "app_env \<Rightarrow> public_chat_request \<times> request_reference \<Rightarrow> (public_chat_request \<times> request_reference)
      checked" where
  "app_inputs env q = bindE (validate_chat_request (ap_lower env) (ap_upper env) (fst q)) (\<lambda>request.
     bindE (validate_reference (snd q)) (\<lambda>ref. Inr (request, ref)))"

definition app_event_describes ::
  "app_env \<Rightarrow> public_chat_request \<times> request_reference \<Rightarrow> chat_result \<Rightarrow> app_audit_event \<Rightarrow> bool" where
  "app_event_describes env q r e \<longleftrightarrow>
     ape_request_id e = (case app_inputs env q of Inl _ \<Rightarrow> lit ''unavailable'' | Inr (_, ref)
         \<Rightarrow> rr_request_id ref)
   \<and> (case r of PublicChatSuccess _ \<Rightarrow> ape_outcome e = AuditSuccess \<and> ape_stage e = StageOrchestration
      | PublicChatFailure code _ \<Rightarrow> code \<noteq> AGENT_AUDIT_UNAVAILABLE \<longrightarrow> ape_outcome e = AuditFailure)"

lemma app_finish_log:
  assumes "app_finish (log_app g app) rid stage result reason (w, lg) = (res, (w', lg'))"
  obtains e where "lg' = lg @ g (AppRecord e)" "ape_request_id e = rid" "ape_stage e = stage"
    "ape_outcome e = (case result of PublicChatFailure _ _ \<Rightarrow> AuditFailure | PublicChatSuccess _
        \<Rightarrow> AuditSuccess)"
    "res = Inr result \<or> res = Inr APP_AUDIT_UNAVAILABLE \<or> res = Inl Cancelled"
proof -
  let ?e = "\<lparr>ape_request_id = rid, ape_stage = stage,
        ape_outcome = (case result of PublicChatFailure _ _ \<Rightarrow> AuditFailure | PublicChatSuccess _
            \<Rightarrow> AuditSuccess),
        ape_internal_reason = reason\<rparr>"
  note run = assms[unfolded app_finish_def log_app_simps]
  have "lg' = lg @ g (AppRecord ?e)" using run
    by (rule record_before_return_cases) (auto dest: logged_eqD)
  moreover have "res = Inr result \<or> res = Inr APP_AUDIT_UNAVAILABLE \<or> res = Inl Cancelled"
    using run by (rule record_before_return_cases) auto
  ultimately show ?thesis using that[of ?e] by simp
qed

text \<open>The steps of a request: at most one agent run, which the checks allowed, then its event.\<close>

definition app_steps_ok ::
  "app_env \<Rightarrow> 'w chat_application \<Rightarrow> public_chat_request \<times> request_reference \<Rightarrow> chat_result outcome
     \<Rightarrow> app_step list \<Rightarrow> bool" where
  "app_steps_ok env app q res steps \<longleftrightarrow> (\<exists>runs events. steps = runs @ map AppRecord events
     \<and> (runs = [] \<or> (\<exists>c request ref route. runs = [AgentRun c request route]
          \<and> app_inputs env q = Inr (request, ref) \<and> trusted_run env app ref c route))
     \<and> (case res of
          Inr r \<Rightarrow> \<exists>e. events = [e] \<and> app_event_describes env q r e
        | Inl x \<Rightarrow> events = [] \<or> x = Cancelled \<and> (\<exists>e. events = [e])))"

lemma app_steps_okI:
  assumes "runs = [] \<or> (\<exists>c request ref route. runs = [AgentRun c request route]
          \<and> app_inputs env q = Inr (request, ref) \<and> trusted_run env app ref c route)"
    and "ape_request_id e = (case app_inputs env q of Inl _ \<Rightarrow> lit ''unavailable'' | Inr (_, ref)
        \<Rightarrow> rr_request_id ref)"
    and "ape_outcome e = (case result of PublicChatFailure _ _ \<Rightarrow> AuditFailure | PublicChatSuccess _
        \<Rightarrow> AuditSuccess)"
    and "ape_stage e = StageOrchestration \<or> result = APP_UNAVAILABLE"
    and "res = Inr result \<or> res = Inr APP_AUDIT_UNAVAILABLE \<or> res = Inl Cancelled"
  shows "app_steps_ok env app q res (runs @ [AppRecord e])"
proof -
  have "case res of Inr r \<Rightarrow> app_event_describes env q r e | Inl x \<Rightarrow> x = Cancelled"
    using assms(2-5) by (auto simp: app_event_describes_def APP_UNAVAILABLE_def
        APP_AUDIT_UNAVAILABLE_def
        split: chat_result.splits)
  then show ?thesis using assms(1) unfolding app_steps_ok_def
    by (intro exI[of _ runs] exI[of _ "[e]"]) (auto split: sum.splits)
qed

lemma app_finish_steps:
  assumes "app_finish (log_app g app) rid stage result reason (w, lg) = (res, (w', lg'))"
    and "runs = [] \<or> (\<exists>c request ref route. runs = [AgentRun c request route]
          \<and> app_inputs env q = Inr (request, ref) \<and> trusted_run env app ref c route)"
    and "rid = (case app_inputs env q of Inl _ \<Rightarrow> lit ''unavailable'' | Inr (_, ref) \<Rightarrow> rr_request_id
        ref)"
    and "stage = StageOrchestration \<or> result = APP_UNAVAILABLE"
  shows "\<exists>e. lg' = lg @ g (AppRecord e) \<and> app_steps_ok env app q res (runs @ [AppRecord e])"
proof -
  obtain e where e: "lg' = lg @ g (AppRecord e)" "ape_request_id e = rid" "ape_stage e = stage"
    "ape_outcome e = (case result of PublicChatFailure _ _ \<Rightarrow> AuditFailure | PublicChatSuccess _
        \<Rightarrow> AuditSuccess)"
    "res = Inr result \<or> res = Inr APP_AUDIT_UNAVAILABLE \<or> res = Inl Cancelled"
    using app_finish_log[OF assms(1)] .
  have "app_steps_ok env app q res (runs @ [AppRecord e])"
    using e(5) by (rule app_steps_okI[OF assms(2) e(2)[unfolded assms(3)] e(4) assms(4)[folded e(3)]])
  then show ?thesis using e(1) by blast
qed

lemma app_execute_steps:
  assumes "app_execute env (log_app g app) q (w, lg) = (res, (w', lg'))"
  shows "\<exists>steps. lg' = lg @ concat (map g steps) \<and> app_steps_ok env app q res steps"
proof (cases "app_inputs env q")
  case (Inl m)
  then have "app_finish (log_app g app) (lit ''unavailable'') StageValidation APP_UNAVAILABLE
      ''invalid_application_input'' (w, lg) = (res, (w', lg'))"
    using assms by (simp add: app_execute_def app_failure_def app_inputs_def)
  then obtain e where "lg' = lg @ g (AppRecord e)" "app_steps_ok env app q res ([] @ [AppRecord e])"
    using app_finish_steps[where runs = "[]" and env = env and q = q] Inl by fastforce
  then show ?thesis by (intro exI[of _ "[AppRecord e]"]) simp
next
  case (Inr y)
  obtain request ref where y: "y = (request, ref)" by (cases y)
  note inp = Inr[unfolded y]
  obtain r w1 lg1 where r: "app_run env (log_app g app) request ref (w, lg) = (r, (w1, lg1))" by (metis
      prod.exhaust)
  have run: "(case r of Inl (AppRaised x) \<Rightarrow> (Inl x, (w1, lg1))
      | Inl (AppRefused stage reason) \<Rightarrow> app_finish (log_app g app) (rr_request_id ref) stage
          APP_UNAVAILABLE reason (w1, lg1)
      | Inr result \<Rightarrow> app_finish (log_app g app) (rr_request_id ref) StageOrchestration result
          ''completed'' (w1, lg1))
      = (res, (w', lg'))"
    using assms inp r by (simp add: app_execute_def app_failure_def app_inputs_def split: sum.splits
        app_stop.splits)
  obtain runs where runs: "lg1 = lg @ concat (map g runs)" "runs = [] \<or> (\<exists>c request ref route. runs =
      [AgentRun c request route]
          \<and> app_inputs env q = Inr (request, ref) \<and> trusted_run env app ref c route)"
  proof -
    consider "lg1 = lg" | c route where "lg1 = lg @ g (AgentRun c request route)" "trusted_run env app
        ref c route"
      using app_run_steps[OF r] by blast
    then show ?thesis
    proof cases
      case 1
      then show ?thesis using that[of "[]"] by simp
    next
      case 2
      then show ?thesis using that[of "[AgentRun c request route]"] inp by auto
    qed
  qed
  have finished: ?thesis
    if fin: "app_finish (log_app g app) (rr_request_id ref) stage result reason (w1, lg1) = (res, (w',
        lg'))"
      and st: "stage = StageOrchestration \<or> result = APP_UNAVAILABLE" for stage result reason
  proof -
    obtain e where "lg' = lg1 @ g (AppRecord e)" "app_steps_ok env app q res (runs @ [AppRecord e])"
      using app_finish_steps[OF fin runs(2) _ st] inp by auto
    then show ?thesis using runs(1) by (intro exI[of _ "runs @ [AppRecord e]"]) simp
  qed
  show ?thesis
  proof (cases r)
    case (Inr result)
    then show ?thesis using finished run by simp
  next
    case (Inl e)
    show ?thesis
    proof (cases e)
      case (AppRefused stage reason)
      then show ?thesis using finished run Inl by simp
    next
      case (AppRaised x)
      then have "res = Inl x" "lg' = lg1" using run Inl by simp_all
      then show ?thesis using runs unfolding app_steps_ok_def
        by (intro exI[of _ runs] conjI) (auto intro!: exI[of _ "[]"])
    qed
  qed
qed

fun record_only :: "app_step \<Rightarrow> app_audit_event list" where
  "record_only (AppRecord e) = [e]"
| "record_only (AgentRun _ _ _) = []"

definition app_served ::
  "(app_env \<times> 'w chat_application) \<times> public_chat_request \<times> request_reference
     \<Rightarrow> 'w \<times> app_audit_event list \<Rightarrow> chat_result outcome \<times> ('w \<times> app_audit_event list)" where
  "app_served q s = (case q of ((env, app), request) \<Rightarrow> app_execute env (log_app record_only app)
      request s)"

lemma app_served_events:
  assumes "app_served ((env, app), request) (w, lg) = (res, (w', lg'))"
  shows "\<exists>events. lg' = lg @ events \<and> (case res of Inr r \<Rightarrow> \<exists>e. events = [e] \<and> app_event_describes env
      request r e
    | Inl x \<Rightarrow> events = [] \<or> x = Cancelled \<and> (\<exists>e. events = [e]))"
proof -
  have flat: "concat (map record_only (map AppRecord events)) = events" for events by (induction
      events) auto
  obtain steps where "lg' = lg @ concat (map record_only steps)" "app_steps_ok env app request res
      steps"
    using assms app_execute_steps[of env record_only app request w lg res w' lg'] by (auto simp:
        app_served_def)
  then show ?thesis unfolding app_steps_ok_def using flat by (fastforce simp del: map_map)
qed

interpretation app_audit: audited_operation app_served
    "\<lambda>q r e. app_event_describes (fst (fst q)) (snd q) r e"
proof
  fix q :: "(app_env \<times> 'a chat_application) \<times> public_chat_request \<times> request_reference" and w lg r w' lg'
  assume "app_served q (w, lg) = (Inr r, (w', lg'))"
  then show "\<exists>e. lg' = lg @ [e] \<and> app_event_describes (fst (fst q)) (snd q) r e"
    using app_served_events[of "fst (fst q)" "snd (fst q)" "snd q" w lg] by force
next
  fix q :: "(app_env \<times> 'a chat_application) \<times> public_chat_request \<times> request_reference" and w lg x w' lg'
  assume "app_served q (w, lg) = (Inl x, (w', lg'))"
  then show "lg' = lg \<or> x = Cancelled \<and> (\<exists>e. lg' = lg @ [e])"
    using app_served_events[of "fst (fst q)" "snd (fst q)" "snd q" w lg] by force
qed

text \<open>A success of the application is the outcome of an agent run that the checks allowed.\<close>

lemma app_success_trusted:
  assumes "app_execute env app q w = (Inr (PublicChatSuccess s), w')"
  shows "\<exists>request ref c route w1 w2 r0. app_inputs env q = Inr (request, ref) \<and> trusted_run env app ref
      c route
    \<and> ca_orchestrator app (c, request, route) w1 = (Inr r0, w2) \<and> revalidate_result r0 = Inr
        (PublicChatSuccess s)"
proof -
  have not_refused: "app_failure app rid st why v \<noteq> (Inr (PublicChatSuccess s), v')" for rid st why v v'
  proof
    assume "app_failure app rid st why v = (Inr (PublicChatSuccess s), v')"
    then show False unfolding app_failure_def app_finish_def
      by (rule record_before_return_cases) (auto simp: APP_UNAVAILABLE_def APP_AUDIT_UNAVAILABLE_def)
  qed
  obtain request ref where inp: "app_inputs env q = Inr (request, ref)"
    using assms not_refused by (cases "app_inputs env q") (auto simp: app_execute_def app_inputs_def)
  obtain r w1 where r: "app_run env app request ref w = (r, w1)" by (metis prod.exhaust)
  note run = assms[unfolded app_execute_def, folded app_inputs_def[of env q],
      unfolded inp sum.case prod.case r]
  obtain result where result: "r = Inr result"
    using run not_refused by (cases r) (auto split: app_stop.splits)
  have "app_finish app (rr_request_id ref) StageOrchestration result ''completed'' w1
      = (Inr (PublicChatSuccess s), w')"
    using run result by simp
  then have "result = PublicChatSuccess s" unfolding app_finish_def
    by (rule record_before_return_cases) (auto simp: APP_AUDIT_UNAVAILABLE_def)
  then obtain c route w2 r0 where "trusted_run env app ref c route"
    "ca_orchestrator app (c, request, route) w2 = (Inr r0, w1)" "revalidate_result r0 = Inr
        (PublicChatSuccess s)"
    using app_run_Inr[OF r[unfolded result]] by blast
  then show ?thesis using inp by blast
qed

section \<open>References and routes\<close>

lemma rstrip_pad_encode:
  assumes "list_all (\<lambda>b. b < 256) bs"
  shows "rstrip_pad (urlsafe_b64encode bs) = b64_encode bs"
proof -
  have "dropWhile ((=) 61) (rev (b64_encode bs)) = rev (b64_encode bs)"
    using b64_encoded(2)[OF assms] by (cases "rev (b64_encode bs)") (auto simp: in_set_conv_decomp)
  moreover have "dropWhile ((=) 61) (replicate n 61 @ xs) = dropWhile ((=) 61) xs" for n and xs :: "nat
      list"
    by (induction n) auto
  ultimately show ?thesis by (simp add: rstrip_pad_def urlsafe_b64encode_def b64_pad_def)
qed

lemma canonical_reference_iff:
  "canonical_reference s = Inr t \<longleftrightarrow>
     t = s \<and> (\<exists>bs. length bs = 32 \<and> list_all (\<lambda>b. b < 256) bs \<and> s = b64_encode bs)" (is "_ \<longleftrightarrow> _ \<and> ?E")
proof
  assume a: "canonical_reference s = Inr t"
  then obtain bs where bs: "urlsafe_b64decode (s @ [61]) = Some bs" "length bs = 32"
      "rstrip_pad (urlsafe_b64encode bs) = s" "t = s"
    unfolding canonical_reference_def by (auto elim!: raise_if_InrE split: option.splits)
  have "list_all (\<lambda>b. b < 256) bs" by (rule urlsafe_b64decode_bytes[OF bs(1)])
  then show "t = s \<and> ?E" using bs rstrip_pad_encode by metis
next
  assume a: "t = s \<and> ?E"
  then obtain bs where bs: "length bs = 32" "list_all (\<lambda>b. b < 256) bs" "s = b64_encode bs" by blast
  have "urlsafe_b64encode bs = s @ [61]" using bs by (simp add: urlsafe_b64encode_def b64_pad_def)
  moreover have "length s = 43" using bs by (simp add: length_b64_encode)
  ultimately show "canonical_reference s = Inr t"
    using a bs b64_decode_encode[OF bs(2)] b64_encoded(2)[OF bs(2)] rstrip_pad_encode[OF bs(2)]
    by (simp add: canonical_reference_def)
qed

lemma make_catalog_Inr:
  assumes "make_catalog lower es = Inr cat"
  obtains vs where "map_checked (validate_entry lower) es = Inr vs" "distinct (map re_intent_code vs)"
    "rc_entries cat = sort_key re_intent_code vs"
    "rc_by_intent cat = map_of (map (\<lambda>e. (re_intent_code e, re_route e)) (rc_entries cat))"
  using assms unfolding make_catalog_def by (elim bindE_InrE raise_if_InrE) (auto simp: Let_def)

lemma resolve_route_iff:
  assumes "make_catalog lower es = Inr cat"
  shows "resolve_route cat code = Inr route
    \<longleftrightarrow> \<lparr>re_intent_code = code, re_route = route\<rparr> \<in> set (rc_entries cat)"
proof -
  obtain vs where c: "distinct (map re_intent_code vs)" "rc_entries cat = sort_key re_intent_code vs"
    "rc_by_intent cat = map_of (map (\<lambda>e. (re_intent_code e, re_route e)) (rc_entries cat))"
    using make_catalog_Inr[OF assms] .
  let ?ps = "map (\<lambda>e. (re_intent_code e, re_route e)) (rc_entries cat)"
  have "distinct (map fst ?ps)" using c(1,2)
    by (simp add: comp_def) (metis distinct_map distinct_sort set_sort)
  then have "rc_by_intent cat code = Some route \<longleftrightarrow> (code, route) \<in> set ?ps"
    by (simp add: c(3) map_of_eq_Some_iff)
  also have "\<dots> \<longleftrightarrow> \<lparr>re_intent_code = code, re_route = route\<rparr> \<in> set (rc_entries cat)"
  proof -
    have "(code, route) = (re_intent_code e, re_route e)
        \<longleftrightarrow> e = \<lparr>re_intent_code = code, re_route = route\<rparr>" for e
      by (cases e) auto
    then show ?thesis by (auto simp: image_iff)
  qed
  finally show ?thesis by (auto simp: resolve_route_def split: option.splits)
qed

lemma installed_versions_Some:
  "installed_versions hs name = Some v \<Longrightarrow> \<exists>h \<in> set hs. h_tool_name h = name \<and> h_version h = v"
  unfolding installed_versions_def by (drule map_of_SomeD) auto

section \<open>A concrete application\<close>

definition sample_reference :: request_reference where
  "sample_reference = \<lparr>rr_request_id = lit ''req-1'', rr_resolver_reference = replicate 43 65\<rparr>"

definition sample_intent :: intent_data where
  "sample_intent = \<lparr>id_contract_version = 1, id_intent_code = lit ''small_talk'', id_issued_at = Aware
      900,
     id_expires_at = Aware 1100, id_request_id = lit ''req-1'', id_customer_environment_id = lit
         ''env-1'',
     id_user_id = lit ''user-1'', id_authorization_snapshot_id = lit ''snap-1''\<rparr>"

definition sample_zone :: app_env where
  "sample_zone = \<lparr>ap_lower = ascii_lower, ap_upper = ascii_upper, ap_known_zone = (\<lambda>z. z = lit
      ''UTC'')\<rparr>"

definition sample_route_catalog :: route_catalog where
  "sample_route_catalog = \<lparr>rc_entries = [\<lparr>re_intent_code = lit ''small_talk'', re_route =
      general_route\<rparr>],
     rc_by_intent = [lit ''small_talk'' \<mapsto> general_route]\<rparr>"

definition sample_app :: "nat chat_application" where
  "sample_app = \<lparr>ca_resolve = (\<lambda>_ w. (Inr \<lparr>rd_context = dump_context sample_context, rd_intent =
      sample_intent\<rparr>, w + 1)),
     ca_verify = (\<lambda>_ w. (Inr \<lparr>sd_status = SnapshotCurrent, sd_request_id = None,
         sd_customer_environment_id = None,
       sd_user_id = None, sd_authorization_snapshot_id = None\<rparr>, w + 1)),
     ca_catalog = sample_route_catalog, ca_orchestrator = agent_execute sample_env sample_agent,
     ca_sink = (\<lambda>_ w. (Inr (), w + 5)), ca_clock = (\<lambda>w. (Inr (Aware 1000), w)),
     ca_maximum_intent_lifetime = 300\<rparr>"

lemma sample_app_simps [simp]:
  "ap_lower sample_zone = ascii_lower" "ap_upper sample_zone = ascii_upper"
  "ap_known_zone sample_zone = (\<lambda>z. z = lit ''UTC'')"
  "ca_catalog sample_app = sample_route_catalog" "ca_clock sample_app = (\<lambda>w. (Inr (Aware 1000), w))"
  "ca_maximum_intent_lifetime sample_app = 300"
  "ca_orchestrator sample_app = agent_execute sample_env sample_agent"
  "ca_sink sample_app = (\<lambda>_ w. (Inr (), w + 5))"
  by (simp_all add: sample_zone_def sample_app_def)

lemma zero_bytes: "b64_encode (replicate (Suc (Suc (3 * n))) 0) = replicate (Suc (Suc (Suc (4 * n))))
    65"
proof (induction n)
  case (Suc n)
  have n: "3 * Suc n = Suc (Suc (Suc (3 * n)))" "4 * Suc n = Suc (Suc (Suc (Suc (4 * n))))" by simp_all
  show ?case unfolding n using Suc by (simp add: b64_char_def)
qed (simp add: b64_char_def)

lemma zero_reference: "b64_encode (replicate 32 0) = replicate 43 65"
proof -
  have "(32::nat) = Suc (Suc (3 * 10))" "(43::nat) = Suc (Suc (Suc (4 * 10)))" by simp_all
  then show ?thesis using zero_bytes[of 10] by simp
qed

lemma sample_inputs: "app_inputs sample_zone (sample_chat, sample_reference) = Inr (sample_chat,
    sample_reference)"
proof -
  have "canonical_reference (replicate 43 65) = Inr (replicate 43 65)"
    unfolding canonical_reference_iff zero_reference[symmetric]
    by (intro conjI refl exI[of _ "replicate 32 0"]) (simp_all add: list_all_iff)
  then show ?thesis
    by (simp add: app_inputs_def validate_reference_def sample_reference_def validate_chat_request_def
        sample_chat_def
      validate_identifier_id stripped_text_def py_strip_def py_rstrip_def trimmed_text_def unicode_trim_def is_white_space_def py_isspace_def sample_text)
qed

definition sample_route_intent :: route_intent where
  "sample_route_intent = \<lparr>ri_intent_code = lit ''small_talk'', ri_issued_at = 900, ri_expires_at = 1100,
     ri_request_id = lit ''req-1'', ri_customer_environment_id = lit ''env-1'', ri_user_id = lit
         ''user-1'',
     ri_authorization_snapshot_id = lit ''snap-1''\<rparr>"

lemma sample_resolution:
  "validate_resolution sample_zone \<lparr>rd_context = dump_context sample_context, rd_intent = sample_intent\<rparr>
     = Inr (sample_context, sample_route_intent)"
proof -
  have "validate_context ascii_lower ascii_upper (\<lambda>z. z = lit ''UTC'') (dump_context sample_context) =
      Inr sample_context"
    by (rule revalidate_context[OF case_mapping_ascii sample_context_wf])
  moreover have "validate_intent ascii_lower sample_intent = Inr sample_route_intent"
    by (simp add: validate_intent_def sample_intent_def sample_route_intent_def sample_text)
  ultimately show ?thesis by (simp add: validate_resolution_def)
qed

lemma sample_app_run:
  "app_run sample_zone sample_app sample_chat sample_reference 0 = (Inr (PublicChatSuccess
      sample_success), 1102)"
proof -
  have "resolve_request sample_zone sample_app sample_reference 0 = (Inr (sample_context,
      sample_route_intent), 1)"
    using sample_resolution
    by (simp add: resolve_request_def andthen_def attempt_def sample_app_def resolution_reason_def
        sample_route_intent_def sample_reference_def sample_context_def)
  moreover have "verify_snapshot sample_app sample_context 1 = (Inr (), 2)"
    by (simp add: verify_snapshot_def andthen_def attempt_def sample_app_def validate_decision_def)
  moreover have "bindE (resolve_route sample_route_catalog (ri_intent_code sample_route_intent))
      (validate_route ascii_lower)
      = Inr general_route"
    using sample_routes(2) by (simp add: resolve_route_def sample_route_catalog_def
        sample_route_intent_def sample_env_def)
  moreover have "run_orchestrator sample_app sample_context sample_chat general_route 2
      = (Inr (PublicChatSuccess sample_success), 1102)"
  proof -
    have "revalidate_result (PublicChatSuccess sample_success) = Inr (PublicChatSuccess sample_success)"
      by (simp add: sample_success_def make_chat_success_def language_code_def is_language_code_def
          stripped_text_def py_strip_def py_rstrip_def trimmed_text_def unicode_trim_def is_white_space_def py_isspace_def sample_text)
    then show ?thesis
      by (simp add: run_orchestrator_def andthen_def attempt_def sample_general_run del:
          revalidate_result.simps)
  qed
  ultimately show ?thesis by (simp add: app_run_def app_admit_def andthen_def)
qed

lemma sample_app_execute:
  "app_execute sample_zone sample_app (sample_chat, sample_reference) 0
     = (Inr (PublicChatSuccess sample_success), 1107)"
  using sample_inputs sample_app_run
  by (simp add: app_inputs_def app_execute_def app_finish_def record_before_return_def)

section \<open>Properties\<close>

text \<open>C4: The application answers only trusted requests. A success means that the reference and the
  message are valid, the resolver bound the reference to a well-formed context and to an intent that
  is alive now and names the same request, environment, user and snapshot, the snapshot is current,
  the catalog maps the intent to the route, and the agent ran for that context along that route.\<close>

theorem application_success_trusted:
  assumes "case_mapping (ap_lower env) (ap_upper env)"
    and "app_execute env app (request, reference) w = (Inr (PublicChatSuccess s), w')"
  shows "\<exists>request' ref c route w1 w2 r0. app_inputs env (request, reference) = Inr (request', ref)
    \<and> wf_context (ap_known_zone env) c \<and> trusted_run env app ref c route
    \<and> ca_orchestrator app (c, request', route) w1 = (Inr r0, w2)
    \<and> revalidate_result r0 = Inr (PublicChatSuccess s)"
proof -
  obtain request' ref c route w1 w2 r0 where inp: "app_inputs env (request, reference) = Inr (request',
      ref)"
    and t: "trusted_run env app ref c route" "ca_orchestrator app (c, request', route) w1 = (Inr r0,
        w2)"
      "revalidate_result r0 = Inr (PublicChatSuccess s)"
    using app_success_trusted[OF assms(2)] by blast
  obtain d i where "validate_resolution env d = Inr (c, i)" using t(1) unfolding trusted_run_def by
      blast
  then obtain x where "validate_context (ap_lower env) (ap_upper env) (ap_known_zone env) x = Inr c"
    unfolding validate_resolution_def by (elim bindE_InrE) auto
  then have "wf_context (ap_known_zone env) c" by (rule validate_context_wf[OF assms(1)])
  then show ?thesis using inp t by blast
qed

theorem application_success_trusted_witness:
  "\<exists>request' ref c route w1 w2 r0. app_inputs sample_zone (sample_chat, sample_reference) = Inr
      (request', ref)
    \<and> wf_context (ap_known_zone sample_zone) c \<and> trusted_run sample_zone sample_app ref c route
    \<and> ca_orchestrator sample_app (c, request', route) w1 = (Inr r0, w2)
    \<and> revalidate_result r0 = Inr (PublicChatSuccess sample_success)"
  by (rule application_success_trusted[OF _ sample_app_execute]) (simp add: case_mapping_ascii)

text \<open>Whatever the dependencies do, the agent runs at most once per request and only for a context
  and route the checks established, and a returned result has exactly one application event, the last
  step, with the validated request id (or \<open>unavailable\<close>) and the outcome of the result.\<close>

theorem application_steps:
  "(case app_execute env (log_app (\<lambda>s. [s]) app) q (w, []) of (res, (w', steps)) \<Rightarrow> app_steps_ok env app
      q res steps)"
proof -
  obtain res w' steps where run: "app_execute env (log_app (\<lambda>s. [s]) app) q (w, []) = (res, (w',
      steps))"
    by (metis prod.exhaust)
  have "concat (map (\<lambda>s. [s]) ss) = ss" for ss :: "app_step list" by simp
  then show ?thesis using app_execute_steps[OF run] run by auto
qed

text \<open>After a successful startup check, every route the catalog resolves to a tool names a
  registered read tool of that version for which the gateway has an installed handler of that version.\<close>

theorem startup_routes_installed:
  assumes "make_registry ms = Inr r" and "make_catalog lower entries = Inr cat"
    and "validate_startup cat r g = Inr ()" and "resolve_route cat code = Inr route"
    and "rp_mode route = EXACT_READ_THEN_FINAL"
  shows "\<exists>m \<in> set ms. \<exists>d \<in> set (tools m). \<exists>h \<in> set (gw_handlers g). operation d = ReadOp
    \<and> rp_tool_name route = Some (tool_name d) \<and> rp_version route = Some (tool_version d)
    \<and> h_tool_name h = tool_name d \<and> h_version h = tool_version d"
proof -
  let ?e = "\<lparr>re_intent_code = code, re_route = route\<rparr>" and ?n = "tool_name_or_empty (rp_tool_name
      route)"
  have e: "?e \<in> set (rc_entries cat)" using assms(4) unfolding resolve_route_iff[OF assms(2)] .
  obtain vs where vs: "map_checked (validate_entry lower) entries = Inr vs" "rc_entries cat = sort_key
      re_intent_code vs"
    using make_catalog_Inr[OF assms(2)] .
  have "\<exists>x. validate_entry lower x = Inr ?e" using map_checked_InrD[OF vs(1)] e vs(2)
    by (auto simp: list_all2_conv_all_nth in_set_conv_nth) metis
  then obtain n v where nv: "rp_tool_name route = Some n" "rp_version route = Some v"
    using assms(5) unfolding validate_entry_def validate_route_def
    by (elim exE bindE_InrE raise_if_InrE) (auto simp: consistent_selection_def)
  let ?bad = "\<lambda>e. let route = re_route e; name = tool_name_or_empty (rp_tool_name route) in rp_mode
      route \<noteq> GENERAL_ONLY
      \<and> (case descriptor_dict r name of None \<Rightarrow> True
         | Some d \<Rightarrow> operation d \<noteq> ReadOp \<or> Some (tool_version d) \<noteq> rp_version route \<or>
             installed_versions (gw_handlers g) name \<noteq> rp_version route)"
  have "\<not> list_ex ?bad (rc_entries cat)"
    using assms(3) unfolding validate_startup_def by (rule raise_if_InrE)
  then have "\<not> ?bad ?e" using e unfolding list_ex_iff by blast
  then obtain d where d: "descriptor_dict r n = Some d" "operation d = ReadOp" "tool_version d = v"
      "installed_versions (gw_handlers g) n = Some v"
    using nv assms(5) by (auto simp: tool_name_or_empty_def Let_def split: option.splits)
  have "d \<in> set (registry_tools r)" "tool_name d = n"
    using d(1) descriptor_dict_iff[OF make_registry_wf[OF assms(1)]] by auto
  moreover obtain h where "h \<in> set (gw_handlers g)" "h_tool_name h = n" "h_version h = v"
    using installed_versions_Some[OF d(4)] by blast
  moreover have "set (manifests r) = set ms" using make_registry_manifests[OF assms(1)] by (metis
      set_mset_mset)
  ultimately show ?thesis using nv d unfolding registry_tools_def by fastforce
qed

definition sample_exact_catalog :: route_catalog where
  "sample_exact_catalog = \<lparr>rc_entries = [\<lparr>re_intent_code = lit ''roles'', re_route = exact_route\<rparr>],
     rc_by_intent = [lit ''roles'' \<mapsto> exact_route]\<rparr>"

theorem startup_routes_installed_witness:
  "\<exists>m \<in> set [sample_manifest]. \<exists>d \<in> set (tools m). \<exists>h \<in> set (gw_handlers sample_gateway). operation d =
      ReadOp
    \<and> rp_tool_name exact_route = Some (tool_name d) \<and> rp_version exact_route = Some (tool_version d)
    \<and> h_tool_name h = tool_name d \<and> h_version h = tool_version d"
proof (rule startup_routes_installed[OF sample_registry])
  show "make_catalog ascii_lower [\<lparr>re_intent_code = lit ''roles'', re_route = exact_route\<rparr>] = Inr
      sample_exact_catalog"
    using sample_routes(1)
    by (simp add: make_catalog_def validate_entry_def sample_env_def sample_exact_catalog_def
        sample_text)
  have "gw_handlers sample_gateway = [sample_handler]"
    using make_gateway_wf(2)[OF sample_gateway make_registry_wf[OF sample_registry]] by simp
  then show "validate_startup sample_exact_catalog sample_registry sample_gateway = Inr ()"
    by (simp add: validate_startup_def sample_exact_catalog_def exact_route_def tool_name_or_empty_def
        sample_dict
        sample_tool_def installed_versions_def sample_handler_def)
  show "resolve_route sample_exact_catalog (lit ''roles'') = Inr exact_route"
    by (simp add: resolve_route_def sample_exact_catalog_def)
qed simp

text \<open>A resolver reference is accepted exactly when it is the unpadded base64url encoding of 32
  bytes; other spellings that the lenient decoder maps to the same bytes are refused.\<close>

theorem canonical_reference_exact:
  "canonical_reference s = Inr t
     \<longleftrightarrow> t = s \<and> (\<exists>bs. length bs = 32 \<and> list_all (\<lambda>b. b < 256) bs \<and> s = b64_encode bs)"
  by (rule canonical_reference_iff)

end
