(* ===== verification/Runtime.thy ===== *)
theory Runtime
  imports ApplicationProperties
begin

text \<open>
  The production runtime (\<open>src/erp_ai/runtime/\<close>): the lease that gives one runtime the provider
  resources, the lifecycle that opens and closes the audit router, the ERP client and the
  providers, and the composition root. The lease and the lifecycle are step relations: their locks
  make every call one step, and the calls come in any order.
\<close>

section \<open>The provider lease\<close>

text \<open>A token is a fresh object: the lease counts the objects that \<open>claim\<close> has created.\<close>

record lease =
  ls_token :: "nat option"
  ls_committed :: bool
  ls_fresh :: nat

definition new_lease :: lease where
  "new_lease = \<lparr>ls_token = None, ls_committed = False, ls_fresh = 0\<rparr>"

definition lease_claim :: "lease \<Rightarrow> nat checked \<times> lease" where
  "lease_claim l =
     (let token = ls_fresh l; l1 = l\<lparr>ls_fresh := Suc token\<rparr> in
      if ls_token l \<noteq> None \<or> ls_committed l then (Inl
          ''provider lifecycle ownership is unavailable'', l1)
      else (Inr token, l1\<lparr>ls_token := Some token\<rparr>))"

definition lease_release :: "nat \<Rightarrow> lease \<Rightarrow> unit checked \<times> lease" where
  "lease_release token l =
     (if ls_token l \<noteq> Some token \<or> ls_committed l
      then (Inl ''provider lifecycle ownership is unavailable'', l)
      else (Inr (), l\<lparr>ls_token := None\<rparr>))"

definition lease_commit :: "nat \<Rightarrow> lease \<Rightarrow> unit checked \<times> lease" where
  "lease_commit token l =
     (if ls_token l \<noteq> Some token \<or> ls_committed l
      then (Inl ''provider lifecycle ownership is unavailable'', l)
      else (Inr (), l\<lparr>ls_committed := True\<rparr>))"

text \<open>The lock makes each call one step; clients may call in any order with any tokens.\<close>

datatype lease_event = Claimed nat | Released nat | Committed nat | Refused

inductive lease_step :: "lease \<Rightarrow> lease_event \<Rightarrow> lease \<Rightarrow> bool" where
  claimed: "lease_claim l = (Inr t, l') \<Longrightarrow> lease_step l (Claimed t) l'"
| claim_refused: "lease_claim l = (Inl m, l') \<Longrightarrow> lease_step l Refused l'"
| released: "lease_release t l = (Inr (), l') \<Longrightarrow> lease_step l (Released t) l'"
| release_refused: "lease_release t l = (Inl m, l') \<Longrightarrow> lease_step l Refused l'"
| committed: "lease_commit t l = (Inr (), l') \<Longrightarrow> lease_step l (Committed t) l'"
| commit_refused: "lease_commit t l = (Inl m, l') \<Longrightarrow> lease_step l Refused l'"

inductive_cases lease_stepE: "lease_step l e l'"

inductive lease_run :: "lease_event list \<Rightarrow> lease \<Rightarrow> bool" where
  fresh: "lease_run [] new_lease"
| step: "lease_run es l \<Longrightarrow> lease_step l e l' \<Longrightarrow> lease_run (es @ [e]) l'"

text \<open>The tokens that are held after a history, and its commits.\<close>

definition held :: "lease_event list \<Rightarrow> nat set" where
  "held es = {t. Claimed t \<in> set es \<and> Released t \<notin> set es}"

definition commits :: "lease_event list \<Rightarrow> nat list" where
  "commits es = concat (map (\<lambda>e. case e of Committed t \<Rightarrow> [t] | _ \<Rightarrow> []) es)"

definition lease_inv :: "lease_event list \<Rightarrow> lease \<Rightarrow> bool" where
  "lease_inv es l \<longleftrightarrow> held es = set_option (ls_token l)
     \<and> (\<forall>t. Claimed t \<in> set es \<or> Released t \<in> set es \<longrightarrow> t < ls_fresh l)
     \<and> commits es = (if ls_committed l then [the (ls_token l)] else [])
     \<and> (ls_committed l \<longrightarrow> ls_token l \<noteq> None)"

lemma commits_simps [simp]:
  "commits [] = []" "commits (es @ [Committed t]) = commits es @ [t]"
  "commits (es @ [Claimed t]) = commits es" "commits (es @ [Released t]) = commits es"
  "commits (es @ [Refused]) = commits es"
  by (simp_all add: commits_def)

lemma held_snoc:
  "held (es @ [Refused]) = held es" "held (es @ [Committed t]) = held es"
  "held (es @ [Released t]) = held es - {t}"
  "Released t \<notin> set es \<Longrightarrow> held (es @ [Claimed t]) = insert t (held es)"
  by (auto simp: held_def)

lemma lease_inv_run: "lease_run es l \<Longrightarrow> lease_inv es l"
proof (induction rule: lease_run.induct)
  case fresh
  then show ?case by (simp add: lease_inv_def new_lease_def held_def)
next
  case (step es l e l')
  note inv = step.IH[unfolded lease_inv_def]
  from step.hyps(2) show ?case
  proof (cases rule: lease_step.cases)
    case (claimed t)
    then have t: "t = ls_fresh l" "ls_token l = None" "\<not> ls_committed l"
      "l' = l\<lparr>ls_fresh := Suc t, ls_token := Some t\<rparr>"
      by (auto simp: lease_claim_def Let_def split: if_splits)
    then have "Released t \<notin> set es" using inv by auto
    then show ?thesis using inv t claimed(1) by (auto simp: lease_inv_def held_snoc less_Suc_eq)
  next
    case (claim_refused m)
    then show ?thesis using inv by (auto simp: lease_inv_def held_snoc lease_claim_def Let_def
        less_Suc_eq split: if_splits)
  next
    case (released t)
    then have "t \<in> held es" using inv by (auto simp: lease_release_def split: if_splits)
    then have "Claimed t \<in> set es" by (simp add: held_def)
    then show ?thesis using inv released by (auto simp: lease_inv_def held_snoc lease_release_def
        split: if_splits)
  next
    case (release_refused t m)
    then show ?thesis using inv by (auto simp: lease_inv_def held_snoc lease_release_def split:
        if_splits)
  next
    case (committed t)
    then show ?thesis using inv by (auto simp: lease_inv_def held_snoc lease_commit_def split:
        if_splits)
  next
    case (commit_refused t m)
    then show ?thesis using inv by (auto simp: lease_inv_def held_snoc lease_commit_def split:
        if_splits)
  qed
qed

lemma committed_lease_refuses:
  "ls_committed l \<Longrightarrow> lease_step l e l' \<Longrightarrow> e = Refused \<and> ls_committed l' \<and> ls_token l' = ls_token l"
  by (erule lease_stepE) (auto simp: lease_claim_def lease_release_def lease_commit_def Let_def split:
      if_splits)

section \<open>The lifecycle of the runtime\<close>

datatype runtime_state = CREATED | STARTING | READY | STOPPING | CLOSED | RUNTIME_FAILED

datatype resource = AuditRouter | ErpClient | ProviderRuntime

record 'w resource_ops =
  ro_open :: "(resource, 'w, unit outcome) op"
  ro_close :: "(resource, 'w, unit outcome) op"

record lifecycle =
  lc_state :: runtime_state
  lc_rolled_back :: bool
  lc_shutdown_attempted :: bool

definition new_lifecycle :: lifecycle where
  "new_lifecycle = \<lparr>lc_state = CREATED, lc_rolled_back = False, lc_shutdown_attempted = False\<rparr>"

text \<open>A resource counts as opened before its opening is awaited.\<close>

fun open_each ::
  "'w resource_ops \<Rightarrow> resource list \<Rightarrow> resource list \<Rightarrow> 'w \<Rightarrow> (unit outcome \<times> resource list) \<times> 'w" where
  "open_each ops [] opened w = ((Inr (), opened), w)"
| "open_each ops (r # rs) opened w =
     (case ro_open ops r w of
        (Inl x, w1) \<Rightarrow> ((Inl x, opened @ [r]), w1)
      | (Inr _, w1) \<Rightarrow> open_each ops rs (opened @ [r]) w1)"

fun close_each :: "'w resource_ops \<Rightarrow> resource list \<Rightarrow> 'w \<Rightarrow> unit outcome list \<times> 'w" where
  "close_each ops [] w = ([], w)"
| "close_each ops (r # rs) w =
     (let (x, w1) = ro_close ops r w; (xs, w2) = close_each ops rs w1 in (x # xs, w2))"

definition RESOURCE_ORDER :: "resource list" where
  "RESOURCE_ORDER = [AuditRouter, ErpClient, ProviderRuntime]"

definition runtime_startup ::
  "'w resource_ops \<Rightarrow> lifecycle \<Rightarrow> 'w \<Rightarrow> (unit outcome \<times> lifecycle) \<times> 'w" where
  "runtime_startup ops lc w =
     (if lc_state lc \<noteq> CREATED then ((Inl Failed, lc), w)
      else case open_each ops RESOURCE_ORDER [] w of
        ((Inr _, _), w1) \<Rightarrow> ((Inr (), lc\<lparr>lc_state := READY\<rparr>), w1)
      | ((Inl x, opened), w1) \<Rightarrow>
          ((Inl x, lc\<lparr>lc_rolled_back := True, lc_state := RUNTIME_FAILED\<rparr>), snd (close_each ops (rev
              opened) w1)))"

definition close_result :: "unit outcome list \<Rightarrow> unit outcome" where
  "close_result xs = (if Inl Cancelled \<in> set xs then Inl Cancelled
     else if Inl Failed \<in> set xs then Inl Failed else Inr ())"

definition runtime_shutdown ::
  "'w resource_ops \<Rightarrow> lifecycle \<Rightarrow> 'w \<Rightarrow> (unit outcome \<times> lifecycle) \<times> 'w" where
  "runtime_shutdown ops lc w =
     (if lc_shutdown_attempted lc \<or> lc_state lc = CLOSED then ((Inl Failed, lc), w)
      else
       (let lc1 = lc\<lparr>lc_shutdown_attempted := True\<rparr> in
        if lc_state lc = CREATED \<or> lc_rolled_back lc then ((Inr (), lc1\<lparr>lc_state := CLOSED\<rparr>), w)
        else
         (let (xs, w1) = close_each ops [ProviderRuntime, ErpClient, AuditRouter] w; res = close_result
             xs in
          ((res, lc1\<lparr>lc_state := (if res = Inr () then CLOSED else RUNTIME_FAILED)\<rparr>), w1))))"

text \<open>The asyncio lock serialises the calls: any sequence of startups and shutdowns.\<close>

datatype resource_call = OpenCall resource | CloseCall resource

definition log_resources :: "'w resource_ops \<Rightarrow> ('w \<times> resource_call list) resource_ops" where
  "log_resources ops = \<lparr>ro_open = traced OpenCall (ro_open ops), ro_close = traced CloseCall (ro_close
      ops)\<rparr>"

inductive lifecycle_run ::
  "'w resource_ops \<Rightarrow> 'w \<Rightarrow> lifecycle \<Rightarrow> 'w \<times> resource_call list \<Rightarrow> bool" for ops w0 where
  new: "lifecycle_run ops w0 new_lifecycle (w0, [])"
| startup: "lifecycle_run ops w0 lc s \<Longrightarrow> runtime_startup (log_resources ops) lc s = ((res, lc'), s')
    \<Longrightarrow> lifecycle_run ops w0 lc' s'"
| shutdown: "lifecycle_run ops w0 lc s \<Longrightarrow> runtime_shutdown (log_resources ops) lc s = ((res, lc'), s')
    \<Longrightarrow> lifecycle_run ops w0 lc' s'"

text \<open>The calls made so far: a prefix of the resources was opened in order, and when they were
  closed at all, exactly those were, in the reverse order.\<close>

definition lifecycle_inv :: "lifecycle \<Rightarrow> resource_call list \<Rightarrow> bool" where
  "lifecycle_inv lc calls \<longleftrightarrow> (\<exists>k closed.
     calls = map OpenCall (take k RESOURCE_ORDER) @ (if closed then map CloseCall (rev (take k
         RESOURCE_ORDER)) else [])
   \<and> (case lc_state lc of
        CREATED \<Rightarrow> calls = [] \<and> \<not> lc_rolled_back lc \<and> \<not> lc_shutdown_attempted lc
      | READY \<Rightarrow> 3 \<le> k \<and> \<not> closed \<and> \<not> lc_rolled_back lc \<and> \<not> lc_shutdown_attempted lc
      | CLOSED \<Rightarrow> (calls = [] \<or> closed) \<and> lc_shutdown_attempted lc
      | RUNTIME_FAILED \<Rightarrow> closed \<and> (lc_rolled_back lc \<or> lc_shutdown_attempted lc)
      | _ \<Rightarrow> False))"

lemma open_each_calls:
  "open_each (log_resources ops) rs opened (w, calls) = ((res, opened'), (w', calls')) \<Longrightarrow>
     \<exists>k. opened' = opened @ take k rs \<and> calls' = calls @ map OpenCall (take k rs)
       \<and> (res = Inr () \<longrightarrow> take k rs = rs)"
proof (induction rs arbitrary: opened w calls)
  case (Cons r rs)
  obtain x w1 calls1 where o: "ro_open (log_resources ops) r (w, calls) = (x, (w1, calls1))"
    by (metis prod.exhaust)
  have c1: "calls1 = calls @ [OpenCall r]" using o by (auto simp: log_resources_def dest: traced_eqD)
  show ?case
  proof (cases x)
    case (Inl e)
    then show ?thesis using Cons.prems o c1 by (intro exI[of _ 1]) auto
  next
    case (Inr u)
    then obtain k where "opened' = (opened @ [r]) @ take k rs" "calls' = calls1 @ map OpenCall (take k
        rs)"
      "res = Inr () \<longrightarrow> take k rs = rs"
      using Cons.IH Cons.prems o by fastforce
    then show ?thesis using c1 by (intro exI[of _ "Suc k"]) simp
  qed
qed simp

lemma close_each_calls:
  "close_each (log_resources ops) rs (w, calls) = (xs, (w', calls')) \<Longrightarrow> calls' = calls @ map CloseCall
      rs"
proof (induction rs arbitrary: w calls xs)
  case (Cons r rs)
  obtain x w1 calls1 where c: "ro_close (log_resources ops) r (w, calls) = (x, (w1, calls1))"
    by (metis prod.exhaust)
  obtain xs1 where rest: "close_each (log_resources ops) rs (w1, calls1) = (xs1, (w', calls'))"
    using Cons.prems c by (auto simp: Let_def split: prod.splits)
  have "calls1 = calls @ [CloseCall r]" using c by (auto simp: log_resources_def dest: traced_eqD)
  then show ?case using Cons.IH[OF rest] by simp
qed simp

lemma lifecycle_inv_run: "lifecycle_run ops w0 lc s \<Longrightarrow> lifecycle_inv lc (snd s)"
proof (induction rule: lifecycle_run.induct)
  case new
  then show ?case by (auto simp: lifecycle_inv_def new_lifecycle_def intro!: exI[of _ 0])
next
  case (startup lc s res lc' s')
  obtain w calls where s: "s = (w, calls)" by (cases s)
  show ?case
  proof (cases "lc_state lc = CREATED")
    case False
    then show ?thesis using startup by (simp add: runtime_startup_def)
  next
    case True
    then have init: "calls = []" "\<not> lc_rolled_back lc" "\<not> lc_shutdown_attempted lc"
      using startup.IH s by (auto simp: lifecycle_inv_def)
    obtain x opened w1 calls1 where o: "open_each (log_resources ops) RESOURCE_ORDER [] (w, calls)
        = ((x, opened), (w1, calls1))" by (metis prod.exhaust)
    obtain k where k: "opened = take k RESOURCE_ORDER" "calls1 = map OpenCall (take k RESOURCE_ORDER)"
        "x = Inr () \<longrightarrow> take k RESOURCE_ORDER = RESOURCE_ORDER"
      using open_each_calls[OF o] init by auto
    show ?thesis
    proof (cases x)
      case (Inr u)
      then have "take 3 RESOURCE_ORDER = take k RESOURCE_ORDER" using k(3) by (simp add:
          RESOURCE_ORDER_def)
      then show ?thesis using startup.hyps(2) True o Inr k init s
        by (auto simp: runtime_startup_def lifecycle_inv_def intro!: exI[of _ 3])
    next
      case (Inl e)
      obtain xs w2 calls2 where c: "close_each (log_resources ops) (rev opened) (w1, calls1) = (xs,
          (w2, calls2))"
        by (metis prod.exhaust)
      have "s' = (w2, calls2)" "lc' = lc\<lparr>lc_rolled_back := True, lc_state := RUNTIME_FAILED\<rparr>"
        using startup.hyps(2) True o Inl c s by (simp_all add: runtime_startup_def)
      then show ?thesis using close_each_calls[OF c] k
        by (auto simp: lifecycle_inv_def intro!: exI[of _ k])
    qed
  qed
next
  case (shutdown lc s res lc' s')
  obtain w calls where s: "s = (w, calls)" by (cases s)
  show ?case
  proof (cases "lc_shutdown_attempted lc \<or> lc_state lc = CLOSED")
    case True
    then show ?thesis using shutdown by (auto simp: runtime_shutdown_def)
  next
    case first: False
    obtain k closed where inv: "calls = map OpenCall (take k RESOURCE_ORDER)
        @ (if closed then map CloseCall (rev (take k RESOURCE_ORDER)) else [])"
      "case lc_state lc of CREATED \<Rightarrow> calls = [] \<and> \<not> lc_rolled_back lc \<and> \<not> lc_shutdown_attempted lc
        | READY \<Rightarrow> 3 \<le> k \<and> \<not> closed \<and> \<not> lc_rolled_back lc \<and> \<not> lc_shutdown_attempted lc
        | CLOSED \<Rightarrow> (calls = [] \<or> closed) \<and> lc_shutdown_attempted lc
        | RUNTIME_FAILED \<Rightarrow> closed \<and> (lc_rolled_back lc \<or> lc_shutdown_attempted lc)
        | _ \<Rightarrow> False"
      using shutdown.IH unfolding s snd_conv lifecycle_inv_def by blast
    show ?thesis
    proof (cases "lc_state lc = CREATED \<or> lc_rolled_back lc")
      case True
      then have "s' = s" "lc' = lc\<lparr>lc_shutdown_attempted := True, lc_state := CLOSED\<rparr>"
        using shutdown.hyps(2) first s by (auto simp: runtime_shutdown_def Let_def)
      moreover have "calls = [] \<or> closed" using inv(2) True by (auto split: runtime_state.splits)
      ultimately show ?thesis using inv(1) s unfolding lifecycle_inv_def
        by (intro exI[of _ k] exI[of _ closed]) simp
    next
      case False
      then have ready: "lc_state lc = READY" using inv(2) first by (cases "lc_state lc") auto
      obtain xs w1 calls1 where c: "close_each (log_resources ops) [ProviderRuntime, ErpClient,
          AuditRouter] (w, calls)
          = (xs, (w1, calls1))" by (metis prod.exhaust)
      have calls1: "calls1 = map OpenCall RESOURCE_ORDER @ map CloseCall (rev RESOURCE_ORDER)"
        using close_each_calls[OF c] inv ready by (simp add: RESOURCE_ORDER_def)
      have "s' = (w1, calls1)" "lc_shutdown_attempted lc'" "lc_state lc' \<in> {CLOSED, RUNTIME_FAILED}"
        using shutdown.hyps(2) False first c s
        by (auto simp: runtime_shutdown_def Let_def simp del: close_each.simps split: if_splits)
      then show ?thesis using calls1 unfolding lifecycle_inv_def
        by (intro exI[of _ 3] exI[of _ True]) (auto simp: RESOURCE_ORDER_def)
    qed
  qed
qed

section \<open>Composition\<close>

text \<open>
  \<open>compose_production_runtime\<close>. The objects the function builds from the configuration before the
  lease is claimed (the audit router and sinks, the authenticator, the ERP client with its resolver
  and snapshot verifier) and the HTTP application it builds afterwards are parameters: each is a
  value or a construction error.
\<close>

record ('o, 'w) runtime_externals =
  rx_tool_sink :: "(tool_audit_event, 'w, unit outcome) op"
  rx_agent_sink :: "(agent_audit_event, 'w, unit outcome) op"
  rx_app_sink :: "(app_audit_event, 'w, unit outcome) op"
  rx_resolve :: "(request_reference, 'w, resolution_data outcome) op"
  rx_verify :: "(trusted_context, 'w, snapshot_decision outcome) op"
  rx_complete_turn :: "('o turn_request, 'w, 'o model_response outcome) op"
  rx_clock :: "'w \<Rightarrow> py_datetime outcome \<times> 'w"

record ('i, 'raw, 'o, 'w, 'h) runtime_bundle =
  rb_registry :: registry
  rb_handlers :: "('i, 'raw, 'o tool_output, 'w) read_handler list"
  rb_catalog :: route_catalog
  rb_limits :: agent_limits
  rb_lifetime :: int
  rb_externals :: "('o, 'w) runtime_externals checked"
  rb_http_app :: "'w chat_application \<Rightarrow> 'h checked"

definition expected_versions :: "registry \<Rightarrow> pystr \<rightharpoonup> pystr" where
  "expected_versions r = map_of (rev (map (\<lambda>t. (tool_name t, tool_version t)) (registry_tools r)))"

text \<open>The part before the lease is claimed.\<close>

definition prepare_runtime ::
  "('i, 'raw, 'o, 'w, 'h) runtime_bundle
     \<Rightarrow> (('o, 'w) runtime_externals \<times> ('i, 'raw, 'o tool_output, 'w) gateway) checked" where
  "prepare_runtime b =
     raise_if (rb_lifetime b \<le> 0) ''maximum intent lifetime must be positive''
     (raise_if (expected_versions (rb_registry b) \<noteq> installed_versions (rb_handlers b))
        ''installed registry and handlers must match exactly''
     (raise_if (list_ex (\<lambda>t. operation t \<noteq> ReadOp) (registry_tools (rb_registry b)))
        ''command tools are forbidden''
     (bindE (rb_externals b) (\<lambda>x.
      bindE (make_gateway (rb_registry b) (rb_handlers b) (rx_tool_sink x)) (\<lambda>g.
      bindE (validate_startup (rb_catalog b) (rb_registry b) g) (\<lambda>_. Inr (x, g)))))))"

text \<open>The part while the lease is held.\<close>

definition assemble_runtime ::
  "'o agent_env \<Rightarrow> ('i, 'raw, 'o, 'w, 'h) runtime_bundle \<Rightarrow> ('o, 'w) runtime_externals
     \<Rightarrow> ('i, 'raw, 'o tool_output, 'w) gateway \<Rightarrow> ('w chat_application \<times> 'h) checked" where
  "assemble_runtime env b x g =
     bindE (make_orchestrator (rb_registry b) (gateway_methods g) (rx_complete_turn x) (rx_agent_sink x)
              (Some (rb_limits b))) (\<lambda>orch.
     bindE (compose_application env (rb_registry b) orch g (rx_resolve x) (rx_verify x) (rb_catalog b)
              (rx_app_sink x) (rx_clock x) (rb_lifetime b)) (\<lambda>app.
     bindE (rb_http_app b app) (\<lambda>h. Inr (app, h))))"

definition compose_production_runtime ::
  "'o agent_env \<Rightarrow> ('i, 'raw, 'o, 'w, 'h) runtime_bundle \<Rightarrow> lease \<Rightarrow> ('w chat_application \<times> 'h) checked
      \<times> lease"
where
  "compose_production_runtime env b l =
     (let failed = Inl ''production runtime composition failed'' in
      case prepare_runtime b of
        Inl _ \<Rightarrow> (failed, l)
      | Inr (x, g) \<Rightarrow>
         (case lease_claim l of
            (Inl _, l1) \<Rightarrow> (failed, l1)
          | (Inr token, l1) \<Rightarrow>
             (case assemble_runtime env b x g of
                Inl _ \<Rightarrow> (failed, snd (lease_release token l1))
              | Inr rt \<Rightarrow>
                 (case lease_commit token l1 of
                    (Inl _, l2) \<Rightarrow> (failed, snd (lease_release token l2))
                  | (Inr _, l2) \<Rightarrow> (Inr rt, l2)))))"

section \<open>Properties\<close>

text \<open>C39: The lease has at most one owner. Over any sequence of claims, releases and commits by any
  clients, at most one claimed token is not released, at most one commit succeeds, and once one has,
  every later call is refused and the owner stays.\<close>

theorem lease_exclusive:
  assumes "lease_run es l"
  shows "card (held es) \<le> 1 \<and> length (commits es) \<le> 1 \<and> set (commits es) \<subseteq> held es
    \<and> (commits es \<noteq> [] \<longrightarrow> (\<forall>e l'. lease_step l e l' \<longrightarrow> e = Refused \<and> ls_token l' = ls_token l))"
proof -
  note inv = lease_inv_run[OF assms, unfolded lease_inv_def]
  have "commits es \<noteq> [] \<Longrightarrow> ls_committed l" using inv by (simp split: if_splits)
  then have "commits es \<noteq> [] \<longrightarrow> (\<forall>e l'. lease_step l e l' \<longrightarrow> e = Refused \<and> ls_token l' = ls_token l)"
    using committed_lease_refuses by blast
  moreover have "card (held es) \<le> 1" using inv by (cases "ls_token l") simp_all
  moreover have "length (commits es) \<le> 1" "set (commits es) \<subseteq> held es" using inv by auto
  ultimately show ?thesis by blast
qed

text \<open>C40: No resource leaks. Over any sequence of startups and shutdowns, whatever the resources do,
  the resources were opened in order and each at most once; when they were closed, exactly the opened
  ones were, each once and in the reverse order; and in the states closed and failed everything that
  was opened has been closed.\<close>

theorem lifecycle_releases_resources:
  assumes "lifecycle_run ops w0 lc (w, calls)"
  shows "\<exists>k closed. calls = map OpenCall (take k RESOURCE_ORDER)
      @ (if closed then map CloseCall (rev (take k RESOURCE_ORDER)) else [])
    \<and> (lc_state lc \<in> {CLOSED, RUNTIME_FAILED} \<longrightarrow> calls = [] \<or> closed)
    \<and> (lc_state lc = READY \<longrightarrow> take k RESOURCE_ORDER = RESOURCE_ORDER \<and> \<not> closed)
    \<and> lc_state lc \<in> {CREATED, READY, CLOSED, RUNTIME_FAILED}"
proof -
  obtain k closed where "calls = map OpenCall (take k RESOURCE_ORDER)
        @ (if closed then map CloseCall (rev (take k RESOURCE_ORDER)) else [])"
      "case lc_state lc of CREATED \<Rightarrow> calls = [] \<and> \<not> lc_rolled_back lc \<and> \<not> lc_shutdown_attempted lc
        | READY \<Rightarrow> 3 \<le> k \<and> \<not> closed \<and> \<not> lc_rolled_back lc \<and> \<not> lc_shutdown_attempted lc
        | CLOSED \<Rightarrow> (calls = [] \<or> closed) \<and> lc_shutdown_attempted lc
        | RUNTIME_FAILED \<Rightarrow> closed \<and> (lc_rolled_back lc \<or> lc_shutdown_attempted lc)
        | _ \<Rightarrow> False"
    using lifecycle_inv_run[OF assms] unfolding lifecycle_inv_def snd_conv by blast
  then show ?thesis
    by (intro exI[of _ k] exI[of _ closed]) (auto simp: RESOURCE_ORDER_def split: runtime_state.splits)
qed

text \<open>A composition commits the lease exactly when it succeeds; when it fails, for whatever
  reason, the lease keeps the owner and the commitment it had.\<close>

theorem composition_lease:
  "(case compose_production_runtime env b l of
      (Inr _, l') \<Rightarrow> ls_token l = None \<and> \<not> ls_committed l \<and> ls_token l' \<noteq> None \<and> ls_committed l'
    | (Inl _, l') \<Rightarrow> ls_token l' = ls_token l \<and> ls_committed l' = ls_committed l)"
proof (cases "prepare_runtime b")
  case (Inl e)
  then show ?thesis by (simp add: compose_production_runtime_def Let_def)
next
  case (Inr p)
  obtain x g where p: "p = (x, g)" by (cases p)
  show ?thesis
  proof (cases "ls_token l \<noteq> None \<or> ls_committed l")
    case True
    then show ?thesis using Inr p
      by (auto simp: compose_production_runtime_def Let_def lease_claim_def)
  next
    case False
    then show ?thesis using Inr p
      by (auto simp: compose_production_runtime_def Let_def lease_claim_def lease_release_def
          lease_commit_def split: sum.split)
  qed
qed

text \<open>A composed runtime installs exactly the registry: every registered tool is a read tool with
  a handler of its name and version, and every handler belongs to a registered tool.\<close>

theorem composed_runtime_complete:
  assumes "make_registry ms = Inr (rb_registry b)"
    and "compose_production_runtime env b l = (Inr rt, l')"
  shows "(\<forall>t \<in> set (registry_tools (rb_registry b)). operation t = ReadOp
      \<and> (\<exists>h \<in> set (rb_handlers b). h_tool_name h = tool_name t \<and> h_version h = tool_version t))
    \<and> (\<forall>h \<in> set (rb_handlers b). \<exists>t \<in> set (registry_tools (rb_registry b)).
          tool_name t = h_tool_name h \<and> tool_version t = h_version h)"
proof -
  obtain x g where p: "prepare_runtime b = Inr (x, g)"
    using assms(2) by (cases "prepare_runtime b") (auto simp: compose_production_runtime_def Let_def)
  then have eq: "expected_versions (rb_registry b) = installed_versions (rb_handlers b)"
    and ro: "\<not> list_ex (\<lambda>t. operation t \<noteq> ReadOp) (registry_tools (rb_registry b))"
    and g: "make_gateway (rb_registry b) (rb_handlers b) (rx_tool_sink x) = Inr g"
    unfolding prepare_runtime_def by (auto elim!: raise_if_InrE bindE_InrE)
  have wf: "wf_registry (rb_registry b)" by (rule make_registry_wf[OF assms(1)])
  have dist: "distinct (map fst (rev (map (\<lambda>t. (tool_name t, tool_version t)) (registry_tools
      (rb_registry b)))))"
    using wf by (simp add: wf_registry_def comp_def rev_map[symmetric])
  have "\<exists>h \<in> set (rb_handlers b). h_tool_name h = tool_name t \<and> h_version h = tool_version t"
    if "t \<in> set (registry_tools (rb_registry b))" for t
  proof -
    have "expected_versions (rb_registry b) (tool_name t) = Some (tool_version t)"
      unfolding expected_versions_def map_of_eq_Some_iff[OF dist] using that by auto
    then show ?thesis using installed_versions_Some eq by metis
  qed
  moreover have "\<exists>t \<in> set (registry_tools (rb_registry b)). tool_name t = h_tool_name h \<and> tool_version
      t = h_version h"
    if "h \<in> set (rb_handlers b)" for h
  proof -
    have "h \<in> set (gw_handlers g)" using that make_gateway_wf(2)[OF g wf] by (metis set_mset_mset)
    then have "handler_conforms (rb_registry b) h"
      using make_gateway_wf(1,3)[OF g wf] by (auto simp: wf_gateway_def)
    then obtain d where "descriptor_dict (rb_registry b) (h_tool_name h) = Some d" "tool_version d =
        h_version h"
      by (auto simp: handler_conforms_def)
    then show ?thesis using descriptor_dict_iff[OF wf] by blast
  qed
  ultimately show ?thesis using ro unfolding list_ex_iff by blast
qed

definition sample_output_handler :: "(unit, nat, unit tool_output, nat) read_handler" where
  "sample_output_handler = \<lparr>h_tool_name = lit ''count_roles'', h_version = lit ''1.0.0'',
     input_config = \<lparr>strict = True, frozen = True, extra_forbid = True\<rparr>,
     output_config = \<lparr>strict = True, frozen = True, extra_forbid = True\<rparr>,
     validate_input = (\<lambda>args. if args = [] then Some () else None), validate_output = (\<lambda>_. Some
         (OtherOutput ())),
     h_execute = (\<lambda>(c, _) w. (Inr (length (roles c)), w + 1))\<rparr>"

definition sample_bundle :: "(unit, nat, unit, nat, unit) runtime_bundle" where
  "sample_bundle = \<lparr>rb_registry = sample_registry, rb_handlers = [sample_output_handler],
     rb_catalog = sample_exact_catalog, rb_limits = default_limits, rb_lifetime = 300,
     rb_externals = Inr \<lparr>rx_tool_sink = (\<lambda>_ w. (Inr (), w)), rx_agent_sink = (\<lambda>_ w. (Inr (), w)),
       rx_app_sink = (\<lambda>_ w. (Inr (), w)), rx_resolve = (\<lambda>_ w. (Inl Failed, w)),
       rx_verify = (\<lambda>_ w. (Inl Failed, w)), rx_complete_turn = sample_model,
       rx_clock = (\<lambda>w. (Inr (Aware 0), w))\<rparr>,
     rb_http_app = (\<lambda>_. Inr ())\<rparr>"

lemma sample_bundle_fields [simp]:
  "rb_registry sample_bundle = sample_registry" "rb_handlers sample_bundle = [sample_output_handler]"
  "h_tool_name sample_output_handler = lit ''count_roles''" "h_version sample_output_handler = lit
      ''1.0.0''"
  "strict_frozen_model (input_config sample_output_handler)" "extra_forbid (input_config
      sample_output_handler)"
  "strict_frozen_model (output_config sample_output_handler)"
  by (simp_all add: sample_bundle_def sample_output_handler_def strict_frozen_model_def)

lemma sample_composition: "\<exists>rt l'. compose_production_runtime sample_env sample_bundle new_lease = (Inr
    rt, l')"
proof -
  obtain x where x: "rb_externals sample_bundle = Inr x" by (simp add: sample_bundle_def)
  obtain g where g: "make_gateway sample_registry [sample_output_handler] (rx_tool_sink x) = Inr g"
    by (simp add: make_gateway_def sample_dict)
  note gw = make_gateway_wf(2,3)[OF g make_registry_wf[OF sample_registry]]
  have v: "installed_versions [sample_output_handler] = [lit ''count_roles'' \<mapsto> lit ''1.0.0'']"
    by (simp add: installed_versions_def)
  have "validate_startup sample_exact_catalog sample_registry g = Inr ()"
    using gw v by (simp add: validate_startup_def sample_exact_catalog_def exact_route_def
        tool_name_or_empty_def sample_dict)
  then have p: "prepare_runtime sample_bundle = Inr (x, g)" "validate_startup (rb_catalog
      sample_bundle) sample_registry g = Inr ()"
    using x g v by (simp_all add: prepare_runtime_def expected_versions_def sample_route_tools)
      (simp_all add: sample_bundle_def)
  then obtain rt where "assemble_runtime sample_env sample_bundle x g = Inr rt"
    by (simp add: assemble_runtime_def make_orchestrator_def gateway_methods_def gw
        compose_application_def make_application_def)
      (simp add: sample_bundle_def)
  then show ?thesis using p
    by (cases rt) (simp add: compose_production_runtime_def lease_claim_def lease_commit_def
        new_lease_def Let_def)
qed

theorem composed_runtime_complete_witness:
  "(\<exists>t \<in> set (registry_tools (rb_registry sample_bundle)). operation t = ReadOp) \<and>
   tool_name sample_tool = h_tool_name sample_output_handler"
proof -
  obtain rt l' where "compose_production_runtime sample_env sample_bundle new_lease = (Inr rt, l')"
    using sample_composition by blast
  then show ?thesis using composed_runtime_complete[of "[sample_manifest]" sample_bundle]
      sample_registry
    by (simp add: sample_route_tools)
qed

theorem lease_exclusive_witness:
  "card (held [Claimed 0, Committed 0]) \<le> 1 \<and> length (commits [Claimed 0, Committed 0]) \<le> 1
    \<and> set (commits [Claimed 0, Committed 0]) \<subseteq> held [Claimed 0, Committed 0]"
proof -
  let ?l = "\<lparr>ls_token = Some 0, ls_committed = False, ls_fresh = 1\<rparr>"
  have "lease_run ([] @ [Claimed 0]) ?l"
    by (rule lease_run.step[OF lease_run.fresh lease_step.claimed]) (simp add: lease_claim_def
        new_lease_def)
  then have "lease_run (([] @ [Claimed 0]) @ [Committed 0]) (?l\<lparr>ls_committed := True\<rparr>)"
    by (rule lease_run.step[OF _ lease_step.committed]) (simp add: lease_commit_def)
  then show ?thesis using lease_exclusive by fastforce
qed

definition sample_resources :: "nat resource_ops" where
  "sample_resources = \<lparr>ro_open = (\<lambda>r w. (if r = ProviderRuntime then Inl Failed else Inr (), w + 1)),
     ro_close = (\<lambda>_ w. (Inl Failed, w + 1))\<rparr>"

theorem lifecycle_releases_resources_witness:
  "\<exists>k closed. [OpenCall AuditRouter, OpenCall ErpClient, OpenCall ProviderRuntime,
      CloseCall ProviderRuntime, CloseCall ErpClient, CloseCall AuditRouter]
    = map OpenCall (take k RESOURCE_ORDER) @ (if closed then map CloseCall (rev (take k
        RESOURCE_ORDER)) else [])
    \<and> (RUNTIME_FAILED \<in> {CLOSED, RUNTIME_FAILED} \<longrightarrow> closed)"
proof -
  have "runtime_startup (log_resources sample_resources) new_lifecycle (0, [])
    = ((Inl Failed, new_lifecycle\<lparr>lc_rolled_back := True, lc_state := RUNTIME_FAILED\<rparr>),
       (6, [OpenCall AuditRouter, OpenCall ErpClient, OpenCall ProviderRuntime,
      CloseCall ProviderRuntime, CloseCall ErpClient, CloseCall AuditRouter]))"
    by (simp add: runtime_startup_def new_lifecycle_def RESOURCE_ORDER_def log_resources_def
        sample_resources_def traced_def)
  from lifecycle_run.startup[OF lifecycle_run.new this]
  show ?thesis using lifecycle_releases_resources by fastforce
qed

end
