(* ===== verification/Leave.thy ===== *)
theory Leave
  imports HrCore
begin

text \<open>
  The Leave capability (\<open>src/erp_ai/capabilities/leave/\<close>): the provider records with their
  validators, and the three self-service handlers (balances, request list, request detail) with
  the ownership, scope, uniqueness, ordering and status-chain checks they make on what the ERP
  provider returned.
\<close>

section \<open>Enumerations\<close>

datatype leave_request_status = DRAFT | PENDING | APPROVED | REJECTED | RETURNED | CANCELLED

datatype half_day_period = FIRST_HALF | SECOND_HALF

text \<open>Statuses are ordered by their \<open>value\<close>, as \<open>sorted(..., key=lambda s: s.value)\<close> does.\<close>

fun status_value :: "leave_request_status \<Rightarrow> pystr" where
  "status_value DRAFT = lit ''draft''"
| "status_value PENDING = lit ''pending''"
| "status_value APPROVED = lit ''approved''"
| "status_value REJECTED = lit ''rejected''"
| "status_value RETURNED = lit ''returned''"
| "status_value CANCELLED = lit ''cancelled''"

lemma status_value_inject [simp]: "status_value s = status_value t \<longleftrightarrow> s = t"
  by (cases s; cases t; simp)

instantiation leave_request_status :: linorder
begin

definition less_eq_leave_request_status :: "leave_request_status \<Rightarrow> leave_request_status \<Rightarrow> bool" where
  "less_eq_leave_request_status s t \<longleftrightarrow> status_value s \<le> status_value t"

definition less_leave_request_status :: "leave_request_status \<Rightarrow> leave_request_status \<Rightarrow> bool" where
  "less_leave_request_status s t \<longleftrightarrow> status_value s < status_value t"

instance
proof
  fix s t u :: leave_request_status
  show "s < t \<longleftrightarrow> s \<le> t \<and> \<not> t \<le> s"
    unfolding less_eq_leave_request_status_def less_leave_request_status_def
    by (rule less_le_not_le)
  show "s \<le> s" by (simp add: less_eq_leave_request_status_def)
  show "s \<le> t \<Longrightarrow> t \<le> u \<Longrightarrow> s \<le> u" by (auto simp: less_eq_leave_request_status_def)
  show "s \<le> t \<Longrightarrow> t \<le> s \<Longrightarrow> s = t" by (auto simp: less_eq_leave_request_status_def)
  show "s \<le> t \<or> t \<le> s" by (auto simp: less_eq_leave_request_status_def)
qed

end

section \<open>Fields\<close>

text \<open>Day counts are decimals with two places, held as hundredths.\<close>

definition nonnegative_days :: "int \<Rightarrow> int checked" where
  "nonnegative_days d = (if 0 \<le> d \<and> d < 10 ^ 7 then Inr d else Inl ''decimal_range'')"

definition available_days_ok :: "int \<Rightarrow> int checked" where
  "available_days_ok d = (if \<bar>d\<bar> < 10 ^ 7 then Inr d else Inl ''decimal_range'')"

definition working_days_ok :: "int \<Rightarrow> int checked" where
  "working_days_ok d = (if 0 < d \<and> d < 10 ^ 5 then Inr d else Inl ''decimal_range'')"

definition fiscal_year_ok :: "int \<Rightarrow> int checked" where
  "fiscal_year_ok y = (if 1000 \<le> y \<and> y \<le> 9999 then Inr y else Inl ''year_range'')"

definition calculation_version_ok :: "pystr \<Rightarrow> pystr checked" where
  "calculation_version_ok s = (let t = py_strip s in
     if 5 \<le> length t \<and> length t \<le> 64 \<and> is_semver t then Inr t else Inl ''string_pattern_mismatch'')"

definition reason_code_ok :: "pystr \<Rightarrow> pystr checked" where
  "reason_code_ok s = (let t = py_strip s in
     if 1 \<le> length t \<and> length t \<le> 50 \<and> is_segment t then Inr t else Inl ''string_pattern_mismatch'')"

text \<open>An opaque cursor is not stripped, but must not be blank.\<close>

definition opaque_cursor :: "pystr \<Rightarrow> pystr checked" where
  "opaque_cursor s = raise_if (py_strip s = []) ''cursor must not be blank''
     (if length s \<le> 512 then Inr s else Inl ''string_too_long'')"

section \<open>Inputs\<close>

record list_requests_input =
  lri_statuses :: "leave_request_status list"
  lri_start_from :: "int option"
  lri_start_to :: "int option"
  lri_limit :: nat
  lri_cursor :: "pystr option"

text \<open>Dates are ordinals (days), so \<open>(start_to - start_from).days\<close> is their difference.\<close>

definition validate_date_range :: "list_requests_input \<Rightarrow> list_requests_input checked" where
  "validate_date_range i =
     (case (lri_start_from i, lri_start_to i) of
        (Some a, Some b) \<Rightarrow>
          raise_if (a > b) ''start_from must not exceed start_to''
          (raise_if (b - a > 366) ''explicit date range must not exceed 366 days'' (Inr i))
      | _ \<Rightarrow> Inr i)"

definition validate_list_input :: "list_requests_input \<Rightarrow> list_requests_input checked" where
  "validate_list_input i =
     bindE (unique_sorted ''duplicate statuses are not allowed'' (lri_statuses i)) (\<lambda>ss.
     raise_if (lri_limit i < 1 \<or> lri_limit i > 50) ''limit_range''
       (bindE (optional_checked opaque_cursor (lri_cursor i)) (\<lambda>cur.
          validate_date_range (i\<lparr>lri_statuses := ss, lri_cursor := cur\<rparr>))))"

section \<open>Records\<close>

record leave_balance_item =
  lb_leave_type_code :: pystr
  lb_leave_type_name :: pystr
  lb_leave_type_name_local :: pystr
  lb_fiscal_year :: int
  lb_opening_days :: int
  lb_accrued_days :: int
  lb_used_days :: int
  lb_pending_days :: int
  lb_available_days :: int
  lb_calculated_at :: py_datetime
  lb_calculation_version :: pystr

record leave_balance_record = leave_balance_item +
  lb_employee_id :: pystr
  lb_legal_entity_id :: pystr
  lb_leave_type_id :: pystr
  lb_source_watermark :: pystr

definition validate_balance_item ::
  "'a leave_balance_item_scheme \<Rightarrow> 'a leave_balance_item_scheme checked" where
  "validate_balance_item r =
     bindE (stripped_text 1 20 (lb_leave_type_code r)) (\<lambda>code.
     bindE (stripped_text 1 100 (lb_leave_type_name r)) (\<lambda>name.
     bindE (stripped_text 1 100 (lb_leave_type_name_local r)) (\<lambda>loc.
     bindE (fiscal_year_ok (lb_fiscal_year r)) (\<lambda>_.
     bindE (nonnegative_days (lb_opening_days r)) (\<lambda>_.
     bindE (nonnegative_days (lb_accrued_days r)) (\<lambda>_.
     bindE (nonnegative_days (lb_used_days r)) (\<lambda>_.
     bindE (nonnegative_days (lb_pending_days r)) (\<lambda>_.
     bindE (available_days_ok (lb_available_days r)) (\<lambda>_.
     bindE (require_aware ''calculated_at must be timezone-aware'' (lb_calculated_at r)) (\<lambda>_.
     bindE (calculation_version_ok (lb_calculation_version r)) (\<lambda>ver.
       Inr (r\<lparr>lb_leave_type_code := code, lb_leave_type_name := name,
              lb_leave_type_name_local := loc, lb_calculation_version := ver\<rparr>))))))))))))"

definition validate_balance_record :: "leave_balance_record \<Rightarrow> leave_balance_record checked" where
  "validate_balance_record r =
     bindE (validate_identifier (lb_employee_id r)) (\<lambda>emp.
     bindE (validate_identifier (lb_legal_entity_id r)) (\<lambda>le.
     bindE (validate_identifier (lb_leave_type_id r)) (\<lambda>ty.
     bindE (stripped_text 1 128 (lb_source_watermark r)) (\<lambda>wm.
       validate_balance_item (r\<lparr>lb_employee_id := emp, lb_legal_entity_id := le,
         lb_leave_type_id := ty, lb_source_watermark := wm\<rparr>)))))"

record leave_request_core =
  lr_request_id :: uuid
  lr_leave_type_code :: pystr
  lr_leave_type_name :: pystr
  lr_leave_type_name_local :: pystr
  lr_start_date :: int
  lr_end_date :: int
  lr_working_days :: int
  lr_is_half_day :: bool
  lr_half_day_period :: "half_day_period option"
  lr_status :: leave_request_status
  lr_submitted_at :: instant
  lr_updated_at :: "instant option"

record leave_request_summary = leave_request_core +
  lr_calculation_version :: pystr

record leave_request_record = leave_request_summary +
  lr_employee_id :: uuid
  lr_legal_entity_id :: uuid
  lr_leave_type_id :: uuid

record leave_request_page =
  page_items :: "leave_request_record list"
  page_next_cursor :: "pystr option"

record status_transition =
  tr_from_status :: "leave_request_status option"
  tr_to_status :: leave_request_status
  tr_changed_at :: instant
  tr_reason_code :: "pystr option"

record history_record = status_transition +
  tr_history_id :: uuid
  tr_entity_type :: pystr
  tr_entity_id :: uuid

record leave_request_detail = leave_request_record +
  ld_customer_environment_id :: pystr
  ld_status_history :: "history_record list"

definition LEAVE_REQUEST_ENTITY_TYPE :: pystr where
  "LEAVE_REQUEST_ENTITY_TYPE = lit ''leave_request''"

definition validate_dates_and_half_day ::
  "'a leave_request_core_scheme \<Rightarrow> 'a leave_request_core_scheme checked" where
  "validate_dates_and_half_day r =
     raise_if (lr_end_date r < lr_start_date r) ''end_date must not precede start_date''
       (if lr_is_half_day r then
          raise_if (lr_start_date r \<noteq> lr_end_date r) ''half-day request must cover one date''
          (raise_if (lr_half_day_period r = None) ''half_day_period is required for a half-day request''
          (raise_if (lr_working_days r \<noteq> 50) ''half-day request must have 0.50 working days''
             (Inr r)))
        else raise_if (lr_half_day_period r \<noteq> None)
               ''half_day_period must be absent for a full-day request'' (Inr r))"

definition validate_request_record ::
  "'a leave_request_summary_scheme \<Rightarrow> 'a leave_request_summary_scheme checked" where
  "validate_request_record r =
     bindE (stripped_text 1 20 (lr_leave_type_code r)) (\<lambda>code.
     bindE (stripped_text 1 100 (lr_leave_type_name r)) (\<lambda>name.
     bindE (stripped_text 1 100 (lr_leave_type_name_local r)) (\<lambda>loc.
     bindE (working_days_ok (lr_working_days r)) (\<lambda>_.
     bindE (calculation_version_ok (lr_calculation_version r)) (\<lambda>ver.
       validate_dates_and_half_day (r\<lparr>lr_leave_type_code := code, lr_leave_type_name := name,
         lr_leave_type_name_local := loc, lr_calculation_version := ver\<rparr>))))))"

definition validate_history_record :: "history_record \<Rightarrow> history_record checked" where
  "validate_history_record t =
     bindE (let s = py_strip (tr_entity_type t) in
            if s \<noteq> [] then Inr s else Inl ''string_too_short'') (\<lambda>ty.
     bindE (optional_checked reason_code_ok (tr_reason_code t)) (\<lambda>reason.
       Inr (t\<lparr>tr_entity_type := ty, tr_reason_code := reason\<rparr>)))"

section \<open>Balances\<close>

fun check_balances ::
  "trusted_context \<Rightarrow> pystr \<Rightarrow> (pystr \<times> pystr \<times> int) list \<Rightarrow> leave_balance_record list \<Rightarrow> unit checked"
where
  "check_balances c emp seen [] = Inr ()"
| "check_balances c emp seen (r # rs) =
     raise_if (lb_employee_id r \<noteq> emp) ''balance employee ownership mismatch''
     (raise_if (lb_legal_entity_id r \<notin> set (legal_entity_ids c))
        ''balance legal entity outside authorized scope''
     (let key = (lb_legal_entity_id r, lb_leave_type_id r, lb_fiscal_year r) in
      raise_if (key \<in> set seen) ''duplicate balance record''
        (check_balances c emp (key # seen) rs)))"

definition balance_projection :: "leave_balance_record \<Rightarrow> leave_balance_item" where
  "balance_projection r = \<lparr>lb_leave_type_code = lb_leave_type_code r,
     lb_leave_type_name = lb_leave_type_name r, lb_leave_type_name_local = lb_leave_type_name_local r,
     lb_fiscal_year = lb_fiscal_year r, lb_opening_days = lb_opening_days r,
     lb_accrued_days = lb_accrued_days r, lb_used_days = lb_used_days r,
     lb_pending_days = lb_pending_days r, lb_available_days = lb_available_days r,
     lb_calculated_at = lb_calculated_at r, lb_calculation_version = lb_calculation_version r\<rparr>"

definition balance_record_key :: "leave_balance_record \<Rightarrow> int \<times> pystr \<times> pystr \<times> pystr" where
  "balance_record_key r = (lb_fiscal_year r, lb_leave_type_code r, lb_legal_entity_id r,
      lb_leave_type_id r)"

definition balance_item_key :: "leave_balance_item \<Rightarrow> int \<times> pystr \<times> pystr \<times> pystr" where
  "balance_item_key r = (lb_fiscal_year r, lb_leave_type_code r, lb_leave_type_name r,
     lb_leave_type_name_local r)"

text \<open>\<open>GetMyLeaveBalancesOutput.order_balances\<close> sorts the projected items once more.\<close>

definition order_balances :: "leave_balance_item list \<Rightarrow> leave_balance_item list" where
  "order_balances items = sort_key balance_item_key items"

definition balances_execute ::
  "(trusted_context \<times> (unit, leave_balance_record list, 'w) read_provider, 'w,
    leave_balance_item list outcome) op" where
  "balances_execute q w = (let (c, p) = q in
     case employee_id c of
       None \<Rightarrow> (Inl Failed, w)
     | Some emp \<Rightarrow>
        (case call_provider p False c emp () w of
           (Inl e, w') \<Rightarrow> (Inl e, w')
         | (Inr records, w') \<Rightarrow>
            (case check_balances c emp [] records of
               Inl _ \<Rightarrow> (Inl Failed, w')
             | Inr _ \<Rightarrow>
                (case map_checked (validate_balance_item \<circ> balance_projection)
                    (sort_key balance_record_key records) of
                   Inl _ \<Rightarrow> (Inl Failed, w')
                 | Inr items \<Rightarrow> (Inr (order_balances items), w')))))"

section \<open>The request list\<close>

definition request_scope :: "trusted_context \<Rightarrow> pystr \<Rightarrow> 'a leave_request_record_scheme \<Rightarrow> bool" where
  "request_scope c emp r \<longleftrightarrow> uuid_str (lr_employee_id r) = emp
     \<and> uuid_str (lr_legal_entity_id r) \<in> set (legal_entity_ids c)"

fun check_requests ::
  "trusted_context \<Rightarrow> pystr \<Rightarrow> pystr list \<Rightarrow> leave_request_record option
     \<Rightarrow> leave_request_record list \<Rightarrow> unit checked" where
  "check_requests c emp seen previous [] = Inr ()"
| "check_requests c emp seen previous (r # rs) =
     raise_if (uuid_str (lr_employee_id r) \<noteq> emp) ''request employee ownership mismatch''
     (raise_if (uuid_str (lr_legal_entity_id r) \<notin> set (legal_entity_ids c))
        ''request legal entity outside authorized scope''
     (raise_if (uuid_str (lr_request_id r) \<in> set seen) ''duplicate leave request''
     (raise_if (case previous of None \<Rightarrow> False | Some p \<Rightarrow> lr_submitted_at p < lr_submitted_at r)
        ''provider page ordering violation''
     (raise_if (case previous of None \<Rightarrow> False | Some p \<Rightarrow>
          lr_submitted_at p = lr_submitted_at r
          \<and> uuid_hex (lr_request_id p) > uuid_hex (lr_request_id r))
        ''provider page ordering violation''
        (check_requests c emp (uuid_str (lr_request_id r) # seen) (Some r) rs)))))"

definition request_projection :: "'a leave_request_summary_scheme \<Rightarrow> leave_request_summary" where
  "request_projection r = \<lparr>lr_request_id = lr_request_id r,
     lr_leave_type_code = lr_leave_type_code r, lr_leave_type_name = lr_leave_type_name r,
     lr_leave_type_name_local = lr_leave_type_name_local r, lr_start_date = lr_start_date r,
     lr_end_date = lr_end_date r, lr_working_days = lr_working_days r,
     lr_is_half_day = lr_is_half_day r, lr_half_day_period = lr_half_day_period r,
     lr_status = lr_status r, lr_submitted_at = lr_submitted_at r, lr_updated_at = lr_updated_at r,
     lr_calculation_version = lr_calculation_version r\<rparr>"

text \<open>\<open>GetMyLeaveRequestOutput\<close> leaves the calculation version out.\<close>

definition detail_projection :: "'a leave_request_core_scheme \<Rightarrow> leave_request_core" where
  "detail_projection r = \<lparr>lr_request_id = lr_request_id r,
     lr_leave_type_code = lr_leave_type_code r, lr_leave_type_name = lr_leave_type_name r,
     lr_leave_type_name_local = lr_leave_type_name_local r, lr_start_date = lr_start_date r,
     lr_end_date = lr_end_date r, lr_working_days = lr_working_days r,
     lr_is_half_day = lr_is_half_day r, lr_half_day_period = lr_half_day_period r,
     lr_status = lr_status r, lr_submitted_at = lr_submitted_at r, lr_updated_at = lr_updated_at r\<rparr>"

definition list_requests_execute ::
  "(trusted_context \<times> (list_requests_input, leave_request_page, 'w) read_provider \<times> list_requests_input,
    'w, (leave_request_summary list \<times> pystr option) outcome) op" where
  "list_requests_execute q w = (let (c, p, i) = q in
     case employee_id c of
       None \<Rightarrow> (Inl Failed, w)
     | Some emp \<Rightarrow>
        (case call_provider p True c emp i w of
           (Inl e, w') \<Rightarrow> (Inl e, w')
         | (Inr page, w') \<Rightarrow>
             if length (page_items page) > lri_limit i then (Inl Failed, w')
             else if page_items page = [] \<and> page_next_cursor page \<noteq> None then (Inl Failed, w')
             else (case check_requests c emp [] None (page_items page) of
                     Inl _ \<Rightarrow> (Inl Failed, w')
                   | Inr _ \<Rightarrow> (Inr (map request_projection (page_items page),
                        page_next_cursor page), w'))))"

section \<open>The request detail\<close>

fun check_history ::
  "uuid \<Rightarrow> pystr list \<Rightarrow> history_record option \<Rightarrow> history_record list
     \<Rightarrow> history_record option checked" where
  "check_history rid seen previous [] = Inr previous"
| "check_history rid seen previous (t # ts) =
     raise_if (uuid_str (tr_history_id t) \<in> set seen) ''duplicate status history''
     (raise_if (tr_entity_type t \<noteq> LEAVE_REQUEST_ENTITY_TYPE) ''wrong history entity type''
     (raise_if (tr_entity_id t \<noteq> rid) ''wrong history entity''
     (raise_if (case previous of None \<Rightarrow> False | Some p \<Rightarrow> tr_changed_at p > tr_changed_at t)
        ''history ordering violation''
     (raise_if (case previous of None \<Rightarrow> False | Some p \<Rightarrow>
          tr_changed_at p = tr_changed_at t \<and> uuid_hex (tr_history_id p) > uuid_hex (tr_history_id t))
        ''history ordering violation''
     (raise_if (case previous of None \<Rightarrow> False | Some p \<Rightarrow> tr_from_status t \<noteq> Some (tr_to_status p))
        ''broken history status chain''
        (check_history rid (uuid_str (tr_history_id t) # seen) (Some t) ts))))))"

definition transition_projection :: "history_record \<Rightarrow> status_transition" where
  "transition_projection t = \<lparr>tr_from_status = tr_from_status t, tr_to_status = tr_to_status t,
     tr_changed_at = tr_changed_at t, tr_reason_code = tr_reason_code t\<rparr>"

definition request_detail_execute ::
  "(trusted_context \<times> (uuid, leave_request_detail option, 'w) read_provider \<times> uuid, 'w,
    (leave_request_core \<times> status_transition list) outcome) op" where
  "request_detail_execute q w = (let (c, p, rid) = q in
     case employee_id c of
       None \<Rightarrow> (Inl Failed, w)
     | Some emp \<Rightarrow>
        (case call_provider p False c emp rid w of
           (Inl e, w') \<Rightarrow> (Inl e, w')
         | (Inr None, w') \<Rightarrow> (Inl Failed, w')
         | (Inr (Some r), w') \<Rightarrow>
             if lr_request_id r \<noteq> rid then (Inl Failed, w')
             else if ld_customer_environment_id r \<noteq> customer_environment_id c then (Inl Failed, w')
             else if uuid_str (lr_employee_id r) \<noteq> emp then (Inl Failed, w')
             else if uuid_str (lr_legal_entity_id r) \<notin> set (legal_entity_ids c) then (Inl Failed, w')
             else (case check_history (lr_request_id r) [] None (ld_status_history r) of
                     Inl _ \<Rightarrow> (Inl Failed, w')
                   | Inr previous \<Rightarrow>
                       if (case previous of None \<Rightarrow> False | Some t \<Rightarrow> tr_to_status t \<noteq> lr_status r)
                       then (Inl Failed, w')
                       else (Inr (detail_projection r,
                          map transition_projection (ld_status_history r)), w'))))"

section \<open>The manifest\<close>

definition self_service_tool :: "string \<Rightarrow> string \<Rightarrow> string \<Rightarrow> tool_descriptor" where
  "self_service_tool name permission action =
     \<lparr>tool_name = lit name, tool_version = lit ''1.0.0'', operation = ReadOp,
      required_permissions_all = [lit permission], required_roles_any = [],
      allowed_purposes = [lit ''employee_self_service''], data_classification = RESTRICTED,
      audit_action = lit action, requires_employee_context = True\<rparr>"

definition LEAVE_MANIFEST :: capability_manifest where
  "LEAVE_MANIFEST = \<lparr>capability_code = lit ''leave'', capability_version = lit ''1.0.0'',
     required_modules = [lit ''hr_core'', lit ''leave''],
     tools = [self_service_tool ''get_my_leave_balances'' ''leave.balance.read_self''
                ''leave.balance.read_self'',
              self_service_tool ''get_my_leave_request'' ''leave.request.read_self''
                ''leave.request.detail.read_self'',
              self_service_tool ''list_my_leave_requests'' ''leave.request.read_self''
                ''leave.request.list_self'']\<rparr>"

section \<open>What the checks accept\<close>

definition balance_key :: "leave_balance_record \<Rightarrow> pystr \<times> pystr \<times> int" where
  "balance_key r = (lb_legal_entity_id r, lb_leave_type_id r, lb_fiscal_year r)"

definition balance_scope :: "trusted_context \<Rightarrow> pystr \<Rightarrow> leave_balance_record \<Rightarrow> bool" where
  "balance_scope c emp r \<longleftrightarrow> lb_employee_id r = emp \<and> lb_legal_entity_id r \<in> set (legal_entity_ids c)"

lemma check_balances_Inr:
  "check_balances c emp seen rs = Inr () \<longleftrightarrow> list_all (balance_scope c emp) rs
     \<and> distinct (map balance_key rs) \<and> set (map balance_key rs) \<inter> set seen = {}"
  by (induction rs arbitrary: seen)
    (auto simp: balance_scope_def balance_key_def Let_def split: if_splits)

text \<open>The page order: later submissions first, ties by request id.\<close>

definition request_before :: "'a leave_request_record_scheme \<Rightarrow> 'a leave_request_record_scheme
    \<Rightarrow> bool" where
  "request_before p r \<longleftrightarrow> lr_submitted_at r < lr_submitted_at p
     \<or> lr_submitted_at r = lr_submitted_at p \<and> uuid_hex (lr_request_id p) \<le> uuid_hex (lr_request_id r)"

definition request_key :: "'a leave_request_core_scheme \<Rightarrow> pystr" where
  "request_key r = uuid_str (lr_request_id r)"

lemma transp_request_before: "transp request_before"
  unfolding transp_def request_before_def by (auto intro: order_trans less_trans)

lemma check_requests_Inr:
  "check_requests c emp seen prev rs = Inr () \<longleftrightarrow> list_all (request_scope c emp) rs
     \<and> distinct (map request_key rs) \<and> set (map request_key rs) \<inter> set seen = {}
     \<and> successively request_before (case prev of None \<Rightarrow> rs | Some p \<Rightarrow> p # rs)"
proof (induction rs arbitrary: seen prev)
  case (Cons r rs)
  have step: "check_requests c emp seen prev (r # rs) = Inr () \<longleftrightarrow>
      request_scope c emp r \<and> request_key r \<notin> set seen
    \<and> (case prev of None \<Rightarrow> True | Some p \<Rightarrow> request_before p r)
    \<and> check_requests c emp (request_key r # seen) (Some r) rs = Inr ()"
    by (cases prev) (auto simp: request_scope_def request_key_def request_before_def not_less)
  show ?case unfolding step Cons.IH by (cases prev) (auto simp: successively_Cons)
qed (simp split: option.splits)

definition history_before :: "history_record \<Rightarrow> history_record \<Rightarrow> bool" where
  "history_before p t \<longleftrightarrow> (tr_changed_at p < tr_changed_at t
       \<or> tr_changed_at p = tr_changed_at t \<and> uuid_hex (tr_history_id p) \<le> uuid_hex (tr_history_id t))
     \<and> tr_from_status t = Some (tr_to_status p)"

definition history_scope :: "uuid \<Rightarrow> history_record \<Rightarrow> bool" where
  "history_scope rid t \<longleftrightarrow> tr_entity_type t = LEAVE_REQUEST_ENTITY_TYPE \<and> tr_entity_id t = rid"

definition history_key :: "history_record \<Rightarrow> pystr" where
  "history_key t = uuid_str (tr_history_id t)"

lemma check_history_Inr:
  "check_history rid seen prev ts = Inr res \<longleftrightarrow> list_all (history_scope rid) ts
     \<and> distinct (map history_key ts) \<and> set (map history_key ts) \<inter> set seen = {}
     \<and> successively history_before (case prev of None \<Rightarrow> ts | Some p \<Rightarrow> p # ts)
     \<and> res = (if ts = [] then prev else Some (last ts))"
proof (induction ts arbitrary: seen prev)
  case (Cons t ts)
  have step: "check_history rid seen prev (t # ts) = Inr res \<longleftrightarrow>
      history_scope rid t \<and> history_key t \<notin> set seen
    \<and> (case prev of None \<Rightarrow> True | Some p \<Rightarrow> history_before p t)
    \<and> check_history rid (history_key t # seen) (Some t) ts = Inr res"
    by (cases prev) (auto simp: history_scope_def history_key_def history_before_def not_less)
  show ?case unfolding step Cons.IH by (cases prev) (auto simp: successively_Cons)
qed (auto split: option.splits)

section \<open>The handlers under the self-service contract\<close>

definition balances_served ::
  "trusted_context \<times> (unit, leave_balance_record list, 'w) read_provider \<Rightarrow> 'w
     \<Rightarrow> leave_balance_record list" where
  "balances_served q w = (let (c, p) = q in
     case fst (call_provider p False c (the (employee_id c)) () w) of Inr rs \<Rightarrow> rs | Inl _ \<Rightarrow> [])"

definition requests_served ::
  "trusted_context \<times> (list_requests_input, leave_request_page, 'w) read_provider \<times> list_requests_input
     \<Rightarrow> 'w \<Rightarrow> leave_request_record list" where
  "requests_served q w = (let (c, p, i) = q in
     case fst (call_provider p True c (the (employee_id c)) i w) of
       Inr page \<Rightarrow> page_items page | Inl _ \<Rightarrow> [])"

definition detail_served ::
  "trusted_context \<times> (uuid, leave_request_detail option, 'w) read_provider \<times> uuid \<Rightarrow> 'w
     \<Rightarrow> leave_request_detail list" where
  "detail_served q w = (let (c, p, rid) = q in
     case fst (call_provider p False c (the (employee_id c)) rid w) of
       Inr (Some r) \<Rightarrow> [r] | _ \<Rightarrow> [])"

interpretation balances_reader: scoped_reader balances_execute balances_served lb_employee_id
    lb_legal_entity_id
proof
  fix c :: trusted_context and p :: "(unit, leave_balance_record list, 'a) read_provider" and w w' out
  assume "balances_execute (c, p) w = (Inr out, w')"
  then show "\<exists>e. employee_id c = Some e \<and> (\<forall>r \<in> set (balances_served (c, p) w). lb_employee_id r = e
      \<and> lb_legal_entity_id r \<in> set (legal_entity_ids c))"
    unfolding balances_execute_def balances_served_def Let_def prod.case
    by (auto split: option.splits prod.splits sum.splits
        simp: check_balances_Inr balance_scope_def list_all_iff)
qed

interpretation requests_reader: scoped_reader list_requests_execute requests_served
    "\<lambda>r. uuid_str (lr_employee_id r)" "\<lambda>r. uuid_str (lr_legal_entity_id r)"
proof
  fix c :: trusted_context and i w w' out
    and p :: "(list_requests_input, leave_request_page, 'a) read_provider \<times> list_requests_input"
  obtain pr inp where p: "p = (pr, inp)" by (cases p)
  assume "list_requests_execute (c, p) w = (Inr out, w')"
  then show "\<exists>e. employee_id c = Some e \<and> (\<forall>r \<in> set (requests_served (c, p) w). uuid_str
      (lr_employee_id r) = e \<and> uuid_str (lr_legal_entity_id r) \<in> set (legal_entity_ids c))"
    unfolding list_requests_execute_def requests_served_def Let_def prod.case p
    by (auto split: option.splits prod.splits sum.splits if_splits
        simp: check_requests_Inr request_scope_def list_all_iff)
qed

interpretation detail_reader: scoped_reader request_detail_execute detail_served
    "\<lambda>r. uuid_str (lr_employee_id r)" "\<lambda>r. uuid_str (lr_legal_entity_id r)"
proof
  fix c :: trusted_context and w w' out
    and p :: "(uuid, leave_request_detail option, 'a) read_provider \<times> uuid"
  obtain pr rid where p: "p = (pr, rid)" by (cases p)
  assume "request_detail_execute (c, p) w = (Inr out, w')"
  then show "\<exists>e. employee_id c = Some e \<and> (\<forall>r \<in> set (detail_served (c, p) w). uuid_str (lr_employee_id
      r) = e \<and> uuid_str (lr_legal_entity_id r) \<in> set (legal_entity_ids c))"
    unfolding request_detail_execute_def detail_served_def Let_def prod.case p
    by (auto split: option.splits prod.splits sum.splits if_splits)
qed

section \<open>Validated records\<close>

lemma calculation_version_idem: "calculation_version_ok s = Inr t \<Longrightarrow> calculation_version_ok t = Inr t"
  by (auto simp: calculation_version_ok_def Let_def split: if_splits)

lemma validate_balance_item_projection:
  assumes "validate_balance_item p = Inr r"
  shows "validate_balance_item (balance_projection r) = Inr (balance_projection r)"
proof -
  obtain code name loc ver t where
    f: "stripped_text 1 20 (lb_leave_type_code p) = Inr code"
      "stripped_text 1 100 (lb_leave_type_name p) = Inr name"
      "stripped_text 1 100 (lb_leave_type_name_local p) = Inr loc"
      "calculation_version_ok (lb_calculation_version p) = Inr ver"
    and g: "fiscal_year_ok (lb_fiscal_year p) = Inr (lb_fiscal_year p)"
      "nonnegative_days (lb_opening_days p) = Inr (lb_opening_days p)"
      "nonnegative_days (lb_accrued_days p) = Inr (lb_accrued_days p)"
      "nonnegative_days (lb_used_days p) = Inr (lb_used_days p)"
      "nonnegative_days (lb_pending_days p) = Inr (lb_pending_days p)"
      "available_days_ok (lb_available_days p) = Inr (lb_available_days p)"
      "require_aware ''calculated_at must be timezone-aware'' (lb_calculated_at p) = Inr t"
    and r: "r = p\<lparr>lb_leave_type_code := code, lb_leave_type_name := name,
              lb_leave_type_name_local := loc, lb_calculation_version := ver\<rparr>"
    using assms unfolding validate_balance_item_def
    by (elim bindE_InrE) (simp add: fiscal_year_ok_def nonnegative_days_def available_days_ok_def
        split: if_splits)
  show ?thesis
    using f(1-3)[THEN stripped_text_idem] calculation_version_idem[OF f(4)] g
    by (simp add: validate_balance_item_def balance_projection_def r)
qed

definition valid_balance :: "leave_balance_record \<Rightarrow> bool" where
  "valid_balance r \<longleftrightarrow> (\<exists>raw. validate_balance_record raw = Inr r)"

lemma valid_balance_projection:
  "valid_balance r \<Longrightarrow> validate_balance_item (balance_projection r) = Inr (balance_projection r)"
  unfolding valid_balance_def validate_balance_record_def
  by (elim exE bindE_InrE) (rule validate_balance_item_projection)

lemma validate_list_input_Inr:
  "validate_list_input i = Inr j \<Longrightarrow> sorted (lri_statuses j) \<and> distinct (lri_statuses j)
     \<and> 1 \<le> lri_limit j \<and> lri_limit j \<le> 50
     \<and> (case (lri_start_from j, lri_start_to j) of (Some a, Some b) \<Rightarrow> a \<le> b \<and> b - a \<le> 366 | _ \<Rightarrow> True)"
  unfolding validate_list_input_def validate_date_range_def unique_sorted_def
  by (elim bindE_InrE raise_if_InrE) (auto split: option.splits if_splits)

text \<open>A half-day request covers one date, names its half, and counts half a day; no other does.\<close>

lemma validate_request_record_Inr:
  "validate_request_record p = Inr r \<Longrightarrow> lr_start_date r \<le> lr_end_date r \<and> 0 < lr_working_days r
     \<and> (lr_is_half_day r \<longleftrightarrow> lr_half_day_period r \<noteq> None)
     \<and> (lr_is_half_day r \<longrightarrow> lr_start_date r = lr_end_date r \<and> lr_working_days r = 50)"
  unfolding validate_request_record_def validate_dates_and_half_day_def working_days_ok_def
  by (elim bindE_InrE) (auto split: if_splits)

section \<open>Properties\<close>

definition sample_balance :: "nat \<Rightarrow> leave_balance_record" where
  "sample_balance y = \<lparr>lb_leave_type_code = lit ''AL'', lb_leave_type_name = lit ''Annual'',
     lb_leave_type_name_local = lit ''Annual'', lb_fiscal_year = 2000 + int y, lb_opening_days = 0,
     lb_accrued_days = 1000, lb_used_days = 250, lb_pending_days = 0, lb_available_days = 750,
     lb_calculated_at = Aware 7, lb_calculation_version = lit ''1.0.0'',
     lb_employee_id = lit ''emp-1'', lb_legal_entity_id = lit ''le-1'',
     lb_leave_type_id = lit ''t-1'', lb_source_watermark = lit ''w''\<rparr>"

text \<open>The balances tool succeeds exactly when every record the provider returned belongs to the
  caller's employee and an authorized legal entity and no two have the same entity, leave type and
  year; the answer then holds one projected item per record, ordered by year, type code and names.\<close>

theorem balances_answer_exact:
  assumes "list_all valid_balance rs" and "employee_id c = Some emp"
    and "call_provider p False c emp () w = (Inr rs, w')"
  shows "\<exists>items. balances_execute (c, p) w =
      (if list_all (balance_scope c emp) rs \<and> distinct (map balance_key rs)
       then Inr items else Inl Failed, w')
    \<and> mset items = mset (map balance_projection rs) \<and> sorted (map balance_item_key items)"
proof -
  let ?s = "sort_key balance_record_key rs"
  let ?items = "order_balances (map balance_projection ?s)"
  have "map_checked (validate_balance_item \<circ> balance_projection) ?s = Inr (map balance_projection ?s)"
    by (rule map_checked_Inr_map) (use assms(1) valid_balance_projection in \<open>auto simp: list_all_iff\<close>)
  then have "balances_execute (c, p) w =
      (if list_all (balance_scope c emp) rs \<and> distinct (map balance_key rs)
       then Inr ?items else Inl Failed, w')"
    using assms(2,3) check_balances_Inr[of c emp "[]" rs]
    by (auto simp: balances_execute_def split: sum.splits)
  moreover have "mset ?items = mset (map balance_projection rs)" "sorted (map balance_item_key ?items)"
    by (simp_all add: order_balances_def)
  ultimately show ?thesis by blast
qed

theorem balances_answer_exact_witness:
  "\<exists>items. balances_execute (sample_context, \<lparr>uses_trusted_context = False,
        provider_read = (\<lambda>_ w. (Inr [sample_balance 2, sample_balance 1], w + 1))\<rparr>) (0::nat) =
      (if list_all (balance_scope sample_context (lit ''emp-1'')) [sample_balance 2, sample_balance 1]
          \<and> distinct (map balance_key [sample_balance 2, sample_balance 1])
       then Inr items else Inl Failed, 1)
    \<and> mset items = mset (map balance_projection [sample_balance 2, sample_balance 1])
    \<and> sorted (map balance_item_key items)"
proof (rule balances_answer_exact)
  have "validate_balance_record (sample_balance y) = Inr (sample_balance y)" if "y < 9" for y
    using that by (simp add: validate_balance_record_def validate_balance_item_def sample_balance_def
        sample_text stripped_text_def fiscal_year_ok_def nonnegative_days_def available_days_ok_def
        calculation_version_ok_def is_semver_def is_canonical_number_def)
  then have "valid_balance (sample_balance y)" if "y < 9" for y
    using that unfolding valid_balance_def by blast
  then show "list_all valid_balance [sample_balance 2, sample_balance 1]" by simp
qed (simp_all add: call_provider_def sample_context_def)

definition sample_request :: "uuid \<Rightarrow> instant \<Rightarrow> leave_request_record" where
  "sample_request u t = \<lparr>lr_request_id = u, lr_leave_type_code = lit ''AL'',
     lr_leave_type_name = lit ''Annual'', lr_leave_type_name_local = lit ''Annual'',
     lr_start_date = 3, lr_end_date = 4, lr_working_days = 200, lr_is_half_day = False,
     lr_half_day_period = None, lr_status = APPROVED, lr_submitted_at = t, lr_updated_at = None,
     lr_calculation_version = lit ''1.0.0'', lr_employee_id = 5, lr_legal_entity_id = 6,
     lr_leave_type_id = 7\<rparr>"

text \<open>C37: The request list succeeds exactly when the provider's page respects the limit, is not an
  empty page with a continuation cursor, holds only requests of the caller's employee in authorized
  legal entities, repeats no request, and runs from the latest submission to the earliest with ties
  in the order of the request ids; the answer is then that page, in that order, projected. The status
  and date filters are passed to the provider; the page is not compared with them.\<close>

theorem list_requests_exact:
  assumes "employee_id c = Some emp" and "call_provider p True c emp i w = (Inr page, w')"
    and "list_all (\<lambda>r. lr_request_id r < 2 ^ 128) (page_items page)"
  shows "list_requests_execute (c, p, i) w =
    (if length (page_items page) \<le> lri_limit i
        \<and> (page_items page = [] \<longrightarrow> page_next_cursor page = None)
        \<and> list_all (request_scope c emp) (page_items page)
        \<and> distinct (map lr_request_id (page_items page))
        \<and> sorted_wrt (\<lambda>a b. lr_submitted_at b < lr_submitted_at a
             \<or> lr_submitted_at b = lr_submitted_at a \<and> lr_request_id a \<le> lr_request_id b)
            (page_items page)
     then Inr (map request_projection (page_items page), page_next_cursor page) else Inl Failed, w')"
proof -
  let ?rs = "page_items page"
  have small: "lr_request_id r < 2 ^ 128" if "r \<in> set ?rs" for r
    using assms(3) that by (simp add: list_all_iff)
  have keys: "distinct (map request_key ?rs) \<longleftrightarrow> distinct (map lr_request_id ?rs)"
    using small uuid_str_inject by (auto simp: distinct_map inj_on_def request_key_def)
  have ord: "request_before a b \<longleftrightarrow> lr_submitted_at b < lr_submitted_at a
      \<or> lr_submitted_at b = lr_submitted_at a \<and> lr_request_id a \<le> lr_request_id b"
    if "a \<in> set ?rs" "b \<in> set ?rs" for a b
    using uuid_hex_less[OF small small, of b a] that by (auto simp: request_before_def simp flip:
        not_less)
  have "successively request_before ?rs \<longleftrightarrow> sorted_wrt request_before ?rs"
    by (rule successively_conv_sorted_wrt[OF transp_request_before])
  also have "\<dots> \<longleftrightarrow> sorted_wrt (\<lambda>a b. lr_submitted_at b < lr_submitted_at a \<or> lr_submitted_at b =
      lr_submitted_at a \<and> lr_request_id a \<le> lr_request_id b) ?rs"
    by (intro iffI; erule sorted_wrt_mono_rel[rotated]) (simp_all add: ord)
  finally show ?thesis using assms(1,2) check_requests_Inr[of c emp "[]" None ?rs] keys
    by (auto simp: list_requests_execute_def split: sum.splits)
qed

definition sample_page :: leave_request_page where
  "sample_page = \<lparr>page_items = [sample_request 9 4, sample_request 2 3], page_next_cursor = None\<rparr>"

definition sample_filter :: list_requests_input where
  "sample_filter = \<lparr>lri_statuses = [], lri_start_from = None, lri_start_to = None, lri_limit = 2,
     lri_cursor = None\<rparr>"

definition sample_employee :: trusted_context where
  "sample_employee = sample_context\<lparr>employee_id := Some (uuid_str 5), legal_entity_ids := [uuid_str 6]\<rparr>"

definition sample_reply :: "'r \<Rightarrow> ('a, 'r, unit) read_provider" where
  "sample_reply r = \<lparr>uses_trusted_context = True, provider_read = (\<lambda>_ w. (Inr r, w))\<rparr>"

lemma call_sample_reply [simp]: "call_provider (sample_reply r) b c emp a w = (Inr r, w)"
  by (simp add: call_provider_def sample_reply_def)

lemma sample_employee_fields [simp]:
  "employee_id sample_employee = Some (uuid_str 5)" "legal_entity_ids sample_employee = [uuid_str 6]"
  "customer_environment_id sample_employee = lit ''env-1''"
  by (simp_all add: sample_employee_def sample_context_def)

theorem list_requests_exact_witness:
  "list_requests_execute (sample_employee, sample_reply sample_page, sample_filter) ()
   = (Inr (map request_projection (page_items sample_page), None), ())"
  using list_requests_exact[of sample_employee "uuid_str 5" "sample_reply sample_page" sample_filter
      "()" sample_page "()"]
  by (simp add: sample_page_def sample_request_def sample_filter_def request_scope_def)

definition sample_history :: "uuid \<Rightarrow> leave_request_status option \<Rightarrow> leave_request_status \<Rightarrow>
    history_record"
where
  "sample_history u a b = \<lparr>tr_from_status = a, tr_to_status = b, tr_changed_at = int u,
     tr_reason_code = None, tr_history_id = u, tr_entity_type = lit ''leave_request'', tr_entity_id =
         9\<rparr>"

definition sample_detail :: leave_request_detail where
  "sample_detail = leave_request_record.extend (sample_request 9 4)
     (leave_request_detail.fields (lit ''env-1'')
       [sample_history 1 None PENDING, sample_history 2 (Some PENDING) APPROVED])"

text \<open>The request detail succeeds exactly when the provider returned the selected request of this
  customer, of the caller's employee and an authorized legal entity, with a status history that
  repeats no entry, concerns this request only, is ordered by time and then by entry id, chains each
  status to the next, and ends in the request's current status; the answer is the projected request
  and timeline.\<close>

theorem request_detail_exact:
  assumes "employee_id c = Some emp" and "call_provider p False c emp rid w = (Inr (Some r), w')"
    and "list_all (\<lambda>t. tr_history_id t < 2 ^ 128) (ld_status_history r)"
  shows "request_detail_execute (c, p, rid) w =
    (if lr_request_id r = rid \<and> ld_customer_environment_id r = customer_environment_id c
        \<and> request_scope c emp r
        \<and> list_all (history_scope rid) (ld_status_history r)
        \<and> distinct (map tr_history_id (ld_status_history r))
        \<and> sorted_wrt (\<lambda>a b. (tr_changed_at a, tr_history_id a) \<le> (tr_changed_at b, tr_history_id b))
            (ld_status_history r)
        \<and> successively (\<lambda>a b. tr_from_status b = Some (tr_to_status a)) (ld_status_history r)
        \<and> (ld_status_history r \<noteq> [] \<longrightarrow> tr_to_status (last (ld_status_history r)) = lr_status r)
     then Inr (detail_projection r, map transition_projection (ld_status_history r))
     else Inl Failed, w')"
proof -
  let ?ts = "ld_status_history r"
  let ?le = "\<lambda>a b. (tr_changed_at a, tr_history_id a) \<le> (tr_changed_at b, tr_history_id b)"
  have small: "tr_history_id t < 2 ^ 128" if "t \<in> set ?ts" for t
    using assms(3) that by (simp add: list_all_iff)
  have keys: "distinct (map history_key ?ts) \<longleftrightarrow> distinct (map tr_history_id ?ts)"
    using small uuid_str_inject by (auto simp: distinct_map inj_on_def history_key_def)
  have before: "history_before a b \<longleftrightarrow> ?le a b \<and> tr_from_status b = Some (tr_to_status a)"
    if "a \<in> set ?ts" "b \<in> set ?ts" for a b
    using uuid_hex_less[OF small small, of b a] that
    by (auto simp: history_before_def less_eq_prod_def simp flip: not_less)
  have "transp ?le" by (rule transpI) (rule order_trans)
  then have chain: "successively history_before ?ts \<longleftrightarrow> sorted_wrt ?le ?ts
      \<and> successively (\<lambda>a b. tr_from_status b = Some (tr_to_status a)) ?ts"
    unfolding successively_conv_sorted_wrt[symmetric, OF \<open>transp ?le\<close>]
    using before by (auto simp: successively_conv_nth)
  let ?final = "if ?ts = [] then None else Some (last ?ts)"
  let ?ok = "list_all (history_scope rid) ?ts \<and> distinct (map history_key ?ts)
      \<and> successively history_before ?ts"
  have ok: "check_history rid [] None ?ts = Inr ?final" if ?ok
    using that by (simp add: check_history_Inr)
  have bad: "\<exists>e. check_history rid [] None ?ts = Inl e" if "\<not> ?ok"
    using that check_history_Inr[of rid "[]" None ?ts] by (cases "check_history rid [] None ?ts") auto
  show ?thesis
  proof (cases ?ok)
    case True
    then show ?thesis using assms(1,2) ok keys chain
      by (auto simp: request_detail_execute_def request_scope_def)
  next
    case False
    then show ?thesis using assms(1,2) bad keys chain
      by (auto simp: request_detail_execute_def request_scope_def)
  qed
qed

theorem request_detail_exact_witness:
  "request_detail_execute (sample_employee, sample_reply (Some sample_detail), 9) ()
   = (Inr (detail_projection sample_detail,
        map transition_projection (ld_status_history sample_detail)), ())"
  using request_detail_exact[of sample_employee "uuid_str 5" "sample_reply (Some sample_detail)" 9 "()"
      sample_detail "()"]
  by (simp add: sample_detail_def sample_request_def sample_history_def request_scope_def
      leave_request_record.defs leave_request_detail.defs history_scope_def
      LEAVE_REQUEST_ENTITY_TYPE_def)

end
