(* ===== verification/Fusion.thy ===== *)
theory Fusion
  imports HrKnowledge
begin

text \<open>
  Hybrid retrieval (\<open>src/erp_ai/infrastructure/postgres/hybrid_retrieval.py\<close>): the policy, the
  weighted reciprocal rank fusion of the lexical and the semantic candidates in exact rational
  arithmetic, and the defensive authorization of the fused result. The SQL queries that produce
  the two lists are outside the model.
\<close>

section \<open>Policy and fusion\<close>

record hybrid_policy =
  hp_lexical_candidate_limit :: nat
  hp_semantic_candidate_limit :: nat
  hp_final_result_limit :: nat
  hp_lexical_weight :: nat
  hp_semantic_weight :: nat
  hp_rrf_rank_constant :: nat

definition validate_policy :: "hybrid_policy \<Rightarrow> hybrid_policy checked" where
  "validate_policy p =
     (if 1 \<le> hp_lexical_candidate_limit p \<and> hp_lexical_candidate_limit p \<le> 100
         \<and> 1 \<le> hp_semantic_candidate_limit p \<and> hp_semantic_candidate_limit p \<le> 100
         \<and> 1 \<le> hp_final_result_limit p \<and> hp_final_result_limit p \<le> 5
         \<and> 1 \<le> hp_lexical_weight p \<and> hp_lexical_weight p \<le> 100
         \<and> 1 \<le> hp_semantic_weight p \<and> hp_semantic_weight p \<le> 100
         \<and> 1 \<le> hp_rrf_rank_constant p \<and> hp_rrf_rank_constant p \<le> 1000
      then Inr p else Inl ''policy_range'')"

definition same_chunk :: "knowledge_match \<Rightarrow> knowledge_match \<Rightarrow> bool" where
  "same_chunk l r \<longleftrightarrow> l\<lparr>km_relevance_score := 0\<rparr> = r\<lparr>km_relevance_score := 0\<rparr>"

text \<open>The two dictionaries of the loop; \<open>fu_ids\<close> lists their common keys in insertion order.\<close>

record fusion_state =
  fu_ids :: "pystr list"
  fu_by_id :: "pystr \<rightharpoonup> knowledge_match"
  fu_scores :: "pystr \<rightharpoonup> rat"

fun fuse_items ::
  "nat \<Rightarrow> nat \<Rightarrow> nat \<Rightarrow> knowledge_match list \<Rightarrow> fusion_state \<Rightarrow> fusion_state checked" where
  "fuse_items weight k rank [] st = Inr st"
| "fuse_items weight k rank (m # ms) st =
     (let chunk = km_chunk_id m in
      raise_if (case fu_by_id st chunk of None \<Rightarrow> False | Some p \<Rightarrow> \<not> same_chunk p m)
        ''hybrid candidate metadata mismatch''
        (fuse_items weight k (Suc rank) ms
           \<lparr>fu_ids = (if fu_by_id st chunk = None then fu_ids st @ [chunk] else fu_ids st),
            fu_by_id = (fu_by_id st)(chunk \<mapsto> m),
            fu_scores = (fu_scores st)(chunk \<mapsto>
              (case fu_scores st chunk of None \<Rightarrow> 0 | Some s \<Rightarrow> s)
                + of_nat weight / of_nat (k + rank))\<rparr>))"

definition empty_fusion :: fusion_state where
  "empty_fusion = \<lparr>fu_ids = [], fu_by_id = Map.empty, fu_scores = Map.empty\<rparr>"

definition score_key :: "fusion_state \<Rightarrow> pystr \<Rightarrow> rat \<times> pystr" where
  "score_key st chunk = (- the (fu_scores st chunk), chunk)"

definition reciprocal_rank_fusion ::
  "knowledge_match list \<Rightarrow> knowledge_match list \<Rightarrow> hybrid_policy \<Rightarrow> nat
     \<Rightarrow> knowledge_match list checked" where
  "reciprocal_rank_fusion lexical semantic policy requested_limit =
     raise_if (length lexical > hp_lexical_candidate_limit policy
          \<or> length semantic > hp_semantic_candidate_limit policy) ''candidate limit exceeded''
     (raise_if (\<not> distinct (map km_chunk_id lexical) \<or> \<not> distinct (map km_chunk_id semantic))
        ''duplicate hybrid candidate''
     (bindE (fuse_items (hp_lexical_weight policy) (hp_rrf_rank_constant policy) 1 lexical empty_fusion)
        (\<lambda>st. bindE (fuse_items (hp_semantic_weight policy) (hp_rrf_rank_constant policy) 1 semantic st)
        (\<lambda>st. let limit = min requested_limit (hp_final_result_limit policy) in
           Inr (map (the \<circ> fu_by_id st) (take limit (sort_key (score_key st) (fu_ids st)))))))) "

definition authorized :: "retrieval_request \<Rightarrow> knowledge_match \<Rightarrow> bool" where
  "authorized r m \<longleftrightarrow> km_namespace m = rq_namespace r
   \<and> set (km_required_modules_all m) \<subseteq> set (rq_enabled_modules r)
   \<and> set (km_required_permissions_all m) \<subseteq> set (rq_permission_codes r)
   \<and> rq_purpose r \<in> set (km_allowed_purposes m)
   \<and> set (km_legal_entity_ids m) \<subseteq> set (rq_authorized_legal_entity_ids r)
   \<and> km_customer_environment_id m \<in> {None, Some (rq_customer_environment_id r)}
   \<and> km_effective_from m \<le> rq_effective_at r
   \<and> (case km_effective_to m of None \<Rightarrow> True | Some t \<Rightarrow> rq_effective_at r < t)
   \<and> classification_rank (km_data_classification m) \<le> classification_rank RESTRICTED"

section \<open>The specification of the score\<close>

text \<open>One list contributes \<open>weight / (constant + rank)\<close> to a chunk it ranks, and nothing otherwise.\<close>

fun contribution :: "nat \<Rightarrow> nat \<Rightarrow> nat \<Rightarrow> knowledge_match list \<Rightarrow> pystr \<Rightarrow> rat" where
  "contribution weight k rank [] chunk = 0"
| "contribution weight k rank (m # ms) chunk =
     (if km_chunk_id m = chunk then of_nat weight / of_nat (k + rank)
      else contribution weight k (Suc rank) ms chunk)"

definition rrf_score :: "knowledge_match list \<Rightarrow> knowledge_match list \<Rightarrow> hybrid_policy \<Rightarrow> pystr
    \<Rightarrow> rat" where
  "rrf_score lexical semantic p chunk =
     contribution (hp_lexical_weight p) (hp_rrf_rank_constant p) 1 lexical chunk
     + contribution (hp_semantic_weight p) (hp_rrf_rank_constant p) 1 semantic chunk"

lemma contribution_nth:
  "distinct (map km_chunk_id ms) \<Longrightarrow> i < length ms \<Longrightarrow>
     contribution weight k rank ms (km_chunk_id (ms ! i)) = of_nat weight / of_nat (k + (rank + i))"
proof (induction ms arbitrary: i rank)
  case (Cons m ms)
  show ?case
  proof (cases i)
    case (Suc j)
    then have "km_chunk_id m \<noteq> km_chunk_id (ms ! j)" using Cons.prems by (auto simp: image_iff)
    then show ?thesis using Suc Cons.IH[of j "Suc rank"] Cons.prems by simp
  qed simp
qed simp

lemma contribution_absent: "chunk \<notin> km_chunk_id ` set ms \<Longrightarrow> contribution weight k rank ms chunk = 0"
  by (induction ms arbitrary: rank) auto

definition wf_fusion :: "fusion_state \<Rightarrow> bool" where
  "wf_fusion st \<longleftrightarrow> distinct (fu_ids st) \<and> dom (fu_by_id st) = set (fu_ids st)
     \<and> dom (fu_scores st) = set (fu_ids st)
     \<and> (\<forall>chunk m. fu_by_id st chunk = Some m \<longrightarrow> km_chunk_id m = chunk)"

definition state_score :: "fusion_state \<Rightarrow> pystr \<Rightarrow> rat" where
  "state_score st chunk = (case fu_scores st chunk of None \<Rightarrow> 0 | Some s \<Rightarrow> s)"

lemma fuse_items_Inr:
  assumes "fuse_items weight k rank ms st = Inr st'" and "distinct (map km_chunk_id ms)"
    and "wf_fusion st"
  shows "wf_fusion st' \<and> set (fu_ids st') = set (fu_ids st) \<union> km_chunk_id ` set ms
    \<and> (\<forall>chunk. state_score st' chunk = state_score st chunk + contribution weight k rank ms chunk)
    \<and> (\<forall>chunk m. fu_by_id st' chunk = Some m \<longrightarrow> m \<in> set ms \<or> fu_by_id st chunk = Some m)"
  using assms
proof (induction ms arbitrary: rank st)
  case Nil
  then show ?case by simp
next
  case (Cons m ms)
  let ?c = "km_chunk_id m"
  let ?st = "\<lparr>fu_ids = (if fu_by_id st ?c = None then fu_ids st @ [?c] else fu_ids st), fu_by_id =
      (fu_by_id st)(?c \<mapsto> m),
      fu_scores = (fu_scores st)(?c \<mapsto> (case fu_scores st ?c of None \<Rightarrow> 0 | Some s \<Rightarrow> s)
        + of_nat weight / of_nat (k + rank))\<rparr>"
  have run: "fuse_items weight k (Suc rank) ms ?st = Inr st'"
    using Cons.prems(1) by (simp only: fuse_items.simps Let_def) (elim raise_if_InrE)
  have new: "fu_by_id st ?c = None \<longleftrightarrow> ?c \<notin> set (fu_ids st)"
    using Cons.prems(3) by (metis domIff wf_fusion_def)
  have ids: "set (fu_ids ?st) = insert ?c (set (fu_ids st))" "distinct (fu_ids ?st)"
    using new Cons.prems(3) by (auto simp: wf_fusion_def)
  have wf: "wf_fusion ?st"
    using Cons.prems(3) ids unfolding wf_fusion_def by simp
  have sc: "state_score ?st chunk = state_score st chunk
      + (if chunk = ?c then of_nat weight / of_nat (k + rank) else 0)" for chunk
    by (simp add: state_score_def)
  have absent: "contribution weight k r ms ?c = 0" for r
    using Cons.prems(2) by (intro contribution_absent) simp
  have IH: "wf_fusion st' \<and> set (fu_ids st') = set (fu_ids ?st) \<union> km_chunk_id ` set ms
    \<and> (\<forall>chunk. state_score st' chunk = state_score ?st chunk + contribution weight k (Suc rank) ms
        chunk)
    \<and> (\<forall>chunk m. fu_by_id st' chunk = Some m \<longrightarrow> m \<in> set ms \<or> fu_by_id ?st chunk = Some m)"
    by (rule Cons.IH[OF run _ wf]) (use Cons.prems(2) in simp)
  have "state_score st' chunk = state_score st chunk + contribution weight k rank (m # ms) chunk" for
      chunk
    using IH sc[of chunk] absent[of "Suc rank"] by (cases "chunk = ?c") auto
  moreover have "m' \<in> set (m # ms) \<or> fu_by_id st chunk = Some m'"
    if "fu_by_id st' chunk = Some m'" for chunk m'
  proof -
    have "m' \<in> set ms \<or> fu_by_id ?st chunk = Some m'" using IH that by blast
    then show ?thesis by (auto split: if_splits)
  qed
  ultimately show ?case using IH ids(1) by auto
qed

section \<open>Properties\<close>

lemma rrf_Inr:
  assumes "reciprocal_rank_fusion lexical semantic p n = Inr res"
  obtains st where "wf_fusion st"
    "set (fu_ids st) = km_chunk_id ` (set lexical \<union> set semantic)"
    "\<And>chunk. chunk \<in> set (fu_ids st) \<Longrightarrow> the (fu_scores st chunk) = rrf_score lexical semantic p chunk"
    "\<And>chunk m. fu_by_id st chunk = Some m \<Longrightarrow> m \<in> set lexical \<union> set semantic \<and> km_chunk_id m = chunk"
    "res = map (the \<circ> fu_by_id st) (take (min n (hp_final_result_limit p))
        (sort_key (score_key st) (fu_ids st)))"
proof -
  from assms obtain st1 st2 where d: "distinct (map km_chunk_id lexical)" "distinct (map km_chunk_id
      semantic)"
    and f1: "fuse_items (hp_lexical_weight p) (hp_rrf_rank_constant p) 1 lexical empty_fusion = Inr st1"
    and f2: "fuse_items (hp_semantic_weight p) (hp_rrf_rank_constant p) 1 semantic st1 = Inr st2"
    and res: "res = map (the \<circ> fu_by_id st2) (take (min n (hp_final_result_limit p))
        (sort_key (score_key st2) (fu_ids st2)))"
    unfolding reciprocal_rank_fusion_def Let_def by (elim raise_if_InrE bindE_InrE) auto
  have e: "wf_fusion empty_fusion" by (simp add: wf_fusion_def empty_fusion_def)
  note s1 = fuse_items_Inr[OF f1 d(1) e]
  then have "wf_fusion st1" by blast
  note s2 = fuse_items_Inr[OF f2 d(2) this]
  have e0: "state_score empty_fusion chunk = 0" "fu_by_id empty_fusion chunk = None" for chunk
    by (simp_all add: state_score_def empty_fusion_def)
  have "state_score st2 chunk = rrf_score lexical semantic p chunk" for chunk
    using s1 s2 e0 by (simp add: rrf_score_def)
  moreover have "the (fu_scores st2 chunk) = state_score st2 chunk" if "chunk \<in> set (fu_ids st2)" for
      chunk
  proof -
    have "chunk \<in> dom (fu_scores st2)" using s2 that by (simp add: wf_fusion_def)
    then show ?thesis by (auto simp: state_score_def)
  qed
  moreover have "set (fu_ids st2) = km_chunk_id ` (set lexical \<union> set semantic)"
    using s1 s2 by (auto simp: empty_fusion_def)
  moreover have "m \<in> set lexical \<union> set semantic \<and> km_chunk_id m = chunk"
    if "fu_by_id st2 chunk = Some m" for chunk m
    using s1 s2 that e0 unfolding wf_fusion_def by (metis Un_iff option.distinct(1))
  ultimately show ?thesis using that[of st2] s2 res by metis
qed

definition ranks_above :: "('c \<Rightarrow> 'k::linorder) \<Rightarrow> 'c set \<Rightarrow> 'c set \<Rightarrow> bool" where
  "ranks_above key upper lower \<longleftrightarrow> (\<forall>x \<in> upper. \<forall>y \<in> lower. key x \<le> key y)"

text \<open>A fused list is the exact top of the ranking: it has as many chunks as the smaller of the
  two limits and the number of distinct candidates, each taken from one of the lists and none twice,
  in the order of falling exact score (the sum of weight over constant plus rank) and then of chunk
  id, and no candidate left out precedes one that is returned.\<close>

theorem fusion_ranks_exactly:
  assumes "reciprocal_rank_fusion lexical semantic p n = Inr res"
  defines "key \<equiv> \<lambda>chunk. (- rrf_score lexical semantic p chunk, chunk)"
    and "candidates \<equiv> km_chunk_id ` (set lexical \<union> set semantic)"
  shows "length res = min (min n (hp_final_result_limit p)) (card candidates)
    \<and> set res \<subseteq> set lexical \<union> set semantic \<and> distinct (map km_chunk_id res)
    \<and> sorted (map (key \<circ> km_chunk_id) res)
    \<and> ranks_above key (km_chunk_id ` set res) (candidates - km_chunk_id ` set res)"
proof -
  obtain st where wf: "wf_fusion st" and ids: "set (fu_ids st) = candidates"
    and sc: "\<And>chunk. chunk \<in> set (fu_ids st) \<Longrightarrow> the (fu_scores st chunk) = rrf_score lexical semantic p
        chunk"
    and by_id: "\<And>chunk m. fu_by_id st chunk = Some m \<Longrightarrow>
        m \<in> set lexical \<union> set semantic \<and> km_chunk_id m = chunk"
    and res: "res = map (the \<circ> fu_by_id st) (take (min n (hp_final_result_limit p))
        (sort_key (score_key st) (fu_ids st)))"
    using rrf_Inr[OF assms(1)] unfolding candidates_def by metis
  let ?lim = "min n (hp_final_result_limit p)" and ?o = "sort_key (score_key st) (fu_ids st)"
  have o: "distinct ?o" "set ?o = candidates" using wf ids by (simp_all add: wf_fusion_def)
  have found: "fu_by_id st chunk \<noteq> None" if "chunk \<in> candidates" for chunk
    using wf ids that by (auto simp: wf_fusion_def dom_def)
  have the_id: "km_chunk_id (the (fu_by_id st chunk)) = chunk"
      "the (fu_by_id st chunk) \<in> set lexical \<union> set semantic" if "chunk \<in> candidates" for chunk
    using found[OF that] by_id by auto
  have names: "map km_chunk_id res = take ?lim ?o" unfolding res map_map
    by (rule map_idI) (use the_id o(2) in \<open>auto dest: in_set_takeD\<close>)
  have keys: "map (score_key st) ?o = map key ?o"
    using sc ids by (auto simp: score_key_def key_def)
  have srt: "sorted (map key ?o)" by (metis keys sorted_sort_key)
  have "length res = min ?lim (card candidates)"
    using o distinct_card[of ?o] by (simp add: res min.commute)
  moreover have "set res \<subseteq> set lexical \<union> set semantic"
    unfolding res by (rule subsetI) (use the_id(2) o(2) in_set_takeD in fastforce)
  moreover have "distinct (map km_chunk_id res)" unfolding names using o(1) by simp
  moreover have "sorted (map (key \<circ> km_chunk_id) res)"
    using sorted_wrt_take[OF srt, of ?lim] by (simp add: names take_map flip: map_map)
  moreover have "key (km_chunk_id m) \<le> key chunk"
    if "m \<in> set res" "chunk \<in> candidates - km_chunk_id ` set res" for m chunk
  proof -
    have split: "map key (take ?lim ?o) @ map key (drop ?lim ?o) = map key ?o"
      by (simp flip: map_append)
    have "km_chunk_id m \<in> set (take ?lim ?o)" using that(1) names by (metis imageI list.set_map)
    moreover have "chunk \<in> set (drop ?lim ?o)"
      using that(2) o(2) names by (metis DiffE UnE append_take_drop_id list.set_map set_append)
    ultimately show ?thesis using srt unfolding split[symmetric] sorted_append by auto
  qed
  ultimately show ?thesis unfolding ranks_above_def by blast
qed

definition sample_policy :: hybrid_policy where
  "sample_policy = \<lparr>hp_lexical_candidate_limit = 20, hp_semantic_candidate_limit = 20,
     hp_final_result_limit = 5, hp_lexical_weight = 1, hp_semantic_weight = 1,
     hp_rrf_rank_constant = 60\<rparr>"

text \<open>Chunk \<open>a\<close> leads the lexical list and \<open>b\<close> the semantic one, and both lists hold \<open>c\<close>.\<close>

definition sample_lexical :: "knowledge_match list" where
  "sample_lexical = [sample_match ''c'' (1/10), sample_match ''a'' (1/20)]"

definition sample_semantic :: "knowledge_match list" where
  "sample_semantic = [sample_match ''b'' (9/10), sample_match ''c'' (8/10)]"

definition sample_fused :: "knowledge_match list" where
  "sample_fused = [sample_match ''c'' (8/10), sample_match ''b'' (9/10), sample_match ''a'' (1/20)]"

lemma sample_match_fields [simp]:
  "km_chunk_id (sample_match name s) = lit name" "km_relevance_score (sample_match name s) = s"
  "same_chunk (sample_match name s) (sample_match name t)"
  by (simp_all add: sample_match_def same_chunk_def)

lemma sample_fusion:
  "reciprocal_rank_fusion sample_lexical sample_semantic sample_policy 5 = Inr sample_fused"
proof -
  let ?st1 = "\<lparr>fu_ids = [lit ''c'', lit ''a''],
      fu_by_id = [lit ''c'' \<mapsto> sample_match ''c'' (1/10), lit ''a'' \<mapsto> sample_match ''a'' (1/20)],
      fu_scores = [lit ''c'' \<mapsto> 1/61, lit ''a'' \<mapsto> 1/62]\<rparr>"
  let ?st = "\<lparr>fu_ids = [lit ''c'', lit ''a'', lit ''b''],
      fu_by_id = [lit ''c'' \<mapsto> sample_match ''c'' (8/10), lit ''a'' \<mapsto> sample_match ''a'' (1/20),
        lit ''b'' \<mapsto> sample_match ''b'' (9/10)],
      fu_scores = [lit ''c'' \<mapsto> 1/61 + 1/62, lit ''a'' \<mapsto> 1/62, lit ''b'' \<mapsto> 1/61]\<rparr>"
  have f: "fuse_items 1 60 1 sample_lexical empty_fusion = Inr ?st1"
    "fuse_items 1 60 1 sample_semantic ?st1 = Inr ?st"
    by (simp_all add: sample_lexical_def sample_semantic_def empty_fusion_def fun_eq_iff Let_def)
  have o: "sort_key (score_key ?st) (fu_ids ?st) = [lit ''c'', lit ''b'', lit ''a'']"
    by (simp add: score_key_def)
  have "reciprocal_rank_fusion sample_lexical sample_semantic sample_policy 5
      = bindE (fuse_items 1 60 1 sample_lexical empty_fusion) (\<lambda>st.
          bindE (fuse_items 1 60 1 sample_semantic st) (\<lambda>st.
            Inr (map (the \<circ> fu_by_id st) (take 5 (sort_key (score_key st) (fu_ids st))))))"
    unfolding reciprocal_rank_fusion_def sample_policy_def Let_def
    by (simp add: sample_lexical_def sample_semantic_def del: fuse_items.simps)
  also have "\<dots> = Inr (map (the \<circ> fu_by_id ?st) (take 5 (sort_key (score_key ?st) (fu_ids ?st))))"
    by (simp only: f bindE.simps)
  also have "\<dots> = Inr sample_fused" unfolding o by (simp add: sample_fused_def)
  finally show ?thesis .
qed

theorem fusion_ranks_exactly_witness:
  "length sample_fused = min (min 5 (hp_final_result_limit sample_policy))
      (card (km_chunk_id ` (set sample_lexical \<union> set sample_semantic)))
    \<and> set sample_fused \<subseteq> set sample_lexical \<union> set sample_semantic
    \<and> distinct (map km_chunk_id sample_fused)
    \<and> sorted (map ((\<lambda>chunk. (- rrf_score sample_lexical sample_semantic sample_policy chunk, chunk))
        \<circ> km_chunk_id) sample_fused)
    \<and> ranks_above (\<lambda>chunk. (- rrf_score sample_lexical sample_semantic sample_policy chunk, chunk))
        (km_chunk_id ` set sample_fused)
        (km_chunk_id ` (set sample_lexical \<union> set sample_semantic) - km_chunk_id ` set sample_fused)"
  by (rule fusion_ranks_exactly[OF sample_fusion])

text \<open>The fused order is not the order the search handler accepts: two lists in canonical order,
  all visible and authorized, fuse to a list the handler rejects, because fusion ranks by the fused
  score while every match keeps its raw relevance score.\<close>

theorem fused_order_rejected_by_handler:
  "sorted (map match_key sample_lexical) \<and> sorted (map match_key sample_semantic)
    \<and> reciprocal_rank_fusion sample_lexical sample_semantic sample_policy 5 = Inr sample_fused
    \<and> list_all (authorized (knowledge_request sample_context (lit ''leave''))) sample_fused
    \<and> list_all (match_visible sample_context) sample_fused
    \<and> validate_matches sample_context sample_fused = Inl ''provider order invalid''"
proof (intro conjI)
  show "reciprocal_rank_fusion sample_lexical sample_semantic sample_policy 5 = Inr sample_fused"
    by (rule sample_fusion)
qed (simp_all add: sample_lexical_def sample_semantic_def sample_fused_def sample_match_def
    match_key_def authorized_def knowledge_request_def sample_context_def HR_NAMESPACE_def
    match_visible_def less_eq_data_classification_def validate_matches_def MAX_RESULTS_def
    MAX_COMBINED_CONTENT_def check_match_def)

text \<open>The handler's visibility rule and the retrieval's authorization rule agree on every match
  whose customer scope fits its source type, except at one instant: a document whose validity ends
  exactly when the context was issued is visible to the handler and not authorized by retrieval.\<close>

theorem visibility_versus_authorization:
  "match_visible c m \<longleftrightarrow>
     (case km_source_type m of PRODUCT_DOCUMENTATION \<Rightarrow> km_customer_environment_id m = None
      | CUSTOMER_POLICY \<Rightarrow> km_customer_environment_id m = Some (customer_environment_id c))
   \<and> (authorized (knowledge_request c query) m
      \<or> km_effective_to m = Some (issued_at c)
        \<and> authorized (knowledge_request c query) (m\<lparr>km_effective_to := None\<rparr>))"
  by (cases "km_source_type m"; cases "km_effective_to m")
    (auto simp: match_visible_def authorized_def knowledge_request_def less_eq_data_classification_def)

end
