(* ===== verification/JsonText.thy ===== *)
theory JsonText
  imports Json
begin

text \<open>
  JSON written by \<open>json.dumps\<close> with sorted keys and the compact separators, as every digest of the
  knowledge components takes it. The text of a float is a parameter; a surrogate cannot be encoded.
\<close>

section \<open>Text\<close>

definition json_escape :: "nat \<Rightarrow> pystr" where
  "json_escape c =
     (if c = 34 \<or> c = 92 then [92, c]
      else if c = 8 then [92, 98] else if c = 9 then [92, 116] else if c = 10 then [92, 110]
      else if c = 12 then [92, 102] else if c = 13 then [92, 114]
      else if c < 32 then [92, 117, 48, 48, hex_digit (c div 16), hex_digit (c mod 16)]
      else [c])"

definition json_quote :: "pystr \<Rightarrow> pystr" where
  "json_quote s = [34] @ concat (map json_escape s) @ [34]"

definition json_int_text :: "int \<Rightarrow> pystr" where
  "json_int_text i = (if i < 0 then [45] else []) @ nat_digits (nat \<bar>i\<bar>)"

primrec json_text :: "(float64 \<Rightarrow> pystr) \<Rightarrow> json \<Rightarrow> pystr" where
  "json_text ft JNull = lit ''null''"
| "json_text ft (JBool b) = (if b then lit ''true'' else lit ''false'')"
| "json_text ft (JInt i) = json_int_text i"
| "json_text ft (JFloat f) = ft f"
| "json_text ft (JStr s) = json_quote s"
| "json_text ft (JArr vs) = [91] @ join_with [44] (map (json_text ft) vs) @ [93]"
| "json_text ft (JObj ps) = [123] @ join_with [44]
     (map (\<lambda>p. json_quote (fst p) @ [58] @ snd p) (map (map_prod id (json_text ft)) ps)) @ [125]"

text \<open>\<open>json.dumps(v, ensure_ascii=False, sort_keys=True, separators=(",", ":")).encode("utf-8")\<close>:
  the text, when it can be encoded.\<close>

definition canonical_json_text :: "(float64 \<Rightarrow> pystr) \<Rightarrow> json \<Rightarrow> pystr checked" where
  "canonical_json_text ft v =
     (if json_encodable v then Inr (json_text ft (canonical_json v)) else Inl
         ''surrogates not allowed'')"

section \<open>Its size\<close>

lemma escape_size: "utf8_size (json_escape c) = json_char_size c"
  by (auto simp: json_escape_def json_char_size_def utf8_width_def hex_digit_def)

lemma quote_size: "utf8_size (json_quote s) = json_string_size s"
proof -
  have "utf8_size (concat (map json_escape s)) = sum_list (map json_char_size s)"
    by (induction s) (simp_all add: escape_size)
  then show ?thesis by (simp add: json_quote_def json_string_size_def utf8_width_def)
qed

lemma digits_size: "list_all is_digit s \<Longrightarrow> utf8_size s = length s"
  by (induction s) (simp_all add: utf8_width_def is_digit_def)

lemma int_text_size: "utf8_size (json_int_text i) = json_int_size i"
  using digits_size nat_digits_shape by (simp add: json_int_text_def json_int_size_def utf8_width_def)

lemma join_size: "utf8_size (join_with [44] ts) = sum_list (map utf8_size ts) + (length ts - 1)"
  by (induction ts rule: induct_list012) (simp_all add: utf8_width_def)

lemma json_text_size:
  assumes "\<And>f. fs f = utf8_size (ft f)"
  shows "utf8_size (json_text ft v) = json_size fs v"
proof (induction v)
  case (JArr vs)
  then have eq: "map (utf8_size \<circ> json_text ft) vs = map (json_size fs) vs" by simp
  show ?case by (simp add: join_size with_commas_def utf8_width_def eq)
next
  case (JObj ps)
  have "utf8_size (json_text ft (snd p)) = json_size fs (snd p)" if "p \<in> set ps" for p
    using JObj that by (cases p) auto
  then have eq: "map (\<lambda>p. utf8_size (json_quote (fst p) @ [58] @ json_text ft (snd p))) ps
      = map (\<lambda>p. json_string_size (fst p) + 1 + json_size fs (snd p)) ps"
    by (simp add: quote_size utf8_width_def)
  show ?case using arg_cong[OF eq, of sum_list]
    by (simp add: join_size with_commas_def utf8_width_def comp_def quote_size)
qed (simp_all add: lit_def utf8_width_def quote_size int_text_size assms)

end
