(* ===== verification/PyTime.thy ===== *)
theory PyTime
  imports PyText
begin

text \<open>
  Aware datetimes with their offset: microseconds of local time since the first of January of year 1
  and the offset from UTC in microseconds, the calendar of \<open>datetime\<close> and \<open>isoformat\<close>. The offset is
  that of the value (a fixed offset), so two times compare as instants.
\<close>

section \<open>Zoned times\<close>

record zoned_time =
  zt_local :: int
  zt_offset :: int

definition zt_instant :: "zoned_time \<Rightarrow> instant" where
  "zt_instant t = zt_local t - zt_offset t"

datatype raw_datetime = Zoned zoned_time | Unzoned int

fun require_zone :: "string \<Rightarrow> raw_datetime \<Rightarrow> zoned_time checked" where
  "require_zone msg (Zoned t) = Inr t"
| "require_zone msg (Unzoned _) = Inl msg"

section \<open>The calendar\<close>

text \<open>\<open>datetime._ord2ymd\<close> on the number of days since the first of January of year 1.\<close>

definition DAYS_BEFORE_MONTH :: "int list" where
  "DAYS_BEFORE_MONTH = [0, 31, 59, 90, 120, 151, 181, 212, 243, 273, 304, 334]"

definition days_before_month :: "bool \<Rightarrow> nat \<Rightarrow> int" where
  "days_before_month leap m = DAYS_BEFORE_MONTH ! (m - 1) + (if leap \<and> 2 < m then 1 else 0)"

definition month_of_day :: "bool \<Rightarrow> int \<Rightarrow> nat" where
  "month_of_day leap n = length (filter (\<lambda>m. days_before_month leap m \<le> n) [1..<13])"

definition ymd_of_days :: "int \<Rightarrow> int \<times> nat \<times> int" where
  "ymd_of_days d =
     (let n400 = d div 146097; r400 = d mod 146097;
          n100 = r400 div 36524; r100 = r400 mod 36524;
          n4 = r100 div 1461; r4 = r100 mod 1461;
          n1 = r4 div 365; n = r4 mod 365;
          year = n400 * 400 + n100 * 100 + n4 * 4 + n1 + 1 in
      if n1 = 4 \<or> n100 = 4 then (year - 1, 12, 31)
      else
       (let leap = (n1 = 3 \<and> (n4 \<noteq> 24 \<or> n100 = 3)); m = month_of_day leap n in
        (year, m, n - days_before_month leap m + 1)))"

section \<open>ISO format\<close>

definition zero_padded :: "nat \<Rightarrow> nat \<Rightarrow> pystr" where
  "zero_padded k n = (let s = nat_digits n in replicate (k - length s) 48 @ s)"

definition fraction_text :: "int \<Rightarrow> pystr" where
  "fraction_text us = (if us = 0 then [] else [46] @ zero_padded 6 (nat us))"

definition offset_text :: "int \<Rightarrow> pystr" where
  "offset_text off =
     (let a = \<bar>off\<bar>; s = a div 1000000; us = a mod 1000000 in
      [if off < 0 then 45 else 43] @ zero_padded 2 (nat (s div 3600)) @ [58]
      @ zero_padded 2 (nat (s div 60 mod 60))
      @ (if s mod 60 = 0 \<and> us = 0 then [] else [58] @ zero_padded 2 (nat (s mod 60)) @ fraction_text
          us))"

definition isoformat :: "zoned_time \<Rightarrow> pystr" where
  "isoformat t =
     (let d = zt_local t div 86400000000; r = zt_local t mod 86400000000;
          s = r div 1000000; (y, m, day) = ymd_of_days d in
      zero_padded 4 (nat y) @ [45] @ zero_padded 2 m @ [45] @ zero_padded 2 (nat day) @ [84]
      @ zero_padded 2 (nat (s div 3600)) @ [58] @ zero_padded 2 (nat (s div 60 mod 60)) @ [58]
      @ zero_padded 2 (nat (s mod 60)) @ fraction_text (r mod 1000000) @ offset_text (zt_offset t))"

end
