(* ===== verification/Chunking.thy ===== *)
theory Chunking
  imports PyText "HOL-Library.Sublist"
begin

text \<open>
  Section-local chunking (\<open>src/erp_ai/knowledge/ingestion/chunking.py\<close>): blocks that do not fit
  are split at whitespace, units are packed into chunks, and a chunk may start with the end of
  the chunk before it. Lemmas: \<open>split\<close> of a concatenation, every chunk fits the limits, the chunks of
  a section carry its words in order, and exactly when chunking succeeds.
\<close>

section \<open>Words\<close>

lemma py_split_space: "py_isspace c \<Longrightarrow> py_split (c # s) = py_split s"
  by (subst (1 2) py_split.simps) simp

lemma py_split_spaces: "list_all py_isspace t \<Longrightarrow> py_split (t @ s) = py_split s"
  by (induction t) (simp_all add: py_split_space)

lemma py_split_word:
  assumes "w \<noteq> []" "list_all (\<lambda>c. \<not> py_isspace c) w" "s = [] \<or> py_isspace (hd s)"
  shows "py_split (w @ s) = w # py_split s"
proof -
  obtain c cs where w: "w = c # cs" using assms(1) by (cases w) auto
  have d: "dropWhile py_isspace (w @ s) = w @ s" using assms(2) w by simp
  have t: "takeWhile (\<lambda>d. \<not> py_isspace d) (w @ s) = w"
    and r: "dropWhile (\<lambda>d. \<not> py_isspace d) (w @ s) = s"
    using assms(2,3) by (cases s; auto simp: list_all_iff takeWhile_append dropWhile_append)+
  have "py_split (w @ s) = (case w @ s of [] \<Rightarrow> []
     | c # s' \<Rightarrow> takeWhile (\<lambda>d. \<not> py_isspace d) (c # s') # py_split (dropWhile (\<lambda>d. \<not> py_isspace d) (c #
         s')))"
    by (subst py_split.simps) (simp only: d)
  also have "\<dots> = w # py_split s" unfolding w append_Cons list.case unfolding append_Cons[symmetric]
      w[symmetric] t r ..
  finally show ?thesis .
qed

lemma py_split_append:
  assumes "s \<noteq> []" "list_all py_isspace s"
  shows "py_split (a @ s @ b) = py_split a @ py_split b"
proof (induction "length a" arbitrary: a rule: less_induct)
  case less
  show ?case
  proof (cases "list_all py_isspace a")
    case True
    then have "py_split a = []" by (simp add: py_split_Nil_iff)
    moreover have "list_all py_isspace (a @ s)" using True assms by simp
    ultimately show ?thesis using py_split_spaces[of "a @ s" b] by simp
  next
    case False
    define t where "t = takeWhile py_isspace a"
    define r where "r = dropWhile py_isspace a"
    define w where "w = takeWhile (\<lambda>c. \<not> py_isspace c) r"
    define q where "q = dropWhile (\<lambda>c. \<not> py_isspace c) r"
    have a: "a = t @ w @ q" by (simp add: t_def r_def w_def q_def)
    have t: "list_all py_isspace t" by (auto simp: t_def list_all_iff dest: set_takeWhileD)
    have r: "r \<noteq> []" using False by (auto simp: r_def list_all_iff dropWhile_eq_Nil_conv)
    then have "\<not> py_isspace (hd r)" unfolding r_def by (rule hd_dropWhile)
    then have w: "w \<noteq> []" "list_all (\<lambda>c. \<not> py_isspace c) w"
      using r by (cases r; auto simp: w_def list_all_iff dest: set_takeWhileD)+
    have q: "q = [] \<or> py_isspace (hd q)" unfolding q_def using hd_dropWhile by blast
    have qs: "q @ s @ b = [] \<or> py_isspace (hd (q @ s @ b))"
      using q assms by (cases q; cases s) auto
    have "py_split (a @ s @ b) = w # py_split (q @ s @ b)"
      using py_split_spaces[OF t] py_split_word[OF w qs] by (simp add: a)
    also have "py_split (q @ s @ b) = py_split q @ py_split b"
      by (rule less.hyps) (use a w(1) in simp)
    also have "w # (py_split q @ py_split b) = py_split a @ py_split b"
      using py_split_spaces[OF t] py_split_word[OF w q] by (simp add: a)
    finally show ?thesis .
  qed
qed

lemma py_split_single:
  "w \<noteq> [] \<Longrightarrow> list_all (\<lambda>c. \<not> py_isspace c) w \<Longrightarrow> py_split w = [w]"
  using py_split_word[of w "[]"] by (simp add: py_split_Nil_iff)

lemma py_split_empty [simp]: "py_split [] = []"
  by (simp add: py_split_Nil_iff)

section \<open>Chunks\<close>

record knowledge_section =
  sec_key :: pystr
  sec_heading :: pystr
  sec_blocks :: "pystr list"

record section_chunk =
  sc_key :: pystr
  sc_heading :: pystr
  sc_content :: pystr

record ingestion_limits =
  maximum_document_bytes :: nat
  maximum_sections :: nat
  maximum_blocks :: nat
  maximum_chunks :: nat
  maximum_block_bytes :: nat
  maximum_chunk_characters :: nat
  maximum_chunk_bytes :: nat
  overlap_characters :: nat

definition default_ingestion_limits :: ingestion_limits where
  "default_ingestion_limits = \<lparr>maximum_document_bytes = 1048576, maximum_sections = 500,
     maximum_blocks = 5000, maximum_chunks = 2000, maximum_block_bytes = 16384,
     maximum_chunk_characters = 2000, maximum_chunk_bytes = 8192, overlap_characters = 200\<rparr>"

definition fits :: "ingestion_limits \<Rightarrow> pystr \<Rightarrow> bool" where
  "fits l s \<longleftrightarrow> length s \<le> maximum_chunk_characters l \<and> utf8_size s \<le> maximum_chunk_bytes l"

fun pack_words :: "ingestion_limits \<Rightarrow> pystr list \<Rightarrow> pystr \<Rightarrow> pystr list \<Rightarrow> pystr list checked" where
  "pack_words l pieces current [] = Inr (pieces @ [current])"
| "pack_words l pieces current (w # ws) =
     raise_if (\<not> fits l w) ''indivisible token exceeds prepared chunk limit''
       (let candidate = (if current = [] then w else current @ [32] @ w) in
        if fits l candidate then pack_words l pieces candidate ws
        else pack_words l (pieces @ [current]) w ws)"

definition split_block :: "ingestion_limits \<Rightarrow> pystr \<Rightarrow> pystr list checked" where
  "split_block l block =
     (if fits l block then Inr [block]
      else
       (let ws = py_split block in
        raise_if (ws = []) ''normalized block must not be blank'' (pack_words l [] [] ws)))"

definition overlap_suffix :: "ingestion_limits \<Rightarrow> pystr \<Rightarrow> pystr" where
  "overlap_suffix l content =
     (let n = overlap_characters l in
      if n = 0 then []
      else
       (let suffix = py_strip (last_n n content) in
        if length content > n
        then (case find_char 32 suffix of
                None \<Rightarrow> suffix | Some i \<Rightarrow> py_strip (drop (Suc i) suffix))
        else suffix))"

fun pack_units :: "ingestion_limits \<Rightarrow> pystr \<Rightarrow> pystr list \<Rightarrow> pystr list" where
  "pack_units l current [] = (if current = [] then [] else [current])"
| "pack_units l current (u # us) =
     (let candidate = (if current = [] then u else current @ [10, 10] @ u) in
      if fits l candidate then pack_units l candidate us
      else
       (let overlap = overlap_suffix l current;
            candidate = (if overlap \<noteq> [] then overlap @ [10, 10] @ u else u) in
        (if current \<noteq> [] then [current] else [])
        @ pack_units l (if fits l candidate then candidate else u) us))"

definition section_chunks :: "ingestion_limits \<Rightarrow> knowledge_section \<Rightarrow> section_chunk list checked" where
  "section_chunks l s =
     bindE (map_checked (split_block l) (sec_blocks s)) (\<lambda>units.
       Inr (map (\<lambda>c. \<lparr>sc_key = sec_key s, sc_heading = sec_heading s, sc_content = c\<rparr>)
         (pack_units l [] (concat units))))"

definition chunk_sections :: "knowledge_section list \<Rightarrow> ingestion_limits \<Rightarrow> section_chunk list checked"
    where
  "chunk_sections secs l =
     bindE (map_checked (section_chunks l) secs) (\<lambda>css.
       raise_if (list_ex (\<lambda>c. py_strip (sc_content c) = []) (concat css))
         ''blank prepared chunks are forbidden'' (Inr (concat css)))"

section \<open>Bounds\<close>

lemma fits_Nil [simp]: "fits l []"
  by (simp add: fits_def)

lemma pack_words_fits:
  "pack_words l pieces current ws = Inr us \<Longrightarrow> fits l current \<Longrightarrow> \<forall>p \<in> set pieces. fits l p
     \<Longrightarrow> \<forall>u \<in> set us. fits l u"
proof (induction ws arbitrary: pieces current)
  case (Cons w ws)
  let ?c = "if current = [] then w else current @ [32] @ w"
  have w: "fits l w" and run: "(if fits l ?c then pack_words l pieces ?c ws
      else pack_words l (pieces @ [current]) w ws) = Inr us"
    using Cons.prems(1) by (auto simp: Let_def elim!: raise_if_InrE)
  show ?case
  proof (cases "fits l ?c")
    case True
    then have "pack_words l pieces ?c ws = Inr us" using run by simp
    then show ?thesis using Cons.IH True Cons.prems(3) by blast
  next
    case False
    then have "pack_words l (pieces @ [current]) w ws = Inr us" using run by simp
    then show ?thesis using Cons.IH[of "pieces @ [current]" w] w Cons.prems by simp
  qed
qed auto

lemma split_block_fits: "split_block l b = Inr us \<Longrightarrow> \<forall>u \<in> set us. fits l u"
  unfolding split_block_def Let_def
  by (auto split: if_splits dest: pack_words_fits)

lemma pack_units_fits:
  "\<forall>u \<in> set us. fits l u \<Longrightarrow> fits l current \<Longrightarrow> \<forall>c \<in> set (pack_units l current us). fits l c"
proof (induction us arbitrary: current)
  case (Cons u us)
  let ?c = "if current = [] then u else current @ [10, 10] @ u"
  let ?o = "overlap_suffix l current"
  let ?n = "if ?o \<noteq> [] then ?o @ [10, 10] @ u else u"
  let ?m = "if fits l ?n then ?n else u"
  have run: "pack_units l current (u # us) = (if fits l ?c then pack_units l ?c us
     else (if current \<noteq> [] then [current] else []) @ pack_units l ?m us)"
    by (simp add: Let_def)
  have us: "\<forall>u \<in> set us. fits l u" and u: "fits l u" using Cons.prems(1) by simp_all
  have "fits l ?m" using u by presburger
  then have m: "\<forall>c \<in> set (pack_units l ?m us). fits l c" by (rule Cons.IH[OF us])
  show ?case
  proof (cases "fits l ?c")
    case True
    then show ?thesis unfolding run using Cons.IH[OF us True] by presburger
  next
    case False
    then have "pack_units l current (u # us) = (if current \<noteq> [] then [current] else []) @ pack_units l
        ?m us"
      using run by presburger
    moreover have "\<forall>c \<in> set (if current \<noteq> [] then [current] else []). fits l c"
      using Cons.prems(2) by simp
    ultimately show ?thesis using m by (simp only: set_append ball_Un)
  qed
qed simp

section \<open>Coverage\<close>

lemma pack_words_words:
  "pack_words l pieces current ws = Inr us \<Longrightarrow> \<forall>w \<in> set ws. w \<noteq> [] \<and> list_all (\<lambda>c. \<not> py_isspace c) w
     \<Longrightarrow> concat (map py_split us) = concat (map py_split pieces) @ py_split current @ ws"
proof (induction ws arbitrary: pieces current)
  case (Cons w ws)
  let ?c = "if current = [] then w else current @ [32] @ w"
  have run: "(if fits l ?c then pack_words l pieces ?c ws
      else pack_words l (pieces @ [current]) w ws) = Inr us"
    using Cons.prems(1) by (auto simp: Let_def elim!: raise_if_InrE)
  have w: "py_split w = [w]" using Cons.prems(2) py_split_single by simp
  have c: "py_split ?c = py_split current @ [w]"
    using py_split_append[of "[32]" current w] w by (simp add: py_isspace_def)
  show ?case
  proof (cases "fits l ?c")
    case True
    then have "pack_words l pieces ?c ws = Inr us" using run by simp
    from Cons.IH[OF this] Cons.prems(2) c show ?thesis by simp
  next
    case False
    then have "pack_words l (pieces @ [current]) w ws = Inr us" using run by simp
    from Cons.IH[OF this] Cons.prems(2) w show ?thesis by simp
  qed
qed auto

lemma split_block_words:
  assumes "split_block l b = Inr us"
  shows "concat (map py_split us) = py_split b"
proof (cases "fits l b")
  case False
  then have "pack_words l [] [] (py_split b) = Inr us"
    using assms by (auto simp: split_block_def Let_def elim!: raise_if_InrE)
  from pack_words_words[OF this] py_split_words show ?thesis by fastforce
next
  case True
  then have "Inr [b] = (Inr us :: pystr list checked)" using assms unfolding split_block_def by
      presburger
  then have "us = [b]" by blast
  then show ?thesis by simp
qed

lemma pack_units_words:
  "subseq (py_split current @ concat (map py_split us)) (concat (map py_split (pack_units l current
      us)))
   \<and> (overlap_characters l = 0 \<longrightarrow>
        concat (map py_split (pack_units l current us)) = py_split current @ concat (map py_split us))"
proof (induction us arbitrary: current)
  case (Cons u us)
  let ?c = "if current = [] then u else current @ [10, 10] @ u"
  let ?o = "overlap_suffix l current"
  let ?n = "if ?o \<noteq> [] then ?o @ [10, 10] @ u else u"
  let ?m = "if fits l ?n then ?n else u"
  have sep: "py_split (a @ [10, 10] @ b) = py_split a @ py_split b" for a b
    by (rule py_split_append) (simp_all add: py_isspace_def)
  show ?case
  proof (cases "fits l ?c")
    case True
    have "py_split ?c = py_split current @ py_split u" using sep[of current u] by simp
    moreover have "pack_units l current (u # us) = pack_units l ?c us" using True by (simp add: Let_def)
    ultimately show ?thesis using Cons.IH[of ?c] by simp
  next
    case False
    define m where "m = ?m"
    have run: "pack_units l current (u # us) = (if current \<noteq> [] then [current] else []) @ pack_units l
        m us"
      using False unfolding m_def by (simp add: Let_def)
    have "m = u \<or> m = ?o @ [10, 10] @ u" unfolding m_def by presburger
    then have "py_split m = py_split u \<or> py_split m = py_split ?o @ py_split u" using sep[of ?o u] by
        presburger
    moreover have "py_split m = py_split u" if "overlap_characters l = 0"
      using that unfolding m_def by (simp add: overlap_suffix_def)
    ultimately obtain pre where pre: "py_split m = pre @ py_split u" "overlap_characters l = 0
        \<Longrightarrow> pre = []"
      by (metis append_Nil append_same_eq)
    let ?rest = "concat (map py_split (pack_units l m us))"
    have ih: "subseq (pre @ (py_split u @ concat (map py_split us))) ?rest"
        "overlap_characters l = 0 \<Longrightarrow> ?rest = pre @ py_split u @ concat (map py_split us)"
      using Cons.IH[of m] unfolding pre(1) append_assoc by blast+
    have "subseq (py_split u @ concat (map py_split us)) ?rest"
      by (rule subseq_order.order_trans[OF _ ih(1)]) (rule subseq_drop_many, rule
          subseq_order.order_refl)
    moreover have "concat (map py_split (pack_units l current (u # us))) = py_split current @ ?rest"
      unfolding run by (cases "current = []") simp_all
    ultimately show ?thesis using ih(2) pre(2) by (simp add: list_emb_append_mono)
  qed
qed simp

section \<open>Chunks of a document\<close>

definition chunk_words :: "section_chunk list \<Rightarrow> pystr list" where
  "chunk_words cs = concat (map (\<lambda>c. py_split (sc_content c)) cs)"

definition section_words :: "knowledge_section \<Rightarrow> pystr list" where
  "section_words s = concat (map py_split (sec_blocks s))"

text \<open>The chunks of a section carry its key and heading and its words in order; without overlap
  they carry nothing else.\<close>

definition chunks_cover :: "ingestion_limits \<Rightarrow> knowledge_section \<Rightarrow> section_chunk list \<Rightarrow> bool" where
  "chunks_cover l s cs \<longleftrightarrow>
     (\<forall>c \<in> set cs. sc_key c = sec_key s \<and> sc_heading c = sec_heading s \<and> fits l (sc_content c))
     \<and> subseq (section_words s) (chunk_words cs)
     \<and> (overlap_characters l = 0 \<longrightarrow> chunk_words cs = section_words s)"

lemma split_blocks:
  assumes "map_checked (split_block l) bs = Inr uss"
  shows "(\<forall>u \<in> set (concat uss). fits l u) \<and> concat (map py_split (concat uss)) = concat (map py_split
      bs)"
  using map_checked_InrD[OF assms]
proof (induction rule: list_all2_induct)
  case (Cons b bs us uss)
  then show ?case using split_block_fits split_block_words by fastforce
qed simp

lemma section_chunks_cover:
  assumes "section_chunks l s = Inr cs"
  shows "chunks_cover l s cs"
proof -
  obtain uss where u: "map_checked (split_block l) (sec_blocks s) = Inr uss"
    and cs: "cs = map (\<lambda>c. \<lparr>sc_key = sec_key s, sc_heading = sec_heading s, sc_content = c\<rparr>)
      (pack_units l [] (concat uss))"
    using assms unfolding section_chunks_def by (auto elim!: bindE_InrE)
  note b = split_blocks[OF u]
  have w: "chunk_words cs = concat (map py_split (pack_units l [] (concat uss)))"
    by (simp add: cs chunk_words_def comp_def)
  have "\<forall>c \<in> set (pack_units l [] (concat uss)). fits l c"
    by (rule pack_units_fits[OF conjunct1[OF b]]) simp
  then show ?thesis using pack_units_words[of "[]" "concat uss" l] b
    unfolding chunks_cover_def w by (simp add: cs section_words_def)
qed

lemma chunk_sections_Inr:
  "chunk_sections secs l = Inr cs \<longleftrightarrow>
     (\<exists>css. map_checked (section_chunks l) secs = Inr css \<and> cs = concat css
        \<and> (\<forall>c \<in> set cs. py_strip (sc_content c) \<noteq> []))"
proof -
  have r: "raise_if (list_ex (\<lambda>c. py_strip (sc_content c) = []) ds) m (Inr ds) = Inr cs
      \<longleftrightarrow> cs = ds \<and> (\<forall>c \<in> set cs. py_strip (sc_content c) \<noteq> [])" for m ds
    by (auto simp: list_ex_iff)
  show ?thesis unfolding chunk_sections_def bindE_Inr_iff r by blast
qed

section \<open>Success\<close>

lemma pack_words_succeeds:
  "(\<exists>us. pack_words l pieces current ws = Inr us) \<longleftrightarrow> (\<forall>w \<in> set ws. fits l w)"
  by (induction ws arbitrary: pieces current) (auto simp: Let_def)

lemma split_block_succeeds:
  "py_strip b \<noteq> [] \<Longrightarrow> (\<exists>us. split_block l b = Inr us) \<longleftrightarrow> fits l b \<or> (\<forall>w \<in> set (py_split b). fits l w)"
  by (auto simp: split_block_def Let_def pack_words_succeeds py_strip_Nil_iff py_split_Nil_iff)

lemma map_checked_succeeds: "(\<exists>ys. map_checked f xs = Inr ys) \<longleftrightarrow> (\<forall>x \<in> set xs. \<exists>y. f x = Inr y)"
  by (induction xs) (auto simp: bindE_Inr_iff)

lemma map_checked_member:
  "map_checked f xs = Inr ys \<Longrightarrow> y \<in> set ys \<Longrightarrow> \<exists>x \<in> set xs. f x = Inr y"
  by (induction xs arbitrary: ys) (auto simp: bindE_Inr_iff)

lemma nonblank_words: "py_strip s \<noteq> [] \<longleftrightarrow> py_split s \<noteq> []"
  by (simp add: py_strip_Nil_iff py_split_Nil_iff)

lemma pack_words_nonblank:
  "pack_words l pieces current ws = Inr us \<Longrightarrow> \<forall>w \<in> set ws. py_split w \<noteq> [] \<Longrightarrow>
     (current = [] \<longrightarrow> ws \<noteq> []) \<Longrightarrow> (current \<noteq> [] \<longrightarrow> py_split current \<noteq> []) \<Longrightarrow> \<forall>p \<in> set pieces. py_split p
         \<noteq> []
     \<Longrightarrow> \<forall>u \<in> set us. py_split u \<noteq> []"
proof (induction ws arbitrary: pieces current)
  case (Cons w ws)
  let ?c = "if current = [] then w else current @ [32] @ w"
  have w: "fits l w" "py_split w \<noteq> []" and run: "(if fits l ?c then pack_words l pieces ?c ws else
      pack_words l (pieces @ [current]) w ws) = Inr us"
    using Cons.prems(1,2) by (auto simp: Let_def elim!: raise_if_InrE)
  have ne: "w \<noteq> []" "?c \<noteq> []" using w(2) by auto
  have c: "py_split ?c \<noteq> []"
    using py_split_append[of "[32]" current w] w by (simp add: py_isspace_def)
  show ?case
  proof (cases "fits l ?c")
    case True
    then have "pack_words l pieces ?c ws = Inr us" using run by simp
    then show ?thesis using Cons.IH[of pieces ?c] Cons.prems(2,5) c ne by simp
  next
    case False
    then have r: "pack_words l (pieces @ [current]) w ws = Inr us" using run by simp
    have "current \<noteq> []" using False w(1) by auto
    then show ?thesis using Cons.IH[OF r] Cons.prems(2,4,5) w(2) ne by simp
  qed
qed auto

lemma split_block_nonblank:
  assumes "split_block l b = Inr us" "py_strip b \<noteq> []"
  shows "\<forall>u \<in> set us. py_split u \<noteq> []"
proof (cases "fits l b")
  case True
  then have "Inr [b] = (Inr us :: pystr list checked)" using assms(1) unfolding split_block_def by
      presburger
  then have "us = [b]" by blast
  then show ?thesis using assms(2) nonblank_words by simp
next
  case False
  then have "pack_words l [] [] (py_split b) = Inr us"
    using assms by (auto simp: split_block_def Let_def elim!: raise_if_InrE)
  then show ?thesis
    by (rule pack_words_nonblank) (use assms(2) nonblank_words py_split_words py_split_single in \<open>auto\<close>)
qed

lemma pack_units_nonblank:
  "\<forall>u \<in> set us. py_split u \<noteq> [] \<Longrightarrow> (current \<noteq> [] \<longrightarrow> py_split current \<noteq> [])
     \<Longrightarrow> \<forall>c \<in> set (pack_units l current us). py_split c \<noteq> []"
proof (induction us arbitrary: current)
  case (Cons u us)
  define c where "c = (if current = [] then u else current @ [10, 10] @ u)"
  define o' where "o' = overlap_suffix l current"
  define n where "n = (if o' \<noteq> [] then o' @ [10, 10] @ u else u)"
  define m where "m = (if fits l n then n else u)"
  have run: "pack_units l current (u # us) = (if fits l c then pack_units l c us
     else (if current \<noteq> [] then [current] else []) @ pack_units l m us)"
    unfolding m_def n_def o'_def c_def by (simp add: Let_def)
  have sep: "py_split (a @ [10, 10] @ b) = py_split a @ py_split b" for a b
    by (rule py_split_append) (simp_all add: py_isspace_def)
  have u: "py_split u \<noteq> []" and us: "\<forall>u \<in> set us. py_split u \<noteq> []" using Cons.prems(1) by simp_all
  have join: "py_split (a @ [10, 10] @ u) \<noteq> []" for a using u sep[of a u] by simp
  have "c = u \<or> c = current @ [10, 10] @ u" unfolding c_def by presburger
  then have "py_split c \<noteq> []" using u join[of current] by metis
  moreover have "m = u \<or> m = o' @ [10, 10] @ u" unfolding m_def n_def by presburger
  then have "py_split m \<noteq> []" using u join[of o'] by metis
  ultimately have "\<forall>d \<in> set (pack_units l c us). py_split d \<noteq> []" "\<forall>d \<in> set (pack_units l m us).
      py_split d \<noteq> []"
    using Cons.IH[OF us] by blast+
  then show ?case unfolding run using Cons.prems(2) by (cases "fits l c"; cases "current = []") simp_all
qed simp

lemma chunk_sections_succeeds:
  assumes "\<forall>s \<in> set secs. \<forall>b \<in> set (sec_blocks s). py_strip b \<noteq> []"
  shows "(\<exists>cs. chunk_sections secs l = Inr cs) \<longleftrightarrow>
    (\<forall>s \<in> set secs. \<forall>b \<in> set (sec_blocks s). fits l b \<or> (\<forall>w \<in> set (py_split b). fits l w))"
proof -
  have blank: "\<forall>c \<in> set (concat css). py_strip (sc_content c) \<noteq> []" if run: "map_checked
      (section_chunks l) secs = Inr css" for css
  proof -
    have "\<forall>c \<in> set cs. py_split (sc_content c) \<noteq> []" if s: "s \<in> set secs" and cs: "section_chunks l s =
        Inr cs" for s cs
    proof -
      obtain uss where u: "map_checked (split_block l) (sec_blocks s) = Inr uss"
        and cs: "cs = map (\<lambda>c. \<lparr>sc_key = sec_key s, sc_heading = sec_heading s, sc_content = c\<rparr>)
          (pack_units l [] (concat uss))"
        using cs unfolding section_chunks_def by (auto elim!: bindE_InrE)
      have "\<forall>us \<in> set uss. \<forall>u \<in> set us. py_split u \<noteq> []"
      proof
        fix us assume "us \<in> set uss"
        then obtain b where "b \<in> set (sec_blocks s)" "split_block l b = Inr us" using
            map_checked_member[OF u] by blast
        then show "\<forall>u \<in> set us. py_split u \<noteq> []" using split_block_nonblank assms s by blast
      qed
      then have "\<forall>u \<in> set (concat uss). py_split u \<noteq> []" by simp
      then have "\<forall>c \<in> set (pack_units l [] (concat uss)). py_split c \<noteq> []" by (rule
          pack_units_nonblank) simp
      then show ?thesis by (simp only: cs) simp
    qed
    then show ?thesis using map_checked_member[OF run] nonblank_words unfolding set_concat by blast
  qed
  then have "(\<exists>cs. chunk_sections secs l = Inr cs) \<longleftrightarrow> (\<exists>css. map_checked (section_chunks l) secs = Inr
      css)"
    unfolding chunk_sections_Inr by blast
  also have "\<dots> \<longleftrightarrow> (\<forall>s \<in> set secs. \<exists>uss. map_checked (split_block l) (sec_blocks s) = Inr uss)"
    unfolding map_checked_succeeds by (simp add: section_chunks_def bindE_Inr_iff map_checked_succeeds)
  also have "\<dots> \<longleftrightarrow> (\<forall>s \<in> set secs. \<forall>b \<in> set (sec_blocks s). fits l b \<or> (\<forall>w \<in> set (py_split b). fits l w))"
    unfolding map_checked_succeeds using assms split_block_succeeds by (intro ball_cong refl) blast
  finally show ?thesis .
qed

end
