(* ===== verification/Ingestion.thy ===== *)
theory Ingestion
  imports JsonText PyTime Chunking HrKnowledge
begin

text \<open>
  Knowledge ingestion (\<open>src/erp_ai/knowledge/ingestion/\<close>): text normalization, the draft with its
  validators, content and governance digests, the disposition against the existing version, and
  the preparation of a bundle of chunks. NFC, the case mapping and SHA-256 are parameters. A text
  field that is not valid Unicode is rejected by the contracts.
\<close>

section \<open>Normalization\<close>

fun replace_crlf :: "pystr \<Rightarrow> pystr" where
  "replace_crlf (c # d # s) = (if c = 13 \<and> d = 10 then 10 # replace_crlf s else c # replace_crlf (d #
      s))"
| "replace_crlf s = s"

definition replace_cr :: "pystr \<Rightarrow> pystr" where
  "replace_cr s = map (\<lambda>c. if c = 13 then 10 else c) s"

definition unsafe_control :: "nat \<Rightarrow> bool" where
  "unsafe_control c \<longleftrightarrow> c = 0 \<or> is_control c \<and> c \<noteq> 10 \<and> c \<noteq> 9"

definition normalize_text :: "(pystr \<Rightarrow> pystr) \<Rightarrow> pystr \<Rightarrow> pystr checked" where
  "normalize_text nfc s =
     (let t = nfc (replace_cr (replace_crlf s)) in
      raise_if (list_ex unsafe_control t) ''text contains an unsafe control character''
      (let u = py_strip t in
       raise_if (u = []) ''text must not be blank'' (Inr u)))"

text \<open>A \<open>str\<close> field: a text with a lone surrogate is not a valid string of the contracts.\<close>

definition text_field :: "(pystr \<Rightarrow> pystr) \<Rightarrow> pystr \<Rightarrow> pystr checked" where
  "text_field nfc s = raise_if (\<not> utf8_encodable s) ''string_unicode'' (normalize_text nfc s)"

section \<open>Contracts\<close>

definition validate_section_key :: "pystr \<Rightarrow> pystr checked" where
  "validate_section_key s =
     raise_if (length s < 1 \<or> 128 < length s) ''string_length''
       (raise_if (\<not> is_segment s) ''string_pattern_mismatch'' (Inr s))"

definition validate_digest :: "pystr \<Rightarrow> pystr checked" where
  "validate_digest s = raise_if (\<not> is_digest s) ''string_pattern_mismatch'' (Inr s)"

definition is_opaque_id :: "pystr \<Rightarrow> bool" where
  "is_opaque_id s \<longleftrightarrow> (\<exists>p \<in> {lit ''chk_'', lit ''cite_''}. take (length p) s = p
     \<and> length s = length p + 32 \<and> list_all is_hex (drop (length p) s))"

definition validate_opaque_id :: "pystr \<Rightarrow> pystr checked" where
  "validate_opaque_id s = raise_if (\<not> is_opaque_id s) ''string_pattern_mismatch'' (Inr s)"

record source_provenance =
  sp_catalog_version :: int
  sp_raw_source_sha256 :: pystr
  sp_parser_name :: pystr
  sp_parser_major_version :: int
  sp_adapter_contract_version :: int

definition validate_provenance :: "source_provenance \<Rightarrow> source_provenance checked" where
  "validate_provenance p =
     raise_if (sp_catalog_version p \<noteq> 1) ''literal_error''
     (bindE (validate_digest (sp_raw_source_sha256 p)) (\<lambda>_.
      raise_if (sp_parser_name p \<noteq> lit ''markdown-it-py'') ''literal_error''
      (raise_if (sp_parser_major_version p < 1) ''greater_than_equal''
      (raise_if (sp_adapter_contract_version p \<noteq> 1) ''literal_error'' (Inr p)))))"

definition validate_section :: "(pystr \<Rightarrow> pystr) \<Rightarrow> knowledge_section \<Rightarrow> knowledge_section checked" where
  "validate_section nfc s =
     bindE (validate_section_key (sec_key s)) (\<lambda>k.
     bindE (text_field nfc (sec_heading s)) (\<lambda>h.
     bindE (min_length_1 (sec_blocks s)) (\<lambda>bs.
     bindE (map_checked (text_field nfc) bs) (\<lambda>bs'.
       Inr \<lparr>sec_key = k, sec_heading = h, sec_blocks = bs'\<rparr>))))"

text \<open>The governed fields a document and its chunks share; the type of the timestamps is that of
  the raw values before validation and of zoned times after it.\<close>

record 't governance =
  gv_document_id :: uuid
  gv_document_version :: pystr
  gv_namespace :: pystr
  gv_source_type :: knowledge_source_type
  gv_customer_environment_id :: "pystr option"
  gv_required_modules_all :: "pystr list"
  gv_required_permissions_all :: "pystr list"
  gv_allowed_purposes :: "pystr list"
  gv_legal_entity_ids :: "pystr list"
  gv_data_classification :: data_classification
  gv_language :: pystr
  gv_title :: pystr
  gv_effective_from :: 't
  gv_effective_to :: "'t option"

record 't document_draft = "'t governance" +
  dr_approval_reference :: pystr
  dr_approved_at :: 't
  dr_source_provenance :: "source_provenance option"
  dr_sections :: "knowledge_section list"

definition ends_before_start :: "(zoned_time, 'more) governance_scheme \<Rightarrow> bool" where
  "ends_before_start d =
     (case gv_effective_to d of None \<Rightarrow> False | Some t \<Rightarrow> zt_instant t \<le> zt_instant (gv_effective_from
         d))"

definition validate_draft ::
  "(pystr \<Rightarrow> pystr) \<Rightarrow> (pystr \<Rightarrow> pystr) \<Rightarrow> raw_datetime document_draft \<Rightarrow> zoned_time document_draft checked"
      where
  "validate_draft lower nfc d =
     bindE (canonical_semver (gv_document_version d)) (\<lambda>ver.
     bindE (validate_code lower (gv_namespace d)) (\<lambda>ns.
     bindE (optional_checked validate_identifier (gv_customer_environment_id d)) (\<lambda>cust.
     bindE (text_field nfc (gv_title d)) (\<lambda>title.
     bindE (language_code (gv_language d)) (\<lambda>lang.
     bindE (unique_items (validate_code lower) (gv_required_modules_all d)) (\<lambda>mods.
     bindE (unique_items validate_policy_code (gv_required_permissions_all d)) (\<lambda>perms.
     bindE (bindE (unique_items (validate_code lower) (gv_allowed_purposes d)) min_length_1) (\<lambda>ps.
     bindE (unique_items validate_identifier (gv_legal_entity_ids d)) (\<lambda>les.
     bindE (require_zone ''timestamps must be timezone-aware'' (gv_effective_from d)) (\<lambda>from.
     bindE (optional_checked (require_zone ''timestamps must be timezone-aware'') (gv_effective_to d))
         (\<lambda>to.
     bindE (validate_identifier (dr_approval_reference d)) (\<lambda>ref.
     bindE (require_zone ''timestamps must be timezone-aware'' (dr_approved_at d)) (\<lambda>appr.
     bindE (optional_checked validate_provenance (dr_source_provenance d)) (\<lambda>prov.
     bindE (min_length_1 (dr_sections d)) (\<lambda>secs0.
     bindE (map_checked (validate_section nfc) secs0) (\<lambda>secs.
     let draft = \<lparr>gv_document_id = gv_document_id d, gv_document_version = ver, gv_namespace = ns,
           gv_source_type = gv_source_type d, gv_customer_environment_id = cust,
           gv_required_modules_all = mods, gv_required_permissions_all = perms,
           gv_allowed_purposes = ps, gv_legal_entity_ids = les,
           gv_data_classification = gv_data_classification d, gv_language = lang, gv_title = title,
           gv_effective_from = from, gv_effective_to = to, dr_approval_reference = ref,
           dr_approved_at = appr, dr_source_provenance = prov, dr_sections = secs\<rparr> in
     raise_if (ends_before_start draft) ''effective_to must be later than effective_from''
     (raise_if (\<not> distinct (map sec_key secs)) ''duplicate section keys are not allowed'' (Inr
         draft))))))))))))))))))"

record existing_manifest =
  em_document_id :: uuid
  em_document_version :: pystr
  em_document_fingerprint :: pystr

definition validate_existing_manifest :: "existing_manifest \<Rightarrow> existing_manifest checked" where
  "validate_existing_manifest e =
     bindE (canonical_semver (em_document_version e)) (\<lambda>ver.
     bindE (validate_digest (em_document_fingerprint e)) (\<lambda>fp.
       Inr (e\<lparr>em_document_version := ver, em_document_fingerprint := fp\<rparr>)))"

datatype preparation_disposition = NEW_DOCUMENT | IDEMPOTENT | SUPERSEDING_VERSION

record prepared_manifest =
  pm_document_id :: uuid
  pm_document_version :: pystr
  pm_namespace :: pystr
  pm_source_type :: knowledge_source_type
  pm_customer_environment_id :: "pystr option"
  pm_source_provenance :: "source_provenance option"
  pm_normalized_content_sha256 :: pystr
  pm_governance_sha256 :: pystr
  pm_document_fingerprint :: pystr
  pm_supersedes_version :: "pystr option"

record prepared_chunk = "zoned_time governance" +
  pc_chunk_id :: pystr
  pc_citation_id :: pystr
  pc_chunk_ordinal :: int
  pc_section_key :: pystr
  pc_heading :: pystr
  pc_content :: pystr

record prepared_bundle =
  pb_manifest :: prepared_manifest
  pb_chunks :: "prepared_chunk list"
  pb_disposition :: preparation_disposition
  pb_total_normalized_utf8_bytes :: int
  pb_total_chunk_count :: int

definition plain_str :: "pystr \<Rightarrow> pystr checked" where
  "plain_str s = raise_if (\<not> utf8_encodable s) ''string_unicode'' (Inr s)"

definition validate_prepared_manifest ::
  "(pystr \<Rightarrow> pystr) \<Rightarrow> prepared_manifest \<Rightarrow> prepared_manifest checked" where
  "validate_prepared_manifest lower m =
     bindE (canonical_semver (pm_document_version m)) (\<lambda>ver.
     bindE (validate_code lower (pm_namespace m)) (\<lambda>ns.
     bindE (optional_checked validate_identifier (pm_customer_environment_id m)) (\<lambda>cust.
     bindE (optional_checked validate_provenance (pm_source_provenance m)) (\<lambda>prov.
     bindE (validate_digest (pm_normalized_content_sha256 m)) (\<lambda>content.
     bindE (validate_digest (pm_governance_sha256 m)) (\<lambda>gov.
     bindE (validate_digest (pm_document_fingerprint m)) (\<lambda>fp.
     bindE (optional_checked canonical_semver (pm_supersedes_version m)) (\<lambda>sup.
       Inr (m\<lparr>pm_document_version := ver, pm_namespace := ns, pm_customer_environment_id := cust,
              pm_source_provenance := prov, pm_normalized_content_sha256 := content,
              pm_governance_sha256 := gov, pm_document_fingerprint := fp, pm_supersedes_version :=
                  sup\<rparr>)))))))))"

definition validate_prepared_chunk ::
  "(pystr \<Rightarrow> pystr) \<Rightarrow> prepared_chunk \<Rightarrow> prepared_chunk checked" where
  "validate_prepared_chunk lower c =
     bindE (validate_opaque_id (pc_chunk_id c)) (\<lambda>chk.
     bindE (validate_opaque_id (pc_citation_id c)) (\<lambda>cite.
     bindE (canonical_semver (gv_document_version c)) (\<lambda>ver.
     raise_if (pc_chunk_ordinal c < 0) ''greater_than_equal''
     (bindE (validate_code lower (gv_namespace c)) (\<lambda>ns.
     bindE (validate_section_key (pc_section_key c)) (\<lambda>key.
     bindE (plain_str (pc_heading c)) (\<lambda>head.
     bindE (optional_checked validate_identifier (gv_customer_environment_id c)) (\<lambda>cust.
     bindE (map_checked (validate_code lower) (gv_required_modules_all c)) (\<lambda>mods.
     bindE (map_checked validate_policy_code (gv_required_permissions_all c)) (\<lambda>perms.
     bindE (map_checked (validate_code lower) (gv_allowed_purposes c)) (\<lambda>ps.
     bindE (map_checked validate_identifier (gv_legal_entity_ids c)) (\<lambda>les.
     bindE (language_code (gv_language c)) (\<lambda>lang.
     bindE (plain_str (gv_title c)) (\<lambda>title.
     bindE (plain_str (pc_content c)) (\<lambda>content.
       Inr (c\<lparr>pc_chunk_id := chk, pc_citation_id := cite, gv_document_version := ver,
              gv_namespace := ns, pc_section_key := key, pc_heading := head,
              gv_customer_environment_id := cust, gv_required_modules_all := mods,
              gv_required_permissions_all := perms, gv_allowed_purposes := ps,
              gv_legal_entity_ids := les, gv_language := lang, gv_title := title,
              pc_content := content\<rparr>))))))))))))))))"

text \<open>A bundle built from validated parts, and a bundle validated from its dump.\<close>

definition make_prepared_bundle :: "prepared_bundle \<Rightarrow> prepared_bundle checked" where
  "make_prepared_bundle b =
     raise_if (pb_total_normalized_utf8_bytes b < 1) ''greater_than_equal''
     (raise_if (pb_total_chunk_count b < 1) ''greater_than_equal'' (Inr b))"

definition validate_prepared_bundle ::
  "(pystr \<Rightarrow> pystr) \<Rightarrow> prepared_bundle \<Rightarrow> prepared_bundle checked" where
  "validate_prepared_bundle lower b =
     bindE (validate_prepared_manifest lower (pb_manifest b)) (\<lambda>m.
     bindE (map_checked (validate_prepared_chunk lower) (pb_chunks b)) (\<lambda>cs.
       make_prepared_bundle (b\<lparr>pb_manifest := m, pb_chunks := cs\<rparr>)))"

section \<open>Preparation\<close>

text \<open>The Unicode tables, the text of a float in JSON and the hexadecimal SHA-256 digest of the UTF-8
  encoding of a text.\<close>

record ingest_env =
  ie_lower :: "pystr \<Rightarrow> pystr"
  ie_nfc :: "pystr \<Rightarrow> pystr"
  ie_float_text :: "float64 \<Rightarrow> pystr"
  ie_sha256 :: "pystr \<Rightarrow> pystr"

definition json_sha256 :: "ingest_env \<Rightarrow> json \<Rightarrow> pystr checked" where
  "json_sha256 env v = bindE (canonical_json_text (ie_float_text env) v) (\<lambda>t. Inr (ie_sha256 env t))"

definition opaque_id :: "ingest_env \<Rightarrow> pystr \<Rightarrow> pystr \<Rightarrow> nat \<Rightarrow> pystr checked" where
  "opaque_id env kind fp ordinal =
     bindE (json_sha256 env (JObj [(lit ''fingerprint'', JStr fp), (lit ''ordinal'', JInt (int
         ordinal)),
         (lit ''kind'', JStr kind)])) (\<lambda>h.
       Inr (kind @ [95] @ take 32 h))"

definition optional_str :: "pystr option \<Rightarrow> json" where
  "optional_str v = (case v of None \<Rightarrow> JNull | Some s \<Rightarrow> JStr s)"

definition source_type_value :: "knowledge_source_type \<Rightarrow> pystr" where
  "source_type_value t = (case t of PRODUCT_DOCUMENTATION \<Rightarrow> lit ''product_documentation''
     | CUSTOMER_POLICY \<Rightarrow> lit ''customer_policy'')"

definition classification_value :: "data_classification \<Rightarrow> pystr" where
  "classification_value c = (case c of PUBLIC \<Rightarrow> lit ''public'' | INTERNAL \<Rightarrow> lit ''internal''
     | RESTRICTED \<Rightarrow> lit ''restricted'' | HIGHLY_RESTRICTED \<Rightarrow> lit ''highly_restricted'')"

definition provenance_json :: "source_provenance option \<Rightarrow> json" where
  "provenance_json p = (case p of None \<Rightarrow> JNull | Some q \<Rightarrow>
     JObj [(lit ''catalog_version'', JInt (sp_catalog_version q)),
       (lit ''raw_source_sha256'', JStr (sp_raw_source_sha256 q)),
       (lit ''parser_name'', JStr (sp_parser_name q)),
       (lit ''parser_major_version'', JInt (sp_parser_major_version q)),
       (lit ''adapter_contract_version'', JInt (sp_adapter_contract_version q))])"

definition section_json :: "knowledge_section \<Rightarrow> json" where
  "section_json s = JObj [(lit ''section_key'', JStr (sec_key s)), (lit ''heading'', JStr (sec_heading
      s)),
     (lit ''blocks'', JArr (map JStr (sec_blocks s)))]"

definition content_payload :: "zoned_time document_draft \<Rightarrow> json" where
  "content_payload d = JObj [(lit ''title'', JStr (gv_title d)),
     (lit ''sections'', JArr (map section_json (dr_sections d)))]"

definition governance_payload :: "zoned_time document_draft \<Rightarrow> json" where
  "governance_payload d = JObj
     [(lit ''document_id'', JStr (uuid_str (gv_document_id d))),
      (lit ''document_version'', JStr (gv_document_version d)),
      (lit ''namespace'', JStr (gv_namespace d)),
      (lit ''source_type'', JStr (source_type_value (gv_source_type d))),
      (lit ''customer_environment_id'', optional_str (gv_customer_environment_id d)),
      (lit ''language'', JStr (gv_language d)),
      (lit ''required_modules_all'', JArr (map JStr (gv_required_modules_all d))),
      (lit ''required_permissions_all'', JArr (map JStr (gv_required_permissions_all d))),
      (lit ''allowed_purposes'', JArr (map JStr (gv_allowed_purposes d))),
      (lit ''legal_entity_ids'', JArr (map JStr (gv_legal_entity_ids d))),
      (lit ''data_classification'', JStr (classification_value (gv_data_classification d))),
      (lit ''effective_from'', JStr (isoformat (gv_effective_from d))),
      (lit ''effective_to'', optional_str (map_option isoformat (gv_effective_to d))),
      (lit ''approval_reference'', JStr (dr_approval_reference d)),
      (lit ''approved_at'', JStr (isoformat (dr_approved_at d))),
      (lit ''source_provenance'', provenance_json (dr_source_provenance d))]"

definition validate_governance :: "zoned_time document_draft \<Rightarrow> unit checked" where
  "validate_governance d =
     raise_if (gv_namespace d \<noteq> lit ''hr'') ''only the HR knowledge namespace is currently approved''
     (raise_if (gv_source_type d = PRODUCT_DOCUMENTATION \<and> gv_customer_environment_id d \<noteq> None)
        ''global product documentation cannot have customer scope''
     (raise_if (gv_source_type d \<noteq> PRODUCT_DOCUMENTATION \<and> gv_customer_environment_id d = None)
        ''customer policy requires customer scope''
     (raise_if (gv_data_classification d = HIGHLY_RESTRICTED)
        ''classification exceeds HR knowledge retrieval support''
     (raise_if (lit ''leave'' \<in> set (gv_required_modules_all d)
          \<and> \<not> {lit ''hr_core'', lit ''leave''} \<subseteq> set (gv_required_modules_all d))
        ''Leave knowledge requires hr_core and leave'' (Inr ())))))"

definition disposition ::
  "zoned_time document_draft \<Rightarrow> pystr \<Rightarrow> existing_manifest option
     \<Rightarrow> (preparation_disposition \<times> pystr option) checked" where
  "disposition d fp existing =
     (case existing of None \<Rightarrow> Inr (NEW_DOCUMENT, None)
      | Some e \<Rightarrow>
          raise_if (em_document_id e \<noteq> gv_document_id d) ''existing manifest document mismatch''
          (bindE (semver_components (gv_document_version d)) (\<lambda>new.
           bindE (semver_components (em_document_version e)) (\<lambda>old.
             if new = old then
               raise_if (em_document_fingerprint e \<noteq> fp)
                 ''same document version has changed content or governance'' (Inr (IDEMPOTENT, None))
             else
               raise_if (new < old) ''older document version is forbidden''
                 (Inr (SUPERSEDING_VERSION, Some (em_document_version e)))))))"

definition prepare_chunk ::
  "ingest_env \<Rightarrow> zoned_time document_draft \<Rightarrow> pystr \<Rightarrow> nat \<times> section_chunk \<Rightarrow> prepared_chunk checked" where
  "prepare_chunk env d fp q =
     bindE (opaque_id env (lit ''chk'') fp (fst q)) (\<lambda>chk.
     bindE (opaque_id env (lit ''cite'') fp (fst q)) (\<lambda>cite.
       validate_prepared_chunk (ie_lower env)
         (governance.extend (governance.truncate d)
            \<lparr>pc_chunk_id = chk, pc_citation_id = cite, pc_chunk_ordinal = int (fst q),
             pc_section_key = sc_key (snd q), pc_heading = sc_heading (snd q),
             pc_content = sc_content (snd q)\<rparr>)))"

definition document_bytes :: "zoned_time document_draft \<Rightarrow> nat" where
  "document_bytes d = utf8_size (gv_title d)
     + sum_list (map (\<lambda>s. utf8_size (sec_heading s) + sum_list (map utf8_size (sec_blocks s)))
         (dr_sections d))"

definition check_limits :: "ingestion_limits \<Rightarrow> zoned_time document_draft \<Rightarrow> unit checked" where
  "check_limits l d =
     raise_if (length (dr_sections d) > maximum_sections l) ''section limit exceeded''
     (raise_if (sum_list (map (\<lambda>s. length (sec_blocks s)) (dr_sections d)) > maximum_blocks l)
        ''block limit exceeded''
     (raise_if (list_ex (\<lambda>s. list_ex (\<lambda>b. utf8_size b > maximum_block_bytes l) (sec_blocks s))
         (dr_sections d))
        ''normalized block byte limit exceeded''
     (raise_if (document_bytes d > maximum_document_bytes l) ''document byte limit exceeded'' (Inr
         ()))))"

definition draft_manifest ::
  "zoned_time document_draft \<Rightarrow> pystr \<Rightarrow> pystr \<Rightarrow> pystr \<Rightarrow> pystr option \<Rightarrow> prepared_manifest" where
  "draft_manifest d content gov fp supersedes =
     \<lparr>pm_document_id = gv_document_id d, pm_document_version = gv_document_version d,
      pm_namespace = gv_namespace d, pm_source_type = gv_source_type d,
      pm_customer_environment_id = gv_customer_environment_id d,
      pm_source_provenance = dr_source_provenance d, pm_normalized_content_sha256 = content,
      pm_governance_sha256 = gov, pm_document_fingerprint = fp, pm_supersedes_version = supersedes\<rparr>"

definition prepare_knowledge_document ::
  "ingest_env \<Rightarrow> zoned_time document_draft \<Rightarrow> existing_manifest option \<Rightarrow> ingestion_limits option
     \<Rightarrow> prepared_bundle checked" where
  "prepare_knowledge_document env d existing limits =
     (let l = (case limits of None \<Rightarrow> default_ingestion_limits | Some l \<Rightarrow> l) in
      bindE (validate_governance d) (\<lambda>_.
      bindE (check_limits l d) (\<lambda>_.
      bindE (json_sha256 env (content_payload d)) (\<lambda>content.
      bindE (json_sha256 env (governance_payload d)) (\<lambda>gov.
      bindE (json_sha256 env (JObj [(lit ''content'', JStr content), (lit ''governance'', JStr gov)]))
          (\<lambda>fp.
      bindE (disposition d fp existing) (\<lambda>(disp, supersedes).
      bindE (chunk_sections (dr_sections d) l) (\<lambda>raw.
      raise_if (length raw > maximum_chunks l) ''chunk limit exceeded''
      (bindE (map_checked (prepare_chunk env d fp) (enumerate 0 raw)) (\<lambda>chunks.
       bindE (validate_prepared_manifest (ie_lower env)
         (draft_manifest d content gov fp supersedes)) (\<lambda>manifest.
        make_prepared_bundle
          \<lparr>pb_manifest = manifest, pb_chunks = chunks, pb_disposition = disp,
           pb_total_normalized_utf8_bytes = int (document_bytes d),
           pb_total_chunk_count = int (length chunks)\<rparr>)))))))))))"

end
