(* ===== verification/Publishing.thy ===== *)
theory Publishing
  imports Ingestion Effects
begin

text \<open>
  Publication of knowledge generations (\<open>src/erp_ai/knowledge/indexing/\<close>): the contracts, the
  defensive validation of prepared bundles, the generation digest, the publication plan, and
  the publisher with its repository, clock and identifier factory as operations on the world. The
  timestamps of a bundle are aware, as prepared; the clock may be naive.
\<close>

section \<open>Contracts\<close>

record index_scope =
  is_namespace :: pystr
  is_customer_environment_id :: pystr

record 't publication_context =
  pu_operation_id :: pystr
  pu_request_id :: pystr
  pu_customer_environment_id :: pystr
  pu_actor_id :: pystr
  pu_namespace :: pystr
  pu_installed_modules :: "pystr list"
  pu_authorization_snapshot_id :: pystr
  pu_issued_at :: 't

definition validate_publication_context ::
  "(pystr \<Rightarrow> pystr) \<Rightarrow> raw_datetime publication_context \<Rightarrow> zoned_time publication_context checked" where
  "validate_publication_context lower c =
     bindE (validate_identifier (pu_operation_id c)) (\<lambda>op_id.
     bindE (validate_identifier (pu_request_id c)) (\<lambda>rid.
     bindE (validate_identifier (pu_customer_environment_id c)) (\<lambda>cust.
     bindE (validate_identifier (pu_actor_id c)) (\<lambda>actor.
     bindE (validate_code lower (pu_namespace c)) (\<lambda>ns.
     bindE (bindE (unique_sorted ''duplicate values are not allowed'' (pu_installed_modules c))
              (map_checked (validate_code lower))) (\<lambda>mods.
     bindE (validate_identifier (pu_authorization_snapshot_id c)) (\<lambda>snap.
     bindE (require_zone ''issued_at must be timezone-aware'' (pu_issued_at c)) (\<lambda>iat.
       Inr \<lparr>pu_operation_id = op_id, pu_request_id = rid, pu_customer_environment_id = cust,
            pu_actor_id = actor, pu_namespace = ns, pu_installed_modules = mods,
            pu_authorization_snapshot_id = snap, pu_issued_at = iat\<rparr>))))))))"

definition make_scope :: "(pystr \<Rightarrow> pystr) \<Rightarrow> zoned_time publication_context \<Rightarrow> index_scope checked" where
  "make_scope lower c =
     bindE (validate_code lower (pu_namespace c)) (\<lambda>ns.
     bindE (validate_identifier (pu_customer_environment_id c)) (\<lambda>cust.
       Inr \<lparr>is_namespace = ns, is_customer_environment_id = cust\<rparr>))"

datatype publication_disposition = PUBLISHED | ALREADY_DONE | ROLLED_BACK
datatype generation_status = CANDIDATE | ACTIVE | RETIRED

record generation_manifest =
  gm_generation_id :: uuid
  gm_scope :: index_scope
  gm_generation_digest :: pystr
  gm_document_count :: nat
  gm_chunk_count :: nat
  gm_total_normalized_bytes :: int
  gm_status :: generation_status

datatype outbox_action = PublishAction | RollbackAction

record outbox_event =
  ob_outbox_id :: uuid
  ob_operation_id :: pystr
  ob_request_id :: pystr
  ob_customer_environment_id :: pystr
  ob_actor_id :: pystr
  ob_namespace :: pystr
  ob_action :: outbox_action
  ob_previous_generation_id :: "uuid option"
  ob_activated_generation_id :: uuid
  ob_generation_digest :: pystr

record publication_plan =
  pp_context :: "zoned_time publication_context"
  pp_manifest :: generation_manifest
  pp_bundles :: "prepared_bundle list"
  pp_operation_digest :: pystr
  pp_outbox_event :: outbox_event

record publication_result =
  pr_operation_id :: pystr
  pr_scope :: index_scope
  pr_generation_id :: uuid
  pr_previous_generation_id :: "uuid option"
  pr_generation_digest :: pystr
  pr_operation_digest :: pystr
  pr_disposition :: publication_disposition

record rollback_request =
  rk_context :: "zoned_time publication_context"
  rk_scope :: index_scope
  rk_target_generation_id :: uuid
  rk_operation_digest :: pystr
  rk_outbox_id :: uuid

record rollback_result =
  rb_operation_id :: pystr
  rb_scope :: index_scope
  rb_activated_generation_id :: uuid
  rb_previous_generation_id :: uuid
  rb_generation_digest :: pystr
  rb_operation_digest :: pystr
  rb_disposition :: publication_disposition

record index_snapshot =
  ix_scope :: index_scope
  ix_active_generation_id :: uuid
  ix_generation_digest :: pystr

datatype operation_result = PublicationDone publication_result | RollbackDone rollback_result

record publication_limits =
  maximum_documents :: nat
  maximum_total_chunks :: nat
  maximum_normalized_bytes :: nat
  maximum_bundles_per_call :: nat

definition default_publication_limits :: publication_limits where
  "default_publication_limits = \<lparr>maximum_documents = 10000, maximum_total_chunks = 500000,
     maximum_normalized_bytes = 2147483648, maximum_bundles_per_call = 10000\<rparr>"

section \<open>Validation of a bundle\<close>

text \<open>The fields the chunks of a document share; the timestamps are compared as instants.\<close>

definition chunk_governance ::
  "prepared_chunk \<Rightarrow> pystr list \<times> pystr list \<times> pystr list \<times> pystr list \<times> data_classification \<times> pystr
     \<times> pystr \<times> instant \<times> instant option" where
  "chunk_governance c = (gv_required_modules_all c, gv_required_permissions_all c, gv_allowed_purposes
      c,
     gv_legal_entity_ids c, gv_data_classification c, gv_language c, gv_title c,
     zt_instant (gv_effective_from c), map_option zt_instant (gv_effective_to c))"

text \<open>The publisher computes the digests and the identifiers of a bundle again, with functions of its own.\<close>

definition publisher_digest :: "ingest_env \<Rightarrow> json \<Rightarrow> pystr checked" where
  "publisher_digest env v =
     (case canonical_json_text (ie_float_text env) v of
        Inl e \<Rightarrow> Inl e | Inr text \<Rightarrow> Inr (ie_sha256 env text))"

definition opaque_chunk_id :: "ingest_env \<Rightarrow> pystr \<Rightarrow> pystr \<Rightarrow> int \<Rightarrow> pystr checked" where
  "opaque_chunk_id env kind fingerprint ordinal =
     bindE (publisher_digest env (JObj [(lit ''fingerprint'', JStr fingerprint), (lit ''ordinal'', JInt ordinal),
       (lit ''kind'', JStr kind)])) (\<lambda>digest.
     Inr (kind @ lit ''_'' @ take 32 digest))"

definition fingerprint_of :: "ingest_env \<Rightarrow> prepared_manifest \<Rightarrow> pystr checked" where
  "fingerprint_of env m = publisher_digest env
     (JObj [(lit ''content'', JStr (pm_normalized_content_sha256 m)),
            (lit ''governance'', JStr (pm_governance_sha256 m))])"

definition validate_chunk ::
  "ingest_env \<Rightarrow> prepared_manifest \<Rightarrow> prepared_chunk \<Rightarrow> prepared_chunk \<Rightarrow> unit checked" where
  "validate_chunk env m first c =
     raise_if (gv_document_id c \<noteq> pm_document_id m \<or> gv_document_version c \<noteq> pm_document_version m \<or>
         gv_namespace c \<noteq> pm_namespace m \<or> gv_source_type c \<noteq> pm_source_type m \<or>
         gv_customer_environment_id c \<noteq> pm_customer_environment_id m)
       ''prepared chunk metadata is inconsistent''
     (raise_if (chunk_governance c \<noteq> chunk_governance first)
         ''prepared chunk governance is inconsistent''
     (bindE (opaque_chunk_id env (lit ''chk'') (pm_document_fingerprint m) (pc_chunk_ordinal c)) (\<lambda>chk.
      raise_if (pc_chunk_id c \<noteq> chk) ''prepared chunk fingerprint is invalid''
      (bindE (opaque_chunk_id env (lit ''cite'') (pm_document_fingerprint m) (pc_chunk_ordinal c))
          (\<lambda>cite.
       raise_if (pc_citation_id c \<noteq> cite) ''prepared citation fingerprint is invalid'' (Inr ()))))))"

definition validate_chunk_metadata :: "ingest_env \<Rightarrow> prepared_bundle \<Rightarrow> unit checked" where
  "validate_chunk_metadata env b =
     raise_if (map pc_chunk_ordinal (pb_chunks b) \<noteq> map int [0..<length (pb_chunks b)])
       ''prepared bundle ordering is invalid''
     (raise_if (pb_total_chunk_count b \<noteq> int (length (pb_chunks b)) \<or> pb_chunks b = [])
        ''prepared bundle chunk totals are invalid''
     (bindE (fingerprint_of env (pb_manifest b)) (\<lambda>fp.
      raise_if (pm_document_fingerprint (pb_manifest b) \<noteq> fp)
          ''prepared document fingerprint is invalid''
      (bindE (map_checked (validate_chunk env (pb_manifest b) (hd (pb_chunks b))) (pb_chunks b)) (\<lambda>_.
        Inr ())))))"

section \<open>The digest of a generation\<close>

definition scope_json :: "index_scope \<Rightarrow> json" where
  "scope_json s = JObj [(lit ''namespace'', JStr (is_namespace s)),
     (lit ''customer_environment_id'', JStr (is_customer_environment_id s))]"

definition source_provenance_fingerprint :: "ingest_env \<Rightarrow> prepared_manifest \<Rightarrow> pystr checked" where
  "source_provenance_fingerprint env m = publisher_digest env (provenance_json (pm_source_provenance m))"

definition chunk_digest_text :: "ingest_env \<Rightarrow> prepared_chunk \<Rightarrow> pystr checked" where
  "chunk_digest_text env c =
     raise_if (\<not> utf8_encodable (pc_content c)) ''surrogates not allowed''
     (canonical_json_text (ie_float_text env)
       (JObj [(lit ''chunk_id'', JStr (pc_chunk_id c)),
              (lit ''content_sha256'', JStr (ie_sha256 env (pc_content c)))]))"

definition bundle_digest_text :: "ingest_env \<Rightarrow> prepared_bundle \<Rightarrow> pystr checked" where
  "bundle_digest_text env b =
     (let m = pb_manifest b in
      bindE (source_provenance_fingerprint env m) (\<lambda>prov.
      bindE (canonical_json_text (ie_float_text env)
        (JObj [(lit ''document_id'', JStr (uuid_str (pm_document_id m))),
               (lit ''version'', JStr (pm_document_version m)),
               (lit ''document_fingerprint'', JStr (pm_document_fingerprint m)),
               (lit ''governance_fingerprint'', JStr (pm_governance_sha256 m)),
               (lit ''source_provenance_fingerprint'', JStr prov)])) (\<lambda>head.
      bindE (map_checked (chunk_digest_text env) (pb_chunks b)) (\<lambda>parts.
        Inr (head @ concat parts)))))"

definition generation_digest :: "ingest_env \<Rightarrow> index_scope \<Rightarrow> prepared_bundle list \<Rightarrow> pystr checked" where
  "generation_digest env sc bs =
     bindE (canonical_json_text (ie_float_text env)
       (JObj [(lit ''contract'', JInt 1), (lit ''scope'', scope_json sc)])) (\<lambda>start.
     bindE (map_checked (bundle_digest_text env) bs) (\<lambda>parts.
     bindE (canonical_json_text (ie_float_text env)
       (JObj [(lit ''document_count'', JInt (int (length bs))),
              (lit ''chunk_count'', JInt (int (sum_list (map (\<lambda>b. length (pb_chunks b)) bs)))),
              (lit ''total_normalized_bytes'', JInt (sum_list (map pb_total_normalized_utf8_bytes
                  bs)))]))
       (\<lambda>end.
       Inr (ie_sha256 env (start @ concat parts @ end)))))"

section \<open>The plan\<close>

record plan_state =
  ps_versions :: "uuid \<rightharpoonup> pystr"
  ps_chunk_ids :: "pystr set"
  ps_citation_ids :: "pystr set"
  ps_total_chunks :: nat
  ps_total_bytes :: int
  ps_validated :: "prepared_bundle list"

definition empty_plan :: plan_state where
  "empty_plan = \<lparr>ps_versions = Map.empty, ps_chunk_ids = {}, ps_citation_ids = {}, ps_total_chunks = 0,
     ps_total_bytes = 0, ps_validated = []\<rparr>"

definition NAIVE_COMPARISON :: string where
  "NAIVE_COMPARISON = ''can't compare offset-naive and offset-aware datetimes''"

text \<open>\<open>chunk.effective_to <= now\<close> raises on a naive clock.\<close>

fun expired_at :: "py_datetime \<Rightarrow> prepared_chunk list \<Rightarrow> bool checked" where
  "expired_at now [] = Inr False"
| "expired_at now (c # cs) =
     (case gv_effective_to c of
        None \<Rightarrow> expired_at now cs
      | Some t \<Rightarrow>
         (case now of
            Naive _ \<Rightarrow> Inl NAIVE_COMPARISON
          | Aware n \<Rightarrow> if zt_instant t \<le> n then Inr True else expired_at now cs))"

definition admit_bundle ::
  "ingest_env \<Rightarrow> zoned_time publication_context \<Rightarrow> index_scope \<Rightarrow> publication_limits \<Rightarrow> py_datetime
     \<Rightarrow> plan_state \<Rightarrow> prepared_bundle \<Rightarrow> plan_state checked" where
  "admit_bundle env ctx sc l now st b0 =
     bindE (validate_prepared_bundle (ie_lower env) b0) (\<lambda>b.
     let m = pb_manifest b; cs = pb_chunks b in
     raise_if (case ps_versions st (pm_document_id m) of None \<Rightarrow> False | Some v \<Rightarrow> v \<noteq>
         pm_document_version m)
       ''conflicting document versions are forbidden''
     (raise_if (ps_versions st (pm_document_id m) \<noteq> None) ''duplicate document IDs are forbidden''
     (raise_if (list_ex (\<lambda>c. pc_chunk_id c \<in> ps_chunk_ids st) cs)
         ''duplicate prepared chunk IDs are forbidden''
     (raise_if (list_ex (\<lambda>c. pc_citation_id c \<in> ps_citation_ids st) cs)
        ''duplicate prepared citation IDs are forbidden''
     (bindE (validate_chunk_metadata env b) (\<lambda>_.
      raise_if (pm_namespace m \<noteq> is_namespace sc) ''document namespace is outside publication scope''
     (raise_if (pm_source_type m = PRODUCT_DOCUMENTATION \<and> pm_customer_environment_id m \<noteq> None)
        ''global document has customer scope''
     (raise_if (pm_source_type m \<noteq> PRODUCT_DOCUMENTATION
          \<and> pm_customer_environment_id m \<noteq> Some (is_customer_environment_id sc))
        ''customer policy is outside publication scope''
     (raise_if (\<not> set (gv_required_modules_all (hd cs)) \<subseteq> set (pu_installed_modules ctx))
        ''document requires an unavailable module''
     (bindE (expired_at now cs) (\<lambda>expired.
      raise_if expired ''expired documents cannot be published''
     (raise_if (list_ex (\<lambda>c. gv_data_classification c = HIGHLY_RESTRICTED) cs)
        ''document classification is unsupported''
     (let chunks = ps_total_chunks st + length cs;
          bytes = ps_total_bytes st + pb_total_normalized_utf8_bytes b in
      raise_if (length (ps_validated st) + 1 > maximum_documents l \<or> chunks > maximum_total_chunks l
          \<or> bytes > int (maximum_normalized_bytes l))
        ''publication limits exceeded''
        (Inr \<lparr>ps_versions = (ps_versions st)(pm_document_id m \<mapsto> pm_document_version m),
              ps_chunk_ids = ps_chunk_ids st \<union> pc_chunk_id ` set cs,
              ps_citation_ids = ps_citation_ids st \<union> pc_citation_id ` set cs,
              ps_total_chunks = chunks, ps_total_bytes = bytes,
              ps_validated = ps_validated st @ [b]\<rparr>))))))))))))))"

fun admit_bundles ::
  "ingest_env \<Rightarrow> zoned_time publication_context \<Rightarrow> index_scope \<Rightarrow> publication_limits \<Rightarrow> py_datetime
     \<Rightarrow> plan_state \<Rightarrow> prepared_bundle list \<Rightarrow> plan_state checked" where
  "admit_bundles env ctx sc l now st [] = Inr st"
| "admit_bundles env ctx sc l now st (b # bs) =
     bindE (admit_bundle env ctx sc l now st b) (\<lambda>st'. admit_bundles env ctx sc l now st' bs)"

definition bundle_key :: "prepared_bundle \<Rightarrow> pystr \<times> pystr" where
  "bundle_key b = (uuid_str (pm_document_id (pb_manifest b)), pm_document_version (pb_manifest b))"

section \<open>The publisher\<close>

record 'w index_publisher =
  kp_commit_generation :: "(publication_plan \<times> uuid option, 'w, publication_result outcome) op"
  kp_get_active_snapshot :: "(index_scope, 'w, index_snapshot option outcome) op"
  kp_commit_rollback :: "(rollback_request \<times> uuid, 'w, rollback_result outcome) op"
  kp_get_operation_result :: "(pystr, 'w, operation_result option outcome) op"
  kp_clock :: "'w \<Rightarrow> py_datetime outcome \<times> 'w"
  kp_id_factory :: "'w \<Rightarrow> uuid outcome \<times> 'w"

datatype publication_stop = Raised exn | PublicationError | PublicationConflict

text \<open>The comparison with a naive clock raises a \<open>TypeError\<close>, every other check the publication error.\<close>

definition admission_stop :: "string \<Rightarrow> publication_stop" where
  "admission_stop msg = (if msg = NAIVE_COMPARISON then Raised Failed else PublicationError)"

definition checked_by :: "(string \<Rightarrow> 'e) \<Rightarrow> 'a checked \<Rightarrow> ('e, 'w, 'a) proc" where
  "checked_by f m = (case m of Inl e \<Rightarrow> stop (f e) | Inr x \<Rightarrow> give x)"

lemma checked_by_Inr [simp]: "checked_by f m w = (Inr x, w') \<longleftrightarrow> m = Inr x \<and> w' = w"
  by (cases m) (auto simp: checked_by_def)

definition operation_digest :: "ingest_env \<Rightarrow> index_scope \<Rightarrow> string \<Rightarrow> pystr \<Rightarrow> pystr checked" where
  "operation_digest env sc key value = publisher_digest env (JObj [(lit ''scope'', scope_json sc), (lit key,
      JStr value)])"

definition finish_plan ::
  "ingest_env \<Rightarrow> 'w index_publisher \<Rightarrow> zoned_time publication_context \<Rightarrow> index_scope \<Rightarrow> plan_state
     \<Rightarrow> (publication_stop, 'w, publication_plan) proc" where
  "finish_plan env p ctx sc st =
     (let ordered = sort_key bundle_key (ps_validated st) in
      andthen (checked_or (Raised Failed) (generation_digest env sc ordered)) (\<lambda>digest.
      andthen (attempt Raised (kp_id_factory p)) (\<lambda>gid.
      andthen (checked_or (Raised Failed) (operation_digest env sc ''generation'' digest)) (\<lambda>opd.
      andthen (attempt Raised (kp_id_factory p)) (\<lambda>oid.
        give \<lparr>pp_context = ctx,
          pp_manifest = \<lparr>gm_generation_id = gid, gm_scope = sc, gm_generation_digest = digest,
            gm_document_count = length ordered, gm_chunk_count = ps_total_chunks st,
            gm_total_normalized_bytes = ps_total_bytes st, gm_status = CANDIDATE\<rparr>,
          pp_bundles = ordered, pp_operation_digest = opd,
          pp_outbox_event = \<lparr>ob_outbox_id = oid, ob_operation_id = pu_operation_id ctx,
            ob_request_id = pu_request_id ctx,
            ob_customer_environment_id = pu_customer_environment_id ctx, ob_actor_id = pu_actor_id ctx,
            ob_namespace = pu_namespace ctx, ob_action = PublishAction,
            ob_previous_generation_id = None, ob_activated_generation_id = gid,
            ob_generation_digest = digest\<rparr>\<rparr>)))))"

definition build_plan ::
  "ingest_env \<Rightarrow> 'w index_publisher \<Rightarrow> raw_datetime publication_context \<Rightarrow> prepared_bundle list
     \<Rightarrow> publication_limits option \<Rightarrow> (publication_stop, 'w, publication_plan) proc" where
  "build_plan env p c bundles limits =
     (let l = (case limits of None \<Rightarrow> default_publication_limits | Some l \<Rightarrow> l) in
      andthen (checked_or PublicationError (validate_publication_context (ie_lower env) c)) (\<lambda>ctx.
      andthen (checked_or (Raised Failed) (make_scope (ie_lower env) ctx)) (\<lambda>sc.
      andthen (unless (length bundles > maximum_bundles_per_call l \<or> bundles = []) PublicationError)
          (\<lambda>_.
      andthen (attempt Raised (kp_clock p)) (\<lambda>now.
      andthen (checked_by admission_stop (admit_bundles env ctx sc l now empty_plan bundles)) (\<lambda>st.
        finish_plan env p ctx sc st))))))"

definition publish ::
  "ingest_env \<Rightarrow> 'w index_publisher \<Rightarrow> raw_datetime publication_context \<Rightarrow> prepared_bundle list
      \<Rightarrow> uuid option
     \<Rightarrow> publication_limits option \<Rightarrow> (publication_stop, 'w, publication_result) proc" where
  "publish env p c bundles expected limits =
     andthen (build_plan env p c bundles limits) (\<lambda>plan.
     andthen (attempt Raised (kp_get_operation_result p (pu_operation_id (pp_context plan))))
         (\<lambda>existing.
       case existing of
         Some (PublicationDone r) \<Rightarrow>
           if pr_operation_digest r \<noteq> pp_operation_digest plan then stop PublicationConflict else give r
       | Some (RollbackDone _) \<Rightarrow> stop PublicationConflict
       | None \<Rightarrow> attempt Raised (kp_commit_generation p (plan, expected))))"

definition get_active_snapshot ::
  "'w index_publisher \<Rightarrow> index_scope \<Rightarrow> (publication_stop, 'w, index_snapshot option) proc" where
  "get_active_snapshot p sc = attempt Raised (kp_get_active_snapshot p sc)"

definition rollback ::
  "ingest_env \<Rightarrow> 'w index_publisher \<Rightarrow> raw_datetime publication_context \<Rightarrow> uuid \<Rightarrow> uuid
     \<Rightarrow> (publication_stop, 'w, rollback_result) proc" where
  "rollback env p c target expected =
     andthen (checked_or PublicationError (validate_publication_context (ie_lower env) c)) (\<lambda>ctx.
     andthen (checked_or (Raised Failed) (make_scope (ie_lower env) ctx)) (\<lambda>sc.
     andthen (checked_or (Raised Failed) (operation_digest env sc ''rollback_target'' (uuid_str
         target))) (\<lambda>opd.
     andthen (attempt Raised (kp_get_operation_result p (pu_operation_id ctx))) (\<lambda>existing.
       case existing of
         Some (RollbackDone r) \<Rightarrow>
           if rb_operation_digest r \<noteq> opd then stop PublicationConflict else give r
       | Some (PublicationDone _) \<Rightarrow> stop PublicationConflict
       | None \<Rightarrow>
           andthen (attempt Raised (kp_id_factory p)) (\<lambda>oid.
             attempt Raised (kp_commit_rollback p
               (\<lparr>rk_context = ctx, rk_scope = sc, rk_target_generation_id = target,
                 rk_operation_digest = opd, rk_outbox_id = oid\<rparr>, expected)))))))"

end
