(* ===== verification/KnowledgeStore.thy ===== *)
theory KnowledgeStore
  imports Publishing
begin

text \<open>
  The knowledge repository (\<open>infrastructure/postgres/knowledge_repository.py\<close>): the rows of its
  customer's tables with the checks of the schema, the statements, and the four operations as
  transactions. A transaction is atomic; it may be aborted, and the reply to its commit may be lost.
\<close>

section \<open>Tables\<close>

record generation_row =
  gr_namespace :: pystr
  gr_generation_digest :: pystr
  gr_document_count :: nat
  gr_chunk_count :: nat
  gr_total_normalized_bytes :: int
  gr_status :: generation_status

record document_row =
  dw_generation_id :: uuid
  dw_document_id :: uuid
  dw_document_version :: pystr
  dw_namespace :: pystr
  dw_source_type :: knowledge_source_type
  dw_customer_environment_id :: "pystr option"
  dw_normalized_content_sha256 :: pystr
  dw_governance_sha256 :: pystr
  dw_document_fingerprint :: pystr
  dw_source_provenance_sha256 :: pystr

record chunk_row =
  cw_generation_id :: uuid
  cw_chunk :: prepared_chunk
  cw_content_sha256 :: pystr

record operation_row =
  ow_namespace :: pystr
  ow_operation_digest :: pystr
  ow_result :: operation_result

record knowledge_db =
  db_identity :: "(pystr \<times> int) option"
  db_generations :: "uuid \<rightharpoonup> generation_row"
  db_active :: "pystr \<rightharpoonup> uuid \<times> pystr"
  db_documents :: "document_row list"
  db_chunks :: "chunk_row list"
  db_operations :: "pystr \<rightharpoonup> operation_row"
  db_outbox :: "outbox_event list"

section \<open>Transactions\<close>

datatype store_error = StoreConflict | StoreIdentity | StoreUnavailable | StoreCancelled

definition fetch :: "('d \<Rightarrow> 'a) \<Rightarrow> ('e, 'd, 'a) proc" where
  "fetch f = (\<lambda>db. (Inr (f db), db))"

definition modify :: "('d \<Rightarrow> 'd) \<Rightarrow> ('e, 'd, unit) proc" where
  "modify f = (\<lambda>db. (Inr (), f db))"

definition guard :: "('d \<Rightarrow> bool) \<Rightarrow> 'e \<Rightarrow> ('e, 'd, unit) proc" where
  "guard p e = (\<lambda>db. if p db then (Inr (), db) else (Inl e, db))"

fun each :: "('x \<Rightarrow> ('e, 'd, unit) proc) \<Rightarrow> 'x list \<Rightarrow> ('e, 'd, unit) proc" where
  "each f [] = give ()"
| "each f (x # xs) = andthen (f x) (\<lambda>_. each f xs)"

text \<open>
  A transaction is atomic. It may be aborted by the connection or by a serialization failure, and
  the reply to a commit may be lost.
\<close>

datatype db_fault = NoFault | Abort store_error | LostReply store_error

definition run_transaction ::
  "db_fault \<Rightarrow> (store_error, 'd, 'a) proc \<Rightarrow> 'd \<Rightarrow> (store_error + 'a) \<times> 'd" where
  "run_transaction fault t db =
     (case fault of
        Abort e \<Rightarrow> (Inl e, db)
      | _ \<Rightarrow>
         (case t db of
            (Inl e, _) \<Rightarrow> (Inl e, db)
          | (Inr x, db') \<Rightarrow> (case fault of LostReply e \<Rightarrow> (Inl e, db') | _ \<Rightarrow> (Inr x, db'))))"

definition establish :: "pystr \<Rightarrow> (store_error, knowledge_db, unit) proc" where
  "establish customer = guard (\<lambda>db. db_identity db = Some (customer, 1)) StoreIdentity"

section \<open>Statements\<close>

definition version_column :: "pystr \<Rightarrow> bool" where
  "version_column s \<longleftrightarrow> length s \<le> 64 \<and> is_semver s"

definition text_column :: "pystr \<Rightarrow> bool" where
  "text_column s \<longleftrightarrow> list_ex (\<lambda>c. c \<noteq> 32) s \<and> 0 \<notin> set s"

definition generation_row_ok :: "generation_row \<Rightarrow> bool" where
  "generation_row_ok r \<longleftrightarrow> is_code (gr_namespace r) \<and> is_digest (gr_generation_digest r)
     \<and> 0 < gr_document_count r \<and> gr_document_count r < 2 ^ 31 \<and> 0 < gr_chunk_count r \<and> gr_chunk_count r
         < 2 ^ 31
     \<and> 0 < gr_total_normalized_bytes r \<and> gr_total_normalized_bytes r < 2 ^ 63"

definition document_row_ok :: "document_row \<Rightarrow> bool" where
  "document_row_ok r \<longleftrightarrow> version_column (dw_document_version r) \<and> is_digest (dw_normalized_content_sha256
      r)
     \<and> is_digest (dw_governance_sha256 r) \<and> is_digest (dw_document_fingerprint r)
     \<and> is_digest (dw_source_provenance_sha256 r)"

definition chunk_row_ok :: "chunk_row \<Rightarrow> bool" where
  "chunk_row_ok r \<longleftrightarrow>
     (let c = cw_chunk r in
      version_column (gv_document_version c) \<and> 0 \<le> pc_chunk_ordinal c \<and> pc_chunk_ordinal c < 2 ^ 31
      \<and> gv_allowed_purposes c \<noteq> [] \<and> text_column (gv_title c) \<and> text_column (pc_heading c)
      \<and> text_column (pc_content c) \<and> is_digest (cw_content_sha256 r)
      \<and> \<not> ends_before_start c)"

definition insert_generation_row :: "uuid \<Rightarrow> generation_row \<Rightarrow> (store_error, knowledge_db, unit) proc"
    where
  "insert_generation_row gid r =
     andthen (unless (\<not> generation_row_ok r) StoreUnavailable) (\<lambda>_.
     andthen (guard (\<lambda>db. db_generations db gid = None) StoreConflict) (\<lambda>_.
       modify (\<lambda>db. db\<lparr>db_generations := (db_generations db)(gid \<mapsto> r)\<rparr>)))"

definition document_key :: "document_row \<Rightarrow> uuid \<times> uuid" where
  "document_key r = (dw_generation_id r, dw_document_id r)"

definition insert_document_row :: "document_row \<Rightarrow> (store_error, knowledge_db, unit) proc" where
  "insert_document_row r =
     andthen (unless (\<not> document_row_ok r) StoreUnavailable) (\<lambda>_.
     andthen (guard (\<lambda>db. document_key r \<notin> document_key ` set (db_documents db)) StoreConflict) (\<lambda>_.
     andthen (guard (\<lambda>db. db_generations db (dw_generation_id r) \<noteq> None) StoreUnavailable) (\<lambda>_.
       modify (\<lambda>db. db\<lparr>db_documents := db_documents db @ [r]\<rparr>))))"

definition chunk_keys_clash :: "chunk_row \<Rightarrow> chunk_row \<Rightarrow> bool" where
  "chunk_keys_clash r q \<longleftrightarrow> cw_generation_id r = cw_generation_id q
     \<and> (pc_chunk_id (cw_chunk r) = pc_chunk_id (cw_chunk q)
        \<or> pc_citation_id (cw_chunk r) = pc_citation_id (cw_chunk q)
        \<or> gv_document_id (cw_chunk r) = gv_document_id (cw_chunk q)
          \<and> pc_chunk_ordinal (cw_chunk r) = pc_chunk_ordinal (cw_chunk q))"

definition insert_chunk_row :: "chunk_row \<Rightarrow> (store_error, knowledge_db, unit) proc" where
  "insert_chunk_row r =
     andthen (unless (\<not> chunk_row_ok r) StoreUnavailable) (\<lambda>_.
     andthen (guard (\<lambda>db. \<not> list_ex (chunk_keys_clash r) (db_chunks db)) StoreConflict) (\<lambda>_.
     andthen (guard (\<lambda>db. (cw_generation_id r, gv_document_id (cw_chunk r)) \<in> document_key ` set
         (db_documents db))
        StoreUnavailable) (\<lambda>_.
       modify (\<lambda>db. db\<lparr>db_chunks := db_chunks db @ [r]\<rparr>))))"

definition insert_operation :: "pystr \<Rightarrow> operation_row \<Rightarrow> (store_error, knowledge_db, unit) proc" where
  "insert_operation oid r =
     andthen (unless (\<not> is_digest (ow_operation_digest r)) StoreUnavailable) (\<lambda>_.
     andthen (guard (\<lambda>db. db_operations db oid = None) StoreConflict) (\<lambda>_.
       modify (\<lambda>db. db\<lparr>db_operations := (db_operations db)(oid \<mapsto> r)\<rparr>)))"

definition insert_outbox :: "outbox_event \<Rightarrow> (store_error, knowledge_db, unit) proc" where
  "insert_outbox e =
     andthen (unless (\<not> is_digest (ob_generation_digest e)) StoreUnavailable) (\<lambda>_.
     andthen (guard (\<lambda>db. \<not> list_ex (\<lambda>f. ob_outbox_id f = ob_outbox_id e
          \<or> ob_operation_id f = ob_operation_id e) (db_outbox db)) StoreConflict) (\<lambda>_.
       modify (\<lambda>db. db\<lparr>db_outbox := db_outbox db @ [e]\<rparr>)))"

definition set_status :: "uuid \<Rightarrow> generation_status \<Rightarrow> (store_error, knowledge_db, unit) proc" where
  "set_status gid st = modify (\<lambda>db. db\<lparr>db_generations :=
     (db_generations db)(gid := map_option (\<lambda>r. r\<lparr>gr_status := st\<rparr>) (db_generations db gid))\<rparr>)"

definition upsert_active :: "pystr \<Rightarrow> uuid \<Rightarrow> pystr \<Rightarrow> (store_error, knowledge_db, unit) proc" where
  "upsert_active ns gid digest = modify (\<lambda>db. db\<lparr>db_active := (db_active db)(ns \<mapsto> (gid, digest))\<rparr>)"


section \<open>The repository\<close>

definition document_row_of :: "ingest_env \<Rightarrow> uuid \<Rightarrow> prepared_bundle \<Rightarrow> document_row checked" where
  "document_row_of env gid b =
     (let m = pb_manifest b in
      bindE (source_provenance_fingerprint env m) (\<lambda>prov.
        Inr \<lparr>dw_generation_id = gid, dw_document_id = pm_document_id m,
          dw_document_version = pm_document_version m, dw_namespace = pm_namespace m,
          dw_source_type = pm_source_type m, dw_customer_environment_id = pm_customer_environment_id m,
          dw_normalized_content_sha256 = pm_normalized_content_sha256 m,
          dw_governance_sha256 = pm_governance_sha256 m,
          dw_document_fingerprint = pm_document_fingerprint m, dw_source_provenance_sha256 = prov\<rparr>))"

definition chunk_row_of :: "ingest_env \<Rightarrow> uuid \<Rightarrow> prepared_chunk \<Rightarrow> chunk_row checked" where
  "chunk_row_of env gid c =
     raise_if (\<not> utf8_encodable (pc_content c)) ''surrogates not allowed''
       (Inr \<lparr>cw_generation_id = gid, cw_chunk = c, cw_content_sha256 = ie_sha256 env (pc_content c)\<rparr>)"

definition insert_generation :: "ingest_env \<Rightarrow> publication_plan \<Rightarrow> (store_error, knowledge_db, unit)
    proc" where
  "insert_generation env plan =
     (let m = pp_manifest plan; gid = gm_generation_id m in
      andthen (insert_generation_row gid
        \<lparr>gr_namespace = is_namespace (gm_scope m), gr_generation_digest = gm_generation_digest m,
         gr_document_count = gm_document_count m, gr_chunk_count = gm_chunk_count m,
         gr_total_normalized_bytes = gm_total_normalized_bytes m, gr_status = CANDIDATE\<rparr>) (\<lambda>_.
      andthen (checked_or StoreUnavailable (map_checked (document_row_of env gid) (pp_bundles plan)))
          (\<lambda>docs.
      andthen (checked_or StoreUnavailable
        (map_checked (chunk_row_of env gid) (concat (map pb_chunks (pp_bundles plan))))) (\<lambda>chunks.
      andthen (each insert_document_row docs) (\<lambda>_.
      andthen (each insert_chunk_row chunks) (\<lambda>_.
        guard (\<lambda>db. length (filter (\<lambda>r. dw_generation_id r = gid) (db_documents db)) =
            gm_document_count m
            \<and> length (filter (\<lambda>r. cw_generation_id r = gid) (db_chunks db)) = gm_chunk_count m
            \<and> map_option gr_generation_digest (db_generations db gid) = Some (gm_generation_digest m))
          StoreUnavailable))))))"

definition persist_result_and_outbox ::
  "publication_plan \<Rightarrow> publication_result \<Rightarrow> uuid option \<Rightarrow> (store_error, knowledge_db, unit) proc" where
  "persist_result_and_outbox plan result previous =
     andthen (insert_operation (pu_operation_id (pp_context plan))
       \<lparr>ow_namespace = is_namespace (gm_scope (pp_manifest plan)),
        ow_operation_digest = pp_operation_digest plan, ow_result = PublicationDone result\<rparr>) (\<lambda>_.
       insert_outbox ((pp_outbox_event plan)\<lparr>ob_customer_environment_id := is_customer_environment_id
           (gm_scope (pp_manifest plan)),
          ob_previous_generation_id := previous\<rparr>))"

definition find_operation :: "pystr \<Rightarrow> (store_error, knowledge_db, operation_result option) proc" where
  "find_operation oid = fetch (\<lambda>db. map_option ow_result (db_operations db oid))"

definition retire :: "uuid option \<Rightarrow> (store_error, knowledge_db, unit) proc" where
  "retire current = (case current of None \<Rightarrow> give () | Some g \<Rightarrow> set_status g RETIRED)"

definition activate_generation ::
  "ingest_env \<Rightarrow> publication_plan \<Rightarrow> uuid option \<Rightarrow> (store_error, knowledge_db, publication_result) proc"
      where
  "activate_generation env plan expected =
     (let m = pp_manifest plan; ns = is_namespace (gm_scope m); gid = gm_generation_id m in
      andthen (fetch (\<lambda>db. map_option fst (db_active db ns))) (\<lambda>current.
      andthen (unless (current \<noteq> expected) StoreConflict) (\<lambda>_.
      andthen (insert_generation env plan) (\<lambda>_.
      andthen (retire current) (\<lambda>_.
      andthen (set_status gid ACTIVE) (\<lambda>_.
      andthen (upsert_active ns gid (gm_generation_digest m)) (\<lambda>_.
      let result = \<lparr>pr_operation_id = pu_operation_id (pp_context plan), pr_scope = gm_scope m,
            pr_generation_id = gid, pr_previous_generation_id = current,
            pr_generation_digest = gm_generation_digest m, pr_operation_digest = pp_operation_digest
                plan,
            pr_disposition = PUBLISHED\<rparr> in
      andthen (persist_result_and_outbox plan result current) (\<lambda>_. give result))))))))"

definition commit_generation ::
  "ingest_env \<Rightarrow> pystr \<Rightarrow> publication_plan \<Rightarrow> uuid option \<Rightarrow> db_fault
     \<Rightarrow> knowledge_db \<Rightarrow> (store_error + publication_result) \<times> knowledge_db" where
  "commit_generation env customer plan expected fault db =
     (if is_customer_environment_id (gm_scope (pp_manifest plan)) \<noteq> customer then (Inl StoreIdentity,
         db)
      else run_transaction fault
        (andthen (establish customer) (\<lambda>_.
         andthen (find_operation (pu_operation_id (pp_context plan))) (\<lambda>existing.
           case existing of
             Some (PublicationDone r) \<Rightarrow>
               if pr_operation_digest r \<noteq> pp_operation_digest plan then stop StoreConflict else give r
           | Some (RollbackDone _) \<Rightarrow> stop StoreConflict
           | None \<Rightarrow> activate_generation env plan expected))) db)"

definition get_operation_result ::
  "pystr \<Rightarrow> pystr \<Rightarrow> db_fault \<Rightarrow> knowledge_db \<Rightarrow> (store_error + operation_result option) \<times> knowledge_db"
      where
  "get_operation_result customer oid fault db =
     run_transaction fault (andthen (establish customer) (\<lambda>_. find_operation oid)) db"

definition active_snapshot ::
  "pystr \<Rightarrow> index_scope \<Rightarrow> db_fault \<Rightarrow> knowledge_db \<Rightarrow> (store_error + index_snapshot option) \<times>
      knowledge_db" where
  "active_snapshot customer sc fault db =
     (if is_customer_environment_id sc \<noteq> customer then (Inl StoreIdentity, db)
      else run_transaction fault
        (andthen (establish customer) (\<lambda>_.
           fetch (\<lambda>db. map_option (\<lambda>(g, digest). \<lparr>ix_scope = sc, ix_active_generation_id = g,
             ix_generation_digest = digest\<rparr>) (db_active db (is_namespace sc))))) db)"

definition rollback_outbox :: "rollback_request \<Rightarrow> uuid \<Rightarrow> pystr \<Rightarrow> outbox_event" where
  "rollback_outbox q current digest =
     \<lparr>ob_outbox_id = rk_outbox_id q, ob_operation_id = pu_operation_id (rk_context q),
      ob_request_id = pu_request_id (rk_context q),
      ob_customer_environment_id = is_customer_environment_id (rk_scope q),
      ob_actor_id = pu_actor_id (rk_context q), ob_namespace = is_namespace (rk_scope q),
      ob_action = RollbackAction, ob_previous_generation_id = Some current,
      ob_activated_generation_id = rk_target_generation_id q, ob_generation_digest = digest\<rparr>"

definition restore_generation ::
  "rollback_request \<Rightarrow> uuid \<Rightarrow> (store_error, knowledge_db, rollback_result) proc" where
  "restore_generation q expected =
     (let ns = is_namespace (rk_scope q); target = rk_target_generation_id q in
      andthen (fetch (\<lambda>db. map_option fst (db_active db ns))) (\<lambda>current.
      andthen (unless (current \<noteq> Some expected) StoreConflict) (\<lambda>_.
      andthen (fetch (\<lambda>db. db_generations db target)) (\<lambda>row.
      case row of None \<Rightarrow> stop StoreConflict
      | Some r \<Rightarrow>
         andthen (unless (gr_namespace r \<noteq> ns \<or> gr_status r \<noteq> RETIRED) StoreConflict) (\<lambda>_.
         andthen (set_status expected RETIRED) (\<lambda>_.
         andthen (set_status target ACTIVE) (\<lambda>_.
         andthen (upsert_active ns target (gr_generation_digest r)) (\<lambda>_.
         let result = \<lparr>rb_operation_id = pu_operation_id (rk_context q), rb_scope = rk_scope q,
               rb_activated_generation_id = target, rb_previous_generation_id = expected,
               rb_generation_digest = gr_generation_digest r, rb_operation_digest = rk_operation_digest
                   q,
               rb_disposition = ROLLED_BACK\<rparr> in
         andthen (insert_operation (pu_operation_id (rk_context q))
           \<lparr>ow_namespace = ns, ow_operation_digest = rk_operation_digest q, ow_result = RollbackDone
               result\<rparr>) (\<lambda>_.
         andthen (insert_outbox (rollback_outbox q expected (gr_generation_digest r))) (\<lambda>_.
           give result))))))))))"

definition commit_rollback ::
  "pystr \<Rightarrow> rollback_request \<Rightarrow> uuid \<Rightarrow> db_fault \<Rightarrow> knowledge_db
     \<Rightarrow> (store_error + rollback_result) \<times> knowledge_db" where
  "commit_rollback customer q expected fault db =
     (if is_customer_environment_id (rk_scope q) \<noteq> customer then (Inl StoreIdentity, db)
      else run_transaction fault
        (andthen (establish customer) (\<lambda>_.
         andthen (find_operation (pu_operation_id (rk_context q))) (\<lambda>existing.
           case existing of
             Some (RollbackDone r) \<Rightarrow>
               if rb_operation_digest r \<noteq> rk_operation_digest q then stop StoreConflict else give r
           | Some (PublicationDone _) \<Rightarrow> stop StoreConflict
           | None \<Rightarrow> restore_generation q expected))) db)"

end
