(* ===== verification/StoreHistory.thy ===== *)
theory StoreHistory
  imports KnowledgeStore
begin

text \<open>
  The knowledge store as an append-only history: what a successful transaction changes, the valid
  histories of publications and rollbacks, the tables that represent one, and the runs of any
  transactions under aborted transactions and lost replies.
\<close>

section \<open>Successful transactions\<close>

lemma store_proc_Inr [simp]:
  "fetch f db = (Inr x, db') \<longleftrightarrow> x = f db \<and> db' = db"
  "modify g db = (Inr u, db') \<longleftrightarrow> db' = g db"
  "guard p e db = (Inr u, db') \<longleftrightarrow> p db \<and> db' = db"
  by (auto simp: fetch_def modify_def guard_def)

lemma insert_rows_Inr:
  "insert_document_row r db = (Inr u, db') \<longleftrightarrow> document_row_ok r \<and> document_key r \<notin> document_key ` set
      (db_documents db)
     \<and> db_generations db (dw_generation_id r) \<noteq> None \<and> db' = db\<lparr>db_documents := db_documents db @ [r]\<rparr>"
  "insert_chunk_row c db = (Inr u, db') \<longleftrightarrow> chunk_row_ok c \<and> \<not> list_ex (chunk_keys_clash c) (db_chunks db)
     \<and> (cw_generation_id c, gv_document_id (cw_chunk c)) \<in> document_key ` set (db_documents db)
     \<and> db' = db\<lparr>db_chunks := db_chunks db @ [c]\<rparr>"
  by (auto simp: insert_document_row_def insert_chunk_row_def andthen_Inr)

lemma each_insert_documents:
  "each insert_document_row docs db = (Inr u, db') \<Longrightarrow> db' = db\<lparr>db_documents := db_documents db @ docs\<rparr>"
proof (induction docs arbitrary: db)
  case (Cons d ds)
  then have "each insert_document_row ds (db\<lparr>db_documents := db_documents db @ [d]\<rparr>) = (Inr u, db')"
    by (auto simp: andthen_Inr insert_rows_Inr)
  from Cons.IH[OF this] show ?case by simp
qed simp

lemma each_insert_chunks:
  "each insert_chunk_row cs db = (Inr u, db') \<Longrightarrow> db' = db\<lparr>db_chunks := db_chunks db @ cs\<rparr>"
proof (induction cs arbitrary: db)
  case (Cons c cs)
  then have "each insert_chunk_row cs (db\<lparr>db_chunks := db_chunks db @ [c]\<rparr>) = (Inr u, db')"
    by (auto simp: andthen_Inr insert_rows_Inr)
  from Cons.IH[OF this] show ?case by simp
qed simp

definition candidate_row :: "generation_manifest \<Rightarrow> generation_row" where
  "candidate_row m = \<lparr>gr_namespace = is_namespace (gm_scope m), gr_generation_digest =
      gm_generation_digest m,
     gr_document_count = gm_document_count m, gr_chunk_count = gm_chunk_count m,
     gr_total_normalized_bytes = gm_total_normalized_bytes m, gr_status = CANDIDATE\<rparr>"

lemma insert_generation_Inr:
  assumes "insert_generation env plan db = (Inr u, db')" and "gid = gm_generation_id (pp_manifest plan)"
  obtains docs chunks where
    "map_checked (document_row_of env gid) (pp_bundles plan) = Inr docs"
    "map_checked (chunk_row_of env gid) (concat (map pb_chunks (pp_bundles plan))) = Inr chunks"
    "db_generations db gid = None"
    "db' = db\<lparr>db_generations := (db_generations db)(gid \<mapsto> candidate_row (pp_manifest plan)),
       db_documents := db_documents db @ docs, db_chunks := db_chunks db @ chunks\<rparr>"
    "length (filter (\<lambda>r. dw_generation_id r = gid) (db_documents db')) = gm_document_count (pp_manifest
        plan)"
    "length (filter (\<lambda>r. cw_generation_id r = gid) (db_chunks db')) = gm_chunk_count (pp_manifest plan)"
proof -
  obtain docs chunks db1 db2 where p: "db_generations db gid = None"
    "map_checked (document_row_of env gid) (pp_bundles plan) = Inr docs"
    "map_checked (chunk_row_of env gid) (concat (map pb_chunks (pp_bundles plan))) = Inr chunks"
    "each insert_document_row docs (db\<lparr>db_generations := (db_generations db)(gid \<mapsto> candidate_row
        (pp_manifest plan))\<rparr>)
       = (Inr (), db1)"
    "each insert_chunk_row chunks db1 = (Inr (), db2)"
    "db' = db2" "length (filter (\<lambda>r. dw_generation_id r = gid) (db_documents db2)) = gm_document_count
        (pp_manifest plan)"
    "length (filter (\<lambda>r. cw_generation_id r = gid) (db_chunks db2)) = gm_chunk_count (pp_manifest plan)"
    using assms(1) unfolding insert_generation_def Let_def assms(2)[symmetric]
    by (auto simp: andthen_Inr insert_generation_row_def candidate_row_def)
  show thesis
    using that[OF p(2,3,1)] p(6-8) each_insert_documents[OF p(4)] each_insert_chunks[OF p(5)] by simp
qed

lemma document_rows:
  assumes "map_checked (document_row_of env gid) bs = Inr docs"
  shows "\<forall>d \<in> set docs. dw_generation_id d = gid"
proof
  fix d assume "d \<in> set docs"
  then obtain b where "document_row_of env gid b = Inr d" using map_checked_member[OF assms] by blast
  then show "dw_generation_id d = gid" unfolding document_row_of_def Let_def by (auto elim!: bindE_InrE)
qed

lemma chunk_rows:
  assumes "map_checked (chunk_row_of env gid) cs = Inr rows"
  shows "map cw_chunk rows = cs \<and> (\<forall>r \<in> set rows. cw_generation_id r = gid)"
  using map_checked_InrD[OF assms]
  by (induction rule: list_all2_induct) (auto simp: chunk_row_of_def elim!: raise_if_InrE)

lemma then_give:
  fixes m :: "('e, 'w, unit) proc"
  shows "andthen m (\<lambda>_. give r0) w = (Inr r, w') \<longleftrightarrow> m w = (Inr (), w') \<and> r = r0"
  by (auto simp: andthen_Inr)

lemma andthen_eq: "andthen m f w = (case m w of (Inl e, w1) \<Rightarrow> (Inl e, w1) | (Inr x, w1) \<Rightarrow> f x w1)"
  by (simp add: andthen_def)

text \<open>The event a publication records, and the state after a publication.\<close>

definition publication_event :: "publication_plan \<Rightarrow> uuid option \<Rightarrow> outbox_event" where
  "publication_event plan previous = (pp_outbox_event plan)\<lparr>
     ob_customer_environment_id := is_customer_environment_id (gm_scope (pp_manifest plan)),
     ob_previous_generation_id := previous\<rparr>"

definition publication_outcome :: "publication_plan \<Rightarrow> uuid option \<Rightarrow> publication_result" where
  "publication_outcome plan previous = \<lparr>pr_operation_id = pu_operation_id (pp_context plan),
     pr_scope = gm_scope (pp_manifest plan), pr_generation_id = gm_generation_id (pp_manifest plan),
     pr_previous_generation_id = previous, pr_generation_digest = gm_generation_digest (pp_manifest
         plan),
     pr_operation_digest = pp_operation_digest plan, pr_disposition = PUBLISHED\<rparr>"

definition retired :: "uuid option \<Rightarrow> (uuid \<rightharpoonup> generation_row) \<Rightarrow> (uuid \<rightharpoonup> generation_row)" where
  "retired current gens = (case current of None \<Rightarrow> gens
     | Some g \<Rightarrow> gens(g := map_option (\<lambda>r. r\<lparr>gr_status := RETIRED\<rparr>) (gens g)))"

definition fresh_event :: "outbox_event list \<Rightarrow> outbox_event \<Rightarrow> bool" where
  "fresh_event evs e \<longleftrightarrow> (\<forall>f \<in> set evs. ob_outbox_id f \<noteq> ob_outbox_id e \<and> ob_operation_id f \<noteq>
      ob_operation_id e)"

lemma insert_outbox_Inr:
  "insert_outbox e db = (Inr u, db') \<longleftrightarrow> is_digest (ob_generation_digest e) \<and> fresh_event (db_outbox db) e
     \<and> db' = db\<lparr>db_outbox := db_outbox db @ [e]\<rparr>"
  by (auto simp: insert_outbox_def andthen_Inr fresh_event_def list_ex_iff)

lemma insert_operation_Inr:
  "insert_operation oid r db = (Inr u, db') \<longleftrightarrow> is_digest (ow_operation_digest r) \<and> db_operations db oid
      = None
     \<and> db' = db\<lparr>db_operations := (db_operations db)(oid \<mapsto> r)\<rparr>"
  by (auto simp: insert_operation_def andthen_Inr)

lemma retire_Inr: "retire c db = (Inr u, db') \<longleftrightarrow> db' = db\<lparr>db_generations := retired c (db_generations
    db)\<rparr>"
  by (cases c) (auto simp: retire_def set_status_def retired_def)

lemma activate_generation_Inr:
  assumes run: "activate_generation env plan expected db = (Inr r, db')"
    and m: "m = pp_manifest plan" "gid = gm_generation_id m" "ns = is_namespace (gm_scope m)"
  obtains docs chunks where
    "map_option fst (db_active db ns) = expected" "db_generations db gid = None"
    "\<forall>d \<in> set docs. dw_generation_id d = gid" "\<forall>c \<in> set chunks. cw_generation_id c = gid"
    "map cw_chunk chunks = concat (map pb_chunks (pp_bundles plan))"
    "length (filter (\<lambda>r. dw_generation_id r = gid) (db_documents db @ docs)) = gm_document_count m"
    "length (filter (\<lambda>r. cw_generation_id r = gid) (db_chunks db @ chunks)) = gm_chunk_count m"
    "db_operations db (pu_operation_id (pp_context plan)) = None"
    "fresh_event (db_outbox db) (publication_event plan expected)"
    "is_digest (ob_generation_digest (publication_event plan expected))"
    "r = publication_outcome plan expected"
    "db' = db\<lparr>db_generations := (retired expected ((db_generations db)(gid \<mapsto> candidate_row m)))
         (gid \<mapsto> (candidate_row m)\<lparr>gr_status := ACTIVE\<rparr>),
       db_active := (db_active db)(ns \<mapsto> (gid, gm_generation_digest m)),
       db_documents := db_documents db @ docs, db_chunks := db_chunks db @ chunks,
       db_operations := (db_operations db)(pu_operation_id (pp_context plan) \<mapsto>
         \<lparr>ow_namespace = ns, ow_operation_digest = pp_operation_digest plan, ow_result =
             PublicationDone r\<rparr>),
       db_outbox := db_outbox db @ [publication_event plan expected]\<rparr>"
proof -
  obtain db1 where db1: "map_option fst (db_active db ns) = expected" "insert_generation env plan db =
      (Inr (), db1)"
    and rest: "andthen (retire expected) (\<lambda>_. andthen (set_status gid ACTIVE) (\<lambda>_.
      andthen (upsert_active ns gid (gm_generation_digest m)) (\<lambda>_.
      andthen (persist_result_and_outbox plan (publication_outcome plan expected) expected) (\<lambda>_.
        give (publication_outcome plan expected))))) db1 = (Inr r, db')"
    using run unfolding activate_generation_def Let_def m[symmetric]
    by (auto simp: andthen_Inr publication_outcome_def m)
  have g: "gid = gm_generation_id (pp_manifest plan)" using m by simp
  obtain docs chunks where ins:
    "map_checked (document_row_of env gid) (pp_bundles plan) = Inr docs"
    "map_checked (chunk_row_of env gid) (concat (map pb_chunks (pp_bundles plan))) = Inr chunks"
    "db_generations db gid = None"
    "db1 = db\<lparr>db_generations := (db_generations db)(gid \<mapsto> candidate_row m),
       db_documents := db_documents db @ docs, db_chunks := db_chunks db @ chunks\<rparr>"
    "length (filter (\<lambda>r. dw_generation_id r = gid) (db_documents db1)) = gm_document_count m"
    "length (filter (\<lambda>r. cw_generation_id r = gid) (db_chunks db1)) = gm_chunk_count m"
    by (rule insert_generation_Inr[OF db1(2) g, folded m(1)])
  have gen: "retired expected ((db_generations db)(gid \<mapsto> candidate_row m)) gid = Some r0
    \<Longrightarrow> r0\<lparr>gr_status := ACTIVE\<rparr> = (candidate_row m)\<lparr>gr_status := ACTIVE\<rparr>" for r0
    by (auto simp: retired_def candidate_row_def split: option.splits if_splits)
  have some: "\<exists>r0. retired expected ((db_generations db)(gid \<mapsto> candidate_row m)) gid = Some r0"
    by (auto simp: retired_def split: option.splits)
  obtain r0 where r0: "retired expected ((db_generations db)(gid \<mapsto> candidate_row m)) gid = Some r0"
      using some by blast
  let ?gens = "(retired expected ((db_generations db)(gid \<mapsto> candidate_row m)))
    (gid \<mapsto> (candidate_row m)\<lparr>gr_status := ACTIVE\<rparr>)"
  have second: "set_status gid ACTIVE (db1\<lparr>db_generations := retired expected (db_generations db1)\<rparr>)
     = (Inr (), db1\<lparr>db_generations := ?gens\<rparr>)"
    using gen[OF r0] r0 by (simp add: set_status_def modify_def ins(4))
  let ?db2 = "db1\<lparr>db_generations := ?gens, db_active := (db_active db1)(ns \<mapsto> (gid, gm_generation_digest
      m))\<rparr>"
  have first: "retire expected db1 = (Inr (), db1\<lparr>db_generations := retired expected (db_generations
      db1)\<rparr>)"
    by (simp only: retire_Inr)
  have third: "upsert_active ns gid (gm_generation_digest m) (db1\<lparr>db_generations := ?gens\<rparr>) = (Inr (),
      ?db2)"
    by (simp add: upsert_active_def modify_def)
  have rest': "andthen (persist_result_and_outbox plan (publication_outcome plan expected) expected)
      (\<lambda>_. give (publication_outcome plan expected)) ?db2 = (Inr r, db')"
    using rest by (simp only: andthen_eq first second third prod.case sum.case)
  obtain db3 where db3: "persist_result_and_outbox plan (publication_outcome plan expected) expected
      ?db2 = (Inr (), db3)"
    "r = publication_outcome plan expected" "db' = db3"
    using rest' unfolding then_give by blast
  have event: "publication_event plan expected = (pp_outbox_event plan)\<lparr>
     ob_customer_environment_id := is_customer_environment_id (gm_scope m), ob_previous_generation_id
         := expected\<rparr>"
    by (simp add: publication_event_def m(1))
  have st: "db_operations db (pu_operation_id (pp_context plan)) = None"
    "fresh_event (db_outbox db) (publication_event plan expected)"
    "is_digest (ob_generation_digest (publication_event plan expected))"
    and db3_eq: "db3 = ?db2\<lparr>db_operations := (db_operations db)(pu_operation_id (pp_context plan) \<mapsto>
         \<lparr>ow_namespace = ns, ow_operation_digest = pp_operation_digest plan,
          ow_result = PublicationDone (publication_outcome plan expected)\<rparr>),
       db_outbox := db_outbox db @ [publication_event plan expected]\<rparr>"
    using db3(1) unfolding persist_result_and_outbox_def m(1)[symmetric] m(3)[symmetric] andthen_Inr
      insert_operation_Inr insert_outbox_Inr
    by (simp_all add: ins(4) event)
  show thesis
  proof (rule that[OF db1(1) ins(3) document_rows[OF ins(1)] _ _ _ _ st db3(2)])
    show "\<forall>c \<in> set chunks. cw_generation_id c = gid" "map cw_chunk chunks = concat (map pb_chunks
        (pp_bundles plan))"
      using chunk_rows[OF ins(2)] by auto
    show "length (filter (\<lambda>r. dw_generation_id r = gid) (db_documents db @ docs)) = gm_document_count m"
      "length (filter (\<lambda>r. cw_generation_id r = gid) (db_chunks db @ chunks)) = gm_chunk_count m"
      using ins(4-6) by simp_all
    show "db' = db\<lparr>db_generations := (retired expected ((db_generations db)(gid \<mapsto> candidate_row m)))
         (gid \<mapsto> (candidate_row m)\<lparr>gr_status := ACTIVE\<rparr>),
       db_active := (db_active db)(ns \<mapsto> (gid, gm_generation_digest m)),
       db_documents := db_documents db @ docs, db_chunks := db_chunks db @ chunks,
       db_operations := (db_operations db)(pu_operation_id (pp_context plan) \<mapsto>
         \<lparr>ow_namespace = ns, ow_operation_digest = pp_operation_digest plan, ow_result =
             PublicationDone r\<rparr>),
       db_outbox := db_outbox db @ [publication_event plan expected]\<rparr>"
      unfolding db3(3,2) db3_eq by (simp add: ins(4))
  qed
qed

text \<open>The event a rollback records, and the state after it.\<close>

lemma rollback_outbox_fields [simp]:
  "ob_generation_digest (rollback_outbox q p d) = d" "ob_action (rollback_outbox q p d) =
      RollbackAction"
  "ob_operation_id (rollback_outbox q p d) = pu_operation_id (rk_context q)"
  "ob_outbox_id (rollback_outbox q p d) = rk_outbox_id q"
  "ob_namespace (rollback_outbox q p d) = is_namespace (rk_scope q)"
  "ob_activated_generation_id (rollback_outbox q p d) = rk_target_generation_id q"
  "ob_previous_generation_id (rollback_outbox q p d) = Some p"
  by (simp_all add: rollback_outbox_def)

lemma restore_generation_Inr:
  assumes run: "restore_generation q expected db = (Inr r, db')"
    and m: "target = rk_target_generation_id q" "ns = is_namespace (rk_scope q)"
  obtains row where
    "map_option fst (db_active db ns) = Some expected" "db_generations db target = Some row"
    "gr_namespace row = ns" "gr_status row = RETIRED"
    "db_operations db (pu_operation_id (rk_context q)) = None"
    "fresh_event (db_outbox db) (rollback_outbox q expected (gr_generation_digest row))"
    "is_digest (gr_generation_digest row)"
    "rb_operation_digest r = rk_operation_digest q" "rb_activated_generation_id r = target"
    "rb_generation_digest r = gr_generation_digest row" "rb_previous_generation_id r = expected"
    "rb_operation_id r = pu_operation_id (rk_context q)" "rb_scope r = rk_scope q"
    "db_generations db' = (retired (Some expected) (db_generations db))(target \<mapsto> row\<lparr>gr_status :=
        ACTIVE\<rparr>)"
    "db_active db' = (db_active db)(ns \<mapsto> (target, gr_generation_digest row))"
    "db_documents db' = db_documents db" "db_chunks db' = db_chunks db"
    "db_operations db' = (db_operations db)(pu_operation_id (rk_context q) \<mapsto>
         \<lparr>ow_namespace = ns, ow_operation_digest = rk_operation_digest q, ow_result = RollbackDone r\<rparr>)"
    "db_outbox db' = db_outbox db @ [rollback_outbox q expected (gr_generation_digest row)]"
    "db_identity db' = db_identity db"
proof -
  obtain row where row: "map_option fst (db_active db ns) = Some expected" "db_generations db target =
      Some row"
    and rest: "(case Some row of None \<Rightarrow> stop StoreConflict
      | Some r \<Rightarrow>
         andthen (unless (gr_namespace r \<noteq> ns \<or> gr_status r \<noteq> RETIRED) StoreConflict) (\<lambda>_.
         andthen (set_status expected RETIRED) (\<lambda>_.
         andthen (set_status target ACTIVE) (\<lambda>_.
         andthen (upsert_active ns target (gr_generation_digest r)) (\<lambda>_.
         let result = \<lparr>rb_operation_id = pu_operation_id (rk_context q), rb_scope = rk_scope q,
               rb_activated_generation_id = target, rb_previous_generation_id = expected,
               rb_generation_digest = gr_generation_digest r, rb_operation_digest = rk_operation_digest
                   q,
               rb_disposition = ROLLED_BACK\<rparr> in
         andthen (insert_operation (pu_operation_id (rk_context q))
           \<lparr>ow_namespace = ns, ow_operation_digest = rk_operation_digest q, ow_result = RollbackDone
               result\<rparr>) (\<lambda>_.
         andthen (insert_outbox (rollback_outbox q expected (gr_generation_digest r))) (\<lambda>_.
           give result))))))) db = (Inr r, db')"
    using run unfolding restore_generation_def Let_def m[symmetric] by (auto simp: andthen_Inr split:
        option.splits)
  have ret: "\<exists>s. retired (Some expected) (db_generations db) target = Some (row\<lparr>gr_status := s\<rparr>)"
  proof (cases "target = expected")
    case True then show ?thesis using row(2) by (intro exI[of _ RETIRED]) (simp add: retired_def)
  next
    case False then show ?thesis using row(2) by (intro exI[of _ "gr_status row"]) (simp add:
        retired_def)
  qed
  then obtain s where s: "retired (Some expected) (db_generations db) target = Some (row\<lparr>gr_status :=
      s\<rparr>)" by blast
  have first: "set_status expected RETIRED = retire (Some expected)" by (simp add: retire_def)
  have second: "set_status target ACTIVE (db\<lparr>db_generations := retired (Some expected) (db_generations
      db)\<rparr>)
     = (Inr (), db\<lparr>db_generations := (retired (Some expected) (db_generations db))(target \<mapsto>
         row\<lparr>gr_status := ACTIVE\<rparr>)\<rparr>)"
    using s by (simp add: set_status_def modify_def)
  show thesis
    using rest unfolding option.case(2) Let_def first upsert_active_def andthen_Inr retire_Inr ex_simps
    by (auto simp: second insert_operation_Inr insert_outbox_Inr intro!: that[OF row])
qed

section \<open>The history of an index\<close>

text \<open>The active generation of every namespace after a history of events.\<close>

definition active_after :: "outbox_event list \<Rightarrow> pystr \<rightharpoonup> uuid \<times> pystr" where
  "active_after evs ns = map_option (\<lambda>e. (ob_activated_generation_id e, ob_generation_digest e))
     (find (\<lambda>e. ob_namespace e = ns) (rev evs))"

definition published_in :: "outbox_event list \<Rightarrow> uuid \<Rightarrow> pystr \<Rightarrow> pystr \<Rightarrow> bool" where
  "published_in evs g ns d \<longleftrightarrow> (\<exists>e \<in> set evs. ob_action e = PublishAction \<and> ob_activated_generation_id e
      = g
     \<and> ob_namespace e = ns \<and> ob_generation_digest e = d)"

definition may_follow :: "outbox_event list \<Rightarrow> outbox_event \<Rightarrow> bool" where
  "may_follow evs e \<longleftrightarrow> fresh_event evs e
     \<and> ob_previous_generation_id e = map_option fst (active_after evs (ob_namespace e))
     \<and> (case ob_action e of
          PublishAction \<Rightarrow> (\<forall>f \<in> set evs. ob_activated_generation_id f \<noteq> ob_activated_generation_id e)
        | RollbackAction \<Rightarrow> ob_previous_generation_id e \<notin> {None, Some (ob_activated_generation_id e)}
            \<and> published_in evs (ob_activated_generation_id e) (ob_namespace e) (ob_generation_digest
                e))"

inductive valid_history :: "outbox_event list \<Rightarrow> bool" where
  empty: "valid_history []"
| recorded: "valid_history evs \<Longrightarrow> may_follow evs e \<Longrightarrow> valid_history (evs @ [e])"

lemma active_after_snoc:
  "active_after (evs @ [e]) = (active_after evs)(ob_namespace e \<mapsto> (ob_activated_generation_id e,
      ob_generation_digest e))"
  by (simp add: active_after_def fun_eq_iff)

lemma active_after_Nil [simp]: "active_after [] = Map.empty"
  by (simp add: active_after_def fun_eq_iff)

lemma published_in_snoc:
  "published_in (evs @ [e]) g ns d \<longleftrightarrow> published_in evs g ns d \<or> ob_action e = PublishAction
     \<and> ob_activated_generation_id e = g \<and> ob_namespace e = ns \<and> ob_generation_digest e = d"
  by (auto simp: published_in_def)

lemma history_published:
  "valid_history evs \<Longrightarrow> e \<in> set evs \<Longrightarrow> published_in evs (ob_activated_generation_id e) (ob_namespace e)
      (ob_generation_digest e)"
proof (induction rule: valid_history.induct)
  case (recorded evs f)
  then show ?case by (cases "ob_action f") (auto simp: published_in_snoc may_follow_def)
qed simp

lemma active_published:
  assumes "valid_history evs" "active_after evs ns = Some (g, d)"
  shows "published_in evs g ns d"
proof -
  obtain e where "find (\<lambda>e. ob_namespace e = ns) (rev evs) = Some e" "g = ob_activated_generation_id e"
    "d = ob_generation_digest e"
    using assms(2) unfolding active_after_def by auto
  moreover from this(1) have "e \<in> set evs" "ob_namespace e = ns" by (auto simp: find_Some_iff) (metis
      nth_mem set_rev length_rev)
  ultimately show ?thesis using history_published[OF assms(1)] by metis
qed

lemma published_unique:
  "valid_history evs \<Longrightarrow> published_in evs g ns d \<Longrightarrow> published_in evs g ns' d' \<Longrightarrow> ns' = ns \<and> d' = d"
proof (induction arbitrary: ns d ns' d' rule: valid_history.induct)
  case (recorded evs e)
  have fresh: "ob_action e = PublishAction \<Longrightarrow> \<not> published_in evs (ob_activated_generation_id e) n d" for
      n d
    using recorded.hyps(2) unfolding may_follow_def published_in_def by auto
  show ?case using recorded.prems recorded.IH fresh unfolding published_in_snoc by metis
qed (simp add: published_in_def)

section \<open>Tables that represent a history\<close>

definition answers :: "operation_result \<Rightarrow> outbox_event \<Rightarrow> bool" where
  "answers r e \<longleftrightarrow>
     (case r of
        PublicationDone p \<Rightarrow> ob_action e = PublishAction \<and> pr_operation_id p = ob_operation_id e
          \<and> is_namespace (pr_scope p) = ob_namespace e \<and> pr_generation_id p =
              ob_activated_generation_id e
          \<and> pr_previous_generation_id p = ob_previous_generation_id e
          \<and> pr_generation_digest p = ob_generation_digest e
      | RollbackDone q \<Rightarrow> ob_action e = RollbackAction \<and> rb_operation_id q = ob_operation_id e \<and>
          is_namespace (rb_scope q) = ob_namespace e \<and> rb_activated_generation_id q =
              ob_activated_generation_id e
          \<and> Some (rb_previous_generation_id q) = ob_previous_generation_id e
          \<and> rb_generation_digest q = ob_generation_digest e)"

definition stored_generation :: "knowledge_db \<Rightarrow> outbox_event list \<Rightarrow> uuid \<Rightarrow> generation_row \<Rightarrow> bool" where
  "stored_generation db evs g r \<longleftrightarrow> published_in evs g (gr_namespace r) (gr_generation_digest r)
     \<and> gr_status r = (if active_after evs (gr_namespace r) = Some (g, gr_generation_digest r) then
         ACTIVE else RETIRED)
     \<and> gr_document_count r = length (filter (\<lambda>d. dw_generation_id d = g) (db_documents db))
     \<and> gr_chunk_count r = length (filter (\<lambda>c. cw_generation_id c = g) (db_chunks db))"

definition represents :: "knowledge_db \<Rightarrow> outbox_event list \<Rightarrow> bool" where
  "represents db evs \<longleftrightarrow> db_outbox db = evs \<and> db_active db = active_after evs
     \<and> (\<forall>g. (db_generations db g = None) = (\<forall>e \<in> set evs. ob_activated_generation_id e \<noteq> g))
     \<and> (\<forall>g r. db_generations db g = Some r \<longrightarrow> stored_generation db evs g r)
     \<and> (\<forall>oid. (db_operations db oid = None) = (\<forall>e \<in> set evs. ob_operation_id e \<noteq> oid))
     \<and> (\<forall>oid r. db_operations db oid = Some r \<longrightarrow> (\<exists>e \<in> set evs. ob_operation_id e = oid \<and> answers
         (ow_result r) e))
     \<and> (\<forall>e \<in> set evs. is_digest (ob_generation_digest e))"

definition plan_consistent :: "publication_plan \<Rightarrow> bool" where
  "plan_consistent plan \<longleftrightarrow>
     (let e = pp_outbox_event plan; m = pp_manifest plan in
      ob_action e = PublishAction \<and> ob_operation_id e = pu_operation_id (pp_context plan)
      \<and> ob_namespace e = is_namespace (gm_scope m) \<and> ob_activated_generation_id e = gm_generation_id m
      \<and> ob_generation_digest e = gm_generation_digest m)"

lemma representsD:
  assumes "represents db evs"
  shows "db_outbox db = evs" "db_active db = active_after evs"
    and "\<And>g. db_generations db g = None \<longleftrightarrow> (\<forall>e \<in> set evs. ob_activated_generation_id e \<noteq> g)"
    and "\<And>g r. db_generations db g = Some r \<Longrightarrow> stored_generation db evs g r"
    and "\<And>oid. db_operations db oid = None \<longleftrightarrow> (\<forall>e \<in> set evs. ob_operation_id e \<noteq> oid)"
    and "\<And>oid r. db_operations db oid = Some r \<Longrightarrow> \<exists>e \<in> set evs. ob_operation_id e = oid \<and> answers
        (ow_result r) e"
    and "\<And>e. e \<in> set evs \<Longrightarrow> is_digest (ob_generation_digest e)"
  using assms unfolding represents_def by blast+

lemma publication_event_fields:
  assumes "plan_consistent plan"
  shows "ob_action (publication_event plan p) = PublishAction"
    "ob_operation_id (publication_event plan p) = pu_operation_id (pp_context plan)"
    "ob_namespace (publication_event plan p) = is_namespace (gm_scope (pp_manifest plan))"
    "ob_activated_generation_id (publication_event plan p) = gm_generation_id (pp_manifest plan)"
    "ob_generation_digest (publication_event plan p) = gm_generation_digest (pp_manifest plan)"
    "ob_previous_generation_id (publication_event plan p) = p"
  using assms by (simp_all add: publication_event_def plan_consistent_def Let_def)

lemma retired_at: "retired c gens g = (if c = Some g then map_option (\<lambda>r. r\<lparr>gr_status := RETIRED\<rparr>)
    (gens g) else gens g)"
  by (auto simp: retired_def split: option.splits)

text \<open>A generation other than the activated one, in the tables after the step.\<close>

lemma stored_generation_later:
  assumes hist: "valid_history evs" and old: "stored_generation db evs g r" and g: "g \<noteq>
      ob_activated_generation_id e"
    and expected: "map_option fst (active_after evs (ob_namespace e)) = expected"
    and r': "r' = (if expected = Some g then r\<lparr>gr_status := RETIRED\<rparr> else r)"
    and docs: "filter (\<lambda>d. dw_generation_id d = g) (db_documents db') = filter (\<lambda>d. dw_generation_id d
        = g) (db_documents db)"
    and chunks: "filter (\<lambda>c. cw_generation_id c = g) (db_chunks db') = filter (\<lambda>c. cw_generation_id c =
        g) (db_chunks db)"
  shows "stored_generation db' (evs @ [e]) g r'"
proof -
  let ?ns = "gr_namespace r" and ?d = "gr_generation_digest r"
  have p: "published_in evs g ?ns ?d" and st: "gr_status r = (if active_after evs ?ns = Some (g, ?d)
      then ACTIVE else RETIRED)"
    using old by (auto simp: stored_generation_def)
  have digest: "ns = ?ns \<and> d = ?d" if "active_after evs ns = Some (g, d)" for ns d
    by (rule published_unique[OF hist p active_published[OF hist that]])
  have now: "active_after (evs @ [e]) ?ns = Some (g, ?d) \<longleftrightarrow> ob_namespace e \<noteq> ?ns \<and> active_after evs ?ns
      = Some (g, ?d)"
    using g by (auto simp: active_after_snoc)
  have retired: "expected = Some g \<longleftrightarrow> ob_namespace e = ?ns \<and> active_after evs ?ns = Some (g, ?d)"
  proof
    assume "expected = Some g"
    then obtain d where d: "active_after evs (ob_namespace e) = Some (g, d)" using expected by auto
    from digest[OF d] d show "ob_namespace e = ?ns \<and> active_after evs ?ns = Some (g, ?d)" by simp
  qed (use expected in auto)
  have fields: "gr_namespace r' = ?ns" "gr_generation_digest r' = ?d" "gr_document_count r' =
      gr_document_count r"
    "gr_chunk_count r' = gr_chunk_count r" "gr_status r' = (if expected = Some g then RETIRED else
        gr_status r)"
    by (simp_all add: r')
  have "gr_status r' = (if active_after (evs @ [e]) ?ns = Some (g, ?d) then ACTIVE else RETIRED)"
    using st now retired fields(5) by presburger
  then show ?thesis using old docs chunks unfolding stored_generation_def published_in_snoc fields(1-4)
      by presburger
qed

lemma filter_other: "\<forall>x \<in> set ys. f x = gid \<Longrightarrow> g \<noteq> gid \<Longrightarrow> filter (\<lambda>x. f x = g) (xs @ ys) = filter
    (\<lambda>x. f x = g) xs"
  by (simp add: filter_empty_conv)

lemma publication_represents:
  assumes hist: "valid_history evs" and rep: "represents db evs" and plan: "plan_consistent plan"
    and run: "activate_generation env plan expected db = (Inr r, db')"
  shows "may_follow evs (publication_event plan expected) \<and> represents db' (evs @ [publication_event
      plan expected])
    \<and> answers (PublicationDone r) (publication_event plan expected)"
proof -
  define m where "m = pp_manifest plan"
  define gid where "gid = gm_generation_id m"
  define ns where "ns = is_namespace (gm_scope m)"
  define e where "e = publication_event plan expected"
  obtain docs chunks where a:
    "map_option fst (db_active db ns) = expected" "db_generations db gid = None"
    "\<forall>d \<in> set docs. dw_generation_id d = gid" "\<forall>c \<in> set chunks. cw_generation_id c = gid"
    "length (filter (\<lambda>r. dw_generation_id r = gid) (db_documents db @ docs)) = gm_document_count m"
    "length (filter (\<lambda>r. cw_generation_id r = gid) (db_chunks db @ chunks)) = gm_chunk_count m"
    "db_operations db (pu_operation_id (pp_context plan)) = None"
    "fresh_event (db_outbox db) e" "is_digest (ob_generation_digest e)" "r = publication_outcome plan
        expected"
    and db': "db' = db\<lparr>db_generations := (retired expected ((db_generations db)(gid \<mapsto> candidate_row m)))
         (gid \<mapsto> (candidate_row m)\<lparr>gr_status := ACTIVE\<rparr>),
       db_active := (db_active db)(ns \<mapsto> (gid, gm_generation_digest m)),
       db_documents := db_documents db @ docs, db_chunks := db_chunks db @ chunks,
       db_operations := (db_operations db)(pu_operation_id (pp_context plan) \<mapsto>
         \<lparr>ow_namespace = ns, ow_operation_digest = pp_operation_digest plan, ow_result =
             PublicationDone r\<rparr>),
       db_outbox := db_outbox db @ [e]\<rparr>"
    by (rule activate_generation_Inr[OF run m_def gid_def ns_def, folded e_def])
  note ef = publication_event_fields[OF plan, of expected, folded e_def m_def, folded gid_def ns_def]
  note rd = representsD[OF rep]
  have follow: "may_follow evs e" using a(1,2,8) rd(2,3) unfolding may_follow_def ef rd(1) by auto
  have ans: "answers (PublicationDone r) e"
    by (simp add: answers_def a(10) publication_outcome_def ef m_def[symmetric] gid_def[symmetric]
        ns_def[symmetric])
  have gens: "db_generations db' g = None \<longleftrightarrow> (\<forall>f \<in> set (evs @ [e]). ob_activated_generation_id f \<noteq> g)"
      for g
    using rd(3)[of g] by (auto simp: db' ef retired_at)
  have stored: "stored_generation db' (evs @ [e]) g r'" if r': "db_generations db' g = Some r'" for g r'
  proof (cases "g = gid")
    case True
    then have "r' = (candidate_row m)\<lparr>gr_status := ACTIVE\<rparr>" using r' by (simp add: db')
    then show ?thesis using True a(5,6)
      by (simp add: stored_generation_def published_in_snoc active_after_snoc ef candidate_row_def db'
          ns_def)
  next
    case False
    then obtain r0 where r0: "db_generations db g = Some r0"
      and eq: "r' = (if expected = Some g then r0\<lparr>gr_status := RETIRED\<rparr> else r0)"
      using r' by (auto simp: db' retired_at split: if_splits)
    show ?thesis
      by (rule stored_generation_later[OF hist rd(4)[OF r0] _ _ eq])
        (use False a(1,3,4) rd(2) in \<open>simp_all add: ef db' filter_other\<close>)
  qed
  have ops: "db_operations db' oid = None \<longleftrightarrow> (\<forall>f \<in> set (evs @ [e]). ob_operation_id f \<noteq> oid)" for oid
    using rd(5)[of oid] by (auto simp: db' ef)
  have rows: "\<exists>f \<in> set (evs @ [e]). ob_operation_id f = oid \<and> answers (ow_result row) f"
    if row: "db_operations db' oid = Some row" for oid row
  proof (cases "oid = pu_operation_id (pp_context plan)")
    case True then show ?thesis using row ans by (auto simp: db' ef)
  next
    case False then show ?thesis using row rd(6)[of oid row] by (simp add: db')
  qed
  have "represents db' (evs @ [e])"
    unfolding represents_def
    using gens stored ops rows a(9) rd(7) by (simp add: db' rd(1,2) active_after_snoc ef)
  then show ?thesis using follow ans unfolding e_def by simp
qed

lemma rollback_represents:
  assumes hist: "valid_history evs" and rep: "represents db evs"
    and run: "restore_generation q expected db = (Inr r, db')"
  shows "\<exists>e. may_follow evs e \<and> represents db' (evs @ [e]) \<and> answers (RollbackDone r) e
    \<and> ob_operation_id e = pu_operation_id (rk_context q)"
proof -
  define target where "target = rk_target_generation_id q"
  define ns where "ns = is_namespace (rk_scope q)"
  obtain row where a:
    "map_option fst (db_active db ns) = Some expected" "db_generations db target = Some row"
    "gr_namespace row = ns" "gr_status row = RETIRED"
    "db_operations db (pu_operation_id (rk_context q)) = None"
    "fresh_event (db_outbox db) (rollback_outbox q expected (gr_generation_digest row))"
    "is_digest (gr_generation_digest row)" and res: "rb_activated_generation_id r = target"
    "rb_generation_digest r = gr_generation_digest row" "rb_previous_generation_id r = expected"
    "rb_operation_id r = pu_operation_id (rk_context q)" "rb_scope r = rk_scope q"
    and db': "db_generations db' = (retired (Some expected) (db_generations db))(target \<mapsto> row\<lparr>gr_status
        := ACTIVE\<rparr>)"
    "db_active db' = (db_active db)(ns \<mapsto> (target, gr_generation_digest row))"
    "db_documents db' = db_documents db" "db_chunks db' = db_chunks db"
    "db_operations db' = (db_operations db)(pu_operation_id (rk_context q) \<mapsto>
         \<lparr>ow_namespace = ns, ow_operation_digest = rk_operation_digest q, ow_result = RollbackDone r\<rparr>)"
    "db_outbox db' = db_outbox db @ [rollback_outbox q expected (gr_generation_digest row)]"
    by (rule restore_generation_Inr[OF run target_def ns_def])
  define e where "e = rollback_outbox q expected (gr_generation_digest row)"
  note rd = representsD[OF rep]
  have ef: "ob_namespace e = ns" "ob_activated_generation_id e = target" "ob_generation_digest e =
      gr_generation_digest row"
    "ob_action e = RollbackAction" "ob_operation_id e = pu_operation_id (rk_context q)"
    "ob_previous_generation_id e = Some expected"
    by (simp_all add: e_def ns_def target_def)
  have sg: "stored_generation db evs target row" by (rule rd(4)[OF a(2)])
  have pub: "published_in evs target ns (gr_generation_digest row)"
    and inactive: "active_after evs ns \<noteq> Some (target, gr_generation_digest row)"
    using sg a(3,4) by (auto simp: stored_generation_def)
  have other: "expected \<noteq> target"
  proof
    assume "expected = target"
    then obtain d where d: "active_after evs ns = Some (target, d)" using a(1) rd(2) by auto
    from published_unique[OF hist active_published[OF hist d] pub] d inactive show False by simp
  qed
  have follow: "may_follow evs e" using a(1,6) rd(2) pub other unfolding may_follow_def
      e_def[symmetric] ef rd(1) by auto
  have ans: "answers (RollbackDone r) e" by (simp add: answers_def res ef ns_def)
  have in_evs: "\<exists>f \<in> set evs. ob_activated_generation_id f = target" using pub by (auto simp:
      published_in_def)
  have gens: "db_generations db' g = None \<longleftrightarrow> (\<forall>f \<in> set (evs @ [e]). ob_activated_generation_id f \<noteq> g)"
      for g
    using rd(3)[of g] in_evs by (auto simp: db' ef retired_at)
  have stored: "stored_generation db' (evs @ [e]) g r'" if r': "db_generations db' g = Some r'" for g r'
  proof (cases "g = target")
    case True
    then have "r' = row\<lparr>gr_status := ACTIVE\<rparr>" using r' by (simp add: db')
    then show ?thesis using True sg by (simp add: stored_generation_def published_in_snoc
        active_after_snoc ef db' a(3))
  next
    case False
    then obtain r0 where r0: "db_generations db g = Some r0"
      and eq: "r' = (if Some expected = Some g then r0\<lparr>gr_status := RETIRED\<rparr> else r0)"
      using r' by (auto simp: db' retired_at split: if_splits)
    show ?thesis
      by (rule stored_generation_later[OF hist rd(4)[OF r0] _ _ eq]) (use False a(1) rd(2) in \<open>simp_all
          add: ef db'\<close>)
  qed
  have ops: "db_operations db' oid = None \<longleftrightarrow> (\<forall>f \<in> set (evs @ [e]). ob_operation_id f \<noteq> oid)" for oid
    using rd(5)[of oid] by (auto simp: db' ef)
  have rows: "\<exists>f \<in> set (evs @ [e]). ob_operation_id f = oid \<and> answers (ow_result row) f"
    if row: "db_operations db' oid = Some row" for oid row
  proof (cases "oid = pu_operation_id (rk_context q)")
    case True then show ?thesis using row ans by (auto simp: db' ef)
  next
    case False then show ?thesis using row rd(6)[of oid row] by (simp add: db')
  qed
  have "represents db' (evs @ [e])"
    unfolding represents_def
    using gens stored ops rows a(7) rd(7) by (simp add: db' rd(1,2) active_after_snoc ef
        e_def[symmetric])
  then show ?thesis using follow ans ef(5) by blast
qed

section \<open>Transactions of the repository\<close>

text \<open>A transaction leaves the database as it was, or ran to its end, whatever was answered.\<close>

lemma run_transaction_cases:
  assumes "run_transaction fault t db = (res, db')"
  obtains e where "db' = db" "res = Inl e"
    | r where "t db = (Inr r, db')" "res = Inr r \<or> (\<exists>e. fault = LostReply e \<and> res = Inl e)"
  using assms unfolding run_transaction_def
  by (cases fault) (auto split: prod.splits sum.splits)

lemma establish_Inr: "establish c db = (Inr u, db') \<longleftrightarrow> db_identity db = Some (c, 1) \<and> db' = db"
  by (simp add: establish_def)

lemma find_operation_Inr: "find_operation oid db = (Inr x, db') \<longleftrightarrow> x = map_option ow_result
    (db_operations db oid) \<and> db' = db"
  by (simp add: find_operation_def)

text \<open>What a commit does: nothing, or a fresh operation.\<close>

lemma commit_generation_cases:
  assumes "commit_generation env customer plan expected fault db = (res, db')"
  shows "db' = db \<and> (\<forall>r. res = Inr r \<longrightarrow> (\<exists>row. db_operations db (pu_operation_id (pp_context plan)) =
      Some row
            \<and> ow_result row = PublicationDone r \<and> pr_operation_digest r = pp_operation_digest plan))
    \<or> (\<exists>r. activate_generation env plan expected db = (Inr r, db') \<and> (\<forall>r'. res = Inr r' \<longrightarrow> r' = r))"
proof (cases "is_customer_environment_id (gm_scope (pp_manifest plan)) = customer")
  case True
  define t where "t = andthen (establish customer) (\<lambda>_.
     andthen (find_operation (pu_operation_id (pp_context plan))) (\<lambda>existing.
       case existing of
         Some (PublicationDone r) \<Rightarrow>
           if pr_operation_digest r \<noteq> pp_operation_digest plan then stop StoreConflict else give r
       | Some (RollbackDone _) \<Rightarrow> stop StoreConflict
       | None \<Rightarrow> activate_generation env plan expected))"
  have "run_transaction fault t db = (res, db')" using assms True by (simp add: commit_generation_def
      t_def)
  then show ?thesis
  proof (cases rule: run_transaction_cases)
    case (2 r)
    then show ?thesis
      unfolding t_def andthen_Inr establish_Inr find_operation_Inr
      by (auto split: option.splits operation_result.splits if_splits)
  qed simp
next
  case False then show ?thesis using assms by (auto simp: commit_generation_def)
qed

lemma commit_rollback_cases:
  assumes "commit_rollback customer q expected fault db = (res, db')"
  shows "db' = db \<and> (\<forall>r. res = Inr r \<longrightarrow> (\<exists>row. db_operations db (pu_operation_id (rk_context q)) = Some
      row
            \<and> ow_result row = RollbackDone r \<and> rb_operation_digest r = rk_operation_digest q))
    \<or> (\<exists>r. restore_generation q expected db = (Inr r, db') \<and> (\<forall>r'. res = Inr r' \<longrightarrow> r' = r))"
proof (cases "is_customer_environment_id (rk_scope q) = customer")
  case True
  define t where "t = andthen (establish customer) (\<lambda>_.
     andthen (find_operation (pu_operation_id (rk_context q))) (\<lambda>existing.
       case existing of
         Some (RollbackDone r) \<Rightarrow>
           if rb_operation_digest r \<noteq> rk_operation_digest q then stop StoreConflict else give r
       | Some (PublicationDone _) \<Rightarrow> stop StoreConflict
       | None \<Rightarrow> restore_generation q expected))"
  have "run_transaction fault t db = (res, db')" using assms True by (simp add: commit_rollback_def
      t_def)
  then show ?thesis
  proof (cases rule: run_transaction_cases)
    case (2 r)
    then show ?thesis
      unfolding t_def andthen_Inr establish_Inr find_operation_Inr
      by (auto split: option.splits operation_result.splits if_splits)
  qed simp
next
  case False then show ?thesis using assms by (auto simp: commit_rollback_def)
qed

section \<open>Runs\<close>

datatype store_call =
    CommitGeneration publication_plan "uuid option" db_fault
  | CommitRollback rollback_request uuid db_fault
  | GetOperationResult pystr db_fault
  | GetActiveSnapshot index_scope db_fault

primrec store_effect :: "ingest_env \<Rightarrow> pystr \<Rightarrow> store_call \<Rightarrow> knowledge_db \<Rightarrow> knowledge_db" where
  "store_effect env customer (CommitGeneration plan expected fault) db =
     snd (commit_generation env customer plan expected fault db)"
| "store_effect env customer (CommitRollback q expected fault) db = snd (commit_rollback customer q
    expected fault db)"
| "store_effect env customer (GetOperationResult oid fault) db = snd (get_operation_result customer oid
    fault db)"
| "store_effect env customer (GetActiveSnapshot sc fault) db = snd (active_snapshot customer sc fault
    db)"

definition store_run :: "ingest_env \<Rightarrow> pystr \<Rightarrow> store_call list \<Rightarrow> knowledge_db \<Rightarrow> knowledge_db" where
  "store_run env customer calls db = fold (store_effect env customer) calls db"

definition call_consistent :: "store_call \<Rightarrow> bool" where
  "call_consistent c = (case c of CommitGeneration plan _ _ \<Rightarrow> plan_consistent plan | _ \<Rightarrow> True)"

definition empty_db :: "(pystr \<times> int) option \<Rightarrow> knowledge_db" where
  "empty_db identity = \<lparr>db_identity = identity, db_generations = Map.empty, db_active = Map.empty,
      db_documents = [],
     db_chunks = [], db_operations = Map.empty, db_outbox = []\<rparr>"

lemma fetch_keeps: "snd (run_transaction fault (andthen (establish customer) (\<lambda>_. fetch f)) db) = db"
  by (auto simp: run_transaction_def andthen_def establish_def guard_def fetch_def split:
      db_fault.splits)

lemma lookup_effects:
  "store_effect env customer (GetOperationResult oid fault) db = db"
  "store_effect env customer (GetActiveSnapshot sc fault) db = db"
  by (simp_all add: get_operation_result_def active_snapshot_def find_operation_def fetch_keeps)

lemma effect_represents:
  assumes "valid_history evs" "represents db evs" "call_consistent c"
  shows "\<exists>es. valid_history (evs @ es) \<and> represents (store_effect env customer c db) (evs @ es) \<and>
      length es \<le> 1"
proof (cases c)
  case (CommitGeneration plan expected fault)
  then consider "store_effect env customer c db = db"
    | r where "activate_generation env plan expected db = (Inr r, store_effect env customer c db)"
    using commit_generation_cases[of env customer plan expected fault db] by (metis prod.collapse
        store_effect.simps(1))
  then show ?thesis
  proof cases
    case 2
    have "plan_consistent plan" using assms(3) CommitGeneration by (simp add: call_consistent_def)
    then show ?thesis using publication_represents[OF assms(1,2) _ 2] valid_history.recorded[OF
        assms(1)]
      by (intro exI[of _ "[publication_event plan expected]"]) auto
  qed (use assms in \<open>auto intro: exI[of _ "[]"]\<close>)
next
  case (CommitRollback q expected fault)
  then consider "store_effect env customer c db = db"
    | r where "restore_generation q expected db = (Inr r, store_effect env customer c db)"
    using commit_rollback_cases[of customer q expected fault db] by (metis prod.collapse
        store_effect.simps(2))
  then show ?thesis
  proof cases
    case 2
    then obtain e where "may_follow evs e" "represents (store_effect env customer c db) (evs @ [e])"
      using rollback_represents[OF assms(1,2) 2] by blast
    then show ?thesis using valid_history.recorded[OF assms(1)] by (intro exI[of _ "[e]"]) auto
  qed (use assms in \<open>auto intro: exI[of _ "[]"]\<close>)
qed (use assms lookup_effects in \<open>auto simp del: store_effect.simps intro: exI[of _ "[]"]\<close>)

lemma run_represents:
  assumes "valid_history evs" "represents db evs" "list_all call_consistent calls"
  shows "\<exists>es. valid_history (evs @ es) \<and> represents (store_run env customer calls db) (evs @ es)"
  using assms
proof (induction calls arbitrary: db evs)
  case Nil
  then show ?case by (intro exI[of _ "[]"]) (simp add: store_run_def)
next
  case (Cons c cs)
  obtain es where es: "valid_history (evs @ es)" "represents (store_effect env customer c db) (evs @
      es)"
    using effect_represents[OF Cons.prems(1,2), of c env customer] Cons.prems(3) by auto
  obtain fs where "valid_history ((evs @ es) @ fs)" "represents (store_run env customer cs
      (store_effect env customer c db)) ((evs @ es) @ fs)"
    using Cons.IH[OF es] Cons.prems(3) by auto
  then show ?case by (intro exI[of _ "es @ fs"]) (simp add: store_run_def)
qed

lemma empty_represents: "valid_history []" "represents (empty_db i) []"
  by (simp_all add: valid_history.empty represents_def empty_db_def fun_eq_iff)

end
