(* ===== verification/IngestionProperties.thy ===== *)
theory IngestionProperties
  imports Publishing
begin

text \<open>
  The preparation of knowledge documents: validated values validate again, a prepared bundle passes
  the publisher's defensive checks, which compute the identifiers again, its chunks carry the whole content
  of the draft within the limits, when preparation succeeds (with the governance, size and version
  conditions stated on their own), and the versions of successive ingestions.
\<close>

section \<open>Validated values validate again\<close>

definition stable :: "('a \<Rightarrow> 'a checked) \<Rightarrow> bool" where
  "stable f \<longleftrightarrow> (\<forall>s t. f s = Inr t \<longrightarrow> f t = Inr t)"

lemma stableD: "stable f \<Longrightarrow> f s = Inr t \<Longrightarrow> f t = Inr t"
  by (simp add: stable_def)

lemma stable_optional:
  assumes "stable f"
  shows "stable (optional_checked f)"
proof -
  have "optional_checked f v = Inr u \<Longrightarrow> optional_checked f u = Inr u" for v u
    by (cases v) (auto simp: bindE_Inr_iff dest: stableD[OF assms])
  then show ?thesis by (simp add: stable_def)
qed

lemma stable_map:
  assumes "stable f"
  shows "stable (map_checked f)"
proof -
  have "map_checked f xs = Inr ys \<Longrightarrow> map_checked f ys = Inr ys" for xs ys
    by (induction xs arbitrary: ys) (auto simp: bindE_Inr_iff dest: stableD[OF assms])
  then show ?thesis by (simp add: stable_def)
qed

lemma stable_leaves:
  "stable validate_opaque_id" "stable canonical_semver" "stable validate_section_key" "stable plain_str"
  "stable validate_policy_code" "stable language_code" "stable validate_digest" "stable
      validate_identifier"
  "stable validate_provenance"
  by (auto simp: stable_def validate_opaque_id_def canonical_semver_def validate_section_key_def
      plain_str_def
      validate_policy_code_def language_code_def validate_digest_def validate_provenance_def
          bindE_Inr_iff
      intro: validate_identifier_id dest: validate_identifier_Inr split: if_splits)

lemma stable_code: "case_mapping lower upper \<Longrightarrow> stable (validate_code lower)"
  using validate_code_Inr validate_code_id unfolding stable_def by blast

lemmas stable_fields = stable_leaves stable_optional stable_map

lemma validate_prepared_chunk_Inr:
  assumes "validate_prepared_chunk lower c = Inr d"
  shows "validate_opaque_id (pc_chunk_id c) = Inr (pc_chunk_id d)"
    and "validate_opaque_id (pc_citation_id c) = Inr (pc_citation_id d)"
    and "canonical_semver (gv_document_version c) = Inr (gv_document_version d)"
    and "0 \<le> pc_chunk_ordinal d" "pc_chunk_ordinal d = pc_chunk_ordinal c"
    and "validate_code lower (gv_namespace c) = Inr (gv_namespace d)"
    and "validate_section_key (pc_section_key c) = Inr (pc_section_key d)"
    and "plain_str (pc_heading c) = Inr (pc_heading d)"
    and "optional_checked validate_identifier (gv_customer_environment_id c) = Inr
        (gv_customer_environment_id d)"
    and "map_checked (validate_code lower) (gv_required_modules_all c) = Inr (gv_required_modules_all
        d)"
    and "map_checked validate_policy_code (gv_required_permissions_all c) = Inr
        (gv_required_permissions_all d)"
    and "map_checked (validate_code lower) (gv_allowed_purposes c) = Inr (gv_allowed_purposes d)"
    and "map_checked validate_identifier (gv_legal_entity_ids c) = Inr (gv_legal_entity_ids d)"
    and "language_code (gv_language c) = Inr (gv_language d)"
    and "plain_str (gv_title c) = Inr (gv_title d)"
    and "plain_str (pc_content c) = Inr (pc_content d)"
    and "gv_document_id d = gv_document_id c" "gv_source_type d = gv_source_type c"
    and "gv_data_classification d = gv_data_classification c"
    and "gv_effective_from d = gv_effective_from c" "gv_effective_to d = gv_effective_to c"
  using assms unfolding validate_prepared_chunk_def
  by (auto elim!: bindE_InrE raise_if_InrE)

lemma validate_prepared_chunk_stable:
  assumes "case_mapping lower upper"
  shows "stable (validate_prepared_chunk lower)"
proof -
  have "validate_prepared_chunk lower d = Inr d" if "validate_prepared_chunk lower c = Inr d" for c d
  proof -
    note f = validate_prepared_chunk_Inr[OF that]
    note s = stable_fields stable_code[OF assms]
    have "validate_opaque_id (pc_chunk_id d) = Inr (pc_chunk_id d)"
      "validate_opaque_id (pc_citation_id d) = Inr (pc_citation_id d)"
      "canonical_semver (gv_document_version d) = Inr (gv_document_version d)"
      "validate_code lower (gv_namespace d) = Inr (gv_namespace d)"
      "validate_section_key (pc_section_key d) = Inr (pc_section_key d)"
      "plain_str (pc_heading d) = Inr (pc_heading d)"
      "optional_checked validate_identifier (gv_customer_environment_id d) = Inr
          (gv_customer_environment_id d)"
      "map_checked (validate_code lower) (gv_required_modules_all d) = Inr (gv_required_modules_all d)"
      "map_checked validate_policy_code (gv_required_permissions_all d) = Inr
          (gv_required_permissions_all d)"
      "map_checked (validate_code lower) (gv_allowed_purposes d) = Inr (gv_allowed_purposes d)"
      "map_checked validate_identifier (gv_legal_entity_ids d) = Inr (gv_legal_entity_ids d)"
      "language_code (gv_language d) = Inr (gv_language d)"
      "plain_str (gv_title d) = Inr (gv_title d)" "plain_str (pc_content d) = Inr (pc_content d)"
      using f(1-3,6-16) by (blast intro: stableD s)+
    then show ?thesis using f(4) by (simp add: validate_prepared_chunk_def)
  qed
  then show ?thesis by (simp add: stable_def)
qed

lemma validate_prepared_manifest_stable:
  assumes "case_mapping lower upper"
  shows "stable (validate_prepared_manifest lower)"
proof -
  have "validate_prepared_manifest lower d = Inr d" if "validate_prepared_manifest lower c = Inr d" for
      c d
  proof -
    note s = stable_fields stable_code[OF assms]
    have f: "canonical_semver (pm_document_version c) = Inr (pm_document_version d)"
      "validate_code lower (pm_namespace c) = Inr (pm_namespace d)"
      "optional_checked validate_identifier (pm_customer_environment_id c) = Inr
          (pm_customer_environment_id d)"
      "optional_checked validate_provenance (pm_source_provenance c) = Inr (pm_source_provenance d)"
      "validate_digest (pm_normalized_content_sha256 c) = Inr (pm_normalized_content_sha256 d)"
      "validate_digest (pm_governance_sha256 c) = Inr (pm_governance_sha256 d)"
      "validate_digest (pm_document_fingerprint c) = Inr (pm_document_fingerprint d)"
      "optional_checked canonical_semver (pm_supersedes_version c) = Inr (pm_supersedes_version d)"
      using that unfolding validate_prepared_manifest_def by (auto elim!: bindE_InrE)
    have "canonical_semver (pm_document_version d) = Inr (pm_document_version d)"
      "validate_code lower (pm_namespace d) = Inr (pm_namespace d)"
      "optional_checked validate_identifier (pm_customer_environment_id d) = Inr
          (pm_customer_environment_id d)"
      "optional_checked validate_provenance (pm_source_provenance d) = Inr (pm_source_provenance d)"
      "validate_digest (pm_normalized_content_sha256 d) = Inr (pm_normalized_content_sha256 d)"
      "validate_digest (pm_governance_sha256 d) = Inr (pm_governance_sha256 d)"
      "validate_digest (pm_document_fingerprint d) = Inr (pm_document_fingerprint d)"
      "optional_checked canonical_semver (pm_supersedes_version d) = Inr (pm_supersedes_version d)"
      using f by (blast intro: stableD s)+
    then show ?thesis by (simp add: validate_prepared_manifest_def)
  qed
  then show ?thesis by (simp add: stable_def)
qed

lemma validate_prepared_bundle_stable:
  assumes "case_mapping lower upper"
  shows "stable (validate_prepared_bundle lower)"
proof -
  have "validate_prepared_bundle lower d = Inr d" if "validate_prepared_bundle lower c = Inr d" for c d
  proof -
    have f: "validate_prepared_manifest lower (pb_manifest c) = Inr (pb_manifest d)"
      "map_checked (validate_prepared_chunk lower) (pb_chunks c) = Inr (pb_chunks d)"
      "make_prepared_bundle d = Inr d"
      using that unfolding validate_prepared_bundle_def make_prepared_bundle_def
      by (auto elim!: bindE_InrE raise_if_InrE)
    then show ?thesis
      using stableD[OF validate_prepared_manifest_stable[OF assms]]
        stableD[OF stable_map[OF validate_prepared_chunk_stable[OF assms]]]
      by (simp add: validate_prepared_bundle_def)
  qed
  then show ?thesis by (simp add: stable_def)
qed

section \<open>Prepared bundles\<close>

lemma prepare_knowledge_document_Inr:
  assumes "prepare_knowledge_document env d existing limits = Inr b"
  obtains l content gov disp supersedes raw where
    "l = (case limits of None \<Rightarrow> default_ingestion_limits | Some l \<Rightarrow> l)"
    "validate_governance d = Inr ()" "check_limits l d = Inr ()"
    "json_sha256 env (content_payload d) = Inr content"
    "json_sha256 env (governance_payload d) = Inr gov"
    "json_sha256 env (JObj [(lit ''content'', JStr content), (lit ''governance'', JStr gov)])
       = Inr (pm_document_fingerprint (pb_manifest b))"
    "disposition d (pm_document_fingerprint (pb_manifest b)) existing = Inr (disp, supersedes)"
    "pb_disposition b = disp"
    "chunk_sections (dr_sections d) l = Inr raw" "length raw \<le> maximum_chunks l"
    "map_checked (prepare_chunk env d (pm_document_fingerprint (pb_manifest b))) (enumerate 0 raw) =
        Inr (pb_chunks b)"
    "validate_prepared_manifest (ie_lower env)
       (draft_manifest d content gov (pm_document_fingerprint (pb_manifest b)) supersedes) = Inr
           (pb_manifest b)"
    "pb_total_normalized_utf8_bytes b = int (document_bytes d)"
    "pb_total_chunk_count b = int (length (pb_chunks b))"
    "make_prepared_bundle b = Inr b"
proof -
  let ?l = "case limits of None \<Rightarrow> default_ingestion_limits | Some l \<Rightarrow> l"
  obtain content gov fp disp supersedes raw chunks m where p:
    "validate_governance d = Inr ()" "check_limits ?l d = Inr ()"
    "json_sha256 env (content_payload d) = Inr content"
    "json_sha256 env (governance_payload d) = Inr gov"
    "json_sha256 env (JObj [(lit ''content'', JStr content), (lit ''governance'', JStr gov)]) = Inr fp"
    "disposition d fp existing = Inr (disp, supersedes)"
    "chunk_sections (dr_sections d) ?l = Inr raw" "length raw \<le> maximum_chunks ?l"
    "map_checked (prepare_chunk env d fp) (enumerate 0 raw) = Inr chunks"
    and m: "validate_prepared_manifest (ie_lower env)
       (draft_manifest d content gov fp supersedes) = Inr m"
    and b: "make_prepared_bundle \<lparr>pb_manifest = m, pb_chunks = chunks, pb_disposition = disp,
       pb_total_normalized_utf8_bytes = int (document_bytes d),
       pb_total_chunk_count = int (length chunks)\<rparr> = Inr b"
    using assms unfolding prepare_knowledge_document_def Let_def
    by (auto elim!: bindE_InrE raise_if_InrE split: prod.splits)
  have be: "b = \<lparr>pb_manifest = m, pb_chunks = chunks, pb_disposition = disp,
       pb_total_normalized_utf8_bytes = int (document_bytes d), pb_total_chunk_count = int (length
           chunks)\<rparr>"
    using b unfolding make_prepared_bundle_def by (auto elim!: raise_if_InrE)
  have fp: "fp = pm_document_fingerprint (pb_manifest b)"
    using m be unfolding validate_prepared_manifest_def validate_digest_def draft_manifest_def by (auto
        elim!: bindE_InrE raise_if_InrE)
  show thesis
    by (rule that[OF refl p(1-4), of disp supersedes raw]) (use p(5-9) m b be fp in simp_all)
qed

lemma prepare_chunk_Inr:
  assumes "prepare_chunk env d fp q = Inr c"
  obtains raw where
    "opaque_id env (lit ''chk'') fp (fst q) = Inr (pc_chunk_id c)"
    "opaque_id env (lit ''cite'') fp (fst q) = Inr (pc_citation_id c)"
    "validate_prepared_chunk (ie_lower env) raw = Inr c"
    "governance.truncate raw = governance.truncate d" "pc_chunk_ordinal raw = int (fst q)"
    "pc_section_key raw = sc_key (snd q)" "pc_heading raw = sc_heading (snd q)" "pc_content raw =
        sc_content (snd q)"
proof -
  obtain chk cite where ids: "opaque_id env (lit ''chk'') fp (fst q) = Inr chk"
    "opaque_id env (lit ''cite'') fp (fst q) = Inr cite"
    and v: "validate_prepared_chunk (ie_lower env)
         (governance.extend (governance.truncate d)
            \<lparr>pc_chunk_id = chk, pc_citation_id = cite, pc_chunk_ordinal = int (fst q),
             pc_section_key = sc_key (snd q), pc_heading = sc_heading (snd q),
             pc_content = sc_content (snd q)\<rparr>) = Inr c"
    using assms unfolding prepare_chunk_def by (auto elim!: bindE_InrE)
  have "pc_chunk_id c = chk" "pc_citation_id c = cite"
    using validate_prepared_chunk_Inr(1,2)[OF v] unfolding validate_opaque_id_def
    by (auto simp: governance.defs elim!: raise_if_InrE)
  then show thesis using that[OF _ _ v] ids by (simp add: governance.defs)
qed

text \<open>Chunks validated from drafts with the same governed fields have the same governed fields.\<close>

lemma validated_governance:
  assumes "validate_prepared_chunk lower c = Inr c'" "validate_prepared_chunk lower d = Inr d'"
    "governance.truncate c = governance.truncate d"
  shows "governance.truncate c' = governance.truncate d'"
proof -
  have e: "gv_document_id c = gv_document_id d" "gv_document_version c = gv_document_version d"
    "gv_namespace c = gv_namespace d" "gv_source_type c = gv_source_type d"
    "gv_customer_environment_id c = gv_customer_environment_id d"
    "gv_required_modules_all c = gv_required_modules_all d"
    "gv_required_permissions_all c = gv_required_permissions_all d"
    "gv_allowed_purposes c = gv_allowed_purposes d" "gv_legal_entity_ids c = gv_legal_entity_ids d"
    "gv_data_classification c = gv_data_classification d" "gv_language c = gv_language d"
    "gv_title c = gv_title d" "gv_effective_from c = gv_effective_from d" "gv_effective_to c =
        gv_effective_to d"
    using assms(3) by (simp_all add: governance.defs)
  show ?thesis
    using validate_prepared_chunk_Inr[OF assms(1)] validate_prepared_chunk_Inr[OF assms(2)]
    unfolding e by (simp add: governance.defs)
qed

lemma enumerate_ordinals: "map fst (enumerate 0 xs) = [0..<length xs]"
  by (simp add: map_fst_enumerate)

lemma prepared_chunks:
  assumes "map_checked (prepare_chunk env d fp) (enumerate 0 raw) = Inr cs"
  shows "length cs = length raw"
    and "i < length cs \<Longrightarrow> prepare_chunk env d fp (i, raw ! i) = Inr (cs ! i)"
  using map_checked_InrD[OF assms]
  by (auto simp: list_all2_conv_all_nth nth_enumerate_eq)


text \<open>What the publisher checks of one prepared chunk.\<close>

lemma prepared_manifest_fields:
  assumes "validate_prepared_manifest lower m = Inr m'"
  shows "canonical_semver (pm_document_version m) = Inr (pm_document_version m')"
    and "validate_code lower (pm_namespace m) = Inr (pm_namespace m')"
    and "optional_checked validate_identifier (pm_customer_environment_id m) = Inr
        (pm_customer_environment_id m')"
    and "pm_document_id m' = pm_document_id m" "pm_source_type m' = pm_source_type m"
    and "pm_normalized_content_sha256 m' = pm_normalized_content_sha256 m"
    and "pm_governance_sha256 m' = pm_governance_sha256 m"
    and "pm_document_fingerprint m' = pm_document_fingerprint m"
  using assms unfolding validate_prepared_manifest_def validate_digest_def
  by (auto elim!: bindE_InrE raise_if_InrE)

definition describes_draft :: "ingest_env \<Rightarrow> zoned_time document_draft \<Rightarrow> prepared_manifest \<Rightarrow> bool" where
  "describes_draft env d m \<longleftrightarrow> pm_document_id m = gv_document_id d \<and> pm_source_type m = gv_source_type d
     \<and> canonical_semver (gv_document_version d) = Inr (pm_document_version m)
     \<and> validate_code (ie_lower env) (gv_namespace d) = Inr (pm_namespace m)
     \<and> optional_checked validate_identifier (gv_customer_environment_id d) = Inr
         (pm_customer_environment_id m)"

text \<open>The publisher's digests and identifiers are those of the preparation.\<close>

lemma publisher_digest_eq [simp]: "publisher_digest env v = json_sha256 env v"
  by (simp add: publisher_digest_def json_sha256_def split: sum.split)

lemma opaque_chunk_id_eq: "opaque_chunk_id env kind fp (int n) = opaque_id env kind fp n"
  by (simp add: opaque_chunk_id_def opaque_id_def lit_def)

lemma chunk_governance_truncate:
  "governance.truncate c = governance.truncate d \<Longrightarrow> chunk_governance c = chunk_governance d"
  by (simp add: chunk_governance_def governance.defs)

lemma prepared_chunk_valid:
  assumes m: "describes_draft env d m"
    and c: "prepare_chunk env d (pm_document_fingerprint m) (i, r) = Inr c"
    and first: "prepare_chunk env d (pm_document_fingerprint m) (j, r') = Inr first"
  shows "validate_chunk env m first c = Inr () \<and> pc_chunk_ordinal c = int i"
proof -
  obtain raw where raw: "opaque_id env (lit ''chk'') (pm_document_fingerprint m) i = Inr (pc_chunk_id
      c)"
    "opaque_id env (lit ''cite'') (pm_document_fingerprint m) i = Inr (pc_citation_id c)"
    "validate_prepared_chunk (ie_lower env) raw = Inr c"
    "governance.truncate raw = governance.truncate d" "pc_chunk_ordinal raw = int i"
    using prepare_chunk_Inr[OF c] by (metis fst_conv)
  obtain raw' where raw': "validate_prepared_chunk (ie_lower env) raw' = Inr first"
    "governance.truncate raw' = governance.truncate d"
    using prepare_chunk_Inr[OF first] by metis
  note f = validate_prepared_chunk_Inr[OF raw(3)]
  have d: "gv_document_id raw = gv_document_id d" "gv_document_version raw = gv_document_version d"
    "gv_namespace raw = gv_namespace d" "gv_source_type raw = gv_source_type d"
    "gv_customer_environment_id raw = gv_customer_environment_id d"
    using raw(4) by (simp_all add: governance.defs)
  have "chunk_governance c = chunk_governance first"
    by (rule chunk_governance_truncate, rule validated_governance[OF raw(3) raw'(1)]) (simp add: raw(4)
        raw'(2))
  moreover have "pc_chunk_ordinal c = int i" using f(5) raw(5) by simp
  moreover have "gv_document_version c = pm_document_version m" "gv_namespace c = pm_namespace m"
    "gv_customer_environment_id c = pm_customer_environment_id m"
    using m f(3,6,9) unfolding describes_draft_def d by simp_all
  ultimately show ?thesis using m f(17,18) raw(1,2)
    by (simp add: validate_chunk_def describes_draft_def d opaque_chunk_id_eq)
qed

lemma prepared_bundle_valid:
  assumes "case_mapping (ie_lower env) upper"
    and "prepare_knowledge_document env d existing limits = Inr b"
  shows "validate_prepared_bundle (ie_lower env) b = Inr b \<and> validate_chunk_metadata env b = Inr ()"
proof
  obtain content gov supersedes raw where p:
    "json_sha256 env (JObj [(lit ''content'', JStr content), (lit ''governance'', JStr gov)])
       = Inr (pm_document_fingerprint (pb_manifest b))"
    "map_checked (prepare_chunk env d (pm_document_fingerprint (pb_manifest b))) (enumerate 0 raw) =
        Inr (pb_chunks b)"
    "validate_prepared_manifest (ie_lower env)
       (draft_manifest d content gov (pm_document_fingerprint (pb_manifest b)) supersedes) = Inr
           (pb_manifest b)"
    "pb_total_chunk_count b = int (length (pb_chunks b))" "make_prepared_bundle b = Inr b"
    using prepare_knowledge_document_Inr[OF assms(2)] by metis
  let ?m = "pb_manifest b" and ?cs = "pb_chunks b"
  note pc = prepared_chunks[OF p(2)]
  have chunk: "validate_prepared_chunk (ie_lower env) c = Inr c" if cin: "c \<in> set ?cs" for c
  proof -
    obtain i where "i < length ?cs" "c = ?cs ! i" using cin unfolding in_set_conv_nth by blast
    then have "prepare_chunk env d (pm_document_fingerprint ?m) (i, raw ! i) = Inr c" using pc(2) by
        simp
    then obtain r where "validate_prepared_chunk (ie_lower env) r = Inr c"
      by (rule prepare_chunk_Inr)
    then show ?thesis by (rule stableD[OF validate_prepared_chunk_stable[OF assms(1)]])
  qed
  have m: "validate_prepared_manifest (ie_lower env) ?m = Inr ?m"
    using stableD[OF validate_prepared_manifest_stable[OF assms(1)] p(3)] .
  show "validate_prepared_bundle (ie_lower env) b = Inr b"
    using m map_checked_id[of ?cs "validate_prepared_chunk (ie_lower env)"] chunk p(5)
    by (simp add: validate_prepared_bundle_def)
  note mf = prepared_manifest_fields[OF p(3), unfolded draft_manifest_def, simplified]
  have d: "describes_draft env d ?m" using mf by (simp add: describes_draft_def)
  have ne: "?cs \<noteq> []" using p(4,5) by (auto simp: make_prepared_bundle_def elim!: raise_if_InrE)
  then have first: "prepare_chunk env d (pm_document_fingerprint ?m) (0, raw ! 0) = Inr (hd ?cs)"
    using pc(2)[of 0] by (simp add: hd_conv_nth)
  note valid = prepared_chunk_valid[OF d pc(2) first]
  have ord: "map pc_chunk_ordinal ?cs = map int [0..<length ?cs]"
    using valid by (intro nth_equalityI) simp_all
  have "map_checked (validate_chunk env ?m (hd ?cs)) ?cs = Inr (map (\<lambda>_. ()) ?cs)"
    by (rule map_checked_Inr_map) (use valid in \<open>unfold in_set_conv_nth, blast\<close>)
  moreover have "fingerprint_of env ?m = Inr (pm_document_fingerprint ?m)"
    using p(1) mf by (simp add: fingerprint_of_def)
  ultimately show "validate_chunk_metadata env b = Inr ()"
    using ord ne p(4) by (simp add: validate_chunk_metadata_def)
qed

section \<open>What a prepared bundle holds\<close>

definition effective_limits :: "ingestion_limits option \<Rightarrow> ingestion_limits" where
  "effective_limits limits = (case limits of None \<Rightarrow> default_ingestion_limits | Some l \<Rightarrow> l)"

definition section_chunk_of :: "prepared_chunk \<Rightarrow> section_chunk" where
  "section_chunk_of c = \<lparr>sc_key = pc_section_key c, sc_heading = pc_heading c, sc_content = pc_content
      c\<rparr>"

lemma prepared_section_chunks:
  assumes "map_checked (prepare_chunk env d fp) (enumerate 0 raw) = Inr cs"
  shows "map section_chunk_of cs = raw"
proof (rule nth_equalityI)
  show "length (map section_chunk_of cs) = length raw" using prepared_chunks(1)[OF assms] by simp
  fix i assume i: "i < length (map section_chunk_of cs)"
  then obtain r where r: "validate_prepared_chunk (ie_lower env) r = Inr (cs ! i)"
    "pc_section_key r = sc_key (raw ! i)" "pc_heading r = sc_heading (raw ! i)" "pc_content r =
        sc_content (raw ! i)"
    using prepare_chunk_Inr[OF prepared_chunks(2)[OF assms, of i]] by (metis length_map snd_conv)
  show "map section_chunk_of cs ! i = raw ! i"
    using i r(2-4) validate_prepared_chunk_Inr(7,8,16)[OF r(1)]
    by (auto simp: section_chunk_of_def validate_section_key_def plain_str_def elim!: raise_if_InrE)
qed

lemma list_all2_right: "list_all2 P xs ys \<Longrightarrow> y \<in> set ys \<Longrightarrow> \<exists>x. P x y"
  by (induction rule: list_all2_induct) auto

text \<open>C32: A prepared bundle holds the whole document within the limits: the chunks follow the sections
  in order, the chunks of a section carry exactly the words of its blocks, every chunk fits the
  character and byte limits and is not blank, and there are no more chunks than allowed.
\<close>

theorem prepared_content_complete:
  assumes "prepare_knowledge_document env d existing limits = Inr b" and "l = effective_limits limits"
  shows "length (pb_chunks b) \<le> maximum_chunks l \<and> document_bytes d \<le> maximum_document_bytes l
    \<and> (\<forall>c \<in> set (pb_chunks b). fits l (pc_content c) \<and> py_strip (pc_content c) \<noteq> [])
    \<and> (\<exists>css. map section_chunk_of (pb_chunks b) = concat css \<and> list_all2 (chunks_cover l) (dr_sections
        d) css)"
proof -
  obtain raw where p: "check_limits l d = Inr ()" "chunk_sections (dr_sections d) l = Inr raw"
    "length raw \<le> maximum_chunks l"
    "map_checked (prepare_chunk env d (pm_document_fingerprint (pb_manifest b))) (enumerate 0 raw) =
        Inr (pb_chunks b)"
    using prepare_knowledge_document_Inr[OF assms(1)] assms(2) unfolding effective_limits_def by metis
  note raw = prepared_section_chunks[OF p(4)]
  obtain css where css: "map_checked (section_chunks l) (dr_sections d) = Inr css" "raw = concat css"
    and blank: "\<forall>c \<in> set raw. py_strip (sc_content c) \<noteq> []"
    using p(2) unfolding chunk_sections_Inr by blast
  have cover: "list_all2 (chunks_cover l) (dr_sections d) css"
    using map_checked_InrD[OF css(1)] by (rule list_all2_mono) (rule section_chunks_cover)
  have "\<forall>cs \<in> set css. \<forall>c \<in> set cs. fits l (sc_content c)"
    using list_all2_right[OF cover] unfolding chunks_cover_def by blast
  then have fits: "\<forall>c \<in> set raw. fits l (sc_content c)" using css(2) by auto
  have "fits l (pc_content c) \<and> py_strip (pc_content c) \<noteq> []" if c: "c \<in> set (pb_chunks b)" for c
  proof -
    have "section_chunk_of c \<in> set raw" using c raw by auto
    then have "fits l (sc_content (section_chunk_of c)) \<and> py_strip (sc_content (section_chunk_of c))
        \<noteq> []"
      using fits blank by blast
    then show ?thesis by (simp add: section_chunk_of_def)
  qed
  moreover have "document_bytes d \<le> maximum_document_bytes l"
    using p(1) unfolding check_limits_def by (auto elim!: raise_if_InrE)
  moreover have "length (pb_chunks b) = length raw" using raw by auto
  ultimately show ?thesis using p(3) raw css(2) cover by auto
qed

section \<open>Successive versions\<close>

definition manifest_of :: "prepared_bundle \<Rightarrow> existing_manifest" where
  "manifest_of b = \<lparr>em_document_id = pm_document_id (pb_manifest b),
     em_document_version = pm_document_version (pb_manifest b),
     em_document_fingerprint = pm_document_fingerprint (pb_manifest b)\<rparr>"

text \<open>Drafts prepared one after the other, each against the manifest of the bundle before it.\<close>

inductive ingestion_run :: "ingest_env \<Rightarrow> prepared_bundle list \<Rightarrow> bool" for env where
  first: "prepare_knowledge_document env d None limits = Inr b \<Longrightarrow> ingestion_run env [b]"
| again: "ingestion_run env (bs @ [a]) \<Longrightarrow> prepare_knowledge_document env d (Some (manifest_of a)) limits
    = Inr b
    \<Longrightarrow> ingestion_run env (bs @ [a, b])"

definition version_of :: "prepared_bundle \<Rightarrow> (nat \<times> nat \<times> nat) checked" where
  "version_of b = semver_components (pm_document_version (pb_manifest b))"

definition succeeds :: "prepared_bundle \<Rightarrow> prepared_bundle \<Rightarrow> bool" where
  "succeeds a b \<longleftrightarrow> pm_document_id (pb_manifest a) = pm_document_id (pb_manifest b)
     \<and> (\<exists>v w. version_of a = Inr v \<and> version_of b = Inr w
          \<and> (v < w \<or> v = w \<and> pm_document_fingerprint (pb_manifest a) = pm_document_fingerprint
              (pb_manifest b)))"

lemma succeeds_trans: "succeeds a b \<Longrightarrow> succeeds b c \<Longrightarrow> succeeds a c"
  unfolding succeeds_def by (elim conjE exE) (use order_less_trans in fastforce)

lemma prepared_succeeds:
  assumes "prepare_knowledge_document env d (Some (manifest_of a)) limits = Inr b"
  shows "succeeds a b"
proof -
  obtain disp sup content gov where
    p: "disposition d (pm_document_fingerprint (pb_manifest b)) (Some (manifest_of a)) = Inr (disp,
        sup)"
    "validate_prepared_manifest (ie_lower env)
       (draft_manifest d content gov (pm_document_fingerprint (pb_manifest b)) sup) = Inr (pb_manifest
           b)"
    using prepare_knowledge_document_Inr[OF assms] by metis
  note mf = prepared_manifest_fields[OF p(2), unfolded draft_manifest_def, simplified]
  have v: "pm_document_version (pb_manifest b) = gv_document_version d"
    using mf(1) by (simp add: canonical_semver_def split: if_splits)
  show ?thesis
    using p(1) mf(4) v
    by (auto simp: disposition_def manifest_of_def succeeds_def version_of_def
        elim!: raise_if_InrE bindE_InrE split: if_splits)
qed

text \<open>Over any number of ingestions of a document, each prepared against the bundle before it, the
  versions never go back, and a version is only repeated with the same fingerprint.
\<close>

theorem ingested_versions:
  assumes "ingestion_run env bs"
  shows "sorted_wrt succeeds bs"
  using assms
proof induction
  case (again bs a d limits b)
  then have "succeeds a b" by (intro prepared_succeeds)
  then show ?case using again.IH succeeds_trans by (auto simp: sorted_wrt_append)
qed simp

section \<open>Characters of the chunks\<close>

lemma join_words_all: "list_all P (if a = [] then b else a @ s @ b) \<longleftrightarrow> list_all P b \<and> (a = [] \<or> list_all
    P a \<and> list_all P s)"
  by auto

lemma pack_words_all:
  assumes "P 32"
  shows "pack_words l pieces current ws = Inr us \<Longrightarrow> \<forall>w \<in> set ws. list_all P w \<Longrightarrow> list_all P current
     \<Longrightarrow> \<forall>p \<in> set pieces. list_all P p \<Longrightarrow> \<forall>u \<in> set us. list_all P u"
proof (induction ws arbitrary: pieces current)
  case (Cons w ws)
  define c where "c = (if current = [] then w else current @ [32] @ w)"
  have run: "(if fits l c then pack_words l pieces c ws else pack_words l (pieces @ [current]) w ws) =
      Inr us"
    using Cons.prems(1) unfolding c_def by (auto simp: Let_def elim!: raise_if_InrE)
  have c: "list_all P c" unfolding c_def join_words_all using Cons.prems(2,3) assms by simp
  show ?case
  proof (cases "fits l c")
    case True
    then have "pack_words l pieces c ws = Inr us" using run by simp
    then show ?thesis by (rule Cons.IH) (use Cons.prems c in simp_all)
  next
    case False
    then have "pack_words l (pieces @ [current]) w ws = Inr us" using run by simp
    then show ?thesis by (rule Cons.IH) (use Cons.prems in simp_all)
  qed
qed auto

lemma split_word_all: "list_all P b \<Longrightarrow> w \<in> set (py_split b) \<Longrightarrow> list_all P w"
proof (induction b rule: py_split.induct)
  case (1 s)
  show ?case
  proof (cases "dropWhile py_isspace s")
    case Nil
    then have "py_split s = []" by (subst py_split.simps) (simp only: Nil list.case)
    then show ?thesis using "1.prems" by simp
  next
    case (Cons c cs)
    let ?t = "takeWhile (\<lambda>d. \<not> py_isspace d) (c # cs)" and ?r = "dropWhile (\<lambda>d. \<not> py_isspace d) (c #
        cs)"
    have "py_split s = ?t # py_split ?r" by (subst py_split.simps) (simp only: Cons list.case)
    moreover have all: "list_all P (c # cs)" using "1.prems"(1) Cons
      by (metis list.pred_set set_dropWhileD)
    have "list_all P ?t" "list_all P ?r" using all unfolding list.pred_set by (blast dest:
        set_takeWhileD set_dropWhileD)+
    ultimately show ?thesis using "1.IH"[OF Cons] "1.prems"(2) by auto
  qed
qed

lemma split_block_all:
  assumes "P 32" "split_block l b = Inr us" "list_all P b"
  shows "\<forall>u \<in> set us. list_all P u"
proof (cases "fits l b")
  case True
  then have "Inr [b] = (Inr us :: pystr list checked)" using assms(2) unfolding split_block_def by
      presburger
  then have "us = [b]" by blast
  then show ?thesis using assms(3) by simp
next
  case False
  then have "pack_words l [] [] (py_split b) = Inr us"
    using assms by (auto simp: split_block_def Let_def elim!: raise_if_InrE)
  then show ?thesis
    by (rule pack_words_all[of P, OF assms(1)]) (use split_word_all[OF assms(3)] in simp_all)
qed

lemma set_overlap_suffix: "set (overlap_suffix l c) \<subseteq> set c"
proof -
  define t where "t = py_strip (last_n (overlap_characters l) c)"
  have "set (last_n (overlap_characters l) c) \<subseteq> set c" by (simp add: last_n_def set_drop_subset)
  then have t: "set t \<subseteq> set c" unfolding t_def by (rule order_trans[OF set_py_strip])
  have d: "set (py_strip (drop k t)) \<subseteq> set c" for k
    by (rule order_trans[OF set_py_strip order_trans[OF set_drop_subset t]])
  show ?thesis
    unfolding overlap_suffix_def Let_def t_def[symmetric] using t d by (simp split: option.splits)
qed

lemma overlap_suffix_all: "list_all P c \<Longrightarrow> list_all P (overlap_suffix l c)"
  using set_overlap_suffix unfolding list.pred_set by (metis subsetD)

lemma pack_units_all:
  assumes "P 10"
  shows "\<forall>u \<in> set us. list_all P u \<Longrightarrow> list_all P current \<Longrightarrow> \<forall>c \<in> set (pack_units l current us). list_all
      P c"
proof (induction us arbitrary: current)
  case (Cons u us)
  define c where "c = (if current = [] then u else current @ [10, 10] @ u)"
  define o' where "o' = overlap_suffix l current"
  define n where "n = (if o' \<noteq> [] then o' @ [10, 10] @ u else u)"
  define m where "m = (if fits l n then n else u)"
  have run: "pack_units l current (u # us) = (if fits l c then pack_units l c us
     else (if current \<noteq> [] then [current] else []) @ pack_units l m us)"
    unfolding m_def n_def o'_def c_def by (simp add: Let_def)
  have u: "list_all P u" using Cons.prems(1) by simp
  have c: "list_all P c" unfolding c_def join_words_all using u Cons.prems(2) assms by simp
  have "list_all P o'" unfolding o'_def using Cons.prems(2) by (rule overlap_suffix_all)
  then have "list_all P n" unfolding n_def using u assms by simp
  then have m: "list_all P m" unfolding m_def using u by simp
  have us: "\<forall>u \<in> set us. list_all P u" using Cons.prems(1) by simp
  have "\<forall>d \<in> set (if current \<noteq> [] then [current] else []). list_all P d" using Cons.prems(2) by simp
  then show ?case unfolding run using Cons.IH[OF us c] Cons.IH[OF us m]
    by (cases "fits l c") (simp_all only: if_True if_False set_append ball_Un)
qed simp

lemma chunk_sections_all:
  assumes "P 10" "P 32" "chunk_sections secs l = Inr cs"
    and "\<forall>s \<in> set secs. \<forall>b \<in> set (sec_blocks s). list_all P b"
  shows "\<forall>c \<in> set cs. list_all P (sc_content c) \<and> (\<exists>s \<in> set secs. sc_key c = sec_key s \<and> sc_heading c =
      sec_heading s)"
proof
  fix c assume c: "c \<in> set cs"
  obtain css where css: "map_checked (section_chunks l) secs = Inr css" "cs = concat css"
    using assms(3) unfolding chunk_sections_Inr by blast
  then obtain ds where ds: "ds \<in> set css" "c \<in> set ds" using c by auto
  obtain s where s: "s \<in> set secs" "section_chunks l s = Inr ds" using map_checked_member[OF css(1)
      ds(1)] by blast
  obtain uss where u: "map_checked (split_block l) (sec_blocks s) = Inr uss"
    and ds': "ds = map (\<lambda>c. \<lparr>sc_key = sec_key s, sc_heading = sec_heading s, sc_content = c\<rparr>)
      (pack_units l [] (concat uss))"
    using s(2) unfolding section_chunks_def by (auto elim!: bindE_InrE)
  have "\<forall>us \<in> set uss. \<forall>u \<in> set us. list_all P u"
  proof
    fix us assume "us \<in> set uss"
    then obtain b where "b \<in> set (sec_blocks s)" "split_block l b = Inr us" using map_checked_member[OF
        u] by blast
    then show "\<forall>u \<in> set us. list_all P u" using split_block_all[of P, OF assms(2)] assms(4) s(1) by
        blast
  qed
  then have "\<forall>d \<in> set (pack_units l [] (concat uss)). list_all P d"
    by (intro pack_units_all[of P, OF assms(1)]) simp_all
  then show "list_all P (sc_content c) \<and> (\<exists>s \<in> set secs. sc_key c = sec_key s \<and> sc_heading c =
      sec_heading s)"
    using ds(2) s(1) unfolding ds' by auto
qed

section \<open>When preparation succeeds\<close>

definition draft_valid :: "(pystr \<Rightarrow> pystr) \<Rightarrow> zoned_time document_draft \<Rightarrow> bool" where
  "draft_valid lower d \<longleftrightarrow>
     canonical_semver (gv_document_version d) = Inr (gv_document_version d)
     \<and> validate_code lower (gv_namespace d) = Inr (gv_namespace d)
     \<and> optional_checked validate_identifier (gv_customer_environment_id d) = Inr
         (gv_customer_environment_id d)
     \<and> map_checked (validate_code lower) (gv_required_modules_all d) = Inr (gv_required_modules_all d)
     \<and> map_checked validate_policy_code (gv_required_permissions_all d) = Inr
         (gv_required_permissions_all d)
     \<and> map_checked (validate_code lower) (gv_allowed_purposes d) = Inr (gv_allowed_purposes d)
     \<and> map_checked validate_identifier (gv_legal_entity_ids d) = Inr (gv_legal_entity_ids d)
     \<and> language_code (gv_language d) = Inr (gv_language d)
     \<and> optional_checked validate_provenance (dr_source_provenance d) = Inr (dr_source_provenance d)
     \<and> gv_title d \<noteq> [] \<and> dr_sections d \<noteq> []
     \<and> (\<forall>s \<in> set (dr_sections d). validate_section_key (sec_key s) = Inr (sec_key s) \<and> sec_blocks s \<noteq> []
          \<and> (\<forall>b \<in> set (sec_blocks s). py_strip b \<noteq> []))"

lemma text_field_Inr: "text_field nfc s = Inr t \<Longrightarrow> py_strip t = t \<and> t \<noteq> []"
  unfolding text_field_def normalize_text_def Let_def by (auto elim!: raise_if_InrE)

lemma validate_section_Inr:
  assumes "validate_section nfc s = Inr t"
  shows "validate_section_key (sec_key t) = Inr (sec_key t) \<and> sec_blocks t \<noteq> []
    \<and> (\<forall>b \<in> set (sec_blocks t). py_strip b \<noteq> [])"
proof -
  obtain bs where s: "validate_section_key (sec_key s) = Inr (sec_key t)" "min_length_1 (sec_blocks s)
      = Inr bs"
    "map_checked (text_field nfc) bs = Inr (sec_blocks t)"
    using assms unfolding validate_section_def by (auto elim!: bindE_InrE)
  have "bs \<noteq> []" using s(2) unfolding min_length_1_def by (auto split: if_splits)
  then have "sec_blocks t \<noteq> []" using map_checked_InrD[OF s(3)] by auto
  moreover have "py_strip b \<noteq> []" if "b \<in> set (sec_blocks t)" for b
    using map_checked_member[OF s(3) that] text_field_Inr by metis
  ultimately show ?thesis using stableD[OF stable_leaves(3) s(1)] by blast
qed

lemma validate_draft_fields:
  assumes "validate_draft lower nfc raw = Inr d"
  shows "canonical_semver (gv_document_version raw) = Inr (gv_document_version d)"
    "validate_code lower (gv_namespace raw) = Inr (gv_namespace d)"
    "optional_checked validate_identifier (gv_customer_environment_id raw) = Inr (gv_customer_environment_id d)"
    "text_field nfc (gv_title raw) = Inr (gv_title d)" "language_code (gv_language raw) = Inr (gv_language d)"
    "map_checked (validate_code lower) (gv_required_modules_all raw) = Inr (gv_required_modules_all d)"
    "map_checked validate_policy_code (gv_required_permissions_all raw) = Inr (gv_required_permissions_all d)"
    "map_checked (validate_code lower) (gv_allowed_purposes raw) = Inr (gv_allowed_purposes d)"
    "map_checked validate_identifier (gv_legal_entity_ids raw) = Inr (gv_legal_entity_ids d)"
    "require_zone ''timestamps must be timezone-aware'' (gv_effective_from raw) = Inr (gv_effective_from d)"
    "optional_checked (require_zone ''timestamps must be timezone-aware'') (gv_effective_to raw)
       = Inr (gv_effective_to d)"
    "validate_identifier (dr_approval_reference raw) = Inr (dr_approval_reference d)"
    "require_zone ''timestamps must be timezone-aware'' (dr_approved_at raw) = Inr (dr_approved_at d)"
    "optional_checked validate_provenance (dr_source_provenance raw) = Inr (dr_source_provenance d)"
    "map_checked (validate_section nfc) (dr_sections raw) = Inr (dr_sections d)"
    "gv_document_id d = gv_document_id raw" "gv_source_type d = gv_source_type raw"
    "gv_data_classification d = gv_data_classification raw"
  using assms unfolding validate_draft_def Let_def unique_items_def unique_tuple_def min_length_1_def
  by (auto elim!: bindE_InrE raise_if_InrE split: if_splits)

lemma validate_draft_valid:
  assumes "case_mapping lower upper" "validate_draft lower nfc raw = Inr d"
  shows "draft_valid lower d"
proof -
  note f = validate_draft_fields[OF assms(2)]
  obtain ss where s: "min_length_1 (dr_sections raw) = Inr ss" "map_checked (validate_section nfc) ss = Inr
      (dr_sections d)"
    using assms(2) unfolding validate_draft_def Let_def by (auto elim!: bindE_InrE raise_if_InrE)
  note st = stable_fields stable_code[OF assms(1)]
  have "ss \<noteq> []" using s(1) unfolding min_length_1_def by (auto split: if_splits)
  then have ne: "dr_sections d \<noteq> []" using map_checked_InrD[OF s(2)] by auto
  have secs: "\<forall>s \<in> set (dr_sections d). validate_section_key (sec_key s) = Inr (sec_key s) \<and> sec_blocks
      s \<noteq> []
      \<and> (\<forall>b \<in> set (sec_blocks s). py_strip b \<noteq> [])"
    using map_checked_member[OF s(2)] validate_section_Inr by blast
  have "map_checked (validate_code lower) (gv_required_modules_all d) = Inr (gv_required_modules_all d)"
    "map_checked validate_policy_code (gv_required_permissions_all d) = Inr
        (gv_required_permissions_all d)"
    "map_checked (validate_code lower) (gv_allowed_purposes d) = Inr (gv_allowed_purposes d)"
    "map_checked validate_identifier (gv_legal_entity_ids d) = Inr (gv_legal_entity_ids d)"
    using f(6-9) by (blast intro: stableD st)+
  moreover have "canonical_semver (gv_document_version d) = Inr (gv_document_version d)"
    "validate_code lower (gv_namespace d) = Inr (gv_namespace d)"
    "optional_checked validate_identifier (gv_customer_environment_id d) = Inr
        (gv_customer_environment_id d)"
    "language_code (gv_language d) = Inr (gv_language d)"
    "optional_checked validate_provenance (dr_source_provenance d) = Inr (dr_source_provenance d)"
    using f(1-3,5,14) by (blast intro: stableD st)+
  ultimately show ?thesis unfolding draft_valid_def using ne secs text_field_Inr[OF f(4)] by blast
qed

lemma json_sha256_Inr: "json_sha256 env v = Inr h \<longleftrightarrow> json_encodable v \<and> h = ie_sha256 env (json_text
    (ie_float_text env) (canonical_json v))"
  by (auto simp: json_sha256_def canonical_json_text_def)

lemma hex_encodable: "list_all is_hex s \<Longrightarrow> utf8_encodable s"
  by (auto simp: utf8_encodable_def list_all_iff is_hex_def is_digit_def)

lemma digest_encodable: "is_digest s \<Longrightarrow> utf8_encodable s"
  by (simp add: is_digest_def hex_encodable)

lemma lit_encodable: "list_all (\<lambda>c. of_char c < (128::nat)) s \<Longrightarrow> utf8_encodable (lit s)"
  by (auto simp: utf8_encodable_def lit_def list_all_iff)

lemma opaque_id_Inr:
  assumes "\<And>s. is_digest (ie_sha256 env s)" "is_digest fp" "kind \<in> {lit ''chk'', lit ''cite''}"
  shows "\<exists>i. opaque_id env kind fp n = Inr i \<and> validate_opaque_id i = Inr i"
proof -
  have k: "utf8_encodable kind" using assms(3) by (auto intro!: lit_encodable)
  let ?v = "JObj [(lit ''fingerprint'', JStr fp), (lit ''ordinal'', JInt (int n)), (lit ''kind'', JStr
      kind)]"
  have "json_encodable ?v" using digest_encodable[OF assms(2)] k by (simp add: lit_encodable)
  then obtain h where h: "json_sha256 env ?v = Inr h" "is_digest h"
    using assms(1) unfolding json_sha256_Inr by blast
  have hex: "list_all is_hex (take 32 h)" "length (take 32 h) = 32"
    using h(2) by (auto simp: is_digest_def list_all_iff dest: in_set_takeD)
  have "is_opaque_id (kind @ [95] @ take 32 h)"
    using assms(3) hex by (auto simp: is_opaque_id_def lit_def)
  then show ?thesis using h(1) by (simp add: opaque_id_def validate_opaque_id_def)
qed

lemma prepare_chunk_succeeds:
  assumes digest: "\<And>s. is_digest (ie_sha256 env s)" "is_digest fp" and d: "draft_valid (ie_lower env) d"
    and enc: "utf8_encodable (gv_title d)" "utf8_encodable (sc_heading (snd q))" "utf8_encodable
        (sc_content (snd q))"
    and key: "validate_section_key (sc_key (snd q)) = Inr (sc_key (snd q))"
  shows "\<exists>c. prepare_chunk env d fp q = Inr c"
proof -
  obtain chk cite where ids: "opaque_id env (lit ''chk'') fp (fst q) = Inr chk" "validate_opaque_id chk
      = Inr chk"
    "opaque_id env (lit ''cite'') fp (fst q) = Inr cite" "validate_opaque_id cite = Inr cite"
    using opaque_id_Inr[OF digest, of "lit ''chk''"] opaque_id_Inr[OF digest, of "lit ''cite''"] by
        blast
  have plain: "plain_str s = Inr s" if "utf8_encodable s" for s using that by (simp add: plain_str_def)
  show ?thesis
    using d enc key unfolding draft_valid_def prepare_chunk_def ids(1,3)
    by (simp add: validate_prepared_chunk_def governance.defs ids(2,4) plain)
qed

definition document_fingerprint :: "ingest_env \<Rightarrow> zoned_time document_draft \<Rightarrow> pystr checked" where
  "document_fingerprint env d =
     bindE (json_sha256 env (content_payload d)) (\<lambda>content.
     bindE (json_sha256 env (governance_payload d)) (\<lambda>gov.
       json_sha256 env (JObj [(lit ''content'', JStr content), (lit ''governance'', JStr gov)])))"

lemma content_payload_encodable:
  "json_encodable (content_payload d) \<longleftrightarrow> utf8_encodable (gv_title d)
     \<and> (\<forall>s \<in> set (dr_sections d). utf8_encodable (sec_key s) \<and> utf8_encodable (sec_heading s)
          \<and> (\<forall>b \<in> set (sec_blocks s). utf8_encodable b))"
  by (auto simp: content_payload_def section_json_def lit_encodable list_all_iff)

lemma list_all2_left: "list_all2 P xs ys \<Longrightarrow> x \<in> set xs \<Longrightarrow> \<exists>y \<in> set ys. P x y"
  by (induction rule: list_all2_induct) auto

lemma chunks_exist:
  assumes "draft_valid lower d" "chunk_sections (dr_sections d) l = Inr cs"
  shows "cs \<noteq> []"
proof -
  obtain css where css: "map_checked (section_chunks l) (dr_sections d) = Inr css" "cs = concat css"
    using assms(2) unfolding chunk_sections_Inr by blast
  obtain s b where s: "s \<in> set (dr_sections d)" "b \<in> set (sec_blocks s)" "py_strip b \<noteq> []"
    using assms(1) unfolding draft_valid_def by (metis list.set_intros(1) neq_Nil_conv)
  obtain ds where ds: "ds \<in> set css" "section_chunks l s = Inr ds"
    using list_all2_left[OF map_checked_InrD[OF css(1)] s(1)] by blast
  have "subseq (section_words s) (chunk_words ds)" using section_chunks_cover[OF ds(2)] by (simp add:
      chunks_cover_def)
  moreover have "section_words s \<noteq> []" using s(2,3) nonblank_words unfolding section_words_def by auto
  ultimately have "chunk_words ds \<noteq> []" by auto
  then have "ds \<noteq> []" by (auto simp: chunk_words_def)
  then show ?thesis using ds(1) css(2) by auto
qed

lemma draft_chunks_prepare:
  assumes digest: "\<And>s. is_digest (ie_sha256 env s)" "is_digest fp" and valid: "draft_valid (ie_lower
      env) d"
    and content: "json_encodable (content_payload d)" and cs: "chunk_sections (dr_sections d) l = Inr
        cs"
  obtains chunks where "map_checked (prepare_chunk env d fp) (enumerate 0 cs) = Inr chunks" "chunks
      \<noteq> []"
proof -
  have enc: "utf8_encodable (gv_title d)" "\<forall>s \<in> set (dr_sections d). utf8_encodable (sec_heading s)"
    "\<forall>s \<in> set (dr_sections d). \<forall>b \<in> set (sec_blocks s). utf8_encodable b"
    using content unfolding content_payload_encodable by blast+
  have chunk: "utf8_encodable (sc_content c) \<and> (\<exists>s \<in> set (dr_sections d). sc_key c = sec_key s \<and>
      sc_heading c = sec_heading s)"
    if "c \<in> set cs" for c
    using chunk_sections_all[where P = "\<lambda>c. \<not> (55296 \<le> c \<and> c \<le> 57343)", OF _ _ cs] enc(3) that
    unfolding utf8_encodable_def by simp
  have "\<exists>c. prepare_chunk env d fp q = Inr c" if q: "q \<in> set (enumerate 0 cs)" for q
  proof -
    have "snd q \<in> set (map snd (enumerate 0 cs))" unfolding set_map using q by (rule imageI)
    then have "snd q \<in> set cs" by (simp only: map_snd_enumerate)
    then obtain s where "s \<in> set (dr_sections d)" "sc_key (snd q) = sec_key s" "sc_heading (snd q) =
        sec_heading s"
      and content: "utf8_encodable (sc_content (snd q))" using chunk by blast
    then have "validate_section_key (sc_key (snd q)) = Inr (sc_key (snd q))" "utf8_encodable
        (sc_heading (snd q))"
      using valid enc(2) unfolding draft_valid_def by simp_all
    then show ?thesis using prepare_chunk_succeeds[OF digest valid enc(1)] content by blast
  qed
  then have "\<forall>q \<in> set (enumerate 0 cs). \<exists>c. prepare_chunk env d fp q = Inr c" by (rule ballI)
  then obtain chunks where ch: "map_checked (prepare_chunk env d fp) (enumerate 0 cs) = Inr chunks"
    unfolding map_checked_succeeds[symmetric] by (rule exE)
  have "chunks \<noteq> []" using chunks_exist[OF valid cs] prepared_chunks(1)[OF ch] by auto
  with ch show thesis by (rule that)
qed

lemma disposition_supersedes:
  assumes "disposition d fp existing = Inr (disp, older)" and old: "\<And>e. existing = Some e
      \<Longrightarrow> validate_existing_manifest e = Inr e"
  shows "optional_checked canonical_semver older = Inr older"
proof (cases existing)
  case None
  then show ?thesis using assms(1) by (simp add: disposition_def)
next
  case (Some e)
  then have "canonical_semver (em_document_version e) = Inr (em_document_version e)"
    using old[OF Some] unfolding validate_existing_manifest_def canonical_semver_def
    by (auto elim!: bindE_InrE split: if_splits)
  then show ?thesis using assms(1) Some
    by (auto simp: disposition_def elim!: raise_if_InrE bindE_InrE split: if_splits)
qed

lemma preparation_succeeds_iff:
  assumes digest: "\<And>s. is_digest (ie_sha256 env s)" and "case_mapping (ie_lower env) upper"
    and "validate_draft (ie_lower env) (ie_nfc env) raw = Inr d"
    and old: "\<And>e. existing = Some e \<Longrightarrow> validate_existing_manifest e = Inr e" and l: "l =
        effective_limits limits"
  shows "(\<exists>b. prepare_knowledge_document env d existing limits = Inr b) \<longleftrightarrow>
    validate_governance d = Inr () \<and> check_limits l d = Inr ()
    \<and> (\<exists>fp r. document_fingerprint env d = Inr fp \<and> disposition d fp existing = Inr r)
    \<and> (\<forall>s \<in> set (dr_sections d). \<forall>b \<in> set (sec_blocks s). fits l b \<or> (\<forall>w \<in> set (py_split b). fits l w))
    \<and> (\<forall>cs. chunk_sections (dr_sections d) l = Inr cs \<longrightarrow> length cs \<le> maximum_chunks l)"
    (is "?lhs \<longleftrightarrow> ?rhs")
proof -
  have valid: "draft_valid (ie_lower env) d" by (rule validate_draft_valid[OF assms(2,3)])
  then have blocks: "\<forall>s \<in> set (dr_sections d). \<forall>b \<in> set (sec_blocks s). py_strip b \<noteq> []"
    by (simp add: draft_valid_def)
  note chunking = chunk_sections_succeeds[OF blocks, of l]
  show ?thesis
  proof
    assume ?lhs
    then obtain b where b: "prepare_knowledge_document env d existing limits = Inr b" by blast
    obtain content gov disp sup raw' where p: "validate_governance d = Inr ()" "check_limits l d = Inr
        ()"
      "json_sha256 env (content_payload d) = Inr content" "json_sha256 env (governance_payload d) = Inr
          gov"
      "json_sha256 env (JObj [(lit ''content'', JStr content), (lit ''governance'', JStr gov)])
         = Inr (pm_document_fingerprint (pb_manifest b))"
      "disposition d (pm_document_fingerprint (pb_manifest b)) existing = Inr (disp, sup)"
      "chunk_sections (dr_sections d) l = Inr raw'" "length raw' \<le> maximum_chunks l"
      using prepare_knowledge_document_Inr[OF b] unfolding l effective_limits_def by metis
    have "document_fingerprint env d = Inr (pm_document_fingerprint (pb_manifest b))"
      using p(3-5) by (simp add: document_fingerprint_def)
    then show ?rhs using p chunking by auto
  next
    assume r: ?rhs
    then obtain fp disp sup cs where f: "document_fingerprint env d = Inr fp"
      "disposition d fp existing = Inr (disp, sup)"
      and cs: "chunk_sections (dr_sections d) l = Inr cs" "length cs \<le> maximum_chunks l"
      using chunking by (metis surj_pair)
    obtain content gov where h: "json_sha256 env (content_payload d) = Inr content"
      "json_sha256 env (governance_payload d) = Inr gov"
      "json_sha256 env (JObj [(lit ''content'', JStr content), (lit ''governance'', JStr gov)]) = Inr
          fp"
      using f(1) unfolding document_fingerprint_def by (auto elim!: bindE_InrE)
    have dig: "is_digest content" "is_digest gov" "is_digest fp" using h digest unfolding
        json_sha256_Inr by auto
    have "json_encodable (content_payload d)" using h(1) unfolding json_sha256_Inr by blast
    then obtain chunks where ch: "map_checked (prepare_chunk env d fp) (enumerate 0 cs) = Inr chunks"
        "chunks \<noteq> []"
      using draft_chunks_prepare[OF digest dig(3) valid _ cs(1)] by blast
    have bytes: "1 \<le> document_bytes d"
      using valid length_le_utf8_size[of "gv_title d"] unfolding draft_valid_def document_bytes_def
      by (cases "gv_title d") auto
    have "optional_checked canonical_semver sup = Inr sup" by (rule disposition_supersedes[OF f(2) old])
    then have m: "validate_prepared_manifest (ie_lower env)
       (draft_manifest d content gov fp sup)
       = Inr (draft_manifest d content gov fp sup)"
      using valid dig unfolding draft_valid_def by (simp add: validate_prepared_manifest_def
          validate_digest_def draft_manifest_def)
    have lim: "(case limits of None \<Rightarrow> default_ingestion_limits | Some l \<Rightarrow> l) = l"
      unfolding l effective_limits_def ..
    show ?lhs
      using r h f(2) cs ch m bytes unfolding prepare_knowledge_document_def Let_def lim
      by (simp add: make_prepared_bundle_def)
  qed
qed

section \<open>The conditions of a preparation, stated on their own\<close>

text \<open>The governance rules: HR knowledge only, a customer exactly for a customer policy, nothing highly restricted, and
  \<open>leave\<close> only together with \<open>hr_core\<close>.\<close>

definition governance_allows :: "zoned_time document_draft \<Rightarrow> bool" where
  "governance_allows d \<longleftrightarrow> gv_namespace d = lit ''hr''
     \<and> (gv_customer_environment_id d \<noteq> None \<longleftrightarrow> gv_source_type d = CUSTOMER_POLICY)
     \<and> gv_data_classification d \<in> {PUBLIC, INTERNAL, RESTRICTED}
     \<and> (lit ''leave'' \<in> set (gv_required_modules_all d) \<longrightarrow> lit ''hr_core'' \<in> set (gv_required_modules_all d))"

text \<open>The limits: at most so many sections and blocks, no block larger than a block may be, and all texts together
  no larger than a document may be.\<close>

definition draft_blocks :: "zoned_time document_draft \<Rightarrow> pystr list" where
  "draft_blocks d = concat (map sec_blocks (dr_sections d))"

definition within_limits :: "ingestion_limits \<Rightarrow> zoned_time document_draft \<Rightarrow> bool" where
  "within_limits l d \<longleftrightarrow> length (dr_sections d) \<le> maximum_sections l \<and> length (draft_blocks d) \<le> maximum_blocks l
     \<and> (\<forall>b \<in> set (draft_blocks d). utf8_size b \<le> maximum_block_bytes l)
     \<and> utf8_size (gv_title d) + sum_list (map (utf8_size \<circ> sec_heading) (dr_sections d))
         + sum_list (map utf8_size (draft_blocks d)) \<le> maximum_document_bytes l"

text \<open>The version rule: the existing manifest is of the same document, and either of an earlier version or of the same
  version and fingerprint.\<close>

fun earlier_version :: "nat \<times> nat \<times> nat \<Rightarrow> nat \<times> nat \<times> nat \<Rightarrow> bool" where
  "earlier_version (a, b, c) (a', b', c') \<longleftrightarrow> a < a' \<or> a = a' \<and> (b < b' \<or> b = b' \<and> c < c')"

definition may_follow :: "zoned_time document_draft \<Rightarrow> pystr \<Rightarrow> existing_manifest \<Rightarrow> bool" where
  "may_follow d fp e \<longleftrightarrow> em_document_id e = gv_document_id d
     \<and> (\<exists>old new. denotes_version (em_document_version e) old \<and> denotes_version (gv_document_version d) new
          \<and> (earlier_version old new \<or> old = new \<and> em_document_fingerprint e = fp))"

text \<open>A text fits into one chunk.\<close>

definition chunk_sized :: "ingestion_limits \<Rightarrow> pystr \<Rightarrow> bool" where
  "chunk_sized l s \<longleftrightarrow> length s \<le> maximum_chunk_characters l \<and> utf8_size s \<le> maximum_chunk_bytes l"

lemma governance_allows_iff: "validate_governance d = Inr () \<longleftrightarrow> governance_allows d"
  by (cases "gv_source_type d"; cases "gv_data_classification d")
    (auto simp: validate_governance_def governance_allows_def)

lemma document_bytes_blocks:
  "document_bytes d = utf8_size (gv_title d) + sum_list (map (utf8_size \<circ> sec_heading) (dr_sections d))
     + sum_list (map utf8_size (draft_blocks d))"
proof -
  have "sum_list (map (\<lambda>s. utf8_size (sec_heading s) + sum_list (map utf8_size (sec_blocks s))) ss)
    = sum_list (map (utf8_size \<circ> sec_heading) ss) + sum_list (map utf8_size (concat (map sec_blocks ss)))"
    for ss :: "knowledge_section list" by (induction ss) simp_all
  then show ?thesis by (simp add: document_bytes_def draft_blocks_def)
qed

lemma within_limits_iff: "check_limits l d = Inr () \<longleftrightarrow> within_limits l d"
proof -
  have "length (draft_blocks d) = sum_list (map (\<lambda>s. length (sec_blocks s)) (dr_sections d))"
    by (simp add: draft_blocks_def length_concat comp_def)
  moreover have "list_ex (\<lambda>s. list_ex P (sec_blocks s)) (dr_sections d) \<longleftrightarrow> (\<exists>b \<in> set (draft_blocks d). P b)" for P
    by (auto simp: draft_blocks_def list_ex_iff)
  ultimately show ?thesis
    unfolding check_limits_def within_limits_def document_bytes_blocks raise_if_Inr_iff by (auto simp: not_less)
qed

lemma earlier_version_iff: "earlier_version v v' \<longleftrightarrow> v < v'"
  by (cases v; cases v') auto

lemma may_follow_iff:
  assumes "canonical_semver (gv_document_version d) = Inr v" and "validate_existing_manifest e = Inr e"
  shows "(\<exists>r. disposition d fp (Some e) = Inr r) \<longleftrightarrow> may_follow d fp e"
proof -
  have "re_dollar is_semver (gv_document_version d)" "re_dollar is_semver (em_document_version e)"
    using assms unfolding canonical_semver_def validate_existing_manifest_def
    by (auto elim!: bindE_InrE split: if_splits)
  then obtain new old where v: "denotes_version (gv_document_version d) new" "denotes_version (em_document_version e) old"
    using version_denoted by blast
  have unique: "denotes_version (gv_document_version d) x \<longleftrightarrow> x = new" "denotes_version (em_document_version e) y \<longleftrightarrow> y = old"
    for x y using v denoted_components by (metis sum.inject(2))+
  show ?thesis
    unfolding may_follow_def unique earlier_version_iff
    using denoted_components[OF v(1)] denoted_components[OF v(2)]
    by (auto simp: disposition_def bindE_Inr_iff raise_if_Inr_iff neq_iff elim!: raise_if_InrE)
qed

section \<open>A document\<close>

definition sample_ingest_env :: ingest_env where
  "sample_ingest_env = \<lparr>ie_lower = ascii_lower, ie_nfc = (\<lambda>s. s), ie_float_text = (\<lambda>_. lit ''0.0''),
     ie_sha256 = (\<lambda>_. replicate 64 97)\<rparr>"

definition sample_time :: zoned_time where
  "sample_time = \<lparr>zt_local = 63840000000000000, zt_offset = 0\<rparr>"

definition sample_draft :: "zoned_time document_draft" where
  "sample_draft = \<lparr>gv_document_id = 5, gv_document_version = lit ''1.2.0'', gv_namespace = lit ''hr'',
     gv_source_type = CUSTOMER_POLICY, gv_customer_environment_id = Some (lit ''env1''),
     gv_required_modules_all = [lit ''hr_core''], gv_required_permissions_all = [],
     gv_allowed_purposes = [lit ''self_service''], gv_legal_entity_ids = [],
     gv_data_classification = INTERNAL, gv_language = lit ''en'', gv_title = lit ''Leave'',
     gv_effective_from = sample_time, gv_effective_to = None,
     dr_approval_reference = lit ''apr1'', dr_approved_at = sample_time, dr_source_provenance = None,
     dr_sections = [\<lparr>sec_key = lit ''intro'', sec_heading = lit ''Intro'', sec_blocks = [lit
         ''Ask first'']\<rparr>]\<rparr>"

definition sample_raw_draft :: "raw_datetime document_draft" where
  "sample_raw_draft = \<lparr>gv_document_id = 5, gv_document_version = lit ''1.2.0'', gv_namespace = lit
      ''HR '',
     gv_source_type = CUSTOMER_POLICY, gv_customer_environment_id = Some (lit ''env1''),
     gv_required_modules_all = [lit ''hr_core''], gv_required_permissions_all = [],
     gv_allowed_purposes = [lit ''self_service''], gv_legal_entity_ids = [],
     gv_data_classification = INTERNAL, gv_language = lit ''en'', gv_title = lit ''Leave'',
     gv_effective_from = Zoned sample_time, gv_effective_to = None,
     dr_approval_reference = lit ''apr1'', dr_approved_at = Zoned sample_time, dr_source_provenance =
         None,
     dr_sections = [\<lparr>sec_key = lit ''intro'', sec_heading = lit ''Intro'', sec_blocks = [lit
         '' Ask first'']\<rparr>]\<rparr>"

lemma sample_draft_valid: "validate_draft ascii_lower (\<lambda>s. s) sample_raw_draft = Inr sample_draft"
  by (simp add: sample_raw_draft_def sample_draft_def validate_draft_def canonical_semver_def
      re_dollar_def is_semver_def
      validate_code_def ascii_lower_def lower_char_def validate_identifier_def text_field_def
          normalize_text_def
      language_code_def is_language_code_def is_language_tag_def unique_items_def unique_tuple_def
          min_length_1_def
      validate_section_def validate_section_key_def is_segment_def ends_before_start_def
          utf8_encodable_def
      py_strip_def py_rstrip_def py_isspace_def unsafe_control_def is_control_def replace_cr_def
      is_canonical_number_def is_alpha_def sample_text)


lemma sample_digest: "is_digest (ie_sha256 sample_ingest_env s)"
  by (simp add: sample_ingest_env_def is_digest_def is_hex_def list_all_iff)

lemma sample_ingest_fields [simp]:
  "ie_lower sample_ingest_env = ascii_lower" "ie_nfc sample_ingest_env = (\<lambda>s. s)"
  by (simp_all add: sample_ingest_env_def)

lemma nat_digits_encodable: "utf8_encodable (nat_digits n)"
  using nat_digits_shape[of n] by (auto simp: utf8_encodable_def list_all_iff is_digit_def)

lemma utf8_encodable_append [simp]: "utf8_encodable (s @ t) \<longleftrightarrow> utf8_encodable s \<and> utf8_encodable t"
  by (simp add: utf8_encodable_def)

lemma utf8_encodable_Cons: "utf8_encodable (c # s) \<longleftrightarrow> \<not> (55296 \<le> c \<and> c \<le> 57343) \<and> utf8_encodable s"
  by (simp add: utf8_encodable_def)

lemma utf8_encodable_subset: "utf8_encodable s \<Longrightarrow> set t \<subseteq> set s \<Longrightarrow> utf8_encodable t"
  unfolding utf8_encodable_def list_all_iff by blast

lemma utf8_encodable_take_drop:
  "utf8_encodable s \<Longrightarrow> utf8_encodable (take k s)" "utf8_encodable s \<Longrightarrow> utf8_encodable (drop k s)"
  by (erule utf8_encodable_subset, rule set_take_subset set_drop_subset)+

lemma zero_padded_encodable: "utf8_encodable (zero_padded k n)"
proof -
  have "utf8_encodable (replicate j 48)" for j by (simp add: utf8_encodable_def list_all_iff)
  then show ?thesis using nat_digits_encodable by (simp add: zero_padded_def Let_def)
qed

lemma isoformat_encodable: "utf8_encodable (isoformat t)"
proof -
  have nil: "utf8_encodable []" by (simp add: utf8_encodable_def)
  have frac: "utf8_encodable (fraction_text n)" for n
    by (simp add: fraction_text_def utf8_encodable_Cons zero_padded_encodable nil)
  have off: "utf8_encodable (offset_text n)" for n
    by (simp add: offset_text_def Let_def utf8_encodable_Cons zero_padded_encodable frac nil)
  show ?thesis
    by (simp add: isoformat_def Let_def utf8_encodable_Cons zero_padded_encodable frac off split:
        prod.split)
qed

lemma hex_digits_encodable: "utf8_encodable (hex_digits k n)"
  by (induction k n rule: hex_digits.induct) (auto simp: hex_digit_def utf8_encodable_def)

lemma uuid_str_encodable: "utf8_encodable (uuid_str u)"
  unfolding uuid_str_def Let_def uuid_hex_def
  by (simp add: utf8_encodable_Cons utf8_encodable_take_drop hex_digits_encodable)

lemma sample_fingerprint: "document_fingerprint sample_ingest_env sample_draft = Inr (replicate 64 97)"
proof -
  have "json_encodable (content_payload sample_draft)"
    unfolding content_payload_encodable by (simp add: sample_draft_def lit_encodable)
  moreover have "json_encodable (governance_payload sample_draft)"
    by (simp add: governance_payload_def sample_draft_def lit_encodable isoformat_encodable
        uuid_str_encodable
        optional_str_def provenance_json_def source_type_value_def classification_value_def)
  moreover have "utf8_encodable (replicate 64 97)" by (simp add: utf8_encodable_def list_all_iff)
  ultimately show ?thesis
    by (simp add: document_fingerprint_def json_sha256_Inr[THEN iffD2, OF conjI[OF _ refl]]
        bindE_Inr_iff json_sha256_Inr lit_encodable)
      (simp add: sample_ingest_env_def)
qed

lemma sample_fits: "fits default_ingestion_limits (lit ''Ask first'')"
  by (simp add: fits_def default_ingestion_limits_def lit_def utf8_width_def)

lemma sample_chunks: "chunk_sections (dr_sections sample_draft) default_ingestion_limits
    = Inr [\<lparr>sc_key = lit ''intro'', sc_heading = lit ''Intro'', sc_content = lit ''Ask first''\<rparr>]"
  by (simp add: sample_draft_def chunk_sections_def section_chunks_def split_block_def sample_fits)
    (simp add: lit_def py_strip_Nil_iff py_isspace_def)

lemma sample_conditions:
  "validate_governance sample_draft = Inr ()" "check_limits default_ingestion_limits sample_draft = Inr
      ()"
  "disposition sample_draft (replicate 64 97) None = Inr (NEW_DOCUMENT, None)"
  "effective_limits None = default_ingestion_limits"
  by (simp_all add: validate_governance_def sample_draft_def lit_def check_limits_def
      default_ingestion_limits_def
      document_bytes_def utf8_width_def disposition_def effective_limits_def)

lemma sample_succeeds:
  assumes "disposition sample_draft (replicate 64 97) existing = Inr r"
    and "\<And>e. existing = Some e \<Longrightarrow> validate_existing_manifest e = Inr e"
  shows "\<exists>b. prepare_knowledge_document sample_ingest_env sample_draft existing None = Inr b"
proof -
  have "(\<forall>s \<in> set (dr_sections sample_draft). \<forall>b \<in> set (sec_blocks s). fits default_ingestion_limits b
      \<or> (\<forall>w \<in> set (py_split b). fits default_ingestion_limits w))"
    using sample_fits by (simp add: sample_draft_def)
  moreover have "\<forall>cs. chunk_sections (dr_sections sample_draft) default_ingestion_limits = Inr cs
      \<longrightarrow> length cs \<le> maximum_chunks default_ingestion_limits"
    by (simp add: sample_chunks) (simp add: default_ingestion_limits_def)
  ultimately show ?thesis
    using preparation_succeeds_iff[OF sample_digest, of ascii_upper sample_raw_draft sample_draft
        existing _ None]
      sample_draft_valid case_mapping_ascii sample_fingerprint sample_conditions assms by auto
qed

text \<open>C33: The preparation of a validated draft succeeds exactly when the governance rules and the limits allow the
  document, its fingerprint can be computed, the (validated) existing manifest, if any, is of the same document and of
  an earlier version or of the same version and fingerprint, every block that is too large for a chunk has
  only words that are not, and there are not too many chunks. The conditions are stated on their own, on the
  fields of the draft.
\<close>

theorem preparation_succeeds_exactly:
  assumes "\<And>s. is_digest (ie_sha256 env s)" and "case_mapping (ie_lower env) upper"
    and "validate_draft (ie_lower env) (ie_nfc env) raw = Inr d"
    and "\<And>e. existing = Some e \<Longrightarrow> validate_existing_manifest e = Inr e" and "l = effective_limits limits"
  shows "(\<exists>b. prepare_knowledge_document env d existing limits = Inr b) \<longleftrightarrow>
    governance_allows d \<and> within_limits l d
    \<and> (\<exists>fp. document_fingerprint env d = Inr fp \<and> (\<forall>e. existing = Some e \<longrightarrow> may_follow d fp e))
    \<and> (\<forall>b \<in> set (draft_blocks d). chunk_sized l b \<or> (\<forall>w \<in> set (py_split b). chunk_sized l w))
    \<and> (\<forall>cs. chunk_sections (dr_sections d) l = Inr cs \<longrightarrow> length cs \<le> maximum_chunks l)"
proof -
  have v: "canonical_semver (gv_document_version d) = Inr (gv_document_version d)"
    using validate_draft_valid[OF assms(2,3)] by (simp add: draft_valid_def)
  have "(\<exists>r. disposition d fp existing = Inr r) \<longleftrightarrow> (\<forall>e. existing = Some e \<longrightarrow> may_follow d fp e)" for fp
    using may_follow_iff[OF v] assms(4) by (cases existing) (simp_all add: disposition_def)
  then have version: "(\<exists>fp r. document_fingerprint env d = Inr fp \<and> disposition d fp existing = Inr r)
      \<longleftrightarrow> (\<exists>fp. document_fingerprint env d = Inr fp \<and> (\<forall>e. existing = Some e \<longrightarrow> may_follow d fp e))" by blast
  have fits: "(\<forall>s \<in> set (dr_sections d). \<forall>b \<in> set (sec_blocks s). fits l b \<or> (\<forall>w \<in> set (py_split b). fits l w))
      \<longleftrightarrow> (\<forall>b \<in> set (draft_blocks d). chunk_sized l b \<or> (\<forall>w \<in> set (py_split b). chunk_sized l w))"
    by (simp add: draft_blocks_def fits_def chunk_sized_def)
  show ?thesis
    unfolding governance_allows_iff[symmetric] within_limits_iff[symmetric] version[symmetric] fits[symmetric]
    by (rule preparation_succeeds_iff[OF assms])
qed

theorem preparation_succeeds_exactly_witness:
  "\<exists>b. prepare_knowledge_document sample_ingest_env sample_draft None None = Inr b"
proof -
  have "validate_draft (ie_lower sample_ingest_env) (ie_nfc sample_ingest_env) sample_raw_draft = Inr
      sample_draft"
    using sample_draft_valid by simp
  note exact = preparation_succeeds_exactly[OF sample_digest _ this, of ascii_upper None
      default_ingestion_limits None]
  have "governance_allows sample_draft" "within_limits default_ingestion_limits sample_draft"
    using sample_conditions(1,2) unfolding governance_allows_iff within_limits_iff by simp_all
  moreover have "set (draft_blocks sample_draft) = {lit ''Ask first''}"
    by (simp add: draft_blocks_def sample_draft_def)
  moreover have "chunk_sized default_ingestion_limits (lit ''Ask first'')"
    using sample_fits by (simp add: fits_def chunk_sized_def)
  moreover have "length [\<lparr>sc_key = lit ''intro'', sc_heading = lit ''Intro'', sc_content = lit ''Ask first''\<rparr>]
      \<le> maximum_chunks default_ingestion_limits" by (simp add: default_ingestion_limits_def)
  ultimately show ?thesis
    using exact case_mapping_ascii sample_fingerprint sample_chunks sample_conditions(4) by simp
qed

text \<open>C15: Every bundle the ingestion prepares passes the defensive validation of the publisher: it
  validates to itself, and its ordinals, totals, fingerprint, governance, chunk identifiers and
  citation identifiers are the ones the publisher recomputes.
\<close>

theorem prepared_bundle_accepted:
  assumes "case_mapping (ie_lower env) upper"
    and "prepare_knowledge_document env d existing limits = Inr b"
  shows "validate_prepared_bundle (ie_lower env) b = Inr b \<and> validate_chunk_metadata env b = Inr ()"
  by (rule prepared_bundle_valid[OF assms])

theorem prepared_bundle_accepted_witness:
  "\<exists>b. prepare_knowledge_document sample_ingest_env sample_draft None None = Inr b
     \<and> validate_prepared_bundle ascii_lower b = Inr b \<and> validate_chunk_metadata sample_ingest_env b =
         Inr ()"
proof -
  obtain b where b: "prepare_knowledge_document sample_ingest_env sample_draft None None = Inr b"
    using sample_succeeds[OF sample_conditions(3)] by blast
  have "case_mapping (ie_lower sample_ingest_env) ascii_upper" using case_mapping_ascii by simp
  from prepared_bundle_accepted[OF this b] b show ?thesis by auto
qed

theorem prepared_content_complete_witness:
  "\<exists>b. prepare_knowledge_document sample_ingest_env sample_draft None None = Inr b
     \<and> (\<exists>css. map section_chunk_of (pb_chunks b) = concat css
          \<and> list_all2 (chunks_cover default_ingestion_limits) (dr_sections sample_draft) css)"
proof -
  obtain b where b: "prepare_knowledge_document sample_ingest_env sample_draft None None = Inr b"
    using sample_succeeds[OF sample_conditions(3)] by blast
  from prepared_content_complete[OF b sample_conditions(4)[symmetric]] b show ?thesis by blast
qed

theorem ingested_versions_witness:
  "\<exists>a b. ingestion_run sample_ingest_env [a, b] \<and> sorted_wrt succeeds [a, b]"
proof -
  obtain a where a: "prepare_knowledge_document sample_ingest_env sample_draft None None = Inr a"
    using sample_succeeds[OF sample_conditions(3)] by blast
  obtain content gov disp older where p:
    "json_sha256 sample_ingest_env (content_payload sample_draft) = Inr content"
    "json_sha256 sample_ingest_env (governance_payload sample_draft) = Inr gov"
    "json_sha256 sample_ingest_env (JObj [(lit ''content'', JStr content), (lit ''governance'', JStr
        gov)])
       = Inr (pm_document_fingerprint (pb_manifest a))"
    "validate_prepared_manifest ascii_lower
      (draft_manifest sample_draft content gov (pm_document_fingerprint (pb_manifest a)) older) = Inr
          (pb_manifest a)"
    using prepare_knowledge_document_Inr[OF a] by (metis sample_ingest_fields(1))
  have fp: "pm_document_fingerprint (pb_manifest a) = replicate 64 97"
    using p(1-3) sample_fingerprint by (simp add: document_fingerprint_def)
  note mf = prepared_manifest_fields[OF p(4), unfolded draft_manifest_def, simplified]
  have v: "pm_document_version (pb_manifest a) = lit ''1.2.0''" "canonical_semver (lit ''1.2.0'') = Inr
      (lit ''1.2.0'')"
    using mf(1) by (simp_all add: sample_draft_def canonical_semver_def split: if_splits)
  have m: "manifest_of a = \<lparr>em_document_id = 5, em_document_version = lit ''1.2.0'',
      em_document_fingerprint = replicate 64 97\<rparr>"
    using fp v(1) mf(4) by (simp add: manifest_of_def sample_draft_def)
  have "semver_components (lit ''1.2.0'') = Inr (1, 2, 0)"
    by (simp add: lit_def semver_components_def py_int_def py_strip_def py_rstrip_def py_isspace_def
        is_digit_def
        digits_value_def)
  then have d: "disposition sample_draft (replicate 64 97) (Some (manifest_of a)) = Inr (IDEMPOTENT,
      None)"
    by (simp add: m disposition_def sample_draft_def)
  have "validate_existing_manifest (manifest_of a) = Inr (manifest_of a)"
    using v(2) by (simp add: m validate_existing_manifest_def validate_digest_def is_digest_def
        is_hex_def list_all_iff)
  then obtain b where b: "prepare_knowledge_document sample_ingest_env sample_draft (Some (manifest_of
      a)) None = Inr b"
    using sample_succeeds[OF d] by blast
  have "ingestion_run sample_ingest_env ([] @ [a, b])"
    by (rule ingestion_run.again[OF _ b]) (simp, rule ingestion_run.first[OF a])
  then show ?thesis using ingested_versions by fastforce
qed

end
