(* ===== verification/PublicationProperties.thy ===== *)
theory PublicationProperties
  imports IngestionProperties "HOL-Library.Multiset"
begin

text \<open>
  The publication plan: the planning loop stands for one predicate on the bundles
  (\<open>admit_bundles_Inr\<close>), and the plan does not depend on their order.
\<close>

section \<open>What a plan admits\<close>

definition publishable ::
  "ingest_env \<Rightarrow> zoned_time publication_context \<Rightarrow> index_scope \<Rightarrow> py_datetime \<Rightarrow> prepared_bundle
      \<Rightarrow> bool" where
  "publishable env ctx sc now b \<longleftrightarrow>
     validate_chunk_metadata env b = Inr ()
     \<and> pm_namespace (pb_manifest b) = is_namespace sc
     \<and> pm_customer_environment_id (pb_manifest b)
         = (case pm_source_type (pb_manifest b) of PRODUCT_DOCUMENTATION \<Rightarrow> None
            | CUSTOMER_POLICY \<Rightarrow> Some (is_customer_environment_id sc))
     \<and> set (gv_required_modules_all (hd (pb_chunks b))) \<subseteq> set (pu_installed_modules ctx)
     \<and> (\<forall>c \<in> set (pb_chunks b). gv_data_classification c \<noteq> HIGHLY_RESTRICTED
          \<and> (\<forall>t. gv_effective_to c = Some t \<longrightarrow> (\<exists>n. now = Aware n \<and> n < zt_instant t)))"

definition document_of :: "prepared_bundle \<Rightarrow> uuid" where
  "document_of b = pm_document_id (pb_manifest b)"

definition apart :: "prepared_bundle \<Rightarrow> prepared_bundle \<Rightarrow> bool" where
  "apart a b \<longleftrightarrow> document_of a \<noteq> document_of b
     \<and> pc_chunk_id ` set (pb_chunks a) \<inter> pc_chunk_id ` set (pb_chunks b) = {}
     \<and> pc_citation_id ` set (pb_chunks a) \<inter> pc_citation_id ` set (pb_chunks b) = {}"

definition chunk_total :: "prepared_bundle list \<Rightarrow> nat" where
  "chunk_total bs = sum_list (map (\<lambda>b. length (pb_chunks b)) bs)"

definition byte_total :: "prepared_bundle list \<Rightarrow> int" where
  "byte_total bs = sum_list (map pb_total_normalized_utf8_bytes bs)"

definition within_limits :: "publication_limits \<Rightarrow> prepared_bundle list \<Rightarrow> bool" where
  "within_limits l bs \<longleftrightarrow> length bs \<le> maximum_documents l \<and> chunk_total bs \<le> maximum_total_chunks l
     \<and> byte_total bs \<le> int (maximum_normalized_bytes l)"

definition admissible ::
  "ingest_env \<Rightarrow> zoned_time publication_context \<Rightarrow> index_scope \<Rightarrow> publication_limits \<Rightarrow> py_datetime
     \<Rightarrow> prepared_bundle list \<Rightarrow> bool" where
  "admissible env ctx sc l now bs \<longleftrightarrow> (\<forall>b \<in> set bs. publishable env ctx sc now b) \<and> sorted_wrt apart bs
     \<and> within_limits l bs"

text \<open>The state of the planning loop after the bundles \<open>bs\<close>.\<close>

definition state_of :: "prepared_bundle list \<Rightarrow> plan_state" where
  "state_of bs = \<lparr>ps_versions = map_of (rev (map (\<lambda>b. (document_of b, pm_document_version (pb_manifest
      b))) bs)),
     ps_chunk_ids = (\<Union>b \<in> set bs. pc_chunk_id ` set (pb_chunks b)),
     ps_citation_ids = (\<Union>b \<in> set bs. pc_citation_id ` set (pb_chunks b)),
     ps_total_chunks = chunk_total bs, ps_total_bytes = byte_total bs, ps_validated = bs\<rparr>"

lemma state_of_Nil: "state_of [] = empty_plan"
  by (simp add: state_of_def empty_plan_def chunk_total_def byte_total_def)

lemma expired_at_False:
  "expired_at now cs = Inr False \<longleftrightarrow>
     (\<forall>c \<in> set cs. \<forall>t. gv_effective_to c = Some t \<longrightarrow> (\<exists>n. now = Aware n \<and> n < zt_instant t))"
  by (induction cs) (auto split: option.splits py_datetime.splits)

lemma versions_of_state:
  "ps_versions (state_of bs) k = None \<longleftrightarrow> k \<notin> document_of ` set bs"
  by (simp add: state_of_def map_of_eq_None_iff image_image)

lemma state_of_snoc:
  "state_of (bs @ [b]) = \<lparr>ps_versions = (ps_versions (state_of bs))(document_of b \<mapsto> pm_document_version
      (pb_manifest b)),
     ps_chunk_ids = ps_chunk_ids (state_of bs) \<union> pc_chunk_id ` set (pb_chunks b),
     ps_citation_ids = ps_citation_ids (state_of bs) \<union> pc_citation_id ` set (pb_chunks b),
     ps_total_chunks = ps_total_chunks (state_of bs) + length (pb_chunks b),
     ps_total_bytes = ps_total_bytes (state_of bs) + pb_total_normalized_utf8_bytes b,
     ps_validated = ps_validated (state_of bs) @ [b]\<rparr>"
  by (auto simp: state_of_def chunk_total_def byte_total_def)

lemma ids_of_state:
  "ps_chunk_ids (state_of bs) = (\<Union>b \<in> set bs. pc_chunk_id ` set (pb_chunks b))"
  "ps_citation_ids (state_of bs) = (\<Union>b \<in> set bs. pc_citation_id ` set (pb_chunks b))"
  by (simp_all add: state_of_def)

lemma ids_apart:
  "\<not> list_ex (\<lambda>c. f c \<in> (\<Union>a \<in> A. f ` g a)) cs \<longleftrightarrow> (\<forall>a \<in> A. f ` g a \<inter> f ` set cs = {})"
proof -
  have "(\<exists>c \<in> set cs. f c \<in> (\<Union>a \<in> A. f ` g a)) \<longleftrightarrow> (\<exists>a \<in> A. \<exists>c \<in> set cs. f c \<in> f ` g a)" by simp blast
  also have "\<dots> \<longleftrightarrow> (\<exists>a \<in> A. f ` g a \<inter> f ` set cs \<noteq> {})" by (simp add: disjoint_iff image_iff) metis
  finally show ?thesis unfolding list_ex_iff by simp
qed

lemma admit_bundle_Inr:
  "admit_bundle env ctx sc l now (state_of bs) b0 = Inr st \<longleftrightarrow>
     (\<exists>b. validate_prepared_bundle (ie_lower env) b0 = Inr b \<and> publishable env ctx sc now b
        \<and> (\<forall>a \<in> set bs. apart a b) \<and> within_limits l (bs @ [b]) \<and> st = state_of (bs @ [b]))"
proof -
  have fresh: "(\<forall>a \<in> set bs. apart a b) \<longleftrightarrow>
      ps_versions (state_of bs) (document_of b) = None
      \<and> \<not> list_ex (\<lambda>c. pc_chunk_id c \<in> ps_chunk_ids (state_of bs)) (pb_chunks b)
      \<and> \<not> list_ex (\<lambda>c. pc_citation_id c \<in> ps_citation_ids (state_of bs)) (pb_chunks b)" for b
  proof -
    have "document_of b \<notin> document_of ` set bs \<longleftrightarrow> (\<forall>a \<in> set bs. document_of a \<noteq> document_of b)"
      unfolding image_iff by metis
    then show ?thesis unfolding versions_of_state apart_def ball_conj_distrib ids_of_state ids_apart by
        presburger
  qed
  have limits: "within_limits l (bs @ [b]) \<longleftrightarrow>
      \<not> (length (ps_validated (state_of bs)) + 1 > maximum_documents l
        \<or> ps_total_chunks (state_of bs) + length (pb_chunks b) > maximum_total_chunks l
        \<or> ps_total_bytes (state_of bs) + pb_total_normalized_utf8_bytes b > int
            (maximum_normalized_bytes l))" for b
    by (auto simp: within_limits_def state_of_def chunk_total_def byte_total_def)
  have expired: "(\<exists>x. expired_at now cs = Inr x \<and> \<not> x \<and> k) \<longleftrightarrow> expired_at now cs = Inr False \<and> k" for cs k
    by auto
  have unit: "(\<exists>x. m = Inr (x :: unit) \<and> k) \<longleftrightarrow> m = Inr () \<and> k" for m :: "unit checked" and k by auto
  have scope: "\<not> (t = PRODUCT_DOCUMENTATION \<and> u \<noteq> None) \<and> \<not> (t \<noteq> PRODUCT_DOCUMENTATION \<and> u \<noteq> Some v)
      \<longleftrightarrow> u = (case t of PRODUCT_DOCUMENTATION \<Rightarrow> None | CUSTOMER_POLICY \<Rightarrow> Some v)" for t u v
    by (cases t) auto
  show ?thesis
    unfolding admit_bundle_def Let_def bindE_Inr_iff raise_if_Inr_iff expired unit fresh limits
      publishable_def expired_at_False state_of_snoc scope[symmetric] document_of_def[symmetric]
    by (intro ex_cong1) (auto simp: list_ex_iff split: option.splits)
qed

lemma validated_bundle_bytes: "validate_prepared_bundle lower b0 = Inr b \<Longrightarrow> 1 \<le>
    pb_total_normalized_utf8_bytes b"
  unfolding validate_prepared_bundle_def make_prepared_bundle_def by (auto elim!: bindE_InrE
      raise_if_InrE)

lemma within_limits_prefix:
  assumes "within_limits l (bs @ cs)" "\<forall>c \<in> set cs. 0 \<le> pb_total_normalized_utf8_bytes c"
  shows "within_limits l bs"
proof -
  have "0 \<le> byte_total cs" using assms(2) unfolding byte_total_def by (intro sum_list_nonneg) auto
  then show ?thesis using assms(1) by (simp add: within_limits_def chunk_total_def byte_total_def)
qed

lemma admit_bundles_Inr:
  "admit_bundles env ctx sc l now (state_of bs) cs = Inr st \<longleftrightarrow>
     (\<exists>us. map_checked (validate_prepared_bundle (ie_lower env)) cs = Inr us
        \<and> (\<forall>u \<in> set us. publishable env ctx sc now u \<and> (\<forall>a \<in> set bs. apart a u)) \<and> sorted_wrt apart us
        \<and> (us \<noteq> [] \<longrightarrow> within_limits l (bs @ us)) \<and> st = state_of (bs @ us))"
proof (induction cs arbitrary: bs)
  case (Cons c cs)
  show ?case (is "?lhs \<longleftrightarrow> ?rhs")
  proof
    assume ?lhs
    then obtain b where b: "validate_prepared_bundle (ie_lower env) c = Inr b" "publishable env ctx sc
        now b"
      "\<forall>a \<in> set bs. apart a b" "within_limits l (bs @ [b])"
      and run: "admit_bundles env ctx sc l now (state_of (bs @ [b])) cs = Inr st"
      by (auto simp: bindE_Inr_iff admit_bundle_Inr)
    obtain us where us: "map_checked (validate_prepared_bundle (ie_lower env)) cs = Inr us"
      "\<forall>u \<in> set us. publishable env ctx sc now u \<and> (\<forall>a \<in> set (bs @ [b]). apart a u)" "sorted_wrt apart
          us"
      "us \<noteq> [] \<longrightarrow> within_limits l ((bs @ [b]) @ us)" "st = state_of ((bs @ [b]) @ us)"
      using run unfolding Cons.IH by blast
    have "within_limits l (bs @ b # us)" using b(4) us(4) by (cases "us = []") simp_all
    then show ?rhs using b(1-3) us by (intro exI[of _ "b # us"]) simp
  next
    assume ?rhs
    then obtain b us where us: "validate_prepared_bundle (ie_lower env) c = Inr b"
      "map_checked (validate_prepared_bundle (ie_lower env)) cs = Inr us"
      "publishable env ctx sc now b" "\<forall>a \<in> set bs. apart a b"
      "\<forall>u \<in> set us. publishable env ctx sc now u \<and> (\<forall>a \<in> set bs. apart a u)" "\<forall>u \<in> set us. apart b u"
      "sorted_wrt apart us" "within_limits l (bs @ b # us)" "st = state_of (bs @ b # us)"
      by (auto simp: bindE_Inr_iff)
    have "\<forall>u \<in> set us. 0 \<le> pb_total_normalized_utf8_bytes u"
      using map_checked_member[OF us(2)] validated_bundle_bytes by fastforce
    then have "within_limits l (bs @ [b])" using us(8) within_limits_prefix[of l "bs @ [b]" us] by simp
    then have "admit_bundle env ctx sc l now (state_of bs) c = Inr (state_of (bs @ [b]))"
      using us(1,3,4) unfolding admit_bundle_Inr by blast
    moreover have "admit_bundles env ctx sc l now (state_of (bs @ [b])) cs = Inr st"
      unfolding Cons.IH using us by (intro exI[of _ us]) auto
    ultimately show ?lhs by simp
  qed
qed auto

lemma admission_exact_iff:
  "admit_bundles env ctx sc l now empty_plan bundles = Inr st \<longleftrightarrow>
     (\<exists>vs. map_checked (validate_prepared_bundle (ie_lower env)) bundles = Inr vs
        \<and> admissible env ctx sc l now vs \<and> st = state_of vs)"
proof -
  have "within_limits l []" by (simp add: within_limits_def chunk_total_def byte_total_def)
  then have "(us \<noteq> [] \<longrightarrow> within_limits l us) \<longleftrightarrow> within_limits l us" for us by (cases us) auto
  then show ?thesis
    using admit_bundles_Inr[of env ctx sc l now "[]" bundles st]
    by (simp add: state_of_Nil admissible_def)
qed

text \<open>C31: The planning loop of the publisher accepts a list of bundles exactly when every one
  validates and is publishable in the scope at the clock's time, they have different documents,
  chunk and citation identifiers, and their totals are within the limits; it then holds the
  validated bundles with these totals.
\<close>

theorem admission_exact:
  "admit_bundles env ctx sc l now empty_plan bundles = Inr st \<longleftrightarrow>
     (\<exists>vs. map_checked (validate_prepared_bundle (ie_lower env)) bundles = Inr vs
        \<and> admissible env ctx sc l now vs \<and> st = state_of vs)"
  by (rule admission_exact_iff)

section \<open>The order of the bundles\<close>

lemma apart_sym: "apart a b \<Longrightarrow> apart b a"
  by (auto simp: apart_def)

lemma sorted_wrt_symmetric:
  assumes "\<And>a b. P a b \<Longrightarrow> P b a" and "\<And>a. a \<in> set xs \<Longrightarrow> \<not> P a a"
  shows "sorted_wrt P xs \<longleftrightarrow> distinct xs \<and> (\<forall>a \<in> set xs. \<forall>b \<in> set xs. a \<noteq> b \<longrightarrow> P a b)"
  using assms by (induction xs) auto

lemma apart_perm:
  assumes "mset xs = mset ys" "sorted_wrt apart xs"
  shows "sorted_wrt apart ys"
proof -
  have irr: "\<not> apart a a" for a by (simp add: apart_def)
  have "sorted_wrt apart zs \<longleftrightarrow> distinct zs \<and> (\<forall>a \<in> set zs. \<forall>b \<in> set zs. a \<noteq> b \<longrightarrow> apart a b)" for zs
    by (rule sorted_wrt_symmetric) (use apart_sym irr in auto)
  then show ?thesis using assms mset_eq_setD[OF assms(1)] mset_eq_imp_distinct_iff[OF assms(1)] by simp
qed

lemma admissible_perm:
  assumes "mset xs = mset ys" "admissible env ctx sc l now xs"
  shows "admissible env ctx sc l now ys"
proof -
  have "chunk_total xs = chunk_total ys" "byte_total xs = byte_total ys"
    unfolding chunk_total_def byte_total_def using assms(1) by (metis mset_map sum_mset_sum_list)+
  then have "within_limits l ys" using assms mset_eq_length[OF assms(1)]
    by (simp add: admissible_def within_limits_def)
  then show ?thesis using assms apart_perm[OF assms(1)] mset_eq_setD[OF assms(1)] by (simp add:
      admissible_def)
qed

lemma map_checked_mset:
  assumes "mset xs = mset ys" "map_checked f xs = Inr us"
  shows "\<exists>vs. map_checked f ys = Inr vs \<and> mset us = mset vs"
proof -
  have m: "map_checked f zs = Inr ws \<longleftrightarrow> (\<forall>z \<in> set zs. f z = Inr (projr (f z))) \<and> ws = map (projr \<circ> f)
      zs" for zs ws
    by (induction zs arbitrary: ws) (auto simp: bindE_Inr_iff)
  show ?thesis using assms mset_eq_setD[OF assms(1)] by (simp add: m)
qed


lemma bundle_key_inj:
  assumes "sorted_wrt apart vs" "\<forall>b \<in> set vs. document_of b < 2 ^ 128"
  shows "inj_on bundle_key (set vs)"
proof (rule inj_onI)
  fix a b assume ab: "a \<in> set vs" "b \<in> set vs" "bundle_key a = bundle_key b"
  then have "document_of a = document_of b"
    using assms(2) by (simp add: bundle_key_def uuid_str_inject document_of_def)
  moreover have "sorted_wrt apart vs \<longleftrightarrow> distinct vs \<and> (\<forall>a \<in> set vs. \<forall>b \<in> set vs. a \<noteq> b \<longrightarrow> apart a b)"
    by (rule sorted_wrt_symmetric) (auto simp: apart_sym, simp add: apart_def)
  ultimately show "a = b" using ab assms(1) unfolding apart_def by blast
qed

lemma validated_document: "validate_prepared_bundle lower b0 = Inr b \<Longrightarrow> document_of b = document_of b0"
  unfolding validate_prepared_bundle_def make_prepared_bundle_def validate_prepared_manifest_def
      document_of_def
  by (auto elim!: bindE_InrE raise_if_InrE)

definition same_generation :: "plan_state \<Rightarrow> plan_state \<Rightarrow> bool" where
  "same_generation s t \<longleftrightarrow> sort_key bundle_key (ps_validated s) = sort_key bundle_key (ps_validated t)
     \<and> ps_total_chunks s = ps_total_chunks t \<and> ps_total_bytes s = ps_total_bytes t"

lemma admit_bundles_perm:
  assumes "mset bundles = mset bundles'" "\<forall>b \<in> set bundles. document_of b < 2 ^ 128"
    and "admit_bundles env ctx sc l now empty_plan bundles = Inr st"
  shows "\<exists>st'. admit_bundles env ctx sc l now empty_plan bundles' = Inr st' \<and> same_generation st st'"
proof -
  obtain vs where vs: "map_checked (validate_prepared_bundle (ie_lower env)) bundles = Inr vs"
    "admissible env ctx sc l now vs" "st = state_of vs"
    using assms(3) unfolding admission_exact_iff by blast
  obtain us where us: "map_checked (validate_prepared_bundle (ie_lower env)) bundles' = Inr us" "mset
      vs = mset us"
    using map_checked_mset[OF assms(1) vs(1)] by blast
  have "\<forall>b \<in> set vs. document_of b < 2 ^ 128"
    using map_checked_member[OF vs(1)] validated_document assms(2) by metis
  then have "inj_on bundle_key (set vs)" using bundle_key_inj vs(2) by (simp add: admissible_def)
  then have "sort_key bundle_key vs = sort_key bundle_key us"
    using us(2) by (intro sort_key_inj_key_eq) simp_all
  moreover have "chunk_total vs = chunk_total us" "byte_total vs = byte_total us"
    unfolding chunk_total_def byte_total_def using us(2) by (metis mset_map sum_mset_sum_list)+
  ultimately have "same_generation st (state_of us)" unfolding same_generation_def vs(3) by (simp add:
      state_of_def)
  then show ?thesis using us(1) admissible_perm[OF us(2) vs(2)] unfolding admission_exact_iff by blast
qed

lemma finish_plan_cong: "same_generation s t \<Longrightarrow> finish_plan env p ctx sc s = finish_plan env p ctx sc t"
  by (simp add: finish_plan_def same_generation_def)

lemma build_plan_Inr:
  "build_plan env p c bundles limits w = (Inr plan, w') \<longleftrightarrow>
     (let l = (case limits of None \<Rightarrow> default_publication_limits | Some l \<Rightarrow> l) in
      \<exists>ctx sc now w1 st. validate_publication_context (ie_lower env) c = Inr ctx
        \<and> make_scope (ie_lower env) ctx = Inr sc
        \<and> length bundles \<le> maximum_bundles_per_call l \<and> bundles \<noteq> [] \<and> kp_clock p w = (Inr now, w1)
        \<and> admit_bundles env ctx sc l now empty_plan bundles = Inr st
        \<and> finish_plan env p ctx sc st w1 = (Inr plan, w'))"
  unfolding build_plan_def Let_def andthen_Inr by (auto simp: not_less)

lemma build_plan_perm:
  assumes "mset bundles = mset bundles'" "\<forall>b \<in> set bundles. document_of b < 2 ^ 128"
    and "build_plan env p c bundles limits w = (Inr plan, w')"
  shows "build_plan env p c bundles' limits w = (Inr plan, w')"
proof -
  have len: "length bundles' = length bundles" "bundles' = [] \<longleftrightarrow> bundles = []"
    using mset_eq_length[OF assms(1)] by auto
  let ?l = "case limits of None \<Rightarrow> default_publication_limits | Some l \<Rightarrow> l"
  obtain ctx sc now w1 st where p: "validate_publication_context (ie_lower env) c = Inr ctx"
    "make_scope (ie_lower env) ctx = Inr sc" "length bundles \<le> maximum_bundles_per_call ?l" "bundles
        \<noteq> []"
    "kp_clock p w = (Inr now, w1)" and st: "admit_bundles env ctx sc ?l now empty_plan bundles = Inr st"
    and fin: "finish_plan env p ctx sc st w1 = (Inr plan, w')"
    using assms(3) unfolding build_plan_Inr Let_def by blast
  obtain st' where st': "admit_bundles env ctx sc ?l now empty_plan bundles' = Inr st'"
      "same_generation st st'"
    using admit_bundles_perm[OF assms(1,2) st] by blast
  then show ?thesis using p fin finish_plan_cong[OF st'(2)] unfolding build_plan_Inr Let_def len by
      metis
qed

text \<open>The publication plan, its generation digest and its operation digest do not depend on the
  order of the bundles.
\<close>

theorem plan_order_irrelevant:
  assumes "mset bundles = mset bundles'" "\<forall>b \<in> set bundles. document_of b < 2 ^ 128"
  shows "build_plan env p c bundles limits w = (Inr plan, w')
     \<longleftrightarrow> build_plan env p c bundles' limits w = (Inr plan, w')"
  using build_plan_perm assms mset_eq_setD[OF assms(1)] by metis

section \<open>Two documents\<close>

definition demo_ingest_env :: ingest_env where
  "demo_ingest_env = sample_ingest_env\<lparr>ie_sha256 := \<lambda>s. replicate 64 (if 57 \<in> set s then 57 else 97)\<rparr>"

definition demo_chunk :: "uuid \<Rightarrow> nat \<Rightarrow> prepared_chunk" where
  "demo_chunk doc h = governance.extend (governance.truncate (sample_draft\<lparr>gv_document_id := doc\<rparr>))
     \<lparr>pc_chunk_id = lit ''chk_'' @ replicate 32 h, pc_citation_id = lit ''cite_'' @ replicate 32 h,
      pc_chunk_ordinal = 0, pc_section_key = lit ''intro'', pc_heading = lit ''Intro'',
      pc_content = lit ''Ask first''\<rparr>"

definition demo_bundle :: "uuid \<Rightarrow> nat \<Rightarrow> prepared_bundle" where
  "demo_bundle doc h = \<lparr>pb_manifest = \<lparr>pm_document_id = doc, pm_document_version = lit ''1.2.0'',
       pm_namespace = lit ''hr'', pm_source_type = CUSTOMER_POLICY,
       pm_customer_environment_id = Some (lit ''env1''), pm_source_provenance = None,
       pm_normalized_content_sha256 = replicate 64 h, pm_governance_sha256 = replicate 64 h,
       pm_document_fingerprint = replicate 64 h, pm_supersedes_version = None\<rparr>,
     pb_chunks = [demo_chunk doc h], pb_disposition = NEW_DOCUMENT,
     pb_total_normalized_utf8_bytes = 20, pb_total_chunk_count = 1\<rparr>"

definition demo_context :: "raw_datetime publication_context" where
  "demo_context = \<lparr>pu_operation_id = lit ''op1'', pu_request_id = lit ''req1'',
     pu_customer_environment_id = lit ''env1'', pu_actor_id = lit ''actor1'', pu_namespace = lit ''HR'',
     pu_installed_modules = [lit ''hr_core''], pu_authorization_snapshot_id = lit ''snap1'',
     pu_issued_at = Zoned sample_time\<rparr>"

definition demo_publisher :: "unit index_publisher" where
  "demo_publisher = \<lparr>kp_commit_generation = (\<lambda>_ w. (Inl Failed, w)), kp_get_active_snapshot = (\<lambda>_ w.
      (Inr None, w)),
     kp_commit_rollback = (\<lambda>_ w. (Inl Failed, w)), kp_get_operation_result = (\<lambda>_ w. (Inr None, w)),
     kp_clock = (\<lambda>w. (Inr (Aware 0), w)), kp_id_factory = (\<lambda>w. (Inr 7, w))\<rparr>"

lemma demo_env_fields [simp]: "ie_lower demo_ingest_env = ascii_lower"
  by (simp add: demo_ingest_env_def)

lemma demo_opaque_id:
  assumes "h \<in> {57, 97}"
  shows "opaque_id demo_ingest_env (lit ''chk'') (replicate 64 h) 0 = Inr (lit ''chk_'' @ replicate 32
      h)"
    "opaque_id demo_ingest_env (lit ''cite'') (replicate 64 h) 0 = Inr (lit ''cite_'' @ replicate 32 h)"
    "json_sha256 demo_ingest_env (JObj [(lit ''content'', JStr (replicate 64 h)),
       (lit ''governance'', JStr (replicate 64 h))]) = Inr (replicate 64 h)"
proof -
  have e: "utf8_encodable (replicate 64 h)" using assms by (auto simp: utf8_encodable_def list_all_iff)
  have s: "set (concat (map json_escape (replicate 64 h))) = {h}"
    using assms by (auto simp: json_escape_def)
  show "opaque_id demo_ingest_env (lit ''chk'') (replicate 64 h) 0 = Inr (lit ''chk_'' @ replicate 32
      h)"
    "opaque_id demo_ingest_env (lit ''cite'') (replicate 64 h) 0 = Inr (lit ''cite_'' @ replicate 32 h)"
    "json_sha256 demo_ingest_env (JObj [(lit ''content'', JStr (replicate 64 h)),
       (lit ''governance'', JStr (replicate 64 h))]) = Inr (replicate 64 h)"
    using assms e s
    by (simp_all add: opaque_id_def json_sha256_def canonical_json_text_def lit_encodable bindE_Inr_iff)
      (auto simp: demo_ingest_env_def json_quote_def json_int_text_def lit_def json_escape_def
          take_replicate nat_digits.simps)
qed

lemma demo_identifiers:
  assumes "h \<in> {57, 97}"
  shows "validate_opaque_id (lit ''chk_'' @ replicate 32 h) = Inr (lit ''chk_'' @ replicate 32 h)"
    "validate_opaque_id (lit ''cite_'' @ replicate 32 h) = Inr (lit ''cite_'' @ replicate 32 h)"
    "validate_digest (replicate 64 h) = Inr (replicate 64 h)"
  using assms by (auto simp: validate_opaque_id_def is_opaque_id_def lit_def list_all_iff is_hex_def
      is_digit_def
      validate_digest_def is_digest_def)

lemma demo_chunk_valid: "h \<in> {57, 97} \<Longrightarrow> validate_prepared_chunk ascii_lower (demo_chunk doc h) = Inr
    (demo_chunk doc h)"
  using demo_identifiers[of h] validate_draft_valid[OF case_mapping_ascii sample_draft_valid]
  by (simp add: demo_chunk_def validate_prepared_chunk_def governance.defs draft_valid_def
      plain_str_def lit_encodable
      sample_draft_def)

lemma demo_bundle_valid:
  assumes "h \<in> {57, 97}"
  shows "validate_prepared_bundle ascii_lower (demo_bundle doc h) = Inr (demo_bundle doc h)"
  using demo_identifiers[OF assms] demo_chunk_valid[OF assms] validate_draft_valid[OF
      case_mapping_ascii sample_draft_valid]
  by (simp add: demo_bundle_def validate_prepared_bundle_def validate_prepared_manifest_def
      make_prepared_bundle_def
      draft_valid_def) (simp add: sample_draft_def)

lemma demo_metadata:
  assumes "h \<in> {57, 97}"
  shows "validate_chunk_metadata demo_ingest_env (demo_bundle doc h) = Inr ()"
  using demo_opaque_id[OF assms] opaque_chunk_id_eq[where n = 0]
  by (simp add: validate_chunk_metadata_def demo_bundle_def fingerprint_of_def validate_chunk_def
      bindE_Inr_iff
      demo_chunk_def governance.defs sample_draft_def)

definition demo_scope :: index_scope where
  "demo_scope = \<lparr>is_namespace = lit ''hr'', is_customer_environment_id = lit ''env1''\<rparr>"

lemma demo_context_valid:
  "\<exists>ctx. validate_publication_context ascii_lower demo_context = Inr ctx \<and> make_scope ascii_lower ctx =
      Inr demo_scope
     \<and> pu_installed_modules ctx = [lit ''hr_core''] \<and> pu_operation_id ctx = lit ''op1''"
  by (simp add: demo_context_def demo_scope_def validate_publication_context_def make_scope_def
      validate_identifier_def
     validate_code_def ascii_lower_def lower_char_def unique_sorted_def py_strip_def py_rstrip_def
         py_isspace_def sample_text)

lemma demo_publishable:
  assumes "h \<in> {57, 97}" "pu_installed_modules ctx = [lit ''hr_core'']"
  shows "publishable demo_ingest_env ctx demo_scope now (demo_bundle doc h)"
  using demo_metadata[OF assms(1)] assms(2) unfolding publishable_def
  by (simp add: demo_bundle_def demo_chunk_def demo_scope_def governance.defs sample_draft_def)

lemma demo_admitted:
  assumes "pu_installed_modules ctx = [lit ''hr_core'']"
  shows "admit_bundles demo_ingest_env ctx demo_scope default_publication_limits now empty_plan
     [demo_bundle 1 97, demo_bundle 2 57] = Inr (state_of [demo_bundle 1 97, demo_bundle 2 57])"
proof -
  have "apart (demo_bundle 1 97) (demo_bundle 2 57)"
    by (simp add: apart_def document_of_def demo_bundle_def demo_chunk_def governance.defs)
  moreover have "within_limits default_publication_limits [demo_bundle 1 97, demo_bundle 2 57]"
    by (simp add: within_limits_def chunk_total_def byte_total_def default_publication_limits_def
        demo_bundle_def)
  ultimately show ?thesis
    unfolding admission_exact_iff using demo_publishable[OF _ assms]
    by (intro exI[of _ "[demo_bundle 1 97, demo_bundle 2 57]"]) (simp add: demo_bundle_valid
        admissible_def)
qed

lemma demo_sha_encodable: "utf8_encodable (ie_sha256 demo_ingest_env s)"
  by (simp add: demo_ingest_env_def utf8_encodable_def list_all_iff)

lemma demo_bundle_text:
  assumes "h \<in> {57, 97}"
  shows "\<exists>t. bundle_digest_text demo_ingest_env (demo_bundle doc h) = Inr t"
proof -
  have "utf8_encodable (replicate k h)" for k using assms by (auto simp: utf8_encodable_def
      list_all_iff)
  then show ?thesis
    using demo_sha_encodable
    by (simp add: bundle_digest_text_def source_provenance_fingerprint_def demo_bundle_def
        demo_chunk_def json_sha256_def
        canonical_json_text_def provenance_json_def lit_encodable uuid_str_encodable
            chunk_digest_text_def governance.defs)
qed

lemma demo_generation_digest:
  assumes "\<forall>b \<in> set bs. b \<in> {demo_bundle 1 97, demo_bundle 2 57}"
  shows "\<exists>d. generation_digest demo_ingest_env demo_scope bs = Inr d \<and> utf8_encodable d"
proof -
  have each: "\<exists>t. bundle_digest_text demo_ingest_env b = Inr t" if b: "b \<in> set bs" for b
  proof -
    have "b = demo_bundle 1 97 \<or> b = demo_bundle 2 57" using assms b by simp
    then show ?thesis using demo_bundle_text[of 97 1] demo_bundle_text[of 57 2] by auto
  qed
  have "\<exists>ts. map_checked (bundle_digest_text demo_ingest_env) bs = Inr ts"
    unfolding map_checked_succeeds using each by (rule ballI)
  then obtain ts where "map_checked (bundle_digest_text demo_ingest_env) bs = Inr ts"
    by (rule exE)
  then show ?thesis
    using demo_sha_encodable
    by (simp add: generation_digest_def canonical_json_text_def scope_json_def demo_scope_def
        lit_encodable)
qed

lemma demo_plan: "\<exists>plan. build_plan demo_ingest_env demo_publisher demo_context [demo_bundle 1 97,
    demo_bundle 2 57] None ()
   = (Inr plan, ())"
proof -
  obtain ctx where ctx: "validate_publication_context ascii_lower demo_context = Inr ctx"
    "make_scope ascii_lower ctx = Inr demo_scope" "pu_installed_modules ctx = [lit ''hr_core'']"
    using demo_context_valid by blast
  let ?st = "state_of [demo_bundle 1 97, demo_bundle 2 57]"
  have "\<forall>b \<in> set (sort_key bundle_key (ps_validated ?st)). b \<in> {demo_bundle 1 97, demo_bundle 2 57}"
    by (simp add: state_of_def)
  then obtain d where d: "generation_digest demo_ingest_env demo_scope (sort_key bundle_key
      (ps_validated ?st)) = Inr d"
    "utf8_encodable d" using demo_generation_digest by blast
  have "\<exists>plan. finish_plan demo_ingest_env demo_publisher ctx demo_scope ?st () = (Inr plan, ())"
    using d by (simp add: finish_plan_def demo_publisher_def andthen_def attempt_def
        operation_digest_def json_sha256_def
      canonical_json_text_def scope_json_def demo_scope_def lit_encodable)
  then show ?thesis
    using ctx demo_admitted[OF ctx(3)] unfolding build_plan_Inr Let_def
    by (simp add: default_publication_limits_def demo_publisher_def)
qed

theorem plan_order_irrelevant_witness:
  "\<exists>plan. build_plan demo_ingest_env demo_publisher demo_context [demo_bundle 1 97, demo_bundle 2 57]
      None () = (Inr plan, ())
     \<and> build_plan demo_ingest_env demo_publisher demo_context [demo_bundle 2 57, demo_bundle 1 97] None
         () = (Inr plan, ())"
proof -
  have "mset [demo_bundle 1 97, demo_bundle 2 57] = mset [demo_bundle 2 57, demo_bundle 1 97]" by simp
  moreover have "\<forall>b \<in> set [demo_bundle 1 97, demo_bundle 2 57]. document_of b < 2 ^ 128"
    by (simp add: document_of_def demo_bundle_def)
  ultimately show ?thesis
    using demo_plan plan_order_irrelevant[of _ _ demo_ingest_env demo_publisher demo_context None "()"
        _ "()"] by metis
qed

end
