(* ===== verification/KnowledgeStoreProperties.thy ===== *)
theory KnowledgeStoreProperties
  imports StoreHistory PublicationProperties
begin

text \<open>
  Properties of the knowledge store: the contract of a store that records every operation once (a
  locale, interpreted on the publications and on the rollbacks of the repository), the refinement of
  the history, the retries and the rollback of a publication.
\<close>

section \<open>Operations that are recorded once\<close>

text \<open>
  A store that records the result of every operation under its identifier: no call changes a
  recorded result, a commit that took effect is recorded, and a recorded operation that agrees with
  the request is answered again.
\<close>

locale operation_store =
  fixes effect :: "'c \<Rightarrow> 'd \<Rightarrow> 'd" and recorded :: "'d \<Rightarrow> 'o \<Rightarrow> 'r option" and ready :: "'d \<Rightarrow> bool"
    and commit :: "'q \<Rightarrow> 'f \<Rightarrow> 'd \<Rightarrow> ('e + 'a) \<times> 'd" and calm :: 'f
    and key :: "'q \<Rightarrow> 'o" and result :: "'a \<Rightarrow> 'r" and agrees :: "'q \<Rightarrow> 'a \<Rightarrow> bool"
  assumes effect_keeps: "recorded d i = Some r \<Longrightarrow> recorded (effect c d) i = Some r"
    and effect_ready: "ready d \<Longrightarrow> ready (effect c d)"
    and commit_recorded: "commit q f d = (res, d') \<Longrightarrow> d' \<noteq> d \<or> (\<exists>a. res = Inr a)
      \<Longrightarrow> \<exists>a. recorded d' (key q) = Some (result a) \<and> agrees q a \<and> ready d' \<and> (\<forall>b. res = Inr b \<longrightarrow> b = a)"
    and commit_replayed: "ready d \<Longrightarrow> recorded d (key q) = Some (result a) \<Longrightarrow> agrees q a \<Longrightarrow> commit q calm d
        = (Inr a, d)"
begin

lemma run_keeps: "recorded d i = Some r \<Longrightarrow> recorded (fold effect cs d) i = Some r"
  by (induction cs arbitrary: d) (simp_all add: effect_keeps)

lemma run_ready: "ready d \<Longrightarrow> ready (fold effect cs d)"
  by (induction cs arbitrary: d) (simp_all add: effect_ready)

lemma answered_again:
  assumes "commit q f d = (res, d')" "d' \<noteq> d \<or> (\<exists>a. res = Inr a)"
    and "key q' = key q" "\<And>a. agrees q a \<Longrightarrow> agrees q' a"
  shows "\<exists>a. commit q' calm (fold effect cs d') = (Inr a, fold effect cs d') \<and> (\<forall>b. res = Inr b
      \<longrightarrow> b = a)"
proof -
  obtain a where a: "recorded d' (key q) = Some (result a)" "agrees q a" "ready d'" "\<forall>b. res = Inr b
      \<longrightarrow> b = a"
    using commit_recorded[OF assms(1,2)] by blast
  have "commit q' calm (fold effect cs d') = (Inr a, fold effect cs d')"
    by (rule commit_replayed) (use run_ready[OF a(3)] run_keeps[OF a(1)] assms(3) assms(4)[OF a(2)] in
        simp_all)
  then show ?thesis using a(4) by blast
qed

end

text \<open>The repository keeps the contract, for publications and for rollbacks.\<close>

definition recorded_result :: "knowledge_db \<Rightarrow> pystr \<Rightarrow> operation_result option" where
  "recorded_result db oid = map_option ow_result (db_operations db oid)"

definition served :: "pystr \<Rightarrow> knowledge_db \<Rightarrow> bool" where
  "served customer db \<longleftrightarrow> db_identity db = Some (customer, 1)"

definition same_publication :: "pystr \<Rightarrow> publication_plan \<times> uuid option \<Rightarrow> publication_result
    \<Rightarrow> bool" where
  "same_publication customer q r \<longleftrightarrow> is_customer_environment_id (gm_scope (pp_manifest (fst q))) =
      customer
     \<and> pp_operation_digest (fst q) = pr_operation_digest r"

definition same_rollback :: "pystr \<Rightarrow> rollback_request \<times> uuid \<Rightarrow> rollback_result \<Rightarrow> bool" where
  "same_rollback customer q r \<longleftrightarrow> is_customer_environment_id (rk_scope (fst q)) = customer
     \<and> rk_operation_digest (fst q) = rb_operation_digest r"

lemma activated_operation:
  assumes "activate_generation env plan expected db = (Inr r, db')"
  shows "db_operations db (pu_operation_id (pp_context plan)) = None"
    "db_operations db' = (db_operations db)(pu_operation_id (pp_context plan) \<mapsto>
       \<lparr>ow_namespace = is_namespace (gm_scope (pp_manifest plan)), ow_operation_digest =
           pp_operation_digest plan,
        ow_result = PublicationDone r\<rparr>)"
    "db_identity db' = db_identity db" "r = publication_outcome plan expected"
  by (rule activate_generation_Inr[OF assms refl refl refl], simp)+

lemma restored_operation:
  assumes "restore_generation q expected db = (Inr r, db')"
  shows "db_operations db (pu_operation_id (rk_context q)) = None"
    "db_operations db' = (db_operations db)(pu_operation_id (rk_context q) \<mapsto>
       \<lparr>ow_namespace = is_namespace (rk_scope q), ow_operation_digest = rk_operation_digest q,
        ow_result = RollbackDone r\<rparr>)"
    "db_identity db' = db_identity db" "rb_operation_digest r = rk_operation_digest q"
  by (rule restore_generation_Inr[OF assms refl refl], simp)+

lemma effect_cases:
  obtains "store_effect env customer c db = db"
    | plan expected r where "activate_generation env plan expected db = (Inr r, store_effect env
        customer c db)"
    | q expected r where "restore_generation q expected db = (Inr r, store_effect env customer c db)"
proof (cases c)
  case (CommitGeneration plan expected fault)
  then show thesis
    using commit_generation_cases[of env customer plan expected fault db] that(1,2) by (metis
        prod.collapse store_effect.simps(1))
next
  case (CommitRollback q expected fault)
  then show thesis
    using commit_rollback_cases[of customer q expected fault db] that(1,3) by (metis prod.collapse
        store_effect.simps(2))
qed (use that(1) lookup_effects in \<open>simp_all del: store_effect.simps\<close>)

lemma effect_keeps_results:
  assumes "recorded_result db oid = Some r"
  shows "recorded_result (store_effect env customer c db) oid = Some r"
  using assms
  by (cases rule: effect_cases[of env customer c db])
    (auto simp: recorded_result_def activated_operation restored_operation dest: activated_operation(1)
        restored_operation(1))

lemma effect_keeps_served: "served customer db \<Longrightarrow> served customer (store_effect env customer c db)"
  by (cases rule: effect_cases[of env customer c db])
    (auto simp: served_def dest: activated_operation(3) restored_operation(3))

lemma committed_customer:
  "commit_generation env customer plan expected fault db = (res, db') \<Longrightarrow> db' \<noteq> db \<or> (\<exists>r. res = Inr r)
     \<Longrightarrow> is_customer_environment_id (gm_scope (pp_manifest plan)) = customer \<and> served customer db"
  "commit_rollback customer q expected' fault db = (res', db') \<Longrightarrow> db' \<noteq> db \<or> (\<exists>r. res' = Inr r)
     \<Longrightarrow> is_customer_environment_id (rk_scope q) = customer \<and> served customer db"
  by (auto simp: commit_generation_def commit_rollback_def run_transaction_def andthen_Inr
      establish_Inr served_def
      andthen_def establish_def guard_def split: db_fault.splits prod.splits sum.splits if_splits)

lemma publication_recorded:
  assumes c: "commit_generation env customer plan expected fault db = (res, db')" "db' \<noteq> db \<or> (\<exists>r. res
      = Inr r)"
  shows "\<exists>r. recorded_result db' (pu_operation_id (pp_context plan)) = Some (PublicationDone r)
    \<and> same_publication customer (plan, expected) r \<and> served customer db' \<and> (\<forall>b. res = Inr b \<longrightarrow> b = r)"
  using commit_generation_cases[OF c(1)]
proof
  assume "db' = db \<and> (\<forall>r. res = Inr r \<longrightarrow> (\<exists>row. db_operations db (pu_operation_id (pp_context plan)) =
      Some row
            \<and> ow_result row = PublicationDone r \<and> pr_operation_digest r = pp_operation_digest plan))"
  then show ?thesis using c(2) committed_customer(1)[OF c] by (auto simp: recorded_result_def
      same_publication_def)
next
  assume "\<exists>r. activate_generation env plan expected db = (Inr r, db') \<and> (\<forall>r'. res = Inr r' \<longrightarrow> r' = r)"
  then obtain r where r: "activate_generation env plan expected db = (Inr r, db')" "\<forall>r'. res = Inr r'
      \<longrightarrow> r' = r" by blast
  then show ?thesis using activated_operation[OF r(1)] committed_customer(1)[OF c]
    by (intro exI[of _ r]) (auto simp: recorded_result_def same_publication_def served_def
        publication_outcome_def)
qed

lemma rollback_recorded:
  assumes c: "commit_rollback customer q expected fault db = (res, db')" "db' \<noteq> db \<or> (\<exists>r. res = Inr r)"
  shows "\<exists>r. recorded_result db' (pu_operation_id (rk_context q)) = Some (RollbackDone r)
    \<and> same_rollback customer (q, expected) r \<and> served customer db' \<and> (\<forall>b. res = Inr b \<longrightarrow> b = r)"
  using commit_rollback_cases[OF c(1)]
proof
  assume "db' = db \<and> (\<forall>r. res = Inr r \<longrightarrow> (\<exists>row. db_operations db (pu_operation_id (rk_context q)) = Some
      row
            \<and> ow_result row = RollbackDone r \<and> rb_operation_digest r = rk_operation_digest q))"
  then show ?thesis using c(2) committed_customer(2)[OF c] by (auto simp: recorded_result_def
      same_rollback_def)
next
  assume "\<exists>r. restore_generation q expected db = (Inr r, db') \<and> (\<forall>r'. res = Inr r' \<longrightarrow> r' = r)"
  then obtain r where r: "restore_generation q expected db = (Inr r, db')" "\<forall>r'. res = Inr r'
      \<longrightarrow> r' = r" by blast
  then show ?thesis using restored_operation[OF r(1)] committed_customer(2)[OF c]
    by (intro exI[of _ r]) (auto simp: recorded_result_def same_rollback_def served_def)
qed

lemma publication_replayed:
  assumes "served customer db" "recorded_result db (pu_operation_id (pp_context plan)) = Some
      (PublicationDone r)"
    and "same_publication customer (plan, expected) r"
  shows "commit_generation env customer plan expected NoFault db = (Inr r, db)"
  using assms by (auto simp: commit_generation_def run_transaction_def served_def establish_def
      guard_def andthen_def
      find_operation_def fetch_def recorded_result_def same_publication_def)

lemma rollback_replayed:
  assumes "served customer db" "recorded_result db (pu_operation_id (rk_context q)) = Some
      (RollbackDone r)"
    and "same_rollback customer (q, expected) r"
  shows "commit_rollback customer q expected NoFault db = (Inr r, db)"
  using assms by (auto simp: commit_rollback_def run_transaction_def served_def establish_def guard_def
      andthen_def
      find_operation_def fetch_def recorded_result_def same_rollback_def)

interpretation publications: operation_store "store_effect env customer" recorded_result "served
    customer"
  "\<lambda>(plan, expected). commit_generation env customer plan expected" NoFault
  "\<lambda>(plan, expected). pu_operation_id (pp_context plan)" PublicationDone "same_publication customer"
      for env customer
  by unfold_locales
    (auto intro: effect_keeps_results effect_keeps_served publication_replayed dest:
        publication_recorded)

interpretation rollbacks: operation_store "store_effect env customer" recorded_result "served customer"
  "\<lambda>(q, expected). commit_rollback customer q expected" NoFault
  "\<lambda>(q, expected). pu_operation_id (rk_context q)" RollbackDone "same_rollback customer" for env
      customer
  by unfold_locales
    (auto intro: effect_keeps_results effect_keeps_served rollback_replayed dest: rollback_recorded)

text \<open>C11: A publication takes effect once. Whatever the answer of a commit that took effect, its
  reply lost included, a retry of the operation with the same digest, after any other calls, answers
  with the recorded result and changes nothing.\<close>

theorem publication_takes_effect_once:
  assumes "commit_generation env customer plan expected fault db = (res, db')" "db' \<noteq> db \<or> (\<exists>r. res =
      Inr r)"
    and "pu_operation_id (pp_context retry) = pu_operation_id (pp_context plan)"
    and "is_customer_environment_id (gm_scope (pp_manifest retry)) = is_customer_environment_id
        (gm_scope (pp_manifest plan))"
    and "pp_operation_digest retry = pp_operation_digest plan" and
        "db'' = store_run env customer calls db'"
  shows "\<exists>r. commit_generation env customer retry expected' NoFault db'' = (Inr r, db'')
    \<and> (\<forall>r'. res = Inr r' \<longrightarrow> r' = r)"
  using publications.answered_again[of env customer "(plan, expected)" fault db res db' "(retry,
      expected')" calls] assms
  by (simp add: same_publication_def store_run_def)

lemma rollback_takes_effect_once:
  assumes "commit_rollback customer q expected fault db = (res, db')" "db' \<noteq> db \<or> (\<exists>r. res = Inr r)"
    and "pu_operation_id (rk_context retry) = pu_operation_id (rk_context q)"
    and "is_customer_environment_id (rk_scope retry) = is_customer_environment_id (rk_scope q)"
    and "rk_operation_digest retry = rk_operation_digest q" "db'' = store_run env customer calls db'"
  shows "\<exists>r. commit_rollback customer retry expected' NoFault db'' = (Inr r, db'') \<and> (\<forall>r'. res = Inr r'
      \<longrightarrow> r' = r)"
  using rollbacks.answered_again[of customer "(q, expected)" fault db res db' "(retry, expected')" env
      calls] assms
  by (simp add: same_rollback_def store_run_def)

section \<open>Rollback\<close>

lemma restore_generation_runs:
  assumes "map_option fst (db_active db (is_namespace (rk_scope q))) = Some expected"
    and "db_generations db (rk_target_generation_id q) = Some row" "gr_namespace row = is_namespace
        (rk_scope q)"
    and "gr_status row = RETIRED" "is_digest (gr_generation_digest row)" "is_digest
        (rk_operation_digest q)"
    and "db_operations db (pu_operation_id (rk_context q)) = None"
    and "fresh_event (db_outbox db) (rollback_outbox q expected (gr_generation_digest row))"
  shows "\<exists>r db'. restore_generation q expected db = (Inr r, db')"
proof -
  have ins: "insert_operation oid r d = (Inr (), d\<lparr>db_operations := (db_operations d)(oid \<mapsto> r)\<rparr>)"
    if "is_digest (ow_operation_digest r)" "db_operations d oid = None" for oid r d
    using that by (simp add: insert_operation_Inr)
  have out: "insert_outbox e d = (Inr (), d\<lparr>db_outbox := db_outbox d @ [e]\<rparr>)"
    if "is_digest (ob_generation_digest e)" "fresh_event (db_outbox d) e" for e d
    using that by (simp add: insert_outbox_Inr)
  have ow: "ow_operation_digest \<lparr>ow_namespace = n, ow_operation_digest = d, ow_result = x\<rparr> = d" for n d
      x by simp
  show ?thesis
    using assms
    by (auto simp: restore_generation_def Let_def andthen_def fetch_def set_status_def modify_def
        upsert_active_def ins out)
qed

lemma restored_tables:
  assumes pub: "activate_generation env plan (Some g) db = (Inr r, db1)" "plan_consistent plan"
    and hist: "valid_history evs" "represents db evs"
    and q: "is_namespace (rk_scope q) = is_namespace (gm_scope (pp_manifest plan))"
        "rk_target_generation_id q = g"
      "is_digest (rk_operation_digest q)" "db_operations db1 (pu_operation_id (rk_context q)) = None"
      "\<forall>e \<in> set (db_outbox db1). ob_outbox_id e \<noteq> rk_outbox_id q"
  shows "\<exists>r' db2. restore_generation q (pr_generation_id r) db1 = (Inr r', db2) \<and> db_active db2 =
      db_active db
    \<and> db_generations db2 = (db_generations db)(pr_generation_id r \<mapsto> (candidate_row (pp_manifest
        plan))\<lparr>gr_status := RETIRED\<rparr>)"
proof -
  define m where "m = pp_manifest plan"
  define gid where "gid = gm_generation_id m"
  define ns where "ns = is_namespace (gm_scope m)"
  obtain docs chunks where a: "map_option fst (db_active db ns) = Some g" "db_generations db gid = None"
    "r = publication_outcome plan (Some g)"
    and db1: "db1 = db\<lparr>db_generations := (retired (Some g) ((db_generations db)(gid \<mapsto> candidate_row m)))
         (gid \<mapsto> (candidate_row m)\<lparr>gr_status := ACTIVE\<rparr>),
       db_active := (db_active db)(ns \<mapsto> (gid, gm_generation_digest m)),
       db_documents := db_documents db @ docs, db_chunks := db_chunks db @ chunks,
       db_operations := (db_operations db)(pu_operation_id (pp_context plan) \<mapsto>
         \<lparr>ow_namespace = ns, ow_operation_digest = pp_operation_digest plan, ow_result =
             PublicationDone r\<rparr>),
       db_outbox := db_outbox db @ [publication_event plan (Some g)]\<rparr>"
    by (rule activate_generation_Inr[OF pub(1) m_def gid_def ns_def])
  note rd = representsD[OF hist(2)]
  obtain d where d: "active_after evs ns = Some (g, d)" using a(1) rd(2) by auto
  have p: "published_in evs g ns d" by (rule active_published[OF hist(1) d])
  obtain row where row: "db_generations db g = Some row"
    using rd(3)[of g] p by (cases "db_generations db g") (auto simp: published_in_def)
  have sg: "stored_generation db evs g row" by (rule rd(4)[OF row])
  then have pr: "published_in evs g (gr_namespace row) (gr_generation_digest row)" by (simp add:
      stored_generation_def)
  have row_fields: "gr_namespace row = ns" "gr_generation_digest row = d" using published_unique[OF
      hist(1) p pr] by simp_all
  then have act: "gr_status row = ACTIVE" using sg d by (simp add: stored_generation_def)
  have digest: "is_digest d" using p rd(7) by (auto simp: published_in_def)
  have other: "g \<noteq> gid" using row a(2) by auto
  have gid: "pr_generation_id r = gid" by (simp add: a(3) publication_outcome_def gid_def m_def)
  have ns: "is_namespace (rk_scope q) = ns" by (simp add: q(1) ns_def m_def)
  have row1: "db_generations db1 g = Some (row\<lparr>gr_status := RETIRED\<rparr>)" using other row by (simp add:
      db1 retired_at)
  have fresh: "fresh_event (db_outbox db1) (rollback_outbox q gid d)"
  proof -
    have "\<forall>e \<in> set (db_outbox db1). ob_operation_id e \<noteq> pu_operation_id (rk_context q)"
      using q(4) rd(5)[of "pu_operation_id (rk_context q)"] publication_event_fields(2)[OF pub(2)]
      by (auto simp: db1 rd(1) split: if_splits)
    then show ?thesis using q(5) by (simp add: fresh_event_def)
  qed
  have "\<exists>r' db2. restore_generation q gid db1 = (Inr r', db2)"
    by (rule restore_generation_runs[where row = "row\<lparr>gr_status := RETIRED\<rparr>"])
      (use row1 row_fields digest q(3,4) fresh in \<open>simp_all add: ns q(2), simp add: db1\<close>)
  then obtain r' db2 where r': "restore_generation q gid db1 = (Inr r', db2)" by blast
  obtain row2 where row2: "db_generations db1 g = Some row2"
    and db2: "db_generations db2 = (retired (Some gid) (db_generations db1))(g \<mapsto> row2\<lparr>gr_status :=
        ACTIVE\<rparr>)"
      "db_active db2 = (db_active db1)(ns \<mapsto> (g, gr_generation_digest row2))"
    by (rule restore_generation_Inr[OF r' q(2)[symmetric] ns[symmetric]])
  have eq: "row2 = row\<lparr>gr_status := RETIRED\<rparr>" using row1 row2 by simp
  have same: "row\<lparr>gr_status := ACTIVE\<rparr> = row" using act by simp
  have "db_active db2 = db_active db" using d rd(2) by (auto simp: db2(2) db1 eq row_fields(2))
  moreover have "db_generations db2 = (db_generations db)(gid \<mapsto> (candidate_row m)\<lparr>gr_status :=
      RETIRED\<rparr>)"
  proof
    fix x show "db_generations db2 x = ((db_generations db)(gid \<mapsto> (candidate_row m)\<lparr>gr_status :=
        RETIRED\<rparr>)) x"
      using other row same by (cases "x = g"; cases "x = gid") (simp_all add: db2(1) db1 eq retired_at)
  qed
  ultimately show ?thesis using r' unfolding gid m_def by blast
qed

lemma reachable_represents:
  assumes "list_all call_consistent calls" "db = store_run env customer calls (empty_db identity)"
  shows "\<exists>evs. valid_history evs \<and> represents db evs"
  using run_represents[OF empty_represents(1,2) assms(1), of env customer identity] assms(2) by auto

text \<open>C10: The tables of the knowledge store implement an append-only history of publications and
  rollbacks. After any sequence of transactions, with any aborted transaction and any lost reply, the
  audit outbox is a valid history (every event follows from the ones before it) and the tables are
  what the history says: the active generation of every namespace is the last one activated there, a
  generation is active or retired accordingly and holds as many documents and chunks as its manifest
  counts, and every completed operation answers for its event.\<close>

theorem store_refines_history:
  assumes "list_all call_consistent calls" "db = store_run env customer calls (empty_db identity)"
  shows "valid_history (db_outbox db) \<and> represents db (db_outbox db)"
proof -
  obtain es where "valid_history es" "represents db es"
    using reachable_represents[OF assms] by blast
  moreover from this(2) have "db_outbox db = es" by (simp add: representsD(1))
  ultimately show ?thesis by simp
qed

text \<open>C27: A rollback undoes a publication. When a publication replaced the active generation of a
  namespace, the rollback to that generation succeeds (with a fresh operation and outbox identifier)
  and restores the active generation of every namespace and the state of every generation, the
  withdrawn one being kept as retired.\<close>

theorem rollback_restores_index:
  assumes "list_all call_consistent calls" "db = store_run env customer calls (empty_db (Some
      (customer, 1)))"
    and "plan_consistent plan" "db_operations db (pu_operation_id (pp_context plan)) = None"
    and "commit_generation env customer plan (Some g) NoFault db = (Inr r, db1)"
    and "rk_scope q = gm_scope (pp_manifest plan)" "rk_target_generation_id q = g" "is_digest
        (rk_operation_digest q)"
    and "db_operations db1 (pu_operation_id (rk_context q)) = None" "\<forall>e \<in> set (db_outbox db1).
        ob_outbox_id e \<noteq> rk_outbox_id q"
  shows "\<exists>r' db2. commit_rollback customer q (pr_generation_id r) NoFault db1 = (Inr r', db2)
    \<and> db_active db2 = db_active db
    \<and> db_generations db2 = (db_generations db)(pr_generation_id r \<mapsto> (candidate_row (pp_manifest
        plan))\<lparr>gr_status := RETIRED\<rparr>)"
proof -
  obtain evs where evs: "valid_history evs" "represents db evs" using reachable_represents[OF
      assms(1,2)] by blast
  have act: "activate_generation env plan (Some g) db = (Inr r, db1)"
    using commit_generation_cases[OF assms(5)] assms(4) by auto
  have served: "is_customer_environment_id (gm_scope (pp_manifest plan)) = customer" "served customer
      db"
    using committed_customer(1)[OF assms(5)] by auto
  have served1: "served customer db1" using served(2) activated_operation(3)[OF act] by (simp add:
      served_def)
  have ns: "is_namespace (rk_scope q) = is_namespace (gm_scope (pp_manifest plan))" using assms(6) by
      simp
  obtain r' db2 where r': "restore_generation q (pr_generation_id r) db1 = (Inr r', db2)" "db_active
      db2 = db_active db"
    "db_generations db2 = (db_generations db)(pr_generation_id r \<mapsto> (candidate_row (pp_manifest
        plan))\<lparr>gr_status := RETIRED\<rparr>)"
    using restored_tables[OF act assms(3) evs ns assms(7-10)] by blast
  have "commit_rollback customer q (pr_generation_id r) NoFault db1 = (Inr r', db2)"
    using served(1) served1 assms(6,9) r'(1)
    by (simp add: commit_rollback_def run_transaction_def served_def establish_def guard_def andthen_def
      find_operation_def fetch_def)
  then show ?thesis using r'(2,3) by blast
qed

section \<open>Two publications and a rollback\<close>

definition demo_stored_plan :: "uuid \<Rightarrow> pystr \<Rightarrow> publication_plan" where
  "demo_stored_plan g oid = \<lparr>pp_context = \<lparr>pu_operation_id = oid, pu_request_id = lit ''req1'',
       pu_customer_environment_id = lit ''env1'', pu_actor_id = lit ''actor1'', pu_namespace = lit
           ''hr'',
       pu_installed_modules = [lit ''hr_core''], pu_authorization_snapshot_id = lit ''snap1'',
       pu_issued_at = sample_time\<rparr>,
     pp_manifest = \<lparr>gm_generation_id = g, gm_scope = demo_scope, gm_generation_digest = replicate 64 97,
       gm_document_count = 1, gm_chunk_count = 1, gm_total_normalized_bytes = 20, gm_status =
           CANDIDATE\<rparr>,
     pp_bundles = [demo_bundle 1 97], pp_operation_digest = replicate 64 97,
     pp_outbox_event = \<lparr>ob_outbox_id = g, ob_operation_id = oid, ob_request_id = lit ''req1'',
       ob_customer_environment_id = lit ''env1'', ob_actor_id = lit ''actor1'', ob_namespace = lit
           ''hr'',
       ob_action = PublishAction, ob_previous_generation_id = None, ob_activated_generation_id = g,
       ob_generation_digest = replicate 64 97\<rparr>\<rparr>"

lemma demo_plan_consistent: "plan_consistent (demo_stored_plan g oid)"
  by (simp add: plan_consistent_def demo_stored_plan_def demo_scope_def)

lemma demo_digest: "is_digest (replicate 64 97)"
  by (simp add: is_digest_def is_hex_def list_all_iff)

definition demo_stored_document :: "uuid \<Rightarrow> document_row" where
  "demo_stored_document g = projr (document_row_of demo_ingest_env g (demo_bundle 1 97))"

definition demo_stored_chunk :: "uuid \<Rightarrow> chunk_row" where
  "demo_stored_chunk g = \<lparr>cw_generation_id = g, cw_chunk = demo_chunk 1 97,
     cw_content_sha256 = ie_sha256 demo_ingest_env (lit ''Ask first'')\<rparr>"

lemma demo_document_row:
  "document_row_of demo_ingest_env g (demo_bundle 1 97) = Inr (demo_stored_document g) \<and>
      document_row_ok (demo_stored_document g)
     \<and> dw_generation_id (demo_stored_document g) = g \<and> dw_document_id (demo_stored_document g) = 1"
proof -
  have prov: "source_provenance_fingerprint demo_ingest_env (pb_manifest (demo_bundle 1 97))
      = Inr (ie_sha256 demo_ingest_env (lit ''null''))"
    by (simp add: source_provenance_fingerprint_def demo_bundle_def provenance_json_def json_sha256_def
        canonical_json_text_def)
  have sha: "is_digest (ie_sha256 demo_ingest_env s)" for s
    by (simp add: demo_ingest_env_def is_digest_def is_hex_def is_digit_def list_all_iff)
  have ver: "version_column (lit ''1.2.0'')"
    by (simp add: version_column_def is_semver_def is_canonical_number_def sample_text)
  show ?thesis
    using demo_digest sha ver unfolding demo_stored_document_def document_row_of_def Let_def prov
        bindE.simps sum.sel
    by (simp add: document_row_ok_def demo_bundle_def)
qed

lemma demo_chunk_row:
  "chunk_row_of demo_ingest_env g (demo_chunk 1 97) = Inr (demo_stored_chunk g)" "chunk_row_ok
      (demo_stored_chunk g)"
proof -
  show "chunk_row_of demo_ingest_env g (demo_chunk 1 97) = Inr (demo_stored_chunk g)"
    by (simp add: chunk_row_of_def demo_stored_chunk_def demo_chunk_def governance.defs lit_encodable)
  have "is_digest (ie_sha256 demo_ingest_env s)" for s
    by (simp add: demo_ingest_env_def is_digest_def is_hex_def is_digit_def list_all_iff)
  moreover have "version_column (lit ''1.2.0'')"
    by (simp add: version_column_def is_semver_def is_canonical_number_def sample_text)
  ultimately show "chunk_row_ok (demo_stored_chunk g)"
    by (simp add: chunk_row_ok_def demo_stored_chunk_def demo_chunk_def governance.defs
        sample_draft_def ends_before_start_def
      text_column_def) (simp add: lit_def)
qed

lemma demo_inserted:
  assumes "db_generations db g = None" "\<forall>d \<in> set (db_documents db). dw_generation_id d \<noteq> g"
    and "\<forall>c \<in> set (db_chunks db). cw_generation_id c \<noteq> g"
  shows "\<exists>db'. insert_generation demo_ingest_env (demo_stored_plan g oid) db = (Inr (), db')
    \<and> db_active db' = db_active db \<and> db_operations db' = db_operations db \<and> db_outbox db' = db_outbox
        db"
proof -
  define db1 where "db1 = db\<lparr>db_generations := (db_generations db)(g \<mapsto> candidate_row (pp_manifest
      (demo_stored_plan g oid)))\<rparr>"
  have gen: "insert_generation_row g (candidate_row (pp_manifest (demo_stored_plan g oid))) db = (Inr
      (), db1)"
    using assms(1) demo_digest
    by (simp add: insert_generation_row_def andthen_Inr generation_row_ok_def candidate_row_def
        demo_stored_plan_def
      demo_scope_def db1_def sample_text)
  have doc: "insert_document_row (demo_stored_document g) db1 = (Inr (), db1\<lparr>db_documents :=
      db_documents db @ [demo_stored_document g]\<rparr>)"
    using assms(2) demo_document_row by (auto simp: insert_rows_Inr document_key_def db1_def)
  let ?db2 = "db1\<lparr>db_documents := db_documents db @ [demo_stored_document g]\<rparr>"
  have chunk: "insert_chunk_row (demo_stored_chunk g) ?db2 = (Inr (), ?db2\<lparr>db_chunks := db_chunks db @
      [demo_stored_chunk g]\<rparr>)"
    using assms(3) demo_chunk_row(2) demo_document_row
    by (auto simp: insert_rows_Inr document_key_def db1_def list_ex_iff chunk_keys_clash_def
        demo_stored_chunk_def
      demo_chunk_def governance.defs)
  let ?db3 = "?db2\<lparr>db_chunks := db_chunks db @ [demo_stored_chunk g]\<rparr>"
  have counts: "length (filter (\<lambda>r. dw_generation_id r = g) (db_documents ?db3)) = 1"
    "length (filter (\<lambda>r. cw_generation_id r = g) (db_chunks ?db3)) = 1"
    using assms(2,3) demo_document_row by (simp_all add: filter_empty_conv demo_stored_chunk_def)
  let ?m = "pp_manifest (demo_stored_plan g oid)"
  have m: "gm_generation_id ?m = g" "gm_document_count ?m = 1" "gm_chunk_count ?m = 1"
    "gm_generation_digest ?m = replicate 64 97" "pp_bundles (demo_stored_plan g oid) = [demo_bundle 1
        97]"
    "pb_chunks (demo_bundle 1 97) = [demo_chunk 1 97]"
    by (simp_all add: demo_stored_plan_def demo_bundle_def)
  have final: "map_option gr_generation_digest (db_generations ?db3 g) = Some (replicate 64 97)"
    by (simp add: db1_def candidate_row_def m)
  have docs: "map_checked (document_row_of demo_ingest_env g) [demo_bundle 1 97] = Inr
      [demo_stored_document g]"
    using demo_document_row[of g] by simp
  have chunks: "map_checked (chunk_row_of demo_ingest_env g) [demo_chunk 1 97] = Inr [demo_stored_chunk
      g]"
    using demo_chunk_row(1)[of g] by simp
  have each_doc: "each insert_document_row [demo_stored_document g] db1 = (Inr (), ?db2)"
    unfolding each.simps andthen_eq doc by simp
  have each_chunk: "each insert_chunk_row [demo_stored_chunk g] ?db2 = (Inr (), ?db3)"
    unfolding each.simps andthen_eq chunk by simp
  have guarded: "guard (\<lambda>db. length (filter (\<lambda>r. dw_generation_id r = g) (db_documents db)) = 1
            \<and> length (filter (\<lambda>r. cw_generation_id r = g) (db_chunks db)) = 1
            \<and> map_option gr_generation_digest (db_generations db g) = Some (replicate 64 97))
                StoreUnavailable ?db3
      = (Inr (), ?db3)"
    unfolding guard_def using counts final by simp
  have "insert_generation demo_ingest_env (demo_stored_plan g oid) db = (Inr (), ?db3)"
    unfolding insert_generation_def Let_def candidate_row_def[symmetric] m list.map concat.simps
        append_Nil2 docs chunks
      proc_simps andthen_eq gen each_doc each_chunk prod.case sum.case guarded ..
  then show ?thesis by (intro exI[of _ ?db3]) (simp add: db1_def)
qed

lemma demo_published:
  assumes "db_generations db g = None" "\<forall>d \<in> set (db_documents db). dw_generation_id d \<noteq> g"
    and "\<forall>c \<in> set (db_chunks db). cw_generation_id c \<noteq> g" "map_option fst (db_active db (lit ''hr'')) =
        expected"
    and "db_operations db oid = None" "\<forall>f \<in> set (db_outbox db). ob_outbox_id f \<noteq> g \<and> ob_operation_id f
        \<noteq> oid"
    and "served (lit ''env1'') db"
  shows "\<exists>r db'. commit_generation demo_ingest_env (lit ''env1'') (demo_stored_plan g oid) expected
      NoFault db = (Inr r, db')
    \<and> activate_generation demo_ingest_env (demo_stored_plan g oid) expected db = (Inr r, db')"
proof -
  let ?p = "demo_stored_plan g oid"
  obtain db1 where db1: "insert_generation demo_ingest_env ?p db = (Inr (), db1)" "db_active db1 =
      db_active db"
    "db_operations db1 = db_operations db" "db_outbox db1 = db_outbox db"
    using demo_inserted[OF assms(1-3)] by blast
  have p: "is_namespace (gm_scope (pp_manifest ?p)) = lit ''hr''" "pu_operation_id (pp_context ?p) =
      oid"
    "is_customer_environment_id (gm_scope (pp_manifest ?p)) = lit ''env1''"
    by (simp_all add: demo_stored_plan_def demo_scope_def)
  define e where "e = publication_event ?p expected"
  have ee: "e = (pp_outbox_event ?p)\<lparr>ob_customer_environment_id := lit ''env1'',
      ob_previous_generation_id := expected\<rparr>"
    by (simp add: e_def publication_event_def p)
  have "fresh_event (db_outbox db1) e" using assms(6) db1(4)
    by (auto simp: fresh_event_def e_def publication_event_def demo_stored_plan_def)
  moreover have "is_digest (ob_generation_digest e)" using demo_digest by (simp add: e_def
      publication_event_def demo_stored_plan_def)
  moreover have "is_digest (pp_operation_digest ?p)" using demo_digest by (simp add:
      demo_stored_plan_def)
  ultimately have persist: "persist_result_and_outbox ?p r expected d = (Inr (), d\<lparr>db_operations :=
      (db_operations d)(oid \<mapsto>
         \<lparr>ow_namespace = lit ''hr'', ow_operation_digest = pp_operation_digest ?p, ow_result =
             PublicationDone r\<rparr>),
       db_outbox := db_outbox d @ [e]\<rparr>)"
    if "db_operations d = db_operations db" "db_outbox d = db_outbox db" for r d
    unfolding persist_result_and_outbox_def andthen_Inr insert_operation_Inr insert_outbox_Inr
      p using that assms(5) db1(4) ee by simp
  obtain db2 where db2: "retire expected db1 = (Inr (), db2)" "db_operations db2 = db_operations db"
      "db_outbox db2 = db_outbox db"
    using db1(3,4) retire_Inr[of expected db1] by simp
  have "\<exists>r db'. activate_generation demo_ingest_env ?p expected db = (Inr r, db')"
    using persist db2(2,3) assms(4)
    by (simp add: activate_generation_def Let_def p andthen_eq fetch_def db1(1) db2(1) set_status_def
        modify_def upsert_active_def)
  then obtain r db' where act: "activate_generation demo_ingest_env ?p expected db = (Inr r, db')" by
      blast
  then have "commit_generation demo_ingest_env (lit ''env1'') ?p expected NoFault db = (Inr r, db')"
    using assms(5,7) by (simp add: commit_generation_def p run_transaction_def andthen_eq establish_def
        guard_def served_def
      find_operation_def fetch_def)
  then show ?thesis using act by blast
qed

text \<open>The first publication, the second over it, and the rollback to the first.\<close>

lemma demo_empty: "served (lit ''env1'') (empty_db (Some (lit ''env1'', 1)))"
  by (simp add: served_def empty_db_def)

lemma demo_first:
  "\<exists>r db. commit_generation demo_ingest_env (lit ''env1'') (demo_stored_plan 11 (lit ''op1'')) None
      NoFault
      (empty_db (Some (lit ''env1'', 1))) = (Inr r, db)
    \<and> activate_generation demo_ingest_env (demo_stored_plan 11 (lit ''op1'')) None (empty_db (Some (lit
        ''env1'', 1))) = (Inr r, db)"
  by (rule demo_published) (use demo_empty in \<open>simp_all add: empty_db_def\<close>)

lemma demo_second:
  assumes "activate_generation demo_ingest_env (demo_stored_plan 11 (lit ''op1'')) None (empty_db (Some
      (lit ''env1'', 1))) = (Inr r, db)"
  shows "\<exists>r' db'. commit_generation demo_ingest_env (lit ''env1'') (demo_stored_plan 12 (lit ''op2''))
      (Some 11) NoFault db = (Inr r', db')
    \<and> activate_generation demo_ingest_env (demo_stored_plan 12 (lit ''op2'')) (Some 11) db = (Inr r',
        db')
    \<and> db_operations db (lit ''op2'') = None \<and> db_operations db' (lit ''op3'') = None
    \<and> (\<forall>e \<in> set (db_outbox db'). ob_outbox_id e \<noteq> 3) \<and> pr_generation_id r' = 12"
proof -
  let ?p = "demo_stored_plan 11 (lit ''op1'')" and ?e = "empty_db (Some (lit ''env1'', 1))"
  have p: "gm_generation_id (pp_manifest (demo_stored_plan g oid)) = g" "pu_operation_id (pp_context
      (demo_stored_plan g oid)) = oid"
    "is_namespace (gm_scope (pp_manifest (demo_stored_plan g oid))) = lit ''hr''"
    "ob_outbox_id (publication_event (demo_stored_plan g oid) x) = g"
    "ob_operation_id (publication_event (demo_stored_plan g oid) x) = oid" for g oid x
    by (simp_all add: demo_stored_plan_def demo_scope_def publication_event_def)
  obtain docs chunks where a: "\<forall>d \<in> set docs. dw_generation_id d = 11" "\<forall>c \<in> set chunks.
      cw_generation_id c = 11"
    and db: "db = ?e\<lparr>db_generations := (retired None ((db_generations ?e)(11 \<mapsto> candidate_row
        (pp_manifest ?p))))
         (11 \<mapsto> (candidate_row (pp_manifest ?p))\<lparr>gr_status := ACTIVE\<rparr>),
       db_active := (db_active ?e)(lit ''hr'' \<mapsto> (11, gm_generation_digest (pp_manifest ?p))),
       db_documents := db_documents ?e @ docs, db_chunks := db_chunks ?e @ chunks,
       db_operations := (db_operations ?e)(lit ''op1'' \<mapsto>
         \<lparr>ow_namespace = lit ''hr'', ow_operation_digest = pp_operation_digest ?p, ow_result =
             PublicationDone r\<rparr>),
       db_outbox := db_outbox ?e @ [publication_event ?p None]\<rparr>"
    by (rule activate_generation_Inr[OF assms refl refl refl, unfolded p])
  have two: "db_generations db 12 = None" "\<forall>d \<in> set (db_documents db). dw_generation_id d \<noteq> 12"
    "\<forall>c \<in> set (db_chunks db). cw_generation_id c \<noteq> 12" "map_option fst (db_active db (lit ''hr'')) =
        Some 11"
    "db_operations db (lit ''op2'') = None" "\<forall>f \<in> set (db_outbox db). ob_outbox_id f \<noteq> 12 \<and>
        ob_operation_id f \<noteq> lit ''op2''"
    "served (lit ''env1'') db"
    using a by (simp_all add: db empty_db_def retired_def p served_def lit_def)
  obtain r' db' where r': "commit_generation demo_ingest_env (lit ''env1'') (demo_stored_plan 12 (lit
      ''op2'')) (Some 11) NoFault db = (Inr r', db')"
    "activate_generation demo_ingest_env (demo_stored_plan 12 (lit ''op2'')) (Some 11) db = (Inr r',
        db')"
    using demo_published[OF two] by blast
  have "db_outbox db' = db_outbox db @ [publication_event (demo_stored_plan 12 (lit ''op2'')) (Some
      11)]"
    by (rule activate_generation_Inr[OF r'(2) refl refl refl]) simp
  then have "\<forall>e \<in> set (db_outbox db'). ob_outbox_id e \<noteq> 3" by (simp add: db empty_db_def p)
  moreover have "db_operations db' (lit ''op3'') = None"
    using activated_operation(2)[OF r'(2)] by (simp add: p db empty_db_def lit_def)
  moreover have "pr_generation_id r' = 12" using activated_operation(4)[OF r'(2)] by (simp add:
      publication_outcome_def p)
  ultimately show ?thesis using r' two(5) by blast
qed

definition demo_rollback :: rollback_request where
  "demo_rollback = \<lparr>rk_context = (pp_context (demo_stored_plan 12 (lit ''op3''))), rk_scope =
      demo_scope,
     rk_target_generation_id = 11, rk_operation_digest = replicate 64 97, rk_outbox_id = 3\<rparr>"

theorem store_refines_history_witness:
  "\<exists>db. db = store_run demo_ingest_env (lit ''env1'') [CommitGeneration (demo_stored_plan 11 (lit
      ''op1'')) None NoFault]
       (empty_db (Some (lit ''env1'', 1)))
     \<and> valid_history (db_outbox db) \<and> represents db (db_outbox db) \<and> length (db_outbox db) = 1"
proof -
  obtain r db where c: "commit_generation demo_ingest_env (lit ''env1'') (demo_stored_plan 11 (lit
      ''op1'')) None NoFault
      (empty_db (Some (lit ''env1'', 1))) = (Inr r, db)"
    and a: "activate_generation demo_ingest_env (demo_stored_plan 11 (lit ''op1'')) None (empty_db
        (Some (lit ''env1'', 1))) = (Inr r, db)"
    using demo_first by blast
  have db: "db = store_run demo_ingest_env (lit ''env1'') [CommitGeneration (demo_stored_plan 11 (lit
      ''op1'')) None NoFault]
       (empty_db (Some (lit ''env1'', 1)))"
    by (simp add: store_run_def c)
  have "length (db_outbox db) = 1"
    by (rule activate_generation_Inr[OF a refl refl refl]) (simp add: empty_db_def)
  moreover have "list_all call_consistent [CommitGeneration (demo_stored_plan 11 (lit ''op1'')) None
      NoFault]"
    by (simp add: call_consistent_def demo_plan_consistent)
  ultimately show ?thesis using store_refines_history[OF _ db] db by blast
qed

theorem publication_takes_effect_once_witness:
  "\<exists>r e db. commit_generation demo_ingest_env (lit ''env1'') (demo_stored_plan 11 (lit ''op1'')) None
      (LostReply StoreUnavailable)
       (empty_db (Some (lit ''env1'', 1))) = (Inl e, db)
     \<and> commit_generation demo_ingest_env (lit ''env1'') (demo_stored_plan 17 (lit ''op1'')) None
         NoFault db = (Inr r, db)"
proof -
  obtain r db where c: "commit_generation demo_ingest_env (lit ''env1'') (demo_stored_plan 11 (lit
      ''op1'')) None NoFault
      (empty_db (Some (lit ''env1'', 1))) = (Inr r, db)"
    and a: "activate_generation demo_ingest_env (demo_stored_plan 11 (lit ''op1'')) None (empty_db
        (Some (lit ''env1'', 1))) = (Inr r, db)"
    using demo_first by blast
  have lost: "commit_generation demo_ingest_env (lit ''env1'') (demo_stored_plan 11 (lit ''op1'')) None
      (LostReply StoreUnavailable)
       (empty_db (Some (lit ''env1'', 1))) = (Inl StoreUnavailable, db)"
    using c by (auto simp: commit_generation_def run_transaction_def split: prod.splits sum.splits
        if_splits)
  let ?oid = "pu_operation_id (pp_context (demo_stored_plan 11 (lit ''op1'')))"
  have "db_operations db ?oid \<noteq> None" unfolding activated_operation(2)[OF a] by simp
  then have "db \<noteq> empty_db (Some (lit ''env1'', 1))" using activated_operation(1)[OF a] by metis
  moreover have "db = store_run demo_ingest_env (lit ''env1'') [] db" by (simp add: store_run_def)
  ultimately show ?thesis
    using publication_takes_effect_once[OF lost, of "demo_stored_plan 17 (lit ''op1'')" db "[]" None]
        lost
    by (auto simp: demo_stored_plan_def)
qed

theorem rollback_restores_index_witness:
  "\<exists>r r' db db1 db2. commit_generation demo_ingest_env (lit ''env1'') (demo_stored_plan 12 (lit
      ''op2'')) (Some 11) NoFault db = (Inr r, db1)
     \<and> commit_rollback (lit ''env1'') demo_rollback 12 NoFault db1 = (Inr r', db2) \<and> db_active db2 =
         db_active db"
proof -
  obtain r0 db where c: "commit_generation demo_ingest_env (lit ''env1'') (demo_stored_plan 11 (lit
      ''op1'')) None NoFault
      (empty_db (Some (lit ''env1'', 1))) = (Inr r0, db)"
    and a: "activate_generation demo_ingest_env (demo_stored_plan 11 (lit ''op1'')) None (empty_db
        (Some (lit ''env1'', 1))) = (Inr r0, db)"
    using demo_first by blast
  have db: "db = store_run demo_ingest_env (lit ''env1'') [CommitGeneration (demo_stored_plan 11 (lit
      ''op1'')) None NoFault]
       (empty_db (Some (lit ''env1'', 1)))"
    by (simp add: store_run_def c)
  have calls: "list_all call_consistent [CommitGeneration (demo_stored_plan 11 (lit ''op1'')) None
      NoFault]"
    by (simp add: call_consistent_def demo_plan_consistent)
  obtain r db1 where s: "commit_generation demo_ingest_env (lit ''env1'') (demo_stored_plan 12 (lit
      ''op2'')) (Some 11) NoFault db = (Inr r, db1)"
    "db_operations db (lit ''op2'') = None" "db_operations db1 (lit ''op3'') = None"
    "\<forall>e \<in> set (db_outbox db1). ob_outbox_id e \<noteq> 3" "pr_generation_id r = 12"
    using demo_second[OF a] by blast
  have q: "rk_scope demo_rollback = gm_scope (pp_manifest (demo_stored_plan 12 (lit ''op2'')))"
    "rk_target_generation_id demo_rollback = 11" "is_digest (rk_operation_digest demo_rollback)"
    "pu_operation_id (rk_context demo_rollback) = lit ''op3''" "rk_outbox_id demo_rollback = 3"
    "pu_operation_id (pp_context (demo_stored_plan 12 (lit ''op2''))) = lit ''op2''"
    using demo_digest by (simp_all add: demo_rollback_def demo_stored_plan_def)
  have "\<exists>r' db2. commit_rollback (lit ''env1'') demo_rollback (pr_generation_id r) NoFault db1 = (Inr
      r', db2)
      \<and> db_active db2 = db_active db \<and> db_generations db2 = (db_generations db)(pr_generation_id r
          \<mapsto> (candidate_row (pp_manifest (demo_stored_plan 12 (lit ''op2''))))\<lparr>gr_status := RETIRED\<rparr>)"
    by (rule rollback_restores_index[OF calls db demo_plan_consistent _ s(1) q(1,2,3)]) (use s q in
        simp_all)
  then show ?thesis using s(1) unfolding s(5) by blast
qed

end
