(* ===== verification/Utf8.thy ===== *)
theory Utf8
  imports PyText
begin

text \<open>
  UTF-8 as \<open>bytes.decode("utf-8", errors="strict")\<close> and \<open>str.encode("utf-8")\<close> read and write it, on
  which the HTTP bodies and the JWS segments rest: overlong forms, surrogates and code points beyond
  the last one are refused. Decoding inverts encoding.
\<close>

section \<open>Decoding\<close>

definition continuation :: "nat \<Rightarrow> bool" where
  "continuation b \<longleftrightarrow> 128 \<le> b \<and> b < 192"

fun utf8_decode :: "nat list \<Rightarrow> pystr option" where
  "utf8_decode [] = Some []"
| "utf8_decode (a # bs) =
     (if a < 128 then map_option ((#) a) (utf8_decode bs)
      else case bs of
        [] \<Rightarrow> None
      | b # cs \<Rightarrow>
          if \<not> continuation b then None
          else if a < 224 then
            (if a < 194 then None else map_option ((#) ((a - 192) * 64 + (b - 128))) (utf8_decode cs))
          else case cs of
            [] \<Rightarrow> None
          | c # ds \<Rightarrow>
              if \<not> continuation c then None
              else if a < 240 then
                (let v = (a - 224) * 4096 + (b - 128) * 64 + (c - 128) in
                 if v < 2048 \<or> 55296 \<le> v \<and> v \<le> 57343 then None else map_option ((#) v) (utf8_decode ds))
              else case ds of
                [] \<Rightarrow> None
              | d # es \<Rightarrow>
                  if \<not> continuation d then None
                  else
                   (let v = (a - 240) * 262144 + (b - 128) * 4096 + (c - 128) * 64 + (d - 128) in
                    if v < 65536 \<or> 1114111 < v then None else map_option ((#) v) (utf8_decode es)))"

section \<open>Encoding\<close>

definition utf8_char :: "nat \<Rightarrow> nat list" where
  "utf8_char c =
     (if c < 128 then [c]
      else if c < 2048 then [192 + c div 64, 128 + c mod 64]
      else if c < 65536 then [224 + c div 4096, 128 + c div 64 mod 64, 128 + c mod 64]
      else [240 + c div 262144, 128 + c div 4096 mod 64, 128 + c div 64 mod 64, 128 + c mod 64])"

definition utf8_encode :: "pystr \<Rightarrow> nat list" where
  "utf8_encode s = concat (map utf8_char s)"

lemma split64: "(c::nat) div 4096 * 4096 + c div 64 mod 64 * 64 + c mod 64 = c"
proof -
  have "c div 64 div 64 * 64 + c div 64 mod 64 = c div 64" by simp
  then have "(c div 4096 * 64 + c div 64 mod 64) * 64 + c mod 64 = c" by (simp add:
      div_mult2_eq[symmetric])
  then show ?thesis by (simp add: algebra_simps)
qed

lemma split64_4: "(c::nat) div 262144 * 262144 + c div 4096 mod 64 * 4096 + c div 64 mod 64 * 64 + c
    mod 64 = c"
proof -
  have "c div 4096 div 64 * 64 + c div 4096 mod 64 = c div 4096" by simp
  then have "(c div 262144 * 64 + c div 4096 mod 64) * 4096 = c div 4096 * 4096" by (simp add:
      div_mult2_eq[symmetric])
  then show ?thesis using split64[of c] by (simp add: algebra_simps)
qed

lemma decode_char:
  assumes "c \<le> 1114111" "\<not> (55296 \<le> c \<and> c \<le> 57343)"
  shows "utf8_decode (utf8_char c @ bs) = map_option ((#) c) (utf8_decode bs)"
proof -
  have m: "x mod 64 < 64" for x :: nat by simp
  have cont: "continuation (128 + x mod 64)" for x using m[of x] by (simp add: continuation_def)
  consider "c < 128" | "128 \<le> c" "c < 2048" | "2048 \<le> c" "c < 65536" | "65536 \<le> c" by linarith
  then show ?thesis
  proof cases
    case 2
    then have "2 \<le> c div 64" "c div 64 < 32" by simp_all
    then show ?thesis using 2 by (simp add: utf8_char_def cont)
  next
    case 3
    then have "c div 4096 < 16" by simp
    then show ?thesis using 3 assms split64[of c] by (auto simp: utf8_char_def cont Let_def)
  next
    case 4
    have "c div 262144 < 5" using assms(1) by simp
    then show ?thesis using 4 assms split64_4[of c] by (simp add: utf8_char_def cont Let_def)
  qed (simp add: utf8_char_def)
qed

lemma decode_encode:
  assumes "utf8_encodable s" "\<forall>c \<in> set s. c \<le> 1114111"
  shows "utf8_decode (utf8_encode s) = Some s"
  using assms
proof (induction s)
  case (Cons c s)
  then have "\<not> (55296 \<le> c \<and> c \<le> 57343)" "utf8_encodable s" by (auto simp: utf8_encodable_def)
  then show ?case using Cons decode_char[of c "utf8_encode s"] by (simp add: utf8_encode_def)
qed (simp add: utf8_encode_def)

end
