(* ===== verification/Assertion.thy ===== *)
theory Assertion
  imports Utf8 Application PyTime
begin

text \<open>
  The signed request assertion of the ERP (\<open>src/erp_ai/infrastructure/erp_trust/assertions.py\<close>,
  \<open>verifier.py\<close> and the key part of \<open>config.py\<close>): a compact JWS of three canonical base64url segments
  over strict JSON objects, the configured keys with their windows, the checks on the payload and the
  authenticator around them. The JSON tokenizer and the Ed25519 verification are parameters.
\<close>

section \<open>Loading JSON\<close>

text \<open>
  \<open>json.loads\<close> with the two hooks. The tokenizer raises a \<open>JSONDecodeError\<close> or a \<open>RecursionError\<close>
  (\<open>Malformed\<close>), or the \<open>ValueError\<close> of an integer with more digits than \<open>int\<close> converts
  (\<open>DigitLimit\<close>), when that comes first.
\<close>

datatype loads_error = Malformed | DigitLimit

section \<open>Compact JWS\<close>

definition is_b64url :: "pystr \<Rightarrow> bool" where
  "is_b64url s \<longleftrightarrow> s \<noteq> [] \<and> list_all (\<lambda>c. is_alpha c \<or> is_digit c \<or> c = 95 \<or> c = 45) s"

definition HEADER_FIELDS :: "pystr set" where
  "HEADER_FIELDS = {lit ''alg'', lit ''kid'', lit ''typ''}"

definition PAYLOAD_FIELDS :: "pystr set" where
  "PAYLOAD_FIELDS = {lit ''v'', lit ''iss'', lit ''aud'', lit ''jti'', lit ''iat'', lit ''exp'', lit
      ''method'',
     lit ''path'', lit ''body_sha256'', lit ''resolver_ref''}"

text \<open>\<open>base64.urlsafe_b64decode(value + "=" * (-len(value) % 4))\<close>\<close>

definition decode_unpadded :: "pystr \<Rightarrow> nat list option" where
  "decode_unpadded s = urlsafe_b64decode (s @ replicate ((4 - length s mod 4) mod 4) 61)"

definition decode_segment :: "pystr \<Rightarrow> nat \<Rightarrow> nat list checked" where
  "decode_segment s maximum =
     raise_if (s = [] \<or> length s > maximum \<or> 61 \<in> set s \<or> \<not> is_b64url s) ''invalid compact JWS segment''
     (case decode_unpadded s of
        None \<Rightarrow> Inl ''invalid base64''
      | Some bs \<Rightarrow>
          raise_if (rstrip_pad (urlsafe_b64encode bs) \<noteq> s) ''non-canonical compact JWS segment'' (Inr
              bs))"

definition BOM :: "nat list" where "BOM = [239, 187, 191]"

definition strict_object ::
  "(pystr \<Rightarrow> loads_error + jtree) \<Rightarrow> nat list \<Rightarrow> pystr set \<Rightarrow> (pystr \<times> json) list checked" where
  "strict_object tokenize bs names =
     raise_if (starts_with bs BOM) ''JSON BOM is forbidden''
     (case utf8_decode bs of
        None \<Rightarrow> Inl ''invalid utf-8''
      | Some s \<Rightarrow>
         (case tokenize s of
            Inl _ \<Rightarrow> Inl ''invalid JSON''
          | Inr t \<Rightarrow> bindE (load_tree t) (\<lambda>v. case v of
               JObj ps \<Rightarrow> raise_if (set (map fst ps) \<noteq> names) ''invalid JSON object contract'' (Inr ps)
             | _ \<Rightarrow> Inl ''invalid JSON object contract'')))"

record parsed_assertion =
  pa_header :: "(pystr \<times> json) list"
  pa_payload :: "(pystr \<times> json) list"
  pa_signing_input :: "nat list"
  pa_signature :: "nat list"

definition parse_compact_jws ::
  "(pystr \<Rightarrow> loads_error + jtree) \<Rightarrow> pystr \<Rightarrow> nat \<Rightarrow> nat \<Rightarrow> parsed_assertion checked" where
  "parse_compact_jws tokenize token maximum_token maximum_segment =
     raise_if (\<not> list_all (\<lambda>c. c < 128) token) ''ascii''
     (raise_if (length token > maximum_token) ''compact JWS is too large''
     (case split_on 46 token of
        [p0, p1, p2] \<Rightarrow>
          bindE (decode_segment p0 maximum_segment) (\<lambda>header_bytes.
          bindE (decode_segment p1 maximum_segment) (\<lambda>payload_bytes.
          bindE (decode_segment p2 maximum_segment) (\<lambda>signature.
          raise_if (length signature \<noteq> 64) ''invalid Ed25519 signature length''
          (bindE (strict_object tokenize header_bytes HEADER_FIELDS) (\<lambda>header.
           bindE (strict_object tokenize payload_bytes PAYLOAD_FIELDS) (\<lambda>payload.
             Inr \<lparr>pa_header = header, pa_payload = payload, pa_signing_input = p0 @ [46] @ p1,
                  pa_signature = signature\<rparr>))))))
      | _ \<Rightarrow> Inl ''compact JWS must have three segments''))"

definition json_field :: "(pystr \<times> json) list \<Rightarrow> string \<Rightarrow> json checked" where
  "json_field ps k = (case map_of ps (lit k) of None \<Rightarrow> Inl ''KeyError'' | Some v \<Rightarrow> Inr v)"

section \<open>Configuration\<close>

record verification_key =
  vk_kid :: pystr
  vk_public_key :: "nat list"
  vk_activates_at :: zoned_time
  vk_retires_at :: zoned_time

record verifier_config =
  vc_issuer :: pystr
  vc_audience :: pystr
  vc_keys :: "verification_key list"
  vc_maximum_lifetime :: int
  vc_maximum_clock_skew :: int
  vc_maximum_token_bytes :: nat
  vc_maximum_segment_bytes :: nat

definition is_kid :: "pystr \<Rightarrow> bool" where
  "is_kid s \<longleftrightarrow> s \<noteq> [] \<and> length s \<le> 64 \<and> (is_lower (hd s) \<or> is_digit (hd s))
     \<and> list_all (\<lambda>c. is_lower c \<or> is_digit c \<or> c = 95 \<or> c = 45) s"

definition validate_key :: "verification_key \<Rightarrow> verification_key checked" where
  "validate_key k =
     raise_if (\<not> is_kid (vk_kid k) \<or> starts_with (vk_kid k) (lit ''http'') \<or> starts_with (vk_kid k)
         (lit ''www''))
       ''invalid verification key identifier''
     (raise_if (length (vk_public_key k) \<noteq> 32) ''invalid verification public key''
     (raise_if (zt_instant (vk_retires_at k) \<le> zt_instant (vk_activates_at k))
       ''verification key retirement must follow activation'' (Inr k)))"

definition is_safe_claim :: "pystr \<Rightarrow> bool" where
  "is_safe_claim s \<longleftrightarrow> s \<noteq> [] \<and> length s \<le> 256 \<and> list_all (\<lambda>c. 33 \<le> c \<and> c \<le> 126) s"

definition validate_verifier_config :: "verifier_config \<Rightarrow> verifier_config checked" where
  "validate_verifier_config c =
     raise_if (\<not> is_safe_claim (vc_issuer c) \<or> \<not> is_safe_claim (vc_audience c))
       ''assertion identity configuration is invalid''
     (raise_if (vc_keys c = []) ''too_short''
     (bindE (map_checked validate_key (vc_keys c)) (\<lambda>ks.
      raise_if (\<not> (256 \<le> vc_maximum_token_bytes c \<and> vc_maximum_token_bytes c \<le> 16384)
          \<or> \<not> (64 \<le> vc_maximum_segment_bytes c \<and> vc_maximum_segment_bytes c \<le> 8192)) ''out_of_range''
      (raise_if (\<not> distinct (map vk_kid ks)) ''duplicate verification key identifiers''
      (raise_if (vc_maximum_lifetime c \<le> 0 \<or> vc_maximum_lifetime c > 300000000
          \<or> vc_maximum_clock_skew c < 0 \<or> vc_maximum_clock_skew c > 60000000
          \<or> vc_maximum_segment_bytes c > vc_maximum_token_bytes c)
         ''invalid assertion time policy'' (Inr c))))))"

section \<open>The authenticator\<close>

record auth_request =
  au_request_id :: pystr
  au_method :: pystr
  au_route_path :: pystr
  au_body_digest :: pystr
  au_bearer :: pystr

text \<open>\<open>TrustedIngressAuthenticationRequest\<close>; the digest is matched by a pattern ended by \<open>$\<close>, with a
  length of 64.\<close>

definition validate_auth_request :: "auth_request \<Rightarrow> auth_request checked" where
  "validate_auth_request r =
     bindE (validate_identifier (au_request_id r)) (\<lambda>i.
     raise_if (au_method r \<noteq> lit ''POST'' \<or> au_route_path r \<noteq> lit ''/v1/chat'') ''literal_error''
     (raise_if (\<not> is_digest (au_body_digest r)) ''string_pattern_mismatch''
     (raise_if (au_bearer r = []) ''too_short'' (Inr (r\<lparr>au_request_id := i\<rparr>)))))"

text \<open>\<open>[0-9a-f]{8}-[0-9a-f]{4}-4[0-9a-f]{3}-[89ab][0-9a-f]{3}-[0-9a-f]{12}\<close>\<close>

definition is_uuid4 :: "pystr \<Rightarrow> bool" where
  "is_uuid4 s \<longleftrightarrow>
     (case split_on 45 s of
        [a, b, c, d, e] \<Rightarrow>
          map length [a, b, c, d, e] = [8, 4, 4, 4, 12] \<and> list_all is_hex (a @ b @ c @ d @ e)
          \<and> hd c = 52 \<and> hd d \<in> {56, 57, 97, 98}
      | _ \<Rightarrow> False)"

text \<open>\<open>datetime.fromtimestamp(value, tz=UTC)\<close>, in microseconds since the first of January of year 1.\<close>

definition EPOCH_SECONDS :: int where "EPOCH_SECONDS = 62135596800"
definition MAXIMUM_LOCAL :: int where "MAXIMUM_LOCAL = 315537897600000000"

definition from_timestamp :: "int \<Rightarrow> instant checked" where
  "from_timestamp t = (let us = (t + EPOCH_SECONDS) * 1000000 in
     raise_if (us < 0 \<or> us \<ge> MAXIMUM_LOCAL) ''year is out of range'' (Inr us))"

fun strict_int :: "json \<Rightarrow> int checked" where
  "strict_int (JInt i) = Inr i"
| "strict_int _ = Inl ''invalid numeric claims''"

fun json_str :: "json \<Rightarrow> pystr checked" where
  "json_str (JStr s) = Inr s"
| "json_str _ = Inl ''invalid claim''"

definition validate_times ::
  "verifier_config \<Rightarrow> verification_key \<Rightarrow> zoned_time \<Rightarrow> int \<Rightarrow> int \<Rightarrow> unit checked" where
  "validate_times cfg k now iat_s exp_s =
     bindE (from_timestamp iat_s) (\<lambda>iat.
     bindE (from_timestamp exp_s) (\<lambda>exp.
     let t = zt_instant now; skew = vc_maximum_clock_skew cfg in
     raise_if (exp \<le> iat \<or> exp - iat > vc_maximum_lifetime cfg) ''invalid lifetime''
     (raise_if (zt_local now + skew \<ge> MAXIMUM_LOCAL \<or> zt_local now - skew < 0)
         ''date value out of range''
     (raise_if (iat > t + skew \<or> exp \<le> t - skew) ''assertion outside time window''
     (raise_if (iat < zt_instant (vk_activates_at k) \<or> iat \<ge> zt_instant (vk_retires_at k)
          \<or> exp > zt_instant (vk_retires_at k))
       ''assertion outside key window'' (Inr ()))))))"

definition valid_body_digest :: "json \<Rightarrow> bool" where
  "valid_body_digest v = (case v of JStr s \<Rightarrow> is_digest s | _ \<Rightarrow> False)"

definition validate_payload ::
  "verifier_config \<Rightarrow> verification_key \<Rightarrow> auth_request \<Rightarrow> zoned_time \<Rightarrow> (pystr \<times> json) list \<Rightarrow> unit checked"
      where
  "validate_payload cfg k request now p =
     bindE (json_field p ''v'') (\<lambda>v. bindE (json_field p ''iat'') (\<lambda>iat. bindE (json_field p ''exp'')
         (\<lambda>exp.
     bindE (strict_int v) (\<lambda>v. bindE (strict_int iat) (\<lambda>iat. bindE (strict_int exp) (\<lambda>exp.
     raise_if (v \<noteq> 1) ''invalid numeric claims''
     (bindE (validate_times cfg k now iat exp) (\<lambda>_.
      bindE (json_field p ''jti'') (\<lambda>jti. bindE (json_str jti) (\<lambda>jti.
      raise_if (\<not> is_uuid4 jti) ''invalid jti''
      (bindE (json_field p ''resolver_ref'') (\<lambda>ref. bindE (json_str ref) (\<lambda>ref.
       bindE (canonical_reference ref) (\<lambda>_.
       bindE (json_field p ''iss'') (\<lambda>iss. bindE (json_field p ''aud'') (\<lambda>aud.
       bindE (json_field p ''method'') (\<lambda>meth. bindE (json_field p ''path'') (\<lambda>path.
       bindE (json_field p ''body_sha256'') (\<lambda>digest.
       raise_if (\<not> valid_body_digest digest) ''invalid body digest''
       (raise_if (iss \<noteq> JStr (vc_issuer cfg) \<or> aud \<noteq> JStr (vc_audience cfg) \<or> meth \<noteq> JStr (au_method
           request)
            \<or> path \<noteq> JStr (au_route_path request) \<or> digest \<noteq> JStr (au_body_digest request))
          ''assertion binding mismatch'' (Inr ())))))))))))))))))))))"

text \<open>The tokenizer of \<open>json.loads\<close> and the Ed25519 verification of the \<open>cryptography\<close> package: the
  public key, the signature and the message.\<close>

record trust_env =
  te_tokenize :: "pystr \<Rightarrow> loads_error + jtree"
  te_ed25519 :: "nat list \<Rightarrow> nat list \<Rightarrow> nat list \<Rightarrow> bool"

definition verify_assertion ::
  "trust_env \<Rightarrow> verifier_config \<Rightarrow> auth_request \<Rightarrow> zoned_time \<Rightarrow> request_reference checked" where
  "verify_assertion env cfg request now =
     bindE (parse_compact_jws (te_tokenize env) (au_bearer request) (vc_maximum_token_bytes cfg)
       (vc_maximum_segment_bytes cfg)) (\<lambda>pa.
     bindE (json_field (pa_header pa) ''alg'') (\<lambda>alg. bindE (json_field (pa_header pa) ''typ'') (\<lambda>typ.
     raise_if (alg \<noteq> JStr (lit ''EdDSA'') \<or> typ \<noteq> JStr (lit ''erp-ai-request+jws''))
         ''invalid assertion profile''
     (bindE (json_field (pa_header pa) ''kid'') (\<lambda>kid. bindE (json_str kid) (\<lambda>kid.
      case find (\<lambda>k. vk_kid k = kid) (vc_keys cfg) of
        None \<Rightarrow> Inl ''unknown kid''
      | Some k \<Rightarrow>
          bindE (validate_payload cfg k request now (pa_payload pa)) (\<lambda>_.
          raise_if (\<not> te_ed25519 env (vk_public_key k) (pa_signature pa) (pa_signing_input pa))
              ''InvalidSignature''
          (bindE (json_field (pa_payload pa) ''resolver_ref'') (\<lambda>ref. bindE (json_str ref) (\<lambda>ref.
             validate_reference \<lparr>rr_request_id = au_request_id request, rr_resolver_reference =
                 ref\<rparr>))))))))))"

text \<open>The exceptions the transport tells apart.\<close>

datatype auth_stop = AuthCancelled | AuthDenied | AuthUnavailable | AuthFailed

definition authenticate ::
  "trust_env \<Rightarrow> verifier_config \<Rightarrow> ('w \<Rightarrow> raw_datetime outcome \<times> 'w)
     \<Rightarrow> (auth_request, 'w, auth_stop + request_reference) op" where
  "authenticate env cfg clock request0 =
     andthen (checked_or AuthDenied (validate_auth_request request0)) (\<lambda>request.
     andthen (attempt (\<lambda>x. if x = Cancelled then AuthCancelled else AuthDenied) clock) (\<lambda>now0.
     andthen (checked_or AuthDenied (require_zone ''invalid clock'' now0)) (\<lambda>now.
       checked_or AuthDenied (verify_assertion env cfg request now))))"

end
