(* ===== verification/ErpTrust.thy ===== *)
theory ErpTrust
  imports Assertion JsonText
begin

text \<open>
  The trust service of the ERP (\<open>src/erp_ai/infrastructure/erp_trust/\<close>): the confirmation of an
  authorization snapshot (\<open>snapshot.py\<close>), the resolution of a reference (\<open>resolver.py\<close>) and the client
  that posts JSON to the two fixed endpoints (\<open>http_client.py\<close>), around the exchange with the peer,
  which is an operation on the world.
\<close>

section \<open>The trust service\<close>

text \<open>
  The client posts a JSON payload to a path and returns the status and the body, or raises; an
      exception of
  the client other than a cancellation becomes the unavailability of the service.
\<close>

type_synonym 'w trust_client = "(pystr \<times> json, 'w, (nat \<times> json) outcome) op"

definition RESOLVE_PATH :: pystr where "RESOLVE_PATH = lit ''/internal/ai/v1/resolve''"
definition SNAPSHOT_VERIFY_PATH :: pystr where
  "SNAPSHOT_VERIFY_PATH = lit ''/internal/ai/v1/authorization-snapshots/verify''"

datatype trust_stop = TrustCancelled | TrustDenied | TrustUnavailable

fun unavailable_unless_cancelled :: "exn \<Rightarrow> trust_stop" where
  "unavailable_unless_cancelled Cancelled = TrustCancelled"
| "unavailable_unless_cancelled Failed = TrustUnavailable"

section \<open>The authorization snapshot\<close>

definition snapshot_payload :: "trusted_context \<Rightarrow> json" where
  "snapshot_payload c = JObj [(lit ''contract_version'', JInt 1), (lit ''request_id'', JStr (request_id
      c)),
     (lit ''customer_environment_id'', JStr (customer_environment_id c)), (lit ''user_id'', JStr
         (user_id c)),
     (lit ''authorization_snapshot_id'', JStr (authorization_snapshot_id c))]"

definition SNAPSHOT_FIELDS :: "pystr set" where
  "SNAPSHOT_FIELDS = {lit ''contract_version'', lit ''request_id'', lit ''customer_environment_id'',
     lit ''user_id'', lit ''authorization_snapshot_id'', lit ''status''}"

definition json_identifier :: "(pystr \<times> json) list \<Rightarrow> string \<Rightarrow> pystr checked" where
  "json_identifier ps k = bindE (json_field ps k) (\<lambda>v. bindE (json_str v) validate_identifier)"

definition json_status :: "json \<Rightarrow> snapshot_status checked" where
  "json_status v =
     (if v = JStr (lit ''current'') then Inr SnapshotCurrent
      else if v = JStr (lit ''stale'') then Inr SnapshotStale
      else if v = JStr (lit ''revoked'') then Inr SnapshotRevoked
      else if v = JStr (lit ''mismatched'') then Inr SnapshotMismatched else Inl ''literal_error'')"

definition snapshot_response :: "json \<Rightarrow> snapshot_decision checked" where
  "snapshot_response v =
     (case v of
        JObj ps \<Rightarrow>
          raise_if (set (map fst ps) \<noteq> SNAPSHOT_FIELDS) ''extra_forbidden''
          (bindE (json_field ps ''contract_version'') (\<lambda>ver.
           raise_if (ver \<noteq> JInt 1) ''literal_error''
           (bindE (json_identifier ps ''request_id'') (\<lambda>rid.
            bindE (json_identifier ps ''customer_environment_id'') (\<lambda>cust.
            bindE (json_identifier ps ''user_id'') (\<lambda>user.
            bindE (json_identifier ps ''authorization_snapshot_id'') (\<lambda>snap.
            bindE (json_field ps ''status'') (\<lambda>st. bindE (json_status st) (\<lambda>st.
              Inr \<lparr>sd_status = st, sd_request_id = Some rid, sd_customer_environment_id = Some cust,
                   sd_user_id = Some user, sd_authorization_snapshot_id = Some snap\<rparr>)))))))))
      | _ \<Rightarrow> Inl ''model_type'')"

definition verify_authorization ::
  "app_env \<Rightarrow> 'w trust_client \<Rightarrow> (trusted_context, 'w, trust_stop + snapshot_decision) op" where
  "verify_authorization env client c0 =
     andthen (checked_or TrustUnavailable (validate_context (ap_lower env) (ap_upper env)
         (ap_known_zone env)
       (dump_context c0))) (\<lambda>c.
     andthen (attempt unavailable_unless_cancelled (client (SNAPSHOT_VERIFY_PATH, snapshot_payload c)))
         (\<lambda>(status, raw).
     andthen (unless (status \<noteq> 200) TrustUnavailable) (\<lambda>_.
     andthen (checked_or TrustUnavailable (snapshot_response raw)) (\<lambda>d.
     andthen (unless (sd_request_id d \<noteq> Some (request_id c)
          \<or> sd_customer_environment_id d \<noteq> Some (customer_environment_id c) \<or> sd_user_id d \<noteq> Some
              (user_id c)
          \<or> sd_authorization_snapshot_id d \<noteq> Some (authorization_snapshot_id c)) TrustUnavailable) (\<lambda>_.
       checked_or TrustUnavailable (validate_decision d))))))"

section \<open>The resolver\<close>

text \<open>
  The validators of the response run on the field values pydantic reads from the JSON body, which are a
  parameter: the request identifier, the context and the intent, when the body has the shape of
  \<open>ResolveResponse\<close>.
\<close>

type_synonym resolve_decoder = "json \<Rightarrow> (pystr \<times> resolution_data) option"

definition resolve_payload :: "request_reference \<Rightarrow> json" where
  "resolve_payload r = JObj [(lit ''contract_version'', JInt 1), (lit ''request_id'', JStr
      (rr_request_id r)),
     (lit ''resolver_reference'', JStr (rr_resolver_reference r))]"

definition dump_intent :: "route_intent \<Rightarrow> intent_data" where
  "dump_intent i = \<lparr>id_contract_version = 1, id_intent_code = ri_intent_code i, id_issued_at = Aware
      (ri_issued_at i),
     id_expires_at = Aware (ri_expires_at i), id_request_id = ri_request_id i,
     id_customer_environment_id = ri_customer_environment_id i, id_user_id = ri_user_id i,
     id_authorization_snapshot_id = ri_authorization_snapshot_id i\<rparr>"

definition resolve_reference ::
  "app_env \<Rightarrow> resolve_decoder \<Rightarrow> 'w trust_client \<Rightarrow> (request_reference, 'w, trust_stop + resolution_data)
      op" where
  "resolve_reference env decode client r0 =
     andthen (checked_or TrustUnavailable (validate_reference r0)) (\<lambda>r.
     andthen (attempt unavailable_unless_cancelled (client (RESOLVE_PATH, resolve_payload r)))
         (\<lambda>(status, raw).
     andthen (unless (status = 404 \<or> status = 409) TrustDenied) (\<lambda>_.
     andthen (unless (status \<noteq> 200) TrustUnavailable) (\<lambda>_.
     andthen (checked_or TrustUnavailable (case decode raw of
         None \<Rightarrow> Inl ''validation error''
       | Some (rid0, d) \<Rightarrow>
           bindE (validate_identifier rid0) (\<lambda>rid.
           bindE (validate_resolution env d) (\<lambda>(c, i).
             Inr (rid, \<lparr>rd_context = dump_context c, rd_intent = dump_intent i\<rparr>))))) (\<lambda>(rid, d).
     andthen (unless (rid \<noteq> rr_request_id r) TrustUnavailable) (\<lambda>_.
       give d))))))"

text \<open>As operations of the application: every exception but a cancellation is a failure of the call.\<close>

fun trust_outcome :: "(trust_stop + 'a) \<times> 'w \<Rightarrow> 'a outcome \<times> 'w" where
  "trust_outcome (Inl TrustCancelled, w) = (Inl Cancelled, w)"
| "trust_outcome (Inl _, w) = (Inl Failed, w)"
| "trust_outcome (Inr x, w) = (Inr x, w)"

section \<open>The HTTP client\<close>

text \<open>
  The client is created, open or closed; a reply of the peer is its status, the values of its
  \<open>content-type\<close> headers, whether it sets a cookie, its \<open>content-encoding\<close> and the chunks of its body.
\<close>

datatype client_state = ClientCreated | ClientOpen | ClientClosed

record http_reply =
  hp_status :: nat
  hp_content_types :: "pystr list"
  hp_set_cookie :: bool
  hp_content_encoding :: "pystr option"
  hp_chunks :: "nat list list"

text \<open>\<open>open\<close>: the TLS context is safe when it verifies certificates and host names from TLS 1.2 on; the
  construction of the underlying client may fail.\<close>

definition client_open :: "bool \<Rightarrow> unit outcome \<Rightarrow> client_state \<Rightarrow> (trust_stop + unit) \<times> client_state"
    where
  "client_open tls_safe made st =
     (if st \<noteq> ClientCreated then (Inl TrustUnavailable, st)
      else if \<not> tls_safe then (Inl TrustUnavailable, ClientClosed)
      else case made of
        Inl Cancelled \<Rightarrow> (Inl TrustCancelled, st)
      | Inl Failed \<Rightarrow> (Inl TrustUnavailable, ClientClosed)
      | Inr _ \<Rightarrow> (Inr (), ClientOpen))"

definition client_close :: "client_state \<Rightarrow> client_state" where
  "client_close st = ClientClosed"

fun collect_chunks :: "nat \<Rightarrow> nat \<Rightarrow> nat list list \<Rightarrow> nat list checked" where
  "collect_chunks limit received [] = Inr []"
| "collect_chunks limit received (c # cs) =
     raise_if (received + length c > limit) ''response too large''
     (bindE (collect_chunks limit (received + length c) cs) (\<lambda>rest. Inr (c @ rest)))"

text \<open>\<open>content_types[0].split(";", 1)[0].strip().lower()\<close>\<close>

definition media_type :: "(pystr \<Rightarrow> pystr) \<Rightarrow> pystr \<Rightarrow> pystr" where
  "media_type lower s = lower (py_strip (takeWhile (\<lambda>c. c \<noteq> 59) s))"

definition read_reply ::
  "(pystr \<Rightarrow> pystr) \<Rightarrow> (pystr \<Rightarrow> loads_error + jtree) \<Rightarrow> nat \<Rightarrow> http_reply \<Rightarrow> (nat \<times> json) checked" where
  "read_reply lower tokenize limit reply =
     raise_if (length (hp_content_types reply) \<noteq> 1) ''content type''
     (raise_if (hp_set_cookie reply) ''set-cookie''
     (raise_if (hp_content_encoding reply \<notin> {None, Some (lit ''identity'')}) ''content encoding''
     (bindE (collect_chunks limit 0 (hp_chunks reply)) (\<lambda>raw.
      raise_if (media_type lower (hd (hp_content_types reply)) \<noteq> lit ''application/json'')
          ''content type''
      (case utf8_decode raw of
         None \<Rightarrow> Inl ''invalid utf-8''
       | Some s \<Rightarrow>
          (case tokenize s of
             Inl _ \<Rightarrow> Inl ''invalid JSON''
           | Inr t \<Rightarrow> bindE (load_tree t) (\<lambda>v. Inr (hp_status reply, v))))))))"

text \<open>
  \<open>post_json\<close>: the text of a payload cannot be encoded when it holds a surrogate. \<open>send\<close> is the exchange
  with the peer at the fixed origin, given the path and the bytes.
\<close>

definition post_json ::
  "(pystr \<Rightarrow> pystr) \<Rightarrow> (pystr \<Rightarrow> loads_error + jtree) \<Rightarrow> nat \<Rightarrow> client_state
     \<Rightarrow> (pystr \<times> nat list, 'w, http_reply outcome) op \<Rightarrow> (pystr \<times> json, 'w, trust_stop + (nat \<times> json))
         op" where
  "post_json lower tokenize limit st send q =
     andthen (unless (fst q \<notin> {RESOLVE_PATH, SNAPSHOT_VERIFY_PATH} \<or> st \<noteq> ClientOpen) TrustUnavailable)
         (\<lambda>_.
     andthen (unless (\<not> json_encodable (snd q)) TrustUnavailable) (\<lambda>_.
     andthen (attempt unavailable_unless_cancelled (send (fst q, utf8_encode (json_text (\<lambda>_. []) (snd
         q)))))
       (\<lambda>reply. checked_or TrustUnavailable (read_reply lower tokenize limit reply))))"

end
