(* ===== verification/Transport.thy ===== *)
theory Transport
  imports ErpTrust
begin

text \<open>
  The internal HTTP transport (\<open>src/erp_ai/transport/http/\<close>): its configuration, the responses, the
  checks on the envelope, the media type and the streamed body, the strict parsing and the canonical
  digest of a chat request, the identifiers of the requests in flight, the chat handler with its audited
  rejections, the handlers of the failures outside it, and the lifecycle. The framework calls the
  handlers; the factory of identifiers, the authenticator, the application and the audit sink are
  operations on the world.
\<close>

section \<open>Configuration\<close>

record http_config =
  hc_allowed_hosts :: "pystr list"
  hc_require_https :: bool
  hc_maximum_body_bytes :: nat
  hc_maximum_authorization_bytes :: nat

definition is_host_char :: "nat \<Rightarrow> bool" where
  "is_host_char c \<longleftrightarrow> is_lower c \<or> is_digit c \<or> c = 46 \<or> c = 45"

definition is_host_name :: "pystr \<Rightarrow> bool" where
  "is_host_name s \<longleftrightarrow> s \<noteq> [] \<and> length s \<le> 253 \<and> list_all is_host_char s
     \<and> hd s \<notin> {46, 45} \<and> last s \<notin> {46, 45}"

definition is_port :: "pystr \<Rightarrow> bool" where
  "is_port s \<longleftrightarrow> s \<noteq> [] \<and> length s \<le> 5 \<and> list_all is_digit s \<and> hd s \<noteq> 48 \<and> digits_value s \<le> 65535"

definition double_dot :: "pystr \<Rightarrow> bool" where
  "double_dot s \<longleftrightarrow> (46, 46) \<in> set (zip s (tl s))"

definition is_host :: "pystr \<Rightarrow> bool" where
  "is_host s \<longleftrightarrow> \<not> double_dot s
     \<and> (case split_on 58 s of [h] \<Rightarrow> is_host_name h | [h, p] \<Rightarrow> is_host_name h \<and> is_port p | _ \<Rightarrow> False)"

definition validate_http_config :: "(pystr \<Rightarrow> pystr) \<Rightarrow> http_config \<Rightarrow> http_config checked" where
  "validate_http_config lower c =
     raise_if (list_ex (\<lambda>h. py_strip h \<noteq> h) (hc_allowed_hosts c))
         ''allowed hosts must be exact host values''
     (raise_if (hc_allowed_hosts c = []) ''too_short''
     (let hosts = map lower (hc_allowed_hosts c) in
      raise_if (\<not> list_all is_host hosts) ''allowed hosts must be exact host values''
      (raise_if (\<not> distinct hosts) ''duplicate allowed hosts are forbidden''
      (raise_if (\<not> (256 \<le> hc_maximum_body_bytes c \<and> hc_maximum_body_bytes c \<le> 1048576)
          \<or> \<not> (32 \<le> hc_maximum_authorization_bytes c \<and> hc_maximum_authorization_bytes c \<le> 16384))
              ''out_of_range''
        (Inr (c\<lparr>hc_allowed_hosts := hosts\<rparr>))))))"

section \<open>Responses\<close>

datatype transport_error_code =
    INVALID_REQUEST
  | AUTHENTICATION_REQUIRED
  | REQUEST_TOO_LARGE
  | UNSUPPORTED_MEDIA_TYPE
  | SERVICE_UNAVAILABLE
  | TRANSPORT_AUDIT_UNAVAILABLE
  | INTERNAL_ERROR
  | NOT_FOUND
  | METHOD_NOT_ALLOWED

fun transport_message :: "transport_error_code \<Rightarrow> pystr" where
  "transport_message INVALID_REQUEST = lit ''The request is invalid.''"
| "transport_message AUTHENTICATION_REQUIRED = lit ''ERP authentication is required.''"
| "transport_message REQUEST_TOO_LARGE = lit ''The request is too large.''"
| "transport_message UNSUPPORTED_MEDIA_TYPE = lit ''The request media type is unsupported.''"
| "transport_message SERVICE_UNAVAILABLE = lit ''The service is temporarily unavailable.''"
| "transport_message TRANSPORT_AUDIT_UNAVAILABLE = lit ''The response could not be safely recorded.''"
| "transport_message INTERNAL_ERROR = lit ''The request could not be completed.''"
| "transport_message NOT_FOUND = lit ''The requested resource was not found.''"
| "transport_message METHOD_NOT_ALLOWED = lit ''The request method is not allowed.''"

datatype http_body = NoBody | FailureBody transport_error_code pystr | ResultBody chat_result

record http_response =
  hs_status :: nat
  hs_headers :: "(pystr \<times> pystr) list"
  hs_body :: http_body

definition security_headers :: "pystr \<Rightarrow> (pystr \<times> pystr) list" where
  "security_headers rid = [(lit ''X-Request-ID'', rid), (lit ''Cache-Control'', lit ''no-store''),
     (lit ''Pragma'', lit ''no-cache''), (lit ''X-Content-Type-Options'', lit ''nosniff''),
     (lit ''Referrer-Policy'', lit ''no-referrer'')]"

definition failure_response :: "transport_error_code \<Rightarrow> nat \<Rightarrow> pystr \<Rightarrow> http_response" where
  "failure_response code status rid = \<lparr>hs_status = status,
     hs_headers = security_headers rid @ (if status = 401 then [(lit ''WWW-Authenticate'', lit
         ''Bearer'')] else []),
     hs_body = FailureBody code (transport_message code)\<rparr>"

fun result_status :: "chat_result \<Rightarrow> nat" where
  "result_status (PublicChatSuccess _) = 200"
| "result_status (PublicChatFailure code _) = (if code = INVALID_MODEL_RESPONSE then 500 else 503)"

definition application_response :: "chat_result \<Rightarrow> pystr \<Rightarrow> http_response checked" where
  "application_response r rid = bindE (revalidate_result r) (\<lambda>v.
     Inr \<lparr>hs_status = result_status v, hs_headers = security_headers rid, hs_body = ResultBody v\<rparr>)"

definition empty_response :: "nat \<Rightarrow> http_response" where
  "empty_response status = \<lparr>hs_status = status, hs_headers = [], hs_body = NoBody\<rparr>"

section \<open>The envelope\<close>

text \<open>What the server hands over: the scope of the request, and the events of its body. After the last
  event \<open>receive\<close> reports that the client has disconnected.\<close>

datatype body_field = BodyAbsent | BodyBytes "nat list" | BodyOther
datatype more_field = MoreAbsent | MoreBool bool | MoreOther

datatype receive_event = Received bool body_field more_field | ReceiveRaised exn

record http_request =
  hr_scheme :: "pystr option"
  hr_method :: pystr
  hr_path :: pystr
  hr_raw_path :: "nat list option"
  hr_query_string :: "nat list option"
  hr_headers :: "(nat list \<times> nat list) list"
  hr_events :: "receive_event list"

definition bytes_lower :: "nat list \<Rightarrow> nat list" where
  "bytes_lower = map (\<lambda>b. if 65 \<le> b \<and> b \<le> 90 then b + 32 else b)"

definition ascii_text :: "nat list \<Rightarrow> pystr option" where
  "ascii_text bs = (if list_all (\<lambda>b. b < 128) bs then Some bs else None)"

definition AUTHORITY_HEADERS :: "pystr list" where
  "AUTHORITY_HEADERS = map lit [''x-customer-id'', ''x-user-id'', ''x-roles'', ''x-permissions'',
      ''x-modules'',
     ''x-legal-entities'', ''x-purpose'', ''x-route-intent'', ''x-tool-name'', ''x-tool-version'',
     ''x-authorization-snapshot-id'', ''x-resolver-handle'', ''x-request-id'']"

definition header_values :: "http_request \<Rightarrow> pystr \<Rightarrow> nat list list" where
  "header_values r name = map snd (filter (\<lambda>(k, v). bytes_lower k = name) (hr_headers r))"

definition validate_envelope :: "http_config \<Rightarrow> http_request \<Rightarrow> unit checked" where
  "validate_envelope c r =
     raise_if (hc_require_https c \<and> hr_scheme r \<noteq> Some (lit ''https'')) ''invalid transport scheme''
     (raise_if (hr_method r \<noteq> lit ''POST'' \<or> hr_path r \<noteq> lit ''/v1/chat'' \<or> hr_raw_path r \<noteq> Some (lit
         ''/v1/chat'')
         \<or> hr_query_string r \<noteq> Some []) ''invalid request target''
     (case header_values r (lit ''host'') of
        [h] \<Rightarrow>
          (case ascii_text h of
             None \<Rightarrow> Inl ''invalid host''
           | Some host \<Rightarrow>
              raise_if (bytes_lower host \<notin> set (hc_allowed_hosts c)) ''invalid host''
              (raise_if (list_ex (\<lambda>(k, v). bytes_lower k \<in> set AUTHORITY_HEADERS) (hr_headers r))
                 ''authority headers are forbidden'' (Inr ())))
      | _ \<Rightarrow> Inl ''invalid host''))"

definition bearer_assertion :: "http_request \<Rightarrow> nat \<Rightarrow> pystr checked" where
  "bearer_assertion r limit =
     (case header_values r (lit ''authorization'') of
        [v] \<Rightarrow>
          raise_if (length v > limit) ''denied''
          (case ascii_text v of
             None \<Rightarrow> Inl ''denied''
           | Some raw \<Rightarrow>
              raise_if (\<not> starts_with raw (lit ''Bearer '') \<or> length (filter (\<lambda>c. c = 32) raw) \<noteq> 1)
                  ''denied''
              (let assertion = drop 7 raw in
               raise_if (assertion = [] \<or> 44 \<in> set assertion \<or> list_ex (\<lambda>c. py_isspace c \<or> c < 33)
                   assertion)
                 ''denied'' (Inr assertion)))
      | _ \<Rightarrow> Inl ''denied'')"

datatype media_stop = MediaUnsupported | MediaTooLarge | MediaInvalid

definition INT_DIGIT_LIMIT :: nat where "INT_DIGIT_LIMIT = 4300"

definition validate_length :: "nat \<Rightarrow> nat list \<Rightarrow> media_stop + unit" where
  "validate_length limit v =
     (case ascii_text v of
        None \<Rightarrow> Inl MediaInvalid
      | Some s \<Rightarrow>
         raise_if (s = [] \<or> \<not> list_all is_digit s \<or> length s > INT_DIGIT_LIMIT) MediaInvalid
         (raise_if (digits_value s > limit) MediaTooLarge (Inr ())))"

definition validate_media :: "http_request \<Rightarrow> nat \<Rightarrow> media_stop + unit" where
  "validate_media r limit =
     (let encodings = header_values r (lit ''content-encoding''); types = header_values r (lit
         ''content-type'');
          lengths = header_values r (lit ''content-length''); transfers = header_values r (lit
              ''transfer-encoding'') in
      raise_if (length encodings > 1 \<or> encodings \<noteq> [] \<and> bytes_lower (hd encodings) \<noteq> lit ''identity'')
        MediaUnsupported
      (raise_if (length types \<noteq> 1) MediaUnsupported
      (case ascii_text (hd types) of
         None \<Rightarrow> Inl MediaUnsupported
       | Some t \<Rightarrow>
          raise_if (map (\<lambda>part. bytes_lower (py_strip part)) (split_on 59 t)
              \<notin> {[lit ''application/json''], [lit ''application/json'', lit ''charset=utf-8'']})
                  MediaUnsupported
          (raise_if (length lengths > 1) MediaInvalid
          (raise_if (length transfers > 1 \<or> lengths \<noteq> [] \<and> transfers \<noteq> []) MediaInvalid
          (raise_if (transfers \<noteq> [] \<and> bytes_lower (hd transfers) \<noteq> lit ''chunked'') MediaInvalid
          (if lengths \<noteq> [] then validate_length limit (hd lengths) else Inr ())))))))"

section \<open>The body\<close>

datatype body_stop = BodyCancelled | BodyTooLarge | BodyUnavailable

fun chunk_of :: "body_field \<Rightarrow> nat list option" where
  "chunk_of BodyAbsent = Some []"
| "chunk_of (BodyBytes bs) = Some bs"
| "chunk_of BodyOther = None"

fun more_of :: "more_field \<Rightarrow> bool option" where
  "more_of MoreAbsent = Some False"
| "more_of (MoreBool b) = Some b"
| "more_of MoreOther = None"

text \<open>\<open>_read_body\<close>, with the number of bytes read so far, and its handlers.\<close>

fun read_body :: "nat \<Rightarrow> nat \<Rightarrow> receive_event list \<Rightarrow> body_stop + nat list" where
  "read_body limit received [] = Inl BodyUnavailable"
| "read_body limit received (ReceiveRaised x # es) = Inl (if x = Cancelled then BodyCancelled else
    BodyUnavailable)"
| "read_body limit received (Received is_request body more_body # es) =
     raise_if (\<not> is_request) BodyUnavailable
     (case chunk_of body of
        None \<Rightarrow> Inl BodyUnavailable
      | Some chunk \<Rightarrow>
         (case more_of more_body of
            None \<Rightarrow> Inl BodyUnavailable
          | Some m \<Rightarrow>
             raise_if (received + length chunk > limit) BodyTooLarge
             (if m then bindE (read_body limit (received + length chunk) es) (\<lambda>rest. Inr (chunk @ rest))
              else Inr chunk)))"

section \<open>The request of the body\<close>

text \<open>\<open>json.loads\<close> also raises a plain \<open>ValueError\<close>, on an integer with too many digits; it is not
    caught.\<close>

datatype parse_stop = StrictRequest | UncaughtValueError

record http_env =
  he_app :: app_env
  he_tokenize :: "pystr \<Rightarrow> loads_error + jtree"
  he_sha256 :: "nat list \<Rightarrow> pystr"

definition CHAT_FIELDS :: "pystr set" where
  "CHAT_FIELDS = {lit ''message'', lit ''stream'', lit ''preferred_response_language''}"

text \<open>The strict fields of \<open>PublicChatRequest\<close>; a string with a surrogate is refused.\<close>

fun json_text_field :: "json \<Rightarrow> pystr checked" where
  "json_text_field (JStr s) = (if utf8_encodable s then Inr s else Inl ''string_unicode'')"
| "json_text_field _ = Inl ''string_type''"

fun json_bool_field :: "json option \<Rightarrow> bool checked" where
  "json_bool_field None = Inr False"
| "json_bool_field (Some (JBool b)) = Inr b"
| "json_bool_field (Some _) = Inl ''bool_type''"

fun json_optional_text :: "json option \<Rightarrow> pystr option checked" where
  "json_optional_text None = Inr None"
| "json_optional_text (Some JNull) = Inr None"
| "json_optional_text (Some v) = bindE (json_str v) (\<lambda>s. Inr (Some s))"

definition chat_request_of :: "app_env \<Rightarrow> (pystr \<times> json) list \<Rightarrow> public_chat_request checked" where
  "chat_request_of env ps =
     raise_if (\<not> set (map fst ps) \<subseteq> CHAT_FIELDS) ''extra_forbidden''
     (bindE (json_field ps ''message'') (\<lambda>m. bindE (json_text_field m) (\<lambda>msg.
      bindE (json_bool_field (map_of ps (lit ''stream''))) (\<lambda>stream.
      bindE (json_optional_text (map_of ps (lit ''preferred_response_language''))) (\<lambda>lang.
        validate_chat_request (ap_lower env) (ap_upper env)
          \<lparr>pc_message = msg, pc_stream = stream, pc_preferred_language = lang\<rparr>)))))"

definition parse_public_chat_request :: "http_env \<Rightarrow> nat list \<Rightarrow> parse_stop + public_chat_request" where
  "parse_public_chat_request env body =
     raise_if (body = []) StrictRequest
     (raise_if (starts_with body BOM) StrictRequest
     (case utf8_decode body of
        None \<Rightarrow> Inl StrictRequest
      | Some s \<Rightarrow>
         (case he_tokenize env s of
            Inl Malformed \<Rightarrow> Inl StrictRequest
          | Inl DigitLimit \<Rightarrow> Inl UncaughtValueError
          | Inr t \<Rightarrow>
             (case load_tree t of
                Inr (JObj ps) \<Rightarrow>
                  (case chat_request_of (he_app env) ps of Inl _ \<Rightarrow> Inl StrictRequest | Inr r \<Rightarrow> Inr r)
              | _ \<Rightarrow> Inl StrictRequest))))"

definition canonical_chat_payload :: "public_chat_request \<Rightarrow> json" where
  "canonical_chat_payload r = JObj [(lit ''domain'', JStr (lit ''erp-ai:internal-http-chat:v1'')),
     (lit ''contract_version'', JInt 1), (lit ''method'', JStr (lit ''POST'')), (lit ''route_path'',
         JStr (lit ''/v1/chat'')),
     (lit ''request'', JObj [(lit ''message'', JStr (pc_message r)), (lit ''stream'', JBool (pc_stream
         r)),
        (lit ''preferred_response_language'', case pc_preferred_language r of None \<Rightarrow> JNull | Some l
            \<Rightarrow> JStr l)])]"

definition canonical_public_chat_bytes :: "app_env \<Rightarrow> public_chat_request \<Rightarrow> nat list checked" where
  "canonical_public_chat_bytes env r =
     bindE (validate_chat_request (ap_lower env) (ap_upper env) r) (\<lambda>v.
       if json_encodable (canonical_chat_payload v)
       then Inr (utf8_encode (json_text (\<lambda>_. []) (canonical_chat_payload v))) else Inl
           ''surrogates not allowed'')"

definition canonical_public_chat_digest :: "http_env \<Rightarrow> public_chat_request \<Rightarrow> pystr checked" where
  "canonical_public_chat_digest env r =
     bindE (canonical_public_chat_bytes (he_app env) r) (\<lambda>bs. Inr (he_sha256 env bs))"

section \<open>Request identifiers\<close>

record transport_state =
  ts_ready :: bool
  ts_in_flight :: "pystr set"

text \<open>\<open>_request_id\<close> on what the factory returned (\<open>None\<close> for a value that is not a string); the text of
  the parsed UUID is the lower-case value.\<close>

definition request_id_of :: "(pystr \<Rightarrow> pystr) \<Rightarrow> pystr option \<Rightarrow> transport_state \<Rightarrow> (pystr \<times>
    transport_state) checked" where
  "request_id_of lower produced st =
     (case produced of
        None \<Rightarrow> Inl ''request ID factory returned invalid data''
      | Some v \<Rightarrow>
         raise_if (\<not> is_uuid4 (lower v)) ''request ID factory returned invalid data''
         (raise_if (lower v \<in> ts_in_flight st) ''request ID factory returned invalid data''
           (Inr (lower v, st\<lparr>ts_in_flight := insert (lower v) (ts_in_flight st)\<rparr>))))"

definition release_request_id :: "pystr \<Rightarrow> transport_state \<Rightarrow> transport_state" where
  "release_request_id rid st = st\<lparr>ts_in_flight := ts_in_flight st - {rid}\<rparr>"

section \<open>The chat handler\<close>

record 'w transport =
  tp_config :: http_config
  tp_create_id :: "'w \<Rightarrow> pystr option outcome \<times> 'w"
  tp_authenticate :: "(auth_request, 'w, auth_stop + request_reference option) op"
  tp_application :: "(public_chat_request \<times> request_reference, 'w, chat_result outcome) op"
  tp_sink :: "(app_audit_event, 'w, unit outcome) op"

definition rejection_event :: "pystr \<Rightarrow> string \<Rightarrow> app_audit_event" where
  "rejection_event rid reason = \<lparr>ape_request_id = rid, ape_stage = StageValidation, ape_outcome =
      AuditFailure,
     ape_internal_reason = reason\<rparr>"

text \<open>The chat handler stops by raising, or by rejecting the request with a code, a status and a
    reason.\<close>

datatype http_stop = HttpRaised exn | HttpRejected transport_error_code nat string

definition reject ::
  "'w transport \<Rightarrow> pystr \<Rightarrow> transport_error_code \<Rightarrow> nat \<Rightarrow> string \<Rightarrow> 'w \<Rightarrow> http_response outcome \<times> 'w" where
  "reject tp rid code status reason =
     record_before_return (tp_sink tp) (failure_response TRANSPORT_AUDIT_UNAVAILABLE 503 rid)
       (rejection_event rid reason) (failure_response code status rid)"

fun media_rejection :: "media_stop \<Rightarrow> http_stop" where
  "media_rejection MediaUnsupported = HttpRejected UNSUPPORTED_MEDIA_TYPE 415
      ''unsupported_request_media''"
| "media_rejection MediaTooLarge = HttpRejected REQUEST_TOO_LARGE 413 ''request_body_too_large''"
| "media_rejection MediaInvalid = HttpRejected INVALID_REQUEST 400 ''invalid_http_envelope''"

fun body_rejection :: "body_stop \<Rightarrow> http_stop" where
  "body_rejection BodyCancelled = HttpRaised Cancelled"
| "body_rejection BodyTooLarge = HttpRejected REQUEST_TOO_LARGE 413 ''request_body_too_large''"
| "body_rejection BodyUnavailable = HttpRejected INVALID_REQUEST 400 ''request_body_unavailable''"

fun parse_rejection :: "parse_stop \<Rightarrow> http_stop" where
  "parse_rejection StrictRequest = HttpRejected INVALID_REQUEST 400 ''invalid_public_request''"
| "parse_rejection UncaughtValueError = HttpRaised Failed"

definition AUTH_REJECTED :: http_stop where
  "AUTH_REJECTED = HttpRejected AUTHENTICATION_REQUIRED 401 ''ingress_authentication_rejected''"

definition AUTH_UNAVAILABLE :: http_stop where
  "AUTH_UNAVAILABLE = HttpRejected SERVICE_UNAVAILABLE 503 ''ingress_authentication_unavailable''"

fun auth_rejection :: "auth_stop \<Rightarrow> http_stop" where
  "auth_rejection AuthCancelled = HttpRaised Cancelled"
| "auth_rejection AuthDenied = AUTH_REJECTED"
| "auth_rejection AuthUnavailable = AUTH_UNAVAILABLE"
| "auth_rejection AuthFailed = AUTH_UNAVAILABLE"

definition stops_with :: "('e \<Rightarrow> 'f) \<Rightarrow> 'e + 'a \<Rightarrow> ('f, 'w, 'a) proc" where
  "stops_with h m = (case m of Inl e \<Rightarrow> stop (h e) | Inr x \<Rightarrow> give x)"

text \<open>The checks on the request, up to the digest that is authenticated.\<close>

definition chat_input ::
  "http_env \<Rightarrow> http_config \<Rightarrow> http_request \<Rightarrow> http_stop + (pystr \<times> public_chat_request \<times> pystr)" where
  "chat_input env c r =
     (case validate_envelope c r of
        Inl _ \<Rightarrow> Inl (HttpRejected INVALID_REQUEST 400 ''invalid_http_envelope'')
      | Inr _ \<Rightarrow>
     (case bearer_assertion r (hc_maximum_authorization_bytes c) of
        Inl _ \<Rightarrow> Inl AUTH_REJECTED
      | Inr assertion \<Rightarrow>
     (case validate_media r (hc_maximum_body_bytes c) of
        Inl m \<Rightarrow> Inl (media_rejection m)
      | Inr _ \<Rightarrow>
     (case read_body (hc_maximum_body_bytes c) 0 (hr_events r) of
        Inl b \<Rightarrow> Inl (body_rejection b)
      | Inr body \<Rightarrow>
     (case parse_public_chat_request env body of
        Inl p \<Rightarrow> Inl (parse_rejection p)
      | Inr request \<Rightarrow>
          if pc_stream request then Inl (parse_rejection StrictRequest)
          else case canonical_public_chat_digest env request of
            Inl _ \<Rightarrow> Inl (HttpRaised Failed)
          | Inr digest \<Rightarrow> Inr (assertion, request, digest))))))"

definition chat_auth_request :: "pystr \<Rightarrow> pystr \<Rightarrow> pystr \<Rightarrow> auth_request" where
  "chat_auth_request rid digest assertion = \<lparr>au_request_id = rid, au_method = lit ''POST'',
     au_route_path = lit ''/v1/chat'', au_body_digest = digest, au_bearer = assertion\<rparr>"

definition chat_reference ::
  "'w transport \<Rightarrow> pystr \<Rightarrow> pystr \<Rightarrow> pystr \<Rightarrow> (http_stop, 'w, request_reference) proc" where
  "chat_reference tp rid digest assertion =
     andthen (checked_or AUTH_UNAVAILABLE (validate_auth_request (chat_auth_request rid digest
         assertion))) (\<lambda>q.
     andthen (\<lambda>w. case tp_authenticate tp q w of
         (Inl e, w1) \<Rightarrow> (Inl (auth_rejection e), w1) | (Inr ref, w1) \<Rightarrow> (Inr ref, w1)) (\<lambda>found.
       case found of
         None \<Rightarrow> stop AUTH_REJECTED
       | Some ref0 \<Rightarrow>
           andthen (checked_or AUTH_UNAVAILABLE (validate_reference ref0)) (\<lambda>ref.
           andthen (unless (rr_request_id ref \<noteq> rid) AUTH_REJECTED) (\<lambda>_. give ref))))"

definition chat_admit ::
  "http_env \<Rightarrow> 'w transport \<Rightarrow> bool \<Rightarrow> pystr \<Rightarrow> http_request
     \<Rightarrow> (http_stop, 'w, public_chat_request \<times> request_reference) proc" where
  "chat_admit env tp ready rid r =
     andthen (unless (\<not> ready) (HttpRejected SERVICE_UNAVAILABLE 503 ''transport_not_ready'')) (\<lambda>_.
     andthen (stops_with id (chat_input env (tp_config tp) r)) (\<lambda>(assertion, request, digest).
     andthen (chat_reference tp rid digest assertion) (\<lambda>ref. give (request, ref))))"

definition execute_chat ::
  "http_env \<Rightarrow> 'w transport \<Rightarrow> bool \<Rightarrow> pystr \<Rightarrow> http_request \<Rightarrow> 'w \<Rightarrow> http_response outcome \<times> 'w" where
  "execute_chat env tp ready rid r w =
     (case chat_admit env tp ready rid r w of
        (Inl (HttpRaised x), w1) \<Rightarrow> (Inl x, w1)
      | (Inl (HttpRejected code status reason), w1) \<Rightarrow> reject tp rid code status reason w1
      | (Inr q, w1) \<Rightarrow>
         (case tp_application tp q w1 of
            (Inl Cancelled, w2) \<Rightarrow> (Inl Cancelled, w2)
          | (Inl Failed, w2) \<Rightarrow> (Inr (failure_response INTERNAL_ERROR 500 rid), w2)
          | (Inr result, w2) \<Rightarrow>
             (case application_response result rid of
                Inl _ \<Rightarrow> (Inr (failure_response INTERNAL_ERROR 500 rid), w2)
              | Inr response \<Rightarrow> (Inr response, w2))))"

text \<open>An identifier is taken from the factory; nothing that goes wrong there leaves the handler.\<close>

definition take_request_id ::
  "http_env \<Rightarrow> 'w transport \<Rightarrow> transport_state \<Rightarrow> 'w \<Rightarrow> (pystr \<times> transport_state) outcome \<times> 'w" where
  "take_request_id env tp st w =
     (case tp_create_id tp w of
        (Inl x, w1) \<Rightarrow> (Inl x, w1)
      | (Inr produced, w1) \<Rightarrow>
         (case request_id_of (ap_lower (he_app env)) produced st of
            Inl _ \<Rightarrow> (Inl Failed, w1) | Inr y \<Rightarrow> (Inr y, w1)))"

definition chat ::
  "http_env \<Rightarrow> 'w transport \<Rightarrow> http_request \<Rightarrow> transport_state \<times> 'w \<Rightarrow> http_response outcome \<times>
      transport_state \<times> 'w" where
  "chat env tp r s = (case s of (st, w) \<Rightarrow>
     (case take_request_id env tp st w of
        (Inl Cancelled, w1) \<Rightarrow> (Inl Cancelled, st, w1)
      | (Inl Failed, w1) \<Rightarrow> (Inr (failure_response INTERNAL_ERROR 500 (lit ''unavailable'')), st, w1)
      | (Inr (rid, st1), w1) \<Rightarrow>
         (case execute_chat env tp (ts_ready st1) rid r w1 of
            (response, w2) \<Rightarrow> (response, release_request_id rid st1, w2))))"

section \<open>The other handlers\<close>

definition liveness :: http_response where "liveness = empty_response 204"

definition readiness :: "transport_state \<Rightarrow> http_response" where
  "readiness st = empty_response (if ts_ready st then 204 else 503)"

text \<open>An identifier for a request that failed outside the chat handler; an exception of the factory is
  suppressed.\<close>

definition spare_request_id ::
  "http_env \<Rightarrow> 'w transport \<Rightarrow> transport_state \<Rightarrow> 'w \<Rightarrow> (pystr option \<times> transport_state) outcome \<times> 'w" where
  "spare_request_id env tp st w =
     (case take_request_id env tp st w of
        (Inl Cancelled, w1) \<Rightarrow> (Inl Cancelled, w1)
      | (Inl Failed, w1) \<Rightarrow> (Inr (None, st), w1)
      | (Inr (rid, st1), w1) \<Rightarrow> (Inr (Some rid, st1), w1))"

definition is_chat_attempt :: "http_request \<Rightarrow> bool" where
  "is_chat_attempt r \<longleftrightarrow> hr_path r = lit ''/v1/chat''
     \<or> (case hr_raw_path r of None \<Rightarrow> False | Some raw \<Rightarrow>
          starts_with (bytes_lower raw) (lit ''/v1%2fchat'') \<or> starts_with raw (lit ''/v1/chat''))"

definition failed_outside ::
  "http_env \<Rightarrow> 'w transport \<Rightarrow> bool \<Rightarrow> string \<Rightarrow> transport_error_code \<Rightarrow> nat
     \<Rightarrow> transport_state \<times> 'w \<Rightarrow> http_response outcome \<times> transport_state \<times> 'w" where
  "failed_outside env tp identified reason code status s = (case s of (st, w) \<Rightarrow>
     if \<not> identified then (Inr (failure_response code status (lit ''unavailable'')), st, w)
     else case spare_request_id env tp st w of
       (Inl x, w1) \<Rightarrow> (Inl x, st, w1)
     | (Inr (None, st1), w1) \<Rightarrow> (Inr (failure_response code status (lit ''unavailable'')), st1, w1)
     | (Inr (Some rid, st1), w1) \<Rightarrow>
         (case reject tp rid code status reason w1 of
            (response, w2) \<Rightarrow> (response, release_request_id rid st1, w2)))"

definition http_exception ::
  "http_env \<Rightarrow> 'w transport \<Rightarrow> nat \<Rightarrow> http_request \<Rightarrow> transport_state \<times> 'w \<Rightarrow> http_response outcome \<times>
      transport_state \<times> 'w"
where
  "http_exception env tp status r =
     (if status = 405
      then failed_outside env tp (is_chat_attempt r) ''request_method_not_allowed'' METHOD_NOT_ALLOWED
          405
      else failed_outside env tp (is_chat_attempt r) ''request_route_not_found'' NOT_FOUND 404)"

definition unhandled_exception ::
  "http_env \<Rightarrow> 'w transport \<Rightarrow> http_request \<Rightarrow> transport_state \<times> 'w \<Rightarrow> http_response outcome \<times>
      transport_state \<times> 'w" where
  "unhandled_exception env tp r =
     failed_outside env tp (hr_path r = lit ''/v1/chat'') ''unhandled_transport_failure''
         INTERNAL_ERROR 500"

text \<open>A chat request as the server sees it: an exception of the handler reaches the last one, unless it
    is
  a cancellation.\<close>

definition serve_chat ::
  "http_env \<Rightarrow> 'w transport \<Rightarrow> http_request \<Rightarrow> transport_state \<times> 'w \<Rightarrow> http_response outcome \<times>
      transport_state \<times> 'w" where
  "serve_chat env tp r s =
     (case chat env tp r s of
        (Inl Failed, s1) \<Rightarrow> unhandled_exception env tp r s1
      | (res, s1) \<Rightarrow> (res, s1))"

section \<open>The lifecycle\<close>

text \<open>\<open>lifespan\<close>: the application is ready after a startup that returned, and no longer from the
    shutdown
  on.\<close>

definition lifespan_enter :: "unit outcome \<Rightarrow> transport_state \<Rightarrow> unit outcome \<times> transport_state" where
  "lifespan_enter startup st = (case startup of Inl x \<Rightarrow> (Inl x, st) | Inr _ \<Rightarrow> (Inr (), st\<lparr>ts_ready :=
      True\<rparr>))"

definition lifespan_exit :: "transport_state \<Rightarrow> transport_state" where
  "lifespan_exit st = st\<lparr>ts_ready := False\<rparr>"

end
