(* ===== verification/ErpTrustProperties.thy ===== *)
theory ErpTrustProperties
  imports ErpTrust ApplicationProperties
begin

text \<open>
  What the ERP trust adapters establish: the segments of an assertion are exactly the canonical
  encodings, an accepted assertion is signed by a configured key over a payload bound to the request
  and alive, and a confirmed snapshot decision names exactly the context it was asked for.
\<close>

section \<open>What an accepted assertion establishes\<close>

text \<open>The payload \<open>ps\<close> is bound to the request and alive at the instant \<open>t\<close> under the key \<open>k\<close>.\<close>

definition payload_binds ::
  "verifier_config \<Rightarrow> verification_key \<Rightarrow> auth_request \<Rightarrow> instant \<Rightarrow> (pystr \<times> json) list \<Rightarrow> bool" where
  "payload_binds cfg k q t ps \<longleftrightarrow>
     map_of ps (lit ''v'') = Some (JInt 1)
     \<and> map_of ps (lit ''iss'') = Some (JStr (vc_issuer cfg)) \<and> map_of ps (lit ''aud'') = Some (JStr
         (vc_audience cfg))
     \<and> map_of ps (lit ''method'') = Some (JStr (au_method q)) \<and> map_of ps (lit ''path'') = Some (JStr
         (au_route_path q))
     \<and> map_of ps (lit ''body_sha256'') = Some (JStr (au_body_digest q))
     \<and> (\<exists>i e iat exp. map_of ps (lit ''iat'') = Some (JInt i) \<and> map_of ps (lit ''exp'') = Some (JInt e)
          \<and> from_timestamp i = Inr iat \<and> from_timestamp e = Inr exp
          \<and> iat < exp \<and> exp - iat \<le> vc_maximum_lifetime cfg
          \<and> iat \<le> t + vc_maximum_clock_skew cfg \<and> t - vc_maximum_clock_skew cfg < exp
          \<and> zt_instant (vk_activates_at k) \<le> iat \<and> iat < zt_instant (vk_retires_at k)
          \<and> exp \<le> zt_instant (vk_retires_at k))"

lemma json_field_Inr: "json_field ps k = Inr v \<longleftrightarrow> map_of ps (lit k) = Some v"
  by (auto simp: json_field_def split: option.splits)

lemma strict_int_Inr: "strict_int v = Inr i \<longleftrightarrow> v = JInt i"
  by (cases v) auto

lemma json_str_Inr: "json_str v = Inr s \<longleftrightarrow> v = JStr s"
  by (cases v) auto

lemmas checked_iff = bindE_Inr_iff raise_if_Inr_iff json_field_Inr strict_int_Inr json_str_Inr

lemma validate_times_Inr:
  "validate_times cfg k now i e = Inr u \<Longrightarrow> \<exists>iat exp. from_timestamp i = Inr iat \<and> from_timestamp e = Inr
      exp \<and> iat < exp
    \<and> exp - iat \<le> vc_maximum_lifetime cfg \<and> iat \<le> zt_instant now + vc_maximum_clock_skew cfg
    \<and> zt_instant now - vc_maximum_clock_skew cfg < exp \<and> zt_instant (vk_activates_at k) \<le> iat
    \<and> iat < zt_instant (vk_retires_at k) \<and> exp \<le> zt_instant (vk_retires_at k)"
  unfolding validate_times_def Let_def checked_iff de_Morgan_disj not_le not_less by blast

lemma validate_payload_fields:
  assumes "validate_payload cfg k q now ps = Inr u"
  shows "\<exists>i e jti ref u.
      map_of ps (lit ''v'') = Some (JInt 1) \<and> map_of ps (lit ''iat'') = Some (JInt i)
      \<and> map_of ps (lit ''exp'') = Some (JInt e) \<and> validate_times cfg k now i e = Inr u
      \<and> map_of ps (lit ''jti'') = Some (JStr jti) \<and> is_uuid4 jti \<and> map_of ps (lit ''resolver_ref'') =
          Some (JStr ref)
      \<and> map_of ps (lit ''iss'') = Some (JStr (vc_issuer cfg)) \<and> map_of ps (lit ''aud'') = Some (JStr
          (vc_audience cfg))
      \<and> map_of ps (lit ''method'') = Some (JStr (au_method q)) \<and> map_of ps (lit ''path'') = Some (JStr
          (au_route_path q))
      \<and> map_of ps (lit ''body_sha256'') = Some (JStr (au_body_digest q))"
  using assms unfolding validate_payload_def
  apply (elim bindE_InrE raise_if_InrE)
  apply (simp only: json_field_Inr strict_int_Inr json_str_Inr de_Morgan_disj not_not)
  apply (elim conjE)
  apply hypsubst
  by (intro exI conjI) (rule refl | assumption)+

lemma validate_payload_Inr:
  assumes "validate_payload cfg k q now ps = Inr u"
  shows "payload_binds cfg k q (zt_instant now) ps"
proof -
  obtain i e u where ps: "map_of ps (lit ''v'') = Some (JInt 1)" "map_of ps (lit ''iat'') = Some (JInt
      i)"
    "map_of ps (lit ''exp'') = Some (JInt e)" "validate_times cfg k now i e = Inr u"
    "map_of ps (lit ''iss'') = Some (JStr (vc_issuer cfg))" "map_of ps (lit ''aud'') = Some (JStr
        (vc_audience cfg))"
    "map_of ps (lit ''method'') = Some (JStr (au_method q))" "map_of ps (lit ''path'') = Some (JStr
        (au_route_path q))"
    "map_of ps (lit ''body_sha256'') = Some (JStr (au_body_digest q))"
    using validate_payload_fields[OF assms] by (elim exE conjE) (rule that)
  show ?thesis using ps(2,3) validate_times_Inr[OF ps(4)] unfolding payload_binds_def
    by (simp only: ps(1,5-9) simp_thms) blast
qed

text \<open>The bearer token is a compact JWS signed by a configured key over a payload bound to the request;
    its
  reference is the one returned.\<close>

definition asserts ::
  "trust_env \<Rightarrow> verifier_config \<Rightarrow> auth_request \<Rightarrow> instant \<Rightarrow> request_reference \<Rightarrow> bool" where
  "asserts env cfg q t ref \<longleftrightarrow> (\<exists>k ps header payload seg bs sig.
     k \<in> set (vc_keys cfg)
     \<and> split_on 46 (au_bearer q) = [header, payload, seg]
     \<and> decode_segment payload (vc_maximum_segment_bytes cfg) = Inr bs
     \<and> strict_object (te_tokenize env) bs PAYLOAD_FIELDS = Inr ps
     \<and> decode_segment seg (vc_maximum_segment_bytes cfg) = Inr sig
     \<and> te_ed25519 env (vk_public_key k) sig (header @ [46] @ payload)
     \<and> payload_binds cfg k q t ps
     \<and> map_of ps (lit ''resolver_ref'') = Some (JStr (rr_resolver_reference ref)))"

lemma parse_compact_jws_Inr:
  assumes "parse_compact_jws tok token m n = Inr pa"
  shows "\<exists>header payload seg bs. split_on 46 token = [header, payload, seg]
    \<and> decode_segment payload n = Inr bs \<and> strict_object tok bs PAYLOAD_FIELDS = Inr (pa_payload pa)
    \<and> decode_segment seg n = Inr (pa_signature pa) \<and> pa_signing_input pa = header @ [46] @ payload"
proof -
  obtain p0 p1 p2 where s: "split_on 46 token = [p0, p1, p2]"
    using assms unfolding parse_compact_jws_def by (auto elim!: raise_if_InrE split: list.splits)
  then show ?thesis using assms unfolding parse_compact_jws_def by (auto simp: checked_iff)
qed

lemma validate_reference_Inr:
  "validate_reference r = Inr r' \<longleftrightarrow> validate_identifier (rr_request_id r) = Inr (rr_request_id r')
     \<and> canonical_reference (rr_resolver_reference r) = Inr (rr_resolver_reference r')"
  by (cases r') (auto simp: validate_reference_def bindE_Inr_iff)

lemma verify_assertion_Inr:
  assumes "verify_assertion env cfg q now = Inr ref"
  shows "asserts env cfg q (zt_instant now) ref"
proof -
  obtain pa k s r0 where pa: "parse_compact_jws (te_tokenize env) (au_bearer q) (vc_maximum_token_bytes
      cfg)
       (vc_maximum_segment_bytes cfg) = Inr pa"
    and k: "k \<in> set (vc_keys cfg)" "validate_payload cfg k q now (pa_payload pa) = Inr ()"
      "te_ed25519 env (vk_public_key k) (pa_signature pa) (pa_signing_input pa)"
    and ref: "map_of (pa_payload pa) (lit ''resolver_ref'') = Some (JStr s)"
      "validate_reference \<lparr>rr_request_id = au_request_id q, rr_resolver_reference = s\<rparr> = Inr ref"
    using assms unfolding verify_assertion_def checked_iff
    by (fastforce simp: checked_iff find_Some_iff split: option.splits)
  have r: "rr_resolver_reference ref = s"
    using ref(2) by (auto simp: validate_reference_Inr canonical_reference_iff)
  show ?thesis unfolding asserts_def
    using parse_compact_jws_Inr[OF pa] k(1,3) validate_payload_Inr[OF k(2)] ref(1) r by metis
qed

text \<open>The authenticator with the clock: what it returns was asserted at some instant of the clock.\<close>

lemma authenticate_Inr:
  assumes "authenticate env cfg clock q0 w = (Inr ref, w')"
  obtains q now w1 where "validate_auth_request q0 = Inr q" "clock w = (Inr (Zoned now), w')"
    "asserts env cfg q (zt_instant now) ref"
proof -
  obtain q now0 now where "validate_auth_request q0 = Inr q" "clock w = (Inr now0, w')"
    "require_zone ''invalid clock'' now0 = Inr now" "verify_assertion env cfg q now = Inr ref"
    using assms unfolding authenticate_def by (fastforce elim!: andthen_InrE)
  then show ?thesis using that verify_assertion_Inr by (cases now0) auto
qed

lemma b64_padding: "replicate ((4 - length (b64_encode bs) mod 4) mod 4) 61 = b64_pad (length bs)"
proof -
  obtain k where "length bs = 3 * k \<or> length bs = 3 * k + 1 \<or> length bs = 3 * k + 2"
  proof -
    have "length bs mod 3 < 3" "length bs = 3 * (length bs div 3) + length bs mod 3" by simp_all
    then show ?thesis using that[of "length bs div 3"] by linarith
  qed
  then have "((length bs * 4 + 2) div 3) mod 4 = (if length bs mod 3 = 0 then 0 else length bs mod 3 +
      1)"
  proof (elim disjE)
    assume n: "length bs = 3 * k + 2"
    have "((3 * k + 2) * 4 + 2) div 3 = 4 * k + 3" "(3 * k + 2) mod 3 = 2" "(4 * k + 3) mod 4 = 3" by
        presburger+
    then show ?thesis unfolding n by (simp only:) simp
  next
    assume n: "length bs = 3 * k + 1"
    have "((3 * k + 1) * 4 + 2) div 3 = 4 * k + 2" "(3 * k + 1) mod 3 = 1" "(4 * k + 2) mod 4 = 2" by
        presburger+
    then show ?thesis unfolding n by (simp only:) simp
  next
    assume n: "length bs = 3 * k"
    have "(3 * k * 4 + 2) div 3 = 4 * k" "(3 * k) mod 3 = 0" "(4 * k) mod 4 = 0" by presburger+
    then show ?thesis unfolding n by (simp only:) simp
  qed
  moreover have "length bs mod 3 < 3" by simp
  ultimately have "(4 - ((length bs * 4 + 2) div 3) mod 4) mod 4 = (3 - length bs mod 3) mod 3"
    by (cases "length bs mod 3 = 0"; cases "length bs mod 3 = 1") auto
  then show ?thesis by (simp add: length_b64_encode b64_pad_def)
qed

lemma b64_char_url: "v < 64 \<Longrightarrow> is_alpha (b64_char v) \<or> is_digit (b64_char v) \<or> b64_char v = 95 \<or>
    b64_char v = 45"
  by (auto simp: b64_char_def is_alpha_def is_lower_def is_digit_def)

text \<open>A segment is accepted exactly when it is the unpadded encoding of its bytes.\<close>

lemma decode_segment_iff:
  "decode_segment s n = Inr bs \<longleftrightarrow>
     bs \<noteq> [] \<and> list_all (\<lambda>b. b < 256) bs \<and> s = b64_encode bs \<and> length s \<le> n" (is "_ \<longleftrightarrow> ?R")
proof
  assume a: "decode_segment s n = Inr bs"
  then have d: "decode_unpadded s = Some bs" "rstrip_pad (urlsafe_b64encode bs) = s" "s \<noteq> []" "length s
      \<le> n"
    unfolding decode_segment_def by (auto elim!: raise_if_InrE split: option.splits)
  have "list_all (\<lambda>b. b < 256) bs" using d(1) urlsafe_b64decode_bytes unfolding decode_unpadded_def by
      blast
  then show ?R using d rstrip_pad_encode by auto
next
  assume r: ?R
  then have dec: "decode_unpadded s = Some bs"
    using b64_decode_encode[of bs] by (simp add: decode_unpadded_def b64_padding urlsafe_b64encode_def)
  have "s \<noteq> []" using r by (cases bs rule: b64_encode.cases) auto
  moreover have "61 \<notin> set s" using r b64_encoded(2) by simp
  moreover have "is_b64url s" using r b64_encode_chars[of bs] b64_char_url calculation(1)
    by (fastforce simp: is_b64url_def list_all_iff)
  ultimately show "decode_segment s n = Inr bs" using r dec rstrip_pad_encode
    by (auto simp: decode_segment_def)
qed

section \<open>What the trust service confirms\<close>

lemma collect_chunks_Inr:
  "collect_chunks limit n cs = Inr b \<Longrightarrow> b = concat cs \<and> (n \<le> limit \<longrightarrow> n + length b \<le> limit)"
proof (induction cs arbitrary: n b)
  case (Cons c cs)
  then obtain r where "n + length c \<le> limit" "collect_chunks limit (n + length c) cs = Inr r" "b = c @
      r"
    by (auto elim!: bindE_InrE raise_if_InrE)
  then show ?case using Cons.IH by fastforce
qed simp

text \<open>The client of the trust service, as the operations use it.\<close>

definition trust_client_of ::
  "(pystr \<Rightarrow> pystr) \<Rightarrow> (pystr \<Rightarrow> loads_error + jtree) \<Rightarrow> nat \<Rightarrow> client_state
     \<Rightarrow> (pystr \<times> nat list, 'w, http_reply outcome) op \<Rightarrow> 'w trust_client" where
  "trust_client_of lower tokenize limit st send q w = trust_outcome (post_json lower tokenize limit st
      send q w)"

lemma trust_outcome_Inr: "trust_outcome p = (Inr x, w) \<longleftrightarrow> p = (Inr x, w)"
  by (cases p rule: trust_outcome.cases) auto

text \<open>A reply that was read: it has status and JSON value, one content type, no cookie and a bounded
    body.\<close>

definition reply_read :: "nat \<Rightarrow> http_reply \<Rightarrow> nat \<Rightarrow> bool" where
  "reply_read limit reply status \<longleftrightarrow> hp_status reply = status \<and> length (hp_content_types reply) = 1
     \<and> \<not> hp_set_cookie reply \<and> length (concat (hp_chunks reply)) \<le> limit"

lemma read_reply_Inr:
  assumes "read_reply lower tokenize limit reply = Inr (status, v)"
  shows "reply_read limit reply status"
proof -
  obtain raw where raw: "collect_chunks limit 0 (hp_chunks reply) = Inr raw" "hp_status reply = status"
    "length (hp_content_types reply) = 1" "\<not> hp_set_cookie reply"
    using assms unfolding read_reply_def
    by (elim raise_if_InrE bindE_InrE) (auto elim!: bindE_InrE split: option.splits sum.splits)
  then show ?thesis using collect_chunks_Inr[OF raw(1)] by (auto simp: reply_read_def)
qed

lemma trust_client_Inr:
  assumes "trust_client_of lower tokenize limit st send (path, payload) w = (Inr (status, v), w')"
  obtains reply where "send (path, utf8_encode (json_text (\<lambda>_. []) payload)) w = (Inr reply, w')" "st =
      ClientOpen"
    "reply_read limit reply status" "read_reply lower tokenize limit reply = Inr (status, v)"
proof -
  obtain reply where "send (path, utf8_encode (json_text (\<lambda>_. []) payload)) w = (Inr reply, w')" "st =
      ClientOpen"
    and r: "read_reply lower tokenize limit reply = Inr (status, v)"
    using assms unfolding trust_client_of_def trust_outcome_Inr post_json_def by (auto elim!:
        andthen_InrE)
  then show ?thesis using that read_reply_Inr[OF r] by blast
qed

text \<open>The JSON of a body as bytes, and the decision that the fields of a reply carry: the identifiers without the
  blanks around them and the literal of the status.\<close>

definition body_json :: "(pystr \<Rightarrow> loads_error + jtree) \<Rightarrow> nat list \<Rightarrow> json \<Rightarrow> bool" where
  "body_json tokenize bytes v \<longleftrightarrow>
     (\<exists>text tree. utf8_decode bytes = Some text \<and> tokenize text = Inr tree \<and> load_tree tree = Inr v)"

primrec snapshot_status_text :: "snapshot_status \<Rightarrow> pystr" where
  "snapshot_status_text SnapshotCurrent = lit ''current''"
| "snapshot_status_text SnapshotStale = lit ''stale''"
| "snapshot_status_text SnapshotRevoked = lit ''revoked''"
| "snapshot_status_text SnapshotMismatched = lit ''mismatched''"

definition names_field :: "(pystr \<times> json) list \<Rightarrow> string \<Rightarrow> pystr option \<Rightarrow> bool" where
  "names_field ps k v \<longleftrightarrow> (\<exists>s. map_of ps (lit k) = Some (JStr s) \<and> v = Some (py_strip s))"

definition states_decision :: "json \<Rightarrow> snapshot_decision \<Rightarrow> bool" where
  "states_decision v d \<longleftrightarrow> (\<exists>ps. v = JObj ps \<and> set (map fst ps) = SNAPSHOT_FIELDS
     \<and> map_of ps (lit ''contract_version'') = Some (JInt 1)
     \<and> names_field ps ''request_id'' (sd_request_id d)
     \<and> names_field ps ''customer_environment_id'' (sd_customer_environment_id d)
     \<and> names_field ps ''user_id'' (sd_user_id d)
     \<and> names_field ps ''authorization_snapshot_id'' (sd_authorization_snapshot_id d)
     \<and> map_of ps (lit ''status'') = Some (JStr (snapshot_status_text (sd_status d))))"

lemma read_reply_json:
  assumes "read_reply lower tokenize limit reply = Inr (status, v)"
  shows "body_json tokenize (concat (hp_chunks reply)) v"
proof -
  obtain raw where raw: "collect_chunks limit 0 (hp_chunks reply) = Inr raw" "body_json tokenize raw v"
    using assms unfolding read_reply_def body_json_def
    by (elim raise_if_InrE bindE_InrE) (auto elim!: bindE_InrE split: option.splits sum.splits)
  then show ?thesis using collect_chunks_Inr[OF raw(1)] by simp
qed

lemma json_identifier_Inr: "json_identifier ps k = Inr t \<Longrightarrow> names_field ps k (Some t)"
  unfolding json_identifier_def names_field_def validate_identifier_def checked_iff Let_def
  by (auto split: if_splits)

lemma json_status_Inr: "json_status v = Inr st \<Longrightarrow> v = JStr (snapshot_status_text st)"
  unfolding json_status_def by (auto split: if_splits)

lemma snapshot_response_states:
  assumes "snapshot_response v = Inr d"
  shows "states_decision v d"
  using assms unfolding snapshot_response_def states_decision_def
  by (cases v) (auto simp: checked_iff dest!: json_identifier_Inr json_status_Inr)

lemma snapshot_response_Inr:
  assumes "snapshot_response v = Inr d"
  shows "\<exists>r c u s. sd_request_id d = Some r \<and> sd_customer_environment_id d = Some c \<and> sd_user_id d =
      Some u
    \<and> sd_authorization_snapshot_id d = Some s"
  using assms unfolding snapshot_response_def by (auto simp: checked_iff split: json.splits)

lemma validate_decision_ids:
  assumes "validate_decision d = Inr d'" "sd_request_id d = Some r" "sd_customer_environment_id d =
      Some c"
    "sd_user_id d = Some u" "sd_authorization_snapshot_id d = Some s"
    "is_identifier r" "is_identifier c" "is_identifier u" "is_identifier s"
  shows "d' = d"
  using assms unfolding validate_decision_def by (auto simp: validate_identifier_id)

section \<open>Property\<close>

text \<open>C28: A snapshot decision that the trust service confirms is one the peer gave, over the open client and in
  one bounded JSON reply with status 200: it has the status and the identifiers that the fields of the reply
  state, and they are exactly the request, environment, user and snapshot of the context that was asked
  about, which is the given one as it validates (the given one itself, when it is well-formed).\<close>

theorem snapshot_decision_bound:
  assumes "case_mapping (ap_lower env) (ap_upper env)"
    and "verify_authorization env (trust_client_of lower tokenize limit st send) c0 w = (Inr d, w')"
  shows "\<exists>c reply v.
      validate_context (ap_lower env) (ap_upper env) (ap_known_zone env) (dump_context c0) = Inr c
    \<and> wf_context (ap_known_zone env) c \<and> (wf_context (ap_known_zone env) c0 \<longrightarrow> c = c0)
    \<and> send (SNAPSHOT_VERIFY_PATH, utf8_encode (json_text (\<lambda>_. []) (snapshot_payload c))) w = (Inr reply, w')
    \<and> st = ClientOpen \<and> reply_read limit reply 200
    \<and> body_json tokenize (concat (hp_chunks reply)) v \<and> states_decision v d
    \<and> sd_request_id d = Some (request_id c) \<and> sd_customer_environment_id d = Some (customer_environment_id c)
    \<and> sd_user_id d = Some (user_id c) \<and> sd_authorization_snapshot_id d = Some (authorization_snapshot_id c)"
proof -
  obtain c raw d0 where c: "validate_context (ap_lower env) (ap_upper env) (ap_known_zone env)
      (dump_context c0) = Inr c"
    and client: "trust_client_of lower tokenize limit st send (SNAPSHOT_VERIFY_PATH, snapshot_payload
        c) w = (Inr (200, raw), w')"
    and r: "snapshot_response raw = Inr d0"
    and ids: "sd_request_id d0 = Some (request_id c)" "sd_customer_environment_id d0 = Some
        (customer_environment_id c)"
      "sd_user_id d0 = Some (user_id c)" "sd_authorization_snapshot_id d0 = Some
          (authorization_snapshot_id c)"
    and d: "validate_decision d0 = Inr d"
    using assms(2) unfolding verify_authorization_def
    by (auto elim!: andthen_InrE split: prod.splits)
  have wf: "wf_context (ap_known_zone env) c" by (rule validate_context_wf[OF assms(1) c])
  then have "d = d0" using validate_decision_ids[OF d ids] by (simp add: wf_context_def)
  moreover have "c = c0" if "wf_context (ap_known_zone env) c0"
    using revalidate_context[OF assms(1) that] c by simp
  moreover obtain reply where "send (SNAPSHOT_VERIFY_PATH, utf8_encode (json_text (\<lambda>_. [])
      (snapshot_payload c))) w
      = (Inr reply, w')" "st = ClientOpen" "reply_read limit reply 200"
      "read_reply lower tokenize limit reply = Inr (200, raw)"
    by (rule trust_client_Inr[OF client])
  ultimately show ?thesis using c wf ids read_reply_json snapshot_response_states[OF r] by blast
qed

definition sample_snapshot_tokens :: "pystr \<Rightarrow> loads_error + jtree" where
  "sample_snapshot_tokens s = Inr (TObj [(lit ''contract_version'', TInt 1), (lit ''request_id'', TStr
      (lit ''req-1'')),
     (lit ''customer_environment_id'', TStr (lit ''env-1'')), (lit ''user_id'', TStr (lit ''user-1'')),
     (lit ''authorization_snapshot_id'', TStr (lit ''snap-1'')), (lit ''status'', TStr (lit
         ''revoked''))])"

definition sample_trust_reply :: http_reply where
  "sample_trust_reply = \<lparr>hp_status = 200, hp_content_types = [lit ''application/json; charset=utf-8''],
      hp_set_cookie = False,
     hp_content_encoding = None, hp_chunks = [[123], [125]]\<rparr>"

definition sample_send :: "(pystr \<times> nat list, nat, http_reply outcome) op" where
  "sample_send q w = (Inr sample_trust_reply, w)"

definition sample_decision :: snapshot_decision where
  "sample_decision = \<lparr>sd_status = SnapshotRevoked, sd_request_id = Some (lit ''req-1''),
     sd_customer_environment_id = Some (lit ''env-1''), sd_user_id = Some (lit ''user-1''),
     sd_authorization_snapshot_id = Some (lit ''snap-1'')\<rparr>"

lemma sample_decision_confirmed:
  "verify_authorization sample_zone (trust_client_of ascii_lower sample_snapshot_tokens 100 ClientOpen
      sample_send)
     sample_context w = (Inr sample_decision, w)"
proof -
  have "validate_context ascii_lower ascii_upper (\<lambda>z. z = lit ''UTC'') (dump_context sample_context) =
      Inr sample_context"
    by (rule revalidate_context[OF case_mapping_ascii sample_context_wf])
  moreover obtain v where v: "load_tree (case sample_snapshot_tokens [] of Inr t \<Rightarrow> t) = Inr v"
    by (simp add: sample_snapshot_tokens_def lit_def)
  moreover have "read_reply ascii_lower sample_snapshot_tokens 100 sample_trust_reply = Inr (200, v)"
    using v by (simp add: read_reply_def sample_trust_reply_def media_type_def
        sample_snapshot_tokens_def lit_def ascii_lower_def
        lower_char_def py_strip_def py_rstrip_def py_isspace_def)
  moreover have "snapshot_response v = Inr sample_decision"
    using v by (auto simp: sample_snapshot_tokens_def snapshot_response_def SNAPSHOT_FIELDS_def
        json_identifier_def
        json_field_def json_status_def sample_decision_def sample_text)
  moreover have "json_encodable (snapshot_payload sample_context)"
    by (simp add: snapshot_payload_def sample_context_def utf8_encodable_def lit_def)
  moreover have "validate_decision sample_decision = Inr sample_decision"
    by (simp add: validate_decision_def sample_decision_def sample_text)
  ultimately show ?thesis
    by (simp add: verify_authorization_def attempt_def andthen_def trust_client_of_def post_json_def
        SNAPSHOT_VERIFY_PATH_def sample_send_def)
      (simp add: sample_decision_def sample_context_def)
qed

theorem snapshot_decision_bound_witness:
  "\<exists>reply v. sample_send (SNAPSHOT_VERIFY_PATH, utf8_encode (json_text (\<lambda>_. []) (snapshot_payload sample_context)))
        (0 :: nat) = (Inr reply, 0)
    \<and> reply_read 100 reply 200 \<and> body_json sample_snapshot_tokens (concat (hp_chunks reply)) v
    \<and> states_decision v sample_decision \<and> sd_status sample_decision = SnapshotRevoked
    \<and> sd_request_id sample_decision = Some (request_id sample_context)
    \<and> sd_customer_environment_id sample_decision = Some (customer_environment_id sample_context)
    \<and> sd_user_id sample_decision = Some (user_id sample_context)
    \<and> sd_authorization_snapshot_id sample_decision = Some (authorization_snapshot_id sample_context)"
proof -
  have "case_mapping (ap_lower sample_zone) (ap_upper sample_zone)" by (simp add: case_mapping_ascii)
  moreover have "wf_context (ap_known_zone sample_zone) sample_context" by (simp add: sample_context_wf)
  ultimately show ?thesis
    using snapshot_decision_bound[OF _ sample_decision_confirmed[where w = 0]]
    by (auto simp: sample_decision_def)
qed

end
