(* ===== verification/TransportProperties.thy ===== *)
theory TransportProperties
  imports Transport ErpTrustProperties
begin

text \<open>
  The properties of the HTTP transport: the digest determines the request, a result is answered only
  to trusted requests (through the assertion and the application's checks), every identified request is
  audited once, the handlers leave the state as they found it, and the identifiers in flight stay
  unique under any interleaving; with a concrete request that is served from end to end.
\<close>

section \<open>The digest determines the request\<close>

fun char_of :: "nat list \<Rightarrow> nat \<times> nat list" where
  "char_of [] = (0, [])"
| "char_of (a # r) =
     (if a < 128 then (a, r)
      else if a < 224 then ((a - 192) * 64 + (r ! 0 - 128), drop 1 r)
      else if a < 240 then ((a - 224) * 4096 + (r ! 0 - 128) * 64 + (r ! 1 - 128), drop 2 r)
      else ((a - 240) * 262144 + (r ! 0 - 128) * 4096 + (r ! 1 - 128) * 64 + (r ! 2 - 128), drop 3 r))"

lemma char_of_char: "char_of (utf8_char c @ u) = (c, u)"
proof -
  consider "c < 128" | "128 \<le> c" "c < 2048" | "2048 \<le> c" "c < 65536" | "65536 \<le> c" by linarith
  then show ?thesis
  proof cases
    case 2
    then have "2 \<le> c div 64" "c div 64 < 32" by simp_all
    then show ?thesis using 2 by (simp add: utf8_char_def)
  next
    case 3
    then have "c div 4096 < 16" by simp
    then show ?thesis using 3 split64[of c] by (simp add: utf8_char_def)
  next
    case 4
    then show ?thesis using split64_4[of c] by (simp add: utf8_char_def)
  qed (simp add: utf8_char_def)
qed

lemma utf8_char_prefix: "utf8_char c @ u = utf8_char d @ v \<Longrightarrow> c = d \<and> u = v"
  using char_of_char by (metis prod.inject)

lemma utf8_encode_inj: "utf8_encode s = utf8_encode t \<longleftrightarrow> s = t"
proof
  show "utf8_encode s = utf8_encode t \<Longrightarrow> s = t"
  proof (induction s arbitrary: t)
    case Nil
    then show ?case by (cases t) (auto simp: utf8_encode_def utf8_char_def split: if_splits)
  next
    case (Cons c s)
    then obtain d t' where t: "t = d # t'"
      by (cases t) (auto simp: utf8_encode_def utf8_char_def split: if_splits)
    then show ?case using Cons utf8_char_prefix[of c "utf8_encode s" d "utf8_encode t'"]
      by (simp add: utf8_encode_def)
  qed
qed simp

definition unhex :: "nat \<Rightarrow> nat" where
  "unhex h = (if h < 58 then h - 48 else h - 87)"

definition unescape :: "pystr \<Rightarrow> nat \<times> pystr" where
  "unescape s = (let e = s ! 1 in
     if hd s \<noteq> 92 then (hd s, tl s)
     else if e = 117 then (16 * unhex (s ! 4) + unhex (s ! 5), drop 6 s)
     else (if e = 98 then 8 else if e = 116 then 9 else if e = 110 then 10
       else if e = 102 then 12 else if e = 114 then 13 else e, drop 2 s))"

lemma unhex: "n < 16 \<Longrightarrow> unhex (hex_digit n) = n"
  by (auto simp: unhex_def hex_digit_def)

lemma unescape_escape: "unescape (json_escape c @ u) = (c, u)"
proof (cases "c < 32 \<and> c \<notin> {8, 9, 10, 12, 13}")
  case True
  then have "unhex (hex_digit (c div 16)) = c div 16" "unhex (hex_digit (c mod 16)) = c mod 16"
    by (auto intro: unhex)
  then show ?thesis using True by (simp add: json_escape_def unescape_def)
next
  case False
  then show ?thesis by (auto simp: json_escape_def unescape_def)
qed

lemma escape_prefix: "json_escape c @ u = json_escape d @ v \<Longrightarrow> c = d \<and> u = v"
  using unescape_escape by (metis prod.inject)

lemma escape_start: "json_escape c \<noteq> [] \<and> hd (json_escape c) \<noteq> 34"
  by (auto simp: json_escape_def)

lemma quote_prefix:
  assumes "json_quote s @ u = json_quote t @ v"
  shows "s = t \<and> u = v"
proof -
  have "concat (map json_escape s) @ 34 # u = concat (map json_escape t) @ 34 # v \<Longrightarrow> ?thesis"
  proof (induction s arbitrary: t)
    case Nil
    have "hd (json_escape d @ w) \<noteq> 34" for d w using escape_start[of d] by simp
    then show ?case using Nil by (cases t) (auto, metis list.sel(1))
  next
    case (Cons c s)
    then obtain d t' where t: "t = d # t'"
      using escape_start[of c] by (cases t) (auto simp: neq_Nil_conv)
    then show ?case using Cons.prems Cons.IH[of t']
        escape_prefix[of c "concat (map json_escape s) @ 34 # u" d "concat (map json_escape t') @ 34 #
            v"]
      by simp
  qed
  then show ?thesis using assms by (simp add: json_quote_def)
qed

lemma quote_inj: "json_quote s = json_quote t \<Longrightarrow> s = t"
  using quote_prefix[of s "[]" t "[]"] by simp

lemma quote_start: "json_quote s \<noteq> lit ''null''"
  by (simp add: json_quote_def lit_def)

text \<open>The text of the payload, with the fixed parts named.\<close>

definition payload_text :: "public_chat_request \<Rightarrow> pystr" where
  "payload_text r = json_text (\<lambda>_. []) (canonical_chat_payload r)"

lemma payload_text_parts:
  "\<exists>a b c. \<forall>r. payload_text r = a @ json_quote (pc_message r) @ b
     @ (if pc_stream r then lit ''true'' else lit ''false'') @ c
     @ (case pc_preferred_language r of None \<Rightarrow> lit ''null'' | Some l \<Rightarrow> json_quote l) @ [125, 125]"
proof -
  define a where "a = [123] @ join_with [44] (map (\<lambda>p. json_quote (fst p) @ [58] @ json_text (\<lambda>_. [])
      (snd p))
     [(lit ''domain'', JStr (lit ''erp-ai:internal-http-chat:v1'')),
     (lit ''contract_version'', JInt 1), (lit ''method'', JStr (lit ''POST'')), (lit ''route_path'',
         JStr (lit ''/v1/chat''))])
     @ [44] @ json_quote (lit ''request'') @ [58] @ [123] @ json_quote (lit ''message'') @ [58]"
  define b where "b = [44] @ json_quote (lit ''stream'') @ [58]"
  define c where "c = [44] @ json_quote (lit ''preferred_response_language'') @ [58]"
  have "payload_text r = a @ json_quote (pc_message r) @ b
     @ (if pc_stream r then lit ''true'' else lit ''false'') @ c
     @ (case pc_preferred_language r of None \<Rightarrow> lit ''null'' | Some l \<Rightarrow> json_quote l) @ [125, 125]" for r
    unfolding payload_text_def canonical_chat_payload_def a_def b_def c_def
    by (simp split: option.split)
  then show ?thesis by blast
qed

lemma payload_text_inj:
  assumes "payload_text r = payload_text r'"
  shows "r = r'"
proof -
  obtain a b c where parts: "\<forall>r. payload_text r = a @ json_quote (pc_message r) @ b
     @ (if pc_stream r then lit ''true'' else lit ''false'') @ c
     @ (case pc_preferred_language r of None \<Rightarrow> lit ''null'' | Some l \<Rightarrow> json_quote l) @ [125, 125]"
    using payload_text_parts by blast
  let ?s = "\<lambda>r. if pc_stream r then lit ''true'' else lit ''false''"
  let ?l = "\<lambda>r. case pc_preferred_language r of None \<Rightarrow> lit ''null'' | Some l \<Rightarrow> json_quote l"
  have "json_quote (pc_message r) @ (b @ ?s r @ c @ ?l r @ [125, 125])
      = json_quote (pc_message r') @ (b @ ?s r' @ c @ ?l r' @ [125, 125])"
    using assms by (simp only: parts[rule_format] append_assoc same_append_eq)
  note q = quote_prefix[OF this]
  then have "?s r @ (c @ ?l r @ [125, 125]) = ?s r' @ (c @ ?l r' @ [125, 125])" by simp
  then have s: "pc_stream r = pc_stream r'" and l: "?l r @ [125, 125] = ?l r' @ [125, 125]"
    by (auto simp: lit_def split: if_splits)
  have l: "?l r = ?l r'" using l by simp
  have "pc_preferred_language r = pc_preferred_language r'"
    by (cases "pc_preferred_language r"; cases "pc_preferred_language r'")
      (use l quote_start quote_start[symmetric] in \<open>auto dest: quote_inj\<close>)
  then show ?thesis using q s by (cases r, cases r') simp
qed

lemma canonical_bytes_inj:
  assumes "canonical_public_chat_bytes env r = Inr bs" "canonical_public_chat_bytes env r' = Inr bs"
  shows "validate_chat_request (ap_lower env) (ap_upper env) r = validate_chat_request (ap_lower env)
      (ap_upper env) r'"
  using assms payload_text_inj[unfolded payload_text_def]
  unfolding canonical_public_chat_bytes_def
  by (auto elim!: bindE_InrE simp: utf8_encode_inj split: if_splits)

section \<open>What the chat handler admits\<close>

text \<open>The authenticator of the transport over the ERP trust: it always returns a reference of its own
    type.\<close>

definition trust_authenticator ::
  "trust_env \<Rightarrow> verifier_config \<Rightarrow> ('w \<Rightarrow> raw_datetime outcome \<times> 'w)
     \<Rightarrow> (auth_request, 'w, auth_stop + request_reference option) op" where
  "trust_authenticator env cfg clock q w =
     (case authenticate env cfg clock q w of (Inl e, w1) \<Rightarrow> (Inl e, w1) | (Inr ref, w1) \<Rightarrow> (Inr (Some
         ref), w1))"

text \<open>A request the transport may hand on: its envelope names the one route over one allowed host and no
  authority, its body is bounded and parses to the request, whose digest is taken.\<close>

definition admissible_chat ::
  "http_env \<Rightarrow> http_config \<Rightarrow> http_request \<Rightarrow> pystr \<Rightarrow> public_chat_request \<Rightarrow> pystr \<Rightarrow> bool" where
  "admissible_chat env c r assertion request digest \<longleftrightarrow>
     (hc_require_https c \<longrightarrow> hr_scheme r = Some (lit ''https''))
     \<and> hr_method r = lit ''POST'' \<and> hr_path r = lit ''/v1/chat'' \<and> hr_query_string r = Some []
     \<and> (\<exists>h. header_values r (lit ''host'') = [h] \<and> bytes_lower h \<in> set (hc_allowed_hosts c))
     \<and> (\<forall>(k, v) \<in> set (hr_headers r). bytes_lower k \<notin> set AUTHORITY_HEADERS)
     \<and> bearer_assertion r (hc_maximum_authorization_bytes c) = Inr assertion
     \<and> (\<exists>body. read_body (hc_maximum_body_bytes c) 0 (hr_events r) = Inr body
          \<and> parse_public_chat_request env body = Inr request)
     \<and> \<not> pc_stream request \<and> canonical_public_chat_digest env request = Inr digest"

lemma validate_envelope_Inr:
  assumes "validate_envelope c r = Inr u"
  shows "(hc_require_https c \<longrightarrow> hr_scheme r = Some (lit ''https''))
     \<and> hr_method r = lit ''POST'' \<and> hr_path r = lit ''/v1/chat'' \<and> hr_query_string r = Some []
     \<and> (\<exists>h. header_values r (lit ''host'') = [h] \<and> bytes_lower h \<in> set (hc_allowed_hosts c))
     \<and> (\<forall>(k, v) \<in> set (hr_headers r). bytes_lower k \<notin> set AUTHORITY_HEADERS)"
  using assms unfolding validate_envelope_def ascii_text_def
  by (auto elim!: raise_if_InrE simp: list_ex_iff split: list.splits option.splits if_splits)

lemma chat_input_Inr:
  assumes "chat_input env c r = Inr (assertion, request, digest)"
  shows "admissible_chat env c r assertion request digest"
  using assms unfolding chat_input_def admissible_chat_def
  by (auto simp: validate_envelope_Inr split: sum.splits if_splits)

text \<open>The identifier of a request does not matter to the assertion.\<close>

lemma asserts_identifier [simp]: "asserts env cfg (q\<lparr>au_request_id := i\<rparr>) t ref = asserts env cfg q t
    ref"
  by (simp add: asserts_def payload_binds_def)

lemma validate_auth_request_Inr:
  "validate_auth_request q = Inr q' \<Longrightarrow> \<exists>i. q' = q\<lparr>au_request_id := i\<rparr>"
  unfolding validate_auth_request_def checked_iff by auto

text \<open>The reference the transport hands on was asserted for the digest, and carries the identifier.\<close>

lemma validate_reference_idem: "validate_reference r = Inr r' \<Longrightarrow> validate_reference r' = Inr r'"
  unfolding validate_reference_Inr
  by (metis canonical_reference_iff validate_identifier_Inr validate_identifier_id)

lemma chat_reference_Inr:
  assumes "tp_authenticate tp = trust_authenticator tenv vcfg clock"
    and run: "chat_reference tp rid digest assertion w = (Inr ref, w')"
  shows "\<exists>now. fst (clock w) = Inr (Zoned now)
      \<and> asserts tenv vcfg (chat_auth_request rid digest assertion) (zt_instant now) ref"
    and "rr_request_id ref = rid" and "validate_reference ref = Inr ref"
proof -
  obtain q w1 ref0 where q: "validate_auth_request (chat_auth_request rid digest assertion) = Inr q"
    and a: "tp_authenticate tp q w = (Inr (Some ref0), w')" and v: "validate_reference ref0 = Inr ref"
      "rr_request_id ref = rid"
    using run unfolding chat_reference_def
    by (auto elim!: andthen_InrE split: option.splits prod.splits sum.splits)
  have "authenticate tenv vcfg clock q w = (Inr ref0, w')"
    using a assms(1) by (auto simp: trust_authenticator_def split: prod.splits sum.splits)
  then obtain q' now where q': "validate_auth_request q = Inr q'" "asserts tenv vcfg q' (zt_instant
      now) ref0" "clock w = (Inr (Zoned now), w')"
    by (rule authenticate_Inr)
  then have "asserts tenv vcfg (chat_auth_request rid digest assertion) (zt_instant now) ref0"
    using validate_auth_request_Inr[OF q] validate_auth_request_Inr[OF q'(1)] by auto
  moreover have "rr_resolver_reference ref = rr_resolver_reference ref0"
    using v(1) by (simp add: validate_reference_Inr canonical_reference_iff)
  ultimately have "asserts tenv vcfg (chat_auth_request rid digest assertion) (zt_instant now) ref"
    by (simp add: asserts_def)
  then show "\<exists>now. fst (clock w) = Inr (Zoned now)
      \<and> asserts tenv vcfg (chat_auth_request rid digest assertion) (zt_instant now) ref" using q'(3) by auto
  show "rr_request_id ref = rid" "validate_reference ref = Inr ref"
    using v validate_reference_idem by auto
qed

lemma chat_admit_Inr:
  assumes "chat_admit env tp ready rid r w = (Inr (request, ref), w')"
  obtains assertion digest where "ready" "chat_input env (tp_config tp) r = Inr (assertion, request,
      digest)"
    "chat_reference tp rid digest assertion w = (Inr ref, w')"
  using assms unfolding chat_admit_def stops_with_def
  by (auto elim!: andthen_InrE split: sum.splits prod.splits)

section \<open>Responses\<close>

lemma result_status_200: "result_status r = 200 \<longleftrightarrow> (\<exists>s. r = PublicChatSuccess s)"
  by (cases r) auto

lemma revalidated_success:
  "revalidate_result r = Inr (PublicChatSuccess s) \<Longrightarrow> \<exists>s0. r = PublicChatSuccess s0"
  by (cases r) (auto elim!: bindE_InrE)

lemma application_response_200:
  assumes "application_response r rid = Inr resp" "hs_status resp = 200"
  shows "\<exists>s0 s. r = PublicChatSuccess s0 \<and> hs_body resp = ResultBody (PublicChatSuccess s)"
  using assms revalidated_success unfolding application_response_def
  by (fastforce simp: bindE_Inr_iff result_status_200)

lemma failure_status [simp]: "hs_status (failure_response code status rid) = status"
  by (simp add: failure_response_def)

text \<open>The statuses of the rejections.\<close>

fun rejection_status :: "http_stop \<Rightarrow> bool" where
  "rejection_status (HttpRaised x) = True"
| "rejection_status (HttpRejected code status reason) =
     ((code, status) \<in> {(INVALID_REQUEST, 400), (AUTHENTICATION_REQUIRED, 401), (REQUEST_TOO_LARGE,
         413),
        (UNSUPPORTED_MEDIA_TYPE, 415), (SERVICE_UNAVAILABLE, 503)})"

lemma rejections: "rejection_status (media_rejection m)" "rejection_status (body_rejection b)"
  "rejection_status (parse_rejection p)" "rejection_status (auth_rejection a)"
  "rejection_status AUTH_REJECTED" "rejection_status AUTH_UNAVAILABLE"
proof -
  show auth: "rejection_status AUTH_REJECTED" "rejection_status AUTH_UNAVAILABLE"
    by (simp_all add: AUTH_REJECTED_def AUTH_UNAVAILABLE_def)
  show "rejection_status (media_rejection m)" by (cases m) simp_all
  show "rejection_status (body_rejection b)" by (cases b) simp_all
  show "rejection_status (parse_rejection p)" by (cases p) simp_all
  show "rejection_status (auth_rejection a)" by (cases a) (simp_all add: auth)
qed

lemma chat_input_Inl: "chat_input env c r = Inl e \<Longrightarrow> rejection_status e"
  unfolding chat_input_def
  by (auto simp: rejections split: sum.splits if_splits)

lemma andthen_InlE:
  assumes "andthen m f w = (Inl e, w')"
  obtains "m w = (Inl e, w')" | x w1 where "m w = (Inr x, w1)" "f x w1 = (Inl e, w')"
  using assms by (auto simp: andthen_def split: prod.splits sum.splits)

lemma chat_reference_Inl:
  assumes "chat_reference tp rid digest assertion w = (Inl e, w')"
  shows "rejection_status e"
  using assms unfolding chat_reference_def
  by (auto elim!: andthen_InlE simp: checked_or_def unless_def stop_def give_def rejections
      split: option.splits sum.splits prod.splits if_splits)

lemma chat_admit_Inl:
  assumes "chat_admit env tp ready rid r w = (Inl e, w')"
  shows "rejection_status e"
  using assms unfolding chat_admit_def stops_with_def
  by (auto elim!: andthen_InlE simp: unless_def stop_def give_def chat_reference_Inl chat_input_Inl
      split: sum.splits prod.splits if_splits)

text \<open>The identifier the handler took from the factory.\<close>

lemma take_request_id_Inr:
  assumes "take_request_id env tp st w = (Inr (rid, st1), w1)"
  shows "is_uuid4 rid" "rid \<notin> ts_in_flight st" "st1 = st\<lparr>ts_in_flight := insert rid (ts_in_flight st)\<rparr>"
  using assms unfolding take_request_id_def request_id_of_def
  by (auto split: prod.splits sum.splits option.splits if_splits)

lemma release_taken:
  "rid \<notin> ts_in_flight st \<Longrightarrow> release_request_id rid (st\<lparr>ts_in_flight := insert rid (ts_in_flight
      st)\<rparr>) = st"
  by (simp add: release_request_id_def)

lemma execute_chat_200:
  assumes "execute_chat env tp ready rid r w = (Inr resp, w')" "hs_status resp = 200"
  shows "\<exists>request ref w1 s0 s. chat_admit env tp ready rid r w = (Inr (request, ref), w1)
    \<and> tp_application tp (request, ref) w1 = (Inr (PublicChatSuccess s0), w')
    \<and> hs_body resp = ResultBody (PublicChatSuccess s)"
proof -
  obtain a w1 where a: "chat_admit env tp ready rid r w = (a, w1)" by (metis prod.exhaust)
  show ?thesis
  proof (cases a)
    case (Inl e)
    show ?thesis
    proof (cases e)
      case (HttpRejected code status reason)
      have "reject tp rid code status reason w1 = (Inr resp, w')"
        using assms(1) a Inl HttpRejected by (simp add: execute_chat_def)
      then have "hs_status resp \<in> {status, 503}" unfolding reject_def
        by (rule record_before_return_cases) auto
      moreover have "status \<noteq> 200" using chat_admit_Inl[OF a[unfolded Inl]] HttpRejected by auto
      ultimately show ?thesis using assms(2) by auto
    qed (use assms(1) a Inl in \<open>simp add: execute_chat_def\<close>)
  next
    case (Inr q)
    obtain request ref where q: "q = (request, ref)" by (cases q)
    obtain res w2 where res: "tp_application tp q w1 = (res, w2)" by (metis prod.exhaust)
    obtain result where "res = Inr result" "application_response result rid = Inr resp" "w2 = w'"
      using assms a Inr res unfolding execute_chat_def by (auto split: sum.splits exn.splits)
    then show ?thesis using application_response_200[OF _ assms(2)] a Inr q res by fastforce
  qed
qed

section \<open>The state between requests\<close>

lemma execute_chat_raises: "execute_chat env tp ready rid r w = (Inl x, w') \<Longrightarrow> x = Cancelled \<or> x =
    Failed"
  by (cases x) auto

text \<open>A chat request leaves the state as it found it, on every path.\<close>

lemma chat_state:
  assumes "chat env tp r (st, w) = (res, st', w')"
  shows "st' = st"
proof -
  obtain a w1 where a: "take_request_id env tp st w = (a, w1)" by (metis prod.exhaust)
  show ?thesis
  proof (cases a)
    case (Inl x)
    then show ?thesis using assms a by (cases x) (auto simp: chat_def)
  next
    case (Inr y)
    obtain rid st1 where y: "y = (rid, st1)" by (cases y)
    note taken = take_request_id_Inr[OF a[unfolded Inr y]]
    obtain w2 where "st' = release_request_id rid st1"
      using assms a Inr y by (auto simp: chat_def split: prod.splits)
    then show ?thesis using taken(2) by (simp add: taken(3) release_taken)
  qed
qed

lemma reject_cases:
  assumes "reject tp rid code status reason w = (res, w')"
  obtains "res = Inl Cancelled" | code' status' where "res = Inr (failure_response code' status' rid)"
  using assms unfolding reject_def by (rule record_before_return_cases) auto

lemma failed_outside_result:
  assumes "failed_outside env tp identified reason code status (st, w) = (res, st', w')"
  shows "st' = st" and "res \<noteq> Inl Failed"
proof -
  have "st' = st \<and> res \<noteq> Inl Failed"
  proof (cases identified)
    case True
    obtain a w1 where a: "take_request_id env tp st w = (a, w1)" by (metis prod.exhaust)
    show ?thesis
    proof (cases a)
      case (Inl x)
      then show ?thesis using assms a True by (cases x) (auto simp: failed_outside_def
          spare_request_id_def)
    next
      case (Inr y)
      obtain rid st1 where y: "y = (rid, st1)" by (cases y)
      note taken = take_request_id_Inr[OF a[unfolded Inr y]]
      obtain res2 w2 where rj: "reject tp rid code status reason w1 = (res2, w2)" by (metis
          prod.exhaust)
      then have "res = res2" "st' = release_request_id rid st1"
        using assms True a Inr y by (auto simp: failed_outside_def spare_request_id_def)
      then show ?thesis using rj taken(2) by (auto simp: taken(3) release_taken elim: reject_cases)
    qed
  qed (use assms in \<open>auto simp: failed_outside_def\<close>)
  then show "st' = st" "res \<noteq> Inl Failed" by auto
qed

lemma serve_chat_result:
  assumes "serve_chat env tp r (st, w) = (res, st', w')"
  shows "st' = st \<and> res \<noteq> Inl Failed"
proof -
  obtain a st1 w1 where a: "chat env tp r (st, w) = (a, st1, w1)" by (metis prod.exhaust)
  have st1: "st1 = st" by (rule chat_state[OF a])
  show ?thesis
  proof (cases "a = Inl Failed")
    case True
    then have "unhandled_exception env tp r (st, w1) = (res, st', w')"
      using assms a st1 by (simp add: serve_chat_def)
    then show ?thesis unfolding unhandled_exception_def by (blast dest: failed_outside_result)
  next
    case False
    then have "(res, st', w') = (a, st1, w1)"
      using assms a by (auto simp: serve_chat_def split: sum.splits exn.splits)
    then show ?thesis using False st1 by simp
  qed
qed

section \<open>Interleaved requests\<close>

text \<open>
  The handlers of concurrent requests take and release identifiers one at a time, under the lock, in any
  order; the lifecycle moves between them. A configuration is the state with the identifiers that
      handlers
  hold. The value of the factory is arbitrary.
\<close>

inductive transport_step ::
  "(pystr \<Rightarrow> pystr) \<Rightarrow> transport_state \<times> pystr list \<Rightarrow> transport_state \<times> pystr list \<Rightarrow> bool" for lower where
  handler_takes: "request_id_of lower produced st = Inr (rid, st') \<Longrightarrow>
    transport_step lower (st, held) (st', rid # held)"
| handler_releases: "rid \<in> set held \<Longrightarrow>
    transport_step lower (st, held) (release_request_id rid st, remove1 rid held)"
| startup: "lifespan_enter res st = (r, st') \<Longrightarrow> transport_step lower (st, held) (st', held)"
| shutdown: "transport_step lower (st, held) (lifespan_exit st, held)"

inductive_cases transport_stepE: "transport_step lower s s'"

definition transport_start :: "transport_state \<times> pystr list" where
  "transport_start = (\<lparr>ts_ready = False, ts_in_flight = {}\<rparr>, [])"

definition transport_inv :: "transport_state \<times> pystr list \<Rightarrow> bool" where
  "transport_inv s \<longleftrightarrow> (case s of (st, held) \<Rightarrow>
     distinct held \<and> ts_in_flight st = set held \<and> (\<forall>rid \<in> set held. is_uuid4 rid))"

lemma request_id_of_Inr:
  assumes "request_id_of lower produced st = Inr (rid, st')"
  shows "is_uuid4 rid" "rid \<notin> ts_in_flight st" "st' = st\<lparr>ts_in_flight := insert rid (ts_in_flight st)\<rparr>"
  using assms unfolding request_id_of_def by (auto split: option.splits if_splits)

lemma lifespan_in_flight:
  "lifespan_enter res st = (r, st') \<Longrightarrow> ts_in_flight st' = ts_in_flight st"
  "ts_in_flight (lifespan_exit st) = ts_in_flight st"
  by (auto simp: lifespan_enter_def lifespan_exit_def split: sum.splits)

lemma transport_step_inv:
  assumes "transport_step lower s s'" "transport_inv s"
  shows "transport_inv s'"
  using assms
proof cases
  case (handler_takes produced st rid st' held)
  then show ?thesis using assms(2) request_id_of_Inr[OF handler_takes(3)] by (auto simp:
      transport_inv_def)
next
  case (handler_releases rid held st)
  then show ?thesis using assms(2)
    by (auto simp: transport_inv_def release_request_id_def set_remove1_eq distinct_remove1)
qed (use assms(2) in \<open>auto simp: transport_inv_def lifespan_in_flight\<close>)

lemma transport_reachable_inv:
  assumes "(transport_step lower)\<^sup>*\<^sup>* transport_start s"
  shows "transport_inv s"
  using assms
  by induction (auto simp: transport_start_def transport_inv_def[of "(_, [])"] intro:
      transport_step_inv)

section \<open>The body\<close>

text \<open>The chunks of the events that carry a body: well-formed messages, of which only the last has no
    more.\<close>

inductive body_events :: "nat list list \<Rightarrow> receive_event list \<Rightarrow> bool" where
  last_event: "chunk_of body = Some c \<Longrightarrow> more_of more_body = Some False \<Longrightarrow>
    body_events [c] (Received True body more_body # es)"
| next_event: "chunk_of body = Some c \<Longrightarrow> more_of more_body = Some True \<Longrightarrow> body_events cs es \<Longrightarrow>
    body_events (c # cs) (Received True body more_body # es)"

inductive_simps body_events_Nil: "body_events cs []"
inductive_simps body_events_Raised: "body_events cs (ReceiveRaised x # es)"
inductive_simps body_events_Received: "body_events cs (Received q b m # es)"

lemma body_events_nonempty: "body_events cs es \<Longrightarrow> cs \<noteq> []"
  by (cases rule: body_events.cases) auto

lemma read_body_Inr:
  "read_body limit n es = Inr b \<longleftrightarrow>
     (\<exists>cs. body_events cs es \<and> b = concat cs \<and> n + length b \<le> limit)"
proof (induction limit n es arbitrary: b rule: read_body.induct)
  case (3 limit n q body more_body es)
  show ?case
  proof (cases "q \<and> chunk_of body \<noteq> None \<and> more_of more_body \<noteq> None")
    case True
    then obtain c m where q: q and c: "chunk_of body = Some c" and m: "more_of more_body = Some m" by
        auto
    show ?thesis
    proof (cases "m \<and> n + length c \<le> limit")
      case True
      then have IH: "read_body limit (n + length c) es = Inr b' \<longleftrightarrow>
          (\<exists>cs. body_events cs es \<and> b' = concat cs \<and> n + length c + length b' \<le> limit)" for b'
        using 3[of c m b'] q c m by simp
      show ?thesis using True q c m
        by (auto simp: bindE_Inr_iff IH body_events_Received add.assoc)
    next
      case False
      then show ?thesis using q c m by (auto simp: body_events_Received)
    qed
  next
    case False
    then show ?thesis by (auto simp: body_events_Received split: option.splits)
  qed
qed (simp_all add: body_events_Nil body_events_Raised)

section \<open>The audit of a request\<close>

text \<open>The transport over a log that its sink and the application's sink share.\<close>

definition log_transport ::
  "app_env \<Rightarrow> 'w chat_application \<Rightarrow> 'w transport \<Rightarrow> ('w \<times> app_audit_event list) transport" where
  "log_transport env app tp = \<lparr>tp_config = tp_config tp,
     tp_create_id = logged (\<lambda>_. []) (\<lambda>_. tp_create_id tp) (),
     tp_authenticate = logged (\<lambda>_. []) (tp_authenticate tp),
     tp_application = app_execute env (log_app record_only app),
     tp_sink = logged (\<lambda>e. [e]) (tp_sink tp)\<rparr>"

lemma log_transport_simps [simp]:
  "tp_config (log_transport env app tp) = tp_config tp"
  "tp_create_id (log_transport env app tp) = logged (\<lambda>_. []) (\<lambda>_. tp_create_id tp) ()"
  "tp_authenticate (log_transport env app tp) = logged (\<lambda>_. []) (tp_authenticate tp)"
  "tp_application (log_transport env app tp) = app_execute env (log_app record_only app)"
  "tp_sink (log_transport env app tp) = logged (\<lambda>e. [e]) (tp_sink tp)"
  by (simp_all add: log_transport_def)

lemma attempt_Inl: "attempt h m w = (Inl e, w') \<longleftrightarrow> (\<exists>x. m w = (Inl x, w') \<and> e = h x)"
  by (auto simp: attempt_def split: prod.splits sum.splits)

lemma checked_or_Inl: "checked_or e m w = (Inl e', w') \<longleftrightarrow> (\<exists>x. m = Inl x) \<and> e' = e \<and> w' = w"
  by (cases m) auto

lemma unless_Inl: "unless b e w = (Inl e', w') \<longleftrightarrow> b \<and> e' = e \<and> w' = w"
  by (cases b) auto

lemmas proc_Inl = attempt_Inl checked_or_Inl unless_Inl

lemma refuse_not_failed: "refuse_unless_cancelled stage reason x \<noteq> AppRaised Failed"
  by (cases x) auto

lemma app_admit_failed:
  assumes "app_admit env app ref w = (Inl (AppRaised Failed), w')"
  shows "\<exists>v. fst (ca_clock app v) = Inl Failed"
  using assms refuse_not_failed[symmetric] unfolding app_admit_def resolve_request_def
      verify_snapshot_def
  by (auto elim!: andthen_InlE simp: proc_Inl split: prod.splits option.splits) (metis fst_conv)+

lemma app_execute_failed:
  assumes "app_execute env app q w = (Inl Failed, w')"
  shows "\<exists>v. fst (ca_clock app v) = Inl Failed"
proof -
  have finished: "app_finish app rid st res why v \<noteq> (Inl Failed, v')" for rid st res why v v'
    unfolding app_finish_def by (auto elim!: record_before_return_cases)
  obtain request ref where inp: "app_inputs env q = Inr (request, ref)"
    using assms finished
    by (cases "app_inputs env q") (auto simp: app_execute_def app_inputs_def app_failure_def)
  obtain a w1 where a: "app_run env app request ref w = (a, w1)" by (metis prod.exhaust)
  have "a = Inl (AppRaised Failed)"
    using assms[unfolded app_execute_def, folded app_inputs_def[of env q], unfolded inp sum.case
        prod.case a]
      finished
    by (auto simp: app_failure_def split: sum.splits app_stop.splits)
  then have "app_admit env app ref w = (Inl (AppRaised Failed), w1)"
    using a refuse_not_failed[symmetric] unfolding app_run_def run_orchestrator_def
    by (auto elim!: andthen_InlE simp: proc_Inl split: prod.splits)
  then show ?thesis by (rule app_admit_failed)
qed

lemma chat_admit_keeps: "keeps snd (chat_admit env (log_transport e app tp) ready rid r)"
proof -
  have auth: "keeps snd (\<lambda>w. case logged (\<lambda>_. []) (tp_authenticate tp) q w of
      (Inl e, w1) \<Rightarrow> (Inl (auth_rejection e), w1) | (Inr ref, w1) \<Rightarrow> (Inr ref, w1))" for q
    by (auto simp: keeps_def split: prod.splits sum.splits dest: logged_eqD)
  have give: "keeps v (stops_with h m)" for v :: "'x \<Rightarrow> 's" and h and m :: "'y + 'z"
    by (auto simp: stops_with_def split: sum.splits)
  show ?thesis unfolding chat_admit_def chat_reference_def log_transport_simps
    by (auto intro!: keeps_andthen keeps_pure auth give split: option.split prod.split)
qed

lemma reject_log:
  assumes "reject (log_transport e app tp) rid code status reason (w, lg) = (res, (w', lg'))"
  shows "lg' = lg @ [rejection_event rid reason]
    \<and> (\<forall>resp. res = Inr resp \<longrightarrow> resp = failure_response code status rid
        \<or> resp = failure_response TRANSPORT_AUDIT_UNAVAILABLE 503 rid)"
  using assms unfolding reject_def log_transport_simps
  by (cases rule: record_before_return_cases) (auto dest: logged_eqD)

definition request_header :: "pystr \<Rightarrow> pystr \<times> pystr" where
  "request_header rid = (lit ''X-Request-ID'', rid)"

lemma header_in_failure: "request_header rid \<in> set (hs_headers (failure_response code status rid))"
  by (simp add: failure_response_def security_headers_def request_header_def)

lemma header_in_application:
  "application_response r rid = Inr resp \<Longrightarrow> request_header rid \<in> set (hs_headers resp)"
  by (auto simp: application_response_def bindE_Inr_iff security_headers_def request_header_def)

text \<open>The event of a response: it names the request, and its outcome is that of the response.\<close>

definition audits_response :: "pystr \<Rightarrow> http_response \<Rightarrow> app_audit_event \<Rightarrow> bool" where
  "audits_response rid resp e \<longleftrightarrow> ape_request_id e = rid \<and> request_header rid \<in> set (hs_headers resp)
     \<and> (hs_status resp = 200 \<longrightarrow> ape_outcome e = AuditSuccess)
     \<and> (hs_status resp \<in> {400, 401, 413, 415} \<longrightarrow> ape_outcome e = AuditFailure \<and> ape_stage e =
         StageValidation)"

lemma validate_chat_idem:
  assumes "case_mapping lower upper" "validate_chat_request lower upper r = Inr r'"
  shows "validate_chat_request lower upper r' = Inr r'"
proof -
  obtain msg lang where m: "trimmed_text 1 8000 (pc_message r) = Inr msg"
      "optional_checked (normalize_locale lower upper) (pc_preferred_language r) = Inr lang"
    and r': "r' = r\<lparr>pc_message := msg, pc_preferred_language := lang\<rparr>"
    using assms(2) by (auto simp: validate_chat_request_def checked_iff)
  have "optional_checked (normalize_locale lower upper) lang = Inr lang"
    using m(2) normalize_locale_id[OF assms(1) normalize_locale_Inr[OF assms(1)]]
    by (cases "pc_preferred_language r") (auto simp: bindE_Inr_iff)
  then show ?thesis using trimmed_text_idem[OF m(1)] r' by (simp add: validate_chat_request_def)
qed

lemma admissible_validated:
  assumes "case_mapping (ap_lower (he_app env)) (ap_upper (he_app env))" "admissible_chat env c r
      assertion request digest"
  shows "validate_chat_request (ap_lower (he_app env)) (ap_upper (he_app env)) request = Inr request"
proof -
  obtain body where "parse_public_chat_request env body = Inr request"
    using assms(2) by (auto simp: admissible_chat_def)
  then obtain ps where "chat_request_of (he_app env) ps = Inr request"
    unfolding parse_public_chat_request_def
    by (auto split: if_splits option.splits sum.splits loads_error.splits json.splits)
  then show ?thesis unfolding chat_request_of_def
    by (auto simp: checked_iff intro: validate_chat_idem[OF assms(1)])
qed

lemma result_status_range: "result_status r \<in> {200, 500, 503}"
  by (cases r) auto

lemma execute_chat_audited:
  assumes cm: "case_mapping (ap_lower (he_app env)) (ap_upper (he_app env))"
    and clock: "\<And>v. fst (ca_clock app v) \<noteq> Inl Failed"
    and run: "execute_chat env (log_transport (he_app env) app tp) ready rid r (w, lg) = (Inr resp,
        (w', lg'))"
  shows "\<exists>e. lg' = lg @ [e] \<and> audits_response rid resp e"
proof -
  let ?tp = "log_transport (he_app env) app tp"
  obtain a w1 lg1 where a: "chat_admit env ?tp ready rid r (w, lg) = (a, (w1, lg1))" by (metis
      prod.exhaust)
  have lg1: "lg1 = lg" using chat_admit_keeps[of env "he_app env" app tp ready rid r] a
    unfolding keeps_def by (metis snd_conv)
  show ?thesis
  proof (cases a)
    case (Inl x)
    show ?thesis
    proof (cases x)
      case (HttpRejected code status reason)
      have rj: "reject ?tp rid code status reason (w1, lg1) = (Inr resp, (w', lg'))"
        using run a Inl HttpRejected by (simp add: execute_chat_def)
      have "lg' = lg @ [rejection_event rid reason]" "resp = failure_response code status rid
          \<or> resp = failure_response TRANSPORT_AUDIT_UNAVAILABLE 503 rid"
        using reject_log[OF rj] lg1 by simp_all
      moreover have "status \<noteq> 200" using chat_admit_Inl[OF a[unfolded Inl]] HttpRejected by auto
      ultimately show ?thesis using header_in_failure
        by (intro exI[of _ "rejection_event rid reason"]) (auto simp: audits_response_def
            rejection_event_def)
    qed (use run a Inl in \<open>simp add: execute_chat_def\<close>)
  next
    case (Inr q)
    obtain request ref where q: "q = (request, ref)" by (cases q)
    obtain assertion digest where adm: "chat_input env (tp_config tp) r = Inr (assertion, request,
        digest)"
      and cr: "chat_reference ?tp rid digest assertion (w, lg) = (Inr ref, (w1, lg1))"
      by (rule chat_admit_Inr[OF a[unfolded Inr q]]) (auto intro: that)
    have ref: "rr_request_id ref = rid" "validate_reference ref = Inr ref"
      using cr validate_reference_idem unfolding chat_reference_def
      by (auto elim!: andthen_InrE split: option.splits)
    have inp: "app_inputs (he_app env) (request, ref) = Inr (request, ref)"
      using admissible_validated[OF cm chat_input_Inr[OF adm]] ref by (simp add: app_inputs_def)
    obtain res w2 lg2 where res: "app_execute (he_app env) (log_app record_only app) (request, ref)
        (w1, lg1) = (res, (w2, lg2))"
      by (metis prod.exhaust)
    obtain events where ev: "lg2 = lg1 @ events" "case res of Inr r \<Rightarrow> \<exists>e. events = [e]
        \<and> app_event_describes (he_app env) (request, ref) r e
      | Inl x \<Rightarrow> events = [] \<or> x = Cancelled \<and> (\<exists>e. events = [e])"
      using app_served_events[of "he_app env" app "(request, ref)"] res by (fastforce simp:
          app_served_def)
    have "res \<noteq> Inl Failed"
    proof
      assume "res = Inl Failed"
      then obtain v where "fst (ca_clock (log_app record_only app) v) = Inl Failed"
        using app_execute_failed[OF res[unfolded \<open>res = Inl Failed\<close>]] by auto
      then have "fst (ca_clock app (fst v)) = Inl Failed" by (simp add: logged_def split: prod.splits)
      then show False using clock by blast
    qed
    then obtain result where result: "res = Inr result"
      using run a Inr q res by (cases res) (auto simp: execute_chat_def split: exn.splits)
    then obtain e where e: "lg' = lg @ [e]" "app_event_describes (he_app env) (request, ref) result e"
      using ev run a Inr q res lg1 by (auto simp: execute_chat_def split: sum.splits)
    have id: "ape_request_id e = rid" using e(2) inp ref(1) by (simp add: app_event_describes_def)
    show ?thesis
    proof (cases "application_response result rid")
      case (Inl m)
      then have "resp = failure_response INTERNAL_ERROR 500 rid"
        using run a Inr q res result by (simp add: execute_chat_def)
      then show ?thesis using e id header_in_failure by (auto simp: audits_response_def)
    next
      case (Inr y)
      then have resp: "application_response result rid = Inr resp"
        using run a \<open>a = Inr q\<close> q res result by (simp add: execute_chat_def)
      have "hs_status resp \<in> {200, 500, 503}"
        using resp result_status_range by (fastforce simp: application_response_def bindE_Inr_iff)
      moreover have "hs_status resp = 200 \<Longrightarrow> ape_outcome e = AuditSuccess"
        using application_response_200[OF resp] e(2) by (auto simp: app_event_describes_def)
      ultimately show ?thesis using e(1) id header_in_application[OF resp]
        by (intro exI[of _ e]) (auto simp: audits_response_def)
    qed
  qed
qed

text \<open>An integer literal beyond the digit limit: the exception leaves the handler, whoever sent it.\<close>

lemma digit_limit_raises:
  assumes "validate_envelope c r = Inr u" "bearer_assertion r (hc_maximum_authorization_bytes c) = Inr
      b"
    "validate_media r (hc_maximum_body_bytes c) = Inr v"
    "read_body (hc_maximum_body_bytes c) 0 (hr_events r) = Inr body" "body \<noteq> []" "\<not> starts_with body
        BOM"
    "utf8_decode body = Some s" "he_tokenize env s = Inl DigitLimit" and "tp_config tp = c"
  shows "execute_chat env tp True rid r w = (Inl Failed, w)"
proof -
  have "chat_input env c r = Inl (HttpRaised Failed)"
    using assms(1-8) by (simp add: chat_input_def parse_public_chat_request_def)
  then have "chat_admit env tp True rid r w = (Inl (HttpRaised Failed), w)"
    using assms(9) by (simp add: chat_admit_def stops_with_def)
  then show ?thesis by (simp add: execute_chat_def)
qed

section \<open>A concrete request\<close>

text \<open>
  A trusted chat from end to end: a one-byte body and one-byte JWS segments, which the tokenizer reads
      as
  the objects of the request, the header and the payload; the factory's identifier, the digest and the
  signature check are constants, and the agent answers at once.
\<close>

definition sample_rid :: pystr where "sample_rid = lit ''00000000-0000-4000-8000-000000000000''"

definition sample_digest_text :: pystr where "sample_digest_text = replicate 64 48"

definition sample_token :: pystr where
  "sample_token = lit ''aA'' @ [46] @ lit ''cA'' @ [46] @ replicate 86 65"

definition sample_tokens :: "pystr \<Rightarrow> loads_error + jtree" where
  "sample_tokens s =
     (if s = [98] then Inr (TObj [(lit ''message'', TStr (lit ''hello''))])
      else if s = [104] then Inr (TObj [(lit ''alg'', TStr (lit ''EdDSA'')), (lit ''kid'', TStr (lit
          ''k1'')),
        (lit ''typ'', TStr (lit ''erp-ai-request+jws''))])
      else if s = [112] then Inr (TObj [(lit ''v'', TInt 1), (lit ''iss'', TStr (lit ''erp'')),
        (lit ''aud'', TStr (lit ''ai'')), (lit ''jti'', TStr sample_rid), (lit ''iat'', TInt 100),
        (lit ''exp'', TInt 200), (lit ''method'', TStr (lit ''POST'')), (lit ''path'', TStr (lit
            ''/v1/chat'')),
        (lit ''body_sha256'', TStr sample_digest_text), (lit ''resolver_ref'', TStr (replicate 43 65))])
      else Inl Malformed)"

definition sample_http_env :: http_env where
  "sample_http_env = \<lparr>he_app = sample_zone, he_tokenize = sample_tokens, he_sha256 = (\<lambda>_.
      sample_digest_text)\<rparr>"

definition sample_trust_env :: trust_env where
  "sample_trust_env = \<lparr>te_tokenize = sample_tokens, te_ed25519 = (\<lambda>key sig msg. key = replicate 32 7)\<rparr>"

definition unix_time :: "int \<Rightarrow> zoned_time" where
  "unix_time t = \<lparr>zt_local = (t + EPOCH_SECONDS) * 1000000, zt_offset = 0\<rparr>"

definition sample_verifier :: verifier_config where
  "sample_verifier = \<lparr>vc_issuer = lit ''erp'', vc_audience = lit ''ai'',
     vc_keys = [\<lparr>vk_kid = lit ''k1'', vk_public_key = replicate 32 7, vk_activates_at = unix_time 50,
       vk_retires_at = unix_time 900\<rparr>],
     vc_maximum_lifetime = 300000000, vc_maximum_clock_skew = 10000000, vc_maximum_token_bytes = 4096,
     vc_maximum_segment_bytes = 3072\<rparr>"

definition sample_trusted_app :: "nat chat_application" where
  "sample_trusted_app = sample_app\<lparr>
     ca_resolve := (\<lambda>_ w. (Inr \<lparr>rd_context = dump_context (sample_context\<lparr>request_id := sample_rid\<rparr>),
        rd_intent = sample_intent\<lparr>id_request_id := sample_rid\<rparr>\<rparr>, w)),
     ca_orchestrator := (\<lambda>_ w. (Inr (PublicChatSuccess sample_success), w))\<rparr>"

abbreviation sample_trust_clock :: "nat \<Rightarrow> raw_datetime outcome \<times> nat" where
  "sample_trust_clock \<equiv> \<lambda>w. (Inr (Zoned (unix_time 150)), w)"

definition sample_transport :: "nat transport" where
  "sample_transport = \<lparr>
     tp_config = \<lparr>hc_allowed_hosts = [lit ''ai.local''], hc_require_https = True, hc_maximum_body_bytes
         = 16384,
       hc_maximum_authorization_bytes = 4096\<rparr>,
     tp_create_id = (\<lambda>w. (Inr (Some sample_rid), w)),
     tp_authenticate = trust_authenticator sample_trust_env sample_verifier sample_trust_clock,
     tp_application = app_execute sample_zone sample_trusted_app,
     tp_sink = (\<lambda>_ w. (Inr (), w))\<rparr>"

definition sample_http_request :: http_request where
  "sample_http_request = \<lparr>hr_scheme = Some (lit ''https''), hr_method = lit ''POST'', hr_path = lit
      ''/v1/chat'',
     hr_raw_path = Some (lit ''/v1/chat''), hr_query_string = Some [],
     hr_headers = [(lit ''Host'', lit ''ai.local''), (lit ''Authorization'', lit ''Bearer '' @
         sample_token),
       (lit ''Content-Type'', lit ''application/json'')],
     hr_events = [Received True (BodyBytes [98]) MoreAbsent]\<rparr>"

definition ready_state :: transport_state where
  "ready_state = \<lparr>ts_ready = True, ts_in_flight = {}\<rparr>"

lemma sample_uuid: "is_uuid4 sample_rid"
  by (simp add: is_uuid4_def sample_rid_def lit_def is_hex_def is_digit_def)

lemma sample_rid_lower: "ascii_lower sample_rid = sample_rid"
  by (simp add: sample_rid_def lit_def ascii_lower_def lower_char_def)

lemma sample_rid_identifier: "validate_identifier sample_rid = Inr sample_rid"
  by (rule validate_identifier_id) (simp add: sample_rid_def lit_def is_identifier_def py_isspace_def)

lemma sample_taken: "take_request_id sample_http_env sample_transport ready_state w
    = (Inr (sample_rid, ready_state\<lparr>ts_in_flight := {sample_rid}\<rparr>), w)"
  by (simp add: take_request_id_def request_id_of_def sample_transport_def sample_http_env_def
      ready_state_def
      sample_uuid sample_rid_lower)

lemma sample_parsed: "parse_public_chat_request sample_http_env [98] = Inr sample_chat"
  by (simp add: parse_public_chat_request_def BOM_def sample_http_env_def sample_tokens_def
      chat_request_of_def CHAT_FIELDS_def
      json_field_def lit_def utf8_encodable_def validate_chat_request_def stripped_text_def py_strip_def py_rstrip_def trimmed_text_def unicode_trim_def is_white_space_def py_isspace_def sample_chat_def)

lemma sample_digest_valid: "is_digest sample_digest_text"
  by (simp add: sample_digest_text_def is_digest_def is_hex_def is_digit_def list_all_iff)

lemma sample_input: "chat_input sample_http_env (tp_config sample_transport) sample_http_request
    = Inr (sample_token, sample_chat, sample_digest_text)"
proof -
  let ?c = "tp_config sample_transport"
  have envelope: "validate_envelope ?c sample_http_request = Inr ()"
    by (simp add: validate_envelope_def sample_transport_def sample_http_request_def header_values_def
        bytes_lower_def
        ascii_text_def lit_def AUTHORITY_HEADERS_def)
  have bearer: "bearer_assertion sample_http_request 4096 = Inr sample_token"
    by (simp add: bearer_assertion_def sample_http_request_def header_values_def bytes_lower_def
        sample_token_def
        ascii_text_def lit_def list_all_iff list_ex_iff py_isspace_def)
  have media: "validate_media sample_http_request 16384 = Inr ()"
    by (simp add: validate_media_def sample_http_request_def header_values_def bytes_lower_def
        ascii_text_def lit_def
        py_strip_def py_rstrip_def py_isspace_def)
  have body: "read_body 16384 0 (hr_events sample_http_request) = Inr [98]"
    by (simp add: sample_http_request_def)
  have "json_encodable (canonical_chat_payload sample_chat)"
    by (simp add: canonical_chat_payload_def sample_chat_def utf8_encodable_def lit_def)
  moreover have "validate_chat_request ascii_lower ascii_upper sample_chat = Inr sample_chat"
    by (simp add: sample_chat_def validate_chat_request_def stripped_text_def py_strip_def py_rstrip_def trimmed_text_def unicode_trim_def is_white_space_def py_isspace_def sample_text)
  ultimately have digest: "canonical_public_chat_digest sample_http_env sample_chat = Inr
      sample_digest_text"
    by (simp add: canonical_public_chat_digest_def canonical_public_chat_bytes_def sample_http_env_def)
  have limits: "hc_maximum_authorization_bytes ?c = 4096" "hc_maximum_body_bytes ?c = 16384" "\<not>
      pc_stream sample_chat"
    by (simp_all add: sample_transport_def sample_chat_def)
  show ?thesis unfolding chat_input_def limits(1,2) envelope bearer media body sum.case sample_parsed
      digest
    using limits(3) by simp
qed

lemma zero_signature: "b64_encode (replicate (Suc (3 * n)) 0) = replicate (Suc (Suc (4 * n))) 65"
proof (induction n)
  case (Suc n)
  have n: "3 * Suc n = Suc (Suc (Suc (3 * n)))" "4 * Suc n = Suc (Suc (Suc (Suc (4 * n))))" by simp_all
  show ?case unfolding n using Suc by (simp add: b64_char_def)
qed (simp add: b64_char_def)

lemma sample_segments:
  "decode_segment (lit ''aA'') 3072 = Inr [104]" "decode_segment (lit ''cA'') 3072 = Inr [112]"
  "decode_segment (replicate 86 65) 3072 = Inr (replicate 64 0)"
proof -
  have "(64::nat) = Suc (3 * 21)" "(86::nat) = Suc (Suc (4 * 21))" by simp_all
  then have "b64_encode (replicate 64 0) = replicate 86 65" using zero_signature[of 21] by simp
  then show "decode_segment (replicate 86 65) 3072 = Inr (replicate 64 0)"
    by (simp add: decode_segment_iff list_all_iff)
qed (simp_all add: decode_segment_iff lit_def b64_char_def)

lemma split_on_none: "c \<notin> set s \<Longrightarrow> split_on c s = [s]"
  by (induction s) auto

lemma sample_split: "split_on 46 sample_token = [lit ''aA'', lit ''cA'', replicate 86 65]"
  using split_on_none[of 46 "replicate 86 65"] by (simp add: sample_token_def lit_def)

definition sample_payload :: "(pystr \<times> json) list" where
  "sample_payload = [(lit ''v'', JInt 1), (lit ''iss'', JStr (lit ''erp'')), (lit ''aud'', JStr (lit
      ''ai'')),
     (lit ''jti'', JStr sample_rid), (lit ''iat'', JInt 100), (lit ''exp'', JInt 200), (lit ''method'',
         JStr (lit ''POST'')),
     (lit ''path'', JStr (lit ''/v1/chat'')), (lit ''body_sha256'', JStr sample_digest_text),
     (lit ''resolver_ref'', JStr (replicate 43 65))]"

definition sample_header :: "(pystr \<times> json) list" where
  "sample_header = [(lit ''alg'', JStr (lit ''EdDSA'')), (lit ''kid'', JStr (lit ''k1'')),
     (lit ''typ'', JStr (lit ''erp-ai-request+jws''))]"

lemma sample_jws: "parse_compact_jws sample_tokens sample_token 4096 3072
    = Inr \<lparr>pa_header = sample_header, pa_payload = sample_payload, pa_signing_input = lit ''aA'' @ [46]
        @ lit ''cA'',
        pa_signature = replicate 64 0\<rparr>"
proof -
  have header: "strict_object sample_tokens [104] HEADER_FIELDS = Inr sample_header"
    by (auto simp: strict_object_def BOM_def sample_tokens_def sample_header_def HEADER_FIELDS_def
        lit_def)
  have payload: "strict_object sample_tokens [112] PAYLOAD_FIELDS = Inr sample_payload"
    by (auto simp: strict_object_def BOM_def sample_tokens_def sample_payload_def PAYLOAD_FIELDS_def
        lit_def)
  have "list_all (\<lambda>c. c < 128) sample_token" "length sample_token \<le> 4096"
    by (simp_all add: sample_token_def lit_def list_all_iff)
  then show ?thesis unfolding parse_compact_jws_def sample_split
    by (simp add: sample_segments header payload)
qed

lemma sample_payload_fields:
  "json_field sample_payload ''v'' = Inr (JInt 1)" "json_field sample_payload ''iat'' = Inr (JInt 100)"
  "json_field sample_payload ''exp'' = Inr (JInt 200)" "json_field sample_payload ''jti'' = Inr (JStr
      sample_rid)"
  "json_field sample_payload ''resolver_ref'' = Inr (JStr (replicate 43 65))"
  "json_field sample_payload ''iss'' = Inr (JStr (lit ''erp''))" "json_field sample_payload ''aud'' =
      Inr (JStr (lit ''ai''))"
  "json_field sample_payload ''method'' = Inr (JStr (lit ''POST''))"
  "json_field sample_payload ''path'' = Inr (JStr (lit ''/v1/chat''))"
  "json_field sample_payload ''body_sha256'' = Inr (JStr sample_digest_text)"
  "json_field sample_header ''alg'' = Inr (JStr (lit ''EdDSA''))" "json_field sample_header ''kid'' =
      Inr (JStr (lit ''k1''))"
  "json_field sample_header ''typ'' = Inr (JStr (lit ''erp-ai-request+jws''))"
  by (simp_all add: json_field_def sample_payload_def sample_header_def lit_def)

lemma sample_canonical: "canonical_reference (replicate 43 65) = Inr (replicate 43 65)"
  unfolding canonical_reference_iff zero_reference[symmetric]
  by (intro conjI refl exI[of _ "replicate 32 0"]) (simp_all add: list_all_iff)

definition sample_trusted_reference :: request_reference where
  "sample_trusted_reference = \<lparr>rr_request_id = sample_rid, rr_resolver_reference = replicate 43 65\<rparr>"

lemma sample_reference_valid: "validate_reference sample_trusted_reference = Inr
    sample_trusted_reference"
  by (simp add: validate_reference_def sample_trusted_reference_def sample_rid_identifier
      sample_canonical)

definition sample_auth :: auth_request where
  "sample_auth = chat_auth_request sample_rid sample_digest_text sample_token"

lemma sample_auth_valid: "validate_auth_request sample_auth = Inr sample_auth"
proof -
  have "sample_token \<noteq> []" by (simp add: sample_token_def lit_def)
  then show ?thesis
    by (simp add: validate_auth_request_def sample_auth_def chat_auth_request_def sample_rid_identifier
        sample_digest_valid)
qed

lemma sample_times: "validate_times sample_verifier (hd (vc_keys sample_verifier)) (unix_time 150) 100
    200 = Inr ()"
  by (simp add: validate_times_def from_timestamp_def unix_time_def sample_verifier_def
      EPOCH_SECONDS_def MAXIMUM_LOCAL_def
      zt_instant_def)

lemma sample_payload_valid:
  "validate_payload sample_verifier (hd (vc_keys sample_verifier)) sample_auth (unix_time 150)
      sample_payload = Inr ()"
  unfolding validate_payload_def sample_payload_fields
  by (simp add: sample_times sample_uuid sample_canonical valid_body_digest_def sample_digest_valid)
    (simp add: sample_verifier_def sample_auth_def chat_auth_request_def)

lemma sample_verified: "verify_assertion sample_trust_env sample_verifier sample_auth (unix_time 150)
    = Inr sample_trusted_reference"
proof -
  let ?k = "\<lparr>vk_kid = lit ''k1'', vk_public_key = replicate 32 7, vk_activates_at = unix_time 50,
       vk_retires_at = unix_time 900\<rparr>"
  have config: "vc_maximum_token_bytes sample_verifier = 4096" "vc_maximum_segment_bytes
      sample_verifier = 3072"
      "te_tokenize sample_trust_env = sample_tokens" "au_bearer sample_auth = sample_token"
      "au_request_id sample_auth = sample_rid" "te_ed25519 sample_trust_env (replicate 32 7) s m" for s
          m
    by (simp_all add: sample_verifier_def sample_trust_env_def sample_auth_def chat_auth_request_def)
  have key: "find (\<lambda>k. vk_kid k = lit ''k1'') (vc_keys sample_verifier) = Some ?k" "hd (vc_keys
      sample_verifier) = ?k"
    by (simp_all add: sample_verifier_def)
  show ?thesis
    unfolding verify_assertion_def config(1-4) sample_jws
    using sample_payload_valid[unfolded key(2)] sample_reference_valid[unfolded
        sample_trusted_reference_def]
    by (simp add: sample_payload_fields key config sample_trusted_reference_def)
qed

lemma sample_authenticated:
  "tp_authenticate sample_transport sample_auth w = (Inr (Some sample_trusted_reference), w)"
  by (simp add: sample_transport_def trust_authenticator_def authenticate_def sample_auth_valid
      attempt_def andthen_def
      sample_verified)

lemma sample_admitted: "chat_admit sample_http_env sample_transport True sample_rid sample_http_request
    w
    = (Inr (sample_chat, sample_trusted_reference), w)"
  using sample_authenticated[of w]
  by (simp add: chat_admit_def stops_with_def sample_input chat_reference_def
      sample_auth_valid[unfolded sample_auth_def]
      sample_auth_def andthen_def sample_reference_valid)
    (simp add: sample_trusted_reference_def)

lemma sample_trusted_resolution:
  "validate_resolution sample_zone \<lparr>rd_context = dump_context (sample_context\<lparr>request_id :=
      sample_rid\<rparr>),
      rd_intent = sample_intent\<lparr>id_request_id := sample_rid\<rparr>\<rparr>
     = Inr (sample_context\<lparr>request_id := sample_rid\<rparr>, sample_route_intent\<lparr>ri_request_id := sample_rid\<rparr>)"
proof -
  have "is_identifier sample_rid" using sample_rid_identifier by (rule validate_identifier_Inr)
  then have "wf_context (\<lambda>z. z = lit ''UTC'') (sample_context\<lparr>request_id := sample_rid\<rparr>)"
    using sample_context_wf by (simp add: wf_context_def)
  note ctx = revalidate_context[OF case_mapping_ascii this]
  have "validate_intent ascii_lower (sample_intent\<lparr>id_request_id := sample_rid\<rparr>)
      = Inr (sample_route_intent\<lparr>ri_request_id := sample_rid\<rparr>)"
    using sample_rid_identifier
    by (simp add: validate_intent_def sample_intent_def sample_route_intent_def sample_text)
  then show ?thesis using ctx by (simp add: validate_resolution_def)
qed

lemma sample_trusted_execute:
  "app_execute sample_zone sample_trusted_app (sample_chat, sample_trusted_reference) w
     = (Inr (PublicChatSuccess sample_success), w + 6)"
proof -
  let ?c = "sample_context\<lparr>request_id := sample_rid\<rparr>"
  have inputs: "app_inputs sample_zone (sample_chat, sample_trusted_reference) = Inr (sample_chat,
      sample_trusted_reference)"
    using sample_reference_valid
    by (simp add: app_inputs_def validate_chat_request_def sample_chat_def stripped_text_def py_strip_def py_rstrip_def trimmed_text_def unicode_trim_def is_white_space_def py_isspace_def sample_text)
  have app: "ca_resolve sample_trusted_app r w = (Inr \<lparr>rd_context = dump_context ?c,
        rd_intent = sample_intent\<lparr>id_request_id := sample_rid\<rparr>\<rparr>, w)"
    "ca_verify sample_trusted_app c w = (Inr \<lparr>sd_status = SnapshotCurrent, sd_request_id = None,
       sd_customer_environment_id = None, sd_user_id = None, sd_authorization_snapshot_id = None\<rparr>, w +
           1)"
    "ca_clock sample_trusted_app w = (Inr (Aware 1000), w)"
    "ca_maximum_intent_lifetime sample_trusted_app = 300" "ca_catalog sample_trusted_app =
        sample_route_catalog"
    "ca_orchestrator sample_trusted_app q w = (Inr (PublicChatSuccess sample_success), w)"
    "ca_sink sample_trusted_app e w = (Inr (), w + 5)" for r c q e and w :: nat
    by (simp_all add: sample_trusted_app_def sample_app_def)
  have "resolve_request sample_zone sample_trusted_app sample_trusted_reference w
      = (Inr (?c, sample_route_intent\<lparr>ri_request_id := sample_rid\<rparr>), w)"
    unfolding resolve_request_def
    by (simp add: andthen_def attempt_def app sample_trusted_resolution resolution_reason_def)
      (simp add: sample_route_intent_def sample_trusted_reference_def sample_context_def)
  moreover have "verify_snapshot sample_trusted_app ?c w = (Inr (), w + 1)"
    by (simp add: verify_snapshot_def andthen_def attempt_def app validate_decision_def)
  moreover have "bindE (resolve_route sample_route_catalog (lit ''small_talk'')) (validate_route
      ascii_lower)
      = Inr general_route"
    using sample_routes(2) by (simp add: resolve_route_def sample_route_catalog_def sample_env_def)
  moreover have "ri_intent_code (sample_route_intent\<lparr>ri_request_id := sample_rid\<rparr>) = lit ''small_talk''"
    by (simp add: sample_route_intent_def)
  moreover have "revalidate_result (PublicChatSuccess sample_success) = Inr (PublicChatSuccess
      sample_success)"
    by (simp add: sample_success_def make_chat_success_def language_code_def is_language_code_def
          stripped_text_def py_strip_def py_rstrip_def trimmed_text_def unicode_trim_def is_white_space_def py_isspace_def sample_text)
  ultimately have "app_run sample_zone sample_trusted_app sample_chat sample_trusted_reference w
      = (Inr (PublicChatSuccess sample_success), w + 1)"
    by (simp add: app_run_def app_admit_def run_orchestrator_def andthen_def attempt_def app
        del: revalidate_result.simps)
  then show ?thesis using inputs
    by (simp add: app_inputs_def app_execute_def app_finish_def record_before_return_def app)
qed

definition sample_response :: http_response where
  "sample_response = \<lparr>hs_status = 200, hs_headers = security_headers sample_rid,
     hs_body = ResultBody (PublicChatSuccess sample_success)\<rparr>"

lemma sample_chat_served:
  "chat sample_http_env sample_transport sample_http_request (ready_state, w) = (Inr sample_response,
      ready_state, w + 6)"
proof -
  have "application_response (PublicChatSuccess sample_success) sample_rid = Inr sample_response"
    by (simp add: application_response_def sample_response_def sample_success_def make_chat_success_def
        language_code_def
        is_language_code_def stripped_text_def py_strip_def py_rstrip_def trimmed_text_def unicode_trim_def is_white_space_def py_isspace_def sample_text)
  moreover have "tp_application sample_transport = app_execute sample_zone sample_trusted_app"
    by (simp add: sample_transport_def)
  moreover have "execute_chat sample_http_env sample_transport True sample_rid sample_http_request w
      = (Inr sample_response, w + 6)"
    unfolding execute_chat_def sample_admitted using calculation sample_trusted_execute by simp
  ultimately show ?thesis
    by (simp add: chat_def sample_taken) (simp add: ready_state_def release_request_id_def)
qed

section \<open>Properties\<close>

text \<open>C1: The transport answers with a result only for trusted requests. A chat response with status
    200 means that
  the transport was ready and took a fresh identifier, that the envelope, the media type and the
      bounded body
  were accepted, that the bearer assertion verifies under a configured key, is alive at the time
      the
  clock shows once the identifier has been taken, and is bound to the method, the path and the digest
      of this body, and that the application ran for the reference the
      assertion
  names, under the transport's identifier, with everything it establishes.\<close>

theorem chat_success_trusted:
  assumes auth: "tp_authenticate tp = trust_authenticator tenv vcfg clock"
    and app: "tp_application tp = app_execute (he_app env) app"
    and run: "chat env tp r (st, w) = (Inr resp, s')" and "hs_status resp = 200"
  shows "\<exists>rid st1 w1 assertion request digest now ref c route.
      ts_ready st \<and> is_uuid4 rid \<and> rid \<notin> ts_in_flight st
    \<and> take_request_id env tp st w = (Inr (rid, st1), w1) \<and> fst (clock w1) = Inr (Zoned now)
    \<and> admissible_chat env (tp_config tp) r assertion request digest
    \<and> asserts tenv vcfg (chat_auth_request rid digest assertion) (zt_instant now) ref \<and> rr_request_id ref = rid
    \<and> trusted_run (he_app env) app ref c route"
proof -
  obtain rid st1 w1 w2 where take: "take_request_id env tp st w = (Inr (rid, st1), w1)"
    and exec: "execute_chat env tp (ts_ready st1) rid r w1 = (Inr resp, w2)"
    using run assms(4) by (auto simp: chat_def split: prod.splits sum.splits exn.splits)
  note taken = take_request_id_Inr[OF take]
  obtain request ref w3 s0 where adm: "chat_admit env tp (ts_ready st1) rid r w1 = (Inr (request, ref),
      w3)"
    and ok: "tp_application tp (request, ref) w3 = (Inr (PublicChatSuccess s0), w2)"
    using execute_chat_200[OF exec assms(4)] by blast
  obtain assertion digest where ready: "ts_ready st1"
    and inp: "chat_input env (tp_config tp) r = Inr (assertion, request, digest)"
    and cr: "chat_reference tp rid digest assertion w1 = (Inr ref, w3)"
    by (rule chat_admit_Inr[OF adm])
  note ref = chat_reference_Inr[OF auth cr]
  obtain request' ref' c route where inputs: "app_inputs (he_app env) (request, ref) = Inr (request',
      ref')"
    and t: "trusted_run (he_app env) app ref' c route"
    using app_success_trusted[OF ok[unfolded app]] by blast
  have "ref' = ref" using inputs ref(3) by (auto simp: app_inputs_def bindE_Inr_iff)
  moreover have "ts_ready st" using ready taken(3) by simp
  ultimately show ?thesis using take taken(1,2) chat_input_Inr[OF inp] ref(1,2) t by blast
qed

theorem chat_success_trusted_witness:
  "\<exists>rid st1 w1 assertion request digest now ref c route.
      ts_ready ready_state \<and> is_uuid4 rid \<and> rid \<notin> ts_in_flight ready_state
    \<and> take_request_id sample_http_env sample_transport ready_state 0 = (Inr (rid, st1), w1)
    \<and> fst (sample_trust_clock w1) = Inr (Zoned now)
    \<and> admissible_chat sample_http_env (tp_config sample_transport) sample_http_request assertion
        request digest
    \<and> asserts sample_trust_env sample_verifier (chat_auth_request rid digest assertion) (zt_instant now) ref \<and>
        rr_request_id ref = rid
    \<and> trusted_run (he_app sample_http_env) sample_trusted_app ref c route"
  by (rule chat_success_trusted[where w = 0, OF _ _ sample_chat_served])
    (simp_all add: sample_transport_def sample_http_env_def sample_response_def)

text \<open>C12: Every response to an identified chat request is audited exactly once, with the identifier the
    response
  carries: a success as a success, a rejection with a 4xx status as a failed validation; provided the
      clock of
  the application does not raise.\<close>

theorem chat_audited_once:
  assumes "case_mapping (ap_lower (he_app env)) (ap_upper (he_app env))" and "\<And>v. fst (ca_clock app v)
      \<noteq> Inl Failed"
    and run: "chat env (log_transport (he_app env) app tp) r (st, (w, [])) = (Inr resp, st', (w',
        events))"
    and identified: "request_header (lit ''unavailable'') \<notin> set (hs_headers resp)"
  shows "\<exists>rid e. events = [e] \<and> audits_response rid resp e"
proof -
  let ?tp = "log_transport (he_app env) app tp"
  obtain a w1 lg1 where a: "take_request_id env ?tp st (w, []) = (a, (w1, lg1))" by (metis prod.exhaust)
  have lg1: "lg1 = []" using a
    by (auto simp: take_request_id_def split: prod.splits sum.splits dest: logged_eqD)
  obtain rid st1 where y: "a = Inr (rid, st1)"
  proof (cases a)
    case (Inl x)
    then have "resp = failure_response INTERNAL_ERROR 500 (lit ''unavailable'')"
      using run a by (cases x) (simp_all add: chat_def)
    then show ?thesis using identified header_in_failure by blast
  qed (use that in auto)
  have "execute_chat env ?tp (ts_ready st1) rid r (w1, []) = (Inr resp, (w', events))"
    using run a y lg1 by (auto simp: chat_def split: prod.splits)
  then show ?thesis using execute_chat_audited[OF assms(1,2)] by fastforce
qed

lemma sample_rejected:
  "chat sample_http_env (log_transport (he_app sample_http_env) sample_trusted_app sample_transport)
     (sample_http_request\<lparr>hr_method := lit ''GET''\<rparr>) (ready_state, (0, []))
   = (Inr (failure_response INVALID_REQUEST 400 sample_rid), ready_state,
      (0, [rejection_event sample_rid ''invalid_http_envelope'']))"
proof -
  let ?tp = "log_transport (he_app sample_http_env) sample_trusted_app sample_transport"
  have "take_request_id sample_http_env ?tp ready_state (0, [])
      = (Inr (sample_rid, ready_state\<lparr>ts_in_flight := {sample_rid}\<rparr>), (0, []))"
    by (simp add: take_request_id_def request_id_of_def sample_transport_def sample_http_env_def
        ready_state_def
        sample_uuid sample_rid_lower logged_def)
  moreover have "validate_envelope c (sample_http_request\<lparr>hr_method := lit ''GET''\<rparr>) \<noteq> Inr ()" for c
    by (simp add: validate_envelope_def lit_def)
  then obtain m where "validate_envelope (tp_config sample_transport) (sample_http_request\<lparr>hr_method :=
      lit ''GET''\<rparr>) = Inl m"
    by (metis (full_types) old.unit.exhaust sum.exhaust)
  ultimately show ?thesis
    by (simp add: chat_def execute_chat_def chat_admit_def stops_with_def chat_input_def reject_def
        record_before_return_def logged_def)
      (simp add: ready_state_def release_request_id_def sample_transport_def reject_def
          record_before_return_def logged_def)
qed

theorem chat_audited_once_witness:
  "\<exists>rid e. [rejection_event sample_rid ''invalid_http_envelope''] = [e]
     \<and> audits_response rid (failure_response INVALID_REQUEST 400 sample_rid) e"
proof (rule chat_audited_once[OF _ _ sample_rejected])
  show "case_mapping (ap_lower (he_app sample_http_env)) (ap_upper (he_app sample_http_env))"
    by (simp add: sample_http_env_def case_mapping_ascii)
  show "fst (ca_clock sample_trusted_app v) \<noteq> Inl Failed" for v
    by (simp add: sample_trusted_app_def)
  show "request_header (lit ''unavailable'') \<notin> set (hs_headers (failure_response INVALID_REQUEST 400
      sample_rid))"
    by (simp add: request_header_def failure_response_def security_headers_def sample_rid_def lit_def)
qed

text \<open>C34: Whatever the dependencies do, a chat request ends with a response or a cancellation, and
    leaves the
  transport's state, its identifiers included, as it found it.\<close>

theorem serve_chat_total:
  "case serve_chat env tp r (st, w) of (res, st', w') \<Rightarrow> st' = st \<and> res \<noteq> Inl Failed"
  using serve_chat_result[of env tp r st w] by (auto split: prod.splits)

text \<open>C13: Over any interleaving of concurrent requests and of the lifecycle, no two requests in flight
    have the
  same identifier, every identifier is a version 4 UUID, and the recorded identifiers are exactly those
      of the
  requests in flight.\<close>

theorem in_flight_identifiers_unique:
  assumes "(transport_step lower)\<^sup>*\<^sup>* transport_start (st, held)"
  shows "distinct held \<and> ts_in_flight st = set held \<and> (\<forall>rid \<in> set held. is_uuid4 rid)"
  using transport_reachable_inv[OF assms] by (simp add: transport_inv_def)

theorem in_flight_identifiers_unique_witness:
  "distinct [sample_rid] \<and> ts_in_flight \<lparr>ts_ready = False, ts_in_flight = {sample_rid}\<rparr> = set [sample_rid]
     \<and> is_uuid4 sample_rid"
proof -
  have "request_id_of (\<lambda>s. s) (Some sample_rid) \<lparr>ts_ready = False, ts_in_flight = {}\<rparr>
      = Inr (sample_rid, \<lparr>ts_ready = False, ts_in_flight = {sample_rid}\<rparr>)"
    by (simp add: request_id_of_def sample_uuid)
  then have "(transport_step (\<lambda>s. s))\<^sup>*\<^sup>* transport_start
      (\<lparr>ts_ready = False, ts_in_flight = {sample_rid}\<rparr>, [sample_rid])"
    unfolding transport_start_def by (intro r_into_rtranclp handler_takes)
  from in_flight_identifiers_unique[OF this] show ?thesis by simp
qed

text \<open>C35: The transport reads a body exactly when the events deliver well-formed chunks up to the last
    one, and their
  concatenation is within the limit.\<close>

theorem read_body_exact:
  "read_body limit 0 es = Inr body \<longleftrightarrow> (\<exists>chunks. body_events chunks es \<and> body = concat chunks \<and> length
      body \<le> limit)"
  using read_body_Inr[of limit 0] by simp

text \<open>C29: A digest identifies the request: when the hash does not collide on their bytes, two requests
    with the same
  digest are the same once validated, so an assertion admits no other message, mode or language.\<close>

theorem digest_identifies_request:
  assumes "canonical_public_chat_digest env r = Inr d" and "canonical_public_chat_digest env r' = Inr d"
    and "\<And>bs bs'. he_sha256 env bs = he_sha256 env bs' \<Longrightarrow> canonical_public_chat_bytes (he_app env) r =
        Inr bs
      \<Longrightarrow> canonical_public_chat_bytes (he_app env) r' = Inr bs' \<Longrightarrow> bs = bs'"
  shows "validate_chat_request (ap_lower (he_app env)) (ap_upper (he_app env)) r
       = validate_chat_request (ap_lower (he_app env)) (ap_upper (he_app env)) r'"
proof -
  obtain bs bs' where b: "canonical_public_chat_bytes (he_app env) r = Inr bs" "he_sha256 env bs = d"
    "canonical_public_chat_bytes (he_app env) r' = Inr bs'" "he_sha256 env bs' = d"
    using assms(1,2) unfolding canonical_public_chat_digest_def by (auto elim!: bindE_InrE)
  then have "bs = bs'" using assms(3) by simp
  then show ?thesis using canonical_bytes_inj b by blast
qed

definition hash_free_env :: http_env where
  "hash_free_env = sample_http_env\<lparr>he_sha256 := (\<lambda>bs. bs)\<rparr>"

theorem digest_identifies_request_witness:
  "\<exists>d. canonical_public_chat_digest hash_free_env (sample_chat\<lparr>pc_message := lit '' hello''\<rparr>) = Inr d
    \<and> validate_chat_request (ap_lower (he_app hash_free_env)) (ap_upper (he_app hash_free_env))
        (sample_chat\<lparr>pc_message := lit '' hello''\<rparr>)
      = validate_chat_request (ap_lower (he_app hash_free_env)) (ap_upper (he_app hash_free_env))
          sample_chat"
proof -
  have v: "validate_chat_request ascii_lower ascii_upper sample_chat = Inr sample_chat"
    "validate_chat_request ascii_lower ascii_upper (sample_chat\<lparr>pc_message := lit '' hello''\<rparr>) = Inr
        sample_chat"
    by (simp_all add: sample_chat_def validate_chat_request_def stripped_text_def py_strip_def py_rstrip_def trimmed_text_def unicode_trim_def is_white_space_def py_isspace_def sample_text)
  have "json_encodable (canonical_chat_payload sample_chat)"
    by (simp add: canonical_chat_payload_def sample_chat_def utf8_encodable_def lit_def)
  then obtain d where d: "canonical_public_chat_digest hash_free_env sample_chat = Inr d"
    "canonical_public_chat_digest hash_free_env (sample_chat\<lparr>pc_message := lit '' hello''\<rparr>) = Inr d"
    by (simp add: canonical_public_chat_digest_def canonical_public_chat_bytes_def hash_free_env_def
        sample_http_env_def v)
  then show ?thesis
    using digest_identifies_request[OF d(2) d(1)] by (auto simp: hash_free_env_def)
qed

end
