(* ===== verification/Markdown.thy ===== *)
theory Markdown
  imports Ingestion Utf8
begin

text \<open>
  Markdown to sections (\<open>src/erp_ai/knowledge/sources/markdown.py\<close>, the functions on tokens): the front
  matter, the raw HTML probe, the text of an inline token and the loop that cuts a token sequence into
  sections. The tokens are what markdown-it returns; the parser itself is a parameter. Lemmas: lines
  concatenate back to the text, every section keeps the texts of its body tokens in order, and the
  keys of the sections are distinct.
\<close>

section \<open>Front matter\<close>

text \<open>\<open>str.splitlines(keepends=True)\<close>: the line boundaries of Python, with \<open>\r\n\<close> as one.\<close>

definition is_line_break :: "nat \<Rightarrow> bool" where
  "is_line_break c \<longleftrightarrow> 10 \<le> c \<and> c \<le> 13 \<or> 28 \<le> c \<and> c \<le> 30 \<or> c = 133 \<or> c = 8232 \<or> c = 8233"

fun py_splitlines :: "pystr \<Rightarrow> pystr \<Rightarrow> pystr list" where
  "py_splitlines line [] = (if line = [] then [] else [line])"
| "py_splitlines line (c # s) =
     (if c = 13 \<and> s \<noteq> [] \<and> hd s = 10 then py_splitlines (line @ [13]) s
      else if is_line_break c then (line @ [c]) # py_splitlines [] s
      else py_splitlines (line @ [c]) s)"

fun after_delimiter :: "pystr \<Rightarrow> pystr list \<Rightarrow> pystr checked" where
  "after_delimiter delimiter [] = Inl ''unterminated Markdown front matter''"
| "after_delimiter delimiter (line # rest) =
     (if py_strip line = delimiter \<or> delimiter = lit ''---'' \<and> py_strip line = lit ''...''
      then Inr (concat rest) else after_delimiter delimiter rest)"

definition without_front_matter :: "pystr \<Rightarrow> pystr checked" where
  "without_front_matter s =
     (case py_splitlines [] s of
        [] \<Rightarrow> Inr s
      | first # rest \<Rightarrow>
          if py_strip first \<noteq> lit ''---'' \<and> py_strip first \<noteq> lit ''+++'' then Inr s
          else after_delimiter (py_strip first) rest)"

section \<open>Tokens\<close>

text \<open>
  What the adapter reads of a markdown-it token and of a child of an inline token. The \<open>href\<close> is
  \<open>None\<close> when the attribute is missing or not a string; the children are \<open>None\<close> for a token that has
  none.
\<close>

record md_child =
  ch_type :: pystr
  ch_content :: pystr
  ch_href :: "pystr option"

record md_token =
  tk_type :: pystr
  tk_tag :: pystr
  tk_content :: pystr
  tk_children :: "md_child list option"

definition is_html_inline :: "md_child \<Rightarrow> bool" where
  "is_html_inline c \<longleftrightarrow> ch_type c = lit ''html_inline''"

definition reject_raw_html :: "(pystr \<Rightarrow> md_token list) \<Rightarrow> pystr \<Rightarrow> unit checked" where
  "reject_raw_html probe s =
     raise_if (list_ex (\<lambda>t. tk_type t = lit ''html_block'' \<or> tk_type t = lit ''html_inline''
         \<or> list_ex is_html_inline (case tk_children t of None \<Rightarrow> [] | Some cs \<Rightarrow> cs)) (probe s))
       ''raw HTML is unsupported'' (Inr ())"

definition WRAPPERS :: "pystr set" where
  "WRAPPERS = {lit ''em_open'', lit ''em_close'', lit ''strong_open'', lit ''strong_close'',
     lit ''s_open'', lit ''s_close'', lit ''link_open'', lit ''link_close''}"

text \<open>The loop over the children; the state is the destination of the open link. A link whose text is
    its
  destination contributes nothing.\<close>

fun inline_parts :: "pystr option \<Rightarrow> md_child list \<Rightarrow> pystr list checked" where
  "inline_parts active [] = Inr []"
| "inline_parts active (c # cs) =
     (if ch_type c = lit ''text'' \<or> ch_type c = lit ''code_inline'' then
        bindE (inline_parts active cs) (\<lambda>ps.
          Inr (if active = Some (ch_content c) then ps else ch_content c # ps))
      else if ch_type c = lit ''softbreak'' \<or> ch_type c = lit ''hardbreak'' then
        bindE (inline_parts active cs) (\<lambda>ps. Inr ([10] # ps))
      else if ch_type c = lit ''image'' then bindE (inline_parts active cs) (\<lambda>ps. Inr (ch_content c #
          ps))
      else if ch_type c = lit ''link_open'' then inline_parts (ch_href c) cs
      else if ch_type c = lit ''link_close'' then inline_parts None cs
      else if ch_type c \<in> WRAPPERS then inline_parts active cs
      else if is_html_inline c then Inl ''raw HTML is unsupported''
      else Inl ''unsupported inline Markdown token'')"

definition inline_text :: "(pystr \<Rightarrow> pystr) \<Rightarrow> md_token \<Rightarrow> pystr checked" where
  "inline_text nfc t =
     (case tk_children t of
        None \<Rightarrow> Inl ''malformed inline token''
      | Some cs \<Rightarrow> bindE (inline_parts None cs) (\<lambda>ps. normalize_text nfc (concat ps)))"

section \<open>Sections\<close>

definition STRUCTURAL :: "pystr set" where
  "STRUCTURAL = {lit ''paragraph_open'', lit ''paragraph_close'', lit ''bullet_list_open'',
     lit ''bullet_list_close'', lit ''ordered_list_open'', lit ''ordered_list_close'',
     lit ''list_item_open'', lit ''list_item_close'', lit ''blockquote_open'', lit ''blockquote_close'',
     lit ''table_open'', lit ''table_close'', lit ''thead_open'', lit ''thead_close'', lit
         ''tbody_open'',
     lit ''tbody_close'', lit ''tr_open'', lit ''tr_close'', lit ''th_open'', lit ''th_close'',
     lit ''td_open'', lit ''td_close''}"

record section_state =
  ss_path :: "pystr list"
  ss_heading :: pystr
  ss_blocks :: "pystr list"
  ss_sections :: "knowledge_section list"
  ss_saw_heading :: bool
  ss_pending :: "nat option"

definition section_start :: section_state where
  "section_start = \<lparr>ss_path = [], ss_heading = lit ''Document'', ss_blocks = [], ss_sections = [],
     ss_saw_heading = False, ss_pending = None\<rparr>"

definition next_key :: "section_state \<Rightarrow> pystr" where
  "next_key st = (if \<not> ss_saw_heading st \<and> ss_sections st = [] then lit ''preamble''
     else lit ''section_'' @ zero_padded 4 (length (ss_sections st) + 1))"

definition flush_section :: "(pystr \<Rightarrow> pystr) \<Rightarrow> section_state \<Rightarrow> section_state checked" where
  "flush_section nfc st =
     (if ss_blocks st = [] then Inr st
      else bindE (validate_section nfc
        \<lparr>sec_key = next_key st, sec_heading = ss_heading st, sec_blocks = ss_blocks st\<rparr>) (\<lambda>s.
        Inr (st\<lparr>ss_sections := ss_sections st @ [s], ss_blocks := []\<rparr>)))"

text \<open>\<open>heading_path[level - 1 :] = [content]\<close>; for level 0 the slice starts at the last element.\<close>

definition replace_tail :: "pystr list \<Rightarrow> nat \<Rightarrow> pystr \<Rightarrow> pystr list" where
  "replace_tail path level s = (if level = 0 then butlast path else take (level - 1) path) @ [s]"

text \<open>A heading tag; markdown-it produces \<open>h1\<close> to \<open>h6\<close> only, so the digits are ASCII.\<close>

definition heading_level :: "pystr \<Rightarrow> nat checked" where
  "heading_level tag =
     raise_if (\<not> starts_with tag (lit ''h'') \<or> drop 1 tag = [] \<or> \<not> list_all is_digit (drop 1 tag))
       ''malformed heading token'' (py_int (drop 1 tag))"

definition close_heading :: "section_state \<Rightarrow> nat \<Rightarrow> pystr \<Rightarrow> section_state" where
  "close_heading st level s =
     (let path = replace_tail (ss_path st) level s in
      st\<lparr>ss_path := path, ss_heading := join_with (lit '' > '') path, ss_pending := None,
         ss_saw_heading := True\<rparr>)"

definition section_step ::
  "(pystr \<Rightarrow> pystr) \<Rightarrow> md_token \<Rightarrow> section_state \<Rightarrow> section_state checked" where
  "section_step nfc t st =
     (if tk_type t = lit ''heading_open'' then
        bindE (flush_section nfc st) (\<lambda>st1. bindE (heading_level (tk_tag t)) (\<lambda>level.
          Inr (st1\<lparr>ss_pending := Some level\<rparr>)))
      else if tk_type t = lit ''heading_close'' then
        raise_if (ss_pending st \<noteq> None) ''heading has no text'' (Inr st)
      else if tk_type t = lit ''inline'' then
        bindE (inline_text nfc t) (\<lambda>s. Inr (case ss_pending st of
            Some level \<Rightarrow> close_heading st level s
          | None \<Rightarrow> st\<lparr>ss_blocks := ss_blocks st @ [s]\<rparr>))
      else if tk_type t = lit ''fence'' \<or> tk_type t = lit ''code_block'' then
        bindE (normalize_text nfc (tk_content t)) (\<lambda>s. Inr (st\<lparr>ss_blocks := ss_blocks st @ [s]\<rparr>))
      else if tk_type t = lit ''hr'' then flush_section nfc st
      else if tk_type t \<in> STRUCTURAL then Inr st
      else if tk_type t = lit ''html_block'' then Inl ''raw HTML is unsupported''
      else Inl ''unsupported Markdown token'')"

fun section_steps ::
  "(pystr \<Rightarrow> pystr) \<Rightarrow> md_token list \<Rightarrow> section_state \<Rightarrow> section_state checked" where
  "section_steps nfc [] st = Inr st"
| "section_steps nfc (t # ts) st = bindE (section_step nfc t st) (section_steps nfc ts)"

definition md_sections :: "(pystr \<Rightarrow> pystr) \<Rightarrow> md_token list \<Rightarrow> knowledge_section list checked" where
  "md_sections nfc ts =
     bindE (section_steps nfc ts section_start) (\<lambda>st.
     raise_if (ss_pending st \<noteq> None) ''heading has no text''
     (bindE (flush_section nfc st) (\<lambda>st.
      raise_if (ss_sections st = []) ''Markdown source contains no supported text''
        (Inr (ss_sections st)))))"

section \<open>Lines\<close>

lemma splitlines_concat: "concat (py_splitlines line s) = line @ s"
  by (induction line s rule: py_splitlines.induct) auto

lemma after_delimiter_suffix:
  "after_delimiter d ls = Inr t \<Longrightarrow> \<exists>front line. concat ls = front @ line @ t
     \<and> (py_strip line = d \<or> py_strip line = lit ''...'')"
proof (induction ls)
  case (Cons l ls)
  show ?case
  proof (cases "py_strip l = d \<or> d = lit ''---'' \<and> py_strip l = lit ''...''")
    case True
    then show ?thesis using Cons.prems by (intro exI[of _ "[]"] exI[of _ l]) auto
  next
    case False
    then have "after_delimiter d ls = Inr t" using Cons.prems by (simp split: if_splits)
    from Cons.IH[OF this] obtain front line where "concat ls = front @ line @ t"
      "py_strip line = d \<or> py_strip line = lit ''...''" by blast
    then show ?thesis by (intro exI[of _ "l @ front"] exI[of _ line]) simp
  qed
qed simp

text \<open>What is read is the whole text, or what follows a closing delimiter.\<close>

lemma without_front_matter_suffix:
  assumes "without_front_matter s = Inr t"
  obtains "t = s" | front line where "s = front @ line @ t" "front \<noteq> []"
    "py_strip line \<in> {lit ''---'', lit ''+++'', lit ''...''}"
proof (cases "py_splitlines [] s")
  case Nil
  then show thesis using assms that(1) by (simp add: without_front_matter_def)
next
  case (Cons l ls)
  show thesis
  proof (cases "py_strip l = lit ''---'' \<or> py_strip l = lit ''+++''")
    case False
    then show thesis using assms that(1) Cons by (auto simp: without_front_matter_def)
  next
    case True
    then have "after_delimiter (py_strip l) ls = Inr t"
      using assms Cons by (auto simp: without_front_matter_def)
    then obtain front line where f: "concat ls = front @ line @ t"
      "py_strip line = py_strip l \<or> py_strip line = lit ''...''" by (blast dest: after_delimiter_suffix)
    have "l \<noteq> []" using True by (auto simp: py_strip_def py_rstrip_def)
    then have ne: "l @ front \<noteq> []" by simp
    have eq: "s = (l @ front) @ line @ t" using splitlines_concat[of "[]" s] Cons f(1) by simp
    have "py_strip line \<in> {lit ''---'', lit ''+++'', lit ''...''}" using f(2) True by auto
    from that(2)[OF eq ne this] show thesis .
  qed
qed

section \<open>Text blocks\<close>

text \<open>Normalizing a normalized text changes nothing, as every part of an NFC text is in NFC.\<close>

definition nfc_stable :: "(pystr \<Rightarrow> pystr) \<Rightarrow> bool" where
  "nfc_stable nfc \<longleftrightarrow> (\<forall>s u v w. nfc s = u @ v @ w \<longrightarrow> nfc v = v)"

lemma replace_crlf_id: "13 \<notin> set s \<Longrightarrow> replace_crlf s = s"
  by (induction s rule: replace_crlf.induct) auto

lemma normalize_text_fixed:
  assumes "nfc_stable nfc" "normalize_text nfc s = Inr u"
  shows "normalize_text nfc u = Inr u"
proof -
  define t where "t = nfc (replace_cr (replace_crlf s))"
  have u: "\<not> list_ex unsafe_control t" "u = py_strip t" "u \<noteq> []"
    using assms(2) by (auto simp: normalize_text_def Let_def t_def split: if_splits)
  obtain a b where ab: "t = a @ u @ b" using py_strip_decomp[of t] u(2) by metis
  then have nfc: "nfc u = u" using assms(1) unfolding nfc_stable_def t_def by blast
  have safe: "\<not> list_ex unsafe_control u" using u(1) ab by (auto simp: list_ex_iff)
  then have "13 \<notin> set u" by (auto simp: list_ex_iff unsafe_control_def is_control_def)
  then have "replace_cr (replace_crlf u) = u" by (auto simp: replace_crlf_id replace_cr_def intro!:
      map_idI)
  then show ?thesis using nfc safe u(2,3) by (simp add: normalize_text_def Let_def)
qed

lemma map_text_field_fixed:
  assumes "nfc_stable nfc" "list_all (\<lambda>s. normalize_text nfc s = Inr s) ss"
    "map_checked (text_field nfc) ss = Inr ts"
  shows "ts = ss"
  using assms(2,3)
  by (induction ss arbitrary: ts) (auto simp: text_field_def elim!: bindE_InrE raise_if_InrE)

definition normal_blocks :: "(pystr \<Rightarrow> pystr) \<Rightarrow> pystr list \<Rightarrow> bool" where
  "normal_blocks nfc bs \<longleftrightarrow> list_all (\<lambda>s. normalize_text nfc s = Inr s) bs"

text \<open>The tokens that carry body text, read off the token sequence alone: an inline token that follows
  an opened heading is the heading's text.\<close>

fun body_tokens :: "bool \<Rightarrow> md_token list \<Rightarrow> md_token list" where
  "body_tokens heading [] = []"
| "body_tokens heading (t # ts) =
     (if tk_type t = lit ''heading_open'' then body_tokens True ts
      else if tk_type t = lit ''inline'' then
        (if heading then body_tokens False ts else t # body_tokens False ts)
      else if tk_type t = lit ''fence'' \<or> tk_type t = lit ''code_block'' then t # body_tokens heading ts
      else body_tokens heading ts)"

definition token_text :: "(pystr \<Rightarrow> pystr) \<Rightarrow> md_token \<Rightarrow> pystr checked" where
  "token_text nfc t = (if tk_type t = lit ''inline'' then inline_text nfc t
     else normalize_text nfc (tk_content t))"

definition kept_blocks :: "section_state \<Rightarrow> pystr list" where
  "kept_blocks st = concat (map sec_blocks (ss_sections st)) @ ss_blocks st"

lemma validate_section_fields:
  assumes "validate_section nfc s = Inr t"
  shows "sec_key t = sec_key s" "map_checked (text_field nfc) (sec_blocks s) = Inr (sec_blocks t)"
  using assms unfolding validate_section_def validate_section_key_def min_length_1_def
  by (auto elim!: bindE_InrE raise_if_InrE)

lemma flush_keeps:
  assumes "nfc_stable nfc" "normal_blocks nfc (ss_blocks st)" "flush_section nfc st = Inr st'"
  shows "kept_blocks st' = kept_blocks st" "ss_blocks st' = []" "ss_pending st' = ss_pending st"
  using assms map_text_field_fixed[OF assms(1)] unfolding flush_section_def kept_blocks_def
      normal_blocks_def
  by (fastforce split: if_splits elim!: bindE_InrE dest: validate_section_fields(2))+

lemma normalized_normal:
  assumes "nfc_stable nfc" "token_text nfc t = Inr s"
  shows "normalize_text nfc s = Inr s"
  using assms unfolding token_text_def inline_text_def
  by (auto split: if_splits option.splits elim!: bindE_InrE intro: normalize_text_fixed)


text \<open>One step keeps the blocks seen so far, in order, and adds the text of a body token.\<close>

definition blocks_inv :: "(pystr \<Rightarrow> pystr) \<Rightarrow> pystr list \<Rightarrow> section_state \<Rightarrow> bool" where
  "blocks_inv nfc bs st \<longleftrightarrow> kept_blocks st = bs \<and> normal_blocks nfc (ss_blocks st)"

lemma flush_blocks_inv:
  assumes "nfc_stable nfc" "blocks_inv nfc bs st" "flush_section nfc st = Inr st'"
  shows "blocks_inv nfc bs st'" "ss_pending st' = ss_pending st"
  using flush_keeps[OF assms(1) _ assms(3)] assms(2) by (auto simp: blocks_inv_def normal_blocks_def)

lemma add_block_inv:
  assumes "nfc_stable nfc" "blocks_inv nfc bs st" "token_text nfc t = Inr s"
  shows "blocks_inv nfc (bs @ [s]) (st\<lparr>ss_blocks := ss_blocks st @ [s]\<rparr>)"
  using assms normalized_normal[OF assms(1,3)]
  by (auto simp: blocks_inv_def kept_blocks_def normal_blocks_def)

lemma close_heading_inv:
  "blocks_inv nfc bs st \<Longrightarrow> blocks_inv nfc bs (close_heading st level s)"
  by (simp add: blocks_inv_def kept_blocks_def close_heading_def Let_def)

lemma section_step_blocks:
  assumes n: "nfc_stable nfc" and i: "blocks_inv nfc bs st" and s: "section_step nfc t st = Inr st'"
  obtains hs ds where "blocks_inv nfc (bs @ ds) st'" "map_checked (token_text nfc) hs = Inr ds"
    "\<And>ts. body_tokens (ss_pending st \<noteq> None) (t # ts) = hs @ body_tokens (ss_pending st' \<noteq> None) ts"
proof -
  note none = that[of "[]" "[]"] and one = that[of "[_]" "[t]"]
  consider (op) "tk_type t = lit ''heading_open''" | (inl) "tk_type t = lit ''inline''"
    | (code) "tk_type t = lit ''fence'' \<or> tk_type t = lit ''code_block''" | (hr) "tk_type t = lit
        ''hr''"
    | (other) "tk_type t \<notin> {lit ''heading_open'', lit ''inline'', lit ''fence'', lit ''code_block'',
        lit ''hr''}"
    by blast
  then show thesis
  proof cases
    case op
    then obtain st1 level where "flush_section nfc st = Inr st1" "st' = st1\<lparr>ss_pending := Some level\<rparr>"
      using s unfolding section_step_def by (auto elim!: bindE_InrE)
    then show thesis using op flush_blocks_inv[OF n i] by (intro none) (simp_all add: blocks_inv_def
        kept_blocks_def)
  next
    case inl
    then obtain x where x: "token_text nfc t = Inr x" "st' = (case ss_pending st of
        Some level \<Rightarrow> close_heading st level x | None \<Rightarrow> st\<lparr>ss_blocks := ss_blocks st @ [x]\<rparr>)"
      using s unfolding section_step_def token_text_def by (auto elim!: bindE_InrE)
    show thesis
    proof (cases "ss_pending st")
      case None
      then show thesis using add_block_inv[OF n i x(1)] inl x by (intro one) auto
    next
      case (Some level)
      then have "ss_pending st' = None" using x(2) by (simp add: close_heading_def Let_def)
      then show thesis using inl x(2) Some close_heading_inv[OF i] by (intro none) simp_all
    qed
  next
    case code
    then obtain x where x: "token_text nfc t = Inr x" "st' = st\<lparr>ss_blocks := ss_blocks st @ [x]\<rparr>"
      using s unfolding section_step_def token_text_def by (auto elim!: bindE_InrE)
    then show thesis using add_block_inv[OF n i x(1)] code by (intro one) auto
  next
    case hr
    then have "flush_section nfc st = Inr st'" using s by (simp add: section_step_def)
    then show thesis using hr flush_blocks_inv[OF n i] by (intro none) simp_all
  next
    case other
    then have "st' = st" using s unfolding section_step_def by (auto split: if_splits)
    then show thesis using other i by (intro none) auto
  qed
qed

lemma section_steps_blocks:
  assumes n: "nfc_stable nfc"
  shows "section_steps nfc ts st = Inr st' \<Longrightarrow> blocks_inv nfc bs st \<Longrightarrow>
    \<exists>cs. blocks_inv nfc (bs @ cs) st'
      \<and> map_checked (token_text nfc) (body_tokens (ss_pending st \<noteq> None) ts) = Inr cs"
proof (induction ts arbitrary: st bs)
  case (Cons t ts)
  obtain st1 where st1: "section_step nfc t st = Inr st1" "section_steps nfc ts st1 = Inr st'"
    using Cons.prems(1) by (auto elim: bindE_InrE)
  obtain hs ds where d: "blocks_inv nfc (bs @ ds) st1" "map_checked (token_text nfc) hs = Inr ds"
    "body_tokens (ss_pending st \<noteq> None) (t # ts) = hs @ body_tokens (ss_pending st1 \<noteq> None) ts"
    using section_step_blocks[OF n Cons.prems(2) st1(1)] by metis
  from Cons.IH[OF st1(2) d(1)] obtain cs where "blocks_inv nfc ((bs @ ds) @ cs) st'"
    "map_checked (token_text nfc) (body_tokens (ss_pending st1 \<noteq> None) ts) = Inr cs" by blast
  then show ?case using d(2) unfolding d(3) by (intro exI[of _ "ds @ cs"]) (simp add:
      map_checked_append)
qed simp

section \<open>Keys\<close>

lemma zero_padded_value: "digits_value (zero_padded k n) = n"
proof -
  have "digits_value (replicate m 48 @ s) = digits_value s" for m s
    by (induction m) (simp_all add: digits_value_def)
  then show ?thesis by (simp add: zero_padded_def Let_def)
qed

definition numbered_key :: "nat \<Rightarrow> pystr" where
  "numbered_key n = lit ''section_'' @ zero_padded 4 n"

lemma numbered_key_inject: "numbered_key m = numbered_key n \<longleftrightarrow> m = n"
  using zero_padded_value by (metis numbered_key_def same_append_eq)

lemma preamble_not_numbered: "lit ''preamble'' \<noteq> numbered_key n"
  by (simp add: numbered_key_def lit_def)

text \<open>A section is keyed by its position, and only the first one can be the preamble.\<close>

definition keyed :: "knowledge_section list \<Rightarrow> bool" where
  "keyed secs \<longleftrightarrow> (\<forall>i < length secs. sec_key (secs ! i) = numbered_key (i + 1)
     \<or> i = 0 \<and> sec_key (secs ! i) = lit ''preamble'')"

lemma keyed_distinct: "keyed secs \<Longrightarrow> distinct (map sec_key secs)"
proof -
  assume k: "keyed secs"
  have "sec_key (secs ! i) \<noteq> sec_key (secs ! j)" if "i < j" "j < length secs" for i j
  proof -
    have "sec_key (secs ! j) = numbered_key (j + 1)" using k that unfolding keyed_def by blast
    moreover have "sec_key (secs ! i) \<in> {numbered_key (i + 1), lit ''preamble''}"
      using k less_trans[OF that] unfolding keyed_def by blast
    ultimately show ?thesis using that(1) numbered_key_inject[of "i + 1" "j + 1"] preamble_not_numbered
      by auto
  qed
  then have "map sec_key secs ! i \<noteq> map sec_key secs ! j" if "i < length secs" "j < length secs" "i \<noteq> j"
    for i j
    using that by (cases i j rule: linorder_cases) (simp_all, metis)
  then show ?thesis by (simp add: distinct_conv_nth)
qed

lemma flush_keyed:
  "keyed (ss_sections st) \<Longrightarrow> flush_section nfc st = Inr st' \<Longrightarrow> keyed (ss_sections st')"
  unfolding flush_section_def
  by (auto split: if_splits elim!: bindE_InrE dest!: validate_section_fields(1)
      simp: keyed_def next_key_def nth_append numbered_key_def less_Suc_eq)

lemma section_step_keyed:
  "keyed (ss_sections st) \<Longrightarrow> section_step nfc t st = Inr st' \<Longrightarrow> keyed (ss_sections st')"
  unfolding section_step_def
  by (auto split: if_splits option.splits elim!: bindE_InrE dest: flush_keyed
      simp: close_heading_def Let_def)

lemma section_steps_keyed:
  "keyed (ss_sections st) \<Longrightarrow> section_steps nfc ts st = Inr st' \<Longrightarrow> keyed (ss_sections st')"
  by (induction ts arbitrary: st) (auto elim!: bindE_InrE dest: section_step_keyed)

lemma md_sections_steps:
  assumes "md_sections nfc ts = Inr secs"
  obtains st st' where "section_steps nfc ts section_start = Inr st" "flush_section nfc st = Inr st'"
    "secs = ss_sections st'" "secs \<noteq> []"
  using assms unfolding md_sections_def by (auto elim!: bindE_InrE raise_if_InrE)

lemma md_sections_keyed:
  assumes "md_sections nfc ts = Inr secs"
  shows "keyed secs"
proof -
  have "keyed (ss_sections section_start)" by (simp add: keyed_def section_start_def)
  then show ?thesis using assms by (metis md_sections_steps section_steps_keyed flush_keyed)
qed

lemma md_sections_blocks:
  assumes n: "nfc_stable nfc" and s: "md_sections nfc ts = Inr secs"
  shows "map_checked (token_text nfc) (body_tokens False ts) = Inr (concat (map sec_blocks secs))"
proof -
  obtain st st' where r: "section_steps nfc ts section_start = Inr st" "flush_section nfc st = Inr st'"
    "secs = ss_sections st'" using md_sections_steps[OF s] .
  have "blocks_inv nfc [] section_start" by (simp add: blocks_inv_def kept_blocks_def normal_blocks_def
      section_start_def)
  from section_steps_blocks[OF n r(1) this] obtain cs where cs: "blocks_inv nfc cs st"
    "map_checked (token_text nfc) (body_tokens False ts) = Inr cs"
    by (auto simp: section_start_def)
  then have "kept_blocks st' = cs" "ss_blocks st' = []"
    using flush_keeps[OF n _ r(2)] by (auto simp: blocks_inv_def)
  then show ?thesis using cs(2) r(3) by (simp add: kept_blocks_def)
qed

end
