(* ===== verification/Sources.thy ===== *)
theory Sources
  imports Markdown Effects
begin

text \<open>
  Cataloged knowledge sources (\<open>src/erp_ai/knowledge/sources/models.py\<close>, \<open>markdown.py\<close>): the catalog
  entries and the catalog, the inspection of path components, the bounded read and the adapter that
  turns one catalog entry into a draft. The operating system is a record of operations on a world;
  the read loop is a partial function, whose \<open>None\<close> says that it does not return.
\<close>

section \<open>Catalog\<close>

text \<open>\<open>PurePosixPath\<close>: the parts of a path without the empty and the \<open>.\<close> components, whether it is
  absolute, and the suffix of its last part.\<close>

definition posix_parts :: "pystr \<Rightarrow> pystr list" where
  "posix_parts s = filter (\<lambda>c. c \<noteq> [] \<and> c \<noteq> [46]) (split_on 47 s)"

definition posix_absolute :: "pystr \<Rightarrow> bool" where
  "posix_absolute s \<longleftrightarrow> starts_with s [47]"

definition name_suffix :: "pystr \<Rightarrow> pystr" where
  "name_suffix name =
     (let ending = rev (takeWhile (\<lambda>c. c \<noteq> 46) (rev name)); stem = length name - length ending - 1 in
      if 46 \<in> set name \<and> 0 < stem \<and> ending \<noteq> [] then 46 # ending else [])"

text \<open>The error of a path with no parts is the \<open>IndexError\<close> of \<open>path.parts[0]\<close>.\<close>

definition relative_markdown_path :: "(pystr \<Rightarrow> pystr) \<Rightarrow> pystr \<Rightarrow> pystr checked" where
  "relative_markdown_path lower s =
     raise_if (92 \<in> set s \<or> starts_with s (lit ''./''))
         ''source path must use normalized relative POSIX syntax''
     (raise_if (posix_absolute s \<or> lit ''..'' \<in> set (posix_parts s))
        ''source path must be relative and confined''
     (case posix_parts s of
        [] \<Rightarrow> Inl ''IndexError''
      | first # rest \<Rightarrow>
          raise_if (58 \<in> set first) ''source path must be relative and confined''
          (raise_if (lower (name_suffix (last (first # rest))) \<noteq> lit ''.md'')
             ''source path must identify a relative Markdown file'' (Inr s))))"

text \<open>An entry carries the governed fields of the document it describes.\<close>

record 't source_entry = "'t governance" +
  se_path :: pystr
  se_raw_sha256 :: pystr
  se_approval_reference :: pystr
  se_approved_at :: 't

definition validate_source_entry ::
  "(pystr \<Rightarrow> pystr) \<Rightarrow> raw_datetime source_entry \<Rightarrow> zoned_time source_entry checked" where
  "validate_source_entry lower e =
     bindE (bindE (plain_text 1 500 (se_path e)) (relative_markdown_path lower)) (\<lambda>path.
     bindE (validate_digest (se_raw_sha256 e)) (\<lambda>digest.
     bindE (canonical_semver (gv_document_version e)) (\<lambda>ver.
     bindE (validate_code lower (gv_namespace e)) (\<lambda>ns.
     bindE (optional_checked validate_identifier (gv_customer_environment_id e)) (\<lambda>cust.
     bindE (plain_text 1 300 (gv_title e)) (\<lambda>title.
     bindE (language_code (gv_language e)) (\<lambda>lang.
     bindE (unique_items (validate_code lower) (gv_required_modules_all e)) (\<lambda>mods.
     bindE (unique_items validate_policy_code (gv_required_permissions_all e)) (\<lambda>perms.
     bindE (bindE (unique_items (validate_code lower) (gv_allowed_purposes e)) min_length_1) (\<lambda>ps.
     bindE (unique_items validate_identifier (gv_legal_entity_ids e)) (\<lambda>les.
     bindE (require_zone ''catalog timestamps must be timezone-aware'' (gv_effective_from e)) (\<lambda>from.
     bindE (optional_checked (require_zone ''catalog timestamps must be timezone-aware'')
         (gv_effective_to e))
       (\<lambda>to.
     bindE (validate_identifier (se_approval_reference e)) (\<lambda>ref.
     bindE (require_zone ''catalog timestamps must be timezone-aware'' (se_approved_at e)) (\<lambda>appr.
     let entry = \<lparr>gv_document_id = gv_document_id e, gv_document_version = ver, gv_namespace = ns,
           gv_source_type = gv_source_type e, gv_customer_environment_id = cust,
           gv_required_modules_all = mods, gv_required_permissions_all = perms,
           gv_allowed_purposes = ps, gv_legal_entity_ids = les,
           gv_data_classification = gv_data_classification e, gv_language = lang, gv_title = title,
           gv_effective_from = from, gv_effective_to = to, se_path = path, se_raw_sha256 = digest,
           se_approval_reference = ref, se_approved_at = appr\<rparr> in
     raise_if (ends_before_start entry) ''effective_to must be later than effective_from''
       (Inr entry))))))))))))))))"

text \<open>\<open>MarkdownSourceCatalog\<close>; the case folding is a parameter.\<close>

definition validate_catalog ::
  "(pystr \<Rightarrow> pystr) \<Rightarrow> (pystr \<Rightarrow> pystr) \<Rightarrow> int \<Rightarrow> raw_datetime source_entry list
     \<Rightarrow> zoned_time source_entry list checked" where
  "validate_catalog lower casefold version entries =
     raise_if (version \<noteq> 1) ''literal_error''
     (bindE (min_length_1 entries) (\<lambda>es0.
      bindE (map_checked (validate_source_entry lower) es0) (\<lambda>es.
      raise_if (\<not> distinct (map (\<lambda>e. casefold (se_path e)) es))
          ''duplicate catalog paths are not allowed''
      (raise_if (\<not> distinct (map gv_document_id es)) ''duplicate document IDs are not allowed'' (Inr
          es)))))"

section \<open>Inspecting components\<close>

text \<open>What \<open>os.lstat\<close> and \<open>os.fstat\<close> return; the attributes are 0 and the device is \<open>None\<close> where the
  platform has none. A path is the list of its components.\<close>

record file_stat =
  st_mode :: nat
  st_size :: nat
  st_dev :: "nat option"
  st_ino :: "nat option"
  st_attributes :: nat

record inspection =
  ci_mode :: nat
  ci_size :: nat
  ci_device :: "nat option"
  ci_inode :: "nat option"
  ci_symbolic_link :: bool
  ci_junction :: bool
  ci_reparse_point :: bool

type_synonym path = "pystr list"

text \<open>\<open>stat.S_IFMT\<close> reads the four bits from bit 12 on; the reparse attribute is bit 10.\<close>

definition file_type :: "nat \<Rightarrow> nat" where "file_type mode = mode div 4096 mod 16"
definition is_link_mode :: "nat \<Rightarrow> bool" where "is_link_mode mode \<longleftrightarrow> file_type mode = 10"
definition is_regular_mode :: "nat \<Rightarrow> bool" where "is_regular_mode mode \<longleftrightarrow> file_type mode = 8"

definition metadata_from_stat :: "file_stat \<Rightarrow> bool \<Rightarrow> inspection" where
  "metadata_from_stat st junction =
     \<lparr>ci_mode = st_mode st, ci_size = st_size st, ci_device = st_dev st,
      ci_inode = (if st_ino st = Some 0 then None else st_ino st),
      ci_symbolic_link = is_link_mode (st_mode st), ci_junction = junction,
      ci_reparse_point = odd (st_attributes st div 1024)\<rparr>"

definition indirect :: "inspection \<Rightarrow> bool" where
  "indirect c \<longleftrightarrow> ci_symbolic_link c \<or> ci_junction c \<or> ci_reparse_point c"

definition reject_indirection :: "inspection \<Rightarrow> unit checked" where
  "reject_indirection c = raise_if (indirect c) ''filesystem indirection is forbidden'' (Inr ())"

text \<open>The operating system: each call returns a value or raises an \<open>OSError\<close> (\<open>None\<close>). A read is asked
    for
  a number of bytes.\<close>

record 'w files =
  fs_lstat :: "(path, 'w, file_stat option) op"
  fs_is_junction :: "(path, 'w, bool option) op"
  fs_resolve :: "(path, 'w, path option) op"
  fs_is_dir :: "(path, 'w, bool) op"
  fs_open :: "(path, 'w, nat option) op"
  fs_fstat :: "(nat, 'w, file_stat option) op"
  fs_read :: "(nat \<times> int, 'w, nat list option) op"
  fs_close :: "(nat, 'w, unit option) op"

definition os_call :: "string \<Rightarrow> ('x, 'w, 'r option) op \<Rightarrow> 'x \<Rightarrow> (string, 'w, 'r) proc" where
  "os_call message f x = (\<lambda>w. case f x w of (None, w1) \<Rightarrow> (Inl message, w1) | (Some r, w1) \<Rightarrow> (Inr r,
      w1))"

definition relabelled :: "string \<Rightarrow> (string, 'w, 'a) proc \<Rightarrow> (string, 'w, 'a) proc" where
  "relabelled message m = (\<lambda>w. case m w of (Inl _, w1) \<Rightarrow> (Inl message, w1) | (Inr r, w1) \<Rightarrow> (Inr r, w1))"

definition pure :: "'a checked \<Rightarrow> (string, 'w, 'a) proc" where
  "pure m = (\<lambda>w. (m, w))"

definition inspect_component :: "'w files \<Rightarrow> path \<Rightarrow> (string, 'w, inspection) proc" where
  "inspect_component fs p =
     andthen (os_call ''approved source component cannot be safely inspected'' (fs_lstat fs) p) (\<lambda>st.
     andthen (os_call ''approved source component cannot be safely inspected'' (fs_is_junction fs) p)
         (\<lambda>j.
       give (metadata_from_stat st j)))"

text \<open>\<open>path / component\<close> for a component without a slash.\<close>

definition child_path :: "path \<Rightarrow> pystr \<Rightarrow> path" where
  "child_path p c = (if c = [] \<or> c = [46] then p else p @ [c])"

fun inspect_components ::
  "'w files \<Rightarrow> path \<Rightarrow> inspection option \<Rightarrow> pystr list \<Rightarrow> (string, 'w, path \<times> inspection) proc" where
  "inspect_components fs cursor final [] =
     (case final of None \<Rightarrow> stop ''approved Markdown source path is invalid'' | Some c \<Rightarrow> give (cursor,
         c))"
| "inspect_components fs cursor final (part # parts) =
     (let cursor = child_path cursor part in
      andthen (inspect_component fs cursor) (\<lambda>c.
      andthen (pure (reject_indirection c)) (\<lambda>_. inspect_components fs cursor (Some c) parts)))"

definition same_file_identity :: "inspection \<Rightarrow> inspection \<Rightarrow> bool" where
  "same_file_identity a b \<longleftrightarrow> ci_device a = None \<or> ci_inode a = None \<or> ci_device b = None \<or> ci_inode b =
      None
     \<or> (ci_device a, ci_inode a) = (ci_device b, ci_inode b)"

section \<open>Reading\<close>

definition MAXIMUM_RAW_SOURCE_BYTES :: nat where "MAXIMUM_RAW_SOURCE_BYTES = 1048576"

text \<open>The loop of \<open>_read_bounded\<close>: \<open>None\<close> when it does not return.\<close>

partial_function (option) read_loop ::
  "(int, 'w, nat list option) op \<Rightarrow> int \<Rightarrow> nat list list \<Rightarrow> 'w \<Rightarrow> (nat list option \<times> 'w) option" where
  "read_loop read remaining pieces w =
     (if remaining = 0 then Some (Some (concat pieces), w)
      else case read remaining w of
        (None, w1) \<Rightarrow> Some (None, w1)
      | (Some piece, w1) \<Rightarrow>
          if piece = [] then Some (Some (concat pieces), w1)
          else read_loop read (remaining - int (length piece)) (pieces @ [piece]) w1)"

definition read_bounded :: "'w files \<Rightarrow> nat \<Rightarrow> 'w \<Rightarrow> (nat list option \<times> 'w) option" where
  "read_bounded fs fd w =
     read_loop (\<lambda>n. fs_read fs (fd, n)) (int MAXIMUM_RAW_SOURCE_BYTES + 1) [] w"

section \<open>The adapter\<close>

definition make_adapter :: "'w files \<Rightarrow> path \<Rightarrow> (string, 'w, path) proc" where
  "make_adapter fs approved_root =
     andthen (relabelled ''approved source root is unavailable or unsafe''
       (andthen (inspect_component fs approved_root) (\<lambda>c. pure (reject_indirection c)))) (\<lambda>_.
     andthen (os_call ''approved source root is unavailable'' (fs_resolve fs) approved_root) (\<lambda>base.
     andthen (\<lambda>w. case fs_is_dir fs base w of (d, w1) \<Rightarrow>
        (raise_if (\<not> d) ''approved source root is not a directory'' (Inr base), w1)) give))"

definition validated_file ::
  "'w files \<Rightarrow> path \<Rightarrow> zoned_time source_entry \<Rightarrow> (string, 'w, path \<times> inspection) proc" where
  "validated_file fs base e =
     andthen (relabelled ''approved Markdown source is unavailable or unsafe''
       (inspect_components fs base None (split_on 47 (se_path e)))) (\<lambda>(candidate, inspected).
     andthen (os_call ''approved Markdown source is unavailable or unsafe'' (fs_resolve fs) candidate)
         (\<lambda>resolved.
     andthen (pure (raise_if (take (length base) resolved \<noteq> base)
         ''approved Markdown source escapes its root''
       (raise_if (\<not> is_regular_mode (ci_mode inspected))
           ''approved Markdown source is not a regular file''
       (raise_if (ci_size inspected > MAXIMUM_RAW_SOURCE_BYTES)
          ''approved Markdown source exceeds the raw size limit'' (Inr ()))))) (\<lambda>_.
       give (candidate, inspected))))"

text \<open>The parser and the HTML probe of markdown-it, SHA-256 in hexadecimal of bytes, the Unicode tables
  and the version text of the parser's distribution.\<close>

record source_env =
  so_lower :: "pystr \<Rightarrow> pystr"
  so_nfc :: "pystr \<Rightarrow> pystr"
  so_sha256 :: "nat list \<Rightarrow> pystr"
  so_parse :: "pystr \<Rightarrow> md_token list"
  so_probe :: "pystr \<Rightarrow> md_token list"
  so_parser_version :: pystr

definition parser_major :: "pystr \<Rightarrow> int checked" where
  "parser_major version = bindE (py_int (hd (split_on 46 version))) (\<lambda>n. Inr (int n))"

text \<open>\<open>bytes.decode("utf-8-sig")\<close>\<close>

definition decode_utf8_sig :: "nat list \<Rightarrow> pystr option" where
  "decode_utf8_sig bs = utf8_decode (if starts_with bs [239, 187, 191] then drop 3 bs else bs)"

definition entry_draft ::
  "zoned_time source_entry \<Rightarrow> source_provenance \<Rightarrow> knowledge_section list \<Rightarrow> raw_datetime document_draft"
      where
  "entry_draft e provenance secs =
     \<lparr>gv_document_id = gv_document_id e, gv_document_version = gv_document_version e,
      gv_namespace = gv_namespace e, gv_source_type = gv_source_type e,
      gv_customer_environment_id = gv_customer_environment_id e,
      gv_required_modules_all = gv_required_modules_all e,
      gv_required_permissions_all = gv_required_permissions_all e,
      gv_allowed_purposes = gv_allowed_purposes e, gv_legal_entity_ids = gv_legal_entity_ids e,
      gv_data_classification = gv_data_classification e, gv_language = gv_language e,
      gv_title = gv_title e, gv_effective_from = Zoned (gv_effective_from e),
      gv_effective_to = map_option Zoned (gv_effective_to e),
      dr_approval_reference = se_approval_reference e, dr_approved_at = Zoned (se_approved_at e),
      dr_source_provenance = Some provenance, dr_sections = secs\<rparr>"

text \<open>From the bytes on: the digest, the text, the sections and the draft.\<close>

definition adapt_source ::
  "source_env \<Rightarrow> zoned_time source_entry \<Rightarrow> nat list \<Rightarrow> zoned_time document_draft checked" where
  "adapt_source env e raw =
     raise_if (length raw > MAXIMUM_RAW_SOURCE_BYTES)
         ''approved Markdown source exceeds the raw size limit''
     (raise_if (so_sha256 env raw \<noteq> se_raw_sha256 e)
         ''approved Markdown source hash does not match catalog''
     (case decode_utf8_sig raw of
        None \<Rightarrow> Inl ''approved Markdown source is not valid UTF-8''
      | Some s \<Rightarrow>
          bindE (bindE (without_front_matter s) (normalize_text (so_nfc env))) (\<lambda>normalized.
          bindE (reject_raw_html (so_probe env) normalized) (\<lambda>_.
          bindE (md_sections (so_nfc env) (so_parse env normalized)) (\<lambda>secs.
          bindE (parser_major (so_parser_version env)) (\<lambda>major.
          bindE (validate_provenance
            \<lparr>sp_catalog_version = 1, sp_raw_source_sha256 = so_sha256 env raw,
             sp_parser_name = lit ''markdown-it-py'', sp_parser_major_version = major,
             sp_adapter_contract_version = 1\<rparr>) (\<lambda>provenance.
            validate_draft (so_lower env) (so_nfc env) (entry_draft e provenance secs))))))))"

text \<open>The checks on the opened handle, and the part of \<open>load\<close> inside its \<open>try ... finally\<close>.\<close>

definition check_handle :: "'w files \<Rightarrow> inspection \<Rightarrow> nat \<Rightarrow> (string, 'w, unit) proc" where
  "check_handle fs inspected fd =
     andthen (os_call ''approved Markdown source handle cannot be validated'' (fs_fstat fs) fd) (\<lambda>st.
       let opened = metadata_from_stat st False in
       andthen (pure (reject_indirection opened)) (\<lambda>_.
       andthen (unless (\<not> is_regular_mode (ci_mode opened))
         ''approved Markdown source handle is not a regular file'') (\<lambda>_.
         unless (\<not> same_file_identity inspected opened)
           ''approved Markdown source changed before opening'')))"

definition read_source ::
  "'w files \<Rightarrow> inspection \<Rightarrow> nat \<Rightarrow> 'w \<Rightarrow> (nat list checked \<times> 'w) option" where
  "read_source fs inspected fd w =
     (case check_handle fs inspected fd w of
        (Inl e, w1) \<Rightarrow> Some (Inl e, w1)
      | (Inr _, w1) \<Rightarrow>
          (case read_bounded fs fd w1 of
             None \<Rightarrow> None
           | Some (None, w2) \<Rightarrow> Some (Inl ''approved Markdown source cannot be safely read'', w2)
           | Some (Some raw, w2) \<Rightarrow> Some (Inr raw, w2)))"

text \<open>The file that is opened, its inspection and its descriptor.\<close>

definition open_source ::
  "'w files \<Rightarrow> path \<Rightarrow> zoned_time source_entry \<Rightarrow> (string, 'w, inspection \<times> nat) proc" where
  "open_source fs base e =
     andthen (validated_file fs base e) (\<lambda>(source, inspected).
     andthen (os_call ''approved Markdown source cannot be safely opened'' (fs_open fs) source) (\<lambda>fd.
       give (inspected, fd)))"

definition load_source ::
  "'w files \<Rightarrow> source_env \<Rightarrow> path \<Rightarrow> zoned_time source_entry \<Rightarrow> int \<Rightarrow> 'w
     \<Rightarrow> (zoned_time document_draft checked \<times> 'w) option" where
  "load_source fs env base e version w =
     (if version \<noteq> 1 then Some (Inl ''unsupported catalog version'', w)
      else case open_source fs base e w of
        (Inl msg, w1) \<Rightarrow> Some (Inl msg, w1)
      | (Inr (inspected, fd), w1) \<Rightarrow>
          (case read_source fs inspected fd w1 of
             None \<Rightarrow> None
           | Some (result, w2) \<Rightarrow>
               (case fs_close fs fd w2 of
                  (None, w3) \<Rightarrow> Some (Inl ''OSError'', w3)
                | (Some _, w3) \<Rightarrow> Some (bindE result (adapt_source env e), w3))))"

end
