(* ===== verification/SourceProperties.thy ===== *)
theory SourceProperties
  imports Sources IngestionProperties
begin

text \<open>
  Properties of the cataloged sources: loading always returns, closes the descriptor it opens and opens
  nothing behind an indirection; a loaded draft carries the bytes, the digest and the governed fields of
  its catalog entry.
\<close>

section \<open>The read loop\<close>

lemma read_loop_end: "read_loop read 0 pieces w = Some (Some (concat pieces), w)"
  by (subst read_loop.simps) simp

lemma read_loop_total:
  assumes "\<And>n w p w'. 0 < n \<Longrightarrow> read n w = (Some p, w') \<Longrightarrow> int (length p) \<le> n"
  shows "\<exists>r w'. read_loop read (int n) pieces w = Some (r, w')
    \<and> (\<forall>bs. r = Some bs \<longrightarrow> length bs \<le> length (concat pieces) + n)"
proof (induction n arbitrary: pieces w rule: less_induct)
  case (less n)
  note unfold = read_loop.simps[of read "int n" pieces w]
  consider "n = 0" | (fail) w1 where "0 < n" "read (int n) w = (None, w1)"
    | (got) p w1 where "0 < n" "read (int n) w = (Some p, w1)"
    by (cases "read (int n) w"; cases "fst (read (int n) w)"; cases n) auto
  then show ?case
  proof cases
    case (got p w1)
    show ?thesis
    proof (cases "p = []")
      case False
      have le: "length p \<le> n" using assms[OF _ got(2)] got(1) by simp
      then have lt: "n - length p < n" using False by (cases p) auto
      have eq: "read_loop read (int n) pieces w = read_loop read (int (n - length p)) (pieces @ [p]) w1"
        using got False le by (simp add: unfold of_nat_diff)
      show ?thesis using less.IH[OF lt, of "pieces @ [p]" w1] le unfolding eq by fastforce
    qed (use got in \<open>simp add: unfold\<close>)
  qed (simp_all add: unfold read_loop_end)
qed

text \<open>On an open file the reads deliver, in order, what is left of its content; how much at a time is
    left
  to the system.\<close>

definition reads_file :: "(int, 'w, nat list option) op \<Rightarrow> ('w \<Rightarrow> nat list) \<Rightarrow> bool" where
  "reads_file read content \<longleftrightarrow> (\<forall>n w. 0 < n \<longrightarrow> (\<exists>p w'. read n w = (Some p, w') \<and> content w = p @ content w'
     \<and> int (length p) \<le> n \<and> (p = [] \<longrightarrow> content w = [])))"

lemma reads_fileE:
  assumes "reads_file read content" "0 < n"
  obtains p w' where "read (int n) w = (Some p, w')" "content w = p @ content w'" "length p \<le> n"
    "p = [] \<longrightarrow> content w = []"
  using assms unfolding reads_file_def by (metis of_nat_0_less_iff of_nat_le_iff)

lemma read_loop_exact:
  assumes "reads_file read content"
  shows "\<exists>w'. read_loop read (int n) pieces w = Some (Some (concat pieces @ take n (content w)), w')"
proof (induction n arbitrary: pieces w rule: less_induct)
  case (less n)
  note unfold = read_loop.simps[of read "int n" pieces w]
  show ?case
  proof (cases "n = 0")
    case False
    then have "0 < n" by simp
    then obtain p w1 where p: "read (int n) w = (Some p, w1)" "content w = p @ content w1" "length p
        \<le> n"
      "p = [] \<longrightarrow> content w = []" using reads_fileE[OF assms] by metis
    show ?thesis
    proof (cases "p = []")
      case True
      then show ?thesis using p False by (simp add: unfold)
    next
      case ne: False
      then have lt: "n - length p < n" using p(3) by (cases p) auto
      have eq: "read_loop read (int n) pieces w = read_loop read (int (n - length p)) (pieces @ [p]) w1"
        using p ne False by (simp add: unfold of_nat_diff)
      show ?thesis using less.IH[OF lt, of "pieces @ [p]" w1] p(2) p(3) unfolding eq by simp
    qed
  qed (simp add: read_loop_end)
qed

text \<open>A read may fail; when it returns, it delivers the next bytes of what is left.\<close>

definition delivers :: "(int, 'w, nat list option) op \<Rightarrow> ('w \<Rightarrow> nat list) \<Rightarrow> bool" where
  "delivers read content \<longleftrightarrow> (\<forall>n w p w'. 0 < n \<longrightarrow> read n w = (Some p, w') \<longrightarrow>
     content w = p @ content w' \<and> int (length p) \<le> n \<and> (p = [] \<longrightarrow> content w = []))"

lemma read_loop_delivered:
  assumes "delivers read content"
  shows "read_loop read (int n) pieces w = Some (Some bs, w') \<Longrightarrow> bs = concat pieces @ take n (content w)"
proof (induction n arbitrary: pieces w rule: less_induct)
  case (less n)
  note unfold = read_loop.simps[of read "int n" pieces w]
  show ?case
  proof (cases "n = 0")
    case True
    then show ?thesis using less.prems by (simp add: read_loop_end)
  next
    case False
    then obtain p w1 where p: "read (int n) w = (Some p, w1)"
      using less.prems unfolding unfold by (auto split: prod.splits option.splits)
    then have d: "content w = p @ content w1" "int (length p) \<le> int n" "p = [] \<longrightarrow> content w = []"
      using assms False unfolding delivers_def by (metis of_nat_0_less_iff neq0_conv)+
    show ?thesis
    proof (cases "p = []")
      case True
      then show ?thesis using less.prems p d(3) False by (simp add: unfold)
    next
      case ne: False
      then have lt: "n - length p < n" using False by simp
      have "read_loop read (int (n - length p)) (pieces @ [p]) w1 = Some (Some bs, w')"
        using less.prems p ne False d(2) by (simp add: unfold of_nat_diff)
      from less.IH[OF lt this] show ?thesis using d(1,2) by simp
    qed
  qed
qed

section \<open>Loading returns\<close>

definition bounded_reads :: "'w files \<Rightarrow> bool" where
  "bounded_reads fs \<longleftrightarrow>
     (\<forall>fd n w p w'. 0 < n \<longrightarrow> fs_read fs (fd, n) w = (Some p, w') \<longrightarrow> int (length p) \<le> n)"

lemma read_bounded_total:
  assumes "bounded_reads fs"
  shows "\<exists>r w'. read_bounded fs fd w = Some (r, w') \<and> (\<forall>bs. r = Some bs \<longrightarrow> length bs \<le> 1048577)"
proof -
  have limit: "int MAXIMUM_RAW_SOURCE_BYTES + 1 = int 1048577" by (simp add:
      MAXIMUM_RAW_SOURCE_BYTES_def)
  show ?thesis
    using read_loop_total[of "\<lambda>n. fs_read fs (fd, n)" 1048577 "[]" w] assms
    unfolding read_bounded_def limit bounded_reads_def by simp
qed

lemma read_source_total:
  assumes "bounded_reads fs"
  shows "\<exists>r w'. read_source fs inspected fd w = Some (r, w')"
proof -
  have returns: "(read_bounded fs fd w1 = None) = False" for w1
    using read_bounded_total[OF assms, of fd w1] by auto
  show ?thesis unfolding read_source_def by (simp add: returns split: prod.splits sum.splits
      option.splits)
qed

lemma load_source_total:
  assumes "bounded_reads fs"
  shows "\<exists>r w'. load_source fs env base e version w = Some (r, w')"
proof -
  have returns: "(read_source fs i fd w1 = None) = False" for i fd w1
    using read_source_total[OF assms, of i fd w1] by auto
  show ?thesis unfolding load_source_def by (simp add: returns split: prod.splits sum.splits
      option.splits)
qed

section \<open>Descriptors\<close>

text \<open>A file system observed: the descriptors it opens and the ones it is asked to close.\<close>

datatype fd_event = Opened nat | Closed nat

definition observed :: "'w files \<Rightarrow> ('w \<times> fd_event list) files" where
  "observed fs =
     \<lparr>fs_lstat = untraced (fs_lstat fs), fs_is_junction = untraced (fs_is_junction fs),
      fs_resolve = untraced (fs_resolve fs), fs_is_dir = untraced (fs_is_dir fs),
      fs_open = (\<lambda>p s. case fs_open fs p (fst s) of (r, w) \<Rightarrow>
        (r, (w, snd s @ (case r of None \<Rightarrow> [] | Some fd \<Rightarrow> [Opened fd])))),
      fs_fstat = untraced (fs_fstat fs), fs_read = untraced (fs_read fs),
      fs_close = traced Closed (fs_close fs)\<rparr>"

lemma keeps_os_call [intro]: "(\<And>w. v (snd (f x w)) = v w) \<Longrightarrow> keeps v (os_call m f x)"
  unfolding keeps_def os_call_def by (auto split: prod.splits option.splits) (metis snd_conv)+

lemma keeps_relabelled [intro]: "keeps v m \<Longrightarrow> keeps v (relabelled msg m)"
  unfolding keeps_def relabelled_def by (auto split: prod.splits sum.splits) (metis snd_conv)+

lemma keeps_checked [intro]: "keeps v (pure c)"
  by (simp add: keeps_def pure_def)

lemma keeps_inspect: "keeps snd (inspect_component (observed fs) p)"
  unfolding inspect_component_def by (auto simp: observed_def intro!: keeps_andthen keeps_pure
      keeps_os_call)

lemma keeps_components: "keeps snd (inspect_components (observed fs) cursor final parts)"
proof (induction parts arbitrary: cursor final)
  case Nil
  then show ?case by (cases final) (simp_all add: keeps_def)
next
  case (Cons part parts)
  then show ?case by (auto simp: Let_def intro!: keeps_andthen keeps_inspect keeps_checked)
qed

lemma keeps_validated: "keeps snd (validated_file (observed fs) base e)"
  unfolding validated_file_def
  by (auto intro!: keeps_andthen keeps_relabelled keeps_components keeps_os_call keeps_checked
      keeps_pure
      simp: observed_def split: prod.split)
    (simp_all add: keeps_components[unfolded observed_def])

lemma keeps_result: "keeps v m \<Longrightarrow> m w = (r, w1) \<Longrightarrow> v w1 = v w"
  unfolding keeps_def by (metis snd_conv)

lemma read_loop_keeps:
  assumes "\<And>n w r w'. read n w = (r, w') \<Longrightarrow> v w' = v w" "read_loop read n pieces w = Some res"
  shows "v (snd res) = v w"
proof -
  have "(\<forall>n w r w'. read n w = (r, w') \<longrightarrow> v w' = v w) \<longrightarrow> v (snd res) = v w"
  proof (rule read_loop.raw_induct[where P = "\<lambda>read n pieces w res.
      (\<forall>n w r w'. read n w = (r, w') \<longrightarrow> v w' = v w) \<longrightarrow> v (snd res) = v w", OF _ assms(2)])
    fix loop and read :: "(int, 'a, nat list option) op" and n and pieces :: "nat list list" and w res
    assume IH: "\<And>read n pieces w res. loop read n pieces w = Some res \<Longrightarrow>
        (\<forall>n w r w'. read n w = (r, w') \<longrightarrow> v w' = v w) \<longrightarrow> v (snd res) = v w"
      and eq: "(if n = 0 then Some (Some (concat pieces), w)
        else case read n w of (None, w1) \<Rightarrow> Some (None, w1)
          | (Some piece, w1) \<Rightarrow> if piece = [] then Some (Some (concat pieces), w1)
              else loop read (n - int (length piece)) (pieces @ [piece]) w1) = Some res"
    show "(\<forall>n w r w'. read n w = (r, w') \<longrightarrow> v w' = v w) \<longrightarrow> v (snd res) = v w"
    proof
      assume r: "\<forall>n w r w'. read n w = (r, w') \<longrightarrow> v w' = v w"
      obtain q w1 where q: "read n w = (q, w1)" "v w1 = v w" using r by (cases "read n w") blast
      have step: "v (snd res') = v w1" if "loop read m ps w1 = Some res'" for m ps w1 res'
        using IH[OF that] r by blast
      show "v (snd res) = v w"
        using eq[unfolded q(1)] q(2) step by (cases q) (auto split: if_splits)
    qed
  qed
  then show ?thesis using assms(1) by blast
qed

lemma keeps_check_handle: "keeps snd (check_handle (observed fs) i fd)"
  unfolding check_handle_def Let_def
  by (intro keeps_andthen keeps_os_call keeps_checked keeps_pure) (simp add: observed_def)

lemma read_bounded_keeps:
  assumes "read_bounded (observed fs) fd s = Some (r, s')"
  shows "snd s' = snd s"
  using read_loop_keeps[OF _ assms[unfolded read_bounded_def], where v = snd]
  by (auto simp: observed_def dest: untraced_eqD)

lemma read_source_keeps:
  assumes "read_source (observed fs) i fd s = Some (r, s')"
  shows "snd s' = snd s"
proof -
  obtain q s1 where q: "check_handle (observed fs) i fd s = (q, s1)" by (rule prod.exhaust)
  then have s1: "snd s1 = snd s" using keeps_result[OF keeps_check_handle] by blast
  show ?thesis
    using assms read_bounded_keeps[of fs fd s1] s1 unfolding read_source_def q
    by (auto split: sum.splits option.splits)
qed

text \<open>The descriptor \<open>load\<close> opens is closed, on every path, and no other one is touched.\<close>

lemma open_source_events:
  assumes "open_source (observed fs) base e s = (r, s1)"
  shows "case r of Inl _ \<Rightarrow> snd s1 = snd s | Inr (_, fd) \<Rightarrow> snd s1 = snd s @ [Opened fd]"
proof -
  obtain q s0 where q: "validated_file (observed fs) base e s = (q, s0)" by (rule prod.exhaust)
  then have s0: "snd s0 = snd s" using keeps_result[OF keeps_validated] by blast
  show ?thesis using assms s0 unfolding open_source_def andthen_def q os_call_def
    by (auto simp: observed_def split: sum.splits prod.splits option.splits)
qed

lemma load_source_events:
  assumes "load_source (observed fs) env base e version (w, []) = Some (r, (w', evs))"
  shows "evs = [] \<and> (\<exists>msg. r = Inl msg) \<or> (\<exists>fd. evs = [Opened fd, Closed fd])"
proof (cases "version = 1")
  case True
  obtain q s1 where q: "open_source (observed fs) base e (w, []) = (q, s1)" by (rule prod.exhaust)
  show ?thesis
  proof (cases q)
    case (Inl msg)
    then show ?thesis using assms open_source_events[OF q] True by (auto simp: load_source_def q)
  next
    case (Inr p)
    obtain i fd where p: "p = (i, fd)" by (rule prod.exhaust)
    then have ev: "snd s1 = [Opened fd]" using open_source_events[OF q] Inr by simp
    obtain res s2 where s2: "read_source (observed fs) i fd s1 = Some (res, s2)"
      using assms True by (auto simp: load_source_def q Inr p split: option.splits)
    have "snd (snd (fs_close (observed fs) fd s2)) = [Opened fd, Closed fd]"
      using read_source_keeps[OF s2] ev by (simp add: observed_def)
    then show ?thesis
      using assms True by (auto simp: load_source_def q Inr p s2 split: option.splits prod.splits)
  qed
qed (use assms in \<open>auto simp: load_source_def\<close>)

text \<open>The paths the components of a relative path name, in the order they are inspected.\<close>

fun component_paths :: "path \<Rightarrow> pystr list \<Rightarrow> path list" where
  "component_paths cursor [] = []"
| "component_paths cursor (part # parts) =
     child_path cursor part # component_paths (child_path cursor part) parts"

text \<open>A component that is a symbolic link, a reparse point or a junction whenever it is looked at.\<close>

definition always_indirect :: "'w files \<Rightarrow> path \<Rightarrow> bool" where
  "always_indirect fs p \<longleftrightarrow>
     (\<forall>w. \<exists>st w'. fs_lstat fs p w = (Some st, w')
        \<and> (is_link_mode (st_mode st) \<or> odd (st_attributes st div 1024)))
     \<or> (\<forall>w. \<exists>w'. fs_is_junction fs p w = (Some True, w'))"

lemma indirect_inspection:
  assumes "always_indirect fs p" "inspect_component fs p w = (Inr c, w')"
  shows "indirect c"
proof -
  obtain st j w1 where r: "fs_lstat fs p w = (Some st, w1)" "fs_is_junction fs p w1 = (Some j, w')"
    "c = metadata_from_stat st j"
    using assms(2) unfolding inspect_component_def os_call_def andthen_def
    by (auto split: prod.splits option.splits sum.splits)
  from assms(1) have "is_link_mode (st_mode st) \<or> odd (st_attributes st div 1024) \<or> j"
    unfolding always_indirect_def
  proof
    assume "\<forall>w. \<exists>st w'. fs_lstat fs p w = (Some st, w')
        \<and> (is_link_mode (st_mode st) \<or> odd (st_attributes st div 1024))"
    then show ?thesis using r(1) by (metis prod.inject option.inject)
  next
    assume "\<forall>w. \<exists>w'. fs_is_junction fs p w = (Some True, w')"
    then show ?thesis using r(2) by (metis prod.inject option.inject)
  qed
  then show ?thesis by (auto simp: r(3) indirect_def metadata_from_stat_def)
qed

lemma indirect_components:
  assumes "always_indirect fs p"
  shows "p \<in> set (component_paths cursor parts) \<Longrightarrow>
    \<exists>msg w'. inspect_components fs cursor final parts w = (Inl msg, w')"
proof (induction parts arbitrary: cursor final w)
  case (Cons part parts)
  let ?c = "child_path cursor part"
  obtain q w1 where q: "inspect_component fs ?c w = (q, w1)" by (rule prod.exhaust)
  show ?case
  proof (cases "\<exists>c. q = Inr c \<and> \<not> indirect c")
    case True
    then have "p \<noteq> ?c" using indirect_inspection[OF assms] q by blast
    then have "p \<in> set (component_paths ?c parts)" using Cons.prems by simp
    with Cons.IH show ?thesis using True q
      by (auto simp: Let_def andthen_def pure_def reject_indirection_def)
  next
    case False
    then show ?thesis using q
      by (cases q) (auto simp: Let_def andthen_def pure_def reject_indirection_def)
  qed
qed simp

lemma indirect_refused:
  assumes "always_indirect fs p" "p \<in> set (component_paths base (split_on 47 (se_path e)))"
  shows "\<exists>msg w'. open_source fs base e w = (Inl msg, w')"
proof -
  obtain msg w1 where "inspect_components fs base None (split_on 47 (se_path e)) w = (Inl msg, w1)"
    using indirect_components[OF assms] by blast
  then show ?thesis by (simp add: open_source_def validated_file_def relabelled_def andthen_def)
qed

lemma always_indirect_observed: "always_indirect fs p \<Longrightarrow> always_indirect (observed fs) p"
  unfolding always_indirect_def observed_def untraced_def by (auto split: prod.splits) (metis fst_conv
      prod.inject)+

lemma indirect_never_opened:
  assumes "always_indirect fs p" "p \<in> set (component_paths base (split_on 47 (se_path e)))"
    and "load_source (observed fs) env base e version (w, []) = Some (r, (w', evs))"
  shows "(\<exists>msg. r = Inl msg) \<and> evs = []"
proof (cases "version = 1")
  case True
  obtain msg s1 where s1: "open_source (observed fs) base e (w, []) = (Inl msg, s1)"
    using indirect_refused[OF always_indirect_observed[OF assms(1)] assms(2)] by blast
  then have "snd s1 = []" using open_source_events[OF s1] by simp
  then show ?thesis using assms(3) True s1 by (auto simp: load_source_def)
qed (use assms in \<open>auto simp: load_source_def\<close>)

section \<open>What a loaded draft holds\<close>

text \<open>The path an entry names below the approved root.\<close>

definition entry_path :: "path \<Rightarrow> zoned_time source_entry \<Rightarrow> path" where
  "entry_path base e = foldl child_path base (split_on 47 (se_path e))"

lemma inspected_path:
  "inspect_components fs cursor final parts w = (Inr (p, i), w') \<Longrightarrow> p = foldl child_path cursor parts"
proof (induction parts arbitrary: cursor final w)
  case Nil
  then show ?case by (auto split: option.splits)
next
  case (Cons part parts)
  from Cons.prems obtain c w1 where "inspect_components fs (child_path cursor part) (Some c) parts w1 = (Inr (p, i), w')"
    by (auto simp: Let_def elim!: andthen_InrE)
  from Cons.IH[OF this] show ?case by simp
qed

lemma validated_path:
  assumes "validated_file fs base e w = (Inr (p, i), w')"
  shows "p = entry_path base e"
proof -
  obtain w1 where "relabelled ''approved Markdown source is unavailable or unsafe''
      (inspect_components fs base None (split_on 47 (se_path e))) w = (Inr (p, i), w1)"
    using assms unfolding validated_file_def by (auto elim!: andthen_InrE)
  then show ?thesis unfolding entry_path_def
    by (intro inspected_path) (auto simp: relabelled_def split: prod.splits sum.splits)
qed

text \<open>A load that succeeds opened the path of the entry, checked the descriptor and read it to the end.\<close>

lemma load_source_InrE:
  assumes "load_source fs env base e version w = Some (Inr d, w')"
  obtains inspected fd raw w1 w2 w3 w4 where
    "validated_file fs base e w = (Inr (entry_path base e, inspected), w1)"
    "fs_open fs (entry_path base e) w1 = (Some fd, w2)" "check_handle fs inspected fd w2 = (Inr (), w3)"
    "read_bounded fs fd w3 = Some (Some raw, w4)" "adapt_source env e raw = Inr d"
proof -
  obtain i fd w2 where o: "open_source fs base e w = (Inr (i, fd), w2)" "version = 1"
    using assms by (auto simp: load_source_def split: if_splits prod.splits sum.splits)
  obtain res w4 where r: "read_source fs i fd w2 = Some (res, w4)" "bindE res (adapt_source env e) =
      Inr d"
    using assms o by (auto simp: load_source_def split: option.splits prod.splits)
  obtain raw where raw: "res = Inr raw" "adapt_source env e raw = Inr d"
    using r(2) by (auto elim: bindE_InrE)
  obtain w3 where h: "check_handle fs i fd w2 = (Inr (), w3)" "read_bounded fs fd w3 = Some (Some raw, w4)"
    using r(1) raw(1) unfolding read_source_def by (auto split: prod.splits sum.splits option.splits)
  obtain p w1 where p: "validated_file fs base e w = (Inr (p, i), w1)" "fs_open fs p w1 = (Some fd, w2)"
    using o(1) unfolding open_source_def os_call_def
    by (auto elim!: andthen_InrE split: prod.splits option.splits)
  show thesis by (rule that[OF _ _ h raw(2)]) (use p validated_path[OF p(1)] in simp_all)
qed

definition source_digest :: "source_env \<Rightarrow> nat list \<Rightarrow> int \<Rightarrow> source_provenance" where
  "source_digest env raw major = \<lparr>sp_catalog_version = 1, sp_raw_source_sha256 = so_sha256 env raw,
     sp_parser_name = lit ''markdown-it-py'', sp_parser_major_version = major,
     sp_adapter_contract_version = 1\<rparr>"

lemma adapt_source_InrE:
  assumes "adapt_source env e raw = Inr d"
  obtains s u normalized secs major where "length raw \<le> MAXIMUM_RAW_SOURCE_BYTES"
    "so_sha256 env raw = se_raw_sha256 e" "decode_utf8_sig raw = Some s" "without_front_matter s = Inr
        u"
    "normalize_text (so_nfc env) u = Inr normalized" "reject_raw_html (so_probe env) normalized = Inr
        ()"
    "md_sections (so_nfc env) (so_parse env normalized) = Inr secs"
    "validate_draft (so_lower env) (so_nfc env) (entry_draft e (source_digest env raw major) secs) =
        Inr d"
proof -
  obtain s where s: "length raw \<le> MAXIMUM_RAW_SOURCE_BYTES" "so_sha256 env raw = se_raw_sha256 e"
    "decode_utf8_sig raw = Some s"
    using assms unfolding adapt_source_def by (auto split: option.splits elim!: raise_if_InrE)
  note run = assms[unfolded adapt_source_def, simplified s option.case]
  obtain u normalized secs major provenance where r: "without_front_matter s = Inr u"
    "normalize_text (so_nfc env) u = Inr normalized" "reject_raw_html (so_probe env) normalized = Inr
        ()"
    "md_sections (so_nfc env) (so_parse env normalized) = Inr secs"
    "validate_provenance (source_digest env raw major) = Inr provenance"
    "validate_draft (so_lower env) (so_nfc env) (entry_draft e provenance secs) = Inr d"
    using run s(1,2) unfolding source_digest_def by (auto elim!: bindE_InrE raise_if_InrE)
  then have "provenance = source_digest env raw major"
    unfolding validate_provenance_def by (auto elim!: bindE_InrE raise_if_InrE)
  then show thesis using that s r by blast
qed

lemma validate_source_entry_fields:
  assumes "validate_source_entry lower raw = Inr e"
  shows "canonical_semver (gv_document_version raw) = Inr (gv_document_version e)"
    "validate_code lower (gv_namespace raw) = Inr (gv_namespace e)"
    "optional_checked validate_identifier (gv_customer_environment_id raw) = Inr
        (gv_customer_environment_id e)"
    "language_code (gv_language raw) = Inr (gv_language e)"
    "map_checked (validate_code lower) (gv_required_modules_all raw) = Inr (gv_required_modules_all e)"
    "map_checked validate_policy_code (gv_required_permissions_all raw) = Inr
        (gv_required_permissions_all e)"
    "map_checked (validate_code lower) (gv_allowed_purposes raw) = Inr (gv_allowed_purposes e)"
    "map_checked validate_identifier (gv_legal_entity_ids raw) = Inr (gv_legal_entity_ids e)"
    "validate_identifier (se_approval_reference raw) = Inr (se_approval_reference e)"
    "bindE (plain_text 1 500 (se_path raw)) (relative_markdown_path lower) = Inr (se_path e)"
  using assms unfolding validate_source_entry_def Let_def unique_items_def unique_tuple_def
      min_length_1_def
  by (auto elim!: bindE_InrE raise_if_InrE split: if_splits)

lemma stable_twice: "stable f \<Longrightarrow> f x = Inr y \<Longrightarrow> f y = Inr z \<Longrightarrow> z = y"
  by (simp add: stable_def)

lemma entry_draft_fields [simp]:
  "gv_document_version (entry_draft e p secs) = gv_document_version e"
  "gv_namespace (entry_draft e p secs) = gv_namespace e"
  "gv_customer_environment_id (entry_draft e p secs) = gv_customer_environment_id e"
  "gv_language (entry_draft e p secs) = gv_language e" "gv_title (entry_draft e p secs) = gv_title e"
  "gv_required_modules_all (entry_draft e p secs) = gv_required_modules_all e"
  "gv_required_permissions_all (entry_draft e p secs) = gv_required_permissions_all e"
  "gv_allowed_purposes (entry_draft e p secs) = gv_allowed_purposes e"
  "gv_legal_entity_ids (entry_draft e p secs) = gv_legal_entity_ids e"
  "gv_effective_from (entry_draft e p secs) = Zoned (gv_effective_from e)"
  "gv_effective_to (entry_draft e p secs) = map_option Zoned (gv_effective_to e)"
  "dr_approval_reference (entry_draft e p secs) = se_approval_reference e"
  "dr_approved_at (entry_draft e p secs) = Zoned (se_approved_at e)"
  "dr_source_provenance (entry_draft e p secs) = Some p" "dr_sections (entry_draft e p secs) = secs"
  "gv_document_id (entry_draft e p secs) = gv_document_id e"
  "gv_source_type (entry_draft e p secs) = gv_source_type e"
  "gv_data_classification (entry_draft e p secs) = gv_data_classification e"
  by (simp_all add: entry_draft_def)

text \<open>A validated entry is validated again by the draft, which changes nothing but the title.\<close>

lemma draft_keeps_governance:
  assumes "case_mapping lower upper" "validate_source_entry lower raw = Inr e"
    and "validate_draft lower nfc (entry_draft e provenance secs) = Inr d"
  shows "governance.truncate d = governance.truncate (e\<lparr>gv_title := gv_title d\<rparr>)"
    and "dr_approval_reference d = se_approval_reference e" and "dr_approved_at d = se_approved_at e"
proof -
  note f = validate_draft_fields[OF assms(3), unfolded entry_draft_fields]
    and g = validate_source_entry_fields[OF assms(2)]
  have code: "stable (validate_code lower)" by (rule stable_code[OF assms(1)])
  have times: "gv_effective_from d = gv_effective_from e" "gv_effective_to d = gv_effective_to e"
    "dr_approved_at d = se_approved_at e"
    using f(10,11,13) by (cases "gv_effective_to e"; simp)+
  have "gv_document_version d = gv_document_version e" by (rule stable_twice[OF stable_leaves(2) g(1)
      f(1)])
  moreover have "gv_namespace d = gv_namespace e" by (rule stable_twice[OF code g(2) f(2)])
  moreover have "gv_customer_environment_id d = gv_customer_environment_id e"
    by (rule stable_twice[OF stable_optional[OF stable_leaves(8)] g(3) f(3)])
  moreover have "gv_language d = gv_language e" by (rule stable_twice[OF stable_leaves(6) g(4) f(5)])
  moreover have "gv_required_modules_all d = gv_required_modules_all e"
    by (rule stable_twice[OF stable_map[OF code] g(5) f(6)])
  moreover have "gv_required_permissions_all d = gv_required_permissions_all e"
    by (rule stable_twice[OF stable_map[OF stable_leaves(5)] g(6) f(7)])
  moreover have "gv_allowed_purposes d = gv_allowed_purposes e"
    by (rule stable_twice[OF stable_map[OF code] g(7) f(8)])
  moreover have "gv_legal_entity_ids d = gv_legal_entity_ids e"
    by (rule stable_twice[OF stable_map[OF stable_leaves(8)] g(8) f(9)])
  ultimately show "governance.truncate d = governance.truncate (e\<lparr>gv_title := gv_title d\<rparr>)"
    using times f(16-18) by (simp add: governance.truncate_def)
  show "dr_approval_reference d = se_approval_reference e"
    by (rule stable_twice[OF stable_leaves(8) g(9) f(12)])
  show "dr_approved_at d = se_approved_at e" by (rule times(3))
qed

text \<open>The sections of the adapter are validated again by the draft, which keeps their keys and blocks.\<close>

lemma md_sections_valid:
  assumes "nfc_stable nfc" "md_sections nfc ts = Inr secs" "map_checked (validate_section nfc) secs =
      Inr ss"
  shows "map sec_key ss = map sec_key secs" "concat (map sec_blocks ss) = concat (map sec_blocks secs)"
proof -
  note texts = md_sections_blocks[OF assms(1,2)]
  have normal: "normalize_text nfc b = Inr b" if "b \<in> set (concat (map sec_blocks secs))" for b
    using map_checked_member[OF texts that] normalized_normal[OF assms(1)] by blast
  have keeps: "sec_key t = sec_key s \<and> sec_blocks t = sec_blocks s"
    if "s \<in> set secs" "validate_section nfc s = Inr t" for s t
  proof -
    have "list_all (\<lambda>b. normalize_text nfc b = Inr b) (sec_blocks s)"
      using normal that(1) by (auto simp: list_all_iff)
    then show ?thesis using validate_section_fields[OF that(2)] map_text_field_fixed[OF assms(1)] by
        auto
  qed
  have all2: "list_all2 (\<lambda>s t. sec_key t = sec_key s \<and> sec_blocks t = sec_blocks s) secs ss"
    using map_checked_InrD[OF assms(3)] keeps by (auto intro: list.rel_mono_strong)
  then show "map sec_key ss = map sec_key secs" "concat (map sec_blocks ss) = concat (map sec_blocks
      secs)"
    by (induction rule: list_all2_induct) simp_all
qed

lemma adapted_draft:
  assumes cm: "case_mapping (so_lower env) upper" and nfc: "nfc_stable (so_nfc env)"
    and e: "validate_source_entry (so_lower env) e0 = Inr e" and a: "adapt_source env e raw = Inr d"
  shows "so_sha256 env raw = se_raw_sha256 e \<and> length raw \<le> MAXIMUM_RAW_SOURCE_BYTES
    \<and> governance.truncate d = governance.truncate (e\<lparr>gv_title := gv_title d\<rparr>)
    \<and> dr_approval_reference d = se_approval_reference e \<and> dr_approved_at d = se_approved_at e
    \<and> map_option sp_raw_source_sha256 (dr_source_provenance d) = Some (se_raw_sha256 e)
    \<and> (\<exists>s u normalized. decode_utf8_sig raw = Some s \<and> without_front_matter s = Inr u
         \<and> normalize_text (so_nfc env) u = Inr normalized
         \<and> map_checked (token_text (so_nfc env)) (body_tokens False (so_parse env normalized))
             = Inr (concat (map sec_blocks (dr_sections d))))
    \<and> distinct (map sec_key (dr_sections d))"
proof -
  obtain s u normalized secs major where r: "length raw \<le> MAXIMUM_RAW_SOURCE_BYTES"
    "so_sha256 env raw = se_raw_sha256 e" "decode_utf8_sig raw = Some s" "without_front_matter s = Inr
        u"
    "normalize_text (so_nfc env) u = Inr normalized"
    "md_sections (so_nfc env) (so_parse env normalized) = Inr secs"
    "validate_draft (so_lower env) (so_nfc env) (entry_draft e (source_digest env raw major) secs) =
        Inr d"
    using adapt_source_InrE[OF a] by metis
  note f = validate_draft_fields(14,15)[OF r(7), unfolded entry_draft_fields]
  note same = md_sections_valid[OF nfc r(6) f(2)]
  have "dr_source_provenance d = Some (source_digest env raw major)"
    using f(1) unfolding validate_provenance_def
    by (auto elim!: bindE_InrE raise_if_InrE split: if_splits)
  then have prov: "map_option sp_raw_source_sha256 (dr_source_provenance d) = Some (se_raw_sha256 e)"
    using r(2) by (simp add: source_digest_def)
  have blocks: "map_checked (token_text (so_nfc env)) (body_tokens False (so_parse env normalized))
      = Inr (concat (map sec_blocks (dr_sections d)))"
    using md_sections_blocks[OF nfc r(6)] same(2) by simp
  have keys: "distinct (map sec_key (dr_sections d))"
    using keyed_distinct[OF md_sections_keyed[OF r(6)]] same(1) by simp
  show ?thesis using r(1-5) prov blocks keys draft_keeps_governance[OF cm e r(7)] by blast
qed

lemma read_bounded_content:
  assumes "reads_file (\<lambda>n. fs_read fs (fd, n)) content"
  shows "\<exists>w'. read_bounded fs fd w = Some (Some (take (MAXIMUM_RAW_SOURCE_BYTES + 1) (content w)), w')"
  using read_loop_exact[OF assms, of "MAXIMUM_RAW_SOURCE_BYTES + 1" "[]" w]
  by (simp add: read_bounded_def add.commute)

text \<open>The files of the system: a descriptor that is opened holds the bytes of the file at the path, and looking at
  its metadata keeps them. A read may fail; one that returns delivers the next bytes of what is left, and nobody
  else writes to the file in between.\<close>

definition serves_files :: "'w files \<Rightarrow> (path \<Rightarrow> 'w \<Rightarrow> nat list) \<Rightarrow> (nat \<Rightarrow> 'w \<Rightarrow> nat list) \<Rightarrow> bool" where
  "serves_files fs file rest \<longleftrightarrow>
     (\<forall>p w fd w'. fs_open fs p w = (Some fd, w') \<longrightarrow> rest fd w' = file p w)
     \<and> (\<forall>fd w. rest fd (snd (fs_fstat fs fd w)) = rest fd w)
     \<and> (\<forall>fd. delivers (\<lambda>n. fs_read fs (fd, n)) (rest fd))"

lemma check_handle_keeps:
  assumes "serves_files fs file rest" "check_handle fs inspected fd w = (Inr u, w')"
  shows "rest fd w' = rest fd w"
proof -
  have "w' = snd (fs_fstat fs fd w)"
    using assms(2) unfolding check_handle_def Let_def os_call_def pure_def unless_def
    by (auto elim!: andthen_InrE split: prod.splits option.splits if_splits)
  then show ?thesis using assms(1) unfolding serves_files_def by simp
qed

lemma load_source_content:
  assumes "serves_files fs file rest" and "load_source fs env base e version w = Some (Inr d, w')"
  obtains inspected fd w1 w2 where "validated_file fs base e w = (Inr (entry_path base e, inspected), w1)"
    "fs_open fs (entry_path base e) w1 = (Some fd, w2)" "adapt_source env e (file (entry_path base e) w1) = Inr d"
proof -
  obtain i fd raw w1 w2 w3 w4 where r: "validated_file fs base e w = (Inr (entry_path base e, i), w1)"
    "fs_open fs (entry_path base e) w1 = (Some fd, w2)" "check_handle fs i fd w2 = (Inr (), w3)"
    "read_bounded fs fd w3 = Some (Some raw, w4)" "adapt_source env e raw = Inr d"
    by (rule load_source_InrE[OF assms(2)])
  have c: "rest fd w3 = file (entry_path base e) w1"
    using check_handle_keeps[OF assms(1) r(3)] assms(1) r(2) unfolding serves_files_def by metis
  have limit: "int MAXIMUM_RAW_SOURCE_BYTES + 1 = int (Suc MAXIMUM_RAW_SOURCE_BYTES)" by simp
  have "delivers (\<lambda>n. fs_read fs (fd, n)) (rest fd)" using assms(1) unfolding serves_files_def by blast
  from read_loop_delivered[OF this r(4)[unfolded read_bounded_def limit]]
  have raw: "raw = take (Suc MAXIMUM_RAW_SOURCE_BYTES) (file (entry_path base e) w1)" using c by simp
  have "length raw \<le> MAXIMUM_RAW_SOURCE_BYTES" using adapt_source_InrE[OF r(5)] by metis
  then have "raw = file (entry_path base e) w1" unfolding raw by simp
  with r(1,2,5) that show thesis by blast
qed

section \<open>A sample source\<close>

definition sample_token :: "string \<Rightarrow> string \<Rightarrow> string \<Rightarrow> md_token" where
  "sample_token t tag s = \<lparr>tk_type = lit t, tk_tag = lit tag, tk_content = lit s,
     tk_children = (if t = ''inline'' then Some [\<lparr>ch_type = lit ''text'', ch_content = lit s, ch_href =
         None\<rparr>]
       else None)\<rparr>"

definition sample_tokens :: "md_token list" where
  "sample_tokens = [sample_token ''heading_open'' ''h1'' '''', sample_token ''inline'' '''' ''Leave'',
     sample_token ''heading_close'' ''h1'' '''', sample_token ''paragraph_open'' ''p'' '''',
     sample_token ''inline'' '''' ''Ask'', sample_token ''paragraph_close'' ''p'' '''']"

definition sample_source_env :: source_env where
  "sample_source_env = \<lparr>so_lower = ascii_lower, so_nfc = (\<lambda>s. s), so_sha256 = (\<lambda>_. replicate 64 48),
     so_parse = (\<lambda>_. sample_tokens), so_probe = (\<lambda>_. []), so_parser_version = lit ''3.0.0''\<rparr>"

definition sample_raw_entry :: "raw_datetime source_entry" where
  "sample_raw_entry = \<lparr>gv_document_id = 5, gv_document_version = lit ''1.2.0'', gv_namespace = lit
      ''hr'',
     gv_source_type = CUSTOMER_POLICY, gv_customer_environment_id = Some (lit ''env1''),
     gv_required_modules_all = [lit ''hr_core''], gv_required_permissions_all = [],
     gv_allowed_purposes = [lit ''self_service''], gv_legal_entity_ids = [],
     gv_data_classification = INTERNAL, gv_language = lit ''en'', gv_title = lit ''Leave'',
     gv_effective_from = Zoned sample_time, gv_effective_to = None, se_path = lit ''hr/leave.md'',
     se_raw_sha256 = replicate 64 48, se_approval_reference = lit ''apr1'', se_approved_at = Zoned
         sample_time\<rparr>"

definition sample_entry :: "zoned_time source_entry" where
  "sample_entry = \<lparr>gv_document_id = 5, gv_document_version = lit ''1.2.0'', gv_namespace = lit ''hr'',
     gv_source_type = CUSTOMER_POLICY, gv_customer_environment_id = Some (lit ''env1''),
     gv_required_modules_all = [lit ''hr_core''], gv_required_permissions_all = [],
     gv_allowed_purposes = [lit ''self_service''], gv_legal_entity_ids = [],
     gv_data_classification = INTERNAL, gv_language = lit ''en'', gv_title = lit ''Leave'',
     gv_effective_from = sample_time, gv_effective_to = None, se_path = lit ''hr/leave.md'',
     se_raw_sha256 = replicate 64 48, se_approval_reference = lit ''apr1'', se_approved_at =
         sample_time\<rparr>"

text \<open>A file system whose one regular file is read two bytes at a time; the world is what is left of
    it.\<close>

definition sample_stat :: file_stat where
  "sample_stat = \<lparr>st_mode = 33188, st_size = 5, st_dev = Some 1, st_ino = Some 7, st_attributes = 0\<rparr>"

definition sample_files :: "nat list files" where
  "sample_files = \<lparr>fs_lstat = (\<lambda>p w. (Some sample_stat, w)), fs_is_junction = (\<lambda>p w. (Some False, w)),
     fs_resolve = (\<lambda>p w. (Some p, w)), fs_is_dir = (\<lambda>p w. (True, w)), fs_open = (\<lambda>p w. (Some 3, w)),
     fs_fstat = (\<lambda>fd w. (Some sample_stat, w)),
     fs_read = (\<lambda>(fd, n) w. (Some (take (min 2 (nat n)) w), drop (min 2 (nat n)) w)),
     fs_close = (\<lambda>fd w. (Some (), w))\<rparr>"

lemma sample_mode: "is_regular_mode 33188" "\<not> is_link_mode 33188"
  by (simp_all add: is_regular_mode_def is_link_mode_def file_type_def)

lemma sample_reads: "reads_file (\<lambda>n. fs_read sample_files (fd, n)) (\<lambda>w. w)"
  by (auto simp: reads_file_def sample_files_def)

lemma sample_serves: "serves_files sample_files (\<lambda>_ w. w) (\<lambda>_ w. w)"
  by (auto simp: serves_files_def delivers_def sample_files_def)

lemma sample_bounded: "bounded_reads sample_files"
  by (auto simp: bounded_reads_def sample_files_def)

lemma sample_raw_digest_valid: "validate_digest (replicate 64 48) = Inr (replicate 64 48)"
  by (simp add: validate_digest_def is_digest_def is_hex_def is_digit_def list_all_iff)

lemma sample_entry_valid: "validate_source_entry ascii_lower sample_raw_entry = Inr sample_entry"
  by (simp add: sample_raw_entry_def sample_entry_def validate_source_entry_def canonical_semver_def
      re_dollar_def
      is_semver_def validate_code_def ascii_lower_def lower_char_def validate_identifier_def
          plain_text_def
      language_code_def is_language_code_def is_language_tag_def unique_items_def unique_tuple_def
      min_length_1_def ends_before_start_def py_strip_def py_rstrip_def py_isspace_def
          is_canonical_number_def
      is_alpha_def sample_text relative_markdown_path_def posix_absolute_def posix_parts_def
          name_suffix_def
      Let_def sample_raw_digest_valid)


lemma three: "replicate 3 (48::nat) = [48, 48, 48]" by (simp add: numeral_eq_Suc)

lemma sample_sections: "md_sections (\<lambda>s. s) sample_tokens
    = Inr [\<lparr>sec_key = lit ''section_0001'', sec_heading = lit ''Leave'', sec_blocks = [lit ''Ask'']\<rparr>]"
  by (simp add: md_sections_def sample_tokens_def sample_token_def section_step_def section_start_def
      flush_section_def heading_level_def py_int_def digits_value_def is_digit_def inline_text_def
      normalize_text_def close_heading_def replace_tail_def next_key_def zero_padded_def
          nat_digits.simps
      STRUCTURAL_def validate_section_def validate_section_key_def is_segment_def is_lower_def
      is_code_char_def min_length_1_def text_field_def utf8_encodable_def replace_cr_def
      unsafe_control_def is_control_def py_strip_def py_rstrip_def py_isspace_def Let_def sample_text
          three)


lemma sample_adapted: "\<exists>d. adapt_source sample_source_env sample_entry [72, 105] = Inr d"
proof -
  have norm: "normalize_text (\<lambda>s. s) [72, 105] = Inr [72, 105]"
    by (simp add: normalize_text_def replace_cr_def unsafe_control_def is_control_def py_strip_def
        py_rstrip_def py_isspace_def Let_def)
  have plain: "without_front_matter [72, 105] = Inr [72, 105]"
    by (simp add: without_front_matter_def is_line_break_def py_strip_def py_rstrip_def py_isspace_def
        lit_def)
  have bytes: "decode_utf8_sig [72, 105] = Some [72, 105]" by (simp add: decode_utf8_sig_def)
  have major: "parser_major (lit ''3.0.0'') = Inr 3"
    by (simp add: parser_major_def py_int_def py_strip_def py_rstrip_def py_isspace_def lit_def
        digits_value_def is_digit_def)
  show ?thesis
    by (simp add: adapt_source_def sample_source_env_def bytes plain norm major sample_sections
        reject_raw_html_def MAXIMUM_RAW_SOURCE_BYTES_def validate_provenance_def
            sample_raw_digest_valid)
      (simp add: sample_entry_def entry_draft_def validate_draft_def canonical_semver_def re_dollar_def
        is_semver_def validate_code_def ascii_lower_def lower_char_def validate_identifier_def
        text_field_def normalize_text_def language_code_def is_language_code_def is_language_tag_def
        unique_items_def unique_tuple_def min_length_1_def validate_section_def
        validate_section_key_def is_segment_def ends_before_start_def utf8_encodable_def py_strip_def
        py_rstrip_def py_isspace_def unsafe_control_def is_control_def replace_cr_def
        is_canonical_number_def is_alpha_def sample_text validate_provenance_def
            sample_raw_digest_valid)
qed

section \<open>Sample runs\<close>

definition sample_inspection :: inspection where
  "sample_inspection = \<lparr>ci_mode = 33188, ci_size = 5, ci_device = Some 1, ci_inode = Some 7,
     ci_symbolic_link = False, ci_junction = False, ci_reparse_point = False\<rparr>"

lemma sample_metadata: "metadata_from_stat sample_stat False = sample_inspection"
  by (simp add: metadata_from_stat_def sample_stat_def sample_inspection_def sample_mode)

lemma sample_direct: "reject_indirection sample_inspection = Inr ()"
  by (simp add: reject_indirection_def indirect_def sample_inspection_def)

lemma sample_parts: "split_on 47 (lit ''hr/leave.md'') = [lit ''hr'', lit ''leave.md'']"
  by (simp add: lit_def)

lemmas sample_system = os_call_def relabelled_def andthen_def give_def pure_def inspect_component_def
  open_source_def validated_file_def child_path_def sample_metadata sample_direct sample_parts

lemma sample_opened:
  "open_source sample_files [lit ''kb''] sample_entry w = (Inr (sample_inspection, 3), w)"
  "open_source (observed sample_files) [lit ''kb''] sample_entry (w, evs)
     = (Inr (sample_inspection, 3), (w, evs @ [Opened 3]))"
  by (simp_all add: sample_system sample_files_def observed_def untraced_def sample_entry_def lit_def
      MAXIMUM_RAW_SOURCE_BYTES_def)
    (simp_all add: sample_inspection_def sample_mode)

lemma sample_handle:
  "check_handle sample_files sample_inspection 3 w = (Inr (), w)"
  "check_handle (observed sample_files) sample_inspection 3 (w, evs) = (Inr (), (w, evs))"
  by (simp_all add: check_handle_def sample_system sample_files_def observed_def untraced_def
      unless_def)
    (simp_all add: sample_inspection_def sample_mode same_file_identity_def)

lemma sample_observed_reads: "reads_file (\<lambda>n. fs_read (observed sample_files) (fd, n)) fst"
  by (auto simp: reads_file_def sample_files_def observed_def untraced_def)

lemma sample_load:
  "\<exists>d w'. load_source sample_files sample_source_env [lit ''kb''] sample_entry 1 [72, 105] = Some (Inr
      d, w')"
proof -
  obtain d where d: "adapt_source sample_source_env sample_entry [72, 105] = Inr d" using
      sample_adapted by blast
  obtain w' where r: "read_bounded sample_files 3 [72, 105] = Some (Some [72, 105], w')"
    using read_bounded_content[OF sample_reads, of 3 "[72, 105]"] by (auto simp:
        MAXIMUM_RAW_SOURCE_BYTES_def)
  have "fs_close sample_files 3 w' = (Some (), w')" by (simp add: sample_files_def)
  then show ?thesis by (simp add: load_source_def sample_opened read_source_def sample_handle r d)
qed

lemma sample_observed_load:
  "\<exists>d w' evs. load_source (observed sample_files) sample_source_env [lit ''kb''] sample_entry 1 ([72,
      105], [])
     = Some (Inr d, (w', evs))"
proof -
  obtain d where d: "adapt_source sample_source_env sample_entry [72, 105] = Inr d" using
      sample_adapted by blast
  obtain w' evs where r: "read_bounded (observed sample_files) 3 ([72, 105], [Opened 3]) = Some (Some
      [72, 105], (w', evs))"
    using read_bounded_content[OF sample_observed_reads, of 3 "([72, 105], [Opened 3])"]
    by (auto simp: MAXIMUM_RAW_SOURCE_BYTES_def)
  have "fs_close (observed sample_files) 3 (w', evs) = (Some (), (w', evs @ [Closed 3]))"
    by (simp add: sample_files_def observed_def traced_def)
  then show ?thesis by (simp add: load_source_def sample_opened read_source_def sample_handle r d)
qed

section \<open>Properties\<close>

text \<open>C17: Loading a source always returns, whatever the files hold and however short the reads are, as
    long as
  a read delivers no more than was asked for.\<close>

theorem load_returns:
  assumes "bounded_reads fs"
  shows "\<exists>result w'. load_source fs env base e version w = Some (result, w')"
  by (rule load_source_total[OF assms])

theorem load_returns_witness:
  "\<exists>result w'. load_source sample_files sample_source_env [lit ''kb''] sample_entry 1 [72, 105] = Some
      (result, w')"
  by (rule load_returns[OF sample_bounded])

text \<open>The descriptor a load opens is closed on every path, and a load that opens none returns an
    error.\<close>

theorem load_closes_descriptor:
  assumes "load_source (observed fs) env base e version (w, []) = Some (r, (w', evs))"
  shows "evs = [] \<and> (\<exists>msg. r = Inl msg) \<or> (\<exists>fd. evs = [Opened fd, Closed fd])"
  by (rule load_source_events[OF assms])

theorem load_closes_descriptor_witness:
  "\<exists>d w' fd. load_source (observed sample_files) sample_source_env [lit ''kb''] sample_entry 1 ([72,
      105], [])
     = Some (Inr d, (w', [Opened fd, Closed fd]))"
proof -
  obtain d w' evs where r: "load_source (observed sample_files) sample_source_env [lit ''kb'']
      sample_entry 1
      ([72, 105], []) = Some (Inr d, (w', evs))"
    using sample_observed_load by blast
  from load_closes_descriptor[OF r] show ?thesis using r by auto
qed

text \<open>C18: No file is opened when a component of its path is a symbolic link, a junction or a reparse
    point.\<close>

theorem indirection_never_opened:
  assumes "always_indirect fs p" and "p \<in> set (component_paths base (split_on 47 (se_path e)))"
    and "load_source (observed fs) env base e version (w, []) = Some (r, (w', evs))"
  shows "(\<exists>msg. r = Inl msg) \<and> evs = []"
  by (rule indirect_never_opened[OF assms])

definition linked_files :: "nat list files" where
  "linked_files = sample_files\<lparr>fs_lstat := \<lambda>p w. (Some (sample_stat\<lparr>st_mode := 41471\<rparr>), w)\<rparr>"

theorem indirection_never_opened_witness:
  "\<exists>msg w'. load_source (observed linked_files) sample_source_env [lit ''kb''] sample_entry 1 ([72,
      105], [])
     = Some (Inl msg, (w', []))"
proof -
  have link: "always_indirect linked_files [lit ''kb'', lit ''hr'']"
    by (simp add: always_indirect_def linked_files_def is_link_mode_def file_type_def)
  have "bounded_reads (observed linked_files)"
    by (auto simp: bounded_reads_def linked_files_def observed_def untraced_def sample_files_def split:
        prod.splits)
  then obtain r w' evs where r: "load_source (observed linked_files) sample_source_env [lit ''kb'']
      sample_entry 1
      ([72, 105], []) = Some (r, (w', evs))"
    using load_source_total by (metis surj_pair)
  have "[lit ''kb'', lit ''hr''] \<in> set (component_paths [lit ''kb''] (split_on 47 (se_path
      sample_entry)))"
    by (simp add: sample_entry_def lit_def child_path_def)
  from indirection_never_opened[OF link this r] show ?thesis using r by auto
qed

text \<open>C16: A loaded draft is the file the catalog names: the bytes at the path of the entry below the approved
  root, when it was opened, have the digest of the entry, the governed fields are those of the entry, the
  provenance records the digest, and its sections carry, in order, every piece of body text of the parsed
  content that follows the front matter, under distinct keys. Opening and reading may fail; where a read
  returns, it delivers the next bytes of the file that was opened, which nobody else writes meanwhile.\<close>

theorem loaded_draft_faithful:
  assumes "case_mapping (so_lower env) upper" and "nfc_stable (so_nfc env)"
    and "serves_files fs file rest"
    and "validate_source_entry (so_lower env) e0 = Inr e"
    and "load_source fs env base e version w = Some (Inr d, w')"
  shows "\<exists>inspected fd w1 w2. validated_file fs base e w = (Inr (entry_path base e, inspected), w1)
    \<and> fs_open fs (entry_path base e) w1 = (Some fd, w2)
    \<and> (let raw = file (entry_path base e) w1 in
    so_sha256 env raw = se_raw_sha256 e \<and> length raw \<le> MAXIMUM_RAW_SOURCE_BYTES
    \<and> governance.truncate d = governance.truncate (e\<lparr>gv_title := gv_title d\<rparr>)
    \<and> dr_approval_reference d = se_approval_reference e \<and> dr_approved_at d = se_approved_at e
    \<and> map_option sp_raw_source_sha256 (dr_source_provenance d) = Some (se_raw_sha256 e)
    \<and> (\<exists>s u normalized. decode_utf8_sig raw = Some s \<and> without_front_matter s = Inr u
         \<and> normalize_text (so_nfc env) u = Inr normalized
         \<and> map_checked (token_text (so_nfc env)) (body_tokens False (so_parse env normalized))
             = Inr (concat (map sec_blocks (dr_sections d))))
    \<and> distinct (map sec_key (dr_sections d)))"
proof -
  obtain i fd w1 w2 where v: "validated_file fs base e w = (Inr (entry_path base e, i), w1)"
    "fs_open fs (entry_path base e) w1 = (Some fd, w2)"
    and a: "adapt_source env e (file (entry_path base e) w1) = Inr d"
    by (rule load_source_content[OF assms(3,5)])
  from adapted_draft[OF assms(1,2,4) a] v show ?thesis unfolding Let_def by blast
qed

theorem loaded_draft_faithful_witness:
  "\<exists>d w'. load_source sample_files sample_source_env [lit ''kb''] sample_entry 1 [72, 105] = Some (Inr
      d, w')
     \<and> map_option sp_raw_source_sha256 (dr_source_provenance d) = Some (replicate 64 48)
     \<and> concat (map sec_blocks (dr_sections d)) = [lit ''Ask'']"
proof -
  obtain d w' where d: "load_source sample_files sample_source_env [lit ''kb''] sample_entry 1 [72,
      105] = Some (Inr d, w')"
    using sample_load by blast
  have "nfc_stable (so_nfc sample_source_env)" "case_mapping (so_lower sample_source_env) ascii_upper"
    "validate_source_entry (so_lower sample_source_env) sample_raw_entry = Inr sample_entry"
    by (simp_all add: nfc_stable_def sample_source_env_def case_mapping_ascii sample_entry_valid)
  from loaded_draft_faithful[OF this(2,1) sample_serves this(3) d]
  have "map_option sp_raw_source_sha256 (dr_source_provenance d) = Some (replicate 64 48)"
    "map_checked (token_text (\<lambda>s. s)) (body_tokens False sample_tokens) = Inr (concat (map sec_blocks
        (dr_sections d)))"
    unfolding Let_def by (auto simp: sample_source_env_def sample_entry_def)
  moreover have "map_checked (token_text (\<lambda>s. s)) (body_tokens False sample_tokens) = Inr [lit ''Ask'']"
    by (simp add: sample_tokens_def sample_token_def token_text_def inline_text_def normalize_text_def
        replace_cr_def unsafe_control_def is_control_def py_strip_def py_rstrip_def py_isspace_def
            lit_def)
  ultimately show ?thesis using d by auto
qed

text \<open>The sections of a Markdown source keep, in order, the text of every body token, are not empty and
  have distinct keys.\<close>

theorem sections_keep_text:
  assumes "nfc_stable nfc" and "md_sections nfc ts = Inr secs"
  shows "map_checked (token_text nfc) (body_tokens False ts) = Inr (concat (map sec_blocks secs))
    \<and> distinct (map sec_key secs) \<and> secs \<noteq> []"
  using md_sections_blocks[OF assms] keyed_distinct[OF md_sections_keyed[OF assms(2)]]
    md_sections_steps[OF assms(2)] by metis

theorem sections_keep_text_witness:
  "map_checked (token_text (\<lambda>s. s)) (body_tokens False sample_tokens) = Inr [lit ''Ask'']"
  using sections_keep_text[of "\<lambda>s. s", OF _ sample_sections] by (simp add: nfc_stable_def)

section \<open>Observations\<close>

text \<open>After a skipped heading level, a heading of the same level as the one before it is placed beneath
    it.\<close>

lemma skipped_level_nests_sibling:
  "replace_tail (replace_tail (replace_tail [] 1 (lit ''A'')) 3 (lit ''B'')) 3 (lit ''C'')
     = [lit ''A'', lit ''B'', lit ''C'']"
  by (simp add: replace_tail_def)

text \<open>Two spellings of one file pass the path rule and differ as texts; a path without parts is an
  \<open>IndexError\<close>.\<close>

lemma aliased_paths_accepted:
  "relative_markdown_path ascii_lower (lit ''a/b.md'') = Inr (lit ''a/b.md'')"
  "relative_markdown_path ascii_lower (lit ''a//b.md'') = Inr (lit ''a//b.md'')"
  "component_paths base (split_on 47 (lit ''a//b.md'')) = [base @ [lit ''a''], base @ [lit ''a''], base
      @ [lit ''a'', lit ''b.md'']]"
  "relative_markdown_path ascii_lower (lit ''.'') = Inl ''IndexError''"
  by (simp_all add: relative_markdown_path_def posix_absolute_def posix_parts_def name_suffix_def
      Let_def
      lit_def ascii_lower_def lower_char_def child_path_def)

end
