(* ===== verification/ErpCursor.thy ===== *)
theory ErpCursor
  imports Assertion JsonText Leave
begin

text \<open>
  The configuration of the ERP readers and the signed cursor of the leave request list
  (\<open>src/erp_ai/infrastructure/postgres_erp/config.py\<close>, \<open>cursor.py\<close>). SHA-256, HMAC, \<open>json.loads\<close>,
  \<open>datetime.fromisoformat\<close> and \<open>UUID(hex=...)\<close> are fields of an environment; the standard base64 of a
  key and the text of a payload are written out.
\<close>

section \<open>Configuration\<close>

text \<open>
  \<open>base64.b64decode(value, validate=True)\<close>: the standard alphabet only, no data after sufficient padding
  or between padding characters, no leading padding. Padding after a complete group is accepted.
\<close>

definition b64_standard_value :: "nat \<Rightarrow> nat option" where
  "b64_standard_value c = (if c = 45 \<or> c = 95 then None else b64_value c)"

fun strict_loop :: "nat \<Rightarrow> nat \<Rightarrow> nat \<Rightarrow> bool \<Rightarrow> pystr \<Rightarrow> nat list option" where
  "strict_loop quad left pads padded [] = (if quad = 0 then Some [] else None)"
| "strict_loop quad left pads padded (c # cs) =
     (if c = 61 then
        (if quad \<ge> 2 \<and> quad + pads + 1 \<ge> 4 then (if cs = [] then Some [] else None)
         else strict_loop quad left (if quad \<ge> 2 then pads + 1 else pads) True cs)
      else case b64_standard_value c of
        None \<Rightarrow> None
      | Some v \<Rightarrow>
          if padded then None
          else if quad = 0 then strict_loop 1 v 0 padded cs
          else if quad = 1 then map_option ((#) (left * 4 + v div 16)) (strict_loop 2 (v mod 16) 0
              padded cs)
          else if quad = 2 then map_option ((#) (left * 16 + v div 4)) (strict_loop 3 (v mod 4) 0
              padded cs)
          else map_option ((#) (left * 64 + v)) (strict_loop 0 0 0 padded cs))"

definition b64decode_strict :: "pystr \<Rightarrow> nat list option" where
  "b64decode_strict s = (if starts_with s [61] then None else strict_loop 0 0 0 False s)"

record erp_route =
  er_customer :: pystr
  er_reader_dsn :: pystr
  er_database :: pystr

definition validate_erp_route :: "erp_route \<Rightarrow> erp_route checked" where
  "validate_erp_route r =
     bindE (validate_identifier (er_customer r)) (\<lambda>c. bindE (validate_identifier (er_database r)) (\<lambda>d.
       Inr (r\<lparr>er_customer := c, er_database := d\<rparr>)))"

record cursor_key =
  ck_id :: pystr
  ck_base64 :: pystr

definition key_bytes :: "cursor_key \<Rightarrow> nat list checked" where
  "key_bytes k = (case b64decode_strict (ck_base64 k) of None \<Rightarrow> Inl ''binascii.Error'' | Some bs
      \<Rightarrow> Inr bs)"

definition validate_cursor_key :: "cursor_key \<Rightarrow> cursor_key checked" where
  "validate_cursor_key k =
     bindE (validate_identifier (ck_id k)) (\<lambda>i.
     case key_bytes k of
       Inl _ \<Rightarrow> Inl ''cursor key must be valid base64''
     | Inr bs \<Rightarrow> raise_if (length bs < 32) ''cursor key must decode to at least 32 bytes''
         (Inr (k\<lparr>ck_id := i\<rparr>)))"

record cursor_keyring =
  kr_active :: cursor_key
  kr_previous :: "cursor_key list"
  kr_ttl :: int

definition ring_keys :: "cursor_keyring \<Rightarrow> cursor_key list" where
  "ring_keys r = kr_active r # kr_previous r"

definition validate_keyring :: "cursor_keyring \<Rightarrow> cursor_keyring checked" where
  "validate_keyring r =
     bindE (validate_cursor_key (kr_active r)) (\<lambda>a.
     bindE (map_checked validate_cursor_key (kr_previous r)) (\<lambda>ps.
     raise_if (kr_ttl r < 30 \<or> kr_ttl r > 900) ''out_of_range''
     (raise_if (\<not> distinct (map ck_id (a # ps))) ''cursor key IDs must be unique''
       (Inr \<lparr>kr_active = a, kr_previous = ps, kr_ttl = kr_ttl r\<rparr>))))"

record erp_database_config =
  ed_routes :: "erp_route list"
  ed_keyring :: cursor_keyring
  ed_minimum_pool_size :: int
  ed_maximum_pool_size :: int
  ed_statement_timeout_ms :: int
  ed_lock_timeout_ms :: int
  ed_idle_transaction_timeout_ms :: int

definition between :: "int \<Rightarrow> int \<Rightarrow> int \<Rightarrow> bool" where
  "between lo hi n \<longleftrightarrow> lo \<le> n \<and> n \<le> hi"

definition validate_erp_config :: "erp_database_config \<Rightarrow> erp_database_config checked" where
  "validate_erp_config c =
     raise_if (ed_routes c = []) ''too_short''
     (bindE (map_checked validate_erp_route (ed_routes c)) (\<lambda>rs.
      bindE (validate_keyring (ed_keyring c)) (\<lambda>ring.
      raise_if (\<not> between 0 20 (ed_minimum_pool_size c) \<or> \<not> between 1 50 (ed_maximum_pool_size c)
          \<or> \<not> between 100 60000 (ed_statement_timeout_ms c) \<or> \<not> between 100 60000 (ed_lock_timeout_ms c)
          \<or> \<not> between 100 120000 (ed_idle_transaction_timeout_ms c)) ''out_of_range''
      (raise_if (\<not> distinct (map er_customer rs)) ''duplicate ERP customer routes are forbidden''
      (raise_if (\<not> distinct (map er_database rs)) ''ERP customer routes must use separate databases''
      (raise_if (ed_minimum_pool_size c > ed_maximum_pool_size c)
         ''minimum pool size cannot exceed maximum pool size''
        (Inr (c\<lparr>ed_routes := rs, ed_keyring := ring\<rparr>))))))))"

section \<open>Texts\<close>

text \<open>\<open>json.dumps\<close> with \<open>ensure_ascii\<close>: everything but printable ASCII is escaped, code points beyond
  16 bits as surrogate pairs.\<close>

definition hex4 :: "nat \<Rightarrow> pystr" where
  "hex4 n = [92, 117] @ hex_digits 4 n"

definition ascii_escape :: "nat \<Rightarrow> pystr" where
  "ascii_escape c =
     (if c = 34 \<or> c = 92 then [92, c]
      else if c = 8 then [92, 98] else if c = 9 then [92, 116] else if c = 10 then [92, 110]
      else if c = 12 then [92, 102] else if c = 13 then [92, 114]
      else if 32 \<le> c \<and> c < 127 then [c]
      else if c < 65536 then hex4 c
      else hex4 (55296 + (c - 65536) div 1024) @ hex4 (56320 + (c - 65536) mod 1024))"

definition ascii_quote :: "pystr \<Rightarrow> pystr" where
  "ascii_quote s = [34] @ concat (map ascii_escape s) @ [34]"

text \<open>A cursor payload is an object of texts and integers; its keys are written in order.\<close>

datatype payload_value = PStr pystr | PInt int

fun payload_value_text :: "payload_value \<Rightarrow> pystr" where
  "payload_value_text (PStr s) = ascii_quote s"
| "payload_value_text (PInt i) = json_int_text i"

definition cursor_text :: "(pystr \<times> payload_value) list \<Rightarrow> pystr" where
  "cursor_text ps = [123] @ join_with [44]
     (map (\<lambda>p. ascii_quote (fst p) @ [58] @ payload_value_text (snd p)) (sort_key fst ps)) @ [125]"

fun payload_json :: "payload_value \<Rightarrow> json" where
  "payload_json (PStr s) = JStr s"
| "payload_json (PInt i) = JInt i"

definition encode_utf8 :: "pystr \<Rightarrow> nat list checked" where
  "encode_utf8 s = raise_if (\<not> utf8_encodable s) ''UnicodeEncodeError'' (Inr (utf8_encode s))"

text \<open>\<open>_b64\<close> and \<open>_unb64\<close>.\<close>

definition unpadded_b64 :: "nat list \<Rightarrow> pystr" where
  "unpadded_b64 bs = rstrip_pad (urlsafe_b64encode bs)"

text \<open>SHA-256, HMAC-SHA-256 of a key and a message, \<open>json.loads\<close>, \<open>datetime.fromisoformat\<close> and
  \<open>UUID(hex=...)\<close> on bytes and texts, and how a float compares with an integer.\<close>

record cursor_env =
  cu_sha256 :: "nat list \<Rightarrow> nat list"
  cu_hmac :: "nat list \<Rightarrow> nat list \<Rightarrow> nat list"
  cu_loads :: "nat list \<Rightarrow> json checked"
  cu_fromisoformat :: "pystr \<Rightarrow> raw_datetime checked"
  cu_uuid :: "pystr \<Rightarrow> uuid checked"
  cu_float_le :: "float64 \<Rightarrow> int \<Rightarrow> bool"
  cu_float_ge :: "float64 \<Rightarrow> int \<Rightarrow> bool"

definition short_digest :: "cursor_env \<Rightarrow> pystr \<Rightarrow> pystr checked" where
  "short_digest env s = bindE (encode_utf8 s) (\<lambda>bs. Inr (unpadded_b64 (take 16 (cu_sha256 env bs))))"

definition binding :: "cursor_env \<Rightarrow> nat list \<Rightarrow> pystr \<Rightarrow> pystr checked" where
  "binding env key s = bindE (encode_utf8 s) (\<lambda>bs. Inr (unpadded_b64 (take 16 (cu_hmac env key bs))))"

text \<open>\<open>str(date)\<close> of a date given by its ordinal, and \<open>str(value or "")\<close>.\<close>

definition date_text :: "int \<Rightarrow> pystr" where
  "date_text d = (case ymd_of_days (d - 1) of (y, m, day) \<Rightarrow>
     zero_padded 4 (nat y) @ [45] @ zero_padded 2 m @ [45] @ zero_padded 2 (nat day))"

definition optional_date_text :: "int option \<Rightarrow> pystr" where
  "optional_date_text d = (case d of None \<Rightarrow> [] | Some d \<Rightarrow> date_text d)"

definition filter_text :: "leave_request_status list \<Rightarrow> int option \<Rightarrow> int option \<Rightarrow> pystr" where
  "filter_text statuses start_from start_to =
     [91, 91] @ join_with [44] (map (\<lambda>s. ascii_quote (status_value s)) statuses) @ [93, 44]
     @ ascii_quote (optional_date_text start_from) @ [44] @ ascii_quote (optional_date_text start_to) @
         [93]"

definition filter_digest ::
  "cursor_env \<Rightarrow> leave_request_status list \<Rightarrow> int option \<Rightarrow> int option \<Rightarrow> pystr checked" where
  "filter_digest env statuses start_from start_to = short_digest env (filter_text statuses start_from
      start_to)"

section \<open>Cursors\<close>

text \<open>\<open>datetime.isoformat\<close> with or without an offset.\<close>

fun raw_isoformat :: "raw_datetime \<Rightarrow> pystr" where
  "raw_isoformat (Zoned t) = isoformat t"
| "raw_isoformat (Unzoned u) = take (length (isoformat \<lparr>zt_local = u, zt_offset = 0\<rparr>) - 6)
     (isoformat \<lparr>zt_local = u, zt_offset = 0\<rparr>)"

record cursor_position =
  cp_ceiling :: raw_datetime
  cp_submitted_at :: raw_datetime
  cp_request_id :: uuid

record cursor_scope =
  cs_customer :: pystr
  cs_employee :: pystr
  cs_legal_entities :: "pystr list"
  cs_snapshot :: pystr
  cs_filters :: pystr
  cs_limit :: int

definition MAX_CURSOR_SIZE :: nat where "MAX_CURSOR_SIZE = 512"

definition entities_text :: "pystr list \<Rightarrow> pystr" where
  "entities_text ids = join_with [0] (sort ids)"

definition cursor_payload ::
  "cursor_env \<Rightarrow> cursor_keyring \<Rightarrow> int \<Rightarrow> nat list \<Rightarrow> cursor_scope \<Rightarrow> cursor_position
     \<Rightarrow> (pystr \<times> payload_value) list checked" where
  "cursor_payload env ring now key scope pos =
     bindE (binding env key (cs_customer scope)) (\<lambda>c.
     bindE (binding env key (cs_employee scope)) (\<lambda>u.
     bindE (short_digest env (entities_text (cs_legal_entities scope))) (\<lambda>l.
     bindE (binding env key (cs_snapshot scope)) (\<lambda>a.
       Inr [(lit ''v'', PInt 1), (lit ''k'', PStr (ck_id (kr_active ring))), (lit ''i'', PInt now),
         (lit ''e'', PInt (now + kr_ttl ring)), (lit ''s'', PStr (raw_isoformat (cp_ceiling pos))),
         (lit ''t'', PStr (raw_isoformat (cp_submitted_at pos))),
         (lit ''r'', PStr (uuid_hex (cp_request_id pos))), (lit ''f'', PStr (cs_filters scope)),
         (lit ''c'', PStr c), (lit ''u'', PStr u), (lit ''l'', PStr l), (lit ''a'', PStr a),
         (lit ''n'', PInt (cs_limit scope))]))))"

definition encode_cursor ::
  "cursor_env \<Rightarrow> cursor_keyring \<Rightarrow> int \<Rightarrow> cursor_scope \<Rightarrow> cursor_position \<Rightarrow> pystr checked" where
  "encode_cursor env ring now scope pos =
     bindE (key_bytes (kr_active ring)) (\<lambda>key.
     bindE (cursor_payload env ring now key scope pos) (\<lambda>payload.
     bindE (encode_utf8 (cursor_text payload)) (\<lambda>bs.
     let body = unpadded_b64 bs; cursor = body @ [46] @ unpadded_b64 (cu_hmac env key body) in
     raise_if (length cursor > MAX_CURSOR_SIZE) ''InvalidErpCursor'' (Inr cursor))))"

text \<open>\<open>payload["k"]\<close> of a value that may not be an object, and comparisons with an integer.\<close>

fun payload_field :: "json \<Rightarrow> string \<Rightarrow> json checked" where
  "payload_field (JObj ps) k = (case map_of ps (lit k) of None \<Rightarrow> Inl ''KeyError'' | Some v \<Rightarrow> Inr v)"
| "payload_field _ k = Inl ''TypeError''"

fun json_keys :: "json \<Rightarrow> pystr set" where
  "json_keys (JObj ps) = set (map fst ps)"
| "json_keys _ = {}"

fun json_le_int :: "cursor_env \<Rightarrow> json \<Rightarrow> int \<Rightarrow> bool checked" where
  "json_le_int env (JInt i) n = Inr (i \<le> n)"
| "json_le_int env (JBool b) n = Inr ((if b then 1 else 0) \<le> n)"
| "json_le_int env (JFloat f) n = Inr (cu_float_le env f n)"
| "json_le_int env _ n = Inl ''TypeError''"

fun json_ge_int :: "cursor_env \<Rightarrow> json \<Rightarrow> int \<Rightarrow> bool checked" where
  "json_ge_int env (JInt i) n = Inr (n \<le> i)"
| "json_ge_int env (JBool b) n = Inr (n \<le> (if b then 1 else 0))"
| "json_ge_int env (JFloat f) n = Inr (cu_float_ge env f n)"
| "json_ge_int env _ n = Inl ''TypeError''"

definition json_eq_int :: "cursor_env \<Rightarrow> json \<Rightarrow> int \<Rightarrow> bool" where
  "json_eq_int env v n \<longleftrightarrow> json_le_int env v n = Inr True \<and> json_ge_int env v n = Inr True"

definition PAYLOAD_KEYS :: "pystr set" where
  "PAYLOAD_KEYS = {lit ''v'', lit ''k'', lit ''i'', lit ''e'', lit ''s'', lit ''t'', lit ''r'', lit
      ''f'', lit ''c'',
     lit ''u'', lit ''l'', lit ''a'', lit ''n''}"

text \<open>The steps of \<open>decode\<close>: the two segments, the signed payload, its bindings, the position. A
    hexadecimal
  identifier that is not a text raises an \<open>AttributeError\<close>, unless it is \<open>None\<close>.\<close>

definition signed_payload ::
  "cursor_env \<Rightarrow> cursor_keyring \<Rightarrow> pystr \<Rightarrow> (json \<times> nat list) checked" where
  "signed_payload env ring cursor =
     raise_if (length cursor > MAX_CURSOR_SIZE) ''ValueError''
     (case split_on 46 cursor of
        [body, signature] \<Rightarrow>
          (case decode_unpadded body of
             None \<Rightarrow> Inl ''binascii.Error''
           | Some raw \<Rightarrow>
               bindE (cu_loads env raw) (\<lambda>payload.
               bindE (payload_field payload ''k'') (\<lambda>key_id.
               case find (\<lambda>k. JStr (ck_id k) = key_id) (ring_keys ring) of
                 None \<Rightarrow> Inl ''StopIteration''
               | Some k \<Rightarrow>
                   bindE (key_bytes k) (\<lambda>key.
                   (case decode_unpadded signature of
                      None \<Rightarrow> Inl ''binascii.Error''
                    | Some sig \<Rightarrow>
                        raise_if (cu_hmac env key body \<noteq> sig) ''ValueError'' (Inr (payload, key)))))))
      | _ \<Rightarrow> Inl ''ValueError'')"

definition check_payload ::
  "cursor_env \<Rightarrow> int \<Rightarrow> json \<Rightarrow> nat list \<Rightarrow> cursor_scope \<Rightarrow> unit checked" where
  "check_payload env now payload key scope =
     bindE (payload_field payload ''v'') (\<lambda>v.
     raise_if (json_keys payload \<noteq> PAYLOAD_KEYS \<or> \<not> json_eq_int env v 1) ''ValueError''
     (bindE (payload_field payload ''i'') (\<lambda>i. bindE (payload_field payload ''e'') (\<lambda>e.
      bindE (json_le_int env i now) (\<lambda>started.
      raise_if (\<not> started) ''ValueError''
      (bindE (json_ge_int env e now) (\<lambda>alive.
       raise_if (\<not> alive) ''ValueError''
       (bindE (payload_field payload ''f'') (\<lambda>f.
        bindE (payload_field payload ''c'') (\<lambda>c. bindE (binding env key (cs_customer scope)) (\<lambda>c'.
        bindE (payload_field payload ''u'') (\<lambda>u. bindE (binding env key (cs_employee scope)) (\<lambda>u'.
        bindE (payload_field payload ''l'') (\<lambda>l.
        bindE (short_digest env (entities_text (cs_legal_entities scope))) (\<lambda>l'.
        bindE (payload_field payload ''a'') (\<lambda>a. bindE (binding env key (cs_snapshot scope)) (\<lambda>a'.
        bindE (payload_field payload ''n'') (\<lambda>n.
        raise_if (f \<noteq> JStr (cs_filters scope) \<or> c \<noteq> JStr c' \<or> u \<noteq> JStr u' \<or> l \<noteq> JStr l' \<or> a \<noteq> JStr a'
            \<or> \<not> json_eq_int env n (cs_limit scope)) ''ValueError'' (Inr ())))))))))))))))))))"

fun text_argument :: "json \<Rightarrow> pystr checked" where
  "text_argument (JStr s) = Inr s"
| "text_argument _ = Inl ''TypeError''"

fun hex_argument :: "json \<Rightarrow> pystr checked" where
  "hex_argument (JStr s) = Inr s"
| "hex_argument JNull = Inl ''TypeError''"
| "hex_argument _ = Inl ''AttributeError''"

definition payload_position :: "cursor_env \<Rightarrow> json \<Rightarrow> cursor_position checked" where
  "payload_position env payload =
     bindE (bindE (payload_field payload ''s'') text_argument) (\<lambda>s. bindE (cu_fromisoformat env s)
         (\<lambda>ceiling.
     bindE (bindE (payload_field payload ''t'') text_argument) (\<lambda>t. bindE (cu_fromisoformat env t)
         (\<lambda>submitted.
     bindE (bindE (payload_field payload ''r'') hex_argument) (\<lambda>r. bindE (cu_uuid env r) (\<lambda>request.
       Inr \<lparr>cp_ceiling = ceiling, cp_submitted_at = submitted, cp_request_id = request\<rparr>))))))"

definition decode_cursor ::
  "cursor_env \<Rightarrow> cursor_keyring \<Rightarrow> int \<Rightarrow> cursor_scope \<Rightarrow> pystr \<Rightarrow> cursor_position checked" where
  "decode_cursor env ring now scope cursor =
     (case bindE (signed_payload env ring cursor) (\<lambda>(payload, key).
         bindE (check_payload env now payload key scope) (\<lambda>_. payload_position env payload)) of
        Inl e \<Rightarrow> Inl (if e = ''AttributeError'' then e else ''InvalidErpCursor'')
      | Inr pos \<Rightarrow> Inr pos)"

end
