(* ===== verification/ErpRead.thy ===== *)
theory ErpRead
  imports ErpCursor HrCore Effects Ingestion
begin

text \<open>
  The readers of a customer's ERP database (\<open>src/erp_ai/infrastructure/postgres_erp/contract.py\<close>,
  \<open>routing.py\<close>, \<open>providers.py\<close>): the verification of a reader connection against the view contract,
  the router from customers to connection pools, the read transaction and the four reads. A reader
  connection, the pools and the driver are records of operations on a world; the rows a statement
  finds are what the database answers.
\<close>

section \<open>The read contract\<close>

type_synonym view_signature = "pystr \<times> (pystr \<times> pystr) list"

definition CONTRACT_VERSION :: pystr where "CONTRACT_VERSION = lit ''1.0.0''"

definition signature :: "string \<Rightarrow> (string \<times> string) list \<Rightarrow> view_signature" where
  "signature name columns = (lit name, map (map_prod lit lit) columns)"

definition BUSINESS_VIEW_SIGNATURES :: "view_signature list" where
  "BUSINESS_VIEW_SIGNATURES =
    [signature ''ai_read.hr_employee_profile_v1''
       [(''employee_id'', ''uuid''), (''legal_entity_id'', ''uuid''), (''employee_number'',
           ''character varying''),
        (''display_name'', ''character varying''), (''work_email'', ''character varying''),
        (''job_title'', ''character varying''), (''department_name'', ''character varying''),
        (''branch_name'', ''character varying''), (''legal_entity_name'', ''character varying''),
        (''employment_status'', ''character varying''), (''hire_date'', ''date''),
        (''manager_display_name'', ''character varying''), (''freshness_at'',
            ''timestamp with time zone'')],
     signature ''ai_read.leave_balances_v1''
       [(''employee_id'', ''uuid''), (''legal_entity_id'', ''uuid''), (''leave_type_id'', ''uuid''),
        (''leave_type_code'', ''character varying''), (''leave_type_name'', ''character varying''),
        (''leave_type_name_local'', ''character varying''), (''fiscal_year'', ''smallint''),
        (''opening_days'', ''numeric''), (''accrued_days'', ''numeric''), (''used_days'', ''numeric''),
        (''pending_days'', ''numeric''), (''available_days'', ''numeric''),
        (''calculated_at'', ''timestamp with time zone''), (''source_watermark'',
            ''character varying''),
        (''calculation_version'', ''character varying'')],
     signature ''ai_read.leave_requests_v1''
       [(''request_id'', ''uuid''), (''employee_id'', ''uuid''), (''legal_entity_id'', ''uuid''),
        (''leave_type_id'', ''uuid''), (''leave_type_code'', ''character varying''),
        (''leave_type_name'', ''character varying''), (''leave_type_name_local'',
            ''character varying''),
        (''start_date'', ''date''), (''end_date'', ''date''), (''working_days'', ''numeric''),
        (''is_half_day'', ''boolean''), (''half_day_period'', ''character varying''),
        (''status'', ''character varying''), (''submitted_at'', ''timestamp with time zone''),
        (''updated_at'', ''timestamp with time zone''),
        (''working_days_calculation_version'', ''character varying'')],
     signature ''ai_read.leave_request_history_v1''
       [(''history_id'', ''uuid''), (''request_id'', ''uuid''), (''employee_id'', ''uuid''),
        (''legal_entity_id'', ''uuid''), (''entity_type'', ''character varying''),
        (''from_status'', ''character varying''), (''to_status'', ''character varying''),
        (''changed_at'', ''timestamp with time zone''), (''reason_code'', ''character varying'')]]"

definition METADATA_VIEW_SIGNATURE :: view_signature where
  "METADATA_VIEW_SIGNATURE = signature ''ai_read.contract_metadata_v1''
     [(''contract_version'', ''character varying''), (''contract_sha256'', ''character'')]"

definition view_json :: "view_signature \<Rightarrow> json" where
  "view_json v = JArr [JStr (fst v), JArr (map (\<lambda>c. JArr [JStr (fst c), JStr (snd c)]) (snd v))]"

text \<open>The payload keeps its keys in the order they are written.\<close>

definition canonical_contract_bytes :: "nat list" where
  "canonical_contract_bytes = utf8_encode (json_text (\<lambda>_. []) (JObj
     [(lit ''contract_version'', JStr CONTRACT_VERSION),
      (lit ''views'', JArr (map view_json BUSINESS_VIEW_SIGNATURES)),
      (lit ''metadata_view'', view_json METADATA_VIEW_SIGNATURE)]))"

text \<open>The hexadecimal SHA-256 digest is a parameter.\<close>

definition contract_digest :: "(nat list \<Rightarrow> pystr) \<Rightarrow> pystr" where
  "contract_digest sha256 = sha256 canonical_contract_bytes"

definition validate_contract_snapshot ::
  "(nat list \<Rightarrow> pystr) \<Rightarrow> pystr option \<Rightarrow> pystr option \<Rightarrow> view_signature list \<Rightarrow> view_signature \<Rightarrow> unit
      checked" where
  "validate_contract_snapshot sha256 version digest views metadata_view =
     raise_if ((version, digest) \<noteq> (Some CONTRACT_VERSION, Some (contract_digest sha256)))
       ''ERP read contract metadata mismatch''
     (raise_if (metadata_view \<noteq> METADATA_VIEW_SIGNATURE) ''ERP metadata view signature mismatch''
     (raise_if (views \<noteq> BUSINESS_VIEW_SIGNATURES) ''ERP read view signature mismatch'' (Inr ())))"

definition validate_postgres_version :: "int \<Rightarrow> unit checked" where
  "validate_postgres_version v = raise_if (\<not> between 15 18 (v div 10000))
      ''unsupported ERP PostgreSQL version'' (Inr ())"

text \<open>A connection of the reader role: the server version and the queries of the verification, each on
    the
  world. A row that is not there is \<open>None\<close>; of the rows that are only looked for, whether there is one.\<close>

record 'w reader =
  rd_server_version :: int
  rd_database :: "'w \<Rightarrow> pystr option outcome \<times> 'w"
  rd_metadata :: "'w \<Rightarrow> (pystr option \<times> pystr option) option outcome \<times> 'w"
  rd_metadata_columns :: "'w \<Rightarrow> (pystr \<times> pystr) list outcome \<times> 'w"
  rd_columns :: "'w \<Rightarrow> (pystr \<times> pystr \<times> pystr) list outcome \<times> 'w"
  rd_role :: "'w \<Rightarrow> (bool \<times> bool) option outcome \<times> 'w"
  rd_owners :: "'w \<Rightarrow> (bool \<times> bool \<times> bool) list outcome \<times> 'w"
  rd_base_owned :: "'w \<Rightarrow> bool outcome \<times> 'w"
  rd_grants :: "'w \<Rightarrow> (pystr \<times> pystr) list outcome \<times> 'w"
  rd_creation :: "'w \<Rightarrow> bool list option outcome \<times> 'w"
  rd_forbidden :: "'w \<Rightarrow> bool outcome \<times> 'w"

definition SCHEMA_PREFIX :: pystr where "SCHEMA_PREFIX = lit ''ai_read.''"

text \<open>\<open>actual.setdefault(name, []).append(column)\<close> for every row.\<close>

fun add_column :: "pystr \<Rightarrow> pystr \<times> pystr \<Rightarrow> view_signature list \<Rightarrow> view_signature list" where
  "add_column name column [] = [(name, [column])]"
| "add_column name column ((n, cs) # vs) =
     (if n = name then (n, cs @ [column]) # vs else (n, cs) # add_column name column vs)"

definition group_columns :: "(pystr \<times> pystr \<times> pystr) list \<Rightarrow> view_signature list" where
  "group_columns rows = foldl (\<lambda>vs (view, column, ty). add_column (SCHEMA_PREFIX @ view) (column, ty)
      vs) [] rows"

definition columns_of :: "view_signature list \<Rightarrow> pystr \<Rightarrow> (pystr \<times> pystr) list" where
  "columns_of vs name = (case map_of vs name of None \<Rightarrow> [] | Some cs \<Rightarrow> cs)"

definition order_views :: "view_signature list \<Rightarrow> view_signature list" where
  "order_views actual =
     map (\<lambda>v. (fst v, columns_of actual (fst v))) BUSINESS_VIEW_SIGNATURES
     @ sort_key fst (filter (\<lambda>v. fst v \<notin> set (map fst BUSINESS_VIEW_SIGNATURES)) actual)"

definition expected_grants :: "(pystr \<times> pystr) list" where
  "expected_grants = map (\<lambda>n. (drop (length SCHEMA_PREFIX) n, lit ''SELECT''))
     (sort (map fst BUSINESS_VIEW_SIGNATURES @ [fst METADATA_VIEW_SIGNATURE]))"

datatype contract_stop = ContractCancelled | ContractError string

definition query :: "('w \<Rightarrow> 'a outcome \<times> 'w) \<Rightarrow> (contract_stop, 'w, 'a) proc" where
  "query = attempt (\<lambda>x. if x = Cancelled then ContractCancelled
     else ContractError ''ERP read contract verification failed'')"

definition contract_check :: "unit checked \<Rightarrow> (contract_stop, 'w, unit) proc" where
  "contract_check m = (case m of Inl e \<Rightarrow> stop (ContractError e) | Inr u \<Rightarrow> give u)"

definition verify_reader_contract ::
  "(nat list \<Rightarrow> pystr) \<Rightarrow> 'w reader \<Rightarrow> pystr \<Rightarrow> (contract_stop, 'w, unit) proc" where
  "verify_reader_contract sha256 r database =
     andthen (contract_check (validate_postgres_version (rd_server_version r))) (\<lambda>_.
     andthen (query (rd_database r)) (\<lambda>identity.
     andthen (unless (identity \<noteq> Some database) (ContractError ''ERP database identity mismatch'')) (\<lambda>_.
     andthen (query (rd_metadata r)) (\<lambda>metadata.
     andthen (query (rd_metadata_columns r)) (\<lambda>metadata_columns.
     andthen (query (rd_columns r)) (\<lambda>columns.
     andthen (contract_check (validate_contract_snapshot sha256 (Option.bind metadata fst) (Option.bind
         metadata snd)
       (order_views (group_columns columns)) (lit ''ai_read.contract_metadata_v1'', metadata_columns)))
           (\<lambda>_.
     andthen (query (rd_role r)) (\<lambda>role.
     andthen (unless (case role of None \<Rightarrow> True | Some (super, bypass) \<Rightarrow> super \<or> bypass)
       (ContractError ''ERP reader role is unsafe'')) (\<lambda>_.
     andthen (query (rd_owners r)) (\<lambda>owners.
     andthen (unless (length owners \<noteq> 1 \<or> (case hd owners of (super, bypass, login) \<Rightarrow> super \<or> bypass
         \<or> login))
       (ContractError ''ERP read view ownership is unsafe'')) (\<lambda>_.
     andthen (query (rd_base_owned r)) (\<lambda>base_owned.
     andthen (unless base_owned (ContractError ''ERP read view owner owns base tables'')) (\<lambda>_.
     andthen (query (rd_grants r)) (\<lambda>grants.
     andthen (unless (grants \<noteq> expected_grants) (ContractError
         ''ERP reader view privileges mismatch'')) (\<lambda>_.
     andthen (query (rd_creation r)) (\<lambda>creation.
     andthen (unless (case creation of None \<Rightarrow> True | Some privileges \<Rightarrow> list_ex id privileges)
       (ContractError ''ERP reader has object-creation privileges'')) (\<lambda>_.
     andthen (query (rd_forbidden r)) (\<lambda>forbidden.
       unless forbidden (ContractError ''ERP reader has direct table privileges'')))))))))))))))))))"

section \<open>Routing\<close>

text \<open>The pools of the driver: created from the DSN and the pool sizes, opened, asked for a connection,
  closed. The dictionary of pools keeps the order of the routes.\<close>

record ('p, 'w) pools =
  po_create :: "(pystr \<times> int \<times> int, 'w, 'p) op"
  po_open :: "('p, 'w, unit outcome) op"
  po_reader :: "('p, 'w, 'w reader outcome) op"
  po_close :: "('p, 'w, unit outcome) op"

record 'p router =
  rt_pools :: "(pystr \<times> 'p) list"
  rt_started :: bool

definition new_router :: "'p router" where
  "new_router = \<lparr>rt_pools = [], rt_started = False\<rparr>"

text \<open>\<open>pools[key] = pool\<close>\<close>

definition put_pool :: "pystr \<Rightarrow> 'p \<Rightarrow> (pystr \<times> 'p) list \<Rightarrow> (pystr \<times> 'p) list" where
  "put_pool k p ps = (if k \<in> set (map fst ps) then map (\<lambda>q. if fst q = k then (k, p) else q) ps else ps
      @ [(k, p)])"

definition verify_route ::
  "(nat list \<Rightarrow> pystr) \<Rightarrow> ('p, 'w) pools \<Rightarrow> pystr \<Rightarrow> 'p \<Rightarrow> 'w \<Rightarrow> unit outcome \<times> 'w" where
  "verify_route sha256 po database p w =
     (case andthen (attempt id (po_open po p)) (\<lambda>_. attempt id (po_reader po p)) w of
        (Inl x, w1) \<Rightarrow> (Inl x, w1)
      | (Inr r, w1) \<Rightarrow>
          (case verify_reader_contract sha256 r database w1 of
             (Inl ContractCancelled, w2) \<Rightarrow> (Inl Cancelled, w2)
           | (Inl (ContractError _), w2) \<Rightarrow> (Inl Failed, w2)
           | (Inr _, w2) \<Rightarrow> (Inr (), w2)))"

text \<open>The loop over the routes: the pools created so far, and how it ended.\<close>

fun open_routes ::
  "(nat list \<Rightarrow> pystr) \<Rightarrow> ('p, 'w) pools \<Rightarrow> erp_database_config \<Rightarrow> erp_route list \<Rightarrow> (pystr \<times> 'p) list \<Rightarrow> 'w
     \<Rightarrow> (unit outcome \<times> (pystr \<times> 'p) list) \<times> 'w" where
  "open_routes sha256 po cfg [] pools w = ((Inr (), pools), w)"
| "open_routes sha256 po cfg (route # routes) pools w =
     (case po_create po (er_reader_dsn route, ed_minimum_pool_size cfg, ed_maximum_pool_size cfg) w of
         (p, w1) \<Rightarrow>
        let pools = put_pool (er_customer route) p pools in
        (case verify_route sha256 po (er_database route) p w1 of
           (Inl x, w2) \<Rightarrow> ((Inl x, pools), w2)
         | (Inr _, w2) \<Rightarrow> open_routes sha256 po cfg routes pools w2))"

text \<open>\<open>for pool in pools.values(): await pool.close()\<close>\<close>

fun close_pools :: "('p, 'w) pools \<Rightarrow> (pystr \<times> 'p) list \<Rightarrow> 'w \<Rightarrow> unit outcome \<times> 'w" where
  "close_pools po [] w = (Inr (), w)"
| "close_pools po (q # qs) w =
     (case po_close po (snd q) w of (Inl x, w1) \<Rightarrow> (Inl x, w1) | (Inr _, w1) \<Rightarrow> close_pools po qs w1)"

definition router_open ::
  "(nat list \<Rightarrow> pystr) \<Rightarrow> ('p, 'w) pools \<Rightarrow> erp_database_config \<Rightarrow> 'p router \<Rightarrow> 'w \<Rightarrow> (unit outcome \<times> 'p
      router) \<times> 'w" where
  "router_open sha256 po cfg rt w =
     (if rt_started rt then ((Inr (), rt), w)
      else case open_routes sha256 po cfg (ed_routes cfg) [] w of
        ((Inl x, pools), w1) \<Rightarrow>
          (case close_pools po pools w1 of (Inl y, w2) \<Rightarrow> ((Inl y, rt), w2) | (Inr _, w2) \<Rightarrow> ((Inl x,
              rt), w2))
      | ((Inr _, pools), w1) \<Rightarrow> ((Inr (), \<lparr>rt_pools = pools, rt_started = True\<rparr>), w1))"

definition router_close :: "('p, 'w) pools \<Rightarrow> 'p router \<Rightarrow> 'w \<Rightarrow> (unit outcome \<times> 'p router) \<times> 'w" where
  "router_close po rt w =
     (case close_pools po (rt_pools rt) w of
        (Inl x, w1) \<Rightarrow> ((Inl x, rt), w1)
      | (Inr _, w1) \<Rightarrow> ((Inr (), new_router), w1))"

definition router_pool :: "'p router \<Rightarrow> pystr \<Rightarrow> 'p checked" where
  "router_pool rt customer =
     raise_if (\<not> rt_started rt) ''ERP database router is unavailable''
     (case map_of (rt_pools rt) customer of
        None \<Rightarrow> Inl ''ERP database route is unavailable'' | Some p \<Rightarrow> Inr p)"

section \<open>The read transaction\<close>

datatype statement =
    ReadOnlyRepeatableRead
  | SetTimeout string int

record profile_row = employee_profile +
  pw_employee_id :: uuid
  pw_legal_entity_id :: uuid

record balance_row = leave_balance_item +
  bw_employee_id :: uuid
  bw_legal_entity_id :: uuid
  bw_leave_type_id :: uuid
  bw_source_watermark :: pystr

record request_row =
  qw_record :: leave_request_record
  qw_submitted_at :: zoned_time
  qw_ceiling :: zoned_time

text \<open>The parameters of the listing statement, in the order of its placeholders.\<close>

record list_query =
  lq_position :: "cursor_position option"
  lq_employee :: pystr
  lq_legal_entities :: "pystr list"
  lq_statuses :: "pystr list"
  lq_start_from :: "int option"
  lq_start_to :: "int option"
  lq_limit :: nat

text \<open>The driver: a connection of a pool, the statements of a read and the end of its transaction (a
    commit
  or a rollback), which gives the connection back. A row carries the columns the statement selects;
  the submission time of a request row is the one of its record.\<close>

record ('p, 'c, 'w) erp_driver =
  db_connect :: "('p, 'w, 'c outcome) op"
  db_set :: "('c \<times> statement, 'w, unit outcome) op"
  db_profile :: "('c \<times> pystr \<times> pystr list, 'w, profile_row option outcome) op"
  db_balances :: "('c \<times> pystr \<times> pystr list, 'w, balance_row list outcome) op"
  db_requests :: "('c \<times> list_query, 'w, request_row list outcome) op"
  db_detail :: "('c \<times> uuid \<times> pystr \<times> pystr list, 'w, leave_request_record option outcome) op"
  db_history :: "('c \<times> uuid \<times> pystr \<times> pystr list, 'w, history_record list outcome) op"
  db_finish :: "('c \<times> bool, 'w, unit outcome) op"

record read_timeouts =
  statement_timeout_ms :: int
  lock_timeout_ms :: int
  idle_timeout_ms :: int

definition setup_statements :: "read_timeouts \<Rightarrow> statement list" where
  "setup_statements t = [ReadOnlyRepeatableRead, SetTimeout ''statement_timeout'' (statement_timeout_ms
      t),
     SetTimeout ''lock_timeout'' (lock_timeout_ms t),
     SetTimeout ''idle_in_transaction_session_timeout'' (idle_timeout_ms t)]"

fun execute_all :: "('p, 'c, 'w) erp_driver \<Rightarrow> 'c \<Rightarrow> statement list \<Rightarrow> 'w \<Rightarrow> unit outcome \<times> 'w" where
  "execute_all db c [] w = (Inr (), w)"
| "execute_all db c (s # ss) w =
     (case db_set db (c, s) w of (Inl x, w1) \<Rightarrow> (Inl x, w1) | (Inr _, w1) \<Rightarrow> execute_all db c ss w1)"

text \<open>\<open>async with self._transaction.connection(pool) as connection: body\<close>\<close>

definition read_transaction ::
  "('p, 'c, 'w) erp_driver \<Rightarrow> read_timeouts \<Rightarrow> 'p \<Rightarrow> ('c \<Rightarrow> 'w \<Rightarrow> 'a outcome \<times> 'w) \<Rightarrow> 'w \<Rightarrow> 'a outcome \<times> 'w"
      where
  "read_transaction db t p body w =
     (case db_connect db p w of
        (Inl x, w1) \<Rightarrow> (Inl x, w1)
      | (Inr c, w1) \<Rightarrow>
          (case andthen (attempt id (execute_all db c (setup_statements t))) (\<lambda>_. attempt id (body c))
              w1 of
             (Inl x, w2) \<Rightarrow>
               (case db_finish db (c, False) w2 of (Inl y, w3) \<Rightarrow> (Inl y, w3) | (Inr _, w3) \<Rightarrow> (Inl x,
                   w3))
           | (Inr r, w2) \<Rightarrow>
               (case db_finish db (c, True) w2 of (Inl y, w3) \<Rightarrow> (Inl y, w3) | (Inr _, w3) \<Rightarrow> (Inr r,
                   w3))))"

section \<open>Providers\<close>

datatype read_stop = ReadCancelled | ReadUnavailable string | InvalidCursor | ReadFailed

text \<open>\<open>except CancelledError: raise\<close>, \<open>except Exception: raise ErpReadUnavailable(message)\<close>\<close>

definition guarded :: "string \<Rightarrow> ('w \<Rightarrow> 'a outcome \<times> 'w) \<Rightarrow> (read_stop, 'w, 'a) proc" where
  "guarded message = attempt (\<lambda>x. if x = Cancelled then ReadCancelled else ReadUnavailable message)"

definition routed ::
  "string \<Rightarrow> 'p router \<Rightarrow> pystr \<Rightarrow> (read_stop, 'w, 'p) proc" where
  "routed message rt customer = checked_or (ReadUnavailable message) (router_pool rt customer)"

definition profile_record :: "profile_row \<Rightarrow> employee_profile_record" where
  "profile_record r = employee_profile.extend (employee_profile.truncate r)
     \<lparr>ep_employee_id = uuid_str (pw_employee_id r), ep_legal_entity_id = uuid_str (pw_legal_entity_id
         r)\<rparr>"

definition read_profile ::
  "('p, 'c, 'w) erp_driver \<Rightarrow> read_timeouts \<Rightarrow> 'p router \<Rightarrow> pystr \<Rightarrow> pystr \<Rightarrow> pystr list
     \<Rightarrow> (read_stop, 'w, employee_profile_record option) proc" where
  "read_profile db t rt customer employee entities =
     (if entities = [] then give None
      else
       andthen (routed ''ERP profile is unavailable'' rt customer) (\<lambda>p.
       andthen (guarded ''ERP profile is unavailable''
         (read_transaction db t p (\<lambda>c. db_profile db (c, employee, entities)))) (\<lambda>row.
       case row of
         None \<Rightarrow> give None
       | Some r \<Rightarrow> checked_or (ReadUnavailable ''ERP profile is unavailable'')
           (bindE (validate_profile_record (profile_record r)) (\<lambda>v. Inr (Some v))))))"

definition balance_record :: "balance_row \<Rightarrow> leave_balance_record" where
  "balance_record r = leave_balance_item.extend (leave_balance_item.truncate r)
     \<lparr>lb_employee_id = uuid_str (bw_employee_id r), lb_legal_entity_id = uuid_str (bw_legal_entity_id
         r),
      lb_leave_type_id = uuid_str (bw_leave_type_id r), lb_source_watermark = bw_source_watermark r\<rparr>"

definition read_balances ::
  "('p, 'c, 'w) erp_driver \<Rightarrow> read_timeouts \<Rightarrow> 'p router \<Rightarrow> pystr \<Rightarrow> pystr \<Rightarrow> pystr list
     \<Rightarrow> (read_stop, 'w, leave_balance_record list) proc" where
  "read_balances db t rt customer employee entities =
     (if entities = [] then give []
      else
       andthen (routed ''ERP leave balances are unavailable'' rt customer) (\<lambda>p.
       andthen (guarded ''ERP leave balances are unavailable''
         (read_transaction db t p (\<lambda>c. db_balances db (c, employee, entities)))) (\<lambda>rows.
         checked_or (ReadUnavailable ''ERP leave balances are unavailable'')
           (map_checked (validate_balance_record \<circ> balance_record) rows))))"

text \<open>The cursor codec of the provider: its environment, its keyring and its clock.\<close>

record 'w cursor_codec =
  cc_env :: cursor_env
  cc_ring :: cursor_keyring
  cc_clock :: "'w \<Rightarrow> int \<times> 'w"

definition decode_given ::
  "'w cursor_codec \<Rightarrow> cursor_scope \<Rightarrow> pystr option \<Rightarrow> (read_stop, 'w, cursor_position option) proc" where
  "decode_given codec scope cursor =
     (case cursor of
        None \<Rightarrow> give None
      | Some s \<Rightarrow> (\<lambda>w. case cc_clock codec w of (now, w1) \<Rightarrow>
          (case decode_cursor (cc_env codec) (cc_ring codec) now scope s of
             Inl e \<Rightarrow> (Inl (if e = ''InvalidErpCursor'' then InvalidCursor else ReadFailed), w1)
           | Inr pos \<Rightarrow> (Inr (Some pos), w1))))"

text \<open>The next cursor points at the last row of the page. The ceiling is the one of the cursor, or of
    the
  first row; a page without rows has no next cursor, so its ceiling is not used.\<close>

definition next_position :: "cursor_position option \<Rightarrow> request_row list \<Rightarrow> cursor_position" where
  "next_position pos rows =
     \<lparr>cp_ceiling = (case pos of Some q \<Rightarrow> cp_ceiling q | None \<Rightarrow> Zoned (qw_ceiling (hd rows))),
      cp_submitted_at = Zoned (qw_submitted_at (last rows)), cp_request_id = lr_request_id (qw_record
          (last rows))\<rparr>"

definition next_cursor ::
  "'w cursor_codec \<Rightarrow> cursor_scope \<Rightarrow> cursor_position \<Rightarrow> bool \<Rightarrow> (read_stop, 'w, pystr option) proc" where
  "next_cursor codec scope pos wanted =
     (if wanted then (\<lambda>w. case cc_clock codec w of (now, w1) \<Rightarrow>
          (case encode_cursor (cc_env codec) (cc_ring codec) now scope pos of
             Inl _ \<Rightarrow> (Inl (ReadUnavailable ''ERP leave requests are unavailable''), w1)
           | Inr s \<Rightarrow> (Inr (Some s), w1)))
      else give None)"

definition list_scope :: "pystr \<Rightarrow> pystr \<Rightarrow> pystr list \<Rightarrow> pystr \<Rightarrow> pystr \<Rightarrow> nat \<Rightarrow> cursor_scope" where
  "list_scope customer employee entities snapshot digest limit =
     \<lparr>cs_customer = customer, cs_employee = employee, cs_legal_entities = entities, cs_snapshot =
         snapshot,
      cs_filters = digest, cs_limit = int limit\<rparr>"

definition read_requests ::
  "('p, 'c, 'w) erp_driver \<Rightarrow> read_timeouts \<Rightarrow> 'p router \<Rightarrow> 'w cursor_codec \<Rightarrow> pystr \<Rightarrow> pystr \<Rightarrow> pystr list
     \<Rightarrow> pystr \<Rightarrow> list_requests_input \<Rightarrow> (read_stop, 'w, leave_request_page) proc" where
  "read_requests db t rt codec customer employee entities snapshot q =
     (if entities = [] then give \<lparr>page_items = [], page_next_cursor = None\<rparr>
      else
       andthen (checked_or ReadFailed
         (filter_digest (cc_env codec) (lri_statuses q) (lri_start_from q) (lri_start_to q))) (\<lambda>digest.
       let scope = list_scope customer employee entities snapshot digest (lri_limit q) in
       andthen (decode_given codec scope (lri_cursor q)) (\<lambda>pos.
       andthen (routed ''ERP leave requests are unavailable'' rt customer) (\<lambda>p.
       andthen (guarded ''ERP leave requests are unavailable'' (read_transaction db t p (\<lambda>c.
         db_requests db (c, \<lparr>lq_position = pos, lq_employee = employee, lq_legal_entities = entities,
           lq_statuses = map status_value (lri_statuses q), lq_start_from = lri_start_from q,
           lq_start_to = lri_start_to q, lq_limit = lri_limit q + 1\<rparr>)))) (\<lambda>rows.
       let page = take (lri_limit q) rows in
       andthen (checked_or (ReadUnavailable ''ERP leave requests are unavailable'')
         (map_checked (validate_request_record \<circ> qw_record) page)) (\<lambda>records.
       andthen (next_cursor codec scope (next_position pos page)
         (length rows > lri_limit q \<and> records \<noteq> [])) (\<lambda>cur.
         checked_or (ReadUnavailable ''ERP leave requests are unavailable'')
           (bindE (optional_checked opaque_cursor cur) (\<lambda>cur'.
              Inr \<lparr>page_items = records, page_next_cursor = cur'\<rparr>)))))))))"

definition detail_record :: "pystr \<Rightarrow> leave_request_record \<Rightarrow> history_record list \<Rightarrow> leave_request_detail"
    where
  "detail_record customer r history = leave_request_record.extend r
     \<lparr>ld_customer_environment_id = customer, ld_status_history = history\<rparr>"

definition read_detail ::
  "('p, 'c, 'w) erp_driver \<Rightarrow> read_timeouts \<Rightarrow> 'p router \<Rightarrow> pystr \<Rightarrow> pystr \<Rightarrow> pystr list \<Rightarrow> uuid
     \<Rightarrow> (read_stop, 'w, leave_request_detail option) proc" where
  "read_detail db t rt customer employee entities rid =
     (if entities = [] then give None
      else
       andthen (routed ''ERP leave request is unavailable'' rt customer) (\<lambda>p.
       andthen (guarded ''ERP leave request is unavailable'' (read_transaction db t p (\<lambda>c w.
         case db_detail db (c, rid, employee, entities) w of
           (Inl x, w1) \<Rightarrow> (Inl x, w1)
         | (Inr None, w1) \<Rightarrow> (Inr None, w1)
         | (Inr (Some r), w1) \<Rightarrow>
             (case db_history db (c, rid, employee, entities) w1 of
                (Inl x, w2) \<Rightarrow> (Inl x, w2) | (Inr hs, w2) \<Rightarrow> (Inr (Some (r, hs)), w2))))) (\<lambda>found.
       case found of
         None \<Rightarrow> give None
       | Some (r, rows) \<Rightarrow>
           checked_or (ReadUnavailable ''ERP leave request is unavailable'')
             (bindE (map_checked validate_history_record rows) (\<lambda>history.
              bindE (validate_request_record (detail_record customer r history)) (\<lambda>d.
              bindE (validate_identifier (ld_customer_environment_id d)) (\<lambda>env.
                Inr (Some (d\<lparr>ld_customer_environment_id := env\<rparr>)))))))))"

end
