(* ===== verification/ErpCursorProperties.thy ===== *)
theory ErpCursorProperties
  imports ErpCursor ErpTrustProperties
begin

text \<open>
  When a cursor decodes and to what, what an accepted cursor establishes, and how large a cursor is. The
  sample keyring, scope and position at the end carry the witnesses.
\<close>

section \<open>Segments\<close>

lemma unpadded_b64_bytes: "list_all (\<lambda>b. b < 256) bs \<Longrightarrow> unpadded_b64 bs = b64_encode bs"
  by (simp add: unpadded_b64_def rstrip_pad_encode)

lemma unpadded_b64_decode: "list_all (\<lambda>b. b < 256) bs \<Longrightarrow> decode_unpadded (unpadded_b64 bs) = Some bs"
  using b64_decode_encode[of bs]
  by (simp add: unpadded_b64_bytes decode_unpadded_def b64_padding urlsafe_b64encode_def)

lemma unpadded_b64_no_dot: "list_all (\<lambda>b. b < 256) bs \<Longrightarrow> 46 \<notin> set (unpadded_b64 bs)"
  using b64_encode_chars[of bs] b64_char_url
  by (fastforce simp: unpadded_b64_bytes is_b64url_def is_alpha_def is_digit_def)

lemma length_unpadded_b64:
  "list_all (\<lambda>b. b < 256) bs \<Longrightarrow> length (unpadded_b64 bs) = (length bs * 4 + 2) div 3"
  by (simp add: unpadded_b64_bytes length_b64_encode)

section \<open>ASCII\<close>

definition ascii :: "pystr \<Rightarrow> bool" where "ascii s \<longleftrightarrow> list_all (\<lambda>c. c < 128) s"

lemma ascii_append [simp]: "ascii [] = True" "ascii (c # s) \<longleftrightarrow> c < 128 \<and> ascii s" "ascii (s @ t)
    \<longleftrightarrow> ascii s \<and> ascii t"
  by (simp_all add: ascii_def)

lemma ascii_utf8: "ascii s \<Longrightarrow> encode_utf8 s = Inr s \<and> utf8_encode s = s"
proof -
  assume a: "ascii s"
  then have "utf8_encode s = s"
    by (induction s) (simp_all add: utf8_encode_def utf8_char_def)
  moreover have "utf8_encodable s" using a by (auto simp: ascii_def utf8_encodable_def list_all_iff)
  ultimately show ?thesis by (simp add: encode_utf8_def)
qed

lemma ascii_hex_digits: "ascii (hex_digits k n)"
  by (induction k n rule: hex_digits.induct) (auto simp: hex_digit_def)

lemma ascii_escaped: "ascii (ascii_escape c)"
  by (simp add: ascii_escape_def hex4_def ascii_hex_digits del: hex_digits.simps)

lemma ascii_quoted: "ascii (ascii_quote s)"
proof -
  have "ascii (concat (map ascii_escape s))" by (induction s) (simp_all add: ascii_escaped)
  then show ?thesis by (simp add: ascii_quote_def)
qed

lemma ascii_join: "ascii sep \<Longrightarrow> list_all ascii ts \<Longrightarrow> ascii (join_with sep ts)"
  by (induction ts rule: induct_list012) simp_all

lemma ascii_digits: "ascii (json_int_text i)"
  using nat_digits_shape[of "nat \<bar>i\<bar>"]
  by (auto simp: json_int_text_def ascii_def is_digit_def list_all_iff)

lemma ascii_payload: "ascii (cursor_text ps)"
proof -
  have "ascii (payload_value_text v)" for v by (cases v) (simp_all add: ascii_quoted ascii_digits)
  then show ?thesis by (simp add: cursor_text_def ascii_join list_all_iff ascii_quoted)
qed


section \<open>What is encoded\<close>

definition bytes_op :: "(nat list \<Rightarrow> nat list) \<Rightarrow> bool" where
  "bytes_op f \<longleftrightarrow> (\<forall>m. list_all (\<lambda>b. b < 256) (f m))"

lemma encode_cursor_InrE:
  assumes "encode_cursor env ring now scope pos = Inr cursor"
  obtains key ps body where "key_bytes (kr_active ring) = Inr key"
    "cursor_payload env ring now key scope pos = Inr ps" "body = unpadded_b64 (cursor_text ps)"
    "cursor = body @ [46] @ unpadded_b64 (cu_hmac env key body)" "length cursor \<le> MAX_CURSOR_SIZE"
  using assms ascii_utf8[OF ascii_payload] unfolding encode_cursor_def Let_def
  by (auto elim!: bindE_InrE raise_if_InrE simp: utf8_encodable_def)

text \<open>The payload as \<open>json.loads\<close> reads it back.\<close>

definition loaded_payload :: "(pystr \<times> payload_value) list \<Rightarrow> json" where
  "loaded_payload ps = JObj (map (map_prod id payload_json) (sort_key fst ps))"

lemma ascii_bytes: "ascii s \<Longrightarrow> list_all (\<lambda>b. b < 256) s"
  by (auto simp: ascii_def list_all_iff)

lemma cursor_segments:
  assumes "bytes_op (cu_hmac env key)"
  shows "split_on 46 (unpadded_b64 (cursor_text ps) @ [46] @ unpadded_b64 (cu_hmac env key body))
    = [unpadded_b64 (cursor_text ps), unpadded_b64 (cu_hmac env key body)]"
proof -
  have "list_all (\<lambda>b. b < 256) (cu_hmac env key body)" using assms by (simp add: bytes_op_def)
  then show ?thesis
    by (simp add: split_on_append split_on_no_sep unpadded_b64_no_dot ascii_bytes ascii_payload)
qed

lemma signed_payload_encoded:
  assumes "bytes_op (cu_hmac env key)" "body = unpadded_b64 (cursor_text ps)"
    and "cursor = body @ [46] @ unpadded_b64 (cu_hmac env key body)" "length cursor \<le> MAX_CURSOR_SIZE"
    and "cu_loads env (cursor_text ps) = Inr (loaded_payload ps)"
    and "payload_field (loaded_payload ps) ''k'' = Inr (JStr (ck_id k))"
    and "find (\<lambda>k'. JStr (ck_id k') = JStr (ck_id k)) (ring_keys ring) = Some k" "key_bytes k = Inr key"
  shows "signed_payload env ring cursor = Inr (loaded_payload ps, key)"
proof -
  have sig: "list_all (\<lambda>b. b < 256) (cu_hmac env key body)" using assms(1) by (simp add: bytes_op_def)
  have body: "decode_unpadded body = Some (cursor_text ps)"
    using assms(2) ascii_bytes[OF ascii_payload] by (simp add: unpadded_b64_decode)
  have "split_on 46 cursor = [body, unpadded_b64 (cu_hmac env key body)]"
    using cursor_segments[OF assms(1)] assms(2,3) by simp
  then show ?thesis
    using assms(4-8) body unpadded_b64_decode[OF sig] by (simp add: signed_payload_def)
qed

lemma payload_fields:
  assumes "cursor_payload env ring now key scope pos = Inr ps"
  shows "payload_field (loaded_payload ps) ''k'' = Inr (JStr (ck_id (kr_active ring)))"
    "payload_field (loaded_payload ps) ''v'' = Inr (JInt 1)"
    "payload_field (loaded_payload ps) ''i'' = Inr (JInt now)"
    "payload_field (loaded_payload ps) ''e'' = Inr (JInt (now + kr_ttl ring))"
    "payload_field (loaded_payload ps) ''s'' = Inr (JStr (raw_isoformat (cp_ceiling pos)))"
    "payload_field (loaded_payload ps) ''t'' = Inr (JStr (raw_isoformat (cp_submitted_at pos)))"
    "payload_field (loaded_payload ps) ''r'' = Inr (JStr (uuid_hex (cp_request_id pos)))"
    "payload_field (loaded_payload ps) ''f'' = Inr (JStr (cs_filters scope))"
    "payload_field (loaded_payload ps) ''n'' = Inr (JInt (cs_limit scope))"
    "json_keys (loaded_payload ps) = PAYLOAD_KEYS"
    "\<exists>c. binding env key (cs_customer scope) = Inr c \<and> payload_field (loaded_payload ps) ''c'' = Inr
        (JStr c)"
    "\<exists>u. binding env key (cs_employee scope) = Inr u \<and> payload_field (loaded_payload ps) ''u'' = Inr
        (JStr u)"
    "\<exists>l. short_digest env (entities_text (cs_legal_entities scope)) = Inr l
       \<and> payload_field (loaded_payload ps) ''l'' = Inr (JStr l)"
    "\<exists>a. binding env key (cs_snapshot scope) = Inr a \<and> payload_field (loaded_payload ps) ''a'' = Inr
        (JStr a)"
  using assms unfolding cursor_payload_def loaded_payload_def PAYLOAD_KEYS_def
  by (auto elim!: bindE_InrE simp: lit_def)

lemma payload_position_encoded:
  assumes "cursor_payload env ring now key scope pos = Inr ps"
    and "cu_fromisoformat env (raw_isoformat (cp_ceiling pos)) = Inr (cp_ceiling pos)"
    and "cu_fromisoformat env (raw_isoformat (cp_submitted_at pos)) = Inr (cp_submitted_at pos)"
    and "cu_uuid env (uuid_hex (cp_request_id pos)) = Inr (cp_request_id pos)"
  shows "payload_position env (loaded_payload ps) = Inr pos"
  using assms(2-4) payload_fields(5-7)[OF assms(1)] by (simp add: payload_position_def)

lemma json_eq_int_JInt [simp]: "json_eq_int env (JInt i) n \<longleftrightarrow> i = n"
  by (auto simp: json_eq_int_def)

lemma check_payload_encoded:
  assumes p: "cursor_payload env ring now key scope pos = Inr ps"
  shows "check_payload env now' (loaded_payload ps) key scope' = Inr () \<longleftrightarrow>
    now \<le> now' \<and> now' \<le> now + kr_ttl ring \<and> cs_filters scope' = cs_filters scope
    \<and> cs_limit scope' = cs_limit scope
    \<and> binding env key (cs_customer scope') = binding env key (cs_customer scope)
    \<and> binding env key (cs_employee scope') = binding env key (cs_employee scope)
    \<and> short_digest env (entities_text (cs_legal_entities scope'))
        = short_digest env (entities_text (cs_legal_entities scope))
    \<and> binding env key (cs_snapshot scope') = binding env key (cs_snapshot scope)"
proof -
  note f = payload_fields[OF p]
  obtain c u l a where b: "binding env key (cs_customer scope) = Inr c" "payload_field (loaded_payload
      ps) ''c'' = Inr (JStr c)"
    "binding env key (cs_employee scope) = Inr u" "payload_field (loaded_payload ps) ''u'' = Inr (JStr
        u)"
    "short_digest env (entities_text (cs_legal_entities scope)) = Inr l" "payload_field (loaded_payload
        ps) ''l'' = Inr (JStr l)"
    "binding env key (cs_snapshot scope) = Inr a" "payload_field (loaded_payload ps) ''a'' = Inr (JStr
        a)"
    using f(11-14) by blast
  show ?thesis unfolding check_payload_def f(1-10) b
    by (auto simp: bindE_Inr_iff)
qed

section \<open>When a cursor is accepted\<close>

lemma find_key:
  assumes "distinct (map ck_id ks)" "k \<in> set ks"
  shows "find (\<lambda>k'. JStr (ck_id k') = JStr (ck_id k)) ks = Some k"
  using assms by (induction ks) (auto simp: image_iff)

lemma decode_cursor_Inr:
  "decode_cursor env ring now scope cursor = Inr pos \<longleftrightarrow>
     (\<exists>payload key. signed_payload env ring cursor = Inr (payload, key)
        \<and> check_payload env now payload key scope = Inr () \<and> payload_position env payload = Inr pos)"
  unfolding decode_cursor_def by (auto simp: bindE_Inr_iff split: sum.splits)

lemma validate_keyring_distinct:
  "validate_keyring ring = Inr ring' \<Longrightarrow> distinct (map ck_id (ring_keys ring'))"
  unfolding validate_keyring_def ring_keys_def by (auto elim!: bindE_InrE raise_if_InrE)

lemma cursor_decodes_iff:
  assumes hmac: "bytes_op (cu_hmac env key)" and e: "encode_cursor env ring now scope pos = Inr cursor"
    and key: "key_bytes (kr_active ring) = Inr key"
    and ring: "distinct (map ck_id (ring_keys ring'))" "kr_active ring \<in> set (ring_keys ring')"
    and loads: "\<And>ps. cursor_payload env ring now key scope pos = Inr ps \<Longrightarrow>
      cu_loads env (utf8_encode (cursor_text ps)) = Inr (loaded_payload ps)"
    and iso: "cu_fromisoformat env (raw_isoformat (cp_ceiling pos)) = Inr (cp_ceiling pos)"
      "cu_fromisoformat env (raw_isoformat (cp_submitted_at pos)) = Inr (cp_submitted_at pos)"
      "cu_uuid env (uuid_hex (cp_request_id pos)) = Inr (cp_request_id pos)"
  shows "decode_cursor env ring' now' scope' cursor = Inr pos' \<longleftrightarrow>
    pos' = pos \<and> now \<le> now' \<and> now' \<le> now + kr_ttl ring \<and> cs_filters scope' = cs_filters scope
    \<and> cs_limit scope' = cs_limit scope
    \<and> binding env key (cs_customer scope') = binding env key (cs_customer scope)
    \<and> binding env key (cs_employee scope') = binding env key (cs_employee scope)
    \<and> short_digest env (entities_text (cs_legal_entities scope'))
        = short_digest env (entities_text (cs_legal_entities scope))
    \<and> binding env key (cs_snapshot scope') = binding env key (cs_snapshot scope)"
proof -
  obtain ps body where p: "cursor_payload env ring now key scope pos = Inr ps"
    "body = unpadded_b64 (cursor_text ps)" "cursor = body @ [46] @ unpadded_b64 (cu_hmac env key body)"
    "length cursor \<le> MAX_CURSOR_SIZE"
    using encode_cursor_InrE[OF e] key by (metis sum.inject(2))
  have load: "cu_loads env (cursor_text ps) = Inr (loaded_payload ps)"
    using loads[OF p(1)] ascii_utf8[OF ascii_payload] by simp
  have signed: "signed_payload env ring' cursor = Inr (loaded_payload ps, key)"
    by (rule signed_payload_encoded[OF hmac p(2-4) load payload_fields(1)[OF p(1)] find_key[OF ring]
        key])
  show ?thesis
    unfolding decode_cursor_Inr signed
    using check_payload_encoded[OF p(1), of now' scope'] payload_position_encoded[OF p(1) iso] by auto
qed

section \<open>What an accepted cursor proves\<close>

lemma decode_cursor_signed:
  assumes "decode_cursor env ring now scope cursor = Inr pos"
  obtains body signature payload_bytes payload k key where "split_on 46 cursor = [body, signature]"
    "k \<in> set (ring_keys ring)" "key_bytes k = Inr key"
    "decode_unpadded signature = Some (cu_hmac env key body)"
    "decode_unpadded body = Some payload_bytes" "cu_loads env payload_bytes = Inr payload"
    "payload_field payload ''k'' = Inr (JStr (ck_id k))" "check_payload env now payload key scope = Inr
        ()"
    "payload_position env payload = Inr pos"
proof -
  obtain payload key where d: "signed_payload env ring cursor = Inr (payload, key)"
    "check_payload env now payload key scope = Inr ()" "payload_position env payload = Inr pos"
    using assms unfolding decode_cursor_Inr by blast
  obtain body signature where s: "split_on 46 cursor = [body, signature]"
    using d(1) unfolding signed_payload_def
    by (cases "split_on 46 cursor"; cases "tl (split_on 46 cursor)"; cases "tl (tl (split_on 46
        cursor))")
      (auto elim!: raise_if_InrE)
  obtain raw key_id k where r: "decode_unpadded body = Some raw" "cu_loads env raw = Inr payload"
    "payload_field payload ''k'' = Inr key_id" "find (\<lambda>k. JStr (ck_id k) = key_id) (ring_keys ring) =
        Some k"
    "key_bytes k = Inr key" "decode_unpadded signature = Some (cu_hmac env key body)"
    using d(1) s unfolding signed_payload_def
    by (auto elim!: bindE_InrE raise_if_InrE split: option.splits if_splits)
  then have "k \<in> set (ring_keys ring)" "JStr (ck_id k) = key_id"
    unfolding find_Some_iff by auto
  then show thesis using that s r d(2,3) by blast
qed

section \<open>The size of a cursor\<close>

lemma length_zero_padded: "k \<le> length (zero_padded k n)"
  by (simp add: zero_padded_def Let_def)

lemma length_parts:
  "4 \<le> length a \<Longrightarrow> 2 \<le> length b \<Longrightarrow> 2 \<le> length c \<Longrightarrow> 2 \<le> length d \<Longrightarrow> 2 \<le> length e \<Longrightarrow> 2 \<le> length f
    \<Longrightarrow> 6 \<le> length h
    \<Longrightarrow> 25 \<le> length (a @ [45] @ b @ [45] @ c @ [84] @ d @ [58] @ e @ [58] @ f @ g @ h)"
  by simp

lemma length_isoformat: "25 \<le> length (isoformat t)"
proof -
  obtain y m day where ymd: "ymd_of_days (zt_local t div 86400000000) = (y, m, day)" by (rule
      prod_cases3)
  have offset: "6 \<le> length (offset_text off)" for off
    using length_zero_padded[of 2] unfolding offset_text_def Let_def
    by (simp add: add_increasing2 add_mono[of 2 _ 2, simplified])
  show ?thesis
    unfolding isoformat_def Let_def ymd prod.case
    by (rule length_parts) (rule length_zero_padded offset)+
qed

lemma length_raw_isoformat: "19 \<le> length (raw_isoformat t)"
proof (cases t)
  case (Zoned z)
  then show ?thesis using length_isoformat[of z] by simp
next
  case (Unzoned u)
  then show ?thesis using length_isoformat[of "\<lparr>zt_local = u, zt_offset = 0\<rparr>"] by simp
qed

lemma length_ascii_escape: "1 \<le> length (ascii_escape c)"
  by (simp add: ascii_escape_def hex4_def)

lemma length_ascii_quote: "length s + 2 \<le> length (ascii_quote s)"
proof -
  have "length s \<le> length (concat (map ascii_escape s))"
  proof (induction s)
    case (Cons c s)
    then show ?case using length_ascii_escape[of c] by simp
  qed simp
  then show ?thesis by (simp add: ascii_quote_def)
qed

definition value_size :: "payload_value \<Rightarrow> nat" where
  "value_size v = (case v of PStr s \<Rightarrow> length s + 2 | PInt _ \<Rightarrow> 1)"

lemma length_payload_value: "value_size v \<le> length (payload_value_text v)"
proof (cases v)
  case (PStr s)
  then show ?thesis using length_ascii_quote by (simp add: value_size_def)
next
  case (PInt i)
  then show ?thesis using nat_digits_shape[of "nat \<bar>i\<bar>"]
    by (cases "nat_digits (nat \<bar>i\<bar>)") (simp_all add: value_size_def json_int_text_def)
qed

lemma length_join: "ts \<noteq> [] \<Longrightarrow> length (join_with [44] ts) + 1 = sum_list (map length ts) + length ts"
  by (induction ts rule: induct_list012) simp_all

lemma length_braces: "length ([123] @ s @ [125]) = length s + 2" for s :: pystr
  by simp

lemma cursor_text_length:
  assumes "ps \<noteq> []"
  shows "length (cursor_text ps)
    = sum_list (map (\<lambda>p. length (ascii_quote (fst p)) + length (payload_value_text (snd p)) + 2) ps) +
        1"
proof -
  let ?f = "\<lambda>p. ascii_quote (fst p) @ [58] @ payload_value_text (snd p)"
  let ?g = "\<lambda>p. length (ascii_quote (fst p)) + length (payload_value_text (snd p)) + 2"
  let ?qs = "sort_key fst ps"
  have "?qs \<noteq> []" using assms set_sort[of fst ps] by fastforce
  then have "map ?f ?qs \<noteq> []" unfolding map_is_Nil_conv .
  then have join: "length (join_with [44] (map ?f ?qs)) + 1 = sum_list (map length (map ?f ?qs)) +
      length (map ?f ?qs)"
    by (rule length_join)
  have braces: "length (cursor_text ps) = length (join_with [44] (map ?f ?qs)) + 2"
    unfolding cursor_text_def by (rule length_braces)
  have items: "sum_list (map length (map ?f xs)) + length (map ?f xs) = sum_list (map ?g xs)" for xs
    by (induction xs) simp_all
  have sorted: "sum_list (map h ?qs) = sum_list (map h ps)" for h :: "pystr \<times> payload_value \<Rightarrow> nat"
    by (metis mset_map mset_sort sum_mset_sum_list)
  show ?thesis using join braces items[of ?qs] sorted[of ?g] by linarith
qed

lemma length_cursor_text:
  assumes "ps \<noteq> []"
  shows "sum_list (map (\<lambda>p. length (fst p) + value_size (snd p) + 4) ps) + 1 \<le> length (cursor_text ps)"
proof -
  have "length (fst p) + value_size (snd p) + 4
      \<le> length (ascii_quote (fst p)) + length (payload_value_text (snd p)) + 2" for p
    using length_ascii_quote[of "fst p"] length_payload_value[of "snd p"] by simp
  then show ?thesis unfolding cursor_text_length[OF assms] by (intro add_right_mono sum_list_mono)
qed

text \<open>The length of a text in which nothing is escaped.\<close>

definition unescaped :: "pystr \<Rightarrow> bool" where
  "unescaped s \<longleftrightarrow> list_all (\<lambda>c. 32 \<le> c \<and> c < 127 \<and> c \<noteq> 34 \<and> c \<noteq> 92) s"

lemma unescaped_quote: "unescaped s \<Longrightarrow> length (ascii_quote s) = length s + 2"
proof -
  assume "unescaped s"
  then have "concat (map ascii_escape s) = s"
    by (induction s) (simp_all add: unescaped_def ascii_escape_def)
  then show ?thesis by (simp add: ascii_quote_def)
qed

lemma unescaped_b64: "list_all (\<lambda>b. b < 256) bs \<Longrightarrow> unescaped (unpadded_b64 bs)"
  using b64_encode_chars[of bs] b64_char_url
  by (fastforce simp: unpadded_b64_bytes unescaped_def list_all_iff is_alpha_def is_lower_def
      is_digit_def)

lemma digest_text_length:
  assumes "\<And>m. length (f m) = (32::nat)" "bytes_op f"
  shows "length (unpadded_b64 (take 16 (f m))) = 22"
proof -
  have "list_all (\<lambda>b. b < 256) (take 16 (f m))"
    using assms(2) unfolding bytes_op_def list_all_iff by (meson in_set_takeD)
  then show ?thesis using assms(1) by (simp add: length_unpadded_b64)
qed

definition digests :: "cursor_env \<Rightarrow> bool" where
  "digests env \<longleftrightarrow> (\<forall>k. bytes_op (cu_hmac env k) \<and> (\<forall>m. length (cu_hmac env k m) = 32))
     \<and> bytes_op (cu_sha256 env) \<and> (\<forall>m. length (cu_sha256 env m) = 32)"

lemma binding_length: "digests env \<Longrightarrow> binding env key s = Inr c \<Longrightarrow> length c = 22"
  using digest_text_length[of "cu_hmac env key"]
  by (auto simp: digests_def binding_def elim!: bindE_InrE)

lemma short_digest_length: "digests env \<Longrightarrow> short_digest env s = Inr c \<Longrightarrow> length c = 22"
  using digest_text_length[of "cu_sha256 env"]
  by (auto simp: digests_def short_digest_def elim!: bindE_InrE)

lemma payload_size:
  assumes "digests env" "cursor_payload env ring now key scope pos = Inr ps"
  shows "length (ck_id (kr_active ring)) + 246 \<le> length (cursor_text ps)"
proof -
  obtain c u l a where b: "binding env key (cs_customer scope) = Inr c" "binding env key (cs_employee
      scope) = Inr u"
    "short_digest env (entities_text (cs_legal_entities scope)) = Inr l" "binding env key (cs_snapshot
        scope) = Inr a"
    and ps: "ps = [(lit ''v'', PInt 1), (lit ''k'', PStr (ck_id (kr_active ring))), (lit ''i'', PInt
        now),
         (lit ''e'', PInt (now + kr_ttl ring)), (lit ''s'', PStr (raw_isoformat (cp_ceiling pos))),
         (lit ''t'', PStr (raw_isoformat (cp_submitted_at pos))),
         (lit ''r'', PStr (uuid_hex (cp_request_id pos))), (lit ''f'', PStr (cs_filters scope)),
         (lit ''c'', PStr c), (lit ''u'', PStr u), (lit ''l'', PStr l), (lit ''a'', PStr a),
         (lit ''n'', PInt (cs_limit scope))]"
    using assms(2) unfolding cursor_payload_def by (auto elim!: bindE_InrE)
  have "length c = 22" "length u = 22" "length l = 22" "length a = 22"
    using b binding_length[OF assms(1)] short_digest_length[OF assms(1)] by blast+
  moreover have "ps \<noteq> []" by (simp add: ps)
  ultimately show ?thesis
    using length_cursor_text[of ps] length_raw_isoformat[of "cp_ceiling pos"]
      length_raw_isoformat[of "cp_submitted_at pos"]
    unfolding ps by (simp add: value_size_def uuid_hex_def del: hex_digits.simps)
qed

lemma long_key_too_large:
  assumes "digests env" "106 \<le> length (ck_id (kr_active ring))"
  shows "encode_cursor env ring now scope pos \<noteq> Inr cursor"
proof
  assume "encode_cursor env ring now scope pos = Inr cursor"
  then obtain key ps body where e: "cursor_payload env ring now key scope pos = Inr ps"
    "body = unpadded_b64 (cursor_text ps)" "cursor = body @ [46] @ unpadded_b64 (cu_hmac env key body)"
    "length cursor \<le> MAX_CURSOR_SIZE" by (rule encode_cursor_InrE)
  have "352 \<le> length (cursor_text ps)" using payload_size[OF assms(1) e(1)] assms(2) by simp
  then have "470 \<le> length body"
    using e(2) ascii_bytes[OF ascii_payload] by (simp add: length_unpadded_b64)
  moreover have "length (unpadded_b64 (cu_hmac env key body)) = 43"
    using assms(1) by (simp add: digests_def bytes_op_def length_unpadded_b64)
  ultimately show False using e(3,4) by (simp add: MAX_CURSOR_SIZE_def)
qed

section \<open>A sample cursor\<close>

text \<open>The payload of the sample, in which nothing is escaped.\<close>

definition sample_cursor_payload :: "pystr \<Rightarrow> pystr \<Rightarrow> pystr \<Rightarrow> pystr \<Rightarrow> (pystr \<times> payload_value) list" where
  "sample_cursor_payload tm r b l = [(lit ''v'', PInt 1), (lit ''k'', PStr (lit ''k1'')), (lit ''i'',
      PInt 1000), (lit ''e'', PInt 1300),
     (lit ''s'', PStr tm), (lit ''t'', PStr tm), (lit ''r'', PStr r), (lit ''f'', PStr l), (lit ''c'',
         PStr b),
     (lit ''u'', PStr b), (lit ''l'', PStr l), (lit ''a'', PStr b), (lit ''n'', PInt 1)]"

definition sample_cursor_env :: cursor_env where
  "sample_cursor_env = \<lparr>cu_sha256 = (\<lambda>_. replicate 32 7), cu_hmac = (\<lambda>k m. replicate 32 2),
     cu_loads = (\<lambda>_. Inr (loaded_payload (sample_cursor_payload
       (isoformat \<lparr>zt_local = 0, zt_offset = 0\<rparr>) (uuid_hex 9) (unpadded_b64 (replicate 16 2))
       (unpadded_b64 (replicate 16 7))))), cu_fromisoformat = (\<lambda>_. Inr (Zoned \<lparr>zt_local = 0, zt_offset
           = 0\<rparr>)),
     cu_uuid = (\<lambda>_. Inr 9), cu_float_le = (\<lambda>_ _. False), cu_float_ge = (\<lambda>_ _. False)\<rparr>"

definition sample_ring :: "pystr \<Rightarrow> cursor_keyring" where
  "sample_ring key_id = \<lparr>kr_active = \<lparr>ck_id = key_id, ck_base64 = replicate 44 65\<rparr>, kr_previous = [],
      kr_ttl = 300\<rparr>"

definition sample_scope :: cursor_scope where
  "sample_scope = \<lparr>cs_customer = lit ''env1'', cs_employee = lit ''emp1'', cs_legal_entities = [lit
      ''le1''],
     cs_snapshot = lit ''snap1'', cs_filters = unpadded_b64 (replicate 16 7), cs_limit = 1\<rparr>"

definition sample_position :: cursor_position where
  "sample_position = \<lparr>cp_ceiling = Zoned \<lparr>zt_local = 0, zt_offset = 0\<rparr>,
     cp_submitted_at = Zoned \<lparr>zt_local = 0, zt_offset = 0\<rparr>, cp_request_id = 9\<rparr>"

lemma sample_key: "key_bytes (kr_active (sample_ring k)) = Inr (replicate 33 0)"
  unfolding key_bytes_def sample_ring_def by code_simp

lemma sample_month: "month_of_day leap 0 = 1"
proof -
  have "[1..<13] = [1, 2, 3, 4, 5, 6, 7, 8, 9, 10, 11, 12::nat]" by code_simp
  then show ?thesis by (simp add: month_of_day_def days_before_month_def DAYS_BEFORE_MONTH_def)
qed

lemma sample_numbers: "zero_padded 4 1 = [48, 48, 48, 49]" "zero_padded 2 1 = [48, 49]" "zero_padded 2
    0 = [48, 48]"
  by (simp_all add: zero_padded_def nat_digits.simps numeral_3_eq_3)

lemma sample_iso: "isoformat \<lparr>zt_local = 0, zt_offset = 0\<rparr> = lit ''0001-01-01T00:00:00+00:00''"
  by (simp add: isoformat_def ymd_of_days_def sample_month sample_numbers sample_numbers[unfolded
      One_nat_def]
      days_before_month_def DAYS_BEFORE_MONTH_def fraction_text_def offset_text_def Let_def lit_def)

lemma sample_digests: "digests sample_cursor_env"
  by (simp add: digests_def bytes_op_def sample_cursor_env_def list_all_iff)

lemma sample_bindings:
  "binding sample_cursor_env key (lit ''env1'') = Inr (unpadded_b64 (replicate 16 2))"
  "binding sample_cursor_env key (lit ''emp1'') = Inr (unpadded_b64 (replicate 16 2))"
  "binding sample_cursor_env key (lit ''snap1'') = Inr (unpadded_b64 (replicate 16 2))"
  "short_digest sample_cursor_env (entities_text [lit ''le1'']) = Inr (unpadded_b64 (replicate 16 7))"
  by (simp_all add: binding_def short_digest_def encode_utf8_def utf8_encodable_def lit_def
      sample_cursor_env_def
      entities_text_def)


lemma sample_payload_length:
  assumes "unescaped tm" "unescaped r" "unescaped b" "unescaped l"
    "length tm = 25" "length r = 32" "length b = 22" "length l = 22"
  shows "length (cursor_text (sample_cursor_payload tm r b l)) = 288"
proof -
  have lits: "unescaped (lit ''k1'')" "unescaped (lit ''v'')" "unescaped (lit ''k'')" "unescaped (lit
      ''i'')"
    "unescaped (lit ''e'')" "unescaped (lit ''s'')" "unescaped (lit ''t'')" "unescaped (lit ''r'')"
    "unescaped (lit ''f'')" "unescaped (lit ''c'')" "unescaped (lit ''u'')" "unescaped (lit ''l'')"
    "unescaped (lit ''a'')" "unescaped (lit ''n'')"
    by (simp_all add: unescaped_def lit_def)
  have ints: "length (json_int_text 1) = 1" "length (json_int_text 1000) = 4" "length (json_int_text
      1300) = 4"
    by (simp_all add: json_int_text_def nat_digits.simps)
  have "sample_cursor_payload tm r b l \<noteq> []" by (simp add: sample_cursor_payload_def)
  from cursor_text_length[OF this] show ?thesis
    unfolding sample_cursor_payload_def by (simp add: unescaped_quote assms lits ints)
qed


lemma unescaped_hex: "unescaped (hex_digits k n)"
  by (induction k n rule: hex_digits.induct) (auto simp: unescaped_def hex_digit_def)

lemma sample_cursor:
  "cursor_payload sample_cursor_env (sample_ring (lit ''k1'')) 1000 (replicate 33 0) sample_scope
      sample_position
     = Inr (sample_cursor_payload (isoformat \<lparr>zt_local = 0, zt_offset = 0\<rparr>) (uuid_hex 9)
         (unpadded_b64 (replicate 16 2)) (unpadded_b64 (replicate 16 7)))"
  "\<exists>cursor. encode_cursor sample_cursor_env (sample_ring (lit ''k1'')) 1000 sample_scope
      sample_position = Inr cursor"
proof -
  let ?key = "replicate 33 (0::nat)"
  define b where "b = unpadded_b64 (replicate 16 2)"
  define l where "l = unpadded_b64 (replicate 16 7)"
  define r where "r = uuid_hex 9"
  have codes: "unescaped b" "unescaped l" "length b = 22" "length l = 22"
    unfolding b_def l_def by (simp_all add: unescaped_b64 length_unpadded_b64 list_all_iff)
  have hex: "unescaped r" "length r = 32"
    unfolding r_def uuid_hex_def by (simp_all add: unescaped_hex del: hex_digits.simps)
  have time: "unescaped (isoformat \<lparr>zt_local = 0, zt_offset = 0\<rparr>)"
    "length (isoformat \<lparr>zt_local = 0, zt_offset = 0\<rparr>) = 25"
    unfolding sample_iso by (simp_all add: unescaped_def lit_def)
  let ?ps = "sample_cursor_payload (isoformat \<lparr>zt_local = 0, zt_offset = 0\<rparr>) r b l"
  have ps: "cursor_payload sample_cursor_env (sample_ring (lit ''k1'')) 1000 ?key sample_scope
      sample_position = Inr ?ps"
    by (simp add: cursor_payload_def sample_scope_def sample_bindings[folded b_def l_def]
        sample_ring_def
        sample_position_def sample_cursor_payload_def r_def l_def)
  have size: "length (unpadded_b64 (cursor_text ?ps)) = 384"
    using sample_payload_length[OF time(1) hex(1) codes(1,2) time(2) hex(2) codes(3,4)]
      ascii_bytes[OF ascii_payload] by (simp add: length_unpadded_b64)
  have "length (unpadded_b64 (cu_hmac sample_cursor_env ?key (unpadded_b64 (cursor_text ?ps)))) = 43"
    using sample_digests by (simp add: digests_def bytes_op_def length_unpadded_b64)
  then show "\<exists>cursor. encode_cursor sample_cursor_env (sample_ring (lit ''k1'')) 1000 sample_scope
      sample_position
      = Inr cursor"
    using ps size ascii_utf8[OF ascii_payload]
    by (simp add: encode_cursor_def sample_key Let_def MAX_CURSOR_SIZE_def)
  show "cursor_payload sample_cursor_env (sample_ring (lit ''k1'')) 1000 ?key sample_scope
      sample_position
     = Inr (sample_cursor_payload (isoformat \<lparr>zt_local = 0, zt_offset = 0\<rparr>) (uuid_hex 9)
         (unpadded_b64 (replicate 16 2)) (unpadded_b64 (replicate 16 7)))"
    using ps by (simp add: b_def l_def r_def)
qed

section \<open>Properties\<close>

text \<open>C26: A cursor decodes, also after a key rotation, exactly within its lifetime and for the scope it
    was
  issued for (filters, limit and the keyed digests of customer, employee, snapshot and entities), and
  then to the position it was issued for.\<close>

theorem cursor_decodes_exactly:
  assumes "bytes_op (cu_hmac env key)" and "encode_cursor env ring now scope pos = Inr cursor"
    and "key_bytes (kr_active ring) = Inr key"
    and "validate_keyring ring0 = Inr ring'" and "kr_active ring \<in> set (ring_keys ring')"
    and "\<And>ps. cursor_payload env ring now key scope pos = Inr ps \<Longrightarrow>
      cu_loads env (utf8_encode (cursor_text ps)) = Inr (loaded_payload ps)"
    and "cu_fromisoformat env (raw_isoformat (cp_ceiling pos)) = Inr (cp_ceiling pos)"
    and "cu_fromisoformat env (raw_isoformat (cp_submitted_at pos)) = Inr (cp_submitted_at pos)"
    and "cu_uuid env (uuid_hex (cp_request_id pos)) = Inr (cp_request_id pos)"
  shows "decode_cursor env ring' now' scope' cursor = Inr pos' \<longleftrightarrow>
    pos' = pos \<and> now \<le> now' \<and> now' \<le> now + kr_ttl ring \<and> cs_filters scope' = cs_filters scope
    \<and> cs_limit scope' = cs_limit scope
    \<and> binding env key (cs_customer scope') = binding env key (cs_customer scope)
    \<and> binding env key (cs_employee scope') = binding env key (cs_employee scope)
    \<and> short_digest env (entities_text (cs_legal_entities scope'))
        = short_digest env (entities_text (cs_legal_entities scope))
    \<and> binding env key (cs_snapshot scope') = binding env key (cs_snapshot scope)"
  by (rule cursor_decodes_iff[OF assms(1-3) validate_keyring_distinct[OF assms(4)] assms(5-9)])

lemma sample_ring_valid: "validate_keyring (sample_ring (lit ''k1'')) = Inr (sample_ring (lit ''k1''))"
proof -
  have "key_bytes \<lparr>ck_id = lit ''k1'', ck_base64 = replicate 44 65\<rparr> = Inr (replicate 33 0)"
    using sample_key[of "lit ''k1''"] by (simp add: sample_ring_def)
  then show ?thesis
    by (simp add: validate_keyring_def sample_ring_def validate_cursor_key_def sample_text py_strip_def
        py_rstrip_def validate_identifier_def)
qed

lemma sample_codec:
  "cu_fromisoformat sample_cursor_env t = Inr (Zoned \<lparr>zt_local = 0, zt_offset = 0\<rparr>)" "cu_uuid
      sample_cursor_env u = Inr 9"
  "cp_ceiling sample_position = Zoned \<lparr>zt_local = 0, zt_offset = 0\<rparr>"
  "cp_submitted_at sample_position = Zoned \<lparr>zt_local = 0, zt_offset = 0\<rparr>" "cp_request_id
      sample_position = 9"
  by (simp_all add: sample_cursor_env_def sample_position_def)

lemma sample_loads:
  "cursor_payload sample_cursor_env (sample_ring (lit ''k1'')) 1000 (replicate 33 0) sample_scope
      sample_position = Inr ps
    \<Longrightarrow> cu_loads sample_cursor_env bs = Inr (loaded_payload ps)"
  unfolding sample_cursor(1) by (auto simp: sample_cursor_env_def)

lemma sample_decodes:
  assumes "encode_cursor sample_cursor_env (sample_ring (lit ''k1'')) 1000 sample_scope sample_position
      = Inr cursor"
  shows "decode_cursor sample_cursor_env (sample_ring (lit ''k1'')) now sample_scope cursor = Inr
      sample_position
    \<longleftrightarrow> 1000 \<le> now \<and> now \<le> 1000 + kr_ttl (sample_ring (lit ''k1''))"
proof -
  have b: "bytes_op (cu_hmac sample_cursor_env (replicate 33 0))" using sample_digests by (simp add:
      digests_def)
  have m: "kr_active (sample_ring (lit ''k1'')) \<in> set (ring_keys (sample_ring (lit ''k1'')))"
    by (simp add: ring_keys_def)
  show ?thesis
    using cursor_decodes_iff[OF b assms sample_key validate_keyring_distinct[OF sample_ring_valid] m
        sample_loads,
        unfolded sample_codec] by simp
qed

theorem cursor_decodes_exactly_witness:
  "\<exists>cursor. encode_cursor sample_cursor_env (sample_ring (lit ''k1'')) 1000 sample_scope
      sample_position = Inr cursor
     \<and> decode_cursor sample_cursor_env (sample_ring (lit ''k1'')) 1300 sample_scope cursor = Inr
         sample_position
     \<and> decode_cursor sample_cursor_env (sample_ring (lit ''k1'')) 1301 sample_scope cursor \<noteq> Inr
         sample_position"
proof -
  obtain cursor where c: "encode_cursor sample_cursor_env (sample_ring (lit ''k1'')) 1000 sample_scope
      sample_position
      = Inr cursor" using sample_cursor(2) by blast
  have b: "bytes_op (cu_hmac sample_cursor_env (replicate 33 0))" using sample_digests by (simp add:
      digests_def)
  have m: "kr_active (sample_ring (lit ''k1'')) \<in> set (ring_keys (sample_ring (lit ''k1'')))"
    by (simp add: ring_keys_def)
  have t: "kr_ttl (sample_ring (lit ''k1'')) = 300" by (simp add: sample_ring_def)
  note exact = cursor_decodes_exactly[OF b c sample_key sample_ring_valid m sample_loads, unfolded
      sample_codec]
  show ?thesis using c exact t by simp
qed

text \<open>A payload that names the caller's scope and is alive.\<close>

definition payload_bound :: "cursor_env \<Rightarrow> nat list \<Rightarrow> int \<Rightarrow> cursor_scope \<Rightarrow> json \<Rightarrow> bool" where
  "payload_bound env key now scope payload \<longleftrightarrow>
     payload_field payload ''f'' = Inr (JStr (cs_filters scope))
     \<and> payload_field payload ''c'' = bindE (binding env key (cs_customer scope)) (\<lambda>c. Inr (JStr c))
     \<and> payload_field payload ''u'' = bindE (binding env key (cs_employee scope)) (\<lambda>u. Inr (JStr u))
     \<and> payload_field payload ''l''
         = bindE (short_digest env (entities_text (cs_legal_entities scope))) (\<lambda>l. Inr (JStr l))
     \<and> payload_field payload ''a'' = bindE (binding env key (cs_snapshot scope)) (\<lambda>a. Inr (JStr a))
     \<and> bindE (payload_field payload ''i'') (\<lambda>i. json_le_int env i now) = Inr True
     \<and> bindE (payload_field payload ''e'') (\<lambda>e. json_ge_int env e now) = Inr True
     \<and> bindE (payload_field payload ''n'') (\<lambda>n. Inr (json_eq_int env n (cs_limit scope))) = Inr True"

lemma check_payload_bound:
  "check_payload env now payload key scope = Inr () \<Longrightarrow> payload_bound env key now scope payload"
  unfolding check_payload_def payload_bound_def by (auto elim!: bindE_InrE raise_if_InrE)

text \<open>Every accepted cursor is signed: a configured key whose identifier the payload names has
    signed its
  body, its lifetime has begun and is not over, and its payload is bound to the caller's scope.\<close>

theorem cursor_accepted_signed:
  assumes "decode_cursor env ring now scope cursor = Inr pos"
  shows "\<exists>body signature bs payload k key. split_on 46 cursor = [body, signature] \<and> k \<in> set (ring_keys
      ring)
    \<and> key_bytes k = Inr key \<and> decode_unpadded signature = Some (cu_hmac env key body)
    \<and> decode_unpadded body = Some bs \<and> cu_loads env bs = Inr payload
    \<and> payload_field payload ''k'' = Inr (JStr (ck_id k)) \<and> payload_bound env key now scope payload"
  using decode_cursor_signed[OF assms] check_payload_bound by metis

theorem cursor_accepted_signed_witness:
  "\<exists>cursor body signature. encode_cursor sample_cursor_env (sample_ring (lit ''k1'')) 1000 sample_scope
      sample_position
       = Inr cursor
     \<and> split_on 46 cursor = [body, signature] \<and> decode_unpadded signature = Some (replicate 32 2)"
proof -
  obtain cursor where c: "encode_cursor sample_cursor_env (sample_ring (lit ''k1'')) 1000 sample_scope
      sample_position
      = Inr cursor" using sample_cursor(2) by blast
  have "decode_cursor sample_cursor_env (sample_ring (lit ''k1'')) 1000 sample_scope cursor = Inr
      sample_position"
    by (rule iffD2[OF sample_decodes[OF c]]) (simp add: sample_ring_def)
  from cursor_accepted_signed[OF this] c show ?thesis by (auto simp: sample_cursor_env_def)
qed

text \<open>A keyring whose active key has an identifier of 106 or more characters, which its validation
  admits up to 128, never issues a cursor: none fits the limit of 512 characters.\<close>

theorem long_key_never_issues:
  assumes "digests env" and "106 \<le> length (ck_id (kr_active ring))"
  shows "\<exists>e. encode_cursor env ring now scope pos = Inl e"
  using long_key_too_large[OF assms] by (cases "encode_cursor env ring now scope pos") auto

theorem long_key_never_issues_witness:
  "\<exists>e. encode_cursor sample_cursor_env (sample_ring (replicate 128 97)) 1000 sample_scope
      sample_position = Inl e"
  by (rule long_key_never_issues[OF sample_digests]) (simp add: sample_ring_def)

end
