(* ===== verification/ErpReadProperties.thy ===== *)
theory ErpReadProperties
  imports ErpRead ErpCursorProperties
begin

text \<open>
  One page of the leave request list, and the list over all its pages: the database is described by
      what its
  ordered statement answers from the table of the moment, the codec by reading back what it wrote.
\<close>

section \<open>One page\<close>

lemma routed_Inr [simp]: "routed m rt customer w = (Inr p, w') \<longleftrightarrow> router_pool rt customer = Inr p \<and> w' =
    w"
  by (simp add: routed_def)

lemma guarded_Inr [simp]: "guarded m f w = (Inr r, w') \<longleftrightarrow> f w = (Inr r, w')"
  by (simp add: guarded_def)

text \<open>The worlds of a call come one after the other in an order that every operation of the driver and
    the
  clock of the codec follow.\<close>

definition moves :: "('w \<Rightarrow> 'w \<Rightarrow> bool) \<Rightarrow> ('w \<Rightarrow> 'a \<times> 'w) \<Rightarrow> bool" where
  "moves later f \<longleftrightarrow> (\<forall>w. later w (snd (f w)))"

definition driver_moves :: "('w \<Rightarrow> 'w \<Rightarrow> bool) \<Rightarrow> ('p, 'c, 'w) erp_driver \<Rightarrow> 'w cursor_codec \<Rightarrow> bool" where
  "driver_moves later db codec \<longleftrightarrow> reflp later \<and> transp later \<and> (\<forall>x. moves later (db_connect db x))
     \<and> (\<forall>x. moves later (db_set db x)) \<and> (\<forall>x. moves later (db_requests db x))
     \<and> (\<forall>x. moves later (db_finish db x)) \<and> moves later (cc_clock codec)"

lemma movesD: "moves later f \<Longrightarrow> f w = (x, w') \<Longrightarrow> later w w'"
  by (metis moves_def snd_conv)

lemma execute_all_moves:
  assumes "\<forall>x. moves later (db_set db x)" "reflp later" "transp later"
  shows "moves later (execute_all db c ss)"
proof -
  have "later w (snd (execute_all db c ss w))" for w
  proof (induction ss arbitrary: w)
    case Nil
    then show ?case using assms(2) by (simp add: reflp_def)
  next
    case (Cons s ss)
    have "later w (snd (db_set db (c, s) w))" using assms(1) by (simp add: moves_def)
    then show ?case using Cons transpD[OF assms(3)] by (auto split: prod.splits sum.splits)
  qed
  then show ?thesis by (simp add: moves_def)
qed

lemma read_transaction_Inr:
  assumes "read_transaction db t p body w = (Inr r, w')"
  obtains c w1 w2 w3 w4 where "db_connect db p w = (Inr c, w1)"
    "execute_all db c (setup_statements t) w1 = (Inr (), w2)" "body c w2 = (Inr r, w3)"
    "db_finish db (c, True) w3 = (Inr (), w4)" "w' = w4"
  using assms unfolding read_transaction_def andthen_def
  by (auto split: prod.splits sum.splits)

lemma decode_given_Inr:
  assumes "decode_given codec scope cursor w = (Inr pos, w')"
  shows "case cursor of None \<Rightarrow> pos = None \<and> w' = w
    | Some s \<Rightarrow> cc_clock codec w = (fst (cc_clock codec w), w')
        \<and> (\<exists>p. pos = Some p \<and> decode_cursor (cc_env codec) (cc_ring codec) (fst (cc_clock codec w))
            scope s = Inr p)"
  using assms unfolding decode_given_def by (auto split: option.splits prod.splits sum.splits)

lemma next_cursor_Inr:
  assumes "next_cursor codec scope pos wanted w = (Inr cur, w')"
  shows "if wanted then cc_clock codec w = (fst (cc_clock codec w), w')
      \<and> (\<exists>s. cur = Some s \<and> encode_cursor (cc_env codec) (cc_ring codec) (fst (cc_clock codec w)) scope
          pos = Inr s)
    else cur = None \<and> w' = w"
  using assms unfolding next_cursor_def by (auto split: if_splits prod.splits sum.splits)

definition requests_query ::
  "pystr \<Rightarrow> pystr list \<Rightarrow> list_requests_input \<Rightarrow> cursor_position option \<Rightarrow> nat \<Rightarrow> list_query" where
  "requests_query employee entities q pos n = \<lparr>lq_position = pos, lq_employee = employee,
     lq_legal_entities = entities, lq_statuses = map status_value (lri_statuses q),
     lq_start_from = lri_start_from q, lq_start_to = lri_start_to q, lq_limit = n\<rparr>"

lemma read_requests_Inr:
  assumes "read_requests db t rt codec customer employee entities snapshot q w = (Inr page, w')"
      "entities \<noteq> []"
    and "driver_moves later db codec"
  obtains digest pos now c v v' u rows where
    "filter_digest (cc_env codec) (lri_statuses q) (lri_start_from q) (lri_start_to q) = Inr digest"
    "case lri_cursor q of None \<Rightarrow> pos = None
       | Some s \<Rightarrow> \<exists>p. pos = Some p \<and> decode_cursor (cc_env codec) (cc_ring codec) now
           (list_scope customer employee entities snapshot digest (lri_limit q)) s = Inr p"
    "later w v" "db_requests db (c, requests_query employee entities q pos (lri_limit q + 1)) v = (Inr
        rows, v')"
    "later v w'"
    "map_checked (validate_request_record \<circ> qw_record) (take (lri_limit q) rows) = Inr (page_items
        page)"
    "if length rows > lri_limit q \<and> page_items page \<noteq> []
     then \<exists>s. page_next_cursor page = Some s \<and> encode_cursor (cc_env codec) (cc_ring codec) (fst
         (cc_clock codec u))
       (list_scope customer employee entities snapshot digest (lri_limit q))
       (next_position pos (take (lri_limit q) rows)) = Inr s
     else page_next_cursor page = None"
proof -
  obtain digest where d: "filter_digest (cc_env codec) (lri_statuses q) (lri_start_from q)
      (lri_start_to q) = Inr digest"
    using assms unfolding read_requests_def by (auto elim!: andthen_InrE)
  let ?scope = "list_scope customer employee entities snapshot digest (lri_limit q)"
  let ?query = "\<lambda>pos. requests_query employee entities q pos (lri_limit q + 1)"
  obtain pos w1 p w2 rows records w3 cur cur' where r: "decode_given codec ?scope (lri_cursor q) w =
      (Inr pos, w1)"
    "read_transaction db t p (\<lambda>c. db_requests db (c, ?query pos)) w1 = (Inr rows, w2)"
    "map_checked (validate_request_record \<circ> qw_record) (take (lri_limit q) rows) = Inr records"
    "next_cursor codec ?scope (next_position pos (take (lri_limit q) rows))
       (length rows > lri_limit q \<and> records \<noteq> []) w2 = (Inr cur, w3)"
    "optional_checked opaque_cursor cur = Inr cur'" "page = \<lparr>page_items = records, page_next_cursor =
        cur'\<rparr>"
    "w3 = w'"
    using assms(1) unfolding read_requests_def if_not_P[OF assms(2)] d Let_def requests_query_def
    by (auto elim!: andthen_InrE bindE_InrE)
  note m = assms(3)[unfolded driver_moves_def]
  have trans: "later a c" if "later a b" "later b c" for a b c
    using m that transpD by metis
  have same: "later a a" for a using m by (auto simp: reflp_def)
  obtain c w4 w5 w6 where q: "db_connect db p w1 = (Inr c, w4)"
    "execute_all db c (setup_statements t) w4 = (Inr (), w5)" "db_requests db (c, ?query pos) w5 = (Inr
        rows, w6)"
    "db_finish db (c, True) w6 = (Inr (), w2)"
    using read_transaction_Inr[OF r(2)] by metis
  have start: "later w w1"
    using decode_given_Inr[OF r(1)] m same by (auto split: option.splits dest: movesD)
  have finish: "later w2 w'"
    using next_cursor_Inr[OF r(4)] m same r(7) by (auto split: if_splits dest: movesD)
  have "moves later (db_connect db p)" "moves later (execute_all db c (setup_statements t))"
    "moves later (db_requests db (c, ?query pos))" "moves later (db_finish db (c, True))"
    by (simp_all add: m execute_all_moves)
  from movesD[OF this(1) q(1)] movesD[OF this(2) q(2)] movesD[OF this(3) q(3)] movesD[OF this(4) q(4)]
  have steps: "later w1 w4" "later w4 w5" "later w5 w6" "later w6 w2" .
  have cur: "cur' = cur"
    using r(5) by (cases cur) (auto simp: opaque_cursor_def split: if_splits)
  have before: "later w w5" using start steps trans by blast
  have behind: "later w5 w'" using finish steps trans by blast
  have next_one: "if length rows > lri_limit q \<and> page_items page \<noteq> []
     then \<exists>s. page_next_cursor page = Some s \<and> encode_cursor (cc_env codec) (cc_ring codec) (fst
         (cc_clock codec w2))
       ?scope (next_position pos (take (lri_limit q) rows)) = Inr s
     else page_next_cursor page = None"
    using next_cursor_Inr[OF r(4)] r(6) cur by (auto split: if_splits)
  have given: "case lri_cursor q of None \<Rightarrow> pos = None
       | Some s \<Rightarrow> \<exists>p. pos = Some p \<and> decode_cursor (cc_env codec) (cc_ring codec) (fst (cc_clock codec
           w)) ?scope s = Inr p"
    using decode_given_Inr[OF r(1)] by (auto split: option.splits)
  show thesis
    by (rule that[OF d given before q(3) behind _ next_one]) (use r(3,6) in simp)
qed

section \<open>The listing over all pages\<close>

text \<open>Rows come with the latest submission first; rows submitted at the same instant are in the order of
  their identifiers.\<close>

definition row_precedes :: "request_row \<Rightarrow> request_row \<Rightarrow> bool" where
  "row_precedes a b \<longleftrightarrow> zt_instant (qw_submitted_at b) < zt_instant (qw_submitted_at a)
     \<or> zt_instant (qw_submitted_at a) = zt_instant (qw_submitted_at b)
       \<and> lr_request_id (qw_record a) < lr_request_id (qw_record b)"

text \<open>The rows of a table that the listing statement finds, with the ceiling in its column: the rows
  submitted up to the ceiling that its position leaves.\<close>

definition submitted_until :: "zoned_time \<Rightarrow> request_row list \<Rightarrow> request_row list" where
  "submitted_until ceil table = filter (\<lambda>r. zt_instant (qw_submitted_at r) \<le> zt_instant ceil) table"

definition ceiling_rows :: "zoned_time \<Rightarrow> request_row list \<Rightarrow> request_row list" where
  "ceiling_rows ceil table = map (\<lambda>r. r\<lparr>qw_ceiling := ceil\<rparr>) (submitted_until ceil table)"

definition row_position :: "zoned_time \<Rightarrow> request_row \<Rightarrow> cursor_position" where
  "row_position ceil r = \<lparr>cp_ceiling = Zoned ceil, cp_submitted_at = Zoned (qw_submitted_at r),
     cp_request_id = lr_request_id (qw_record r)\<rparr>"

text \<open>The database answers from the table of the world it is asked in, without a position up to the
    clock
  of that world, with a position up to its ceiling. The table is in order; what was submitted up to
  the clock of a world stays as it is in every later one, and more may have been submitted there.\<close>

definition serves ::
  "('w \<Rightarrow> 'w \<Rightarrow> bool) \<Rightarrow> ('w \<Rightarrow> zoned_time) \<Rightarrow> ('w \<Rightarrow> request_row list) \<Rightarrow> ('p, 'c, 'w) erp_driver
     \<Rightarrow> pystr \<Rightarrow> pystr list \<Rightarrow> list_requests_input \<Rightarrow> bool" where
  "serves later clock table db employee entities q \<longleftrightarrow>
     (\<forall>w. sorted_wrt row_precedes (table w))
     \<and> (\<forall>w w'. later w w' \<longrightarrow> submitted_until (clock w) (table w') = submitted_until (clock w) (table w))
     \<and> (\<forall>c n w. fst (db_requests db (c, requests_query employee entities q None n) w)
         = Inr (take n (ceiling_rows (clock w) (table w))))
     \<and> (\<forall>c n w ceil r. fst (db_requests db (c, requests_query employee entities q (Some (row_position
         ceil r)) n) w)
         = Inr (take n (filter (row_precedes r) (ceiling_rows ceil (table w)))))"

lemma row_precedes_ceiling [simp]:
  "row_precedes (a\<lparr>qw_ceiling := t\<rparr>) b = row_precedes a b" "row_precedes a (b\<lparr>qw_ceiling := t\<rparr>) =
      row_precedes a b"
  by (simp_all add: row_precedes_def)

lemma requests_query_cursor [simp]: "requests_query employee entities (q\<lparr>lri_cursor := s\<rparr>) =
    requests_query employee entities q"
  by (simp add: requests_query_def fun_eq_iff)

lemma sorted_ceiling_rows: "sorted_wrt row_precedes table \<Longrightarrow> sorted_wrt row_precedes (ceiling_rows ceil
    table)"
  by (simp add: ceiling_rows_def submitted_until_def sorted_wrt_map sorted_wrt_filter)

lemma filter_row_precedes:
  assumes "sorted_wrt row_precedes (xs @ a # ys)"
  shows "filter (row_precedes a) (xs @ a # ys) = ys"
proof -
  have "\<not> row_precedes a b" if "row_precedes b a \<or> b = a" for b
    using that by (auto simp: row_precedes_def)
  then show ?thesis
    using assms by (auto simp: sorted_wrt_append filter_empty_conv filter_id_conv)
qed

text \<open>A run of the listing: page after page, each at some later time, with the cursor of the page
    before,
  until a page has no next cursor.\<close>

inductive listing ::
  "('w \<Rightarrow> 'w \<Rightarrow> bool) \<Rightarrow> (list_requests_input \<Rightarrow> (read_stop, 'w, leave_request_page) proc) \<Rightarrow> 'w
     \<Rightarrow> list_requests_input \<Rightarrow> leave_request_record list \<Rightarrow> bool"
  for later :: "'w \<Rightarrow> 'w \<Rightarrow> bool" and read :: "list_requests_input \<Rightarrow> (read_stop, 'w, leave_request_page)
      proc" where
  last_page: "later w w1 \<Longrightarrow> read q w1 = (Inr page, w2) \<Longrightarrow> page_next_cursor page = None
    \<Longrightarrow> listing later read w q (page_items page)"
| more_pages: "later w w1 \<Longrightarrow> read q w1 = (Inr page, w2) \<Longrightarrow> page_next_cursor page = Some s
    \<Longrightarrow> listing later read w2 (q\<lparr>lri_cursor := Some s\<rparr>) rest \<Longrightarrow> listing later read w q (page_items page @
        rest)"

inductive_cases listingE: "listing later read w q items"

text \<open>The codec reads back what it writes for the positions it is asked for, when its clock is read.\<close>

definition codec_reads :: "'w cursor_codec \<Rightarrow> nat list \<Rightarrow> cursor_scope \<Rightarrow> cursor_position set \<Rightarrow> bool" where
  "codec_reads codec key scope positions \<longleftrightarrow> bytes_op (cu_hmac (cc_env codec) key)
     \<and> key_bytes (kr_active (cc_ring codec)) = Inr key \<and> validate_keyring (cc_ring codec) = Inr
         (cc_ring codec)
     \<and> (\<forall>pos \<in> positions.
         (\<forall>u ps. cursor_payload (cc_env codec) (cc_ring codec) (fst (cc_clock codec u)) key scope pos =
             Inr ps
           \<longrightarrow> cu_loads (cc_env codec) (utf8_encode (cursor_text ps)) = Inr (loaded_payload ps))
         \<and> cu_fromisoformat (cc_env codec) (raw_isoformat (cp_ceiling pos)) = Inr (cp_ceiling pos)
         \<and> cu_fromisoformat (cc_env codec) (raw_isoformat (cp_submitted_at pos)) = Inr (cp_submitted_at
             pos)
         \<and> cu_uuid (cc_env codec) (uuid_hex (cp_request_id pos)) = Inr (cp_request_id pos))"

lemma codec_reads_position:
  assumes "codec_reads codec key scope positions" "pos \<in> positions"
    and "encode_cursor (cc_env codec) (cc_ring codec) (fst (cc_clock codec u)) scope pos = Inr s"
    and "decode_cursor (cc_env codec) (cc_ring codec) now scope s = Inr p"
  shows "p = pos"
proof -
  note c = assms(1)[unfolded codec_reads_def]
  have dist: "distinct (map ck_id (ring_keys (cc_ring codec)))" using c validate_keyring_distinct by
      blast
  have "kr_active (cc_ring codec) \<in> set (ring_keys (cc_ring codec))" by (simp add: ring_keys_def)
  from cursor_decodes_iff[OF _ assms(3) _ dist this, of key now scope p] assms(2,4) c
  show ?thesis by blast
qed

text \<open>The positions of rows that have a row behind them.\<close>

definition issued_positions :: "('w \<Rightarrow> zoned_time) \<Rightarrow> ('w \<Rightarrow> request_row list) \<Rightarrow> cursor_position set" where
  "issued_positions clock table =
     {row_position (clock v) r | v r b. r \<in> set (table v) \<and> b \<in> set (table v) \<and> row_precedes r b}"

lemma issued_position:
  assumes "sorted_wrt row_precedes (table v)" "ceiling_rows (clock v) (table v) = xs @ r # ys" "ys \<noteq> []"
  shows "row_position (clock v) r \<in> issued_positions clock table"
proof -
  have "sorted_wrt row_precedes (xs @ r # ys)"
    using sorted_ceiling_rows[OF assms(1), of "clock v"] assms(2) by simp
  then have before: "row_precedes r (hd ys)" using assms(3) by (auto simp: sorted_wrt_append)
  have "r \<in> set (ceiling_rows (clock v) (table v))" "hd ys \<in> set (ceiling_rows (clock v) (table v))"
    using assms(2,3) by auto
  then obtain a b where "a \<in> set (table v)" "r = a\<lparr>qw_ceiling := clock v\<rparr>"
    "b \<in> set (table v)" "hd ys = b\<lparr>qw_ceiling := clock v\<rparr>"
    by (auto simp: ceiling_rows_def submitted_until_def)
  moreover from this have "row_precedes a b" "row_position (clock v) r = row_position (clock v) a"
    using before by (simp_all add: row_position_def)
  ultimately show ?thesis unfolding issued_positions_def by blast
qed

text \<open>A page of the rows that are left: their first ones, and a cursor at the last of them exactly when
  there are more.\<close>

definition paged ::
  "'w cursor_codec \<Rightarrow> cursor_scope \<Rightarrow> nat \<Rightarrow> zoned_time \<Rightarrow> request_row list \<Rightarrow> leave_request_page
      \<Rightarrow> bool" where
  "paged codec scope n ceil rows page \<longleftrightarrow>
     map_checked (validate_request_record \<circ> qw_record) (take n rows) = Inr (page_items page)
     \<and> (if n < length rows
        then \<exists>s u. page_next_cursor page = Some s \<and> encode_cursor (cc_env codec) (cc_ring codec)
          (fst (cc_clock codec u)) scope (row_position ceil (last (take n rows))) = Inr s
        else page_next_cursor page = None)"

lemma map_checked_Nil_iff: "map_checked f xs = Inr ys \<Longrightarrow> ys = [] \<longleftrightarrow> xs = []"
  using map_checked_InrD[of f xs ys] by (auto dest: list_all2_lengthD)

lemma pagedI:
  assumes "rows = take (n + 1) R" "1 \<le> n"
    and "map_checked (validate_request_record \<circ> qw_record) (take n rows) = Inr (page_items page)"
    and "if length rows > n \<and> page_items page \<noteq> []
     then \<exists>s. page_next_cursor page = Some s \<and> encode_cursor (cc_env codec) (cc_ring codec) (fst
         (cc_clock codec u))
       scope (next_position pos (take n rows)) = Inr s
     else page_next_cursor page = None"
    and "R \<noteq> [] \<Longrightarrow> next_position pos (take n R) = row_position ceil (last (take n R))"
  shows "paged codec scope n ceil R page"
proof -
  have "take n rows = take n R" "length rows > n \<longleftrightarrow> length R > n" using assms(1) by auto
  moreover have "page_items page \<noteq> []" if "length R > n"
    using map_checked_Nil_iff[OF assms(3)] that assms(1,2) by (auto simp: take_eq_Nil)
  moreover have "R \<noteq> []" if "length R > n" using that by auto
  ultimately show ?thesis using assms(3,4,5) unfolding paged_def by (auto; blast)
qed

lemma hd_ceiling_rows: "ceiling_rows ceil table \<noteq> [] \<Longrightarrow> qw_ceiling (hd (ceiling_rows ceil table)) = ceil"
  by (cases "submitted_until ceil table") (auto simp: ceiling_rows_def)

lemma first_page:
  assumes "read_requests db t rt codec customer employee entities snapshot q w = (Inr page, w')"
      "entities \<noteq> []"
    and "driver_moves later db codec" "serves later clock table db employee entities q" "1 \<le> lri_limit
        q"
    and "lri_cursor q = None"
    and "filter_digest (cc_env codec) (lri_statuses q) (lri_start_from q) (lri_start_to q) = Inr digest"
  obtains v where "later w v" "later v w'"
    "paged codec (list_scope customer employee entities snapshot digest (lri_limit q)) (lri_limit q)
        (clock v)
       (ceiling_rows (clock v) (table v)) page"
proof (rule read_requests_Inr[OF assms(1-3)], goal_cases)
  case (1 digest' pos now c v v' u rows)
  then have "digest' = digest" "pos = None" using assms(6,7) by simp_all
  note r = 1(4-8)[unfolded this]
  have rows: "rows = take (lri_limit q + 1) (ceiling_rows (clock v) (table v))"
  proof -
    have "fst (db_requests db (c, requests_query employee entities q None (lri_limit q + 1)) v)
        = Inr (take (lri_limit q + 1) (ceiling_rows (clock v) (table v)))"
      using assms(4) unfolding serves_def by blast
    then show ?thesis using r(2) by simp
  qed
  have "paged codec (list_scope customer employee entities snapshot digest (lri_limit q)) (lri_limit q)
      (clock v)
       (ceiling_rows (clock v) (table v)) page"
    by (rule pagedI[OF rows assms(5) r(4,5)])
      (use assms(5) in \<open>simp add: next_position_def row_position_def hd_ceiling_rows take_eq_Nil\<close>)
  with r(1,3) show ?case by (rule 1(1))
qed

lemma next_page:
  assumes "read_requests db t rt codec customer employee entities snapshot q w = (Inr page, w')"
      "entities \<noteq> []"
    and "driver_moves later db codec" "serves later clock table db employee entities q" "1 \<le> lri_limit
        q"
    and "filter_digest (cc_env codec) (lri_statuses q) (lri_start_from q) (lri_start_to q) = Inr digest"
    and scope: "scope = list_scope customer employee entities snapshot digest (lri_limit q)"
    and "codec_reads codec key scope (issued_positions clock table)"
    and "lri_cursor q = Some s" "later v w"
    and "encode_cursor (cc_env codec) (cc_ring codec) (fst (cc_clock codec u0)) scope (row_position
        (clock v) r) = Inr s"
    and all: "ceiling_rows (clock v) (table v) = xs @ r # ys" "ys \<noteq> []"
  shows "later v w' \<and> paged codec scope (lri_limit q) (clock v) ys page"
proof (rule read_requests_Inr[OF assms(1-3)], goal_cases)
  case (1 digest' pos now c v' v'' u rows)
  then have "digest' = digest" using assms(6) by simp
  note d = this scope[symmetric]
  obtain p where p0: "pos = Some p" "decode_cursor (cc_env codec) (cc_ring codec) now scope s = Inr p"
    using 1(2) assms(9) d by auto
  note r = p0(2) 1(3-7)[unfolded d p0(1)]
  have sorted: "sorted_wrt row_precedes (table v)" using assms(4) by (simp add: serves_def)
  have p: "p = row_position (clock v) r"
    by (rule codec_reads_position[OF assms(8) issued_position[of table v clock, OF sorted all]
        assms(11) r(1)])
  have trans: "transp later" using assms(3) by (simp add: driver_moves_def)
  have "later v v'" using transpD[OF trans assms(10) r(2)] .
  then have "submitted_until (clock v) (table v') = submitted_until (clock v) (table v)"
    using assms(4) by (simp add: serves_def)
  then have same: "ceiling_rows (clock v) (table v') = xs @ r # ys" using all by (simp add:
      ceiling_rows_def)
  have "filter (row_precedes r) (xs @ r # ys) = ys"
    using filter_row_precedes sorted_ceiling_rows[OF sorted, of "clock v"] all by simp
  then have "fst (db_requests db (c, requests_query employee entities q (Some p) (lri_limit q + 1)) v')
      = Inr (take (lri_limit q + 1) ys)"
    using assms(4) same unfolding serves_def p by simp
  then have rows: "rows = take (lri_limit q + 1) ys" using r(3) by simp
  have "paged codec scope (lri_limit q) (clock v) ys page"
    by (rule pagedI[OF rows assms(5) r(5,6)]) (simp add: p next_position_def row_position_def)
  with transpD[OF trans \<open>later v v'\<close> r(4)] show ?case by blast
qed

lemma listing_rest:
  assumes "listing later (read_requests db t rt codec customer employee entities snapshot) w q items"
      "entities \<noteq> []"
    and "driver_moves later db codec" "serves later clock table db employee entities q" "1 \<le> lri_limit
        q"
    and "filter_digest (cc_env codec) (lri_statuses q) (lri_start_from q) (lri_start_to q) = Inr digest"
    and scope: "scope = list_scope customer employee entities snapshot digest (lri_limit q)"
    and codec: "codec_reads codec key scope (issued_positions clock table)"
    and "lri_cursor q = Some s" "later v w"
    and "encode_cursor (cc_env codec) (cc_ring codec) (fst (cc_clock codec u)) scope (row_position
        (clock v) r) = Inr s"
    and "ceiling_rows (clock v) (table v) = xs @ r # ys" "ys \<noteq> []"
  shows "map_checked (validate_request_record \<circ> qw_record) ys = Inr items"
  using assms
proof (induction arbitrary: s u r xs ys rule: listing.induct)
  case (last_page w w1 q page w2)
  have l: "later v w1" using last_page by (metis driver_moves_def transpD)
  from next_page[OF last_page(2) last_page.prems(1-8) l last_page.prems(10-12)] last_page(3)
  show ?case unfolding paged_def by (cases "lri_limit q < length ys") (simp_all add: comp_def)
next
  case (more_pages w w1 q page w2 s' rest)
  have l: "later v w1" using more_pages by (metis driver_moves_def transpD)
  let ?n = "lri_limit q"
  from next_page[OF more_pages(2) more_pages.prems(1-8) l more_pages.prems(10-12)] more_pages(3)
  obtain u' where p: "later v w2" "map_checked (validate_request_record \<circ> qw_record) (take ?n ys) = Inr
      (page_items page)"
    "?n < length ys" "encode_cursor (cc_env codec) (cc_ring codec) (fst (cc_clock codec u')) scope
       (row_position (clock v) (last (take ?n ys))) = Inr s'"
    by (auto simp: paged_def split: if_splits)
  have "take ?n ys \<noteq> []" using p(3) more_pages.prems(4) by (auto simp: take_eq_Nil)
  then have page: "take ?n ys = butlast (take ?n ys) @ [last (take ?n ys)]" by simp
  have ys: "ys = butlast (take ?n ys) @ last (take ?n ys) # drop ?n ys"
    using page append_take_drop_id[of ?n ys] by (metis append.assoc append_Cons append_Nil)
  have "ceiling_rows (clock v) (table v) = (xs @ r # butlast (take ?n ys)) @ last (take ?n ys) # drop
      ?n ys"
    using more_pages.prems(11) ys by (metis append.assoc append_Cons)
  then have "map_checked (validate_request_record \<circ> qw_record) (drop ?n ys) = Inr rest"
    by (intro more_pages.IH[where s=s' and u=u' and r="last (take ?n ys)" and xs="xs @ r # butlast
        (take ?n ys)"])
      (use more_pages.prems(1-7) p in \<open>simp_all add: serves_def\<close>)
  then show ?case
    using p(2) map_checked_append[of "validate_request_record \<circ> qw_record" "take ?n ys" "drop ?n ys"]
    by (simp add: comp_def)
qed

text \<open>C19: The database answers from its table in order, the codec reads back the cursors it issued, and the
  requests submitted up to the time of a reading are neither changed nor withdrawn nor backdated
  afterwards; concurrent changes and backdated inserts can make a listing skip requests, as
  \<open>docs/contracts/postgres-erp-read-adapters.md\<close> says. Then a listing that is followed over all its pages,
  at any later times, gives every request of the employee that was submitted up to the time of its first
  page exactly once, the latest first, and none that is submitted later, however many are submitted
  between the pages.\<close>

theorem listing_complete:
  assumes "listing later (read_requests db t rt codec customer employee entities snapshot) w q items"
    and "entities \<noteq> []" "1 \<le> lri_limit q" "lri_cursor q = None"
    and "driver_moves later db codec" "serves later clock table db employee entities q"
    and "filter_digest (cc_env codec) (lri_statuses q) (lri_start_from q) (lri_start_to q) = Inr digest"
    and "codec_reads codec key (list_scope customer employee entities snapshot digest (lri_limit q))
      (issued_positions clock table)"
  shows "\<exists>v. later w v \<and> map_checked validate_request_record
    (map qw_record (submitted_until (clock v) (table v))) = Inr items"
  using assms(1)
proof (rule listingE)
  have trans: "transp later" using assms(5) by (simp add: driver_moves_def)
  fix w1 w2 page
  assume "later w w1" "read_requests db t rt codec customer employee entities snapshot q w1 = (Inr
      page, w2)"
  from this(1) first_page[OF this(2) assms(2,5,6,3,4,7)]
  obtain v where v: "later w v" "later v w2"
    "paged codec (list_scope customer employee entities snapshot digest (lri_limit q)) (lri_limit q)
        (clock v)
       (ceiling_rows (clock v) (table v)) page"
    using transpD[OF trans] by metis
  let ?R = "ceiling_rows (clock v) (table v)" let ?n = "lri_limit q"
  have rows: "map_checked validate_request_record (map qw_record (submitted_until (clock v) (table v)))
      = map_checked (validate_request_record \<circ> qw_record) ?R"
    by (simp add: ceiling_rows_def map_checked_map comp_def)
  {
    assume "items = page_items page" "page_next_cursor page = None"
    then have "map_checked (validate_request_record \<circ> qw_record) ?R = Inr items"
      using v(3) unfolding paged_def by (cases "?n < length ?R") (simp_all add: comp_def)
    with v(1) rows show ?thesis by auto
  next
    fix s rest
    assume n: "items = page_items page @ rest" "page_next_cursor page = Some s"
      "listing later (read_requests db t rt codec customer employee entities snapshot) w2
         (q\<lparr>lri_cursor := Some s\<rparr>) rest"
    obtain u where p: "map_checked (validate_request_record \<circ> qw_record) (take ?n ?R) = Inr (page_items
        page)"
      "?n < length ?R" "encode_cursor (cc_env codec) (cc_ring codec) (fst (cc_clock codec u))
         (list_scope customer employee entities snapshot digest ?n) (row_position (clock v) (last (take
             ?n ?R))) = Inr s"
      using v(3) n(2) by (auto simp: paged_def split: if_splits)
    have "take ?n ?R \<noteq> []" using p(2) assms(3) by (auto simp: take_eq_Nil)
    then have R: "?R = butlast (take ?n ?R) @ last (take ?n ?R) # drop ?n ?R"
      using append_take_drop_id[of ?n ?R] by (metis append.assoc append_Cons append_Nil
          append_butlast_last_id)
    have "map_checked (validate_request_record \<circ> qw_record) (drop ?n ?R) = Inr rest"
      by (rule listing_rest[where clock=clock and table=table and v=v and digest=digest and key=key,
            OF n(3) assms(2,5) _ _ _ _ _ _ v(2) _ R])
        (use assms(3,6-8) p in \<open>simp_all add: serves_def\<close>)
    then show ?thesis
      using p(1) map_checked_append[of "validate_request_record \<circ> qw_record" "take ?n ?R" "drop ?n ?R"]
          n(1) v(1) rows
      by (auto simp: comp_def)
  }
qed

section \<open>A database of a fixed table\<close>

definition after_position :: "cursor_position option \<Rightarrow> zoned_time \<Rightarrow> request_row list \<Rightarrow> request_row
    list" where
  "after_position pos now table =
     (case pos of
        None \<Rightarrow> ceiling_rows now table
      | Some p \<Rightarrow> (case (cp_ceiling p, cp_submitted_at p) of
          (Zoned c, Zoned s) \<Rightarrow>
            filter (\<lambda>b. zt_instant (qw_submitted_at b) < zt_instant s
              \<or> zt_instant s = zt_instant (qw_submitted_at b) \<and> cp_request_id p < lr_request_id
                  (qw_record b))
            (ceiling_rows c table)
        | _ \<Rightarrow> []))"

definition table_db :: "zoned_time \<Rightarrow> request_row list \<Rightarrow> (unit, unit, 'w) erp_driver" where
  "table_db now table = \<lparr>db_connect = \<lambda>_ w. (Inr (), w), db_set = \<lambda>_ w. (Inr (), w), db_profile =
      \<lambda>_ w. (Inr None, w),
     db_balances = \<lambda>_ w. (Inr [], w),
     db_requests = \<lambda>(c, l) w. (Inr (take (lq_limit l) (after_position (lq_position l) now table)), w),
     db_detail = \<lambda>_ w. (Inr None, w), db_history = \<lambda>_ w. (Inr [], w), db_finish = \<lambda>_ w. (Inr (), w)\<rparr>"

lemma table_db_serves:
  "sorted_wrt row_precedes table \<Longrightarrow> serves later (\<lambda>_. now) (\<lambda>_. table) (table_db now table) employee
      entities q"
  by (simp add: serves_def table_db_def after_position_def requests_query_def row_position_def
      row_precedes_def[abs_def])

lemma table_db_moves:
  "reflp later \<Longrightarrow> transp later \<Longrightarrow> moves later (cc_clock codec) \<Longrightarrow> driver_moves later (table_db now table)
      codec"
  by (auto simp: driver_moves_def table_db_def moves_def reflp_def split: prod.splits)

definition sample_row :: "uuid \<Rightarrow> request_row" where
  "sample_row u = \<lparr>qw_record = sample_request u 0, qw_submitted_at = \<lparr>zt_local = 0, zt_offset = 0\<rparr>,
     qw_ceiling = \<lparr>zt_local = 0, zt_offset = 0\<rparr>\<rparr>"

definition sample_table :: "request_row list" where
  "sample_table = [sample_row 9, sample_row 10]"

definition page_codec :: "'w cursor_codec" where
  "page_codec = \<lparr>cc_env = sample_cursor_env, cc_ring = sample_ring (lit ''k1''), cc_clock = \<lambda>w. (1000,
      w)\<rparr>"

definition sample_query :: "pystr option \<Rightarrow> list_requests_input" where
  "sample_query cur = \<lparr>lri_statuses = [], lri_start_from = None, lri_start_to = None, lri_limit = 1,
      lri_cursor = cur\<rparr>"

definition sample_timeouts :: read_timeouts where
  "sample_timeouts = \<lparr>statement_timeout_ms = 5000, lock_timeout_ms = 2000, idle_timeout_ms = 10000\<rparr>"

definition sample_router :: "unit router" where
  "sample_router = \<lparr>rt_pools = [(lit ''env1'', ())], rt_started = True\<rparr>"

definition sample_listing :: "list_requests_input \<Rightarrow> (read_stop, unit, leave_request_page) proc" where
  "sample_listing = read_requests (table_db \<lparr>zt_local = 0, zt_offset = 0\<rparr> sample_table) sample_timeouts
     sample_router page_codec (lit ''env1'') (lit ''emp1'') [lit ''le1''] (lit ''snap1'')"

lemma sample_filter_digest: "filter_digest sample_cursor_env [] None None = Inr (unpadded_b64
    (replicate 16 7))"
  by (simp add: filter_digest_def filter_text_def short_digest_def encode_utf8_def utf8_encodable_def
      optional_date_text_def ascii_quote_def sample_cursor_env_def)

lemma sample_list_scope: "list_scope (lit ''env1'') (lit ''emp1'') [lit ''le1''] (lit ''snap1'')
    (unpadded_b64 (replicate 16 7)) 1 = sample_scope"
  by (simp add: list_scope_def sample_scope_def)

lemma sample_rows_ordered: "sorted_wrt row_precedes sample_table"
  by (simp add: sample_table_def sample_row_def row_precedes_def sample_request_def)

lemma sample_request_valid: "validate_request_record (sample_request u t) = Inr (sample_request u t)"
proof -
  have "stripped_text 1 20 (lit ''AL'') = Inr (lit ''AL'')" "stripped_text 1 100 (lit ''Annual'') = Inr
      (lit ''Annual'')"
    "calculation_version_ok (lit ''1.0.0'') = Inr (lit ''1.0.0'')" "working_days_ok 200 = Inr 200"
    by (simp_all add: stripped_text_def sample_text calculation_version_ok_def working_days_ok_def
        is_semver_def is_canonical_number_def Let_def)
  then show ?thesis by (simp add: validate_request_record_def sample_request_def
      validate_dates_and_half_day_def)
qed

lemma sample_ceiling_rows: "ceiling_rows \<lparr>zt_local = 0, zt_offset = 0\<rparr> sample_table = sample_table"
  by (simp add: ceiling_rows_def submitted_until_def sample_table_def sample_row_def)

lemma sample_page_position: "row_position \<lparr>zt_local = 0, zt_offset = 0\<rparr> (sample_row 9) =
    sample_position"
  by (simp add: row_position_def sample_row_def sample_position_def sample_request_def)

lemma sample_row_precedes: "row_precedes (sample_row a) (sample_row b) \<longleftrightarrow> a < b"
  by (simp add: row_precedes_def sample_row_def sample_request_def)

lemma codec_reads_mono: "codec_reads codec key scope P \<Longrightarrow> Q \<subseteq> P \<Longrightarrow> codec_reads codec key scope Q"
  unfolding codec_reads_def by blast

lemma sample_codec_reads:
  "codec_reads (page_codec :: 'w cursor_codec) (replicate 33 0) sample_scope
     (issued_positions (\<lambda>_. \<lparr>zt_local = 0, zt_offset = 0\<rparr>) (\<lambda>_::'w. sample_table))"
proof -
  have "codec_reads (page_codec :: 'w cursor_codec) (replicate 33 0) sample_scope {sample_position}"
    using sample_digests sample_key sample_ring_valid sample_loads
    by (simp add: codec_reads_def page_codec_def digests_def sample_codec)
  moreover have "issued_positions (\<lambda>_. \<lparr>zt_local = 0, zt_offset = 0\<rparr>) (\<lambda>_::'w. sample_table) \<subseteq>
      {sample_position}"
    by (auto simp: issued_positions_def sample_table_def sample_row_precedes sample_page_position)
  ultimately show ?thesis by (rule codec_reads_mono)
qed

lemma table_transaction:
  "read_transaction (table_db now table) t p (\<lambda>c. db_requests (table_db now table) ((), l)) w
     = (Inr (take (lq_limit l) (after_position (lq_position l) now table)), w)"
  by (simp add: read_transaction_def setup_statements_def table_db_def andthen_def attempt_def)

lemma sample_after_position:
  "after_position None \<lparr>zt_local = 0, zt_offset = 0\<rparr> sample_table = [sample_row 9, sample_row 10]"
  "after_position (Some sample_position) \<lparr>zt_local = 0, zt_offset = 0\<rparr> sample_table = [sample_row 10]"
  by (simp_all add: after_position_def sample_position_def sample_ceiling_rows)
    (simp_all add: sample_table_def sample_row_def sample_request_def)

lemma sample_row_record [simp]: "qw_record (sample_row u) = sample_request u 0"
  by (simp add: sample_row_def)

lemma encoded_cursor_opaque:
  assumes "encode_cursor env ring now scope pos = Inr cursor"
  shows "opaque_cursor cursor = Inr cursor"
proof -
  have "length cursor \<le> 512" "46 \<in> set cursor"
    using assms by (auto elim!: encode_cursor_InrE simp: MAX_CURSOR_SIZE_def)
  moreover have "py_strip cursor \<noteq> []" if "46 \<in> set cursor"
  proof -
    have "\<not> py_isspace 46" by (simp add: py_isspace_def)
    then show ?thesis using that py_strip_decomp[of cursor] by (auto simp: list_all_iff)
  qed
  ultimately show ?thesis by (simp add: opaque_cursor_def)
qed

lemma sample_listing_pages:
  assumes "encode_cursor sample_cursor_env (sample_ring (lit ''k1'')) 1000 sample_scope sample_position
      = Inr cursor"
  shows "sample_listing (sample_query None) () = (Inr \<lparr>page_items = [sample_request 9 0],
      page_next_cursor = Some cursor\<rparr>, ())"
    and "sample_listing (sample_query (Some cursor)) () = (Inr \<lparr>page_items = [sample_request 10 0],
        page_next_cursor = None\<rparr>, ())"
proof -
  have "next_position None [sample_row 9] = sample_position"
    using sample_page_position by (simp add: next_position_def row_position_def sample_row_def)
  then show "sample_listing (sample_query None) () = (Inr \<lparr>page_items = [sample_request 9 0],
      page_next_cursor = Some cursor\<rparr>, ())"
    using assms encoded_cursor_opaque[OF assms]
    by (simp add: sample_listing_def sample_query_def sample_router_def read_requests_def
        page_codec_def sample_filter_digest sample_list_scope[simplified]
        decode_given_def routed_def router_pool_def guarded_def attempt_def andthen_def
            table_transaction
        sample_after_position sample_request_valid next_cursor_def give_def checked_or_def)
  have "decode_cursor sample_cursor_env (sample_ring (lit ''k1'')) 1000 sample_scope cursor = Inr
      sample_position"
    by (rule iffD2[OF sample_decodes[OF assms]]) (simp add: sample_ring_def)
  then show "sample_listing (sample_query (Some cursor)) () = (Inr \<lparr>page_items = [sample_request 10 0],
      page_next_cursor = None\<rparr>, ())"
    by (simp add: sample_listing_def sample_query_def sample_router_def read_requests_def
        page_codec_def sample_filter_digest sample_list_scope[simplified]
        decode_given_def routed_def router_pool_def guarded_def attempt_def andthen_def
            table_transaction
        sample_after_position sample_request_valid next_cursor_def give_def checked_or_def)
qed

theorem listing_complete_witness:
  "listing (\<lambda>_ _. True) sample_listing () (sample_query None) [sample_request 9 0, sample_request 10 0]
   \<and> map_checked validate_request_record
        (map qw_record (submitted_until \<lparr>zt_local = 0, zt_offset = 0\<rparr> sample_table))
      = Inr [sample_request 9 0, sample_request 10 0]"
proof -
  let ?later = "\<lambda>_ _ :: unit. True"
  obtain cursor where c: "encode_cursor sample_cursor_env (sample_ring (lit ''k1'')) 1000 sample_scope
      sample_position
      = Inr cursor" using sample_cursor(2) by blast
  have again: "(sample_query None)\<lparr>lri_cursor := Some cursor\<rparr> = sample_query (Some cursor)" by (simp
      add: sample_query_def)
  have "listing ?later sample_listing () (sample_query (Some cursor)) [sample_request 10 0]"
    using listing.last_page[of ?later _ _ sample_listing, OF TrueI sample_listing_pages(2)[OF c]] by
        simp
  then have run: "listing ?later sample_listing () (sample_query None) [sample_request 9 0,
      sample_request 10 0]"
    using listing.more_pages[of ?later _ _ sample_listing, OF TrueI sample_listing_pages(1)[OF c]]
        again by simp
  have "driver_moves ?later (table_db \<lparr>zt_local = 0, zt_offset = 0\<rparr> sample_table) page_codec"
    by (rule table_db_moves) (simp_all add: reflp_def transp_def moves_def)
  note moves = this
  let ?q = "sample_query None" and ?digest = "unpadded_b64 (replicate 16 7)"
  have digest: "filter_digest (cc_env page_codec) (lri_statuses ?q) (lri_start_from ?q) (lri_start_to
      ?q) = Inr ?digest"
    using sample_filter_digest by (simp add: sample_query_def page_codec_def)
  have scope: "list_scope (lit ''env1'') (lit ''emp1'') [lit ''le1''] (lit ''snap1'') ?digest
      (lri_limit ?q) = sample_scope"
    using sample_list_scope by (simp add: sample_query_def)
  have "\<exists>v :: unit. True \<and> map_checked validate_request_record
        (map qw_record (submitted_until \<lparr>zt_local = 0, zt_offset = 0\<rparr> sample_table))
      = Inr [sample_request 9 0, sample_request 10 0]"
    by (rule listing_complete[where clock="\<lambda>_. \<lparr>zt_local = 0, zt_offset = 0\<rparr>" and table="\<lambda>_.
        sample_table",
          OF run[unfolded sample_listing_def] _ _ _ moves table_db_serves[OF sample_rows_ordered] digest
          sample_codec_reads[folded scope]]) (simp_all add: sample_query_def)
  with run show ?thesis by simp
qed

end
