(* ===== verification/ErpRouterProperties.thy ===== *)
theory ErpRouterProperties
  imports ErpReadProperties
begin

text \<open>
  What a verified reader connection guarantees, which database a customer's pool reads, and that the
      router
  leaves no pool open.
\<close>

section \<open>Grouping columns by view\<close>

lemma map_of_add_column:
  "map_of (add_column n c vs) = (map_of vs)(n \<mapsto> columns_of vs n @ [c])"
  by (induction vs) (auto simp: columns_of_def fun_eq_iff split: option.splits)

lemma columns_of_add: "columns_of (add_column n c vs) k = columns_of vs k @ (if k = n then [c] else [])"
  by (simp add: columns_of_def map_of_add_column)

lemma keys_add_column: "fst ` set (add_column n c vs) = insert n (fst ` set vs)"
proof (induction vs)
  case (Cons v vs)
  then show ?case by (cases v) (simp add: insert_commute)
qed simp

lemma group_columns_snoc:
  "group_columns (rows @ [(view, c)]) = add_column (SCHEMA_PREFIX @ view) c (group_columns rows)"
  by (cases c) (simp add: group_columns_def)

lemma columns_of_group:
  "columns_of (group_columns rows) k = map snd (filter (\<lambda>r. SCHEMA_PREFIX @ fst r = k) rows)"
proof (induction rows rule: rev_induct)
  case Nil
  show ?case by (simp add: group_columns_def columns_of_def)
next
  case (snoc r rows)
  then show ?case by (cases r) (auto simp: group_columns_snoc columns_of_add)
qed

lemma keys_group: "fst ` set (group_columns rows) = (\<lambda>r. SCHEMA_PREFIX @ fst r) ` set rows"
proof (induction rows rule: rev_induct)
  case Nil
  show ?case by (simp add: group_columns_def)
next
  case (snoc r rows)
  then show ?case by (cases r) (auto simp: group_columns_snoc keys_add_column)
qed

lemma order_views_exact:
  assumes "order_views actual = BUSINESS_VIEW_SIGNATURES"
  shows "fst ` set actual \<subseteq> fst ` set BUSINESS_VIEW_SIGNATURES"
    and "v \<in> set BUSINESS_VIEW_SIGNATURES \<Longrightarrow> columns_of actual (fst v) = snd v"
proof -
  let ?known = "map (\<lambda>v. (fst v, columns_of actual (fst v))) BUSINESS_VIEW_SIGNATURES"
  let ?rest = "filter (\<lambda>v. fst v \<notin> set (map fst BUSINESS_VIEW_SIGNATURES)) actual"
  have eq: "?known @ sort_key fst ?rest = BUSINESS_VIEW_SIGNATURES" using assms by (simp add:
      order_views_def)
  have "length (?known @ sort_key fst ?rest) = length BUSINESS_VIEW_SIGNATURES" by (simp only: eq)
  then have none: "?rest = []" by simp
  then show "fst ` set actual \<subseteq> fst ` set BUSINESS_VIEW_SIGNATURES" by (auto simp: filter_empty_conv)
  have "?known = map id BUSINESS_VIEW_SIGNATURES" using eq none by simp
  then show "v \<in> set BUSINESS_VIEW_SIGNATURES \<Longrightarrow> columns_of actual (fst v) = snd v"
    unfolding map_eq_conv by (metis id_apply snd_conv)
qed

section \<open>Verified contracts\<close>

lemma fst_result: "f w = (x, w') \<Longrightarrow> \<exists>w. fst (f w) = x"
  by (intro exI[of _ w]) simp

lemma query_Inr [simp]: "query m w = (Inr v, w') \<longleftrightarrow> m w = (Inr v, w')"
  by (simp add: query_def)

lemma contract_check_Inr [simp]: "contract_check m w = (Inr v, w') \<longleftrightarrow> m = Inr v \<and> w' = w"
  by (auto simp: contract_check_def stop_def give_def split: sum.splits)

lemma validate_snapshot_Inr:
  "validate_contract_snapshot sha256 version digest views metadata_view = Inr u \<longleftrightarrow>
     version = Some CONTRACT_VERSION \<and> digest = Some (contract_digest sha256)
     \<and> metadata_view = METADATA_VIEW_SIGNATURE \<and> views = BUSINESS_VIEW_SIGNATURES"
  by (auto simp: validate_contract_snapshot_def)

lemma verify_reader_InrE:
  assumes "verify_reader_contract sha256 r database w = (Inr u, w')"
  obtains w1 w2 w3 w4 w5 w6 w7 w8 w9 w10 metadata columns where
    "between 15 18 (rd_server_version r div 10000)"
    "rd_database r w = (Inr (Some database), w1)" "rd_metadata r w1 = (Inr metadata, w2)"
    "Option.bind metadata fst = Some CONTRACT_VERSION" "Option.bind metadata snd = Some
        (contract_digest sha256)"
    "rd_metadata_columns r w2 = (Inr (snd METADATA_VIEW_SIGNATURE), w3)" "rd_columns r w3 = (Inr
        columns, w4)"
    "order_views (group_columns columns) = BUSINESS_VIEW_SIGNATURES"
    "rd_role r w4 = (Inr (Some (False, False)), w5)" "rd_base_owned r w6 = (Inr False, w7)"
    "rd_grants r w7 = (Inr expected_grants, w8)" "rd_forbidden r w9 = (Inr False, w10)"
proof -
  obtain metadata columns metadata_columns role owners creation w1 w2 w3 w4 w5 w6 w7 w8 w9 w10 where
    "validate_postgres_version (rd_server_version r) = Inr ()"
    "rd_database r w = (Inr (Some database), w1)" "rd_metadata r w1 = (Inr metadata, w2)"
    "rd_metadata_columns r w2 = (Inr metadata_columns, w3)" "rd_columns r w3 = (Inr columns, w4)"
    "validate_contract_snapshot sha256 (Option.bind metadata fst) (Option.bind metadata snd)
       (order_views (group_columns columns)) (lit ''ai_read.contract_metadata_v1'', metadata_columns) =
           Inr ()"
    "rd_role r w4 = (Inr role, w5)" "\<not> (case role of None \<Rightarrow> True | Some (super, bypass) \<Rightarrow> super \<or>
        bypass)"
    "rd_owners r w5 = (Inr owners, w6)" "rd_base_owned r w6 = (Inr False, w7)"
    "rd_grants r w7 = (Inr expected_grants, w8)" "rd_creation r w8 = (Inr creation, w9)"
    "rd_forbidden r w9 = (Inr False, w10)"
    using assms unfolding verify_reader_contract_def by (auto elim!: andthen_InrE)
  then show thesis
    by (intro that[of w1 metadata w2 w3 columns w4 w5 w6 w7 w8 w9 w10])
      (auto simp: validate_postgres_version_def validate_snapshot_Inr METADATA_VIEW_SIGNATURE_def
          signature_def
        split: option.splits prod.splits if_splits elim!: raise_if_InrE)
qed

text \<open>A reader connection that passes the verification is connected to the database of its route,
    on a
  supported server, whose metadata carry this contract, whose visible columns are exactly those of the
  contract's views, in their order, and whose role has exactly the expected privileges on the views.\<close>

theorem reader_contract_verified:
  assumes "verify_reader_contract sha256 r database w = (Inr u, w')"
  shows "between 15 18 (rd_server_version r div 10000)
    \<and> fst (rd_database r w) = Inr (Some database)
    \<and> (\<exists>w1. fst (rd_metadata r w1) = Inr (Some (Some CONTRACT_VERSION, Some (contract_digest sha256))))
    \<and> (\<exists>w1 columns. fst (rd_columns r w1) = Inr columns
        \<and> (\<lambda>c. SCHEMA_PREFIX @ fst c) ` set columns = fst ` set BUSINESS_VIEW_SIGNATURES
        \<and> (\<forall>v \<in> set BUSINESS_VIEW_SIGNATURES.
             map snd (filter (\<lambda>c. SCHEMA_PREFIX @ fst c = fst v) columns) = snd v))
    \<and> (\<exists>w1. fst (rd_role r w1) = Inr (Some (False, False)))
    \<and> (\<exists>w1. fst (rd_base_owned r w1) = Inr False)
    \<and> (\<exists>w1. fst (rd_grants r w1) = Inr expected_grants)
    \<and> (\<exists>w1. fst (rd_forbidden r w1) = Inr False)"
  using assms
proof (rule verify_reader_InrE)
  fix w1 w2 w3 w4 w5 w6 w7 w8 w9 w10 metadata columns
  assume v: "between 15 18 (rd_server_version r div 10000)"
    "rd_database r w = (Inr (Some database), w1)" "rd_metadata r w1 = (Inr metadata, w2)"
    "Option.bind metadata fst = Some CONTRACT_VERSION" "Option.bind metadata snd = Some
        (contract_digest sha256)"
    "rd_metadata_columns r w2 = (Inr (snd METADATA_VIEW_SIGNATURE), w3)" "rd_columns r w3 = (Inr
        columns, w4)"
    "order_views (group_columns columns) = BUSINESS_VIEW_SIGNATURES"
    "rd_role r w4 = (Inr (Some (False, False)), w5)" "rd_base_owned r w6 = (Inr False, w7)"
    "rd_grants r w7 = (Inr expected_grants, w8)" "rd_forbidden r w9 = (Inr False, w10)"
  have m: "metadata = Some (Some CONTRACT_VERSION, Some (contract_digest sha256))"
    using v(4,5) by (cases metadata) auto
  have cols: "map snd (filter (\<lambda>c. SCHEMA_PREFIX @ fst c = fst v) columns) = snd v"
    if "v \<in> set BUSINESS_VIEW_SIGNATURES" for v
    using order_views_exact(2)[OF v(8) that] by (simp add: columns_of_group)
  have some: "snd v \<noteq> []" if "v \<in> set BUSINESS_VIEW_SIGNATURES" for v
    using that by (auto simp: BUSINESS_VIEW_SIGNATURES_def signature_def)
  have "fst v \<in> (\<lambda>c. SCHEMA_PREFIX @ fst c) ` set columns" if "v \<in> set BUSINESS_VIEW_SIGNATURES" for v
    using some[OF that] unfolding cols[OF that, symmetric] by (force simp: filter_empty_conv)
  then have "(\<lambda>c. SCHEMA_PREFIX @ fst c) ` set columns = fst ` set BUSINESS_VIEW_SIGNATURES"
    using order_views_exact(1)[OF v(8)] unfolding keys_group by blast
  moreover have "fst (rd_columns r w3) = Inr columns" using v(7) by simp
  ultimately have "\<exists>w1 columns. fst (rd_columns r w1) = Inr columns
        \<and> (\<lambda>c. SCHEMA_PREFIX @ fst c) ` set columns = fst ` set BUSINESS_VIEW_SIGNATURES
        \<and> (\<forall>v \<in> set BUSINESS_VIEW_SIGNATURES.
             map snd (filter (\<lambda>c. SCHEMA_PREFIX @ fst c = fst v) columns) = snd v)" using cols by blast
  then show ?thesis
    using v(1,2) v(3)[unfolded m] v(9-12) by (auto intro: fst_result)
qed

text \<open>A reader of a database that keeps the contract.\<close>

definition contract_columns :: "(pystr \<times> pystr \<times> pystr) list" where
  "contract_columns = concat (map (\<lambda>v. map (\<lambda>c. (drop (length SCHEMA_PREFIX) (fst v), c)) (snd v))
     BUSINESS_VIEW_SIGNATURES)"

definition sample_reader :: "pystr \<Rightarrow> 'w reader" where
  "sample_reader database = \<lparr>rd_server_version = 160004, rd_database = \<lambda>w. (Inr (Some database), w),
     rd_metadata = \<lambda>w. (Inr (Some (Some CONTRACT_VERSION, Some (contract_digest (\<lambda>_. lit ''d'')))), w),
     rd_metadata_columns = \<lambda>w. (Inr (snd METADATA_VIEW_SIGNATURE), w), rd_columns = \<lambda>w. (Inr
         contract_columns, w),
     rd_role = \<lambda>w. (Inr (Some (False, False)), w), rd_owners = \<lambda>w. (Inr [(False, False, False)], w),
     rd_base_owned = \<lambda>w. (Inr False, w), rd_grants = \<lambda>w. (Inr expected_grants, w),
     rd_creation = \<lambda>w. (Inr (Some [False, False, False]), w), rd_forbidden = \<lambda>w. (Inr False, w)\<rparr>"

definition view_columns :: "view_signature list \<Rightarrow> (pystr \<times> pystr \<times> pystr) list" where
  "view_columns vs = concat (map (\<lambda>v. map (\<lambda>c. (drop (length SCHEMA_PREFIX) (fst v), c)) (snd v)) vs)"

lemma filter_view_columns:
  assumes "distinct (map fst vs)" "\<forall>v \<in> set vs. take (length SCHEMA_PREFIX) (fst v) = SCHEMA_PREFIX" "v
      \<in> set vs"
  shows "map snd (filter (\<lambda>r. SCHEMA_PREFIX @ fst r = fst v) (view_columns vs)) = snd v"
  using assms
proof (induction vs)
  case (Cons a vs)
  have name: "SCHEMA_PREFIX @ drop (length SCHEMA_PREFIX) (fst a) = fst a"
    using Cons.prems(2) append_take_drop_id[of "length SCHEMA_PREFIX" "fst a"] by simp
  have none: "SCHEMA_PREFIX @ fst r \<noteq> fst a" if "r \<in> set (view_columns vs)" for r
  proof -
    obtain b where "b \<in> set vs" "fst r = drop (length SCHEMA_PREFIX) (fst b)"
      using \<open>r \<in> set (view_columns vs)\<close> by (auto simp: view_columns_def)
    then show ?thesis using Cons.prems(1,2) append_take_drop_id[of "length SCHEMA_PREFIX" "fst b"] by
        (auto simp: image_iff)
  qed
  have split: "filter P (view_columns (a # vs))
      = filter P (map (\<lambda>c. (drop (length SCHEMA_PREFIX) (fst a), c)) (snd a)) @ filter P (view_columns
          vs)" for P
    by (simp add: view_columns_def)
  show ?case
  proof (cases "v = a")
    case True
    then have "filter (\<lambda>r. SCHEMA_PREFIX @ fst r = fst v) (view_columns vs) = []" using none by (auto
        simp: filter_empty_conv)
    then show ?thesis using True name by (simp add: split filter_map comp_def)
  next
    case False
    then have "v \<in> set vs" using Cons.prems by auto
    then have "fst v \<in> fst ` set vs" by (rule imageI)
    then have "fst v \<noteq> fst a" using Cons.prems(1) by (metis distinct.simps(2) list.simps(9) set_map)
    note \<open>v \<in> set vs\<close> this
    then show ?thesis using Cons name by (simp add: split filter_map comp_def)
  qed
qed simp

lemma business_views:
  "distinct (map fst BUSINESS_VIEW_SIGNATURES)"
  "\<forall>v \<in> set BUSINESS_VIEW_SIGNATURES. take (length SCHEMA_PREFIX) (fst v) = SCHEMA_PREFIX"
  by (simp_all add: BUSINESS_VIEW_SIGNATURES_def signature_def SCHEMA_PREFIX_def lit_def)

lemma contract_columns_views: "order_views (group_columns contract_columns) = BUSINESS_VIEW_SIGNATURES"
proof -
  have c: "contract_columns = view_columns BUSINESS_VIEW_SIGNATURES" by (simp add: contract_columns_def
      view_columns_def)
  have "fst ` set (group_columns contract_columns) \<subseteq> fst ` set BUSINESS_VIEW_SIGNATURES"
  proof -
    have "SCHEMA_PREFIX @ drop (length SCHEMA_PREFIX) (fst v) = fst v" if "v \<in> set
        BUSINESS_VIEW_SIGNATURES" for v
      using business_views(2) that append_take_drop_id[of "length SCHEMA_PREFIX" "fst v"] by simp
    then show ?thesis unfolding keys_group c by (force simp: view_columns_def)
  qed
  then have "filter (\<lambda>v. fst v \<notin> set (map fst BUSINESS_VIEW_SIGNATURES)) (group_columns
      contract_columns) = []"
    by (auto simp: filter_empty_conv)
  moreover have "map (\<lambda>v. (fst v, columns_of (group_columns contract_columns) (fst v)))
      BUSINESS_VIEW_SIGNATURES
      = map id BUSINESS_VIEW_SIGNATURES"
    unfolding map_eq_conv columns_of_group c using filter_view_columns[OF business_views] by simp
  ultimately show ?thesis by (simp add: order_views_def)
qed

lemma query_const: "query (\<lambda>w. (Inr x, w)) = give x"
  by (simp add: query_def attempt_def give_def fun_eq_iff)

lemma contract_check_ok: "contract_check (Inr u) = give u"
  by (simp add: contract_check_def)

lemma sample_snapshot:
  "validate_contract_snapshot sha256 (Some CONTRACT_VERSION) (Some (contract_digest sha256))
     (order_views (group_columns contract_columns))
     (lit ''ai_read.contract_metadata_v1'', snd METADATA_VIEW_SIGNATURE) = Inr ()"
  unfolding validate_snapshot_Inr contract_columns_views by (simp add: METADATA_VIEW_SIGNATURE_def
      signature_def)

lemma sample_reader_verified:
  fixes w :: 'w
  shows "verify_reader_contract (\<lambda>_. lit ''d'') (sample_reader database) database w = (Inr (), w)"
proof -
  have "validate_postgres_version 160004 = Inr ()" by (simp add: validate_postgres_version_def
      between_def)
  then have "verify_reader_contract (\<lambda>_. lit ''d'') (sample_reader database :: 'w reader) database =
      give ()"
    unfolding verify_reader_contract_def sample_reader_def
    by (simp add: query_const contract_check_ok sample_snapshot) (simp add: give_def)
  then show ?thesis by (simp add: give_def)
qed

theorem reader_contract_verified_witness:
  "fst (rd_database (sample_reader (lit ''erp_a'')) ()) = Inr (Some (lit ''erp_a''))
   \<and> fst (rd_columns (sample_reader (lit ''erp_a'')) ()) = Inr contract_columns"
  using reader_contract_verified[OF sample_reader_verified, of "lit ''erp_a''"]
  by (simp add: sample_reader_def)

lemma sample_reader_mismatch:
  "database \<noteq> d \<Longrightarrow> fst (verify_reader_contract sha256 (sample_reader d) database w)
     = Inl (ContractError ''ERP database identity mismatch'')"
  by (simp add: verify_reader_contract_def sample_reader_def query_const contract_check_ok
      validate_postgres_version_def
      between_def)

section \<open>Routing\<close>

text \<open>The pool of a route: created with its DSN, and verified against its database.\<close>

definition route_pool ::
  "(nat list \<Rightarrow> pystr) \<Rightarrow> ('p, 'w) pools \<Rightarrow> erp_database_config \<Rightarrow> erp_route \<Rightarrow> 'p \<Rightarrow> bool" where
  "route_pool sha256 po cfg route p \<longleftrightarrow>
     (\<exists>w. fst (po_create po (er_reader_dsn route, ed_minimum_pool_size cfg, ed_maximum_pool_size cfg)
         w) = p)
     \<and> (\<exists>w w1. verify_route sha256 po (er_database route) p w = (Inr (), w1))"

lemma verify_route_InrE:
  assumes "verify_route sha256 po database p w = (Inr u, w')"
  obtains r w1 w2 w3 where "po_open po p w = (Inr (), w1)" "po_reader po p w1 = (Inr r, w2)"
    "verify_reader_contract sha256 r database w2 = (Inr (), w3)"
proof (cases "andthen (attempt id (po_open po p)) (\<lambda>_. attempt id (po_reader po p)) w")
  case (Pair res w1)
  then obtain r where r: "res = Inr r"
    using assms by (cases res) (auto simp: verify_route_def)
  then have "\<exists>w2. verify_reader_contract sha256 r database w1 = (Inr (), w2)"
    using assms Pair by (auto simp: verify_route_def split: prod.splits sum.splits contract_stop.splits)
  moreover obtain w0 where "po_open po p w = (Inr (), w0)" "po_reader po p w0 = (Inr r, w1)"
    using Pair r by (auto elim!: andthen_InrE)
  ultimately show thesis using that by blast
qed

lemma put_pool_new: "k \<notin> set (map fst ps) \<Longrightarrow> put_pool k p ps = ps @ [(k, p)]"
  by (simp add: put_pool_def)

lemma open_routes_Inr:
  assumes "open_routes sha256 po cfg routes pools w = ((Inr u, pools'), w')"
    and "distinct (map fst pools @ map er_customer routes)"
  shows "\<exists>qs. pools' = pools @ qs
    \<and> list_all2 (\<lambda>route q. fst q = er_customer route \<and> route_pool sha256 po cfg route (snd q)) routes
        qs"
  using assms
proof (induction routes arbitrary: pools w)
  case (Cons route routes)
  obtain p w1 where p: "po_create po (er_reader_dsn route, ed_minimum_pool_size cfg,
      ed_maximum_pool_size cfg) w = (p, w1)"
    by (rule prod.exhaust)
  have new: "put_pool (er_customer route) p pools = pools @ [(er_customer route, p)]"
    using Cons.prems(2) by (simp add: put_pool_new)
  obtain u' w2 where v: "verify_route sha256 po (er_database route) p w1 = (Inr u', w2)"
    "open_routes sha256 po cfg routes (pools @ [(er_customer route, p)]) w2 = ((Inr u, pools'), w')"
    using Cons.prems(1) p new by (auto simp: Let_def split: prod.splits sum.splits)
  have "distinct (map fst (pools @ [(er_customer route, p)]) @ map er_customer routes)" using
      Cons.prems(2) by auto
  from Cons.IH[OF v(2) this] obtain qs where "pools' = pools @ (er_customer route, p) # qs"
    "list_all2 (\<lambda>route q. fst q = er_customer route \<and> route_pool sha256 po cfg route (snd q)) routes
        qs" by auto
  moreover have "route_pool sha256 po cfg route p"
    unfolding route_pool_def using p v(1) by (auto intro: exI[of _ w])
  ultimately show ?case by (intro exI[of _ "(er_customer route, p) # qs"]) simp
qed simp

lemma validate_erp_config_InrD:
  "validate_erp_config c = Inr cfg \<Longrightarrow> distinct (map er_customer (ed_routes cfg))
     \<and> distinct (map er_database (ed_routes cfg)) \<and> ed_routes cfg \<noteq> []"
  unfolding validate_erp_config_def
  by (auto elim!: bindE_InrE split: if_splits dest!: map_checked_InrD dest: list_all2_lengthD)

text \<open>C25: The pool a started router gives for a customer was created with the DSN of the one route of
    that
  customer, and its reader passed the verification: it answered with that route's own database, which
  no other customer's route names, and with the views of the contract.\<close>

theorem customer_reads_own_database:
  assumes "validate_erp_config c = Inr cfg" and "rt_started rt = False"
    and "router_open sha256 po cfg rt w = ((Inr u, rt'), w')" and "router_pool rt' customer = Inr p"
  shows "\<exists>route \<in> set (ed_routes cfg). er_customer route = customer
    \<and> (\<exists>w1. fst (po_create po (er_reader_dsn route, ed_minimum_pool_size cfg, ed_maximum_pool_size cfg)
        w1) = p)
    \<and> (\<exists>r w1 w2 w3. fst (po_reader po p w1) = Inr r \<and> fst (rd_database r w2) = Inr (Some (er_database
        route))
        \<and> verify_reader_contract sha256 r (er_database route) w2 = (Inr (), w3))
    \<and> (\<forall>other \<in> set (ed_routes cfg). er_database other = er_database route \<longrightarrow> er_customer other =
        customer)"
proof -
  note valid = validate_erp_config_InrD[OF assms(1)]
  obtain pools where o: "open_routes sha256 po cfg (ed_routes cfg) [] w = ((Inr (), pools), w')"
    "rt' = \<lparr>rt_pools = pools, rt_started = True\<rparr>"
    using assms(2,3) by (auto simp: router_open_def split: prod.splits sum.splits)
  have all: "list_all2 (\<lambda>route q. fst q = er_customer route \<and> route_pool sha256 po cfg route (snd q))
      (ed_routes cfg) pools"
    using open_routes_Inr[OF o(1)] valid by auto
  have "(customer, p) \<in> set pools"
    using assms(4) o(2) by (auto simp: router_pool_def split: option.splits dest: map_of_SomeD)
  then obtain route where r: "route \<in> set (ed_routes cfg)" "er_customer route = customer" "route_pool
      sha256 po cfg route p"
    using all by (fastforce simp: list_all2_conv_all_nth in_set_conv_nth)
  obtain w1 w2 where v: "verify_route sha256 po (er_database route) p w1 = (Inr (), w2)"
    using r(3) by (auto simp: route_pool_def)
  have "\<exists>r w1 w2 w3. fst (po_reader po p w1) = Inr r \<and> fst (rd_database r w2) = Inr (Some (er_database
      route))
        \<and> verify_reader_contract sha256 r (er_database route) w2 = (Inr (), w3)"
  proof (rule verify_route_InrE[OF v])
    fix r w3 w4 w5
    assume "po_reader po p w3 = (Inr r, w4)" and c: "verify_reader_contract sha256 r (er_database
        route) w4 = (Inr (), w5)"
    moreover have "fst (rd_database r w4) = Inr (Some (er_database route))"
      using c by (rule verify_reader_InrE) simp
    ultimately show ?thesis by (metis fst_eqD)
  qed
  moreover have "\<forall>other \<in> set (ed_routes cfg). er_database other = er_database route \<longrightarrow> er_customer
      other = customer"
    using valid r(1,2) by (auto simp: distinct_map inj_on_def)
  ultimately show ?thesis using r by (auto simp: route_pool_def)
qed

section \<open>No pool is left open\<close>

text \<open>The pools that are open, as a view of the world that creating and closing change and nothing else
    does.\<close>

definition pool_steps :: "('w \<Rightarrow> 'p multiset) \<Rightarrow> ('p, 'w) pools \<Rightarrow> bool" where
  "pool_steps live po \<longleftrightarrow>
     (\<forall>a w p w1. po_create po a w = (p, w1) \<longrightarrow> live w1 = add_mset p (live w))
     \<and> (\<forall>p w. live (snd (po_open po p w)) = live w) \<and> (\<forall>p w. live (snd (po_reader po p w)) = live w)
     \<and> (\<forall>p w r w1. po_reader po p w = (Inr r, w1) \<longrightarrow> (\<forall>f \<in> {snd \<circ> rd_database r, snd \<circ> rd_metadata r,
          snd \<circ> rd_metadata_columns r, snd \<circ> rd_columns r, snd \<circ> rd_role r, snd \<circ> rd_owners r, snd
              \<circ> rd_base_owned r,
          snd \<circ> rd_grants r, snd \<circ> rd_creation r, snd \<circ> rd_forbidden r}. \<forall>w. live (f w) = live w))
     \<and> (\<forall>p w. \<exists>w1. po_close po p w = (Inr (), w1) \<and> live w1 = live w - {#p#})"

lemma keeps_contract_check [intro]: "keeps v (contract_check m)"
  by (auto simp: contract_check_def keeps_def stop_def give_def split: sum.splits)

lemma keeps_query: "(\<And>w. v (snd (m w)) = v w) \<Longrightarrow> keeps v (query m)"
  unfolding query_def by (rule keeps_attempt)

lemma verify_reader_keeps:
  assumes "\<forall>f \<in> {snd \<circ> rd_database r, snd \<circ> rd_metadata r,
          snd \<circ> rd_metadata_columns r, snd \<circ> rd_columns r, snd \<circ> rd_role r, snd \<circ> rd_owners r, snd
              \<circ> rd_base_owned r,
          snd \<circ> rd_grants r, snd \<circ> rd_creation r, snd \<circ> rd_forbidden r}. \<forall>w. v (f w) = v w"
  shows "keeps v (verify_reader_contract sha256 r database)"
proof -
  have "keeps v (query (rd_database r))" "keeps v (query (rd_metadata r))" "keeps v (query
      (rd_metadata_columns r))"
    "keeps v (query (rd_columns r))" "keeps v (query (rd_role r))" "keeps v (query (rd_owners r))"
    "keeps v (query (rd_base_owned r))" "keeps v (query (rd_grants r))" "keeps v (query (rd_creation
        r))"
    "keeps v (query (rd_forbidden r))"
    using assms by (simp_all add: keeps_query)
  then show ?thesis unfolding verify_reader_contract_def
    by (intro keeps_andthen keeps_contract_check keeps_pure)
qed

lemma verify_route_keeps:
  assumes "pool_steps live po"
  shows "live (snd (verify_route sha256 po database p w)) = live w"
proof -
  have o: "live (snd (po_open po p w)) = live w" "live (snd (po_reader po p w)) = live w" for w
    using assms by (auto simp: pool_steps_def)
  have r: "live (snd (verify_reader_contract sha256 r database w1)) = live w1" if "po_reader po p w0 =
      (Inr r, w1)" for r w0 w1
    using assms that verify_reader_keeps[of r live sha256 database] unfolding pool_steps_def keeps_def
        by blast
  show ?thesis
  proof (cases "andthen (attempt id (po_open po p)) (\<lambda>_. attempt id (po_reader po p)) w")
    case (Pair res w1)
    have "keeps live (andthen (attempt id (po_open po p)) (\<lambda>_. attempt id (po_reader po p)))"
      by (intro keeps_andthen keeps_attempt o)
    then have w1: "live w1 = live w" using Pair by (metis keeps_def snd_conv)
    show ?thesis
    proof (cases res)
      case (Inl e)
      then show ?thesis using Pair w1 by (simp add: verify_route_def)
    next
      case (Inr rd)
      then obtain w0 where "po_reader po p w0 = (Inr rd, w1)"
        using Pair by (auto elim!: andthen_InrE)
      from r[OF this] show ?thesis using Pair Inr w1
        by (auto simp: verify_route_def split: prod.splits sum.splits contract_stop.splits)
    qed
  qed
qed

lemma open_routes_live:
  assumes "pool_steps live po" "open_routes sha256 po cfg routes pools w = ((res, pools'), w')"
    and "distinct (map fst pools @ map er_customer routes)"
  shows "\<exists>qs. pools' = pools @ qs \<and> live w' = live w + mset (map snd qs)"
  using assms(2,3)
proof (induction routes arbitrary: pools w)
  case (Cons route routes)
  obtain p w1 where p: "po_create po (er_reader_dsn route, ed_minimum_pool_size cfg,
      ed_maximum_pool_size cfg) w = (p, w1)"
    by (rule prod.exhaust)
  have new: "put_pool (er_customer route) p pools = pools @ [(er_customer route, p)]"
    using Cons.prems(2) by (simp add: put_pool_new)
  have l: "live w1 = add_mset p (live w)" using assms(1) p by (auto simp: pool_steps_def)
  obtain v w2 where v: "verify_route sha256 po (er_database route) p w1 = (v, w2)" by (rule
      prod.exhaust)
  have l2: "live w2 = live w1" using verify_route_keeps[OF assms(1), of sha256 "er_database route" p
      w1] v by simp
  show ?case
  proof (cases v)
    case (Inl x)
    then have "pools' = pools @ [(er_customer route, p)]" "w' = w2" using Cons.prems(1) p new v by
        (simp_all add: Let_def)
    then show ?thesis using l l2 by simp
  next
    case (Inr u)
    have "distinct (map fst (pools @ [(er_customer route, p)]) @ map er_customer routes)" using
        Cons.prems(2) by auto
    from Cons.IH[OF _ this, of w2] Cons.prems(1) p new v Inr obtain qs where
      "pools' = pools @ (er_customer route, p) # qs" "live w' = live w2 + mset (map snd qs)"
      by (auto simp: Let_def)
    then show ?thesis using l l2 by (intro exI[of _ "(er_customer route, p) # qs"]) simp
  qed
qed simp

lemma close_pools_live:
  assumes "pool_steps live po"
  shows "\<exists>w'. close_pools po qs w = (Inr (), w') \<and> live w' = live w - mset (map snd qs)"
proof (induction qs arbitrary: w)
  case (Cons q qs)
  obtain w1 where c: "po_close po (snd q) w = (Inr (), w1)" "live w1 = live w - {#snd q#}"
    using assms unfolding pool_steps_def by blast
  obtain w2 where "close_pools po qs w1 = (Inr (), w2)" "live w2 = live w1 - mset (map snd qs)" using
      Cons by blast
  with c show ?case by (simp add: diff_diff_add_mset flip: add_mset_add_single)
qed simp

text \<open>No pool is left open: a router that fails to open has closed every pool it created and is as
    it
  was, and closing a router that did open closes all of its pools, provided that no pool fails to
      close.\<close>

theorem router_leaves_no_pool:
  assumes "pool_steps live po" and "validate_erp_config c = Inr cfg"
    and "router_open sha256 po cfg new_router w = ((res, rt), w')"
  shows "case res of
      Inl _ \<Rightarrow> live w' = live w \<and> rt = new_router
    | Inr _ \<Rightarrow> length (rt_pools rt) = length (ed_routes cfg)
        \<and> (\<forall>w1. live w1 = live w' \<longrightarrow> (\<exists>w2. router_close po rt w1 = ((Inr (), new_router), w2) \<and> live w2
            = live w))"
proof -
  obtain r pools w1 where o: "open_routes sha256 po cfg (ed_routes cfg) [] w = ((r, pools), w1)" by
      (metis prod.exhaust)
  have "distinct (map er_customer (ed_routes cfg))" using validate_erp_config_InrD[OF assms(2)] by simp
  with open_routes_live[OF assms(1) o] have l: "live w1 = live w + mset (map snd pools)" by simp
  show ?thesis
  proof (cases r)
    case (Inl x)
    obtain w2 where "close_pools po pools w1 = (Inr (), w2)" "live w2 = live w"
      using close_pools_live[OF assms(1), of pools w1] l by auto
    then show ?thesis using assms(3) o Inl by (auto simp: router_open_def new_router_def)
  next
    case (Inr u)
    then have rt: "res = Inr ()" "rt = \<lparr>rt_pools = pools, rt_started = True\<rparr>" "w' = w1"
      using assms(3) o by (auto simp: router_open_def new_router_def)
    have "length pools = length (ed_routes cfg)"
      using open_routes_Inr[of sha256 po cfg "ed_routes cfg" "[]" w u pools w1] o Inr
        \<open>distinct (map er_customer (ed_routes cfg))\<close> by (auto dest: list_all2_lengthD)
    moreover have "\<exists>w3. router_close po rt w2 = ((Inr (), new_router), w3) \<and> live w3 = live w"
      if "live w2 = live w'" for w2
      using close_pools_live[OF assms(1), of pools w2] that l rt by (auto simp: router_close_def)
    ultimately show ?thesis using rt by simp
  qed
qed

text \<open>When a pool does fail to close, the pools behind it are not closed at all.\<close>

theorem failed_close_skips_rest:
  assumes "close_pools po before w = (Inr u, w1)" and "po_close po (snd q) w1 = (Inl x, w2)"
  shows "close_pools po (before @ q # behind) w = (Inl x, w2)"
  using assms by (induction before arbitrary: w) (auto split: prod.splits sum.splits)

text \<open>The samples: pools that are their DSN, on a world that is the multiset of the open ones.\<close>

definition sample_pools :: "(pystr, pystr multiset) pools" where
  "sample_pools = \<lparr>po_create = \<lambda>(dsn, _, _) w. (dsn, add_mset dsn w), po_open = \<lambda>p w. (Inr (), w),
     po_reader = \<lambda>p w. (Inr (sample_reader p), w), po_close = \<lambda>p w. (Inr (), w - {#p#})\<rparr>"

definition sample_route :: "string \<Rightarrow> string \<Rightarrow> string \<Rightarrow> erp_route" where
  "sample_route customer dsn database = \<lparr>er_customer = lit customer, er_reader_dsn = lit dsn,
      er_database = lit database\<rparr>"

definition sample_erp_config :: "erp_route list \<Rightarrow> erp_database_config" where
  "sample_erp_config routes = \<lparr>ed_routes = routes, ed_keyring = sample_ring (lit ''k1''),
      ed_minimum_pool_size = 1,
     ed_maximum_pool_size = 5, ed_statement_timeout_ms = 5000, ed_lock_timeout_ms = 2000,
     ed_idle_transaction_timeout_ms = 10000\<rparr>"

lemma sample_erp_config_valid:
  "validate_erp_config (sample_erp_config [sample_route ''env1'' a d1, sample_route ''env2'' b d2])
     = Inr (sample_erp_config [sample_route ''env1'' a d1, sample_route ''env2'' b d2])"
  if "d1 = ''erp_a''" "d2 = ''erp_b''"
  using sample_ring_valid that
  by (simp add: validate_erp_config_def sample_erp_config_def between_def validate_erp_route_def
      sample_route_def
      validate_identifier_def sample_text)

lemma sample_pools_steps: "pool_steps id sample_pools"
  by (auto simp: pool_steps_def sample_pools_def sample_reader_def)

lemma sample_verify_route:
  "verify_route (\<lambda>_. lit ''d'') sample_pools d d w = (Inr (), w)"
  "database \<noteq> d \<Longrightarrow> fst (verify_route (\<lambda>_. lit ''d'') sample_pools database d w) = Inl Failed"
proof -
  have r: "andthen (attempt id (po_open sample_pools d)) (\<lambda>_. attempt id (po_reader sample_pools d)) w
      = (Inr (sample_reader d), w)"
    by (simp add: andthen_def attempt_def sample_pools_def)
  then show "verify_route (\<lambda>_. lit ''d'') sample_pools d d w = (Inr (), w)"
    by (simp add: verify_route_def sample_reader_verified)
  assume "database \<noteq> d"
  from sample_reader_mismatch[OF this, of "\<lambda>_. lit ''d''" w] r
  show "fst (verify_route (\<lambda>_. lit ''d'') sample_pools database d w) = Inl Failed"
    by (auto simp: verify_route_def split: prod.splits)
qed

definition good_config :: erp_database_config where
  "good_config = sample_erp_config [sample_route ''env1'' ''erp_a'' ''erp_a'', sample_route ''env2''
      ''erp_b'' ''erp_b'']"

definition bad_config :: erp_database_config where
  "bad_config = sample_erp_config [sample_route ''env1'' ''erp_a'' ''erp_a'', sample_route ''env2''
      ''erp_x'' ''erp_b'']"

lemma sample_configs_valid: "validate_erp_config good_config = Inr good_config" "validate_erp_config
    bad_config = Inr bad_config"
  by (simp_all add: good_config_def bad_config_def sample_erp_config_valid)

lemma sample_create: "po_create sample_pools (dsn, a, b) w = (dsn, add_mset dsn w)" "po_close
    sample_pools p w = (Inr (), w - {#p#})"
  by (simp_all add: sample_pools_def)

lemma sample_router_opens:
  "router_open (\<lambda>_. lit ''d'') sample_pools good_config new_router {#}
     = ((Inr (), \<lparr>rt_pools = [(lit ''env1'', lit ''erp_a''), (lit ''env2'', lit ''erp_b'')], rt_started
         = True\<rparr>),
        {#lit ''erp_b'', lit ''erp_a''#})"
  by (simp add: router_open_def new_router_def good_config_def sample_erp_config_def sample_route_def
      sample_create
      sample_verify_route(1) put_pool_def Let_def)

lemma sample_router_fails:
  "\<exists>x w. router_open (\<lambda>_. lit ''d'') sample_pools bad_config new_router {#} = ((Inl x, new_router), w)"
proof -
  let ?w = "{#lit ''erp_x'', lit ''erp_a''#}"
  have d: "lit ''erp_b'' \<noteq> lit ''erp_x''" "lit ''env2'' \<noteq> lit ''env1''" by (simp_all add: lit_def)
  obtain w where "verify_route (\<lambda>_. lit ''d'') sample_pools (lit ''erp_b'') (lit ''erp_x'') ?w = (Inl
      Failed, w)"
    using sample_verify_route(2)[OF d(1), of ?w] by (metis prod.collapse)
  then show ?thesis
    using d(2) by (simp add: router_open_def new_router_def bad_config_def sample_erp_config_def
        sample_route_def
        sample_create sample_verify_route(1) put_pool_def Let_def)
qed

theorem customer_reads_own_database_witness:
  "\<exists>rt w r w2. router_open (\<lambda>_. lit ''d'') sample_pools good_config new_router {#} = ((Inr (), rt), w)
     \<and> router_pool rt (lit ''env2'') = Inr (lit ''erp_b'')
     \<and> fst (rd_database (r :: pystr multiset reader) w2) = Inr (Some (lit ''erp_b''))"
proof -
  let ?rt = "\<lparr>rt_pools = [(lit ''env1'', lit ''erp_a''), (lit ''env2'', lit ''erp_b'')], rt_started =
      True\<rparr>"
  have p: "router_pool ?rt (lit ''env2'') = Inr (lit ''erp_b'')" by (simp add: router_pool_def lit_def)
  have new: "rt_started new_router = False" by (simp add: new_router_def)
  from customer_reads_own_database[OF sample_configs_valid(1) new sample_router_opens p]
  have "\<exists>r w2. fst (rd_database (r :: pystr multiset reader) w2) = Inr (Some (lit ''erp_b''))"
    by (auto simp: good_config_def sample_erp_config_def sample_route_def lit_def)
  then show ?thesis using p sample_router_opens by blast
qed

theorem router_leaves_no_pool_witness:
  "(\<exists>x. router_open (\<lambda>_. lit ''d'') sample_pools bad_config new_router {#} = ((Inl x, new_router), {#}))
   \<and> (\<exists>rt. router_open (\<lambda>_. lit ''d'') sample_pools good_config new_router {#} = ((Inr (), rt), {#lit
       ''erp_b'', lit ''erp_a''#})
       \<and> router_close sample_pools rt {#lit ''erp_b'', lit ''erp_a''#} = ((Inr (), new_router), {#}))"
proof -
  obtain x w where f: "router_open (\<lambda>_. lit ''d'') sample_pools bad_config new_router {#} = ((Inl x,
      new_router), w)"
    using sample_router_fails by blast
  from router_leaves_no_pool[OF sample_pools_steps sample_configs_valid(2) this] have "w = {#}" by simp
  moreover from router_leaves_no_pool[OF sample_pools_steps sample_configs_valid(1) sample_router_opens]
  have "router_close sample_pools \<lparr>rt_pools = [(lit ''env1'', lit ''erp_a''), (lit ''env2'', lit
      ''erp_b'')], rt_started = True\<rparr>
      {#lit ''erp_b'', lit ''erp_a''#} = ((Inr (), new_router), {#})" by simp
  ultimately show ?thesis using f sample_router_opens by auto
qed

end
