(* ===== verification/Embeddings.thy ===== *)
theory Embeddings
  imports Publishing
begin

text \<open>
  Embeddings (\<open>src/erp_ai/knowledge/embeddings/\<close>): the profile, the vectors in the float32 format and
  their digests, the batches and the materialization of a generation into a prepared set. A double is
  its 64-bit pattern; the float32 conversions and SHA-256 are parameters and the provider is an
  operation on the world.
\<close>

section \<open>Contracts\<close>

text \<open>
  The conversions of the float32 format: \<open>float(i)\<close> of an integer (\<open>None\<close>: an \<open>OverflowError\<close>),
  \<open>struct.pack("!f", x)\<close> (\<open>None\<close>: an \<open>OverflowError\<close>) and its inverse; and SHA-256 of bytes.
\<close>

record embedding_env =
  xe_ingest :: ingest_env
  xe_float_of_int :: "int \<Rightarrow> float64 option"
  xe_pack :: "float64 \<Rightarrow> nat list option"
  xe_unpack :: "nat list \<Rightarrow> float64"
  xe_sha256 :: "nat list \<Rightarrow> pystr"

definition finite_float32 :: "embedding_env \<Rightarrow> float64 \<Rightarrow> float64 checked" where
  "finite_float32 env number =
     raise_if (\<not> float_finite number) ''embedding values must be finite''
     (case xe_pack env number of
        None \<Rightarrow> Inl ''embedding value is outside float32 range''
      | Some bs \<Rightarrow>
          raise_if (\<not> float_finite (xe_unpack env bs)) ''embedding float32 values must be finite''
            (Inr (xe_unpack env bs)))"

text \<open>An integer beyond the range of a double raises an \<open>OverflowError\<close>, which is no validation error.\<close>

fun float32 :: "embedding_env \<Rightarrow> json \<Rightarrow> float64 checked" where
  "float32 env (JInt i) =
     (case xe_float_of_int env i of None \<Rightarrow> Inl ''OverflowError'' | Some f \<Rightarrow> finite_float32 env f)"
| "float32 env (JFloat f) = finite_float32 env f"
| "float32 env _ = Inl ''embedding values must be numeric''"

text \<open>\<open>item != 0.0\<close> of a double: neither zero.\<close>

definition nonzero_float :: "float64 \<Rightarrow> bool" where
  "nonzero_float f \<longleftrightarrow> f \<noteq> 0 \<and> f \<noteq> 0x8000000000000000"

record embedding_vector =
  vx_input_id :: pystr
  vx_values :: "float64 list"

definition make_vector :: "embedding_env \<Rightarrow> pystr \<Rightarrow> json list \<Rightarrow> embedding_vector checked" where
  "make_vector env i vs =
     bindE (validate_identifier i) (\<lambda>i'.
     bindE (map_checked (float32 env) vs) (\<lambda>fs.
     raise_if (\<not> list_ex nonzero_float fs) ''cosine embeddings must not be zero vectors''
       (Inr \<lparr>vx_input_id = i', vx_values = fs\<rparr>)))"

fun pack_all :: "embedding_env \<Rightarrow> float64 list \<Rightarrow> nat list checked" where
  "pack_all env [] = Inr []"
| "pack_all env (f # fs) =
     (case xe_pack env f of
        None \<Rightarrow> Inl ''OverflowError''
      | Some bs \<Rightarrow> bindE (pack_all env fs) (\<lambda>rest. Inr (bs @ rest)))"

definition vector_sha256 :: "embedding_env \<Rightarrow> embedding_vector \<Rightarrow> pystr checked" where
  "vector_sha256 env v = bindE (pack_all env (vx_values v)) (\<lambda>bs. Inr (xe_sha256 env bs))"

text \<open>A profile. Its contract version (1), its metric (cosine) and its representation (float32) admit
    one value
  each and are left out of the record, not of the digest.\<close>

record embedding_profile =
  ef_profile_id :: pystr
  ef_provider_id :: pystr
  ef_model_id :: pystr
  ef_model_revision :: pystr
  ef_dimensions :: int
  ef_input_normalization_version :: int
  ef_document_transform_version :: int
  ef_query_transform_version :: int
  ef_query_instruction :: pystr
  ef_classifications :: "data_classification list"

definition validate_profile :: "embedding_env \<Rightarrow> embedding_profile \<Rightarrow> embedding_profile checked" where
  "validate_profile env p =
     (let lower = ie_lower (xe_ingest env) in
     bindE (validate_code lower (ef_profile_id p)) (\<lambda>pid.
     bindE (validate_code lower (ef_provider_id p)) (\<lambda>prov.
     bindE (validate_identifier (ef_model_id p)) (\<lambda>model.
     bindE (validate_identifier (ef_model_revision p)) (\<lambda>rev.
     raise_if (ef_dimensions p < 1 \<or> ef_dimensions p > 4096) ''dimensions_range''
     (raise_if (ef_input_normalization_version p < 1 \<or> ef_document_transform_version p < 1
         \<or> ef_query_transform_version p < 1) ''greater_than_equal''
     (raise_if (ef_query_instruction p = []) ''string_too_short''
     (raise_if (\<not> utf8_encodable (ef_query_instruction p)) ''string_unicode''
     (raise_if (\<not> distinct (ef_classifications p)) ''duplicate data classifications are forbidden''
     (raise_if (ef_classifications p = []) ''too_short''
       (Inr (p\<lparr>ef_profile_id := pid, ef_provider_id := prov, ef_model_id := model, ef_model_revision :=
           rev,
          ef_classifications := sort_key classification_value (ef_classifications p)\<rparr>))))))))))))"

definition profile_json :: "embedding_profile \<Rightarrow> json" where
  "profile_json p = JObj
     [(lit ''allowed_data_classifications'', JArr (map (\<lambda>c. JStr (classification_value c))
         (ef_classifications p))),
      (lit ''contract_version'', JInt 1), (lit ''dimensions'', JInt (ef_dimensions p)),
      (lit ''distance_metric'', JStr (lit ''cosine'')),
      (lit ''input_normalization_version'', JInt (ef_input_normalization_version p)),
      (lit ''document_transform_version'', JInt (ef_document_transform_version p)),
      (lit ''query_transform_version'', JInt (ef_query_transform_version p)),
      (lit ''query_instruction'', JStr (ef_query_instruction p)), (lit ''model_id'', JStr (ef_model_id
          p)),
      (lit ''model_revision'', JStr (ef_model_revision p)), (lit ''profile_id'', JStr (ef_profile_id
          p)),
      (lit ''provider_id'', JStr (ef_provider_id p)), (lit ''storage_representation'', JStr (lit
          ''float32''))]"

definition canonical_json_digest :: "embedding_env \<Rightarrow> json \<Rightarrow> pystr checked" where
  "canonical_json_digest env v =
     (case canonical_json_text (ie_float_text (xe_ingest env)) v of
        Inl e \<Rightarrow> Inl e | Inr text \<Rightarrow> Inr (ie_sha256 (xe_ingest env) text))"

lemma canonical_json_digest_eq [simp]: "canonical_json_digest env v = json_sha256 (xe_ingest env) v"
  by (simp add: canonical_json_digest_def json_sha256_def split: sum.split)

definition profile_sha256 :: "embedding_env \<Rightarrow> embedding_profile \<Rightarrow> pystr checked" where
  "profile_sha256 env p = canonical_json_digest env (profile_json p)"

datatype input_kind = DOCUMENT_INPUT | QUERY_INPUT

record embedding_input =
  ei_input_id :: pystr
  ei_text :: pystr
  ei_content_sha256 :: pystr
  ei_classification :: data_classification
  ei_kind :: input_kind

definition validate_embedding_input :: "embedding_input \<Rightarrow> embedding_input checked" where
  "validate_embedding_input i =
     bindE (validate_identifier (ei_input_id i)) (\<lambda>iid.
     bindE (knowledge_text (ei_text i)) (\<lambda>t.
     raise_if (\<not> utf8_encodable t) ''string_unicode''
     (bindE (validate_digest (ei_content_sha256 i)) (\<lambda>d.
       Inr (i\<lparr>ei_input_id := iid, ei_text := t, ei_content_sha256 := d\<rparr>)))))"

record batch_request =
  bq_profile :: embedding_profile
  bq_inputs :: "embedding_input list"

definition make_batch_request :: "embedding_profile \<Rightarrow> embedding_input list \<Rightarrow> batch_request checked"
    where
  "make_batch_request p is =
     raise_if (is = []) ''too_short''
     (raise_if (\<not> distinct (map ei_input_id is)) ''duplicate embedding input IDs are forbidden''
       (Inr \<lparr>bq_profile = p, bq_inputs = is\<rparr>))"

record batch_result =
  bx_profile_sha256 :: pystr
  bx_vectors :: "embedding_vector list"

definition make_batch_result :: "pystr \<Rightarrow> embedding_vector list \<Rightarrow> batch_result checked" where
  "make_batch_result d vs =
     bindE (validate_digest d) (\<lambda>d'.
     raise_if (\<not> distinct (map vx_input_id vs)) ''duplicate embedding result IDs are forbidden''
       (Inr \<lparr>bx_profile_sha256 = d', bx_vectors = vs\<rparr>))"

record prepared_embedding =
  pe_chunk_id :: pystr
  pe_content_sha256 :: pystr
  pe_values :: "float64 list"
  pe_vector_sha256 :: pystr

definition validate_prepared_embedding :: "embedding_env \<Rightarrow> prepared_embedding \<Rightarrow> prepared_embedding
    checked" where
  "validate_prepared_embedding env e =
     bindE (validate_identifier (pe_chunk_id e)) (\<lambda>cid.
     bindE (validate_digest (pe_content_sha256 e)) (\<lambda>_.
     bindE (validate_digest (pe_vector_sha256 e)) (\<lambda>_.
     bindE (make_vector env cid (map JFloat (pe_values e))) (\<lambda>v.
     bindE (vector_sha256 env v) (\<lambda>h.
     raise_if (h \<noteq> pe_vector_sha256 e) ''prepared embedding hash mismatch''
       (Inr (e\<lparr>pe_chunk_id := cid\<rparr>)))))))"

record embedding_set =
  eg_scope :: index_scope
  eg_generation_id :: uuid
  eg_generation_digest :: pystr
  eg_profile :: embedding_profile
  eg_embeddings :: "prepared_embedding list"
  eg_sha256 :: pystr

definition embedding_json :: "prepared_embedding \<Rightarrow> json" where
  "embedding_json e = JObj [(lit ''chunk_id'', JStr (pe_chunk_id e)),
     (lit ''content_sha256'', JStr (pe_content_sha256 e)), (lit ''vector_sha256'', JStr
         (pe_vector_sha256 e))]"

definition embedding_set_json :: "index_scope \<Rightarrow> uuid \<Rightarrow> pystr \<Rightarrow> pystr \<Rightarrow> prepared_embedding list
    \<Rightarrow> json" where
  "embedding_set_json sc gid gdigest pdigest es = JObj
     [(lit ''customer_environment_id'', JStr (is_customer_environment_id sc)),
      (lit ''embedding_profile_sha256'', JStr pdigest), (lit ''embeddings'', JArr (map embedding_json
          es)),
      (lit ''generation_digest'', JStr gdigest), (lit ''generation_id'', JStr (uuid_str gid)),
      (lit ''namespace'', JStr (is_namespace sc))]"

definition validate_scope :: "(pystr \<Rightarrow> pystr) \<Rightarrow> index_scope \<Rightarrow> index_scope checked" where
  "validate_scope lower sc =
     bindE (validate_code lower (is_namespace sc)) (\<lambda>ns.
     bindE (validate_identifier (is_customer_environment_id sc)) (\<lambda>cust.
       Inr \<lparr>is_namespace = ns, is_customer_environment_id = cust\<rparr>))"

definition validate_embedding_set :: "embedding_env \<Rightarrow> embedding_set \<Rightarrow> embedding_set checked" where
  "validate_embedding_set env s =
     bindE (validate_scope (ie_lower (xe_ingest env)) (eg_scope s)) (\<lambda>sc.
     bindE (validate_digest (eg_generation_digest s)) (\<lambda>_.
     bindE (validate_profile env (eg_profile s)) (\<lambda>p.
     bindE (map_checked (validate_prepared_embedding env) (eg_embeddings s)) (\<lambda>es.
     bindE (validate_digest (eg_sha256 s)) (\<lambda>_.
     raise_if (es = []) ''too_short''
     (raise_if (sort_key pe_chunk_id es \<noteq> es \<or> \<not> distinct (map pe_chunk_id es))
        ''prepared embeddings must be unique and canonically ordered''
     (raise_if (\<exists>e \<in> set es. int (length (pe_values e)) \<noteq> ef_dimensions p)
         ''prepared embedding dimensions mismatch''
     (bindE (profile_sha256 env p) (\<lambda>pd.
      bindE (canonical_json_digest env
        (embedding_set_json sc (eg_generation_id s) (eg_generation_digest s) pd es)) (\<lambda>d.
      raise_if (d \<noteq> eg_sha256 s) ''embedding-set digest mismatch''
        (Inr (s\<lparr>eg_scope := sc, eg_profile := p, eg_embeddings := es\<rparr>))))))))))))"

section \<open>Materialization\<close>

record generation_source =
  eo_scope :: index_scope
  eo_generation_id :: uuid
  eo_generation_digest :: pystr
  eo_chunks :: "embedding_input list"

definition validate_generation_source ::
  "embedding_env \<Rightarrow> generation_source \<Rightarrow> generation_source checked" where
  "validate_generation_source env s =
     bindE (validate_scope (ie_lower (xe_ingest env)) (eo_scope s)) (\<lambda>sc.
     bindE (validate_digest (eo_generation_digest s)) (\<lambda>_.
     bindE (map_checked validate_embedding_input (eo_chunks s)) (\<lambda>cs.
     raise_if (cs = []) ''too_short''
     (raise_if (\<not> distinct (map ei_input_id cs)) ''duplicate generation chunks are forbidden''
       (Inr (s\<lparr>eo_scope := sc, eo_chunks := sort_key ei_input_id cs\<rparr>))))))"

datatype materialize_stop = MaterializeCancelled | MaterializeError string | MaterializeInvalid

definition checked_batch_size :: "int \<Rightarrow> nat checked" where
  "checked_batch_size n = raise_if (\<not> (1 \<le> n \<and> n \<le> 512)) ''batch_size must be between 1 and 512'' (Inr
      (nat n))"

text \<open>\<open>range(0, len(xs), n)\<close> and the slices at its values.\<close>

function slices :: "nat \<Rightarrow> 'a list \<Rightarrow> 'a list list" where
  "slices n xs = (if n = 0 \<or> xs = [] then [] else take n xs # slices n (drop n xs))"
  by pat_completeness auto
termination by (relation "measure (\<lambda>(_, xs). length xs)") auto

declare slices.simps [simp del]

text \<open>A dictionary of the items by their identifier: the last one wins.\<close>

definition by_id :: "('a \<Rightarrow> pystr) \<Rightarrow> 'a list \<Rightarrow> pystr \<Rightarrow> 'a option" where
  "by_id key xs = map_of (rev (map (\<lambda>x. (key x, x)) xs))"

definition prepare_one ::
  "embedding_env \<Rightarrow> embedding_profile \<Rightarrow> embedding_vector list \<Rightarrow> embedding_input \<Rightarrow> prepared_embedding
      checked" where
  "prepare_one env p returned i =
     (case by_id vx_input_id returned (ei_input_id i) of
        None \<Rightarrow> Inl ''KeyError''
      | Some v \<Rightarrow>
          raise_if (int (length (vx_values v)) \<noteq> ef_dimensions p)
              ''embedding provider dimension mismatch''
          (bindE (vector_sha256 env v) (\<lambda>h.
             validate_prepared_embedding env
               \<lparr>pe_chunk_id = ei_input_id i, pe_content_sha256 = ei_content_sha256 i,
                pe_values = vx_values v, pe_vector_sha256 = h\<rparr>)))"

text \<open>Every other exception of the loop becomes the general error.\<close>

definition materialize_error :: "string \<Rightarrow> materialize_stop" where
  "materialize_error e = MaterializeError
     (if e = ''embedding provider result mismatch'' \<or> e = ''embedding provider dimension mismatch''
         then e
      else ''embedding materialization failed'')"

definition checked_step :: "'a checked \<Rightarrow> (materialize_stop, 'w, 'a) proc" where
  "checked_step m = (case m of Inl e \<Rightarrow> stop (materialize_error e) | Inr x \<Rightarrow> give x)"

type_synonym 'w embedder = "(batch_request, 'w, batch_result outcome) op"

definition embed_batch ::
  "embedding_env \<Rightarrow> 'w embedder \<Rightarrow> embedding_profile \<Rightarrow> embedding_input list
     \<Rightarrow> (materialize_stop, 'w, prepared_embedding list) proc" where
  "embed_batch env provider p is =
     andthen (checked_step (make_batch_request p is)) (\<lambda>req.
     andthen (attempt (\<lambda>x. if x = Cancelled then MaterializeCancelled
         else MaterializeError ''embedding materialization failed'') (provider req)) (\<lambda>res.
     andthen (checked_step (profile_sha256 env p)) (\<lambda>pd.
     andthen (unless (bx_profile_sha256 res \<noteq> pd
         \<or> vx_input_id ` set (bx_vectors res) \<noteq> ei_input_id ` set is)
       (MaterializeError ''embedding provider result mismatch'')) (\<lambda>_.
       checked_step (map_checked (prepare_one env p (bx_vectors res)) (sort_key ei_input_id is))))))"

fun embed_batches ::
  "embedding_env \<Rightarrow> 'w embedder \<Rightarrow> embedding_profile \<Rightarrow> embedding_input list list
     \<Rightarrow> (materialize_stop, 'w, prepared_embedding list) proc" where
  "embed_batches env provider p [] = give []"
| "embed_batches env provider p (b # bs) =
     andthen (embed_batch env provider p b) (\<lambda>es.
     andthen (embed_batches env provider p bs) (\<lambda>rest. give (es @ rest)))"

text \<open>The digest of a materialized set, which the service computes with a text of its own.\<close>

definition materialized_set_digest ::
  "embedding_env \<Rightarrow> generation_source \<Rightarrow> pystr \<Rightarrow> prepared_embedding list \<Rightarrow> pystr checked" where
  "materialized_set_digest env s pd ordered =
     bindE (canonical_json_text (ie_float_text (xe_ingest env)) (JObj
       [(lit ''customer_environment_id'', JStr (is_customer_environment_id (eo_scope s))),
        (lit ''embedding_profile_sha256'', JStr pd),
        (lit ''embeddings'', JArr (map (\<lambda>e. JObj [(lit ''chunk_id'', JStr (pe_chunk_id e)),
           (lit ''content_sha256'', JStr (pe_content_sha256 e)), (lit ''vector_sha256'', JStr (pe_vector_sha256 e))]) ordered)),
        (lit ''generation_digest'', JStr (eo_generation_digest s)),
        (lit ''generation_id'', JStr (uuid_str (eo_generation_id s))),
        (lit ''namespace'', JStr (is_namespace (eo_scope s)))])) (\<lambda>text. Inr (ie_sha256 (xe_ingest env) text))"

lemma materialized_set_digest_eq [simp]:
  "materialized_set_digest env s pd ordered = json_sha256 (xe_ingest env)
     (embedding_set_json (eo_scope s) (eo_generation_id s) (eo_generation_digest s) pd ordered)"
proof -
  have "embedding_json = (\<lambda>e. JObj [(lit ''chunk_id'', JStr (pe_chunk_id e)),
      (lit ''content_sha256'', JStr (pe_content_sha256 e)), (lit ''vector_sha256'', JStr (pe_vector_sha256 e))])"
    by (simp add: embedding_json_def fun_eq_iff)
  then show ?thesis by (simp add: materialized_set_digest_def json_sha256_def embedding_set_json_def)
qed

definition materialize ::
  "embedding_env \<Rightarrow> 'w embedder \<Rightarrow> nat \<Rightarrow> generation_source \<Rightarrow> embedding_profile
     \<Rightarrow> (materialize_stop, 'w, embedding_set) proc" where
  "materialize env provider batch_size source profile =
     andthen (checked_or (MaterializeError ''invalid materialization contract'')
       (validate_generation_source env source)) (\<lambda>s.
     andthen (checked_or (MaterializeError ''invalid materialization contract'') (validate_profile env
         profile)) (\<lambda>p.
     andthen (unless (\<exists>c \<in> set (eo_chunks s). ei_classification c \<notin> set (ef_classifications p))
       (MaterializeError ''embedding profile classification mismatch'')) (\<lambda>_.
     andthen (embed_batches env provider p (slices batch_size (eo_chunks s))) (\<lambda>prepared.
     let ordered = sort_key pe_chunk_id prepared in
     checked_or MaterializeInvalid
       (bindE (profile_sha256 env p) (\<lambda>pd.
        bindE (materialized_set_digest env s pd ordered)
              (\<lambda>d.
        validate_embedding_set env
          \<lparr>eg_scope = eo_scope s, eg_generation_id = eo_generation_id s,
           eg_generation_digest = eo_generation_digest s, eg_profile = p, eg_embeddings = ordered,
           eg_sha256 = d\<rparr>)))))))"

end
