(* ===== verification/EmbeddingStore.thy ===== *)
theory EmbeddingStore
  imports Embeddings KnowledgeStore
begin

text \<open>
  The embedding repository (\<open>src/erp_ai/infrastructure/postgres/embedding_repository.py\<close>): the tables of
  profiles, sets, vectors, operations and audit events of one customer beside its knowledge tables, with
  the checks, keys and triggers of the schema, and the two operations as transactions.
\<close>

section \<open>Tables\<close>

text \<open>The rows of one customer. The contract version (1), the metric (cosine) and the representation
    (float32) of a
  profile have one value each and are left out; a vector is the list of components whose literal was
      sent.\<close>

record embedding_profile_row =
  fw_profile_id :: pystr
  fw_provider_id :: pystr
  fw_model_id :: pystr
  fw_model_revision :: pystr
  fw_dimensions :: int
  fw_input_normalization_version :: int
  fw_classifications :: "pystr list"

text \<open>The key of a set: namespace, generation and profile digest.\<close>

type_synonym set_key = "pystr \<times> uuid \<times> pystr"

record set_row =
  tw_generation_digest :: pystr
  tw_set_sha256 :: pystr
  tw_count :: nat
  tw_ready :: bool

record vector_row =
  nw_set :: set_key
  nw_chunk_id :: pystr
  nw_content_sha256 :: pystr
  nw_vector_sha256 :: pystr
  nw_values :: "float64 list"

text \<open>\<open>EmbeddingMaterializationResult\<close>, whose disposition is always \<open>materialized\<close> here.\<close>

record materialization_result =
  mr_operation_id :: pystr
  mr_scope :: index_scope
  mr_generation_id :: uuid
  mr_generation_digest :: pystr
  mr_profile_id :: pystr
  mr_profile_sha256 :: pystr
  mr_set_sha256 :: pystr
  mr_count :: nat

record materialization_row =
  hw_set :: set_key
  hw_set_sha256 :: pystr
  hw_result :: materialization_result

record materialization_event =
  me_outbox_id :: uuid
  me_operation_id :: pystr
  me_request_id :: pystr
  me_actor_id :: pystr
  me_namespace :: pystr
  me_generation_id :: uuid
  me_generation_digest :: pystr
  me_set_sha256 :: pystr
  me_count :: nat

record embedding_store =
  es_knowledge :: knowledge_db
  es_profiles :: "pystr \<rightharpoonup> embedding_profile_row"
  es_sets :: "set_key \<rightharpoonup> set_row"
  es_vectors :: "vector_row list"
  es_operations :: "pystr \<rightharpoonup> materialization_row"
  es_outbox :: "materialization_event list"

section \<open>Statements\<close>

definition establish_customer :: "pystr \<Rightarrow> (store_error, embedding_store, unit) proc" where
  "establish_customer customer =
     guard (\<lambda>db. map_option fst (db_identity (es_knowledge db)) = Some customer) StoreIdentity"

definition profile_row_of :: "embedding_profile \<Rightarrow> embedding_profile_row" where
  "profile_row_of p =
     \<lparr>fw_profile_id = ef_profile_id p, fw_provider_id = ef_provider_id p, fw_model_id = ef_model_id p,
      fw_model_revision = ef_model_revision p, fw_dimensions = ef_dimensions p,
      fw_input_normalization_version = ef_input_normalization_version p,
      fw_classifications = map classification_value (ef_classifications p)\<rparr>"

definition profile_row_ok :: "pystr \<Rightarrow> embedding_profile_row \<Rightarrow> bool" where
  "profile_row_ok pd r \<longleftrightarrow> is_digest pd \<and> is_code (fw_profile_id r) \<and> 1 \<le> fw_dimensions r \<and> fw_dimensions
      r \<le> 4096
     \<and> 0 < fw_input_normalization_version r \<and> fw_input_normalization_version r < 2 ^ 31"

text \<open>\<open>ON CONFLICT DO NOTHING\<close>, then the stored row is compared.\<close>

definition insert_profile :: "pystr \<Rightarrow> embedding_profile \<Rightarrow> (store_error, embedding_store, unit) proc"
    where
  "insert_profile pd p =
     andthen (unless (\<not> profile_row_ok pd (profile_row_of p)) StoreUnavailable) (\<lambda>_.
     andthen (modify (\<lambda>db. if es_profiles db pd = None
        then db\<lparr>es_profiles := (es_profiles db)(pd \<mapsto> profile_row_of p)\<rparr> else db)) (\<lambda>_.
       guard (\<lambda>db. es_profiles db pd = Some (profile_row_of p)) StoreConflict))"

definition insert_set :: "set_key \<Rightarrow> set_row \<Rightarrow> (store_error, embedding_store, unit) proc" where
  "insert_set k r =
     andthen (unless (\<not> (is_digest (tw_generation_digest r) \<and> is_digest (tw_set_sha256 r) \<and> 0 <
         tw_count r
        \<and> tw_count r < 2 ^ 31)) StoreUnavailable) (\<lambda>_.
     andthen (guard (\<lambda>db. es_sets db k = None) StoreConflict) (\<lambda>_.
     andthen (guard (\<lambda>db. map_option gr_namespace (db_generations (es_knowledge db) (fst (snd k))) =
         Some (fst k)
        \<and> es_profiles db (snd (snd k)) \<noteq> None) StoreUnavailable) (\<lambda>_.
       modify (\<lambda>db. db\<lparr>es_sets := (es_sets db)(k \<mapsto> r)\<rparr>))))"

text \<open>The chunk a vector is for, by the key of the chunk table.\<close>

definition stored_chunk :: "knowledge_db \<Rightarrow> uuid \<Rightarrow> pystr \<Rightarrow> chunk_row option" where
  "stored_chunk db g i = find (\<lambda>r. cw_generation_id r = g \<and> pc_chunk_id (cw_chunk r) = i) (db_chunks
      db)"

text \<open>The trigger \<open>validate_chunk_embedding\<close>: the dimension of the profile and the digest of the
    chunk's content.\<close>

definition valid_chunk_embedding :: "embedding_store \<Rightarrow> vector_row \<Rightarrow> bool" where
  "valid_chunk_embedding db r \<longleftrightarrow>
     (case nw_set r of (ns, g, pd) \<Rightarrow>
        (case es_profiles db pd of None \<Rightarrow> False | Some p \<Rightarrow> int (length (nw_values r)) = fw_dimensions p)
        \<and> (case stored_chunk (es_knowledge db) g (nw_chunk_id r) of None \<Rightarrow> False
           | Some c \<Rightarrow> gv_namespace (cw_chunk c) = ns \<and> cw_content_sha256 c = nw_content_sha256 r))"

definition vector_key :: "vector_row \<Rightarrow> set_key \<times> pystr" where
  "vector_key r = (nw_set r, nw_chunk_id r)"

definition insert_vector :: "vector_row \<Rightarrow> (store_error, embedding_store, unit) proc" where
  "insert_vector r =
     andthen (guard (\<lambda>db. valid_chunk_embedding db r) StoreUnavailable) (\<lambda>_.
     andthen (unless (\<not> (is_digest (nw_content_sha256 r) \<and> is_digest (nw_vector_sha256 r)))
         StoreUnavailable) (\<lambda>_.
     andthen (guard (\<lambda>db. vector_key r \<notin> vector_key ` set (es_vectors db)) StoreConflict) (\<lambda>_.
     andthen (guard (\<lambda>db. es_sets db (nw_set r) \<noteq> None) StoreUnavailable) (\<lambda>_.
       modify (\<lambda>db. db\<lparr>es_vectors := es_vectors db @ [r]\<rparr>)))))"

definition vectors_of :: "embedding_store \<Rightarrow> set_key \<Rightarrow> vector_row list" where
  "vectors_of db k = filter (\<lambda>r. nw_set r = k) (es_vectors db)"

text \<open>The stored vectors joined with their profile and their chunks: how many, whether all have the
    dimension and
  whether all have the digest of their chunk.\<close>

definition stored_as_prepared :: "embedding_store \<Rightarrow> set_key \<Rightarrow> nat \<Rightarrow> bool" where
  "stored_as_prepared db k n \<longleftrightarrow>
     (let joined = filter (\<lambda>r. es_profiles db (snd (snd k)) \<noteq> None
          \<and> stored_chunk (es_knowledge db) (fst (snd k)) (nw_chunk_id r) \<noteq> None) (vectors_of db k) in
      length joined = n \<and> joined \<noteq> []
      \<and> list_all (\<lambda>r. int (length (nw_values r)) = fw_dimensions (the (es_profiles db (snd (snd k))))
           \<and> nw_content_sha256 r = cw_content_sha256 (the (stored_chunk (es_knowledge db) (fst (snd k))
               (nw_chunk_id r)))) joined)"

definition mark_ready :: "set_key \<Rightarrow> (store_error, embedding_store, unit) proc" where
  "mark_ready k = modify (\<lambda>db. db\<lparr>es_sets := (es_sets db)(k := map_option (\<lambda>r. r\<lparr>tw_ready :=
      True\<rparr>) (es_sets db k))\<rparr>)"

definition insert_materialization :: "pystr \<Rightarrow> materialization_row \<Rightarrow> (store_error, embedding_store,
    unit) proc" where
  "insert_materialization oid r =
     andthen (unless (\<not> is_digest (hw_set_sha256 r)) StoreUnavailable) (\<lambda>_.
     andthen (guard (\<lambda>db. es_operations db oid = None) StoreConflict) (\<lambda>_.
       modify (\<lambda>db. db\<lparr>es_operations := (es_operations db)(oid \<mapsto> r)\<rparr>)))"

definition insert_materialization_event :: "materialization_event \<Rightarrow> (store_error, embedding_store,
    unit) proc" where
  "insert_materialization_event e =
     andthen (unless (\<not> (is_digest (me_generation_digest e) \<and> is_digest (me_set_sha256 e) \<and> 0 <
         me_count e)) StoreUnavailable) (\<lambda>_.
     andthen (guard (\<lambda>db. \<not> list_ex (\<lambda>f. me_outbox_id f = me_outbox_id e \<or> me_operation_id f =
         me_operation_id e)
        (es_outbox db)) StoreConflict) (\<lambda>_.
       modify (\<lambda>db. db\<lparr>es_outbox := es_outbox db @ [e]\<rparr>)))"

section \<open>The repository\<close>

definition embedding_input_of :: "chunk_row \<Rightarrow> embedding_input" where
  "embedding_input_of r =
     \<lparr>ei_input_id = pc_chunk_id (cw_chunk r), ei_text = pc_content (cw_chunk r), ei_content_sha256 =
         cw_content_sha256 r,
      ei_classification = gv_data_classification (cw_chunk r), ei_kind = DOCUMENT_INPUT\<rparr>"

definition generation_chunks :: "knowledge_db \<Rightarrow> pystr \<Rightarrow> uuid \<Rightarrow> chunk_row list" where
  "generation_chunks db ns g =
     sort_key (pc_chunk_id \<circ> cw_chunk) (filter (\<lambda>r. cw_generation_id r = g \<and> gv_namespace (cw_chunk r)
         = ns) (db_chunks db))"

definition generation_source_of ::
  "embedding_env \<Rightarrow> index_scope \<Rightarrow> uuid \<Rightarrow> generation_row \<Rightarrow> chunk_row list \<Rightarrow> generation_source checked"
      where
  "generation_source_of env sc g r rows =
     bindE (map_checked (validate_embedding_input \<circ> embedding_input_of) rows) (\<lambda>chunks.
       validate_generation_source env
         \<lparr>eo_scope = sc, eo_generation_id = g, eo_generation_digest = gr_generation_digest r, eo_chunks
             = chunks\<rparr>)"

definition load_generation_source ::
  "embedding_env \<Rightarrow> pystr \<Rightarrow> index_scope \<Rightarrow> uuid \<Rightarrow> db_fault \<Rightarrow> embedding_store
     \<Rightarrow> (store_error + generation_source) \<times> embedding_store" where
  "load_generation_source env customer sc g fault db =
     (if is_customer_environment_id sc \<noteq> customer then (Inl StoreIdentity, db)
      else run_transaction fault
        (andthen (establish_customer customer) (\<lambda>_.
         andthen (fetch (\<lambda>db. db_generations (es_knowledge db) g)) (\<lambda>generation.
         case generation of
           None \<Rightarrow> stop StoreUnavailable
         | Some r \<Rightarrow>
             andthen (unless (gr_namespace r \<noteq> is_namespace sc) StoreUnavailable) (\<lambda>_.
             andthen (fetch (\<lambda>db. generation_chunks (es_knowledge db) (is_namespace sc) g)) (\<lambda>rows.
             andthen (unless (length rows \<noteq> gr_chunk_count r) StoreUnavailable) (\<lambda>_.
               checked_or StoreUnavailable (generation_source_of env sc g r rows))))))) db)"

text \<open>Who stores a set, and the identifier of its audit event.\<close>

record materialization_request =
  mq_operation_id :: pystr
  mq_request_id :: pystr
  mq_actor_id :: pystr
  mq_outbox_id :: uuid

definition set_key_of :: "embedding_set \<Rightarrow> pystr \<Rightarrow> set_key" where
  "set_key_of s pd = (is_namespace (eg_scope s), eg_generation_id s, pd)"

definition vector_row_of :: "set_key \<Rightarrow> prepared_embedding \<Rightarrow> vector_row" where
  "vector_row_of k e = \<lparr>nw_set = k, nw_chunk_id = pe_chunk_id e, nw_content_sha256 = pe_content_sha256
      e,
     nw_vector_sha256 = pe_vector_sha256 e, nw_values = pe_values e\<rparr>"

definition make_materialization_result ::
  "(pystr \<Rightarrow> pystr) \<Rightarrow> pystr \<Rightarrow> embedding_set \<Rightarrow> pystr \<Rightarrow> materialization_result checked" where
  "make_materialization_result lower oid s pd =
     bindE (validate_identifier oid) (\<lambda>oid'.
     bindE (validate_digest (eg_generation_digest s)) (\<lambda>_.
     bindE (validate_code lower (ef_profile_id (eg_profile s))) (\<lambda>pid.
     bindE (validate_digest pd) (\<lambda>_.
     bindE (validate_digest (eg_sha256 s)) (\<lambda>_.
     raise_if (eg_embeddings s = []) ''greater_than_equal''
       (Inr \<lparr>mr_operation_id = oid', mr_scope = eg_scope s, mr_generation_id = eg_generation_id s,
          mr_generation_digest = eg_generation_digest s, mr_profile_id = pid, mr_profile_sha256 = pd,
          mr_set_sha256 = eg_sha256 s, mr_count = length (eg_embeddings s)\<rparr>))))))"

definition store_set ::
  "embedding_env \<Rightarrow> embedding_set \<Rightarrow> pystr \<Rightarrow> materialization_request
     \<Rightarrow> (store_error, embedding_store, materialization_result) proc" where
  "store_set env s pd q =
     (let k = set_key_of s pd; n = length (eg_embeddings s) in
      andthen (insert_profile pd (eg_profile s)) (\<lambda>_.
      andthen (insert_set k \<lparr>tw_generation_digest = eg_generation_digest s, tw_set_sha256 = eg_sha256
          s, tw_count = n,
        tw_ready = False\<rparr>) (\<lambda>_.
      andthen (each insert_vector (map (vector_row_of k) (eg_embeddings s))) (\<lambda>_.
      andthen (guard (\<lambda>db. stored_as_prepared db k n) StoreUnavailable) (\<lambda>_.
      andthen (mark_ready k) (\<lambda>_.
      andthen (checked_or StoreUnavailable
        (make_materialization_result (ie_lower (xe_ingest env)) (mq_operation_id q) s pd)) (\<lambda>result.
      andthen (insert_materialization (mq_operation_id q)
        \<lparr>hw_set = k, hw_set_sha256 = eg_sha256 s, hw_result = result\<rparr>) (\<lambda>_.
      andthen (insert_materialization_event
        \<lparr>me_outbox_id = mq_outbox_id q, me_operation_id = mq_operation_id q, me_request_id =
            mq_request_id q,
         me_actor_id = mq_actor_id q, me_namespace = is_namespace (eg_scope s), me_generation_id =
             eg_generation_id s,
         me_generation_digest = eg_generation_digest s, me_set_sha256 = eg_sha256 s, me_count = n\<rparr>) (\<lambda>_.
        give result)))))))))"

definition persist_set ::
  "embedding_env \<Rightarrow> pystr \<Rightarrow> embedding_set \<Rightarrow> materialization_request \<Rightarrow> db_fault \<Rightarrow> embedding_store
     \<Rightarrow> (store_error + materialization_result) \<times> embedding_store" where
  "persist_set env customer s q fault db =
     (if is_customer_environment_id (eg_scope s) \<noteq> customer then (Inl StoreIdentity, db)
      else run_transaction fault
        (andthen (establish_customer customer) (\<lambda>_.
         andthen (fetch (\<lambda>db. es_operations db (mq_operation_id q))) (\<lambda>existing.
         andthen (checked_or StoreUnavailable (profile_sha256 env (eg_profile s))) (\<lambda>pd.
         case existing of
           Some r \<Rightarrow>
             andthen (unless ((hw_set r, hw_set_sha256 r) \<noteq> (set_key_of s pd, eg_sha256 s))
                 StoreConflict) (\<lambda>_.
               give (hw_result r))
         | None \<Rightarrow> store_set env s pd q)))) db)"

section \<open>Searchable sets\<close>

text \<open>The first common table expression of the semantic statement.\<close>

definition ready_set :: "embedding_store \<Rightarrow> set_key \<Rightarrow> bool" where
  "ready_set db k \<longleftrightarrow>
     (case (es_sets db k, db_generations (es_knowledge db) (fst (snd k))) of
        (Some s, Some g) \<Rightarrow> gr_namespace g = fst k \<and> tw_ready s \<and> gr_status g = ACTIVE
          \<and> tw_generation_digest s = gr_generation_digest g \<and> tw_count s = gr_chunk_count g
          \<and> tw_count s = length (vectors_of db k)
      | _ \<Rightarrow> False)"

end
