(* ===== verification/KnowledgeReads.thy ===== *)
theory KnowledgeReads
  imports Embeddings Fusion Utf8
begin

text \<open>
  Reading the knowledge database (\<open>src/erp_ai/infrastructure/postgres/\<close>): the rows and the statements,
  the static router, and the lexical, the semantic and the hybrid retrieval providers. The driver, the
  pools and the embedding provider are operations on the world; a statement is a constructor with its
  parameters, and its rows are the driver's.
\<close>

section \<open>Rows\<close>

text \<open>A value of a row, as the driver hands it over; a row is compared with a tuple the way Python
  compares them, where \<open>True\<close> is \<open>1\<close> and \<open>False\<close> is \<open>0\<close>.\<close>

datatype cell = CText pystr | CInt int | CBool bool | CUuid uuid | CNull

type_synonym row = "cell list"

fun cell_value :: "cell \<Rightarrow> cell" where
  "cell_value (CBool b) = CInt (if b then 1 else 0)"
| "cell_value c = c"

definition row_equal :: "row \<Rightarrow> row \<Rightarrow> bool" where
  "row_equal r s \<longleftrightarrow> map cell_value r = map cell_value s"

definition rows_equal :: "row list \<Rightarrow> row list \<Rightarrow> bool" where
  "rows_equal rs ss \<longleftrightarrow> list_all2 row_equal rs ss"

text \<open>A number of a row: the rational value of a finite number, or a NaN or an infinity.\<close>

datatype sql_number = Finite rat | NotFinite

record match_row =
  mw_chunk_id :: pystr
  mw_document_id :: uuid
  mw_citation_id :: pystr
  mw_namespace :: pystr
  mw_source_type :: pystr
  mw_customer_environment_id :: "pystr option"
  mw_required_modules_all :: "pystr list"
  mw_required_permissions_all :: "pystr list"
  mw_allowed_purposes :: "pystr list"
  mw_legal_entity_ids :: "pystr list"
  mw_data_classification :: pystr
  mw_language :: pystr
  mw_title :: pystr
  mw_section :: pystr
  mw_document_version :: pystr
  mw_effective_from :: instant
  mw_effective_to :: "instant option"
  mw_content :: pystr

record lexical_row = match_row +
  lx_normalized_rank :: "sql_number option"

record semantic_row = match_row +
  sx_relevance_score :: "sql_number option"
  sx_cosine_distance :: "sql_number option"

definition source_type_of :: "pystr \<Rightarrow> knowledge_source_type checked" where
  "source_type_of s =
     (if s = lit ''product_documentation'' then Inr PRODUCT_DOCUMENTATION
      else if s = lit ''customer_policy'' then Inr CUSTOMER_POLICY
      else Inl ''invalid knowledge source type'')"

definition classification_of :: "pystr \<Rightarrow> data_classification checked" where
  "classification_of s =
     (if s = lit ''public'' then Inr PUBLIC
      else if s = lit ''internal'' then Inr INTERNAL
      else if s = lit ''restricted'' then Inr RESTRICTED
      else if s = lit ''highly_restricted'' then Inr HIGHLY_RESTRICTED
      else Inl ''invalid data classification'')"

definition match_of_row :: "(pystr \<Rightarrow> pystr) \<Rightarrow> 'x match_row_scheme \<Rightarrow> rat \<Rightarrow> knowledge_match checked" where
  "match_of_row lower r score =
     bindE (source_type_of (mw_source_type r)) (\<lambda>source.
     bindE (classification_of (mw_data_classification r)) (\<lambda>classification.
     validate_match lower
       \<lparr>km_chunk_id = mw_chunk_id r, km_document_id = uuid_str (mw_document_id r),
        km_citation_id = mw_citation_id r, km_namespace = mw_namespace r, km_source_type = source,
        km_customer_environment_id = mw_customer_environment_id r,
        km_required_modules_all = mw_required_modules_all r,
        km_required_permissions_all = mw_required_permissions_all r,
        km_allowed_purposes = mw_allowed_purposes r, km_legal_entity_ids = mw_legal_entity_ids r,
        km_data_classification = classification, km_language = mw_language r, km_title = mw_title r,
        km_section = mw_section r, km_document_version = mw_document_version r,
        km_effective_from = mw_effective_from r, km_effective_to = mw_effective_to r,
        km_content = mw_content r, km_relevance_score = score\<rparr>))"

section \<open>The driver\<close>

text \<open>The statements of the adapters that read the catalog of a database; each is a constructor with the
  parameters of its placeholders.\<close>

datatype catalog_query =
    DatabaseIdentity
  | ActiveGeneration pystr pystr
  | ActiveGenerationDigest pystr pystr
  | ReadySet pystr pystr cell cell pystr
  | ContractIdentity
  | VectorExtension
  | VectorObjects
  | AppliedMigrations
  | RelationColumns "pystr list"
  | RegisteredProfile pystr pystr pystr
  | ActivePublication pystr pystr pystr
  | CreationPrivileges
  | RoleContract
  | SelectedRelations
  | MigrationAccess
  | RelationOwners "pystr list"
  | SequenceWrites
  | RowSecurity "pystr list"
  | RelationPolicies "pystr list"
  | IndexContract
  | SchemaFunctions
  | DefaultPrivileges
  | BoundIdentity
  | BoundPublication pystr pystr pystr

datatype setting = RepeatableReadOnly | LocalSetting string pystr

text \<open>The scope both ranking statements filter by, and their own parameters.\<close>

record scope_query =
  sq_customer :: pystr
  sq_generation :: cell
  sq_namespace :: pystr
  sq_enabled_modules :: "pystr list"
  sq_permission_codes :: "pystr list"
  sq_purpose :: pystr
  sq_legal_entity_ids :: "pystr list"
  sq_effective_at :: instant
  sq_limit :: nat

record lexical_query = scope_query +
  tq_query :: pystr

record semantic_query = scope_query +
  mq_profile_sha256 :: pystr
  mq_vector :: pystr
  mq_classifications :: "pystr list"
  mq_minimum_score :: rat

text \<open>The driver: a connection of a pool in a transaction, the settings and the statements, and the end
    of
  the transaction (a commit or a rollback), which gives the connection back.\<close>

record ('p, 'c, 'w) knowledge_driver =
  kd_connect :: "('p, 'w, 'c outcome) op"
  kd_set :: "('c \<times> setting, 'w, unit outcome) op"
  kd_fetch :: "('c \<times> catalog_query, 'w, row list outcome) op"
  kd_lexical :: "('c \<times> lexical_query, 'w, lexical_row list outcome) op"
  kd_semantic :: "('c \<times> semantic_query, 'w, semantic_row list outcome) op"
  kd_finish :: "('c \<times> bool, 'w, unit outcome) op"

datatype retrieval_stop = RetrievalCancelled | StorageUnavailable string | IdentityMismatch

text \<open>\<open>except CancelledError: raise\<close>, \<open>except Exception: raise KnowledgeStorageUnavailable(message)\<close>\<close>

definition raised :: "string \<Rightarrow> exn \<Rightarrow> retrieval_stop" where
  "raised message x = (if x = Cancelled then RetrievalCancelled else StorageUnavailable message)"

definition asked :: "string \<Rightarrow> ('w \<Rightarrow> 'a outcome \<times> 'w) \<Rightarrow> (retrieval_stop, 'w, 'a) proc" where
  "asked message = attempt (raised message)"

text \<open>\<open>async with pool.connection() as connection, connection.transaction(): body\<close>; an exception while
    the
  transaction ends replaces the one of the body.\<close>

definition knowledge_transaction ::
  "('p, 'c, 'w) knowledge_driver \<Rightarrow> string \<Rightarrow> 'p \<Rightarrow> ('c \<Rightarrow> (retrieval_stop, 'w, 'a) proc)
     \<Rightarrow> (retrieval_stop, 'w, 'a) proc" where
  "knowledge_transaction db message p body =
     andthen (asked message (kd_connect db p)) (\<lambda>c w.
       case body c w of
         (Inl e, w1) \<Rightarrow>
           (case kd_finish db (c, False) w1 of (Inl x, w2) \<Rightarrow> (Inl (raised message x), w2) | (Inr _, w2)
               \<Rightarrow> (Inl e, w2))
       | (Inr v, w1) \<Rightarrow>
           (case kd_finish db (c, True) w1 of (Inl x, w2) \<Rightarrow> (Inl (raised message x), w2) | (Inr _, w2)
               \<Rightarrow> (Inr v, w2)))"

definition fetch_all ::
  "('p, 'c, 'w) knowledge_driver \<Rightarrow> string \<Rightarrow> 'c \<Rightarrow> catalog_query \<Rightarrow> (retrieval_stop, 'w, row list) proc"
      where
  "fetch_all db message c q = asked message (kd_fetch db (c, q))"

definition fetch_one ::
  "('p, 'c, 'w) knowledge_driver \<Rightarrow> string \<Rightarrow> 'c \<Rightarrow> catalog_query \<Rightarrow> (retrieval_stop, 'w, row option) proc"
      where
  "fetch_one db message c q =
     andthen (fetch_all db message c q) (\<lambda>rows. give (case rows of [] \<Rightarrow> None | r # _ \<Rightarrow> Some r))"

fun apply_settings ::
  "('p, 'c, 'w) knowledge_driver \<Rightarrow> string \<Rightarrow> 'c \<Rightarrow> setting list \<Rightarrow> (retrieval_stop, 'w, unit) proc" where
  "apply_settings db message c [] = give ()"
| "apply_settings db message c (s # ss) =
     andthen (asked message (kd_set db (c, s))) (\<lambda>_. apply_settings db message c ss)"

section \<open>Static routing\<close>

datatype knowledge_access = READER | PUBLISHER | MIGRATION

record database_route =
  dt_customer :: pystr
  dt_reader_dsn :: pystr
  dt_publisher_dsn :: pystr
  dt_migration_dsn :: pystr

record static_config =
  kc_routes :: "database_route list"
  kc_minimum_pool_size :: int
  kc_maximum_pool_size :: int
  kc_statement_timeout_ms :: int
  kc_lock_timeout_ms :: int
  kc_idle_transaction_timeout_ms :: int

definition validate_static_config :: "static_config \<Rightarrow> static_config checked" where
  "validate_static_config c =
     bindE (map_checked (\<lambda>r. bindE (validate_identifier (dt_customer r)) (\<lambda>i. Inr (r\<lparr>dt_customer :=
         i\<rparr>))) (kc_routes c))
       (\<lambda>routes.
     raise_if (routes = []) ''too_short''
     (raise_if (\<not> (0 \<le> kc_minimum_pool_size c \<and> kc_minimum_pool_size c \<le> 20
         \<and> 1 \<le> kc_maximum_pool_size c \<and> kc_maximum_pool_size c \<le> 50
         \<and> 100 \<le> kc_statement_timeout_ms c \<and> kc_statement_timeout_ms c \<le> 60000
         \<and> 100 \<le> kc_lock_timeout_ms c \<and> kc_lock_timeout_ms c \<le> 60000
         \<and> 100 \<le> kc_idle_transaction_timeout_ms c \<and> kc_idle_transaction_timeout_ms c \<le> 120000))
             ''range''
     (raise_if (\<not> distinct (map dt_customer routes))
         ''duplicate customer database routes are forbidden''
     (raise_if (kc_minimum_pool_size c > kc_maximum_pool_size c)
         ''minimum pool size cannot exceed maximum pool size''
       (Inr (c\<lparr>kc_routes := routes\<rparr>))))))"

text \<open>The pools of a driver: created from the DSN, the sizes and the timeout (\<open>None\<close>: the default of the
  pool), opened and closed.\<close>

record ('p, 'w) knowledge_pools =
  kp_create :: "(pystr \<times> int \<times> int \<times> rat option, 'w, 'p) op"
  kp_open :: "('p, 'w, unit outcome) op"
  kp_close :: "('p, 'w, unit outcome) op"

record 'p static_router =
  st_pools :: "((pystr \<times> knowledge_access) \<times> 'p) list"
  st_started :: bool

definition route_dsns :: "database_route \<Rightarrow> ((pystr \<times> knowledge_access) \<times> pystr) list" where
  "route_dsns r = [((dt_customer r, READER), dt_reader_dsn r), ((dt_customer r, PUBLISHER),
      dt_publisher_dsn r),
     ((dt_customer r, MIGRATION), dt_migration_dsn r)]"

fun create_static_pools ::
  "('p, 'w) knowledge_pools \<Rightarrow> static_config \<Rightarrow> ((pystr \<times> knowledge_access) \<times> pystr) list \<Rightarrow> 'w
     \<Rightarrow> ((pystr \<times> knowledge_access) \<times> 'p) list \<times> 'w" where
  "create_static_pools po cfg [] w = ([], w)"
| "create_static_pools po cfg ((k, dsn) # ds) w =
     (case kp_create po (dsn, kc_minimum_pool_size cfg, kc_maximum_pool_size cfg, None) w of
        (p, w1) \<Rightarrow> (case create_static_pools po cfg ds w1 of (ps, w2) \<Rightarrow> ((k, p) # ps, w2)))"

fun each_pool :: "('p, 'w, unit outcome) op \<Rightarrow> 'p list \<Rightarrow> 'w \<Rightarrow> unit outcome \<times> 'w" where
  "each_pool f [] w = (Inr (), w)"
| "each_pool f (p # ps) w = (case f p w of (Inl x, w1) \<Rightarrow> (Inl x, w1) | (Inr _, w1) \<Rightarrow> each_pool f ps w1)"

definition static_open ::
  "('p, 'w) knowledge_pools \<Rightarrow> static_config \<Rightarrow> 'p static_router \<Rightarrow> 'w \<Rightarrow> (unit outcome \<times> 'p static_router)
      \<times> 'w" where
  "static_open po cfg rt w =
     (if st_started rt then ((Inr (), rt), w)
      else case create_static_pools po cfg (concat (map route_dsns (kc_routes cfg))) w of
        (pools, w1) \<Rightarrow>
          (case each_pool (kp_open po) (map snd pools) w1 of
             (Inl x, w2) \<Rightarrow>
               (case each_pool (kp_close po) (map snd pools) w2 of
                  (Inl y, w3) \<Rightarrow> ((Inl y, rt), w3) | (Inr _, w3) \<Rightarrow> ((Inl x, rt), w3))
           | (Inr _, w2) \<Rightarrow> ((Inr (), \<lparr>st_pools = pools, st_started = True\<rparr>), w2)))"

definition static_close ::
  "('p, 'w) knowledge_pools \<Rightarrow> 'p static_router \<Rightarrow> 'w \<Rightarrow> (unit outcome \<times> 'p static_router) \<times> 'w" where
  "static_close po rt w =
     (case each_pool (kp_close po) (map snd (st_pools rt)) w of
        (Inl x, w1) \<Rightarrow> ((Inl x, rt), w1)
      | (Inr _, w1) \<Rightarrow> ((Inr (), \<lparr>st_pools = [], st_started = False\<rparr>), w1))"

type_synonym 'p pool_lookup = "pystr \<Rightarrow> knowledge_access \<Rightarrow> 'p checked"

definition static_pool :: "'p static_router \<Rightarrow> 'p pool_lookup" where
  "static_pool rt customer access =
     raise_if (\<not> st_started rt) ''knowledge database router is unavailable''
     (case map_of (st_pools rt) (customer, access) of
        None \<Rightarrow> Inl ''knowledge database route is unavailable'' | Some p \<Rightarrow> Inr p)"

section \<open>Lexical retrieval\<close>

text \<open>\<open>Decimal(str(value))\<close> and the nearest double of it; a score that is no number of the unit
    interval is
  refused by the match.\<close>

definition LEXICAL_MESSAGE :: string where "LEXICAL_MESSAGE = ''knowledge retrieval is unavailable''"

definition lexical_match :: "(pystr \<Rightarrow> pystr) \<Rightarrow> (rat \<Rightarrow> rat) \<Rightarrow> lexical_row \<Rightarrow> knowledge_match checked"
    where
  "lexical_match lower nearest r =
     (case lx_normalized_rank r of
        None \<Rightarrow> Inl ''InvalidOperation''
      | Some NotFinite \<Rightarrow> Inl ''score_range''
      | Some (Finite q) \<Rightarrow> match_of_row lower r (nearest q))"

definition scope_of :: "retrieval_request \<Rightarrow> pystr \<Rightarrow> cell \<Rightarrow> nat \<Rightarrow> scope_query" where
  "scope_of rq customer generation limit =
     \<lparr>sq_customer = customer, sq_generation = generation, sq_namespace = rq_namespace rq,
      sq_enabled_modules = rq_enabled_modules rq, sq_permission_codes = rq_permission_codes rq,
      sq_purpose = rq_purpose rq, sq_legal_entity_ids = rq_authorized_legal_entity_ids rq,
      sq_effective_at = rq_effective_at rq, sq_limit = limit\<rparr>"

definition lexical_query_of :: "retrieval_request \<Rightarrow> pystr \<Rightarrow> cell \<Rightarrow> nat \<Rightarrow> lexical_query" where
  "lexical_query_of rq customer generation limit =
     scope_query.extend (scope_of rq customer generation limit) \<lparr>tq_query = rq_query rq\<rparr>"

definition found_pool :: "'p pool_lookup \<Rightarrow> pystr \<Rightarrow> (retrieval_stop, 'w, 'p) proc" where
  "found_pool pool_of customer =
     (case pool_of customer READER of Inl e \<Rightarrow> stop (StorageUnavailable e) | Inr p \<Rightarrow> give p)"

text \<open>The first column of the row of the active generation.\<close>

definition first_cell :: "string \<Rightarrow> row \<Rightarrow> (retrieval_stop, 'w, cell) proc" where
  "first_cell message r = (case r of [] \<Rightarrow> stop (StorageUnavailable message) | g # _ \<Rightarrow> give g)"

definition lexical_retrieve ::
  "(pystr \<Rightarrow> pystr) \<Rightarrow> (rat \<Rightarrow> rat) \<Rightarrow> ('p, 'c, 'w) knowledge_driver \<Rightarrow> 'p pool_lookup \<Rightarrow> pystr
     \<Rightarrow> retrieval_request \<Rightarrow> (retrieval_stop, 'w, knowledge_match list) proc" where
  "lexical_retrieve lower nearest db pool_of customer rq =
     andthen (unless (rq_customer_environment_id rq \<noteq> customer) IdentityMismatch) (\<lambda>_.
     andthen (found_pool pool_of customer) (\<lambda>p.
     knowledge_transaction db LEXICAL_MESSAGE p (\<lambda>c.
       andthen (apply_settings db LEXICAL_MESSAGE c
         [RepeatableReadOnly, LocalSetting ''erp_ai.customer_environment_id'' customer,
          LocalSetting ''statement_timeout'' (lit ''5000ms''), LocalSetting ''lock_timeout'' (lit
              ''2000ms''),
          LocalSetting ''idle_in_transaction_session_timeout'' (lit ''10000ms'')]) (\<lambda>_.
       andthen (fetch_one db LEXICAL_MESSAGE c DatabaseIdentity) (\<lambda>identity.
       andthen (case identity of
           None \<Rightarrow> stop IdentityMismatch
         | Some r \<Rightarrow> andthen (first_cell LEXICAL_MESSAGE r) (\<lambda>i. unless (i \<noteq> CText customer)
             IdentityMismatch)) (\<lambda>_.
       andthen (fetch_one db LEXICAL_MESSAGE c (ActiveGeneration customer (rq_namespace rq))) (\<lambda>active.
       case active of
         None \<Rightarrow> give []
       | Some r \<Rightarrow>
           andthen (first_cell LEXICAL_MESSAGE r) (\<lambda>g.
           andthen (asked LEXICAL_MESSAGE (kd_lexical db
             (c, lexical_query_of rq customer g (rq_maximum_results rq)))) (\<lambda>rows.
             checked_or (StorageUnavailable LEXICAL_MESSAGE) (map_checked (lexical_match lower nearest)
                 rows))))))))))"

section \<open>Semantic policy and scores\<close>

text \<open>The parameters: the embedding environment, the double nearest to a rational number, the format of
    a
  component with nine significant digits and the decimal digits of the pattern engine.\<close>

record retrieval_env =
  re_embedding :: embedding_env
  re_nearest :: "rat \<Rightarrow> rat"
  re_component_text :: "float64 \<Rightarrow> pystr"
  re_decimal :: "nat \<Rightarrow> bool"

definition re_lower :: "retrieval_env \<Rightarrow> pystr \<Rightarrow> pystr" where
  "re_lower env = ie_lower (xe_ingest (re_embedding env))"

definition SEMANTIC_NAMESPACE :: pystr where "SEMANTIC_NAMESPACE = lit ''hr''"
definition SEMANTIC_MAXIMUM_RESULTS :: nat where "SEMANTIC_MAXIMUM_RESULTS = 5"
definition SEMANTIC_MAXIMUM_TOTAL_CONTENT_CHARACTERS :: nat where
  "SEMANTIC_MAXIMUM_TOTAL_CONTENT_CHARACTERS = 12000"

text \<open>\<open>(0|[1-9]\d*)\<close> three times, where \<open>\d\<close> is any decimal digit.\<close>

definition is_policy_number :: "(nat \<Rightarrow> bool) \<Rightarrow> pystr \<Rightarrow> bool" where
  "is_policy_number decimal s \<longleftrightarrow>
     (case s of [] \<Rightarrow> False | d # ds \<Rightarrow> d = 48 \<and> ds = [] \<or> 49 \<le> d \<and> d \<le> 57 \<and> list_all decimal ds)"

definition is_policy_version :: "(nat \<Rightarrow> bool) \<Rightarrow> pystr \<Rightarrow> bool" where
  "is_policy_version decimal s \<longleftrightarrow>
     length (split_on 46 s) = 3 \<and> list_all (is_policy_number decimal) (split_on 46 s)"

record semantic_policy =
  sy_namespace :: pystr
  sy_profile_sha256 :: pystr
  sy_minimum_score :: rat
  sy_policy_version :: pystr

definition validate_semantic_policy :: "retrieval_env \<Rightarrow> semantic_policy \<Rightarrow> semantic_policy checked" where
  "validate_semantic_policy env p =
     raise_if (\<not> is_segment (sy_namespace p)) ''string_pattern_mismatch''
     (bindE (validate_digest (sy_profile_sha256 p)) (\<lambda>_.
      raise_if (sy_minimum_score p < 0 \<or> 1 < sy_minimum_score p) ''score_range''
      (raise_if (\<not> is_policy_version (re_decimal env) (sy_policy_version p))
          ''string_pattern_mismatch'' (Inr p))))"

definition vector_literal :: "retrieval_env \<Rightarrow> float64 list \<Rightarrow> pystr" where
  "vector_literal env fs = lit ''['' @ join_with [44] (map (re_component_text env) fs) @ lit '']''"

definition SEMANTIC_MESSAGE :: string where "SEMANTIC_MESSAGE =
    ''semantic knowledge retrieval is unavailable''"

definition distance_to_score :: "retrieval_env \<Rightarrow> sql_number option \<Rightarrow> rat checked" where
  "distance_to_score env d =
     (case d of
        Some (Finite x) \<Rightarrow>
          raise_if (\<not> (0 \<le> x \<and> x \<le> 2)) SEMANTIC_MESSAGE
            (Inr (re_nearest env (1 - re_nearest env (x / 2))))
      | _ \<Rightarrow> Inl SEMANTIC_MESSAGE)"

text \<open>\<open>math.isclose(a, b, rel_tol=0, abs_tol=1e-12)\<close>\<close>

definition close_scores :: "retrieval_env \<Rightarrow> rat \<Rightarrow> rat \<Rightarrow> bool" where
  "close_scores env a b \<longleftrightarrow> a = b \<or> \<bar>re_nearest env (b - a)\<bar> \<le> re_nearest env (1 / 10 ^ 12)"

definition semantic_match :: "retrieval_env \<Rightarrow> semantic_row \<Rightarrow> knowledge_match checked" where
  "semantic_match env r =
     bindE (distance_to_score env (sx_cosine_distance r)) (\<lambda>score.
     (case sx_relevance_score r of
        None \<Rightarrow> Inl ''InvalidOperation''
      | Some NotFinite \<Rightarrow> Inl SEMANTIC_MESSAGE
      | Some (Finite stored) \<Rightarrow>
          raise_if (\<not> close_scores env stored score) SEMANTIC_MESSAGE (match_of_row (re_lower env) r
              score)))"

definition validated_matches :: "retrieval_env \<Rightarrow> semantic_row list \<Rightarrow> knowledge_match list checked" where
  "validated_matches env rows =
     bindE (map_checked (semantic_match env) rows) (\<lambda>ms.
     raise_if (length ms > SEMANTIC_MAXIMUM_RESULTS) SEMANTIC_MESSAGE
     (raise_if (\<not> distinct (map km_chunk_id ms)) SEMANTIC_MESSAGE
     (raise_if (\<not> distinct (map km_citation_id ms)) SEMANTIC_MESSAGE
     (raise_if (ms \<noteq> sort_key match_key ms) SEMANTIC_MESSAGE
     (raise_if (sum_list (map (length \<circ> km_content) ms) > SEMANTIC_MAXIMUM_TOTAL_CONTENT_CHARACTERS)
         SEMANTIC_MESSAGE
       (Inr ms))))))"

section \<open>The embedding of a query\<close>

definition embedded_query :: "retrieval_env \<Rightarrow> string \<Rightarrow> pystr \<Rightarrow> embedding_input checked" where
  "embedded_query env iid query =
     raise_if (\<not> utf8_encodable query) ''UnicodeEncodeError''
     (validate_embedding_input
       \<lparr>ei_input_id = lit iid, ei_text = query, ei_content_sha256 = xe_sha256 (re_embedding env)
           (utf8_encode query),
        ei_classification = INTERNAL, ei_kind = QUERY_INPUT\<rparr>)"

text \<open>\<open>type(result).model_validate(result.model_dump(...))\<close>\<close>

definition revalidate_batch :: "embedding_env \<Rightarrow> batch_result \<Rightarrow> batch_result checked" where
  "revalidate_batch env res =
     bindE (map_checked (\<lambda>v. make_vector env (vx_input_id v) (map JFloat (vx_values v))) (bx_vectors
         res)) (\<lambda>vs.
       make_batch_result (bx_profile_sha256 res) vs)"

definition query_vector ::
  "retrieval_env \<Rightarrow> 'w embedder \<Rightarrow> embedding_profile \<Rightarrow> (batch_result \<Rightarrow> batch_result checked) \<Rightarrow> string
      \<Rightarrow> string
     \<Rightarrow> string \<Rightarrow> pystr \<Rightarrow> (retrieval_stop, 'w, embedding_vector) proc" where
  "query_vector env embedder profile revalidate iid message mismatch query =
     andthen (checked_or (StorageUnavailable message) (embedded_query env iid query)) (\<lambda>i.
     andthen (checked_or (StorageUnavailable message) (make_batch_request profile [i])) (\<lambda>req.
     andthen (asked message (embedder req)) (\<lambda>reply.
     andthen (checked_or (StorageUnavailable message) (revalidate reply)) (\<lambda>res.
     andthen (checked_or (StorageUnavailable message) (profile_sha256 (re_embedding env) profile)) (\<lambda>pd.
     andthen (unless (bx_profile_sha256 res \<noteq> pd \<or> length (bx_vectors res) \<noteq> 1) (StorageUnavailable
         mismatch)) (\<lambda>_.
     let v = hd (bx_vectors res) in
     andthen (unless (vx_input_id v \<noteq> ei_input_id i \<or> int (length (vx_values v)) \<noteq> ef_dimensions
         profile)
       (StorageUnavailable mismatch)) (\<lambda>_. give v)))))))"

section \<open>Semantic retrieval\<close>

record semantic_provider =
  sv_customer :: pystr
  sv_profile :: embedding_profile
  sv_policy :: semantic_policy
  sv_timeouts :: "(int \<times> int \<times> int) option"

definition make_semantic_provider ::
  "retrieval_env \<Rightarrow> pystr \<Rightarrow> embedding_profile \<Rightarrow> semantic_policy \<Rightarrow> (int \<times> int \<times> int) option
     \<Rightarrow> semantic_provider checked" where
  "make_semantic_provider env customer profile policy timeouts =
     bindE (profile_sha256 (re_embedding env) profile) (\<lambda>pd.
     raise_if (sy_namespace policy \<noteq> SEMANTIC_NAMESPACE \<or> sy_profile_sha256 policy \<noteq> pd)
       ''semantic retrieval policy is incompatible''
       (Inr \<lparr>sv_customer = customer, sv_profile = profile, sv_policy = policy, sv_timeouts =
           timeouts\<rparr>))"

definition timeout_settings :: "(int \<times> int \<times> int) option \<Rightarrow> setting list" where
  "timeout_settings ts =
     (case ts of None \<Rightarrow> []
      | Some (a, b, c) \<Rightarrow>
          [LocalSetting ''statement_timeout'' (json_int_text a), LocalSetting ''lock_timeout''
              (json_int_text b),
           LocalSetting ''idle_in_transaction_session_timeout'' (json_int_text c)])"

definition semantic_settings :: "semantic_provider \<Rightarrow> setting list" where
  "semantic_settings p =
     [RepeatableReadOnly, LocalSetting ''search_path'' (lit ''pg_catalog'')] @ timeout_settings
         (sv_timeouts p)
     @ [LocalSetting ''erp_ai.customer_environment_id'' (sv_customer p)]"

definition semantic_query_of ::
  "retrieval_env \<Rightarrow> retrieval_request \<Rightarrow> pystr \<Rightarrow> embedding_profile \<Rightarrow> pystr \<Rightarrow> float64 list \<Rightarrow> cell
      \<Rightarrow> rat \<Rightarrow> nat
     \<Rightarrow> semantic_query" where
  "semantic_query_of env rq customer profile pd values generation minimum limit =
     scope_query.extend (scope_of rq customer generation limit)
       \<lparr>mq_profile_sha256 = pd, mq_vector = vector_literal env values,
        mq_classifications = map classification_value (ef_classifications profile), mq_minimum_score =
            minimum\<rparr>"

text \<open>A transaction verifier checks the connection for the request and the profile.\<close>

type_synonym ('c, 'w) transaction_verifier =
  "'c \<Rightarrow> retrieval_request \<Rightarrow> embedding_profile \<Rightarrow> (retrieval_stop, 'w, unit) proc"

definition semantic_body ::
  "retrieval_env \<Rightarrow> ('p, 'c, 'w) knowledge_driver \<Rightarrow> ('c, 'w) transaction_verifier option \<Rightarrow>
      semantic_provider
     \<Rightarrow> retrieval_request \<Rightarrow> float64 list \<Rightarrow> 'c \<Rightarrow> (retrieval_stop, 'w, knowledge_match list) proc" where
  "semantic_body env db verifier p rq values c =
     andthen (apply_settings db SEMANTIC_MESSAGE c (semantic_settings p)) (\<lambda>_.
     andthen (case verifier of None \<Rightarrow> give () | Some verify \<Rightarrow> verify c rq (sv_profile p)) (\<lambda>_.
     andthen (fetch_one db SEMANTIC_MESSAGE c DatabaseIdentity) (\<lambda>identity.
     andthen (unless (identity \<noteq> Some [CText (sv_customer p)]) IdentityMismatch) (\<lambda>_.
     andthen (fetch_one db SEMANTIC_MESSAGE c (ActiveGeneration (sv_customer p) (rq_namespace rq)))
         (\<lambda>active.
     case active of
       None \<Rightarrow> give []
     | Some r \<Rightarrow>
         andthen (first_cell SEMANTIC_MESSAGE r) (\<lambda>g.
         andthen (checked_or (StorageUnavailable SEMANTIC_MESSAGE)
           (profile_sha256 (re_embedding env) (sv_profile p))) (\<lambda>pd.
         andthen (asked SEMANTIC_MESSAGE (kd_semantic db (c, semantic_query_of env rq (sv_customer p)
             (sv_profile p) pd
           values g (sy_minimum_score (sv_policy p)) (rq_maximum_results rq)))) (\<lambda>rows.
           checked_or (StorageUnavailable SEMANTIC_MESSAGE) (validated_matches env rows)))))))))"

definition semantic_retrieve ::
  "retrieval_env \<Rightarrow> ('p, 'c, 'w) knowledge_driver \<Rightarrow> 'p pool_lookup \<Rightarrow> 'w embedder
     \<Rightarrow> ('c, 'w) transaction_verifier option \<Rightarrow> semantic_provider \<Rightarrow> retrieval_request
     \<Rightarrow> (retrieval_stop, 'w, knowledge_match list) proc" where
  "semantic_retrieve env db pool_of embedder verifier p request =
     andthen (checked_or (StorageUnavailable SEMANTIC_MESSAGE) (validate_request (re_lower env)
         request)) (\<lambda>rq.
     andthen (unless (rq_customer_environment_id rq \<noteq> sv_customer p) IdentityMismatch) (\<lambda>_.
     andthen (query_vector env embedder (sv_profile p) (revalidate_batch (re_embedding env))
         ''semantic_query''
       SEMANTIC_MESSAGE ''semantic query embedding is unavailable'' (rq_query rq)) (\<lambda>v.
     andthen (found_pool pool_of (sv_customer p)) (\<lambda>pool.
       knowledge_transaction db SEMANTIC_MESSAGE pool (semantic_body env db verifier p rq (vx_values
           v))))))"

section \<open>Hybrid retrieval\<close>

record hybrid_contract = hybrid_policy +
  hc_policy_version :: pystr
  hc_namespace :: pystr
  hc_profile_sha256 :: pystr
  hc_semantic_threshold :: rat
  hc_generation_digest :: pystr
  hc_resource_policy_sha256 :: pystr
  hc_runtime_identity_sha256 :: pystr

definition validate_hybrid_contract :: "retrieval_env \<Rightarrow> hybrid_contract \<Rightarrow> hybrid_contract checked" where
  "validate_hybrid_contract env p =
     raise_if (\<not> is_policy_version (re_decimal env) (hc_policy_version p)) ''string_pattern_mismatch''
     (raise_if (\<not> is_segment (hc_namespace p)) ''string_pattern_mismatch''
     (bindE (validate_policy (hybrid_policy.truncate p)) (\<lambda>_.
      raise_if (\<not> list_all is_digest [hc_profile_sha256 p, hc_generation_digest p,
          hc_resource_policy_sha256 p,
          hc_runtime_identity_sha256 p]) ''string_pattern_mismatch''
      (raise_if (hc_semantic_threshold p < 0 \<or> 1 < hc_semantic_threshold p) ''score_range'' (Inr p)))))"

record hybrid_provider =
  hv_customer :: pystr
  hv_profile :: embedding_profile
  hv_policy :: hybrid_contract

definition make_hybrid_provider ::
  "retrieval_env \<Rightarrow> pystr \<Rightarrow> embedding_profile \<Rightarrow> hybrid_contract \<Rightarrow> hybrid_provider checked" where
  "make_hybrid_provider env customer profile policy =
     bindE (profile_sha256 (re_embedding env) profile) (\<lambda>pd.
     raise_if (hc_namespace policy \<noteq> lit ''hr'' \<or> hc_profile_sha256 policy \<noteq> pd)
       ''hybrid retrieval policy is incompatible''
       (Inr \<lparr>hv_customer = customer, hv_profile = profile, hv_policy = policy\<rparr>))"

definition HYBRID_MESSAGE :: string where "HYBRID_MESSAGE =
    ''hybrid knowledge retrieval is unavailable''"

definition decode_lexical_row :: "retrieval_env \<Rightarrow> lexical_row \<Rightarrow> knowledge_match checked" where
  "decode_lexical_row env r =
     (case lx_normalized_rank r of
        Some (Finite q) \<Rightarrow>
          raise_if (\<not> (0 \<le> re_nearest env q \<and> re_nearest env q \<le> 1)) HYBRID_MESSAGE
            (match_of_row (re_lower env) r (re_nearest env q))
      | _ \<Rightarrow> Inl HYBRID_MESSAGE)"

text \<open>A row the semantic decoder refuses keeps its message; every other exception gets the one of the
    caller.\<close>

definition decoded :: "string \<Rightarrow> 'a checked \<Rightarrow> (retrieval_stop, 'w, 'a) proc" where
  "decoded message m =
     (case m of
        Inl e \<Rightarrow> stop (StorageUnavailable (if e = SEMANTIC_MESSAGE then e else message))
      | Inr x \<Rightarrow> give x)"

text \<open>The generation and its digest are the two columns of the active row.\<close>

definition hybrid_body ::
  "retrieval_env \<Rightarrow> ('p, 'c, 'w) knowledge_driver \<Rightarrow> hybrid_provider \<Rightarrow> retrieval_request \<Rightarrow> float64 list
      \<Rightarrow> 'c
     \<Rightarrow> (retrieval_stop, 'w, knowledge_match list) proc" where
  "hybrid_body env db p rq values c =
     (let customer = hv_customer p; policy = hv_policy p; unavailable = StorageUnavailable
         HYBRID_MESSAGE in
     andthen (apply_settings db HYBRID_MESSAGE c
       [RepeatableReadOnly, LocalSetting ''erp_ai.customer_environment_id'' customer]) (\<lambda>_.
     andthen (fetch_one db HYBRID_MESSAGE c DatabaseIdentity) (\<lambda>identity.
     andthen (unless (identity \<noteq> Some [CText customer]) IdentityMismatch) (\<lambda>_.
     andthen (fetch_one db HYBRID_MESSAGE c (ActiveGenerationDigest customer (rq_namespace rq)))
         (\<lambda>active.
     case active of
       None \<Rightarrow> give []
     | Some [g, digest] \<Rightarrow>
         andthen (unless (digest \<noteq> CText (hc_generation_digest policy)) unavailable) (\<lambda>_.
         andthen (checked_or unavailable (profile_sha256 (re_embedding env) (hv_profile p))) (\<lambda>pd.
         andthen (fetch_one db HYBRID_MESSAGE c (ReadySet customer (rq_namespace rq) g digest pd))
             (\<lambda>ready.
         andthen (unless (ready = None) unavailable) (\<lambda>_.
         andthen (asked HYBRID_MESSAGE (kd_lexical db
           (c, lexical_query_of rq customer g (hp_lexical_candidate_limit policy)))) (\<lambda>lexical_rows.
         andthen (asked HYBRID_MESSAGE (kd_semantic db (c, semantic_query_of env rq customer
             (hv_profile p) pd values g
           (hc_semantic_threshold policy) (hp_semantic_candidate_limit policy)))) (\<lambda>semantic_rows.
         andthen (checked_or unavailable (map_checked (decode_lexical_row env) lexical_rows)) (\<lambda>lexical.
         andthen (decoded HYBRID_MESSAGE (map_checked (semantic_match env) semantic_rows)) (\<lambda>semantic.
         andthen (checked_or unavailable (reciprocal_rank_fusion lexical semantic
             (hybrid_policy.truncate policy)
           (rq_maximum_results rq))) (\<lambda>result.
         andthen (unless (\<exists>m \<in> set result. \<not> authorized rq m) unavailable) (\<lambda>_. give result))))))))))
     | Some _ \<Rightarrow> stop unavailable)))))"

definition hybrid_retrieve ::
  "retrieval_env \<Rightarrow> ('p, 'c, 'w) knowledge_driver \<Rightarrow> 'p pool_lookup \<Rightarrow> 'w embedder \<Rightarrow> hybrid_provider
     \<Rightarrow> retrieval_request \<Rightarrow> (retrieval_stop, 'w, knowledge_match list) proc" where
  "hybrid_retrieve env db pool_of embedder p rq =
     andthen (unless (rq_customer_environment_id rq \<noteq> hv_customer p) IdentityMismatch) (\<lambda>_.
     andthen (query_vector env embedder (hv_profile p) Inr ''hybrid_query'' HYBRID_MESSAGE
         HYBRID_MESSAGE (rq_query rq)) (\<lambda>v.
     andthen (found_pool pool_of (hv_customer p)) (\<lambda>pool.
       knowledge_transaction db HYBRID_MESSAGE pool (hybrid_body env db p rq (vx_values v)))))"

end
