(* ===== verification/ProductionRag.thy ===== *)
theory ProductionRag
  imports KnowledgeReads
begin

text \<open>
  Production retrieval (\<open>src/erp_ai/infrastructure/postgres/production_rag.py\<close>): the read contract and
  its digest, the routes, the verification of a database at startup and of the binding in every search,
  the router that owns the reader pools, and the bundle of a customer.
\<close>

section \<open>The read contract\<close>

definition KNOWLEDGE_READ_CONTRACT_VERSION :: pystr where "KNOWLEDGE_READ_CONTRACT_VERSION = lit
    ''1.0.0''"
definition APPROVED_PGVECTOR_VERSION :: pystr where "APPROVED_PGVECTOR_VERSION = lit ''0.8.6''"
definition SUPPORTED_POSTGRESQL_MAJORS :: "int list" where "SUPPORTED_POSTGRESQL_MAJORS = [15, 16, 17,
    18]"

definition MIGRATIONS :: "pystr list" where
  "MIGRATIONS = map lit [''0001_knowledge_schema.sql'', ''0002_knowledge_security.sql'',
     ''0003_knowledge_embeddings.sql'', ''0004_force_database_identity_rls.sql'']"

text \<open>The packaged migration files are a parameter beside the retrieval environment.\<close>

record rag_env = retrieval_env +
  rg_migration_bytes :: "pystr \<Rightarrow> nat list"

definition rg_sha256 :: "rag_env \<Rightarrow> nat list \<Rightarrow> pystr" where
  "rg_sha256 env = xe_sha256 (re_embedding env)"

definition migration_checksums :: "rag_env \<Rightarrow> (pystr \<times> pystr) list" where
  "migration_checksums env = map (\<lambda>n. (n, rg_sha256 env (rg_migration_bytes env n))) MIGRATIONS"

definition columns_for :: "string \<Rightarrow> (string \<times> string) list \<Rightarrow> (pystr \<times> pystr \<times> pystr) list" where
  "columns_for relation columns = map (\<lambda>(c, t). (lit relation, lit c, lit t)) columns"

definition KNOWLEDGE_READ_RELATION_SIGNATURE :: "(pystr \<times> pystr \<times> pystr) list" where
  "KNOWLEDGE_READ_RELATION_SIGNATURE =
     columns_for ''active_generations''
       [(''customer_environment_id'', ''text''), (''namespace'', ''text''),
        (''generation_id'', ''uuid''), (''generation_digest'', ''text''),
        (''publication_contract_version'', ''integer'')]
     @ columns_for ''chunk_embeddings''
       [(''customer_environment_id'', ''text''), (''namespace'', ''text''),
        (''generation_id'', ''uuid''), (''profile_sha256'', ''text''), (''chunk_id'', ''text''),
        (''content_sha256'', ''text''), (''vector_sha256'', ''text''),
        (''embedding'', ''public.vector'')]
     @ columns_for ''chunks''
       [(''customer_environment_id'', ''text''), (''generation_id'', ''uuid''),
        (''document_id'', ''uuid''), (''chunk_id'', ''text''), (''citation_id'', ''text''),
        (''document_version'', ''character varying(64)''), (''chunk_ordinal'', ''integer''),
        (''namespace'', ''text''), (''source_type'', ''text''),
        (''document_customer_environment_id'', ''text''), (''required_modules_all'', ''text[]''),
        (''required_permissions_all'', ''text[]''), (''allowed_purposes'', ''text[]''),
        (''legal_entity_ids'', ''text[]''), (''data_classification'', ''text''),
        (''language'', ''text''), (''title'', ''text''), (''section'', ''text''),
        (''effective_from'', ''timestamp with time zone''),
        (''effective_to'', ''timestamp with time zone''), (''content'', ''text''),
        (''content_sha256'', ''text''), (''search_vector'', ''tsvector'')]
     @ columns_for ''database_identity''
       [(''singleton'', ''boolean''), (''customer_environment_id'', ''text''),
        (''provisioned_at'', ''timestamp with time zone''),
        (''schema_contract_version'', ''integer'')]
     @ columns_for ''documents''
       [(''customer_environment_id'', ''text''), (''generation_id'', ''uuid''),
        (''document_id'', ''uuid''), (''document_version'', ''character varying(64)''),
        (''namespace'', ''text''), (''source_type'', ''text''),
        (''document_customer_environment_id'', ''text''),
        (''normalized_content_sha256'', ''text''), (''governance_sha256'', ''text''),
        (''document_fingerprint'', ''text''), (''source_provenance_sha256'', ''text'')]
     @ columns_for ''embedding_profiles''
       [(''customer_environment_id'', ''text''), (''profile_sha256'', ''text''),
        (''profile_id'', ''text''), (''contract_version'', ''integer''),
        (''provider_id'', ''text''), (''model_id'', ''text''), (''model_revision'', ''text''),
        (''dimensions'', ''integer''), (''distance_metric'', ''text''),
        (''storage_representation'', ''text''), (''input_normalization_version'', ''integer''),
        (''allowed_data_classifications'', ''text[]''),
        (''created_at'', ''timestamp with time zone'')]
     @ columns_for ''embedding_sets''
       [(''customer_environment_id'', ''text''), (''namespace'', ''text''),
        (''generation_id'', ''uuid''), (''generation_digest'', ''text''),
        (''profile_sha256'', ''text''), (''embedding_set_sha256'', ''text''),
        (''embedding_count'', ''integer''), (''status'', ''text''),
        (''created_at'', ''timestamp with time zone''),
        (''ready_at'', ''timestamp with time zone'')]
     @ columns_for ''generations''
       [(''customer_environment_id'', ''text''), (''namespace'', ''text''),
        (''generation_id'', ''uuid''), (''generation_digest'', ''text''),
        (''publication_contract_version'', ''integer''), (''document_count'', ''integer''),
        (''chunk_count'', ''integer''), (''total_normalized_bytes'', ''bigint''),
        (''status'', ''text''), (''created_at'', ''timestamp with time zone'')]
     @ columns_for ''schema_migrations''
       [(''migration_name'', ''text''), (''sha256'', ''text''),
        (''applied_at'', ''timestamp with time zone'')]"

definition KNOWLEDGE_READER_RELATIONS :: "pystr list" where
  "KNOWLEDGE_READER_RELATIONS = map lit [''active_generations'', ''chunk_embeddings'', ''chunks'',
     ''database_identity'', ''documents'', ''embedding_profiles'', ''embedding_sets'', ''generations'',
     ''schema_migrations'']"

definition tenant_relations :: "pystr list" where
  "tenant_relations = filter (\<lambda>n. n \<noteq> lit ''schema_migrations'') KNOWLEDGE_READER_RELATIONS"

definition TENANT_SCOPE_EXPRESSION :: pystr where
  "TENANT_SCOPE_EXPRESSION = lit ''(customer_environment_id = erp_ai_knowledge.runtime_customer_id())''"

text \<open>A row-security policy: its relation, name and check.\<close>

definition KNOWLEDGE_POLICIES :: "(pystr \<times> pystr \<times> pystr option) list" where
  "KNOWLEDGE_POLICIES =
     map (\<lambda>(r, n, checked). (lit r, lit n, if checked then Some TENANT_SCOPE_EXPRESSION else None))
       [(''active_generations'', ''tenant_active_generations'', True),
        (''chunk_embeddings'', ''tenant_chunk_embeddings'', True), (''chunks'', ''tenant_chunks'',
            True),
        (''database_identity'', ''tenant_identity'', False), (''documents'', ''tenant_documents'',
            True),
        (''embedding_profiles'', ''tenant_embedding_profiles'', True),
        (''embedding_sets'', ''tenant_embedding_sets'', True), (''generations'',
            ''tenant_generations'', True)]"

definition text_cell :: "pystr option \<Rightarrow> cell" where
  "text_cell t = (case t of None \<Rightarrow> CNull | Some s \<Rightarrow> CText s)"

definition policy_row :: "pystr \<times> pystr \<times> pystr option \<Rightarrow> row" where
  "policy_row p = (case p of (r, n, checked) \<Rightarrow>
     [CText r, CText n, CText (lit ''ALL''), CText (lit ''{public}''), CText TENANT_SCOPE_EXPRESSION,
         text_cell checked])"

section \<open>The digest of the contract\<close>

definition strings_json :: "pystr list \<Rightarrow> json" where
  "strings_json ss = JArr (map JStr ss)"

fun cell_json :: "cell \<Rightarrow> json" where
  "cell_json (CText s) = JStr s"
| "cell_json (CInt i) = JInt i"
| "cell_json (CBool b) = JBool b"
| "cell_json (CUuid u) = JStr (uuid_str u)"
| "cell_json CNull = JNull"

definition runtime_role_json :: json where
  "runtime_role_json = JObj ((lit ''login'', JBool True) # map (\<lambda>k. (lit k, JBool False))
     [''owner'', ''superuser'', ''bypass_rls'', ''create_role'', ''create_database'',
         ''database_create'',
      ''database_temporary'', ''schema_create'']
     @ [(lit ''write_privileges'', JArr []), (lit ''role_memberships'', JArr [])])"

definition security_json :: json where
  "security_json = JObj
     [(lit ''reader_relations'', strings_json KNOWLEDGE_READER_RELATIONS),
      (lit ''migration_metadata_columns'', strings_json [lit ''migration_name'', lit ''sha256'']),
      (lit ''rls_signature'', JArr (map (\<lambda>n. JArr [JStr n, JBool True, JBool True]) tenant_relations)),
      (lit ''policy_signature'', JArr (map (\<lambda>p. JArr (map cell_json (policy_row p)))
          KNOWLEDGE_POLICIES)),
      (lit ''required_indexes'', JArr [strings_json [lit ''chunks_search_vector_gin'', lit ''gin'']]),
      (lit ''forbidden_vector_indexes'', strings_json [lit ''hnsw'', lit ''ivfflat'']),
      (lit ''runtime_role'', runtime_role_json)]"

definition SEMANTIC_QUERY_PARAMETER_ORDER :: "pystr list" where
  "SEMANTIC_QUERY_PARAMETER_ORDER = map lit
     [''customer_environment_id'', ''namespace'', ''active_generation_id'',
         ''embedding_profile_sha256'',
      ''query_vector'', ''embedding_profile_sha256'', ''customer_environment_id'',
          ''active_generation_id'',
      ''namespace'', ''customer_environment_id'', ''enabled_modules'', ''permission_codes'',
          ''purpose'',
      ''authorized_legal_entity_ids'', ''effective_at'', ''effective_at'',
          ''allowed_data_classifications'',
      ''minimum_relevance_score'', ''maximum_results'']"

definition retrieval_json :: json where
  "retrieval_json = JObj
     [(lit ''algorithm'', JStr (lit ''exact_pgvector_cosine_v1'')),
      (lit ''distance_operator'', JStr (lit ''OPERATOR(public.<=>)'')),
      (lit ''distance_range'', JArr [JInt 0, JInt 2]), (lit ''score_formula'', JStr (lit
          ''1-distance/2'')),
      (lit ''score_range'', JArr [JInt 0, JInt 1]),
      (lit ''order'', strings_json [lit ''cosine_distance_asc'', lit ''chunk_id_asc'']),
      (lit ''namespace'', JStr SEMANTIC_NAMESPACE), (lit ''maximum_results'', JInt (int
          SEMANTIC_MAXIMUM_RESULTS)),
      (lit ''ann'', JBool False), (lit ''parameter_order'', strings_json
          SEMANTIC_QUERY_PARAMETER_ORDER)]"

definition contract_descriptor :: "rag_env \<Rightarrow> json" where
  "contract_descriptor env = JObj
     [(lit ''contract_version'', JStr KNOWLEDGE_READ_CONTRACT_VERSION),
      (lit ''database_kind'', JStr (lit ''customer_knowledge'')),
      (lit ''identity_relation'', JStr (lit ''erp_ai_knowledge.database_identity'')),
      (lit ''customer_identity_column'', JStr (lit ''customer_environment_id'')),
      (lit ''migrations'', JArr (map (\<lambda>(n, d). JObj [(lit ''name'', JStr n), (lit ''sha256'', JStr d)])
        (migration_checksums env))),
      (lit ''relation_signature'', JArr (map (\<lambda>(r, c, t). strings_json [r, c, t])
          KNOWLEDGE_READ_RELATION_SIGNATURE)),
      (lit ''security'', security_json),
      (lit ''compatibility'', JObj [(lit ''postgresql_majors'', JArr (map JInt
          SUPPORTED_POSTGRESQL_MAJORS)),
        (lit ''pgvector_version'', JStr APPROVED_PGVECTOR_VERSION), (lit ''extension_schema'', JStr
            (lit ''public'')),
        (lit ''vector_type'', JStr (lit ''public.vector''))]),
      (lit ''publication_binding'', strings_json (map lit [''generation_id'', ''generation_digest'',
        ''publication_contract_version'', ''active_status'', ''ready_embedding_set''])),
      (lit ''embedding_binding'', strings_json (map lit [''profile_sha256'', ''provider_id'',
          ''model_id'',
        ''model_revision'', ''dimensions'', ''cosine'', ''float32''])),
      (lit ''retrieval'', retrieval_json)]"

text \<open>The descriptor holds no number with a fraction; its keys keep their order.\<close>

definition knowledge_contract_digest :: "rag_env \<Rightarrow> pystr" where
  "knowledge_contract_digest env = rg_sha256 env (utf8_encode (json_text (\<lambda>_. []) (contract_descriptor
      env)))"

section \<open>Routes\<close>

record knowledge_route =
  kr_customer :: pystr
  kr_database_name :: pystr
  kr_database_identity :: pystr
  kr_runtime_dsn :: pystr
  kr_runtime_role :: pystr
  kr_extension_owner :: pystr
  kr_contract_version :: pystr
  kr_contract_digest :: pystr
  kr_model_id :: pystr
  kr_model_version :: pystr
  kr_provider_id :: pystr
  kr_profile_sha256 :: pystr
  kr_dimensions :: int
  kr_generation_id :: uuid
  kr_generation_digest :: pystr
  kr_minimum_pool_size :: int
  kr_maximum_pool_size :: int
  kr_connection_timeout :: rat
  kr_statement_timeout_ms :: int
  kr_lock_timeout_ms :: int
  kr_idle_transaction_timeout_ms :: int

text \<open>The version has to be the one of this contract, which settles its pattern.\<close>

definition validate_knowledge_route :: "rag_env \<Rightarrow> knowledge_route \<Rightarrow> knowledge_route checked" where
  "validate_knowledge_route env r =
     bindE (validate_identifier (kr_customer r)) (\<lambda>customer.
     bindE (validate_identifier (kr_database_name r)) (\<lambda>database.
     bindE (validate_identifier (kr_database_identity r)) (\<lambda>identity.
     bindE (validate_identifier (kr_runtime_role r)) (\<lambda>role.
     bindE (validate_identifier (kr_extension_owner r)) (\<lambda>owner.
     bindE (validate_identifier (kr_model_id r)) (\<lambda>model.
     bindE (validate_identifier (kr_model_version r)) (\<lambda>version.
     bindE (validate_identifier (kr_provider_id r)) (\<lambda>provider.
     raise_if (\<not> list_all is_digest [kr_contract_digest r, kr_profile_sha256 r, kr_generation_digest r])
       ''string_pattern_mismatch''
     (raise_if (\<not> (1 \<le> kr_dimensions r \<and> kr_dimensions r \<le> 4096
         \<and> 0 \<le> kr_minimum_pool_size r \<and> kr_minimum_pool_size r \<le> 20
         \<and> 1 \<le> kr_maximum_pool_size r \<and> kr_maximum_pool_size r \<le> 50
         \<and> 0 < kr_connection_timeout r \<and> kr_connection_timeout r \<le> 60
         \<and> 100 \<le> kr_statement_timeout_ms r \<and> kr_statement_timeout_ms r \<le> 60000
         \<and> 100 \<le> kr_lock_timeout_ms r \<and> kr_lock_timeout_ms r \<le> 60000
         \<and> 100 \<le> kr_idle_transaction_timeout_ms r \<and> kr_idle_transaction_timeout_ms r \<le> 120000))
             ''range''
     (raise_if (kr_minimum_pool_size r > kr_maximum_pool_size r)
         ''minimum pool size cannot exceed maximum pool size''
     (raise_if (kr_contract_version r \<noteq> KNOWLEDGE_READ_CONTRACT_VERSION
         \<or> kr_contract_digest r \<noteq> knowledge_contract_digest env) ''unsupported knowledge read contract''
       (Inr (r\<lparr>kr_customer := customer, kr_database_name := database, kr_database_identity := identity,
          kr_runtime_role := role, kr_extension_owner := owner, kr_model_id := model, kr_model_version
              := version,
          kr_provider_id := provider\<rparr>)))))))))))))"

definition validate_knowledge_config :: "rag_env \<Rightarrow> knowledge_route list \<Rightarrow> knowledge_route list checked"
    where
  "validate_knowledge_config env routes =
     bindE (map_checked (validate_knowledge_route env) routes) (\<lambda>rs.
     raise_if (rs = []) ''too_short''
     (raise_if (\<not> distinct (map kr_customer rs)) ''duplicate customer knowledge routes are forbidden''
     (raise_if (\<not> distinct (map kr_database_identity rs))
         ''duplicate knowledge database identities are forbidden''
     (raise_if (\<not> distinct (map kr_database_name rs))
         ''duplicate customer knowledge databases are forbidden''
       (Inr rs)))))"

section \<open>The contract of a database\<close>

definition VERIFICATION_FAILED :: string where "VERIFICATION_FAILED =
    ''knowledge database verification failed''"
definition CONTRACT_MISMATCH :: string where "CONTRACT_MISMATCH =
    ''knowledge database contract mismatch''"
definition ROLE_UNSAFE :: string where "ROLE_UNSAFE = ''knowledge database role is unsafe''"
definition BINDING_MISMATCH :: string where "BINDING_MISMATCH = ''knowledge database binding mismatch''"

text \<open>The first row of a statement, or all its rows, have to equal the expected ones.\<close>

definition expect_one ::
  "('p, 'c, 'w) knowledge_driver \<Rightarrow> string \<Rightarrow> 'c \<Rightarrow> string \<Rightarrow> catalog_query \<Rightarrow> row \<Rightarrow> (retrieval_stop, 'w,
      unit) proc" where
  "expect_one db message c refusal q expected =
     andthen (fetch_one db message c q) (\<lambda>r.
       unless (case r of None \<Rightarrow> True | Some r \<Rightarrow> \<not> row_equal r expected) (StorageUnavailable refusal))"

definition expect_all ::
  "('p, 'c, 'w) knowledge_driver \<Rightarrow> string \<Rightarrow> 'c \<Rightarrow> string \<Rightarrow> catalog_query \<Rightarrow> row list \<Rightarrow> (retrieval_stop,
      'w, unit) proc" where
  "expect_all db message c refusal q expected =
     andthen (fetch_all db message c q) (\<lambda>rows. unless (\<not> rows_equal rows expected) (StorageUnavailable
         refusal))"

definition checksum_rows :: "rag_env \<Rightarrow> row list" where
  "checksum_rows env = map (\<lambda>(n, d). [CText n, CText d]) (migration_checksums env)"

definition signature_rows :: "row list" where
  "signature_rows = map (\<lambda>(r, c, t). [CText r, CText c, CText t]) KNOWLEDGE_READ_RELATION_SIGNATURE"

definition rls_rows :: "row list" where
  "rls_rows = map (\<lambda>n. [CText n, CBool True, CBool True]) tenant_relations"

definition function_rows :: "knowledge_route \<Rightarrow> row list" where
  "function_rows route = map (\<lambda>(f, execute). [CText (lit f), CText (kr_extension_owner route), CBool
      False, CBool execute])
     [(''reject_embedding_mutation'', False), (''reject_immutable_generation_content'', False),
      (''reject_ready_embedding_set_mutation'', False), (''runtime_customer_id'', True),
      (''validate_chunk_embedding'', False)]"

text \<open>\<open>sorted({item[0] for item in KNOWLEDGE_READ_RELATION_SIGNATURE})\<close>\<close>

definition signature_relations :: "pystr list" where
  "signature_relations = sort (remdups (map fst KNOWLEDGE_READ_RELATION_SIGNATURE))"

definition identity_row :: "knowledge_route \<Rightarrow> int \<Rightarrow> row" where
  "identity_row route version =
     [CText (kr_database_name route), CText (kr_runtime_role route), CText (kr_runtime_role route),
         CInt version,
      CText (kr_database_identity route), CInt 1, CBool False, CBool False, CBool False, CBool False,
          CBool True]"

definition check_contract_identity ::
  "('p, 'c, 'w) knowledge_driver \<Rightarrow> knowledge_route \<Rightarrow> 'c \<Rightarrow> (retrieval_stop, 'w, unit) proc" where
  "check_contract_identity db route c =
     andthen (fetch_one db VERIFICATION_FAILED c ContractIdentity) (\<lambda>identity.
     case identity of
       None \<Rightarrow> stop (StorageUnavailable CONTRACT_MISMATCH)
     | Some r \<Rightarrow>
         (case map cell_value (drop 3 r) of
            CInt version # _ \<Rightarrow>
              unless (\<not> row_equal r (identity_row route version)
                  \<or> version div 10000 \<notin> set SUPPORTED_POSTGRESQL_MAJORS) (StorageUnavailable
                      CONTRACT_MISMATCH)
          | _ \<Rightarrow> stop (StorageUnavailable VERIFICATION_FAILED)))"

definition verify_content ::
  "rag_env \<Rightarrow> ('p, 'c, 'w) knowledge_driver \<Rightarrow> knowledge_route \<Rightarrow> 'c \<Rightarrow> (retrieval_stop, 'w, unit) proc"
      where
  "verify_content env db route c =
     (let one = expect_one db VERIFICATION_FAILED c CONTRACT_MISMATCH;
          all = expect_all db VERIFICATION_FAILED c CONTRACT_MISMATCH in
     andthen (check_contract_identity db route c) (\<lambda>_.
     andthen (one VectorExtension
       [CText APPROVED_PGVECTOR_VERSION, CText (lit ''public''), CText (kr_extension_owner route)]) (\<lambda>_.
     andthen (one VectorObjects [CInt 1, CInt 1]) (\<lambda>_.
     andthen (all AppliedMigrations (checksum_rows env)) (\<lambda>_.
     andthen (all (RelationColumns signature_relations) signature_rows) (\<lambda>_.
     andthen (one (RegisteredProfile (kr_customer route) (kr_model_id route) (kr_model_version route))
       [CText (kr_model_id route), CText (kr_model_version route), CInt (kr_dimensions route)]) (\<lambda>_.
       one (ActivePublication (kr_customer route) SEMANTIC_NAMESPACE (kr_profile_sha256 route))
         [CUuid (kr_generation_id route), CText (kr_generation_digest route), CInt 1, CText (lit
             ''active''),
          CText (lit ''ready''), CText (kr_profile_sha256 route)])))))))"

definition verify_role ::
  "('p, 'c, 'w) knowledge_driver \<Rightarrow> knowledge_route \<Rightarrow> 'c \<Rightarrow> (retrieval_stop, 'w, unit) proc" where
  "verify_role db route c =
     (let one = expect_one db VERIFICATION_FAILED c ROLE_UNSAFE;
          all = expect_all db VERIFICATION_FAILED c ROLE_UNSAFE in
     andthen (one CreationPrivileges [CBool False, CBool False]) (\<lambda>_.
     andthen (one RoleContract [CInt 0, CBool False, CInt 0, CInt 0, CInt (int (length
         KNOWLEDGE_READER_RELATIONS) - 1)]) (\<lambda>_.
     andthen (fetch_all db VERIFICATION_FAILED c SelectedRelations) (\<lambda>selected.
     andthen (unless ([] \<in> set selected) (StorageUnavailable VERIFICATION_FAILED)) (\<lambda>_.
     andthen (unless (\<not> row_equal (map hd selected) (map CText tenant_relations)) (StorageUnavailable
         ROLE_UNSAFE)) (\<lambda>_.
     andthen (one MigrationAccess [CBool True, CBool True, CBool False, CBool False]) (\<lambda>_.
     andthen (all (RelationOwners KNOWLEDGE_READER_RELATIONS) [[CText (kr_extension_owner route)]]) (\<lambda>_.
       one SequenceWrites [CInt 0]))))))))"

definition verify_isolation ::
  "('p, 'c, 'w) knowledge_driver \<Rightarrow> knowledge_route \<Rightarrow> 'c \<Rightarrow> (retrieval_stop, 'w, unit) proc" where
  "verify_isolation db route c =
     (let all = expect_all db VERIFICATION_FAILED c in
     andthen (all CONTRACT_MISMATCH (RowSecurity tenant_relations) rls_rows) (\<lambda>_.
     andthen (all CONTRACT_MISMATCH (RelationPolicies (map fst KNOWLEDGE_POLICIES)) (map policy_row
         KNOWLEDGE_POLICIES)) (\<lambda>_.
     andthen (expect_one db VERIFICATION_FAILED c CONTRACT_MISMATCH IndexContract [CInt 1, CInt 0]) (\<lambda>_.
     andthen (all ROLE_UNSAFE SchemaFunctions (function_rows route)) (\<lambda>_.
       expect_one db VERIFICATION_FAILED c ROLE_UNSAFE DefaultPrivileges [CInt 0])))))"

text \<open>\<open>PostgresKnowledgeContractVerifier.verify\<close>\<close>

definition verify_knowledge_contract ::
  "rag_env \<Rightarrow> ('p, 'c, 'w) knowledge_driver \<Rightarrow> 'p \<Rightarrow> knowledge_route \<Rightarrow> (retrieval_stop, 'w, unit) proc"
      where
  "verify_knowledge_contract env db pool route =
     knowledge_transaction db VERIFICATION_FAILED pool (\<lambda>c.
       andthen (apply_settings db VERIFICATION_FAILED c
         [RepeatableReadOnly, LocalSetting ''erp_ai.customer_environment_id'' (kr_customer route)]) (\<lambda>_.
       andthen (verify_content env db route c) (\<lambda>_.
       andthen (verify_role db route c) (\<lambda>_. verify_isolation db route c))))"

section \<open>The binding of a retrieval\<close>

definition binding_row :: "knowledge_route \<Rightarrow> row" where
  "binding_row route =
     [CText (kr_database_name route), CText (kr_runtime_role route), CText (kr_runtime_role route),
      CText (lit ''pg_catalog''), CText (kr_customer route), CText (kr_database_identity route), CInt
          1]"

definition publication_row :: "knowledge_route \<Rightarrow> row" where
  "publication_row route =
     [CUuid (kr_generation_id route), CText (kr_generation_digest route), CInt 1, CText (lit
         ''active''),
      CText (lit ''ready''), CText (kr_profile_sha256 route), CText (kr_provider_id route), CText
          (kr_model_id route),
      CText (kr_model_version route), CInt (kr_dimensions route)]"

text \<open>The two counts at the end of the row: as many embeddings as chunks, and at least one. The
    statement
  has twelve columns; a count that is no number cannot be compared, which is a mismatch as well.\<close>

definition counts_match :: "row \<Rightarrow> bool" where
  "counts_match r = (case map cell_value (drop 10 r) of CInt a # b # _ \<Rightarrow> 0 < a \<and> b = CInt a | _
      \<Rightarrow> False)"

definition bound_request ::
  "rag_env \<Rightarrow> knowledge_route \<Rightarrow> retrieval_request \<Rightarrow> embedding_profile \<Rightarrow> bool checked" where
  "bound_request env route rq profile =
     bindE (profile_sha256 (re_embedding env) profile) (\<lambda>pd.
       Inr (rq_customer_environment_id rq = kr_customer route \<and> rq_namespace rq = SEMANTIC_NAMESPACE
         \<and> rq_maximum_results rq \<le> SEMANTIC_MAXIMUM_RESULTS \<and> pd = kr_profile_sha256 route
         \<and> ef_provider_id profile = kr_provider_id route \<and> ef_model_id profile = kr_model_id route
         \<and> ef_model_revision profile = kr_model_version route \<and> ef_dimensions profile = kr_dimensions
             route))"

text \<open>\<open>BoundKnowledgeTransactionVerifier.verify\<close>\<close>

definition bound_verifier ::
  "rag_env \<Rightarrow> ('p, 'c, 'w) knowledge_driver \<Rightarrow> knowledge_route \<Rightarrow> ('c, 'w) transaction_verifier" where
  "bound_verifier env db route c rq profile =
     andthen (expect_one db BINDING_MISMATCH c BINDING_MISMATCH BoundIdentity (binding_row route)) (\<lambda>_.
     andthen (checked_or (StorageUnavailable BINDING_MISMATCH) (bound_request env route rq profile))
         (\<lambda>bound.
     andthen (unless (\<not> bound) (StorageUnavailable BINDING_MISMATCH)) (\<lambda>_.
     andthen (expect_all db BINDING_MISMATCH c BINDING_MISMATCH AppliedMigrations (checksum_rows env))
         (\<lambda>_.
     andthen (fetch_one db BINDING_MISMATCH c
       (BoundPublication (kr_customer route) SEMANTIC_NAMESPACE (kr_profile_sha256 route)))
           (\<lambda>publication.
       unless (case publication of
           None \<Rightarrow> True
         | Some r \<Rightarrow> \<not> row_equal (take 10 r) (publication_row route) \<or> \<not> counts_match r)
         (StorageUnavailable BINDING_MISMATCH))))))"

section \<open>The production router\<close>

datatype router_phase =
  RouterCreated | RouterOpening | RouterReady | RouterFailed | RouterClosing | RouterClosed

record 'p production_router =
  pt_pools :: "(pystr \<times> 'p) list"
  pt_phase :: router_phase

definition new_production_router :: "'p production_router" where
  "new_production_router = \<lparr>pt_pools = [], pt_phase = RouterCreated\<rparr>"

text \<open>The verifier a router is made with; its exceptions are \<open>Failed\<close>, or a cancellation.\<close>

type_synonym ('p, 'w) pool_verifier = "'p \<Rightarrow> knowledge_route \<Rightarrow> 'w \<Rightarrow> unit outcome \<times> 'w"

definition contract_verifier ::
  "rag_env \<Rightarrow> ('p, 'c, 'w) knowledge_driver \<Rightarrow> ('p, 'w) pool_verifier" where
  "contract_verifier env db pool route w =
     (case verify_knowledge_contract env db pool route w of
        (Inl e, w1) \<Rightarrow> (Inl (if e = RetrievalCancelled then Cancelled else Failed), w1)
      | (Inr u, w1) \<Rightarrow> (Inr u, w1))"

definition enter_pool :: "pystr \<Rightarrow> 'p \<Rightarrow> (pystr \<times> 'p) list \<Rightarrow> (pystr \<times> 'p) list" where
  "enter_pool k p ps =
     (if k \<in> fst ` set ps then map (\<lambda>q. if fst q = k then (k, p) else q) ps else ps @ [(k, p)])"

text \<open>The loop over the routes: how it ended, and the pools created so far.\<close>

fun open_knowledge_routes ::
  "('p, 'w) knowledge_pools \<Rightarrow> ('p, 'w) pool_verifier \<Rightarrow> knowledge_route list \<Rightarrow> (pystr \<times> 'p) list \<Rightarrow> 'w
     \<Rightarrow> (unit outcome \<times> (pystr \<times> 'p) list) \<times> 'w" where
  "open_knowledge_routes po verify [] pools w = ((Inr (), pools), w)"
| "open_knowledge_routes po verify (r # rs) pools w =
     (case kp_create po (kr_runtime_dsn r, kr_minimum_pool_size r, kr_maximum_pool_size r, Some
         (kr_connection_timeout r)) w of
        (p, w1) \<Rightarrow>
          let pools1 = enter_pool (kr_customer r) p pools in
          (case andthen (attempt id (kp_open po p)) (\<lambda>_. attempt id (verify p r)) w1 of
             (Inl x, w2) \<Rightarrow> ((Inl x, pools1), w2)
           | (Inr _, w2) \<Rightarrow> open_knowledge_routes po verify rs pools1 w2))"

text \<open>An operation of the router ends normally, is cancelled, raises
    \<open>KnowledgeStorageUnavailable\<close>, or raises the
  exception of a pool that fails to close.\<close>

datatype router_stop = RouterCancelled | RouterUnavailable string | RouterRaised

definition closing_error :: "exn \<Rightarrow> router_stop" where
  "closing_error x = (if x = Cancelled then RouterCancelled else RouterRaised)"

definition close_reversed :: "('p, 'w) knowledge_pools \<Rightarrow> (pystr \<times> 'p) list \<Rightarrow> 'w \<Rightarrow> unit outcome \<times> 'w"
    where
  "close_reversed po pools = each_pool (kp_close po) (rev (map snd pools))"

definition production_open ::
  "('p, 'w) knowledge_pools \<Rightarrow> ('p, 'w) pool_verifier \<Rightarrow> knowledge_route list \<Rightarrow> 'p production_router \<Rightarrow> 'w
     \<Rightarrow> ((router_stop + unit) \<times> 'p production_router) \<times> 'w" where
  "production_open po verify routes rt w =
     (if pt_phase rt = RouterReady then ((Inr (), rt), w)
      else if pt_phase rt \<noteq> RouterCreated then ((Inl (RouterUnavailable
          ''knowledge database startup is unavailable''), rt), w)
      else case open_knowledge_routes po verify routes [] w of
        ((Inr _, pools), w1) \<Rightarrow> ((Inr (), rt\<lparr>pt_pools := pools, pt_phase := RouterReady\<rparr>), w1)
      | ((Inl x, pools), w1) \<Rightarrow>
          (case close_reversed po pools w1 of
             (Inl y, w2) \<Rightarrow> ((Inl (closing_error y), rt\<lparr>pt_phase := RouterOpening\<rparr>), w2)
           | (Inr _, w2) \<Rightarrow>
               ((Inl (if x = Cancelled then RouterCancelled else RouterUnavailable
                   ''knowledge database startup failed''),
                 rt\<lparr>pt_phase := RouterFailed\<rparr>), w2)))"

definition production_close ::
  "('p, 'w) knowledge_pools \<Rightarrow> 'p production_router \<Rightarrow> 'w \<Rightarrow> ((router_stop + unit) \<times> 'p production_router)
      \<times> 'w" where
  "production_close po rt w =
     (if pt_phase rt = RouterClosed then ((Inr (), rt), w)
      else case close_reversed po (pt_pools rt) w of
        (Inl x, w1) \<Rightarrow> ((Inl (closing_error x), rt\<lparr>pt_pools := [], pt_phase := RouterClosed\<rparr>), w1)
      | (Inr _, w1) \<Rightarrow> ((Inr (), rt\<lparr>pt_pools := [], pt_phase := RouterClosed\<rparr>), w1))"

definition production_pool :: "'p production_router \<Rightarrow> 'p pool_lookup" where
  "production_pool rt customer access =
     raise_if (access \<noteq> READER) ''knowledge database authority is unavailable''
     (raise_if (pt_phase rt \<noteq> RouterReady) ''knowledge database router is unavailable''
     (case map_of (pt_pools rt) customer of
        None \<Rightarrow> Inl ''knowledge database route is unavailable'' | Some p \<Rightarrow> Inr p))"

section \<open>Composition\<close>

record 'p rag_bundle =
  bn_provider :: semantic_provider
  bn_route :: knowledge_route
  bn_router :: "'p production_router"

definition route_timeouts :: "knowledge_route \<Rightarrow> int \<times> int \<times> int" where
  "route_timeouts r = (kr_statement_timeout_ms r, kr_lock_timeout_ms r, kr_idle_transaction_timeout_ms
      r)"

definition build_production_rag_bundle ::
  "rag_env \<Rightarrow> knowledge_route list \<Rightarrow> pystr \<Rightarrow> embedding_profile \<Rightarrow> semantic_policy \<Rightarrow> 'p rag_bundle
      checked" where
  "build_production_rag_bundle env routes customer profile policy =
     (case find (\<lambda>r. kr_customer r = customer) routes of
        None \<Rightarrow> Inl ''knowledge database route is unavailable''
      | Some route \<Rightarrow>
          bindE (profile_sha256 (re_embedding env) profile) (\<lambda>pd.
          raise_if (kr_profile_sha256 route \<noteq> pd \<or> kr_provider_id route \<noteq> ef_provider_id profile
              \<or> kr_model_id route \<noteq> ef_model_id profile \<or> kr_model_version route \<noteq> ef_model_revision
                  profile
              \<or> kr_dimensions route \<noteq> ef_dimensions profile)
            ''embedding profile does not match the customer knowledge route''
          (bindE (validate_knowledge_config env routes) (\<lambda>_.
           bindE (validate_knowledge_route env route) (\<lambda>route'.
           bindE (make_semantic_provider (retrieval_env.truncate env) customer profile policy (Some
               (route_timeouts route))) (\<lambda>p.
             Inr \<lparr>bn_provider = p, bn_route = route', bn_router = new_production_router\<rparr>))))))"

text \<open>A bundle answers requests with its provider, its router and the verifier bound to its route.\<close>

definition bundle_retrieve ::
  "rag_env \<Rightarrow> ('p, 'c, 'w) knowledge_driver \<Rightarrow> 'w embedder \<Rightarrow> 'p rag_bundle \<Rightarrow> retrieval_request
     \<Rightarrow> (retrieval_stop, 'w, knowledge_match list) proc" where
  "bundle_retrieve env db embedder b =
     semantic_retrieve (retrieval_env.truncate env) db (production_pool (bn_router b)) embedder
       (Some (bound_verifier env db (bn_route b))) (bn_provider b)"

text \<open>The providers of a deployment by customer (\<open>CustomerKnowledgeProvider\<close>).\<close>

definition customer_retrieve ::
  "(pystr \<rightharpoonup> (retrieval_request, 'w, knowledge_match list outcome) op)
     \<Rightarrow> (retrieval_request, 'w, knowledge_match list outcome) op" where
  "customer_retrieve providers rq w =
     (case providers (rq_customer_environment_id rq) of None \<Rightarrow> (Inl Failed, w) | Some retrieve
         \<Rightarrow> retrieve rq w)"

end
