(* ===== verification/ContractProperties.thy ===== *)
theory ContractProperties
  imports ProductionRag
begin

text \<open>
  What the verification of a database accepts: over a driver that reads one snapshot, exactly the
  databases that meet the contract.
\<close>

section \<open>Exactness of the contract verification\<close>

text \<open>A snapshot: the answer of every catalog statement on a connection, whatever the world.\<close>

definition snapshot :: "('p, 'c, 'w) knowledge_driver \<Rightarrow> 'c \<Rightarrow> (catalog_query \<Rightarrow> row list) \<Rightarrow> bool" where
  "snapshot db c answer \<longleftrightarrow> (\<forall>q w. kd_fetch db (c, q) w = (Inr (answer q), w)) \<and> (\<forall>s w. kd_set db (c, s)
      w = (Inr (), w))"

definition one_is :: "(catalog_query \<Rightarrow> row list) \<Rightarrow> catalog_query \<Rightarrow> row \<Rightarrow> bool" where
  "one_is answer q r \<longleftrightarrow> (case answer q of [] \<Rightarrow> False | s # _ \<Rightarrow> row_equal s r)"

definition all_are :: "(catalog_query \<Rightarrow> row list) \<Rightarrow> catalog_query \<Rightarrow> row list \<Rightarrow> bool" where
  "all_are answer q rs \<longleftrightarrow> rows_equal (answer q) rs"

lemma fetch_all_snapshot [simp]: "snapshot db c answer \<Longrightarrow> fetch_all db m c q = give (answer q)"
  by (simp add: snapshot_def fetch_all_def asked_def attempt_def give_def fun_eq_iff)

lemma fetch_one_snapshot [simp]:
  "snapshot db c answer \<Longrightarrow> fetch_one db m c q = give (case answer q of [] \<Rightarrow> None | r # _ \<Rightarrow> Some r)"
  by (simp only: fetch_one_def fetch_all_snapshot proc_simps(3-8))

lemma apply_settings_snapshot [simp]: "snapshot db c answer \<Longrightarrow> apply_settings db m c ss = give ()"
  by (induction ss) (auto simp: snapshot_def asked_def attempt_def give_def andthen_def fun_eq_iff)

lemma expect_one_snapshot [simp]:
  "snapshot db c answer \<Longrightarrow> expect_one db m c e q r = unless (\<not> one_is answer q r) (StorageUnavailable e)"
  by (cases "answer q") (simp_all add: expect_one_def one_is_def stop_def fun_eq_iff)

lemma expect_all_snapshot [simp]:
  "snapshot db c answer \<Longrightarrow> expect_all db m c e q rs = unless (\<not> all_are answer q rs) (StorageUnavailable
      e)"
  by (simp add: expect_all_def all_are_def)

text \<open>A procedure that only decides whether to go on.\<close>

definition decides :: "('e, 'w, unit) proc \<Rightarrow> bool \<Rightarrow> bool" where
  "decides m b \<longleftrightarrow> (if b then m = give () else \<exists>e. m = stop e)"

lemma decides_andthen: "decides m a \<Longrightarrow> decides n b \<Longrightarrow> decides (andthen m (\<lambda>_. n)) (a \<and> b)"
  by (auto simp: decides_def split: if_splits)

lemma decides_unless: "decides (unless (\<not> b) e) b"
  by (auto simp: decides_def)

lemma decides_one: "snapshot db c answer \<Longrightarrow> decides (expect_one db m c e q r) (one_is answer q r)"
  by (simp only: expect_one_snapshot decides_unless)

lemma decides_all: "snapshot db c answer \<Longrightarrow> decides (expect_all db m c e q rs) (all_are answer q rs)"
  by (simp only: expect_all_snapshot decides_unless)

lemmas decides_intros = decides_andthen decides_one decides_all decides_unless

lemma decides_identity:
  assumes "snapshot db c answer"
  shows "decides (check_contract_identity db route c) (\<exists>version. one_is answer ContractIdentity
      (identity_row route version)
          \<and> version div 10000 \<in> set SUPPORTED_POSTGRESQL_MAJORS)"
proof (cases "answer ContractIdentity")
  case Nil
  then show ?thesis using assms by (auto simp: check_contract_identity_def one_is_def decides_def
      stop_def)
next
  case (Cons r rs)
  have version: "map cell_value (drop 3 r) = CInt version # map cell_value (drop 4 (identity_row route
      version))"
    if "row_equal r (identity_row route version)" for version
  proof -
    have "drop 3 (map cell_value r) = drop 3 (map cell_value (identity_row route version))"
      using that by (simp add: row_equal_def)
    then show ?thesis unfolding drop_map by (simp add: identity_row_def)
  qed
  have "(\<exists>version. one_is answer ContractIdentity (identity_row route version) \<and> P version)
    \<longleftrightarrow> (case map cell_value (drop 3 r) of CInt v # _ \<Rightarrow> row_equal r (identity_row route v) \<and> P v | _
        \<Rightarrow> False)" for P
    using version by (auto simp: one_is_def Cons split: list.splits cell.splits)
  then show ?thesis using assms Cons
    by (auto simp: check_contract_identity_def decides_def stop_def unless_def split: list.splits
        cell.splits)
qed

text \<open>What a snapshot that keeps the contract of a route answers.\<close>

definition content_met :: "rag_env \<Rightarrow> knowledge_route \<Rightarrow> (catalog_query \<Rightarrow> row list) \<Rightarrow> bool" where
  "content_met env route answer \<longleftrightarrow>
     (\<exists>version. one_is answer ContractIdentity (identity_row route version) \<and> version div 10000 \<in> {15,
         16, 17, 18})
     \<and> one_is answer VectorExtension [CText (lit ''0.8.6''), CText (lit ''public''), CText
         (kr_extension_owner route)]
     \<and> one_is answer VectorObjects [CInt 1, CInt 1]
     \<and> all_are answer AppliedMigrations (checksum_rows env)
     \<and> all_are answer (RelationColumns signature_relations) signature_rows
     \<and> one_is answer (RegisteredProfile (kr_customer route) (kr_model_id route) (kr_model_version
         route))
         [CText (kr_model_id route), CText (kr_model_version route), CInt (kr_dimensions route)]
     \<and> one_is answer (ActivePublication (kr_customer route) (lit ''hr'') (kr_profile_sha256 route))
         (take 6 (publication_row route))"

definition role_met :: "knowledge_route \<Rightarrow> (catalog_query \<Rightarrow> row list) \<Rightarrow> bool" where
  "role_met route answer \<longleftrightarrow>
     one_is answer CreationPrivileges [CBool False, CBool False]
     \<and> one_is answer RoleContract [CInt 0, CBool False, CInt 0, CInt 0, CInt 8]
     \<and> [] \<notin> set (answer SelectedRelations)
     \<and> row_equal (map hd (answer SelectedRelations)) (map CText tenant_relations)
     \<and> one_is answer MigrationAccess [CBool True, CBool True, CBool False, CBool False]
     \<and> all_are answer (RelationOwners KNOWLEDGE_READER_RELATIONS) [[CText (kr_extension_owner route)]]
     \<and> one_is answer SequenceWrites [CInt 0]"

definition isolation_met :: "knowledge_route \<Rightarrow> (catalog_query \<Rightarrow> row list) \<Rightarrow> bool" where
  "isolation_met route answer \<longleftrightarrow>
     all_are answer (RowSecurity tenant_relations) (map (\<lambda>n. [CText n, CBool True, CBool True])
         tenant_relations)
     \<and> all_are answer (RelationPolicies tenant_relations) (map policy_row KNOWLEDGE_POLICIES)
     \<and> one_is answer IndexContract [CInt 1, CInt 0]
     \<and> all_are answer SchemaFunctions (function_rows route)
     \<and> one_is answer DefaultPrivileges [CInt 0]"

lemma decides_content:
  assumes s: "snapshot db c answer"
  shows "decides (verify_content env db route c) (content_met env route answer)"
proof -
  have p: "take 6 (publication_row route) = [CUuid (kr_generation_id route), CText
      (kr_generation_digest route), CInt 1,
      CText (lit ''active''), CText (lit ''ready''), CText (kr_profile_sha256 route)]"
    by (simp add: publication_row_def)
  show ?thesis
    unfolding verify_content_def content_met_def Let_def p
      APPROVED_PGVECTOR_VERSION_def[symmetric] SEMANTIC_NAMESPACE_def[symmetric]
    by (intro decides_intros decides_identity[OF s, unfolded SUPPORTED_POSTGRESQL_MAJORS_def list.set]
        s)
qed

lemma decides_selected:
  assumes "snapshot db c answer" and "decides n b"
  shows "decides (andthen (fetch_all db m c SelectedRelations) (\<lambda>selected.
       andthen (unless ([] \<in> set selected) e) (\<lambda>_.
       andthen (unless (\<not> P selected) e') (\<lambda>_. n))))
     ([] \<notin> set (answer SelectedRelations) \<and> P (answer SelectedRelations) \<and> b)"
  using decides_andthen[OF decides_unless[of "[] \<notin> set (answer SelectedRelations)" e]
      decides_andthen[OF decides_unless[of "P (answer SelectedRelations)" e'] assms(2)]]
  by (simp only: fetch_all_snapshot[OF assms(1)] proc_simps(4) not_not)

lemma decides_role: "snapshot db c answer \<Longrightarrow> decides (verify_role db route c) (role_met route answer)"
proof -
  assume s: "snapshot db c answer"
  have n: "int (length KNOWLEDGE_READER_RELATIONS) - 1 = 8" by (simp add:
      KNOWLEDGE_READER_RELATIONS_def)
  show ?thesis unfolding verify_role_def role_met_def Let_def n
    by (intro decides_intros decides_selected s)
qed

lemma decides_isolation:
  "snapshot db c answer \<Longrightarrow> decides (verify_isolation db route c) (isolation_met route answer)"
proof -
  assume s: "snapshot db c answer"
  have "map fst KNOWLEDGE_POLICIES = tenant_relations"
    by (simp add: KNOWLEDGE_POLICIES_def tenant_relations_def KNOWLEDGE_READER_RELATIONS_def lit_def)
  then show ?thesis unfolding verify_isolation_def isolation_met_def Let_def rls_rows_def
    by (simp only:) (intro decides_intros s)
qed

lemma transaction_connected:
  assumes "kd_connect db p w = (Inr c, w1)"
  shows "knowledge_transaction db m p body w =
     (case body c w1 of
         (Inl e, w1) \<Rightarrow>
           (case kd_finish db (c, False) w1 of (Inl x, w2) \<Rightarrow> (Inl (raised m x), w2) | (Inr _, w2)
               \<Rightarrow> (Inl e, w2))
       | (Inr v, w1) \<Rightarrow>
           (case kd_finish db (c, True) w1 of (Inl x, w2) \<Rightarrow> (Inl (raised m x), w2) | (Inr _, w2)
               \<Rightarrow> (Inr v, w2)))"
  using assms by (simp add: knowledge_transaction_def asked_def andthen_def attempt_def)

text \<open>C6: On a connection that answers from one snapshot, the verification of a customer's database
    succeeds
  exactly when the snapshot keeps the contract of the route: the database, its identity and version,
      the vector
  extension, the migrations and columns, the profile and the active publication; a role without any
      privilege
  beyond reading; and forced row security whose policies admit only the rows of the runtime customer.\<close>

theorem contract_verified_exactly:
  assumes "kd_connect db pool w = (Inr c, w1)" and "snapshot db c answer"
    and "kd_finish db (c, True) w1 = (Inr (), w2)" and "kd_finish db (c, False) w1 = (Inr (), w3)"
  shows "fst (verify_knowledge_contract env db pool route w) = Inr ()
    \<longleftrightarrow> content_met env route answer \<and> role_met route answer \<and> isolation_met route answer"
proof -
  have "decides (andthen (verify_content env db route c) (\<lambda>_. andthen (verify_role db route c)
        (\<lambda>_. verify_isolation db route c)))
      (content_met env route answer \<and> role_met route answer \<and> isolation_met route answer)"
    by (intro decides_andthen decides_content decides_role decides_isolation assms(2))
  note d = this
  have "verify_knowledge_contract env db pool route w =
      (case andthen (verify_content env db route c) (\<lambda>_. andthen (verify_role db route c) (\<lambda>_.
          verify_isolation db route c)) w1 of
         (Inl e, w1) \<Rightarrow>
           (case kd_finish db (c, False) w1 of (Inl x, w2) \<Rightarrow> (Inl (raised VERIFICATION_FAILED x), w2) |
               (Inr _, w2) \<Rightarrow> (Inl e, w2))
       | (Inr v, w1) \<Rightarrow>
           (case kd_finish db (c, True) w1 of (Inl x, w2) \<Rightarrow> (Inl (raised VERIFICATION_FAILED x), w2) |
               (Inr _, w2) \<Rightarrow> (Inr v, w2)))"
    unfolding verify_knowledge_contract_def transaction_connected[OF assms(1)]
      apply_settings_snapshot[OF assms(2)] proc_simps(4) by (rule refl)
  then show ?thesis using d assms(3,4) unfolding decides_def by (auto split: if_splits)
qed

end
