(* ===== verification/EmbeddingProperties.thy ===== *)
theory EmbeddingProperties
  imports Embeddings IngestionProperties
begin

text \<open>
  What a materialization promises (\<open>src/erp_ai/knowledge/embeddings/service.py\<close>): a completed set holds
  one embedding for every chunk and no other, each returned by the provider for that chunk, and for a
  provider that embeds every input on its own the size of the batches makes no difference.
\<close>

section \<open>Batches\<close>

lemma concat_slices: "1 \<le> n \<Longrightarrow> concat (slices n xs) = xs"
proof (induction n xs rule: slices.induct)
  case (1 n xs)
  then show ?case by (cases "xs = []") (simp_all add: slices.simps[of n "[]"] slices.simps[of n xs])
qed

lemma slices_nonempty: "b \<in> set (slices n xs) \<Longrightarrow> b \<noteq> []"
proof (induction n xs rule: slices.induct)
  case (1 n xs)
  then show ?case by (cases "n = 0 \<or> xs = []") (auto simp: slices.simps[of n xs] take_eq_Nil)
qed

lemma slices_Nil_iff: "1 \<le> n \<Longrightarrow> slices n xs = [] \<longleftrightarrow> xs = []"
  by (simp add: slices.simps)

lemma checked_step_Inr [simp]: "checked_step m w = (Inr x, w') \<longleftrightarrow> m = Inr x \<and> w' = w"
  by (auto simp: checked_step_def stop_def give_def split: sum.splits)

lemma sort_key_fixed: "sorted (map k xs) \<Longrightarrow> sort_key k xs = xs"
  by (rule sort_key_id_if_sorted)

section \<open>A completed materialization\<close>

text \<open>The embedding of a chunk: the provider's vector for it, in a batch with the chunk.\<close>

definition embeds ::
  "embedding_env \<Rightarrow> 'w embedder \<Rightarrow> embedding_profile \<Rightarrow> embedding_input \<Rightarrow> prepared_embedding \<Rightarrow> bool" where
  "embeds env provider p i e \<longleftrightarrow> pe_chunk_id e = ei_input_id i \<and> pe_content_sha256 e = ei_content_sha256 i
     \<and> int (length (pe_values e)) = ef_dimensions p
     \<and> vector_sha256 env \<lparr>vx_input_id = pe_chunk_id e, vx_values = pe_values e\<rparr> = Inr (pe_vector_sha256
         e)
     \<and> (\<exists>req w res v. fst (provider req w) = Inr res \<and> bq_profile req = p \<and> i \<in> set (bq_inputs req)
          \<and> v \<in> set (bx_vectors res) \<and> vx_input_id v = ei_input_id i \<and> vx_values v = pe_values e)"

lemma by_id_SomeD: "by_id key xs k = Some x \<Longrightarrow> x \<in> set xs \<and> key x = k"
  by (auto simp: by_id_def dest: map_of_SomeD)

lemma vector_sha256_id [simp]: "vector_sha256 env (v\<lparr>vx_input_id := i\<rparr>) = vector_sha256 env v"
  by (simp add: vector_sha256_def)

lemma validate_prepared_InrD:
  "validate_prepared_embedding env e = Inr e' \<Longrightarrow> is_identifier (pe_chunk_id e) \<Longrightarrow> e' = e"
  unfolding validate_prepared_embedding_def
  by (auto simp: validate_identifier_id elim!: bindE_InrE split: if_splits)

lemma embed_batch_Inr:
  assumes "embed_batch env provider p is w = (Inr es, w')" "\<forall>i \<in> set is. is_identifier (ei_input_id i)"
    and "sorted (map ei_input_id is)"
  shows "list_all2 (embeds env provider p) is es"
proof -
  from assms(1) obtain req res w1 where r: "make_batch_request p is = Inr req" "provider req w = (Inr
      res, w1)"
    "map_checked (prepare_one env p (bx_vectors res)) (sort_key ei_input_id is) = Inr es"
    unfolding embed_batch_def by (auto elim!: andthen_InrE)
  have req: "bq_profile req = p" "bq_inputs req = is"
    using r(1) by (auto simp: make_batch_request_def split: if_splits)
  have "list_all2 (\<lambda>i e. prepare_one env p (bx_vectors res) i = Inr e) is es"
    using map_checked_InrD[OF r(3)] sort_key_fixed[OF assms(3)] by simp
  moreover have "embeds env provider p i e"
    if i: "i \<in> set is" and e: "prepare_one env p (bx_vectors res) i = Inr e" for i e
  proof -
    obtain v h where v: "by_id vx_input_id (bx_vectors res) (ei_input_id i) = Some v"
      "int (length (vx_values v)) = ef_dimensions p" "vector_sha256 env v = Inr h"
      "validate_prepared_embedding env \<lparr>pe_chunk_id = ei_input_id i, pe_content_sha256 =
          ei_content_sha256 i,
         pe_values = vx_values v, pe_vector_sha256 = h\<rparr> = Inr e"
      using e by (auto simp: prepare_one_def elim!: bindE_InrE split: option.splits if_splits)
    have "e = \<lparr>pe_chunk_id = ei_input_id i, pe_content_sha256 = ei_content_sha256 i,
         pe_values = vx_values v, pe_vector_sha256 = h\<rparr>"
      using validate_prepared_InrD[OF v(4)] assms(2) i by simp
    moreover have "v \<in> set (bx_vectors res)" "vx_input_id v = ei_input_id i" using by_id_SomeD[OF v(1)]
        by auto
    moreover have "fst (provider req w) = Inr res" using r(2) by simp
    ultimately show ?thesis
      using v(2,3) req i by (auto simp: embeds_def vector_sha256_def)
  qed
  ultimately show ?thesis by (rule list.rel_mono_strong)
qed

lemma embed_batches_Inr:
  assumes "embed_batches env provider p bs w = (Inr es, w')"
    and "\<forall>i \<in> set (concat bs). is_identifier (ei_input_id i)" "sorted (map ei_input_id (concat bs))"
  shows "list_all2 (embeds env provider p) (concat bs) es"
  using assms
proof (induction bs arbitrary: es w)
  case (Cons b bs)
  obtain es1 w1 es2 where e: "embed_batch env provider p b w = (Inr es1, w1)"
    "embed_batches env provider p bs w1 = (Inr es2, w')" "es = es1 @ es2"
    using Cons.prems(1) by (auto elim!: andthen_InrE)
  have "list_all2 (embeds env provider p) b es1"
    by (rule embed_batch_Inr[OF e(1)]) (use Cons.prems(2,3) in \<open>auto simp: sorted_append\<close>)
  moreover have "list_all2 (embeds env provider p) (concat bs) es2"
    by (rule Cons.IH[OF e(2)]) (use Cons.prems(2,3) in \<open>auto simp: sorted_append\<close>)
  ultimately show ?case using e(3) by (simp add: list_all2_appendI)
qed simp

lemma validate_source_InrD:
  assumes "validate_generation_source env source = Inr s"
  shows "\<forall>i \<in> set (eo_chunks s). is_identifier (ei_input_id i)" "sorted (map ei_input_id (eo_chunks s))"
    "distinct (map ei_input_id (eo_chunks s))" "eo_chunks s \<noteq> []"
proof -
  obtain cs where c: "map_checked validate_embedding_input (eo_chunks source) = Inr cs" "cs \<noteq> []"
    "distinct (map ei_input_id cs)" "eo_chunks s = sort_key ei_input_id cs"
    using assms unfolding validate_generation_source_def by (auto elim!: bindE_InrE split: if_splits)
  have "is_identifier (ei_input_id j)" if "validate_embedding_input i = Inr j" for i j
    using that unfolding validate_embedding_input_def
    by (auto elim!: bindE_InrE split: if_splits simp: validate_identifier_Inr)
  then have "\<forall>j \<in> set cs. is_identifier (ei_input_id j)"
    using map_checked_InrD[OF c(1)] by (fastforce simp: list_all2_conv_all_nth in_set_conv_nth)
  then show "\<forall>i \<in> set (eo_chunks s). is_identifier (ei_input_id i)" using c(4) by simp
  show "sorted (map ei_input_id (eo_chunks s))" using c(4) by simp
  show "distinct (map ei_input_id (eo_chunks s))" using c(3,4) by (simp add: distinct_map)
  show "eo_chunks s \<noteq> []" using c(2,4) by (metis length_0_conv length_sort)
qed

lemma validate_embedding_set_InrD:
  assumes "validate_embedding_set env g = Inr s" "\<forall>e \<in> set (eg_embeddings g). is_identifier
      (pe_chunk_id e)"
  shows "eg_embeddings s = eg_embeddings g"
    "\<exists>pd. profile_sha256 env (eg_profile s) = Inr pd \<and> json_sha256 (xe_ingest env)
       (embedding_set_json (eg_scope s) (eg_generation_id s) (eg_generation_digest s) pd (eg_embeddings
           s)) = Inr (eg_sha256 s)"
proof -
  obtain sc p es pd d where v: "map_checked (validate_prepared_embedding env) (eg_embeddings g) = Inr
      es"
    "profile_sha256 env p = Inr pd" "json_sha256 (xe_ingest env)
        (embedding_set_json sc (eg_generation_id g) (eg_generation_digest g) pd es) = Inr d"
    "d = eg_sha256 g" "s = g\<lparr>eg_scope := sc, eg_profile := p, eg_embeddings := es\<rparr>"
    using assms(1) unfolding validate_embedding_set_def by (auto elim!: bindE_InrE split: if_splits)
  have "es = eg_embeddings g \<and> list_all (\<lambda>_. True) es"
    by (rule map_checked_fixed[OF v(1)]) (use validate_prepared_InrD assms(2) in blast)
  then show "eg_embeddings s = eg_embeddings g" using v(5) by simp
  show "\<exists>pd. profile_sha256 env (eg_profile s) = Inr pd \<and> json_sha256 (xe_ingest env)
       (embedding_set_json (eg_scope s) (eg_generation_id s) (eg_generation_digest s) pd (eg_embeddings
           s)) = Inr (eg_sha256 s)"
    using v(2-5) by simp
qed

text \<open>C20: A completed materialization holds exactly one embedding for every chunk of the generation, in
    the order
  of the chunk identifiers: a vector that the provider returned for that chunk under this profile, of
      the
  profile's dimension and with its digest; and its own digest is the one of its content.\<close>

theorem materialize_complete:
  assumes "materialize env provider n source profile w = (Inr s, w')" and "1 \<le> n"
  shows "\<exists>src p pd. validate_generation_source env source = Inr src \<and> validate_profile env profile =
      Inr p
    \<and> list_all2 (embeds env provider p) (eo_chunks src) (eg_embeddings s)
    \<and> (\<forall>c \<in> set (eo_chunks src). ei_classification c \<in> set (ef_classifications p))
    \<and> profile_sha256 env (eg_profile s) = Inr pd \<and> json_sha256 (xe_ingest env)
       (embedding_set_json (eg_scope s) (eg_generation_id s) (eg_generation_digest s) pd (eg_embeddings
           s)) = Inr (eg_sha256 s)"
proof -
  obtain src p prepared w1 pd d where m: "validate_generation_source env source = Inr src"
    "validate_profile env profile = Inr p" "\<forall>c \<in> set (eo_chunks src). ei_classification c \<in> set
        (ef_classifications p)"
    "embed_batches env provider p (slices n (eo_chunks src)) w = (Inr prepared, w1)"
    "validate_embedding_set env \<lparr>eg_scope = eo_scope src, eg_generation_id = eo_generation_id src,
           eg_generation_digest = eo_generation_digest src, eg_profile = p,
           eg_embeddings = sort_key pe_chunk_id prepared, eg_sha256 = d\<rparr> = Inr s"
    using assms(1) unfolding materialize_def Let_def by (auto elim!: andthen_InrE bindE_InrE)
  note src = validate_source_InrD[OF m(1)]
  have all: "list_all2 (embeds env provider p) (eo_chunks src) prepared"
    using embed_batches_Inr[OF m(4), unfolded concat_slices[OF assms(2)]] src(1,2) by blast
  have ids: "map pe_chunk_id prepared = map ei_input_id (eo_chunks src)"
    using all by (intro nth_equalityI) (auto simp: list_all2_conv_all_nth embeds_def)
  then have sorted: "sort_key pe_chunk_id prepared = prepared" using src(2) sort_key_fixed by metis
  have "pe_chunk_id ` set prepared = ei_input_id ` set (eo_chunks src)" using ids by (metis set_map)
  then have "\<forall>e \<in> set prepared. is_identifier (pe_chunk_id e)" using src(1) by (metis imageE imageI)
  with validate_embedding_set_InrD[OF m(5)] sorted all m(1-3) show ?thesis by auto
qed

section \<open>Batch sizes\<close>

text \<open>A provider whose answer for an input depends on the profile and the input alone.\<close>

definition pointwise ::
  "'w embedder \<Rightarrow> (embedding_profile \<Rightarrow> pystr) \<Rightarrow> (embedding_profile \<Rightarrow> embedding_input \<Rightarrow> float64 list)
      \<Rightarrow> bool" where
  "pointwise provider digest f \<longleftrightarrow> (\<forall>req w. fst (provider req w) = Inr
     \<lparr>bx_profile_sha256 = digest (bq_profile req),
      bx_vectors = map (\<lambda>i. \<lparr>vx_input_id = ei_input_id i, vx_values = f (bq_profile req) i\<rparr>) (bq_inputs
          req)\<rparr>)"

definition prepare_pointwise ::
  "embedding_env \<Rightarrow> (embedding_profile \<Rightarrow> embedding_input \<Rightarrow> float64 list) \<Rightarrow> embedding_profile
     \<Rightarrow> embedding_input \<Rightarrow> prepared_embedding checked" where
  "prepare_pointwise env f p i = prepare_one env p [\<lparr>vx_input_id = ei_input_id i, vx_values = f p i\<rparr>] i"

definition pointwise_result ::
  "embedding_env \<Rightarrow> (embedding_profile \<Rightarrow> pystr) \<Rightarrow> (embedding_profile \<Rightarrow> embedding_input \<Rightarrow> float64 list)
     \<Rightarrow> embedding_profile \<Rightarrow> embedding_input list \<Rightarrow> materialize_stop + prepared_embedding list" where
  "pointwise_result env digest f p is =
     (case profile_sha256 env p of
        Inl e \<Rightarrow> Inl (materialize_error e)
      | Inr pd \<Rightarrow>
          if digest p \<noteq> pd then Inl (MaterializeError ''embedding provider result mismatch'')
          else case map_checked (prepare_pointwise env f p) is of
            Inl e \<Rightarrow> Inl (materialize_error e) | Inr es \<Rightarrow> Inr es)"

lemma by_id_map:
  "distinct (map k xs) \<Longrightarrow> (\<And>x. k' (g x) = k x) \<Longrightarrow> x \<in> set xs \<Longrightarrow> by_id k' (map g xs) (k x) = Some (g x)"
  unfolding by_id_def by (intro map_of_is_SomeI) (auto simp: comp_def rev_map simp flip: rev_map)

lemma map_checked_cong_set:
  "(\<And>x. x \<in> set xs \<Longrightarrow> f x = g x) \<Longrightarrow> map_checked f xs = map_checked g xs"
  by (induction xs) simp_all

lemma embed_batch_pointwise:
  assumes "pointwise provider digest f" "is \<noteq> []" "distinct (map ei_input_id is)" "sorted (map
      ei_input_id is)"
  shows "fst (embed_batch env provider p is w) = pointwise_result env digest f p is"
proof -
  let ?v = "\<lambda>i. \<lparr>vx_input_id = ei_input_id i, vx_values = f p i\<rparr>"
  let ?req = "\<lparr>bq_profile = p, bq_inputs = is\<rparr>"
  obtain w1 where c: "provider ?req w = (Inr \<lparr>bx_profile_sha256 = digest p, bx_vectors = map ?v
      is\<rparr>, w1)"
    using assms(1)[unfolded pointwise_def, rule_format, of ?req w] by (cases "provider ?req w") simp
  have req: "make_batch_request p is = Inr ?req" using assms(2,3) by (simp add: make_batch_request_def)
  have one: "prepare_one env p (map ?v is) i = prepare_pointwise env f p i" if "i \<in> set is" for i
  proof -
    have "by_id vx_input_id (map ?v is) (ei_input_id i) = Some (?v i)"
      by (rule by_id_map[OF assms(3) _ that]) simp
    then show ?thesis by (simp add: prepare_one_def prepare_pointwise_def by_id_def)
  qed
  have all: "map_checked (prepare_one env p (map ?v is)) is = map_checked (prepare_pointwise env f p)
      is"
    by (rule map_checked_cong_set[OF one])
  have ids: "vx_input_id ` set (map ?v is) = ei_input_id ` set is" by (simp add: image_image)
  show ?thesis
    unfolding embed_batch_def req checked_step_def sum.case andthen_def give_def attempt_def prod.case
        c pointwise_result_def
    using ids by (simp add: sort_key_fixed[OF assms(4)] all stop_def give_def unless_def split:
        sum.splits)
qed

lemma pointwise_result_append:
  "pointwise_result env digest f p (xs @ ys) =
     (case pointwise_result env digest f p xs of
        Inl e \<Rightarrow> Inl e
      | Inr es \<Rightarrow> (case pointwise_result env digest f p ys of Inl e \<Rightarrow> Inl e | Inr fs \<Rightarrow> Inr (es @ fs)))"
  by (simp add: pointwise_result_def map_checked_append split: sum.splits)

lemma embed_batches_pointwise:
  assumes "pointwise provider digest f"
  shows "\<forall>b \<in> set bs. b \<noteq> [] \<Longrightarrow> bs \<noteq> [] \<Longrightarrow> distinct (map ei_input_id (concat bs))
    \<Longrightarrow> sorted (map ei_input_id (concat bs))
    \<Longrightarrow> fst (embed_batches env provider p bs w) = pointwise_result env digest f p (concat bs)"
proof (induction bs arbitrary: w)
  case (Cons b bs)
  have b: "fst (embed_batch env provider p b w) = pointwise_result env digest f p b" for w
    by (rule embed_batch_pointwise[OF assms]) (use Cons.prems in \<open>auto simp: sorted_append\<close>)
  obtain r w1 where e: "embed_batch env provider p b w = (r, w1)" by (rule prod.exhaust)
  then have r: "r = pointwise_result env digest f p b" using b[of w] by simp
  show ?case
  proof (cases "bs = []")
    case True
    then show ?thesis using e r by (auto simp: andthen_def give_def split: sum.splits)
  next
    case False
    have "fst (embed_batches env provider p bs w1) = pointwise_result env digest f p (concat bs)"
      by (rule Cons.IH) (use Cons.prems False in \<open>auto simp: sorted_append\<close>)
    then show ?thesis using e r
      by (auto simp: andthen_def give_def pointwise_result_append split: sum.splits prod.splits)
  qed
qed simp

text \<open>C24: With a provider that embeds every input on its own, the result of a materialization, success
    or error,
  does not depend on the batch size nor on the state in which it runs.\<close>

theorem batch_size_irrelevant:
  assumes "pointwise provider digest f" and "1 \<le> n" and "1 \<le> m"
  shows "fst (materialize env provider n source profile w) = fst (materialize env provider m source
      profile v)"
proof (cases "validate_generation_source env source")
  case (Inl e)
  then show ?thesis by (simp add: materialize_def)
next
  case (Inr s)
  note s = validate_source_InrD[OF Inr]
  have b: "fst (embed_batches env provider p (slices k (eo_chunks s)) u) = pointwise_result env digest
      f p (eo_chunks s)"
    if "1 \<le> k" for k p u
    by (rule embed_batches_pointwise[OF assms(1), of "slices k (eo_chunks s)", unfolded
        concat_slices[OF that]])
      (use s in \<open>auto simp: slices_Nil_iff[OF that] dest: slices_nonempty\<close>)
  have "fst (andthen (embed_batches env provider p (slices n (eo_chunks s))) (\<lambda>es. checked_or x (c es))
      u)
      = fst (andthen (embed_batches env provider p (slices m (eo_chunks s))) (\<lambda>es. checked_or x (c es))
          u')" for p x c u u'
    using b[OF assms(2), of p u] b[OF assms(3), of p u']
    by (cases "embed_batches env provider p (slices n (eo_chunks s)) u";
        cases "embed_batches env provider p (slices m (eo_chunks s)) u'";
        cases "pointwise_result env digest f p (eo_chunks s)")
      (simp_all add: andthen_def checked_or_def stop_def give_def split: sum.splits)
  note run = this
  show ?thesis
  proof (cases "validate_profile env profile")
    case (Inl e)
    then show ?thesis using Inr by (simp add: materialize_def)
  next
    case p: (Inr p)
    show ?thesis
    proof (cases "\<exists>c \<in> set (eo_chunks s). ei_classification c \<notin> set (ef_classifications p)")
      case True
      then show ?thesis using Inr p by (simp add: materialize_def)
    next
      case False
      show ?thesis unfolding materialize_def Inr p Let_def proc_simps using False run by simp
    qed
  qed
qed

section \<open>A sample generation\<close>

text \<open>A format of one value, so that every vector of a component is the same.\<close>

definition sample_embedding_env :: embedding_env where
  "sample_embedding_env = \<lparr>xe_ingest = sample_ingest_env, xe_float_of_int = \<lambda>_. Some 0x3FF0000000000000,
     xe_pack = \<lambda>_. Some [63, 128, 0, 0], xe_unpack = \<lambda>_. 0x3FF0000000000000, xe_sha256 = \<lambda>_. replicate
         64 49\<rparr>"

definition sample_embedding_profile :: embedding_profile where
  "sample_embedding_profile = \<lparr>ef_profile_id = lit ''p'', ef_provider_id = lit ''tei'', ef_model_id =
      lit ''m'',
     ef_model_revision = lit ''r'', ef_dimensions = 1, ef_input_normalization_version = 1,
     ef_document_transform_version = 1, ef_query_transform_version = 1, ef_query_instruction = lit
         ''q'',
     ef_classifications = [INTERNAL]\<rparr>"

definition sample_chunk :: "string \<Rightarrow> embedding_input" where
  "sample_chunk i = \<lparr>ei_input_id = lit i, ei_text = lit ''text'', ei_content_sha256 = replicate 64 48,
     ei_classification = INTERNAL, ei_kind = DOCUMENT_INPUT\<rparr>"

definition sample_generation :: generation_source where
  "sample_generation = \<lparr>eo_scope = \<lparr>is_namespace = lit ''hr'', is_customer_environment_id = lit ''c''\<rparr>,
     eo_generation_id = 7, eo_generation_digest = replicate 64 50, eo_chunks = [sample_chunk ''b'',
         sample_chunk ''a'']\<rparr>"

definition profile_digest :: "embedding_profile \<Rightarrow> pystr" where
  "profile_digest p = (case profile_sha256 sample_embedding_env p of Inl _ \<Rightarrow> [] | Inr d \<Rightarrow> d)"

definition sample_embedder :: "'w embedder" where
  "sample_embedder req w = (Inr \<lparr>bx_profile_sha256 = profile_digest (bq_profile req),
     bx_vectors = map (\<lambda>i. \<lparr>vx_input_id = ei_input_id i, vx_values = [0x3FF0000000000000]\<rparr>) (bq_inputs
         req)\<rparr>, w)"

lemma sample_pointwise: "pointwise sample_embedder profile_digest (\<lambda>_ _. [0x3FF0000000000000])"
  by (simp add: pointwise_def sample_embedder_def)

lemma sample_sha256:
  "json_sha256 (xe_ingest sample_embedding_env) v = Inr h \<longleftrightarrow> json_encodable v \<and> h = replicate 64 97"
  by (simp add: json_sha256_Inr sample_embedding_env_def sample_ingest_env_def)

lemma sample_embedding_profile_digest: "profile_sha256 sample_embedding_env sample_embedding_profile =
    Inr (replicate 64 97)"
  unfolding profile_sha256_def canonical_json_digest_eq sample_sha256
  by (simp add: profile_json_def sample_embedding_profile_def json_encodable_def lit_encodable
      classification_value_def)

lemma sample_embedding_profile_valid: "validate_profile sample_embedding_env sample_embedding_profile =
    Inr sample_embedding_profile"
  by (simp add: validate_profile_def sample_embedding_profile_def sample_embedding_env_def
      validate_code_def ascii_lower_def
      lower_char_def re_dollar_def validate_identifier_def py_strip_def py_rstrip_def py_isspace_def
          utf8_encodable_def sample_text)

lemma sample_prepared:
  "prepare_pointwise sample_embedding_env (\<lambda>_ _. [0x3FF0000000000000]) sample_embedding_profile
      (sample_chunk i)
     = Inr \<lparr>pe_chunk_id = lit i, pe_content_sha256 = replicate 64 48, pe_values = [0x3FF0000000000000],
         pe_vector_sha256 = replicate 64 49\<rparr>" if "is_identifier (lit i)"
  using validate_identifier_id[OF that]
  by (simp add: prepare_pointwise_def prepare_one_def by_id_def sample_chunk_def
      sample_embedding_profile_def vector_sha256_def
      validate_prepared_embedding_def make_vector_def finite_float32_def sample_embedding_env_def
          float_finite_def
      nonzero_float_def validate_digest_def is_digest_def is_hex_def is_digit_def list_all_iff)

lemma sample_identifiers: "is_identifier (lit ''a'')" "is_identifier (lit ''b'')"
  by (simp_all add: sample_text)

definition sample_prepared_one :: "string \<Rightarrow> prepared_embedding" where
  "sample_prepared_one i = \<lparr>pe_chunk_id = lit i, pe_content_sha256 = replicate 64 48,
     pe_values = [0x3FF0000000000000], pe_vector_sha256 = replicate 64 49\<rparr>"

lemma sample_chunk_valid: "is_identifier (lit i) \<Longrightarrow> validate_embedding_input (sample_chunk i) = Inr
    (sample_chunk i)"
  by (simp add: validate_embedding_input_def sample_chunk_def validate_identifier_id knowledge_text_def
      plain_text_def
      validate_digest_def is_digest_def is_hex_def is_digit_def list_all_iff utf8_encodable_def
          py_strip_def py_rstrip_def
      py_isspace_def lit_def)

lemma sample_source_valid:
  "validate_generation_source sample_embedding_env sample_generation
     = Inr (sample_generation\<lparr>eo_chunks := [sample_chunk ''a'', sample_chunk ''b'']\<rparr>)"
proof -
  have "validate_scope (ie_lower (xe_ingest sample_embedding_env)) (eo_scope sample_generation) = Inr
      (eo_scope sample_generation)"
    by (simp add: validate_scope_def sample_generation_def sample_embedding_env_def validate_code_def
        ascii_lower_def
      lower_char_def re_dollar_def validate_identifier_def py_strip_def py_rstrip_def py_isspace_def
          sample_text)
  moreover have "validate_digest (eo_generation_digest sample_generation) = Inr (replicate 64 50)"
    by (simp add: sample_generation_def validate_digest_def is_digest_def is_hex_def is_digit_def
        list_all_iff)
  moreover have "map_checked validate_embedding_input (eo_chunks sample_generation) = Inr (eo_chunks
      sample_generation)"
    using sample_identifiers by (simp add: sample_generation_def sample_chunk_valid)
  moreover have "sort_key ei_input_id (eo_chunks sample_generation) = [sample_chunk ''a'', sample_chunk
      ''b'']"
    by (simp add: sample_generation_def sample_chunk_def lit_def)
  moreover have "distinct (map ei_input_id (eo_chunks sample_generation))" "eo_chunks sample_generation
      \<noteq> []"
    by (simp_all add: sample_generation_def sample_chunk_def lit_def)
  ultimately show ?thesis
    unfolding validate_generation_source_def by (simp add: sample_generation_def)
qed

lemma sample_run:
  assumes "1 \<le> n"
  shows "fst (embed_batches sample_embedding_env sample_embedder sample_embedding_profile
      (slices n [sample_chunk ''a'', sample_chunk ''b'']) w) = Inr [sample_prepared_one ''a'',
          sample_prepared_one ''b'']"
proof -
  let ?cs = "[sample_chunk ''a'', sample_chunk ''b'']"
  have cs: "distinct (map ei_input_id ?cs)" "sorted (map ei_input_id ?cs)" by (simp_all add:
      sample_chunk_def lit_def)
  have "fst (embed_batches sample_embedding_env sample_embedder sample_embedding_profile (slices n ?cs)
      w)
      = pointwise_result sample_embedding_env profile_digest (\<lambda>_ _. [0x3FF0000000000000])
          sample_embedding_profile ?cs"
    by (rule embed_batches_pointwise[OF sample_pointwise, of "slices n ?cs", unfolded concat_slices[OF
        assms]])
      (use cs assms in \<open>auto simp: slices_Nil_iff dest: slices_nonempty\<close>)
  also have "\<dots> = Inr [sample_prepared_one ''a'', sample_prepared_one ''b'']"
    using sample_prepared[OF sample_identifiers(1)] sample_prepared[OF sample_identifiers(2)]
    by (simp add: pointwise_result_def sample_embedding_profile_digest profile_digest_def
        sample_prepared_one_def)
  finally show ?thesis .
qed

definition sample_set :: embedding_set where
  "sample_set = \<lparr>eg_scope = eo_scope sample_generation, eg_generation_id = 7, eg_generation_digest =
      replicate 64 50,
     eg_profile = sample_embedding_profile, eg_embeddings = [sample_prepared_one ''a'',
         sample_prepared_one ''b''],
     eg_sha256 = replicate 64 97\<rparr>"

lemma replicate_encodable: "c < 55296 \<Longrightarrow> utf8_encodable (replicate n c)"
  by (simp add: utf8_encodable_def list_all_iff)

lemma sample_scope_valid:
  "validate_scope (ie_lower (xe_ingest sample_embedding_env)) (eo_scope sample_generation) = Inr
      (eo_scope sample_generation)"
  by (simp add: validate_scope_def sample_generation_def sample_embedding_env_def validate_code_def
      ascii_lower_def
    lower_char_def re_dollar_def validate_identifier_def py_strip_def py_rstrip_def py_isspace_def
        sample_text)

lemma sample_set_json: "json_encodable (embedding_set_json (eo_scope sample_generation) 7 (replicate 64
    50) (replicate 64 97)
     [sample_prepared_one ''a'', sample_prepared_one ''b''])"
  by (simp add: embedding_set_json_def embedding_json_def sample_prepared_one_def sample_generation_def
      lit_encodable
      replicate_encodable uuid_str_encodable)

lemma sample_set_valid: "validate_embedding_set sample_embedding_env sample_set = Inr sample_set"
proof -
  have "validate_prepared_embedding sample_embedding_env (sample_prepared_one i) = Inr
      (sample_prepared_one i)"
    if "is_identifier (lit i)" for i
    using sample_prepared[OF that] by (simp add: prepare_pointwise_def prepare_one_def by_id_def
        sample_embedding_profile_def
        sample_chunk_def vector_sha256_def sample_embedding_env_def sample_prepared_one_def)
  moreover have "validate_scope (ie_lower (xe_ingest sample_embedding_env)) (eg_scope sample_set) = Inr
      (eg_scope sample_set)"
    using sample_scope_valid by (simp add: sample_set_def)
  moreover have "json_sha256 (xe_ingest sample_embedding_env) (embedding_set_json (eg_scope sample_set)
      (eg_generation_id sample_set) (eg_generation_digest sample_set) (replicate 64 97) (eg_embeddings
          sample_set)) = Inr (replicate 64 97)"
    using sample_set_json by (simp add: sample_sha256 sample_set_def)
  ultimately have "map_checked (validate_prepared_embedding sample_embedding_env) (eg_embeddings
      sample_set)
      = Inr (eg_embeddings sample_set)"
    and scope: "validate_scope (ie_lower (xe_ingest sample_embedding_env)) (eg_scope sample_set) = Inr
        (eg_scope sample_set)"
    and json: "json_sha256 (xe_ingest sample_embedding_env) (embedding_set_json (eg_scope sample_set)
      (eg_generation_id sample_set) (eg_generation_digest sample_set) (replicate 64 97) (eg_embeddings
          sample_set)) = Inr (replicate 64 97)"
    using sample_identifiers by (simp_all add: sample_set_def)
  note facts = this
  have "validate_digest (eg_generation_digest sample_set) = Inr (replicate 64 50)" "eg_sha256
      sample_set = replicate 64 97"
    "validate_digest (replicate 64 97) = Inr (replicate 64 97)" "eg_profile sample_set =
        sample_embedding_profile"
    "eg_embeddings sample_set \<noteq> []" "ef_dimensions sample_embedding_profile = 1"
    "\<forall>e \<in> set (eg_embeddings sample_set). length (pe_values e) = 1"
    by (simp_all add: sample_set_def validate_digest_def is_digest_def is_hex_def is_digit_def
        list_all_iff
        sample_prepared_one_def sample_embedding_profile_def)
  moreover have "sort_key pe_chunk_id (eg_embeddings sample_set) = eg_embeddings sample_set"
    "distinct (map pe_chunk_id (eg_embeddings sample_set))"
    by (simp_all add: sample_set_def sample_prepared_one_def lit_def)
  moreover have "sample_set\<lparr>eg_scope := eg_scope sample_set, eg_profile := sample_embedding_profile,
      eg_embeddings := eg_embeddings sample_set\<rparr> = sample_set" by (simp add: sample_set_def)
  ultimately show ?thesis
    unfolding validate_embedding_set_def using facts by (simp add: sample_embedding_profile_valid
        sample_embedding_profile_digest)
qed

theorem materialize_complete_witness:
  "\<exists>w. materialize sample_embedding_env sample_embedder 1 sample_generation sample_embedding_profile ()
      = (Inr sample_set, w)
     \<and> list_all2 (embeds sample_embedding_env (sample_embedder :: unit embedder)
         sample_embedding_profile)
         [sample_chunk ''a'', sample_chunk ''b''] (eg_embeddings sample_set)"
proof -
  let ?cs = "[sample_chunk ''a'', sample_chunk ''b'']"
  obtain w where run: "embed_batches sample_embedding_env sample_embedder sample_embedding_profile
      (slices 1 ?cs) ()
      = (Inr [sample_prepared_one ''a'', sample_prepared_one ''b''], w)"
    using sample_run[of 1 "()"] by (metis order_refl prod.collapse)
  have sorted: "pe_chunk_id (sample_prepared_one ''a'') \<le> pe_chunk_id (sample_prepared_one ''b'')"
    by (simp add: sample_prepared_one_def lit_def)
  have allowed: "\<not> (\<exists>c \<in> set ?cs. ei_classification c \<notin> set (ef_classifications
      sample_embedding_profile))"
    by (simp add: sample_chunk_def sample_embedding_profile_def)
  have json: "json_sha256 (xe_ingest sample_embedding_env) (embedding_set_json (eo_scope
      sample_generation) 7
      (replicate 64 50) (replicate 64 97) [sample_prepared_one ''a'', sample_prepared_one ''b'']) = Inr
          (replicate 64 97)"
    using sample_set_json by (simp add: sample_sha256)
  have gen: "eo_generation_id sample_generation = 7" "eo_generation_digest sample_generation =
      replicate 64 50"
    by (simp_all add: sample_generation_def)
  have m: "materialize sample_embedding_env sample_embedder 1 sample_generation
      sample_embedding_profile () = (Inr sample_set, w)"
    unfolding materialize_def sample_source_valid sample_embedding_profile_valid proc_simps
    using run sample_set_valid json allowed
    by (simp add: andthen_def Let_def sorted sample_embedding_profile_digest gen sample_set_def)
  from materialize_complete[OF m] m show ?thesis by (auto simp: sample_source_valid
      sample_embedding_profile_valid)
qed

theorem batch_size_irrelevant_witness:
  "fst (materialize sample_embedding_env sample_embedder 1 sample_generation sample_embedding_profile
      (0::nat))
     = fst (materialize sample_embedding_env sample_embedder 64 sample_generation
         sample_embedding_profile (5::nat))"
  by (rule batch_size_irrelevant[OF sample_pointwise]) simp_all

end
