(* ===== verification/RetrievalProperties.thy ===== *)
theory RetrievalProperties
  imports ContractProperties EmbeddingProperties
begin

text \<open>
  Properties of production retrieval: what a search has checked by the time it answers, over a driver
  that records its statements, and what the router keeps over its lifecycle; and a sample deployment.
\<close>

section \<open>Recorded statements\<close>

datatype ('p, 'c) statement_event =
    Connected 'p 'c
  | SetOn 'c setting
  | Fetched 'c catalog_query "row list"
  | RankedLexical 'c lexical_query "lexical_row list"
  | RankedSemantic 'c semantic_query "semantic_row list"
  | Finished 'c bool

definition recording :: "('x \<Rightarrow> 'r \<Rightarrow> 't) \<Rightarrow> ('x, 'w, 'r outcome) op \<Rightarrow> ('x, 'w \<times> 't list, 'r outcome) op"
    where
  "recording f oper x s =
     (case oper x (fst s) of (Inl e, w) \<Rightarrow> (Inl e, (w, snd s)) | (Inr r, w) \<Rightarrow> (Inr r, (w, snd s @ [f x
         r])))"

lemma recording_Inr:
  "recording f oper x (w, l) = (Inr r, s) \<longleftrightarrow> (\<exists>w'. oper x w = (Inr r, w') \<and> s = (w', l @ [f x r]))"
  by (auto simp: recording_def split: prod.splits sum.splits)

definition recorded_driver ::
  "('p, 'c, 'w) knowledge_driver \<Rightarrow> ('p, 'c, 'w \<times> ('p, 'c) statement_event list) knowledge_driver" where
  "recorded_driver db = \<lparr>
     kd_connect = recording (\<lambda>p c. Connected p c) (kd_connect db),
     kd_set = recording (\<lambda>(c, s) _. SetOn c s) (kd_set db),
     kd_fetch = recording (\<lambda>(c, q) rows. Fetched c q rows) (kd_fetch db),
     kd_lexical = recording (\<lambda>(c, q) rows. RankedLexical c q rows) (kd_lexical db),
     kd_semantic = recording (\<lambda>(c, q) rows. RankedSemantic c q rows) (kd_semantic db),
     kd_finish = recording (\<lambda>(c, b) _. Finished c b) (kd_finish db)\<rparr>"

lemma recorded_sel [simp]:
  "kd_connect (recorded_driver db) = recording (\<lambda>p c. Connected p c) (kd_connect db)"
  "kd_set (recorded_driver db) = recording (\<lambda>(c, s) _. SetOn c s) (kd_set db)"
  "kd_fetch (recorded_driver db) = recording (\<lambda>(c, q) rows. Fetched c q rows) (kd_fetch db)"
  "kd_semantic (recorded_driver db) = recording (\<lambda>(c, q) rows. RankedSemantic c q rows) (kd_semantic
      db)"
  "kd_finish (recorded_driver db) = recording (\<lambda>(c, b) _. Finished c b) (kd_finish db)"
  by (simp_all add: recorded_driver_def)

lemma asked_Inr [simp]: "asked m f w = (Inr v, w') \<longleftrightarrow> f w = (Inr v, w')"
  by (simp add: asked_def)

lemma fetch_all_recordedE:
  assumes "fetch_all (recorded_driver db) m c q (w, l) = (Inr rows, s)"
  obtains w' where "s = (w', l @ [Fetched c q rows])"
  using assms by (auto simp: fetch_all_def recording_Inr)

lemma fetch_one_recordedE:
  assumes "fetch_one (recorded_driver db) m c q (w, l) = (Inr r, s)"
  obtains rows w' where "r = (case rows of [] \<Rightarrow> None | r # _ \<Rightarrow> Some r)" "s = (w', l @ [Fetched c q
      rows])"
  using assms unfolding fetch_one_def by (auto elim!: andthen_InrE fetch_all_recordedE)

definition first_is :: "row list \<Rightarrow> row \<Rightarrow> bool" where
  "first_is rows r \<longleftrightarrow> rows \<noteq> [] \<and> row_equal (hd rows) r"

lemma expect_one_recordedE:
  assumes "expect_one (recorded_driver db) m c e q r (w, l) = (Inr u, s)"
  obtains rows w' where "first_is rows r" "s = (w', l @ [Fetched c q rows])"
proof -
  obtain r' s' where f: "fetch_one (recorded_driver db) m c q (w, l) = (Inr r', s')" "s = s'"
    "\<not> (case r' of None \<Rightarrow> True | Some r' \<Rightarrow> \<not> row_equal r' r)"
    using assms unfolding expect_one_def by (auto elim!: andthen_InrE)
  obtain rows w' where "r' = (case rows of [] \<Rightarrow> None | r # _ \<Rightarrow> Some r)" "s' = (w', l @ [Fetched c q
      rows])"
    using f(1) by (rule fetch_one_recordedE)
  with f(2,3) that[of rows w'] show thesis by (cases rows) (auto simp: first_is_def)
qed

lemma expect_all_recordedE:
  assumes "expect_all (recorded_driver db) m c e q rs (w, l) = (Inr u, s)"
  obtains rows w' where "rows_equal rows rs" "s = (w', l @ [Fetched c q rows])"
  using assms unfolding expect_all_def by (auto elim!: andthen_InrE fetch_all_recordedE)

lemma apply_settings_recordedE:
  assumes "apply_settings (recorded_driver db) m c ss (w, l) = (Inr u, s)"
  obtains w' where "s = (w', l @ map (SetOn c) ss)"
proof -
  have "\<exists>w'. s = (w', l @ map (SetOn c) ss)" using assms
  proof (induction ss arbitrary: w l)
    case (Cons a ss)
    obtain s1 where a: "kd_set (recorded_driver db) (c, a) (w, l) = (Inr (), s1)"
      and ss: "apply_settings (recorded_driver db) m c ss s1 = (Inr u, s)"
      using Cons.prems by (auto elim!: andthen_InrE)
    obtain w1 where "s1 = (w1, l @ [SetOn c a])" using a by (auto simp: recording_Inr)
    with Cons.IH[of w1 "l @ [SetOn c a]"] ss show ?case by auto
  qed auto
  then show thesis using that by blast
qed

lemma transaction_recordedE:
  assumes "knowledge_transaction (recorded_driver db) m p body (w, l) = (Inr v, s)"
  obtains c w1 w2 l2 w3 where "kd_connect db p w = (Inr c, w1)" "body c (w1, l @ [Connected p c]) =
      (Inr v, (w2, l2))"
    "s = (w3, l2 @ [Finished c True])"
proof -
  obtain c s1 where c: "kd_connect (recorded_driver db) p (w, l) = (Inr c, s1)"
    and b: "(case body c s1 of
         (Inl e, w1) \<Rightarrow>
           (case kd_finish (recorded_driver db) (c, False) w1 of (Inl x, w2) \<Rightarrow> (Inl (raised m x), w2) |
               (Inr _, w2) \<Rightarrow> (Inl e, w2))
       | (Inr v, w1) \<Rightarrow>
           (case kd_finish (recorded_driver db) (c, True) w1 of (Inl x, w2) \<Rightarrow> (Inl (raised m x), w2) |
               (Inr _, w2) \<Rightarrow> (Inr v, w2)))
      = (Inr v, s)"
    using assms unfolding knowledge_transaction_def by (auto elim!: andthen_InrE)
  obtain w1 where w1: "kd_connect db p w = (Inr c, w1)" "s1 = (w1, l @ [Connected p c])"
    using c by (auto simp: recording_Inr)
  obtain w2 l2 where body: "body c s1 = (Inr v, (w2, l2))"
    and f: "kd_finish (recorded_driver db) (c, True) (w2, l2) = (Inr (), s)"
    using b by (auto split: prod.splits sum.splits)
  from f obtain w3 where "s = (w3, l2 @ [Finished c True])" by (auto simp: recording_Inr)
  with w1 body show thesis using that by blast
qed

section \<open>Bound retrieval\<close>

text \<open>The row of a publication a retrieval is bound to.\<close>

definition published_row :: "knowledge_route \<Rightarrow> row \<Rightarrow> bool" where
  "published_row route r \<longleftrightarrow> row_equal (take 10 r) (publication_row route) \<and> counts_match r"

lemma bound_verifier_recordedE:
  assumes "bound_verifier env (recorded_driver db) route c rq profile (w, l) = (Inr u, s)"
  obtains b m p w' where "bound_request env route rq profile = Inr True" "first_is b (binding_row
      route)"
    "rows_equal m (checksum_rows env)" "p \<noteq> []" "published_row route (hd p)"
    "s = (w', l @ [Fetched c BoundIdentity b, Fetched c AppliedMigrations m,
       Fetched c (BoundPublication (kr_customer route) SEMANTIC_NAMESPACE (kr_profile_sha256 route))
           p])"
proof -
  let ?db = "recorded_driver db"
  obtain s1 bound s2 r s3 where v: "expect_one ?db BINDING_MISMATCH c BINDING_MISMATCH BoundIdentity
      (binding_row route) (w, l) = (Inr (), s1)"
    "bound_request env route rq profile = Inr bound" "bound"
    "expect_all ?db BINDING_MISMATCH c BINDING_MISMATCH AppliedMigrations (checksum_rows env) s1 = (Inr
        (), s2)"
    "fetch_one ?db BINDING_MISMATCH c (BoundPublication (kr_customer route) SEMANTIC_NAMESPACE
        (kr_profile_sha256 route)) s2
       = (Inr r, s3)" "s = s3"
    "\<not> (case r of None \<Rightarrow> True | Some r \<Rightarrow> \<not> row_equal (take 10 r) (publication_row route) \<or> \<not>
        counts_match r)"
    using assms unfolding bound_verifier_def by (auto elim!: andthen_InrE)
  obtain b w1 where b: "first_is b (binding_row route)" "s1 = (w1, l @ [Fetched c BoundIdentity b])"
    using v(1) by (rule expect_one_recordedE)
  obtain m w2 where m: "rows_equal m (checksum_rows env)" "s2 = (w2, (l @ [Fetched c BoundIdentity b])
      @ [Fetched c AppliedMigrations m])"
    using v(4)[unfolded b(2)] by (rule expect_all_recordedE)
  obtain p w3 where p: "r = (case p of [] \<Rightarrow> None | r # _ \<Rightarrow> Some r)" "s3 = (w3, ((l @ [Fetched c
      BoundIdentity b])
      @ [Fetched c AppliedMigrations m]) @ [Fetched c (BoundPublication (kr_customer route)
          SEMANTIC_NAMESPACE (kr_profile_sha256 route)) p])"
    using v(5)[unfolded m(2)] by (rule fetch_one_recordedE)
  have "p \<noteq> []" "published_row route (hd p)" using p(1) v(7) by (cases p; simp add: published_row_def)+
  with that[of b m p w3] v(2,3,6) b m p show thesis by simp
qed

text \<open>The statements of a search on a connection and what they answered.\<close>

definition search_statements ::
  "semantic_provider \<Rightarrow> knowledge_route \<Rightarrow> pystr \<Rightarrow> 'c \<Rightarrow> row list \<Rightarrow> row list \<Rightarrow> row list \<Rightarrow> row list
      \<Rightarrow> row list
     \<Rightarrow> ('p, 'c) statement_event list" where
  "search_statements p route namespace c b m q i a = map (SetOn c) (semantic_settings p) @
     [Fetched c BoundIdentity b, Fetched c AppliedMigrations m,
      Fetched c (BoundPublication (kr_customer route) SEMANTIC_NAMESPACE (kr_profile_sha256 route)) q,
      Fetched c DatabaseIdentity i, Fetched c (ActiveGeneration (sv_customer p) namespace) a]"

lemma semantic_body_recordedE:
  assumes "semantic_body env0 (recorded_driver db) (Some (bound_verifier env (recorded_driver db)
      route)) p rq values c (w, l)
      = (Inr ms, s)"
  obtains b m q i a w' tail where "bound_request env route rq (sv_profile p) = Inr True" "first_is b
      (binding_row route)"
    "rows_equal m (checksum_rows env)" "q \<noteq> []" "published_row route (hd q)" "i \<noteq> []" "hd i = [CText
        (sv_customer p)]"
    "s = (w', l @ search_statements p route (rq_namespace rq) c b m q i a @ tail)"
    "a = [] \<and> ms = [] \<and> tail = [] \<or> (\<exists>g pd rows. a \<noteq> [] \<and> hd a \<noteq> [] \<and> hd (hd a) = g
       \<and> profile_sha256 (re_embedding env0) (sv_profile p) = Inr pd
       \<and> tail = [RankedSemantic c (semantic_query_of env0 rq (sv_customer p) (sv_profile p) pd values g
           (sy_minimum_score (sv_policy p)) (rq_maximum_results rq)) rows] \<and> validated_matches env0
               rows = Inr ms)"
proof -
  let ?db = "recorded_driver db"
  obtain u1 s1 u2 s2 identity s3 active s4 where v:
    "apply_settings ?db SEMANTIC_MESSAGE c (semantic_settings p) (w, l) = (Inr u1, s1)"
    "bound_verifier env ?db route c rq (sv_profile p) s1 = (Inr u2, s2)"
    "fetch_one ?db SEMANTIC_MESSAGE c DatabaseIdentity s2 = (Inr identity, s3)"
    "identity = Some [CText (sv_customer p)]"
    "fetch_one ?db SEMANTIC_MESSAGE c (ActiveGeneration (sv_customer p) (rq_namespace rq)) s3 = (Inr
        active, s4)"
    and rest: "(case active of
       None \<Rightarrow> give []
     | Some r \<Rightarrow>
         andthen (first_cell SEMANTIC_MESSAGE r) (\<lambda>g.
         andthen (checked_or (StorageUnavailable SEMANTIC_MESSAGE)
           (profile_sha256 (re_embedding env0) (sv_profile p))) (\<lambda>pd.
         andthen (asked SEMANTIC_MESSAGE (kd_semantic ?db (c, semantic_query_of env0 rq (sv_customer p)
             (sv_profile p) pd
           values g (sy_minimum_score (sv_policy p)) (rq_maximum_results rq)))) (\<lambda>rows.
           checked_or (StorageUnavailable SEMANTIC_MESSAGE) (validated_matches env0 rows))))) s4 = (Inr
               ms, s)"
    using assms unfolding semantic_body_def option.case
    by (elim andthen_InrE) (rule that, assumption+, auto)
  obtain w1 where s1: "s1 = (w1, l @ map (SetOn c) (semantic_settings p))" using v(1) by (rule
      apply_settings_recordedE)
  obtain b m q w2 where s2: "bound_request env route rq (sv_profile p) = Inr True" "first_is b
      (binding_row route)"
    "rows_equal m (checksum_rows env)" "q \<noteq> []" "published_row route (hd q)"
    "s2 = (w2, (l @ map (SetOn c) (semantic_settings p)) @ [Fetched c BoundIdentity b, Fetched c
        AppliedMigrations m,
       Fetched c (BoundPublication (kr_customer route) SEMANTIC_NAMESPACE (kr_profile_sha256 route))
           q])"
    using v(2)[unfolded s1] by (rule bound_verifier_recordedE)
  obtain i w3 where s3: "identity = (case i of [] \<Rightarrow> None | r # _ \<Rightarrow> Some r)"
    "s3 = (w3, ((l @ map (SetOn c) (semantic_settings p)) @ [Fetched c BoundIdentity b, Fetched c
        AppliedMigrations m,
       Fetched c (BoundPublication (kr_customer route) SEMANTIC_NAMESPACE (kr_profile_sha256 route)) q])
       @ [Fetched c DatabaseIdentity i])"
    using v(3)[unfolded s2(6)] by (rule fetch_one_recordedE)
  have i: "i \<noteq> []" "hd i = [CText (sv_customer p)]" using s3(1) v(4) by (cases i; simp)+
  obtain a w4 where s4: "active = (case a of [] \<Rightarrow> None | r # _ \<Rightarrow> Some r)"
    "s4 = (w4, l @ search_statements p route (rq_namespace rq) c b m q i a)"
    using v(5)[unfolded s3(2)] by (rule fetch_one_recordedE) (simp add: search_statements_def)
  show thesis
  proof (cases a)
    case Nil
    then have "ms = []" "s = (w4, l @ search_statements p route (rq_namespace rq) c b m q i a @ [])"
      using s4 rest by simp_all
    with Nil s2 i show thesis by (intro that) auto
  next
    case (Cons r rs)
    obtain g pd rows where g: "first_cell SEMANTIC_MESSAGE r s4 = (Inr g, s4)" "profile_sha256
        (re_embedding env0) (sv_profile p) = Inr pd"
      "kd_semantic ?db (c, semantic_query_of env0 rq (sv_customer p) (sv_profile p) pd
           values g (sy_minimum_score (sv_policy p)) (rq_maximum_results rq)) s4 = (Inr rows, s)"
      "validated_matches env0 rows = Inr ms"
      using rest s4(1) Cons by (auto elim!: andthen_InrE simp: first_cell_def split: list.splits)
    have r: "r \<noteq> []" "hd r = g" using g(1) by (auto simp: first_cell_def split: list.splits)
    obtain w5 where "s = (w5, (l @ search_statements p route (rq_namespace rq) c b m q i a) @
      [RankedSemantic c (semantic_query_of env0 rq (sv_customer p) (sv_profile p) pd values g
           (sy_minimum_score (sv_policy p)) (rq_maximum_results rq)) rows])"
      using g(3) unfolding s4(2) by (auto simp: recording_Inr)
    with s2 i r g Cons show thesis by (intro that) auto
  qed
qed


lemma query_vector_keeps: "keeps snd (query_vector env (untraced embedder) profile revalidate iid m e
    query)"
  unfolding query_vector_def asked_def Let_def by (intro keeps_andthen keeps_pure keeps_attempt
      snd_untraced)

lemma validated_matches_InrD:
  assumes "validated_matches env rows = Inr ms"
  shows "list_all2 (\<lambda>r m. semantic_match env r = Inr m) rows ms" "length ms \<le> 5" "distinct (map
      km_chunk_id ms)"
    "distinct (map km_citation_id ms)" "sorted (map match_key ms)" "sum_list (map (length \<circ> km_content)
        ms) \<le> 12000"
  using assms unfolding validated_matches_def
  by (auto dest!: map_checked_InrD simp: SEMANTIC_MAXIMUM_RESULTS_def
      SEMANTIC_MAXIMUM_TOTAL_CONTENT_CHARACTERS_def
      elim!: bindE_InrE raise_if_InrE split: if_splits) (metis sorted_sort_key)+

lemma build_bundle_InrD:
  assumes "build_production_rag_bundle env routes customer profile policy = Inr b"
  shows "\<exists>r \<in> set routes. kr_customer r = customer \<and> validate_knowledge_route env r = Inr (bn_route b)
      \<and> sv_timeouts (bn_provider b) = Some (route_timeouts r)"
    "sv_customer (bn_provider b) = customer" "sv_profile (bn_provider b) = profile" "sv_policy
        (bn_provider b) = policy"
proof -
  obtain route where r: "find (\<lambda>r. kr_customer r = customer) routes = Some route"
    using assms by (auto simp: build_production_rag_bundle_def split: option.splits)
  then have "route \<in> set routes" "kr_customer route = customer" by (auto simp: find_Some_iff)
  moreover obtain route' p where "validate_knowledge_route env route = Inr route'"
    "make_semantic_provider (retrieval_env.truncate env) customer profile policy (Some (route_timeouts
        route)) = Inr p"
    "b = \<lparr>bn_provider = p, bn_route = route', bn_router = new_production_router\<rparr>"
    using assms r unfolding build_production_rag_bundle_def
    by (auto elim!: bindE_InrE raise_if_InrE split: if_splits)
  moreover from this(2) have "p = \<lparr>sv_customer = customer, sv_profile = profile, sv_policy = policy,
      sv_timeouts = Some (route_timeouts route)\<rparr>"
    unfolding make_semantic_provider_def by (auto elim!: bindE_InrE raise_if_InrE split: if_splits)
  ultimately show "\<exists>r \<in> set routes. kr_customer r = customer \<and> validate_knowledge_route env r = Inr
      (bn_route b)
      \<and> sv_timeouts (bn_provider b) = Some (route_timeouts r)"
    "sv_customer (bn_provider b) = customer" "sv_profile (bn_provider b) = profile" "sv_policy
        (bn_provider b) = policy"
    by (auto intro!: bexI[of _ route])
qed

text \<open>C5: A search of a bundle that answers did so in one transaction, on one connection of the pool of
    its
  customer, for a request of that customer: before it ranked anything it found the bound database, role
      and
  migrations, the pinned publication with all its embeddings and the customer's identity; it ranked the
  active generation for exactly the scope of the request, issued no other statement, and hands out at
      most
  five matches of the rows, each once, in order and within the content limit.\<close>

theorem semantic_search_bound:
  assumes "build_production_rag_bundle env routes customer profile policy = Inr b"
    and "bundle_retrieve env (recorded_driver db) (untraced embedder) (b\<lparr>bn_router := rt\<rparr>) request (w,
        [])
      = (Inr ms, (w', events))"
  shows "\<exists>rq pool c bound migrations publication identity active tail values.
    validate_request (re_lower (retrieval_env.truncate env)) request = Inr rq
    \<and> rq_customer_environment_id rq = customer \<and> kr_customer (bn_route b) = customer
    \<and> production_pool rt customer READER = Inr pool
    \<and> events = Connected pool c # search_statements (bn_provider b) (bn_route b) SEMANTIC_NAMESPACE c
        bound migrations publication identity active @ tail @ [Finished c True]
    \<and> first_is bound (binding_row (bn_route b)) \<and> rows_equal migrations (checksum_rows env)
    \<and> publication \<noteq> [] \<and> published_row (bn_route b) (hd publication)
    \<and> identity \<noteq> [] \<and> hd identity = [CText customer]
    \<and> (tail = [] \<and> ms = [] \<or> (\<exists>rows. active \<noteq> []
        \<and> tail = [RankedSemantic c (semantic_query_of (retrieval_env.truncate env) rq customer profile
            (kr_profile_sha256 (bn_route b)) values (hd (hd active)) (sy_minimum_score policy)
                (rq_maximum_results rq)) rows]
        \<and> list_all2 (\<lambda>r m. semantic_match (retrieval_env.truncate env) r = Inr m) rows ms))
    \<and> length ms \<le> 5 \<and> distinct (map km_chunk_id ms) \<and> distinct (map km_citation_id ms)
    \<and> sorted (map match_key ms) \<and> sum_list (map (length \<circ> km_content) ms) \<le> 12000"
proof -
  let ?env = "retrieval_env.truncate env" and ?p = "bn_provider b"
  note p = build_bundle_InrD(2-4)[OF assms(1)]
  obtain rq v s1 pool where r: "validate_request (re_lower ?env) request = Inr rq"
    "rq_customer_environment_id rq = sv_customer ?p"
    "query_vector ?env (untraced embedder) (sv_profile ?p) (revalidate_batch (re_embedding ?env))
        ''semantic_query''
       SEMANTIC_MESSAGE ''semantic query embedding is unavailable'' (rq_query rq) (w, []) = (Inr v, s1)"
    "production_pool rt (sv_customer ?p) READER = Inr pool"
    "knowledge_transaction (recorded_driver db) SEMANTIC_MESSAGE pool (semantic_body ?env
        (recorded_driver db)
       (Some (bound_verifier env (recorded_driver db) (bn_route b))) ?p rq (vx_values v)) s1 = (Inr ms,
           (w', events))"
    using assms(2) unfolding bundle_retrieve_def semantic_retrieve_def
    by (auto elim!: andthen_InrE simp: found_pool_def split: sum.splits)
  obtain w1 where s1: "s1 = (w1, [])"
    using r(3) query_vector_keeps[unfolded keeps_def] by (metis prod.collapse snd_conv)
  obtain c w2 w3 l2 w4 where t: "semantic_body ?env (recorded_driver db)
       (Some (bound_verifier env (recorded_driver db) (bn_route b))) ?p rq (vx_values v) c (w2,
           [Connected pool c]) = (Inr ms, (w3, l2))"
    "events = l2 @ [Finished c True]"
    using r(5)[unfolded s1] by (rule transaction_recordedE) simp
  from t(1) show ?thesis
  proof (rule semantic_body_recordedE)
    fix bd m q i a w5 tail
    assume h: "bound_request env (bn_route b) rq (sv_profile ?p) = Inr True" "first_is bd (binding_row
        (bn_route b))"
      "rows_equal m (checksum_rows env)" "q \<noteq> []" "published_row (bn_route b) (hd q)" "i \<noteq> []" "hd i =
          [CText (sv_customer ?p)]"
      "(w3, l2) = (w5, [Connected pool c] @ search_statements ?p (bn_route b) (rq_namespace rq) c bd m
          q i a @ tail)"
      "a = [] \<and> ms = [] \<and> tail = [] \<or> (\<exists>g pd rows. a \<noteq> [] \<and> hd a \<noteq> [] \<and> hd (hd a) = g
       \<and> profile_sha256 (re_embedding ?env) (sv_profile ?p) = Inr pd
       \<and> tail = [RankedSemantic c (semantic_query_of ?env rq (sv_customer ?p) (sv_profile ?p) pd
           (vx_values v) g
           (sy_minimum_score (sv_policy ?p)) (rq_maximum_results rq)) rows] \<and> validated_matches ?env
               rows = Inr ms)"
    have bound: "rq_customer_environment_id rq = kr_customer (bn_route b)" "rq_namespace rq =
        SEMANTIC_NAMESPACE"
      "profile_sha256 (re_embedding env) profile = Inr (kr_profile_sha256 (bn_route b))"
      using h(1) unfolding bound_request_def p by (auto elim!: bindE_InrE)
    have e: "re_embedding ?env = re_embedding env" by (simp add: retrieval_env.defs)
    have events: "events = Connected pool c # search_statements ?p (bn_route b) SEMANTIC_NAMESPACE c bd
        m q i a @ tail @ [Finished c True]"
      using t(2) h(8) bound(2) by simp
    show ?thesis
    proof (cases "a = []")
      case True
      then have "ms = []" "tail = []" using h(9) by auto
      with r(1,2,4) bound(1) events h(2-7) show ?thesis unfolding p
        by (intro exI[of _ rq] exI[of _ pool] exI[of _ c] exI[of _ bd] exI[of _ m] exI[of _ q] exI[of _
            i] exI[of _ a]
            exI[of _ tail] exI[of _ "vx_values v"]) simp
    next
      case False
      then obtain rows where "validated_matches ?env rows = Inr ms"
        "tail = [RankedSemantic c (semantic_query_of ?env rq customer profile (kr_profile_sha256
            (bn_route b)) (vx_values v)
           (hd (hd a)) (sy_minimum_score policy) (rq_maximum_results rq)) rows]"
        using h(9) bound(3) e unfolding p by auto
      with validated_matches_InrD[OF this(1)] False r(1,2,4) bound(1) events h(2-7) show ?thesis
          unfolding p
        by (intro exI[of _ rq] exI[of _ pool] exI[of _ c] exI[of _ bd] exI[of _ m] exI[of _ q] exI[of _
            i] exI[of _ a]
            exI[of _ tail] exI[of _ "vx_values v"]) auto
    qed
  qed
qed

section \<open>The life of a production router\<close>

text \<open>What the driver's pools promise, for the multiset of the open ones: creating adds one, opening and
  verifying change nothing, a close that succeeds removes it, and one that fails or is cancelled
      removes it or
  leaves it.\<close>

definition pool_contract ::
  "('w \<Rightarrow> 'p multiset) \<Rightarrow> ('p, 'w) knowledge_pools \<Rightarrow> ('p, 'w) pool_verifier \<Rightarrow> bool" where
  "pool_contract live po verify \<longleftrightarrow>
     (\<forall>a w. live (snd (kp_create po a w)) = add_mset (fst (kp_create po a w)) (live w))
     \<and> (\<forall>p w. live (snd (kp_open po p w)) = live w)
     \<and> (\<forall>p r w. live (snd (verify p r w)) = live w)
     \<and> (\<forall>p w. live (snd (kp_close po p w)) = live w - {#p#}
          \<or> fst (kp_close po p w) \<noteq> Inr () \<and> live (snd (kp_close po p w)) = live w)"

text \<open>The states of a router over the operations of its lifecycle, and whether every close of a pool has
  succeeded so far: an \<open>open\<close> whose clean-up fails stays in the opening phase, and a \<open>close\<close> reports
      the failure.
  Between two operations the world may change in any way that keeps the open pools.\<close>

inductive router_run ::
  "('w \<Rightarrow> 'p multiset) \<Rightarrow> ('p, 'w) knowledge_pools \<Rightarrow> ('p, 'w) pool_verifier \<Rightarrow> knowledge_route list \<Rightarrow> 'w
     \<Rightarrow> bool \<Rightarrow> 'p production_router \<Rightarrow> 'w \<Rightarrow> bool"
  for live po verify routes w0 where
  run_new: "router_run live po verify routes w0 True new_production_router w0"
| run_open: "router_run live po verify routes w0 ok rt w \<Longrightarrow>
     production_open po verify routes rt w = ((res, rt'), w') \<Longrightarrow>
     router_run live po verify routes w0 (ok \<and> pt_phase rt' \<noteq> RouterOpening) rt' w'"
| run_close: "router_run live po verify routes w0 ok rt w \<Longrightarrow>
     production_close po rt w = ((res, rt'), w') \<Longrightarrow>
     router_run live po verify routes w0 (ok \<and> res = Inr ()) rt' w'"
| run_other: "router_run live po verify routes w0 ok rt w \<Longrightarrow> live w' = live w \<Longrightarrow>
     router_run live po verify routes w0 ok rt w'"

definition verified_pool ::
  "('p, 'w) knowledge_pools \<Rightarrow> ('p, 'w) pool_verifier \<Rightarrow> knowledge_route \<Rightarrow> pystr \<times> 'p \<Rightarrow> bool" where
  "verified_pool po verify r q \<longleftrightarrow> fst q = kr_customer r
     \<and> (\<exists>a b c w. fst (kp_create po (kr_runtime_dsn r, a, b, c) w) = snd q)
     \<and> (\<exists>w. fst (verify (snd q) r w) = Inr ())"

lemma enter_new: "k \<notin> fst ` set ps \<Longrightarrow> enter_pool k p ps = ps @ [(k, p)]"
  by (simp add: enter_pool_def)

lemma open_knowledge_routes_run:
  assumes "pool_contract live po verify" and "distinct (map fst pools @ map kr_customer rs)"
    and "open_knowledge_routes po verify rs pools w = ((res, pools'), w')"
  shows "\<exists>qs. pools' = pools @ qs \<and> live w' = live w + mset (map snd qs)
    \<and> (res = Inr () \<longrightarrow> list_all2 (verified_pool po verify) rs qs)"
  using assms(2,3)
proof (induction rs arbitrary: pools w)
  case (Cons r rs)
  obtain p w1 where p: "kp_create po (kr_runtime_dsn r, kr_minimum_pool_size r, kr_maximum_pool_size r,
      Some (kr_connection_timeout r)) w = (p, w1)" by (rule prod.exhaust)
  have new: "enter_pool (kr_customer r) p pools = pools @ [(kr_customer r, p)]"
    using Cons.prems(1) by (intro enter_new) auto
  have l1: "live w1 = add_mset p (live w)" using assms(1) p unfolding pool_contract_def by (metis
      fst_conv snd_conv)
  obtain v w2 where v: "andthen (attempt id (kp_open po p)) (\<lambda>_. attempt id (verify p r)) w1 = (v, w2)"
    by (rule prod.exhaust)
  have "keeps live (andthen (attempt id (kp_open po p)) (\<lambda>_. attempt id (verify p r)))"
    using assms(1) unfolding pool_contract_def by (intro keeps_andthen keeps_attempt) blast+
  then have l2: "live w2 = add_mset p (live w)" using v l1 unfolding keeps_def by (metis snd_conv)
  show ?case
  proof (cases v)
    case (Inl x)
    then have "pools' = pools @ [(kr_customer r, p)]" "w' = w2" "res = Inl x"
      using Cons.prems(2) p v unfolding new[symmetric] by (simp_all add: Let_def)
    then show ?thesis using l2 by simp
  next
    case (Inr u)
    have "distinct (map fst (pools @ [(kr_customer r, p)]) @ map kr_customer rs)" using Cons.prems(1)
        by auto
    moreover have "open_knowledge_routes po verify rs (pools @ [(kr_customer r, p)]) w2 = ((res,
        pools'), w')"
      using Cons.prems(2) p new v Inr by (simp add: Let_def)
    ultimately obtain qs where qs: "pools' = (pools @ [(kr_customer r, p)]) @ qs" "live w' = live w2 +
        mset (map snd qs)"
      "res = Inr () \<longrightarrow> list_all2 (verified_pool po verify) rs qs" using Cons.IH by blast
    obtain w3 w4 where "verify p r w3 = (Inr u, w4)" using v Inr by (auto simp: andthen_Inr)
    then have "verified_pool po verify r (kr_customer r, p)"
      using p unfolding verified_pool_def by (auto intro!: exI[of _ w3]) (metis fst_conv)
    with qs l2 show ?thesis by (intro exI[of _ "(kr_customer r, p) # qs"]) auto
  qed
qed simp

text \<open>A clean-up closes the pools in order up to the first failure; all of them when it succeeds.\<close>

lemma each_pool_close:
  assumes "pool_contract live po verify" and "each_pool (kp_close po) ps w = (res, w')"
  shows "\<exists>k. live w' = live w - mset (take k ps) \<and> (res = Inr () \<longrightarrow> k = length ps)"
  using assms(2)
proof (induction ps arbitrary: w)
  case (Cons p ps)
  obtain c w1 where c: "kp_close po p w = (c, w1)" by (rule prod.exhaust)
  have l: "live w1 = live w - {#p#} \<or> c \<noteq> Inr () \<and> live w1 = live w"
    using assms(1) c unfolding pool_contract_def by (metis fst_conv snd_conv)
  show ?case
  proof (cases c)
    case (Inl x)
    then have "res = Inl x" "w' = w1" using Cons.prems c by auto
    with l show ?thesis by (metis Inl_Inr_False diff_zero mset.simps mset_single_iff take_0
        take_Suc_Cons)
  next
    case (Inr u)
    then have "each_pool (kp_close po) ps w1 = (res, w')" "live w1 = live w - {#p#}" using Cons.prems c
        l by auto
    then obtain k where "live w' = live w1 - mset (take k ps)" "res = Inr () \<longrightarrow> k = length ps" using
        Cons.IH by blast
    with \<open>live w1 = live w - {#p#}\<close> show ?thesis by (intro exI[of _ "Suc k"]) simp
  qed
qed simp

lemma close_reversed_live:
  assumes "pool_contract live po verify" and "close_reversed po pools w = (res, w')"
    and "live w = base + mset (map snd pools)"
  shows "\<exists>left. live w' = base + mset left \<and> mset left \<subseteq># mset (map snd pools) \<and> (res = Inr ()
      \<longrightarrow> left = [])"
proof -
  let ?ps = "rev (map snd pools)"
  obtain k where k: "live w' = live w - mset (take k ?ps)" "res = Inr () \<longrightarrow> k = length ?ps"
    using each_pool_close[OF assms(1) assms(2)[unfolded close_reversed_def]] by blast
  have split: "mset (map snd pools) = mset (take k ?ps) + mset (drop k ?ps)"
    by (metis append_take_drop_id mset_append mset_rev)
  then have "live w' = base + mset (drop k ?ps)" using k(1) assms(3) by simp
  with k(2) split show ?thesis by (intro exI[of _ "drop k ?ps"]) auto
qed

text \<open>The open pools are those the router holds and those a failed clean-up left; a clean-up is the last
  step of an \<open>open\<close> that fails, or of a \<open>close\<close>.\<close>

definition router_sound ::
  "('w \<Rightarrow> 'p multiset) \<Rightarrow> ('p, 'w) knowledge_pools \<Rightarrow> ('p, 'w) pool_verifier \<Rightarrow> knowledge_route list \<Rightarrow> 'w
     \<Rightarrow> bool \<Rightarrow> 'p production_router \<Rightarrow> 'w \<Rightarrow> bool" where
  "router_sound live po verify routes w0 ok rt w \<longleftrightarrow>
     (if pt_phase rt = RouterReady then list_all2 (verified_pool po verify) routes (pt_pools rt) else
         pt_pools rt = [])
     \<and> (\<exists>left. live w = live w0 + mset (map snd (pt_pools rt)) + mset left
          \<and> (ok \<or> pt_phase rt \<notin> {RouterOpening, RouterClosed} \<longrightarrow> left = []))
     \<and> (pt_phase rt = RouterOpening \<longrightarrow> \<not> ok)"

lemma open_sound:
  assumes "pool_contract live po verify" "distinct (map kr_customer routes)"
    "router_sound live po verify routes w0 ok rt w" "production_open po verify routes rt w = ((res,
        rt'), w')"
  shows "router_sound live po verify routes w0 (ok \<and> pt_phase rt' \<noteq> RouterOpening) rt' w'"
proof (cases "pt_phase rt = RouterCreated")
  case False
  then have "rt' = rt" "w' = w" using assms(4) by (auto simp: production_open_def split: if_splits)
  then show ?thesis using assms(3) by (auto simp: router_sound_def)
next
  case True
  then have e: "pt_pools rt = []" "live w = live w0" using assms(3) by (auto simp: router_sound_def)
  obtain r pools w1 where o: "open_knowledge_routes po verify routes [] w = ((r, pools), w1)" by (metis
      prod.exhaust)
  have l: "live w1 = live w0 + mset (map snd pools)" "r = Inr () \<longrightarrow> list_all2 (verified_pool po verify)
      routes pools"
    using open_knowledge_routes_run[OF assms(1) _ o] assms(2) e by auto
  show ?thesis
  proof (cases r)
    case (Inr u)
    then show ?thesis using assms(4) True o l by (auto simp: production_open_def router_sound_def)
  next
    case (Inl x)
    obtain c w2 where c: "close_reversed po pools w1 = (c, w2)" by (rule prod.exhaust)
    obtain left where "live w2 = live w0 + mset left" "c = Inr () \<longrightarrow> left = []"
      using close_reversed_live[OF assms(1) c l(1)] by blast
    then show ?thesis using assms(4) True o c e Inl
      by (cases c) (auto simp: production_open_def router_sound_def intro!: exI[of _ left])
  qed
qed

lemma close_sound:
  assumes "pool_contract live po verify" "router_sound live po verify routes w0 ok rt w"
    "production_close po rt w = ((res, rt'), w')"
  shows "router_sound live po verify routes w0 (ok \<and> res = Inr ()) rt' w'"
proof (cases "pt_phase rt = RouterClosed")
  case True
  then show ?thesis using assms(2,3) by (auto simp: production_close_def router_sound_def)
next
  case False
  obtain left where left: "live w = (live w0 + mset left) + mset (map snd (pt_pools rt))" "ok
      \<longrightarrow> left = []"
    using assms(2) by (auto simp: router_sound_def ac_simps)
  obtain c w1 where c: "close_reversed po (pt_pools rt) w = (c, w1)" by (rule prod.exhaust)
  obtain left' where "live w1 = live w0 + mset left + mset left'" "c = Inr () \<longrightarrow> left' = []"
    using close_reversed_live[OF assms(1) c left(1)] by blast
  then show ?thesis using assms(3) False c left(2)
    by (cases c) (auto simp: production_close_def router_sound_def intro!: exI[of _ "left @ left'"])
qed

lemma run_sound:
  assumes "router_run live po verify routes w0 ok rt w" "pool_contract live po verify" "distinct (map
      kr_customer routes)"
  shows "router_sound live po verify routes w0 ok rt w"
  using assms
proof (induction rule: router_run.induct)
  case run_new
  show ?case by (simp add: router_sound_def new_production_router_def)
next
  case (run_other ok rt w w')
  then show ?case by (simp add: router_sound_def)
qed (blast intro: open_sound close_sound)+

lemma validate_knowledge_config_InrD:
  "validate_knowledge_config env cfg = Inr routes \<Longrightarrow> distinct (map kr_customer routes)"
  unfolding validate_knowledge_config_def by (auto elim!: bindE_InrE raise_if_InrE split: if_splits)

text \<open>C7: Whatever operations open and close a production router, and whatever pools fail to close, a
    pool it
  hands out is a reader pool that was created with the DSN of exactly that customer's route and passed
      its
  verification, and every pool the router holds is open. As long as every close has succeeded, the open
      pools are
  those it holds, which are none unless it is ready; a pool that is open beyond them was left by a
      failed clean-up
  of a router that is since stuck opening or closed.\<close>

theorem production_router_sound:
  assumes "validate_knowledge_config env cfg = Inr routes" and "pool_contract live po verify"
    and "router_run live po verify routes w0 closes rt w"
  shows "(\<forall>customer access pool. production_pool rt customer access = Inr pool \<longrightarrow> access = READER
      \<and> (\<exists>r \<in> set routes. kr_customer r = customer \<and> verified_pool po verify r (customer, pool)))
    \<and> live w0 + mset (map snd (pt_pools rt)) \<subseteq># live w
    \<and> (closes \<or> pt_phase rt \<notin> {RouterOpening, RouterClosed} \<longrightarrow> live w = live w0 + mset (map snd
        (pt_pools rt)))
    \<and> (pt_phase rt \<noteq> RouterReady \<longrightarrow> pt_pools rt = [])"
proof -
  note s = run_sound[OF assms(3,2) validate_knowledge_config_InrD[OF assms(1)], unfolded
      router_sound_def]
  have "access = READER \<and> (\<exists>r \<in> set routes. kr_customer r = customer \<and> verified_pool po verify r
      (customer, pool))"
    if "production_pool rt customer access = Inr pool" for customer access pool
  proof -
    from that have "access = READER" "pt_phase rt = RouterReady" "map_of (pt_pools rt) customer = Some
        pool"
      by (auto simp: production_pool_def split: option.splits if_splits elim!: raise_if_InrE)
    moreover from this(3) obtain i where "i < length (pt_pools rt)" "pt_pools rt ! i = (customer, pool)"
      by (metis in_set_conv_nth map_of_SomeD)
    moreover have "list_all2 (verified_pool po verify) routes (pt_pools rt)" using s calculation(2) by
        simp
    ultimately have v: "access = READER" "routes ! i \<in> set routes" "verified_pool po verify (routes !
        i) (customer, pool)"
      by (auto dest: list_all2_nthD2 list_all2_lengthD)
    moreover from v(3) have "kr_customer (routes ! i) = customer" by (simp add: verified_pool_def)
    ultimately show ?thesis by blast
  qed
  then show ?thesis using s by (auto split: if_splits)
qed

section \<open>A sample database\<close>

definition sample_rag_env :: rag_env where
  "sample_rag_env = \<lparr>re_embedding = sample_embedding_env, re_nearest = id, re_component_text = \<lambda>_. lit
      ''1'',
     re_decimal = is_digit, rg_migration_bytes = \<lambda>_. []\<rparr>"

definition sample_knowledge_route :: knowledge_route where
  "sample_knowledge_route = \<lparr>kr_customer = lit ''c'', kr_database_name = lit ''db'',
      kr_database_identity = lit ''c'',
     kr_runtime_dsn = lit ''dsn'', kr_runtime_role = lit ''reader'', kr_extension_owner = lit ''owner'',
     kr_contract_version = lit ''1.0.0'', kr_contract_digest = replicate 64 49, kr_model_id = lit ''m'',
     kr_model_version = lit ''r'', kr_provider_id = lit ''tei'', kr_profile_sha256 = replicate 64 97,
         kr_dimensions = 1,
     kr_generation_id = 7, kr_generation_digest = replicate 64 50, kr_minimum_pool_size = 1,
         kr_maximum_pool_size = 5,
     kr_connection_timeout = 5, kr_statement_timeout_ms = 5000, kr_lock_timeout_ms = 2000,
     kr_idle_transaction_timeout_ms = 10000\<rparr>"

text \<open>The answers of a database that keeps the contract of the route.\<close>

definition contract_answer :: "rag_env \<Rightarrow> knowledge_route \<Rightarrow> catalog_query \<Rightarrow> row list" where
  "contract_answer env route q = (case q of
     ContractIdentity \<Rightarrow> [identity_row route 160004]
   | VectorExtension \<Rightarrow> [[CText (lit ''0.8.6''), CText (lit ''public''), CText (kr_extension_owner
       route)]]
   | VectorObjects \<Rightarrow> [[CInt 1, CInt 1]]
   | AppliedMigrations \<Rightarrow> checksum_rows env
   | RelationColumns _ \<Rightarrow> signature_rows
   | RegisteredProfile _ _ _ \<Rightarrow> [[CText (kr_model_id route), CText (kr_model_version route), CInt
       (kr_dimensions route)]]
   | ActivePublication _ _ _ \<Rightarrow> [take 6 (publication_row route)]
   | CreationPrivileges \<Rightarrow> [[CBool False, CBool False]]
   | RoleContract \<Rightarrow> [[CInt 0, CBool False, CInt 0, CInt 0, CInt 8]]
   | SelectedRelations \<Rightarrow> map (\<lambda>n. [CText n]) tenant_relations
   | MigrationAccess \<Rightarrow> [[CBool True, CBool True, CBool False, CBool False]]
   | RelationOwners _ \<Rightarrow> [[CText (kr_extension_owner route)]]
   | SequenceWrites \<Rightarrow> [[CInt 0]]
   | RowSecurity _ \<Rightarrow> rls_rows
   | RelationPolicies _ \<Rightarrow> map policy_row KNOWLEDGE_POLICIES
   | IndexContract \<Rightarrow> [[CInt 1, CInt 0]]
   | SchemaFunctions \<Rightarrow> function_rows route
   | DefaultPrivileges \<Rightarrow> [[CInt 0]]
   | BoundIdentity \<Rightarrow> [binding_row route]
   | BoundPublication _ _ _ \<Rightarrow> [publication_row route @ [CInt 1, CInt 1]]
   | DatabaseIdentity \<Rightarrow> [[CText (kr_customer route)]]
   | ActiveGeneration _ _ \<Rightarrow> [[CUuid (kr_generation_id route)]]
   | ActiveGenerationDigest _ _ \<Rightarrow> [[CUuid (kr_generation_id route), CText (kr_generation_digest route)]]
   | ReadySet _ _ _ _ _ \<Rightarrow> [[CText (replicate 64 97)]])"

text \<open>A driver whose connections are the pools themselves.\<close>

definition answering :: "(catalog_query \<Rightarrow> row list) \<Rightarrow> semantic_row list \<Rightarrow> ('p, 'p, 'w)
    knowledge_driver" where
  "answering answer rows = \<lparr>kd_connect = \<lambda>p w. (Inr p, w), kd_set = \<lambda>_ w. (Inr (), w),
     kd_fetch = \<lambda>(c, q) w. (Inr (answer q), w), kd_lexical = \<lambda>_ w. (Inr [], w), kd_semantic = \<lambda>_ w.
         (Inr rows, w),
     kd_finish = \<lambda>_ w. (Inr (), w)\<rparr>"

lemma answering_sel [simp]:
  "kd_connect (answering answer rows) p w = (Inr p, w)" "kd_set (answering answer rows) s w = (Inr (),
      w)"
  "kd_fetch (answering answer rows) (c, q) w = (Inr (answer q), w)"
  "kd_semantic (answering answer rows) mq w = (Inr rows, w)" "kd_finish (answering answer rows) f w =
      (Inr (), w)"
  by (simp_all add: answering_def)

lemma answering_snapshot: "snapshot (answering answer rows) c answer"
  by (simp add: snapshot_def)

lemma row_equal_refl [simp]: "row_equal r r"
  by (simp add: row_equal_def)

lemma rows_equal_refl [simp]: "rows_equal rs rs"
  by (simp add: rows_equal_def list_all2_same)

lemma contract_answer_met:
  "content_met env route (contract_answer env route)" "role_met route (contract_answer env route)"
  "isolation_met route (contract_answer env route)"
  by (simp_all add: content_met_def role_met_def isolation_met_def one_is_def all_are_def
      contract_answer_def rls_rows_def comp_def
      exI[of _ 160004] image_iff)

text \<open>The same database, but with one relation whose row security is not forced.\<close>

definition unforced_answer :: "rag_env \<Rightarrow> knowledge_route \<Rightarrow> catalog_query \<Rightarrow> row list" where
  "unforced_answer env route q = (case q of
     RowSecurity _ \<Rightarrow> [CText (lit ''active_generations''), CBool True, CBool False] # tl rls_rows
   | _ \<Rightarrow> contract_answer env route q)"

lemma unforced_not_met: "\<not> isolation_met route (unforced_answer env route)"
  by (simp add: isolation_met_def all_are_def unforced_answer_def rls_rows_def rows_equal_def
      row_equal_def tenant_relations_def
      KNOWLEDGE_READER_RELATIONS_def)

theorem contract_verified_exactly_witness:
  "fst (verify_knowledge_contract sample_rag_env (answering (contract_answer sample_rag_env
      sample_knowledge_route) []) ()
       sample_knowledge_route ()) = Inr ()
   \<and> fst (verify_knowledge_contract sample_rag_env (answering (unforced_answer sample_rag_env
       sample_knowledge_route) []) ()
       sample_knowledge_route ()) \<noteq> Inr ()"
  using contract_verified_exactly[of "answering (contract_answer sample_rag_env sample_knowledge_route)
      []" "()" "()" "()" "()"
      "contract_answer sample_rag_env sample_knowledge_route" "()" "()" sample_rag_env
          sample_knowledge_route]
    contract_verified_exactly[of "answering (unforced_answer sample_rag_env sample_knowledge_route) []"
        "()" "()" "()" "()"
      "unforced_answer sample_rag_env sample_knowledge_route" "()" "()" sample_rag_env
          sample_knowledge_route]
  by (simp add: answering_snapshot contract_answer_met unforced_not_met)

section \<open>A sample search\<close>

definition sample_semantic_row :: semantic_row where
  "sample_semantic_row = \<lparr>mw_chunk_id = lit ''a'', mw_document_id = 7, mw_citation_id = lit ''a'',
      mw_namespace = lit ''hr'',
     mw_source_type = lit ''product_documentation'', mw_customer_environment_id = None,
     mw_required_modules_all = [lit ''hr''], mw_required_permissions_all = [], mw_allowed_purposes =
         [lit ''self_service''],
     mw_legal_entity_ids = [], mw_data_classification = lit ''internal'', mw_language = lit ''en'',
         mw_title = lit ''T'',
     mw_section = lit ''S'', mw_document_version = lit ''1.0.0'', mw_effective_from = 0,
         mw_effective_to = None,
     mw_content = lit ''text'', sx_relevance_score = Some (Finite 1), sx_cosine_distance = Some (Finite
         0)\<rparr>"

definition sample_found :: knowledge_match where
  "sample_found = (sample_match ''a'' 1)\<lparr>km_document_id := uuid_str 7\<rparr>"

lemma hex_digits_range: "c \<in> set (hex_digits k n) \<Longrightarrow> 48 \<le> c \<and> c \<le> 102"
  by (induction k arbitrary: n) (auto simp: hex_digit_def split: if_splits)

lemma uuid_str_identifier: "is_identifier (uuid_str u)"
proof -
  have "c = 45 \<or> c \<in> set (uuid_hex u)" if "c \<in> set (uuid_str u)" for c
    using that unfolding uuid_str_def Let_def by (auto dest: in_set_takeD in_set_dropD)
  then have "c = 45 \<or> 48 \<le> c \<and> c \<le> 102" if "c \<in> set (uuid_str u)" for c
    using that hex_digits_range unfolding uuid_hex_def by blast
  then have "\<not> py_isspace c \<and> 31 < c \<and> c \<noteq> 127" if "c \<in> set (uuid_str u)" for c
    using that by (fastforce simp: py_isspace_def)
  moreover have l: "length (uuid_str u) = 36" by (simp add: uuid_str_def Let_def uuid_hex_def)
  moreover have "uuid_str u \<noteq> []" using l by (cases "uuid_str u") auto
  ultimately show ?thesis unfolding is_identifier_def list_all_iff by auto
qed

lemma sample_lower: "re_lower (retrieval_env.truncate sample_rag_env) = ascii_lower"
  by (simp add: re_lower_def retrieval_env.defs sample_rag_env_def sample_embedding_env_def
      sample_ingest_env_def)

lemma sample_semantic_match: "semantic_match (retrieval_env.truncate sample_rag_env)
    sample_semantic_row = Inr sample_found"
proof -
  have "match_of_row ascii_lower sample_semantic_row 1 = Inr sample_found"
    by (simp add: match_of_row_def sample_semantic_row_def source_type_of_def classification_of_def
        sample_found_def
        sample_match_def validate_match_def validate_identifier_id[OF uuid_str_identifier]
        unique_items_def unique_tuple_def canonical_semver_def re_dollar_def is_semver_def
            is_canonical_number_def
        language_code_def is_language_code_def is_language_tag_def display_text_300_def
            stripped_text_def knowledge_text_def
        plain_text_def min_length_1_def sample_text)
  then show ?thesis unfolding semantic_match_def sample_lower
    by (simp add: sample_semantic_row_def distance_to_score_def close_scores_def sample_rag_env_def
        retrieval_env.defs)
qed

definition sample_search :: retrieval_request where
  "sample_search = \<lparr>rq_namespace = lit ''hr'', rq_query = lit ''q'', rq_maximum_results = 5,
      rq_customer_environment_id = lit ''c'',
     rq_enabled_modules = [lit ''hr''], rq_permission_codes = [], rq_roles = [],
         rq_authorized_legal_entity_ids = [],
     rq_purpose = lit ''self_service'', rq_locale = lit ''en'', rq_effective_at = 5\<rparr>"

lemma sample_search_valid: "validate_request ascii_lower sample_search = Inr sample_search"
  by (simp add: validate_request_def sample_search_def knowledge_text_def plain_text_def
      unique_items_def unique_tuple_def
      language_code_def is_language_code_def is_language_tag_def sample_text)

definition sample_semantic_policy :: semantic_policy where
  "sample_semantic_policy = \<lparr>sy_namespace = lit ''hr'', sy_profile_sha256 = replicate 64 97,
      sy_minimum_score = 0,
     sy_policy_version = lit ''1.0.0''\<rparr>"

lemma sample_route_valid: "validate_knowledge_route sample_rag_env sample_knowledge_route = Inr
    sample_knowledge_route"
  by (simp add: validate_knowledge_route_def sample_knowledge_route_def knowledge_contract_digest_def
      rg_sha256_def
      sample_rag_env_def sample_embedding_env_def KNOWLEDGE_READ_CONTRACT_VERSION_def
          validate_identifier_def
      is_digest_def is_hex_def is_digit_def list_all_iff sample_text)

definition sample_provider :: semantic_provider where
  "sample_provider = \<lparr>sv_customer = lit ''c'', sv_profile = sample_embedding_profile,
     sv_policy = sample_semantic_policy, sv_timeouts = Some (5000, 2000, 10000)\<rparr>"

definition sample_rag_bundle :: "'p rag_bundle" where
  "sample_rag_bundle = \<lparr>bn_provider = sample_provider, bn_route = sample_knowledge_route, bn_router =
      new_production_router\<rparr>"

lemma sample_bundle_built:
  "build_production_rag_bundle sample_rag_env [sample_knowledge_route] (lit ''c'')
      sample_embedding_profile
     sample_semantic_policy = Inr sample_rag_bundle"
proof -
  have "validate_knowledge_config sample_rag_env [sample_knowledge_route] = Inr
      [sample_knowledge_route]"
    by (simp add: validate_knowledge_config_def sample_route_valid)
  moreover have "profile_sha256 (re_embedding sample_rag_env) sample_embedding_profile = Inr (replicate
      64 97)"
    using sample_embedding_profile_digest by (simp add: sample_rag_env_def)
  moreover have "make_semantic_provider (retrieval_env.truncate sample_rag_env) (lit ''c'')
      sample_embedding_profile
      sample_semantic_policy (Some (route_timeouts sample_knowledge_route)) = Inr sample_provider"
    using calculation(2) by (simp add: make_semantic_provider_def retrieval_env.defs
        sample_semantic_policy_def sample_provider_def
        SEMANTIC_NAMESPACE_def route_timeouts_def sample_knowledge_route_def)
  ultimately show ?thesis
    using sample_route_valid
    by (simp add: build_production_rag_bundle_def sample_rag_bundle_def sample_embedding_profile_def
        sample_knowledge_route_def)
qed


lemma sample_query_vector:
  "query_vector (retrieval_env.truncate sample_rag_env) (untraced sample_embedder)
      sample_embedding_profile
     (revalidate_batch (re_embedding (retrieval_env.truncate sample_rag_env))) ''semantic_query'' m e
         (lit ''q'') (w, l)
   = (Inr \<lparr>vx_input_id = lit ''semantic_query'', vx_values = [0x3FF0000000000000]\<rparr>, (w, l))"
proof -
  let ?v = "\<lparr>vx_input_id = lit ''semantic_query'', vx_values = [0x3FF0000000000000]\<rparr>"
  let ?i = "\<lparr>ei_input_id = lit ''semantic_query'', ei_text = lit ''q'', ei_content_sha256 = replicate
      64 49,
      ei_classification = INTERNAL, ei_kind = QUERY_INPUT\<rparr>"
  let ?r = "\<lparr>bx_profile_sha256 = replicate 64 97, bx_vectors = [?v]\<rparr>"
  have i: "embedded_query (retrieval_env.truncate sample_rag_env) ''semantic_query'' (lit ''q'') = Inr
      ?i"
    by (simp add: embedded_query_def retrieval_env.defs sample_rag_env_def sample_embedding_env_def
        validate_embedding_input_def
        validate_identifier_def knowledge_text_def plain_text_def validate_digest_def is_digest_def
            is_hex_def is_digit_def
        list_all_iff utf8_encodable_def sample_text)
  have b: "make_batch_request sample_embedding_profile [?i] = Inr \<lparr>bq_profile =
      sample_embedding_profile, bq_inputs = [?i]\<rparr>"
    by (simp add: make_batch_request_def)
  have e: "untraced sample_embedder \<lparr>bq_profile = sample_embedding_profile, bq_inputs = [?i]\<rparr> (w, l) =
      (Inr ?r, (w, l))"
    using sample_embedding_profile_digest by (simp add: untraced_def sample_embedder_def
        profile_digest_def)
  have r: "revalidate_batch (re_embedding (retrieval_env.truncate sample_rag_env)) ?r = Inr ?r"
    by (simp add: revalidate_batch_def retrieval_env.defs sample_rag_env_def make_vector_def
        finite_float32_def
        sample_embedding_env_def float_finite_def nonzero_float_def make_batch_result_def
            validate_identifier_def
        validate_digest_def is_digest_def is_hex_def is_digit_def list_all_iff sample_text)
  have p: "profile_sha256 (re_embedding (retrieval_env.truncate sample_rag_env))
      sample_embedding_profile = Inr (replicate 64 97)"
    using sample_embedding_profile_digest by (simp add: retrieval_env.defs sample_rag_env_def)
  show ?thesis unfolding query_vector_def i b p proc_simps Let_def
    using e r by (simp add: andthen_def asked_def attempt_def sample_embedding_profile_def)
qed

text \<open>A procedure that goes on with a value whatever was recorded before.\<close>

definition runs :: "('e, 'w \<times> 't list, 'a) proc \<Rightarrow> 'a \<Rightarrow> bool" where
  "runs m v \<longleftrightarrow> (\<forall>w l. \<exists>l'. m (w, l) = (Inr v, (w, l')))"

lemma runs_andthen: "runs m v \<Longrightarrow> runs (f v) u \<Longrightarrow> runs (andthen m f) u"
proof -
  assume a: "runs m v" "runs (f v) u"
  show ?thesis unfolding runs_def
  proof (intro allI)
    fix w l
    obtain l1 where "m (w, l) = (Inr v, (w, l1))" using a(1) unfolding runs_def by blast
    moreover obtain l2 where "f v (w, l1) = (Inr u, (w, l2))" using a(2) unfolding runs_def by blast
    ultimately show "\<exists>l'. andthen m f (w, l) = (Inr u, (w, l'))" by (simp add: andthen_def)
  qed
qed

lemma runs_pure: "runs (give v) v" "runs (Pair (Inr v)) v" "\<not> b \<Longrightarrow> runs (unless b e) ()" "m = Inr v
    \<Longrightarrow> runs (checked_or e m) v"
  by (auto simp: runs_def)

lemma runs_recording: "(\<And>w. oper x w = (Inr r, w)) \<Longrightarrow> runs (asked m (recording f oper x)) r"
  by (simp add: runs_def asked_def attempt_def recording_def)

lemma runs_settings: "runs (apply_settings (recorded_driver (answering answer rows)) m c ss) ()"
  by (induction ss) (auto intro!: runs_andthen runs_pure runs_recording)

lemma runs_fetch_all: "runs (fetch_all (recorded_driver (answering answer rows)) m c q) (answer q)"
  unfolding fetch_all_def recorded_sel by (intro runs_recording) simp

lemma runs_fetch_one:
  "runs (fetch_one (recorded_driver (answering answer rows)) m c q) (case answer q of [] \<Rightarrow> None | r # _
      \<Rightarrow> Some r)"
  unfolding fetch_one_def by (rule runs_andthen[OF runs_fetch_all runs_pure(1)])

lemma runs_expect_one:
  "one_is answer q r \<Longrightarrow> runs (expect_one (recorded_driver (answering answer rows)) m c e q r) ()"
  unfolding expect_one_def one_is_def
  by (rule runs_andthen[OF runs_fetch_one]) (auto intro!: runs_pure split: list.splits)

lemma runs_expect_all:
  "all_are answer q rs \<Longrightarrow> runs (expect_all (recorded_driver (answering answer rows)) m c e q rs) ()"
  unfolding expect_all_def all_are_def
  by (rule runs_andthen[OF runs_fetch_all]) (auto intro!: runs_pure)

lemma runs_transaction:
  assumes "runs (body p) v"
  shows "runs (knowledge_transaction (recorded_driver (answering answer rows)) m p body) v"
  unfolding runs_def
proof (intro allI)
  fix w l
  obtain l' where "body p (w, l @ [Connected p p]) = (Inr v, (w, l'))" using assms unfolding runs_def
      by blast
  then show "\<exists>l'. knowledge_transaction (recorded_driver (answering answer rows)) m p body (w, l) =
      (Inr v, (w, l'))"
    by (simp add: knowledge_transaction_def andthen_def asked_def attempt_def recording_def)
qed

lemma sample_bound:
  "runs (bound_verifier sample_rag_env (recorded_driver (answering (contract_answer sample_rag_env
      sample_knowledge_route) rows))
     sample_knowledge_route c sample_search sample_embedding_profile) ()"
proof -
  have r: "bound_request sample_rag_env sample_knowledge_route sample_search sample_embedding_profile =
      Inr True"
    using sample_embedding_profile_digest
    by (simp add: bound_request_def sample_rag_env_def sample_search_def sample_knowledge_route_def
        sample_embedding_profile_def
        SEMANTIC_NAMESPACE_def SEMANTIC_MAXIMUM_RESULTS_def)
  have p: "row_equal (take 10 (publication_row route @ [CInt 1, CInt 1])) (publication_row route)"
    "counts_match (publication_row route @ [CInt 1, CInt 1])" for route
    by (simp_all add: publication_row_def counts_match_def)
  show ?thesis unfolding bound_verifier_def
    by (rule runs_andthen[OF runs_expect_one] runs_andthen[OF runs_pure(4)[OF r]] runs_andthen[OF
        runs_pure(3)]
        runs_andthen[OF runs_expect_all] runs_andthen[OF runs_fetch_one] runs_pure(3)
      | simp add: one_is_def all_are_def contract_answer_def p del: take_append)+
qed

definition ready_router :: "unit production_router" where
  "ready_router = \<lparr>pt_pools = [(lit ''c'', ())], pt_phase = RouterReady\<rparr>"

definition sample_answers :: "(unit, unit, 'w) knowledge_driver" where
  "sample_answers = answering (contract_answer sample_rag_env sample_knowledge_route)
      [sample_semantic_row]"

lemma sample_validated:
  "validated_matches (retrieval_env.truncate sample_rag_env) [sample_semantic_row] = Inr [sample_found]"
  by (simp add: validated_matches_def sample_semantic_match SEMANTIC_MAXIMUM_RESULTS_def
      SEMANTIC_MAXIMUM_TOTAL_CONTENT_CHARACTERS_def sample_found_def sample_match_def lit_def)

lemma sample_body:
  "runs (semantic_body (retrieval_env.truncate sample_rag_env) (recorded_driver sample_answers)
     (Some (bound_verifier sample_rag_env (recorded_driver sample_answers) sample_knowledge_route))
         sample_provider
     sample_search values c) [sample_found]"
proof -
  have p: "profile_sha256 (re_embedding (retrieval_env.truncate sample_rag_env)) (sv_profile
      sample_provider)
      = Inr (replicate 64 97)"
    using sample_embedding_profile_digest by (simp add: retrieval_env.defs sample_rag_env_def
        sample_provider_def)
  have s: "sv_profile sample_provider = sample_embedding_profile" "sv_customer sample_provider = lit
      ''c''"
    "kr_customer sample_knowledge_route = lit ''c''"
    by (simp_all add: sample_provider_def sample_knowledge_route_def)
  have found: "runs (andthen (first_cell SEMANTIC_MESSAGE [CUuid u]) (\<lambda>g.
         andthen (checked_or (StorageUnavailable SEMANTIC_MESSAGE)
           (profile_sha256 (re_embedding (retrieval_env.truncate sample_rag_env)) (sv_profile
               sample_provider))) (\<lambda>pd.
         andthen (asked SEMANTIC_MESSAGE (kd_semantic (recorded_driver sample_answers) (c, q g pd)))
             (\<lambda>rows.
           checked_or (StorageUnavailable SEMANTIC_MESSAGE) (validated_matches (retrieval_env.truncate
               sample_rag_env) rows)))))
     [sample_found]" for q u
    unfolding recorded_sel p
    by (rule runs_andthen[of _ "CUuid u"] runs_andthen[of _ "replicate 64 97"] runs_andthen[of _
        "[sample_semantic_row]"]
        runs_recording runs_pure sample_validated refl | simp add: first_cell_def runs_pure
            sample_answers_def)+
  have a: "(case contract_answer sample_rag_env sample_knowledge_route (ActiveGeneration k ns) of []
      \<Rightarrow> None | r # _ \<Rightarrow> Some r)
      = Some [CUuid (kr_generation_id sample_knowledge_route)]" for k ns
    by (simp add: contract_answer_def)
  show ?thesis unfolding semantic_body_def option.case sample_answers_def
    by (rule runs_andthen[OF runs_settings], rule runs_andthen[OF sample_bound[folded s(1)]],
        rule runs_andthen[OF runs_fetch_one], rule runs_andthen[OF runs_pure(3)], simp add:
            contract_answer_def s,
        rule runs_andthen[OF runs_fetch_one], unfold a option.case, rule found[unfolded
            sample_answers_def])
qed

lemma sample_search_runs:
  fixes w :: 'w
  shows "\<exists>events. bundle_retrieve sample_rag_env (recorded_driver sample_answers) (untraced
      sample_embedder)
     (sample_rag_bundle\<lparr>bn_router := ready_router\<rparr>) sample_search (w, []) = (Inr [sample_found], (w,
         events))"
proof -
  have v: "validate_request (re_lower (retrieval_env.truncate sample_rag_env)) sample_search = Inr
      sample_search"
    by (simp add: sample_lower sample_search_valid)
  have pool: "production_pool ready_router (lit ''c'') READER = Inr ()"
    by (simp add: production_pool_def ready_router_def)
  have q: "rq_query sample_search = lit ''q''" "rq_customer_environment_id sample_search = lit ''c''"
    by (simp_all add: sample_search_def)
  have s: "sv_profile sample_provider = sample_embedding_profile" "sv_customer sample_provider = lit
      ''c''"
    "bn_route sample_rag_bundle = sample_knowledge_route" "bn_provider sample_rag_bundle =
        sample_provider"
    by (simp_all add: sample_provider_def sample_rag_bundle_def)
  have "runs (semantic_retrieve (retrieval_env.truncate sample_rag_env)
      (recorded_driver sample_answers :: (unit, unit, 'w \<times> (unit, unit) statement_event list)
          knowledge_driver)
      (production_pool ready_router) (untraced sample_embedder)
      (Some (bound_verifier sample_rag_env (recorded_driver sample_answers) sample_knowledge_route))
          sample_provider
      sample_search) [sample_found]"
    unfolding semantic_retrieve_def s(1,2) q
  proof (rule runs_andthen[OF runs_pure(4)[OF v]], unfold q, rule runs_andthen[OF runs_pure(3)], simp,
      rule runs_andthen)
    show "runs (query_vector (retrieval_env.truncate sample_rag_env) (untraced sample_embedder)
        sample_embedding_profile
        (revalidate_batch (re_embedding (retrieval_env.truncate sample_rag_env))) ''semantic_query''
            SEMANTIC_MESSAGE
        ''semantic query embedding is unavailable'' (lit ''q''))
      \<lparr>vx_input_id = lit ''semantic_query'', vx_values = [0x3FF0000000000000]\<rparr>"
      by (simp add: runs_def sample_query_vector)
    have body: "runs (knowledge_transaction (recorded_driver sample_answers) m () (semantic_body
        (retrieval_env.truncate sample_rag_env)
       (recorded_driver sample_answers) (Some (bound_verifier sample_rag_env (recorded_driver
           sample_answers) sample_knowledge_route))
       sample_provider sample_search vs)) [sample_found]" for m vs
      unfolding sample_answers_def by (rule runs_transaction) (rule sample_body[unfolded
          sample_answers_def])
    then show "runs (andthen (found_pool (production_pool ready_router) (lit ''c'')) (\<lambda>pool.
       knowledge_transaction (recorded_driver sample_answers) SEMANTIC_MESSAGE pool (semantic_body
         (retrieval_env.truncate sample_rag_env) (recorded_driver sample_answers)
         (Some (bound_verifier sample_rag_env (recorded_driver sample_answers) sample_knowledge_route))
         sample_provider sample_search
         (vx_values \<lparr>vx_input_id = lit ''semantic_query'', vx_values = [0x3FF0000000000000]\<rparr>))))
             [sample_found]"
      using pool by (intro runs_andthen[of _ "()"]) (simp_all add: found_pool_def runs_pure)
  qed
  then obtain l' where "semantic_retrieve (retrieval_env.truncate sample_rag_env) (recorded_driver
      sample_answers)
      (production_pool ready_router) (untraced sample_embedder)
      (Some (bound_verifier sample_rag_env (recorded_driver sample_answers) sample_knowledge_route))
          sample_provider
      sample_search (w, []) = (Inr [sample_found], (w, l'))" unfolding runs_def by blast
  then show ?thesis unfolding bundle_retrieve_def by (intro exI[of _ l']) (simp add: s(3,4))
qed

theorem semantic_search_bound_witness:
  "\<exists>events. bundle_retrieve sample_rag_env (recorded_driver sample_answers) (untraced sample_embedder)
     (sample_rag_bundle\<lparr>bn_router := ready_router\<rparr>) sample_search (0::nat, []) = (Inr [sample_found],
         (0, events))
   \<and> hd events = Connected () () \<and> last events = Finished () True"
proof -
  obtain events where r: "bundle_retrieve sample_rag_env (recorded_driver sample_answers) (untraced
      sample_embedder)
     (sample_rag_bundle\<lparr>bn_router := ready_router\<rparr>) sample_search (0::nat, []) = (Inr [sample_found],
         (0, events))"
    using sample_search_runs[of "0::nat"] by (rule exE)
  from semantic_search_bound[OF sample_bundle_built r]
  have "\<exists>pool c before. events = Connected pool c # before @ [Finished c True]"
    by (elim exE conjE) (intro exI, unfold append_assoc[symmetric], assumption)
  then have "hd events = Connected () () \<and> last events = Finished () True" by auto
  with r show ?thesis by (intro exI[of _ events]) simp
qed

section \<open>A sample router\<close>

definition sample_knowledge_pools :: "(pystr, pystr multiset) knowledge_pools" where
  "sample_knowledge_pools = \<lparr>kp_create = \<lambda>(dsn, _) w. (dsn, add_mset dsn w), kp_open = \<lambda>_ w. (Inr (),
      w),
     kp_close = \<lambda>p w. (Inr (), w - {#p#})\<rparr>"

definition sample_contract_verifier :: "(pystr, pystr multiset) pool_verifier" where
  "sample_contract_verifier = contract_verifier sample_rag_env (answering (contract_answer
      sample_rag_env sample_knowledge_route) [])"

lemma sample_verifier_accepts: "sample_contract_verifier p sample_knowledge_route w = (Inr (), w)"
proof -
  let ?a = "contract_answer sample_rag_env sample_knowledge_route"
  let ?db = "answering ?a [] :: (pystr, pystr, pystr multiset) knowledge_driver"
  have s: "snapshot ?db p ?a" by (rule answering_snapshot)
  have "andthen (verify_content sample_rag_env ?db sample_knowledge_route p)
      (\<lambda>_. andthen (verify_role ?db sample_knowledge_route p)
        (\<lambda>_. verify_isolation ?db sample_knowledge_route p)) = give ()"
    using decides_content[OF s, of sample_rag_env sample_knowledge_route] decides_role[OF s, of
        sample_knowledge_route]
      decides_isolation[OF s, of sample_knowledge_route]
    unfolding decides_def by (simp only: contract_answer_met if_True proc_simps(4))
  then show ?thesis
    unfolding sample_contract_verifier_def contract_verifier_def verify_knowledge_contract_def
      transaction_connected[OF answering_sel(1)] apply_settings_snapshot[OF s] proc_simps(4) by simp
qed

lemma sample_pool_contract: "pool_contract id sample_knowledge_pools sample_contract_verifier"
proof -
  let ?a = "contract_answer sample_rag_env sample_knowledge_route"
  let ?db = "answering ?a [] :: (pystr, pystr, pystr multiset) knowledge_driver"
  have "snd (verify_knowledge_contract sample_rag_env ?db p r w) = w" for p r w
  proof -
    have s: "snapshot ?db p ?a" by (rule answering_snapshot)
    obtain b where "decides (andthen (verify_content sample_rag_env ?db r p)
        (\<lambda>_. andthen (verify_role ?db r p) (\<lambda>_. verify_isolation ?db r p))) b"
      using decides_andthen[OF decides_content[OF s] decides_andthen[OF decides_role[OF s]
          decides_isolation[OF s]]] by blast
    then show ?thesis
      unfolding verify_knowledge_contract_def transaction_connected[OF answering_sel(1)]
          apply_settings_snapshot[OF s] proc_simps(4)
      unfolding decides_def by (auto split: if_splits)
  qed
  then show ?thesis
    by (auto simp: pool_contract_def sample_knowledge_pools_def sample_contract_verifier_def
        contract_verifier_def split: prod.splits sum.splits)
      (metis snd_conv)+
qed

theorem production_router_sound_witness:
  "\<exists>rt. production_open sample_knowledge_pools sample_contract_verifier [sample_knowledge_route]
      new_production_router {#}
       = ((Inr (), rt), {#lit ''dsn''#})
     \<and> production_pool rt (lit ''c'') READER = Inr (lit ''dsn'')
     \<and> verified_pool sample_knowledge_pools sample_contract_verifier sample_knowledge_route (lit ''c'',
         lit ''dsn'')"
proof -
  let ?rt = "\<lparr>pt_pools = [(lit ''c'', lit ''dsn'')], pt_phase = RouterReady\<rparr>"
  have o: "production_open sample_knowledge_pools sample_contract_verifier [sample_knowledge_route]
      new_production_router {#}
       = ((Inr (), ?rt), {#lit ''dsn''#})"
    using sample_verifier_accepts
    by (simp add: production_open_def new_production_router_def sample_knowledge_pools_def
        sample_knowledge_route_def
        enter_pool_def Let_def andthen_def attempt_def)
  have v: "validate_knowledge_config sample_rag_env [sample_knowledge_route] = Inr
      [sample_knowledge_route]"
    by (simp add: validate_knowledge_config_def sample_route_valid)
  have p: "production_pool ?rt (lit ''c'') READER = Inr (lit ''dsn'')" by (simp add:
      production_pool_def)
  from production_router_sound[OF v sample_pool_contract run_open[OF run_new o]] p
  have "verified_pool sample_knowledge_pools sample_contract_verifier sample_knowledge_route (lit
      ''c'', lit ''dsn'')" by auto
  with o p show ?thesis by blast
qed

end
