(* ===== verification/SelectionProperties.thy ===== *)
theory SelectionProperties
  imports RetrievalProperties KnowledgeStore
begin

text \<open>
  The conditions and the order of the ranking statements over the chunk table, and how they fit the
  decoding of the rows and the checks of the search tool.
\<close>

section \<open>The ranking statements over the chunk table\<close>

text \<open>The columns of a chunk. A database holds the rows of one customer.\<close>

definition columns_of_chunk :: "chunk_row \<Rightarrow> match_row" where
  "columns_of_chunk r = (let c = cw_chunk r in
     \<lparr>mw_chunk_id = pc_chunk_id c, mw_document_id = gv_document_id c, mw_citation_id = pc_citation_id c,
      mw_namespace = gv_namespace c, mw_source_type = source_type_value (gv_source_type c),
      mw_customer_environment_id = gv_customer_environment_id c, mw_required_modules_all =
          gv_required_modules_all c,
      mw_required_permissions_all = gv_required_permissions_all c, mw_allowed_purposes =
          gv_allowed_purposes c,
      mw_legal_entity_ids = gv_legal_entity_ids c, mw_data_classification = classification_value
          (gv_data_classification c),
      mw_language = gv_language c, mw_title = gv_title c, mw_section = pc_heading c,
      mw_document_version = gv_document_version c, mw_effective_from = zt_instant (gv_effective_from c),
      mw_effective_to = map_option zt_instant (gv_effective_to c), mw_content = pc_content c\<rparr>)"

text \<open>The conditions both statements share: \<open><@\<close> is set inclusion, \<open>= ANY\<close> is membership.\<close>

definition in_scope :: "pystr \<Rightarrow> 'x scope_query_scheme \<Rightarrow> chunk_row \<Rightarrow> bool" where
  "in_scope customer q r \<longleftrightarrow> (let c = cw_chunk r in
     customer = sq_customer q \<and> CUuid (cw_generation_id r) = sq_generation q \<and> gv_namespace c =
         sq_namespace q
     \<and> (gv_source_type c = PRODUCT_DOCUMENTATION
        \<or> gv_source_type c = CUSTOMER_POLICY \<and> gv_customer_environment_id c = Some (sq_customer q))
     \<and> set (gv_required_modules_all c) \<subseteq> set (sq_enabled_modules q)
     \<and> set (gv_required_permissions_all c) \<subseteq> set (sq_permission_codes q)
     \<and> sq_purpose q \<in> set (gv_allowed_purposes c)
     \<and> set (gv_legal_entity_ids c) \<subseteq> set (sq_legal_entity_ids q)
     \<and> zt_instant (gv_effective_from c) \<le> sq_effective_at q
     \<and> (case gv_effective_to c of None \<Rightarrow> True | Some t \<Rightarrow> sq_effective_at q < zt_instant t)
     \<and> classification_rank (gv_data_classification c) \<le> 2)"

text \<open>\<open>greatest(0, least(1, 1 - cosine_distance / 2))\<close> of doubles.\<close>

definition sql_score :: "retrieval_env \<Rightarrow> rat \<Rightarrow> rat" where
  "sql_score env d = max 0 (min 1 (re_nearest env (1 - re_nearest env (d / 2))))"

text \<open>The table of embeddings gives a chunk its distance from the query vector, when it has an
    embedding; whether
  the set of the profile is ready and complete is the condition of the first common table expression.\<close>

record ranking_tables =
  tb_customer :: pystr
  tb_chunks :: "chunk_row list"
  tb_ready :: "cell \<Rightarrow> pystr \<Rightarrow> bool"
  tb_distance :: "pystr \<Rightarrow> pystr \<Rightarrow> rat option"

definition semantic_selected :: "retrieval_env \<Rightarrow> ranking_tables \<Rightarrow> semantic_query \<Rightarrow> chunk_row
    \<Rightarrow> bool" where
  "semantic_selected env t q r \<longleftrightarrow> tb_ready t (sq_generation q) (mq_profile_sha256 q) \<and> in_scope
      (tb_customer t) q r
     \<and> classification_value (gv_data_classification (cw_chunk r)) \<in> set (mq_classifications q)
     \<and> (case tb_distance t (mq_vector q) (pc_chunk_id (cw_chunk r)) of
          None \<Rightarrow> False | Some d \<Rightarrow> 0 \<le> d \<and> d \<le> 2 \<and> mq_minimum_score q \<le> sql_score env d)"

definition chunk_distance :: "ranking_tables \<Rightarrow> semantic_query \<Rightarrow> chunk_row \<Rightarrow> rat" where
  "chunk_distance t q r = the (tb_distance t (mq_vector q) (pc_chunk_id (cw_chunk r)))"

definition distance_key :: "ranking_tables \<Rightarrow> semantic_query \<Rightarrow> chunk_row \<Rightarrow> rat \<times> pystr" where
  "distance_key t q r = (chunk_distance t q r, pc_chunk_id (cw_chunk r))"

definition semantic_row_of :: "retrieval_env \<Rightarrow> ranking_tables \<Rightarrow> semantic_query \<Rightarrow> chunk_row \<Rightarrow>
    semantic_row" where
  "semantic_row_of env t q r = match_row.extend (columns_of_chunk r)
     \<lparr>sx_relevance_score = Some (Finite (sql_score env (chunk_distance t q r))),
      sx_cosine_distance = Some (Finite (chunk_distance t q r))\<rparr>"

definition ranked_chunks :: "retrieval_env \<Rightarrow> ranking_tables \<Rightarrow> semantic_query \<Rightarrow> chunk_row list" where
  "ranked_chunks env t q =
     take (sq_limit q) (sort_key (distance_key t q) (filter (semantic_selected env t q) (tb_chunks t)))"

definition semantic_rows :: "retrieval_env \<Rightarrow> ranking_tables \<Rightarrow> semantic_query \<Rightarrow> semantic_row list" where
  "semantic_rows env t q = map (semantic_row_of env t q) (ranked_chunks env t q)"

section \<open>The selection and the checks of the search tool\<close>

text \<open>The match of a chunk as it is stored.\<close>

definition stored_match :: "chunk_row \<Rightarrow> rat \<Rightarrow> knowledge_match" where
  "stored_match r score = (let c = cw_chunk r in
     \<lparr>km_chunk_id = pc_chunk_id c, km_document_id = uuid_str (gv_document_id c), km_citation_id =
         pc_citation_id c,
      km_namespace = gv_namespace c, km_source_type = gv_source_type c,
      km_customer_environment_id = gv_customer_environment_id c, km_required_modules_all =
          gv_required_modules_all c,
      km_required_permissions_all = gv_required_permissions_all c, km_allowed_purposes =
          gv_allowed_purposes c,
      km_legal_entity_ids = gv_legal_entity_ids c, km_data_classification = gv_data_classification c,
      km_language = gv_language c, km_title = gv_title c, km_section = pc_heading c,
      km_document_version = gv_document_version c, km_effective_from = zt_instant (gv_effective_from c),
      km_effective_to = map_option zt_instant (gv_effective_to c), km_content = pc_content c,
          km_relevance_score = score\<rparr>)"

text \<open>What a publication stores: a prepared chunk that validates as it is, whose customer fits its
    source type.\<close>

definition published_chunk :: "(pystr \<Rightarrow> pystr) \<Rightarrow> chunk_row \<Rightarrow> bool" where
  "published_chunk lower r \<longleftrightarrow> validate_prepared_chunk lower (cw_chunk r) = Inr (cw_chunk r)
     \<and> (gv_source_type (cw_chunk r) = PRODUCT_DOCUMENTATION \<longrightarrow> gv_customer_environment_id (cw_chunk r) =
         None)"

text \<open>What the contract of a match asks beyond that: scope values without duplicates and at least one
    purpose, a
  title and a heading of at most 300 characters, a content of at most 4000 that is not blank, and a
      validity
  that does not end before it starts.\<close>

definition chunk_servable :: "chunk_row \<Rightarrow> bool" where
  "chunk_servable r \<longleftrightarrow> (let c = cw_chunk r in
     distinct (gv_required_modules_all c) \<and> distinct (gv_required_permissions_all c)
     \<and> distinct (gv_allowed_purposes c) \<and> gv_allowed_purposes c \<noteq> [] \<and> distinct (gv_legal_entity_ids c)
     \<and> py_strip (gv_title c) \<noteq> [] \<and> length (py_strip (gv_title c)) \<le> 300
     \<and> py_strip (pc_heading c) \<noteq> [] \<and> length (py_strip (pc_heading c)) \<le> 300
     \<and> py_strip (pc_content c) \<noteq> [] \<and> length (pc_content c) \<le> 4000
     \<and> (\<forall>t. gv_effective_to c = Some t \<longrightarrow> zt_instant (gv_effective_from c) \<le> zt_instant t))"

text \<open>The match that is served for it: the stored fields, the title and the heading without the blanks
    around them.\<close>

definition served_match :: "chunk_row \<Rightarrow> rat \<Rightarrow> knowledge_match" where
  "served_match r s = (stored_match r s)\<lparr>km_title := py_strip (gv_title (cw_chunk r)),
     km_section := py_strip (pc_heading (cw_chunk r))\<rparr>"

lemma source_type_of_value [simp]: "source_type_of (source_type_value s) = Inr s"
  by (cases s) (simp_all add: source_type_of_def source_type_value_def lit_def)

lemma classification_of_value [simp]: "classification_of (classification_value c) = Inr c"
  by (cases c) (simp_all add: classification_of_def classification_value_def lit_def)

lemma match_of_columns:
  "match_of_row lower (columns_of_chunk r) s = validate_match lower (stored_match r s)"
  by (simp add: match_of_row_def columns_of_chunk_def stored_match_def Let_def)

lemma match_of_semantic_row: "match_of_row lower (semantic_row_of env t q r) s = match_of_row lower
    (columns_of_chunk r) s"
  by (simp add: match_of_row_def semantic_row_of_def match_row.defs)

text \<open>C9: For a chunk of the searched generation whose customer fits its source type, the conditions of
    the ranking
  statements select exactly the chunks the search tool would accept from a provider, save one whose
      validity ends
  at the very instant of the request, which only the tool would accept.\<close>

theorem selection_matches_handler:
  assumes "gv_source_type (cw_chunk r) = PRODUCT_DOCUMENTATION \<longrightarrow> gv_customer_environment_id (cw_chunk
      r) = None"
  shows "in_scope (customer_environment_id c) (scope_of (knowledge_request c query)
      (customer_environment_id c)
      (CUuid (cw_generation_id r)) limit) r
    \<longleftrightarrow> check_match c None (stored_match r s) = Inr () \<and> km_effective_to (stored_match r s) \<noteq> Some
        (issued_at c)"
  using assms unfolding check_match_Inr
  by (cases "gv_source_type (cw_chunk r)"; cases "gv_effective_to (cw_chunk r)")
    (auto simp: in_scope_def Let_def scope_of_def knowledge_request_def match_visible_def
        stored_match_def
      less_eq_data_classification_def)

section \<open>What a search serves\<close>

text \<open>What a rounding to the nearest double keeps: the order, zero and one.\<close>

definition is_rounding :: "(rat \<Rightarrow> rat) \<Rightarrow> bool" where
  "is_rounding f \<longleftrightarrow> (\<forall>a b. a \<le> b \<longrightarrow> f a \<le> f b) \<and> f 0 = 0 \<and> f 1 = 1"

lemma score_bounds:
  assumes "is_rounding (re_nearest env)" "0 \<le> d" "d \<le> 2"
  shows "distance_to_score env (Some (Finite d)) = Inr (sql_score env d)" "0 \<le> sql_score env d"
      "sql_score env d \<le> 1"
    "re_nearest env (1 - re_nearest env (d / 2)) = sql_score env d"
proof -
  let ?f = "re_nearest env"
  have f: "\<And>a b. a \<le> b \<Longrightarrow> ?f a \<le> ?f b" "?f 0 = 0" "?f 1 = 1" using assms(1) by (auto simp:
      is_rounding_def)
  have "0 \<le> ?f (d / 2)" "?f (d / 2) \<le> 1" using f(1)[of 0 "d / 2"] f(1)[of "d / 2" 1] f(2,3) assms(2,3)
      by simp_all
  then have "0 \<le> ?f (1 - ?f (d / 2))" "?f (1 - ?f (d / 2)) \<le> 1"
    using f(1)[of 0 "1 - ?f (d / 2)"] f(1)[of "1 - ?f (d / 2)" 1] f(2,3) by simp_all
  then show "distance_to_score env (Some (Finite d)) = Inr (sql_score env d)" "0 \<le> sql_score env d"
      "sql_score env d \<le> 1"
    "?f (1 - ?f (d / 2)) = sql_score env d"
    using assms(2,3) by (simp_all add: distance_to_score_def sql_score_def)
qed

lemmas checked_Inr = bindE_Inr_iff raise_if_Inr_iff

lemma opaque_identifier: "validate_opaque_id s = Inr t \<Longrightarrow> validate_identifier s = Inr s"
proof -
  assume "validate_opaque_id s = Inr t"
  then have "is_opaque_id s" by (auto simp: validate_opaque_id_def elim!: raise_if_InrE)
  then obtain p where p: "p \<in> {lit ''chk_'', lit ''cite_''}" "take (length p) s = p" "length s = length
      p + 32"
    "list_all is_hex (drop (length p) s)"
    unfolding is_opaque_id_def by blast
  let ?ok = "\<lambda>c. \<not> py_isspace c \<and> 31 < c \<and> c \<noteq> 127"
  have "list_all ?ok (drop (length p) s)"
    by (rule list.pred_mono_strong[OF p(4)]) (auto simp: is_hex_def is_digit_def py_isspace_def)
  moreover have "list_all ?ok p" using p(1) by (auto simp: lit_def py_isspace_def)
  ultimately have "list_all ?ok (p @ drop (length p) s)" by simp
  then have "list_all ?ok s" using append_take_drop_id[of "length p" s] unfolding p(2) by simp
  moreover have "length p \<le> 5" using p(1) by (auto simp: lit_def)
  ultimately show ?thesis using p(3) by (intro validate_identifier_id) (auto simp: is_identifier_def)
qed

lemma validate_match_exactly:
  assumes "published_chunk lower r" "0 \<le> s" "s \<le> 1"
  shows "validate_match lower (stored_match r s) = Inr m \<longleftrightarrow> chunk_servable r \<and> m = served_match r s"
proof -
  let ?c = "cw_chunk r"
  have v: "validate_prepared_chunk lower ?c = Inr ?c" using assms(1) by (simp add: published_chunk_def)
  note f = validate_prepared_chunk_Inr[OF v]
  have content: "knowledge_text (pc_content ?c) = Inr t
      \<longleftrightarrow> t = pc_content ?c \<and> py_strip (pc_content ?c) \<noteq> [] \<and> length (pc_content ?c) \<le> 4000" for t
    by (cases "pc_content ?c = []") (auto simp: knowledge_text_def plain_text_def py_strip_def
        py_rstrip_def Suc_le_eq
        elim!: raise_if_InrE)
  have display: "display_text_300 x = Inr t \<longleftrightarrow> t = py_strip x \<and> py_strip x \<noteq> [] \<and> length (py_strip x)
      \<le> 300" for x t
    by (auto simp: display_text_300_def stripped_text_Inr Suc_le_eq)
  have unique: "unique_items g xs = Inr ys \<longleftrightarrow> distinct xs \<and> map_checked g xs = Inr ys"
    for g :: "pystr \<Rightarrow> pystr checked" and xs ys
    by (auto simp: unique_items_def unique_tuple_def checked_Inr)
  have least: "min_length_1 xs = Inr ys \<longleftrightarrow> xs \<noteq> [] \<and> ys = xs" for xs ys :: "pystr list"
    by (auto simp: min_length_1_def)
  show ?thesis
    unfolding validate_match_def checked_Inr unique least display
    using assms(2,3) opaque_identifier[OF f(1)] opaque_identifier[OF f(2)] f(3,6,9-14)
      validate_identifier_id[OF uuid_str_identifier]
    by (cases "gv_effective_to ?c")
      (auto simp: stored_match_def served_match_def chunk_servable_def Let_def not_less content)
qed

lemma semantic_match_served:
  assumes "is_rounding (re_nearest env)" "published_chunk (re_lower env) r" "0 \<le> chunk_distance t q r"
      "chunk_distance t q r \<le> 2"
  shows "semantic_match env (semantic_row_of env t q r) = Inr m
    \<longleftrightarrow> chunk_servable r \<and> m = served_match r (sql_score env (chunk_distance t q r))"
proof -
  note s = score_bounds[OF assms(1,3,4)]
  have "sx_cosine_distance (semantic_row_of env t q r) = Some (Finite (chunk_distance t q r))"
    "sx_relevance_score (semantic_row_of env t q r) = Some (Finite (sql_score env (chunk_distance t q
        r)))"
    by (simp_all add: semantic_row_of_def match_row.defs)
  then show ?thesis using s(1) validate_match_exactly[OF assms(2) s(2,3)]
    by (simp add: semantic_match_def close_scores_def match_of_semantic_row match_of_columns)
qed

text \<open>The keys of the chunk table: within a generation the chunk identifiers and the citation
    identifiers are unique.\<close>

definition table_keys :: "chunk_row list \<Rightarrow> bool" where
  "table_keys rows \<longleftrightarrow> (\<forall>g. distinct (map (pc_chunk_id \<circ> cw_chunk) (filter (\<lambda>r. cw_generation_id r = g)
      rows))
     \<and> distinct (map (pc_citation_id \<circ> cw_chunk) (filter (\<lambda>r. cw_generation_id r = g) rows)))"

text \<open>The double of the score tells the distances of the selected chunks apart.\<close>

definition scores_apart :: "retrieval_env \<Rightarrow> ranking_tables \<Rightarrow> semantic_query \<Rightarrow> bool" where
  "scores_apart env t q \<longleftrightarrow> (\<forall>r \<in> set (ranked_chunks env t q). \<forall>r' \<in> set (ranked_chunks env t q).
     chunk_distance t q r < chunk_distance t q r' \<longrightarrow>
     sql_score env (chunk_distance t q r') < sql_score env (chunk_distance t q r))"

definition served_matches :: "retrieval_env \<Rightarrow> ranking_tables \<Rightarrow> semantic_query \<Rightarrow> knowledge_match list"
    where
  "served_matches env t q = map (\<lambda>r. served_match r (sql_score env (chunk_distance t q r)))
      (ranked_chunks env t q)"

lemma distinct_map_filter_sub:
  assumes "distinct (map f (filter P xs))" "\<And>x. Q x \<Longrightarrow> P x"
  shows "distinct (map f (take n (sort_key k (filter Q xs))))"
proof -
  have "filter Q xs = filter Q (filter P xs)" using assms(2) by (auto simp: filter_filter intro:
      filter_cong)
  then have "distinct (map f (filter Q xs))" using distinct_map_filter[OF assms(1), of Q] by simp
  then have "distinct (filter Q xs)" "inj_on f (set (filter Q xs))" by (auto simp: distinct_map)
  then have "distinct (take n (sort_key k (filter Q xs)))" "inj_on f (set (take n (sort_key k (filter Q
      xs))))"
    using set_take_subset[of n "sort_key k (filter Q xs)"] by (auto intro: inj_on_subset distinct_take)
  then show ?thesis by (simp add: distinct_map)
qed

lemma ranked_selected: "r \<in> set (ranked_chunks env t q) \<Longrightarrow> r \<in> set (tb_chunks t) \<and> semantic_selected env
    t q r"
  unfolding ranked_chunks_def by (auto dest!: in_set_takeD)

lemma selected_distance:
  "semantic_selected env t q r \<Longrightarrow> 0 \<le> chunk_distance t q r \<and> chunk_distance t q r \<le> 2"
  by (auto simp: semantic_selected_def chunk_distance_def split: option.splits)

lemma selected_generation: "semantic_selected env t q r \<Longrightarrow> CUuid (cw_generation_id r) = sq_generation q"
  by (simp add: semantic_selected_def in_scope_def Let_def)

lemma ranked_distinct:
  assumes "table_keys (tb_chunks t)"
  shows "distinct (map (pc_chunk_id \<circ> cw_chunk) (ranked_chunks env t q))"
    "distinct (map (pc_citation_id \<circ> cw_chunk) (ranked_chunks env t q))"
proof -
  have "distinct (map f (ranked_chunks env t q))"
    if f: "\<And>g. distinct (map f (filter (\<lambda>r. cw_generation_id r = g) (tb_chunks t)))" for f ::
        "chunk_row \<Rightarrow> pystr"
  proof (cases "\<exists>r. semantic_selected env t q r")
    case False
    then show ?thesis by (simp add: ranked_chunks_def)
  next
    case True
    then obtain r where "semantic_selected env t q r" by blast
    then have same: "cw_generation_id r' = cw_generation_id r" if "semantic_selected env t q r'" for r'
      using selected_generation that by (metis cell.inject(4))
    show ?thesis unfolding ranked_chunks_def by (rule distinct_map_filter_sub[OF f same])
  qed
  then show "distinct (map (pc_chunk_id \<circ> cw_chunk) (ranked_chunks env t q))"
    "distinct (map (pc_citation_id \<circ> cw_chunk) (ranked_chunks env t q))"
    using assms unfolding table_keys_def by blast+
qed

lemma served_matches_sorted:
  assumes "scores_apart env t q"
  shows "sorted (map match_key (served_matches env t q))"
proof -
  have "sorted (map (distance_key t q) (ranked_chunks env t q))"
    unfolding ranked_chunks_def by (simp add: sorted_wrt_take take_map[symmetric])
  then have s: "i \<le> j \<Longrightarrow> j < length (ranked_chunks env t q) \<Longrightarrow>
      distance_key t q (ranked_chunks env t q ! i) \<le> distance_key t q (ranked_chunks env t q ! j)" for
          i j
    by (auto simp: sorted_iff_nth_mono)
  have "match_key (served_matches env t q ! i) \<le> match_key (served_matches env t q ! j)"
    if "i \<le> j" "j < length (ranked_chunks env t q)" for i j
  proof -
    let ?r = "ranked_chunks env t q ! i" and ?r' = "ranked_chunks env t q ! j"
    have "?r \<in> set (ranked_chunks env t q)" "?r' \<in> set (ranked_chunks env t q)" using that by simp_all
    then have "chunk_distance t q ?r < chunk_distance t q ?r' \<longrightarrow>
       sql_score env (chunk_distance t q ?r') < sql_score env (chunk_distance t q ?r)"
      using assms unfolding scores_apart_def by blast
    then show ?thesis using s[OF that] that
      by (auto simp: served_matches_def match_key_def served_match_def stored_match_def Let_def
          distance_key_def less_eq_prod_def)
  qed
  then show ?thesis by (auto simp: sorted_iff_nth_mono served_matches_def)
qed


lemma map_checked_exactly: "(\<And>x. x \<in> set xs \<Longrightarrow> f (g x) = Inr (h x)) \<Longrightarrow> map_checked f (map g xs) = Inr
    (map h xs)"
  by (induction xs) simp_all

lemma selected_visible:
  assumes "in_scope customer (semantic_query_of env (knowledge_request c query) k profile pd fs g
      minimum limit) r"
    and "k = customer_environment_id c" and "published_chunk lower r"
  shows "match_visible c (served_match r s)"
  using assms
  by (cases "gv_source_type (cw_chunk r)"; cases "gv_effective_to (cw_chunk r)")
    (auto simp: in_scope_def Let_def semantic_query_of_def scope_query.defs scope_of_def
        knowledge_request_def
      match_visible_def served_match_def stored_match_def published_chunk_def
          less_eq_data_classification_def)

lemma selected_match:
  assumes "is_rounding (re_nearest env)" "\<forall>r \<in> set (tb_chunks t). published_chunk (re_lower env) r"
    and "r \<in> set (ranked_chunks env t q)"
  shows "semantic_match env (semantic_row_of env t q r) = Inr m
    \<longleftrightarrow> chunk_servable r \<and> m = served_match r (sql_score env (chunk_distance t q r))"
  using ranked_selected[OF assms(3)] selected_distance assms(1,2) by (intro semantic_match_served)
      blast+

text \<open>One selected chunk that does not meet the contract of a match, say with a heading of more than
    300 characters,
  makes the whole search fail.\<close>

theorem unservable_refused:
  assumes "is_rounding (re_nearest env)" "\<forall>r \<in> set (tb_chunks t). published_chunk (re_lower env) r"
    and "r \<in> set (ranked_chunks env t q)" "\<not> chunk_servable r"
  shows "\<exists>e. validated_matches env (semantic_rows env t q) = Inl e"
proof -
  have "semantic_row_of env t q r \<in> set (semantic_rows env t q)" using assms(3) by (simp add:
      semantic_rows_def)
  moreover have "\<nexists>m. semantic_match env (semantic_row_of env t q r) = Inr m"
    using selected_match[OF assms(1,2,3)] assms(4) by simp
  ultimately have "\<nexists>ms. map_checked (semantic_match env) (semantic_rows env t q) = Inr ms"
    unfolding map_checked_succeeds by blast
  then show ?thesis by (cases "map_checked (semantic_match env) (semantic_rows env t q)") (auto simp:
      validated_matches_def)
qed

text \<open>C8: The chunks of the tables are as a publication stores them, with the keys of the chunk table,
    the doubles
  are rounded in order, and the scores of the chunks a semantic search selects tell their distances
      apart. Then
  the rows of a search for a caller's request, of at most five results, are accepted exactly when every
      selected chunk meets the contract of a
  match, which bounds its title and heading by 300 characters, and their contents fit the limit
      together: the
  search answers with the stored chunks, title and heading without the blanks around them, nearest
      first, and the checks of the search tool accept them.\<close>

theorem selected_chunks_served:
  assumes "is_rounding (re_nearest env)" and "table_keys (tb_chunks t)"
    and "\<forall>r \<in> set (tb_chunks t). published_chunk (re_lower env) r"
    and "q = semantic_query_of env (knowledge_request c query) (customer_environment_id c) profile pd
        fs g minimum limit"
    and "limit \<le> 5" and "scores_apart env t q"
  shows "if (\<forall>r \<in> set (ranked_chunks env t q). chunk_servable r)
      \<and> sum_list (map (length \<circ> km_content) (served_matches env t q)) \<le> 12000
    then validated_matches env (semantic_rows env t q) = Inr (served_matches env t q) \<and>
        validate_matches c (served_matches env t q) = Inr ()
    else \<exists>e. validated_matches env (semantic_rows env t q) = Inl e"
proof (cases "\<forall>r \<in> set (ranked_chunks env t q). chunk_servable r")
  case False
  then show ?thesis using unservable_refused[OF assms(1,3)] by auto
next
  case servable: True
  note sel = ranked_selected[of _ env t q]
  have gov: "published_chunk (re_lower env) r" if "r \<in> set (ranked_chunks env t q)" for r using sel[OF
      that] assms(3) by blast
  have "semantic_match env (semantic_row_of env t q r) = Inr (served_match r (sql_score env
      (chunk_distance t q r)))"
    if r: "r \<in> set (ranked_chunks env t q)" for r
    using selected_match[OF assms(1,3) r] servable r by blast
  then have m: "map_checked (semantic_match env) (semantic_rows env t q) = Inr (served_matches env t q)"
    unfolding semantic_rows_def served_matches_def by (rule map_checked_exactly)
  have n: "length (served_matches env t q) \<le> 5" using assms(4,5)
    by (simp add: served_matches_def ranked_chunks_def semantic_query_of_def scope_query.defs
        scope_of_def)
  have keys: "map km_chunk_id (served_matches env t q) = map (pc_chunk_id \<circ> cw_chunk) (ranked_chunks
      env t q)"
    "map km_citation_id (served_matches env t q) = map (pc_citation_id \<circ> cw_chunk) (ranked_chunks env t
        q)"
    by (simp_all add: served_matches_def served_match_def stored_match_def Let_def comp_def)
  have d: "distinct (map km_chunk_id (served_matches env t q))" "distinct (map km_citation_id
      (served_matches env t q))"
    unfolding keys using ranked_distinct[OF assms(2)] by blast+
  note s = served_matches_sorted[OF assms(6)]
  then have srt: "sort_key match_key (served_matches env t q) = served_matches env t q" by (rule
      sort_key_fixed)
  have "match_visible c m" if m: "m \<in> set (served_matches env t q)" for m
  proof -
    obtain r where r: "r \<in> set (ranked_chunks env t q)" "m = served_match r (sql_score env
        (chunk_distance t q r))"
      using m unfolding served_matches_def set_map by (rule imageE) blast
    then have "in_scope (tb_customer t) q r" using sel by (simp add: semantic_selected_def)
    from selected_visible[OF this[unfolded assms(4)] refl gov[OF r(1)]] show ?thesis unfolding r(2)
        assms(4) .
  qed
  then show ?thesis
    using m n d srt s servable unfolding validate_matches_Inr validated_matches_def
        SEMANTIC_MAXIMUM_RESULTS_def
      SEMANTIC_MAXIMUM_TOTAL_CONTENT_CHARACTERS_def by (simp add: list_all_iff)
qed

text \<open>When two different distances have the same score and the farther chunk has the smaller
    identifier, the
  rows come in the order of the statement and are refused.\<close>

theorem equal_scores_refused:
  assumes "semantic_match env r = Inr m" and "semantic_match env r' = Inr m'"
    and "km_relevance_score m = km_relevance_score m'" and "km_chunk_id m' < km_chunk_id m"
  shows "validated_matches env [r, r'] = Inl SEMANTIC_MESSAGE"
proof -
  have "sort_key match_key [m, m'] = [m', m]" using assms(3,4) by (simp add: match_key_def)
  moreover have "[m, m'] \<noteq> [m', m]" using assms(4) by auto
  ultimately show ?thesis using assms(1,2) by (simp add: validated_matches_def)
qed

section \<open>A sample of the tables\<close>

definition sample_chunk_row :: "string \<Rightarrow> data_classification \<Rightarrow> chunk_row" where
  "sample_chunk_row name classification = \<lparr>cw_generation_id = 7, cw_chunk =
     \<lparr>gv_document_id = 9, gv_document_version = lit ''1.0.0'', gv_namespace = lit ''hr'',
      gv_source_type = PRODUCT_DOCUMENTATION, gv_customer_environment_id = None,
          gv_required_modules_all = [lit ''hr''],
      gv_required_permissions_all = [], gv_allowed_purposes = [lit ''self_service''],
          gv_legal_entity_ids = [],
      gv_data_classification = classification, gv_language = lit ''en'', gv_title = lit ''T'',
      gv_effective_from = \<lparr>zt_local = 0, zt_offset = 0\<rparr>, gv_effective_to = None, pc_chunk_id = lit name,
      pc_citation_id = lit name, pc_chunk_ordinal = 0, pc_section_key = lit ''s'', pc_heading = lit
          ''S'',
      pc_content = lit ''text''\<rparr>, cw_content_sha256 = replicate 64 48\<rparr>"

text \<open>The same chunk with identifiers as a preparation makes them.\<close>

definition sample_published_row :: "nat \<Rightarrow> data_classification \<Rightarrow> chunk_row" where
  "sample_published_row h classification = (sample_chunk_row ''c'' classification)\<lparr>cw_chunk :=
     (cw_chunk (sample_chunk_row ''c'' classification))\<lparr>pc_chunk_id := lit ''chk_'' @ replicate 32 h,
       pc_citation_id := lit ''cite_'' @ replicate 32 h\<rparr>\<rparr>"

lemma sample_chunk_published:
  assumes "h \<in> {97, 98}"
  shows "published_chunk ascii_lower (sample_published_row h k)" and "chunk_servable
      (sample_published_row h k)"
proof -
  have "is_opaque_id (lit ''chk_'' @ replicate 32 h)" "is_opaque_id (lit ''cite_'' @ replicate 32 h)"
    using assms by (auto simp: is_opaque_id_def lit_def list_all_iff is_hex_def is_digit_def)
  then show "published_chunk ascii_lower (sample_published_row h k)"
    by (simp add: published_chunk_def sample_published_row_def sample_chunk_row_def
        validate_prepared_chunk_def
        validate_opaque_id_def canonical_semver_def re_dollar_def is_semver_def is_canonical_number_def
            language_code_def
        is_language_code_def is_language_tag_def validate_section_key_def is_segment_def plain_str_def
            utf8_encodable_def
        sample_text)
  show "chunk_servable (sample_published_row h k)"
    by (simp add: chunk_servable_def sample_published_row_def sample_chunk_row_def sample_text)
qed

text \<open>Two chunks, one of them highly restricted.\<close>

definition sample_tables :: ranking_tables where
  "sample_tables = \<lparr>tb_customer = customer_environment_id sample_context,
     tb_chunks = [sample_published_row 97 INTERNAL, sample_published_row 98 HIGHLY_RESTRICTED],
     tb_ready = \<lambda>_ _. True, tb_distance = \<lambda>_ _. Some 1\<rparr>"

definition sample_ranking :: semantic_query where
  "sample_ranking = semantic_query_of (retrieval_env.truncate sample_rag_env) (knowledge_request
      sample_context (lit ''leave''))
     (customer_environment_id sample_context) sample_embedding_profile (replicate 64 97) [] (CUuid 7) 0
         5"

lemma sample_ranked:
  "ranked_chunks (retrieval_env.truncate sample_rag_env) sample_tables sample_ranking =
      [sample_published_row 97 INTERNAL]"
  by (simp add: ranked_chunks_def sample_tables_def sample_ranking_def semantic_selected_def
      in_scope_def Let_def
      semantic_query_of_def scope_query.defs scope_of_def knowledge_request_def sample_context_def
          sample_published_row_def sample_chunk_row_def
      HR_NAMESPACE_def sql_score_def retrieval_env.defs sample_rag_env_def sample_embedding_profile_def
          zt_instant_def)

theorem selected_chunks_served_witness:
  "validated_matches (retrieval_env.truncate sample_rag_env) (semantic_rows (retrieval_env.truncate
      sample_rag_env)
       sample_tables sample_ranking) = Inr [served_match (sample_published_row 97 INTERNAL) (1 / 2)]
   \<and> validate_matches sample_context [served_match (sample_published_row 97 INTERNAL) (1 / 2)] = Inr ()"
proof -
  let ?env = "retrieval_env.truncate sample_rag_env"
  have e: "re_nearest ?env = id" by (simp add: retrieval_env.defs sample_rag_env_def)
  have "is_rounding (re_nearest ?env)" unfolding e by (simp add: is_rounding_def)
  moreover have "table_keys (tb_chunks sample_tables)"
    by (simp add: table_keys_def sample_tables_def sample_published_row_def sample_chunk_row_def
        lit_def replicate_eq_replicate)
  moreover have "\<forall>r \<in> set (tb_chunks sample_tables). published_chunk (re_lower ?env) r"
    using sample_chunk_published(1) by (simp add: sample_tables_def sample_lower)
  moreover have "\<forall>r \<in> set (ranked_chunks ?env sample_tables sample_ranking). chunk_servable r"
    using sample_chunk_published(2) by (simp add: sample_ranked)
  moreover have "scores_apart ?env sample_tables sample_ranking" by (simp add: scores_apart_def
      sample_ranked)
  moreover have d: "chunk_distance sample_tables sample_ranking (sample_published_row 97 INTERNAL) = 1"
    by (simp add: chunk_distance_def sample_tables_def)
  moreover have s: "served_matches ?env sample_tables sample_ranking = [served_match
      (sample_published_row 97 INTERNAL) (1 / 2)]"
    using d by (simp add: served_matches_def sample_ranked sql_score_def e)
  moreover have "sum_list (map (length \<circ> km_content) (served_matches ?env sample_tables
      sample_ranking)) \<le> 12000"
    unfolding s by (simp add: served_match_def stored_match_def sample_published_row_def
        sample_chunk_row_def lit_def)
  ultimately show ?thesis
    using selected_chunks_served[of ?env sample_tables sample_ranking sample_context "lit ''leave''"
        sample_embedding_profile
        "replicate 64 97" "[]" "CUuid 7" 0 5] by (simp add: sample_ranking_def)
qed

theorem selection_matches_handler_witness:
  "in_scope (customer_environment_id sample_context) (scope_of (knowledge_request sample_context (lit
      ''leave''))
      (customer_environment_id sample_context) (CUuid 7) 5) (sample_chunk_row ''a'' INTERNAL)
   \<and> \<not> in_scope (customer_environment_id sample_context) (scope_of (knowledge_request sample_context
       (lit ''leave''))
      (customer_environment_id sample_context) (CUuid 7) 5) (sample_chunk_row ''b'' HIGHLY_RESTRICTED)"
proof -
  have g: "cw_generation_id (sample_chunk_row n k) = 7" "gv_source_type (cw_chunk (sample_chunk_row n
      k)) = PRODUCT_DOCUMENTATION
      \<longrightarrow> gv_customer_environment_id (cw_chunk (sample_chunk_row n k)) = None" for n k
    by (simp_all add: sample_chunk_row_def)
  show ?thesis
    using selection_matches_handler[where r = "sample_chunk_row ''a'' INTERNAL" and c = sample_context
          and query = "lit ''leave''" and limit = 5 and s = 1, OF g(2), unfolded g(1)]
      selection_matches_handler[where r = "sample_chunk_row ''b'' HIGHLY_RESTRICTED" and c =
          sample_context
          and query = "lit ''leave''" and limit = 5 and s = 1, OF g(2), unfolded g(1)]
    by (simp add: check_match_Inr match_visible_def stored_match_def sample_chunk_row_def
        HR_NAMESPACE_def sample_context_def
        less_eq_data_classification_def zt_instant_def)
qed

end
