(* ===== verification/EmbeddingStoreProperties.thy ===== *)
theory EmbeddingStoreProperties
  imports EmbeddingStore KnowledgeStoreProperties SelectionProperties
begin

text \<open>
  Properties of the embedding repository: what a stored set changes, the invariant of the store under
      any
  calls of the two repositories, retries, and the way from a published generation to a searchable set.
\<close>

section \<open>What a stored set changes\<close>

lemma valid_chunk_embedding_cong:
  "es_profiles db' = es_profiles db \<Longrightarrow> es_knowledge db' = es_knowledge db
     \<Longrightarrow> valid_chunk_embedding db' r = valid_chunk_embedding db r"
  by (simp add: valid_chunk_embedding_def)

lemma insert_vector_Inr:
  "insert_vector r db = (Inr u, db') \<longleftrightarrow> valid_chunk_embedding db r \<and> is_digest (nw_content_sha256 r)
     \<and> is_digest (nw_vector_sha256 r) \<and> vector_key r \<notin> vector_key ` set (es_vectors db) \<and> es_sets db
         (nw_set r) \<noteq> None
     \<and> db' = db\<lparr>es_vectors := es_vectors db @ [r]\<rparr>"
  by (auto simp: insert_vector_def andthen_Inr)

definition insertable :: "embedding_store \<Rightarrow> vector_row list \<Rightarrow> bool" where
  "insertable db rows \<longleftrightarrow> (\<forall>r \<in> set rows. valid_chunk_embedding db r \<and> is_digest (nw_content_sha256 r)
       \<and> is_digest (nw_vector_sha256 r) \<and> es_sets db (nw_set r) \<noteq> None)
     \<and> distinct (map vector_key rows) \<and> vector_key ` set rows \<inter> vector_key ` set (es_vectors db) = {}"

lemma insertable_Cons:
  "insertable db (r # rs) \<longleftrightarrow> valid_chunk_embedding db r \<and> is_digest (nw_content_sha256 r) \<and> is_digest
      (nw_vector_sha256 r)
     \<and> vector_key r \<notin> vector_key ` set (es_vectors db) \<and> es_sets db (nw_set r) \<noteq> None
     \<and> insertable (db\<lparr>es_vectors := es_vectors db @ [r]\<rparr>) rs"
proof -
  have "valid_chunk_embedding (db\<lparr>es_vectors := es_vectors db @ [r]\<rparr>) x = valid_chunk_embedding db x"
      for x
    by (rule valid_chunk_embedding_cong) simp_all
  then show ?thesis by (auto simp: insertable_def)
qed

lemma each_insert_vectors:
  "each insert_vector rows db = (Inr u, db') \<longleftrightarrow> insertable db rows \<and> db' = db\<lparr>es_vectors := es_vectors
      db @ rows\<rparr>"
proof (induction rows arbitrary: db)
  case Nil
  then show ?case by (auto simp: insertable_def)
next
  case (Cons r rs)
  show ?case unfolding each.simps andthen_Inr insert_vector_Inr Cons.IH insertable_Cons by auto
qed

definition new_vectors :: "embedding_set \<Rightarrow> pystr \<Rightarrow> vector_row list" where
  "new_vectors s pd = map (vector_row_of (set_key_of s pd)) (eg_embeddings s)"

definition new_set :: "embedding_set \<Rightarrow> bool \<Rightarrow> set_row" where
  "new_set s ready = \<lparr>tw_generation_digest = eg_generation_digest s, tw_set_sha256 = eg_sha256 s,
     tw_count = length (eg_embeddings s), tw_ready = ready\<rparr>"

definition set_event :: "embedding_set \<Rightarrow> materialization_request \<Rightarrow> materialization_event" where
  "set_event s q = \<lparr>me_outbox_id = mq_outbox_id q, me_operation_id = mq_operation_id q, me_request_id =
      mq_request_id q,
     me_actor_id = mq_actor_id q, me_namespace = is_namespace (eg_scope s), me_generation_id =
         eg_generation_id s,
     me_generation_digest = eg_generation_digest s, me_set_sha256 = eg_sha256 s, me_count = length
         (eg_embeddings s)\<rparr>"

text \<open>The store with the set in it, before and after it is recorded.\<close>

definition with_set :: "embedding_set \<Rightarrow> pystr \<Rightarrow> bool \<Rightarrow> embedding_store \<Rightarrow> embedding_store" where
  "with_set s pd ready db = db\<lparr>es_profiles := (es_profiles db)(pd \<mapsto> profile_row_of (eg_profile s)),
     es_sets := (es_sets db)(set_key_of s pd \<mapsto> new_set s ready)\<rparr>"

definition with_vectors :: "embedding_set \<Rightarrow> pystr \<Rightarrow> bool \<Rightarrow> embedding_store \<Rightarrow> embedding_store" where
  "with_vectors s pd ready db = (with_set s pd ready db)\<lparr>es_vectors := es_vectors db @ new_vectors s
      pd\<rparr>"

definition with_record ::
  "embedding_set \<Rightarrow> pystr \<Rightarrow> materialization_request \<Rightarrow> materialization_result \<Rightarrow> embedding_store
      \<Rightarrow> embedding_store" where
  "with_record s pd q result db = (with_vectors s pd True db)\<lparr>
     es_operations := (es_operations db)(mq_operation_id q \<mapsto>
       \<lparr>hw_set = set_key_of s pd, hw_set_sha256 = eg_sha256 s, hw_result = result\<rparr>),
     es_outbox := es_outbox db @ [set_event s q]\<rparr>"

definition recordable :: "embedding_set \<Rightarrow> materialization_request \<Rightarrow> embedding_store \<Rightarrow> bool" where
  "recordable s q db \<longleftrightarrow> es_operations db (mq_operation_id q) = None
     \<and> (\<forall>e \<in> set (es_outbox db). me_outbox_id e \<noteq> mq_outbox_id q \<and> me_operation_id e \<noteq> mq_operation_id
         q)"

definition storable :: "embedding_set \<Rightarrow> pystr \<Rightarrow> materialization_request \<Rightarrow> embedding_store \<Rightarrow> bool" where
  "storable s pd q db \<longleftrightarrow> profile_row_ok pd (profile_row_of (eg_profile s))
     \<and> (es_profiles db pd = None \<or> es_profiles db pd = Some (profile_row_of (eg_profile s)))
     \<and> is_digest (eg_generation_digest s) \<and> is_digest (eg_sha256 s)
     \<and> 0 < length (eg_embeddings s) \<and> length (eg_embeddings s) < 2 ^ 31
     \<and> es_sets db (set_key_of s pd) = None
     \<and> map_option gr_namespace (db_generations (es_knowledge db) (eg_generation_id s)) = Some
         (is_namespace (eg_scope s))
     \<and> insertable (with_set s pd False db) (new_vectors s pd)
     \<and> stored_as_prepared (with_vectors s pd False db) (set_key_of s pd) (length (eg_embeddings s))
     \<and> recordable s q db"

lemma insert_profile_Inr:
  "insert_profile pd p db = (Inr u, db') \<longleftrightarrow> profile_row_ok pd (profile_row_of p)
     \<and> (es_profiles db pd = None \<or> es_profiles db pd = Some (profile_row_of p))
     \<and> db' = db\<lparr>es_profiles := (es_profiles db)(pd \<mapsto> profile_row_of p)\<rparr>"
  by (auto simp: insert_profile_def andthen_Inr map_upd_triv)

lemma insert_set_Inr:
  "insert_set k r db = (Inr u, db') \<longleftrightarrow> is_digest (tw_generation_digest r) \<and> is_digest (tw_set_sha256 r)
     \<and> 0 < tw_count r \<and> tw_count r < 2 ^ 31 \<and> es_sets db k = None
     \<and> map_option gr_namespace (db_generations (es_knowledge db) (fst (snd k))) = Some (fst k)
     \<and> es_profiles db (snd (snd k)) \<noteq> None \<and> db' = db\<lparr>es_sets := (es_sets db)(k \<mapsto> r)\<rparr>"
  by (auto simp: insert_set_def andthen_Inr)

lemma insert_record_Inr:
  "insert_materialization oid r db = (Inr u, db') \<longleftrightarrow> is_digest (hw_set_sha256 r) \<and> es_operations db oid
      = None
     \<and> db' = db\<lparr>es_operations := (es_operations db)(oid \<mapsto> r)\<rparr>"
  "insert_materialization_event e db = (Inr u, db') \<longleftrightarrow> is_digest (me_generation_digest e) \<and> is_digest
      (me_set_sha256 e)
     \<and> 0 < me_count e \<and> (\<forall>f \<in> set (es_outbox db). me_outbox_id f \<noteq> me_outbox_id e \<and> me_operation_id f
         \<noteq> me_operation_id e)
     \<and> db' = db\<lparr>es_outbox := es_outbox db @ [e]\<rparr>"
  by (auto simp: insert_materialization_def insert_materialization_event_def andthen_Inr list_ex_iff)

lemma store_set_Inr:
  "store_set env s pd q db = (Inr r, db') \<longleftrightarrow> storable s pd q db
     \<and> make_materialization_result (ie_lower (xe_ingest env)) (mq_operation_id q) s pd = Inr r
     \<and> db' = with_record s pd q r db"
proof -
  have key: "fst (set_key_of s pd) = is_namespace (eg_scope s)" "fst (snd (set_key_of s pd)) =
      eg_generation_id s"
    "snd (snd (set_key_of s pd)) = pd"
    by (simp_all add: set_key_of_def)
  show ?thesis
    unfolding store_set_def Let_def andthen_Inr insert_profile_Inr insert_set_Inr insert_record_Inr
        each_insert_vectors
      new_vectors_def[symmetric] new_set_def[symmetric] set_event_def[symmetric] store_proc_Inr
          mark_ready_def
      checked_or_Inr unless_Inr key
    by (auto simp: storable_def recordable_def with_record_def with_vectors_def with_set_def
        new_set_def set_event_def)
qed

section \<open>Calls of the two repositories\<close>

lemma persist_set_cases:
  assumes "persist_set env customer s q fault db = (res, db')"
  obtains "db' = db" "\<forall>r. res = Inr r \<longrightarrow> (\<exists>row pd. es_operations db (mq_operation_id q) = Some row \<and>
      hw_result row = r
       \<and> profile_sha256 env (eg_profile s) = Inr pd \<and> hw_set row = set_key_of s pd \<and> hw_set_sha256 row
           = eg_sha256 s
       \<and> is_customer_environment_id (eg_scope s) = customer
       \<and> map_option fst (db_identity (es_knowledge db)) = Some customer)"
  | pd r where "profile_sha256 env (eg_profile s) = Inr pd" "storable s pd q db"
      "make_materialization_result (ie_lower (xe_ingest env)) (mq_operation_id q) s pd = Inr r"
      "db' = with_record s pd q r db" "\<forall>r'. res = Inr r' \<longrightarrow> r' = r" "is_customer_environment_id
          (eg_scope s) = customer"
      "map_option fst (db_identity (es_knowledge db)) = Some customer"
proof (cases "is_customer_environment_id (eg_scope s) = customer")
  case True
  define t where "t = andthen (establish_customer customer) (\<lambda>_.
         andthen (fetch (\<lambda>db. es_operations db (mq_operation_id q))) (\<lambda>existing.
         andthen (checked_or StoreUnavailable (profile_sha256 env (eg_profile s))) (\<lambda>pd.
         case existing of
           Some r \<Rightarrow>
             andthen (unless ((hw_set r, hw_set_sha256 r) \<noteq> (set_key_of s pd, eg_sha256 s))
                 StoreConflict) (\<lambda>_.
               give (hw_result r))
         | None \<Rightarrow> store_set env s pd q)))"
  have "run_transaction fault t db = (res, db')" using assms True by (simp add: persist_set_def t_def)
  then show thesis
  proof (cases rule: run_transaction_cases)
    case (1 e)
    then show ?thesis using that(1) by simp
  next
    case (2 r)
    from 2(1) obtain pd where pd: "map_option fst (db_identity (es_knowledge db)) = Some customer"
      "profile_sha256 env (eg_profile s) = Inr pd"
      "(case es_operations db (mq_operation_id q) of
           Some r \<Rightarrow>
             andthen (unless ((hw_set r, hw_set_sha256 r) \<noteq> (set_key_of s pd, eg_sha256 s))
                 StoreConflict) (\<lambda>_.
               give (hw_result r))
         | None \<Rightarrow> store_set env s pd q) db = (Inr r, db')"
      unfolding t_def establish_customer_def andthen_Inr store_proc_Inr checked_or_Inr by blast
    show ?thesis
    proof (cases "es_operations db (mq_operation_id q)")
      case None
      then have "store_set env s pd q db = (Inr r, db')" using pd(3) by simp
      then show ?thesis unfolding store_set_Inr using that(2) pd(1,2) 2(2) True by blast
    next
      case (Some row)
      then have "(hw_set row, hw_set_sha256 row) = (set_key_of s pd, eg_sha256 s)" "hw_result row = r"
          "db' = db"
        using pd(3) by (auto simp: andthen_Inr)
      then show ?thesis using that(1) pd(1,2) 2(2) True Some by auto
    qed
  qed
next
  case False
  then show thesis using assms that(1) by (auto simp: persist_set_def)
qed

lemma establish_customer_keeps: "snd (establish_customer customer db) = db"
  by (simp add: establish_customer_def guard_def)

lemma load_keeps: "snd (load_generation_source env customer sc g fault db) = db"
proof -
  have "db' = db" if "load_generation_source env customer sc g fault db = (res, db')" for res db'
  proof (cases "is_customer_environment_id sc = customer")
    case True
    from that[unfolded load_generation_source_def] True show ?thesis
      by (simp, elim run_transaction_cases) (auto simp: andthen_Inr establish_customer_def split:
          option.splits)
  next
    case False
    then show ?thesis using that by (simp add: load_generation_source_def)
  qed
  then show ?thesis by (metis prod.collapse)
qed

datatype embedding_call =
    KnowledgeCall store_call
  | LoadSource index_scope uuid db_fault
  | PersistSet embedding_set materialization_request db_fault

primrec embedding_effect :: "embedding_env \<Rightarrow> pystr \<Rightarrow> embedding_call \<Rightarrow> embedding_store \<Rightarrow>
    embedding_store" where
  "embedding_effect env customer (KnowledgeCall c) db =
     db\<lparr>es_knowledge := store_effect (xe_ingest env) customer c (es_knowledge db)\<rparr>"
| "embedding_effect env customer (LoadSource sc g fault) db = snd (load_generation_source env customer
    sc g fault db)"
| "embedding_effect env customer (PersistSet s q fault) db = snd (persist_set env customer s q fault
    db)"

definition embedding_run :: "embedding_env \<Rightarrow> pystr \<Rightarrow> embedding_call list \<Rightarrow> embedding_store \<Rightarrow>
    embedding_store" where
  "embedding_run env customer calls db = fold (embedding_effect env customer) calls db"

definition empty_embeddings :: "knowledge_db \<Rightarrow> embedding_store" where
  "empty_embeddings k = \<lparr>es_knowledge = k, es_profiles = Map.empty, es_sets = Map.empty, es_vectors =
      [],
     es_operations = Map.empty, es_outbox = []\<rparr>"

text \<open>The knowledge tables only grow: chunks are appended, a generation keeps its namespace, digest and
    counts.\<close>

definition grown :: "knowledge_db \<Rightarrow> knowledge_db \<Rightarrow> bool" where
  "grown db db' \<longleftrightarrow> db_identity db' = db_identity db \<and> (\<exists>cs. db_chunks db' = db_chunks db @ cs)
     \<and> (\<forall>g r. db_generations db g = Some r \<longrightarrow> (\<exists>r'. db_generations db' g = Some r' \<and> r'\<lparr>gr_status :=
         gr_status r\<rparr> = r))"

lemma effect_grows: "grown db (store_effect env customer c db)"
proof (cases rule: effect_cases[of env customer c db])
  case 1
  then show ?thesis by (simp add: grown_def)
next
  case (2 plan expected r)
  show ?thesis
    by (rule activate_generation_Inr[OF 2 refl refl refl])
      (auto simp: grown_def retired_def split: option.splits)
next
  case (3 q expected r)
  show ?thesis
    by (rule restore_generation_Inr[OF 3 refl refl])
      (auto simp: grown_def retired_def split: option.splits)
qed

lemma find_append: "find P xs = Some x \<Longrightarrow> find P (xs @ ys) = Some x"
  by (induction xs) (auto split: if_splits)

lemma grown_chunk: "grown db db' \<Longrightarrow> stored_chunk db g i = Some c \<Longrightarrow> stored_chunk db' g i = Some c"
  by (auto simp: grown_def stored_chunk_def intro: find_append)

lemma grown_namespace:
  "grown db db' \<Longrightarrow> map_option gr_namespace (db_generations db g) = Some ns
     \<Longrightarrow> map_option gr_namespace (db_generations db' g) = Some ns"
  unfolding grown_def by (auto, metis generation_row.select_convs(1) generation_row.surjective
      generation_row.update_convs(6))

text \<open>What the calls leave behind: the parts of the invariant.\<close>

definition set_complete :: "embedding_store \<Rightarrow> set_key \<Rightarrow> set_row \<Rightarrow> bool" where
  "set_complete db k r \<longleftrightarrow> tw_ready r \<and> tw_count r = length (vectors_of db k) \<and> 0 < tw_count r
     \<and> es_profiles db (snd (snd k)) \<noteq> None
     \<and> map_option gr_namespace (db_generations (es_knowledge db) (fst (snd k))) = Some (fst k)"

definition sets_complete :: "embedding_store \<Rightarrow> bool" where
  "sets_complete db \<longleftrightarrow> (\<forall>k r. es_sets db k = Some r \<longrightarrow> set_complete db k r)"

definition vectors_valid :: "embedding_store \<Rightarrow> bool" where
  "vectors_valid db \<longleftrightarrow> (\<forall>r \<in> set (es_vectors db). valid_chunk_embedding db r \<and> es_sets db (nw_set r)
      \<noteq> None)
     \<and> distinct (map vector_key (es_vectors db))"

definition operations_recorded :: "embedding_store \<Rightarrow> bool" where
  "operations_recorded db \<longleftrightarrow>
     (\<forall>oid r. es_operations db oid = Some r \<longrightarrow> map_option tw_set_sha256 (es_sets db (hw_set r)) = Some
         (hw_set_sha256 r))
     \<and> (\<forall>k. es_sets db k \<noteq> None \<longrightarrow> (\<exists>!oid. map_option hw_set (es_operations db oid) = Some k))
     \<and> distinct (map me_operation_id (es_outbox db)) \<and> set (map me_operation_id (es_outbox db)) = dom
         (es_operations db)"

definition store_kept :: "embedding_store \<Rightarrow> bool" where
  "store_kept db \<longleftrightarrow> sets_complete db \<and> vectors_valid db \<and> operations_recorded db"

lemma empty_kept: "store_kept (empty_embeddings k)"
  by (simp add: store_kept_def sets_complete_def vectors_valid_def operations_recorded_def
      empty_embeddings_def)

lemma grown_valid:
  "grown (es_knowledge db) k' \<Longrightarrow> valid_chunk_embedding db r \<Longrightarrow> valid_chunk_embedding (db\<lparr>es_knowledge :=
      k'\<rparr>) r"
  by (auto simp: valid_chunk_embedding_def grown_chunk split: prod.splits option.splits)

lemma grown_kept:
  assumes "grown (es_knowledge db) k'" "store_kept db"
  shows "store_kept (db\<lparr>es_knowledge := k'\<rparr>)"
proof -
  let ?db = "db\<lparr>es_knowledge := k'\<rparr>"
  have "set_complete ?db k r" if "set_complete db k r" for k r
    using that grown_namespace[OF assms(1)] unfolding set_complete_def by (auto simp: vectors_of_def)
  then have "sets_complete ?db" using assms(2) by (simp add: store_kept_def sets_complete_def)
  moreover have "vectors_valid ?db" using assms grown_valid[OF assms(1)] by (auto simp: store_kept_def
      vectors_valid_def)
  moreover have "operations_recorded ?db" using assms by (simp add: store_kept_def
      operations_recorded_def)
  ultimately show ?thesis by (simp add: store_kept_def)
qed

lemma vectors_of_new:
  "vectors_of (with_record s pd q r db) k = vectors_of db k @ (if k = set_key_of s pd then new_vectors
      s pd else [])"
  by (simp add: vectors_of_def with_record_def with_vectors_def with_set_def new_vectors_def
      vector_row_of_def filter_map comp_def)

lemma vectors_need_set: "vectors_valid db \<Longrightarrow> es_sets db k = None \<Longrightarrow> vectors_of db k = []"
  by (auto simp: vectors_valid_def vectors_of_def filter_empty_conv)

lemma stored_kept:
  assumes kept: "store_kept db" and st: "storable s pd q db"
  shows "store_kept (with_record s pd q r db)"
proof -
  let ?db = "with_record s pd q r db" and ?k = "set_key_of s pd"
  have old: "vectors_valid db" "sets_complete db" "operations_recorded db" using kept by (simp_all add:
      store_kept_def)
  have fields: "es_knowledge ?db = es_knowledge db" "es_sets ?db = (es_sets db)(?k \<mapsto> new_set s True)"
    "es_profiles ?db = (es_profiles db)(pd \<mapsto> profile_row_of (eg_profile s))"
    "es_vectors ?db = es_vectors db @ new_vectors s pd"
    "es_operations ?db = (es_operations db)(mq_operation_id q \<mapsto>
       \<lparr>hw_set = ?k, hw_set_sha256 = eg_sha256 s, hw_result = r\<rparr>)"
    "es_outbox ?db = es_outbox db @ [set_event s q]"
    by (simp_all add: with_record_def with_vectors_def with_set_def)
  have key: "fst ?k = is_namespace (eg_scope s)" "fst (snd ?k) = eg_generation_id s" "snd (snd ?k) = pd"
    by (simp_all add: set_key_of_def)
  have none: "es_sets db ?k = None" "vectors_of db ?k = []"
    using st vectors_need_set[OF old(1)] by (simp_all add: storable_def)
  have profiles: "es_profiles db pd' = Some x \<Longrightarrow> es_profiles ?db pd' = Some x" for pd' x
    using st by (auto simp: fields storable_def)
  have valid: "valid_chunk_embedding ?db v" if "valid_chunk_embedding db v" for v
    using that profiles by (auto simp: valid_chunk_embedding_def fields(1) split: prod.splits
        option.splits)
  have new_valid: "valid_chunk_embedding ?db v \<and> nw_set v = ?k" if "v \<in> set (new_vectors s pd)" for v
  proof -
    have "valid_chunk_embedding (with_set s pd False db) v" using st that by (simp add: storable_def
        insertable_def)
    moreover have "valid_chunk_embedding (with_set s pd False db) v = valid_chunk_embedding ?db v"
      by (rule valid_chunk_embedding_cong) (simp_all add: with_set_def fields)
    moreover have "nw_set v = ?k" using that by (auto simp: new_vectors_def vector_row_of_def)
    ultimately show ?thesis by simp
  qed
  have "set_complete ?db k x" if "es_sets ?db k = Some x" for k x
  proof (cases "k = ?k")
    case True
    then have "x = new_set s True" using that by (simp add: fields(2))
    then show ?thesis using True none(2) st
      by (simp add: set_complete_def vectors_of_new new_set_def new_vectors_def storable_def
          fields(1,3) key)
  next
    case False
    then have "es_sets db k = Some x" using that by (simp add: fields(2))
    then have "set_complete db k x" using old(2) unfolding sets_complete_def by blast
    then show ?thesis using False profiles by (auto simp: set_complete_def vectors_of_new fields(1))
  qed
  then have "sets_complete ?db" by (simp add: sets_complete_def)
  moreover have "vectors_valid ?db"
    using old(1) valid new_valid st
    by (auto simp: vectors_valid_def fields(2,4) storable_def insertable_def with_set_def)
  moreover have "operations_recorded ?db"
  proof -
    have free: "es_operations db (mq_operation_id q) = None" "mq_operation_id q \<notin> me_operation_id ` set
        (es_outbox db)"
      using st by (auto simp: storable_def recordable_def)
    have ops: "map_option tw_set_sha256 (es_sets db (hw_set x)) = Some (hw_set_sha256 x)" if
        "es_operations db oid = Some x" for oid x
      using old(3) that unfolding operations_recorded_def by blast
    have sets: "\<exists>!oid. map_option hw_set (es_operations db oid) = Some k" if "es_sets db k \<noteq> None" for k
      using old(3) that unfolding operations_recorded_def by blast
    have events: "distinct (map me_operation_id (es_outbox db))" "set (map me_operation_id (es_outbox
        db)) = dom (es_operations db)"
      using old(3) unfolding operations_recorded_def by blast+
    have other: "hw_set x \<noteq> ?k" if "es_operations db oid = Some x" for oid x
      using ops[OF that] none(1) by force
    have one: "\<exists>!oid. map_option hw_set (es_operations ?db oid) = Some k" if "es_sets ?db k \<noteq> None" for
        k
    proof (cases "k = ?k")
      case True
      then show ?thesis using other by (intro ex1I[of _ "mq_operation_id q"]) (auto simp: fields(5)
          split: if_splits)
    next
      case False
      then have "es_sets db k \<noteq> None" using that by (simp add: fields(2))
      then have "\<exists>!oid. map_option hw_set (es_operations db oid) = Some k" by (rule sets)
      moreover have "(map_option hw_set (es_operations ?db oid) = Some k) = (map_option hw_set
          (es_operations db oid) = Some k)" for oid
        using False free(1) by (auto simp: fields(5))
      ultimately show ?thesis by simp
    qed
    have rec: "map_option tw_set_sha256 (es_sets ?db (hw_set x)) = Some (hw_set_sha256 x)"
      if "es_operations ?db oid = Some x" for oid x
    proof (cases "oid = mq_operation_id q")
      case True
      then show ?thesis using that by (auto simp: fields(2,5) new_set_def)
    next
      case False
      then have "es_operations db oid = Some x" using that by (simp add: fields(5))
      then show ?thesis using ops[of oid x] other[of oid x] by (simp add: fields(2))
    qed
    have "distinct (map me_operation_id (es_outbox ?db))"
      "set (map me_operation_id (es_outbox ?db)) = dom (es_operations ?db)"
      using events free by (auto simp: fields(5,6) set_event_def)
    then show ?thesis using one rec unfolding operations_recorded_def by blast
  qed
  ultimately show ?thesis by (simp add: store_kept_def)
qed

lemma effect_kept: "store_kept db \<Longrightarrow> store_kept (embedding_effect env customer c db)"
proof (cases c)
  case (PersistSet s q fault)
  assume kept: "store_kept db"
  obtain res db' where p: "persist_set env customer s q fault db = (res, db')" by (rule prod.exhaust)
  then have "store_kept db'" by (cases rule: persist_set_cases) (use kept stored_kept[OF kept] in
      simp_all)
  then show ?thesis using p PersistSet by simp
qed (auto simp: load_keeps intro: grown_kept effect_grows)

lemma run_kept: "store_kept db \<Longrightarrow> store_kept (embedding_run env customer calls db)"
  unfolding embedding_run_def by (induction calls arbitrary: db) (simp_all add: effect_kept)

section \<open>Properties\<close>

text \<open>C22: After any sequence of calls of the knowledge repository and the embedding repository, with
    aborted
  transactions and lost replies, a vector is stored only with its set, and every set is ready and
      whole: it
  counts its vectors, one for each of its chunk identifiers, each of the dimension of its profile and
      with the
  digest of the chunk its generation holds; exactly one operation stored it, and the audit outbox has
      exactly
  one event for every operation.\<close>

theorem stored_sets_complete:
  "let db = embedding_run env customer calls (empty_embeddings knowledge) in
   (case es_sets db k of
      None \<Rightarrow> vectors_of db k = []
    | Some r \<Rightarrow> tw_ready r \<and> 0 < tw_count r \<and> tw_count r = length (vectors_of db k)
        \<and> distinct (map nw_chunk_id (vectors_of db k)) \<and> list_all (valid_chunk_embedding db)
            (vectors_of db k)
        \<and> (\<exists>!oid. map_option hw_set (es_operations db oid) = Some k))
   \<and> distinct (map me_operation_id (es_outbox db)) \<and> set (map me_operation_id (es_outbox db)) = dom
       (es_operations db)"
proof -
  define db where "db = embedding_run env customer calls (empty_embeddings knowledge)"
  have "store_kept db" unfolding db_def by (rule run_kept[OF empty_kept])
  then have kept: "sets_complete db" "vectors_valid db" "operations_recorded db" by (simp_all add:
      store_kept_def)
  have "case es_sets db k of
      None \<Rightarrow> vectors_of db k = []
    | Some r \<Rightarrow> tw_ready r \<and> 0 < tw_count r \<and> tw_count r = length (vectors_of db k)
        \<and> distinct (map nw_chunk_id (vectors_of db k)) \<and> list_all (valid_chunk_embedding db)
            (vectors_of db k)
        \<and> (\<exists>!oid. map_option hw_set (es_operations db oid) = Some k)"
  proof (cases "es_sets db k")
    case None
    then show ?thesis using vectors_need_set[OF kept(2)] by simp
  next
    case (Some r)
    then have "set_complete db k r" using kept(1) unfolding sets_complete_def by blast
    moreover have "\<exists>!oid. map_option hw_set (es_operations db oid) = Some k"
      using kept(3) Some unfolding operations_recorded_def by blast
    moreover have "distinct (map vector_key (vectors_of db k))"
      using kept(2) unfolding vectors_valid_def vectors_of_def by (simp add: distinct_map_filter)
    then have "distinct (map nw_chunk_id (vectors_of db k))"
      by (auto simp: distinct_map inj_on_def vector_key_def vectors_of_def)
    moreover have "list_all (valid_chunk_embedding db) (vectors_of db k)"
      using kept(2) by (auto simp: vectors_valid_def vectors_of_def list_all_iff)
    ultimately show ?thesis unfolding Some option.case set_complete_def by blast
  qed
  moreover have "distinct (map me_operation_id (es_outbox db))"
    "set (map me_operation_id (es_outbox db)) = dom (es_operations db)"
    using kept(3) unfolding operations_recorded_def by blast+
  ultimately show ?thesis unfolding db_def[symmetric] Let_def by blast
qed

lemma effect_keeps_operation:
  "es_operations db oid = Some r \<Longrightarrow> es_operations (embedding_effect env customer c db) oid = Some r"
proof (cases c)
  case (PersistSet s q fault)
  assume o: "es_operations db oid = Some r"
  obtain res db' where p: "persist_set env customer s q fault db = (res, db')" by (rule prod.exhaust)
  then have "es_operations db' oid = Some r"
    by (cases rule: persist_set_cases) (use o in \<open>auto simp: with_record_def storable_def
        recordable_def\<close>)
  then show ?thesis using p PersistSet by simp
qed (simp_all add: load_keeps)

lemma effect_keeps_identity:
  "db_identity (es_knowledge (embedding_effect env customer c db)) = db_identity (es_knowledge db)"
proof (cases c)
  case (PersistSet s q fault)
  obtain res db' where p: "persist_set env customer s q fault db = (res, db')" by (rule prod.exhaust)
  then have "es_knowledge db' = es_knowledge db"
    by (cases rule: persist_set_cases) (auto simp: with_record_def with_vectors_def with_set_def)
  then show ?thesis using p PersistSet by simp
next
  case (KnowledgeCall c')
  then show ?thesis using effect_grows[of "es_knowledge db"] by (simp add: grown_def)
qed (simp add: load_keeps)

lemma run_keeps_operation:
  "es_operations db oid = Some r \<Longrightarrow> es_operations (embedding_run env customer calls db) oid = Some r"
  "db_identity (es_knowledge (embedding_run env customer calls db)) = db_identity (es_knowledge db)"
  unfolding embedding_run_def
  by (induction calls arbitrary: db) (simp_all add: effect_keeps_operation effect_keeps_identity)

lemma persist_replayed:
  assumes "es_operations db (mq_operation_id q) = Some row" "map_option fst (db_identity (es_knowledge
      db)) = Some customer"
    and "is_customer_environment_id (eg_scope s) = customer" "profile_sha256 env (eg_profile s) = Inr
        pd"
    and "hw_set row = set_key_of s pd" "hw_set_sha256 row = eg_sha256 s"
  shows "persist_set env customer s q NoFault db = (Inr (hw_result row), db)"
  using assms by (simp add: persist_set_def run_transaction_def andthen_def establish_customer_def
      guard_def fetch_def)

text \<open>C23: Storing a set takes effect once. Whatever the answer of a call that took effect, its reply
    lost included,
  storing the set again under the same operation, after any other calls, answers with the recorded
      result and
  changes nothing; under that operation no other set is stored.\<close>

theorem materialization_takes_effect_once:
  assumes "persist_set env customer s q fault db = (res, db')" and "db' \<noteq> db \<or> (\<exists>r. res = Inr r)"
    and "mq_operation_id q' = mq_operation_id q" and "db'' = embedding_run env customer calls db'"
  shows "(\<exists>r. persist_set env customer s q' NoFault db'' = (Inr r, db'') \<and> (\<forall>r'. res = Inr r' \<longrightarrow> r' = r))
    \<and> (eg_sha256 other \<noteq> eg_sha256 s \<longrightarrow> (\<exists>e. persist_set env customer other q' fault'
        db'' = (Inl e, db'')))"
proof -
  have "\<exists>row pd. es_operations db' (mq_operation_id q) = Some row \<and> (\<forall>r. res = Inr r \<longrightarrow> hw_result row =
      r)
      \<and> profile_sha256 env (eg_profile s) = Inr pd \<and> hw_set row = set_key_of s pd \<and> hw_set_sha256 row =
          eg_sha256 s
      \<and> is_customer_environment_id (eg_scope s) = customer \<and> map_option fst (db_identity (es_knowledge
          db')) = Some customer"
    using assms(1)
  proof (cases rule: persist_set_cases)
    case 1
    then obtain r where "res = Inr r" using assms(2) by blast
    with 1 show ?thesis by auto
  next
    case (2 pd r)
    then show ?thesis by (auto simp: with_record_def with_vectors_def with_set_def)
  qed
  then obtain row pd where row: "es_operations db' (mq_operation_id q') = Some row" "\<forall>r. res = Inr r
      \<longrightarrow> hw_result row = r"
      "profile_sha256 env (eg_profile s) = Inr pd" "hw_set row = set_key_of s pd" "hw_set_sha256 row =
          eg_sha256 s"
      "is_customer_environment_id (eg_scope s) = customer" "map_option fst (db_identity (es_knowledge
          db')) = Some customer"
    unfolding assms(3)[symmetric] by blast
  have later: "es_operations db'' (mq_operation_id q') = Some row"
    "map_option fst (db_identity (es_knowledge db'')) = Some customer"
    unfolding assms(4) using run_keeps_operation(1)[OF row(1)] row(7) by (simp_all only:
        run_keeps_operation(2))
  have "\<exists>e. persist_set env customer other q' fault' db'' = (Inl e, db'')" if o: "eg_sha256 other
      \<noteq> eg_sha256 s"
  proof -
    obtain res' d where p: "persist_set env customer other q' fault'
        db'' = (res', d)" by (rule prod.exhaust)
    then have "d = db'' \<and> (\<forall>r. res' \<noteq> Inr r)"
    proof (cases rule: persist_set_cases)
      case 1
      then show ?thesis using later(1) row(5) o by (cases res') auto
    next
      case (2 pd r)
      then show ?thesis using later(1) by (simp add: storable_def recordable_def)
    qed
    then show ?thesis using p by (cases res') auto
  qed
  moreover have "persist_set env customer s q' NoFault db'' = (Inr (hw_result row), db'')"
    by (rule persist_replayed[OF later row(6,3,4,5)])
  ultimately show ?thesis using row(2) by blast
qed

text \<open>A set that is stored stays: no operation stores another one under its key.\<close>

theorem occupied_set_refused:
  assumes "es_sets db (set_key_of s pd) \<noteq> None" and "es_operations db (mq_operation_id q) = None"
    and "profile_sha256 env (eg_profile s) = Inr pd"
  shows "\<exists>e. persist_set env customer s q fault db = (Inl e, db)"
proof -
  obtain res db' where p: "persist_set env customer s q fault db = (res, db')" by (rule prod.exhaust)
  then have "db' = db \<and> (\<forall>r. res \<noteq> Inr r)"
  proof (cases rule: persist_set_cases)
    case 1
    then show ?thesis using assms(2) by (cases res) auto
  next
    case (2 pd' r)
    then show ?thesis using assms(1,3) by (auto simp: storable_def)
  qed
  then show ?thesis using p by (cases res) auto
qed

section \<open>From a published generation to a searchable set\<close>

definition input_digests :: "embedding_input list \<Rightarrow> (pystr \<times> pystr) list" where
  "input_digests is = map (\<lambda>i. (ei_input_id i, ei_content_sha256 i)) is"

lemma validate_input_digests:
  assumes "map_checked validate_embedding_input is = Inr js" and "\<forall>i \<in> set is. is_identifier
      (ei_input_id i)"
  shows "input_digests js = input_digests is"
proof -
  have "ei_input_id j = ei_input_id i \<and> ei_content_sha256 j = ei_content_sha256 i"
    if "validate_embedding_input i = Inr j" "is_identifier (ei_input_id i)" for i j
    using that unfolding validate_embedding_input_def
    by (auto simp: validate_identifier_id validate_digest_def elim!: bindE_InrE split: if_splits)
  with map_checked_InrD[OF assms(1)] assms(2) have "list_all2 (\<lambda>i j. ei_input_id j = ei_input_id i
      \<and> ei_content_sha256 j = ei_content_sha256 i) is js"
    by (auto simp: list_all2_conv_all_nth)
  then show ?thesis by (auto simp: input_digests_def list_all2_conv_all_nth intro!: nth_equalityI)
qed

lemma input_digests_ids: "map fst (input_digests is) = map ei_input_id is"
  by (simp add: input_digests_def comp_def)

lemma validate_source_digests:
  assumes "validate_generation_source env x = Inr y" and "\<forall>i \<in> set (eo_chunks x). is_identifier
      (ei_input_id i)"
    and "sorted (map ei_input_id (eo_chunks x))"
  shows "input_digests (eo_chunks y) = input_digests (eo_chunks x)" "eo_generation_id y =
      eo_generation_id x"
    "eo_generation_digest y = eo_generation_digest x" "is_digest (eo_generation_digest x)"
    "validate_scope (ie_lower (xe_ingest env)) (eo_scope x) = Inr (eo_scope y)"
proof -
  obtain sc cs where v: "validate_scope (ie_lower (xe_ingest env)) (eo_scope x) = Inr sc" "is_digest
      (eo_generation_digest x)"
    "map_checked validate_embedding_input (eo_chunks x) = Inr cs"
    "y = x\<lparr>eo_scope := sc, eo_chunks := sort_key ei_input_id cs\<rparr>"
    using assms(1) unfolding validate_generation_source_def validate_digest_def
    by (auto elim!: bindE_InrE split: if_splits)
  have d: "input_digests cs = input_digests (eo_chunks x)" by (rule validate_input_digests[OF v(3)
      assms(2)])
  then have "map ei_input_id cs = map ei_input_id (eo_chunks x)" by (metis input_digests_ids)
  then have "sort_key ei_input_id cs = cs" using assms(3) sort_key_fixed by metis
  then show "input_digests (eo_chunks y) = input_digests (eo_chunks x)" "eo_generation_id y =
      eo_generation_id x"
    "eo_generation_digest y = eo_generation_digest x" "is_digest (eo_generation_digest x)"
    "validate_scope (ie_lower (xe_ingest env)) (eo_scope x) = Inr (eo_scope y)"
    using v d by simp_all
qed

text \<open>The source of a stored generation.\<close>

lemma load_generation_source_InrD:
  assumes "load_generation_source env customer sc g NoFault db = (Inr src, db')"
  obtains r where "db' = db" "is_customer_environment_id sc = customer"
    "map_option fst (db_identity (es_knowledge db)) = Some customer"
    "db_generations (es_knowledge db) g = Some r" "gr_namespace r = is_namespace sc"
    "length (generation_chunks (es_knowledge db) (is_namespace sc) g) = gr_chunk_count r"
    "generation_source_of env sc g r (generation_chunks (es_knowledge db) (is_namespace sc) g) = Inr
        src"
proof -
  have cust: "is_customer_environment_id sc = customer" using assms by (simp add:
      load_generation_source_def split: if_splits)
  show thesis
    using assms[unfolded load_generation_source_def] cust
    by (simp, elim run_transaction_cases)
      (auto simp: andthen_Inr establish_customer_def split: option.splits intro: that[OF _ cust])
qed

lemma source_of_digests:
  assumes "generation_source_of env sc g r rows = Inr src" and "sorted (map (pc_chunk_id \<circ> cw_chunk)
      rows)"
    and "\<forall>c \<in> set rows. is_identifier (pc_chunk_id (cw_chunk c))"
  shows "input_digests (eo_chunks src) = map (\<lambda>c. (pc_chunk_id (cw_chunk c), cw_content_sha256 c)) rows"
    "eo_generation_id src = g" "eo_generation_digest src = gr_generation_digest r"
    "validate_scope (ie_lower (xe_ingest env)) sc = Inr (eo_scope src)"
    "sorted (map ei_input_id (eo_chunks src))" "\<forall>i \<in> set (eo_chunks src). is_identifier (ei_input_id i)"
proof -
  obtain cs where cs: "map_checked validate_embedding_input (map embedding_input_of rows) = Inr cs"
    "validate_generation_source env \<lparr>eo_scope = sc, eo_generation_id = g,
       eo_generation_digest = gr_generation_digest r, eo_chunks = cs\<rparr> = Inr src"
    using assms(1) unfolding generation_source_of_def map_checked_map[symmetric] by (auto elim!:
        bindE_InrE)
  have d: "input_digests cs = map (\<lambda>c. (pc_chunk_id (cw_chunk c), cw_content_sha256 c)) rows"
    using validate_input_digests[OF cs(1)] assms(3) by (simp add: input_digests_def
        embedding_input_of_def comp_def)
  then have ids: "map ei_input_id cs = map (pc_chunk_id \<circ> cw_chunk) rows"
    using input_digests_ids[of cs] by (simp add: comp_def)
  have "ei_input_id ` set cs = (pc_chunk_id \<circ> cw_chunk) ` set rows" using arg_cong[OF ids, of set] by
      simp
  then have i: "\<forall>i \<in> set cs. is_identifier (ei_input_id i)" "sorted (map ei_input_id cs)"
    using assms(2,3) ids by (metis comp_apply imageE imageI, simp)
  note s = validate_source_digests[OF cs(2), simplified, OF i]
  show "input_digests (eo_chunks src) = map (\<lambda>c. (pc_chunk_id (cw_chunk c), cw_content_sha256 c)) rows"
    "eo_generation_id src = g" "eo_generation_digest src = gr_generation_digest r"
    "validate_scope (ie_lower (xe_ingest env)) sc = Inr (eo_scope src)"
    using s d by simp_all
  show "sorted (map ei_input_id (eo_chunks src))" "\<forall>i \<in> set (eo_chunks src). is_identifier (ei_input_id
      i)"
    using validate_source_InrD[OF cs(2)] by blast+
qed

lemma validate_set_fields:
  assumes "validate_embedding_set env g = Inr s" and "\<forall>e \<in> set (eg_embeddings g). is_identifier
      (pe_chunk_id e)"
  shows "validate_scope (ie_lower (xe_ingest env)) (eg_scope g) = Inr (eg_scope s)"
    "eg_generation_id s = eg_generation_id g" "eg_generation_digest s = eg_generation_digest g"
    "is_digest (eg_generation_digest s)" "is_digest (eg_sha256 s)" "validate_profile env (eg_profile g)
        = Inr (eg_profile s)"
    "eg_embeddings s = eg_embeddings g" "eg_embeddings s \<noteq> []" "distinct (map pe_chunk_id
        (eg_embeddings s))"
    "\<forall>e \<in> set (eg_embeddings s). is_digest (pe_content_sha256 e) \<and> is_digest (pe_vector_sha256 e)
       \<and> int (length (pe_values e)) = ef_dimensions (eg_profile s)"
proof -
  obtain sc p es pd d where v: "validate_scope (ie_lower (xe_ingest env)) (eg_scope g) = Inr sc"
    "is_digest (eg_generation_digest g)" "is_digest (eg_sha256 g)" "validate_profile env (eg_profile g)
        = Inr p"
    "map_checked (validate_prepared_embedding env) (eg_embeddings g) = Inr es" "es \<noteq> []"
    "distinct (map pe_chunk_id es)" "\<forall>e \<in> set es. int (length (pe_values e)) = ef_dimensions p"
    "s = g\<lparr>eg_scope := sc, eg_profile := p, eg_embeddings := es\<rparr>"
    using assms(1) unfolding validate_embedding_set_def validate_digest_def by (auto elim!: bindE_InrE
        split: if_splits)
  have es: "eg_embeddings s = eg_embeddings g" by (rule validate_embedding_set_InrD(1)[OF assms])
  have "is_digest (pe_content_sha256 e) \<and> is_digest (pe_vector_sha256 e)" if e: "e \<in> set es" for e
  proof -
    obtain e' where "validate_prepared_embedding env e' = Inr e" using map_checked_member[OF v(5) e] by
        blast
    then show ?thesis unfolding validate_prepared_embedding_def validate_digest_def
      by (auto elim!: bindE_InrE split: if_splits)
  qed
  then show "validate_scope (ie_lower (xe_ingest env)) (eg_scope g) = Inr (eg_scope s)"
    "eg_generation_id s = eg_generation_id g" "eg_generation_digest s = eg_generation_digest g"
    "is_digest (eg_generation_digest s)" "is_digest (eg_sha256 s)" "validate_profile env (eg_profile g)
        = Inr (eg_profile s)"
    "eg_embeddings s = eg_embeddings g" "eg_embeddings s \<noteq> []" "distinct (map pe_chunk_id
        (eg_embeddings s))"
    "\<forall>e \<in> set (eg_embeddings s). is_digest (pe_content_sha256 e) \<and> is_digest (pe_vector_sha256 e)
       \<and> int (length (pe_values e)) = ef_dimensions (eg_profile s)"
    using v es by simp_all
qed

text \<open>A materialization of a loaded generation: one embedding per chunk, with its digest.\<close>

lemma materialized_fields:
  assumes m: "materialize env provider n src profile w = (Inr s, w')" "1 \<le> n"
    and src: "sorted (map ei_input_id (eo_chunks src))" "\<forall>i \<in> set (eo_chunks src). is_identifier
        (ei_input_id i)"
    and sc: "validate_scope (ie_lower (xe_ingest env)) (eo_scope src) = Inr (eo_scope src)"
  shows "map (\<lambda>e. (pe_chunk_id e, pe_content_sha256 e)) (eg_embeddings s) = input_digests (eo_chunks
      src)"
    "eg_scope s = eo_scope src" "eg_generation_id s = eo_generation_id src"
    "eg_generation_digest s = eo_generation_digest src" "is_digest (eg_generation_digest s)" "is_digest
        (eg_sha256 s)"
    "\<exists>p. validate_profile env p = Inr (eg_profile s)" "eg_embeddings s \<noteq> []" "distinct (map pe_chunk_id
        (eg_embeddings s))"
    "\<forall>e \<in> set (eg_embeddings s). is_digest (pe_content_sha256 e) \<and> is_digest (pe_vector_sha256 e)
       \<and> int (length (pe_values e)) = ef_dimensions (eg_profile s)"
proof -
  obtain x p prepared w1 d where m': "validate_generation_source env src = Inr x"
    "validate_profile env profile = Inr p"
    "embed_batches env provider p (slices n (eo_chunks x)) w = (Inr prepared, w1)"
    "validate_embedding_set env \<lparr>eg_scope = eo_scope x, eg_generation_id = eo_generation_id x,
           eg_generation_digest = eo_generation_digest x, eg_profile = p,
           eg_embeddings = sort_key pe_chunk_id prepared, eg_sha256 = d\<rparr> = Inr s"
    using m(1) unfolding materialize_def Let_def by (auto elim!: andthen_InrE bindE_InrE)
  note x = validate_source_InrD[OF m'(1)] and xd = validate_source_digests[OF m'(1) src(2,1)]
  have all: "list_all2 (embeds env provider p) (eo_chunks x) prepared"
    using embed_batches_Inr[OF m'(3), unfolded concat_slices[OF m(2)]] x(1,2) by blast
  then have pd: "map (\<lambda>e. (pe_chunk_id e, pe_content_sha256 e)) prepared = input_digests (eo_chunks x)"
    unfolding input_digests_def by (intro nth_equalityI) (auto simp: list_all2_conv_all_nth embeds_def)
  then have ids: "map pe_chunk_id prepared = map ei_input_id (eo_chunks x)"
    using input_digests_ids[of "eo_chunks x"] by (metis (no_types, lifting) comp_def fst_conv
        list.map_comp map_eq_conv)
  have sorted: "sort_key pe_chunk_id prepared = prepared" using ids x(2) sort_key_fixed by metis
  have "pe_chunk_id ` set prepared = ei_input_id ` set (eo_chunks x)" using ids by (metis set_map)
  then have i: "\<forall>e \<in> set prepared. is_identifier (pe_chunk_id e)" using x(1) by (metis imageE imageI)
  note v = validate_set_fields[OF m'(4), simplified, unfolded sorted, OF i]
  have scope: "eo_scope x = eo_scope src" "eg_scope s = eo_scope x" using xd(5) v(1) sc by simp_all
  show "map (\<lambda>e. (pe_chunk_id e, pe_content_sha256 e)) (eg_embeddings s) = input_digests (eo_chunks
      src)"
    "eg_scope s = eo_scope src" "eg_generation_id s = eo_generation_id src"
    "eg_generation_digest s = eo_generation_digest src" "is_digest (eg_generation_digest s)" "is_digest
        (eg_sha256 s)"
    "\<exists>p. validate_profile env p = Inr (eg_profile s)" "eg_embeddings s \<noteq> []" "distinct (map pe_chunk_id
        (eg_embeddings s))"
    "\<forall>e \<in> set (eg_embeddings s). is_digest (pe_content_sha256 e) \<and> is_digest (pe_vector_sha256 e)
       \<and> int (length (pe_values e)) = ef_dimensions (eg_profile s)"
    using v xd pd scope by auto
qed

lemma valid_profile_row:
  assumes "case_mapping (ie_lower (xe_ingest env)) upper" "validate_profile env p = Inr p'" "is_digest
      pd"
    and "ef_input_normalization_version p' < 2 ^ 31"
  shows "profile_row_ok pd (profile_row_of p')" "is_code (ef_profile_id p')"
  using assms validate_code_Inr[OF assms(1)] unfolding validate_profile_def Let_def
  by (auto simp: profile_row_ok_def profile_row_of_def elim!: bindE_InrE split: if_splits)

text \<open>What makes a request for a set new: no set, operation or event of its kind is stored yet, and the
    profile
  is not stored with other values.\<close>

definition fresh_request :: "embedding_set \<Rightarrow> pystr \<Rightarrow> materialization_request \<Rightarrow> embedding_store
    \<Rightarrow> bool" where
  "fresh_request s pd q db \<longleftrightarrow> is_identifier (mq_operation_id q) \<and> recordable s q db \<and> es_sets db
      (set_key_of s pd) = None
     \<and> (es_profiles db pd = None \<or> es_profiles db pd = Some (profile_row_of (eg_profile s)))"

text \<open>The primary key of the chunk table, whose identifiers are opaque.\<close>

definition chunk_keys :: "knowledge_db \<Rightarrow> bool" where
  "chunk_keys db \<longleftrightarrow> distinct (map (\<lambda>c. (cw_generation_id c, pc_chunk_id (cw_chunk c))) (db_chunks db))
     \<and> list_all (\<lambda>c. is_identifier (pc_chunk_id (cw_chunk c))) (db_chunks db)"

lemma stored_chunk_key:
  assumes "chunk_keys db" "c \<in> set (db_chunks db)"
  shows "stored_chunk db (cw_generation_id c) (pc_chunk_id (cw_chunk c)) = Some c"
proof -
  let ?k = "\<lambda>c. (cw_generation_id c, pc_chunk_id (cw_chunk c))"
  have "find (\<lambda>r. ?k r = ?k c) xs = Some c" if "distinct (map ?k xs)" "c \<in> set xs" for xs
    using that by (induction xs) (auto simp: image_iff)
  then show ?thesis using assms by (simp add: chunk_keys_def stored_chunk_def)
qed

lemma new_set_storable:
  assumes rows: "generation_chunks (es_knowledge db) (is_namespace (eg_scope s)) (eg_generation_id s) =
      rows"
    and digs: "map (\<lambda>e. (pe_chunk_id e, pe_content_sha256 e)) (eg_embeddings s)
      = map (\<lambda>c. (pc_chunk_id (cw_chunk c), cw_content_sha256 c)) rows"
    and gen: "db_generations (es_knowledge db) (eg_generation_id s) = Some r" "gr_namespace r =
        is_namespace (eg_scope s)"
    and s: "is_digest (eg_generation_digest s)" "is_digest (eg_sha256 s)" "eg_embeddings s \<noteq> []"
      "distinct (map pe_chunk_id (eg_embeddings s))" "length rows < 2 ^ 31"
      "\<forall>e \<in> set (eg_embeddings s). is_digest (pe_content_sha256 e) \<and> is_digest (pe_vector_sha256 e)
       \<and> int (length (pe_values e)) = ef_dimensions (eg_profile s)"
    and p: "profile_row_ok pd (profile_row_of (eg_profile s))"
    and db: "vectors_valid db" "chunk_keys (es_knowledge db)" and q: "fresh_request s pd q db"
  shows "storable s pd q db"
    "list_all2 (\<lambda>c v. nw_chunk_id v = pc_chunk_id (cw_chunk c) \<and> nw_content_sha256 v =
        cw_content_sha256 c
       \<and> int (length (nw_values v)) = ef_dimensions (eg_profile s)) rows (new_vectors s pd)"
proof -
  let ?k = "set_key_of s pd" and ?db = "with_set s pd False db" and ?g = "eg_generation_id s"
  have len: "length (eg_embeddings s) = length rows" using arg_cong[OF digs, of length] by simp
  have nth: "pe_chunk_id (eg_embeddings s ! i) = pc_chunk_id (cw_chunk (rows ! i))
      \<and> pe_content_sha256 (eg_embeddings s ! i) = cw_content_sha256 (rows ! i)" if "i < length rows"
          for i
    using arg_cong[OF digs, of "\<lambda>xs. xs ! i"] that len by simp
  have row: "c \<in> set (db_chunks (es_knowledge db)) \<and> cw_generation_id c = ?g \<and> gv_namespace (cw_chunk
      c) = is_namespace (eg_scope s)"
    if "c \<in> set rows" for c
    using that rows by (auto simp: generation_chunks_def)
  have chunk: "\<exists>c. stored_chunk (es_knowledge db) ?g (pe_chunk_id e) = Some c \<and> gv_namespace (cw_chunk
      c) = is_namespace (eg_scope s)
      \<and> cw_content_sha256 c = pe_content_sha256 e" if e: "e \<in> set (eg_embeddings s)" for e
  proof -
    obtain i where i: "i < length rows" "e = eg_embeddings s ! i" using e len by (auto simp:
        in_set_conv_nth)
    then have c: "rows ! i \<in> set rows" by simp
    show ?thesis using stored_chunk_key[OF db(2), of "rows ! i"] row[OF c] nth[OF i(1)] i(2) by auto
  qed
  have valid: "valid_chunk_embedding ?db v" if v: "v \<in> set (new_vectors s pd)" for v
  proof -
    obtain e where e: "e \<in> set (eg_embeddings s)" "v = vector_row_of ?k e" using v by (auto simp:
        new_vectors_def)
    then show ?thesis using chunk[OF e(1)] s(6)
      by (auto simp: valid_chunk_embedding_def vector_row_of_def set_key_of_def with_set_def
          profile_row_of_def)
  qed
  have none: "es_sets db ?k = None" "vectors_of db ?k = []"
    using q vectors_need_set[OF db(1)] by (simp_all add: fresh_request_def)
  have "vector_key ` set (new_vectors s pd) \<inter> vector_key ` set (es_vectors db) = {}"
  proof -
    have "nw_set v \<noteq> ?k" if "v \<in> set (es_vectors db)" for v using that none(2) by (auto simp:
        vectors_of_def filter_empty_conv)
    then show ?thesis by (auto simp: new_vectors_def vector_key_def vector_row_of_def)
  qed
  moreover have "distinct (map vector_key (new_vectors s pd))"
    using s(4) by (auto simp: new_vectors_def vector_key_def vector_row_of_def distinct_map inj_on_def)
  moreover have "is_digest (nw_content_sha256 v) \<and> is_digest (nw_vector_sha256 v) \<and> nw_set v = ?k"
    if "v \<in> set (new_vectors s pd)" for v using that s(6) by (auto simp: new_vectors_def
        vector_row_of_def)
  ultimately have ins: "insertable ?db (new_vectors s pd)"
    using valid by (auto simp: insertable_def with_set_def)
  have "stored_as_prepared (with_vectors s pd False db) ?k (length (eg_embeddings s))"
  proof -
    let ?w = "with_vectors s pd False db"
    have v: "vectors_of ?w ?k = new_vectors s pd"
      using none(2) by (auto simp: vectors_of_def with_vectors_def new_vectors_def vector_row_of_def
          filter_map comp_def)
    have k: "snd (snd ?k) = pd" "fst (snd ?k) = ?g" by (simp_all add: set_key_of_def)
    have w: "es_profiles ?w pd = Some (profile_row_of (eg_profile s))" "es_knowledge ?w = es_knowledge
        db"
      by (simp_all add: with_vectors_def with_set_def)
    have ok: "\<exists>c. stored_chunk (es_knowledge db) ?g (nw_chunk_id x) = Some c \<and> nw_content_sha256 x =
        cw_content_sha256 c
        \<and> int (length (nw_values x)) = ef_dimensions (eg_profile s)" if x: "x \<in> set (new_vectors s pd)"
            for x
    proof -
      obtain e where e: "e \<in> set (eg_embeddings s)" "x = vector_row_of ?k e" using x by (auto simp:
          new_vectors_def)
      then show ?thesis using chunk[OF e(1)] s(6) by (auto simp: vector_row_of_def)
    qed
    have "filter (\<lambda>r. es_profiles ?w pd \<noteq> None \<and> stored_chunk (es_knowledge ?w) ?g (nw_chunk_id r)
        \<noteq> None) (new_vectors s pd)
        = new_vectors s pd"
      using ok by (auto simp: filter_id_conv w)
    moreover have "list_all (\<lambda>x. int (length (nw_values x)) = fw_dimensions (the (es_profiles ?w pd))
        \<and> nw_content_sha256 x = cw_content_sha256 (the (stored_chunk (es_knowledge ?w) ?g (nw_chunk_id
            x)))) (new_vectors s pd)"
      unfolding list_all_iff w using ok by (fastforce simp: profile_row_of_def)
    moreover have "new_vectors s pd \<noteq> []" "length (new_vectors s pd) = length (eg_embeddings s)"
      using s(3) by (simp_all add: new_vectors_def)
    ultimately show ?thesis unfolding stored_as_prepared_def Let_def k v by simp
  qed
  moreover have "rows \<noteq> []" using len s(3) by auto
  ultimately show "storable s pd q db"
    using q p s gen ins len by (simp add: storable_def fresh_request_def)
  show "list_all2 (\<lambda>c v. nw_chunk_id v = pc_chunk_id (cw_chunk c) \<and> nw_content_sha256 v =
      cw_content_sha256 c
       \<and> int (length (nw_values v)) = ef_dimensions (eg_profile s)) rows (new_vectors s pd)"
    using nth len s(6) by (auto simp: list_all2_conv_all_nth new_vectors_def vector_row_of_def)
qed

lemma result_made:
  assumes "case_mapping (ie_lower (xe_ingest env)) upper" "is_code (ef_profile_id (eg_profile s))"
      "is_identifier oid"
    and "is_digest (eg_generation_digest s)" "is_digest pd" "is_digest (eg_sha256 s)" "eg_embeddings s
        \<noteq> []"
  shows "\<exists>r. make_materialization_result (ie_lower (xe_ingest env)) oid s pd = Inr r"
  using assms validate_code_id[OF assms(1)]
  by (simp add: make_materialization_result_def validate_identifier_id validate_digest_def)

lemma persist_runs:
  assumes "is_customer_environment_id (eg_scope s) = customer" "map_option fst (db_identity
      (es_knowledge db)) = Some customer"
    and "profile_sha256 env (eg_profile s) = Inr pd" "storable s pd q db"
    and "make_materialization_result (ie_lower (xe_ingest env)) (mq_operation_id q) s pd = Inr r"
  shows "persist_set env customer s q NoFault db = (Inr r, with_record s pd q r db)"
proof -
  have "store_set env s pd q db = (Inr r, with_record s pd q r db)" using assms(4,5) by (simp add:
      store_set_Inr)
  then show ?thesis using assms
    by (simp add: persist_set_def run_transaction_def andthen_def establish_customer_def guard_def
        fetch_def storable_def recordable_def)
qed

text \<open>C21: A published generation becomes searchable: when its source is loaded, materialized and
    stored, in a store
  reached by calls of the repositories whose chunk table keeps its key, the store succeeds and holds
      exactly one
  vector for every chunk of the generation, of the dimension of the profile and for that content; and
      while the
  generation is active the condition of the semantic statement on the set holds. The request is fresh:
      its operation
  and its outbox event are not recorded yet, no set is stored for the generation and the profile (for a
      stored
  one see \<open>occupied_set_refused\<close>), and no other values are stored for the digest of the profile; that
      digest
  is one, and the normalization version and the number of chunks fit the 32-bit columns.\<close>

theorem embedded_generation_searchable:
  assumes "case_mapping (ie_lower (xe_ingest env)) upper" and "validate_scope (ie_lower (xe_ingest
      env)) sc = Inr sc"
    and "db = embedding_run env customer calls (empty_embeddings knowledge)" and "chunk_keys
        (es_knowledge db)"
    and "load_generation_source env customer sc g NoFault db = (Inr src, db)"
    and "materialize env provider n src profile w = (Inr s, w')" and "1 \<le> n"
    and "profile_sha256 env (eg_profile s) = Inr pd" and "is_digest pd"
    and "ef_input_normalization_version (eg_profile s) < 2 ^ 31"
    and "length (generation_chunks (es_knowledge db) (is_namespace sc) g) < 2 ^ 31" and "fresh_request
        s pd q db"
  shows "\<exists>r db'. persist_set env customer s q NoFault db = (Inr r, db')
    \<and> list_all2 (\<lambda>c v. nw_chunk_id v = pc_chunk_id (cw_chunk c) \<and> nw_content_sha256 v =
        cw_content_sha256 c
         \<and> int (length (nw_values v)) = ef_dimensions (eg_profile s))
        (generation_chunks (es_knowledge db) (is_namespace sc) g) (vectors_of db' (is_namespace sc, g,
            pd))
    \<and> (map_option gr_status (db_generations (es_knowledge db) g) = Some ACTIVE \<longrightarrow> ready_set db'
        (is_namespace sc, g, pd))"
proof -
  have "store_kept db" unfolding assms(3) by (rule run_kept[OF empty_kept])
  then have vv: "vectors_valid db" by (simp add: store_kept_def)
  obtain r where r: "is_customer_environment_id sc = customer" "map_option fst (db_identity
      (es_knowledge db)) = Some customer"
    "db_generations (es_knowledge db) g = Some r" "gr_namespace r = is_namespace sc"
    "length (generation_chunks (es_knowledge db) (is_namespace sc) g) = gr_chunk_count r"
    "generation_source_of env sc g r (generation_chunks (es_knowledge db) (is_namespace sc) g) = Inr
        src"
    by (rule load_generation_source_InrD[OF assms(5)])
  let ?rows = "generation_chunks (es_knowledge db) (is_namespace sc) g" and ?k = "(is_namespace sc, g,
      pd)"
  have "sorted (map (pc_chunk_id \<circ> cw_chunk) ?rows)" by (simp add: generation_chunks_def)
  moreover have "\<forall>c \<in> set ?rows. is_identifier (pc_chunk_id (cw_chunk c))"
    using assms(4) by (auto simp: generation_chunks_def chunk_keys_def list_all_iff)
  ultimately have src: "input_digests (eo_chunks src) = map (\<lambda>c. (pc_chunk_id (cw_chunk c),
      cw_content_sha256 c)) ?rows"
    "eo_generation_id src = g" "eo_generation_digest src = gr_generation_digest r" "eo_scope src = sc"
    "sorted (map ei_input_id (eo_chunks src))" "\<forall>i \<in> set (eo_chunks src). is_identifier (ei_input_id i)"
    using source_of_digests[OF r(6)] assms(2) by auto
  have sc: "validate_scope (ie_lower (xe_ingest env)) (eo_scope src) = Inr (eo_scope src)" using
      assms(2) src(4) by simp
  note m = materialized_fields[OF assms(6,7) src(5,6) sc]
  have s: "eg_scope s = sc" "eg_generation_id s = g" "eg_generation_digest s = gr_generation_digest r"
      using m(2-4) src(2-4) by simp_all
  obtain p where p: "validate_profile env p = Inr (eg_profile s)" using m(7) by blast
  note prof = valid_profile_row[OF assms(1) p assms(9,10)]
  have key: "set_key_of s pd = ?k" by (simp add: set_key_of_def s)
  have st: "storable s pd q db"
    "list_all2 (\<lambda>c v. nw_chunk_id v = pc_chunk_id (cw_chunk c) \<and> nw_content_sha256 v =
        cw_content_sha256 c
       \<and> int (length (nw_values v)) = ef_dimensions (eg_profile s)) ?rows (new_vectors s pd)"
    by (rule new_set_storable[where rows = ?rows and r = r]; use m src r s prof vv assms(4,11,12) in
        simp)+
  obtain res where res: "make_materialization_result (ie_lower (xe_ingest env)) (mq_operation_id q) s
      pd = Inr res"
    using result_made[OF assms(1) prof(2) _ m(5) assms(9) m(6,8)] assms(12) by (auto simp:
        fresh_request_def)
  let ?db = "with_record s pd q res db"
  have run: "persist_set env customer s q NoFault db = (Inr res, ?db)"
    by (rule persist_runs[OF _ r(2) assms(8) st(1) res]) (simp add: s r(1))
  have none: "vectors_of db ?k = []" using vectors_need_set[OF vv] st(1) key by (simp add: storable_def)
  then have vs: "vectors_of ?db ?k = new_vectors s pd" by (simp add: vectors_of_new key)
  have len: "length (eg_embeddings s) = gr_chunk_count r"
    using arg_cong[OF m(1), of length] arg_cong[OF src(1), of length] r(5) by simp
  have "ready_set ?db ?k" if "gr_status r = ACTIVE"
  proof -
    have "es_sets ?db ?k = Some (new_set s True)" "es_knowledge ?db = es_knowledge db" "length
        (new_vectors s pd) = gr_chunk_count r"
      using len by (simp_all add: with_record_def with_vectors_def with_set_def key new_vectors_def)
    then show ?thesis using that r(3,4) len s by (simp add: ready_set_def vs new_set_def)
  qed
  then show ?thesis using run st(2) vs r(3) by (intro exI[of _ res] exI[of _ ?db]) simp
qed

section \<open>A sample store\<close>

definition sample_generation_row :: generation_row where
  "sample_generation_row = \<lparr>gr_namespace = lit ''hr'', gr_generation_digest = replicate 64 50,
      gr_document_count = 1,
     gr_chunk_count = 2, gr_total_normalized_bytes = 8, gr_status = generation_status.ACTIVE\<rparr>"

definition sample_knowledge :: knowledge_db where
  "sample_knowledge = \<lparr>db_identity = Some (lit ''c'', 1), db_generations = [7 \<mapsto> sample_generation_row],
     db_active = [lit ''hr'' \<mapsto> (7, replicate 64 50)], db_documents = [],
     db_chunks = [sample_chunk_row ''b'' INTERNAL, sample_chunk_row ''a'' INTERNAL], db_operations =
         Map.empty, db_outbox = []\<rparr>"

definition sample_source :: generation_source where
  "sample_source = sample_generation\<lparr>eo_chunks := [sample_chunk ''a'', sample_chunk ''b'']\<rparr>"

definition sample_store_request :: materialization_request where
  "sample_store_request = \<lparr>mq_operation_id = lit ''o'', mq_request_id = lit ''r'', mq_actor_id = lit
      ''u'', mq_outbox_id = 5\<rparr>"

lemma sample_generation_chunks:
  "generation_chunks sample_knowledge (lit ''hr'') 7 = [sample_chunk_row ''a'' INTERNAL,
      sample_chunk_row ''b'' INTERNAL]"
  by (simp add: generation_chunks_def sample_knowledge_def sample_chunk_row_def lit_def)

lemma sample_source_again: "validate_generation_source sample_embedding_env sample_source = Inr
    sample_source"
proof -
  have "map_checked validate_embedding_input (eo_chunks sample_source) = Inr (eo_chunks sample_source)"
    using sample_identifiers by (simp add: sample_source_def sample_chunk_valid)
  moreover have "sort_key ei_input_id (eo_chunks sample_source) = eo_chunks sample_source"
    "distinct (map ei_input_id (eo_chunks sample_source))" "eo_chunks sample_source \<noteq> []"
    by (simp_all add: sample_source_def sample_chunk_def lit_def)
  moreover have "validate_digest (eo_generation_digest sample_source) = Inr (replicate 64 50)"
    by (simp add: sample_source_def sample_generation_def validate_digest_def is_digest_def is_hex_def
        is_digit_def list_all_iff)
  ultimately show ?thesis using sample_scope_valid
    unfolding validate_generation_source_def by (simp add: sample_source_def)
qed

lemma sample_stored_inputs: "embedding_input_of (sample_chunk_row i INTERNAL) = sample_chunk i"
  by (simp add: embedding_input_of_def sample_chunk_row_def sample_chunk_def)

lemma sample_loaded:
  "load_generation_source sample_embedding_env (lit ''c'') (eo_scope sample_generation) 7 NoFault
      (empty_embeddings sample_knowledge)
     = (Inr sample_source, empty_embeddings sample_knowledge)"
proof -
  have ns: "is_namespace (eo_scope sample_generation) = lit ''hr''" "is_customer_environment_id
      (eo_scope sample_generation) = lit ''c''"
    by (simp_all add: sample_generation_def)
  have "generation_source_of sample_embedding_env (eo_scope sample_generation) 7 sample_generation_row
      [sample_chunk_row ''a'' INTERNAL, sample_chunk_row ''b'' INTERNAL]
    = validate_generation_source sample_embedding_env sample_source"
    using sample_identifiers
    by (simp add: generation_source_of_def sample_stored_inputs sample_chunk_valid sample_source_def
        sample_generation_def
        sample_generation_row_def)
  moreover have "db_generations sample_knowledge 7 = Some sample_generation_row" "db_identity
      sample_knowledge = Some (lit ''c'', 1)"
    by (simp_all add: sample_knowledge_def)
  moreover have "gr_namespace sample_generation_row = lit ''hr''" "gr_chunk_count sample_generation_row
      = 2"
    by (simp_all add: sample_generation_row_def)
  ultimately show ?thesis
    by (simp add: load_generation_source_def run_transaction_def andthen_def establish_customer_def
        guard_def fetch_def
        empty_embeddings_def ns sample_generation_chunks sample_source_again)
qed

lemma sample_materialized:
  "\<exists>w. materialize sample_embedding_env sample_embedder 1 sample_source sample_embedding_profile () =
      (Inr sample_set, w)"
proof -
  let ?cs = "[sample_chunk ''a'', sample_chunk ''b'']"
  obtain w where run: "embed_batches sample_embedding_env sample_embedder sample_embedding_profile
      (slices 1 ?cs) ()
      = (Inr [sample_prepared_one ''a'', sample_prepared_one ''b''], w)"
    using sample_run[of 1 "()"] by (metis order_refl prod.collapse)
  have sorted: "pe_chunk_id (sample_prepared_one ''a'') \<le> pe_chunk_id (sample_prepared_one ''b'')"
    by (simp add: sample_prepared_one_def lit_def)
  have allowed: "\<not> (\<exists>c \<in> set ?cs. ei_classification c \<notin> set (ef_classifications
      sample_embedding_profile))"
    by (simp add: sample_chunk_def sample_embedding_profile_def)
  have json: "json_sha256 (xe_ingest sample_embedding_env) (embedding_set_json (eo_scope
      sample_generation) 7
      (replicate 64 50) (replicate 64 97) [sample_prepared_one ''a'', sample_prepared_one ''b'']) = Inr
          (replicate 64 97)"
    using sample_set_json by (simp add: sample_sha256)
  have gen: "eo_generation_id sample_source = 7" "eo_generation_digest sample_source = replicate 64 50"
    "eo_scope sample_source = eo_scope sample_generation" "eo_chunks sample_source = ?cs"
    by (simp_all add: sample_source_def sample_generation_def)
  have "materialize sample_embedding_env sample_embedder 1 sample_source sample_embedding_profile () =
      (Inr sample_set, w)"
    unfolding materialize_def sample_source_again sample_embedding_profile_valid proc_simps gen
    using run sample_set_valid json allowed
    by (simp add: andthen_def Let_def sorted sample_embedding_profile_digest gen sample_set_def)
  then show ?thesis ..
qed

lemma sample_facts:
  "chunk_keys sample_knowledge" "is_digest (replicate 64 97)" "profile_sha256 sample_embedding_env
      (eg_profile sample_set) = Inr (replicate 64 97)"
  "fresh_request sample_set (replicate 64 97) sample_store_request (empty_embeddings sample_knowledge)"
  "ef_input_normalization_version (eg_profile sample_set) < 2 ^ 31"
proof -
  show "chunk_keys sample_knowledge" using sample_identifiers
    by (simp add: chunk_keys_def sample_knowledge_def sample_chunk_row_def lit_def)
  show "is_digest (replicate 64 97)" by (simp add: is_digest_def is_hex_def list_all_iff)
  show "profile_sha256 sample_embedding_env (eg_profile sample_set) = Inr (replicate 64 97)"
    using sample_embedding_profile_digest by (simp add: sample_set_def)
  show "fresh_request sample_set (replicate 64 97) sample_store_request (empty_embeddings
      sample_knowledge)"
    by (simp add: fresh_request_def recordable_def sample_store_request_def empty_embeddings_def
        sample_text)
  show "ef_input_normalization_version (eg_profile sample_set) < 2 ^ 31" by (simp add: sample_set_def
      sample_embedding_profile_def)
qed

theorem embedded_generation_searchable_witness:
  "\<exists>r db'. persist_set sample_embedding_env (lit ''c'') sample_set sample_store_request NoFault
      (empty_embeddings sample_knowledge) = (Inr r, db')
     \<and> ready_set db' (lit ''hr'', 7, replicate 64 97)"
proof -
  obtain w where m: "materialize sample_embedding_env (sample_embedder :: unit embedder) 1
      sample_source sample_embedding_profile ()
      = (Inr sample_set, w)" using sample_materialized by blast
  have cm: "case_mapping (ie_lower (xe_ingest sample_embedding_env)) ascii_upper"
    by (simp add: sample_embedding_env_def sample_ingest_env_def case_mapping_ascii)
  have ns: "is_namespace (eo_scope sample_generation) = lit ''hr''" by (simp add: sample_generation_def)
  have k: "es_knowledge (empty_embeddings sample_knowledge) = sample_knowledge" by (simp add:
      empty_embeddings_def)
  have len: "length (generation_chunks (es_knowledge (empty_embeddings sample_knowledge)) (is_namespace
      (eo_scope sample_generation)) 7) < 2 ^ 31"
    by (simp add: k ns sample_generation_chunks)
  have run: "empty_embeddings sample_knowledge
      = embedding_run sample_embedding_env (lit ''c'') [] (empty_embeddings sample_knowledge)" by (simp
          add: embedding_run_def)
  have "map_option gr_status (db_generations (es_knowledge (empty_embeddings sample_knowledge)) 7) =
      Some generation_status.ACTIVE"
    unfolding k by (simp add: sample_knowledge_def sample_generation_row_def)
  then show ?thesis
    using embedded_generation_searchable[OF cm sample_scope_valid run _ sample_loaded m order_refl
        sample_facts(3,2,5) len sample_facts(4)]
      sample_facts(1) by (auto simp: k ns)
qed

theorem materialization_takes_effect_once_witness:
  "\<exists>db'
      db'' r. persist_set sample_embedding_env (lit ''c'') sample_set sample_store_request (LostReply StoreUnavailable)
        (empty_embeddings sample_knowledge) = (Inl StoreUnavailable, db')
     \<and> db'' = embedding_run sample_embedding_env (lit ''c'') [LoadSource (eo_scope sample_generation) 7 NoFault] db'
     \<and> persist_set sample_embedding_env (lit ''c'') sample_set sample_store_request NoFault
         db'' = (Inr r, db'')
     \<and> (\<exists>e. persist_set sample_embedding_env (lit ''c'') (sample_set\<lparr>eg_sha256 := replicate 64
         98\<rparr>) sample_store_request NoFault db'' = (Inl e, db''))"
proof -
  let ?db = "empty_embeddings sample_knowledge" and ?env = sample_embedding_env
  have st: "storable sample_set (replicate 64 97) sample_store_request ?db"
  proof (rule new_set_storable(1)[OF refl, where r = sample_generation_row])
    have k: "es_knowledge ?db = sample_knowledge" by (simp add: empty_embeddings_def)
    have g: "is_namespace (eg_scope sample_set) = lit ''hr''" "eg_generation_id sample_set = 7"
      by (simp_all add: sample_set_def sample_generation_def)
    show "map (\<lambda>e. (pe_chunk_id e, pe_content_sha256 e)) (eg_embeddings sample_set)
        = map (\<lambda>c. (pc_chunk_id (cw_chunk c), cw_content_sha256 c))
           (generation_chunks (es_knowledge ?db) (is_namespace (eg_scope sample_set)) (eg_generation_id
               sample_set))"
      unfolding k g sample_generation_chunks by (simp add: sample_set_def sample_prepared_one_def
          sample_chunk_row_def)
    show "length (generation_chunks (es_knowledge ?db) (is_namespace (eg_scope sample_set))
        (eg_generation_id sample_set)) < 2 ^ 31"
      unfolding k g sample_generation_chunks by simp
    show "db_generations (es_knowledge ?db) (eg_generation_id sample_set) = Some sample_generation_row"
      unfolding k g by (simp add: sample_knowledge_def)
    show "gr_namespace sample_generation_row = is_namespace (eg_scope sample_set)" by (simp add: g
        sample_generation_row_def)
    show "vectors_valid ?db" "chunk_keys (es_knowledge ?db)"
      using empty_kept[of sample_knowledge] sample_facts(1) by (simp_all add: store_kept_def k)
    show "profile_row_ok (replicate 64 97) (profile_row_of (eg_profile sample_set))"
      using sample_facts(2) by (simp add: profile_row_ok_def profile_row_of_def sample_set_def
          sample_embedding_profile_def sample_text)
  qed (use sample_facts(4) in \<open>auto simp: sample_set_def sample_prepared_one_def
      sample_embedding_profile_def is_digest_def is_hex_def
      is_digit_def list_all_iff lit_def\<close>)
  obtain r where r: "make_materialization_result (ie_lower (xe_ingest ?env)) (mq_operation_id
      sample_store_request) sample_set (replicate 64 97) = Inr r"
  proof -
    have "case_mapping (ie_lower (xe_ingest ?env)) ascii_upper"
      by (simp add: sample_embedding_env_def sample_ingest_env_def case_mapping_ascii)
    moreover have "is_code (ef_profile_id (eg_profile sample_set))" "is_identifier (mq_operation_id
        sample_store_request)"
      "is_digest (eg_generation_digest sample_set)" "is_digest (eg_sha256 sample_set)" "eg_embeddings
          sample_set \<noteq> []"
      by (simp_all add: sample_set_def sample_embedding_profile_def sample_store_request_def
          sample_text is_digest_def is_hex_def is_digit_def list_all_iff)
    ultimately show ?thesis using result_made sample_facts(2) that by blast
  qed
  define db' where "db' = with_record sample_set (replicate 64 97) sample_store_request r ?db"
  have "store_set ?env sample_set (replicate 64 97) sample_store_request ?db = (Inr r, db')" using st r
      by (simp add: store_set_Inr db'_def)
  then have p: "persist_set ?env (lit ''c'') sample_set sample_store_request (LostReply
      StoreUnavailable) ?db = (Inl StoreUnavailable, db')"
    using sample_facts(3) by (simp add: persist_set_def run_transaction_def andthen_def
        establish_customer_def guard_def fetch_def
        empty_embeddings_def sample_knowledge_def) (simp add: sample_set_def sample_generation_def)
  have ne: "db' \<noteq> ?db" by (auto simp: db'_def with_record_def empty_embeddings_def dest!: arg_cong[of _
      _ es_outbox])
  show ?thesis
    using materialization_takes_effect_once[OF p _ refl refl, of "[LoadSource (eo_scope
        sample_generation) 7 NoFault]"
        "sample_set\<lparr>eg_sha256 := replicate 64 98\<rparr>" NoFault] ne p
    by (auto simp: sample_set_def)
qed

end
