(* ===== verification/Spec2Isabelle.thy ===== *)
theory Spec2Isabelle
  imports ApplicationProperties Runtime HrCore Leave Fusion KnowledgeStoreProperties TransportProperties
    SourceProperties ErpRouterProperties EmbeddingStoreProperties
begin

text \<open>
  A verification library for the enterprise assistant runtime under \<open>src/erp_ai\<close>.

  The program answers a chat request of an ERP user. A request enters through the HTTP transport, which
  checks its envelope, its body and the signed assertion of the ERP, and hands it to the trusted chat
  application, which resolves an opaque reference into a request context and a signed intent,
  checks the authorization snapshot, finds the route of the intent and runs the bounded agent. The
  agent asks a model provider for at most two turns; a tool call goes through the read-tool gateway,
  which authorizes it again for the caller and runs one of the installed read tools (employee
  profile, leave, knowledge search). Every stage records an audit event before it returns.

  Theories and the code they model:
  \<^item> Prelude, PyText, Json, Base64, Effects: the parts of Python the program rests on (strings as
    lists of code points, strip, split, integers, UUID, JSON values and their sizes, base64url) and
    checked values, outcomes of awaited calls and procedures on a world.
  \<^item> Context: \<open>context/\<close> and \<open>types.py\<close>.
  \<^item> Capabilities: \<open>capabilities/models.py, registry.py, access.py\<close>.
  \<^item> Boundary, ToolGateway: \<open>tools/\<close>.
  \<^item> HrCore, Leave, HrKnowledge: \<open>capabilities/hr_core/, leave/, hr_knowledge/\<close> and
    \<open>knowledge/models.py, provider.py\<close>.
  \<^item> Fusion: \<open>infrastructure/postgres/hybrid_retrieval.py\<close>.
  \<^item> AgentModels, Orchestrator, AgentProperties: \<open>orchestration/\<close> and \<open>api/models.py\<close>.
  \<^item> Application, ApplicationProperties: \<open>application/\<close>.
  \<^item> Utf8, Assertion, ErpTrust, ErpTrustProperties: \<open>infrastructure/erp_trust/\<close>.
  \<^item> Transport, TransportProperties: \<open>transport/http/\<close>.
  \<^item> Runtime: \<open>runtime/\<close>.
  \<^item> JsonText, PyTime, Chunking, Ingestion, IngestionProperties: \<open>knowledge/ingestion/\<close>.
  \<^item> Publishing, PublicationProperties: \<open>knowledge/indexing/\<close>.
  \<^item> Markdown, Sources, SourceProperties: \<open>knowledge/sources/\<close> (the catalog, the front matter and
      the bounded loader of approved Markdown files).
  \<^item> Embeddings, EmbeddingProperties: \<open>knowledge/embeddings/\<close>.
  \<^item> KnowledgeStore, StoreHistory, KnowledgeStoreProperties:
      \<open>infrastructure/postgres/knowledge_repository.py\<close>.
  \<^item> EmbeddingStore, EmbeddingStoreProperties: \<open>infrastructure/postgres/embedding_repository.py\<close> and
      the tables and triggers of \<open>sql/0003_knowledge_embeddings.sql\<close>.
  \<^item> KnowledgeReads: \<open>infrastructure/postgres/knowledge_retrieval.py, semantic_retrieval.py,
      hybrid_retrieval.py, routing.py, config.py\<close>.
  \<^item> ProductionRag, ContractProperties, RetrievalProperties: \<open>infrastructure/postgres/production_rag.py\<close>.
  \<^item> SelectionProperties: the ranking statements of \<open>semantic_retrieval.py\<close> over a chunk table.
  \<^item> ErpCursor, ErpCursorProperties, ErpRead, ErpReadProperties, ErpRouterProperties:
      \<open>infrastructure/postgres_erp/\<close>.

  What the lemmas show. A theory of definitions proves the facts of its component (invariants of its
  records, each operation on every branch), and the theories named Properties and StoreHistory
  hold what spans components: what a success of the transport, the application, the
  agent, the gateway and a knowledge search has established; that the knowledge store refines a
  history of publications; which documents, excerpts and pages come out complete; which signed
  cursors, assertions and catalogs are accepted; and which resources an end leaves open.

  Conventions. A raised exception is \<open>Inl\<close> of a checked value; an awaited operation of
  another component or of the outside is a function on a world of arbitrary type that returns an
  outcome (a value, a failure or a cancellation) and the next world, so that every order of effects
  and every failure is a branch. The Unicode case mappings, the JSON tokenizer, the time zone
  database, the model provider, the providers of data and the audit sinks are parameters. So are
  SHA-256, HMAC, Ed25519 and the rounding of a rational number to a double; a double that is only
  stored or compared is its bit pattern or its rational value. A statement sent to a database
  is a constructor with the parameters of its placeholders, answered by the driver.

  Bounds. The bounds are those of the code: the agent has two turns, a body and a file are read up to
  a limit, a page of requests has a ceiling. No definition takes fuel: the loops over data are
  structural or decrease a length, and the loop that reads a file is a partial function that is
  proved to return as long as a read delivers no more than was asked for.

  Not modelled. The evaluation of retrieval (metrics in floating point over test sets); the migration
  runner; the text search of PostgreSQL and the distances of
  pgvector; FastAPI's routing; the configuration of origins and TLS; the adapters that speak HTTP to
  the model, embedding and ERP services, and the audit stores, whose contracts with the modelled
  parts are their parameters; the start-up of a process (environment, secrets, logging).
\<close>

end
